(* ===== verification/Greenhouse_Prelude.thy ===== *)
theory Greenhouse_Prelude
  imports Main "HOL-Library.AList" "HOL-Library.Sublist"
begin

text \<open>
  Shared vocabulary of the development: the parts of Go and of its standard library the modelled
  code uses (the \<open>strings\<close> and \<open>slices\<close> functions, string maps, error values, points in time), the
  outcome values every component returns, and the generic lemmas on lists, options and maps the
  component theories share.

  Strings are byte strings (\<open>char list\<close>). A Go map from strings is an association list with distinct
  keys; the order of the list stands for the iteration order of one \<open>range\<close> over the map, so a
  theorem over all such lists holds for every iteration order. A nil map and an empty map are both
  the empty list. A point in time is a natural number, 0 being the zero time.
\<close>

named_theorems go_strings \<open>evaluation of the string functions\<close>
named_theorems smap_simps \<open>lookup laws of string maps\<close>
named_theorems cond_simps \<open>laws of status condition lists\<close>

type_synonym time = nat
type_synonym 'v smap = "(string \<times> 'v) list"

section \<open>Strings\<close>

text \<open>The package \<open>strings\<close>: prefixes, suffixes, substrings, splitting and trimming.\<close>

definition HasPrefix :: "string \<Rightarrow> string \<Rightarrow> bool" where
  "HasPrefix s p \<longleftrightarrow> prefix p s"

definition HasSuffix :: "string \<Rightarrow> string \<Rightarrow> bool" where
  "HasSuffix s p \<longleftrightarrow> suffix p s"

definition Contains :: "string \<Rightarrow> string \<Rightarrow> bool" where
  "Contains s sub \<longleftrightarrow> sublist sub s"

definition TrimPrefix :: "string \<Rightarrow> string \<Rightarrow> string" where
  "TrimPrefix s p = (if prefix p s then drop (length p) s else s)"

definition TrimSuffix :: "string \<Rightarrow> string \<Rightarrow> string" where
  "TrimSuffix s p = (if suffix p s then take (length s - length p) s else s)"

text \<open>\<open>strings.CutSuffix\<close>: the part before the suffix, and whether the suffix was there.\<close>

definition CutSuffix :: "string \<Rightarrow> string \<Rightarrow> string \<times> bool" where
  "CutSuffix s p = (if suffix p s then (take (length s - length p) s, True) else (s, False))"

text \<open>
  \<open>strings.TrimSpace\<close> on the ASCII white space characters (the multi-byte white space characters of
  Unicode are not trimmed by the model).
\<close>

definition is_space :: "char \<Rightarrow> bool" where
  "is_space c \<longleftrightarrow> c \<in> {CHR '' '', CHR 0x09, CHR 0x0A, CHR 0x0B, CHR 0x0C, CHR 0x0D}"

definition TrimSpace :: "string \<Rightarrow> string" where
  "TrimSpace s = rev (dropWhile is_space (rev (dropWhile is_space s)))"

text \<open>\<open>strings.Split\<close> at a separator of one character; splitting the empty string gives one part.\<close>

fun split_char :: "char \<Rightarrow> string \<Rightarrow> string list" where
  "split_char c [] = [[]]"
| "split_char c (x # xs) =
     (if x = c then [] # split_char c xs
      else case split_char c xs of [] \<Rightarrow> [[x]] | y # ys \<Rightarrow> (x # y) # ys)"

text \<open>\<open>strings.ReplaceAll\<close> of one character by another.\<close>

definition replace_char :: "char \<Rightarrow> char \<Rightarrow> string \<Rightarrow> string" where
  "replace_char a b = map (\<lambda>x. if x = a then b else x)"

text \<open>\<open>strings.ReplaceAll\<close> for a non-empty pattern.\<close>

function ReplaceAll :: "string \<Rightarrow> string \<Rightarrow> string \<Rightarrow> string" where
  "ReplaceAll s old new =
     (if old = [] \<or> s = [] then s
      else if prefix old s then new @ ReplaceAll (drop (length old) s) old new
      else hd s # ReplaceAll (tl s) old new)"
  by auto
termination by (relation "measure (\<lambda>(s, _). length s)") auto

declare ReplaceAll.simps [simp del]

text \<open>\<open>strings.Join\<close>.\<close>

fun Join :: "string list \<Rightarrow> string \<Rightarrow> string" where
  "Join [] sep = []"
| "Join [x] sep = x"
| "Join (x # y # xs) sep = x @ sep @ Join (y # xs) sep"

text \<open>\<open>strconv.Itoa\<close> on non-negative numbers.\<close>

fun Itoa :: "nat \<Rightarrow> string" where
  "Itoa n = (if n < 10 then [char_of (48 + n)] else Itoa (n div 10) @ [char_of (48 + n mod 10)])"

declare Itoa.simps [simp del]

text \<open>The verb \<open>%d\<close> of \<open>fmt.Sprintf\<close>.\<close>

definition format_d :: "int \<Rightarrow> string" where
  "format_d i = (if i < 0 then ''-'' @ Itoa (nat (- i)) else Itoa (nat i))"

declare HasPrefix_def [go_strings] HasSuffix_def [go_strings] Contains_def [go_strings]
  TrimPrefix_def [go_strings] TrimSuffix_def [go_strings] CutSuffix_def [go_strings]
  is_space_def [go_strings] TrimSpace_def [go_strings] replace_char_def [go_strings]

lemma suffix_code [go_strings]: "suffix p s \<longleftrightarrow> prefix (rev p) (rev s)"
  by (simp add: suffix_to_prefix)

lemma sublist_Cons_code [go_strings]: "sublist xs (y # ys) \<longleftrightarrow> prefix xs (y # ys) \<or> sublist xs ys"
  by (rule sublist_Cons_right)

lemma TrimPrefix_append [simp]: "TrimPrefix (p @ s) p = s"
  by (simp add: TrimPrefix_def)

lemma CutSuffix_True_iff: "CutSuffix s p = (b, True) \<longleftrightarrow> s = b @ p"
  by (auto simp: CutSuffix_def suffix_def)

lemma CutSuffix_False_iff: "CutSuffix s p = (b, False) \<longleftrightarrow> b = s \<and> \<not> suffix p s"
  by (auto simp: CutSuffix_def)

lemma split_char_not_Nil [simp]: "split_char c s \<noteq> []"
  by (cases s) (auto split: list.splits)

lemma split_char_append_sep: "split_char c (x @ c # s) = split_char c x @ split_char c s"
  by (induction x) (auto split: list.splits)

lemma split_char_no_sep: "c \<notin> set s \<Longrightarrow> split_char c s = [s]"
  by (induction s) auto

lemma dropWhile_is_space_idem [simp]:
  "dropWhile P (dropWhile P s) = dropWhile P s"
  by (induction s) auto

lemma TrimSpace_Nil [simp]: "TrimSpace [] = []"
  by (simp add: TrimSpace_def)

lemma TrimSpace_eq_Nil_iff: "TrimSpace s = [] \<longleftrightarrow> list_all is_space s"
proof -
  have "TrimSpace s = [] \<longleftrightarrow> (\<forall>x \<in> set (dropWhile is_space s). is_space x)"
    by (simp add: TrimSpace_def dropWhile_eq_Nil_conv)
  also have "\<dots> \<longleftrightarrow> list_all is_space s"
    by (induction s) (auto simp: list_all_iff)
  finally show ?thesis .
qed

lemma TrimSpace_id:
  assumes "s \<noteq> [] \<Longrightarrow> \<not> is_space (hd s) \<and> \<not> is_space (last s)"
  shows "TrimSpace s = s"
proof (cases "s = []")
  case False
  with assms have "dropWhile is_space s = s" and "dropWhile is_space (rev s) = rev s"
    by (auto simp: dropWhile_eq_self_iff hd_rev)
  then show ?thesis by (simp add: TrimSpace_def)
qed simp

lemma replace_char_notin: "a \<noteq> b \<Longrightarrow> a \<notin> set (replace_char a b s)"
  by (auto simp: replace_char_def)

section \<open>Slices\<close>

lemma set_map_filter: "y \<in> set (List.map_filter f xs) \<longleftrightarrow> (\<exists>x \<in> set xs. f x = Some y)"
  by (force simp: List.map_filter_def)

text \<open>\<open>slices.DeleteFunc\<close> keeps the elements the function rejects.\<close>

definition DeleteFunc :: "'a list \<Rightarrow> ('a \<Rightarrow> bool) \<Rightarrow> 'a list" where
  "DeleteFunc xs p = filter (\<lambda>x. \<not> p x) xs"

text \<open>\<open>slices.Compact\<close> replaces runs of equal elements by one copy.\<close>

fun Compact :: "'a list \<Rightarrow> 'a list" where
  "Compact [] = []"
| "Compact [x] = [x]"
| "Compact (x # y # xs) = (if x = y then Compact (y # xs) else x # Compact (y # xs))"

lemma set_DeleteFunc [simp]: "set (DeleteFunc xs p) = {x \<in> set xs. \<not> p x}"
  by (simp add: DeleteFunc_def)

lemma set_Compact [simp]: "set (Compact xs) = set xs"
  by (induction xs rule: Compact.induct) auto

lemma Compact_eq_Nil_iff [simp]: "Compact xs = [] \<longleftrightarrow> xs = []"
  using set_Compact [of xs] by (metis set_empty)

lemma sorted_Compact: "sorted xs \<Longrightarrow> sorted (Compact xs)"
  by (induction xs rule: Compact.induct) auto

lemma distinct_Compact: "sorted xs \<Longrightarrow> distinct (Compact xs)"
  for xs :: "'a::linorder list"
proof (induction xs rule: Compact.induct)
  case (3 x y xs)
  show ?case
  proof (cases "x = y")
    case False
    from "3.prems" have le: "\<forall>z \<in> set (y # xs). y \<le> z" and "x \<le> y" by auto
    with False have "x \<notin> set (y # xs)" by (auto dest: order_antisym)
    with 3 False show ?thesis by (simp del: set_simps)
  qed (use 3 in simp)
qed simp_all

lemma Compact_id: "distinct xs \<Longrightarrow> Compact xs = xs"
  by (induction xs rule: Compact.induct) auto

section \<open>String maps\<close>

text \<open>
  \<open>m[k]\<close> with the second result, \<open>m[k]\<close> with the zero value \<open>""\<close> for a missing key, assignment and
  \<open>delete\<close>.
\<close>

definition smap_get :: "'v smap \<Rightarrow> string \<Rightarrow> 'v option" where
  "smap_get m k = map_of m k"

definition smap_val :: "string smap \<Rightarrow> string \<Rightarrow> string" where
  "smap_val m k = (case map_of m k of None \<Rightarrow> [] | Some v \<Rightarrow> v)"

definition smap_set :: "string \<Rightarrow> 'v \<Rightarrow> 'v smap \<Rightarrow> 'v smap" where
  "smap_set k v m = AList.update k v m"

definition smap_del :: "string \<Rightarrow> 'v smap \<Rightarrow> 'v smap" where
  "smap_del k m = AList.delete k m"

definition smap_ok :: "'v smap \<Rightarrow> bool" where
  "smap_ok m \<longleftrightarrow> distinct (map fst m)"

text \<open>The contract of a Go map, which the proofs about labels and annotations rest on.\<close>

locale go_map =
  fixes get :: "'m \<Rightarrow> 'k \<Rightarrow> 'v option"
    and upd :: "'k \<Rightarrow> 'v \<Rightarrow> 'm \<Rightarrow> 'm"
    and del :: "'k \<Rightarrow> 'm \<Rightarrow> 'm"
    and invar :: "'m \<Rightarrow> bool"
  assumes get_upd: "get (upd k v m) k' = (if k' = k then Some v else get m k')"
    and get_del: "get (del k m) k' = (if k' = k then None else get m k')"
    and invar_upd: "invar m \<Longrightarrow> invar (upd k v m)"
    and invar_del: "invar m \<Longrightarrow> invar (del k m)"
begin

text \<open>Deleting a list of keys, as the cleanup loops do.\<close>

lemma get_fold_del:
  "get (fold del ks m) k = (if k \<in> set ks then None else get m k)"
  by (induction ks arbitrary: m) (auto simp: get_del)

lemma invar_fold_del: "invar m \<Longrightarrow> invar (fold del ks m)"
  by (induction ks arbitrary: m) (auto simp: invar_del)

text \<open>Writing a list of entries, as the propagation loops do: the last entry of a key wins.\<close>

lemma get_fold_upd:
  "get (fold (\<lambda>(k, v). upd k v) es m) k =
     (case map_of (rev es) k of None \<Rightarrow> get m k | Some v \<Rightarrow> Some v)"
  by (induction es arbitrary: m) (auto simp: get_upd map_add_def split: option.splits)

lemma invar_fold_upd: "invar m \<Longrightarrow> invar (fold (\<lambda>(k, v). upd k v) es m)"
  by (induction es arbitrary: m) (auto simp: invar_upd split: prod.splits)

end

interpretation sm: go_map smap_get smap_set smap_del smap_ok
  by unfold_locales
    (auto simp: smap_get_def smap_set_def smap_del_def smap_ok_def AList.update_conv'
      AList.delete_conv' AList.distinct_update AList.distinct_delete)

declare sm.get_upd [smap_simps] sm.get_del [smap_simps] sm.get_fold_del [smap_simps]

lemma smap_get_Nil [simp]: "smap_get [] k = None"
  by (simp add: smap_get_def)

lemma smap_get_Cons [smap_simps]: "smap_get ((k', v) # m) k = (if k = k' then Some v else smap_get m k)"
  by (simp add: smap_get_def)

lemma smap_val_get [smap_simps]: "smap_val m k = (case smap_get m k of None \<Rightarrow> [] | Some v \<Rightarrow> v)"
  by (simp add: smap_val_def smap_get_def)

lemma smap_get_in_set: "smap_get m k = Some v \<Longrightarrow> (k, v) \<in> set m"
  by (simp add: smap_get_def map_of_SomeD)

lemma smap_get_iff_in_set: "smap_ok m \<Longrightarrow> smap_get m k = Some v \<longleftrightarrow> (k, v) \<in> set m"
  by (simp add: smap_get_def smap_ok_def)

lemma smap_get_None_iff: "smap_get m k = None \<longleftrightarrow> k \<notin> fst ` set m"
  by (simp add: smap_get_def map_of_eq_None_iff)

section \<open>Errors\<close>

text \<open>
  Go error values. Status errors of the Kubernetes API carry a reason that \<open>apierrors.IsNotFound\<close>
  and its kin look for through wrapped errors; field errors come from the validation package; the
  rest are plain messages.
\<close>

datatype path_elem = PChild string | PIndex nat | PKey string

type_synonym field_path = "path_elem list"

datatype field_error_kind =
  FieldRequired | FieldInvalid | FieldDuplicate | FieldForbidden | FieldNotFound | FieldInternal
| FieldTypeInvalid

record field_error =
  fe_kind :: field_error_kind
  fe_path :: field_path
  fe_value :: string
  fe_detail :: string

datatype api_reason =
  ReasonNotFound | ReasonAlreadyExists | ReasonConflict | ReasonInvalid | ReasonForbidden
| ReasonBadRequest | ReasonUnauthorized | ReasonOther

datatype go_error =
  ApiError api_reason string "field_error list"
| FieldError field_error
| AggregateError "field_error list"
| PlainError string
| WrapError string go_error

fun IsNotFound :: "go_error \<Rightarrow> bool" where
  "IsNotFound (ApiError r _ _) = (r = ReasonNotFound)"
| "IsNotFound (WrapError _ e) = IsNotFound e"
| "IsNotFound _ = False"

text \<open>\<open>client.IgnoreNotFound\<close>.\<close>

definition IgnoreNotFound :: "go_error option \<Rightarrow> go_error option" where
  "IgnoreNotFound e = (case e of None \<Rightarrow> None | Some x \<Rightarrow> if IsNotFound x then None else Some x)"

text \<open>
  The message of an error, as \<open>Error()\<close> prints it. A field error prints its path, its kind, the
  offending value between quotes (control characters and quotes in the value are not escaped by the
  model) and its detail; an aggregate lists its errors.
\<close>

definition quoted :: "string \<Rightarrow> string" where
  "quoted s = CHR 0x22 # s @ [CHR 0x22]"

fun path_elem_string :: "path_elem \<Rightarrow> string" where
  "path_elem_string (PChild n) = CHR ''.'' # n"
| "path_elem_string (PIndex i) = ''['' @ Itoa i @ '']''"
| "path_elem_string (PKey k) = ''['' @ k @ '']''"

fun field_path_string :: "field_path \<Rightarrow> string" where
  "field_path_string [] = []"
| "field_path_string (PChild n # p) = n @ concat (map path_elem_string p)"
| "field_path_string (e # p) = concat (map path_elem_string (e # p))"

definition field_error_body :: "field_error \<Rightarrow> string" where
  "field_error_body e =
     (case fe_kind e of
        FieldRequired \<Rightarrow> ''Required value''
      | FieldForbidden \<Rightarrow> ''Forbidden''
      | FieldInternal \<Rightarrow> ''Internal error''
      | FieldInvalid \<Rightarrow> ''Invalid value: '' @ quoted (fe_value e)
      | FieldTypeInvalid \<Rightarrow> ''Invalid value: '' @ quoted (fe_value e)
      | FieldDuplicate \<Rightarrow> ''Duplicate value: '' @ quoted (fe_value e)
      | FieldNotFound \<Rightarrow> ''Not found: '' @ quoted (fe_value e))
     @ (if fe_detail e = [] then [] else '': '' @ fe_detail e)"

definition field_error_string :: "field_error \<Rightarrow> string" where
  "field_error_string e = field_path_string (fe_path e) @ '': '' @ field_error_body e"

definition aggregate_string :: "field_error list \<Rightarrow> string" where
  "aggregate_string es =
     (case es of [e] \<Rightarrow> field_error_string e
      | _ \<Rightarrow> ''['' @ Join (map field_error_string es) '', '' @ '']'')"

fun error_text :: "go_error \<Rightarrow> string" where
  "error_text (ApiError _ m _) = m"
| "error_text (FieldError e) = field_error_string e"
| "error_text (AggregateError es) = aggregate_string es"
| "error_text (PlainError m) = m"
| "error_text (WrapError m e) = m @ '': '' @ error_text e"

definition field_err :: "field_error_kind \<Rightarrow> field_path \<Rightarrow> string \<Rightarrow> string \<Rightarrow> field_error" where
  "field_err k p v d = \<lparr>fe_kind = k, fe_path = p, fe_value = v, fe_detail = d\<rparr>"

text \<open>
  \<open>apierrors.NewInvalid\<close>, \<open>NewForbidden\<close> and \<open>NewBadRequest\<close>, and \<open>field.ErrorList.ToAggregate\<close>, which
  drops errors whose message was seen before.
\<close>

fun dedup_errors :: "string list \<Rightarrow> field_error list \<Rightarrow> field_error list" where
  "dedup_errors seen [] = []"
| "dedup_errors seen (e # es) =
     (if field_error_string e \<in> set seen then dedup_errors seen es
      else e # dedup_errors (field_error_string e # seen) es)"

definition ToAggregate :: "field_error list \<Rightarrow> go_error option" where
  "ToAggregate es = (if es = [] then None else Some (AggregateError (dedup_errors [] es)))"

definition NewInvalid :: "string \<Rightarrow> string \<Rightarrow> field_error list \<Rightarrow> go_error" where
  "NewInvalid kind name errs =
     ApiError ReasonInvalid
       (kind @ '' '' @ quoted name @ '' is invalid''
        @ (if errs = [] then [] else '': '' @ aggregate_string (dedup_errors [] errs))) errs"

definition NewForbidden :: "string \<Rightarrow> string \<Rightarrow> string \<Rightarrow> go_error" where
  "NewForbidden res name msg =
     ApiError ReasonForbidden (res @ '' '' @ quoted name @ '' is forbidden: '' @ msg) []"

definition NewBadRequest :: "string \<Rightarrow> go_error" where
  "NewBadRequest msg = ApiError ReasonBadRequest msg []"

text \<open>
  \<open>utilerrors.NewAggregate\<close> and \<open>errors.Join\<close> on arbitrary errors, as far as the callers use them: whether
  there is an error, and its text.
\<close>

definition NewAggregate :: "go_error list \<Rightarrow> go_error option" where
  "NewAggregate es =
     (case es of
        [] \<Rightarrow> None
      | [e] \<Rightarrow> Some (PlainError (error_text e))
      | _ \<Rightarrow> (case rev (remdups (rev (map error_text es))) of
               [m] \<Rightarrow> Some (PlainError m)
             | ms \<Rightarrow> Some (PlainError (''['' @ Join ms '', '' @ '']''))))"

definition JoinErrors :: "go_error list \<Rightarrow> go_error" where
  "JoinErrors es = PlainError (Join (map error_text es) [CHR 0x0A])"

lemma NewAggregate_None_iff [simp]: "NewAggregate es = None \<longleftrightarrow> es = []"
  by (auto simp: NewAggregate_def split: list.splits)

lemma ToAggregate_None_iff [simp]: "ToAggregate es = None \<longleftrightarrow> es = []"
  by (simp add: ToAggregate_def)

section \<open>Names and results\<close>

text \<open>\<open>types.NamespacedName\<close> and \<open>ctrl.Result\<close>.\<close>

record namespaced_name =
  nn_namespace :: string
  nn_name :: string

record ctrl_result =
  Requeue :: bool
  RequeueAfter :: nat

definition EmptyResult :: ctrl_result where
  "EmptyResult = \<lparr>Requeue = False, RequeueAfter = 0\<rparr>"

section \<open>Lists\<close>

lemma find_None_conv: "find P xs = None \<longleftrightarrow> (\<forall>x \<in> set xs. \<not> P x)"
  by (auto simp: find_None_iff)

lemma find_Some_in_set: "find P xs = Some x \<Longrightarrow> x \<in> set xs \<and> P x"
  by (auto simp: find_Some_iff)

lemma find_append: "find P (xs @ ys) = (case find P xs of None \<Rightarrow> find P ys | Some x \<Rightarrow> Some x)"
  by (induction xs) auto

lemma length_filter_less_iff: "length (filter P xs) < length xs \<longleftrightarrow> (\<exists>x \<in> set xs. \<not> P x)"
  by (metis filter_id_conv length_filter_less less_irrefl)

end
