(* ===== verification/Conditions.thy ===== *)
theory Conditions
  imports Greenhouse_Prelude
begin

text \<open>
  Status conditions (\<open>api/meta/v1alpha1\<close>): the condition record, its constructors and tests, and
  the operations of \<open>StatusConditions\<close> on the list of conditions of a resource. The list is a map
  from condition types: at most one condition of a type, which \<open>SetConditions\<close> keeps; the interface
  \<open>condition_store\<close> states the contract every resource type's condition accessors share.
\<close>

section \<open>Conditions\<close>

datatype condition_status = ConditionTrue | ConditionFalse | ConditionUnknown

type_synonym condition_type = string
type_synonym condition_reason = string

record condition =
  c_type :: condition_type
  c_status :: condition_status
  c_reason :: condition_reason
  c_lastTransitionTime :: time
  c_message :: string

text \<open>The condition types and reasons shared by all resources (\<open>conditions_constants.go\<close>).\<close>

definition ReadyCondition :: condition_type where
  "ReadyCondition = ''Ready''"

definition DeleteCondition :: condition_type where
  "DeleteCondition = ''Delete''"

definition ClusterListEmpty :: condition_type where
  "ClusterListEmpty = ''ClusterListEmpty''"

definition OwnerLabelSetCondition :: condition_type where
  "OwnerLabelSetCondition = ''OwnerLabelSet''"

definition OwnerLabelMissingReason :: condition_reason where
  "OwnerLabelMissingReason = ''OwnerLabelMissing''"

definition OwnerLabelSetToNotExistingTeamReason :: condition_reason where
  "OwnerLabelSetToNotExistingTeamReason = ''OwnerLabelNotExistingTeam''"

definition OwnerLabelSetToNonSupportGroupTeamReason :: condition_reason where
  "OwnerLabelSetToNonSupportGroupTeamReason = ''OwnerLabelSetToNonSupportGroupTeam''"

definition SuspendedCondition :: condition_type where
  "SuspendedCondition = ''Suspended''"

definition ResourceSuspendedReason :: condition_reason where
  "ResourceSuspendedReason = ''ResourceSuspended''"

definition ResourceSuspensionFailedReason :: condition_reason where
  "ResourceSuspensionFailedReason = ''ResourceSuspensionFailed''"

lemmas condition_consts =
  ReadyCondition_def DeleteCondition_def ClusterListEmpty_def OwnerLabelSetCondition_def
  SuspendedCondition_def

text \<open>The constructors read the clock once: \<open>now\<close> is the value of \<open>metav1.Now()\<close>.\<close>

definition NewCondition ::
  "time \<Rightarrow> condition_type \<Rightarrow> condition_status \<Rightarrow> condition_reason \<Rightarrow> string \<Rightarrow> condition" where
  "NewCondition now t s r m =
     \<lparr>c_type = t, c_status = s, c_reason = r, c_lastTransitionTime = now, c_message = m\<rparr>"

definition TrueCondition :: "time \<Rightarrow> condition_type \<Rightarrow> condition_reason \<Rightarrow> string \<Rightarrow> condition" where
  "TrueCondition now t r m = NewCondition now t ConditionTrue r m"

definition FalseCondition :: "time \<Rightarrow> condition_type \<Rightarrow> condition_reason \<Rightarrow> string \<Rightarrow> condition" where
  "FalseCondition now t r m = NewCondition now t ConditionFalse r m"

definition UnknownCondition :: "time \<Rightarrow> condition_type \<Rightarrow> condition_reason \<Rightarrow> string \<Rightarrow> condition" where
  "UnknownCondition now t r m = NewCondition now t ConditionUnknown r m"

lemmas condition_constructors =
  TrueCondition_def FalseCondition_def UnknownCondition_def NewCondition_def

definition Equal :: "condition \<Rightarrow> condition \<Rightarrow> bool" where
  "Equal c other \<longleftrightarrow>
     c_type c = c_type other \<and> c_status c = c_status other \<and>
     c_reason c = c_reason other \<and> c_message c = c_message other"

definition IsTrue :: "condition \<Rightarrow> bool" where
  "IsTrue c \<longleftrightarrow> c_status c = ConditionTrue"

definition IsUnknown :: "condition \<Rightarrow> bool" where
  "IsUnknown c \<longleftrightarrow> c_status c = ConditionUnknown"

definition IsFalse :: "condition \<Rightarrow> bool" where
  "IsFalse c \<longleftrightarrow> c_status c = ConditionFalse"

lemma Equal_iff: "Equal c d \<longleftrightarrow> d = c\<lparr>c_lastTransitionTime := c_lastTransitionTime d\<rparr>"
  by (cases c; cases d) (auto simp: Equal_def)

section \<open>Status conditions\<close>

text \<open>
  One pass of the outer loop of \<open>SetConditions\<close>. \<open>set_existing\<close> is the inner loop: it walks to the
  first condition of the same type, overwrites it unless it is equal up to the transition time, and
  reports whether there was one.
\<close>

fun set_existing :: "condition \<Rightarrow> condition list \<Rightarrow> bool \<times> condition list" where
  "set_existing c [] = (False, [])"
| "set_existing c (cur # rest) =
     (if c_type cur = c_type c
      then (True,
            if \<not> Equal cur c
            then (if c_status cur = c_status c
                  then c\<lparr>c_lastTransitionTime := c_lastTransitionTime cur\<rparr> else c) # rest
            else cur # rest)
      else case set_existing c rest of (exists, rest') \<Rightarrow> (exists, cur # rest'))"

definition set_one :: "time \<Rightarrow> condition list \<Rightarrow> condition \<Rightarrow> condition list" where
  "set_one now sc c0 =
     (let c = (if c_lastTransitionTime c0 = 0 then c0\<lparr>c_lastTransitionTime := now\<rparr> else c0)
      in case set_existing c sc of (exists, sc') \<Rightarrow> if exists then sc' else sc' @ [c])"

definition SetConditions :: "time \<Rightarrow> condition list \<Rightarrow> condition list \<Rightarrow> condition list" where
  "SetConditions now cs sc = foldl (set_one now) sc cs"

definition GetConditionByType :: "condition list \<Rightarrow> condition_type \<Rightarrow> condition option" where
  "GetConditionByType sc t = (if sc = [] then None else find (\<lambda>c. c_type c = t) sc)"

definition IsReadyTrue :: "condition list \<Rightarrow> bool" where
  "IsReadyTrue sc =
     (case GetConditionByType sc ReadyCondition of None \<Rightarrow> False | Some c \<Rightarrow> IsTrue c)"

text \<open>
  \<open>RemoveCondition\<close> is implemented the same way by every resource type: it filters the list.
\<close>

definition RemoveCondition :: "condition_type \<Rightarrow> condition list \<Rightarrow> condition list" where
  "RemoveCondition t sc = DeleteFunc sc (\<lambda>c. c_type c = t)"

text \<open>The list invariant: only one condition of a given type may exist in the list.\<close>

definition conds_ok :: "condition list \<Rightarrow> bool" where
  "conds_ok sc \<longleftrightarrow> distinct (map c_type sc)"

section \<open>Lemmas\<close>

lemma GetConditionByType_find: "GetConditionByType sc t = find (\<lambda>c. c_type c = t) sc"
  by (simp add: GetConditionByType_def)

lemma GetConditionByType_Nil [simp]: "GetConditionByType [] t = None"
  by (simp add: GetConditionByType_def)

lemma GetConditionByType_Cons [cond_simps]:
  "GetConditionByType (c # sc) t = (if c_type c = t then Some c else GetConditionByType sc t)"
  by (simp add: GetConditionByType_find)

lemma GetConditionByType_append [cond_simps]:
  "GetConditionByType (xs @ ys) t =
     (case GetConditionByType xs t of None \<Rightarrow> GetConditionByType ys t | Some c \<Rightarrow> Some c)"
  by (simp add: GetConditionByType_find find_append split: option.split)

lemma GetConditionByType_SomeD:
  "GetConditionByType sc t = Some c \<Longrightarrow> c \<in> set sc \<and> c_type c = t"
  by (auto simp: GetConditionByType_find dest: find_Some_in_set)

lemma GetConditionByType_None_iff: "GetConditionByType sc t = None \<longleftrightarrow> t \<notin> c_type ` set sc"
  by (auto simp: GetConditionByType_find find_None_conv)

text \<open>The condition the inner loop leaves for the type, given the one that was there.\<close>

definition merged :: "condition \<Rightarrow> condition \<Rightarrow> condition" where
  "merged cur c =
     (if Equal cur c then cur
      else if c_status cur = c_status c
      then c\<lparr>c_lastTransitionTime := c_lastTransitionTime cur\<rparr> else c)"

lemma c_type_merged [simp]: "c_type cur = c_type c \<Longrightarrow> c_type (merged cur c) = c_type c"
  by (auto simp: merged_def)

lemma c_status_merged [simp]: "c_status (merged cur c) = c_status c"
  by (auto simp: merged_def Equal_def)

lemma c_reason_merged [simp]: "c_reason (merged cur c) = c_reason c"
  by (auto simp: merged_def Equal_def)

lemma c_message_merged [simp]: "c_message (merged cur c) = c_message c"
  by (auto simp: merged_def Equal_def)

lemma merged_time:
  "c_lastTransitionTime (merged cur c) =
     (if c_status cur = c_status c then c_lastTransitionTime cur else c_lastTransitionTime c)"
  by (auto simp: merged_def Equal_def)

lemma set_existing_exists: "fst (set_existing c sc) \<longleftrightarrow> c_type c \<in> c_type ` set sc"
  by (induction c sc rule: set_existing.induct) (auto split: prod.splits)

lemma set_existing_types: "map c_type (snd (set_existing c sc)) = map c_type sc"
  by (induction c sc rule: set_existing.induct) (auto split: prod.splits simp: prod_eq_iff)

lemma set_existing_get:
  "GetConditionByType (snd (set_existing c sc)) t =
     (if t = c_type c then map_option (\<lambda>cur. merged cur c) (GetConditionByType sc t)
      else GetConditionByType sc t)"
  by (induction c sc rule: set_existing.induct)
    (auto split: prod.splits simp: cond_simps merged_def prod_eq_iff)

text \<open>The entry written for a condition whose transition time may not be set.\<close>

definition stamped :: "time \<Rightarrow> condition \<Rightarrow> condition" where
  "stamped now c =
     (if c_lastTransitionTime c = 0 then c\<lparr>c_lastTransitionTime := now\<rparr> else c)"

lemma stamped_simps [simp]:
  "c_type (stamped now c) = c_type c" "c_status (stamped now c) = c_status c"
  "c_reason (stamped now c) = c_reason c" "c_message (stamped now c) = c_message c"
  by (auto simp: stamped_def)

lemma set_one_alt:
  "set_one now sc c =
     (if c_type c \<in> c_type ` set sc then snd (set_existing (stamped now c) sc)
      else snd (set_existing (stamped now c) sc) @ [stamped now c])"
  using set_existing_exists [of "stamped now c" sc]
  by (auto simp: set_one_def Let_def split: prod.splits simp flip: stamped_def)

lemma set_one_types:
  "map c_type (set_one now sc c) =
     (if c_type c \<in> c_type ` set sc then map c_type sc else map c_type sc @ [c_type c])"
  by (simp add: set_one_alt set_existing_types)

lemma set_one_get [cond_simps]:
  "GetConditionByType (set_one now sc c) t =
     (if t = c_type c
      then Some (case GetConditionByType sc t of
                   None \<Rightarrow> stamped now c | Some cur \<Rightarrow> merged cur (stamped now c))
      else GetConditionByType sc t)"
proof (cases "c_type c \<in> c_type ` set sc")
  case True
  then have "GetConditionByType sc (c_type c) \<noteq> None"
    by (simp add: GetConditionByType_None_iff)
  with True show ?thesis by (auto simp: set_one_alt set_existing_get)
next
  case False
  then have "GetConditionByType sc (c_type c) = None"
    by (simp add: GetConditionByType_None_iff)
  with False show ?thesis
    by (auto simp: set_one_alt cond_simps set_existing_get split: option.splits)
qed

lemma conds_ok_set_one: "conds_ok sc \<Longrightarrow> conds_ok (set_one now sc c)"
  by (auto simp: conds_ok_def set_one_types)

lemma conds_ok_SetConditions [cond_simps]: "conds_ok sc \<Longrightarrow> conds_ok (SetConditions now cs sc)"
  unfolding SetConditions_def by (induction cs arbitrary: sc) (auto simp: conds_ok_set_one)

lemma SetConditions_Nil [simp]: "SetConditions now [] sc = sc"
  by (simp add: SetConditions_def)

lemma SetConditions_Cons [cond_simps]:
  "SetConditions now (c # cs) sc = SetConditions now cs (set_one now sc c)"
  by (simp add: SetConditions_def)

lemma conds_ok_Remove: "conds_ok sc \<Longrightarrow> conds_ok (RemoveCondition t sc)"
  by (simp add: conds_ok_def RemoveCondition_def DeleteFunc_def distinct_map_filter)

lemma RemoveCondition_get [cond_simps]:
  "GetConditionByType (RemoveCondition t sc) t' =
     (if t' = t then None else GetConditionByType sc t')"
  by (induction sc) (auto simp: RemoveCondition_def DeleteFunc_def cond_simps)

section \<open>The contract of condition accessors\<close>

text \<open>
  What \<open>lifecycle.Reconcile\<close> and the controllers rely on when they set, remove and look up conditions:
  \<open>get\<close>, \<open>set\<close> and \<open>remove\<close> act like lookup, update and deletion on a map from condition types.
\<close>

locale condition_store =
  fixes get :: "'o \<Rightarrow> condition_type \<Rightarrow> condition option"
    and set1 :: "condition \<Rightarrow> 'o \<Rightarrow> 'o"
    and remove :: "condition_type \<Rightarrow> 'o \<Rightarrow> 'o"
    and invar :: "'o \<Rightarrow> bool"
  assumes get_set_other: "t \<noteq> c_type c \<Longrightarrow> get (set1 c x) t = get x t"
    and get_set_same: "\<exists>d. get (set1 c x) (c_type c) = Some d \<and> Equal d c"
    and get_remove: "get (remove t x) t' = (if t' = t then None else get x t')"
    and invar_set: "invar x \<Longrightarrow> invar (set1 c x)"
    and invar_remove: "invar x \<Longrightarrow> invar (remove t x)"
begin

lemma get_set_status:
  "\<exists>d. get (set1 c x) (c_type c) = Some d \<and> c_status d = c_status c \<and> c_reason d = c_reason c"
  using get_set_same [of c x] by (auto simp: Equal_def)

text \<open>A fold of \<open>set1\<close> over conditions of other types leaves a condition alone.\<close>

lemma get_fold_set_other:
  "t \<notin> c_type ` set cs \<Longrightarrow> get (fold set1 cs x) t = get x t"
  by (induction cs arbitrary: x) (auto simp: get_set_other)

lemma invar_fold_set: "invar x \<Longrightarrow> invar (fold set1 cs x)"
  by (induction cs arbitrary: x) (auto simp: invar_set)

end

interpretation sc: condition_store GetConditionByType "\<lambda>c sc. SetConditions now [c] sc"
    RemoveCondition conds_ok for now
proof (unfold_locales, goal_cases)
  case (1 t c x)
  then show ?case by (simp add: cond_simps)
next
  case (2 c x)
  show ?case by (auto simp: cond_simps Equal_def split: option.splits dest: GetConditionByType_SomeD)
qed (auto simp: cond_simps conds_ok_set_one conds_ok_Remove)

text \<open>The status that is shown for a condition type.\<close>

definition shown_status :: "condition list \<Rightarrow> condition_type \<Rightarrow> condition_status option" where
  "shown_status sc t = map_option c_status (GetConditionByType sc t)"

lemma IsReadyTrue_shown: "IsReadyTrue sc \<longleftrightarrow> shown_status sc ReadyCondition = Some ConditionTrue"
  by (simp add: IsReadyTrue_def shown_status_def IsTrue_def split: option.splits)

lemma shown_status_None_iff: "GetConditionByType sc t = None \<longleftrightarrow> shown_status sc t = None"
  by (simp add: shown_status_def)

lemma shown_status_set:
  "shown_status (SetConditions now [c] sc) t = (if t = c_type c then Some (c_status c) else shown_status sc t)"
  using sc.get_set_status [of now c sc] by (auto simp: shown_status_def sc.get_set_other)

section \<open>Correctness of the condition list\<close>

lemma set_existing_equal:
  "GetConditionByType sc (c_type c) = Some cur \<Longrightarrow> Equal cur c \<Longrightarrow> snd (set_existing c sc) = sc"
  by (induction c sc rule: set_existing.induct) (auto simp: cond_simps split: prod.splits if_splits)

lemma set_one_equal:
  assumes "GetConditionByType sc (c_type c) = Some cur" "Equal cur c"
  shows "set_one now sc c = sc"
proof -
  have "c_type c \<in> c_type ` set sc"
    using assms(1) GetConditionByType_None_iff [of sc "c_type c"] by simp
  moreover have "Equal cur (stamped now c)" using assms(2) by (simp add: Equal_def)
  ultimately show ?thesis
    using set_existing_equal [of sc "stamped now c" cur] assms(1) by (simp add: set_one_alt)
qed

lemma SetConditions_get_other [cond_simps]:
  "t \<notin> c_type ` set cs \<Longrightarrow> GetConditionByType (SetConditions now cs sc) t = GetConditionByType sc t"
  by (induction cs arbitrary: sc) (auto simp: SetConditions_Cons set_one_get)

lemma SetConditions_get_distinct:
  assumes "distinct (map c_type cs)" and "c \<in> set cs"
  shows "\<exists>d. GetConditionByType (SetConditions now cs sc) (c_type c) = Some d \<and> Equal d c"
  using assms
proof (induction cs arbitrary: sc)
  case (Cons a cs)
  show ?case
  proof (cases "c = a")
    case True
    with Cons.prems have "c_type c \<notin> c_type ` set cs" by simp
    then show ?thesis
      using sc.get_set_same [of now c sc] True by (simp add: SetConditions_Cons SetConditions_get_other)
  next
    case False
    with Cons show ?thesis by (simp add: SetConditions_Cons)
  qed
qed simp

lemma SetConditions_equal:
  assumes "\<forall>c \<in> set cs. \<exists>d. GetConditionByType sc (c_type c) = Some d \<and> Equal d c"
  shows "SetConditions now cs sc = sc"
  using assms by (induction cs) (auto simp: SetConditions_Cons set_one_equal)

text \<open>
  \<open>SetConditions\<close> keeps the list a map from condition types: at most one condition of a type
  before the call gives at most one after it; every condition passed (of pairwise different types) is
  stored up to its transition time; conditions of other types are not touched.
\<close>

theorem SetConditions_stores:
  assumes "conds_ok sc" and "distinct (map c_type cs)"
  shows "conds_ok (SetConditions now cs sc)
    \<and> (\<forall>c \<in> set cs. \<exists>d. GetConditionByType (SetConditions now cs sc) (c_type c) = Some d \<and> Equal d c)
    \<and> (\<forall>t. t \<notin> c_type ` set cs \<longrightarrow>
          GetConditionByType (SetConditions now cs sc) t = GetConditionByType sc t)"
  using assms by (auto simp: conds_ok_SetConditions SetConditions_get_distinct SetConditions_get_other)

text \<open>A status list with one condition, for the witnesses.\<close>

definition sample_conditions :: "condition list" where
  "sample_conditions = [TrueCondition 5 ReadyCondition ''Created'' ''ok'']"

theorem SetConditions_stores_witness:
  "\<exists>d. GetConditionByType (SetConditions 9 [FalseCondition 0 ReadyCondition ''R'' ''m''] sample_conditions)
         ReadyCondition = Some d \<and> Equal d (FalseCondition 0 ReadyCondition ''R'' ''m'')"
proof -
  have "conds_ok sample_conditions" by (simp add: conds_ok_def sample_conditions_def)
  from SetConditions_stores [OF this, of "[FalseCondition 0 ReadyCondition ''R'' ''m'']" 9] show ?thesis
    by (simp add: condition_constructors)
qed

text \<open>
  The transition time of a condition changes exactly when its status does: setting a condition
  whose status is the stored one keeps the stored time whatever its reason, message and own time are;
  otherwise the new time is the condition's own, or the current time when it has none.
\<close>

theorem SetConditions_transition_time:
  assumes "GetConditionByType sc (c_type c) = Some cur"
  shows "map_option c_lastTransitionTime (GetConditionByType (SetConditions now [c] sc) (c_type c)) =
     Some (if c_status c = c_status cur then c_lastTransitionTime cur
           else if c_lastTransitionTime c = 0 then now else c_lastTransitionTime c)"
  using assms by (auto simp: SetConditions_Cons set_one_get merged_time stamped_def)

theorem SetConditions_transition_time_witness:
  "map_option c_lastTransitionTime (GetConditionByType
      (SetConditions 9 [TrueCondition 8 ReadyCondition ''Other'' ''changed''] sample_conditions)
      ReadyCondition) = Some 5"
proof -
  have "GetConditionByType sample_conditions
      (c_type (TrueCondition 8 ReadyCondition ''Other'' ''changed'')) =
      Some (TrueCondition 5 ReadyCondition ''Created'' ''ok'')"
    by (simp add: sample_conditions_def condition_constructors cond_simps)
  from SetConditions_transition_time [OF this, of 9] show ?thesis
    by (simp add: condition_constructors)
qed

text \<open>
  \<open>SetConditions\<close> is idempotent, also when the second call happens at a later time: setting the
  same conditions again gives the same list, so a reconciliation that computes the same conditions
  does not produce a status change.
\<close>

theorem SetConditions_idempotent:
  assumes "distinct (map c_type cs)"
  shows "SetConditions later cs (SetConditions now cs sc) = SetConditions now cs sc"
  using assms by (intro SetConditions_equal ballI SetConditions_get_distinct)

theorem SetConditions_idempotent_witness:
  "SetConditions 10 [FalseCondition 0 ReadyCondition ''R'' ''m'']
     (SetConditions 9 [FalseCondition 0 ReadyCondition ''R'' ''m''] sample_conditions)
   = SetConditions 9 [FalseCondition 0 ReadyCondition ''R'' ''m''] sample_conditions"
  by (rule SetConditions_idempotent) simp

end
