(* ===== verification/Kube_Objects.thy ===== *)
theory Kube_Objects
  imports Conditions
begin

text \<open>
  The object metadata every resource carries, the Kubernetes client as a parameter of the model, and
  the helpers of \<open>internal/clientutil\<close> that create, patch and delete objects through it.

  The API server is not part of the repository. A client for one kind of object is a record of
  functions over an abstract server state \<open>'s\<close>: every call may fail with any error and may change the
  state in any way its field says, so a theorem over all clients holds whatever the server does.
\<close>

section \<open>Object metadata\<close>

record owner_reference =
  or_kind :: string
  or_name :: string

record object_meta =
  o_name :: string
  o_namespace :: string
  o_labels :: "string smap"
  o_annotations :: "string smap"
  o_finalizers :: "string list"
  o_deletionTimestamp :: "time option"
  o_ownerReferences :: "owner_reference list"

definition ObjectKeyFromObject :: "'a object_meta_scheme \<Rightarrow> namespaced_name" where
  "ObjectKeyFromObject obj = \<lparr>nn_namespace = o_namespace obj, nn_name = o_name obj\<rparr>"

text \<open>\<open>controllerutil.ContainsFinalizer\<close>, \<open>AddFinalizer\<close> and \<open>RemoveFinalizer\<close>.\<close>

definition ContainsFinalizer :: "'a object_meta_scheme \<Rightarrow> string \<Rightarrow> bool" where
  "ContainsFinalizer obj f \<longleftrightarrow> f \<in> set (o_finalizers obj)"

definition AddFinalizer :: "'a object_meta_scheme \<Rightarrow> string \<Rightarrow> bool \<times> 'a object_meta_scheme" where
  "AddFinalizer obj f =
     (if f \<in> set (o_finalizers obj) then (False, obj)
      else (True, obj\<lparr>o_finalizers := o_finalizers obj @ [f]\<rparr>))"

definition RemoveFinalizer :: "'a object_meta_scheme \<Rightarrow> string \<Rightarrow> bool \<times> 'a object_meta_scheme" where
  "RemoveFinalizer obj f =
     (if f \<in> set (o_finalizers obj)
      then (True, obj\<lparr>o_finalizers := filter (\<lambda>x. x \<noteq> f) (o_finalizers obj)\<rparr>)
      else (False, obj))"

text \<open>\<open>clientutil.GetOwnerReference\<close>: the first owner reference of the kind.\<close>

definition GetOwnerReference :: "'a object_meta_scheme \<Rightarrow> string \<Rightarrow> owner_reference option" where
  "GetOwnerReference obj kind = find (\<lambda>ref. or_kind ref = kind) (o_ownerReferences obj)"

section \<open>Clients\<close>

text \<open>
  A client for one kind of object. \<open>cl_patch new old\<close> sends the difference from \<open>old\<close> to \<open>new\<close>.
\<close>

record ('o, 's) client =
  cl_get :: "namespaced_name \<Rightarrow> 's \<Rightarrow> go_error + 'o"
  cl_create :: "'o \<Rightarrow> 's \<Rightarrow> go_error option \<times> 's"
  cl_update :: "'o \<Rightarrow> 's \<Rightarrow> go_error option \<times> 's"
  cl_patch :: "'o \<Rightarrow> 'o \<Rightarrow> 's \<Rightarrow> go_error option \<times> 's"
  cl_patch_status :: "'o \<Rightarrow> 'o \<Rightarrow> 's \<Rightarrow> go_error option \<times> 's"
  cl_delete :: "'o \<Rightarrow> 's \<Rightarrow> go_error option \<times> 's"

datatype operation_result = OperationResultNone | OperationResultCreated | OperationResultUpdated

datatype deletion_result = DeletionResultDeleted | DeletionResultNotFound | DeletionResultNone

fun IsAlreadyExists :: "go_error \<Rightarrow> bool" where
  "IsAlreadyExists (ApiError r _ _) = (r = ReasonAlreadyExists)"
| "IsAlreadyExists (WrapError _ e) = IsAlreadyExists e"
| "IsAlreadyExists _ = False"

fun IsUnauthorized :: "go_error \<Rightarrow> bool" where
  "IsUnauthorized (ApiError r _ _) = (r = ReasonUnauthorized)"
| "IsUnauthorized (WrapError _ e) = IsUnauthorized e"
| "IsUnauthorized _ = False"

fun IsForbidden :: "go_error \<Rightarrow> bool" where
  "IsForbidden (ApiError r _ _) = (r = ReasonForbidden)"
| "IsForbidden (WrapError _ e) = IsForbidden e"
| "IsForbidden _ = False"

definition IgnoreAlreadyExists :: "go_error \<Rightarrow> go_error option" where
  "IgnoreAlreadyExists e = (if IsAlreadyExists e then None else Some e)"

text \<open>
  \<open>clientutil.patch\<close>: \<open>mutate\<close> is the closure that changes the object in place, here a function from
  the object to the changed object or an error.
\<close>

definition patch_object ::
  "('o, 's) client \<Rightarrow> 'o \<Rightarrow> ('o \<Rightarrow> go_error + 'o) \<Rightarrow> bool \<Rightarrow> 's
     \<Rightarrow> (operation_result \<times> go_error option) \<times> 's" where
  "patch_object c obj mutate status s =
     (case mutate obj of
        Inl e \<Rightarrow> ((OperationResultNone, Some (WrapError ''mutating object failed'' e)), s)
      | Inr obj' \<Rightarrow>
          if obj = obj' then ((OperationResultNone, None), s)
          else case (if status then cl_patch_status c obj' obj s else cl_patch c obj' obj s) of
                 (Some e, s') \<Rightarrow> ((OperationResultNone, Some e), s')
               | (None, s') \<Rightarrow> ((OperationResultUpdated, None), s'))"

definition Patch ::
  "('o, 's) client \<Rightarrow> 'o \<Rightarrow> ('o \<Rightarrow> go_error + 'o) \<Rightarrow> 's
     \<Rightarrow> (operation_result \<times> go_error option) \<times> 's" where
  "Patch c obj mutate s = patch_object c obj mutate False s"

definition PatchStatus ::
  "('o, 's) client \<Rightarrow> 'o \<Rightarrow> ('o \<Rightarrow> go_error + 'o) \<Rightarrow> 's
     \<Rightarrow> (operation_result \<times> go_error option) \<times> 's" where
  "PatchStatus c obj mutate s = patch_object c obj mutate True s"

definition CreateOrPatch ::
  "('a object_meta_scheme, 's) client \<Rightarrow> 'a object_meta_scheme
     \<Rightarrow> ('a object_meta_scheme \<Rightarrow> go_error + 'a object_meta_scheme) \<Rightarrow> 's
     \<Rightarrow> (operation_result \<times> go_error option) \<times> 's" where
  "CreateOrPatch c obj mutate s =
     (case cl_get c (ObjectKeyFromObject obj) s of
        Inl e \<Rightarrow>
          if \<not> IsNotFound e then ((OperationResultNone, Some e), s)
          else (case mutate obj of
                  Inl e' \<Rightarrow> ((OperationResultNone, Some (WrapError ''mutating object failed'' e')), s)
                | Inr obj' \<Rightarrow>
                    (case cl_create c obj' s of
                       (Some e', s') \<Rightarrow> ((OperationResultNone, IgnoreAlreadyExists e'), s')
                     | (None, s') \<Rightarrow> ((OperationResultCreated, None), s')))
      | Inr cur \<Rightarrow>
          if o_deletionTimestamp cur \<noteq> None
          then ((OperationResultNone,
                 Some (PlainError (''the resource '' @ o_namespace cur @ ''/'' @ o_name cur
                         @ '' already exists but is marked for deletion''))), s)
          else patch_object c cur mutate False s)"

definition DeleteObject ::
  "('a object_meta_scheme, 's) client \<Rightarrow> 'a object_meta_scheme \<Rightarrow> 's
     \<Rightarrow> (deletion_result \<times> go_error option) \<times> 's" where
  "DeleteObject c obj s =
     (case cl_get c (ObjectKeyFromObject obj) s of
        Inl e \<Rightarrow> if IsNotFound e then ((DeletionResultNotFound, None), s)
                 else ((DeletionResultNone, Some e), s)
      | Inr cur \<Rightarrow>
          (case cl_delete c cur s of
             (Some e, s') \<Rightarrow> ((DeletionResultNone, Some e), s')
           | (None, s') \<Rightarrow> ((DeletionResultDeleted, None), s')))"

section \<open>Lemmas\<close>

lemma AddFinalizer_contains: "ContainsFinalizer (snd (AddFinalizer obj f)) f"
  by (simp add: AddFinalizer_def ContainsFinalizer_def)

lemma RemoveFinalizer_contains: "\<not> ContainsFinalizer (snd (RemoveFinalizer obj f)) f"
  by (simp add: RemoveFinalizer_def ContainsFinalizer_def)

lemma AddFinalizer_changed: "fst (AddFinalizer obj f) \<longleftrightarrow> \<not> ContainsFinalizer obj f"
  by (simp add: AddFinalizer_def ContainsFinalizer_def)

lemma RemoveFinalizer_changed: "fst (RemoveFinalizer obj f) \<longleftrightarrow> ContainsFinalizer obj f"
  by (simp add: RemoveFinalizer_def ContainsFinalizer_def)

lemma patch_object_noop: "mutate obj = Inr obj \<Longrightarrow> patch_object c obj mutate b s = ((OperationResultNone, None), s)"
  by (simp add: patch_object_def)

text \<open>
  \<open>CreateOrPatch\<close> writes at most once and only what \<open>mutate\<close> produced: if the object does not
  exist the mutated template is created, if it exists and is not being deleted the difference from
  the stored to the mutated object is patched; in every other outcome the server state is the one
  before the call unless the one rejected write changed it, and the error of that write is
  returned, except that losing a race for the creation is not an error.
\<close>

theorem CreateOrPatch_writes:
  fixes c :: "('a object_meta_scheme, 's) client"
  assumes run: "CreateOrPatch c obj mutate s = ((r, err), s')"
  shows "(r = OperationResultCreated \<longrightarrow> err = None \<and>
            (\<exists>e obj'. cl_get c (ObjectKeyFromObject obj) s = Inl e \<and> IsNotFound e \<and>
               mutate obj = Inr obj' \<and> cl_create c obj' s = (None, s')))
       \<and> (r = OperationResultUpdated \<longrightarrow> err = None \<and>
            (\<exists>cur obj'. cl_get c (ObjectKeyFromObject obj) s = Inr cur \<and>
               o_deletionTimestamp cur = None \<and> mutate cur = Inr obj' \<and> obj' \<noteq> cur \<and>
               cl_patch c obj' cur s = (None, s')))
       \<and> (r = OperationResultNone \<longrightarrow>
            s' = s
            \<or> (\<exists>obj' e. mutate obj = Inr obj' \<and> cl_create c obj' s = (Some e, s') \<and>
                 err = (if IsAlreadyExists e then None else Some e))
            \<or> (\<exists>cur obj' e. cl_get c (ObjectKeyFromObject obj) s = Inr cur \<and>
                 o_deletionTimestamp cur = None \<and> cl_patch c obj' cur s = (Some e, s') \<and> err = Some e))"
  using run
  by (auto simp: CreateOrPatch_def patch_object_def IgnoreAlreadyExists_def
      split: sum.splits if_splits prod.splits option.splits)

text \<open>A concrete client: one object slot as server state.\<close>

definition slot_client :: "('o, 'o option) client" where
  "slot_client =
     \<lparr>cl_get = (\<lambda>_ s. case s of None \<Rightarrow> Inl (ApiError ReasonNotFound ''not found'' []) | Some x \<Rightarrow> Inr x),
      cl_create = (\<lambda>x s. case s of None \<Rightarrow> (None, Some x)
                      | Some _ \<Rightarrow> (Some (ApiError ReasonAlreadyExists ''exists'' []), s)),
      cl_update = (\<lambda>x s. (None, Some x)),
      cl_patch = (\<lambda>x _ s. (None, Some x)),
      cl_patch_status = (\<lambda>x _ s. (None, Some x)),
      cl_delete = (\<lambda>_ s. (None, None))\<rparr>"

definition sample_meta :: "string \<Rightarrow> object_meta" where
  "sample_meta n = \<lparr>o_name = n, o_namespace = ''org'', o_labels = [], o_annotations = [],
     o_finalizers = [], o_deletionTimestamp = None, o_ownerReferences = []\<rparr>"

theorem CreateOrPatch_writes_witness:
  "\<exists>e obj'. cl_get (slot_client :: (object_meta, object_meta option) client)
       (ObjectKeyFromObject (sample_meta ''a'')) None = Inl e \<and> IsNotFound e \<and>
     Inr ((sample_meta ''a'')\<lparr>o_labels := [(''k'', ''v'')]\<rparr>) = (Inr obj' :: go_error + object_meta) \<and>
     cl_create slot_client obj' None
       = (None, Some ((sample_meta ''a'')\<lparr>o_labels := [(''k'', ''v'')]\<rparr>))"
proof -
  have "CreateOrPatch slot_client (sample_meta ''a'')
      (\<lambda>x. Inr (x\<lparr>o_labels := [(''k'', ''v'')]\<rparr>)) None
    = ((OperationResultCreated, None), Some ((sample_meta ''a'')\<lparr>o_labels := [(''k'', ''v'')]\<rparr>))"
    by (simp add: CreateOrPatch_def slot_client_def)
  from CreateOrPatch_writes [OF this, THEN conjunct1, THEN mp, OF refl] show ?thesis by simp
qed

end
