(* ===== verification/Lifecycle.thy ===== *)
theory Lifecycle
  imports Kube_Objects
begin

text \<open>
  The generic reconciliation loop (\<open>pkg/lifecycle/reconcile.go\<close>, \<open>context.go\<close>). Every controller of
  the operator runs its resources through \<open>Reconcile\<close>, which handles the cleanup finalizer, suspension,
  the two-phase deletion and the status patch, and calls the controller back for the rest.

  A runtime object is the metadata plus the status conditions; resource types extend the record. A
  controller is a record of the three callbacks, which may change the object and the server state.
\<close>

section \<open>Definitions\<close>

datatype reconcile_result = Success | Failed | Pending

definition CreatedReason :: condition_reason where "CreatedReason = ''Created''"
definition PendingCreationReason :: condition_reason where "PendingCreationReason = ''PendingCreation''"
definition FailingCreationReason :: condition_reason where "FailingCreationReason = ''FailingCreation''"
definition PendingDeletionReason :: condition_reason where "PendingDeletionReason = ''PendingDeletion''"
definition FailingDeletionReason :: condition_reason where "FailingDeletionReason = ''FailingDeletion''"
definition DeletedReason :: condition_reason where "DeletedReason = ''Deleted''"
definition CommonCleanupFinalizer :: string where "CommonCleanupFinalizer = ''greenhouse.sap/cleanup''"
definition SuspendAnnotation :: string where "SuspendAnnotation = ''greenhouse.sap/suspend''"
definition ReconcileAnnotation :: string where "ReconcileAnnotation = ''greenhouse.sap/reconcile''"

lemmas lifecycle_reasons =
  CreatedReason_def PendingCreationReason_def FailingCreationReason_def PendingDeletionReason_def
  FailingDeletionReason_def DeletedReason_def

record runtime_object = object_meta +
  o_conditions :: "condition list"

definition GetConditions :: "'a runtime_object_scheme \<Rightarrow> condition list" where
  "GetConditions obj = o_conditions obj"

definition SetCondition :: "time \<Rightarrow> condition \<Rightarrow> 'a runtime_object_scheme \<Rightarrow> 'a runtime_object_scheme" where
  "SetCondition now c obj = obj\<lparr>o_conditions := SetConditions now [c] (o_conditions obj)\<rparr>"

definition RemoveObjectCondition ::
  "condition_type \<Rightarrow> 'a runtime_object_scheme \<Rightarrow> 'a runtime_object_scheme" where
  "RemoveObjectCondition t obj = obj\<lparr>o_conditions := RemoveCondition t (o_conditions obj)\<rparr>"

text \<open>
  The callbacks of a controller, and what the loop needs to know of the resource type: whether it
  supports suspension, and how to record the reconcile annotation (\<open>LastReconciledAtSetter\<close>), if at all.
\<close>

record ('o, 's) reconciler =
  EnsureCreated :: "'o \<Rightarrow> 's \<Rightarrow> (ctrl_result \<times> reconcile_result \<times> go_error option) \<times> 'o \<times> 's"
  EnsureDeleted :: "'o \<Rightarrow> 's \<Rightarrow> (ctrl_result \<times> reconcile_result \<times> go_error option) \<times> 'o \<times> 's"
  EnsureSuspended :: "'o \<Rightarrow> 's \<Rightarrow> (ctrl_result \<times> go_error option) \<times> 'o \<times> 's"
  CanBeSuspended :: bool
  UpdateLastReconciledAtStatus :: "(string \<Rightarrow> 'o \<Rightarrow> 'o) option"

definition isResourceDeleted :: "'a runtime_object_scheme \<Rightarrow> bool" where
  "isResourceDeleted obj =
     (case GetConditionByType (GetConditions obj) DeleteCondition of
        None \<Rightarrow> False
      | Some c \<Rightarrow> IsTrue c \<and> c_reason c = DeletedReason)"

definition isResourceSuspended :: "'a runtime_object_scheme \<Rightarrow> bool" where
  "isResourceSuspended obj \<longleftrightarrow> smap_get (o_annotations obj) SuspendAnnotation \<noteq> None"

definition ReconcileAnnotationValue :: "'a object_meta_scheme \<Rightarrow> string \<times> bool" where
  "ReconcileAnnotationValue obj =
     (case smap_get (o_annotations obj) ReconcileAnnotation of
        None \<Rightarrow> ([], False) | Some v \<Rightarrow> (v, True))"

definition setupDeleteState ::
  "time \<Rightarrow> reconcile_result \<Rightarrow> go_error option \<Rightarrow> 'a runtime_object_scheme \<Rightarrow> 'a runtime_object_scheme" where
  "setupDeleteState now res err obj =
     SetCondition now
       (case res of
          Success \<Rightarrow> TrueCondition now DeleteCondition DeletedReason ''resource is successfully deleted''
        | Failed \<Rightarrow> FalseCondition now DeleteCondition FailingDeletionReason
            (''resource deletion failed: '' @ (case err of None \<Rightarrow> [] | Some e \<Rightarrow> error_text e))
        | Pending \<Rightarrow> FalseCondition now DeleteCondition PendingDeletionReason
            ''resource deletion is pending'') obj"

definition setupCreateState ::
  "time \<Rightarrow> reconcile_result \<Rightarrow> go_error option \<Rightarrow> 'a runtime_object_scheme \<Rightarrow> 'a runtime_object_scheme" where
  "setupCreateState now res err obj =
     SetCondition now
       (case res of
          Success \<Rightarrow> TrueCondition now ReadyCondition CreatedReason ''resource is successfully created''
        | Failed \<Rightarrow> FalseCondition now ReadyCondition FailingCreationReason
            (''resource creation failed'' @ (case err of None \<Rightarrow> [] | Some e \<Rightarrow> error_text e))
        | Pending \<Rightarrow> UnknownCondition now ReadyCondition PendingCreationReason
            ''resource creation is pending'') obj"

text \<open>
  The private helpers \<open>ensureCreated\<close> and \<open>ensureDeleted\<close>; \<open>statusFunc\<close> is the optional conditioner of
  the caller, which may read the server.
\<close>

definition ensureCreated ::
  "time \<Rightarrow> ('a runtime_object_scheme, 's) reconciler
     \<Rightarrow> ('a runtime_object_scheme \<Rightarrow> 's \<Rightarrow> 'a runtime_object_scheme) option
     \<Rightarrow> 'a runtime_object_scheme \<Rightarrow> 's
     \<Rightarrow> (ctrl_result \<times> go_error option) \<times> 'a runtime_object_scheme \<times> 's" where
  "ensureCreated now r statusFunc obj s =
     (let obj0 = (case GetConditionByType (GetConditions obj) SuspendedCondition of
                    None \<Rightarrow> obj | Some _ \<Rightarrow> RemoveObjectCondition SuspendedCondition obj)
      in case EnsureCreated r obj0 s of
           ((result, res, err), obj1, s1) \<Rightarrow>
             ((result, err),
              (case statusFunc of
                 Some f \<Rightarrow> f obj1 s1
               | None \<Rightarrow> setupCreateState now res err obj1), s1))"

definition ensureDeleted ::
  "time \<Rightarrow> ('a runtime_object_scheme, 's) reconciler \<Rightarrow> 'a runtime_object_scheme \<Rightarrow> 's
     \<Rightarrow> (ctrl_result \<times> go_error option) \<times> 'a runtime_object_scheme \<times> 's" where
  "ensureDeleted now r obj s =
     (case EnsureDeleted r (setupDeleteState now Pending None obj) s of
        ((result, res, err), obj1, s1) \<Rightarrow>
          ((result, err), setupDeleteState now res err obj1, s1))"

text \<open>
  \<open>patchStatus\<close> patches against the copy of the object stored in the context when it was read, which
  the model passes as \<open>orig\<close>; the reconcile error is returned unless the patch itself fails.
\<close>

definition patchStatus ::
  "('o, 's) client \<Rightarrow> 'o \<Rightarrow> 'o \<Rightarrow> go_error option \<Rightarrow> 's \<Rightarrow> go_error option \<times> 's" where
  "patchStatus c orig obj reconcileError s =
     (case cl_patch_status c obj orig s of
        (Some e, s') \<Rightarrow> (Some e, s')
      | (None, s') \<Rightarrow> (reconcileError, s'))"

definition ensureFinalizer ::
  "('a object_meta_scheme, 's) client \<Rightarrow> 'a object_meta_scheme \<Rightarrow> string \<Rightarrow> 's \<Rightarrow> go_error option \<times> 's" where
  "ensureFinalizer c obj f s =
     (case AddFinalizer obj f of (changed, obj') \<Rightarrow> if changed then cl_update c obj' s else (None, s))"

definition removeFinalizer ::
  "('a object_meta_scheme, 's) client \<Rightarrow> 'a object_meta_scheme \<Rightarrow> string \<Rightarrow> 's \<Rightarrow> go_error option \<times> 's" where
  "removeFinalizer c obj f s =
     (case RemoveFinalizer obj f of (changed, obj') \<Rightarrow> if changed then cl_update c obj' s else (None, s))"

text \<open>The suspension branch and the create/delete branch of the loop, after the finalizer checks.\<close>

definition reconcileSuspended ::
  "time \<Rightarrow> ('a runtime_object_scheme, 's) client \<Rightarrow> ('a runtime_object_scheme, 's) reconciler
     \<Rightarrow> 'a runtime_object_scheme \<Rightarrow> 's \<Rightarrow> (ctrl_result \<times> go_error option) \<times> 's" where
  "reconcileSuspended now c r obj s =
     (case EnsureSuspended r obj s of
        ((result, err), obj1, s1) \<Rightarrow>
          (let obj2 = SetCondition now
                 (case err of
                    Some e \<Rightarrow> FalseCondition now SuspendedCondition ResourceSuspensionFailedReason
                                (''failed to suspend resource: '' @ error_text e)
                  | None \<Rightarrow> TrueCondition now SuspendedCondition ResourceSuspendedReason
                              ''resource is suspended'') obj1
           in case patchStatus c obj obj2 err s1 of (err', s2) \<Rightarrow> ((result, err'), s2)))"

definition finishReconcile ::
  "('a runtime_object_scheme, 's) client \<Rightarrow> ('a runtime_object_scheme, 's) reconciler
     \<Rightarrow> 'a runtime_object_scheme
     \<Rightarrow> (ctrl_result \<times> go_error option) \<times> 'a runtime_object_scheme \<times> 's
     \<Rightarrow> (ctrl_result \<times> go_error option) \<times> 's" where
  "finishReconcile c r orig out =
     (case out of
        ((result, err), obj1, s1) \<Rightarrow>
          (let obj2 = (case UpdateLastReconciledAtStatus r of
                         None \<Rightarrow> obj1 | Some l \<Rightarrow> l (fst (ReconcileAnnotationValue obj1)) obj1)
           in case patchStatus c orig obj2 err s1 of (err', s2) \<Rightarrow> ((result, err'), s2)))"

definition Reconcile ::
  "time \<Rightarrow> ('a runtime_object_scheme, 's) client \<Rightarrow> ('a runtime_object_scheme, 's) reconciler
     \<Rightarrow> ('a runtime_object_scheme \<Rightarrow> 's \<Rightarrow> 'a runtime_object_scheme) option
     \<Rightarrow> namespaced_name \<Rightarrow> 's \<Rightarrow> (ctrl_result \<times> go_error option) \<times> 's" where
  "Reconcile now c r statusFunc key s =
     (case cl_get c key s of
        Inl e \<Rightarrow> ((EmptyResult, IgnoreNotFound (Some e)), s)
      | Inr obj \<Rightarrow>
          (let shouldBeDeleted = (o_deletionTimestamp obj \<noteq> None);
               hasFinalizer = ContainsFinalizer obj CommonCleanupFinalizer
           in if \<not> shouldBeDeleted \<and> \<not> hasFinalizer
              then (case ensureFinalizer c obj CommonCleanupFinalizer s of
                      (err, s') \<Rightarrow> ((EmptyResult, err), s'))
              else if isResourceSuspended obj \<and> CanBeSuspended r
              then reconcileSuspended now c r obj s
              else if shouldBeDeleted
              then (if \<not> hasFinalizer then ((EmptyResult, None), s)
                    else if isResourceDeleted obj
                    then (case removeFinalizer c obj CommonCleanupFinalizer s of
                            (err, s') \<Rightarrow> ((EmptyResult, IgnoreNotFound err), s'))
                    else finishReconcile c r obj (ensureDeleted now r obj s))
              else finishReconcile c r obj (ensureCreated now r statusFunc obj s)))"

section \<open>Conditions of runtime objects\<close>

definition GetCondition :: "'a runtime_object_scheme \<Rightarrow> condition_type \<Rightarrow> condition option" where
  "GetCondition obj t = GetConditionByType (GetConditions obj) t"

text \<open>The accessors of a runtime object satisfy the contract of \<open>condition_store\<close>.\<close>

interpretation ro: condition_store GetCondition "SetCondition now" RemoveObjectCondition
    "\<lambda>obj. conds_ok (o_conditions obj)" for now
proof (unfold_locales, goal_cases)
  case (2 c x)
  then show ?case
    using sc.get_set_same [of now c "o_conditions x"]
    by (simp add: GetCondition_def GetConditions_def SetCondition_def)
qed (simp_all add: GetCondition_def GetConditions_def SetCondition_def RemoveObjectCondition_def
      sc.get_set_other sc.get_remove sc.invar_set sc.invar_remove)

lemma shown_SetCondition [cond_simps]:
  "shown_status (o_conditions (SetCondition now c x)) t =
     (if t = c_type c then Some (c_status c) else shown_status (o_conditions x) t)"
  by (simp add: SetCondition_def shown_status_set)

lemma SetCondition_meta [simp]:
  "o_name (SetCondition now c obj) = o_name obj"
  "o_namespace (SetCondition now c obj) = o_namespace obj"
  "o_labels (SetCondition now c obj) = o_labels obj"
  "o_annotations (SetCondition now c obj) = o_annotations obj"
  "o_finalizers (SetCondition now c obj) = o_finalizers obj"
  "o_deletionTimestamp (SetCondition now c obj) = o_deletionTimestamp obj"
  by (simp_all add: SetCondition_def)

lemma SetCondition_more [simp]: "runtime_object.more (SetCondition now c obj) = runtime_object.more obj"
  by (simp add: SetCondition_def)

lemma isResourceDeleted_iff:
  "isResourceDeleted obj \<longleftrightarrow>
     (\<exists>d. GetCondition obj DeleteCondition = Some d \<and> IsTrue d \<and> c_reason d = DeletedReason)"
  by (auto simp: isResourceDeleted_def GetCondition_def split: option.splits)

lemma isResourceDeleted_cong:
  "GetCondition obj DeleteCondition = GetCondition obj' DeleteCondition
     \<Longrightarrow> isResourceDeleted obj = isResourceDeleted obj'"
  by (simp add: isResourceDeleted_iff)

lemma isResourceDeleted_SetCondition_other:
  "c_type c \<noteq> DeleteCondition \<Longrightarrow> isResourceDeleted (SetCondition now c obj) = isResourceDeleted obj"
  by (rule isResourceDeleted_cong) (simp add: ro.get_set_other)

lemma setupCreateState_keeps_deleted:
  "isResourceDeleted (setupCreateState now res err obj) = isResourceDeleted obj"
  by (cases res)
    (simp_all add: setupCreateState_def isResourceDeleted_SetCondition_other condition_constructors
      condition_consts)

lemma isResourceDeleted_setupDeleteState:
  "isResourceDeleted (setupDeleteState now res err obj) \<longleftrightarrow> res = Success"
  using ro.get_set_same [of now "TrueCondition now DeleteCondition DeletedReason
      ''resource is successfully deleted''" obj]
    ro.get_set_same [of now "FalseCondition now DeleteCondition FailingDeletionReason
      (''resource deletion failed: '' @ (case err of None \<Rightarrow> [] | Some e \<Rightarrow> error_text e))" obj]
    ro.get_set_same [of now "FalseCondition now DeleteCondition PendingDeletionReason
      ''resource deletion is pending''" obj]
  by (cases res)
    (auto simp: setupDeleteState_def isResourceDeleted_iff condition_constructors IsTrue_def Equal_def)

lemma setupDeleteState_meta [simp]:
  "o_finalizers (setupDeleteState now res err obj) = o_finalizers obj"
  "o_deletionTimestamp (setupDeleteState now res err obj) = o_deletionTimestamp obj"
  by (simp_all add: setupDeleteState_def)

section \<open>Properties of one reconciliation\<close>

text \<open>
  A resource is only handed to its controller once the cleanup finalizer is stored: the first
  reconciliation of a resource that is not being deleted and has no finalizer does nothing but write
  the object back with the finalizer appended, whatever the controller is.
\<close>

theorem Reconcile_finalizer_first:
  fixes c :: "('a runtime_object_scheme, 's) client"
  assumes "cl_get c key s = Inr obj"
    and "o_deletionTimestamp obj = None" and "\<not> ContainsFinalizer obj CommonCleanupFinalizer"
  shows "Reconcile now c r statusFunc key s =
     (case cl_update c (obj\<lparr>o_finalizers := o_finalizers obj @ [CommonCleanupFinalizer]\<rparr>) s of
        (err, s') \<Rightarrow> ((EmptyResult, err), s'))"
  using assms
  by (simp add: Reconcile_def ensureFinalizer_def AddFinalizer_def ContainsFinalizer_def)

definition sample_object :: "string list \<Rightarrow> time option \<Rightarrow> condition list \<Rightarrow> runtime_object" where
  "sample_object fs d cs =
     \<lparr>o_name = ''a'', o_namespace = ''org'', o_labels = [], o_annotations = [], o_finalizers = fs,
      o_deletionTimestamp = d, o_ownerReferences = [], o_conditions = cs\<rparr>"

definition sample_reconciler :: "reconcile_result \<Rightarrow> ('o, 's) reconciler" where
  "sample_reconciler res =
     \<lparr>EnsureCreated = (\<lambda>x s. ((EmptyResult, res, None), x, s)),
      EnsureDeleted = (\<lambda>x s. ((EmptyResult, res, None), x, s)),
      EnsureSuspended = (\<lambda>x s. ((EmptyResult, None), x, s)),
      CanBeSuspended = True, UpdateLastReconciledAtStatus = None\<rparr>"

definition sample_key :: namespaced_name where
  "sample_key = \<lparr>nn_namespace = ''org'', nn_name = ''a''\<rparr>"

theorem Reconcile_finalizer_first_witness:
  "Reconcile 5 slot_client (sample_reconciler Success) None sample_key (Some (sample_object [] None []))
     = ((EmptyResult, None), Some (sample_object [''greenhouse.sap/cleanup''] None []))"
  using Reconcile_finalizer_first [of slot_client sample_key "Some (sample_object [] None [])"
      "sample_object [] None []" 5 "sample_reconciler Success" None]
  by (simp add: slot_client_def sample_object_def ContainsFinalizer_def CommonCleanupFinalizer_def)

text \<open>
  Two-phase deletion. While a resource that is being deleted (and is not suspended) does not yet
  carry a true \<open>Delete\<close> condition with reason \<open>Deleted\<close>, reconciling it runs the controller's
  \<open>EnsureDeleted\<close> and patches the status; the object it patches is marked deleted exactly when the
  controller reported success, and keeps the finalizers the controller left.
\<close>

theorem Reconcile_deletion_first_phase:
  fixes c :: "('a runtime_object_scheme, 's) client"
  assumes get: "cl_get c key s = Inr obj"
    and del: "o_deletionTimestamp obj \<noteq> None"
    and fin: "ContainsFinalizer obj CommonCleanupFinalizer"
    and nosus: "\<not> (isResourceSuspended obj \<and> CanBeSuspended r)"
    and notyet: "\<not> isResourceDeleted obj"
    and nosetter: "UpdateLastReconciledAtStatus r = None"
    and run: "EnsureDeleted r (setupDeleteState now Pending None obj) s = ((result, res, err), obj1, s1)"
  shows "\<exists>obj2. Reconcile now c r statusFunc key s =
           (case cl_patch_status c obj2 obj s1 of
              (Some e, s2) \<Rightarrow> ((result, Some e), s2) | (None, s2) \<Rightarrow> ((result, err), s2))
         \<and> (isResourceDeleted obj2 \<longleftrightarrow> res = Success)
         \<and> o_finalizers obj2 = o_finalizers obj1"
proof (intro exI conjI)
  let ?obj2 = "setupDeleteState now res err obj1"
  show "Reconcile now c r statusFunc key s =
           (case cl_patch_status c ?obj2 obj s1 of
              (Some e, s2) \<Rightarrow> ((result, Some e), s2) | (None, s2) \<Rightarrow> ((result, err), s2))"
    using assms
    by (auto simp: Reconcile_def finishReconcile_def ensureDeleted_def patchStatus_def
        split: prod.splits option.splits)
qed (simp_all add: isResourceDeleted_setupDeleteState)

theorem Reconcile_deletion_first_phase_witness:
  "\<exists>obj2. Reconcile 5 slot_client (sample_reconciler Success) None sample_key
       (Some (sample_object [CommonCleanupFinalizer] (Some 3) [])) =
         (case cl_patch_status slot_client obj2 (sample_object [CommonCleanupFinalizer] (Some 3) [])
            (Some (sample_object [CommonCleanupFinalizer] (Some 3) [])) of
            (Some e, s2) \<Rightarrow> ((EmptyResult, Some e), s2) | (None, s2) \<Rightarrow> ((EmptyResult, None), s2))
       \<and> (isResourceDeleted obj2 \<longleftrightarrow> Success = Success)
       \<and> o_finalizers obj2 = [CommonCleanupFinalizer]"
proof -
  let ?obj = "sample_object [CommonCleanupFinalizer] (Some 3) []"
  have h: "cl_get slot_client sample_key (Some ?obj) = Inr ?obj"
    "o_deletionTimestamp ?obj \<noteq> None" "ContainsFinalizer ?obj CommonCleanupFinalizer"
    "\<not> (isResourceSuspended ?obj \<and> CanBeSuspended (sample_reconciler Success))"
    "\<not> isResourceDeleted ?obj"
    "UpdateLastReconciledAtStatus (sample_reconciler Success) = None"
    "EnsureDeleted (sample_reconciler Success) (setupDeleteState 5 Pending None ?obj) (Some ?obj)
       = ((EmptyResult, Success, None), setupDeleteState 5 Pending None ?obj, Some ?obj)"
    by (simp_all add: slot_client_def sample_object_def ContainsFinalizer_def isResourceSuspended_def
        isResourceDeleted_def GetConditions_def sample_reconciler_def)
  from Reconcile_deletion_first_phase [OF h, of None] show ?thesis
    by (simp add: sample_object_def)
qed

text \<open>
  The finalizer is removed only in the second phase. If the object read is being deleted, carries
  the cleanup finalizer and is marked deleted, the only call is an update that drops the finalizer,
  and a not-found error of that update is ignored.
\<close>

theorem Reconcile_deletion_second_phase:
  fixes c :: "('a runtime_object_scheme, 's) client"
  assumes "cl_get c key s = Inr obj" and "o_deletionTimestamp obj \<noteq> None"
    and "ContainsFinalizer obj CommonCleanupFinalizer"
    and "\<not> (isResourceSuspended obj \<and> CanBeSuspended r)" and "isResourceDeleted obj"
  shows "Reconcile now c r statusFunc key s =
     (case cl_update c (obj\<lparr>o_finalizers := filter (\<lambda>f. f \<noteq> CommonCleanupFinalizer) (o_finalizers obj)\<rparr>) s of
        (err, s') \<Rightarrow> ((EmptyResult, IgnoreNotFound err), s'))"
  using assms
  by (auto simp: Reconcile_def removeFinalizer_def RemoveFinalizer_def ContainsFinalizer_def)

theorem Reconcile_deletion_second_phase_witness:
  "Reconcile 9 slot_client (sample_reconciler Failed) None sample_key
     (Some (sample_object [CommonCleanupFinalizer] (Some 3)
        [TrueCondition 5 DeleteCondition DeletedReason []]))
   = ((EmptyResult, None), Some (sample_object [] (Some 3)
        [TrueCondition 5 DeleteCondition DeletedReason []]))"
  using Reconcile_deletion_second_phase [of slot_client sample_key
      "Some (sample_object [CommonCleanupFinalizer] (Some 3)
         [TrueCondition 5 DeleteCondition DeletedReason []])"
      "sample_object [CommonCleanupFinalizer] (Some 3)
         [TrueCondition 5 DeleteCondition DeletedReason []]"
      "sample_reconciler Failed" 9 None]
  by (simp add: slot_client_def sample_object_def ContainsFinalizer_def isResourceSuspended_def
      isResourceDeleted_def GetConditions_def cond_simps condition_constructors IsTrue_def
      IgnoreNotFound_def)

text \<open>
  A suspended resource of a type that supports suspension is never handed to \<open>EnsureCreated\<close> or
  \<open>EnsureDeleted\<close>: apart from the finalizer, the outcome depends on \<open>EnsureSuspended\<close> alone, even when
  the resource is being deleted.
\<close>

theorem Reconcile_suspended:
  fixes c :: "('a runtime_object_scheme, 's) client"
  assumes "cl_get c key s = Inr obj" and "isResourceSuspended obj" and "CanBeSuspended r"
    and "CanBeSuspended r'" and "EnsureSuspended r' = EnsureSuspended r"
  shows "Reconcile now c r statusFunc key s = Reconcile now c r' statusFunc' key s"
  using assms by (simp add: Reconcile_def reconcileSuspended_def Let_def)

theorem Reconcile_suspended_witness:
  "Reconcile 5 slot_client (sample_reconciler Success) None sample_key
     (Some ((sample_object [CommonCleanupFinalizer] (Some 3) [])\<lparr>o_annotations := [(SuspendAnnotation, ''no'')]\<rparr>))
   = Reconcile 5 slot_client (sample_reconciler Failed) None sample_key
     (Some ((sample_object [CommonCleanupFinalizer] (Some 3) [])\<lparr>o_annotations := [(SuspendAnnotation, ''no'')]\<rparr>))"
  by (rule Reconcile_suspended [where obj = "(sample_object [CommonCleanupFinalizer] (Some 3) [])
        \<lparr>o_annotations := [(SuspendAnnotation, ''no'')]\<rparr>"])
    (simp_all add: slot_client_def isResourceSuspended_def sample_reconciler_def smap_simps)

end
