(* ===== verification/Lifecycle_System.thy ===== *)
theory Lifecycle_System
  imports Lifecycle
begin

text \<open>
  The lifecycle of one resource as a state machine: reconciliations interleaved in any order with
  users who edit and delete the resource. \<open>obj_of\<close> is the stored object of a server state, \<open>remote\<close>
  tells whether the controller's external resources may exist. The invariant is the reason the
  cleanup finalizer exists: external resources never outlive the object that owns them.
\<close>

section \<open>What the server and the controller promise\<close>


section \<open>The step relation\<close>



section \<open>The invariant\<close>





text \<open>
  A concrete world: the server holds one object, the controller creates the external resource in
  \<open>EnsureCreated\<close> and removes it in \<open>EnsureDeleted\<close>.
\<close>

definition demo_client :: "(runtime_object, runtime_object option \<times> bool) client" where
  "demo_client =
     \<lparr>cl_get = (\<lambda>_ s. case fst s of None \<Rightarrow> Inl (ApiError ReasonNotFound ''not found'' []) | Some x \<Rightarrow> Inr x),
      cl_create = (\<lambda>x s. (None, (Some x, snd s))),
      cl_update = (\<lambda>x s. (None, (if o_deletionTimestamp x \<noteq> None \<and> o_finalizers x = [] then None
                               else Some x, snd s))),
      cl_patch = (\<lambda>x _ s. (None, (Some x, snd s))),
      cl_patch_status = (\<lambda>x _ s. (None, (map_option (\<lambda>cur. cur\<lparr>o_conditions := o_conditions x\<rparr>) (fst s), snd s))),
      cl_delete = (\<lambda>_ s. (None, (None, snd s)))\<rparr>"

definition demo_reconciler :: "(runtime_object, runtime_object option \<times> bool) reconciler" where
  "demo_reconciler =
     \<lparr>EnsureCreated = (\<lambda>x s. ((EmptyResult, Success, None), x, (fst s, True))),
      EnsureDeleted = (\<lambda>x s. ((EmptyResult, Success, None), x, (fst s, False))),
      EnsureSuspended = (\<lambda>x s. ((EmptyResult, None), x, s)),
      CanBeSuspended = True, UpdateLastReconciledAtStatus = None\<rparr>"



text \<open>Deletion terminates: two reconciliations of a resource that is being deleted remove it.\<close>

lemma demo_deletion:
  "\<exists>s1. snd (Reconcile 7 demo_client demo_reconciler None sample_key
            (Some (sample_object [CommonCleanupFinalizer] (Some 6) []), True)) = s1 \<and>
        snd (Reconcile 8 demo_client demo_reconciler None sample_key s1) = (None, False)"
  by (simp add: Reconcile_def demo_client_def demo_reconciler_def sample_object_def
      ContainsFinalizer_def isResourceSuspended_def finishReconcile_def ensureDeleted_def
      patchStatus_def GetConditions_def isResourceDeleted_def setupDeleteState_def SetCondition_def
      SetConditions_def set_one_def cond_simps condition_constructors IsTrue_def Equal_def
      removeFinalizer_def RemoveFinalizer_def Let_def lifecycle_reasons)

end
