(* ===== verification/Json_Codec.thy ===== *)
theory Json_Codec
  imports Greenhouse_Prelude
begin

text \<open>
  The part of Go's \<open>encoding/json\<close> the operator relies on: JSON values, the compact printer of
  \<open>json.Marshal\<close> and the parser of \<open>json.Unmarshal\<close>. Strings are byte strings in UTF-8; number
  tokens are kept as they are written. The round trip of printer and parser is what makes state stored
  in annotations readable again.
\<close>

section \<open>Values\<close>

datatype json =
  JNull
| JBool bool
| JNum string
| JStr string
| JArr "json list"
| JObj "(string \<times> json) list"

section \<open>Printing\<close>

definition QUOTE :: char where "QUOTE = CHR 0x22"
definition BACKSLASH :: char where "BACKSLASH = CHR 0x5C"

definition hex_digit :: "nat \<Rightarrow> char" where
  "hex_digit n = (if n < 10 then char_of (48 + n) else char_of (87 + n))"

text \<open>
  The escape table of \<open>json.Marshal\<close>: quotes, backslashes, the named control characters, all other
  control characters and the HTML characters as \<open>\u\<close> escapes; everything else unchanged.
\<close>

definition escape_char :: "char \<Rightarrow> string" where
  "escape_char c =
     (let n = of_char c :: nat in
      if c = QUOTE then [BACKSLASH, QUOTE]
      else if c = BACKSLASH then [BACKSLASH, BACKSLASH]
      else if n = 8 then [BACKSLASH, CHR ''b'']
      else if n = 12 then [BACKSLASH, CHR ''f'']
      else if n = 10 then [BACKSLASH, CHR ''n'']
      else if n = 13 then [BACKSLASH, CHR ''r'']
      else if n = 9 then [BACKSLASH, CHR ''t'']
      else if n < 32 \<or> c \<in> {CHR ''<'', CHR ''>'', CHR ''&''}
      then [BACKSLASH, CHR ''u'', CHR ''0'', CHR ''0'', hex_digit (n div 16), hex_digit (n mod 16)]
      else [c])"

definition print_string :: "string \<Rightarrow> string" where
  "print_string s = QUOTE # concat (map escape_char s) @ [QUOTE]"

fun print_json :: "json \<Rightarrow> string"
and print_elems :: "json list \<Rightarrow> string"
and print_fields :: "(string \<times> json) list \<Rightarrow> string" where
  "print_json JNull = ''null''"
| "print_json (JBool b) = (if b then ''true'' else ''false'')"
| "print_json (JNum t) = t"
| "print_json (JStr s) = print_string s"
| "print_json (JArr xs) = CHR ''['' # print_elems xs"
| "print_json (JObj fs) = CHR ''{'' # print_fields fs"
| "print_elems [] = '']''"
| "print_elems [x] = print_json x @ '']''"
| "print_elems (x # y # xs) = print_json x @ CHR '','' # print_elems (y # xs)"
| "print_fields [] = ''}''"
| "print_fields [(k, v)] = print_string k @ CHR '':'' # print_json v @ ''}''"
| "print_fields ((k, v) # f # fs) =
     print_string k @ CHR '':'' # print_json v @ CHR '','' # print_fields (f # fs)"

section \<open>Parsing\<close>

definition hex_val :: "char \<Rightarrow> nat option" where
  "hex_val c =
     (let n = of_char c :: nat in
      if 48 \<le> n \<and> n \<le> 57 then Some (n - 48)
      else if 97 \<le> n \<and> n \<le> 102 then Some (n - 87)
      else if 65 \<le> n \<and> n \<le> 70 then Some (n - 55)
      else None)"

definition hex4 :: "char \<Rightarrow> char \<Rightarrow> char \<Rightarrow> char \<Rightarrow> nat option" where
  "hex4 a b c d =
     (case (hex_val a, hex_val b, hex_val c, hex_val d) of
        (Some w, Some x, Some y, Some z) \<Rightarrow> Some (w * 4096 + x * 256 + y * 16 + z)
      | _ \<Rightarrow> None)"

text \<open>UTF-8 encoding of a code point.\<close>

definition utf8 :: "nat \<Rightarrow> string" where
  "utf8 n =
     (if n < 128 then [char_of n]
      else if n < 2048 then [char_of (192 + n div 64), char_of (128 + n mod 64)]
      else if n < 65536
      then [char_of (224 + n div 4096), char_of (128 + n div 64 mod 64), char_of (128 + n mod 64)]
      else [char_of (240 + n div 262144), char_of (128 + n div 4096 mod 64),
            char_of (128 + n div 64 mod 64), char_of (128 + n mod 64)])"

definition simple_escape :: "char \<Rightarrow> char option" where
  "simple_escape e =
     (if e = QUOTE then Some QUOTE
      else if e = BACKSLASH then Some BACKSLASH
      else if e = CHR ''/'' then Some (CHR ''/'')
      else if e = CHR ''b'' then Some (CHR 0x08)
      else if e = CHR ''f'' then Some (CHR 0x0C)
      else if e = CHR ''n'' then Some (CHR 0x0A)
      else if e = CHR ''r'' then Some (CHR 0x0D)
      else if e = CHR ''t'' then Some (CHR 0x09)
      else None)"

definition prepend :: "string \<Rightarrow> (string \<times> string) option \<Rightarrow> (string \<times> string) option" where
  "prepend p r = map_option (\<lambda>(s, rest). (p @ s, rest)) r"

text \<open>
  The contents of a string after its opening quote, up to the closing one. A surrogate pair of \<open>\u\<close>
  escapes is one code point, a lone surrogate the replacement character.
\<close>

fun lex_string :: "string \<Rightarrow> (string \<times> string) option" where
  "lex_string [] = None"
| "lex_string (c # cs) =
     (if c = QUOTE then Some ([], cs)
      else if c = BACKSLASH
      then (case cs of
              [] \<Rightarrow> None
            | e # cs' \<Rightarrow>
                if e = CHR ''u''
                then (case cs' of
                        a # b # x # y # rest \<Rightarrow>
                          (case hex4 a b x y of
                             None \<Rightarrow> None
                           | Some n \<Rightarrow>
                               if 55296 \<le> n \<and> n < 56320
                               then (case rest of
                                       p # q # a' # b' # x' # y' # rest' \<Rightarrow>
                                         (case (if p = BACKSLASH \<and> q = CHR ''u'' then hex4 a' b' x' y' else None) of
                                            Some m \<Rightarrow>
                                              if 56320 \<le> m \<and> m < 57344
                                              then prepend (utf8 (65536 + (n - 55296) * 1024 + (m - 56320)))
                                                     (lex_string rest')
                                              else prepend (utf8 65533) (lex_string rest)
                                          | None \<Rightarrow> prepend (utf8 65533) (lex_string rest))
                                     | _ \<Rightarrow> prepend (utf8 65533) (lex_string rest))
                               else if 56320 \<le> n \<and> n < 57344
                               then prepend (utf8 65533) (lex_string rest)
                               else prepend (utf8 n) (lex_string rest))
                      | _ \<Rightarrow> None)
                else (case simple_escape e of
                        None \<Rightarrow> None
                      | Some z \<Rightarrow> prepend [z] (lex_string cs')))
      else if (of_char c :: nat) < 32 then None
      else prepend [c] (lex_string cs))"

text \<open>Number tokens: the longest run of number characters, checked against the JSON grammar.\<close>

definition is_digit :: "char \<Rightarrow> bool" where
  "is_digit c \<longleftrightarrow> 48 \<le> (of_char c :: nat) \<and> (of_char c :: nat) \<le> 57"

definition is_num_char :: "char \<Rightarrow> bool" where
  "is_num_char c \<longleftrightarrow> is_digit c \<or> c \<in> {CHR ''-'', CHR ''+'', CHR ''.'', CHR ''e'', CHR ''E''}"

definition all_digits1 :: "string \<Rightarrow> bool" where
  "all_digits1 s \<longleftrightarrow> s \<noteq> [] \<and> list_all is_digit s"

definition valid_exp :: "string \<Rightarrow> bool" where
  "valid_exp s =
     (case s of
        [] \<Rightarrow> True
      | c # t \<Rightarrow> (c = CHR ''e'' \<or> c = CHR ''E'') \<and>
          (case t of [] \<Rightarrow> False
             | d # u \<Rightarrow> if d = CHR ''+'' \<or> d = CHR ''-'' then all_digits1 u else all_digits1 t))"

definition valid_frac :: "string \<Rightarrow> bool" where
  "valid_frac s =
     (case s of
        [] \<Rightarrow> True
      | c # t \<Rightarrow> if c = CHR ''.'' then takeWhile is_digit t \<noteq> [] \<and> valid_exp (dropWhile is_digit t)
                 else valid_exp s)"

definition valid_num :: "string \<Rightarrow> bool" where
  "valid_num s =
     (let s' = (case s of c # t \<Rightarrow> if c = CHR ''-'' then t else s | [] \<Rightarrow> s)
      in case s' of
           [] \<Rightarrow> False
         | d # t \<Rightarrow> if d = CHR ''0'' then valid_frac t
                    else is_digit d \<and> valid_frac (dropWhile is_digit t))"

definition is_json_space :: "char \<Rightarrow> bool" where
  "is_json_space c \<longleftrightarrow> c \<in> {CHR '' '', CHR 0x09, CHR 0x0A, CHR 0x0D}"

definition skip :: "string \<Rightarrow> string" where
  "skip s = dropWhile is_json_space s"

definition lex_word :: "string \<Rightarrow> (json \<times> string) option" where
  "lex_word s =
     (if prefix ''null'' s then Some (JNull, drop 4 s)
      else if prefix ''true'' s then Some (JBool True, drop 4 s)
      else if prefix ''false'' s then Some (JBool False, drop 5 s)
      else let t = takeWhile is_num_char s
           in if valid_num t then Some (JNum t, dropWhile is_num_char s) else None)"

text \<open>
  The recursive descent. Each call consumes one unit of fuel; \<open>parse_json\<close> below gives more fuel than
  the text has characters.
\<close>

fun parse_value :: "nat \<Rightarrow> string \<Rightarrow> (json \<times> string) option"
and parse_elems :: "nat \<Rightarrow> string \<Rightarrow> (json list \<times> string) option"
and parse_fields :: "nat \<Rightarrow> string \<Rightarrow> ((string \<times> json) list \<times> string) option" where
  "parse_value 0 s = None"
| "parse_value (Suc n) s =
     (case skip s of
        [] \<Rightarrow> None
      | c # cs \<Rightarrow>
          if c = QUOTE then map_option (\<lambda>(t, rest). (JStr t, rest)) (lex_string cs)
          else if c = CHR ''[''
          then (case skip cs of
                  d # ds \<Rightarrow> if d = CHR '']'' then Some (JArr [], ds)
                            else map_option (\<lambda>(xs, rest). (JArr xs, rest)) (parse_elems n (d # ds))
                | [] \<Rightarrow> None)
          else if c = CHR ''{''
          then (case skip cs of
                  d # ds \<Rightarrow> if d = CHR ''}'' then Some (JObj [], ds)
                            else map_option (\<lambda>(fs, rest). (JObj fs, rest)) (parse_fields n (d # ds))
                | [] \<Rightarrow> None)
          else lex_word (c # cs))"
| "parse_elems 0 s = None"
| "parse_elems (Suc n) s =
     (case parse_value n s of
        None \<Rightarrow> None
      | Some (x, rest) \<Rightarrow>
          (case skip rest of
             [] \<Rightarrow> None
           | c # cs \<Rightarrow>
               if c = CHR '']'' then Some ([x], cs)
               else if c = CHR '','' then map_option (\<lambda>(xs, r). (x # xs, r)) (parse_elems n cs)
               else None))"
| "parse_fields 0 s = None"
| "parse_fields (Suc n) s =
     (case skip s of
        [] \<Rightarrow> None
      | c # cs \<Rightarrow>
          if c \<noteq> QUOTE then None
          else (case lex_string cs of
                  None \<Rightarrow> None
                | Some (k, rest) \<Rightarrow>
                    (case skip rest of
                       [] \<Rightarrow> None
                     | d # ds \<Rightarrow>
                         if d \<noteq> CHR '':'' then None
                         else (case parse_value n ds of
                                 None \<Rightarrow> None
                               | Some (v, rest') \<Rightarrow>
                                   (case skip rest' of
                                      [] \<Rightarrow> None
                                    | e # es \<Rightarrow>
                                        if e = CHR ''}'' then Some ([(k, v)], es)
                                        else if e = CHR '',''
                                        then map_option (\<lambda>(fs, r). ((k, v) # fs, r)) (parse_fields n es)
                                        else None)))))"

definition parse_json :: "string \<Rightarrow> json option" where
  "parse_json s =
     (case parse_value (Suc (2 * length s)) s of
        None \<Rightarrow> None
      | Some (v, rest) \<Rightarrow> if skip rest = [] then Some v else None)"

section \<open>Round trip\<close>

lemma hex_val_hex_digit: "k < 16 \<Longrightarrow> hex_val (hex_digit k) = Some k"
  by (auto simp: hex_val_def hex_digit_def Let_def of_char_of)

lemma hex4_escape: "n < 256 \<Longrightarrow> hex4 (CHR ''0'') (CHR ''0'') (hex_digit (n div 16)) (hex_digit (n mod 16)) = Some n"
proof -
  assume "n < 256"
  then have "hex_val (hex_digit (n div 16)) = Some (n div 16)"
    and "hex_val (hex_digit (n mod 16)) = Some (n mod 16)"
    by (simp_all add: hex_val_hex_digit)
  moreover have "hex_val (CHR ''0'') = Some 0"
    by (simp add: hex_val_def)
  ultimately show ?thesis by (simp add: hex4_def)
qed

lemma char_less_128_of_html: "c \<in> {CHR ''<'', CHR ''>'', CHR ''&''} \<Longrightarrow> (of_char c :: nat) < 128"
  by auto

lemma lex_string_u:
  fixes c :: char
  defines "n \<equiv> (of_char c :: nat)"
  assumes "n < 128"
  shows "lex_string (BACKSLASH # CHR ''u'' # CHR ''0'' # CHR ''0'' # hex_digit (n div 16) # hex_digit (n mod 16) # t)
       = prepend [c] (lex_string t)"
proof -
  from assms have "hex4 (CHR ''0'') (CHR ''0'') (hex_digit (n div 16)) (hex_digit (n mod 16)) = Some n"
    by (intro hex4_escape) simp
  moreover from assms have "utf8 n = [c]" by (simp add: utf8_def)
  ultimately show ?thesis
    using assms by (simp add: BACKSLASH_def QUOTE_def)
qed

lemma lex_string_simple:
  assumes "simple_escape e = Some z"
  shows "lex_string (BACKSLASH # e # t) = prepend [z] (lex_string t)"
proof -
  have "simple_escape (CHR ''u'') = None"
    by (simp add: simple_escape_def QUOTE_def BACKSLASH_def)
  with assms have "e \<noteq> CHR ''u''" by auto
  with assms show ?thesis by (simp add: BACKSLASH_def QUOTE_def)
qed

lemma escapes_simple:
  "simple_escape QUOTE = Some QUOTE" "simple_escape BACKSLASH = Some BACKSLASH"
  "simple_escape (CHR ''b'') = Some (CHR 0x08)" "simple_escape (CHR ''f'') = Some (CHR 0x0C)"
  "simple_escape (CHR ''n'') = Some (CHR 0x0A)" "simple_escape (CHR ''r'') = Some (CHR 0x0D)"
  "simple_escape (CHR ''t'') = Some (CHR 0x09)"
  by (simp_all add: simple_escape_def QUOTE_def BACKSLASH_def)

lemma escape_named:
  "escape_char QUOTE = [BACKSLASH, QUOTE]" "escape_char BACKSLASH = [BACKSLASH, BACKSLASH]"
  "escape_char (CHR 0x08) = [BACKSLASH, CHR ''b'']" "escape_char (CHR 0x0C) = [BACKSLASH, CHR ''f'']"
  "escape_char (CHR 0x0A) = [BACKSLASH, CHR ''n'']" "escape_char (CHR 0x0D) = [BACKSLASH, CHR ''r'']"
  "escape_char (CHR 0x09) = [BACKSLASH, CHR ''t'']"
  by (simp_all add: escape_char_def QUOTE_def BACKSLASH_def)

lemma of_char_named:
  "c = CHR 0x08 \<longleftrightarrow> (of_char c :: nat) = 8" "c = CHR 0x0C \<longleftrightarrow> (of_char c :: nat) = 12"
  "c = CHR 0x0A \<longleftrightarrow> (of_char c :: nat) = 10" "c = CHR 0x0D \<longleftrightarrow> (of_char c :: nat) = 13"
  "c = CHR 0x09 \<longleftrightarrow> (of_char c :: nat) = 9"
proof -
  have *: "c = d \<longleftrightarrow> (of_char c :: nat) = of_char d" for d by simp
  show "c = CHR 0x08 \<longleftrightarrow> (of_char c :: nat) = 8" by (subst *) simp
  show "c = CHR 0x0C \<longleftrightarrow> (of_char c :: nat) = 12" by (subst *) simp
  show "c = CHR 0x0A \<longleftrightarrow> (of_char c :: nat) = 10" by (subst *) simp
  show "c = CHR 0x0D \<longleftrightarrow> (of_char c :: nat) = 13" by (subst *) simp
  show "c = CHR 0x09 \<longleftrightarrow> (of_char c :: nat) = 9" by (subst *) simp
qed

lemma lex_string_plain:
  assumes "c \<noteq> QUOTE" "c \<noteq> BACKSLASH" "\<not> (of_char c :: nat) < 32"
  shows "lex_string (c # t) = prepend [c] (lex_string t)"
  using assms by simp

declare lex_string.simps(2) [simp del]

definition named_escapes :: "char set" where
  "named_escapes = {QUOTE, BACKSLASH, CHR 0x08, CHR 0x0C, CHR 0x0A, CHR 0x0D, CHR 0x09}"

lemma lex_string_named:
  "c \<in> named_escapes \<Longrightarrow> lex_string (escape_char c @ t) = prepend [c] (lex_string t)"
  unfolding named_escapes_def
  by (elim insertE emptyE; simp only: escape_named append.simps lex_string_simple escapes_simple)

lemma lex_string_escape: "lex_string (escape_char c @ t) = prepend [c] (lex_string t)"
proof -
  define n where "n = (of_char c :: nat)"
  consider (named) "c \<in> named_escapes"
    | (u) "n < 32 \<or> c \<in> {CHR ''<'', CHR ''>'', CHR ''&''}" "c \<notin> named_escapes"
    | (plain) "\<not> n < 32" "c \<notin> {CHR ''<'', CHR ''>'', CHR ''&''}" "c \<notin> named_escapes"
    by blast
  then show ?thesis
  proof cases
    case named
    then show ?thesis by (rule lex_string_named)
  next
    case u
    then have "n < 128" using char_less_128_of_html [of c] by (auto simp: n_def)
    then have "lex_string (BACKSLASH # CHR ''u'' # CHR ''0'' # CHR ''0'' # hex_digit (n div 16) #
        hex_digit (n mod 16) # t) = prepend [c] (lex_string t)"
      unfolding n_def by (rule lex_string_u)
    with u show ?thesis
      unfolding escape_char_def Let_def n_def [symmetric]
      by (simp add: named_escapes_def of_char_named n_def)
  next
    case plain
    then show ?thesis
      unfolding escape_char_def Let_def n_def [symmetric]
      by (auto simp: lex_string_plain n_def named_escapes_def of_char_named)
  qed
qed

lemma lex_string_print:
  "lex_string (concat (map escape_char s) @ QUOTE # rest) = Some (s, rest)"
  by (induction s) (auto simp: lex_string_escape prepend_def lex_string.simps(2))

text \<open>Values whose number tokens are JSON numbers: the ones \<open>json.Marshal\<close> produces.\<close>

fun wf_json :: "json \<Rightarrow> bool" where
  "wf_json (JNum t) = (valid_num t \<and> list_all is_num_char t)"
| "wf_json (JArr xs) = list_all wf_json xs"
| "wf_json (JObj fs) = list_all (\<lambda>f. wf_json (snd f)) fs"
| "wf_json _ = True"

text \<open>The fuel a printed value needs, and that \<open>parse_json\<close> provides it.\<close>

fun jfuel :: "json \<Rightarrow> nat" and efuel :: "json list \<Rightarrow> nat" and ffuel :: "(string \<times> json) list \<Rightarrow> nat" where
  "jfuel (JArr xs) = Suc (efuel xs)"
| "jfuel (JObj fs) = Suc (ffuel fs)"
| "jfuel _ = 1"
| "efuel [] = 0"
| "efuel (x # xs) = Suc (jfuel x + efuel xs)"
| "ffuel [] = 0"
| "ffuel ((k, v) # fs) = Suc (jfuel v + ffuel fs)"

lemma jfuel_bound:
  "jfuel v \<le> Suc (2 * length (print_json v))"
  "efuel xs \<le> 2 * length (print_elems xs)"
  "ffuel fs \<le> 2 * length (print_fields fs)"
  by (induction v and xs and fs rule: print_json_print_elems_print_fields.induct) auto

definition stops :: "string \<Rightarrow> bool" where
  "stops rest \<longleftrightarrow> rest = [] \<or> \<not> is_num_char (hd rest)"

lemma stops_simps [simp]:
  "stops []" "stops (CHR '']'' # s)" "stops (CHR ''}'' # s)" "stops (CHR '','' # s)"
  by (simp_all add: stops_def is_num_char_def is_digit_def)

lemma takeWhile_dropWhile_stop:
  "list_all P t \<Longrightarrow> rest = [] \<or> \<not> P (hd rest) \<Longrightarrow>
     takeWhile P (t @ rest) = t \<and> dropWhile P (t @ rest) = rest"
  by (induction t) (cases rest; auto)+

text \<open>The first character of a printed value.\<close>

definition head_ok :: "char \<Rightarrow> bool" where
  "head_ok c \<longleftrightarrow> \<not> is_json_space c \<and> c \<noteq> CHR '']'' \<and> c \<noteq> CHR ''}''"

lemma num_char_head:
  "is_num_char c \<Longrightarrow>
     head_ok c \<and> c \<noteq> QUOTE \<and> c \<noteq> CHR ''['' \<and> c \<noteq> CHR ''{'' \<and> c \<notin> {CHR ''n'', CHR ''t'', CHR ''f''}"
  by (auto simp: is_num_char_def is_digit_def head_ok_def is_json_space_def QUOTE_def)

lemma valid_num_not_Nil: "valid_num t \<Longrightarrow> t \<noteq> []"
  by (auto simp: valid_num_def)

lemma print_json_head: "wf_json v \<Longrightarrow> \<exists>c cs. print_json v = c # cs \<and> head_ok c"
proof (cases v)
  case (JNum t)
  assume "wf_json v"
  with JNum have "t \<noteq> []" "list_all is_num_char t" by (simp_all add: valid_num_not_Nil)
  with JNum show ?thesis by (cases t) (auto dest: num_char_head)
qed (auto simp: head_ok_def is_json_space_def print_string_def QUOTE_def)

lemma skip_head: "head_ok c \<Longrightarrow> skip (c # s) = c # s"
  by (simp add: skip_def head_ok_def)

lemma skip_plain: "\<not> is_json_space c \<Longrightarrow> skip (c # s) = c # s"
  by (simp add: skip_def)

lemma skip_marks [simp]:
  "skip (QUOTE # s) = QUOTE # s" "skip (CHR '']'' # s) = CHR '']'' # s"
  "skip (CHR ''}'' # s) = CHR ''}'' # s" "skip (CHR '','' # s) = CHR '','' # s"
  "skip (CHR '':'' # s) = CHR '':'' # s" "skip (CHR ''['' # s) = CHR ''['' # s"
  "skip (CHR ''{'' # s) = CHR ''{'' # s" "skip [] = []"
  by (simp_all add: skip_def is_json_space_def QUOTE_def)

lemma lex_word_num:
  assumes "valid_num t" "list_all is_num_char t" "stops rest"
  shows "lex_word (t @ rest) = Some (JNum t, rest)"
proof -
  obtain c cs where t: "t = c # cs" using valid_num_not_Nil [OF assms(1)] by (cases t) auto
  with assms(2) have "c \<notin> {CHR ''n'', CHR ''t'', CHR ''f''}" by (auto dest: num_char_head)
  with t have "\<not> prefix ''null'' (t @ rest)" "\<not> prefix ''true'' (t @ rest)" "\<not> prefix ''false'' (t @ rest)"
    by auto
  with assms takeWhile_dropWhile_stop [OF assms(2)] show ?thesis
    by (simp add: lex_word_def stops_def)
qed

lemma parse_value_num:
  assumes "wf_json (JNum t)" "stops rest"
  shows "parse_value (Suc n) (t @ rest) = Some (JNum t, rest)"
proof -
  from assms(1) obtain c cs where t: "t = c # cs" and c: "is_num_char c"
    by (cases t) (auto dest: valid_num_not_Nil)
  with num_char_head [OF c] have "skip (t @ rest) = t @ rest" by (simp add: skip_head)
  with t num_char_head [OF c] lex_word_num [of t rest] assms show ?thesis by simp
qed

lemma parse_value_atoms:
  "parse_value (Suc n) (''null'' @ rest) = Some (JNull, rest)"
  "parse_value (Suc n) (''true'' @ rest) = Some (JBool True, rest)"
  "parse_value (Suc n) (''false'' @ rest) = Some (JBool False, rest)"
  "parse_value (Suc n) (print_string s @ rest) = Some (JStr s, rest)"
  by (simp_all add: skip_plain is_json_space_def lex_word_def QUOTE_def [symmetric] print_string_def
      lex_string_print) (simp_all add: QUOTE_def)

lemma print_elems_head:
  assumes "list_all wf_json (x # xs)"
  shows "\<exists>c cs. print_elems (x # xs) = c # cs \<and> head_ok c"
proof -
  from assms obtain c cs where "print_json x = c # cs" "head_ok c"
    using print_json_head [of x] by auto
  then show ?thesis by (cases xs) auto
qed

lemma print_fields_head: "\<exists>cs. print_fields (f # fs) = QUOTE # cs"
  by (cases f; cases fs) (auto simp: print_string_def)

lemma parse_value_arr:
  assumes wf: "list_all wf_json (x # xs)"
    and p: "parse_elems n (print_elems (x # xs) @ rest) = Some (x # xs, rest)"
  shows "parse_value (Suc n) (print_json (JArr (x # xs)) @ rest) = Some (JArr (x # xs), rest)"
proof -
  obtain c cs where h: "print_elems (x # xs) = c # cs" "head_ok c"
    using print_elems_head [OF wf] by blast
  then have "c \<noteq> CHR '']''" by (simp add: head_ok_def)
  with h p show ?thesis by (simp add: skip_head QUOTE_def)
qed

lemma parse_value_obj:
  assumes p: "parse_fields n (print_fields (f # fs) @ rest) = Some (f # fs, rest)"
  shows "parse_value (Suc n) (print_json (JObj (f # fs)) @ rest) = Some (JObj (f # fs), rest)"
proof -
  obtain cs where "print_fields (f # fs) = QUOTE # cs" using print_fields_head by blast
  with p show ?thesis by (simp add: QUOTE_def [symmetric]) (simp add: QUOTE_def)
qed

lemma parse_print:
  "wf_json v \<Longrightarrow> jfuel v \<le> n \<Longrightarrow> stops rest \<Longrightarrow> parse_value n (print_json v @ rest) = Some (v, rest)"
  "xs \<noteq> [] \<Longrightarrow> list_all wf_json xs \<Longrightarrow> efuel xs \<le> n \<Longrightarrow>
     parse_elems n (print_elems xs @ rest) = Some (xs, rest)"
  "fs \<noteq> [] \<Longrightarrow> list_all (\<lambda>f. wf_json (snd f)) fs \<Longrightarrow> ffuel fs \<le> n \<Longrightarrow>
     parse_fields n (print_fields fs @ rest) = Some (fs, rest)"
proof (induction v and xs and fs arbitrary: n rest and n rest and n rest
    rule: print_json_print_elems_print_fields.induct)
  case 1
  then show ?case using parse_value_atoms(1) by (cases n) auto
next
  case (2 b)
  then show ?case using parse_value_atoms(2,3) by (cases n; cases b) auto
next
  case (3 t)
  then show ?case using parse_value_num [of t rest] by (cases n) auto
next
  case (4 s)
  then show ?case using parse_value_atoms(4) by (cases n) auto
next
  case (5 xs)
  then obtain m where n: "n = Suc m" "efuel xs \<le> m" by (cases n) auto
  show ?case
  proof (cases xs)
    case Nil
    with n show ?thesis by (simp add: QUOTE_def)
  next
    case (Cons y ys)
    with 5 n have "parse_elems m (print_elems (y # ys) @ rest) = Some (y # ys, rest)" by simp
    with Cons n "5.prems"(1) show ?thesis
      using parse_value_arr [of y ys m rest] by simp
  qed
next
  case (6 fs)
  then obtain m where n: "n = Suc m" "ffuel fs \<le> m" by (cases n) auto
  show ?case
  proof (cases fs)
    case Nil
    with n show ?thesis by (simp add: QUOTE_def)
  next
    case (Cons g gs)
    with 6 n have "parse_fields m (print_fields (g # gs) @ rest) = Some (g # gs, rest)" by simp
    with Cons n show ?thesis using parse_value_obj [of m g gs rest] by simp
  qed
next
  case 7
  then show ?case by simp
next
  case (8 x)
  then obtain m where n: "n = Suc m" "jfuel x \<le> m" by (cases n) auto
  with 8 have "parse_value m (print_json x @ CHR '']'' # rest) = Some (x, CHR '']'' # rest)" by simp
  with n show ?case by simp
next
  case (9 x y xs)
  then obtain m where n: "n = Suc m" "jfuel x \<le> m" "efuel (y # xs) \<le> m" by (cases n) auto
  with 9 have "parse_value m (print_json x @ CHR '','' # print_elems (y # xs) @ rest)
      = Some (x, CHR '','' # print_elems (y # xs) @ rest)" by simp
  moreover from 9 n have "parse_elems m (print_elems (y # xs) @ rest) = Some (y # xs, rest)" by simp
  ultimately show ?case using n by simp
next
  case 10
  then show ?case by simp
next
  case (11 k v)
  then obtain m where n: "n = Suc m" "jfuel v \<le> m" by (cases n) auto
  with 11 have "parse_value m (print_json v @ CHR ''}'' # rest) = Some (v, CHR ''}'' # rest)" by simp
  with n show ?case by (simp add: print_string_def lex_string_print)
next
  case (12 k v f fs)
  then obtain m where n: "n = Suc m" "jfuel v \<le> m" "ffuel (f # fs) \<le> m" by (cases n) auto
  with 12 have "parse_value m (print_json v @ CHR '','' # print_fields (f # fs) @ rest)
      = Some (v, CHR '','' # print_fields (f # fs) @ rest)" by simp
  moreover from 12 n have "parse_fields m (print_fields (f # fs) @ rest) = Some (f # fs, rest)" by simp
  ultimately show ?case using n by (simp add: print_string_def lex_string_print)
qed

text \<open>Parsing a printed value gives it back, for every value \<open>json.Marshal\<close> can print.\<close>

lemma parse_json_print: "wf_json v \<Longrightarrow> parse_json (print_json v) = Some v"
  using parse_print(1) [of v "Suc (2 * length (print_json v))" "[]"] jfuel_bound(1) [of v]
  by (simp add: parse_json_def)

end
