(* ===== verification/Propagation.thy ===== *)
theory Propagation
  imports Kube_Objects Json_Codec
begin

text \<open>
  Label and annotation propagation (\<open>pkg/lifecycle/propagation.go\<close>): a \<open>Propagator\<close> copies the label
  and annotation keys a source object declares to a destination object, remembers in an annotation of
  the destination which keys it wrote, and removes those keys again when the source no longer has or
  declares them.
\<close>

section \<open>Definitions\<close>

definition AppliedPropagatorAnnotation :: string where
  "AppliedPropagatorAnnotation = ''greenhouse.sap/last-applied-propagator''"

definition PropagateLabelsAnnotation :: string where
  "PropagateLabelsAnnotation = ''greenhouse.sap/propagate-labels''"

definition PropagateAnnotationsAnnotation :: string where
  "PropagateAnnotationsAnnotation = ''greenhouse.sap/propagate-annotations''"

record applied_state =
  LabelKeys :: "string list"
  AnnotationKeys :: "string list"

definition empty_state :: applied_state where
  "empty_state = \<lparr>LabelKeys = [], AnnotationKeys = []\<rparr>"

text \<open>\<open>json.Marshal\<close> of the state: both fields are omitted when empty.\<close>

definition strings_field :: "string \<Rightarrow> string list \<Rightarrow> (string \<times> json) list" where
  "strings_field name xs = (if xs = [] then [] else [(name, JArr (map JStr xs))])"

definition marshal_state :: "applied_state \<Rightarrow> string" where
  "marshal_state st =
     print_json (JObj (strings_field ''labelKeys'' (LabelKeys st)
                       @ strings_field ''annotationKeys'' (AnnotationKeys st)))"

text \<open>
  \<open>json.Unmarshal\<close> into the state: field names are matched without regard to case, unknown fields are
  skipped, null is the empty list, and any other shape is an error.
\<close>

definition to_lower :: "string \<Rightarrow> string" where
  "to_lower s = map (\<lambda>c. let n = of_char c :: nat in if 65 \<le> n \<and> n \<le> 90 then char_of (n + 32) else c) s"

fun decode_string :: "json \<Rightarrow> string option" where
  "decode_string (JStr s) = Some s"
| "decode_string JNull = Some []"
| "decode_string _ = None"

fun decode_strings :: "json \<Rightarrow> string list option" where
  "decode_strings JNull = Some []"
| "decode_strings (JArr xs) = those (map decode_string xs)"
| "decode_strings _ = None"

fun decode_fields :: "(string \<times> json) list \<Rightarrow> applied_state \<Rightarrow> applied_state option" where
  "decode_fields [] st = Some st"
| "decode_fields ((k, v) # fs) st =
     (if to_lower k = ''labelkeys''
      then (case decode_strings v of None \<Rightarrow> None | Some xs \<Rightarrow> decode_fields fs (st\<lparr>LabelKeys := xs\<rparr>))
      else if to_lower k = ''annotationkeys''
      then (case decode_strings v of None \<Rightarrow> None | Some xs \<Rightarrow> decode_fields fs (st\<lparr>AnnotationKeys := xs\<rparr>))
      else decode_fields fs st)"

definition unmarshal_state :: "string \<Rightarrow> applied_state option" where
  "unmarshal_state raw =
     (case parse_json raw of
        Some (JObj fs) \<Rightarrow> decode_fields fs empty_state
      | Some JNull \<Rightarrow> Some empty_state
      | _ \<Rightarrow> None)"

text \<open>The keys a source object declares in one of its two declaration annotations.\<close>

definition keys_from_annotation :: "string \<Rightarrow> 'a object_meta_scheme \<Rightarrow> string list" where
  "keys_from_annotation name src =
     (let annotation = TrimSpace (smap_val (o_annotations src) name)
      in if annotation = [] then []
         else filter (\<lambda>k. k \<noteq> []) (map TrimSpace (split_char (CHR '','') annotation)))"

definition labelKeysToPropagate :: "'a object_meta_scheme \<Rightarrow> string list" where
  "labelKeysToPropagate src = keys_from_annotation PropagateLabelsAnnotation src"

definition annotationKeysToPropagate :: "'a object_meta_scheme \<Rightarrow> string list" where
  "annotationKeysToPropagate src = keys_from_annotation PropagateAnnotationsAnnotation src"

text \<open>The split of declared label keys into exact keys and wildcard prefixes.\<close>

definition exact_keys :: "string list \<Rightarrow> string list" where
  "exact_keys keys = filter (\<lambda>k. \<not> snd (CutSuffix k ''/*'')) keys"

definition wild_prefixes :: "string list \<Rightarrow> string list" where
  "wild_prefixes keys =
     map (\<lambda>k. fst (CutSuffix k ''/*'') @ ''/'') (filter (\<lambda>k. snd (CutSuffix k ''/*'')) keys)"

definition containsLabelToPropagate :: "string list \<Rightarrow> string smap \<Rightarrow> bool" where
  "containsLabelToPropagate keys srcLabels =
     (if keys = [] \<or> srcLabels = [] then False
      else if list_ex (\<lambda>k. smap_get srcLabels k \<noteq> None) (exact_keys keys) then True
      else if wild_prefixes keys = [] then False
      else list_ex (\<lambda>(labelKey, _). list_ex (HasPrefix labelKey) (wild_prefixes keys)) srcLabels)"

definition containsAnnotationToPropagate :: "string list \<Rightarrow> string smap \<Rightarrow> bool" where
  "containsAnnotationToPropagate keys srcAnnotations =
     list_ex (\<lambda>k. smap_get srcAnnotations k \<noteq> None) keys"

definition getAppliedState :: "'a object_meta_scheme \<Rightarrow> applied_state" where
  "getAppliedState dst =
     (let raw = smap_val (o_annotations dst) AppliedPropagatorAnnotation
      in if raw = [] then empty_state
         else (case unmarshal_state raw of None \<Rightarrow> empty_state | Some st \<Rightarrow> st))"

definition storeAppliedState :: "applied_state \<Rightarrow> 'a object_meta_scheme \<Rightarrow> 'a object_meta_scheme" where
  "storeAppliedState st dst =
     dst\<lparr>o_annotations := smap_set AppliedPropagatorAnnotation (marshal_state st) (o_annotations dst)\<rparr>"

definition removeAppliedState :: "'a object_meta_scheme \<Rightarrow> 'a object_meta_scheme" where
  "removeAppliedState dst =
     dst\<lparr>o_annotations := smap_del AppliedPropagatorAnnotation (o_annotations dst)\<rparr>"

text \<open>
  The three loops of \<open>syncTargetLabels\<close>: copy the exact keys, copy the source labels a wildcard
  matches, and delete what was applied before but not now.
\<close>

fun copy_exact :: "string smap \<Rightarrow> string list \<Rightarrow> string smap \<times> string list \<Rightarrow> string smap \<times> string list" where
  "copy_exact src [] acc = acc"
| "copy_exact src (k # ks) (dst, applied) =
     copy_exact src ks
       (case smap_get src k of
          Some v \<Rightarrow> (smap_set k v dst, applied @ [k])
        | None \<Rightarrow> (dst, applied))"

fun copy_wild ::
  "string list \<Rightarrow> string list \<Rightarrow> string smap \<Rightarrow> string smap \<times> string list \<Rightarrow> string smap \<times> string list" where
  "copy_wild exact wild [] acc = acc"
| "copy_wild exact wild ((k, v) # src) (dst, applied) =
     copy_wild exact wild src
       (if list_ex (HasPrefix k) wild
        then (smap_set k v dst, if k \<in> set exact then applied else applied @ [k])
        else (dst, applied))"

definition syncTargetLabels ::
  "applied_state \<Rightarrow> string list \<Rightarrow> string smap \<Rightarrow> string smap \<Rightarrow> string list \<times> string smap" where
  "syncTargetLabels st keys srcLabels dstLabels =
     (let exact = exact_keys keys; wild = wild_prefixes keys
      in case copy_wild exact wild srcLabels (copy_exact srcLabels exact (dstLabels, [])) of
           (dst, appliedNow) \<Rightarrow>
             (appliedNow, fold smap_del (filter (\<lambda>prev. prev \<notin> set appliedNow) (LabelKeys st)) dst))"

definition syncTargetAnnotations ::
  "applied_state \<Rightarrow> string list \<Rightarrow> string smap \<Rightarrow> string smap \<Rightarrow> string list \<times> string smap" where
  "syncTargetAnnotations st keys srcAnn dstAnn =
     (case copy_exact srcAnn keys (dstAnn, []) of
        (dst, appliedNow) \<Rightarrow>
          (appliedNow,
           fold smap_del (filter (\<lambda>k. k \<notin> set keys \<or> smap_val srcAnn k = []) (AnnotationKeys st)) dst))"

definition cleanupTargetLabels :: "applied_state \<Rightarrow> string smap \<Rightarrow> string smap" where
  "cleanupTargetLabels st dstLabels = fold smap_del (LabelKeys st) dstLabels"

definition cleanupTargetAnnotations :: "applied_state \<Rightarrow> string smap \<Rightarrow> string smap" where
  "cleanupTargetAnnotations st dstAnn = fold smap_del (AnnotationKeys st) dstAnn"

definition applyLabels ::
  "applied_state \<Rightarrow> string list \<Rightarrow> string smap \<Rightarrow> string smap \<Rightarrow> string list \<times> string smap" where
  "applyLabels st labelKeys srcLabels dstLabels =
     (if labelKeys = [] \<or> \<not> containsLabelToPropagate labelKeys srcLabels
      then ([], cleanupTargetLabels st dstLabels)
      else syncTargetLabels st labelKeys srcLabels dstLabels)"

definition applyAnnotations ::
  "applied_state \<Rightarrow> string list \<Rightarrow> string smap \<Rightarrow> string smap \<Rightarrow> string list \<times> string smap" where
  "applyAnnotations st annotationKeys srcAnn dstAnn =
     (if annotationKeys = [] \<or> \<not> containsAnnotationToPropagate annotationKeys srcAnn
      then ([], cleanupTargetAnnotations st dstAnn)
      else syncTargetAnnotations st annotationKeys srcAnn dstAnn)"

text \<open>
  \<open>Propagator.Apply\<close>. The helpers read the applied state from the destination's annotations before
  anything is written to them, so both use the state of the destination as it was given.
\<close>

definition Apply :: "'a object_meta_scheme \<Rightarrow> 'b object_meta_scheme \<Rightarrow> 'b object_meta_scheme" where
  "Apply src dst =
     (let st = getAppliedState dst;
          labelKeys = labelKeysToPropagate src;
          annotationKeys = annotationKeysToPropagate src
      in case applyLabels st labelKeys (o_labels src) (o_labels dst) of
           (appliedLabelKeys, dstLabels) \<Rightarrow>
         (case applyAnnotations st annotationKeys (o_annotations src) (o_annotations dst) of
           (appliedAnnotationKeys, dstAnnotations) \<Rightarrow>
             (let dst' = dst\<lparr>o_labels := dstLabels, o_annotations := dstAnnotations\<rparr>
              in if appliedLabelKeys \<noteq> [] \<or> appliedAnnotationKeys \<noteq> []
                 then storeAppliedState
                        \<lparr>LabelKeys = appliedLabelKeys, AnnotationKeys = appliedAnnotationKeys\<rparr> dst'
                 else removeAppliedState dst')))"

text \<open>\<open>Propagator.CopyLabels\<close>: the same copy loops without tracking.\<close>

definition copyLabels :: "string list \<Rightarrow> string smap \<Rightarrow> string smap \<Rightarrow> string smap" where
  "copyLabels keys srcLabels dstLabels =
     fst (copy_wild (exact_keys keys) (wild_prefixes keys) srcLabels
            (copy_exact srcLabels (exact_keys keys) (dstLabels, [])))"

definition CopyLabels ::
  "string list \<Rightarrow> 'a object_meta_scheme \<Rightarrow> 'b object_meta_scheme \<Rightarrow> 'b object_meta_scheme" where
  "CopyLabels labelKeys src dst =
     (if labelKeys = [] then dst
      else dst\<lparr>o_labels := copyLabels labelKeys (o_labels src) (o_labels dst)\<rparr>)"

section \<open>The stored state is readable\<close>

lemma those_map_JStr: "those (map (decode_string \<circ> JStr) xs) = Some xs"
  by (induction xs) auto

lemma list_all_map_JStr: "list_all wf_json (map JStr xs)"
  by (induction xs) auto

lemma to_lower_names [simp]:
  "to_lower ''labelKeys'' = ''labelkeys''" "to_lower ''annotationKeys'' = ''annotationkeys''"
  by (simp_all add: to_lower_def char_of_def bit_simps)

lemma unmarshal_marshal: "unmarshal_state (marshal_state st) = Some st"
proof -
  have "parse_json (marshal_state st) = Some (JObj (strings_field ''labelKeys'' (LabelKeys st)
      @ strings_field ''annotationKeys'' (AnnotationKeys st)))"
    unfolding marshal_state_def by (rule parse_json_print) (simp add: strings_field_def list_all_map_JStr)
  then show ?thesis
    by (cases st) (auto simp: unmarshal_state_def strings_field_def empty_state_def those_map_JStr)
qed

lemma marshal_state_not_Nil: "marshal_state st \<noteq> []"
  by (simp add: marshal_state_def)

section \<open>The copy loops\<close>

lemma copy_exact_applied:
  "snd (copy_exact src ks (dst, applied)) = applied @ filter (\<lambda>k. smap_get src k \<noteq> None) ks"
  by (induction ks arbitrary: dst applied) (auto split: option.splits)

lemma copy_exact_get:
  "smap_get (fst (copy_exact src ks (dst, applied))) k =
     (if k \<in> set ks \<and> smap_get src k \<noteq> None then smap_get src k else smap_get dst k)"
  by (induction ks arbitrary: dst applied) (auto simp: sm.get_upd split: option.splits)

lemma copy_wild_applied:
  "snd (copy_wild exact wild src (dst, applied)) =
     applied @ map fst (filter (\<lambda>(k, v). list_ex (HasPrefix k) wild \<and> k \<notin> set exact) src)"
  by (induction src arbitrary: dst applied) (auto split: prod.splits)

lemma copy_wild_get:
  "smap_ok src \<Longrightarrow> smap_get (fst (copy_wild exact wild src (dst, applied))) k =
     (if smap_get src k \<noteq> None \<and> list_ex (HasPrefix k) wild then smap_get src k else smap_get dst k)"
proof (induction src arbitrary: dst applied)
  case (Cons e src)
  obtain k' v where e: "e = (k', v)" by (cases e)
  with Cons.prems have ok: "smap_ok src" and new: "smap_get src k' = None"
    by (auto simp: smap_ok_def smap_get_None_iff)
  show ?case
    using Cons.IH [OF ok] new by (auto simp: e smap_get_Cons sm.get_upd)
qed simp

section \<open>Correctness of propagation\<close>

text \<open>The label keys a source object propagates: present, and declared exactly or by a wildcard.\<close>

definition propagates_label :: "'a object_meta_scheme \<Rightarrow> string \<Rightarrow> bool" where
  "propagates_label src k \<longleftrightarrow>
     smap_get (o_labels src) k \<noteq> None \<and>
     (k \<in> set (exact_keys (labelKeysToPropagate src)) \<or>
      list_ex (HasPrefix k) (wild_prefixes (labelKeysToPropagate src)))"

definition propagates_annotation :: "'a object_meta_scheme \<Rightarrow> string \<Rightarrow> bool" where
  "propagates_annotation src k \<longleftrightarrow>
     smap_get (o_annotations src) k \<noteq> None \<and> k \<in> set (annotationKeysToPropagate src)"

lemma list_ex_wild_src:
  "smap_get src k \<noteq> None \<Longrightarrow> P k \<Longrightarrow> list_ex (\<lambda>(k, _). P k) src"
  by (auto simp: list_ex_iff dest!: smap_get_in_set)

lemma containsLabelToPropagate_iff:
  "containsLabelToPropagate keys src \<longleftrightarrow>
     (\<exists>k. smap_get src k \<noteq> None \<and>
        (k \<in> set (exact_keys keys) \<or> list_ex (HasPrefix k) (wild_prefixes keys)))"
proof
  assume "containsLabelToPropagate keys src"
  then show "\<exists>k. smap_get src k \<noteq> None \<and>
      (k \<in> set (exact_keys keys) \<or> list_ex (HasPrefix k) (wild_prefixes keys))"
    by (auto simp: containsLabelToPropagate_def list_ex_iff smap_get_None_iff split: if_splits)
      (metis fst_conv image_eqI)
next
  assume "\<exists>k. smap_get src k \<noteq> None \<and>
      (k \<in> set (exact_keys keys) \<or> list_ex (HasPrefix k) (wild_prefixes keys))"
  then obtain k where k: "smap_get src k \<noteq> None"
    and d: "k \<in> set (exact_keys keys) \<or> list_ex (HasPrefix k) (wild_prefixes keys)" by blast
  from d have "keys \<noteq> []" by (auto simp: exact_keys_def wild_prefixes_def)
  moreover from k have "src \<noteq> []" by auto
  moreover have "list_ex (\<lambda>k. smap_get src k \<noteq> None) (exact_keys keys) \<or>
      (wild_prefixes keys \<noteq> [] \<and> list_ex (\<lambda>(k, _). list_ex (HasPrefix k) (wild_prefixes keys)) src)"
    using d k list_ex_wild_src [of src k "\<lambda>k. list_ex (HasPrefix k) (wild_prefixes keys)"]
    by (auto simp: list_ex_iff)
  ultimately show "containsLabelToPropagate keys src"
    by (auto simp: containsLabelToPropagate_def)
qed

lemma syncTargetLabels_applied:
  "fst (syncTargetLabels st keys src dst) =
     filter (\<lambda>k. smap_get src k \<noteq> None) (exact_keys keys) @
     map fst (filter (\<lambda>(k, v). list_ex (HasPrefix k) (wild_prefixes keys) \<and> k \<notin> set (exact_keys keys)) src)"
proof -
  obtain d ap where ce: "copy_exact src (exact_keys keys) (dst, []) = (d, ap)" by force
  obtain d' ap' where cw: "copy_wild (exact_keys keys) (wild_prefixes keys) src (d, ap) = (d', ap')" by force
  show ?thesis
    using copy_exact_applied [of src "exact_keys keys" dst "[]"] ce
      copy_wild_applied [of "exact_keys keys" "wild_prefixes keys" src d ap] cw
    by (simp add: syncTargetLabels_def Let_def)
qed

text \<open>The keys applied in a run do not depend on the destination or on earlier runs.\<close>

lemma applyLabels_applied:
  "set (fst (applyLabels st keys src dst)) =
     {k. smap_get src k \<noteq> None \<and>
        (k \<in> set (exact_keys keys) \<or> list_ex (HasPrefix k) (wild_prefixes keys))}"
proof (cases "containsLabelToPropagate keys src")
  case False
  then show ?thesis
    unfolding containsLabelToPropagate_iff by (auto simp: applyLabels_def containsLabelToPropagate_iff)
next
  case True
  then have keys: "keys \<noteq> []" by (auto simp: containsLabelToPropagate_def)
  let ?wild = "map fst (filter (\<lambda>(k, v). list_ex (HasPrefix k) (wild_prefixes keys) \<and>
           k \<notin> set (exact_keys keys)) src)"
  have w: "set ?wild = {k. smap_get src k \<noteq> None \<and> list_ex (HasPrefix k) (wild_prefixes keys) \<and>
           k \<notin> set (exact_keys keys)}"
    by (auto simp: smap_get_None_iff)
  have "set (fst (applyLabels st keys src dst))
      = {k \<in> set (exact_keys keys). smap_get src k \<noteq> None} \<union> set ?wild"
    using True keys by (simp add: applyLabels_def syncTargetLabels_applied del: set_map)
  then show ?thesis unfolding w by auto
qed

lemma applyLabels_applied_indep:
  "fst (applyLabels st keys src dst) = fst (applyLabels st' keys src dst')"
  by (simp add: applyLabels_def syncTargetLabels_applied)

lemma applyAnnotations_applied:
  "fst (applyAnnotations st keys src dst) = filter (\<lambda>k. smap_get src k \<noteq> None) keys"
proof (cases "containsAnnotationToPropagate keys src")
  case False
  then have "filter (\<lambda>k. smap_get src k \<noteq> None) keys = []"
    by (auto simp: containsAnnotationToPropagate_def list_ex_iff filter_empty_conv)
  with False show ?thesis by (simp add: applyAnnotations_def)
next
  case True
  then have "keys \<noteq> []" by (auto simp: containsAnnotationToPropagate_def)
  with True show ?thesis
    using copy_exact_applied [of src keys dst "[]"]
    by (auto simp: applyAnnotations_def syncTargetAnnotations_def split: prod.splits)
qed

lemma applyLabels_get:
  assumes "smap_ok src"
  shows "smap_get (snd (applyLabels st keys src dst)) k =
     (if k \<in> set (fst (applyLabels st keys src dst)) then smap_get src k
      else if k \<in> set (LabelKeys st) then None else smap_get dst k)"
proof (cases "keys = [] \<or> \<not> containsLabelToPropagate keys src")
  case True
  then show ?thesis by (simp add: applyLabels_def cleanupTargetLabels_def sm.get_fold_del)
next
  case False
  obtain d ap where ce: "copy_exact src (exact_keys keys) (dst, []) = (d, ap)" by force
  obtain d' ap' where cw: "copy_wild (exact_keys keys) (wild_prefixes keys) src (d, ap) = (d', ap')" by force
  from False have out: "applyLabels st keys src dst =
      (ap', fold smap_del (filter (\<lambda>prev. prev \<notin> set ap') (LabelKeys st)) d')"
    by (simp add: applyLabels_def syncTargetLabels_def ce cw)
  have "smap_get d' k = (if k \<in> set ap' then smap_get src k else smap_get dst k)"
    using copy_wild_get [OF assms, of "exact_keys keys" "wild_prefixes keys" d ap k] cw
      copy_exact_get [of src "exact_keys keys" dst "[]" k] ce
      applyLabels_applied [of st keys src dst] by (auto simp: out)
  then show ?thesis by (simp add: out sm.get_fold_del)
qed

lemma applyAnnotations_get:
  "smap_get (snd (applyAnnotations st keys src dst)) k =
     (if k \<in> set keys \<and> smap_get src k \<noteq> None
      then (if k \<in> set (AnnotationKeys st) \<and> smap_get src k = Some [] then None else smap_get src k)
      else if k \<in> set (AnnotationKeys st) then None else smap_get dst k)"
proof (cases "keys = [] \<or> \<not> containsAnnotationToPropagate keys src")
  case True
  then have "\<not> (k \<in> set keys \<and> smap_get src k \<noteq> None)"
    by (auto simp: containsAnnotationToPropagate_def list_ex_iff)
  with True show ?thesis
    by (auto simp: applyAnnotations_def cleanupTargetAnnotations_def sm.get_fold_del)
next
  case False
  obtain d ap where ce: "copy_exact src keys (dst, []) = (d, ap)" by force
  with False show ?thesis
    using copy_exact_get [of src keys dst "[]" k]
    by (auto simp: applyAnnotations_def syncTargetAnnotations_def sm.get_fold_del smap_val_get
        split: option.splits)
qed

text \<open>The tracking annotation after a run holds exactly what the run applied.\<close>

definition appliedLabels :: "'a object_meta_scheme \<Rightarrow> string list" where
  "appliedLabels src = fst (applyLabels empty_state (labelKeysToPropagate src) (o_labels src) [])"

definition appliedAnnotations :: "'a object_meta_scheme \<Rightarrow> string list" where
  "appliedAnnotations src =
     filter (\<lambda>k. smap_get (o_annotations src) k \<noteq> None) (annotationKeysToPropagate src)"

lemma set_appliedLabels: "k \<in> set (appliedLabels src) \<longleftrightarrow> propagates_label src k"
  by (simp add: appliedLabels_def applyLabels_applied propagates_label_def)

lemma set_appliedAnnotations: "k \<in> set (appliedAnnotations src) \<longleftrightarrow> propagates_annotation src k"
  by (auto simp: appliedAnnotations_def propagates_annotation_def)

lemma Apply_alt:
  "Apply src dst =
     (let st = getAppliedState dst;
          dst' = dst\<lparr>o_labels := snd (applyLabels st (labelKeysToPropagate src) (o_labels src) (o_labels dst)),
                     o_annotations := snd (applyAnnotations st (annotationKeysToPropagate src)
                                             (o_annotations src) (o_annotations dst))\<rparr>
      in if appliedLabels src \<noteq> [] \<or> appliedAnnotations src \<noteq> []
         then storeAppliedState
                \<lparr>LabelKeys = appliedLabels src, AnnotationKeys = appliedAnnotations src\<rparr> dst'
         else removeAppliedState dst')"
proof -
  have l: "fst (applyLabels st (labelKeysToPropagate src) (o_labels src) d) = appliedLabels src" for st d
    unfolding appliedLabels_def by (rule applyLabels_applied_indep)
  have a: "fst (applyAnnotations st (annotationKeysToPropagate src) (o_annotations src) d)
      = appliedAnnotations src" for st d
    by (simp add: applyAnnotations_applied appliedAnnotations_def)
  show ?thesis
    unfolding Apply_def Let_def case_prod_beta l a by (rule refl)
qed

lemma getAppliedState_Apply:
  "getAppliedState (Apply src dst) =
     \<lparr>LabelKeys = appliedLabels src, AnnotationKeys = appliedAnnotations src\<rparr>"
  by (simp add: Apply_alt Let_def getAppliedState_def storeAppliedState_def removeAppliedState_def
      smap_val_get sm.get_upd sm.get_del unmarshal_marshal marshal_state_not_Nil empty_state_def)

lemma Apply_labels_get:
  assumes "smap_ok (o_labels src)"
  shows "smap_get (o_labels (Apply src dst)) k =
     (if propagates_label src k then smap_get (o_labels src) k
      else if k \<in> set (LabelKeys (getAppliedState dst)) then None
      else smap_get (o_labels dst) k)"
  using applyLabels_get [OF assms, of "getAppliedState dst" "labelKeysToPropagate src" "o_labels dst" k]
  by (simp add: Apply_alt Let_def storeAppliedState_def removeAppliedState_def
      applyLabels_applied propagates_label_def)

lemma Apply_annotations_get:
  assumes "k \<noteq> AppliedPropagatorAnnotation"
  shows "smap_get (o_annotations (Apply src dst)) k =
     (if propagates_annotation src k
      then (if k \<in> set (AnnotationKeys (getAppliedState dst)) \<and> smap_get (o_annotations src) k = Some []
            then None else smap_get (o_annotations src) k)
      else if k \<in> set (AnnotationKeys (getAppliedState dst)) then None
      else smap_get (o_annotations dst) k)"
  using assms
  by (simp add: Apply_alt Let_def storeAppliedState_def removeAppliedState_def sm.get_upd sm.get_del
      applyAnnotations_get propagates_annotation_def)

text \<open>
  C2. What \<open>Apply\<close> does to the labels of the destination: a label the source has and declares, exactly
  or by a wildcard, gets the source's value; a label an earlier run propagated and this one does not
  is removed; every other label of the destination is untouched.
\<close>

theorem Apply_labels:
  assumes "smap_ok (o_labels src)"
  shows "smap_get (o_labels (Apply src dst)) k =
     (if propagates_label src k then smap_get (o_labels src) k
      else if k \<in> set (LabelKeys (getAppliedState dst)) then None
      else smap_get (o_labels dst) k)"
  by (rule Apply_labels_get [OF assms])

definition demo_src :: object_meta where
  "demo_src = (sample_meta ''src'')\<lparr>
     o_labels := [(''meta/a'', ''1''), (''team'', ''x''), (''other'', ''y'')],
     o_annotations := [(PropagateLabelsAnnotation, '' meta/* , team'')]\<rparr>"

definition demo_dst :: object_meta where
  "demo_dst = (sample_meta ''dst'')\<lparr>
     o_labels := [(''old'', ''gone''), (''own'', ''kept'')],
     o_annotations := [(AppliedPropagatorAnnotation, marshal_state \<lparr>LabelKeys = [''old''], AnnotationKeys = []\<rparr>)]\<rparr>"

theorem Apply_labels_witness:
  "smap_get (o_labels (Apply demo_src demo_dst)) ''meta/a'' = Some ''1'' \<and>
   smap_get (o_labels (Apply demo_src demo_dst)) ''old'' = None \<and>
   smap_get (o_labels (Apply demo_src demo_dst)) ''own'' = Some ''kept''"
proof -
  have ok: "smap_ok (o_labels demo_src)"
    by (simp add: demo_src_def smap_ok_def)
  have st: "getAppliedState demo_dst = \<lparr>LabelKeys = [''old''], AnnotationKeys = []\<rparr>"
    by (simp add: getAppliedState_def demo_dst_def smap_simps unmarshal_marshal marshal_state_not_Nil)
  have keys: "labelKeysToPropagate demo_src = [''meta/*'', ''team'']"
    by (simp add: labelKeysToPropagate_def keys_from_annotation_def demo_src_def smap_simps
        go_strings)
  then have "propagates_label demo_src ''meta/a''" "\<not> propagates_label demo_src ''old''"
    "\<not> propagates_label demo_src ''own''"
    by (simp_all add: propagates_label_def demo_src_def smap_simps exact_keys_def wild_prefixes_def
        go_strings)
  then show ?thesis
    using Apply_labels [OF ok, of demo_dst "''meta/a''"] Apply_labels [OF ok, of demo_dst "''old''"]
      Apply_labels [OF ok, of demo_dst "''own''"]
    by (simp add: st) (simp add: demo_src_def demo_dst_def smap_simps)
qed

text \<open>
  The same for annotations other than the tracking annotation itself, with the one difference the
  code makes: a propagated annotation whose source value is the empty string is deleted from the
  destination if an earlier run had propagated it.
\<close>

theorem Apply_annotations:
  assumes "k \<noteq> AppliedPropagatorAnnotation"
  shows "smap_get (o_annotations (Apply src dst)) k =
     (if propagates_annotation src k
      then (if k \<in> set (AnnotationKeys (getAppliedState dst)) \<and> smap_get (o_annotations src) k = Some []
            then None else smap_get (o_annotations src) k)
      else if k \<in> set (AnnotationKeys (getAppliedState dst)) then None
      else smap_get (o_annotations dst) k)"
  by (rule Apply_annotations_get [OF assms])

theorem Apply_annotations_witness:
  "smap_get (o_annotations (Apply (demo_src\<lparr>o_annotations :=
       [(PropagateAnnotationsAnnotation, ''note''), (''note'', ''v'')]\<rparr>) demo_dst)) ''note'' = Some ''v''"
proof -
  let ?src = "demo_src\<lparr>o_annotations := [(PropagateAnnotationsAnnotation, ''note''), (''note'', ''v'')]\<rparr>"
  have ne: "''note'' \<noteq> AppliedPropagatorAnnotation" by (simp add: AppliedPropagatorAnnotation_def)
  have "propagates_annotation ?src ''note''"
    by (simp add: propagates_annotation_def annotationKeysToPropagate_def keys_from_annotation_def
        smap_simps PropagateAnnotationsAnnotation_def go_strings)
  then show ?thesis
    using Apply_annotations [OF ne, of ?src demo_dst]
    by (simp add: smap_simps PropagateAnnotationsAnnotation_def)
qed

text \<open>
  The tracking annotation is a faithful memory of the run: what the next run reads back from the
  destination is exactly the keys this run propagated, whatever was stored there before.
\<close>

theorem Apply_tracks:
  "set (LabelKeys (getAppliedState (Apply src dst))) = {k. propagates_label src k} \<and>
   set (AnnotationKeys (getAppliedState (Apply src dst))) = {k. propagates_annotation src k}"
  by (auto simp add: getAppliedState_Apply set_appliedLabels set_appliedAnnotations)

text \<open>
  \<open>Apply\<close> is idempotent, as its comment promises, for sources that declare no annotation with an
  empty value: a second run leaves labels and annotations as they are.
\<close>

theorem Apply_idempotent:
  assumes ok: "smap_ok (o_labels src)"
    and ne: "\<And>k. propagates_annotation src k \<Longrightarrow> smap_get (o_annotations src) k \<noteq> Some []"
  shows "smap_get (o_labels (Apply src (Apply src dst))) = smap_get (o_labels (Apply src dst)) \<and>
    smap_get (o_annotations (Apply src (Apply src dst))) = smap_get (o_annotations (Apply src dst))"
proof (intro conjI ext)
  fix k
  show "smap_get (o_labels (Apply src (Apply src dst))) k = smap_get (o_labels (Apply src dst)) k"
    by (simp add: Apply_labels_get [OF ok] getAppliedState_Apply set_appliedLabels)
  show "smap_get (o_annotations (Apply src (Apply src dst))) k = smap_get (o_annotations (Apply src dst)) k"
  proof (cases "k = AppliedPropagatorAnnotation")
    case True
    then show ?thesis
      by (simp add: Apply_alt Let_def storeAppliedState_def removeAppliedState_def sm.get_upd sm.get_del)
  next
    case False
    then show ?thesis
      using ne [of k]
      by (simp add: Apply_annotations_get getAppliedState_Apply set_appliedAnnotations)
  qed
qed

theorem Apply_idempotent_witness:
  "smap_get (o_labels (Apply demo_src (Apply demo_src demo_dst))) = smap_get (o_labels (Apply demo_src demo_dst)) \<and>
   smap_get (o_annotations (Apply demo_src (Apply demo_src demo_dst))) = smap_get (o_annotations (Apply demo_src demo_dst))"
  by (rule Apply_idempotent)
    (simp_all add: demo_src_def smap_ok_def propagates_annotation_def annotationKeysToPropagate_def
      keys_from_annotation_def smap_simps PropagateLabelsAnnotation_def PropagateAnnotationsAnnotation_def)

text \<open>
  Without that restriction \<open>Apply\<close> is not idempotent: a declared annotation with an empty value is
  copied by the first run and deleted again by the second.
\<close>

theorem Apply_not_idempotent:
  "\<exists>(src :: object_meta) (dst :: object_meta) k.
     smap_get (o_annotations (Apply src dst)) k = Some [] \<and>
     smap_get (o_annotations (Apply src (Apply src dst))) k = None"
proof (intro exI conjI)
  let ?src = "(sample_meta ''src'')\<lparr>o_annotations := [(PropagateAnnotationsAnnotation, ''note''), (''note'', [])]\<rparr>"
  let ?dst = "sample_meta ''dst''"
  have ne: "''note'' \<noteq> AppliedPropagatorAnnotation" by (simp add: AppliedPropagatorAnnotation_def)
  have p: "propagates_annotation ?src ''note''"
    by (simp add: propagates_annotation_def annotationKeysToPropagate_def keys_from_annotation_def
        smap_simps PropagateAnnotationsAnnotation_def go_strings)
  have e: "getAppliedState ?dst = empty_state"
    by (simp add: getAppliedState_def sample_meta_def smap_simps)
  show "smap_get (o_annotations (Apply ?src ?dst)) ''note'' = Some []"
    using p Apply_annotations_get [OF ne, of ?src ?dst]
    by (simp add: e empty_state_def smap_simps PropagateAnnotationsAnnotation_def)
  show "smap_get (o_annotations (Apply ?src (Apply ?src ?dst))) ''note'' = None"
    using p Apply_annotations_get [OF ne, of ?src "Apply ?src ?dst"]
    by (simp add: getAppliedState_Apply set_appliedAnnotations smap_simps
        PropagateAnnotationsAnnotation_def)
qed

text \<open>
  \<open>CopyLabels\<close> overwrites exactly the labels the given keys select in the source and leaves all
  other labels of the destination, and everything else of it, alone.
\<close>

theorem CopyLabels_get:
  assumes "smap_ok (o_labels src)"
  shows "smap_get (o_labels (CopyLabels keys src dst)) k =
     (if smap_get (o_labels src) k \<noteq> None \<and>
         (k \<in> set (exact_keys keys) \<or> list_ex (HasPrefix k) (wild_prefixes keys))
      then smap_get (o_labels src) k else smap_get (o_labels dst) k)
   \<and> (CopyLabels keys src dst)\<lparr>o_labels := o_labels dst\<rparr> = dst"
proof -
  obtain d ap where ce: "copy_exact (o_labels src) (exact_keys keys) (o_labels dst, []) = (d, ap)" by force
  show ?thesis
    using copy_wild_get [OF assms, of "exact_keys keys" "wild_prefixes keys" d ap k] ce
      copy_exact_get [of "o_labels src" "exact_keys keys" "o_labels dst" "[]" k]
    by (auto simp: CopyLabels_def copyLabels_def exact_keys_def wild_prefixes_def)
qed

theorem CopyLabels_get_witness:
  "smap_get (o_labels (CopyLabels [''meta/*''] demo_src demo_dst)) ''meta/a'' = Some ''1''"
proof -
  have "smap_ok (o_labels demo_src)" by (simp add: demo_src_def smap_ok_def)
  from CopyLabels_get [OF this, of "[''meta/*'']" demo_dst "''meta/a''"] show ?thesis
    by (simp add: demo_src_def smap_simps exact_keys_def wild_prefixes_def go_strings)
qed

end
