(* ===== verification/Core_Types.thy ===== *)
theory Core_Types
  imports Lifecycle
begin

text \<open>
  The resource types the core of the operator works on (\<open>api/well_known.go\<close>, \<open>api/v1alpha1\<close>,
  \<open>api/v1alpha2\<close>): well-known label keys, Cluster, Team, TeamRole and Organization. Each type is a
  record that extends the object metadata, or the runtime object when its status has conditions.
  The methods \<open>GetConditions\<close>, \<open>SetCondition\<close> and \<open>RemoveCondition\<close> of these types are the ones of
  \<open>Lifecycle\<close>; none of the types of this theory can be suspended.
\<close>

section \<open>Well-known names\<close>

definition GroupName :: string where "GroupName = ''greenhouse.sap''"
definition SecretTypeKubeConfig :: string where "SecretTypeKubeConfig = ''greenhouse.sap/kubeconfig''"
definition SecretTypeOIDCConfig :: string where "SecretTypeOIDCConfig = ''greenhouse.sap/oidc''"
definition SecretTypeOrganization :: string where "SecretTypeOrganization = ''greenhouse.sap/orgsecret''"
definition KubeConfigKey :: string where "KubeConfigKey = ''kubeconfig''"
definition GreenHouseKubeConfigKey :: string where "GreenHouseKubeConfigKey = ''greenhousekubeconfig''"
definition LabelKeyPluginPreset :: string where "LabelKeyPluginPreset = ''greenhouse.sap/pluginpreset''"
definition LabelKeyPluginDefinition :: string where
  "LabelKeyPluginDefinition = ''greenhouse.sap/plugindefinition''"
definition LabelKeyClusterPluginDefinition :: string where
  "LabelKeyClusterPluginDefinition = ''greenhouse.sap/clusterplugindefinition''"
definition LabelKeyPlugin :: string where "LabelKeyPlugin = ''greenhouse.sap/plugin''"
definition LabelKeyMetadataPrefix :: string where "LabelKeyMetadataPrefix = ''metadata.greenhouse.sap/''"
definition DeletionPolicyRetain :: string where "DeletionPolicyRetain = ''Retain''"
definition LabelKeyCluster :: string where "LabelKeyCluster = ''greenhouse.sap/cluster''"
definition LabelKeyOwnedBy :: string where "LabelKeyOwnedBy = ''greenhouse.sap/owned-by''"
definition LabelKeyRoleBinding :: string where "LabelKeyRoleBinding = ''greenhouse.sap/rolebinding''"
definition LabelKeyRole :: string where "LabelKeyRole = ''greenhouse.sap/role''"
definition RBACPrefix :: string where "RBACPrefix = ''greenhouse:''"
definition LabelKeySupportGroup :: string where "LabelKeySupportGroup = ''greenhouse.sap/support-group''"
definition SecretAPIServerURLAnnotation :: string where
  "SecretAPIServerURLAnnotation = ''oidc.greenhouse.sap/api-server-url''"
definition SecretAPIServerCAKey :: string where "SecretAPIServerCAKey = ''ca.crt''"

section \<open>Label selectors\<close>

text \<open>
  \<open>metav1.LabelSelector\<close>. Turning it into a selector and matching it against labels is code of
  Kubernetes and a parameter where it is used.
\<close>

record label_requirement =
  lr_key :: string
  lr_operator :: string
  lr_values :: "string list"

record label_selector =
  ls_matchLabels :: "string smap"
  ls_matchExpressions :: "label_requirement list"

definition selector_empty :: "label_selector \<Rightarrow> bool" where
  "selector_empty ls \<longleftrightarrow> length (ls_matchLabels ls) = 0 \<and> length (ls_matchExpressions ls) = 0"

section \<open>Clusters\<close>

record node_status =
  ns_name :: string
  ns_message :: string
  ns_lastTransitionTime :: time

record nodes =
  n_total :: nat
  n_ready :: nat
  n_notReady :: "node_status list"

record cluster = runtime_object +
  cluster_accessMode :: string
  cluster_maxTokenValidity :: int
  cluster_kubernetesVersion :: string
  cluster_bearerTokenExpiration :: time
  cluster_nodes :: "nodes option"

definition AllNodesReady :: condition_type where "AllNodesReady = ''AllNodesReady''"
definition PayloadSchedulable :: condition_type where "PayloadSchedulable = ''PayloadSchedulable''"
definition KubeConfigValid :: condition_type where "KubeConfigValid = ''KubeConfigValid''"
definition PermissionsVerified :: condition_type where "PermissionsVerified = ''PermissionsVerified''"
definition ManagedResourcesDeployed :: condition_type where
  "ManagedResourcesDeployed = ''ManagedResourcesDeployed''"

definition ServiceProxyDisabledKey :: string where
  "ServiceProxyDisabledKey = ''greenhouse.sap/service-proxy-disabled''"

text \<open>\<open>strings.ToLower\<close> on ASCII letters, which suffices to compare with \<open>"true"\<close>.\<close>

definition ToLower :: "string \<Rightarrow> string" where
  "ToLower s = map (\<lambda>c. let n = of_char c :: nat in if 65 \<le> n \<and> n \<le> 90 then char_of (n + 32) else c) s"

text \<open>The receiver may be nil, which is \<open>None\<close> here.\<close>

definition ExposedServicesEnabled :: "'a object_meta_scheme option \<Rightarrow> bool" where
  "ExposedServicesEnabled c =
     (case c of
        None \<Rightarrow> False
      | Some cl \<Rightarrow>
          if o_annotations cl = [] then True
          else (case smap_get (o_annotations cl) ServiceProxyDisabledKey of
                  None \<Rightarrow> True
                | Some value \<Rightarrow> ToLower value \<noteq> ''true''))"

definition GetSecretName :: "cluster \<Rightarrow> string" where
  "GetSecretName c = o_name c"

definition SetDefaultTokenValidityIfNeeded :: "cluster \<Rightarrow> cluster" where
  "SetDefaultTokenValidityIfNeeded c =
     (if cluster_maxTokenValidity c \<noteq> 0 then c else c\<lparr>cluster_maxTokenValidity := 72\<rparr>)"

text \<open>\<open>clientutil.FilterClustersBeingDeleted\<close>.\<close>

definition FilterClustersBeingDeleted :: "cluster list \<Rightarrow> cluster list" where
  "FilterClustersBeingDeleted cs = DeleteFunc cs (\<lambda>c. o_deletionTimestamp c \<noteq> None)"

section \<open>Teams and team roles\<close>

record user =
  u_id :: string
  u_firstName :: string
  u_lastName :: string
  u_email :: string

record team = runtime_object +
  team_description :: string
  team_mappedIDPGroup :: string
  team_joinURL :: string
  team_members :: "user list"

text \<open>Rules and aggregation rules of Kubernetes roles.\<close>

record policy_rule =
  pr_verbs :: "string list"
  pr_apiGroups :: "string list"
  pr_resources :: "string list"
  pr_resourceNames :: "string list"
  pr_nonResourceURLs :: "string list"

record aggregation_rule =
  ar_clusterRoleSelectors :: "label_selector list"

record team_role = object_meta +
  tr_rules :: "policy_rule list"
  tr_aggregationRule :: "aggregation_rule option"
  tr_labels :: "string smap"

definition TeamRole_GetRBACName :: "team_role \<Rightarrow> string" where
  "TeamRole_GetRBACName tr = RBACPrefix @ o_name tr"

section \<open>Organizations\<close>

record secret_key_reference =
  sk_name :: string
  sk_key :: string

record value_from_source =
  vf_secret :: "secret_key_reference option"

record scim_config =
  scim_baseURL :: string
  scim_authType :: string
  scim_basicAuthUser :: "value_from_source option"
  scim_basicAuthPw :: "value_from_source option"
  scim_bearerToken :: "value_from_source option"
  scim_bearerPrefix :: string
  scim_bearerHeader :: string

record oidc_config =
  oidc_issuer :: string
  oidc_redirectURI :: string
  oidc_clientIDReference :: secret_key_reference
  oidc_clientSecretReference :: secret_key_reference
  oidc_oauth2ClientRedirectURIs :: "string list"

record authentication =
  auth_oidc :: "oidc_config option"
  auth_scim :: "scim_config option"

record organization = runtime_object +
  org_displayName :: string
  org_authentication :: "authentication option"
  org_description :: string
  org_mappedOrgAdminIDPGroup :: string
  org_configMapRef :: string

definition AuthTypeBasic :: string where "AuthTypeBasic = ''basic''"
definition AuthTypeBearerToken :: string where "AuthTypeBearerToken = ''token''"

definition GetSCIMConfig :: "organization \<Rightarrow> scim_config option" where
  "GetSCIMConfig org = (case org_authentication org of None \<Rightarrow> None | Some a \<Rightarrow> auth_scim a)"

section \<open>Secrets\<close>

record secret = object_meta +
  secret_type :: string
  secret_data :: "string smap"

text \<open>
  \<open>clientutil.IsSecretContainsKey\<close>. Values that came from the API server are never nil slices, so a
  key that is present has a value.
\<close>

definition IsSecretContainsKey :: "secret \<Rightarrow> string \<Rightarrow> bool" where
  "IsSecretContainsKey s key \<longleftrightarrow> smap_get (secret_data s) key \<noteq> None"

section \<open>Ownership\<close>

text \<open>
  \<open>util.ComputeOwnerLabelCondition\<close>: \<open>get_team\<close> is the read of a Team by namespaced name.
\<close>

definition ComputeOwnerLabelCondition ::
  "time \<Rightarrow> (namespaced_name \<Rightarrow> go_error + team) \<Rightarrow> 'a object_meta_scheme \<Rightarrow> condition" where
  "ComputeOwnerLabelCondition now get_team obj =
     (let cond = FalseCondition now OwnerLabelSetCondition in
      if o_namespace obj = []
      then cond [] ''Resource namespace is required to validate the owner''
      else (case smap_get (o_labels obj) LabelKeyOwnedBy of
              None \<Rightarrow> cond OwnerLabelMissingReason (''Label '' @ LabelKeyOwnedBy @ '' is missing'')
            | Some ownerName \<Rightarrow>
                if ownerName = []
                then cond OwnerLabelMissingReason (''Label '' @ LabelKeyOwnedBy @ '' is missing'')
                else (case get_team \<lparr>nn_namespace = o_namespace obj, nn_name = ownerName\<rparr> of
                        Inl e \<Rightarrow>
                          if IsNotFound e
                          then cond OwnerLabelSetToNotExistingTeamReason
                                 (''team '' @ ownerName @ '' does not exist in resource namespace'')
                          else cond OwnerLabelSetToNotExistingTeamReason
                                 (''team '' @ ownerName @ '' could not be retrieved'')
                      | Inr team \<Rightarrow>
                          if smap_get (o_labels team) LabelKeySupportGroup \<noteq> Some ''true''
                          then cond OwnerLabelSetToNonSupportGroupTeamReason
                                 (''owner team '' @ ownerName @ '' should be a support group'')
                          else TrueCondition now OwnerLabelSetCondition [] [])))"

text \<open>
  The abstract contract of ownership: the resource is owned by a team when its owned-by label names an
  existing support-group team in its own namespace.
\<close>

definition owned_by_support_group ::
  "(namespaced_name \<Rightarrow> go_error + team) \<Rightarrow> 'a object_meta_scheme \<Rightarrow> bool" where
  "owned_by_support_group get_team obj \<longleftrightarrow>
     o_namespace obj \<noteq> [] \<and>
     (case smap_get (o_labels obj) LabelKeyOwnedBy of
        None \<Rightarrow> False
      | Some owner \<Rightarrow> owner \<noteq> [] \<and>
          (case get_team \<lparr>nn_namespace = o_namespace obj, nn_name = owner\<rparr> of
             Inl _ \<Rightarrow> False
           | Inr team \<Rightarrow> smap_get (o_labels team) LabelKeySupportGroup = Some ''true''))"

lemma ComputeOwnerLabelCondition_type [simp]:
  "c_type (ComputeOwnerLabelCondition now get_team obj) = OwnerLabelSetCondition"
  by (simp add: ComputeOwnerLabelCondition_def condition_constructors Let_def
      split: option.split sum.split)

lemma ComputeOwnerLabelCondition_IsTrue:
  "IsTrue (ComputeOwnerLabelCondition now get_team obj) \<longleftrightarrow> owned_by_support_group get_team obj"
  by (auto simp: ComputeOwnerLabelCondition_def owned_by_support_group_def condition_constructors
      IsTrue_def Let_def split: option.split sum.split)

lemma ComputeOwnerLabelCondition_IsFalse:
  "IsFalse (ComputeOwnerLabelCondition now get_team obj) \<longleftrightarrow> \<not> owned_by_support_group get_team obj"
  by (auto simp: ComputeOwnerLabelCondition_def owned_by_support_group_def condition_constructors
      IsFalse_def Let_def split: option.split sum.split)

end
