(* ===== verification/Webhook_Common.thy ===== *)
theory Webhook_Common
  imports Core_Types
begin

text \<open>
  The admission webhook framework (\<open>internal/webhook/utils.go\<close>): the dispatch to the optional
  functions of a resource type, the shared validators, and the contract every resource type's webhook
  gives to the rest of the system. What a validator reads from the API server is a parameter \<open>'s\<close>: the
  state of the server at the time of the request.
\<close>

section \<open>Dispatch\<close>

text \<open>Admission warnings: plain texts, or the message of a field error.\<close>

type_synonym warnings = "string list"

record ('o, 's) webhook_funcs =
  DefaultFunc :: "('s \<Rightarrow> 'o \<Rightarrow> go_error option \<times> 'o) option"
  ValidateCreateFunc :: "('s \<Rightarrow> 'o \<Rightarrow> warnings \<times> go_error option) option"
  ValidateUpdateFunc :: "('s \<Rightarrow> 'o \<Rightarrow> 'o \<Rightarrow> warnings \<times> go_error option) option"
  ValidateDeleteFunc :: "('s \<Rightarrow> 'o \<Rightarrow> warnings \<times> go_error option) option"

definition webhook_Default :: "('o, 's) webhook_funcs \<Rightarrow> 's \<Rightarrow> 'o \<Rightarrow> go_error option \<times> 'o" where
  "webhook_Default w s obj = (case DefaultFunc w of None \<Rightarrow> (None, obj) | Some f \<Rightarrow> f s obj)"

definition webhook_ValidateCreate :: "('o, 's) webhook_funcs \<Rightarrow> 's \<Rightarrow> 'o \<Rightarrow> warnings \<times> go_error option" where
  "webhook_ValidateCreate w s obj = (case ValidateCreateFunc w of None \<Rightarrow> ([], None) | Some f \<Rightarrow> f s obj)"

definition webhook_ValidateUpdate ::
  "('o, 's) webhook_funcs \<Rightarrow> 's \<Rightarrow> 'o \<Rightarrow> 'o \<Rightarrow> warnings \<times> go_error option" where
  "webhook_ValidateUpdate w s old new =
     (case ValidateUpdateFunc w of None \<Rightarrow> ([], None) | Some f \<Rightarrow> f s old new)"

definition webhook_ValidateDelete :: "('o, 's) webhook_funcs \<Rightarrow> 's \<Rightarrow> 'o \<Rightarrow> warnings \<times> go_error option" where
  "webhook_ValidateDelete w s obj = (case ValidateDeleteFunc w of None \<Rightarrow> ([], None) | Some f \<Rightarrow> f s obj)"

lemmas webhook_dispatch =
  webhook_Default_def webhook_ValidateCreate_def webhook_ValidateUpdate_def webhook_ValidateDelete_def

section \<open>Shared validators\<close>

definition ValidateImmutableField :: "string \<Rightarrow> string \<Rightarrow> field_path \<Rightarrow> field_error option" where
  "ValidateImmutableField oldValue newValue path =
     (if oldValue \<noteq> newValue then Some (field_err FieldInvalid path newValue ''field is immutable'')
      else None)"

text \<open>
  \<open>url_parse\<close> is \<open>url.Parse\<close> of the package \<open>net/url\<close>, reduced to what the code reads of its result:
  nothing on an error, otherwise the scheme and the host.
\<close>

definition ValidateURL :: "(string \<Rightarrow> (string \<times> string) option) \<Rightarrow> string \<Rightarrow> bool" where
  "ValidateURL url_parse str =
     (case url_parse str of
        None \<Rightarrow> False
      | Some (scheme, host) \<Rightarrow> if scheme = [] \<or> host = [] then False else scheme = ''https'')"

definition InvalidateDoubleDashesInName :: "string \<Rightarrow> 'a object_meta_scheme \<Rightarrow> go_error option" where
  "InvalidateDoubleDashesInName kind obj =
     (if Contains (o_name obj) ''--''
      then Some (NewInvalid kind (o_name obj)
             [field_err FieldInvalid [PChild ''metadata'', PChild ''name''] (o_name obj)
                ''name cannot contain double dashes''])
      else None)"

definition CapName :: "string \<Rightarrow> 'a object_meta_scheme \<Rightarrow> nat \<Rightarrow> go_error option" where
  "CapName kind obj len =
     (if length (o_name obj) > len
      then Some (NewInvalid kind (o_name obj)
             [field_err FieldInvalid [PChild ''metadata'', PChild ''name''] (o_name obj)
                (''name must be less than or equal to '' @ Itoa len)])
      else None)"

text \<open>
  \<open>ValidateLabelOwnedBy\<close> returns the empty string when the owner is valid, and a message otherwise.
\<close>

definition owned_by_path :: field_path where
  "owned_by_path = [PChild ''metadata'', PChild ''labels'', PKey LabelKeyOwnedBy]"

definition ValidateLabelOwnedBy ::
  "(namespaced_name \<Rightarrow> go_error + team) \<Rightarrow> 'a object_meta_scheme \<Rightarrow> string" where
  "ValidateLabelOwnedBy get_team obj =
     (if o_namespace obj = []
      then field_error_string
             (field_err FieldRequired [PChild ''metadata'', PChild ''namespace''] []
                ''namespace is required to validate the owner'')
      else (case smap_get (o_labels obj) LabelKeyOwnedBy of
              None \<Rightarrow> field_error_string (field_err FieldRequired owned_by_path []
                        (''label '' @ LabelKeyOwnedBy @ '' is required''))
            | Some ownerName \<Rightarrow>
                if ownerName = []
                then field_error_string (field_err FieldRequired owned_by_path []
                       (''label '' @ LabelKeyOwnedBy @ '' value is required''))
                else (case get_team \<lparr>nn_namespace = o_namespace obj, nn_name = ownerName\<rparr> of
                        Inl e \<Rightarrow>
                          field_error_string (field_err FieldInvalid owned_by_path ownerName
                            (if IsNotFound e
                             then ''team '' @ ownerName @ '' does not exist in the resource namespace''
                             else ''team '' @ ownerName @ '' could not be retrieved: '' @ error_text e))
                      | Inr team \<Rightarrow>
                          if smap_get (o_labels team) LabelKeySupportGroup \<noteq> Some ''true''
                          then field_error_string (field_err FieldInvalid owned_by_path ownerName
                                 (''owner team '' @ ownerName @ '' should be a support group''))
                          else [])))"

lemma field_error_string_not_Nil [simp]: "field_error_string e \<noteq> []"
  by (simp add: field_error_string_def)

lemma ValidateImmutableField_None_iff [simp]: "ValidateImmutableField a b p = None \<longleftrightarrow> a = b"
  by (simp add: ValidateImmutableField_def)

lemma InvalidateDoubleDashesInName_None_iff [simp]:
  "InvalidateDoubleDashesInName k obj = None \<longleftrightarrow> \<not> Contains (o_name obj) ''--''"
  by (simp add: InvalidateDoubleDashesInName_def)

lemma CapName_None_iff [simp]: "CapName k obj n = None \<longleftrightarrow> length (o_name obj) \<le> n"
  by (auto simp: CapName_def)

text \<open>The warning and the status condition decide ownership the same way.\<close>

lemma ValidateLabelOwnedBy_iff:
  "ValidateLabelOwnedBy get_team obj = [] \<longleftrightarrow> owned_by_support_group get_team obj"
  by (auto simp: ValidateLabelOwnedBy_def owned_by_support_group_def split: option.split sum.split)

section \<open>Admitted histories\<close>

text \<open>
  The API server runs the defaulting webhook and then the validating webhook on every write, and
  stores the defaulted object if no error is returned. \<open>admitted w x y\<close>: the object was created as
  \<open>x\<close> and, after any number of accepted updates, is stored as \<open>y\<close>. Every request sees its own server
  state.
\<close>

inductive admitted :: "('o, 's) webhook_funcs \<Rightarrow> 'o \<Rightarrow> 'o \<Rightarrow> bool" for w where
  create: "webhook_Default w s req = (None, x) \<Longrightarrow> webhook_ValidateCreate w s x = (ws, None)
    \<Longrightarrow> admitted w x x"
| update: "admitted w x y \<Longrightarrow> webhook_Default w s req = (None, z)
    \<Longrightarrow> webhook_ValidateUpdate w s y z = (ws, None) \<Longrightarrow> admitted w x z"

text \<open>
  The contract of a webhook: every stored version satisfies \<open>P\<close>, and versions of one object are
  related by \<open>R\<close> (what may not change between them).
\<close>

locale webhook_contract =
  fixes w :: "('o, 's) webhook_funcs" and P :: "'o \<Rightarrow> bool" and R :: "'o \<Rightarrow> 'o \<Rightarrow> bool"
  assumes create_ok: "webhook_Default w s req = (None, x) \<Longrightarrow> webhook_ValidateCreate w s x = (ws, None) \<Longrightarrow> P x"
    and update_ok: "P y \<Longrightarrow> webhook_Default w s req = (None, z)
      \<Longrightarrow> webhook_ValidateUpdate w s y z = (ws, None) \<Longrightarrow> P z \<and> R y z"
    and R_refl: "R x x"
    and R_trans: "R x y \<Longrightarrow> R y z \<Longrightarrow> R x z"
begin

lemma admitted_contract: "admitted w x y \<Longrightarrow> P x \<and> P y \<and> R x y"
proof (induction rule: admitted.induct)
  case (create s req x ws)
  then show ?case by (blast intro: create_ok R_refl)
next
  case (update x y s req z ws)
  then show ?case by (blast dest: update_ok intro: R_trans)
qed

end

end
