(* ===== verification/Webhook_Core.thy ===== *)
theory Webhook_Core
  imports Webhook_Common
begin

text \<open>
  The admission webhooks of the core resources (\<open>internal/webhook/v1alpha1\<close>): Cluster,
  ServiceAccount, Team, TeamRole, Organization and Secret. Each section gives the functions of one
  webhook, their registration, and what every stored version of such an object satisfies.
\<close>

section \<open>What the webhooks read\<close>

record admission_reads =
  ar_get_team :: "namespaced_name \<Rightarrow> go_error + team"
  ar_list_clusterPluginDefinitions :: "go_error + string list"
  ar_list_teamRoleBindings_by_role :: "string \<Rightarrow> string \<Rightarrow> go_error + string list"

text \<open>The ownership warning every create and update function ends with.\<close>

definition owner_warnings ::
  "string \<Rightarrow> (namespaced_name \<Rightarrow> go_error + team) \<Rightarrow> 'a object_meta_scheme \<Rightarrow> warnings" where
  "owner_warnings what get_team obj =
     (let labelValidationWarning = ValidateLabelOwnedBy get_team obj
      in if labelValidationWarning \<noteq> []
         then [what @ '' should have a support-group Team set as its owner'', labelValidationWarning]
         else [])"

lemma owner_warnings_Nil_iff [simp]:
  "owner_warnings what get_team obj = [] \<longleftrightarrow> owned_by_support_group get_team obj"
  by (simp add: owner_warnings_def Let_def ValidateLabelOwnedBy_iff)

section \<open>Cluster\<close>

definition DefaultCluster :: "admission_reads \<Rightarrow> cluster \<Rightarrow> go_error option \<times> cluster" where
  "DefaultCluster s cl = (None, cl\<lparr>o_labels := smap_set LabelKeyCluster (o_name cl) (o_labels cl)\<rparr>)"

definition ValidateCreateCluster :: "admission_reads \<Rightarrow> cluster \<Rightarrow> warnings \<times> go_error option" where
  "ValidateCreateCluster s cl =
     (case InvalidateDoubleDashesInName ''Cluster.greenhouse.sap'' cl of
        Some e \<Rightarrow> ([], Some e)
      | None \<Rightarrow>
          (case CapName ''Cluster.greenhouse.sap'' cl 40 of
             Some e \<Rightarrow> ([], Some e)
           | None \<Rightarrow> (owner_warnings ''Cluster'' (ar_get_team s) cl, None)))"

definition ValidateUpdateCluster ::
  "admission_reads \<Rightarrow> cluster \<Rightarrow> cluster \<Rightarrow> warnings \<times> go_error option" where
  "ValidateUpdateCluster s old cl = (owner_warnings ''Cluster'' (ar_get_team s) cl, None)"

definition cluster_webhook :: "(cluster, admission_reads) webhook_funcs" where
  "cluster_webhook =
     \<lparr>DefaultFunc = Some DefaultCluster, ValidateCreateFunc = Some ValidateCreateCluster,
      ValidateUpdateFunc = Some ValidateUpdateCluster, ValidateDeleteFunc = None\<rparr>"

text \<open>Every stored cluster can be selected by the label that carries its own name.\<close>

interpretation cluster_wh: webhook_contract cluster_webhook
    "\<lambda>c. smap_get (o_labels c) LabelKeyCluster = Some (o_name c)" "\<lambda>_ _. True"
  by unfold_locales (auto simp: webhook_dispatch cluster_webhook_def DefaultCluster_def sm.get_upd)

lemma ValidateCreateCluster_accepts:
  "snd (ValidateCreateCluster s cl) = None \<longleftrightarrow>
     \<not> Contains (o_name cl) ''--'' \<and> length (o_name cl) \<le> 40"
  by (simp add: ValidateCreateCluster_def split: option.split)
    (metis CapName_None_iff InvalidateDoubleDashesInName_None_iff not_Some_eq)

section \<open>ServiceAccount\<close>

definition validateOwnedByLabelImmutable :: "object_meta \<Rightarrow> object_meta \<Rightarrow> go_error option" where
  "validateOwnedByLabelImmutable oldSA newSA =
     (case smap_get (o_labels oldSA) LabelKeyOwnedBy of
        None \<Rightarrow> None
      | Some oldOwner \<Rightarrow>
          if oldOwner = smap_val (o_labels newSA) LabelKeyOwnedBy then None
          else Some (NewForbidden ''serviceaccounts'' (o_name newSA)
                 (field_error_string (field_err FieldForbidden owned_by_path []
                    ''label is immutable and cannot be changed or removed once set''))))"

definition ValidateUpdateServiceAccount ::
  "admission_reads \<Rightarrow> object_meta \<Rightarrow> object_meta \<Rightarrow> warnings \<times> go_error option" where
  "ValidateUpdateServiceAccount s oldSA newSA = ([], validateOwnedByLabelImmutable oldSA newSA)"

definition serviceaccount_webhook :: "(object_meta, admission_reads) webhook_funcs" where
  "serviceaccount_webhook =
     \<lparr>DefaultFunc = None, ValidateCreateFunc = None,
      ValidateUpdateFunc = Some ValidateUpdateServiceAccount, ValidateDeleteFunc = None\<rparr>"

definition keeps_owner :: "object_meta \<Rightarrow> object_meta \<Rightarrow> bool" where
  "keeps_owner x y \<longleftrightarrow>
     (\<forall>v. v \<noteq> [] \<longrightarrow> smap_get (o_labels x) LabelKeyOwnedBy = Some v
        \<longrightarrow> smap_get (o_labels y) LabelKeyOwnedBy = Some v)"

interpretation serviceaccount_wh: webhook_contract serviceaccount_webhook "\<lambda>_. True" keeps_owner
  by unfold_locales
    (auto simp: webhook_dispatch serviceaccount_webhook_def ValidateUpdateServiceAccount_def
      validateOwnedByLabelImmutable_def keeps_owner_def smap_val_get split: option.splits if_splits)

section \<open>Team\<close>

definition team_label_allowed :: "string list \<Rightarrow> string \<Rightarrow> bool" where
  "team_label_allowed whiteList labelKey \<longleftrightarrow>
     \<not> HasPrefix labelKey GroupName \<or> TrimPrefix labelKey (GroupName @ ''/'') \<in> set whiteList"

definition validateGreenhouseLabels :: "admission_reads \<Rightarrow> team \<Rightarrow> go_error option" where
  "validateGreenhouseLabels s t =
     (let check = (\<lambda>names.
            case find (\<lambda>(k, _). \<not> team_label_allowed (''support-group'' # names) k) (o_labels t) of
              None \<Rightarrow> None
            | Some (labelKey, _) \<Rightarrow>
                Some (NewInvalid ''Team.greenhouse.sap'' (o_name t)
                  [field_err FieldForbidden [PChild ''metadata'', PChild ''labels'', PChild labelKey] []
                     ''Only pluginDefinition names as greenhouse labels allowed.'']))
      in case ar_list_clusterPluginDefinitions s of
           Inl e \<Rightarrow> if IsNotFound e then check [] else Some e
         | Inr names \<Rightarrow> check names)"

definition validateJoinURL :: "(string \<Rightarrow> (string \<times> string) option) \<Rightarrow> team \<Rightarrow> go_error option" where
  "validateJoinURL url_parse t =
     (if team_joinURL t = [] then None
      else if \<not> ValidateURL url_parse (team_joinURL t)
      then Some (NewInvalid ''Team.greenhouse.sap'' (o_name t)
             [field_err FieldInvalid [PChild ''spec'', PChild ''joinUrl''] (team_joinURL t)
                (''JoinURL must be a valid '' @ [CHR 0x27] @ ''http:'' @ [CHR 0x27] @ '' or '' @ [CHR 0x27]
                 @ ''https:'' @ [CHR 0x27] @ '' URL, like '' @ [CHR 0x27] @ ''https://example.com''
                 @ [CHR 0x27] @ ''.'')])
      else None)"

definition ValidateCreateTeam ::
  "(string \<Rightarrow> (string \<times> string) option) \<Rightarrow> admission_reads \<Rightarrow> team \<Rightarrow> warnings \<times> go_error option" where
  "ValidateCreateTeam url_parse s t =
     (case validateGreenhouseLabels s t of
        Some e \<Rightarrow> ([], Some e)
      | None \<Rightarrow> ([], validateJoinURL url_parse t))"

definition ValidateUpdateTeam ::
  "(string \<Rightarrow> (string \<times> string) option) \<Rightarrow> admission_reads \<Rightarrow> team \<Rightarrow> team \<Rightarrow> warnings \<times> go_error option" where
  "ValidateUpdateTeam url_parse s old t =
     (case validateGreenhouseLabels s t of
        Some e \<Rightarrow> ([], Some e)
      | None \<Rightarrow> ([], validateJoinURL url_parse t))"

definition DefaultTeam :: "admission_reads \<Rightarrow> team \<Rightarrow> go_error option \<times> team" where
  "DefaultTeam s t = (None, t)"

definition ValidateDeleteTeam :: "admission_reads \<Rightarrow> team \<Rightarrow> warnings \<times> go_error option" where
  "ValidateDeleteTeam s t = ([], None)"

definition team_webhook ::
  "(string \<Rightarrow> (string \<times> string) option) \<Rightarrow> (team, admission_reads) webhook_funcs" where
  "team_webhook url_parse =
     \<lparr>DefaultFunc = Some DefaultTeam, ValidateCreateFunc = Some (ValidateCreateTeam url_parse),
      ValidateUpdateFunc = Some (ValidateUpdateTeam url_parse),
      ValidateDeleteFunc = Some ValidateDeleteTeam\<rparr>"

lemma validateJoinURL_None_iff:
  "validateJoinURL url_parse t = None \<longleftrightarrow>
     team_joinURL t = [] \<or>
     (\<exists>host. host \<noteq> [] \<and> url_parse (team_joinURL t) = Some (''https'', host))"
  by (auto simp: validateJoinURL_def ValidateURL_def split: option.splits)

interpretation team_wh: webhook_contract "team_webhook url_parse"
    "\<lambda>t. team_joinURL t = [] \<or> (\<exists>host. host \<noteq> [] \<and> url_parse (team_joinURL t) = Some (''https'', host))"
    "\<lambda>_ _. True" for url_parse
  by unfold_locales
    (auto simp: webhook_dispatch team_webhook_def ValidateCreateTeam_def ValidateUpdateTeam_def
      DefaultTeam_def validateJoinURL_None_iff split: option.splits)

section \<open>TeamRole\<close>

definition isRulesAndAggregationRuleExclusive :: "team_role \<Rightarrow> go_error option" where
  "isRulesAndAggregationRuleExclusive role =
     (if tr_rules role \<noteq> [] \<and> tr_aggregationRule role \<noteq> None
      then Some (NewBadRequest ''.spec.rules and .spec.aggregationRule are mutually exclusive'')
      else None)"

definition webhook_isRoleReferenced :: "admission_reads \<Rightarrow> team_role \<Rightarrow> go_error + bool" where
  "webhook_isRoleReferenced s r =
     (case ar_list_teamRoleBindings_by_role s (o_namespace r) (o_name r) of
        Inl e \<Rightarrow> Inl e
      | Inr items \<Rightarrow> Inr (0 < length items))"

definition DefaultRole :: "admission_reads \<Rightarrow> team_role \<Rightarrow> go_error option \<times> team_role" where
  "DefaultRole s r = (None, r)"

definition ValidateCreateRole :: "admission_reads \<Rightarrow> team_role \<Rightarrow> warnings \<times> go_error option" where
  "ValidateCreateRole s role = ([], isRulesAndAggregationRuleExclusive role)"

definition ValidateUpdateRole ::
  "admission_reads \<Rightarrow> team_role \<Rightarrow> team_role \<Rightarrow> warnings \<times> go_error option" where
  "ValidateUpdateRole s old role = ([], isRulesAndAggregationRuleExclusive role)"

definition ValidateDeleteRole :: "admission_reads \<Rightarrow> team_role \<Rightarrow> warnings \<times> go_error option" where
  "ValidateDeleteRole s r =
     (case webhook_isRoleReferenced s r of
        Inl e \<Rightarrow> ([], Some e)
      | Inr isReferenced \<Rightarrow>
          ([], if isReferenced
               then Some (NewForbidden ''TeamRole.greenhouse.sap'' (o_name r)
                      ''role is still referenced by a rolebinding'')
               else None))"

definition teamrole_webhook :: "(team_role, admission_reads) webhook_funcs" where
  "teamrole_webhook =
     \<lparr>DefaultFunc = Some DefaultRole, ValidateCreateFunc = Some ValidateCreateRole,
      ValidateUpdateFunc = Some ValidateUpdateRole, ValidateDeleteFunc = Some ValidateDeleteRole\<rparr>"

interpretation teamrole_wh: webhook_contract teamrole_webhook
    "\<lambda>r. tr_rules r = [] \<or> tr_aggregationRule r = None" "\<lambda>_ _. True"
  by unfold_locales
    (auto simp: webhook_dispatch teamrole_webhook_def ValidateCreateRole_def ValidateUpdateRole_def
      DefaultRole_def isRulesAndAggregationRuleExclusive_def split: if_splits)

section \<open>Organization\<close>

definition DefaultOrganization :: "admission_reads \<Rightarrow> organization \<Rightarrow> go_error option \<times> organization" where
  "DefaultOrganization s org =
     (None,
      if org_displayName org = []
      then org\<lparr>org_displayName := TrimSpace (replace_char (CHR ''-'') (CHR '' '') (o_name org))\<rparr>
      else org)"

definition validateMappedOrgAdminIDPGroup :: "organization \<Rightarrow> field_error option" where
  "validateMappedOrgAdminIDPGroup org =
     (if org_mappedOrgAdminIDPGroup org = []
      then Some (field_err FieldRequired [PChild ''spec'', PChild ''MappedOrgAdminIDPGroup''] []
             ''An Organization without spec.MappedOrgAdminIDPGroup is invalid'')
      else None)"

definition scim_path :: "string \<Rightarrow> field_path" where
  "scim_path c = [PChild ''spec'', PChild ''authentication'', PChild ''scim'', PChild c]"

text \<open>\<open>x == nil || x.Secret == nil\<close>.\<close>

definition no_secret :: "value_from_source option \<Rightarrow> bool" where
  "no_secret v \<longleftrightarrow> (case v of None \<Rightarrow> True | Some src \<Rightarrow> vf_secret src = None)"

definition validateSCIMConfig :: "organization \<Rightarrow> field_error list" where
  "validateSCIMConfig org =
     (case GetSCIMConfig org of
        None \<Rightarrow> []
      | Some cfg \<Rightarrow>
          (if scim_baseURL cfg = []
           then [field_err FieldRequired (scim_path ''baseURL'') [] ''baseURL is required''] else [])
          @ (if scim_authType cfg = AuthTypeBasic
             then (if no_secret (scim_basicAuthUser cfg)
                   then [field_err FieldRequired (scim_path ''basicAuthUser'') []
                           ''basicAuthUser and its secret are required''] else [])
                  @ (if no_secret (scim_basicAuthPw cfg)
                     then [field_err FieldRequired (scim_path ''basicAuthPw'') []
                             ''basicAuthPw and its secret are required''] else [])
             else if scim_authType cfg = AuthTypeBearerToken
             then (if no_secret (scim_bearerToken cfg)
                   then [field_err FieldRequired (scim_path ''bearerToken'') []
                           ''bearerToken and its secret are required''] else [])
             else [field_err FieldInvalid (scim_path ''authType'') (scim_authType cfg)
                     (''authType must be either '' @ [CHR 0x27] @ ''basic'' @ [CHR 0x27] @ '' or ''
                      @ [CHR 0x27] @ ''token'' @ [CHR 0x27])]))"

definition organization_errors :: "organization \<Rightarrow> field_error list" where
  "organization_errors org =
     (case validateMappedOrgAdminIDPGroup org of None \<Rightarrow> [] | Some e \<Rightarrow> [e]) @ validateSCIMConfig org"

definition ValidateCreateOrganization ::
  "admission_reads \<Rightarrow> organization \<Rightarrow> warnings \<times> go_error option" where
  "ValidateCreateOrganization s org = ([], ToAggregate (organization_errors org))"

definition ValidateUpdateOrganization ::
  "admission_reads \<Rightarrow> organization \<Rightarrow> organization \<Rightarrow> warnings \<times> go_error option" where
  "ValidateUpdateOrganization s old org = ([], ToAggregate (organization_errors org))"

definition ValidateDeleteOrganization ::
  "admission_reads \<Rightarrow> organization \<Rightarrow> warnings \<times> go_error option" where
  "ValidateDeleteOrganization s org = ([], None)"

definition organization_webhook :: "(organization, admission_reads) webhook_funcs" where
  "organization_webhook =
     \<lparr>DefaultFunc = Some DefaultOrganization, ValidateCreateFunc = Some ValidateCreateOrganization,
      ValidateUpdateFunc = Some ValidateUpdateOrganization,
      ValidateDeleteFunc = Some ValidateDeleteOrganization\<rparr>"

text \<open>
  What the controllers may rely on: an admin group is mapped, and a SCIM configuration has a server
  and, for its authentication type, references to all the secrets it needs.
\<close>

definition scim_usable :: "scim_config \<Rightarrow> bool" where
  "scim_usable cfg \<longleftrightarrow>
     scim_baseURL cfg \<noteq> [] \<and>
     (scim_authType cfg = AuthTypeBasic \<and>
        (\<exists>u p. scim_basicAuthUser cfg = Some \<lparr>vf_secret = Some u\<rparr> \<and>
               scim_basicAuthPw cfg = Some \<lparr>vf_secret = Some p\<rparr>)
      \<or> scim_authType cfg = AuthTypeBearerToken \<and>
        (\<exists>t. scim_bearerToken cfg = Some \<lparr>vf_secret = Some t\<rparr>))"

definition organization_valid :: "organization \<Rightarrow> bool" where
  "organization_valid org \<longleftrightarrow>
     org_mappedOrgAdminIDPGroup org \<noteq> [] \<and>
     (\<forall>cfg. GetSCIMConfig org = Some cfg \<longrightarrow> scim_usable cfg)"

lemma no_secret_iff: "no_secret v \<longleftrightarrow> \<not> (\<exists>u. v = Some \<lparr>vf_secret = Some u\<rparr>)"
proof (cases v)
  case (Some src)
  then show ?thesis by (cases src; cases "vf_secret src") (auto simp: no_secret_def)
qed (simp add: no_secret_def)

lemma auth_types_distinct: "AuthTypeBasic \<noteq> AuthTypeBearerToken"
  by (simp add: AuthTypeBasic_def AuthTypeBearerToken_def)

lemma organization_errors_Nil_iff: "organization_errors org = [] \<longleftrightarrow> organization_valid org"
  using auth_types_distinct
  by (auto simp: organization_errors_def organization_valid_def validateMappedOrgAdminIDPGroup_def
      validateSCIMConfig_def scim_usable_def no_secret_iff split: option.splits)

interpretation organization_wh: webhook_contract organization_webhook organization_valid "\<lambda>_ _. True"
  by unfold_locales
    (auto simp: webhook_dispatch organization_webhook_def ValidateCreateOrganization_def
      ValidateUpdateOrganization_def organization_errors_Nil_iff)

section \<open>Secret\<close>

text \<open>
  \<open>base64.StdEncoding.DecodeString\<close> succeeds when the input without line breaks is a sequence of
  quadruples of alphabet characters, of which the last may end in one or two padding characters.
\<close>

definition base64_char :: "char \<Rightarrow> bool" where
  "base64_char c \<longleftrightarrow>
     (let n = of_char c :: nat
      in (65 \<le> n \<and> n \<le> 90) \<or> (97 \<le> n \<and> n \<le> 122) \<or> (48 \<le> n \<and> n \<le> 57) \<or> n = 43 \<or> n = 47)"

fun base64_quads :: "string \<Rightarrow> bool" where
  "base64_quads [] \<longleftrightarrow> True"
| "base64_quads (a # b # c # d # rest) \<longleftrightarrow>
     base64_char a \<and> base64_char b \<and>
     (base64_char c \<and> base64_char d \<and> base64_quads rest
      \<or> base64_char c \<and> d = CHR ''='' \<and> rest = []
      \<or> c = CHR ''='' \<and> d = CHR ''='' \<and> rest = [])"
| "base64_quads _ \<longleftrightarrow> False"

definition base64_decodes :: "string \<Rightarrow> bool" where
  "base64_decodes s \<longleftrightarrow> base64_quads (filter (\<lambda>c. c \<noteq> CHR 0x0A \<and> c \<noteq> CHR 0x0D) s)"

text \<open>
  The kubeconfig loader \<open>k8s.io/client-go/tools/clientcmd\<close> is a parameter: \<open>kc_load\<close> is \<open>Load\<close>, giving
  the configuration with its current context, and \<open>kc_usable\<close> is \<open>ConfirmUsable\<close>.
\<close>

record 'k kubeconfig_loader =
  kc_load :: "string \<Rightarrow> go_error + 'k"
  kc_currentContext :: "'k \<Rightarrow> string"
  kc_usable :: "'k \<Rightarrow> string \<Rightarrow> go_error option"

definition validateKubeConfig :: "'k kubeconfig_loader \<Rightarrow> string \<Rightarrow> go_error option" where
  "validateKubeConfig L kubeconfig =
     (case kc_load L kubeconfig of
        Inl e \<Rightarrow> Some e
      | Inr apiConfig \<Rightarrow> kc_usable L apiConfig (kc_currentContext L apiConfig))"

definition greenhouseSecretTypes :: "string list" where
  "greenhouseSecretTypes = [SecretTypeKubeConfig, SecretTypeOIDCConfig, SecretTypeOrganization]"

definition invalid_secret :: "secret \<Rightarrow> field_error_kind \<Rightarrow> field_path \<Rightarrow> string \<Rightarrow> string \<Rightarrow> go_error" where
  "invalid_secret sec k p v d = NewInvalid ''Secret'' (o_name sec) [field_err k p v d]"

definition validateSecretGreenHouseType :: "secret \<Rightarrow> go_error option" where
  "validateSecretGreenHouseType sec =
     (if secret_type sec \<noteq> SecretTypeKubeConfig then None
      else case CapName ''Secret'' sec 40 of
             Some e \<Rightarrow> Some e
           | None \<Rightarrow>
               (case InvalidateDoubleDashesInName ''Secret'' sec of
                  Some e \<Rightarrow> Some e
                | None \<Rightarrow>
                    if \<not> IsSecretContainsKey sec KubeConfigKey
                    then Some (invalid_secret sec FieldRequired [PChild ''data'', PChild KubeConfigKey] []
                           ''This type of secrets without Data.kubeconfig is invalid.'')
                    else None))"

definition validateGreenhouseOIDCType ::
  "(string \<Rightarrow> (string \<times> string) option) \<Rightarrow> secret \<Rightarrow> go_error option" where
  "validateGreenhouseOIDCType url_parse sec =
     (if \<not> (case smap_get (o_annotations sec) SecretAPIServerURLAnnotation of
               None \<Rightarrow> False | Some serverURL \<Rightarrow> ValidateURL url_parse serverURL)
      then Some (invalid_secret sec FieldRequired [PChild ''metadata'', PChild SecretAPIServerURLAnnotation] []
             ''The secret is missing the APIServerURL annotation.'')
      else case smap_get (secret_data sec) SecretAPIServerCAKey of
             None \<Rightarrow> Some (invalid_secret sec FieldRequired [PChild ''data'', PChild SecretAPIServerCAKey] []
                       ''The secret is missing the certificate authority key.'')
           | Some cert \<Rightarrow>
               if cert = []
               then Some (invalid_secret sec FieldRequired [PChild ''data'', PChild SecretAPIServerCAKey] []
                      ''The certificate authority key must not be empty.'')
               else if \<not> base64_decodes cert
               then Some (invalid_secret sec FieldInvalid [PChild ''data'', PChild SecretAPIServerCAKey]
                      ''CERTIFICATE'' ''The certificate authority key must be base64-encoded.'')
               else None)"

definition validateKubeconfigInSecret :: "'k kubeconfig_loader \<Rightarrow> secret \<Rightarrow> go_error option" where
  "validateKubeconfigInSecret L sec =
     (let check = (\<lambda>key.
            let value = smap_val (secret_data sec) key
            in if value = []
               then Some (invalid_secret sec FieldRequired [PChild ''data'', PChild key] []
                      (''The '' @ key @ '' could not be empty.''))
               else if validateKubeConfig L value \<noteq> None
               then Some (invalid_secret sec FieldInvalid [PChild ''data'', PChild key] value
                      (''The provided '' @ key @ '' is invalid or not usable.''))
               else None)
      in if IsSecretContainsKey sec KubeConfigKey then check KubeConfigKey
         else if IsSecretContainsKey sec GreenHouseKubeConfigKey then check GreenHouseKubeConfigKey
         else None)"

definition validate_secret ::
  "(string \<Rightarrow> (string \<times> string) option) \<Rightarrow> 'k kubeconfig_loader \<Rightarrow> admission_reads \<Rightarrow> secret
     \<Rightarrow> warnings \<times> go_error option" where
  "validate_secret url_parse L s sec =
     (if secret_type sec \<notin> set greenhouseSecretTypes then ([], None)
      else if secret_type sec = SecretTypeOIDCConfig then ([], validateGreenhouseOIDCType url_parse sec)
      else case validateSecretGreenHouseType sec of
             Some e \<Rightarrow> ([], Some e)
           | None \<Rightarrow>
               (case validateKubeconfigInSecret L sec of
                  Some e \<Rightarrow> ([], Some e)
                | None \<Rightarrow> (owner_warnings ''Secret'' (ar_get_team s) sec, None)))"

definition ValidateCreateSecret ::
  "(string \<Rightarrow> (string \<times> string) option) \<Rightarrow> 'k kubeconfig_loader \<Rightarrow> admission_reads \<Rightarrow> secret
     \<Rightarrow> warnings \<times> go_error option" where
  "ValidateCreateSecret url_parse L s sec = validate_secret url_parse L s sec"

definition ValidateUpdateSecret ::
  "(string \<Rightarrow> (string \<times> string) option) \<Rightarrow> 'k kubeconfig_loader \<Rightarrow> admission_reads \<Rightarrow> secret \<Rightarrow> secret
     \<Rightarrow> warnings \<times> go_error option" where
  "ValidateUpdateSecret url_parse L s old sec = validate_secret url_parse L s sec"

definition DefaultSecret :: "admission_reads \<Rightarrow> secret \<Rightarrow> go_error option \<times> secret" where
  "DefaultSecret s sec = (None, sec)"

definition ValidateDeleteSecret :: "admission_reads \<Rightarrow> secret \<Rightarrow> warnings \<times> go_error option" where
  "ValidateDeleteSecret s sec = ([], None)"

definition secret_webhook ::
  "(string \<Rightarrow> (string \<times> string) option) \<Rightarrow> 'k kubeconfig_loader \<Rightarrow> (secret, admission_reads) webhook_funcs" where
  "secret_webhook url_parse L =
     \<lparr>DefaultFunc = Some DefaultSecret,
      ValidateCreateFunc = Some (ValidateCreateSecret url_parse L),
      ValidateUpdateFunc = Some (ValidateUpdateSecret url_parse L),
      ValidateDeleteFunc = Some ValidateDeleteSecret\<rparr>"

text \<open>
  What the cluster controllers rely on: a kubeconfig secret has a short name without double dashes
  and a loadable kubeconfig; an OIDC secret has an https server URL and a base64-encoded certificate
  authority.
\<close>

definition secret_valid ::
  "(string \<Rightarrow> (string \<times> string) option) \<Rightarrow> 'k kubeconfig_loader \<Rightarrow> secret \<Rightarrow> bool" where
  "secret_valid url_parse L sec \<longleftrightarrow>
     (secret_type sec = SecretTypeKubeConfig \<longrightarrow>
        length (o_name sec) \<le> 40 \<and> \<not> Contains (o_name sec) ''--'' \<and>
        (\<exists>kc. smap_get (secret_data sec) KubeConfigKey = Some kc \<and> kc \<noteq> [] \<and>
              validateKubeConfig L kc = None)) \<and>
     (secret_type sec = SecretTypeOIDCConfig \<longrightarrow>
        (\<exists>url host. smap_get (o_annotations sec) SecretAPIServerURLAnnotation = Some url \<and>
           url_parse url = Some (''https'', host) \<and> host \<noteq> []) \<and>
        (\<exists>cert. smap_get (secret_data sec) SecretAPIServerCAKey = Some cert \<and> cert \<noteq> [] \<and>
           base64_decodes cert))"

lemma validateSecretGreenHouseType_None:
  "validateSecretGreenHouseType sec = None \<longleftrightarrow>
     (secret_type sec = SecretTypeKubeConfig \<longrightarrow>
        length (o_name sec) \<le> 40 \<and> \<not> Contains (o_name sec) ''--'' \<and>
        IsSecretContainsKey sec KubeConfigKey)"
  by (auto simp: validateSecretGreenHouseType_def CapName_def InvalidateDoubleDashesInName_def)

lemma validateKubeconfigInSecret_None:
  "validateKubeconfigInSecret L sec = None \<Longrightarrow> IsSecretContainsKey sec KubeConfigKey \<Longrightarrow>
     \<exists>kc. smap_get (secret_data sec) KubeConfigKey = Some kc \<and> kc \<noteq> [] \<and> validateKubeConfig L kc = None"
  by (auto simp: validateKubeconfigInSecret_def IsSecretContainsKey_def smap_val_get Let_def
      split: if_splits)

lemma validateGreenhouseOIDCType_None:
  "validateGreenhouseOIDCType url_parse sec = None \<longleftrightarrow>
     (\<exists>url host. smap_get (o_annotations sec) SecretAPIServerURLAnnotation = Some url \<and>
        url_parse url = Some (''https'', host) \<and> host \<noteq> []) \<and>
     (\<exists>cert. smap_get (secret_data sec) SecretAPIServerCAKey = Some cert \<and> cert \<noteq> [] \<and>
        base64_decodes cert)"
  by (auto simp: validateGreenhouseOIDCType_def ValidateURL_def split: option.splits)

lemma secret_types_distinct: "SecretTypeKubeConfig \<noteq> SecretTypeOIDCConfig"
  by (simp add: SecretTypeKubeConfig_def SecretTypeOIDCConfig_def)

lemma validate_secret_valid:
  "validate_secret url_parse L s sec = (ws, None) \<Longrightarrow> secret_valid url_parse L sec"
  using secret_types_distinct validateKubeconfigInSecret_None [of L sec]
  by (auto simp: validate_secret_def secret_valid_def greenhouseSecretTypes_def
      validateSecretGreenHouseType_None validateGreenhouseOIDCType_None
      split: if_splits option.splits)

interpretation secret_wh: webhook_contract "secret_webhook url_parse L" "secret_valid url_parse L"
    "\<lambda>_ _. True" for url_parse L
  by unfold_locales
    (auto simp: webhook_dispatch secret_webhook_def ValidateCreateSecret_def ValidateUpdateSecret_def
      intro: validate_secret_valid)

section \<open>What admitted objects satisfy\<close>

text \<open>
  Once a ServiceAccount has been stored with a non-empty owned-by label, no sequence of accepted
  updates changes or removes it.
\<close>

theorem serviceaccount_owner_immutable:
  assumes "admitted serviceaccount_webhook x y"
    and "smap_get (o_labels x) LabelKeyOwnedBy = Some v" and "v \<noteq> []"
  shows "smap_get (o_labels y) LabelKeyOwnedBy = Some v"
  using serviceaccount_wh.admitted_contract [OF assms(1)] assms(2,3) by (simp add: keeps_owner_def)

definition sample_reads :: admission_reads where
  "sample_reads =
     \<lparr>ar_get_team = (\<lambda>_. Inl (ApiError ReasonNotFound ''not found'' [])),
      ar_list_clusterPluginDefinitions = Inr [''alerts''],
      ar_list_teamRoleBindings_by_role = (\<lambda>_ _. Inr [])\<rparr>"

theorem serviceaccount_owner_immutable_witness:
  "admitted serviceaccount_webhook ((sample_meta ''sa'')\<lparr>o_labels := [(LabelKeyOwnedBy, ''blue'')]\<rparr>)
     ((sample_meta ''sa'')\<lparr>o_labels := [(''k'', ''v''), (LabelKeyOwnedBy, ''blue'')]\<rparr>) \<and>
   smap_get [(''k'', ''v''), (LabelKeyOwnedBy, ''blue'')] LabelKeyOwnedBy = Some ''blue''"
proof -
  let ?x = "(sample_meta ''sa'')\<lparr>o_labels := [(LabelKeyOwnedBy, ''blue'')]\<rparr>"
  let ?y = "(sample_meta ''sa'')\<lparr>o_labels := [(''k'', ''v''), (LabelKeyOwnedBy, ''blue'')]\<rparr>"
  have x: "admitted serviceaccount_webhook ?x ?x"
    by (rule admitted.create [where s = sample_reads and req = ?x])
      (simp_all add: webhook_dispatch serviceaccount_webhook_def)
  have y: "admitted serviceaccount_webhook ?x ?y"
    by (rule admitted.update [OF x, where s = sample_reads and req = ?y])
      (simp_all add: webhook_dispatch serviceaccount_webhook_def ValidateUpdateServiceAccount_def
        validateOwnedByLabelImmutable_def smap_simps LabelKeyOwnedBy_def)
  from serviceaccount_owner_immutable [OF this, of "''blue''"] y show ?thesis
    by (simp add: smap_simps)
qed

text \<open>
  Every stored version of an Organization maps an admin group, and every SCIM configuration it
  has names a server and references all secrets its authentication type needs.
\<close>

theorem organization_admitted_valid:
  assumes "admitted organization_webhook x y"
  shows "organization_valid y"
  using organization_wh.admitted_contract [OF assms] by simp

definition sample_org :: organization where
  "sample_org =
     \<lparr>o_name = ''my-org'', o_namespace = [], o_labels = [], o_annotations = [], o_finalizers = [],
      o_deletionTimestamp = None, o_ownerReferences = [], o_conditions = [],
      org_displayName = ''My Org'', org_authentication = None, org_description = [],
      org_mappedOrgAdminIDPGroup = ''ADMINS'', org_configMapRef = []\<rparr>"

theorem organization_admitted_valid_witness: "organization_valid sample_org"
proof -
  have "admitted organization_webhook sample_org sample_org"
    by (rule admitted.create [where s = sample_reads and req = sample_org])
      (simp_all add: webhook_dispatch organization_webhook_def DefaultOrganization_def
        ValidateCreateOrganization_def organization_errors_def validateMappedOrgAdminIDPGroup_def
        validateSCIMConfig_def GetSCIMConfig_def sample_org_def)
  from organization_admitted_valid [OF this] show ?thesis .
qed

text \<open>
  Every stored version of a Secret of a Greenhouse cluster type satisfies what the cluster
  controllers rely on, whatever the URL parser and the kubeconfig loader accept.
\<close>

theorem secret_admitted_valid:
  assumes "admitted (secret_webhook url_parse L) x y"
  shows "secret_valid url_parse L y"
  using secret_wh.admitted_contract [OF assms] by simp

definition sample_loader :: "string kubeconfig_loader" where
  "sample_loader =
     \<lparr>kc_load = Inr, kc_currentContext = (\<lambda>c. c),
      kc_usable = (\<lambda>c ctx. if ctx = [] then Some (PlainError ''no context'') else None)\<rparr>"

definition sample_secret :: secret where
  "sample_secret =
     \<lparr>o_name = ''prod'', o_namespace = ''org'', o_labels = [], o_annotations = [], o_finalizers = [],
      o_deletionTimestamp = None, o_ownerReferences = [],
      secret_type = SecretTypeKubeConfig, secret_data = [(KubeConfigKey, ''cfg'')]\<rparr>"

theorem secret_admitted_valid_witness: "secret_valid (\<lambda>_. None) sample_loader sample_secret"
proof -
  have "snd (validate_secret (\<lambda>_. None) sample_loader sample_reads sample_secret) = None"
    by (simp add: validate_secret_def sample_secret_def greenhouseSecretTypes_def
        secret_types_distinct validateSecretGreenHouseType_def CapName_def
        InvalidateDoubleDashesInName_def Contains_def sublist_Cons_code IsSecretContainsKey_def
        smap_simps validateKubeconfigInSecret_def validateKubeConfig_def sample_loader_def Let_def)
  then have "admitted (secret_webhook (\<lambda>_. None) sample_loader) sample_secret sample_secret"
    by (intro admitted.create [where s = sample_reads and req = sample_secret])
      (simp_all add: webhook_dispatch secret_webhook_def DefaultSecret_def ValidateCreateSecret_def
        prod_eq_iff)
  from secret_admitted_valid [OF this] show ?thesis .
qed

end
