(* ===== verification/Plugin_Types.thy ===== *)
theory Plugin_Types
  imports Core_Types Json_Codec
begin

text \<open>
  Plugins, their definitions and presets (\<open>api/v1alpha1/plugin_types.go\<close>, \<open>plugindefinition_types.go\<close>,
  \<open>clusterplugindefinition_types.go\<close>, \<open>pluginpreset_types.go\<close>, \<open>types.go\<close>) and the typing of option
  values. Raw JSON (\<open>apiextensionsv1.JSON\<close>) is the text; a nil pointer is \<open>None\<close>.
\<close>

section \<open>Shared references\<close>

record plugin_definition_reference =
  pdr_name :: string
  pdr_kind :: string

record helm_chart_reference =
  hc_name :: string
  hc_repository :: string
  hc_version :: string

definition HelmChartReference_String :: "helm_chart_reference \<Rightarrow> string" where
  "HelmChartReference_String h = hc_repository h @ ''/'' @ hc_name h @ '':'' @ hc_version h"

record ui_application_reference =
  ui_url :: string
  ui_name :: string
  ui_version :: string

record wait_for_item =
  wf_name :: string
  wf_pluginPreset :: string

section \<open>Plugin definitions\<close>

definition PluginKind :: string where "PluginKind = ''Plugin''"
definition PluginDefinitionKind :: string where "PluginDefinitionKind = ''PluginDefinition''"
definition ClusterPluginDefinitionKind :: string where
  "ClusterPluginDefinitionKind = ''ClusterPluginDefinition''"
definition PluginPresetKind :: string where "PluginPresetKind = ''PluginPreset''"

text \<open>
  The option types. \<open>OptionTypeOther\<close> stands for every string that is none of the six values; the API
  server rejects it, but the code has a branch for it.
\<close>

datatype plugin_option_type =
  PluginOptionTypeString | PluginOptionTypeSecret | PluginOptionTypeBool | PluginOptionTypeInt
| PluginOptionTypeList | PluginOptionTypeMap | OptionTypeOther string

record plugin_option =
  po_name :: string
  po_default :: "string option"
  po_description :: string
  po_displayName :: string
  po_required :: bool
  po_type :: plugin_option_type
  po_regex :: string

record plugin_definition_spec =
  pds_displayName :: string
  pds_description :: string
  pds_helmChart :: "helm_chart_reference option"
  pds_uiApplication :: "ui_application_reference option"
  pds_options :: "plugin_option list option"
  pds_version :: string
  pds_weight :: "int option"
  pds_icon :: string
  pds_docsURL :: string
  pds_docMarkDownUrl :: string

text \<open>The options as a loop over a possibly nil slice sees them.\<close>

definition options_of :: "plugin_definition_spec \<Rightarrow> plugin_option list" where
  "options_of spec = (case pds_options spec of None \<Rightarrow> [] | Some os \<Rightarrow> os)"

datatype replication_status = ReplicationStatusReplicated | ReplicationStatusFailed | ReplicationStatusSkipped

record last_synced_artifact =
  lsa_registry :: string
  lsa_chartName :: string
  lsa_version :: string
  lsa_digest :: string
  lsa_replicationStatus :: replication_status

text \<open>PluginDefinition and ClusterPluginDefinition have the same fields.\<close>

record plugin_definition = runtime_object +
  pd_spec :: plugin_definition_spec
  pd_lastSyncedArtifact :: "last_synced_artifact option"

definition FluxHelmChartResourceName :: "plugin_definition \<Rightarrow> string" where
  "FluxHelmChartResourceName p =
     (case pds_helmChart (pd_spec p) of None \<Rightarrow> [] | Some h \<Rightarrow> o_name p @ ''-'' @ hc_version h)"

section \<open>Typed decoding\<close>

text \<open>
  \<open>json.Unmarshal\<close> into a variable of a Go type: the text has to be JSON, null leaves the zero value,
  and a value of another shape is an error. A number decodes into an \<open>int\<close> when its token is a plain
  integer literal of 64 bits; into an \<open>any\<close> when it does not overflow a \<open>float64\<close>.
\<close>

definition digits_value :: "string \<Rightarrow> nat" where
  "digits_value s = foldl (\<lambda>n c. 10 * n + (of_char c - 48)) 0 s"

definition int_literal :: "string \<Rightarrow> int option" where
  "int_literal t =
     (let neg = (t \<noteq> [] \<and> hd t = CHR ''-''); ds = (if neg then tl t else t);
          v = (if neg then - int (digits_value ds) else int (digits_value ds))
      in if all_digits1 ds \<and> - (2 ^ 63) \<le> v \<and> v < 2 ^ 63 then Some v else None)"

text \<open>
  A number token as digits times a power of ten; it overflows \<open>float64\<close> when its magnitude is at least
  the midpoint between the largest finite value and the next power of two.
\<close>

definition float64_overflows :: "string \<Rightarrow> bool" where
  "float64_overflows t =
     (let s = filter (\<lambda>c. c \<noteq> CHR ''-'') (takeWhile (\<lambda>c. c \<noteq> CHR ''e'' \<and> c \<noteq> CHR ''E'') t);
          ex = drop 1 (dropWhile (\<lambda>c. c \<noteq> CHR ''e'' \<and> c \<noteq> CHR ''E'') t);
          neg = (ex \<noteq> [] \<and> hd ex = CHR ''-'');
          ev = int (digits_value (filter is_digit ex));
          whole = takeWhile is_digit s; frac = drop 1 (dropWhile is_digit s);
          m = int (digits_value (whole @ frac));
          e = (if neg then - ev else ev) - int (length frac);
          bound = 2 ^ 1024 - 2 ^ 970
      in if 0 \<le> e then m * 10 ^ nat e \<ge> bound else m \<ge> bound * 10 ^ nat (- e))"

fun floats_ok :: "json \<Rightarrow> bool" where
  "floats_ok (JNum t) = (\<not> float64_overflows t)"
| "floats_ok (JArr xs) = list_all floats_ok xs"
| "floats_ok (JObj fs) = list_all (\<lambda>f. floats_ok (snd f)) fs"
| "floats_ok _ = True"

definition unmarshal_error :: go_error where
  "unmarshal_error = PlainError ''json: cannot unmarshal value''"

definition unmarshal_bool :: "string \<Rightarrow> go_error + bool" where
  "unmarshal_bool raw =
     (case parse_json raw of Some (JBool b) \<Rightarrow> Inr b | Some JNull \<Rightarrow> Inr False | _ \<Rightarrow> Inl unmarshal_error)"

definition unmarshal_int :: "string \<Rightarrow> go_error + int" where
  "unmarshal_int raw =
     (case parse_json raw of
        Some (JNum t) \<Rightarrow> (case int_literal t of Some i \<Rightarrow> Inr i | None \<Rightarrow> Inl unmarshal_error)
      | Some JNull \<Rightarrow> Inr 0
      | _ \<Rightarrow> Inl unmarshal_error)"

definition unmarshal_string :: "string \<Rightarrow> go_error + string" where
  "unmarshal_string raw =
     (case parse_json raw of Some (JStr s) \<Rightarrow> Inr s | Some JNull \<Rightarrow> Inr [] | _ \<Rightarrow> Inl unmarshal_error)"

definition unmarshal_list :: "string \<Rightarrow> go_error + json list" where
  "unmarshal_list raw =
     (case parse_json raw of
        Some (JArr xs) \<Rightarrow> if list_all floats_ok xs then Inr xs else Inl unmarshal_error
      | Some JNull \<Rightarrow> Inr []
      | _ \<Rightarrow> Inl unmarshal_error)"

definition unmarshal_map :: "string \<Rightarrow> go_error + (string \<times> json) list" where
  "unmarshal_map raw =
     (case parse_json raw of
        Some (JObj fs) \<Rightarrow> if floats_ok (JObj fs) then Inr fs else Inl unmarshal_error
      | Some JNull \<Rightarrow> Inr []
      | _ \<Rightarrow> Inl unmarshal_error)"

definition unmarshal_any :: "string \<Rightarrow> go_error + json" where
  "unmarshal_any raw =
     (case parse_json raw of
        Some v \<Rightarrow> if floats_ok v then Inr v else Inl unmarshal_error
      | None \<Rightarrow> Inl unmarshal_error)"

fun err_of :: "go_error + 'a \<Rightarrow> go_error option" where
  "err_of (Inl e) = Some e"
| "err_of (Inr _) = None"

section \<open>Option validation\<close>

definition option_type_text :: "plugin_option_type \<Rightarrow> string" where
  "option_type_text t =
     (case t of PluginOptionTypeString \<Rightarrow> ''string'' | PluginOptionTypeSecret \<Rightarrow> ''secret''
      | PluginOptionTypeBool \<Rightarrow> ''bool'' | PluginOptionTypeInt \<Rightarrow> ''int'' | PluginOptionTypeList \<Rightarrow> ''list''
      | PluginOptionTypeMap \<Rightarrow> ''map'' | OptionTypeOther s \<Rightarrow> s)"

definition PluginOption_IsValid :: "plugin_option \<Rightarrow> go_error option" where
  "PluginOption_IsValid p =
     (case po_default p of
        None \<Rightarrow> None
      | Some raw \<Rightarrow>
          (case po_type p of
             PluginOptionTypeBool \<Rightarrow> err_of (unmarshal_bool raw)
           | PluginOptionTypeInt \<Rightarrow> err_of (unmarshal_int raw)
           | PluginOptionTypeString \<Rightarrow> err_of (unmarshal_string raw)
           | PluginOptionTypeList \<Rightarrow> err_of (unmarshal_list raw)
           | PluginOptionTypeMap \<Rightarrow> err_of (unmarshal_map raw)
           | PluginOptionTypeSecret \<Rightarrow>
               (case unmarshal_string raw of
                  Inl e \<Rightarrow> Some e
                | Inr s \<Rightarrow> if s \<noteq> []
                    then Some (PlainError (''option '' @ po_name p @ '' is a secret value, no default is allowed''))
                    else None)
           | OptionTypeOther t \<Rightarrow> Some (PlainError (''unknown type '' @ t))))"

text \<open>The name \<open>%T\<close> prints for a decoded \<open>any\<close>.\<close>

fun go_type_text :: "json \<Rightarrow> string" where
  "go_type_text JNull = ''<nil>''"
| "go_type_text (JBool _) = ''bool''"
| "go_type_text (JNum _) = ''float64''"
| "go_type_text (JStr _) = ''string''"
| "go_type_text (JArr _) = ''[]interface {}''"
| "go_type_text (JObj _) = ''map[string]interface {}''"

definition PluginOption_IsValidValue :: "plugin_option \<Rightarrow> string \<Rightarrow> go_error option" where
  "PluginOption_IsValidValue p raw =
     (case unmarshal_any raw of
        Inl e \<Rightarrow> Some e
      | Inr actVal \<Rightarrow>
          (let mismatch = (\<lambda>what. Some (PlainError (''option '' @ po_name p @ what @ '' value, got '' @ go_type_text actVal)))
           in case po_type p of
                PluginOptionTypeBool \<Rightarrow> (case actVal of JBool _ \<Rightarrow> None | _ \<Rightarrow> mismatch '' is a bool'')
              | PluginOptionTypeInt \<Rightarrow> (case actVal of JNum _ \<Rightarrow> None | _ \<Rightarrow> mismatch '' is an int'')
              | PluginOptionTypeString \<Rightarrow> (case actVal of JStr _ \<Rightarrow> None | _ \<Rightarrow> mismatch '' is a string'')
              | PluginOptionTypeList \<Rightarrow> (case actVal of JArr _ \<Rightarrow> None | _ \<Rightarrow> mismatch '' is a list'')
              | PluginOptionTypeMap \<Rightarrow> (case actVal of JObj _ \<Rightarrow> None | _ \<Rightarrow> mismatch '' is a map'')
              | PluginOptionTypeSecret \<Rightarrow>
                  Some (PlainError (''option '' @ po_name p
                    @ '' is a secret value, that should be derived from a secret reference''))
              | OptionTypeOther _ \<Rightarrow>
                  Some (PlainError (''option '' @ po_name p @ '' has unknown type, got '' @ go_type_text actVal))))"

text \<open>
  \<open>DefaultValue\<close>. The receiver may be nil; a missing default makes the code dereference a nil pointer,
  which is the outcome \<open>None\<close>.
\<close>

definition PluginOption_DefaultValue :: "plugin_option option \<Rightarrow> (go_error + json) option" where
  "PluginOption_DefaultValue po =
     (case po of
        None \<Rightarrow> Some (Inr JNull)
      | Some p \<Rightarrow>
          (let wrap = (\<lambda>f. map_option f (po_default p)) in
           case po_type p of
             PluginOptionTypeBool \<Rightarrow> wrap (\<lambda>raw. map_sum id JBool (unmarshal_bool raw))
           | PluginOptionTypeInt \<Rightarrow> wrap (\<lambda>raw. map_sum id (\<lambda>i. JNum (if i < 0 then ''-'' @ Itoa (nat (- i)) else Itoa (nat i))) (unmarshal_int raw))
           | PluginOptionTypeSecret \<Rightarrow> wrap (\<lambda>raw. map_sum id JStr (unmarshal_string raw))
           | PluginOptionTypeString \<Rightarrow> wrap (\<lambda>raw. map_sum id JStr (unmarshal_string raw))
           | PluginOptionTypeList \<Rightarrow> wrap (\<lambda>raw. map_sum id JArr (unmarshal_list raw))
           | t \<Rightarrow> Some (Inl (PlainError (''unknown type '' @ option_type_text t)))))"

section \<open>Plugins\<close>

record external_value_source =
  ev_kind :: string
  ev_name :: string
  ev_selector :: "label_selector option"
  ev_expression :: string

record plugin_value_from_source =
  pv_secret :: "secret_key_reference option"
  pv_ref :: "external_value_source option"

record plugin_option_value =
  ov_name :: string
  ov_value :: "string option"
  ov_valueFrom :: "plugin_value_from_source option"
  ov_expression :: "string option"

definition ValueJSON :: "plugin_option_value \<Rightarrow> string" where
  "ValueJSON v = (case ov_value v of None \<Rightarrow> [] | Some raw \<Rightarrow> raw)"

record ignore_difference =
  id_group :: string
  id_version :: string
  id_kind :: string
  id_name :: string
  id_paths :: "string list"

record plugin_spec =
  ps_pluginDefinitionRef :: plugin_definition_reference
  ps_displayName :: string
  ps_optionValues :: "plugin_option_value list"
  ps_clusterName :: string
  ps_releaseNamespace :: string
  ps_releaseName :: string
  ps_deletionPolicy :: string
  ps_waitFor :: "wait_for_item list"
  ps_ignoreDifferences :: "ignore_difference list"

datatype service_type = ServiceTypeService | ServiceTypeIngress

record service =
  svc_namespace :: string
  svc_name :: string
  svc_port :: int
  svc_protocol :: "string option"
  svc_type :: service_type

record helm_release_status =
  hr_status :: string
  hr_firstDeployed :: time
  hr_lastDeployed :: time
  hr_pluginOptionChecksum :: string
  hr_diff :: string

record plugin = runtime_object +
  pl_spec :: plugin_spec
  pl_helmReleaseStatus :: "helm_release_status option"
  pl_version :: string
  pl_helmChart :: "helm_chart_reference option"
  pl_uiApplication :: "ui_application_reference option"
  pl_weight :: "int option"
  pl_description :: string
  pl_exposedServices :: "service smap"
  pl_lastReconciledAt :: string
  pl_trackedObjects :: "string list"
  pl_imageReplication :: "string list"

definition Plugin_UpdateLastReconciledAtStatus :: "string \<Rightarrow> plugin \<Rightarrow> plugin" where
  "Plugin_UpdateLastReconciledAtStatus v p = p\<lparr>pl_lastReconciledAt := v\<rparr>"

definition Plugin_GetReleaseName :: "plugin \<Rightarrow> string" where
  "Plugin_GetReleaseName p = (if ps_releaseName (pl_spec p) \<noteq> [] then ps_releaseName (pl_spec p) else o_name p)"

text \<open>The zero value of the struct, \<open>Plugin{}\<close>.\<close>

definition zero_plugin_spec :: plugin_spec where
  "zero_plugin_spec =
     \<lparr>ps_pluginDefinitionRef = \<lparr>pdr_name = [], pdr_kind = []\<rparr>, ps_displayName = [], ps_optionValues = [],
      ps_clusterName = [], ps_releaseNamespace = [], ps_releaseName = [], ps_deletionPolicy = [],
      ps_waitFor = [], ps_ignoreDifferences = []\<rparr>"

definition zero_plugin :: plugin where
  "zero_plugin =
     \<lparr>o_name = [], o_namespace = [], o_labels = [], o_annotations = [], o_finalizers = [],
      o_deletionTimestamp = None, o_ownerReferences = [], o_conditions = [],
      pl_spec = zero_plugin_spec, pl_helmReleaseStatus = None, pl_version = [], pl_helmChart = None,
      pl_uiApplication = None, pl_weight = None, pl_description = [], pl_exposedServices = [],
      pl_lastReconciledAt = [], pl_trackedObjects = [], pl_imageReplication = []\<rparr>"

section \<open>Plugin presets\<close>

text \<open>
  Preset option values have the fields of plugin option values and share the record; the preset's
  value source has the same two fields as the plugin's.
\<close>

type_synonym preset_option_value = plugin_option_value

record cluster_option_override =
  co_clusterName :: string
  co_overrides :: "preset_option_value list"

record preset_plugin_spec =
  pp_pluginDefinitionRef :: plugin_definition_reference
  pp_displayName :: string
  pp_optionValues :: "preset_option_value list"
  pp_releaseNamespace :: string
  pp_releaseName :: string
  pp_deletionPolicy :: string
  pp_ignoreDifferences :: "ignore_difference list"

record managed_plugin_status =
  mp_pluginName :: string
  mp_readyCondition :: condition

record plugin_preset = runtime_object +
  preset_plugin :: preset_plugin_spec
  preset_clusterSelector :: label_selector
  preset_clusterOptionOverrides :: "cluster_option_override list"
  preset_waitFor :: "wait_for_item list"
  preset_deletionPolicy :: string
  preset_pluginStatuses :: "managed_plugin_status list"
  preset_totalPlugins :: nat
  preset_readyPlugins :: nat
  preset_failedPlugins :: nat
  preset_pluginDefinitionVersion :: string

section \<open>Lemmas on typed decoding\<close>

lemma option_default_valid_as_value:
  assumes "PluginOption_IsValid p = None" "po_default p = Some raw" "parse_json raw \<noteq> Some JNull"
    and "po_type p \<in> {PluginOptionTypeBool, PluginOptionTypeString, PluginOptionTypeList, PluginOptionTypeMap}"
  shows "PluginOption_IsValidValue p raw = None"
  using assms
  by (auto simp: PluginOption_IsValid_def PluginOption_IsValidValue_def unmarshal_any_def
      unmarshal_bool_def unmarshal_string_def unmarshal_list_def unmarshal_map_def Let_def
      split: option.splits json.splits if_splits)

end
