(* ===== verification/Plugin_Values.thy ===== *)
theory Plugin_Values
  imports Plugin_Types "HOL-Library.List_Lexorder" "HOL-Library.Char_ord" "HOL-Library.Multiset"
begin

text \<open>
  The option values of a plugin (\<open>internal/helm/utils.go\<close>, \<open>internal/helm/values.go\<close>,
  \<open>internal/common/plugindefinition.go\<close>, \<open>internal/util/plugin.go\<close> and
  \<open>internal/controller/plugin/pluginpreset_values_resolver.go\<close>): defaults of the definition, the values
  the user set, the values Greenhouse adds, and the per-cluster overrides of a preset.
\<close>

section \<open>What is read from the server\<close>

record plugin_reads =
  pr_get_team :: "namespaced_name \<Rightarrow> go_error + team"
  pr_get_pluginDefinition :: "namespaced_name \<Rightarrow> go_error + plugin_definition"
  pr_get_clusterPluginDefinition :: "string \<Rightarrow> go_error + plugin_definition"
  pr_get_cluster :: "namespaced_name \<Rightarrow> go_error + cluster"
  pr_list_clusters :: "string \<Rightarrow> go_error + cluster list"
  pr_list_teams :: "string \<Rightarrow> go_error + team list"
  pr_list_plugins :: "string \<Rightarrow> string \<Rightarrow> string \<Rightarrow> go_error + string list"
  pr_dnsDomain :: string

section \<open>Resolving the definition\<close>

definition isPluginDefinitionReady :: "plugin_definition \<Rightarrow> go_error option" where
  "isPluginDefinitionReady pd =
     (case GetConditionByType (GetConditions pd) ReadyCondition of
        None \<Rightarrow> Some (PlainError (''PluginDefinition '' @ o_namespace pd @ ''/'' @ o_name pd @ '' is not Ready''))
      | Some c \<Rightarrow>
          if c_status c \<noteq> ConditionTrue
          then Some (PlainError (''PluginDefinition '' @ o_namespace pd @ ''/'' @ o_name pd
                       @ '' is not Ready: '' @ c_message c))
          else None)"

definition GetPluginDefinitionFromPlugin ::
  "plugin_reads \<Rightarrow> plugin_definition_reference \<Rightarrow> string \<Rightarrow> go_error + plugin_definition" where
  "GetPluginDefinitionFromPlugin rd ref ns =
     (let finish = (\<lambda>kind. \<lambda>got. case got of
            Inl e \<Rightarrow> Inl (PlainError
              (if IsNotFound e then kind @ '' '' @ ns @ ''/'' @ pdr_name ref @ '' does not exist''
               else ''failed to get '' @ kind @ '' '' @ ns @ ''/'' @ pdr_name ref @ '': '' @ error_text e))
          | Inr pd \<Rightarrow> (case isPluginDefinitionReady pd of Some e \<Rightarrow> Inl e | None \<Rightarrow> Inr pd))
      in if pdr_kind ref = PluginDefinitionKind
         then finish PluginDefinitionKind
                (pr_get_pluginDefinition rd \<lparr>nn_namespace = ns, nn_name = pdr_name ref\<rparr>)
         else if pdr_kind ref = ClusterPluginDefinitionKind
         then finish ClusterPluginDefinitionKind (pr_get_clusterPluginDefinition rd (pdr_name ref))
         else if pdr_kind ref = [] then Inl (PlainError ''PluginDefinitionRef.Kind has not been set'')
         else Inl (PlainError (''unsupported PluginDefinition kind: '' @ pdr_kind ref)))"

definition GetPluginDefinitionSpec ::
  "plugin_reads \<Rightarrow> plugin_definition_reference \<Rightarrow> string \<Rightarrow> go_error + plugin_definition_spec" where
  "GetPluginDefinitionSpec rd ref ns =
     (if pdr_kind ref = PluginDefinitionKind
      then (case pr_get_pluginDefinition rd \<lparr>nn_namespace = ns, nn_name = pdr_name ref\<rparr> of
              Inl e \<Rightarrow> Inl (PlainError
                (if IsNotFound e
                 then ''PluginDefinition '' @ pdr_name ref @ '' does not exist in namespace '' @ ns
                 else ''failed to get PluginDefinition '' @ pdr_name ref @ '' from namespace '' @ ns
                      @ '': '' @ error_text e))
            | Inr pd \<Rightarrow> Inr (pd_spec pd))
      else if pdr_kind ref = ClusterPluginDefinitionKind
      then (case pr_get_clusterPluginDefinition rd (pdr_name ref) of
              Inl e \<Rightarrow> Inl (PlainError
                (if IsNotFound e then ''ClusterPluginDefinition '' @ pdr_name ref @ '' does not exist''
                 else ''failed to get ClusterPluginDefinition '' @ pdr_name ref @ '': '' @ error_text e))
            | Inr pd \<Rightarrow> Inr (pd_spec pd))
      else if pdr_kind ref = [] then Inl (PlainError ''PluginDefinitionRef.Kind has not been set'')
      else Inl (PlainError (''unsupported PluginDefinition kind: '' @ pdr_kind ref)))"

section \<open>Merging option values\<close>

text \<open>
  \<open>setOrAppendNameValue\<close> overwrites the plain value of the first entry of the name, and only that
  field.
\<close>

fun setOrAppendNameValue ::
  "plugin_option_value list \<Rightarrow> plugin_option_value \<Rightarrow> plugin_option_value list" where
  "setOrAppendNameValue [] v = [v]"
| "setOrAppendNameValue (x # xs) v =
     (if ov_name x = ov_name v then x\<lparr>ov_value := ov_value v\<rparr> # xs
      else x # setOrAppendNameValue xs v)"

definition plain_value :: "string \<Rightarrow> string option \<Rightarrow> plugin_option_value" where
  "plain_value n v = \<lparr>ov_name = n, ov_value = v, ov_valueFrom = None, ov_expression = None\<rparr>"

definition option_defaults :: "plugin_option list \<Rightarrow> plugin_option_value list" where
  "option_defaults os =
     map (\<lambda>op. plain_value (po_name op) (po_default op)) (filter (\<lambda>op. po_default op \<noteq> None) os)"

text \<open>
  The deferred \<open>sort.Slice\<close> sorts the slice that is returned, except when the definition has no options
  at all. \<open>sort.Slice\<close> does not promise to keep the order of equal names; entries have distinct names
  unless two options of the definition share one.
\<close>

definition MergePluginAndPluginOptionValueSlice ::
  "plugin_option list option \<Rightarrow> plugin_option_value list \<Rightarrow> plugin_option_value list" where
  "MergePluginAndPluginOptionValueSlice pluginOptions pluginOptionValues =
     (case pluginOptions of
        None \<Rightarrow> pluginOptionValues
      | Some os \<Rightarrow> sort_key ov_name (foldl setOrAppendNameValue (option_defaults os) pluginOptionValues))"

definition MergePluginOptionValues ::
  "plugin_option_value list \<Rightarrow> plugin_option_value list \<Rightarrow> plugin_option_value list" where
  "MergePluginOptionValues dst src = foldl setOrAppendNameValue dst src"

section \<open>Values added by Greenhouse\<close>

definition json_string :: "string \<Rightarrow> string option" where
  "json_string s = Some (print_json (JStr s))"

definition stringSliceToHelmValue :: "string list \<Rightarrow> string option" where
  "stringSliceToHelmValue theSlice = Some (print_json (JArr (map JStr (sort theSlice))))"

definition extractMetadataKey :: "string \<Rightarrow> string" where
  "extractMetadataKey labelKey =
     (if prefix LabelKeyMetadataPrefix labelKey then drop (length LabelKeyMetadataPrefix) labelKey else [])"

definition metadata_values :: "string smap \<Rightarrow> plugin_option_value list" where
  "metadata_values labels =
     map (\<lambda>(k, v). plain_value (''global.greenhouse.metadata.'' @ extractMetadataKey k) (json_string v))
       (filter (\<lambda>(k, _). extractMetadataKey k \<noteq> []) labels)"

definition GetGreenhouseValues :: "plugin_reads \<Rightarrow> plugin \<Rightarrow> go_error + plugin_option_value list" where
  "GetGreenhouseValues rd p =
     (case pr_list_clusters rd (o_namespace p) of
        Inl e \<Rightarrow> Inl e
      | Inr clusters \<Rightarrow>
     (case pr_list_teams rd (o_namespace p) of
        Inl e \<Rightarrow> Inl e
      | Inr teams \<Rightarrow>
          (let clusterName = ps_clusterName (pl_spec p);
               owner = smap_val (o_labels p) LabelKeyOwnedBy
           in Inr
             ([plain_value ''global.greenhouse.clusterNames'' (stringSliceToHelmValue (map o_name clusters)),
               plain_value ''global.greenhouse.teamNames'' (stringSliceToHelmValue (map o_name teams)),
               plain_value ''global.greenhouse.organizationName'' (json_string (o_namespace p))]
              @ (if clusterName \<noteq> []
                 then plain_value ''global.greenhouse.clusterName'' (json_string clusterName)
                      # (case pr_get_cluster rd \<lparr>nn_namespace = o_namespace p, nn_name = clusterName\<rparr> of
                           Inl _ \<Rightarrow> []
                         | Inr cl \<Rightarrow> metadata_values (o_labels cl))
                 else [])
              @ [plain_value ''global.greenhouse.baseDomain'' (json_string (pr_dnsDomain rd))]
              @ (if owner \<noteq> [] then [plain_value ''global.greenhouse.ownedBy'' (json_string owner)] else [])))))"

definition GetPluginOptionValuesForPlugin ::
  "plugin_reads \<Rightarrow> plugin \<Rightarrow> go_error + plugin_option_value list" where
  "GetPluginOptionValuesForPlugin rd p =
     (case GetPluginDefinitionSpec rd (ps_pluginDefinitionRef (pl_spec p)) (o_namespace p) of
        Inl e \<Rightarrow> Inl e
      | Inr spec \<Rightarrow>
          (let values = MergePluginAndPluginOptionValueSlice (pds_options spec) (ps_optionValues (pl_spec p))
           in case GetGreenhouseValues rd p of
                Inl e \<Rightarrow> Inl e
              | Inr greenhouseValues \<Rightarrow> Inr (MergePluginOptionValues values greenhouseValues)))"

section \<open>Presets\<close>

text \<open>
  \<open>ConvertToPluginOptionValues\<close> keeps name, plain value and secret reference; a reference to another
  resource and an expression are not carried over.
\<close>

definition convert_source :: "plugin_value_from_source option \<Rightarrow> plugin_value_from_source option" where
  "convert_source src = map_option (\<lambda>f. \<lparr>pv_secret = pv_secret f, pv_ref = None\<rparr>) src"

definition ConvertToPluginOptionValues :: "preset_option_value list \<Rightarrow> plugin_option_value list" where
  "ConvertToPluginOptionValues vs =
     map (\<lambda>v. \<lparr>ov_name = ov_name v, ov_value = ov_value v, ov_valueFrom = convert_source (ov_valueFrom v),
               ov_expression = None\<rparr>) vs"

definition ConvertToPresetOptionValues :: "plugin_option_value list \<Rightarrow> preset_option_value list" where
  "ConvertToPresetOptionValues vs =
     map (\<lambda>v. \<lparr>ov_name = ov_name v, ov_value = ov_value v, ov_valueFrom = convert_source (ov_valueFrom v),
               ov_expression = None\<rparr>) vs"

text \<open>\<open>convertPresetToPluginOptionValues\<close> of the webhook keeps the expression.\<close>

definition convertPresetToPluginOptionValues :: "preset_option_value list \<Rightarrow> plugin_option_value list" where
  "convertPresetToPluginOptionValues vs =
     map (\<lambda>v. \<lparr>ov_name = ov_name v, ov_value = ov_value v, ov_valueFrom = convert_source (ov_valueFrom v),
               ov_expression = ov_expression v\<rparr>) vs"

text \<open>
  One override replaces the whole first entry of its name, or is appended.
\<close>

fun override_value :: "preset_option_value list \<Rightarrow> preset_option_value \<Rightarrow> preset_option_value list" where
  "override_value [] v = [v]"
| "override_value (x # xs) v = (if ov_name x = ov_name v then v # xs else x # override_value xs v)"

definition applyOverridesToPreset :: "plugin_preset \<Rightarrow> string \<Rightarrow> plugin_preset" where
  "applyOverridesToPreset preset clusterName =
     (case find (\<lambda>co. co_clusterName co = clusterName) (preset_clusterOptionOverrides preset) of
        None \<Rightarrow> preset
      | Some co \<Rightarrow>
          preset\<lparr>preset_plugin := (preset_plugin preset)\<lparr>pp_optionValues :=
             foldl override_value (pp_optionValues (preset_plugin preset)) (co_overrides co)\<rparr>\<rparr>)"

text \<open>
  Expressions are evaluated by the CEL evaluator on template data built from the Greenhouse values;
  both are parameters here (\<open>build\<close>, \<open>eval\<close>).
\<close>

fun resolve_values ::
  "(string \<Rightarrow> 'd \<Rightarrow> go_error + string) \<Rightarrow> 'd \<Rightarrow> preset_option_value list
     \<Rightarrow> go_error + plugin_option_value list" where
  "resolve_values eval d [] = Inr []"
| "resolve_values eval d (v # vs) =
     (let cont = (\<lambda>r. map_sum id (\<lambda>rs. r # rs) (resolve_values eval d vs))
      in case ov_expression v of
           Some ex \<Rightarrow>
             (case eval ex d of
                Inl e \<Rightarrow> Inl (WrapError (''failed to evaluate expression for option '' @ ov_name v) e)
              | Inr val \<Rightarrow> cont (plain_value (ov_name v) (Some val)))
         | None \<Rightarrow>
             cont \<lparr>ov_name = ov_name v, ov_value = ov_value v,
                   ov_valueFrom = convert_source (ov_valueFrom v), ov_expression = None\<rparr>)"

definition preset_temp_plugin :: "plugin_preset \<Rightarrow> cluster \<Rightarrow> plugin" where
  "preset_temp_plugin preset cl =
     zero_plugin\<lparr>o_name := o_name preset, o_namespace := o_namespace preset, o_labels := o_labels preset,
          pl_spec := zero_plugin_spec\<lparr>ps_clusterName := o_name cl\<rparr>\<rparr>"

definition resolveExpressionsForPreset ::
  "plugin_reads \<Rightarrow> (plugin_option_value list \<Rightarrow> go_error + 'd) \<Rightarrow> (string \<Rightarrow> 'd \<Rightarrow> go_error + string)
     \<Rightarrow> plugin_preset \<Rightarrow> cluster \<Rightarrow> go_error + plugin_option_value list" where
  "resolveExpressionsForPreset rd build eval preset cl =
     (let values = pp_optionValues (preset_plugin preset)
      in if \<not> list_ex (\<lambda>v. ov_expression v \<noteq> None) values then Inr (ConvertToPluginOptionValues values)
         else case GetGreenhouseValues rd (preset_temp_plugin preset cl) of
                Inl e \<Rightarrow> Inl (WrapError ''failed to get greenhouse values'' e)
              | Inr gv \<Rightarrow>
                  (case build gv of
                     Inl e \<Rightarrow> Inl (WrapError ''failed to build template data'' e)
                   | Inr d \<Rightarrow> resolve_values eval d values))"

definition resolvePluginOptionValuesForPreset ::
  "bool \<Rightarrow> plugin_reads \<Rightarrow> (plugin_option_value list \<Rightarrow> go_error + 'd)
     \<Rightarrow> (string \<Rightarrow> 'd \<Rightarrow> go_error + string) \<Rightarrow> plugin_preset \<Rightarrow> cluster \<Rightarrow> go_error + plugin_option_value list" where
  "resolvePluginOptionValuesForPreset enabled rd build eval preset cl =
     (if enabled then resolveExpressionsForPreset rd build eval preset cl
      else case find (\<lambda>v. ov_expression v \<noteq> None) (pp_optionValues (preset_plugin preset)) of
             Some v \<Rightarrow> Inl (PlainError (''option '' @ ov_name v
               @ '' has expression but expressionEvaluationEnabled is disabled for PluginPreset controller''))
           | None \<Rightarrow> Inr (ConvertToPluginOptionValues (pp_optionValues (preset_plugin preset))))"

section \<open>Lists of named values\<close>

definition lookup_value :: "plugin_option_value list \<Rightarrow> string \<Rightarrow> plugin_option_value option" where
  "lookup_value xs n = find (\<lambda>v. ov_name v = n) xs"

definition names_distinct :: "plugin_option_value list \<Rightarrow> bool" where
  "names_distinct xs \<longleftrightarrow> distinct (map ov_name xs)"

lemma lookup_value_Nil [simp]: "lookup_value [] n = None"
  by (simp add: lookup_value_def)

lemma lookup_value_Cons: "lookup_value (x # xs) n = (if ov_name x = n then Some x else lookup_value xs n)"
  by (simp add: lookup_value_def)

lemma lookup_value_None_iff: "lookup_value xs n = None \<longleftrightarrow> n \<notin> ov_name ` set xs"
  by (auto simp: lookup_value_def find_None_iff)

lemma lookup_value_name: "lookup_value xs n = Some v \<Longrightarrow> ov_name v = n \<and> v \<in> set xs"
  by (auto simp: lookup_value_def dest: find_Some_in_set)

lemma lookup_value_distinct:
  "names_distinct xs \<Longrightarrow> lookup_value xs n = Some v \<longleftrightarrow> v \<in> set xs \<and> ov_name v = n"
  by (induction xs) (auto simp: names_distinct_def lookup_value_Cons)

lemma lookup_value_sort:
  assumes "names_distinct xs"
  shows "lookup_value (sort_key ov_name xs) n = lookup_value xs n"
proof -
  have "mset (map ov_name (sort_key ov_name xs)) = mset (map ov_name xs)"
    by simp
  with assms have "names_distinct (sort_key ov_name xs)"
    unfolding names_distinct_def by (metis mset_eq_imp_distinct_iff)
  then have "lookup_value (sort_key ov_name xs) n = Some v \<longleftrightarrow> lookup_value xs n = Some v" for v
    using assms by (simp add: lookup_value_distinct)
  then show ?thesis by (metis not_Some_eq)
qed

text \<open>
  The contract of the two update loops: writing a value changes the lookup of its name only, and
  appends the name if it is new. \<open>comb\<close> says what becomes of an entry that is already there.
\<close>

locale named_values =
  fixes put :: "plugin_option_value list \<Rightarrow> plugin_option_value \<Rightarrow> plugin_option_value list"
    and comb :: "plugin_option_value \<Rightarrow> plugin_option_value \<Rightarrow> plugin_option_value"
  assumes lookup_put: "lookup_value (put xs v) n =
      (if n = ov_name v
       then Some (case lookup_value xs n of None \<Rightarrow> v | Some x \<Rightarrow> comb x v) else lookup_value xs n)"
    and put_names: "map ov_name (put xs v) =
      (if ov_name v \<in> ov_name ` set xs then map ov_name xs else map ov_name xs @ [ov_name v])"
begin

lemma distinct_put: "names_distinct xs \<Longrightarrow> names_distinct (put xs v)"
  by (auto simp: names_distinct_def put_names)

lemma distinct_puts: "names_distinct xs \<Longrightarrow> names_distinct (foldl put xs vs)"
  by (induction vs arbitrary: xs) (auto simp: distinct_put)

lemma lookup_puts_other: "n \<notin> ov_name ` set vs \<Longrightarrow> lookup_value (foldl put xs vs) n = lookup_value xs n"
  by (induction vs arbitrary: xs) (auto simp: lookup_put)

lemma lookup_puts:
  assumes "names_distinct vs"
  shows "lookup_value (foldl put xs vs) n =
    (case lookup_value vs n of
       None \<Rightarrow> lookup_value xs n
     | Some v \<Rightarrow> Some (case lookup_value xs n of None \<Rightarrow> v | Some x \<Rightarrow> comb x v))"
  using assms
proof (induction vs arbitrary: xs)
  case (Cons w vs)
  from Cons.prems have d: "names_distinct vs" and new: "ov_name w \<notin> ov_name ` set vs"
    by (auto simp: names_distinct_def)
  show ?case
  proof (cases "n = ov_name w")
    case True
    with new show ?thesis by (simp add: lookup_puts_other lookup_put lookup_value_Cons)
  next
    case False
    with Cons.IH [OF d, of "put xs w"] show ?thesis
      by (simp add: lookup_put lookup_value_Cons split: option.split)
  qed
qed simp

end

interpretation so: named_values setOrAppendNameValue "\<lambda>x v. x\<lparr>ov_value := ov_value v\<rparr>"
proof (unfold_locales, goal_cases)
  case (1 xs v n)
  show ?case by (induction xs) (auto simp: lookup_value_Cons)
next
  case (2 xs v)
  show ?case by (induction xs) auto
qed

interpretation ov: named_values override_value "\<lambda>x v. v"
proof (unfold_locales, goal_cases)
  case (1 xs v n)
  show ?case by (induction xs) (auto simp: lookup_value_Cons split: option.splits)
next
  case (2 xs v)
  show ?case by (induction xs) auto
qed

section \<open>Correctness of the merges\<close>

lemma names_option_defaults:
  "distinct (map po_name os) \<Longrightarrow> names_distinct (option_defaults os)"
  by (simp add: names_distinct_def option_defaults_def plain_value_def comp_def distinct_map_filter)

text \<open>
  The overrides of a cluster replace exactly the options they name, completely, and add the ones
  the preset does not set; for a cluster without overrides the preset's values are used as they are.
\<close>

theorem applyOverrides_lookup:
  assumes "\<And>co. co \<in> set (preset_clusterOptionOverrides preset) \<Longrightarrow> names_distinct (co_overrides co)"
  shows "lookup_value (pp_optionValues (preset_plugin (applyOverridesToPreset preset cluster))) n =
    (case find (\<lambda>co. co_clusterName co = cluster) (preset_clusterOptionOverrides preset) of
       None \<Rightarrow> lookup_value (pp_optionValues (preset_plugin preset)) n
     | Some co \<Rightarrow>
         (case lookup_value (co_overrides co) n of
            None \<Rightarrow> lookup_value (pp_optionValues (preset_plugin preset)) n
          | Some v \<Rightarrow> Some v))"
proof (cases "find (\<lambda>co. co_clusterName co = cluster) (preset_clusterOptionOverrides preset)")
  case None
  then show ?thesis by (simp add: applyOverridesToPreset_def)
next
  case (Some co)
  with assms have "names_distinct (co_overrides co)" by (blast dest: find_Some_in_set)
  with Some show ?thesis
    by (simp add: applyOverridesToPreset_def ov.lookup_puts split: option.split)
qed

text \<open>A preset with one override, for the witnesses.\<close>

definition sample_preset :: plugin_preset where
  "sample_preset =
     \<lparr>o_name = ''pp'', o_namespace = ''org'', o_labels = [], o_annotations = [], o_finalizers = [],
      o_deletionTimestamp = None, o_ownerReferences = [], o_conditions = [],
      preset_plugin = \<lparr>pp_pluginDefinitionRef = \<lparr>pdr_name = ''pd'', pdr_kind = PluginDefinitionKind\<rparr>,
        pp_displayName = [], pp_optionValues = [plain_value ''a'' (Some ''1''), plain_value ''b'' (Some ''2'')],
        pp_releaseNamespace = [], pp_releaseName = [], pp_deletionPolicy = [], pp_ignoreDifferences = []\<rparr>,
      preset_clusterSelector = \<lparr>ls_matchLabels = [(''region'', ''eu'')], ls_matchExpressions = []\<rparr>,
      preset_clusterOptionOverrides =
        [\<lparr>co_clusterName = ''c1'', co_overrides = [plain_value ''b'' (Some ''3'')]\<rparr>],
      preset_waitFor = [], preset_deletionPolicy = [], preset_pluginStatuses = [],
      preset_totalPlugins = 0, preset_readyPlugins = 0, preset_failedPlugins = 0,
      preset_pluginDefinitionVersion = []\<rparr>"

theorem applyOverrides_lookup_witness:
  "lookup_value (pp_optionValues (preset_plugin (applyOverridesToPreset sample_preset ''c1''))) ''b''
     = Some (plain_value ''b'' (Some ''3''))"
proof -
  have "names_distinct (co_overrides co)" if "co \<in> set (preset_clusterOptionOverrides sample_preset)" for co
    using that by (simp add: sample_preset_def names_distinct_def)
  from applyOverrides_lookup [of sample_preset "''c1''" "''b''", OF this] show ?thesis
    by (simp add: sample_preset_def lookup_value_Cons plain_value_def)
qed

lemma lookup_option_defaults:
  "lookup_value (option_defaults os) n =
     map_option (\<lambda>op. plain_value n (po_default op))
       (find (\<lambda>op. po_name op = n \<and> po_default op \<noteq> None) os)"
  by (induction os) (auto simp: option_defaults_def lookup_value_Cons plain_value_def)

lemma merge_lookup:
  assumes "distinct (map po_name os)" and "names_distinct vs"
  shows "lookup_value (MergePluginAndPluginOptionValueSlice (Some os) vs) n =
    (case lookup_value vs n of
       None \<Rightarrow> lookup_value (option_defaults os) n
     | Some v \<Rightarrow> Some (case lookup_value (option_defaults os) n of
                        None \<Rightarrow> v | Some d \<Rightarrow> d\<lparr>ov_value := ov_value v\<rparr>))"
  using assms
  by (simp add: MergePluginAndPluginOptionValueSlice_def lookup_value_sort so.distinct_puts
      names_option_defaults so.lookup_puts)

text \<open>
  C35. Merging the values of a plugin with the defaults of its definition: the result is sorted and
  has one entry per name; an option the plugin does not set has its default; an option without a
  default has the entry of the plugin; an option with a default that the plugin sets has the plugin's
  plain value, and neither a secret reference nor an expression, even if the plugin gives one.
\<close>

theorem merge_option_values:
  assumes "distinct (map po_name os)" and "names_distinct vs"
  shows "sorted (map ov_name (MergePluginAndPluginOptionValueSlice (Some os) vs))
    \<and> names_distinct (MergePluginAndPluginOptionValueSlice (Some os) vs)
    \<and> lookup_value (MergePluginAndPluginOptionValueSlice (Some os) vs) n =
       (case (lookup_value vs n, find (\<lambda>op. po_name op = n \<and> po_default op \<noteq> None) os) of
          (None, None) \<Rightarrow> None
        | (None, Some op) \<Rightarrow> Some (plain_value n (po_default op))
        | (Some v, None) \<Rightarrow> Some v
        | (Some v, Some _) \<Rightarrow> Some (plain_value n (ov_value v)))"
proof (intro conjI)
  let ?m = "foldl setOrAppendNameValue (option_defaults os) vs"
  have d: "names_distinct ?m"
    by (rule so.distinct_puts [OF names_option_defaults [OF assms(1)]])
  have "mset (map ov_name (sort_key ov_name ?m)) = mset (map ov_name ?m)" by simp
  with d show "names_distinct (MergePluginAndPluginOptionValueSlice (Some os) vs)"
    unfolding names_distinct_def MergePluginAndPluginOptionValueSlice_def
    by (metis mset_eq_imp_distinct_iff option.simps(5))
  show "sorted (map ov_name (MergePluginAndPluginOptionValueSlice (Some os) vs))"
    by (simp add: MergePluginAndPluginOptionValueSlice_def)
  show "lookup_value (MergePluginAndPluginOptionValueSlice (Some os) vs) n =
       (case (lookup_value vs n, find (\<lambda>op. po_name op = n \<and> po_default op \<noteq> None) os) of
          (None, None) \<Rightarrow> None
        | (None, Some op) \<Rightarrow> Some (plain_value n (po_default op))
        | (Some v, None) \<Rightarrow> Some v
        | (Some v, Some _) \<Rightarrow> Some (plain_value n (ov_value v)))"
    by (auto simp: merge_lookup [OF assms] lookup_option_defaults plain_value_def split: option.split)
qed

definition sample_option :: "string \<Rightarrow> string option \<Rightarrow> plugin_option_type \<Rightarrow> plugin_option" where
  "sample_option n d t =
     \<lparr>po_name = n, po_default = d, po_description = [], po_displayName = [], po_required = False,
      po_type = t, po_regex = []\<rparr>"

definition secret_value :: "string \<Rightarrow> plugin_option_value" where
  "secret_value n =
     \<lparr>ov_name = n, ov_value = None,
      ov_valueFrom = Some \<lparr>pv_secret = Some \<lparr>sk_name = ''s'', sk_key = ''k''\<rparr>, pv_ref = None\<rparr>,
      ov_expression = None\<rparr>"

theorem merge_option_values_witness:
  "lookup_value (MergePluginAndPluginOptionValueSlice
      (Some [sample_option ''user'' (Some ''1'') PluginOptionTypeInt])
      [plain_value ''zone'' (Some ''2''), secret_value ''user'']) ''user''
   = Some (plain_value ''user'' None)"
proof -
  let ?os = "[sample_option ''user'' (Some ''1'') PluginOptionTypeInt]"
  let ?vs = "[plain_value ''zone'' (Some ''2''), secret_value ''user'']"
  have "distinct (map po_name ?os)" "names_distinct ?vs"
    by (simp_all add: names_distinct_def plain_value_def secret_value_def)
  from merge_option_values [OF this, of "''user''"] show ?thesis
    by (simp add: lookup_value_Cons sample_option_def plain_value_def secret_value_def)
qed

section \<open>Idempotence of defaulting\<close>

lemma extractMetadataKey_inj:
  "extractMetadataKey k = extractMetadataKey k' \<Longrightarrow> extractMetadataKey k \<noteq> [] \<Longrightarrow> k = k'"
  by (auto simp: extractMetadataKey_def prefix_def split: if_splits)

lemma names_metadata_values: "smap_ok labels \<Longrightarrow> names_distinct (metadata_values labels)"
proof (induction labels)
  case (Cons e labels)
  obtain k v where e: "e = (k, v)" by (cases e)
  from Cons.prems e have ok: "smap_ok labels" and new: "k \<notin> fst ` set labels"
    by (auto simp: smap_ok_def)
  from new have "extractMetadataKey k \<noteq> [] \<Longrightarrow>
      \<forall>f \<in> set labels. extractMetadataKey (fst f) \<noteq> extractMetadataKey k"
    by (metis extractMetadataKey_inj image_eqI)
  with Cons.IH [OF ok] show ?case
    by (force simp: e metadata_values_def names_distinct_def plain_value_def)
qed (simp add: metadata_values_def names_distinct_def)

lemma metadata_values_prefix:
  "v \<in> set (metadata_values labels) \<Longrightarrow> prefix ''global.greenhouse.metadata.'' (ov_name v)"
  by (auto simp: metadata_values_def plain_value_def)

lemma greenhouse_names_not_metadata:
  "\<not> prefix ''global.greenhouse.metadata.'' ''global.greenhouse.clusterNames''"
  "\<not> prefix ''global.greenhouse.metadata.'' ''global.greenhouse.teamNames''"
  "\<not> prefix ''global.greenhouse.metadata.'' ''global.greenhouse.organizationName''"
  "\<not> prefix ''global.greenhouse.metadata.'' ''global.greenhouse.clusterName''"
  "\<not> prefix ''global.greenhouse.metadata.'' ''global.greenhouse.baseDomain''"
  "\<not> prefix ''global.greenhouse.metadata.'' ''global.greenhouse.ownedBy''"
  by simp_all

lemma greenhouse_values_distinct:
  assumes "GetGreenhouseValues rd p = Inr gv"
    and ok: "\<And>key cl. pr_get_cluster rd key = Inr cl \<Longrightarrow> smap_ok (o_labels cl)"
  shows "names_distinct gv"
proof -
  define md where "md = (case pr_get_cluster rd
      \<lparr>nn_namespace = o_namespace p, nn_name = ps_clusterName (pl_spec p)\<rparr> of
    Inl _ \<Rightarrow> [] | Inr cl \<Rightarrow> metadata_values (o_labels cl))"
  have d: "distinct (map ov_name md)"
    using ok names_metadata_values by (auto simp: md_def names_distinct_def split: sum.split)
  have pre: "\<forall>v \<in> set md. prefix ''global.greenhouse.metadata.'' (ov_name v)"
    using metadata_values_prefix by (auto simp: md_def split: sum.split)
  have "n \<notin> ov_name ` set md" if "\<not> prefix ''global.greenhouse.metadata.'' n" for n
    using pre that by blast
  note new = greenhouse_names_not_metadata [THEN this]
  from assms(1) obtain cs ts where "gv =
      [plain_value ''global.greenhouse.clusterNames'' cs, plain_value ''global.greenhouse.teamNames'' ts,
       plain_value ''global.greenhouse.organizationName'' (json_string (o_namespace p))]
      @ (if ps_clusterName (pl_spec p) \<noteq> []
         then plain_value ''global.greenhouse.clusterName'' (json_string (ps_clusterName (pl_spec p))) # md
         else [])
      @ [plain_value ''global.greenhouse.baseDomain'' (json_string (pr_dnsDomain rd))]
      @ (if smap_val (o_labels p) LabelKeyOwnedBy \<noteq> []
         then [plain_value ''global.greenhouse.ownedBy'' (json_string (smap_val (o_labels p) LabelKeyOwnedBy))]
         else [])"
    unfolding GetGreenhouseValues_def md_def [symmetric] Let_def by (simp split: sum.splits) metis
  with d new show ?thesis
    by (cases "ps_clusterName (pl_spec p) = []"; cases "smap_val (o_labels p) LabelKeyOwnedBy = []")
      (simp_all add: names_distinct_def plain_value_def)
qed

lemma merge_names_distinct:
  assumes "distinct (map po_name (case os of None \<Rightarrow> [] | Some l \<Rightarrow> l))" and "names_distinct vs"
  shows "names_distinct (MergePluginAndPluginOptionValueSlice os vs)"
proof (cases os)
  case None
  with assms show ?thesis by (simp add: MergePluginAndPluginOptionValueSlice_def)
next
  case (Some l)
  let ?m = "foldl setOrAppendNameValue (option_defaults l) vs"
  have "mset (map ov_name (sort_key ov_name ?m)) = mset (map ov_name ?m)" by simp
  moreover have "names_distinct ?m"
    using assms Some by (simp add: so.distinct_puts names_option_defaults)
  ultimately show ?thesis
    unfolding Some names_distinct_def MergePluginAndPluginOptionValueSlice_def
    by (metis mset_eq_imp_distinct_iff option.simps(5))
qed

lemma merge_again:
  assumes "distinct (map po_name (case os of None \<Rightarrow> [] | Some l \<Rightarrow> l))"
    and vs: "names_distinct vs" and gv: "names_distinct gv"
  defines "r \<equiv> MergePluginOptionValues (MergePluginAndPluginOptionValueSlice os vs) gv"
  shows "lookup_value (MergePluginOptionValues (MergePluginAndPluginOptionValueSlice os r) gv) n
    = lookup_value r n"
proof -
  have m: "names_distinct (MergePluginAndPluginOptionValueSlice os vs)"
    by (rule merge_names_distinct [OF assms(1) vs])
  have r: "names_distinct r"
    unfolding r_def MergePluginOptionValues_def by (rule so.distinct_puts [OF m])
  have rn: "lookup_value r n = (case lookup_value gv n of
      None \<Rightarrow> lookup_value (MergePluginAndPluginOptionValueSlice os vs) n
    | Some v \<Rightarrow> Some (case lookup_value (MergePluginAndPluginOptionValueSlice os vs) n of
          None \<Rightarrow> v | Some x \<Rightarrow> x\<lparr>ov_value := ov_value v\<rparr>))"
    by (simp add: r_def MergePluginOptionValues_def so.lookup_puts [OF gv])
  show ?thesis
  proof (cases os)
    case None
    then show ?thesis
      using rn by (auto simp: MergePluginOptionValues_def so.lookup_puts [OF gv]
          MergePluginAndPluginOptionValueSlice_def split: option.splits)
  next
    case (Some l)
    with assms(1) have dl: "distinct (map po_name l)" by simp
    show ?thesis
      using rn unfolding Some
      by (auto simp: MergePluginOptionValues_def so.lookup_puts [OF gv] merge_lookup [OF dl vs]
          merge_lookup [OF dl r] lookup_option_defaults plain_value_def split: option.splits)
  qed
qed

text \<open>
  Computing the option values of a plugin is idempotent: when the defaulting webhook sees its own
  result again, every option keeps its entry.
\<close>

theorem option_values_idempotent:
  assumes run: "GetPluginOptionValuesForPlugin rd p = Inr vs"
    and vals: "names_distinct (ps_optionValues (pl_spec p))"
    and opts: "\<And>spec. GetPluginDefinitionSpec rd (ps_pluginDefinitionRef (pl_spec p)) (o_namespace p) = Inr spec
      \<Longrightarrow> distinct (map po_name (options_of spec))"
    and labels: "\<And>key cl. pr_get_cluster rd key = Inr cl \<Longrightarrow> smap_ok (o_labels cl)"
  shows "\<exists>vs'. GetPluginOptionValuesForPlugin rd
      (p\<lparr>pl_spec := (pl_spec p)\<lparr>ps_optionValues := vs\<rparr>\<rparr>) = Inr vs' \<and>
    (\<forall>n. lookup_value vs' n = lookup_value vs n)"
proof -
  let ?p' = "p\<lparr>pl_spec := (pl_spec p)\<lparr>ps_optionValues := vs\<rparr>\<rparr>"
  from run obtain spec gv where
    spec: "GetPluginDefinitionSpec rd (ps_pluginDefinitionRef (pl_spec p)) (o_namespace p) = Inr spec"
    and gv: "GetGreenhouseValues rd p = Inr gv"
    and vs: "vs = MergePluginOptionValues
        (MergePluginAndPluginOptionValueSlice (pds_options spec) (ps_optionValues (pl_spec p))) gv"
    by (auto simp: GetPluginOptionValuesForPlugin_def Let_def split: sum.splits)
  have "GetGreenhouseValues rd ?p' = Inr gv"
    using gv by (auto simp: GetGreenhouseValues_def Let_def split: sum.splits if_splits)
  then have "GetPluginOptionValuesForPlugin rd ?p' =
      Inr (MergePluginOptionValues (MergePluginAndPluginOptionValueSlice (pds_options spec) vs) gv)"
    using spec by (simp add: GetPluginOptionValuesForPlugin_def Let_def)
  then show ?thesis
    using merge_again [OF opts [OF spec, unfolded options_of_def] vals greenhouse_values_distinct [OF gv labels]]
    by (simp add: vs)
qed

definition sample_definition :: "plugin_option list \<Rightarrow> plugin_definition" where
  "sample_definition os =
     \<lparr>o_name = ''pd'', o_namespace = ''org'', o_labels = [], o_annotations = [], o_finalizers = [],
      o_deletionTimestamp = None, o_ownerReferences = [], o_conditions = [],
      pd_spec = \<lparr>pds_displayName = [], pds_description = [],
        pds_helmChart = Some \<lparr>hc_name = ''chart'', hc_repository = ''oci://r'', hc_version = ''1''\<rparr>,
        pds_uiApplication = None, pds_options = Some os, pds_version = ''1'', pds_weight = None,
        pds_icon = [], pds_docsURL = [], pds_docMarkDownUrl = []\<rparr>,
      pd_lastSyncedArtifact = None\<rparr>"

definition sample_plugin_reads :: "plugin_option list \<Rightarrow> plugin_reads" where
  "sample_plugin_reads os =
     \<lparr>pr_get_team = (\<lambda>_. Inl (ApiError ReasonNotFound ''not found'' [])),
      pr_get_pluginDefinition = (\<lambda>_. Inr (sample_definition os)),
      pr_get_clusterPluginDefinition = (\<lambda>_. Inl (ApiError ReasonNotFound ''not found'' [])),
      pr_get_cluster = (\<lambda>_. Inl (ApiError ReasonNotFound ''not found'' [])),
      pr_list_clusters = (\<lambda>_. Inr []), pr_list_teams = (\<lambda>_. Inr []),
      pr_list_plugins = (\<lambda>_ _ _. Inr []), pr_dnsDomain = ''example.com''\<rparr>"

definition sample_plugin :: "plugin_option_value list \<Rightarrow> plugin" where
  "sample_plugin vs =
     zero_plugin\<lparr>o_name := ''my-plugin'', o_namespace := ''org'',
       pl_spec := zero_plugin_spec\<lparr>ps_pluginDefinitionRef := \<lparr>pdr_name = ''pd'', pdr_kind = PluginDefinitionKind\<rparr>,
         ps_optionValues := vs\<rparr>\<rparr>"

theorem option_values_idempotent_witness:
  "\<exists>vs vs'. GetPluginOptionValuesForPlugin (sample_plugin_reads [sample_option ''a'' (Some ''1'') PluginOptionTypeInt])
        (sample_plugin [plain_value ''b'' (Some ''2'')]) = Inr vs \<and>
     GetPluginOptionValuesForPlugin (sample_plugin_reads [sample_option ''a'' (Some ''1'') PluginOptionTypeInt])
        ((sample_plugin [plain_value ''b'' (Some ''2'')])\<lparr>pl_spec :=
           (pl_spec (sample_plugin [plain_value ''b'' (Some ''2'')]))\<lparr>ps_optionValues := vs\<rparr>\<rparr>) = Inr vs' \<and>
     lookup_value vs' ''a'' = lookup_value vs ''a''"
proof -
  let ?rd = "sample_plugin_reads [sample_option ''a'' (Some ''1'') PluginOptionTypeInt]"
  let ?p = "sample_plugin [plain_value ''b'' (Some ''2'')]"
  have spec: "GetPluginDefinitionSpec ?rd (ps_pluginDefinitionRef (pl_spec ?p)) (o_namespace ?p)
      = Inr (pd_spec (sample_definition [sample_option ''a'' (Some ''1'') PluginOptionTypeInt]))"
    by (simp add: GetPluginDefinitionSpec_def sample_plugin_reads_def sample_plugin_def)
  obtain gv where gv: "GetGreenhouseValues ?rd ?p = Inr gv"
    by (auto simp: GetGreenhouseValues_def sample_plugin_reads_def Let_def)
  obtain vs where run: "GetPluginOptionValuesForPlugin ?rd ?p = Inr vs"
    using spec gv by (simp add: GetPluginOptionValuesForPlugin_def Let_def)
  have "names_distinct (ps_optionValues (pl_spec ?p))"
    by (simp add: sample_plugin_def names_distinct_def)
  moreover have "distinct (map po_name (options_of sp))"
    if "GetPluginDefinitionSpec ?rd (ps_pluginDefinitionRef (pl_spec ?p)) (o_namespace ?p) = Inr sp" for sp
    using that spec by (auto simp: options_of_def sample_definition_def)
  moreover have "smap_ok (o_labels cl)" if "pr_get_cluster ?rd key = Inr cl" for key cl
    using that by (simp add: sample_plugin_reads_def)
  ultimately show ?thesis using option_values_idempotent [OF run] run by blast
qed

end
