(* ===== verification/Webhook_Plugin.thy ===== *)
theory Webhook_Plugin
  imports Webhook_Common Plugin_Values
begin

text \<open>
  The admission webhooks of plugins, plugin presets and plugin definitions
  (\<open>internal/webhook/v1alpha1/plugin_webhook.go\<close>, \<open>pluginpreset_webhook.go\<close>,
  \<open>plugindefinition_webhook.go\<close>). A nil dereference in a webhook is recovered by the webhook server and
  denies the request; it is the error \<open>panic_error\<close> here. Helm's check of release names is the parameter
  \<open>rn\<close>.
\<close>

section \<open>Option values\<close>

definition panic_error :: go_error where
  "panic_error = PlainError ''panic: runtime error: invalid memory address or nil pointer dereference''"

definition VaultPrefix :: string where "VaultPrefix = ''vault+kvv2:///''"

definition pluginsAllowedInCentralCluster :: "string list" where
  "pluginsAllowedInCentralCluster =
     [''alerts'', ''doop'', ''heureka'', ''kube-monitoring'', ''kubeconfig-generator'', ''perses'',
      ''permission-manager'', ''repo-guard'', ''service-proxy'', ''teams2slack'', ''thanos'']"

definition hasExactlyOneValueSource :: "plugin_option_value \<Rightarrow> bool" where
  "hasExactlyOneValueSource val \<longleftrightarrow>
     length (filter id [ov_value val \<noteq> None, ov_valueFrom val \<noteq> None, ov_expression val \<noteq> None]) = 1"

text \<open>The body of the inner loop for a value of the option; \<open>None\<close> is the nil dereference.\<close>

definition check_option_value ::
  "field_path \<Rightarrow> plugin_option \<Rightarrow> nat \<Rightarrow> plugin_option_value \<Rightarrow> field_error list option" where
  "check_option_value path opt idx val =
     (let p = path @ [PIndex idx] in
      if \<not> hasExactlyOneValueSource val
      then Some [field_err FieldRequired p []
             (''must provide exactly one of value, valueFrom, or expression for value '' @ ov_name val)]
      else if po_type opt = PluginOptionTypeSecret
      then (case ov_value val of
              Some raw \<Rightarrow>
                (let vp = p @ [PChild ''value''];
                     valStr = (case unmarshal_string raw of Inl _ \<Rightarrow> [] | Inr s \<Rightarrow> s)
                 in Some
                   ((case unmarshal_string raw of
                       Inl e \<Rightarrow> [field_err FieldTypeInvalid vp ''*****'' (error_text e)] | Inr _ \<Rightarrow> [])
                    @ (if \<not> Contains valStr VaultPrefix
                       then [field_err FieldTypeInvalid vp ''*****''
                               (''optionValue '' @ ov_name val @ '' of type secret without secret reference''
                                @ '' must use value with vault reference prefixed by schema '' @ quoted VaultPrefix)]
                       else [])))
            | None \<Rightarrow>
                (case ov_valueFrom val of
                   None \<Rightarrow> Some []
                 | Some src \<Rightarrow>
                     (case pv_secret src of
                        None \<Rightarrow> None
                      | Some ref \<Rightarrow> Some
                          (if sk_name ref = []
                           then [field_err FieldRequired (p @ [PChild ''valueFrom'', PChild ''name'']) []
                                   (''optionValue '' @ ov_name val @ '' of type secret must reference a secret by name'')]
                           else if sk_key ref = []
                           then [field_err FieldRequired (p @ [PChild ''valueFrom'', PChild ''key'']) []
                                   (''optionValue '' @ ov_name val @ '' of type secret must reference a key in a secret'')]
                           else []))))
      else (case ov_value val of
              None \<Rightarrow> Some []
            | Some raw \<Rightarrow>
                (case PluginOption_IsValidValue opt raw of
                   None \<Rightarrow> Some []
                 | Some e \<Rightarrow> Some [field_err FieldInvalid (p @ [PChild ''value'']) raw (error_text e)])))"

text \<open>Running a loop whose body may panic and collecting the errors.\<close>

fun collect :: "('a \<Rightarrow> 'b list option) \<Rightarrow> 'a list \<Rightarrow> 'b list option" where
  "collect f [] = Some []"
| "collect f (x # xs) =
     (case f x of None \<Rightarrow> None
      | Some ys \<Rightarrow> map_option (\<lambda>zs. ys @ zs) (collect f xs))"

definition option_errors ::
  "plugin_option_value list \<Rightarrow> string \<Rightarrow> bool \<Rightarrow> field_path \<Rightarrow> plugin_option \<Rightarrow> field_error list option" where
  "option_errors optionValues pdName checkRequired path opt =
     map_option
       (\<lambda>errs. errs @
          (if checkRequired \<and> po_required opt \<and> \<not> list_ex (\<lambda>v. ov_name v = po_name opt) optionValues
           then [field_err FieldRequired path []
                   (''Option '' @ [CHR 0x27] @ po_name opt @ [CHR 0x27] @ '' is required by PluginDefinition ''
                    @ [CHR 0x27] @ pdName @ [CHR 0x27])]
           else []))
       (collect (\<lambda>(idx, val). if po_name opt \<noteq> ov_name val then Some [] else check_option_value path opt idx val)
          (enumerate 0 optionValues))"

definition validatePluginOptionValues ::
  "plugin_option_value list \<Rightarrow> string \<Rightarrow> plugin_definition_spec \<Rightarrow> bool \<Rightarrow> field_path
     \<Rightarrow> field_error list option" where
  "validatePluginOptionValues optionValues pdName spec checkRequired path =
     collect (option_errors optionValues pdName checkRequired path) (options_of spec)"

section \<open>Dependencies\<close>

definition wait_path :: "nat \<Rightarrow> string list \<Rightarrow> field_path" where
  "wait_path i cs = [PChild ''spec'', PChild ''waitFor'', PIndex i] @ map PChild cs"

fun wait_for_errors ::
  "bool \<Rightarrow> nat \<Rightarrow> nat smap \<Rightarrow> nat smap \<Rightarrow> wait_for_item list \<Rightarrow> field_error list" where
  "wait_for_errors central i seenN seenP [] = []"
| "wait_for_errors central i seenN seenP (item # items) =
     (if wf_name item \<noteq> [] \<and> wf_pluginPreset item \<noteq> []
      then field_err FieldInvalid (wait_path i [''pluginRef'', ''name'']) (wf_name item)
             ''pluginRef.name and pluginRef.pluginPreset are mutually exclusive''
           # wait_for_errors central (Suc i) seenN seenP items
      else if wf_name item \<noteq> []
      then (case smap_get seenN (wf_name item) of
              Some first \<Rightarrow>
                field_err FieldDuplicate (wait_path first [''pluginRef'', ''name'']) (wf_name item) []
                # field_err FieldDuplicate (wait_path i [''pluginRef'', ''name'']) (wf_name item) []
                # wait_for_errors central (Suc i) seenN seenP items
            | None \<Rightarrow> wait_for_errors central (Suc i) (smap_set (wf_name item) i seenN) seenP items)
      else if wf_pluginPreset item \<noteq> []
      then (if central
            then field_err FieldInvalid (wait_path i [''pluginRef'', ''pluginPreset'']) (wf_pluginPreset item)
                   ''plugins running in the central cluster cannot have PluginPreset dependencies''
                 # wait_for_errors central (Suc i) seenN seenP items
            else case smap_get seenP (wf_pluginPreset item) of
                   Some first \<Rightarrow>
                     field_err FieldDuplicate (wait_path first [''pluginRef'', ''pluginPreset'']) (wf_pluginPreset item) []
                     # field_err FieldDuplicate (wait_path i [''pluginRef'', ''pluginPreset'']) (wf_pluginPreset item) []
                     # wait_for_errors central (Suc i) seenN seenP items
                 | None \<Rightarrow> wait_for_errors central (Suc i) seenN (smap_set (wf_pluginPreset item) i seenP) items)
      else field_err FieldRequired (wait_path i [''pluginRef'']) []
             ''either pluginRef.name or pluginRef.pluginPreset must be set''
           # wait_for_errors central (Suc i) seenN seenP items)"

definition validateWaitForPluginRefs :: "wait_for_item list \<Rightarrow> bool \<Rightarrow> field_error list" where
  "validateWaitForPluginRefs items central = wait_for_errors central 0 [] [] items"

section \<open>Plugin\<close>

definition webhook_getPluginDefinitionSpec ::
  "plugin_reads \<Rightarrow> plugin \<Rightarrow> go_error + plugin_definition_spec" where
  "webhook_getPluginDefinitionSpec rd p =
     (let ref = ps_pluginDefinitionRef (pl_spec p)
      in if pdr_kind ref = PluginDefinitionKind
         then map_sum id pd_spec (pr_get_pluginDefinition rd \<lparr>nn_namespace = o_namespace p, nn_name = pdr_name ref\<rparr>)
         else if pdr_kind ref = ClusterPluginDefinitionKind
         then map_sum id pd_spec (pr_get_clusterPluginDefinition rd (pdr_name ref))
         else Inl (PlainError ''unsupported PluginDefinition kind''))"

definition pd_ref_path :: "string \<Rightarrow> field_path" where
  "pd_ref_path c = [PChild ''spec'', PChild ''pluginDefinitionRef'', PChild c]"

text \<open>The labels and the display name, set before the option values.\<close>

definition default_plugin_labels :: "plugin \<Rightarrow> plugin" where
  "default_plugin_labels p =
     (let ref = ps_pluginDefinitionRef (pl_spec p);
          l1 = smap_del LabelKeyPlugin (smap_set LabelKeyCluster (ps_clusterName (pl_spec p)) (o_labels p))
      in p\<lparr>o_labels :=
             if pdr_kind ref = PluginDefinitionKind
             then smap_set LabelKeyPluginDefinition (pdr_name ref) (smap_del LabelKeyClusterPluginDefinition l1)
             else if pdr_kind ref = ClusterPluginDefinitionKind
             then smap_set LabelKeyClusterPluginDefinition (pdr_name ref) (smap_del LabelKeyPluginDefinition l1)
             else l1\<rparr>)"

definition default_display_name :: "plugin \<Rightarrow> plugin" where
  "default_display_name p =
     (if ps_displayName (pl_spec p) = []
      then p\<lparr>pl_spec := (pl_spec p)\<lparr>ps_displayName :=
              TrimSpace (replace_char (CHR ''-'') (CHR '' '') (o_name p))\<rparr>\<rparr>
      else p)"

definition DefaultPlugin :: "plugin_reads \<Rightarrow> plugin \<Rightarrow> go_error option \<times> plugin" where
  "DefaultPlugin rd p =
     (if pdr_name (ps_pluginDefinitionRef (pl_spec p)) = []
      then (Some (FieldError (field_err FieldRequired (pd_ref_path ''name'') [] ''PluginDefinition name must be set'')), p)
      else
        let p1 = (if pdr_kind (ps_pluginDefinitionRef (pl_spec p)) = []
                  then p\<lparr>pl_spec := (pl_spec p)\<lparr>ps_pluginDefinitionRef :=
                         (ps_pluginDefinitionRef (pl_spec p))\<lparr>pdr_kind := PluginDefinitionKind\<rparr>\<rparr>\<rparr>
                  else p)
        in case webhook_getPluginDefinitionSpec rd p1 of
             Inl e \<Rightarrow>
               (Some (if Contains (error_text e) ''unsupported''
                      then FieldError (field_err FieldInvalid (pd_ref_path ''kind'')
                             (pdr_kind (ps_pluginDefinitionRef (pl_spec p1))) ''unsupported PluginDefinition kind'')
                      else e), p1)
           | Inr spec \<Rightarrow>
               (let p2 = default_display_name (default_plugin_labels p1)
                in case GetPluginOptionValuesForPlugin rd p2 of
                     Inl e \<Rightarrow> (Some e, p2)
                   | Inr vs \<Rightarrow>
                       (let p3 = p2\<lparr>pl_spec := (pl_spec p2)\<lparr>ps_optionValues := vs\<rparr>\<rparr>
                        in if pds_uiApplication spec \<noteq> None \<and> pds_helmChart spec = None then (None, p3)
                           else
                             let p4 = (if ps_releaseNamespace (pl_spec p3) = []
                                       then p3\<lparr>pl_spec := (pl_spec p3)\<lparr>ps_releaseNamespace := o_namespace p3\<rparr>\<rparr>
                                       else p3)
                             in if ps_releaseName (pl_spec p4) = []
                                then if pl_helmReleaseStatus p4 \<noteq> None
                                     then (None, p4\<lparr>pl_spec := (pl_spec p4)\<lparr>ps_releaseName := o_name p4\<rparr>\<rparr>)
                                     else (case pds_helmChart spec of
                                             None \<Rightarrow>
                                               (Some (FieldError (field_err FieldInternal (pd_ref_path ''name'') []
                                                 (''PluginDefinition '' @ pdr_name (ps_pluginDefinitionRef (pl_spec p4))
                                                  @ '' does not have a HelmChart''))), p4)
                                           | Some hc \<Rightarrow>
                                               (None, p4\<lparr>pl_spec := (pl_spec p4)\<lparr>ps_releaseName := hc_name hc\<rparr>\<rparr>))
                                else (None, p4))))"

definition validateReleaseName :: "(string \<Rightarrow> go_error option) \<Rightarrow> string \<Rightarrow> go_error option" where
  "validateReleaseName rn name = (if name = [] then None else rn name)"

definition validatePluginForCluster ::
  "plugin_reads \<Rightarrow> plugin \<Rightarrow> plugin_definition_spec \<Rightarrow> go_error option" where
  "validatePluginForCluster rd p spec =
     (let clusterName = ps_clusterName (pl_spec p) in
      if pds_helmChart spec = None \<or> o_namespace p = ''greenhouse'' then None
      else if clusterName = [] \<and>
              pdr_name (ps_pluginDefinitionRef (pl_spec p)) \<in> set pluginsAllowedInCentralCluster
      then (if ps_releaseNamespace (pl_spec p) \<noteq> o_namespace p
            then Some (FieldError (field_err FieldForbidden [PChild ''spec'', PChild ''releaseNamespace''] []
                   ''plugins running in the central cluster can only be deployed in the same namespace as the plugin''))
            else None)
      else if clusterName = []
      then Some (FieldError (field_err FieldRequired [PChild ''spec'', PChild ''clusterName''] []
             ''the clusterName must be set''))
      else case pr_get_cluster rd \<lparr>nn_namespace = o_namespace p, nn_name = clusterName\<rparr> of
             Inl e \<Rightarrow>
               Some (FieldError
                 (if IsNotFound e then field_err FieldNotFound [PChild ''spec'', PChild ''clusterName''] clusterName []
                  else field_err FieldInternal [PChild ''spec'', PChild ''clusterName''] [] (error_text e)))
           | Inr _ \<Rightarrow> None)"

definition validateOwnerReference :: "plugin \<Rightarrow> warnings" where
  "validateOwnerReference p =
     (case GetOwnerReference p PluginPresetKind of
        None \<Rightarrow> []
      | Some ref \<Rightarrow> [''Plugin is managed by PluginPreset '' @ [CHR 0x27] @ or_name ref @ [CHR 0x27]
           @ ''. Plugin will be reconciled to the desired state specified in the PluginPreset.''])"

definition plugin_owner_warnings :: "string \<Rightarrow> plugin_reads \<Rightarrow> 'a object_meta_scheme \<Rightarrow> warnings" where
  "plugin_owner_warnings what rd obj =
     (let warn = ValidateLabelOwnedBy (pr_get_team rd) obj
      in if warn \<noteq> [] then [what @ '' should have a support-group Team set as its owner'', warn] else [])"

definition definition_lookup_error :: "plugin \<Rightarrow> go_error \<Rightarrow> go_error" where
  "definition_lookup_error p e =
     (let name = pdr_name (ps_pluginDefinitionRef (pl_spec p)) in
      FieldError
        (if IsNotFound e
         then field_err FieldInvalid (pd_ref_path ''name'') name
                (''PluginDefinition '' @ name @ '' does not exist in namespace '' @ o_namespace p)
         else if Contains (error_text e) ''unsupported''
         then field_err FieldInvalid (pd_ref_path ''kind'') (pdr_kind (ps_pluginDefinitionRef (pl_spec p)))
                ''unsupported PluginDefinitionKind''
         else field_err FieldInvalid (pd_ref_path ''name'') name
                (''PluginDefinition '' @ name @ '' could not be retrieved from namespace '' @ o_namespace p
                 @ '': '' @ error_text e)))"

definition release_name_errors :: "(string \<Rightarrow> go_error option) \<Rightarrow> field_path \<Rightarrow> string \<Rightarrow> field_error list" where
  "release_name_errors rn path name =
     (case validateReleaseName rn name of None \<Rightarrow> [] | Some e \<Rightarrow> [field_err FieldInvalid path name (error_text e)])"

definition plugin_create_errors :: "(string \<Rightarrow> go_error option) \<Rightarrow> plugin \<Rightarrow> field_error list" where
  "plugin_create_errors rn p =
     (let ref = ps_pluginDefinitionRef (pl_spec p) in
      (if pdr_name ref = []
       then [field_err FieldInvalid (pd_ref_path ''name'') [] ''PluginDefinition name must be set''] else [])
      @ (if pdr_kind ref = []
         then [field_err FieldInvalid (pd_ref_path ''kind'') [] ''PluginDefinition kind must be set''] else [])
      @ release_name_errors rn [PChild ''spec'', PChild ''releaseName''] (ps_releaseName (pl_spec p))
      @ validateWaitForPluginRefs (ps_waitFor (pl_spec p)) (ps_clusterName (pl_spec p) = []))"

definition option_values_path :: field_path where
  "option_values_path = [PChild ''spec'', PChild ''optionValues'']"

definition ValidateCreatePlugin ::
  "(string \<Rightarrow> go_error option) \<Rightarrow> plugin_reads \<Rightarrow> plugin \<Rightarrow> warnings \<times> go_error option" where
  "ValidateCreatePlugin rn rd p =
     (let allWarns = plugin_owner_warnings ''Plugin'' rd p; allErrs = plugin_create_errors rn p in
      if allErrs \<noteq> [] then (allWarns, Some (NewInvalid ''Plugin.greenhouse.sap'' (o_name p) allErrs))
      else case webhook_getPluginDefinitionSpec rd p of
             Inl e \<Rightarrow> (allWarns, Some (definition_lookup_error p e))
           | Inr spec \<Rightarrow>
               (case validatePluginOptionValues (ps_optionValues (pl_spec p))
                       (pdr_name (ps_pluginDefinitionRef (pl_spec p))) spec True option_values_path of
                  None \<Rightarrow> ([], Some panic_error)
                | Some errs \<Rightarrow>
                    if errs \<noteq> [] then (allWarns, Some (NewInvalid ''Plugin.greenhouse.sap'' (o_name p) errs))
                    else (allWarns, validatePluginForCluster rd p spec)))"

definition immutable_errors :: "string \<Rightarrow> string \<Rightarrow> string \<Rightarrow> field_error list" where
  "immutable_errors old new field =
     (case ValidateImmutableField old new [PChild ''spec'', PChild field] of None \<Rightarrow> [] | Some e \<Rightarrow> [e])"

definition ValidateUpdatePlugin ::
  "(string \<Rightarrow> go_error option) \<Rightarrow> plugin_reads \<Rightarrow> plugin \<Rightarrow> plugin \<Rightarrow> warnings \<times> go_error option" where
  "ValidateUpdatePlugin rn rd old p =
     (let allWarns = validateOwnerReference old @ plugin_owner_warnings ''Plugin'' rd p;
          errs1 = immutable_errors (ps_clusterName (pl_spec old)) (ps_clusterName (pl_spec p)) ''clusterName''
                  @ validateWaitForPluginRefs (ps_waitFor (pl_spec p)) (ps_clusterName (pl_spec p) = [])
      in case webhook_getPluginDefinitionSpec rd p of
           Inl e \<Rightarrow> (allWarns, Some (definition_lookup_error p e))
         | Inr spec \<Rightarrow>
             (let errs2 = errs1
                    @ (if ps_releaseNamespace (pl_spec old) \<noteq> []
                       then immutable_errors (ps_releaseNamespace (pl_spec old)) (ps_releaseNamespace (pl_spec p))
                              ''releaseNamespace''
                       else [])
                    @ release_name_errors rn [PChild ''spec'', PChild ''releaseName''] (ps_releaseName (pl_spec p))
              in case validatePluginOptionValues (ps_optionValues (pl_spec p))
                        (pdr_name (ps_pluginDefinitionRef (pl_spec p))) spec True option_values_path of
                   None \<Rightarrow> ([], Some panic_error)
                 | Some errs \<Rightarrow>
                     if errs \<noteq> [] then (allWarns, Some (NewInvalid ''Plugin.greenhouse.sap'' (o_name p) errs))
                     else
                       let errs3 = errs2
                         @ (if ps_releaseName (pl_spec old) = [] \<and> pl_helmReleaseStatus p \<noteq> None \<and>
                               pds_uiApplication spec = None \<and> o_name p \<noteq> ps_releaseName (pl_spec p)
                            then [field_err FieldForbidden [PChild ''spec'', PChild ''releaseName''] []
                                    ''ReleaseName for existing Plugin cannot be changed'']
                            else [])
                       in if errs3 \<noteq> [] then (allWarns, Some (NewInvalid ''Plugin.greenhouse.sap'' (o_name p) errs3))
                          else (allWarns, None)))"

definition ValidateDeletePlugin :: "plugin_reads \<Rightarrow> plugin \<Rightarrow> warnings \<times> go_error option" where
  "ValidateDeletePlugin rd p = ([], None)"

definition plugin_webhook :: "(string \<Rightarrow> go_error option) \<Rightarrow> (plugin, plugin_reads) webhook_funcs" where
  "plugin_webhook rn =
     \<lparr>DefaultFunc = Some DefaultPlugin, ValidateCreateFunc = Some (ValidateCreatePlugin rn),
      ValidateUpdateFunc = Some (ValidateUpdatePlugin rn), ValidateDeleteFunc = Some ValidateDeletePlugin\<rparr>"

section \<open>PluginPreset\<close>

definition DefaultPluginPreset :: "plugin_reads \<Rightarrow> plugin_preset \<Rightarrow> go_error option \<times> plugin_preset" where
  "DefaultPluginPreset rd pp =
     (let pp1 = (if pdr_kind (pp_pluginDefinitionRef (preset_plugin pp)) = []
                 then pp\<lparr>preset_plugin := (preset_plugin pp)\<lparr>pp_pluginDefinitionRef :=
                        (pp_pluginDefinitionRef (preset_plugin pp))\<lparr>pdr_kind := PluginDefinitionKind\<rparr>\<rparr>\<rparr>
                 else pp);
          ref = pp_pluginDefinitionRef (preset_plugin pp1)
      in (None,
          if pdr_kind ref = PluginDefinitionKind
          then pp1\<lparr>o_labels := smap_del LabelKeyClusterPluginDefinition
                 (smap_set LabelKeyPluginDefinition (pdr_name ref) (o_labels pp1))\<rparr>
          else if pdr_kind ref = ClusterPluginDefinitionKind
          then pp1\<lparr>o_labels := smap_del LabelKeyPluginDefinition
                 (smap_set LabelKeyClusterPluginDefinition (pdr_name ref) (o_labels pp1))\<rparr>
          else pp1))"

definition preset_create_errors :: "(string \<Rightarrow> go_error option) \<Rightarrow> plugin_preset \<Rightarrow> field_error list" where
  "preset_create_errors rn pp =
     (let ref = pp_pluginDefinitionRef (preset_plugin pp);
          path = (\<lambda>c. [PChild ''spec'', PChild ''plugin'', PChild ''pluginDefinitionRef'', PChild c]) in
      (if pdr_name ref = []
       then [field_err FieldInvalid (path ''name'') [] ''PluginDefinition name must be set''] else [])
      @ (if pdr_kind ref = []
         then [field_err FieldInvalid (path ''kind'') [] ''PluginDefinition kind must be set''] else [])
      @ (if selector_empty (preset_clusterSelector pp)
         then [field_err FieldInvalid [PChild ''spec'', PChild ''clusterSelector''] []
                 ''ClusterSelector must be set''] else [])
      @ release_name_errors rn [PChild ''spec'', PChild ''plugin'', PChild ''releaseName'']
          (pp_releaseName (preset_plugin pp))
      @ validateWaitForPluginRefs (preset_waitFor pp) False)"

definition ValidateCreatePluginPreset ::
  "(string \<Rightarrow> go_error option) \<Rightarrow> plugin_reads \<Rightarrow> plugin_preset \<Rightarrow> warnings \<times> go_error option" where
  "ValidateCreatePluginPreset rn rd pp =
     (let allErrs = preset_create_errors rn pp
      in (plugin_owner_warnings ''PluginPreset'' rd pp,
          if allErrs \<noteq> [] then Some (NewInvalid ''PluginPreset.greenhouse.sap'' (o_name pp) allErrs) else None))"

definition ValidateUpdatePluginPreset ::
  "plugin_reads \<Rightarrow> plugin_preset \<Rightarrow> plugin_preset \<Rightarrow> warnings \<times> go_error option" where
  "ValidateUpdatePluginPreset rd old pp =
     (let allErrs = validateWaitForPluginRefs (preset_waitFor pp) False
      in (plugin_owner_warnings ''PluginPreset'' rd pp,
          if allErrs \<noteq> [] then Some (NewInvalid ''PluginPreset.greenhouse.sap'' (o_name pp) allErrs) else None))"

definition pluginpreset_webhook ::
  "(string \<Rightarrow> go_error option) \<Rightarrow> (plugin_preset, plugin_reads) webhook_funcs" where
  "pluginpreset_webhook rn =
     \<lparr>DefaultFunc = Some DefaultPluginPreset, ValidateCreateFunc = Some (ValidateCreatePluginPreset rn),
      ValidateUpdateFunc = Some ValidateUpdatePluginPreset, ValidateDeleteFunc = None\<rparr>"

text \<open>The validation of preset option values against a definition, which no webhook calls.\<close>

definition validatePluginOptionValuesForPreset ::
  "plugin_preset \<Rightarrow> string \<Rightarrow> plugin_definition_spec \<Rightarrow> field_error list option" where
  "validatePluginOptionValuesForPreset pp pdName spec =
     (case validatePluginOptionValues (convertPresetToPluginOptionValues (pp_optionValues (preset_plugin pp)))
             pdName spec False [PChild ''spec'', PChild ''plugin'', PChild ''optionValues''] of
        None \<Rightarrow> None
      | Some errs \<Rightarrow>
          map_option (\<lambda>more. errs @ more)
            (collect (\<lambda>(idx, co). validatePluginOptionValues (convertPresetToPluginOptionValues (co_overrides co))
                        pdName spec False
                        [PChild ''spec'', PChild ''clusterOptionOverrides'', PIndex idx, PChild ''overrides''])
               (enumerate 0 (preset_clusterOptionOverrides pp))))"

section \<open>PluginDefinition and ClusterPluginDefinition\<close>

definition validatePluginDefinitionMustSpecifyVersion :: "plugin_definition_spec \<Rightarrow> go_error option" where
  "validatePluginDefinitionMustSpecifyVersion spec =
     (if pds_version spec = []
      then Some (FieldError (field_err FieldRequired [PChild ''spec'', PChild ''version''] []
             ''PluginDefinition without spec.version is invalid.''))
      else None)"

definition validatePluginDefinitionMustSpecifyHelmChartOrUIApplication ::
  "plugin_definition_spec \<Rightarrow> string \<Rightarrow> string \<Rightarrow> go_error option" where
  "validatePluginDefinitionMustSpecifyHelmChartOrUIApplication spec kind name =
     (if pds_helmChart spec = None \<and> pds_uiApplication spec = None
      then Some (NewInvalid kind name
             [field_err FieldRequired [PChild ''spec'', PChild ''helmChart'', PChild ''uiApplication''] []
                ''A PluginDefinition without both spec.helmChart and spec.uiApplication is invalid.''])
      else None)"

definition validatePluginDefinitionOptionValueAndType ::
  "plugin_definition_spec \<Rightarrow> string \<Rightarrow> string \<Rightarrow> go_error option" where
  "validatePluginDefinitionOptionValueAndType spec kind name =
     (case find (\<lambda>op. PluginOption_IsValid op \<noteq> None) (options_of spec) of
        None \<Rightarrow> None
      | Some op \<Rightarrow>
          Some (NewInvalid kind name
            [field_err FieldInvalid [PChild ''spec'', PChild ''options'', PChild ''name''] (po_name op)
               (''A PluginOption Default must match the specified Type, and defaults are not allowed in ''
                @ ''PluginOptions of the '' @ [CHR 0x27] @ ''Secret'' @ [CHR 0x27] @ '' type.'')]))"

definition validate_definition :: "plugin_definition_spec \<Rightarrow> string \<Rightarrow> string \<Rightarrow> go_error option" where
  "validate_definition spec kind name =
     (case validatePluginDefinitionMustSpecifyHelmChartOrUIApplication spec kind name of
        Some e \<Rightarrow> Some e
      | None \<Rightarrow>
          (case validatePluginDefinitionMustSpecifyVersion spec of
             Some e \<Rightarrow> Some e
           | None \<Rightarrow> validatePluginDefinitionOptionValueAndType spec kind name))"

text \<open>\<open>validateDelete\<close>: \<open>pr_list_plugins ns key value\<close> lists the plugins with the label.\<close>

definition validateDelete ::
  "plugin_reads \<Rightarrow> string \<Rightarrow> string \<Rightarrow> string \<Rightarrow> warnings \<times> go_error option" where
  "validateDelete rd labelKey name ns =
     (case pr_list_plugins rd ns labelKey name of
        Inl e \<Rightarrow> ([], if IsNotFound e then None else Some e)
      | Inr [] \<Rightarrow> ([], None)
      | Inr (q # qs) \<Rightarrow>
          ([], Some (NewBadRequest (''PluginDefinition '' @ name @ '' is still in use by Plugin '' @ q
             @ (if qs = [] then [] else '' and '' @ Itoa (length qs) @ '' more'')))))"

definition plugindefinition_webhook ::
  "string \<Rightarrow> string \<Rightarrow> bool \<Rightarrow> (plugin_definition, plugin_reads) webhook_funcs" where
  "plugindefinition_webhook kind labelKey namespaced =
     \<lparr>DefaultFunc = Some (\<lambda>rd pd. (None, pd)),
      ValidateCreateFunc = Some (\<lambda>rd pd. ([], validate_definition (pd_spec pd) kind (o_name pd))),
      ValidateUpdateFunc = Some (\<lambda>rd old pd. ([], validate_definition (pd_spec pd) kind (o_name pd))),
      ValidateDeleteFunc = Some (\<lambda>rd pd.
        validateDelete rd labelKey (o_name pd) (if namespaced then o_namespace pd else []))\<rparr>"

section \<open>Lemmas\<close>

lemma collect_Some_Nil_iff:
  "collect f xs = Some [] \<longleftrightarrow> (\<forall>x \<in> set xs. f x = Some [])"
  by (induction xs) (auto split: option.splits)

lemma collect_None_iff: "collect f xs = None \<longleftrightarrow> (\<exists>x \<in> set xs. f x = None)"
  by (induction xs) (auto split: option.splits)

lemma enumerate_value_in_set: "(idx, v) \<in> set (enumerate n xs) \<Longrightarrow> v \<in> set xs"
  by (metis in_set_zip enumerate_eq_zip nth_mem snd_conv)

lemma in_enumerate: "v \<in> set xs \<Longrightarrow> \<exists>idx. (idx, v) \<in> set (enumerate n xs)"
proof (induction xs arbitrary: n)
  case (Cons x xs)
  then show ?case by (metis enumerate_simps(2) list.set_intros set_ConsD)
qed simp

text \<open>Values that pass the validation of a definition.\<close>

lemma validatePluginOptionValues_Nil_iff:
  "validatePluginOptionValues vs pdName spec req path = Some [] \<longleftrightarrow>
     (\<forall>opt \<in> set (options_of spec).
        (req \<and> po_required opt \<longrightarrow> (\<exists>v \<in> set vs. ov_name v = po_name opt)) \<and>
        (\<forall>(idx, v) \<in> set (enumerate 0 vs). ov_name v = po_name opt \<longrightarrow>
           check_option_value path opt idx v = Some []))"
proof -
  have "option_errors vs pdName req path opt = Some [] \<longleftrightarrow>
      (req \<and> po_required opt \<longrightarrow> (\<exists>v \<in> set vs. ov_name v = po_name opt)) \<and>
      (\<forall>(idx, v) \<in> set (enumerate 0 vs). ov_name v = po_name opt \<longrightarrow>
         check_option_value path opt idx v = Some [])" for opt
  proof -
    let ?f = "\<lambda>(idx, val). if po_name opt \<noteq> ov_name val then Some [] else check_option_value path opt idx val"
    have "collect ?f (enumerate 0 vs) = Some [] \<longleftrightarrow>
        (\<forall>(idx, v) \<in> set (enumerate 0 vs). ov_name v = po_name opt \<longrightarrow>
           check_option_value path opt idx v = Some [])"
      by (auto simp: collect_Some_Nil_iff)
    then show ?thesis
      by (auto simp: option_errors_def list_ex_iff)
  qed
  then show ?thesis by (simp add: validatePluginOptionValues_def collect_Some_Nil_iff)
qed

lemma check_option_value_sources:
  "check_option_value path opt idx v = Some [] \<Longrightarrow> hasExactlyOneValueSource v"
  by (auto simp: check_option_value_def Let_def split: if_splits)

section \<open>Dependencies are well formed\<close>

definition wait_names :: "wait_for_item list \<Rightarrow> string list" where
  "wait_names items = filter (\<lambda>n. n \<noteq> []) (map wf_name items)"

definition wait_presets :: "wait_for_item list \<Rightarrow> string list" where
  "wait_presets items = filter (\<lambda>n. n \<noteq> []) (map wf_pluginPreset items)"

definition wait_for_ok :: "bool \<Rightarrow> wait_for_item list \<Rightarrow> bool" where
  "wait_for_ok central items \<longleftrightarrow>
     (\<forall>it \<in> set items. (wf_name it \<noteq> []) \<noteq> (wf_pluginPreset it \<noteq> [])) \<and>
     distinct (wait_names items) \<and> distinct (wait_presets items) \<and>
     (central \<longrightarrow> wait_presets items = [])"

lemma wait_for_errors_Nil_iff:
  "wait_for_errors central i seenN seenP items = [] \<longleftrightarrow>
     wait_for_ok central items \<and>
     (\<forall>n \<in> set (wait_names items). smap_get seenN n = None) \<and>
     (\<forall>n \<in> set (wait_presets items). smap_get seenP n = None)"
proof (induction items arbitrary: i seenN seenP)
  case Nil
  then show ?case by (simp add: wait_for_ok_def wait_names_def wait_presets_def)
next
  case (Cons it items)
  note defs = wait_for_ok_def wait_names_def wait_presets_def
  show ?case
    by (cases "wf_name it = []"; cases "wf_pluginPreset it = []"; cases central)
      (use Cons.IH in \<open>auto simp: defs sm.get_upd split: option.splits if_splits\<close>)
qed

lemma validateWaitForPluginRefs_Nil_iff:
  "validateWaitForPluginRefs items central = [] \<longleftrightarrow> wait_for_ok central items"
  by (simp add: validateWaitForPluginRefs_def wait_for_errors_Nil_iff)

text \<open>
  The dependency check accepts a list exactly when every item names either a plugin or a preset,
  no plugin and no preset is named twice, and a plugin of the central cluster depends on no preset.
\<close>

theorem wait_for_accepts_iff:
  "validateWaitForPluginRefs items central = [] \<longleftrightarrow>
     (\<forall>it \<in> set items. (wf_name it \<noteq> []) \<noteq> (wf_pluginPreset it \<noteq> [])) \<and>
     distinct (filter (\<lambda>n. n \<noteq> []) (map wf_name items)) \<and>
     distinct (filter (\<lambda>n. n \<noteq> []) (map wf_pluginPreset items)) \<and>
     (central \<longrightarrow> filter (\<lambda>n. n \<noteq> []) (map wf_pluginPreset items) = [])"
  by (simp add: validateWaitForPluginRefs_Nil_iff wait_for_ok_def wait_names_def wait_presets_def)

theorem wait_for_accepts_iff_witness:
  "validateWaitForPluginRefs [\<lparr>wf_name = ''a'', wf_pluginPreset = []\<rparr>, \<lparr>wf_name = [], wf_pluginPreset = ''a''\<rparr>] False = []"
  by (subst wait_for_accepts_iff) simp

section \<open>What admitted plugins satisfy\<close>

definition definition_labels_ok :: "string smap \<Rightarrow> plugin_definition_reference \<Rightarrow> bool" where
  "definition_labels_ok labels ref \<longleftrightarrow>
     (pdr_kind ref = PluginDefinitionKind \<and> smap_get labels LabelKeyPluginDefinition = Some (pdr_name ref)
        \<and> smap_get labels LabelKeyClusterPluginDefinition = None)
     \<or> (pdr_kind ref = ClusterPluginDefinitionKind \<and>
        smap_get labels LabelKeyClusterPluginDefinition = Some (pdr_name ref)
        \<and> smap_get labels LabelKeyPluginDefinition = None)"

definition plugin_valid :: "(string \<Rightarrow> go_error option) \<Rightarrow> plugin \<Rightarrow> bool" where
  "plugin_valid rn p \<longleftrightarrow>
     smap_get (o_labels p) LabelKeyCluster = Some (ps_clusterName (pl_spec p)) \<and>
     definition_labels_ok (o_labels p) (ps_pluginDefinitionRef (pl_spec p)) \<and>
     wait_for_ok (ps_clusterName (pl_spec p) = []) (ps_waitFor (pl_spec p)) \<and>
     validateReleaseName rn (ps_releaseName (pl_spec p)) = None"

definition plugin_keeps :: "plugin \<Rightarrow> plugin \<Rightarrow> bool" where
  "plugin_keeps x y \<longleftrightarrow>
     ps_clusterName (pl_spec y) = ps_clusterName (pl_spec x) \<and>
     (ps_releaseNamespace (pl_spec x) \<noteq> [] \<longrightarrow>
        ps_releaseNamespace (pl_spec y) = ps_releaseNamespace (pl_spec x))"

lemma label_keys_distinct:
  "LabelKeyCluster \<noteq> LabelKeyPlugin" "LabelKeyCluster \<noteq> LabelKeyPluginDefinition"
  "LabelKeyCluster \<noteq> LabelKeyClusterPluginDefinition"
  "LabelKeyPluginDefinition \<noteq> LabelKeyClusterPluginDefinition"
  "PluginDefinitionKind \<noteq> ClusterPluginDefinitionKind"
  by (simp_all add: LabelKeyCluster_def LabelKeyPlugin_def LabelKeyPluginDefinition_def
      LabelKeyClusterPluginDefinition_def PluginDefinitionKind_def ClusterPluginDefinitionKind_def)

lemma default_plugin_labels_ok:
  assumes "pdr_kind (ps_pluginDefinitionRef (pl_spec p)) \<in> {PluginDefinitionKind, ClusterPluginDefinitionKind}"
  shows "smap_get (o_labels (default_plugin_labels p)) LabelKeyCluster = Some (ps_clusterName (pl_spec p))
    \<and> definition_labels_ok (o_labels (default_plugin_labels p)) (ps_pluginDefinitionRef (pl_spec p))"
  using assms label_keys_distinct
  by (auto simp: default_plugin_labels_def definition_labels_ok_def Let_def sm.get_upd sm.get_del)

lemma webhook_getPluginDefinitionSpec_kind:
  "webhook_getPluginDefinitionSpec rd p = Inr spec \<Longrightarrow>
     pdr_kind (ps_pluginDefinitionRef (pl_spec p)) \<in> {PluginDefinitionKind, ClusterPluginDefinitionKind}"
  by (auto simp: webhook_getPluginDefinitionSpec_def Let_def split: if_splits)

lemma default_plugin_labels_spec [simp]:
  "pl_spec (default_plugin_labels p) = pl_spec p" "o_name (default_plugin_labels p) = o_name p"
  "o_namespace (default_plugin_labels p) = o_namespace p"
  by (simp_all add: default_plugin_labels_def Let_def)

lemma default_display_name_keeps [simp]:
  "o_labels (default_display_name p) = o_labels p"
  "o_name (default_display_name p) = o_name p" "o_namespace (default_display_name p) = o_namespace p"
  "ps_clusterName (pl_spec (default_display_name p)) = ps_clusterName (pl_spec p)"
  "ps_pluginDefinitionRef (pl_spec (default_display_name p)) = ps_pluginDefinitionRef (pl_spec p)"
  "ps_optionValues (pl_spec (default_display_name p)) = ps_optionValues (pl_spec p)"
  by (simp_all add: default_display_name_def)

text \<open>What a successful defaulting gives: the labels, and the computed option values.\<close>

lemma DefaultPlugin_ok:
  assumes "DefaultPlugin rd req = (None, p)"
  shows "smap_get (o_labels p) LabelKeyCluster = Some (ps_clusterName (pl_spec p))
    \<and> definition_labels_ok (o_labels p) (ps_pluginDefinitionRef (pl_spec p))"
proof -
  define p1 where "p1 = (if pdr_kind (ps_pluginDefinitionRef (pl_spec req)) = []
    then req\<lparr>pl_spec := (pl_spec req)\<lparr>ps_pluginDefinitionRef :=
      (ps_pluginDefinitionRef (pl_spec req))\<lparr>pdr_kind := PluginDefinitionKind\<rparr>\<rparr>\<rparr> else req)"
  from assms obtain spec where spec: "webhook_getPluginDefinitionSpec rd p1 = Inr spec"
    by (auto simp: DefaultPlugin_def p1_def Let_def split: if_splits sum.splits)
  have "o_labels p = o_labels (default_plugin_labels p1) \<and> ps_clusterName (pl_spec p) = ps_clusterName (pl_spec p1)
      \<and> ps_pluginDefinitionRef (pl_spec p) = ps_pluginDefinitionRef (pl_spec p1)"
    using assms spec unfolding DefaultPlugin_def p1_def [symmetric] Let_def
    by (auto split: if_splits sum.splits option.splits)
  then show ?thesis
    using default_plugin_labels_ok [OF webhook_getPluginDefinitionSpec_kind [OF spec]] by simp
qed

lemma release_name_errors_Nil_iff [simp]:
  "release_name_errors rn path name = [] \<longleftrightarrow> validateReleaseName rn name = None"
  by (simp add: release_name_errors_def split: option.split)

lemma immutable_errors_Nil_iff [simp]: "immutable_errors a b f = [] \<longleftrightarrow> a = b"
  by (simp add: immutable_errors_def ValidateImmutableField_def)

lemma ValidateCreatePlugin_ok:
  "ValidateCreatePlugin rn rd p = (ws, None) \<Longrightarrow>
     plugin_create_errors rn p = [] \<and>
     (\<exists>spec. webhook_getPluginDefinitionSpec rd p = Inr spec \<and>
        validatePluginOptionValues (ps_optionValues (pl_spec p))
          (pdr_name (ps_pluginDefinitionRef (pl_spec p))) spec True option_values_path = Some [] \<and>
        validatePluginForCluster rd p spec = None)"
  by (auto simp: ValidateCreatePlugin_def Let_def split: if_splits sum.splits option.splits)

lemma ValidateUpdatePlugin_ok:
  "ValidateUpdatePlugin rn rd old p = (ws, None) \<Longrightarrow>
     ps_clusterName (pl_spec old) = ps_clusterName (pl_spec p) \<and>
     (ps_releaseNamespace (pl_spec old) \<noteq> [] \<longrightarrow>
        ps_releaseNamespace (pl_spec p) = ps_releaseNamespace (pl_spec old)) \<and>
     wait_for_ok (ps_clusterName (pl_spec p) = []) (ps_waitFor (pl_spec p)) \<and>
     validateReleaseName rn (ps_releaseName (pl_spec p)) = None"
  by (auto simp: ValidateUpdatePlugin_def Let_def validateWaitForPluginRefs_Nil_iff
      split: if_splits sum.splits option.splits)

interpretation plugin_wh: webhook_contract "plugin_webhook rn" "plugin_valid rn" plugin_keeps for rn
proof (unfold_locales, goal_cases)
  case (1 s req x ws)
  then show ?case
    using DefaultPlugin_ok [of s req x] ValidateCreatePlugin_ok [of rn s x ws]
    by (auto simp: webhook_dispatch plugin_webhook_def plugin_valid_def plugin_create_errors_def
        validateWaitForPluginRefs_Nil_iff Let_def)
next
  case (2 y s req z ws)
  then show ?case
    using DefaultPlugin_ok [of s req z] ValidateUpdatePlugin_ok [of rn s y z ws]
    by (auto simp: webhook_dispatch plugin_webhook_def plugin_valid_def plugin_keeps_def)
qed (auto simp: plugin_keeps_def)

lemma validateOptionValueAndType_None:
  "validatePluginDefinitionOptionValueAndType spec kind name = None \<longleftrightarrow>
     (\<forall>op \<in> set (options_of spec). PluginOption_IsValid op = None)"
proof (cases "find (\<lambda>op. PluginOption_IsValid op \<noteq> None) (options_of spec)")
  case None
  moreover from None have "\<forall>op \<in> set (options_of spec). PluginOption_IsValid op = None"
    unfolding find_None_conv by blast
  ultimately show ?thesis
    by (simp add: validatePluginDefinitionOptionValueAndType_def del: not_None_eq)
next
  case (Some op)
  then have "op \<in> set (options_of spec) \<and> PluginOption_IsValid op \<noteq> None" by (rule find_Some_in_set)
  with Some show ?thesis
    by (auto simp: validatePluginDefinitionOptionValueAndType_def simp del: not_None_eq)
qed

lemma validate_definition_None:
  "validate_definition spec kind name = None \<longleftrightarrow>
     (pds_helmChart spec \<noteq> None \<or> pds_uiApplication spec \<noteq> None) \<and> pds_version spec \<noteq> [] \<and>
     (\<forall>op \<in> set (options_of spec). PluginOption_IsValid op = None)"
  by (simp add: validate_definition_def validatePluginDefinitionMustSpecifyVersion_def
      validatePluginDefinitionMustSpecifyHelmChartOrUIApplication_def validateOptionValueAndType_None)

definition definition_valid :: "plugin_definition \<Rightarrow> bool" where
  "definition_valid pd \<longleftrightarrow>
     (pds_helmChart (pd_spec pd) \<noteq> None \<or> pds_uiApplication (pd_spec pd) \<noteq> None) \<and>
     pds_version (pd_spec pd) \<noteq> [] \<and>
     (\<forall>op \<in> set (options_of (pd_spec pd)). PluginOption_IsValid op = None)"

interpretation plugindefinition_wh:
  webhook_contract "plugindefinition_webhook kind labelKey namespaced" definition_valid "\<lambda>_ _. True"
  for kind labelKey namespaced
  by unfold_locales
    (auto simp: webhook_dispatch plugindefinition_webhook_def validate_definition_None definition_valid_def)

definition preset_valid :: "plugin_preset \<Rightarrow> bool" where
  "preset_valid pp \<longleftrightarrow>
     wait_for_ok False (preset_waitFor pp) \<and>
     (let ref = pp_pluginDefinitionRef (preset_plugin pp)
      in pdr_kind ref \<in> {PluginDefinitionKind, ClusterPluginDefinitionKind} \<longrightarrow>
           definition_labels_ok (o_labels pp) ref)"

lemma DefaultPluginPreset_ok:
  assumes "DefaultPluginPreset rd req = (None, pp)"
    and "pdr_kind (pp_pluginDefinitionRef (preset_plugin pp)) \<in> {PluginDefinitionKind, ClusterPluginDefinitionKind}"
  shows "definition_labels_ok (o_labels pp) (pp_pluginDefinitionRef (preset_plugin pp))"
  using assms label_keys_distinct
  by (auto simp: DefaultPluginPreset_def definition_labels_ok_def Let_def sm.get_upd sm.get_del
      split: if_splits)

interpretation pluginpreset_wh: webhook_contract "pluginpreset_webhook rn" preset_valid "\<lambda>_ _. True" for rn
  using DefaultPluginPreset_ok
  by unfold_locales
    (auto simp: webhook_dispatch pluginpreset_webhook_def ValidateCreatePluginPreset_def
      ValidateUpdatePluginPreset_def preset_create_errors_def preset_valid_def Let_def
      validateWaitForPluginRefs_Nil_iff split: if_splits)

text \<open>
  C31. Every stored version of a plugin carries the labels that identify its cluster and its
  definition, has well-formed dependencies and a valid release name; the cluster never changes after
  creation, and the release namespace never changes once it is set.
\<close>

theorem plugin_admitted_valid:
  assumes "admitted (plugin_webhook rn) x y"
  shows "plugin_valid rn y \<and> ps_clusterName (pl_spec y) = ps_clusterName (pl_spec x) \<and>
    (ps_releaseNamespace (pl_spec x) \<noteq> [] \<longrightarrow>
       ps_releaseNamespace (pl_spec y) = ps_releaseNamespace (pl_spec x))"
  using plugin_wh.admitted_contract [OF assms] by (simp add: plugin_keeps_def)

text \<open>
  Concrete requests: a plugin of the central cluster whose definition has no options. The server
  knows every definition.
\<close>

definition central_plugin :: "string \<Rightarrow> plugin" where
  "central_plugin pd =
     zero_plugin\<lparr>o_name := ''p'', o_namespace := ''org'',
       o_labels := [(LabelKeyCluster, []), (LabelKeyPluginDefinition, pd)],
       pl_spec := zero_plugin_spec\<lparr>ps_pluginDefinitionRef := \<lparr>pdr_name = pd, pdr_kind = PluginDefinitionKind\<rparr>,
         ps_displayName := ''p'', ps_releaseNamespace := ''org'', ps_releaseName := ''chart''\<rparr>\<rparr>"

lemma central_plugin_default:
  "\<exists>vs. DefaultPlugin (sample_plugin_reads []) (central_plugin (c # pd)) =
     (None, (central_plugin (c # pd))\<lparr>pl_spec := (pl_spec (central_plugin (c # pd)))\<lparr>ps_optionValues := vs\<rparr>\<rparr>)"
proof -
  let ?p = "central_plugin (c # pd)"
  have spec: "webhook_getPluginDefinitionSpec (sample_plugin_reads []) ?p = Inr (pd_spec (sample_definition []))"
    by (simp add: webhook_getPluginDefinitionSpec_def central_plugin_def sample_plugin_reads_def)
  have labels: "default_display_name (default_plugin_labels ?p) = ?p"
    using label_keys_distinct
    by (simp add: default_display_name_def default_plugin_labels_def central_plugin_def Let_def smap_set_def
        smap_del_def AList.delete_eq LabelKeyCluster_def LabelKeyPlugin_def LabelKeyPluginDefinition_def
        LabelKeyClusterPluginDefinition_def PluginDefinitionKind_def zero_plugin_def zero_plugin_spec_def)
  have "GetPluginDefinitionSpec (sample_plugin_reads []) (ps_pluginDefinitionRef (pl_spec ?p)) (o_namespace ?p)
      = Inr (pd_spec (sample_definition []))"
    by (simp add: GetPluginDefinitionSpec_def central_plugin_def sample_plugin_reads_def)
  moreover obtain gv where "GetGreenhouseValues (sample_plugin_reads []) ?p = Inr gv"
    by (auto simp: GetGreenhouseValues_def sample_plugin_reads_def Let_def)
  ultimately obtain vs where "GetPluginOptionValuesForPlugin (sample_plugin_reads []) ?p = Inr vs"
    by (simp add: GetPluginOptionValuesForPlugin_def Let_def)
  moreover have "ps_pluginDefinitionRef (pl_spec ?p) = \<lparr>pdr_name = c # pd, pdr_kind = PluginDefinitionKind\<rparr>"
    "ps_releaseNamespace (pl_spec ?p) = ''org''" "ps_releaseName (pl_spec ?p) = ''chart''"
    "pds_uiApplication (pd_spec (sample_definition [])) = None"
    by (simp_all add: central_plugin_def sample_definition_def)
  ultimately show ?thesis
    using spec labels by (auto simp: DefaultPlugin_def PluginDefinitionKind_def Let_def)
qed

lemma central_plugin_definition:
  "webhook_getPluginDefinitionSpec (sample_plugin_reads [])
     ((central_plugin pd)\<lparr>pl_spec := (pl_spec (central_plugin pd))\<lparr>ps_optionValues := vs\<rparr>\<rparr>)
     = Inr (pd_spec (sample_definition []))"
  by (simp add: webhook_getPluginDefinitionSpec_def central_plugin_def sample_plugin_reads_def Let_def)

lemma no_options_valid: "validatePluginOptionValues vs n (pd_spec (sample_definition [])) req path = Some []"
  by (simp add: validatePluginOptionValues_def options_of_def sample_definition_def)

lemma central_plugin_created:
  assumes "c # pd \<in> set pluginsAllowedInCentralCluster"
  shows "\<exists>vs. admitted (plugin_webhook (\<lambda>_. None))
      ((central_plugin (c # pd))\<lparr>pl_spec := (pl_spec (central_plugin (c # pd)))\<lparr>ps_optionValues := vs\<rparr>\<rparr>)
      ((central_plugin (c # pd))\<lparr>pl_spec := (pl_spec (central_plugin (c # pd)))\<lparr>ps_optionValues := vs\<rparr>\<rparr>)"
proof -
  obtain vs where d: "DefaultPlugin (sample_plugin_reads []) (central_plugin (c # pd)) = (None,
      (central_plugin (c # pd))\<lparr>pl_spec := (pl_spec (central_plugin (c # pd)))\<lparr>ps_optionValues := vs\<rparr>\<rparr>)"
    using central_plugin_default by blast
  let ?x = "(central_plugin (c # pd))\<lparr>pl_spec := (pl_spec (central_plugin (c # pd)))\<lparr>ps_optionValues := vs\<rparr>\<rparr>"
  have "plugin_create_errors (\<lambda>_. None) ?x = []"
    by (simp add: plugin_create_errors_def central_plugin_def release_name_errors_def validateReleaseName_def
        validateWaitForPluginRefs_def PluginDefinitionKind_def zero_plugin_spec_def Let_def)
  moreover have "validatePluginForCluster (sample_plugin_reads []) ?x (pd_spec (sample_definition [])) = None"
    using assms by (simp add: validatePluginForCluster_def central_plugin_def zero_plugin_spec_def Let_def)
  ultimately have "\<exists>ws. ValidateCreatePlugin (\<lambda>_. None) (sample_plugin_reads []) ?x = (ws, None)"
    by (simp add: ValidateCreatePlugin_def central_plugin_definition no_options_valid Let_def)
  then obtain ws where v: "ValidateCreatePlugin (\<lambda>_. None) (sample_plugin_reads []) ?x = (ws, None)" ..
  have "admitted (plugin_webhook (\<lambda>_. None)) ?x ?x"
    using d v by (intro admitted.create [where s = "sample_plugin_reads []" and req = "central_plugin (c # pd)" and ws = ws])
      (simp_all add: webhook_dispatch plugin_webhook_def)
  then show ?thesis ..
qed

theorem plugin_admitted_valid_witness:
  "\<exists>y. plugin_valid (\<lambda>_. None) y \<and> pdr_name (ps_pluginDefinitionRef (pl_spec y)) = ''alerts''"
proof -
  have "CHR ''a'' # ''lerts'' \<in> set pluginsAllowedInCentralCluster"
    by (simp add: pluginsAllowedInCentralCluster_def)
  from central_plugin_created [OF this] obtain vs where
    "admitted (plugin_webhook (\<lambda>_. None))
      ((central_plugin ''alerts'')\<lparr>pl_spec := (pl_spec (central_plugin ''alerts''))\<lparr>ps_optionValues := vs\<rparr>\<rparr>)
      ((central_plugin ''alerts'')\<lparr>pl_spec := (pl_spec (central_plugin ''alerts''))\<lparr>ps_optionValues := vs\<rparr>\<rparr>)"
    by blast
  from plugin_admitted_valid [OF this] show ?thesis
    by (intro exI conjI) (auto simp: central_plugin_def)
qed

section \<open>Plugins of the central cluster\<close>

text \<open>
  Outside the greenhouse namespace, a plugin with a Helm chart is only created without a target
  cluster if its definition is on the allow list, and then only into its own namespace; with a target
  cluster it is only created if that cluster exists in the plugin's namespace.
\<close>

theorem central_cluster_create:
  assumes "ValidateCreatePlugin rn rd p = (ws, None)"
    and "webhook_getPluginDefinitionSpec rd p = Inr spec" and "pds_helmChart spec \<noteq> None"
    and "o_namespace p \<noteq> ''greenhouse''"
  shows "if ps_clusterName (pl_spec p) = []
    then pdr_name (ps_pluginDefinitionRef (pl_spec p)) \<in> set pluginsAllowedInCentralCluster \<and>
         ps_releaseNamespace (pl_spec p) = o_namespace p
    else \<exists>cl. pr_get_cluster rd \<lparr>nn_namespace = o_namespace p, nn_name = ps_clusterName (pl_spec p)\<rparr> = Inr cl"
  using ValidateCreatePlugin_ok [OF assms(1)] assms(2-4)
  by (auto simp: validatePluginForCluster_def Let_def split: if_splits sum.splits)

theorem central_cluster_create_witness:
  "''alerts'' \<in> set pluginsAllowedInCentralCluster \<and>
   snd (ValidateCreatePlugin (\<lambda>_. None) (sample_plugin_reads []) (central_plugin ''alerts'')) = None"
proof -
  let ?p = "central_plugin ''alerts''"
  have "(pl_spec ?p)\<lparr>ps_optionValues := []\<rparr> = pl_spec ?p"
    by (simp add: central_plugin_def zero_plugin_spec_def)
  then have p: "?p\<lparr>pl_spec := (pl_spec ?p)\<lparr>ps_optionValues := []\<rparr>\<rparr> = ?p" by simp
  have spec: "webhook_getPluginDefinitionSpec (sample_plugin_reads []) ?p = Inr (pd_spec (sample_definition []))"
    using central_plugin_definition [where pd = "''alerts''" and vs = "[]"] by (simp add: p)
  have "plugin_create_errors (\<lambda>_. None) ?p = []"
    by (simp add: plugin_create_errors_def central_plugin_def release_name_errors_def validateReleaseName_def
        validateWaitForPluginRefs_def PluginDefinitionKind_def zero_plugin_spec_def Let_def)
  moreover have "validatePluginForCluster (sample_plugin_reads []) ?p (pd_spec (sample_definition [])) = None"
    by (simp add: validatePluginForCluster_def central_plugin_def zero_plugin_spec_def Let_def
        pluginsAllowedInCentralCluster_def)
  ultimately have v: "ValidateCreatePlugin (\<lambda>_. None) (sample_plugin_reads []) ?p
      = (plugin_owner_warnings ''Plugin'' (sample_plugin_reads []) ?p, None)"
    by (simp add: ValidateCreatePlugin_def spec no_options_valid Let_def)
  from central_cluster_create [OF v spec] v show ?thesis
    by (simp add: sample_definition_def central_plugin_def zero_plugin_spec_def)
qed

text \<open>
  The allow list does not hold for stored plugins: the update webhook checks neither the list nor
  that the definition is unchanged, so a plugin created in the central cluster with an allowed
  definition can be switched to any other definition with a Helm chart.
\<close>

theorem central_cluster_update_bypass:
  "\<exists>x y rd spec. admitted (plugin_webhook (\<lambda>_. None)) x y \<and>
     pdr_name (ps_pluginDefinitionRef (pl_spec x)) \<in> set pluginsAllowedInCentralCluster \<and>
     o_namespace y \<noteq> ''greenhouse'' \<and> ps_clusterName (pl_spec y) = [] \<and>
     webhook_getPluginDefinitionSpec rd y = Inr spec \<and> pds_helmChart spec \<noteq> None \<and>
     pdr_name (ps_pluginDefinitionRef (pl_spec y)) \<notin> set pluginsAllowedInCentralCluster"
proof -
  have "CHR ''a'' # ''lerts'' \<in> set pluginsAllowedInCentralCluster"
    by (simp add: pluginsAllowedInCentralCluster_def)
  from central_plugin_created [OF this] obtain vs where
    x: "admitted (plugin_webhook (\<lambda>_. None))
      ((central_plugin ''alerts'')\<lparr>pl_spec := (pl_spec (central_plugin ''alerts''))\<lparr>ps_optionValues := vs\<rparr>\<rparr>)
      ((central_plugin ''alerts'')\<lparr>pl_spec := (pl_spec (central_plugin ''alerts''))\<lparr>ps_optionValues := vs\<rparr>\<rparr>)"
    by blast
  let ?x = "(central_plugin ''alerts'')\<lparr>pl_spec := (pl_spec (central_plugin ''alerts''))\<lparr>ps_optionValues := vs\<rparr>\<rparr>"
  obtain vs' where d: "DefaultPlugin (sample_plugin_reads []) (central_plugin ''evil'') = (None,
      (central_plugin ''evil'')\<lparr>pl_spec := (pl_spec (central_plugin ''evil''))\<lparr>ps_optionValues := vs'\<rparr>\<rparr>)"
    using central_plugin_default by blast
  let ?y = "(central_plugin ''evil'')\<lparr>pl_spec := (pl_spec (central_plugin ''evil''))\<lparr>ps_optionValues := vs'\<rparr>\<rparr>"
  have "\<exists>ws. ValidateUpdatePlugin (\<lambda>_. None) (sample_plugin_reads []) ?x ?y = (ws, None)"
    by (simp add: ValidateUpdatePlugin_def central_plugin_definition no_options_valid Let_def)
      (simp add: central_plugin_def zero_plugin_def zero_plugin_spec_def immutable_errors_def
        ValidateImmutableField_def validateWaitForPluginRefs_def validateReleaseName_def)
  then obtain ws where v: "ValidateUpdatePlugin (\<lambda>_. None) (sample_plugin_reads []) ?x ?y = (ws, None)" ..
  have "admitted (plugin_webhook (\<lambda>_. None)) ?x ?y"
    using d v by (intro admitted.update [OF x, where s = "sample_plugin_reads []" and req = "central_plugin ''evil''" and ws = ws])
      (simp_all add: webhook_dispatch plugin_webhook_def)
  then show ?thesis
    using central_plugin_definition [where pd = "''evil''" and vs = vs']
    by (intro exI [of _ ?x] exI [of _ ?y] exI [of _ "sample_plugin_reads []"] exI [of _ "pd_spec (sample_definition [])"])
      (simp add: central_plugin_def zero_plugin_spec_def sample_definition_def pluginsAllowedInCentralCluster_def)
qed


section \<open>Secret options with a reference to another resource\<close>

lemma secret_ref_panics:
  assumes "opt \<in> set (options_of spec)" and "po_type opt = PluginOptionTypeSecret"
    and "v \<in> set vs" and "ov_name v = po_name opt"
    and "ov_value v = None" and "ov_expression v = None"
    and "ov_valueFrom v = Some src" and "pv_secret src = None"
  shows "validatePluginOptionValues vs pd spec req path = None"
proof -
  obtain idx where idx: "(idx, v) \<in> set (enumerate 0 vs)" using in_enumerate [OF assms(3)] by blast
  have "check_option_value path opt idx v = None"
    using assms by (simp add: check_option_value_def hasExactlyOneValueSource_def Let_def)
  with idx assms(4) have "option_errors vs pd req path opt = None"
    by (force simp: option_errors_def collect_None_iff)
  with assms(1) show ?thesis by (auto simp: validatePluginOptionValues_def collect_None_iff)
qed

text \<open>
  A plugin that sets an option of type secret from a reference to another resource
  (\<open>valueFrom.ref\<close>), which the API type allows, crashes the validating webhook: the code reads
  \<open>valueFrom.secret\<close> without a check.
\<close>

theorem secret_option_by_ref_panics:
  assumes "plugin_create_errors rn p = []"
    and "webhook_getPluginDefinitionSpec rd p = Inr spec"
    and "opt \<in> set (options_of spec)" and "po_type opt = PluginOptionTypeSecret"
    and "v \<in> set (ps_optionValues (pl_spec p))" and "ov_name v = po_name opt"
    and "ov_value v = None" and "ov_expression v = None"
    and "ov_valueFrom v = Some src" and "pv_secret src = None"
  shows "ValidateCreatePlugin rn rd p = ([], Some panic_error)"
  using assms(1,2) secret_ref_panics [OF assms(3-10)] by (simp add: ValidateCreatePlugin_def Let_def)

definition ref_value :: "string \<Rightarrow> plugin_option_value" where
  "ref_value n = \<lparr>ov_name = n, ov_value = None, ov_valueFrom = Some \<lparr>pv_secret = None, pv_ref = None\<rparr>, ov_expression = None\<rparr>"

theorem secret_option_by_ref_panics_witness:
  "ValidateCreatePlugin (\<lambda>_. None) (sample_plugin_reads [sample_option ''token'' None PluginOptionTypeSecret])
     (sample_plugin [ref_value ''token'']) = ([], Some panic_error)"
proof (rule secret_option_by_ref_panics [where v = "ref_value ''token''" and src = "\<lparr>pv_secret = None, pv_ref = None\<rparr>"])
  show "plugin_create_errors (\<lambda>_. None) (sample_plugin [ref_value ''token'']) = []"
    by (simp add: plugin_create_errors_def sample_plugin_def release_name_errors_def validateReleaseName_def
        validateWaitForPluginRefs_def PluginDefinitionKind_def zero_plugin_spec_def Let_def)
  show "webhook_getPluginDefinitionSpec (sample_plugin_reads [sample_option ''token'' None PluginOptionTypeSecret])
      (sample_plugin [ref_value ''token''])
      = Inr (pd_spec (sample_definition [sample_option ''token'' None PluginOptionTypeSecret]))"
    by (simp add: webhook_getPluginDefinitionSpec_def sample_plugin_def sample_plugin_reads_def Let_def)
  show "sample_option ''token'' None PluginOptionTypeSecret \<in>
      set (options_of (pd_spec (sample_definition [sample_option ''token'' None PluginOptionTypeSecret])))"
    by (simp add: options_of_def sample_definition_def)
qed (simp_all add: sample_option_def sample_plugin_def ref_value_def)

end
