(* ===== verification/Sha256.thy ===== *)
theory Sha256
  imports "HOL-Library.Word" Greenhouse_Prelude
begin

unbundle bit_operations_syntax

text \<open>
  The standard-library functions \<open>crypto/sha256.Sum256\<close> and \<open>encoding/hex.EncodeToString\<close>
  (FIPS 180-4), which the URLs of exposed services are built with. Words are 32 bits wide and addition
  wraps; a Go string is the list of its bytes.
\<close>

section \<open>The compression function\<close>

type_synonym w32 = "32 word"

definition rotr :: "nat \<Rightarrow> w32 \<Rightarrow> w32" where
  "rotr n x = (drop_bit n x) OR (push_bit (32 - n) x)"

definition Ch :: "w32 \<Rightarrow> w32 \<Rightarrow> w32 \<Rightarrow> w32" where
  "Ch x y z = (x AND y) XOR (NOT x AND z)"

definition Maj :: "w32 \<Rightarrow> w32 \<Rightarrow> w32 \<Rightarrow> w32" where
  "Maj x y z = (x AND y) XOR (x AND z) XOR (y AND z)"

definition Sigma0 :: "w32 \<Rightarrow> w32" where "Sigma0 x = rotr 2 x XOR rotr 13 x XOR rotr 22 x"
definition Sigma1 :: "w32 \<Rightarrow> w32" where "Sigma1 x = rotr 6 x XOR rotr 11 x XOR rotr 25 x"
definition sigma0 :: "w32 \<Rightarrow> w32" where "sigma0 x = rotr 7 x XOR rotr 18 x XOR drop_bit 3 x"
definition sigma1 :: "w32 \<Rightarrow> w32" where "sigma1 x = rotr 17 x XOR rotr 19 x XOR drop_bit 10 x"

text \<open>
  The constants are the first 32 bits of the fractional parts of the cube roots of the first 64 primes,
  and of the square roots of the first eight; they are computed here. \<open>int_root_from k b n 0\<close> is the integer
  \<open>k\<close>-th root of \<open>n\<close>, if it has at most \<open>b\<close> bits.
\<close>

fun int_root_from :: "nat \<Rightarrow> nat \<Rightarrow> nat \<Rightarrow> nat \<Rightarrow> nat" where
  "int_root_from k 0 n acc = acc"
| "int_root_from k (Suc b) n acc = int_root_from k b n (if (acc + 2 ^ b) ^ k \<le> n then acc + 2 ^ b else acc)"

definition primes_below :: "nat \<Rightarrow> nat list" where
  "primes_below m = filter (\<lambda>p. list_all (\<lambda>d. p mod d \<noteq> 0) [2..<p]) [2..<m]"

definition root_fraction :: "nat \<Rightarrow> nat \<Rightarrow> w32" where
  "root_fraction k p = of_nat (int_root_from k 40 (p * 2 ^ (32 * k)) 0)"

definition round_constants :: "w32 list" where
  "round_constants = map (root_fraction 3) (primes_below 312)"

record hash_state =
  h_a :: w32  h_b :: w32  h_c :: w32  h_d :: w32
  h_e :: w32  h_f :: w32  h_g :: w32  h_h :: w32

definition initial_state :: hash_state where
  "initial_state =
     \<lparr>h_a = root_fraction 2 2, h_b = root_fraction 2 3, h_c = root_fraction 2 5, h_d = root_fraction 2 7,
      h_e = root_fraction 2 11, h_f = root_fraction 2 13, h_g = root_fraction 2 17, h_h = root_fraction 2 19\<rparr>"

text \<open>
  The message schedule as a window of the last 16 words, newest last: each step emits the oldest word
  and appends the next one.
\<close>

fun schedule :: "nat \<Rightarrow> w32 list \<Rightarrow> w32 list" where
  "schedule 0 w = []"
| "schedule (Suc n) w =
     hd w # schedule n (tl w @ [sigma1 (w ! 14) + w ! 9 + sigma0 (w ! 1) + hd w])"

definition round_step :: "hash_state \<Rightarrow> w32 \<times> w32 \<Rightarrow> hash_state" where
  "round_step s kw =
     (let t1 = h_h s + Sigma1 (h_e s) + Ch (h_e s) (h_f s) (h_g s) + fst kw + snd kw;
          t2 = Sigma0 (h_a s) + Maj (h_a s) (h_b s) (h_c s)
      in \<lparr>h_a = t1 + t2, h_b = h_a s, h_c = h_b s, h_d = h_c s,
          h_e = h_d s + t1, h_f = h_e s, h_g = h_f s, h_h = h_g s\<rparr>)"

definition add_state :: "hash_state \<Rightarrow> hash_state \<Rightarrow> hash_state" where
  "add_state s t =
     \<lparr>h_a = h_a s + h_a t, h_b = h_b s + h_b t, h_c = h_c s + h_c t, h_d = h_d s + h_d t,
      h_e = h_e s + h_e t, h_f = h_f s + h_f t, h_g = h_g s + h_g t, h_h = h_h s + h_h t\<rparr>"

definition compress :: "hash_state \<Rightarrow> w32 list \<Rightarrow> hash_state" where
  "compress s block = add_state s (foldl round_step s (zip round_constants (schedule 64 block)))"

section \<open>Padding and output\<close>

text \<open>Big-endian digits of a number in base 256.\<close>

fun be_bytes :: "nat \<Rightarrow> nat \<Rightarrow> nat list" where
  "be_bytes 0 n = []"
| "be_bytes (Suc k) n = be_bytes k (n div 256) @ [n mod 256]"

definition pad :: "nat list \<Rightarrow> nat list" where
  "pad msg =
     msg @ [128] @ replicate ((119 - length msg mod 64) mod 64) 0 @ be_bytes 8 (8 * length msg mod 2 ^ 64)"

fun words_of :: "nat list \<Rightarrow> w32 list" where
  "words_of (a # b # c # d # rest) =
     of_nat (((a * 256 + b) * 256 + c) * 256 + d) # words_of rest"
| "words_of _ = []"

function blocks :: "w32 list \<Rightarrow> w32 list list" where
  "blocks ws = (if ws = [] then [] else take 16 ws # blocks (drop 16 ws))"
  by auto
termination by (relation "measure length") auto

declare blocks.simps [simp del]

definition Sum256 :: "string \<Rightarrow> nat list" where
  "Sum256 s =
     (let h = foldl compress initial_state (blocks (words_of (pad (map of_char s))))
      in concat (map (\<lambda>w. be_bytes 4 (unat w)) [h_a h, h_b h, h_c h, h_d h, h_e h, h_f h, h_g h, h_h h]))"

definition hex_digit :: "nat \<Rightarrow> char" where
  "hex_digit n = ''0123456789abcdef'' ! n"

definition EncodeToString :: "nat list \<Rightarrow> string" where
  "EncodeToString bs = concat (map (\<lambda>b. [hex_digit (b div 16), hex_digit (b mod 16)]) bs)"

section \<open>Shape of the digest\<close>

lemma length_be_bytes [simp]: "length (be_bytes k n) = k"
  by (induction k arbitrary: n) auto

lemma be_bytes_bound: "b \<in> set (be_bytes k n) \<Longrightarrow> b < 256"
  by (induction k arbitrary: n) auto

lemma Sum256_bytes: "length (Sum256 s) = 32" "b \<in> set (Sum256 s) \<Longrightarrow> b < 256"
  by (auto simp: Sum256_def Let_def dest: be_bytes_bound)

lemma hex_digit_in: "n < 16 \<Longrightarrow> hex_digit n \<in> set ''0123456789abcdef''"
  unfolding hex_digit_def by (rule nth_mem) simp

lemma EncodeToString_length: "length (EncodeToString bs) = 2 * length bs"
  by (induction bs) (auto simp: EncodeToString_def)

lemma EncodeToString_chars:
  assumes "\<And>b. b \<in> set bs \<Longrightarrow> b < 256"
  shows "set (EncodeToString bs) \<subseteq> set ''0123456789abcdef''"
proof
  fix c assume "c \<in> set (EncodeToString bs)"
  then obtain b where b: "b \<in> set bs" "c = hex_digit (b div 16) \<or> c = hex_digit (b mod 16)"
    by (auto simp: EncodeToString_def)
  from assms [OF b(1)] have "b div 16 < 16" "b mod 16 < 16" by auto
  with b(2) show "c \<in> set ''0123456789abcdef''" using hex_digit_in by blast
qed

end
