(* ===== verification/Exposed_URL.thy ===== *)
theory Exposed_URL
  imports Sha256 Plugin_Types Webhook_Core
begin

text \<open>
  The URLs under which services of plugins are exposed (\<open>internal/common/url.go\<close>) and the way back from
  a host to the cluster. The package variable \<open>DNSDomain\<close> is an argument.
\<close>

section \<open>Cutting strings\<close>

text \<open>\<open>strings.SplitN\<close> with limit 2 and a non-empty separator: the parts around its first occurrence.\<close>

fun SplitN2 :: "string \<Rightarrow> string \<Rightarrow> string list" where
  "SplitN2 sep [] = [[]]"
| "SplitN2 sep (x # xs) =
     (if prefix sep (x # xs) then [[], drop (length sep) (x # xs)]
      else case SplitN2 sep xs of y # ys \<Rightarrow> (x # y) # ys | [] \<Rightarrow> [x # xs])"

definition host_error :: "string \<Rightarrow> string \<Rightarrow> go_error" where
  "host_error host txt = PlainError (''invalid host: '' @ host @ txt)"

definition ExtractCluster :: "string \<Rightarrow> go_error + string" where
  "ExtractCluster host =
     (if HasPrefix host ''https://'' then Inl (host_error host '', no protocol expected'')
      else case SplitN2 ''.'' host of
             p # _ # _ \<Rightarrow>
               (case SplitN2 ''--'' p of
                  cluster # _ # _ \<Rightarrow> Inr cluster
                | _ \<Rightarrow> Inl (host_error host []))
           | _ \<Rightarrow> Inl (host_error host []))"

definition service_hash :: "string \<Rightarrow> string \<Rightarrow> string" where
  "service_hash serviceName namespace = take 7 (EncodeToString (Sum256 (serviceName @ ''--'' @ namespace)))"

definition exposed_host :: "string \<Rightarrow> string \<Rightarrow> plugin \<Rightarrow> string" where
  "exposed_host dnsDomain serviceName p =
     ps_clusterName (pl_spec p) @ ''--'' @ service_hash serviceName (ps_releaseNamespace (pl_spec p))
       @ ''.'' @ o_namespace p @ ''.'' @ dnsDomain"

definition URLForExposedServiceInPlugin :: "string \<Rightarrow> string \<Rightarrow> plugin \<Rightarrow> string" where
  "URLForExposedServiceInPlugin dnsDomain serviceName p = ''https://'' @ exposed_host dnsDomain serviceName p"

section \<open>Lemmas\<close>

lemma SplitN2_not_Nil [simp]: "SplitN2 sep s \<noteq> []"
  by (cases s) (auto split: list.splits)

lemma SplitN2_char: "c \<notin> set x \<Longrightarrow> SplitN2 [c] (x @ c # y) = [x, y]"
  by (induction x) auto

lemma SplitN2_dashes:
  assumes "\<not> sublist ''--'' x" and "x = [] \<or> last x \<noteq> CHR ''-''"
  shows "SplitN2 ''--'' (x @ ''--'' @ y) = [x, y]"
  using assms
proof (induction x)
  case (Cons c x)
  have "SplitN2 ''--'' (x @ ''--'' @ y) = [x, y]"
    using Cons by (auto simp: sublist_Cons_right split: if_splits)
  moreover have "\<not> prefix ''--'' (c # x @ ''--'' @ y)"
    using Cons.prems by (cases x) (auto simp: sublist_Cons_right)
  ultimately show ?case by simp
qed simp

lemma SplitN2_absent: "\<not> sublist sep x \<Longrightarrow> SplitN2 sep x = [x]"
  by (induction x) (auto simp: sublist_Cons_right)

lemma service_hash_shape:
  "length (service_hash n ns) = 7" "set (service_hash n ns) \<subseteq> set ''0123456789abcdef''"
proof -
  show "length (service_hash n ns) = 7"
    by (simp add: service_hash_def EncodeToString_length Sum256_bytes)
  show "set (service_hash n ns) \<subseteq> set ''0123456789abcdef''"
    unfolding service_hash_def
    by (rule order_trans [OF set_take_subset EncodeToString_chars]) (rule Sum256_bytes(2))
qed

lemma service_hash_chars: "c \<in> set (service_hash n ns) \<Longrightarrow> c \<noteq> CHR ''.'' \<and> c \<noteq> CHR '':''"
proof -
  assume "c \<in> set (service_hash n ns)"
  then have "c \<in> set ''0123456789abcdef''" using service_hash_shape(2) by blast
  moreover have "CHR ''.'' \<notin> set ''0123456789abcdef''" "CHR '':'' \<notin> set ''0123456789abcdef''" by simp_all
  ultimately show ?thesis by blast
qed

section \<open>Names of clusters\<close>

text \<open>
  The API server accepts as names of clusters the DNS subdomains of RFC 1123: labels of lower-case
  letters, digits and dashes that start and end with a letter or digit, separated by dots.
\<close>

definition label_char :: "char \<Rightarrow> bool" where
  "label_char c \<longleftrightarrow> c \<in> set ''abcdefghijklmnopqrstuvwxyz0123456789''"

definition dns_label :: "string \<Rightarrow> bool" where
  "dns_label s \<longleftrightarrow> s \<noteq> [] \<and> label_char (hd s) \<and> label_char (last s) \<and>
     list_all (\<lambda>c. label_char c \<or> c = CHR ''-'') s"

definition dns_subdomain :: "string \<Rightarrow> bool" where
  "dns_subdomain s \<longleftrightarrow> list_all dns_label (split_char (CHR ''.'') s)"

lemma label_char_not: "\<not> label_char (CHR ''.'')" "\<not> label_char (CHR '':'')" "\<not> label_char (CHR ''-'')"
  by (simp_all add: label_char_def)

lemma dns_label_chars:
  assumes "dns_label s"
  shows "CHR ''.'' \<notin> set s" "CHR '':'' \<notin> set s" "s \<noteq> []" "last s \<noteq> CHR ''-''"
  using assms label_char_not by (auto simp: dns_label_def list_all_iff)

lemma no_protocol:
  assumes "CHR '':'' \<notin> set w" and "5 < length w"
  shows "\<not> prefix ''https://'' (w @ r)"
proof
  assume "prefix ''https://'' (w @ r)"
  then have "(w @ r) ! 5 = CHR '':''" by (auto simp: prefix_def)
  moreover have "(w @ r) ! 5 = w ! 5" using assms(2) by (simp add: nth_append)
  ultimately show False using assms nth_mem by metis
qed

lemma ExtractCluster_host:
  assumes "\<not> sublist ''--'' c" and "c = [] \<or> last c \<noteq> CHR ''-''"
    and "CHR ''.'' \<notin> set c" and "CHR '':'' \<notin> set c"
  shows "ExtractCluster (c @ ''--'' @ service_hash n ns @ ''.'' @ r) = Inr c"
proof -
  let ?w = "c @ ''--'' @ service_hash n ns"
  have w: "CHR ''.'' \<notin> set ?w" "CHR '':'' \<notin> set ?w"
    using assms(3,4) service_hash_chars by auto
  have "5 < length ?w" by (simp add: service_hash_shape(1))
  from no_protocol [OF w(2) this, of "CHR ''.'' # r"] SplitN2_char [OF w(1), of r] SplitN2_dashes [OF assms(1,2)]
  show ?thesis by (simp add: ExtractCluster_def HasPrefix_def)
qed

section \<open>Properties\<close>

text \<open>
  C40. For a cluster the webhook accepts whose name is a DNS label, every URL a service on it is
  exposed under leads back to the cluster, and its first label fits into the 63 characters DNS allows.
\<close>

theorem exposed_url_roundtrip:
  assumes "snd (ValidateCreateCluster s cl) = None" and "dns_label (o_name cl)"
    and "ps_clusterName (pl_spec p) = o_name cl"
  shows "ExtractCluster (TrimPrefix (URLForExposedServiceInPlugin dnsDomain svc p) ''https://'') = Inr (o_name cl)
    \<and> length (hd (SplitN2 ''.'' (exposed_host dnsDomain svc p))) \<le> 63"
proof -
  let ?w = "o_name cl @ ''--'' @ service_hash svc (ps_releaseNamespace (pl_spec p))"
  from assms(1) have n: "\<not> sublist ''--'' (o_name cl)" "length (o_name cl) \<le> 40"
    by (simp_all add: ValidateCreateCluster_accepts Contains_def)
  note c = dns_label_chars [OF assms(2)]
  have h: "exposed_host dnsDomain svc p = ?w @ CHR ''.'' # o_namespace p @ ''.'' @ dnsDomain"
    by (simp add: exposed_host_def assms(3))
  have "CHR ''.'' \<notin> set ?w" using c(1) service_hash_chars by auto
  from SplitN2_char [OF this] n(2) have "length (hd (SplitN2 ''.'' (exposed_host dnsDomain svc p))) \<le> 63"
    unfolding h by (simp add: service_hash_shape(1))
  moreover have "ExtractCluster (exposed_host dnsDomain svc p) = Inr (o_name cl)"
    using ExtractCluster_host [OF n(1) _ c(1,2)] c(4) by (simp add: exposed_host_def assms(3))
  ultimately show ?thesis
    by (simp add: URLForExposedServiceInPlugin_def TrimPrefix_def)
qed

definition sample_cluster :: "string \<Rightarrow> cluster" where
  "sample_cluster n =
     \<lparr>o_name = n, o_namespace = ''org'', o_labels = [], o_annotations = [], o_finalizers = [],
      o_deletionTimestamp = None, o_ownerReferences = [], o_conditions = [], cluster_accessMode = ''direct'',
      cluster_maxTokenValidity = 72, cluster_kubernetesVersion = [], cluster_bearerTokenExpiration = 0,
      cluster_nodes = None\<rparr>"

definition plugin_on :: "string \<Rightarrow> plugin" where
  "plugin_on c = zero_plugin\<lparr>o_namespace := ''org'', pl_spec := zero_plugin_spec\<lparr>ps_clusterName := c, ps_releaseNamespace := ''ns''\<rparr>\<rparr>"

theorem exposed_url_roundtrip_witness:
  "ExtractCluster (TrimPrefix (URLForExposedServiceInPlugin ''example.com'' ''prometheus'' (plugin_on ''eu-1'')) ''https://'')
     = Inr ''eu-1''"
proof -
  have "snd (ValidateCreateCluster sample_reads (sample_cluster ''eu-1'')) = None"
    by (simp add: ValidateCreateCluster_accepts Contains_def sample_cluster_def sublist_Cons_right)
  moreover have "dns_label (o_name (sample_cluster ''eu-1''))"
    by (simp add: dns_label_def label_char_def sample_cluster_def)
  moreover have "ps_clusterName (pl_spec (plugin_on ''eu-1'')) = o_name (sample_cluster ''eu-1'')"
    by (simp add: plugin_on_def sample_cluster_def)
  ultimately show ?thesis using exposed_url_roundtrip by (simp add: sample_cluster_def)
qed

lemma ExtractCluster_dotted:
  assumes "CHR ''.'' \<notin> set a" and "\<not> sublist ''--'' a"
  shows "ExtractCluster (a @ CHR ''.'' # r) = Inl (host_error (a @ CHR ''.'' # r) []) \<or>
    ExtractCluster (a @ CHR ''.'' # r) = Inl (host_error (a @ CHR ''.'' # r) '', no protocol expected'')"
  using SplitN2_char [OF assms(1), of r] SplitN2_absent [OF assms(2)]
  by (simp add: ExtractCluster_def)

text \<open>
  The webhook does not ensure this for every cluster it accepts: the name of a cluster may contain
  a dot, and then no URL of a service on it leads back to any cluster.
\<close>

theorem dotted_cluster_unreachable:
  "\<exists>cl. dns_subdomain (o_name cl) \<and> snd (ValidateCreateCluster s cl) = None \<and>
     (\<forall>p dnsDomain svc. \<exists>e. ExtractCluster (TrimPrefix (URLForExposedServiceInPlugin dnsDomain svc
        (p\<lparr>pl_spec := (pl_spec p)\<lparr>ps_clusterName := o_name cl\<rparr>\<rparr>)) ''https://'') = Inl e)"
proof (intro exI [of _ "sample_cluster ''eu.1''"] conjI allI)
  show "dns_subdomain (o_name (sample_cluster ''eu.1''))"
    by (simp add: dns_subdomain_def sample_cluster_def dns_label_def label_char_def)
  show "snd (ValidateCreateCluster s (sample_cluster ''eu.1'')) = None"
    by (simp add: ValidateCreateCluster_accepts Contains_def sample_cluster_def sublist_Cons_right)
next
  fix p :: plugin and dnsDomain svc
  have "CHR ''.'' \<notin> set ''eu''" "\<not> sublist ''--'' ''eu''"
    by (simp_all add: sublist_Cons_right)
  from ExtractCluster_dotted [OF this] show
    "\<exists>e. ExtractCluster (TrimPrefix (URLForExposedServiceInPlugin dnsDomain svc
       (p\<lparr>pl_spec := (pl_spec p)\<lparr>ps_clusterName := o_name (sample_cluster ''eu.1'')\<rparr>\<rparr>)) ''https://'') = Inl e"
    by (auto simp: URLForExposedServiceInPlugin_def exposed_host_def TrimPrefix_def sample_cluster_def)
qed

end
