(* ===== verification/Service_Proxy.thy ===== *)
theory Service_Proxy
  imports Exposed_URL
begin

text \<open>
  The service proxy (\<open>cmd/service-proxy/proxy.go\<close>, \<open>instrumentation.go\<close>): the cache of routes per
  cluster, filled by the reconciliation of cluster secrets, and the way of a request through the
  instrumentation, the reverse proxy of the standard library and the round tripper.

  Building REST configurations and transports from a secret, and parsing URLs, are parameters. A
  transport is a value of any type: what the model says is which transport a request is handed to and
  which request that is. Headers and the query are passed on unchanged and left out; Prometheus
  metrics, apart from the labels they take from the request context, are left out.
\<close>

section \<open>State\<close>

record url_parts =
  u_scheme :: string
  u_host :: string
  u_path :: string

record route =
  rt_url :: url_parts
  rt_serviceName :: string
  rt_namespace :: string

record 't clusterRoutes =
  cr_transport :: 't
  cr_routes :: "route smap"

record 't ProxyManager =
  pm_clusters :: "'t clusterRoutes smap"
  pm_dnsDomain :: string
  pm_debugHost :: string

text \<open>What a reconciliation reads and the client library it calls.\<close>

record ('c, 't) proxy_env =
  pe_get_secret :: "namespaced_name \<Rightarrow> go_error + secret"
  pe_restConfig :: "secret \<Rightarrow> go_error + 'c"
  pe_configHost :: "'c \<Rightarrow> string"
  pe_transportFor :: "'c \<Rightarrow> go_error + 't"
  pe_parseURL :: "string \<Rightarrow> go_error + url_parts"
  pe_list_plugins :: "string \<Rightarrow> go_error + plugin list"

section \<open>Reconciliation of a cluster\<close>

definition pluginsForCluster ::
  "('c, 't) proxy_env \<Rightarrow> string \<Rightarrow> string \<Rightarrow> go_error + plugin list" where
  "pluginsForCluster env cluster namespace =
     (case pe_list_plugins env namespace of
        Inl e \<Rightarrow> Inl (WrapError ''failed to list plugins'' e)
      | Inr items \<Rightarrow>
          Inr (filter (\<lambda>p. o_deletionTimestamp p = None \<and> ps_clusterName (pl_spec p) = cluster) items))"

definition proxy_path :: "service \<Rightarrow> string" where
  "proxy_path svc =
     ''/api/v1/namespaces/'' @ svc_namespace svc @ ''/services/''
       @ (if svc_protocol svc = Some ''https'' then ''https:'' else [])
       @ svc_name svc @ '':'' @ format_d (svc_port svc) @ ''/proxy''"

definition served_url :: "'t ProxyManager \<Rightarrow> string \<Rightarrow> string" where
  "served_url pm url =
     (if pm_debugHost pm \<noteq> [] \<and> pm_dnsDomain pm \<noteq> []
      then ReplaceAll url (pm_dnsDomain pm) (pm_debugHost pm) else url)"

definition route_for :: "url_parts \<Rightarrow> service \<Rightarrow> route" where
  "route_for api svc =
     \<lparr>rt_url = api\<lparr>u_path := proxy_path svc\<rparr>, rt_serviceName = svc_name svc, rt_namespace = svc_namespace svc\<rparr>"

definition add_route ::
  "'t ProxyManager \<Rightarrow> url_parts \<Rightarrow> route smap \<Rightarrow> string \<times> service \<Rightarrow> route smap" where
  "add_route pm api routes entry =
     (let (url, svc) = entry
      in if svc_type svc \<noteq> ServiceTypeService then routes
         else smap_set (served_url pm url) (route_for api svc) routes)"

definition build_routes :: "'t ProxyManager \<Rightarrow> url_parts \<Rightarrow> plugin list \<Rightarrow> route smap" where
  "build_routes pm api plugins = foldl (add_route pm api) [] (concat (map pl_exposedServices plugins))"

definition proxy_Reconcile ::
  "('c, 't) proxy_env \<Rightarrow> namespaced_name \<Rightarrow> 't ProxyManager \<Rightarrow> go_error option \<times> 't ProxyManager" where
  "proxy_Reconcile env req pm =
     (case pe_get_secret env req of
        Inl e \<Rightarrow>
          if \<not> IsNotFound e then (Some e, pm)
          else (None, pm\<lparr>pm_clusters := smap_del (nn_name req) (pm_clusters pm)\<rparr>)
      | Inr sec \<Rightarrow>
          if o_deletionTimestamp sec \<noteq> None
          then (None, pm\<lparr>pm_clusters := smap_del (nn_name req) (pm_clusters pm)\<rparr>)
          else (case pe_restConfig env sec of
                  Inl e \<Rightarrow> (Some e, pm)
                | Inr cfg \<Rightarrow>
          (case pe_transportFor env cfg of
             Inl e \<Rightarrow> (Some (WrapError (''failed to create transport for cluster '' @ nn_name req) e), pm)
           | Inr tr \<Rightarrow>
          (case pe_parseURL env (pe_configHost env cfg) of
             Inl e \<Rightarrow> (Some (WrapError ''failed to parse api url'' e), pm)
           | Inr api \<Rightarrow>
          (case pluginsForCluster env (nn_name req) (nn_namespace req) of
             Inl e \<Rightarrow> (Some (WrapError (''failed to get plugins for cluster '' @ nn_name req) e), pm)
           | Inr plugins \<Rightarrow>
               (None, pm\<lparr>pm_clusters := smap_set (nn_name req)
                  \<lparr>cr_transport = tr, cr_routes = build_routes pm api plugins\<rparr> (pm_clusters pm)\<rparr>))))))"

definition enqueuePluginForCluster :: "plugin \<Rightarrow> namespaced_name list" where
  "enqueuePluginForCluster p =
     (if ps_clusterName (pl_spec p) = [] then []
      else [\<lparr>nn_namespace = o_namespace p, nn_name = ps_clusterName (pl_spec p)\<rparr>])"

section \<open>Requests\<close>

definition GetClusterRoute :: "'t ProxyManager \<Rightarrow> string \<Rightarrow> string \<Rightarrow> route option" where
  "GetClusterRoute pm cluster inURL =
     (case smap_get (pm_clusters pm) cluster of
        None \<Rightarrow> None
      | Some cls \<Rightarrow> smap_get (cr_routes cls) inURL)"

text \<open>
  The parts of \<open>http.Request\<close> the proxy looks at or changes, with the values its context has under the
  three keys of the program.
\<close>

record http_request =
  rq_host :: string
  rq_url :: url_parts
  rq_cluster :: "string option"
  rq_organization :: "string option"
  rq_name :: "string option"

text \<open>The middleware of \<open>InstrumentHandler\<close>.\<close>

definition injector :: "'t ProxyManager \<Rightarrow> http_request \<Rightarrow> http_request" where
  "injector pm req =
     (case ExtractCluster (rq_host req) of
        Inl _ \<Rightarrow> req
      | Inr cluster \<Rightarrow>
          (case GetClusterRoute pm cluster (rq_host req) of
             None \<Rightarrow> req\<lparr>rq_cluster := Some cluster\<rparr>
           | Some r \<Rightarrow> req\<lparr>rq_cluster := Some cluster, rq_organization := Some (rt_namespace r),
                          rq_name := Some (rt_serviceName r)\<rparr>))"

text \<open>
  \<open>rewrite\<close> gets the incoming request and the outgoing one, which the reverse proxy of the standard
  library creates as a clone with the same context.
\<close>

definition rewrite :: "'t ProxyManager \<Rightarrow> http_request \<Rightarrow> http_request \<Rightarrow> http_request" where
  "rewrite pm rin rout =
     (case ExtractCluster (rq_host rin) of
        Inl _ \<Rightarrow> rout
      | Inr cluster \<Rightarrow>
          (case GetClusterRoute pm cluster (''https://'' @ rq_host rin) of
             None \<Rightarrow> rout
           | Some r \<Rightarrow>
               (let up = rt_url r;
                    path = (if \<not> HasPrefix (u_path (rq_url rout)) (u_path up)
                            then TrimSuffix (u_path up) ''/'' @ u_path (rq_url rout)
                            else u_path (rq_url rout))
                in rout\<lparr>rq_url := \<lparr>u_scheme = u_scheme up, u_host = u_host up, u_path = path\<rparr>,
                        rq_host := u_host up, rq_cluster := Some cluster\<rparr>)))"

text \<open>Which transport gets which request, or why none does.\<close>

definition RoundTrip :: "'t ProxyManager \<Rightarrow> http_request \<Rightarrow> go_error + ('t \<times> http_request)" where
  "RoundTrip pm req =
     (case rq_cluster req of
        None \<Rightarrow> Inl (PlainError ''no upstream found'')
      | Some cluster \<Rightarrow>
          (case smap_get (pm_clusters pm) cluster of
             None \<Rightarrow> Inl (PlainError (''cluster '' @ cluster @ '' not found''))
           | Some cls \<Rightarrow> Inr (cr_transport cls, req)))"

definition reverse_proxy :: "'t ProxyManager \<Rightarrow> http_request \<Rightarrow> go_error + ('t \<times> http_request)" where
  "reverse_proxy pm req = RoundTrip pm (rewrite pm req req)"

definition serve :: "'t ProxyManager \<Rightarrow> http_request \<Rightarrow> go_error + ('t \<times> http_request)" where
  "serve pm req = reverse_proxy pm (injector pm req)"

section \<open>Responses\<close>

text \<open>
  A match of the regular expression \<open>/api/v1/namespaces/[^/]+/services/[^/]+/proxy/\<close> at the start of a
  string; the result is what follows the match.
\<close>

definition strip_prefix :: "string \<Rightarrow> string \<Rightarrow> string option" where
  "strip_prefix p s = (if prefix p s then Some (drop (length p) s) else None)"

definition skip_segment :: "string \<Rightarrow> string option" where
  "skip_segment s = (if takeWhile (\<lambda>c. c \<noteq> CHR ''/'') s = [] then None else Some (dropWhile (\<lambda>c. c \<noteq> CHR ''/'') s))"

definition match_proxy_path :: "string \<Rightarrow> string option" where
  "match_proxy_path s =
     Option.bind (strip_prefix ''/api/v1/namespaces/'' s) (\<lambda>s.
     Option.bind (skip_segment s) (\<lambda>s.
     Option.bind (strip_prefix ''/services/'' s) (\<lambda>s.
     Option.bind (skip_segment s) (strip_prefix ''/proxy/''))))"

lemma strip_prefix_le: "strip_prefix p a = Some b \<Longrightarrow> length p + length b = length a"
  by (auto simp: strip_prefix_def prefix_def split: if_splits)

lemma skip_segment_le: "skip_segment a = Some b \<Longrightarrow> length b \<le> length a"
  by (auto simp: skip_segment_def length_dropWhile_le split: if_splits)

lemma match_proxy_path_shorter:
  assumes "match_proxy_path s = Some r"
  shows "length r < length s"
proof -
  from assms obtain a b c d where
    m: "strip_prefix ''/api/v1/namespaces/'' s = Some a" "skip_segment a = Some b"
    "strip_prefix ''/services/'' b = Some c" "skip_segment c = Some d" "strip_prefix ''/proxy/'' d = Some r"
    unfolding match_proxy_path_def Option.bind_eq_Some_conv by blast
  from strip_prefix_le [OF m(1)] have "length a < length s" by simp
  then show ?thesis
    using skip_segment_le [OF m(2)] strip_prefix_le [OF m(3)] skip_segment_le [OF m(4)] strip_prefix_le [OF m(5)]
    by linarith
qed

function strip_proxy_paths :: "string \<Rightarrow> string" where
  "strip_proxy_paths s =
     (if s = [] then []
      else case match_proxy_path s of
             Some r \<Rightarrow> CHR ''/'' # strip_proxy_paths r
           | None \<Rightarrow> hd s # strip_proxy_paths (tl s))"
  by auto
termination by (relation "measure length") (auto dest: match_proxy_path_shorter)

declare strip_proxy_paths.simps [simp del]

text \<open>\<open>modifyResponse\<close> on the Location header, empty when it is not set.\<close>

definition modifyResponse :: "string \<Rightarrow> string" where
  "modifyResponse location = (if location \<noteq> [] then strip_proxy_paths location else location)"

section \<open>The routes of a cluster\<close>

text \<open>A service that a live plugin on the cluster exposes through the proxy under a URL.\<close>

definition exposes :: "'t ProxyManager \<Rightarrow> plugin list \<Rightarrow> string \<Rightarrow> string \<Rightarrow> service \<Rightarrow> bool" where
  "exposes pm plugins cluster u svc \<longleftrightarrow>
     (\<exists>p \<in> set plugins. o_deletionTimestamp p = None \<and> ps_clusterName (pl_spec p) = cluster \<and>
        (\<exists>u0. (u0, svc) \<in> set (pl_exposedServices p) \<and> svc_type svc = ServiceTypeService \<and> u = served_url pm u0))"

lemma get_add_routes:
  "smap_get (foldl (add_route pm api) rs es) u =
     (case find (\<lambda>(k, svc). served_url pm k = u \<and> svc_type svc = ServiceTypeService) (rev es) of
        None \<Rightarrow> smap_get rs u
      | Some e \<Rightarrow> Some (route_for api (snd e)))"
proof (induction es rule: rev_induct)
  case (snoc e es)
  then show ?case by (cases e) (auto simp: add_route_def sm.get_upd)
qed simp

lemma GetClusterRoute_built:
  assumes "pm_debugHost pm' = pm_debugHost pm" "pm_dnsDomain pm' = pm_dnsDomain pm"
    and "smap_get (pm_clusters pm') c = Some \<lparr>cr_transport = tr, cr_routes = build_routes pm api
      (filter (\<lambda>p. o_deletionTimestamp p = None \<and> ps_clusterName (pl_spec p) = c) plugins)\<rparr>"
  shows "(\<exists>svc. exposes pm plugins c u svc) \<longleftrightarrow> GetClusterRoute pm' c u \<noteq> None"
    and "GetClusterRoute pm' c u = Some r \<Longrightarrow> \<exists>svc. exposes pm plugins c u svc \<and> r = route_for api svc"
proof -
  let ?es = "concat (map pl_exposedServices
    (filter (\<lambda>p. o_deletionTimestamp p = None \<and> ps_clusterName (pl_spec p) = c) plugins))"
  let ?P = "\<lambda>(k, svc). served_url pm k = u \<and> svc_type svc = ServiceTypeService"
  have r: "GetClusterRoute pm' c u = (case find ?P (rev ?es) of None \<Rightarrow> None | Some e \<Rightarrow> Some (route_for api (snd e)))"
    using assms(3) by (simp add: GetClusterRoute_def build_routes_def get_add_routes split: option.split)
  have ex: "exposes pm plugins c u svc \<longleftrightarrow> (\<exists>k. (k, svc) \<in> set ?es \<and> ?P (k, svc))" for svc
    by (auto simp: exposes_def)
  show "(\<exists>svc. exposes pm plugins c u svc) \<longleftrightarrow> GetClusterRoute pm' c u \<noteq> None"
  proof -
    have "find ?P (rev ?es) = None \<longleftrightarrow> \<not> (\<exists>e \<in> set ?es. ?P e)" by (auto simp: find_None_iff)
    then have "GetClusterRoute pm' c u \<noteq> None \<longleftrightarrow> (\<exists>e \<in> set ?es. ?P e)"
      unfolding r by (cases "find ?P (rev ?es)") auto
    then show ?thesis unfolding ex by fastforce
  qed
  assume "GetClusterRoute pm' c u = Some r"
  then obtain e where e: "find ?P (rev ?es) = Some e" "r = route_for api (snd e)"
    unfolding r by (auto split: option.splits)
  from find_Some_in_set [OF e(1)] have "e \<in> set ?es \<and> ?P e" by simp
  with e(2) show "\<exists>svc. exposes pm plugins c u svc \<and> r = route_for api svc"
    unfolding ex by (cases e) auto
qed

lemma proxy_Reconcile_ok:
  assumes "proxy_Reconcile env req pm = (None, pm')" and "pe_get_secret env req = Inr sec"
    and "o_deletionTimestamp sec = None"
  obtains cfg tr api plugins where "pe_restConfig env sec = Inr cfg" "pe_transportFor env cfg = Inr tr"
    "pe_parseURL env (pe_configHost env cfg) = Inr api" "pe_list_plugins env (nn_namespace req) = Inr plugins"
    "pm' = pm\<lparr>pm_clusters := smap_set (nn_name req) \<lparr>cr_transport = tr, cr_routes = build_routes pm api
      (filter (\<lambda>p. o_deletionTimestamp p = None \<and> ps_clusterName (pl_spec p) = nn_name req) plugins)\<rparr>
      (pm_clusters pm)\<rparr>"
  using assms by (auto simp: proxy_Reconcile_def pluginsForCluster_def split: sum.splits if_splits)

text \<open>
  C33. After a reconciliation of a live cluster secret that reports no error, the proxy has a route of
  the cluster for exactly the URLs under which a live plugin on the cluster exposes a service through
  the proxy; a route leads to the API server of the secret and to such a service; the cluster's requests
  use the credentials of the secret, and the other clusters keep their routes.
\<close>

theorem proxy_Reconcile_routes:
  assumes "proxy_Reconcile env req pm = (None, pm')" and "pe_get_secret env req = Inr sec"
    and "o_deletionTimestamp sec = None"
  shows "\<exists>cfg tr api plugins cls. pe_restConfig env sec = Inr cfg \<and> pe_transportFor env cfg = Inr tr
    \<and> pe_parseURL env (pe_configHost env cfg) = Inr api \<and> pe_list_plugins env (nn_namespace req) = Inr plugins
    \<and> smap_get (pm_clusters pm') (nn_name req) = Some cls \<and> cr_transport cls = tr
    \<and> (\<forall>u. (\<exists>svc. exposes pm plugins (nn_name req) u svc) \<longleftrightarrow> GetClusterRoute pm' (nn_name req) u \<noteq> None)
    \<and> (\<forall>u r. GetClusterRoute pm' (nn_name req) u = Some r \<longrightarrow>
         (\<exists>svc. exposes pm plugins (nn_name req) u svc \<and> r = route_for api svc))
    \<and> (\<forall>c u. c \<noteq> nn_name req \<longrightarrow> GetClusterRoute pm' c u = GetClusterRoute pm c u)"
proof -
  from assms obtain cfg tr api plugins where *: "pe_restConfig env sec = Inr cfg" "pe_transportFor env cfg = Inr tr"
    "pe_parseURL env (pe_configHost env cfg) = Inr api" "pe_list_plugins env (nn_namespace req) = Inr plugins"
    and pm': "pm' = pm\<lparr>pm_clusters := smap_set (nn_name req) \<lparr>cr_transport = tr, cr_routes = build_routes pm api
      (filter (\<lambda>p. o_deletionTimestamp p = None \<and> ps_clusterName (pl_spec p) = nn_name req) plugins)\<rparr>
      (pm_clusters pm)\<rparr>"
    by (rule proxy_Reconcile_ok)
  have get: "smap_get (pm_clusters pm') (nn_name req) = Some \<lparr>cr_transport = tr, cr_routes = build_routes pm api
      (filter (\<lambda>p. o_deletionTimestamp p = None \<and> ps_clusterName (pl_spec p) = nn_name req) plugins)\<rparr>"
    by (simp add: pm' sm.get_upd)
  have other: "\<forall>c u. c \<noteq> nn_name req \<longrightarrow> GetClusterRoute pm' c u = GetClusterRoute pm c u"
    by (simp add: GetClusterRoute_def pm' sm.get_upd)
  have same: "pm_debugHost pm' = pm_debugHost pm" "pm_dnsDomain pm' = pm_dnsDomain pm" by (simp_all add: pm')
  have "\<forall>u. (\<exists>svc. exposes pm plugins (nn_name req) u svc) \<longleftrightarrow> GetClusterRoute pm' (nn_name req) u \<noteq> None"
    using GetClusterRoute_built(1) [OF same get] by blast
  moreover have "\<forall>u r. GetClusterRoute pm' (nn_name req) u = Some r \<longrightarrow>
      (\<exists>svc. exposes pm plugins (nn_name req) u svc \<and> r = route_for api svc)"
    using GetClusterRoute_built(2) [OF same get] by blast
  moreover obtain cls where "smap_get (pm_clusters pm') (nn_name req) = Some cls" "cr_transport cls = tr"
    using get by simp
  ultimately show ?thesis using * other by blast
qed

text \<open>A cluster \<open>eu-1\<close> with one exposed service, for the examples.\<close>

definition sample_service :: service where
  "sample_service = \<lparr>svc_namespace = ''ns'', svc_name = ''prometheus'', svc_port = 80, svc_protocol = None,
     svc_type = ServiceTypeService\<rparr>"

definition sample_exposing :: plugin where
  "sample_exposing = (plugin_on ''eu-1'')\<lparr>pl_exposedServices :=
     [(URLForExposedServiceInPlugin ''example.com'' ''prometheus'' (plugin_on ''eu-1''), sample_service)]\<rparr>"

definition sample_proxy_env :: "(unit, string) proxy_env" where
  "sample_proxy_env =
     \<lparr>pe_get_secret = (\<lambda>_. Inr \<lparr>o_name = ''eu-1'', o_namespace = ''org'', o_labels = [], o_annotations = [],
         o_finalizers = [], o_deletionTimestamp = None, o_ownerReferences = [],
         secret_type = SecretTypeKubeConfig, secret_data = []\<rparr>),
      pe_restConfig = (\<lambda>_. Inr ()), pe_configHost = (\<lambda>_. ''api.eu-1''), pe_transportFor = (\<lambda>_. Inr ''transport''),
      pe_parseURL = (\<lambda>h. Inr \<lparr>u_scheme = ''https'', u_host = h, u_path = []\<rparr>),
      pe_list_plugins = (\<lambda>_. Inr [sample_exposing])\<rparr>"

definition sample_pm :: "string ProxyManager" where
  "sample_pm = \<lparr>pm_clusters = [], pm_dnsDomain = ''example.com'', pm_debugHost = []\<rparr>"

definition eu_key :: namespaced_name where
  "eu_key = \<lparr>nn_namespace = ''org'', nn_name = ''eu-1''\<rparr>"

lemma sample_reconciled:
  "\<exists>pm'. proxy_Reconcile sample_proxy_env eu_key sample_pm = (None, pm')"
  by (simp add: proxy_Reconcile_def pluginsForCluster_def sample_proxy_env_def)

lemma sample_exposes_iff:
  "exposes sample_pm [sample_exposing] ''eu-1'' u svc \<longleftrightarrow>
     svc = sample_service \<and> u = URLForExposedServiceInPlugin ''example.com'' ''prometheus'' (plugin_on ''eu-1'')"
  by (auto simp: exposes_def sample_exposing_def plugin_on_def zero_plugin_def served_url_def sample_pm_def
      sample_service_def)

theorem proxy_Reconcile_routes_witness:
  "\<exists>pm' r. proxy_Reconcile sample_proxy_env eu_key sample_pm = (None, pm') \<and>
     GetClusterRoute pm' ''eu-1'' (URLForExposedServiceInPlugin ''example.com'' ''prometheus'' (plugin_on ''eu-1'')) = Some r \<and>
     rt_serviceName r = ''prometheus''"
proof -
  obtain pm' where run: "proxy_Reconcile sample_proxy_env eu_key sample_pm = (None, pm')"
    using sample_reconciled by blast
  obtain sec where sec: "pe_get_secret sample_proxy_env eu_key = Inr sec" "o_deletionTimestamp sec = None"
    by (simp add: sample_proxy_env_def)
  have list: "pe_list_plugins sample_proxy_env (nn_namespace eu_key) = Inr [sample_exposing]"
    by (simp add: sample_proxy_env_def)
  let ?u = "URLForExposedServiceInPlugin ''example.com'' ''prometheus'' (plugin_on ''eu-1'')"
  have name: "nn_name eu_key = ''eu-1''" by (simp add: eu_key_def)
  from proxy_Reconcile_routes [OF run sec] obtain api plugins where f:
    "pe_list_plugins sample_proxy_env (nn_namespace eu_key) = Inr plugins"
    "\<forall>u. (\<exists>svc. exposes sample_pm plugins ''eu-1'' u svc) \<longleftrightarrow> GetClusterRoute pm' ''eu-1'' u \<noteq> None"
    "\<forall>u r. GetClusterRoute pm' ''eu-1'' u = Some r \<longrightarrow>
      (\<exists>svc. exposes sample_pm plugins ''eu-1'' u svc \<and> r = route_for api svc)"
    unfolding name by (elim exE conjE) (rule that)
  from f(1) list have ps: "plugins = [sample_exposing]" by simp
  from f(2) have "GetClusterRoute pm' ''eu-1'' ?u \<noteq> None" unfolding ps sample_exposes_iff by blast
  then obtain r where r: "GetClusterRoute pm' ''eu-1'' ?u = Some r" by blast
  with f(3) have "\<exists>svc. exposes sample_pm [sample_exposing] ''eu-1'' ?u svc \<and> r = route_for api svc"
    unfolding ps by blast
  then have "rt_serviceName r = ''prometheus''"
    by (simp add: sample_exposes_iff route_for_def sample_service_def)
  with run r show ?thesis by blast
qed

section \<open>Routing\<close>

lemma serve_routed:
  assumes "ExtractCluster (rq_host req) = Inr c" and "smap_get (pm_clusters pm) c = Some cls"
    and "GetClusterRoute pm c (''https://'' @ rq_host req) = Some r"
  shows "\<exists>out. serve pm req = Inr (cr_transport cls, out) \<and> rq_host out = u_host (rt_url r) \<and>
    rq_url out = \<lparr>u_scheme = u_scheme (rt_url r), u_host = u_host (rt_url r),
      u_path = (if HasPrefix (u_path (rq_url req)) (u_path (rt_url r)) then u_path (rq_url req)
                else TrimSuffix (u_path (rt_url r)) ''/'' @ u_path (rq_url req))\<rparr>"
  using assms
  by (auto simp: serve_def reverse_proxy_def injector_def rewrite_def RoundTrip_def Let_def split: option.splits)

lemma proxy_path_no_slash: "TrimSuffix (proxy_path svc) ''/'' = proxy_path svc"
  by (simp add: TrimSuffix_def proxy_path_def suffix_def)

text \<open>
  C32. From a plugin to its backend: once the cluster is reconciled, a request to the host a service of
  a plugin is exposed under is sent with the credentials of the plugin's cluster to the API server of
  that cluster, at the proxy path of the service followed by the requested path. The cluster was
  accepted by the webhook, its name is a DNS label, and no other service has the same URL.
\<close>

theorem exposed_service_reachable:
  assumes "snd (ValidateCreateCluster s cl) = None" and "dns_label (o_name cl)"
    and "proxy_Reconcile env key pm = (None, pm')" and "nn_name key = o_name cl"
    and "pe_get_secret env key = Inr sec" and "o_deletionTimestamp sec = None"
    and "pe_list_plugins env (nn_namespace key) = Inr plugins"
    and "exposes pm plugins (o_name cl) (URLForExposedServiceInPlugin dnsDomain (svc_name svc) p) svc"
    and "\<And>svc'. exposes pm plugins (o_name cl) (URLForExposedServiceInPlugin dnsDomain (svc_name svc) p) svc' \<Longrightarrow> svc' = svc"
    and "ps_clusterName (pl_spec p) = o_name cl"
    and "rq_host req = exposed_host dnsDomain (svc_name svc) p"
    and "\<not> HasPrefix (u_path (rq_url req)) (proxy_path svc)"
  shows "\<exists>cfg tr api out. pe_restConfig env sec = Inr cfg \<and> pe_transportFor env cfg = Inr tr \<and>
    pe_parseURL env (pe_configHost env cfg) = Inr api \<and> serve pm' req = Inr (tr, out) \<and>
    rq_url out = api\<lparr>u_path := proxy_path svc @ u_path (rq_url req)\<rparr>"
proof -
  from assms(3,5,6) obtain cfg tr api ps where *: "pe_restConfig env sec = Inr cfg" "pe_transportFor env cfg = Inr tr"
    "pe_parseURL env (pe_configHost env cfg) = Inr api" "pe_list_plugins env (nn_namespace key) = Inr ps"
    and pm': "pm' = pm\<lparr>pm_clusters := smap_set (nn_name key) \<lparr>cr_transport = tr, cr_routes = build_routes pm api
      (filter (\<lambda>p. o_deletionTimestamp p = None \<and> ps_clusterName (pl_spec p) = nn_name key) ps)\<rparr>
      (pm_clusters pm)\<rparr>"
    by (rule proxy_Reconcile_ok)
  have get: "smap_get (pm_clusters pm') (o_name cl) = Some \<lparr>cr_transport = tr, cr_routes = build_routes pm api
      (filter (\<lambda>p. o_deletionTimestamp p = None \<and> ps_clusterName (pl_spec p) = o_name cl) plugins)\<rparr>"
    using *(4) assms(4,7) by (simp add: pm' sm.get_upd)
  have same: "pm_debugHost pm' = pm_debugHost pm" "pm_dnsDomain pm' = pm_dnsDomain pm" by (simp_all add: pm')
  let ?u = "URLForExposedServiceInPlugin dnsDomain (svc_name svc) p"
  from GetClusterRoute_built(1) [OF same get] assms(8) obtain r where r: "GetClusterRoute pm' (o_name cl) ?u = Some r"
    by blast
  with GetClusterRoute_built(2) [OF same get] assms(9) have route: "r = route_for api svc" by blast
  have ex: "ExtractCluster (rq_host req) = Inr (o_name cl)"
    using ExtractCluster_host [of "o_name cl"] dns_label_chars [OF assms(2)] assms(1,10,11)
    by (simp add: ValidateCreateCluster_accepts Contains_def exposed_host_def)
  have "GetClusterRoute pm' (o_name cl) (''https://'' @ rq_host req) = Some r"
    using r by (simp add: assms(11) URLForExposedServiceInPlugin_def)
  from serve_routed [OF ex get this] obtain out where
    out: "serve pm' req = Inr (tr, out)" "rq_url out = \<lparr>u_scheme = u_scheme api, u_host = u_host api,
      u_path = TrimSuffix (proxy_path svc) ''/'' @ u_path (rq_url req)\<rparr>"
    using assms(12) by (auto simp: route route_for_def)
  have "rq_url out = api\<lparr>u_path := proxy_path svc @ u_path (rq_url req)\<rparr>"
    unfolding out(2) proxy_path_no_slash by simp
  with out(1) * show ?thesis by blast
qed

definition sample_request :: http_request where
  "sample_request = \<lparr>rq_host = exposed_host ''example.com'' ''prometheus'' (plugin_on ''eu-1''),
     rq_url = \<lparr>u_scheme = [], u_host = [], u_path = ''/graph''\<rparr>, rq_cluster = None, rq_organization = None,
     rq_name = None\<rparr>"

theorem exposed_service_reachable_witness:
  "\<exists>pm' out. proxy_Reconcile sample_proxy_env eu_key sample_pm = (None, pm') \<and>
     serve pm' sample_request = Inr (''transport'', out) \<and>
     u_path (rq_url out) = ''/api/v1/namespaces/ns/services/prometheus:80/proxy/graph''"
proof -
  obtain pm' where run: "proxy_Reconcile sample_proxy_env eu_key sample_pm = (None, pm')"
    using sample_reconciled by blast
  obtain sec where sec: "pe_get_secret sample_proxy_env eu_key = Inr sec" "o_deletionTimestamp sec = None"
    by (simp add: sample_proxy_env_def)
  let ?u = "URLForExposedServiceInPlugin ''example.com'' (svc_name sample_service) (plugin_on ''eu-1'')"
  have "\<exists>cfg tr api out. pe_restConfig sample_proxy_env sec = Inr cfg \<and> pe_transportFor sample_proxy_env cfg = Inr tr \<and>
    pe_parseURL sample_proxy_env (pe_configHost sample_proxy_env cfg) = Inr api \<and>
    serve pm' sample_request = Inr (tr, out) \<and>
    rq_url out = api\<lparr>u_path := proxy_path sample_service @ u_path (rq_url sample_request)\<rparr>"
  proof (rule exposed_service_reachable [where s = sample_reads and cl = "sample_cluster ''eu-1''", OF _ _ run _ sec])
    show "snd (ValidateCreateCluster sample_reads (sample_cluster ''eu-1'')) = None"
      by (simp add: ValidateCreateCluster_accepts Contains_def sample_cluster_def sublist_Cons_right)
    show "dns_label (o_name (sample_cluster ''eu-1''))"
      by (simp add: dns_label_def label_char_def sample_cluster_def)
    show "exposes sample_pm [sample_exposing] (o_name (sample_cluster ''eu-1'')) ?u sample_service"
      by (simp add: sample_cluster_def sample_exposes_iff sample_service_def)
    show "svc' = sample_service"
      if "exposes sample_pm [sample_exposing] (o_name (sample_cluster ''eu-1'')) ?u svc'" for svc'
      using that by (simp add: sample_cluster_def sample_exposes_iff)
    show "ps_clusterName (pl_spec (plugin_on ''eu-1'')) = o_name (sample_cluster ''eu-1'')"
      by (simp add: plugin_on_def sample_cluster_def)
    show "\<not> HasPrefix (u_path (rq_url sample_request)) (proxy_path sample_service)"
      by (simp add: HasPrefix_def sample_request_def proxy_path_def)
  qed (simp_all add: sample_proxy_env_def eu_key_def sample_cluster_def sample_request_def sample_service_def)
  then obtain out where "serve pm' sample_request = Inr (''transport'', out)"
    "u_path (rq_url out) = proxy_path sample_service @ u_path (rq_url sample_request)"
    by (auto simp: sample_proxy_env_def)
  moreover have "proxy_path sample_service = ''/api/v1/namespaces/ns/services/prometheus:80/proxy''" by code_simp
  moreover have "u_path (rq_url sample_request) = ''/graph''" by (simp add: sample_request_def)
  ultimately show ?thesis using run by auto
qed

text \<open>
  A request the proxy has no route for is still sent on: the instrumentation puts the cluster named
  by the host into the context of the request, the context is inherited by the outgoing request, and the
  round tripper takes it as the result of the routing. The request goes out with the credentials of the
  cluster to the URL the client asked for. Without the instrumentation it is refused.
\<close>

theorem unrouted_request_forwarded:
  assumes "ExtractCluster (rq_host req) = Inr c" and "smap_get (pm_clusters pm) c = Some cls"
    and "GetClusterRoute pm c (''https://'' @ rq_host req) = None"
  shows "(\<exists>out. serve pm req = Inr (cr_transport cls, out) \<and> rq_url out = rq_url req \<and> rq_host out = rq_host req)
    \<and> reverse_proxy pm (req\<lparr>rq_cluster := None\<rparr>) = Inl (PlainError ''no upstream found'')"
  using assms
  by (auto simp: serve_def reverse_proxy_def injector_def rewrite_def RoundTrip_def split: option.splits)

theorem unrouted_request_forwarded_witness:
  "\<exists>pm' out. proxy_Reconcile sample_proxy_env eu_key sample_pm = (None, pm') \<and>
     serve pm' (sample_request\<lparr>rq_host := ''eu-1--.evil.org'',
        rq_url := \<lparr>u_scheme = ''http'', u_host = ''eu-1--.evil.org'', u_path = ''/''\<rparr>\<rparr>) = Inr (''transport'', out) \<and>
     u_host (rq_url out) = ''eu-1--.evil.org''"
proof -
  obtain pm' where run: "proxy_Reconcile sample_proxy_env eu_key sample_pm = (None, pm')"
    using sample_reconciled by blast
  let ?req = "sample_request\<lparr>rq_host := ''eu-1--.evil.org'',
        rq_url := \<lparr>u_scheme = ''http'', u_host = ''eu-1--.evil.org'', u_path = ''/''\<rparr>\<rparr>"
  obtain sec where sec: "pe_get_secret sample_proxy_env eu_key = Inr sec" "o_deletionTimestamp sec = None"
    by (simp add: sample_proxy_env_def)
  from run sec obtain tr api ps where ps: "pe_transportFor sample_proxy_env () = Inr tr" 
    "pe_list_plugins sample_proxy_env (nn_namespace eu_key) = Inr ps"
    "pm' = sample_pm\<lparr>pm_clusters := smap_set (nn_name eu_key) \<lparr>cr_transport = tr, cr_routes = build_routes sample_pm api
      (filter (\<lambda>p. o_deletionTimestamp p = None \<and> ps_clusterName (pl_spec p) = nn_name eu_key) ps)\<rparr>
      (pm_clusters sample_pm)\<rparr>"
    by (rule proxy_Reconcile_ok) (simp add: sample_proxy_env_def)
  then have get: "smap_get (pm_clusters pm') ''eu-1'' = Some \<lparr>cr_transport = ''transport'', cr_routes = build_routes sample_pm api
      (filter (\<lambda>p. o_deletionTimestamp p = None \<and> ps_clusterName (pl_spec p) = ''eu-1'') [sample_exposing])\<rparr>"
    by (simp add: sample_proxy_env_def eu_key_def sm.get_upd)
  have same: "pm_debugHost pm' = pm_debugHost sample_pm" "pm_dnsDomain pm' = pm_dnsDomain sample_pm"
    by (simp_all add: ps(3))
  have "length (URLForExposedServiceInPlugin ''example.com'' ''prometheus'' (plugin_on ''eu-1'')) = 37"
    by (simp add: URLForExposedServiceInPlugin_def exposed_host_def service_hash_shape plugin_on_def)
  then have "URLForExposedServiceInPlugin ''example.com'' ''prometheus'' (plugin_on ''eu-1'') \<noteq> ''https://eu-1--.evil.org''"
    by auto
  then have none: "GetClusterRoute pm' ''eu-1'' (''https://'' @ rq_host ?req) = None"
    using GetClusterRoute_built(1) [OF same get, of "''https://eu-1--.evil.org''"] by (auto simp: sample_exposes_iff)
  have ex: "ExtractCluster (rq_host ?req) = Inr ''eu-1''"
    by (simp add: ExtractCluster_def HasPrefix_def)
  from unrouted_request_forwarded [OF ex get none] run show ?thesis by auto
qed

text \<open>
  The labels of the metrics: the instrumentation looks its routes up by the host, the routes are stored
  under URLs, so the organization and the service name are never found.
\<close>

lemma injector_never_finds_route:
  assumes "\<And>c cls u r. smap_get (pm_clusters pm) c = Some cls \<Longrightarrow> smap_get (cr_routes cls) u = Some r \<Longrightarrow> HasPrefix u ''https://''"
  shows "rq_organization (injector pm req) = rq_organization req \<and> rq_name (injector pm req) = rq_name req"
proof (cases "ExtractCluster (rq_host req)")
  case (Inr c)
  then have "\<not> HasPrefix (rq_host req) ''https://''" by (auto simp: ExtractCluster_def split: if_splits)
  then have "GetClusterRoute pm c (rq_host req) = None"
    using assms [of c _ "rq_host req"] by (auto simp: GetClusterRoute_def split: option.splits) (metis option.exhaust)
  with Inr show ?thesis by (simp add: injector_def)
qed (simp add: injector_def)

section \<open>Redirects\<close>

lemma digit_not_slash: "(n :: nat) < 10 \<Longrightarrow> char_of (48 + n) \<noteq> CHR ''/''"
proof
  assume "n < 10" and "char_of (48 + n) = CHR ''/''"
  then have "(48 + n) mod 256 = of_char (CHR ''/'')" by (metis of_char_of)
  with \<open>n < 10\<close> show False by simp
qed

lemma Itoa_no_slash: "CHR ''/'' \<notin> set (Itoa n)"
proof (induction n rule: Itoa.induct)
  case (1 n)
  then show ?case using digit_not_slash [of n] digit_not_slash [of "n mod 10"]
    by (subst Itoa.simps) auto
qed

lemma strip_prefix_append [simp]: "strip_prefix p (p @ s) = Some s"
  by (simp add: strip_prefix_def)

lemma skip_segment_append:
  "x \<noteq> [] \<Longrightarrow> CHR ''/'' \<notin> set x \<Longrightarrow> skip_segment (x @ CHR ''/'' # s) = Some (CHR ''/'' # s)"
proof -
  assume x: "x \<noteq> []" "CHR ''/'' \<notin> set x"
  then have "takeWhile (\<lambda>c. c \<noteq> CHR ''/'') (x @ CHR ''/'' # s) = x" "dropWhile (\<lambda>c. c \<noteq> CHR ''/'') (x @ CHR ''/'' # s) = CHR ''/'' # s"
    by (simp_all add: takeWhile_append dropWhile_append)
  with x show ?thesis by (simp add: skip_segment_def)
qed

lemma strip_proxy_paths_absent: "\<not> sublist ''/api/v1/namespaces/'' s \<Longrightarrow> strip_proxy_paths s = s"
proof (induction s)
  case (Cons c s)
  then have p: "\<not> prefix ''/api/v1/namespaces/'' (c # s)" and s: "\<not> sublist ''/api/v1/namespaces/'' s"
    by (auto simp only: sublist_Cons_right)
  have "strip_prefix ''/api/v1/namespaces/'' (c # s) = None" unfolding strip_prefix_def using p by (rule if_not_P)
  then have "match_proxy_path (c # s) = None" unfolding match_proxy_path_def by (simp only: Option.bind.simps)
  with Cons.IH [OF s] show ?case by (simp add: strip_proxy_paths.simps [of "c # s"])
qed (simp add: strip_proxy_paths.simps)

lemma match_proxy_path_of:
  assumes "a \<noteq> []" "CHR ''/'' \<notin> set a" "b \<noteq> []" "CHR ''/'' \<notin> set b"
  shows "match_proxy_path (''/api/v1/namespaces/'' @ a @ ''/services/'' @ b @ ''/proxy/'' @ r) = Some r"
proof -
  have "skip_segment (a @ ''/services/'' @ b @ ''/proxy/'' @ r) = Some (''/services/'' @ b @ ''/proxy/'' @ r)"
    using skip_segment_append [OF assms(1,2), of "''services/'' @ b @ ''/proxy/'' @ r"] by simp
  moreover have "skip_segment (b @ ''/proxy/'' @ r) = Some (''/proxy/'' @ r)"
    using skip_segment_append [OF assms(3,4), of "''proxy/'' @ r"] by simp
  ultimately show ?thesis
    unfolding match_proxy_path_def by (simp only: strip_prefix_append Option.bind.simps)
qed

text \<open>
  A redirect of a backend to a path behind the API server's service proxy is handed to the client
  as that path: the proxy path the rewriting had put in front is removed again.
\<close>

theorem redirect_roundtrip:
  assumes "svc_namespace svc \<noteq> []" "CHR ''/'' \<notin> set (svc_namespace svc)" "CHR ''/'' \<notin> set (svc_name svc)"
    and "\<not> sublist ''/api/v1/namespaces/'' path"
  shows "modifyResponse (proxy_path svc @ ''/'' @ path) = ''/'' @ path"
proof -
  let ?b = "(if svc_protocol svc = Some ''https'' then ''https:'' else []) @ svc_name svc @ '':'' @ format_d (svc_port svc)"
  have "CHR ''/'' \<notin> set ?b" using assms(3) Itoa_no_slash by (auto simp: format_d_def)
  moreover have "?b \<noteq> []" by simp
  ultimately have m: "match_proxy_path (proxy_path svc @ ''/'' @ path) = Some path"
    using match_proxy_path_of [OF assms(1,2), of ?b path] by (simp add: proxy_path_def)
  have "strip_proxy_paths (proxy_path svc @ ''/'' @ path) = CHR ''/'' # strip_proxy_paths path"
    using m by (subst strip_proxy_paths.simps) (simp del: append_Cons append.simps)
  then show ?thesis
    using strip_proxy_paths_absent [OF assms(4)] by (simp add: modifyResponse_def)
qed

theorem redirect_roundtrip_witness:
  "modifyResponse (proxy_path sample_service @ ''/'' @ ''login'') = ''/login''"
proof -
  have "modifyResponse (proxy_path sample_service @ ''/'' @ ''login'') = ''/'' @ ''login''"
    by (rule redirect_roundtrip) (simp_all add: sample_service_def sublist_Cons_right)
  then show ?thesis by simp
qed

end
