(* ===== verification/Authz.thy ===== *)
theory Authz
  imports Webhook_Core
begin

text \<open>
  The authorization webhook (\<open>cmd/authz/authorization.go\<close>, \<open>metrics.go\<close>): access to a resource is
  granted to the support group that owns it. The handler returns the reply and the increments of the
  Prometheus counters, in order. Reads of the API server and the REST mapper are parameters; the request
  body is the decoded review or the decoding error.
\<close>

section \<open>Requests, replies and counters\<close>

record resource_attributes =
  ra_namespace :: string
  ra_verb :: string
  ra_group :: string
  ra_version :: string
  ra_resource :: string
  ra_name :: string

record access_review =
  rv_user :: string
  rv_groups :: "string list"
  rv_attrs :: "resource_attributes option"

record group_version_resource =
  gvr_group :: string
  gvr_version :: string
  gvr_resource :: string

datatype counter_inc =
  RequestsTotal string string
| DeniedTotal string
| AccessTotal string string string
| KubeFetchErrorsTotal string
| KindResolutionErrorsTotal

datatype authz_reply =
  HttpError nat string
| ReviewReply bool string

record 'k authz_reads =
  az_get_serviceAccount :: "namespaced_name \<Rightarrow> go_error + object_meta"
  az_kindFor :: "group_version_resource \<Rightarrow> go_error + 'k"
  az_get_object :: "'k \<Rightarrow> namespaced_name \<Rightarrow> go_error + object_meta"
  az_get_team :: "namespaced_name \<Rightarrow> go_error + team"

definition supportGroupClaimPrefix :: string where "supportGroupClaimPrefix = ''support-group:''"

definition reasonNoSupportGroupClaims :: string where "reasonNoSupportGroupClaims = ''no_support_group_claims''"
definition reasonNoOwnedByLabel :: string where "reasonNoOwnedByLabel = ''no_owned_by_label''"
definition reasonSupportGroupMismatch :: string where "reasonSupportGroupMismatch = ''support_group_mismatch''"
definition reasonObjectNotFound :: string where "reasonObjectNotFound = ''object_not_found''"
definition reasonKindResolutionFailed :: string where "reasonKindResolutionFailed = ''kind_resolution_failed''"
definition reasonDecodeError :: string where "reasonDecodeError = ''decode_error''"
definition reasonMissingAttributes :: string where "reasonMissingAttributes = ''missing_attributes''"
definition reasonServiceAccountNotFound :: string where
  "reasonServiceAccountNotFound = ''service_account_not_found''"

definition recordAllowed :: "string \<Rightarrow> string \<Rightarrow> string \<Rightarrow> counter_inc list" where
  "recordAllowed verb resource supportGroup =
     [RequestsTotal ''allowed'' verb, AccessTotal supportGroup resource ''allowed'']"

definition recordDenied :: "string \<Rightarrow> string \<Rightarrow> string \<Rightarrow> string list \<Rightarrow> counter_inc list" where
  "recordDenied verb resource reason supportGroups =
     [RequestsTotal ''denied'' verb, DeniedTotal reason]
       @ map (\<lambda>sg. AccessTotal sg resource ''denied'') supportGroups"

section \<open>The decision\<close>

text \<open>\<open>strings.CutPrefix\<close>.\<close>

definition CutPrefix :: "string \<Rightarrow> string \<Rightarrow> string option" where
  "CutPrefix s p = (if prefix p s then Some (drop (length p) s) else None)"

definition extractServiceAccountName :: "string \<Rightarrow> string \<Rightarrow> string" where
  "extractServiceAccountName username namespace =
     (case CutPrefix username (''system:serviceaccount:'' @ namespace @ '':'') of None \<Rightarrow> [] | Some n \<Rightarrow> n)"

text \<open>Support groups, or the reason code and the error.\<close>

definition getSupportGroups ::
  "'k authz_reads \<Rightarrow> string \<Rightarrow> string list \<Rightarrow> string \<Rightarrow> (string \<times> go_error) + string list" where
  "getSupportGroups rd username groups namespace =
     (let sa = extractServiceAccountName username namespace in
      if sa \<noteq> []
      then (case az_get_serviceAccount rd \<lparr>nn_namespace = namespace, nn_name = sa\<rparr> of
              Inl _ \<Rightarrow> Inl (reasonServiceAccountNotFound, PlainError (''ServiceAccount '' @ sa @ '' not found''))
            | Inr obj \<Rightarrow>
                (case smap_get (o_labels obj) LabelKeyOwnedBy of
                   None \<Rightarrow> Inl (reasonNoOwnedByLabel, PlainError ''ServiceAccount missing owned-by label'')
                 | Some teamName \<Rightarrow> Inr [teamName]))
      else let userSupportGroups = List.map_filter (\<lambda>g. CutPrefix g supportGroupClaimPrefix) groups
           in if length userSupportGroups = 0
              then Inl (reasonNoSupportGroupClaims,
                     PlainError ''user has no support-group claims and is not an authorized ServiceAccount'')
              else Inr userSupportGroups)"

definition fetchResourceWithOwnership ::
  "'k authz_reads \<Rightarrow> resource_attributes \<Rightarrow> ((string \<times> go_error) + string) \<times> counter_inc list" where
  "fetchResourceWithOwnership rd attrs =
     (let gvr = \<lparr>gvr_group = ra_group attrs,
                 gvr_version = (if ra_version attrs \<noteq> [] \<and> ra_version attrs \<noteq> ''*'' then ra_version attrs else []),
                 gvr_resource = ra_resource attrs\<rparr>
      in case az_kindFor rd gvr of
           Inl e \<Rightarrow> (Inl (reasonKindResolutionFailed, e), [KindResolutionErrorsTotal])
         | Inr gvk \<Rightarrow>
             (case az_get_object rd gvk \<lparr>nn_namespace = ra_namespace attrs, nn_name = ra_name attrs\<rparr> of
                Inl e \<Rightarrow> (Inl (reasonObjectNotFound, e), [KubeFetchErrorsTotal (error_text e)])
              | Inr obj \<Rightarrow>
                  (case smap_get (o_labels obj) LabelKeyOwnedBy of
                     None \<Rightarrow> (Inl (reasonNoOwnedByLabel, PlainError ''resource has no owned-by label''), [])
                   | Some ownedByValue \<Rightarrow> (Inr ownedByValue, []))))"

definition validateTeam ::
  "'k authz_reads \<Rightarrow> string \<Rightarrow> string \<Rightarrow> (string \<times> go_error) option \<times> counter_inc list" where
  "validateTeam rd namespace teamName =
     (case az_get_team rd \<lparr>nn_namespace = namespace, nn_name = teamName\<rparr> of
        Inl e \<Rightarrow>
          (Some (reasonObjectNotFound,
             WrapError (''team '' @ teamName @ '' referenced in owned-by label does not exist'') e),
           [KubeFetchErrorsTotal (error_text e)])
      | Inr team \<Rightarrow>
          (if smap_get (o_labels team) LabelKeySupportGroup \<noteq> Some ''true''
           then Some (reasonObjectNotFound, PlainError (''team '' @ teamName @ '' is not a support-group''))
           else None, []))"

record decision =
  d_allowed :: bool
  d_reasonCode :: string
  d_ownedBy :: string
  d_message :: string

definition authorizeAccess ::
  "'k authz_reads \<Rightarrow> resource_attributes \<Rightarrow> string list \<Rightarrow> decision \<times> counter_inc list" where
  "authorizeAccess rd attrs supportGroups =
     (let (fetched, m1) = fetchResourceWithOwnership rd attrs in
      case fetched of
        Inl (code, e) \<Rightarrow>
          (\<lparr>d_allowed = False, d_reasonCode = code, d_ownedBy = [],
            d_message = ''failed to fetch object: '' @ error_text e\<rparr>, m1)
      | Inr ownedBy \<Rightarrow>
          (let (terr, m2) = validateTeam rd (ra_namespace attrs) ownedBy in
           (case terr of
              Some (code, e) \<Rightarrow>
                \<lparr>d_allowed = False, d_reasonCode = code, d_ownedBy = [], d_message = error_text e\<rparr>
            | None \<Rightarrow>
                if ownedBy \<in> set supportGroups
                then \<lparr>d_allowed = True, d_reasonCode = [], d_ownedBy = ownedBy,
                      d_message = ''authorized to access resource owned by '' @ ownedBy\<rparr>
                else \<lparr>d_allowed = False, d_reasonCode = reasonSupportGroupMismatch, d_ownedBy = [],
                      d_message = ''support-group does not match resource owner''\<rparr>,
            m1 @ m2)))"

definition handleAuthorize ::
  "'k authz_reads \<Rightarrow> string \<Rightarrow> go_error + access_review \<Rightarrow> authz_reply \<times> counter_inc list" where
  "handleAuthorize rd method body =
     (if method \<noteq> ''POST'' then (HttpError 405 ''invalid method'', [])
      else case body of
             Inl e \<Rightarrow> (HttpError 400 (''decode: '' @ error_text e), [DeniedTotal reasonDecodeError])
           | Inr review \<Rightarrow>
               (case rv_attrs review of
                  None \<Rightarrow> (ReviewReply False ''missing resource name in request'',
                          recordDenied [] [] reasonMissingAttributes [])
                | Some attrs \<Rightarrow>
                    if ra_name attrs = []
                    then (ReviewReply False ''missing resource name in request'',
                          recordDenied [] [] reasonMissingAttributes [])
                    else (case getSupportGroups rd (rv_user review) (rv_groups review) (ra_namespace attrs) of
                            Inl (code, e) \<Rightarrow>
                              (ReviewReply False (error_text e),
                               recordDenied (ra_verb attrs) (ra_resource attrs) code [])
                          | Inr supportGroups \<Rightarrow>
                              (let (d, m) = authorizeAccess rd attrs supportGroups
                               in (ReviewReply (d_allowed d) (d_message d),
                                   m @ (if d_allowed d
                                        then recordAllowed (ra_verb attrs) (ra_resource attrs) (d_ownedBy d)
                                        else recordDenied (ra_verb attrs) (ra_resource attrs) (d_reasonCode d)
                                               supportGroups))))))"

section \<open>Who may access what\<close>

text \<open>
  The contract, without the order of the checks: the owner of a resource is the team its label names,
  if that is a support group of the namespace; an identity belongs to a group by the label of its
  service account, or by its claims if it is no service account of the namespace.
\<close>

definition owner_of :: "'k authz_reads \<Rightarrow> resource_attributes \<Rightarrow> string \<Rightarrow> bool" where
  "owner_of rd attrs t \<longleftrightarrow>
     (\<exists>gvk obj team.
        az_kindFor rd \<lparr>gvr_group = ra_group attrs,
          gvr_version = (if ra_version attrs = ''*'' then [] else ra_version attrs),
          gvr_resource = ra_resource attrs\<rparr> = Inr gvk \<and>
        az_get_object rd gvk \<lparr>nn_namespace = ra_namespace attrs, nn_name = ra_name attrs\<rparr> = Inr obj \<and>
        smap_get (o_labels obj) LabelKeyOwnedBy = Some t \<and>
        az_get_team rd \<lparr>nn_namespace = ra_namespace attrs, nn_name = t\<rparr> = Inr team \<and>
        smap_get (o_labels team) LabelKeySupportGroup = Some ''true'')"

definition belongs_to :: "'k authz_reads \<Rightarrow> access_review \<Rightarrow> string \<Rightarrow> string \<Rightarrow> bool" where
  "belongs_to rd review namespace t \<longleftrightarrow>
     (let sa = extractServiceAccountName (rv_user review) namespace in
      if sa \<noteq> []
      then \<exists>obj. az_get_serviceAccount rd \<lparr>nn_namespace = namespace, nn_name = sa\<rparr> = Inr obj \<and>
             smap_get (o_labels obj) LabelKeyOwnedBy = Some t
      else supportGroupClaimPrefix @ t \<in> set (rv_groups review))"

lemma CutPrefix_Some_iff: "CutPrefix s p = Some r \<longleftrightarrow> s = p @ r"
  by (auto simp: CutPrefix_def prefix_def)

lemma map_filter_Nil_iff: "List.map_filter f xs = [] \<longleftrightarrow> (\<forall>x \<in> set xs. f x = None)"
  by (induction xs) (auto simp: List.map_filter_def)

lemma CutPrefix_None_iff: "CutPrefix s p = None \<longleftrightarrow> (\<forall>r. s \<noteq> p @ r)"
  by (auto simp: CutPrefix_def prefix_def)

lemma getSupportGroups_belongs:
  "getSupportGroups rd (rv_user review) (rv_groups review) ns = Inr gs \<Longrightarrow>
     t \<in> set gs \<longleftrightarrow> belongs_to rd review ns t"
  by (auto simp: getSupportGroups_def belongs_to_def Let_def set_map_filter CutPrefix_Some_iff
      split: if_splits sum.splits option.splits)

lemma getSupportGroups_none:
  "getSupportGroups rd (rv_user review) (rv_groups review) ns = Inl e \<Longrightarrow> \<not> belongs_to rd review ns t"
  by (auto simp: getSupportGroups_def belongs_to_def Let_def map_filter_Nil_iff CutPrefix_None_iff
      split: if_splits sum.splits option.splits)

lemma authorizeAccess_allowed:
  "d_allowed (fst (authorizeAccess rd attrs gs)) \<longleftrightarrow> (\<exists>t \<in> set gs. owner_of rd attrs t)"
  by (auto simp: authorizeAccess_def fetchResourceWithOwnership_def validateTeam_def owner_of_def Let_def
      split: sum.splits option.splits prod.splits if_splits)

text \<open>
  C18. Access to a resource is granted exactly when a review was posted for a named resource whose owner
  is a support group the identity belongs to.
\<close>

theorem authorized_iff:
  "(\<exists>msg. fst (handleAuthorize rd method body) = ReviewReply True msg) \<longleftrightarrow>
     method = ''POST'' \<and>
     (\<exists>review attrs t. body = Inr review \<and> rv_attrs review = Some attrs \<and> ra_name attrs \<noteq> [] \<and>
        owner_of rd attrs t \<and> belongs_to rd review (ra_namespace attrs) t)"
proof (cases body)
  case (Inr review)
  show ?thesis
  proof (cases "rv_attrs review")
    case (Some attrs)
    show ?thesis
    proof (cases "getSupportGroups rd (rv_user review) (rv_groups review) (ra_namespace attrs)")
      case (Inl e)
      then show ?thesis using Inr Some getSupportGroups_none [OF Inl]
        by (auto simp: handleAuthorize_def split: prod.splits)
    next
      case (Inr gs)
      show ?thesis
        using \<open>body = Inr review\<close> Some Inr authorizeAccess_allowed [of rd attrs gs] getSupportGroups_belongs [OF Inr]
        by (auto simp: handleAuthorize_def split: prod.splits)
    qed
  qed (use Inr in \<open>auto simp: handleAuthorize_def\<close>)
qed (auto simp: handleAuthorize_def)

text \<open>Every review is counted once, with the result that is replied.\<close>

fun counts_request :: "counter_inc \<Rightarrow> bool" where
  "counts_request (RequestsTotal _ _) = True"
| "counts_request _ = False"

lemma authorizeAccess_counts: "filter counts_request (snd (authorizeAccess rd attrs gs)) = []"
  by (auto simp: authorizeAccess_def fetchResourceWithOwnership_def validateTeam_def Let_def
      split: sum.splits option.splits prod.splits if_splits)

lemma counted_once:
  assumes "handleAuthorize rd ''POST'' (Inr review) = (ReviewReply b msg, ms)"
  shows "\<exists>verb. filter counts_request ms = [RequestsTotal (if b then ''allowed'' else ''denied'') verb]"
proof -
  have denied: "filter counts_request (recordDenied v r c gs) = [RequestsTotal ''denied'' v]" for v r c gs
    by (simp add: recordDenied_def)
  have allowed: "filter counts_request (recordAllowed v r c) = [RequestsTotal ''allowed'' v]" for v r c
    by (simp add: recordAllowed_def)
  have acc: "authorizeAccess rd attrs gs = (d, m) \<Longrightarrow> filter counts_request m = []" for attrs gs d m
    using authorizeAccess_counts [of rd attrs gs] by simp
  show ?thesis
    using assms by (auto simp: handleAuthorize_def denied allowed acc split: option.splits if_splits sum.splits prod.splits)
qed


section \<open>Service accounts over time\<close>

lemma allowed_owner:
  assumes "fst (handleAuthorize rd method (Inr review)) = ReviewReply True msg" and "rv_attrs review = Some attrs"
  shows "\<exists>t. owner_of rd attrs t \<and> belongs_to rd review (ra_namespace attrs) t"
proof (cases "getSupportGroups rd (rv_user review) (rv_groups review) (ra_namespace attrs)")
  case (Inl e)
  with assms show ?thesis by (auto simp: handleAuthorize_def split: prod.splits if_splits)
next
  case (Inr gs)
  then have "d_allowed (fst (authorizeAccess rd attrs gs))"
    using assms by (auto simp: handleAuthorize_def split: prod.splits if_splits)
  then show ?thesis using authorizeAccess_allowed getSupportGroups_belongs [OF Inr] by blast
qed

text \<open>
  Admission and authorization together: a service account that was created with an owner can, after
  any sequence of accepted updates, only access resources of that owner in its namespace.
\<close>

theorem serviceaccount_access_fixed:
  assumes "admitted serviceaccount_webhook x y" and "smap_get (o_labels x) LabelKeyOwnedBy = Some t" and "t \<noteq> []"
    and "rv_attrs review = Some attrs"
    and "extractServiceAccountName (rv_user review) (ra_namespace attrs) = n" and "n \<noteq> []"
    and "az_get_serviceAccount rd \<lparr>nn_namespace = ra_namespace attrs, nn_name = n\<rparr> = Inr y"
    and "fst (handleAuthorize rd method (Inr review)) = ReviewReply True msg"
  shows "owner_of rd attrs t"
proof -
  from serviceaccount_wh.admitted_contract [OF assms(1)] assms(2,3)
  have "smap_get (o_labels y) LabelKeyOwnedBy = Some t" by (auto simp: keeps_owner_def)
  moreover from allowed_owner [OF assms(8,4)] obtain t' where
    t': "owner_of rd attrs t'" "belongs_to rd review (ra_namespace attrs) t'" by blast
  ultimately have "t' = t" using assms(5-7) by (auto simp: belongs_to_def Let_def)
  with t'(1) show ?thesis by simp
qed

definition owned_object :: "string \<Rightarrow> object_meta" where
  "owned_object t = \<lparr>o_name = ''x'', o_namespace = ''org'', o_labels = [(LabelKeyOwnedBy, t)], o_annotations = [],
     o_finalizers = [], o_deletionTimestamp = None, o_ownerReferences = []\<rparr>"

definition support_team :: team where
  "support_team = \<lparr>o_name = ''sre'', o_namespace = ''org'', o_labels = [(LabelKeySupportGroup, ''true'')],
     o_annotations = [], o_finalizers = [], o_deletionTimestamp = None, o_ownerReferences = [], o_conditions = [],
     team_description = [], team_mappedIDPGroup = [], team_joinURL = [], team_members = []\<rparr>"

definition sample_authz :: "unit authz_reads" where
  "sample_authz = \<lparr>az_get_serviceAccount = (\<lambda>_. Inr (owned_object ''sre'')), az_kindFor = (\<lambda>_. Inr ()),
     az_get_object = (\<lambda>_ _. Inr (owned_object ''sre'')), az_get_team = (\<lambda>_. Inr support_team)\<rparr>"

definition sample_attrs :: resource_attributes where
  "sample_attrs = \<lparr>ra_namespace = ''org'', ra_verb = ''get'', ra_group = ''greenhouse.sap'', ra_version = ''*'',
     ra_resource = ''plugins'', ra_name = ''p''\<rparr>"

definition sample_review :: access_review where
  "sample_review = \<lparr>rv_user = ''system:serviceaccount:org:bot'', rv_groups = [], rv_attrs = Some sample_attrs\<rparr>"

theorem serviceaccount_access_fixed_witness: "owner_of sample_authz sample_attrs ''sre''"
proof -
  have a: "admitted serviceaccount_webhook (owned_object ''sre'') (owned_object ''sre'')"
    by (rule admitted.create [where req = "owned_object ''sre''" and ws = "[]"])
      (simp_all add: webhook_dispatch serviceaccount_webhook_def)
  have b: "fst (handleAuthorize sample_authz ''POST'' (Inr sample_review))
      = ReviewReply True ''authorized to access resource owned by sre''" by code_simp
  have n: "extractServiceAccountName (rv_user sample_review) (ra_namespace sample_attrs) = ''bot''" by code_simp
  show ?thesis
    by (rule serviceaccount_access_fixed [OF a _ _ _ n _ _ b])
      (simp_all add: owned_object_def smap_get_def sample_review_def sample_authz_def)
qed

end
