(* ===== verification/TeamRoleBinding.thy ===== *)
theory TeamRoleBinding
  imports Webhook_Core "HOL-Library.List_Lexorder" "HOL-Library.Char_ord"
begin

text \<open>
  TeamRoleBindings (\<open>api/v1alpha2/teamrolebinding_types.go\<close>, \<open>types.go\<close>) and their admission webhook
  (\<open>internal/webhook/v1alpha2/teamrolebinding_webhook.go\<close>).
\<close>

section \<open>The resource\<close>

record cluster_selector =
  cs_name :: string
  cs_labelSelector :: label_selector

record propagation_status =
  prs_clusterName :: string
  prs_condition :: condition

record team_role_binding = runtime_object +
  trb_teamRoleRef :: string
  trb_teamRef :: string
  trb_teamRefs :: "string list"
  trb_usernames :: "string list"
  trb_clusterSelector :: cluster_selector
  trb_namespaces :: "string list"
  trb_createNamespaces :: bool
  trb_propagationStatus :: "propagation_status list"

definition RBACReady :: condition_type where "RBACReady = ''RBACReady''"
definition RBACReconciled :: condition_reason where "RBACReconciled = ''RBACReconciled''"
definition RBACReconcileFailed :: condition_reason where "RBACReconcileFailed = ''RBACReconcileFailed''"
definition EmptyClusterList :: condition_reason where "EmptyClusterList = ''EmptyClusterList''"
definition TeamNotFound :: condition_reason where "TeamNotFound = ''TeamNotFound''"
definition TeamRoleNotFound :: condition_reason where "TeamRoleNotFound = ''TeamRoleNotFound''"
definition ClusterConnectionFailed :: condition_reason where "ClusterConnectionFailed = ''ClusterConnectionFailed''"
definition ClusterRoleFailed :: condition_reason where "ClusterRoleFailed = ''ClusterRoleFailed''"
definition RoleBindingFailed :: condition_reason where "RoleBindingFailed = ''RoleBindingFailed''"

text \<open>
  \<open>SetPropagationStatus\<close>: the first entry of the cluster gets the new condition, which keeps its
  transition time if the status stays the same; a new entry is appended.
\<close>

fun set_propagation :: "time \<Rightarrow> string \<Rightarrow> condition \<Rightarrow> propagation_status list \<Rightarrow> propagation_status list" where
  "set_propagation now cluster c [] =
     [\<lparr>prs_clusterName = cluster, prs_condition = c\<lparr>c_lastTransitionTime := now\<rparr>\<rparr>]"
| "set_propagation now cluster c (ps # rest) =
     (if prs_clusterName ps \<noteq> cluster then ps # set_propagation now cluster c rest
      else ps\<lparr>prs_condition :=
                (if c_status (prs_condition ps) = c_status c
                 then c\<lparr>c_lastTransitionTime := c_lastTransitionTime (prs_condition ps)\<rparr> else c)\<rparr> # rest)"

definition SetPropagationStatus ::
  "time \<Rightarrow> string \<Rightarrow> condition_status \<Rightarrow> condition_reason \<Rightarrow> string \<Rightarrow> team_role_binding \<Rightarrow> team_role_binding" where
  "SetPropagationStatus now cluster rbacReady reason message trb =
     trb\<lparr>trb_propagationStatus :=
       set_propagation now cluster (NewCondition now RBACReady rbacReady reason message) (trb_propagationStatus trb)\<rparr>"

definition RemovePropagationStatus :: "string \<Rightarrow> team_role_binding \<Rightarrow> team_role_binding" where
  "RemovePropagationStatus cluster trb =
     trb\<lparr>trb_propagationStatus := DeleteFunc (trb_propagationStatus trb) (\<lambda>ps. prs_clusterName ps = cluster)\<rparr>"

definition TeamRoleBinding_GetRBACName :: "team_role_binding \<Rightarrow> string" where
  "TeamRoleBinding_GetRBACName trb = RBACPrefix @ o_name trb"

definition isClusterScoped :: "team_role_binding \<Rightarrow> bool" where
  "isClusterScoped trb \<longleftrightarrow> length (trb_namespaces trb) = 0"

section \<open>Admission\<close>

definition DefaultRoleBinding :: "admission_reads \<Rightarrow> team_role_binding \<Rightarrow> go_error option \<times> team_role_binding" where
  "DefaultRoleBinding rd trb =
     (let refs1 = (if trb_teamRef trb \<noteq> [] \<and> trb_teamRef trb \<notin> set (trb_teamRefs trb)
                   then trb_teamRefs trb @ [trb_teamRef trb] else trb_teamRefs trb);
          refs2 = DeleteFunc refs1 (\<lambda>s. TrimSpace s = [])
      in (None, trb\<lparr>trb_teamRefs := Compact (sort refs2)\<rparr>))"

definition deprecationWarnings :: "team_role_binding \<Rightarrow> warnings" where
  "deprecationWarnings trb =
     (if trb_teamRef trb \<noteq> [] then [''spec.teamRef is deprecated, use spec.teamRefs instead''] else [])"

definition validateClusterSelector :: "team_role_binding \<Rightarrow> go_error option" where
  "validateClusterSelector rb =
     (let name = cs_name (trb_clusterSelector rb);
          empty = selector_empty (cs_labelSelector (trb_clusterSelector rb));
          invalid = (\<lambda>msg. Some (NewInvalid ''TeamRoleBinding.greenhouse.sap'' (o_name rb)
             [field_err FieldInvalid [PChild ''spec'', PChild ''clusterSelector'', PChild ''name''] name msg]))
      in if name \<noteq> [] \<and> \<not> empty
         then invalid ''cannot specify both spec.clusterSelector.Name and spec.clusterSelector.labelSelector''
         else if name = [] \<and> empty
         then invalid ''must specify either spec.clusterSelector.name or spec.clusterSelector.labelSelector''
         else None)"

definition ValidateCreateRoleBinding :: "admission_reads \<Rightarrow> team_role_binding \<Rightarrow> warnings \<times> go_error option" where
  "ValidateCreateRoleBinding rd rb =
     (case validateClusterSelector rb of
        Some e \<Rightarrow> ([], Some e)
      | None \<Rightarrow> (deprecationWarnings rb @ owner_warnings ''TeamRoleBinding'' (ar_get_team rd) rb, None))"

definition forbid :: "team_role_binding \<Rightarrow> string list \<Rightarrow> string \<Rightarrow> warnings \<times> go_error option" where
  "forbid rb path msg =
     ([], Some (NewForbidden ''TeamRoleBinding'' (o_name rb)
            (field_error_string (field_err FieldForbidden (map PChild path) [] msg))))"

definition ValidateUpdateRoleBinding ::
  "admission_reads \<Rightarrow> team_role_binding \<Rightarrow> team_role_binding \<Rightarrow> warnings \<times> go_error option" where
  "ValidateUpdateRoleBinding rd oldRB curRB =
     (if validateClusterSelector curRB \<noteq> None
      then forbid oldRB [''spec''] ''must contain either spec.clusterSelector.name or spec.clusterSelector.labelSelector''
      else if trb_teamRoleRef oldRB \<noteq> trb_teamRoleRef curRB
      then forbid oldRB [''spec'', ''teamRoleRef''] ''cannot change TeamRoleRef of an existing TeamRoleBinding''
      else if isClusterScoped oldRB \<and> \<not> isClusterScoped curRB
      then forbid oldRB [''spec'', ''namespaces'']
             ''cannot change existing TeamRoleBinding from cluster-scoped to namespace-scoped by adding namespaces''
      else if \<not> isClusterScoped oldRB \<and> isClusterScoped curRB
      then forbid oldRB [''spec'', ''namespaces''] ''cannot remove all namespaces in existing TeamRoleBinding''
      else (owner_warnings ''TeamRoleBinding'' (ar_get_team rd) curRB, None))"

definition ValidateDeleteRoleBinding :: "admission_reads \<Rightarrow> team_role_binding \<Rightarrow> warnings \<times> go_error option" where
  "ValidateDeleteRoleBinding rd rb = ([], None)"

definition teamrolebinding_webhook :: "(team_role_binding, admission_reads) webhook_funcs" where
  "teamrolebinding_webhook =
     \<lparr>DefaultFunc = Some DefaultRoleBinding, ValidateCreateFunc = Some ValidateCreateRoleBinding,
      ValidateUpdateFunc = Some ValidateUpdateRoleBinding, ValidateDeleteFunc = Some ValidateDeleteRoleBinding\<rparr>"

section \<open>What is stored\<close>

text \<open>Exactly one of the two selectors is set, and the team references are a sorted set of names.\<close>

definition trb_valid :: "team_role_binding \<Rightarrow> bool" where
  "trb_valid trb \<longleftrightarrow>
     (cs_name (trb_clusterSelector trb) = [] \<longleftrightarrow> \<not> selector_empty (cs_labelSelector (trb_clusterSelector trb))) \<and>
     sorted (trb_teamRefs trb) \<and> distinct (trb_teamRefs trb) \<and> (\<forall>t \<in> set (trb_teamRefs trb). TrimSpace t \<noteq> []) \<and>
     (TrimSpace (trb_teamRef trb) \<noteq> [] \<longrightarrow> trb_teamRef trb \<in> set (trb_teamRefs trb))"

text \<open>What no update changes: the role, and whether the binding is for the whole cluster.\<close>

definition trb_keeps :: "team_role_binding \<Rightarrow> team_role_binding \<Rightarrow> bool" where
  "trb_keeps x y \<longleftrightarrow> trb_teamRoleRef x = trb_teamRoleRef y \<and> isClusterScoped x = isClusterScoped y"

lemma validateClusterSelector_None:
  "validateClusterSelector rb = None \<longleftrightarrow>
     (cs_name (trb_clusterSelector rb) = [] \<longleftrightarrow> \<not> selector_empty (cs_labelSelector (trb_clusterSelector rb)))"
  by (auto simp: validateClusterSelector_def Let_def)

lemma DefaultRoleBinding_refs:
  assumes "DefaultRoleBinding rd req = (None, trb)"
  shows "sorted (trb_teamRefs trb)" "distinct (trb_teamRefs trb)"
    "t \<in> set (trb_teamRefs trb) \<Longrightarrow> TrimSpace t \<noteq> []"
    "TrimSpace (trb_teamRef trb) \<noteq> [] \<Longrightarrow> trb_teamRef trb \<in> set (trb_teamRefs trb)"
  using assms by (auto simp: DefaultRoleBinding_def Let_def sorted_Compact distinct_Compact)

interpretation trb_wh: webhook_contract teamrolebinding_webhook trb_valid trb_keeps
proof unfold_locales
  fix s req x ws
  assume "webhook_Default teamrolebinding_webhook s req = (None, x)"
    and "webhook_ValidateCreate teamrolebinding_webhook s x = (ws, None)"
  then show "trb_valid x"
    using DefaultRoleBinding_refs [of s req x]
    by (auto simp: webhook_dispatch teamrolebinding_webhook_def trb_valid_def ValidateCreateRoleBinding_def
        validateClusterSelector_None [symmetric] split: option.splits)
next
  fix y s req z ws
  assume "webhook_Default teamrolebinding_webhook s req = (None, z)"
    and "webhook_ValidateUpdate teamrolebinding_webhook s y z = (ws, None)"
  then show "trb_valid z \<and> trb_keeps y z"
    using DefaultRoleBinding_refs [of s req z]
    by (auto simp: webhook_dispatch teamrolebinding_webhook_def trb_valid_def trb_keeps_def forbid_def
        ValidateUpdateRoleBinding_def validateClusterSelector_None [symmetric] split: if_splits)
qed (auto simp: trb_keeps_def)

text \<open>
  C39. Every stored TeamRoleBinding selects clusters either by name or by labels, and its team references
  are sorted, distinct and not blank and include the deprecated single reference; over any sequence of
  accepted updates it keeps its role and its scope, so that the kind of remote binding it owns never
  changes.
\<close>

theorem trb_admitted_valid:
  assumes "admitted teamrolebinding_webhook x y"
  shows "trb_valid y \<and> trb_keeps x y"
  using trb_wh.admitted_contract [OF assms] by blast

definition sample_trb :: team_role_binding where
  "sample_trb =
     \<lparr>o_name = ''rb'', o_namespace = ''org'', o_labels = [], o_annotations = [], o_finalizers = [],
      o_deletionTimestamp = None, o_ownerReferences = [], o_conditions = [],
      trb_teamRoleRef = ''viewer'', trb_teamRef = ''sre'', trb_teamRefs = [''dev'', ''sre''], trb_usernames = [],
      trb_clusterSelector = \<lparr>cs_name = ''eu-1'', cs_labelSelector = \<lparr>ls_matchLabels = [], ls_matchExpressions = []\<rparr>\<rparr>,
      trb_namespaces = [], trb_createNamespaces = False, trb_propagationStatus = []\<rparr>"

theorem trb_admitted_valid_witness: "trb_valid sample_trb \<and> trb_keeps sample_trb sample_trb"
proof (rule trb_admitted_valid)
  have "DefaultRoleBinding sample_reads sample_trb = (None, sample_trb)" by code_simp
  then show "admitted teamrolebinding_webhook sample_trb sample_trb"
    by (intro admitted.create [where s = sample_reads and req = sample_trb
          and ws = "deprecationWarnings sample_trb @ owner_warnings ''TeamRoleBinding'' (ar_get_team sample_reads) sample_trb"])
      (simp_all add: webhook_dispatch teamrolebinding_webhook_def ValidateCreateRoleBinding_def
        validateClusterSelector_def sample_trb_def selector_empty_def Let_def)
qed

section \<open>Lemmas on the propagation status\<close>

lemma set_propagation_names:
  "map prs_clusterName (set_propagation now c cond ps) =
     (if c \<in> prs_clusterName ` set ps then map prs_clusterName ps else map prs_clusterName ps @ [c])"
  by (induction ps) auto

lemma RemovePropagationStatus_names:
  "prs_clusterName ` set (trb_propagationStatus (RemovePropagationStatus c trb)) =
     prs_clusterName ` set (trb_propagationStatus trb) - {c}"
  by (auto simp: RemovePropagationStatus_def)

definition propagation_of :: "string \<Rightarrow> propagation_status list \<Rightarrow> condition option" where
  "propagation_of c ps = map_option prs_condition (find (\<lambda>p. prs_clusterName p = c) ps)"

lemma propagation_of_set:
  "propagation_of c (set_propagation now d cond ps) =
     (if c = d then map_option (\<lambda>x. cond\<lparr>c_lastTransitionTime := x\<rparr>)
        (Some (case propagation_of d ps of None \<Rightarrow> now
               | Some old \<Rightarrow> if c_status old = c_status cond then c_lastTransitionTime old
                             else c_lastTransitionTime cond))
      else propagation_of c ps)"
  by (induction ps) (auto simp: propagation_of_def split: option.splits)

end
