(* ===== verification/Rbac_Types.thy ===== *)
theory Rbac_Types
  imports Core_Types
begin

text \<open>
  The roles and bindings of Kubernetes that several controllers write (\<open>rbac/v1\<close>). RoleBindings and
  ClusterRoleBindings share a record, as Roles and ClusterRoles do not: only the latter can aggregate. The
  cluster-wide kinds have no namespace.
\<close>

record role_ref =
  rr_apiGroup :: string
  rr_kind :: string
  rr_name :: string

record subject =
  sub_kind :: string
  sub_apiGroup :: string
  sub_name :: string
  sub_namespace :: string

record cluster_role = object_meta +
  cr_rules :: "policy_rule list"
  cr_aggregationRule :: "aggregation_rule option"

record namespace_role = object_meta +
  ro_rules :: "policy_rule list"

record role_binding = object_meta +
  rb_roleRef :: role_ref
  rb_subjects :: "subject list"

definition rbac_GroupName :: string where "rbac_GroupName = ''rbac.authorization.k8s.io''"
definition rbac_GroupKind :: string where "rbac_GroupKind = ''Group''"
definition rbac_ServiceAccountKind :: string where "rbac_ServiceAccountKind = ''ServiceAccount''"

text \<open>New objects, of which only name and namespace are set.\<close>

definition new_meta :: "string \<Rightarrow> string \<Rightarrow> object_meta" where
  "new_meta ns n = \<lparr>o_name = n, o_namespace = ns, o_labels = [], o_annotations = [], o_finalizers = [],
     o_deletionTimestamp = None, o_ownerReferences = []\<rparr>"

definition new_role :: "string \<Rightarrow> string \<Rightarrow> namespace_role" where
  "new_role ns n = \<lparr>o_name = n, o_namespace = ns, o_labels = [], o_annotations = [], o_finalizers = [],
     o_deletionTimestamp = None, o_ownerReferences = [], ro_rules = []\<rparr>"

definition new_clusterRole :: "string \<Rightarrow> cluster_role" where
  "new_clusterRole n = \<lparr>o_name = n, o_namespace = [], o_labels = [], o_annotations = [], o_finalizers = [],
     o_deletionTimestamp = None, o_ownerReferences = [], cr_rules = [], cr_aggregationRule = None\<rparr>"

definition new_binding :: "string \<Rightarrow> string \<Rightarrow> role_binding" where
  "new_binding ns n = \<lparr>o_name = n, o_namespace = ns, o_labels = [], o_annotations = [], o_finalizers = [],
     o_deletionTimestamp = None, o_ownerReferences = [],
     rb_roleRef = \<lparr>rr_apiGroup = [], rr_kind = [], rr_name = []\<rparr>, rb_subjects = []\<rparr>"

text \<open>\<open>OrgCatalogServiceAccountName\<close> of \<open>internal/rbac/util.go\<close>, used by catalogs and organizations.\<close>

definition OrgCatalogServiceAccountName :: "string \<Rightarrow> string" where
  "OrgCatalogServiceAccountName orgName = orgName @ ''-catalog-sa''"

end
