(* ===== verification/TeamRBAC.thy ===== *)
theory TeamRBAC
  imports TeamRoleBinding Lifecycle_System Rbac_Types
begin

text \<open>
  The controller of TeamRoleBindings (\<open>internal/controller/teamrbac/teamrolebinding_controller.go\<close>): it
  replicates a TeamRole as a ClusterRole and its bindings to the selected clusters.

  The state \<open>'s\<close> holds the API servers of the central and of all remote clusters. Reads of the central
  cluster, connecting to a remote cluster and the clients of a remote cluster are parameters. Events,
  logging and metrics are left out.
\<close>

section \<open>Remote resources and the environment\<close>

record 's remote =
  rm_clusterRoles :: "(cluster_role, 's) client"
  rm_clusterRoleBindings :: "(role_binding, 's) client"
  rm_roleBindings :: "(role_binding, 's) client"
  rm_list_roleBindings :: "string \<Rightarrow> 's \<Rightarrow> go_error + role_binding list"
  rm_list_roles :: "string \<Rightarrow> string \<Rightarrow> 's \<Rightarrow> go_error + object_meta list"
  rm_list_clusterRoleBindings :: "string \<Rightarrow> string \<Rightarrow> 's \<Rightarrow> go_error + role_binding list"
  rm_create_namespace :: "string \<Rightarrow> 's \<Rightarrow> go_error option \<times> 's"

record 's trb_env =
  te_get_cluster :: "namespaced_name \<Rightarrow> 's \<Rightarrow> go_error + cluster"
  te_selector_error :: "label_selector \<Rightarrow> go_error option"
  te_list_clusters :: "string \<Rightarrow> label_selector \<Rightarrow> 's \<Rightarrow> go_error + cluster list"
  te_get_teamRole :: "namespaced_name \<Rightarrow> 's \<Rightarrow> go_error + team_role"
  te_get_team :: "namespaced_name \<Rightarrow> 's \<Rightarrow> go_error + team"
  te_connect :: "cluster \<Rightarrow> 's \<Rightarrow> go_error + 's remote"

definition bare_meta :: "string \<Rightarrow> string \<Rightarrow> string smap \<Rightarrow> object_meta" where
  "bare_meta ns n ls = \<lparr>o_name = n, o_namespace = ns, o_labels = ls, o_annotations = [], o_finalizers = [],
     o_deletionTimestamp = None, o_ownerReferences = []\<rparr>"

definition bare_binding :: "string \<Rightarrow> string \<Rightarrow> string smap \<Rightarrow> role_ref \<Rightarrow> subject list \<Rightarrow> role_binding" where
  "bare_binding ns n ls ref subs =
     \<lparr>o_name = n, o_namespace = ns, o_labels = ls, o_annotations = [], o_finalizers = [],
      o_deletionTimestamp = None, o_ownerReferences = [], rb_roleRef = ref, rb_subjects = subs\<rparr>"

definition zero_role_ref :: role_ref where "zero_role_ref = \<lparr>rr_apiGroup = [], rr_kind = [], rr_name = []\<rparr>"

definition bare_clusterRole :: "string \<Rightarrow> string smap \<Rightarrow> policy_rule list \<Rightarrow> aggregation_rule option \<Rightarrow> cluster_role" where
  "bare_clusterRole n ls rules agg =
     \<lparr>o_name = n, o_namespace = [], o_labels = ls, o_annotations = [], o_finalizers = [],
      o_deletionTimestamp = None, o_ownerReferences = [], cr_rules = rules, cr_aggregationRule = agg\<rparr>"

section \<open>Desired remote resources\<close>

definition initRBACClusterRole :: "team_role \<Rightarrow> cluster_role" where
  "initRBACClusterRole teamRole =
     bare_clusterRole (TeamRole_GetRBACName teamRole) (smap_set LabelKeyRole (o_name teamRole) (tr_labels teamRole))
       (tr_rules teamRole) (tr_aggregationRule teamRole)"

definition clusterRole_ref :: "cluster_role \<Rightarrow> role_ref" where
  "clusterRole_ref cr = \<lparr>rr_apiGroup = ''rbac.authorization.k8s.io'', rr_kind = ''ClusterRole'', rr_name = o_name cr\<rparr>"

definition rbacRoleBinding :: "team_role_binding \<Rightarrow> cluster_role \<Rightarrow> subject list \<Rightarrow> string \<Rightarrow> role_binding" where
  "rbacRoleBinding trb cr subjects namespace =
     bare_binding namespace (TeamRoleBinding_GetRBACName trb) [(LabelKeyRoleBinding, o_name trb)]
       (clusterRole_ref cr) subjects"

definition rbacClusterRoleBinding :: "team_role_binding \<Rightarrow> cluster_role \<Rightarrow> subject list \<Rightarrow> role_binding" where
  "rbacClusterRoleBinding trb cr subjects =
     bare_binding [] (TeamRoleBinding_GetRBACName trb)
       [(LabelKeyRoleBinding, o_name trb), (LabelKeyRole, trb_teamRoleRef trb)] (clusterRole_ref cr) subjects"

definition generateSubjects :: "string list \<Rightarrow> string list \<Rightarrow> subject list" where
  "generateSubjects usernames mappedIDPGroups =
     map (\<lambda>u. \<lparr>sub_kind = ''User'', sub_apiGroup = ''rbac.authorization.k8s.io'', sub_name = u, sub_namespace = []\<rparr>) usernames
     @ map (\<lambda>g. \<lparr>sub_kind = ''Group'', sub_apiGroup = ''rbac.authorization.k8s.io'', sub_name = g, sub_namespace = []\<rparr>)
         (filter (\<lambda>g. g \<noteq> []) mappedIDPGroups)"

section \<open>Reading the central cluster\<close>

definition getTeamRole :: "'s trb_env \<Rightarrow> team_role_binding \<Rightarrow> 's \<Rightarrow> go_error + team_role" where
  "getTeamRole env trb s =
     (if trb_teamRoleRef trb = []
      then Inl (PlainError (''error missing teamrole reference for teamrole '' @ o_name trb))
      else case te_get_teamRole env \<lparr>nn_namespace = o_namespace trb, nn_name = trb_teamRoleRef trb\<rparr> s of
             Inl e \<Rightarrow> Inl (WrapError ''error getting teamrole'' e)
           | Inr r \<Rightarrow> Inr r)"

definition resolveTeamRefs :: "team_role_binding \<Rightarrow> string list" where
  "resolveTeamRefs trb =
     (if length (trb_teamRefs trb) > 0 then trb_teamRefs trb
      else if trb_teamRef trb \<noteq> [] then [trb_teamRef trb] else [])"

fun get_team_list ::
  "'s trb_env \<Rightarrow> string \<Rightarrow> 's \<Rightarrow> string list \<Rightarrow> go_error + (team list \<times> string list)" where
  "get_team_list env ns s [] = Inr ([], [])"
| "get_team_list env ns s (ref # refs) =
     (case te_get_team env \<lparr>nn_namespace = ns, nn_name = ref\<rparr> s of
        Inl e \<Rightarrow>
          if IsNotFound e then map_sum id (\<lambda>(ts, ms). (ts, ref # ms)) (get_team_list env ns s refs)
          else Inl (WrapError (''error getting team '' @ ref) e)
      | Inr t \<Rightarrow> map_sum id (\<lambda>(ts, ms). (t # ts, ms)) (get_team_list env ns s refs))"

definition getTeams :: "'s trb_env \<Rightarrow> team_role_binding \<Rightarrow> 's \<Rightarrow> go_error + (team list \<times> string list)" where
  "getTeams env trb s = get_team_list env (o_namespace trb) s (resolveTeamRefs trb)"

text \<open>
  \<open>listClusters\<close>: a cluster selected by name is returned ready or not; of the clusters selected by
  labels, those that are not ready are dropped and recorded in the status.
\<close>

definition listClusters ::
  "time \<Rightarrow> 's trb_env \<Rightarrow> team_role_binding \<Rightarrow> 's \<Rightarrow> (go_error + cluster list) \<times> team_role_binding" where
  "listClusters now env trb s =
     (let sel = trb_clusterSelector trb in
      if cs_name sel \<noteq> []
      then (case te_get_cluster env \<lparr>nn_namespace = o_namespace trb, nn_name = cs_name sel\<rparr> s of
              Inl e \<Rightarrow> (if IsNotFound e then Inr [] else Inl e, trb)
            | Inr c \<Rightarrow> (Inr [c], trb))
      else case te_selector_error env (cs_labelSelector sel) of
             Some e \<Rightarrow> (Inl e, trb)
           | None \<Rightarrow>
               (case te_list_clusters env (o_namespace trb) (cs_labelSelector sel) s of
                  Inl e \<Rightarrow> (Inl e, trb)
                | Inr items \<Rightarrow>
                    (Inr (DeleteFunc items (\<lambda>c. \<not> IsReadyTrue (o_conditions c))),
                     fold (\<lambda>c. SetPropagationStatus now (o_name c) ConditionFalse ClusterConnectionFailed
                                 ''Cluster is not ready'')
                       (filter (\<lambda>c. \<not> IsReadyTrue (o_conditions c)) items) trb)))"

section \<open>Writing to a remote cluster\<close>

definition err_part :: "('r \<times> go_error option) \<times> 's \<Rightarrow> go_error option \<times> 's" where
  "err_part out = (snd (fst out), snd out)"

definition reconcileClusterRole ::
  "'s remote \<Rightarrow> cluster_role \<Rightarrow> 's \<Rightarrow> go_error option \<times> 's" where
  "reconcileClusterRole cl cr s =
     err_part (CreateOrPatch (rm_clusterRoles cl) (bare_clusterRole (o_name cr) [] [] None)
       (\<lambda>x. Inr (x\<lparr>o_labels := o_labels cr, cr_rules := cr_rules cr, cr_aggregationRule := cr_aggregationRule cr\<rparr>)) s)"

definition set_binding :: "role_binding \<Rightarrow> role_binding \<Rightarrow> go_error + role_binding" where
  "set_binding want x =
     Inr (x\<lparr>o_labels := o_labels want, rb_roleRef := rb_roleRef want, rb_subjects := rb_subjects want\<rparr>)"

definition reconcileClusterRoleBinding ::
  "'s remote \<Rightarrow> role_binding \<Rightarrow> 's \<Rightarrow> go_error option \<times> 's" where
  "reconcileClusterRoleBinding cl crb s =
     err_part (CreateOrPatch (rm_clusterRoleBindings cl) (bare_binding [] (o_name crb) [] zero_role_ref []) (set_binding crb) s)"

definition reconcileRoleBinding ::
  "'s remote \<Rightarrow> role_binding \<Rightarrow> bool \<Rightarrow> 's \<Rightarrow> go_error option \<times> 's" where
  "reconcileRoleBinding cl rb createNamespaces s =
     (case CreateOrPatch (rm_roleBindings cl) (bare_binding (o_namespace rb) (o_name rb) [] zero_role_ref []) (set_binding rb) s of
        ((_, None), s1) \<Rightarrow> (None, s1)
      | ((_, Some e), s1) \<Rightarrow>
          if createNamespaces \<and> IsNotFound e
          then (case rm_create_namespace cl (o_namespace rb) s1 of
                  (Some e', s2) \<Rightarrow> (Some e', s2)
                | (None, s2) \<Rightarrow>
                    (Some (PlainError ''failed to create RoleBinding, created missing namespace''), s2))
          else (Some e, s1))"

fun delete_bindings ::
  "'s remote \<Rightarrow> role_binding list \<Rightarrow> 's \<Rightarrow> go_error option \<times> 's" where
  "delete_bindings cl [] s = (None, s)"
| "delete_bindings cl (rb # rbs) s =
     (case DeleteObject (rm_roleBindings cl) rb s of
        ((_, Some e), s1) \<Rightarrow> (Some e, s1)
      | ((_, None), s1) \<Rightarrow> delete_bindings cl rbs s1)"

definition deleteAllDeployedRoleBindings ::
  "'s remote \<Rightarrow> team_role_binding \<Rightarrow> 's \<Rightarrow> go_error option \<times> 's" where
  "deleteAllDeployedRoleBindings cl trb s =
     (case rm_list_roleBindings cl (TeamRoleBinding_GetRBACName trb) s of
        Inl e \<Rightarrow> (if IsNotFound e then None else Some e, s)
      | Inr items \<Rightarrow> delete_bindings cl items s)"

definition deleteClusterRoleBinding ::
  "'s remote \<Rightarrow> team_role_binding \<Rightarrow> 's \<Rightarrow> go_error option \<times> 's" where
  "deleteClusterRoleBinding cl trb s =
     err_part (DeleteObject (rm_clusterRoleBindings cl)
       (bare_binding [] (TeamRoleBinding_GetRBACName trb) [] zero_role_ref []) s)"

definition deleteClusterRole ::
  "'s remote \<Rightarrow> team_role_binding \<Rightarrow> 's \<Rightarrow> go_error option \<times> 's" where
  "deleteClusterRole cl trb s =
     err_part (DeleteObject (rm_clusterRoles cl) (bare_clusterRole (RBACPrefix @ trb_teamRoleRef trb) [] [] None) s)"

definition isRoleReferenced :: "'s remote \<Rightarrow> team_role_binding \<Rightarrow> 's \<Rightarrow> go_error + bool" where
  "isRoleReferenced cl trb s =
     (case rm_list_roles cl LabelKeyRole (trb_teamRoleRef trb) s of
        Inl e \<Rightarrow> Inl e
      | Inr roles \<Rightarrow>
          if length roles > 0 then Inr True
          else (case rm_list_clusterRoleBindings cl LabelKeyRole (trb_teamRoleRef trb) s of
                  Inl e \<Rightarrow> Inl e
                | Inr crbs \<Rightarrow> Inr (length crbs > 0)))"

definition cleanupCluster ::
  "'s trb_env \<Rightarrow> team_role_binding \<Rightarrow> cluster \<Rightarrow> 's \<Rightarrow> go_error option \<times> 's" where
  "cleanupCluster env trb cluster s =
     (case te_connect env cluster s of
        Inl e \<Rightarrow> (Some e, s)
      | Inr cl \<Rightarrow>
          (case (if isClusterScoped trb then deleteClusterRoleBinding cl trb s
                 else deleteAllDeployedRoleBindings cl trb s) of
             (Some e, s1) \<Rightarrow> (Some e, s1)
           | (None, s1) \<Rightarrow>
               (case isRoleReferenced cl trb s1 of
                  Inl e \<Rightarrow> (Some e, s1)
                | Inr True \<Rightarrow> (None, s1)
                | Inr False \<Rightarrow> deleteClusterRole cl trb s1)))"

definition cleanupClusterNamespaces ::
  "'s trb_env \<Rightarrow> team_role_binding \<Rightarrow> cluster \<Rightarrow> 's \<Rightarrow> go_error option \<times> 's" where
  "cleanupClusterNamespaces env trb cluster s =
     (if isClusterScoped trb then (None, s)
      else case te_connect env cluster s of
             Inl e \<Rightarrow> (Some e, s)
           | Inr cl \<Rightarrow>
               (case rm_list_roleBindings cl (TeamRoleBinding_GetRBACName trb) s of
                  Inl e \<Rightarrow> (if IsNotFound e then None else Some e, s)
                | Inr items \<Rightarrow>
                    delete_bindings cl (DeleteFunc items (\<lambda>rb. o_namespace rb \<in> set (trb_namespaces trb))) s))"


section \<open>Reconciliation\<close>

text \<open>The bindings of one cluster in all namespaces; the messages of the ones that failed.\<close>

fun reconcile_namespaces ::
  "'s remote \<Rightarrow> team_role_binding \<Rightarrow> cluster_role \<Rightarrow> subject list \<Rightarrow> string list \<Rightarrow> 's \<Rightarrow> string list \<times> 's" where
  "reconcile_namespaces cl trb cr subjects [] s = ([], s)"
| "reconcile_namespaces cl trb cr subjects (ns # nss) s =
     (case reconcileRoleBinding cl (rbacRoleBinding trb cr subjects ns) (trb_createNamespaces trb) s of
        (err, s1) \<Rightarrow>
          (case reconcile_namespaces cl trb cr subjects nss s1 of
             (msgs, s2) \<Rightarrow> ((case err of None \<Rightarrow> msgs | Some e \<Rightarrow> error_text e # msgs), s2)))"

text \<open>One iteration of \<open>doReconcile\<close>: reason and message if the cluster failed.\<close>

definition reconcile_cluster ::
  "'s trb_env \<Rightarrow> team_role_binding \<Rightarrow> cluster_role \<Rightarrow> subject list \<Rightarrow> cluster \<Rightarrow> 's
     \<Rightarrow> (condition_reason \<times> string) option \<times> 's" where
  "reconcile_cluster env trb cr subjects cluster s =
     (case te_connect env cluster s of
        Inl e \<Rightarrow> (Some (ClusterConnectionFailed, error_text e), s)
      | Inr cl \<Rightarrow>
          (case reconcileClusterRole cl cr s of
             (Some e, s1) \<Rightarrow> (Some (ClusterRoleFailed, error_text e), s1)
           | (None, s1) \<Rightarrow>
               if isClusterScoped trb
               then (case reconcileClusterRoleBinding cl (rbacClusterRoleBinding trb cr subjects) s1 of
                       (Some e, s2) \<Rightarrow> (Some (RoleBindingFailed, error_text e), s2)
                     | (None, s2) \<Rightarrow> (None, s2))
               else (case reconcile_namespaces cl trb cr subjects (trb_namespaces trb) s1 of
                       (msgs, s2) \<Rightarrow>
                         (if length msgs > 0
                          then Some (RoleBindingFailed, ''Failed to reconcile RoleBindings: '' @ Join msgs '', '')
                          else None, s2))))"

text \<open>The status of a reconciled cluster; the cluster-scoped branch writes it twice.\<close>

definition mark_reconciled :: "time \<Rightarrow> string \<Rightarrow> team_role_binding \<Rightarrow> team_role_binding" where
  "mark_reconciled now cluster trb =
     (let set_true = SetPropagationStatus now cluster ConditionTrue RBACReconciled []
      in if isClusterScoped trb then set_true (set_true trb) else set_true trb)"

fun reconcile_clusters ::
  "time \<Rightarrow> 's trb_env \<Rightarrow> cluster_role \<Rightarrow> subject list \<Rightarrow> cluster list
     \<Rightarrow> string list \<times> team_role_binding \<times> 's \<Rightarrow> string list \<times> team_role_binding \<times> 's" where
  "reconcile_clusters now env cr subjects [] st = st"
| "reconcile_clusters now env cr subjects (c # cs) (failed, trb, s) =
     (case reconcile_cluster env trb cr subjects c s of
        (Some (reason, msg), s1) \<Rightarrow>
          reconcile_clusters now env cr subjects cs
            (if o_name c \<in> set failed then failed else failed @ [o_name c],
             SetPropagationStatus now (o_name c) ConditionFalse reason msg trb, s1)
      | (None, s1) \<Rightarrow>
          reconcile_clusters now env cr subjects cs (failed, mark_reconciled now (o_name c) trb, s1))"

definition doReconcile ::
  "time \<Rightarrow> 's trb_env \<Rightarrow> team_role \<Rightarrow> cluster list \<Rightarrow> team_role_binding \<Rightarrow> subject list \<Rightarrow> 's
     \<Rightarrow> go_error option \<times> team_role_binding \<times> 's" where
  "doReconcile now env teamRole clusters trb subjects s =
     (case reconcile_clusters now env (initRBACClusterRole teamRole) subjects clusters ([], trb, s) of
        (failed, trb1, s1) \<Rightarrow>
          if length failed > 0
          then (let message = ''Error reconciling TeamRoleBinding for clusters: '' @ Join failed '', ''
                in (Some (PlainError message),
                    SetCondition now (FalseCondition now RBACReady RBACReconcileFailed message) trb1, s1))
          else (None, SetCondition now (TrueCondition now RBACReady RBACReconciled []) trb1, s1))"

text \<open>
  \<open>combineClusterLists\<close> adds the clusters of the status that are not listed. For a cluster that is gone it
  removes the status of the cluster it failed to read, whose name is empty.
\<close>

fun combine_loop ::
  "'s trb_env \<Rightarrow> string \<Rightarrow> 's \<Rightarrow> propagation_status list \<Rightarrow> cluster list \<times> team_role_binding
     \<Rightarrow> go_error option \<times> cluster list \<times> team_role_binding" where
  "combine_loop env ns s [] (cs, trb) = (None, cs, trb)"
| "combine_loop env ns s (ps # rest) (cs, trb) =
     (if prs_clusterName ps \<in> o_name ` set cs then combine_loop env ns s rest (cs, trb)
      else case te_get_cluster env \<lparr>nn_namespace = ns, nn_name = prs_clusterName ps\<rparr> s of
             Inl e \<Rightarrow>
               if IsNotFound e then combine_loop env ns s rest (cs, RemovePropagationStatus [] trb)
               else (Some e, cs, trb)
           | Inr c \<Rightarrow> combine_loop env ns s rest (cs @ [c], trb))"

definition combineClusterLists ::
  "'s trb_env \<Rightarrow> string \<Rightarrow> cluster list \<Rightarrow> team_role_binding \<Rightarrow> 's
     \<Rightarrow> go_error option \<times> cluster list \<times> team_role_binding" where
  "combineClusterLists env ns clusters trb s = combine_loop env ns s (trb_propagationStatus trb) (clusters, trb)"

text \<open>
  \<open>cleanupResources\<close> ranges over the slice of status entries while it changes it. The range keeps the
  array and length it started with; \<open>slices.DeleteFunc\<close> moves the remaining entries to the front of that
  array and zeroes the rest. \<open>arr\<close> holds the cluster names in that array, the only part of an entry the
  loop reads: the first ones are always those of the current status, and a zeroed entry has the empty
  name. An append can only reuse entries that were zeroed before.
\<close>

definition status_names :: "team_role_binding \<Rightarrow> string list" where
  "status_names trb = map prs_clusterName (trb_propagationStatus trb)"

definition array_after :: "string list \<Rightarrow> team_role_binding \<Rightarrow> team_role_binding \<Rightarrow> string list" where
  "array_after arr old new =
     status_names new @ replicate (length (status_names old) - length (status_names new)) []
       @ drop (max (length (status_names old)) (length (status_names new))) arr"

definition cleanup_entry ::
  "time \<Rightarrow> 's trb_env \<Rightarrow> cluster list \<Rightarrow> string \<Rightarrow> team_role_binding \<Rightarrow> 's
     \<Rightarrow> go_error option \<times> team_role_binding \<times> 's" where
  "cleanup_entry now env clusters name trb s =
     (let got = te_get_cluster env \<lparr>nn_namespace = o_namespace trb, nn_name = name\<rparr> s in
      if name \<notin> o_name ` set clusters
      then (case got of
              Inl e \<Rightarrow>
                if IsNotFound e then (None, RemovePropagationStatus name trb, s) else (Some e, trb, s)
            | Inr cluster \<Rightarrow>
                if \<not> IsReadyTrue (o_conditions cluster)
                then (None, SetPropagationStatus now name ConditionFalse ClusterConnectionFailed
                              ''Cluster is not ready'' trb, s)
                else (case cleanupCluster env trb cluster s of
                        (Some e, s1) \<Rightarrow> (Some e, trb, s1)
                      | (None, s1) \<Rightarrow> (None, RemovePropagationStatus name trb, s1)))
      else (case got of
              Inl e \<Rightarrow> (Some e, trb, s)
            | Inr cluster \<Rightarrow>
                (case cleanupClusterNamespaces env trb cluster s of (err, s1) \<Rightarrow> (err, trb, s1))))"

fun cleanup_loop ::
  "time \<Rightarrow> 's trb_env \<Rightarrow> cluster list \<Rightarrow> nat list \<Rightarrow> string list \<Rightarrow> team_role_binding \<Rightarrow> 's
     \<Rightarrow> go_error option \<times> team_role_binding \<times> 's" where
  "cleanup_loop now env clusters [] arr trb s = (None, trb, s)"
| "cleanup_loop now env clusters (i # is) arr trb s =
     (case cleanup_entry now env clusters (arr ! i) trb s of
        (Some e, trb1, s1) \<Rightarrow> (Some e, trb1, s1)
      | (None, trb1, s1) \<Rightarrow> cleanup_loop now env clusters is (array_after arr trb trb1) trb1 s1)"

definition cleanupResources ::
  "time \<Rightarrow> 's trb_env \<Rightarrow> team_role_binding \<Rightarrow> cluster list \<Rightarrow> 's
     \<Rightarrow> go_error option \<times> team_role_binding \<times> 's" where
  "cleanupResources now env trb clusters s =
     cleanup_loop now env clusters [0..<length (status_names trb)] (status_names trb) trb s"

section \<open>The callbacks of the controller\<close>

definition exposedConditions :: "condition_type list" where
  "exposedConditions = [ReadyCondition, RBACReady, OwnerLabelSetCondition]"

definition initTeamRoleBindingStatus :: "time \<Rightarrow> team_role_binding \<Rightarrow> team_role_binding" where
  "initTeamRoleBindingStatus now trb =
     fold (\<lambda>ct t. if GetCondition t ct = None then SetCondition now (UnknownCondition now ct [] []) t else t)
       exposedConditions trb"

text \<open>\<open>computeReadyCondition\<close> dereferences the Ready condition; \<open>None\<close> is the panic if there is none.\<close>

definition computeReadyCondition :: "team_role_binding \<Rightarrow> condition option" where
  "computeReadyCondition trb =
     map_option (\<lambda>rc. if list_all (\<lambda>ps. IsTrue (prs_condition ps)) (trb_propagationStatus trb)
                      then rc\<lparr>c_status := ConditionTrue, c_message := ''ready''\<rparr>
                      else rc\<lparr>c_status := ConditionFalse, c_message := ''Team RBAC reconciliation failed''\<rparr>)
       (GetCondition trb ReadyCondition)"

definition trb_setConditions :: "time \<Rightarrow> 's trb_env \<Rightarrow> team_role_binding \<Rightarrow> 's \<Rightarrow> team_role_binding option" where
  "trb_setConditions now env trb s =
     map_option (\<lambda>rc. trb\<lparr>o_conditions := SetConditions now
           [rc, ComputeOwnerLabelCondition now (\<lambda>k. te_get_team env k s) trb] (o_conditions trb)\<rparr>)
       (computeReadyCondition trb)"

definition trb_EnsureCreated ::
  "time \<Rightarrow> 's trb_env \<Rightarrow> team_role_binding \<Rightarrow> 's
     \<Rightarrow> (ctrl_result \<times> reconcile_result \<times> go_error option) \<times> team_role_binding \<times> 's" where
  "trb_EnsureCreated now env trb0 s =
     (let trb = initTeamRoleBindingStatus now trb0;
          notReady = (\<lambda>reason msg. SetCondition now (FalseCondition now RBACReady reason msg))
      in case getTeamRole env trb s of
           Inl e \<Rightarrow>
             if IsNotFound e
             then ((EmptyResult, Success, None),
                   notReady TeamRoleNotFound (''TeamRole '' @ trb_teamRoleRef trb @ '' not found in namespace ''
                     @ o_namespace trb) trb, s)
             else ((EmptyResult, Failed, Some e), trb, s)
         | Inr teamRole \<Rightarrow>
             (case listClusters now env trb s of
                (Inl e, trb1) \<Rightarrow>
                  ((EmptyResult, Failed, Some e),
                   notReady EmptyClusterList ''Failed to get clusters for TeamRoleBinding'' trb1, s)
              | (Inr clusters, trb1) \<Rightarrow>
                  (case cleanupResources now env trb1 clusters s of
                     (Some e, trb2, s1) \<Rightarrow> ((EmptyResult, Failed, Some e), trb2, s1)
                   | (None, trb2, s1) \<Rightarrow>
                       if length clusters = 0
                       then ((EmptyResult, Success, None), notReady EmptyClusterList [] trb2, s1)
                       else (case getTeams env trb2 s1 of
                               Inl e \<Rightarrow> ((EmptyResult, Failed, Some e), trb2, s1)
                             | Inr (teams, missing) \<Rightarrow>
                                 if length missing > 0 \<and> length teams = 0
                                 then ((EmptyResult, Success, None),
                                       notReady TeamNotFound (''Team(s) '' @ Join missing '', ''
                                         @ '' not found in namespace '' @ o_namespace trb2) trb2, s1)
                                 else (let subjects = generateSubjects (trb_usernames trb2) (map team_mappedIDPGroup teams)
                                       in case doReconcile now env teamRole clusters trb2 subjects s1 of
                                            (Some e, trb3, s2) \<Rightarrow> ((EmptyResult, Failed, Some e), trb3, s2)
                                          | (None, trb3, s2) \<Rightarrow>
                                              ((EmptyResult, Success, None),
                                               if length missing > 0
                                               then SetCondition now (TrueCondition now RBACReady RBACReconciled
                                                      (''RBAC reconciled with available teams, but team(s) ''
                                                       @ Join missing '', '' @ '' not found in namespace ''
                                                       @ o_namespace trb3)) trb3
                                               else trb3, s2))))))"

fun delete_clusters ::
  "'s trb_env \<Rightarrow> cluster list \<Rightarrow> team_role_binding \<Rightarrow> 's \<Rightarrow> team_role_binding \<times> 's" where
  "delete_clusters env [] trb s = (trb, s)"
| "delete_clusters env (c # cs) trb s =
     (case cleanupCluster env trb c s of
        (Some _, s1) \<Rightarrow> delete_clusters env cs trb s1
      | (None, s1) \<Rightarrow> delete_clusters env cs (RemovePropagationStatus (o_name c) trb) s1)"

definition trb_EnsureDeleted ::
  "time \<Rightarrow> 's trb_env \<Rightarrow> team_role_binding \<Rightarrow> 's
     \<Rightarrow> (ctrl_result \<times> reconcile_result \<times> go_error option) \<times> team_role_binding \<times> 's" where
  "trb_EnsureDeleted now env trb s =
     (case listClusters now env trb s of
        (Inl e, trb1) \<Rightarrow> ((EmptyResult, Failed, Some e), trb1, s)
      | (Inr clusters, trb1) \<Rightarrow>
          (case combineClusterLists env (o_namespace trb1) clusters trb1 s of
             (Some e, _, trb2) \<Rightarrow> ((EmptyResult, Failed, Some e), trb2, s)
           | (None, all, trb2) \<Rightarrow>
               (case delete_clusters env all trb2 s of
                  (trb3, s1) \<Rightarrow>
                    ((EmptyResult, if length (trb_propagationStatus trb3) = 0 then Success else Pending, None), trb3, s1))))"

text \<open>The controller as the lifecycle sees it; a TeamRoleBinding cannot be suspended.\<close>

definition trb_reconciler :: "time \<Rightarrow> 's trb_env \<Rightarrow> (team_role_binding, 's) reconciler" where
  "trb_reconciler now env =
     \<lparr>EnsureCreated = trb_EnsureCreated now env, EnsureDeleted = trb_EnsureDeleted now env,
      EnsureSuspended = (\<lambda>trb s. ((EmptyResult, None), trb, s)), CanBeSuspended = False,
      UpdateLastReconciledAtStatus = None\<rparr>"

definition trb_Reconcile ::
  "time \<Rightarrow> (team_role_binding, 's) client \<Rightarrow> 's trb_env \<Rightarrow> namespaced_name \<Rightarrow> 's
     \<Rightarrow> (ctrl_result \<times> go_error option) \<times> 's" where
  "trb_Reconcile now c env key s =
     Reconcile now c (trb_reconciler now env)
       (Some (\<lambda>trb s. case trb_setConditions now env trb s of Some t \<Rightarrow> t | None \<Rightarrow> trb)) key s"


section \<open>Work on a cluster does not depend on the status\<close>

lemma isClusterScoped_status [simp]: "isClusterScoped (trb\<lparr>trb_propagationStatus := x\<rparr>) = isClusterScoped trb"
  by (simp add: isClusterScoped_def)

lemma GetRBACName_status [simp]:
  "TeamRoleBinding_GetRBACName (trb\<lparr>trb_propagationStatus := x\<rparr>) = TeamRoleBinding_GetRBACName trb"
  by (simp add: TeamRoleBinding_GetRBACName_def)

lemma reconcile_namespaces_status [simp]:
  "reconcile_namespaces cl (trb\<lparr>trb_propagationStatus := x\<rparr>) cr subs nss s = reconcile_namespaces cl trb cr subs nss s"
  by (induction nss arbitrary: s) (simp_all add: rbacRoleBinding_def)

lemma remote_status:
  "rbacClusterRoleBinding (trb\<lparr>trb_propagationStatus := x\<rparr>) = rbacClusterRoleBinding trb"
  "trb_namespaces (trb\<lparr>trb_propagationStatus := x\<rparr>) = trb_namespaces trb"
  "deleteClusterRoleBinding cl (trb\<lparr>trb_propagationStatus := x\<rparr>) = deleteClusterRoleBinding cl trb"
  "deleteAllDeployedRoleBindings cl (trb\<lparr>trb_propagationStatus := x\<rparr>) = deleteAllDeployedRoleBindings cl trb"
  "isRoleReferenced cl (trb\<lparr>trb_propagationStatus := x\<rparr>) = isRoleReferenced cl trb"
  "deleteClusterRole cl (trb\<lparr>trb_propagationStatus := x\<rparr>) = deleteClusterRole cl trb"
  by (simp_all add: fun_eq_iff rbacClusterRoleBinding_def deleteClusterRoleBinding_def
      deleteAllDeployedRoleBindings_def isRoleReferenced_def deleteClusterRole_def split: sum.split)

lemma reconcile_cluster_status [simp]:
  "reconcile_cluster env (trb\<lparr>trb_propagationStatus := x\<rparr>) cr subs c s = reconcile_cluster env trb cr subs c s"
  unfolding reconcile_cluster_def remote_status isClusterScoped_status reconcile_namespaces_status ..

lemma cleanupCluster_status [simp]:
  "cleanupCluster env (trb\<lparr>trb_propagationStatus := x\<rparr>) c s = cleanupCluster env trb c s"
  unfolding cleanupCluster_def remote_status isClusterScoped_status ..

section \<open>The outcome of a reconciliation\<close>

lemma mark_reconciled_eq:
  "mark_reconciled now c trb = SetPropagationStatus now c ConditionTrue RBACReconciled [] trb"
proof -
  have "set_propagation now c cond (set_propagation now c cond ps) = set_propagation now c cond ps"
    for cond and ps :: "propagation_status list"
    by (induction ps) auto
  then show ?thesis by (simp add: mark_reconciled_def SetPropagationStatus_def Let_def)
qed







lemma SetCondition_fields [simp]:
  "trb_propagationStatus (SetCondition now c trb) = trb_propagationStatus trb"
  by (simp add: SetCondition_def)





text \<open>An environment in which every remote write succeeds.\<close>

definition ok_client :: "('o, unit) client" where
  "ok_client =
     \<lparr>cl_get = (\<lambda>_ _. Inl (ApiError ReasonNotFound ''not found'' [])), cl_create = (\<lambda>_ s. (None, s)),
      cl_update = (\<lambda>_ s. (None, s)), cl_patch = (\<lambda>_ _ s. (None, s)), cl_patch_status = (\<lambda>_ _ s. (None, s)),
      cl_delete = (\<lambda>_ s. (None, s))\<rparr>"

definition ok_remote :: "unit remote" where
  "ok_remote =
     \<lparr>rm_clusterRoles = ok_client, rm_clusterRoleBindings = ok_client, rm_roleBindings = ok_client,
      rm_list_roleBindings = (\<lambda>_ _. Inr []), rm_list_roles = (\<lambda>_ _ _. Inr []),
      rm_list_clusterRoleBindings = (\<lambda>_ _ _. Inr []), rm_create_namespace = (\<lambda>_ s. (None, s))\<rparr>"

definition rbac_cluster :: "string \<Rightarrow> cluster" where
  "rbac_cluster n =
     \<lparr>o_name = n, o_namespace = ''org'', o_labels = [], o_annotations = [], o_finalizers = [],
      o_deletionTimestamp = None, o_ownerReferences = [], o_conditions = [], cluster_accessMode = ''direct'',
      cluster_maxTokenValidity = 72, cluster_kubernetesVersion = [], cluster_bearerTokenExpiration = 0,
      cluster_nodes = None\<rparr>"

definition ok_env :: "string list \<Rightarrow> unit trb_env" where
  "ok_env existing =
     \<lparr>te_get_cluster = (\<lambda>k _. if nn_name k \<in> set existing then Inr (rbac_cluster (nn_name k))
                              else Inl (ApiError ReasonNotFound ''not found'' [])),
      te_selector_error = (\<lambda>_. None), te_list_clusters = (\<lambda>_ _ _. Inr []),
      te_get_teamRole = (\<lambda>_ _. Inl (ApiError ReasonNotFound ''not found'' [])),
      te_get_team = (\<lambda>_ _. Inl (ApiError ReasonNotFound ''not found'' [])), te_connect = (\<lambda>_ _. Inr ok_remote)\<rparr>"



section \<open>Deletion\<close>

lemma delete_clusters_removed:
  assumes "delete_clusters env cs trb s = (trb', s')"
    and "n \<in> set (status_names trb)" and "n \<notin> set (status_names trb')"
  shows "\<exists>c s1 s2. c \<in> set cs \<and> o_name c = n \<and> cleanupCluster env trb c s1 = (None, s2)"
  using assms
proof (induction cs arbitrary: trb s)
  case (Cons c cs)
  obtain err s1 where run: "cleanupCluster env trb c s = (err, s1)" by fastforce
  show ?case
  proof (cases err)
    case None
    show ?thesis
    proof (cases "o_name c = n")
      case True
      with run None show ?thesis by auto
    next
      case False
      let ?t = "RemovePropagationStatus (o_name c) trb"
      have "n \<in> set (status_names ?t)"
        using Cons.prems(2) False by (auto simp: status_names_def RemovePropagationStatus_def)
      with Cons.IH [of ?t s1] Cons.prems run None show ?thesis
        by (auto simp: RemovePropagationStatus_def)
    qed
  next
    case (Some e)
    then have "delete_clusters env cs trb s1 = (trb', s')" using Cons.prems(1) run by simp
    from Cons.IH [OF this Cons.prems(2,3)] show ?thesis by auto
  qed
qed simp

lemma delete_clusters_keeps:
  assumes "delete_clusters env cs trb s = (trb', s')" and "n \<in> set (status_names trb)" and "n \<notin> o_name ` set cs"
  shows "n \<in> set (status_names trb')"
  using delete_clusters_removed [OF assms(1,2)] assms(3) by blast

lemma set_propagation_name_set:
  "prs_clusterName ` set (set_propagation now c cond ps) = insert c (prs_clusterName ` set ps)"
  by (induction ps) auto

lemma fold_SetPropagationStatus:
  "\<exists>x. fold (\<lambda>c. SetPropagationStatus now (o_name c) st r m) cs t = t\<lparr>trb_propagationStatus := x\<rparr> \<and>
     set (status_names t) \<subseteq> prs_clusterName ` set x" for cs :: "cluster list"
proof (induction cs arbitrary: t)
  case Nil
  show ?case by (rule exI [of _ "trb_propagationStatus t"]) (simp add: status_names_def)
next
  case (Cons c cs)
  let ?t = "SetPropagationStatus now (o_name c) st r m t"
  from Cons [of ?t] obtain x where x: "fold (\<lambda>c. SetPropagationStatus now (o_name c) st r m) cs ?t = ?t\<lparr>trb_propagationStatus := x\<rparr>"
    "set (status_names ?t) \<subseteq> prs_clusterName ` set x" by blast
  have "set (status_names t) \<subseteq> set (status_names ?t)"
    by (auto simp: status_names_def SetPropagationStatus_def set_propagation_name_set)
  moreover have "?t\<lparr>trb_propagationStatus := x\<rparr> = t\<lparr>trb_propagationStatus := x\<rparr>" by (simp add: SetPropagationStatus_def)
  ultimately show ?case using x by (intro exI [of _ x]) auto
qed

lemma listClusters_status:
  assumes "listClusters now env trb s = (r, trb1)"
  shows "\<exists>x. trb1 = trb\<lparr>trb_propagationStatus := x\<rparr> \<and> set (status_names trb) \<subseteq> set (status_names trb1)"
proof -
  have "trb1 = trb \<or> (\<exists>cs :: cluster list. trb1 = fold (\<lambda>c. SetPropagationStatus now (o_name c) ConditionFalse ClusterConnectionFailed
      ''Cluster is not ready'') cs trb)"
    using assms unfolding listClusters_def Let_def
    by (simp split: if_splits sum.splits option.splits) blast+
  then show ?thesis
  proof
    assume "trb1 = trb"
    then show ?thesis by (intro exI [of _ "trb_propagationStatus trb"]) simp
  next
    assume "\<exists>cs :: cluster list. trb1 = fold (\<lambda>c. SetPropagationStatus now (o_name c) ConditionFalse ClusterConnectionFailed
      ''Cluster is not ready'') cs trb"
    then obtain cs :: "cluster list" where cs: "trb1 = fold (\<lambda>c. SetPropagationStatus now (o_name c) ConditionFalse ClusterConnectionFailed
      ''Cluster is not ready'') cs trb" ..
    obtain x where "trb1 = trb\<lparr>trb_propagationStatus := x\<rparr>" "set (status_names trb) \<subseteq> prs_clusterName ` set x"
      using fold_SetPropagationStatus unfolding cs by blast
    then show ?thesis by (auto simp: status_names_def)
  qed
qed

lemma combine_loop_status:
  assumes "combine_loop env ns s pss (cs, trb) = (err, all, trb2)"
  shows "\<exists>x. trb2 = trb\<lparr>trb_propagationStatus := x\<rparr> \<and> set (status_names trb) - {[]} \<subseteq> set (status_names trb2)"
  using assms
proof (induction pss arbitrary: cs trb)
  case Nil
  then show ?case by (intro exI [of _ "trb_propagationStatus trb"]) auto
next
  case (Cons ps pss)
  let ?r = "RemovePropagationStatus [] trb"
  have r: "\<exists>x. ?r = trb\<lparr>trb_propagationStatus := x\<rparr>" "set (status_names trb) - {[]} \<subseteq> set (status_names ?r)"
    by (auto simp: RemovePropagationStatus_def status_names_def)
  from Cons.prems consider "\<exists>cs'. combine_loop env ns s pss (cs', trb) = (err, all, trb2)"
    | "combine_loop env ns s pss (cs, ?r) = (err, all, trb2)" | "trb2 = trb"
    by (auto split: if_splits sum.splits)
  then show ?case
  proof cases
    case 1 then show ?thesis using Cons.IH by blast
  next
    case 2
    from Cons.IH [OF this] r show ?thesis by auto
  next
    case 3 then show ?thesis by (intro exI [of _ "trb_propagationStatus trb"]) auto
  qed
qed



definition bound_trb :: "string list \<Rightarrow> team_role_binding" where
  "bound_trb cs = sample_trb\<lparr>trb_propagationStatus :=
     map (\<lambda>c. \<lparr>prs_clusterName = c, prs_condition = TrueCondition 1 RBACReady RBACReconciled []\<rparr>) cs\<rparr>"



lemma combine_loop_gone:
  assumes "combine_loop env ns s pss (cs, trb) = (err, all, trb2)" and "n \<notin> o_name ` set cs"
    and "\<And>m c. te_get_cluster env \<lparr>nn_namespace = ns, nn_name = m\<rparr> s = Inr c \<Longrightarrow> o_name c \<noteq> n"
  shows "n \<notin> o_name ` set all"
  using assms(1,2)
proof (induction pss arbitrary: cs trb)
  case (Cons ps pss)
  show ?case
  proof (cases "te_get_cluster env \<lparr>nn_namespace = ns, nn_name = prs_clusterName ps\<rparr> s")
    case (Inl e)
    then show ?thesis using Cons by (auto split: if_splits)
  next
    case (Inr c)
    then show ?thesis using Cons assms(3) [OF Inr] by (auto split: if_splits)
  qed
qed auto

lemma listClusters_gone:
  assumes "listClusters now env trb s = (Inr cs, trb1)"
    and "\<And>m c. te_get_cluster env \<lparr>nn_namespace = o_namespace trb, nn_name = m\<rparr> s = Inr c \<Longrightarrow> o_name c \<noteq> n"
    and "\<And>sel items. te_list_clusters env (o_namespace trb) sel s = Inr items \<Longrightarrow> n \<notin> o_name ` set items"
  shows "n \<notin> o_name ` set cs"
  using assms by (force simp: listClusters_def Let_def DeleteFunc_def split: if_splits sum.splits option.splits)

text \<open>
  Deletion gets stuck: when a cluster named in the status no longer exists, deletion never reports
  success and the entry stays, so every later attempt ends the same way and the finalizer is never
  removed. The loop that should drop such entries removes the status of the empty name instead.
\<close>

theorem deletion_stuck:
  assumes "n \<in> set (status_names trb)" and "n \<noteq> []"
    and "\<And>m c. te_get_cluster env \<lparr>nn_namespace = o_namespace trb, nn_name = m\<rparr> s = Inr c \<Longrightarrow> o_name c \<noteq> n"
    and "\<And>sel items. te_list_clusters env (o_namespace trb) sel s = Inr items \<Longrightarrow> n \<notin> o_name ` set items"
    and "trb_EnsureDeleted now env trb s = ((r, res, err), trb', s')"
  shows "res \<noteq> Success \<and> n \<in> set (status_names trb')"
proof -
  obtain cs trb1 where l: "listClusters now env trb s = (cs, trb1)" by fastforce
  from listClusters_status [OF l] obtain x where x: "trb1 = trb\<lparr>trb_propagationStatus := x\<rparr>"
    and n1: "n \<in> set (status_names trb1)" using assms(1) by blast
  show ?thesis
  proof (cases cs)
    case (Inl e)
    with assms(5) l n1 show ?thesis by (auto simp: trb_EnsureDeleted_def)
  next
    case (Inr items)
    obtain merr all trb2 where m: "combine_loop env (o_namespace trb1) s (trb_propagationStatus trb1) (items, trb1) = (merr, all, trb2)"
      by (metis prod_cases3)
    from combine_loop_status [OF m] n1 assms(2) have n2: "n \<in> set (status_names trb2)" by blast
    show ?thesis
    proof (cases merr)
      case (Some e)
      with assms(5) l Inr m n2 show ?thesis by (auto simp: trb_EnsureDeleted_def combineClusterLists_def)
    next
      case None
      have "n \<notin> o_name ` set items" using listClusters_gone [OF l [unfolded Inr] assms(3,4)] .
      from combine_loop_gone [OF m this] assms(3) have "n \<notin> o_name ` set all" by (simp add: x)
      moreover obtain trb3 s3 where d: "delete_clusters env all trb2 s = (trb3, s3)" by fastforce
      ultimately have "n \<in> set (status_names trb3)" using delete_clusters_keeps [OF d n2] by blast
      with assms(5) l Inr m None d show ?thesis
        by (auto simp: trb_EnsureDeleted_def combineClusterLists_def status_names_def split: if_splits)
    qed
  qed
qed

theorem deletion_stuck_witness:
  "\<exists>r res err trb'. trb_EnsureDeleted 7 (ok_env []) (bound_trb [''gone'']) () = ((r, res, err), trb', ()) \<and>
     res \<noteq> Success \<and> ''gone'' \<in> set (status_names trb')"
proof -
  obtain r res err trb' where run: "trb_EnsureDeleted 7 (ok_env []) (bound_trb [''gone'']) () = ((r, res, err), trb', ())"
    by (metis (full_types) old.unit.exhaust prod_cases3)
  have "res \<noteq> Success \<and> ''gone'' \<in> set (status_names trb')"
    by (rule deletion_stuck [OF _ _ _ _ run]) (auto simp: status_names_def bound_trb_def ok_env_def)
  with run show ?thesis by blast
qed

text \<open>
  A failed cleanup is forgotten: for a cluster selected by name that the status does not name, which is so
  when the status could not be written after the bindings were created, deletion reports success although
  the cluster could not be reached.
\<close>

lemma deletion_forgets_failed_cleanup:
  assumes "cs_name (trb_clusterSelector trb) \<noteq> []" and "trb_propagationStatus trb = []"
    and "te_get_cluster env \<lparr>nn_namespace = o_namespace trb, nn_name = cs_name (trb_clusterSelector trb)\<rparr> s = Inr c"
    and "te_connect env c s = Inl e"
  shows "trb_EnsureDeleted now env trb s = ((EmptyResult, Success, None), trb, s)"
  using assms by (simp add: trb_EnsureDeleted_def listClusters_def combineClusterLists_def cleanupCluster_def Let_def)

text \<open>
  The range over the status while it shrinks: with two clusters of the status gone, only the first entry
  is removed.
\<close>

lemma cleanup_skips_entry:
  "status_names (fst (snd (cleanupResources 7 (ok_env []) (bound_trb [''a'', ''b'']) [] ()))) = [''b'']"
  by (simp add: cleanupResources_def status_names_def bound_trb_def sample_trb_def ok_env_def cleanup_entry_def
      RemovePropagationStatus_def DeleteFunc_def array_after_def upt_rec)

section \<open>Readiness\<close>

text \<open>The status function never dereferences a missing condition: every outcome of \<open>EnsureCreated\<close> has Ready.\<close>

lemma SetCondition_keeps: "GetCondition x t \<noteq> None \<Longrightarrow> GetCondition (SetCondition now c x) t \<noteq> None"
  using ro.get_set_other [of t c now x] ro.get_set_same [of now c x] by (cases "t = c_type c") auto

lemma SetCondition_if_keeps:
  "GetCondition x t \<noteq> None \<Longrightarrow> GetCondition (if b then SetCondition now c x else x) t \<noteq> None"
  by (cases b) (simp_all add: SetCondition_keeps del: not_None_eq)

lemma initTeamRoleBindingStatus_ready: "GetCondition (initTeamRoleBindingStatus now trb) ReadyCondition \<noteq> None"
proof -
  have "GetCondition (if GetCondition trb ReadyCondition = None
      then SetCondition now (UnknownCondition now ReadyCondition [] []) trb else trb) ReadyCondition \<noteq> None"
    using ro.get_set_same [of now "UnknownCondition now ReadyCondition [] []" trb] by (auto simp: condition_constructors)
  then show ?thesis
    unfolding initTeamRoleBindingStatus_def exposedConditions_def fold_simps by (rule SetCondition_if_keeps [OF SetCondition_if_keeps])
qed

lemma GetCondition_status [simp]: "GetCondition (trb\<lparr>trb_propagationStatus := x\<rparr>) t = GetCondition trb t"
  by (simp add: GetCondition_def GetConditions_def)

lemma cleanup_entry_conditions:
  "cleanup_entry now env cs n trb s = (err, trb1, s1) \<Longrightarrow> GetCondition trb1 t = GetCondition trb t"
  by (auto simp: cleanup_entry_def Let_def RemovePropagationStatus_def SetPropagationStatus_def
      split: if_splits sum.splits prod.splits option.splits)

lemma cleanup_loop_conditions:
  "cleanup_loop now env cs is arr trb s = (err, trb1, s1) \<Longrightarrow> GetCondition trb1 t = GetCondition trb t"
proof (induction "is" arbitrary: arr trb s)
  case (Cons i "is")
  obtain e t1 s2 where e: "cleanup_entry now env cs (arr ! i) trb s = (e, t1, s2)" by (metis prod_cases3)
  with Cons show ?case using cleanup_entry_conditions [OF e] by (cases e) auto
qed simp

lemma reconcile_clusters_conditions:
  "reconcile_clusters now env cr subs cs (failed, trb, s) = (failed', trb', s') \<Longrightarrow> GetCondition trb' t = GetCondition trb t"
proof (induction cs arbitrary: failed trb s)
  case (Cons c cs)
  obtain e s2 where e: "reconcile_cluster env trb cr subs c s = (e, s2)" by fastforce
  have "GetCondition (SetPropagationStatus now n st r m trb) t = GetCondition trb t" for n st r m
    by (simp add: SetPropagationStatus_def)
  with Cons e show ?case by (cases e) (auto simp: mark_reconciled_eq)
qed simp

lemma doReconcile_ready:
  assumes "doReconcile now env r cs trb subs s = (err, trb', s')" and "GetCondition trb t \<noteq> None"
  shows "GetCondition trb' t \<noteq> None"
proof -
  obtain f t1 s1 where run: "reconcile_clusters now env (initRBACClusterRole r) subs cs ([], trb, s) = (f, t1, s1)"
    by (metis prod_cases3)
  have "GetCondition t1 t \<noteq> None" using reconcile_clusters_conditions [OF run] assms(2) by simp
  then have "GetCondition (SetCondition now c t1) t \<noteq> None" for c by (rule SetCondition_keeps)
  moreover have "\<exists>c. trb' = SetCondition now c t1"
    using assms(1) run by (auto simp: doReconcile_def Let_def split: if_splits)
  ultimately show ?thesis by blast
qed

definition has_ready :: "team_role_binding \<Rightarrow> bool" where
  "has_ready trb \<longleftrightarrow> GetCondition trb ReadyCondition \<noteq> None"

lemma has_ready_SetCondition [simp]: "has_ready trb \<Longrightarrow> has_ready (SetCondition now c trb)"
  unfolding has_ready_def by (rule SetCondition_keeps)

lemma EnsureCreated_ready:
  assumes "trb_EnsureCreated now env trb s = (out, trb', s')"
  shows "has_ready trb'"
proof -
  let ?t = "initTeamRoleBindingStatus now trb"
  obtain cs trb1 where l: "listClusters now env ?t s = (cs, trb1)" by fastforce
  obtain cerr trb2 s1 where c: "cleanupResources now env trb1 (projr cs) s = (cerr, trb2, s1)" by (metis prod_cases3)
  have r0: "has_ready ?t" unfolding has_ready_def by (rule initTeamRoleBindingStatus_ready)
  with listClusters_status [OF l] have r1: "has_ready trb1" by (auto simp: has_ready_def)
  with cleanup_loop_conditions [OF c [unfolded cleanupResources_def]] have r2: "has_ready trb2" by (simp add: has_ready_def)
  have r3: "has_ready t3" if "doReconcile now env r cs' trb2 subs s1 = (e, t3, s2)" for r cs' subs e t3 s2
    using doReconcile_ready [OF that] r2 by (simp add: has_ready_def)
  show ?thesis
    using assms l c r0 r1 r2
    by (auto simp: trb_EnsureCreated_def Let_def dest: r3 split: sum.splits prod.splits option.splits if_splits)
qed

text \<open>
  After every reconciliation the status of a TeamRoleBinding can be computed, without a nil
  dereference, and Ready is True exactly when the status of every cluster is True.
\<close>

theorem trb_ready_iff:
  assumes "trb_EnsureCreated now env trb s = (out, trb', s')"
  shows "\<exists>t d. trb_setConditions now env trb' s' = Some t \<and> GetCondition t ReadyCondition = Some d \<and>
    (IsTrue d \<longleftrightarrow> (\<forall>ps \<in> set (trb_propagationStatus t). IsTrue (prs_condition ps)))"
proof -
  obtain rc0 where rc0: "GetCondition trb' ReadyCondition = Some rc0"
    using EnsureCreated_ready [OF assms] by (auto simp: has_ready_def)
  then obtain rc where rc: "computeReadyCondition trb' = Some rc" "c_type rc = ReadyCondition"
    "IsTrue rc \<longleftrightarrow> (\<forall>ps \<in> set (trb_propagationStatus trb'). IsTrue (prs_condition ps))"
    using GetConditionByType_SomeD [of "o_conditions trb'" ReadyCondition rc0]
    by (auto simp: computeReadyCondition_def list_all_iff IsTrue_def GetCondition_def GetConditions_def)
  let ?o = "ComputeOwnerLabelCondition now (\<lambda>k. te_get_team env k s') trb'"
  have "distinct (map c_type [rc, ?o])" by (simp add: rc(2) condition_consts)
  from SetConditions_get_distinct [OF this, of rc now "o_conditions trb'"] obtain d where
    "GetConditionByType (SetConditions now [rc, ?o] (o_conditions trb')) ReadyCondition = Some d" "Equal d rc"
    using rc(2) by auto
  then show ?thesis
    using rc by (intro exI [of _ "trb'\<lparr>o_conditions := SetConditions now [rc, ?o] (o_conditions trb')\<rparr>"] exI [of _ d])
      (simp add: trb_setConditions_def GetCondition_def GetConditions_def Equal_def IsTrue_def)
qed

text \<open>
  Ready does not look at RBACReady: without the TeamRole, and with no status yet, the binding is Ready
  although nothing was reconciled and RBACReady is False.
\<close>

theorem trb_ready_iff_witness:
  "\<exists>trb' t d. trb_EnsureCreated 7 (ok_env []) sample_trb () = ((EmptyResult, Success, None), trb', ()) \<and>
     trb_setConditions 7 (ok_env []) trb' () = Some t \<and> GetCondition t ReadyCondition = Some d \<and> IsTrue d"
proof -
  let ?t = "initTeamRoleBindingStatus 7 sample_trb"
  have role: "getTeamRole (ok_env []) ?t () = Inl (WrapError ''error getting teamrole'' (ApiError ReasonNotFound ''not found'' []))"
    by (simp add: getTeamRole_def ok_env_def initTeamRoleBindingStatus_def exposedConditions_def sample_trb_def SetCondition_def)
  obtain trb' where run: "trb_EnsureCreated 7 (ok_env []) sample_trb () = ((EmptyResult, Success, None), trb', ())"
    and ps: "trb_propagationStatus trb' = trb_propagationStatus ?t"
    using role by (simp add: trb_EnsureCreated_def Let_def)
  have "trb_propagationStatus ?t = []"
    by (simp add: initTeamRoleBindingStatus_def exposedConditions_def sample_trb_def SetCondition_def)
  then obtain t d where "trb_setConditions 7 (ok_env []) trb' () = Some t" "GetCondition t ReadyCondition = Some d"
    "IsTrue d \<longleftrightarrow> (\<forall>ps \<in> set (trb_propagationStatus t). IsTrue (prs_condition ps))"
    using trb_ready_iff [OF run] by blast
  moreover from this(1) ps \<open>trb_propagationStatus ?t = []\<close> have "trb_propagationStatus t = []"
    by (auto simp: trb_setConditions_def)
  ultimately show ?thesis using run by auto
qed


section \<open>Roles in use\<close>

text \<open>
  The check whether a ClusterRole is still in use counts Roles and ClusterRoleBindings with the label of
  the role. The RoleBindings of namespaced TeamRoleBindings refer to the ClusterRole but do not carry that
  label and are not listed, so the last cleanup of any other binding deletes the role under them.
\<close>

lemma namespaced_binding_not_counted:
  assumes "rm_list_roles cl LabelKeyRole (trb_teamRoleRef trb) s = Inr []"
    and "rm_list_clusterRoleBindings cl LabelKeyRole (trb_teamRoleRef trb) s = Inr []"
  shows "isRoleReferenced cl trb s = Inr False
    \<and> smap_get (o_labels (rbacRoleBinding other cr subs ns)) LabelKeyRole = None
    \<and> rr_name (rb_roleRef (rbacRoleBinding other cr subs ns)) = o_name cr"
  using assms
  by (simp add: isRoleReferenced_def rbacRoleBinding_def bare_binding_def clusterRole_ref_def smap_get_def
      LabelKeyRole_def LabelKeyRoleBinding_def)

end
