(* ===== verification/Cluster_Status.thy ===== *)
theory Cluster_Status
  imports Core_Types
begin

text \<open>
  The status of clusters (\<open>internal/controller/cluster/cluster_status.go\<close>) and the access checks it uses
  (\<open>internal/common/permissions.go\<close>). Clients of the remote cluster, the server version and access reviews
  are parameters.
\<close>

section \<open>Permissions\<close>

record permission =
  perm_name :: string
  perm_verb :: string
  perm_apiGroup :: string
  perm_resource :: string

definition Permission_String :: "permission \<Rightarrow> string" where
  "Permission_String p = perm_verb p @ '' '' @ perm_apiGroup p @ ''/'' @ perm_resource p"

definition greenhousePermissions :: "permission list" where
  "greenhousePermissions =
     map (\<lambda>(n, v, g, r). \<lparr>perm_name = n, perm_verb = v, perm_apiGroup = g, perm_resource = r\<rparr>)
       [(''createCluster'', ''create'', ''greenhouse.sap'', ''clusters''),
        (''deleteCluster'', ''delete'', ''greenhouse.sap'', ''clusters''),
        (''updateCluster'', ''update'', ''greenhouse.sap'', ''clusters''),
        (''patchCluster'', ''patch'', ''greenhouse.sap'', ''clusters''),
        (''createSecret'', ''create'', [], ''secrets''),
        (''updateSecret'', ''update'', [], ''secrets''),
        (''patchSecret'', ''patch'', [], ''secrets'')]"

definition clientClusterPermissions :: "permission list" where
  "clientClusterPermissions =
     [\<lparr>perm_name = ''clusterAdmin'', perm_verb = ''*'', perm_apiGroup = ''*'', perm_resource = ''*''\<rparr>]"

text \<open>
  An access review, for the own identity or for a user: the error of creating it, or what the server
  answered.
\<close>

record access_request =
  ar_user :: "string option"
  ar_namespace :: string
  ar_verb :: string
  ar_group :: string
  ar_resource :: string

definition canI :: "(access_request \<Rightarrow> go_error + bool) \<Rightarrow> string \<Rightarrow> string \<Rightarrow> permission \<Rightarrow> bool" where
  "canI review user namespace p =
     (review \<lparr>ar_user = (if user = [] then None else Some user), ar_namespace = namespace, ar_verb = perm_verb p,
              ar_group = perm_apiGroup p, ar_resource = perm_resource p\<rparr> = Inr True)"

definition checkPermissionMap ::
  "(access_request \<Rightarrow> go_error + bool) \<Rightarrow> permission list \<Rightarrow> string \<Rightarrow> string \<Rightarrow> permission list" where
  "checkPermissionMap review ps user namespace = filter (\<lambda>p. \<not> canI review user namespace p) ps"

definition CheckGreenhousePermission ::
  "(access_request \<Rightarrow> go_error + bool) \<Rightarrow> string \<Rightarrow> string \<Rightarrow> permission list" where
  "CheckGreenhousePermission review user namespace = checkPermissionMap review greenhousePermissions user namespace"

definition CheckClientClusterPermission ::
  "(access_request \<Rightarrow> go_error + bool) \<Rightarrow> string \<Rightarrow> string \<Rightarrow> permission list" where
  "CheckClientClusterPermission review user namespace =
     checkPermissionMap review clientClusterPermissions user namespace"

section \<open>The environment\<close>

record node_condition =
  nc_type :: string
  nc_status :: condition_status
  nc_message :: string
  nc_lastTransitionTime :: time

record node = object_meta +
  nd_unschedulable :: bool
  nd_conditions :: "node_condition list"

record remote_cluster =
  rc_get_namespace :: "string \<Rightarrow> go_error option"
  rc_get_serviceAccount :: "namespaced_name \<Rightarrow> go_error option"
  rc_get_clusterRoleBinding :: "string \<Rightarrow> go_error option"
  rc_list_nodes :: "go_error + node list"
  rc_review :: "access_request \<Rightarrow> go_error + bool"

record 'g cluster_reads =
  cr_get_secret :: "namespaced_name \<Rightarrow> go_error + secret"
  cr_clientGetter :: "secret \<Rightarrow> go_error + 'g"
  cr_version :: "'g \<Rightarrow> go_error + string"
  cr_client :: "'g \<Rightarrow> go_error + remote_cluster"
  cr_get_team :: "namespaced_name \<Rightarrow> go_error + team"

definition clusterK8sVersionUnknown :: string where "clusterK8sVersionUnknown = ''unknown''"
definition controlPlaneNodeLabel :: string where
  "controlPlaneNodeLabel = ''node-role.kubernetes.io/control-plane''"
definition ServiceAccountName :: string where "ServiceAccountName = ''greenhouse''"

section \<open>Nodes\<close>

definition getNodeStatusIfNodeNotReady :: "time \<Rightarrow> node \<Rightarrow> node_status option" where
  "getNodeStatusIfNodeNotReady now nd =
     (if nd_unschedulable nd
      then Some \<lparr>ns_name = o_name nd, ns_message = ''Node is unschedulable'', ns_lastTransitionTime = now\<rparr>
      else case find (\<lambda>c. nc_type c = ''Ready'') (nd_conditions nd) of
             None \<Rightarrow> None
           | Some c \<Rightarrow>
               if nc_status c = ConditionTrue then None
               else Some \<lparr>ns_name = o_name nd, ns_message = nc_message c,
                          ns_lastTransitionTime = nc_lastTransitionTime c\<rparr>)"

text \<open>The loop over the nodes: condition, number, number of ready nodes, and the nodes that are not ready.\<close>

fun node_loop ::
  "time \<Rightarrow> node list \<Rightarrow> condition \<times> nat \<times> nat \<times> node_status list \<Rightarrow> condition \<times> nat \<times> nat \<times> node_status list" where
  "node_loop now [] st = st"
| "node_loop now (nd # nds) (cond, cnt, ready, notReady) =
     (if smap_get (o_labels nd) controlPlaneNodeLabel \<noteq> None
      then node_loop now nds (cond, cnt, ready, notReady)
      else case getNodeStatusIfNodeNotReady now nd of
             None \<Rightarrow> node_loop now nds (cond, Suc cnt, Suc ready, notReady)
           | Some ns \<Rightarrow>
               node_loop now nds
                 (cond\<lparr>c_status := ConditionFalse,
                       c_message := (if c_message cond \<noteq> [] then c_message cond @ '', '' else [])
                         @ o_name nd @ '' not ready''\<rparr>,
                  Suc cnt, ready, notReady @ [ns]))"

definition reconcileNodeStatus ::
  "time \<Rightarrow> 'g cluster_reads \<Rightarrow> 'g \<Rightarrow> condition \<times> nodes option" where
  "reconcileNodeStatus now rd g =
     (case cr_client rd g of
        Inl e \<Rightarrow> (FalseCondition now AllNodesReady [] (error_text e), None)
      | Inr rc \<Rightarrow>
          (case rc_list_nodes rc of
             Inl e \<Rightarrow> (FalseCondition now AllNodesReady [] (error_text e), None)
           | Inr items \<Rightarrow>
               (case node_loop now items (TrueCondition now AllNodesReady [] [], 0, 0, []) of
                  (cond, cnt, ready, notReady) \<Rightarrow>
                    (cond, Some \<lparr>n_total = cnt, n_ready = ready, n_notReady = notReady\<rparr>))))"

section \<open>The other conditions\<close>

definition getClusterSecretAndClientGetter ::
  "'g cluster_reads \<Rightarrow> cluster \<Rightarrow> go_error + (secret \<times> 'g)" where
  "getClusterSecretAndClientGetter rd cl =
     (case cr_get_secret rd \<lparr>nn_namespace = o_namespace cl, nn_name = GetSecretName cl\<rparr> of
        Inl e \<Rightarrow> Inl (WrapError ''failed to get cluster secret'' e)
      | Inr sec \<Rightarrow>
          (case cr_clientGetter rd sec of
             Inl e \<Rightarrow> Inl (WrapError ''failed to create REST client getter'' e)
           | Inr g \<Rightarrow> Inr (sec, g)))"

definition missing_resource :: "time \<Rightarrow> go_error \<Rightarrow> string \<Rightarrow> condition" where
  "missing_resource now e what =
     FalseCondition now ManagedResourcesDeployed []
       (if IsNotFound e then what @ '' not found in remote cluster'' else error_text e)"

definition reconcileBootstrapResources ::
  "time \<Rightarrow> 'g cluster_reads \<Rightarrow> 'g \<Rightarrow> secret option \<Rightarrow> condition" where
  "reconcileBootstrapResources now rd g secret =
     (case secret of
        None \<Rightarrow> UnknownCondition now ManagedResourcesDeployed [] ''managed resources could not be validated''
      | Some sec \<Rightarrow>
     (case cr_client rd g of
        Inl e \<Rightarrow> FalseCondition now ManagedResourcesDeployed [] (error_text e)
      | Inr rc \<Rightarrow>
     (case rc_get_namespace rc (o_namespace sec) of
        Some e \<Rightarrow> missing_resource now e (''Namespace '' @ o_namespace sec)
      | None \<Rightarrow>
          if secret_type sec \<noteq> SecretTypeOIDCConfig
          then (case rc_get_serviceAccount rc \<lparr>nn_namespace = o_namespace sec, nn_name = ServiceAccountName\<rparr> of
                  Some e \<Rightarrow> missing_resource now e (''ServiceAccount '' @ ServiceAccountName @ '' in namespace '' @ o_namespace sec)
                | None \<Rightarrow>
                    (case rc_get_clusterRoleBinding rc ServiceAccountName of
                       Some e \<Rightarrow> missing_resource now e (''ClusterRoleBinding '' @ ServiceAccountName)
                     | None \<Rightarrow> TrueCondition now ManagedResourcesDeployed [] []))
          else TrueCondition now ManagedResourcesDeployed [] [])))"

definition reconcilePermissions :: "time \<Rightarrow> 'g cluster_reads \<Rightarrow> 'g \<Rightarrow> condition" where
  "reconcilePermissions now rd g =
     (case cr_client rd g of
        Inl e \<Rightarrow> FalseCondition now PermissionsVerified [] (error_text e)
      | Inr rc \<Rightarrow>
          if length (CheckClientClusterPermission (rc_review rc) [] []) > 0
          then FalseCondition now PermissionsVerified [] ''missing cluster admin permission''
          else TrueCondition now PermissionsVerified [] ''ServiceAccount has cluster admin permissions'')"

definition reconcileKubeConfigValid :: "time \<Rightarrow> 'g cluster_reads \<Rightarrow> 'g \<Rightarrow> condition \<times> string" where
  "reconcileKubeConfigValid now rd g =
     (case cr_version rd g of
        Inl e \<Rightarrow> (FalseCondition now KubeConfigValid [] (error_text e), clusterK8sVersionUnknown)
      | Inr v \<Rightarrow> (TrueCondition now KubeConfigValid [] [], v))"

definition reconcileReadyStatus :: "time \<Rightarrow> condition list \<Rightarrow> condition" where
  "reconcileReadyStatus now conditions =
     (let rc = UnknownCondition now ReadyCondition [] [] in
      case find IsFalse conditions of
        Some c \<Rightarrow> rc\<lparr>c_status := ConditionFalse,
                     c_message := (if c_message c \<noteq> [] then c_message c else ''cannot access cluster'')\<rparr>
      | None \<Rightarrow> rc\<lparr>c_status := ConditionTrue\<rparr>)"

text \<open>
  \<open>setConditions\<close>: the seven conditions, in the order they are set, the version and the nodes.
\<close>

definition cluster_conditions ::
  "time \<Rightarrow> 'g cluster_reads \<Rightarrow> cluster \<Rightarrow> condition list \<times> string \<times> nodes option" where
  "cluster_conditions now rd cl =
     (let acc = getClusterSecretAndClientGetter rd cl;
          (kubeConfigValid, k8sVersion) =
            (case acc of
               Inl e \<Rightarrow> (FalseCondition now KubeConfigValid [] (error_text e), clusterK8sVersionUnknown)
             | Inr (sec, g) \<Rightarrow> reconcileKubeConfigValid now rd g);
          owner = ComputeOwnerLabelCondition now (cr_get_team rd) cl;
          invalid =
            (let deployed = UnknownCondition now ManagedResourcesDeployed []
                   ''kubeconfig not valid - cannot validate managed resources''
             in ([reconcileReadyStatus now [kubeConfigValid, deployed],
                  UnknownCondition now AllNodesReady [] ''kubeconfig not valid - cannot know node status'',
                  kubeConfigValid, owner,
                  UnknownCondition now PermissionsVerified [] ''kubeconfig not valid - cannot validate cluster access'',
                  deployed,
                  FalseCondition now PayloadSchedulable [] ''kubeconfig not valid - payloads cannot be scheduled''],
                 k8sVersion, None))
      in case acc of
           Inl e \<Rightarrow> invalid
         | Inr (sec, g) \<Rightarrow>
             if IsFalse kubeConfigValid then invalid
             else (let (allNodesReady, nodes) = reconcileNodeStatus now rd g;
                       accessible = reconcilePermissions now rd g;
                       deployed = reconcileBootstrapResources now rd g (Some sec);
                       schedulable =
                         (case nodes of
                            None \<Rightarrow> TrueCondition now PayloadSchedulable [] []
                          | Some n \<Rightarrow>
                              if length (n_notReady n) = n_total n
                              then FalseCondition now PayloadSchedulable [] ''all nodes are not ready''
                              else TrueCondition now PayloadSchedulable [] [])
                   in ([reconcileReadyStatus now [kubeConfigValid, deployed], allNodesReady, kubeConfigValid, owner,
                        accessible, deployed, schedulable], k8sVersion, nodes)))"

definition cluster_setConditions :: "time \<Rightarrow> 'g cluster_reads \<Rightarrow> cluster \<Rightarrow> cluster" where
  "cluster_setConditions now rd cl =
     (case cluster_conditions now rd cl of
        (conds, version, nodes) \<Rightarrow>
          cl\<lparr>o_conditions := SetConditions now conds (o_conditions cl), cluster_kubernetesVersion := version,
             cluster_nodes := nodes\<rparr>)"

section \<open>What the status tells\<close>

text \<open>
  The contract, stated on the environment: the kubeconfig of the cluster works when its secret can be read,
  gives a client, and the API server answers its version; the managed resources are there when the
  namespace exists and, unless the cluster is accessed with OIDC, the service account and its binding.
\<close>

definition kubeconfig_works :: "'g cluster_reads \<Rightarrow> cluster \<Rightarrow> (secret \<times> 'g) option" where
  "kubeconfig_works rd cl =
     (case cr_get_secret rd \<lparr>nn_namespace = o_namespace cl, nn_name = o_name cl\<rparr> of
        Inl e \<Rightarrow> None
      | Inr sec \<Rightarrow>
          (case cr_clientGetter rd sec of
             Inl e \<Rightarrow> None
           | Inr g \<Rightarrow> (case cr_version rd g of Inl e \<Rightarrow> None | Inr v \<Rightarrow> Some (sec, g))))"

definition resources_exist :: "'g cluster_reads \<Rightarrow> secret \<Rightarrow> 'g \<Rightarrow> bool" where
  "resources_exist rd sec g =
     (case cr_client rd g of
        Inl e \<Rightarrow> False
      | Inr rc \<Rightarrow>
          rc_get_namespace rc (o_namespace sec) = None \<and>
          (secret_type sec \<noteq> SecretTypeOIDCConfig \<longrightarrow>
             rc_get_serviceAccount rc \<lparr>nn_namespace = o_namespace sec, nn_name = ServiceAccountName\<rparr> = None
             \<and> rc_get_clusterRoleBinding rc ServiceAccountName = None))"

definition worker_nodes :: "node list \<Rightarrow> node list" where
  "worker_nodes nds = filter (\<lambda>nd. smap_get (o_labels nd) controlPlaneNodeLabel = None) nds"

definition node_ready :: "node \<Rightarrow> bool" where
  "node_ready nd \<longleftrightarrow>
     \<not> nd_unschedulable nd \<and>
     (\<forall>c. find (\<lambda>c. nc_type c = ''Ready'') (nd_conditions nd) = Some c \<longrightarrow> nc_status c = ConditionTrue)"

lemmas cluster_condition_types =
  AllNodesReady_def PayloadSchedulable_def KubeConfigValid_def PermissionsVerified_def
  ManagedResourcesDeployed_def condition_consts

lemma length_filter_not_all: "length (filter (\<lambda>x. \<not> P x) xs) = length xs \<longleftrightarrow> \<not> list_ex P xs"
  using length_filter_less [of _ xs "\<lambda>x. \<not> P x"] by (auto simp: list_ex_iff)

lemma getNodeStatus_None_iff: "getNodeStatusIfNodeNotReady now nd = None \<longleftrightarrow> node_ready nd"
  by (auto simp: getNodeStatusIfNodeNotReady_def node_ready_def split: option.splits)

lemma getNodeStatus_name: "getNodeStatusIfNodeNotReady now nd = Some ns \<Longrightarrow> ns_name ns = o_name nd"
  by (auto simp: getNodeStatusIfNodeNotReady_def split: option.splits if_splits)

lemma node_loop_result:
  "node_loop now nds (cond, cnt, ready, notReady) = (cond', cnt', ready', notReady') \<Longrightarrow>
     cnt' = cnt + length (worker_nodes nds)
     \<and> ready' = ready + length (filter node_ready (worker_nodes nds))
     \<and> map ns_name notReady' = map ns_name notReady @ map o_name (filter (\<lambda>nd. \<not> node_ready nd) (worker_nodes nds))
     \<and> c_type cond' = c_type cond
     \<and> c_status cond' = (if list_all node_ready (worker_nodes nds) then c_status cond else ConditionFalse)"
proof (induction nds arbitrary: cond cnt ready notReady)
  case Nil
  then show ?case by (simp add: worker_nodes_def)
next
  case (Cons nd nds)
  show ?case
  proof (cases "smap_get (o_labels nd) controlPlaneNodeLabel = None")
    case False
    then have "worker_nodes (nd # nds) = worker_nodes nds" by (simp add: worker_nodes_def)
    with Cons False show ?thesis by simp
  next
    case True
    then have w: "worker_nodes (nd # nds) = nd # worker_nodes nds" by (simp add: worker_nodes_def)
    show ?thesis
    proof (cases "getNodeStatusIfNodeNotReady now nd")
      case None
      with Cons.prems True have "node_loop now nds (cond, Suc cnt, Suc ready, notReady) = (cond', cnt', ready', notReady')"
        by simp
      from Cons.IH [OF this] show ?thesis using w None getNodeStatus_None_iff [of now nd] by simp
    next
      case (Some ns)
      then have "\<not> node_ready nd" "ns_name ns = o_name nd"
        using getNodeStatus_None_iff [of now nd] getNodeStatus_name [OF Some] by auto
      let ?c = "cond\<lparr>c_status := ConditionFalse,
                    c_message := (if c_message cond \<noteq> [] then c_message cond @ '', '' else []) @ o_name nd @ '' not ready''\<rparr>"
      from Cons.prems True Some have "node_loop now nds (?c, Suc cnt, ready, notReady @ [ns]) = (cond', cnt', ready', notReady')"
        by simp
      from Cons.IH [OF this] show ?thesis
        using w \<open>\<not> node_ready nd\<close> \<open>ns_name ns = o_name nd\<close> by (simp split: if_splits)
    qed
  qed
qed

lemma status_types [simp]:
  "c_type (fst (reconcileNodeStatus now rd g)) = AllNodesReady"
  "c_type (reconcilePermissions now rd g) = PermissionsVerified"
  "c_type (reconcileBootstrapResources now rd g s) = ManagedResourcesDeployed"
  "c_type (fst (reconcileKubeConfigValid now rd g)) = KubeConfigValid"
  "c_type (reconcileReadyStatus now cs) = ReadyCondition"
  by (auto simp: reconcileNodeStatus_def condition_constructors reconcilePermissions_def
      dest: node_loop_result split: sum.splits prod.splits)
    (simp_all add: reconcileBootstrapResources_def missing_resource_def reconcileKubeConfigValid_def
      reconcileReadyStatus_def condition_constructors Let_def split: sum.splits option.splits)

lemma cluster_conditions_types:
  "map c_type (fst (cluster_conditions now rd cl)) =
     [ReadyCondition, AllNodesReady, KubeConfigValid, OwnerLabelSetCondition, PermissionsVerified,
      ManagedResourcesDeployed, PayloadSchedulable]"
proof (cases "getClusterSecretAndClientGetter rd cl")
  case (Inl e)
  then show ?thesis by (simp add: cluster_conditions_def Let_def condition_constructors)
next
  case (Inr p)
  obtain sec g where p: "p = (sec, g)" by (cases p)
  obtain kc v where kc: "reconcileKubeConfigValid now rd g = (kc, v)" by (cases "reconcileKubeConfigValid now rd g")
  obtain an nodes where an: "reconcileNodeStatus now rd g = (an, nodes)" by (cases "reconcileNodeStatus now rd g")
  have "c_type kc = KubeConfigValid" "c_type an = AllNodesReady"
    using status_types(1) [of now rd g] status_types(4) [of now rd g] kc an by simp_all
  with Inr p kc an show ?thesis
    by (simp add: cluster_conditions_def Let_def condition_constructors split: option.splits)
qed

text \<open>What is shown after the update is what was computed.\<close>

lemma cluster_conditions_shown:
  assumes "c \<in> set (fst (cluster_conditions now rd cl))"
  shows "shown_status (o_conditions (cluster_setConditions now rd cl)) (c_type c) = Some (c_status c)"
proof -
  have "distinct (map c_type (fst (cluster_conditions now rd cl)))"
    by (simp add: cluster_conditions_types cluster_condition_types)
  from SetConditions_get_distinct [OF this assms, of now "o_conditions cl"] show ?thesis
    by (auto simp: shown_status_def cluster_setConditions_def Equal_def split: prod.splits)
qed

text \<open>The computed Ready condition, and the computed node conditions.\<close>

lemma deployed_status:
  "c_status (reconcileBootstrapResources now rd g (Some sec)) =
     (if resources_exist rd sec g then ConditionTrue else ConditionFalse)"
  by (auto simp: reconcileBootstrapResources_def resources_exist_def missing_resource_def condition_constructors
      split: sum.splits option.splits)

lemma kubeconfig_valid_status:
  assumes "getClusterSecretAndClientGetter rd cl = Inr (sec, g)"
  shows "kubeconfig_works rd cl =
     (if IsFalse (fst (reconcileKubeConfigValid now rd g)) then None else Some (sec, g))"
  using assms
  by (auto simp: getClusterSecretAndClientGetter_def kubeconfig_works_def reconcileKubeConfigValid_def
      GetSecretName_def IsFalse_def condition_constructors split: sum.splits)

lemma getter_None: "getClusterSecretAndClientGetter rd cl = Inl e \<Longrightarrow> kubeconfig_works rd cl = None"
  by (auto simp: getClusterSecretAndClientGetter_def kubeconfig_works_def GetSecretName_def split: sum.splits)

lemma kubeconfig_valid_not_unknown:
  "IsFalse (fst (reconcileKubeConfigValid now rd g)) \<or> IsTrue (fst (reconcileKubeConfigValid now rd g))"
  by (simp add: reconcileKubeConfigValid_def IsFalse_def IsTrue_def condition_constructors split: sum.splits)

lemma ready_computed:
  "c_status (hd (fst (cluster_conditions now rd cl))) =
     (case kubeconfig_works rd cl of
        None \<Rightarrow> ConditionFalse
      | Some (sec, g) \<Rightarrow> if resources_exist rd sec g then ConditionTrue else ConditionFalse)"
proof (cases "getClusterSecretAndClientGetter rd cl")
  case (Inl e)
  then show ?thesis
    by (simp add: getter_None cluster_conditions_def Let_def reconcileReadyStatus_def IsFalse_def condition_constructors)
next
  case (Inr p)
  obtain sec g where p: "p = (sec, g)" by (cases p)
  obtain kc v where kc: "reconcileKubeConfigValid now rd g = (kc, v)" by (cases "reconcileKubeConfigValid now rd g")
  show ?thesis
    using Inr p kc kubeconfig_valid_status [of rd cl sec g now] kubeconfig_valid_not_unknown [of now rd g]
      deployed_status [of now rd g sec]
    by (simp add: cluster_conditions_def Let_def reconcileReadyStatus_def IsFalse_def IsTrue_def condition_constructors
        split: prod.splits)
qed

lemma hd_ready: "hd (fst (cluster_conditions now rd cl)) \<in> set (fst (cluster_conditions now rd cl))
    \<and> c_type (hd (fst (cluster_conditions now rd cl))) = ReadyCondition"
  using cluster_conditions_types [of now rd cl] by (cases "fst (cluster_conditions now rd cl)") auto

text \<open>
  A Cluster is shown as Ready exactly when its kubeconfig works and the resources that Greenhouse
  manages in the remote cluster are there. The state of the nodes and the permissions do not matter.
\<close>

theorem cluster_ready_iff:
  "IsReadyTrue (o_conditions (cluster_setConditions now rd cl)) \<longleftrightarrow>
     (\<exists>sec g. kubeconfig_works rd cl = Some (sec, g) \<and> resources_exist rd sec g)"
  using cluster_conditions_shown [of "hd (fst (cluster_conditions now rd cl))" now rd cl] hd_ready [of now rd cl]
  by (auto simp: IsReadyTrue_shown ready_computed split: option.splits)

text \<open>
  When the nodes of a cluster can be listed, the shown counts are those of the worker nodes: the total,
  the ready ones, and the names of the others in the order of the list; ready and not ready add up to the
  total. AllNodesReady is True exactly when no worker is left out, and PayloadSchedulable exactly when at
  least one worker is ready.
\<close>

theorem cluster_nodes_account:
  assumes "kubeconfig_works rd cl = Some (sec, g)" and "cr_client rd g = Inr rc" and "rc_list_nodes rc = Inr items"
  shows "\<exists>n. cluster_nodes (cluster_setConditions now rd cl) = Some n
    \<and> n_total n = length (worker_nodes items)
    \<and> n_ready n = length (filter node_ready (worker_nodes items))
    \<and> map ns_name (n_notReady n) = map o_name (filter (\<lambda>nd. \<not> node_ready nd) (worker_nodes items))
    \<and> n_ready n + length (n_notReady n) = n_total n
    \<and> (shown_status (o_conditions (cluster_setConditions now rd cl)) AllNodesReady = Some ConditionTrue
         \<longleftrightarrow> list_all node_ready (worker_nodes items))
    \<and> (shown_status (o_conditions (cluster_setConditions now rd cl)) PayloadSchedulable = Some ConditionTrue
         \<longleftrightarrow> list_ex node_ready (worker_nodes items))"
proof -
  from assms(1) have acc: "getClusterSecretAndClientGetter rd cl = Inr (sec, g)"
    by (auto simp: kubeconfig_works_def getClusterSecretAndClientGetter_def GetSecretName_def split: sum.splits)
  obtain kc v where kc: "reconcileKubeConfigValid now rd g = (kc, v)" by (cases "reconcileKubeConfigValid now rd g")
  with kubeconfig_valid_status [OF acc, of now] assms(1) have valid: "\<not> IsFalse kc" by (simp split: if_splits)
  obtain cond cnt ready notReady where
    loop: "node_loop now items (TrueCondition now AllNodesReady [] [], 0, 0, []) = (cond, cnt, ready, notReady)"
    by (cases "node_loop now items (TrueCondition now AllNodesReady [] [], 0, 0, [])")
  let ?n = "\<lparr>n_total = cnt, n_ready = ready, n_notReady = notReady\<rparr>"
  have nodes: "reconcileNodeStatus now rd g = (cond, Some ?n)"
    using assms(2,3) loop by (simp add: reconcileNodeStatus_def)
  let ?ps = "if length notReady = cnt then FalseCondition now PayloadSchedulable [] ''all nodes are not ready''
             else TrueCondition now PayloadSchedulable [] []"
  have *: "cluster_nodes (cluster_setConditions now rd cl) = Some ?n
      \<and> cond \<in> set (fst (cluster_conditions now rd cl)) \<and> ?ps \<in> set (fst (cluster_conditions now rd cl))"
    using acc kc valid nodes by (simp add: cluster_setConditions_def cluster_conditions_def Let_def)
  note loop = node_loop_result [OF loop, unfolded condition_constructors, simplified]
  have notReady: "length notReady = length (filter (\<lambda>nd. \<not> node_ready nd) (worker_nodes items))"
    using loop by (metis length_map)
  have "c_type cond = AllNodesReady" "c_type ?ps = PayloadSchedulable"
    using loop by (simp_all add: condition_constructors)
  then have "shown_status (o_conditions (cluster_setConditions now rd cl)) AllNodesReady = Some (c_status cond)"
    "shown_status (o_conditions (cluster_setConditions now rd cl)) PayloadSchedulable = Some (c_status ?ps)"
    using cluster_conditions_shown [of cond now rd cl] cluster_conditions_shown [of ?ps now rd cl] * by metis+
  moreover have "length notReady = cnt \<longleftrightarrow> \<not> list_ex node_ready (worker_nodes items)"
    using loop notReady length_filter_not_all [of node_ready "worker_nodes items"] by simp
  ultimately show ?thesis
    using * loop notReady sum_length_filter_compl [of node_ready "worker_nodes items"]
    by (intro exI [of _ ?n]) (simp add: condition_constructors)
qed

text \<open>A remote cluster with a control plane node, a ready worker and a worker whose state is unknown.\<close>

definition sample_node :: "string \<Rightarrow> string smap \<Rightarrow> condition_status \<Rightarrow> node" where
  "sample_node n ls st =
     \<lparr>o_name = n, o_namespace = [], o_labels = ls, o_annotations = [], o_finalizers = [], o_deletionTimestamp = None,
      o_ownerReferences = [], nd_unschedulable = False,
      nd_conditions = [\<lparr>nc_type = ''Ready'', nc_status = st, nc_message = ''m'', nc_lastTransitionTime = 3\<rparr>]\<rparr>"

definition sample_remote :: remote_cluster where
  "sample_remote =
     \<lparr>rc_get_namespace = \<lambda>n. None, rc_get_serviceAccount = \<lambda>k. None, rc_get_clusterRoleBinding = \<lambda>n. None,
      rc_list_nodes = Inr [sample_node ''cp'' [(controlPlaneNodeLabel, [])] ConditionTrue,
        sample_node ''w1'' [] ConditionTrue, sample_node ''w2'' [] ConditionUnknown],
      rc_review = \<lambda>r. Inr True\<rparr>"

definition sample_status_reads :: "unit cluster_reads" where
  "sample_status_reads =
     \<lparr>cr_get_secret = \<lambda>k. Inr \<lparr>o_name = nn_name k, o_namespace = nn_namespace k, o_labels = [], o_annotations = [],
        o_finalizers = [], o_deletionTimestamp = None, o_ownerReferences = [], secret_type = [], secret_data = []\<rparr>,
      cr_clientGetter = \<lambda>s. Inr (), cr_version = \<lambda>g. Inr ''v1.31.0'', cr_client = \<lambda>g. Inr sample_remote,
      cr_get_team = \<lambda>k. Inl (ApiError ReasonNotFound ''not found'' [])\<rparr>"

definition status_cluster :: cluster where
  "status_cluster =
     \<lparr>o_name = ''eu'', o_namespace = ''org'', o_labels = [], o_annotations = [], o_finalizers = [],
      o_deletionTimestamp = None, o_ownerReferences = [], o_conditions = [], cluster_accessMode = ''direct'',
      cluster_maxTokenValidity = 72, cluster_kubernetesVersion = [], cluster_bearerTokenExpiration = 0,
      cluster_nodes = None\<rparr>"

text \<open>
  The worker \<open>w2\<close> is counted as not ready although its condition is Unknown and not False, as the comment
  on \<open>getNodeStatusIfNodeNotReady\<close> asks for.
\<close>

theorem cluster_nodes_account_witness:
  "\<exists>n. cluster_nodes (cluster_setConditions 9 sample_status_reads status_cluster) = Some n \<and> n_total n = 2
     \<and> n_ready n = 1 \<and> map ns_name (n_notReady n) = [''w2'']"
proof -
  obtain sec where k: "kubeconfig_works sample_status_reads status_cluster = Some (sec, ())"
    by (simp add: kubeconfig_works_def sample_status_reads_def)
  let ?items = "[sample_node ''cp'' [(controlPlaneNodeLabel, [])] ConditionTrue,
        sample_node ''w1'' [] ConditionTrue, sample_node ''w2'' [] ConditionUnknown]"
  have "worker_nodes ?items = [sample_node ''w1'' [] ConditionTrue, sample_node ''w2'' [] ConditionUnknown]"
    by (simp add: worker_nodes_def sample_node_def smap_get_def)
  moreover have "node_ready (sample_node ''w1'' [] ConditionTrue)" "\<not> node_ready (sample_node ''w2'' [] ConditionUnknown)"
    by (simp_all add: node_ready_def sample_node_def)
  moreover have "cr_client sample_status_reads () = Inr sample_remote" "rc_list_nodes sample_remote = Inr ?items"
    by (simp_all add: sample_status_reads_def sample_remote_def)
  ultimately show ?thesis
    using cluster_nodes_account [OF k, of sample_remote ?items 9] by (auto simp: sample_node_def)
qed

text \<open>
  A cluster without worker nodes, such as a control plane that schedules payloads itself: no node is left
  out, all nodes count as ready, and still no payload is schedulable.
\<close>

lemma no_workers_not_schedulable:
  assumes "cr_client rd g = Inr rc" and "rc_list_nodes rc = Inr items" and "worker_nodes items = []"
  shows "\<exists>cond n. reconcileNodeStatus now rd g = (cond, Some n) \<and> c_status cond = ConditionTrue
    \<and> length (n_notReady n) = n_total n"
  using assms node_loop_result [of now items "TrueCondition now AllNodesReady [] []" 0 0 "[]"]
  by (auto simp: reconcileNodeStatus_def condition_constructors split: prod.splits)

end
