(* ===== verification/Client_Getter.thy ===== *)
theory Client_Getter
  imports Core_Types
begin

text \<open>
  Access to clusters (\<open>internal/clientutil/client_getter.go\<close>, \<open>config.go\<close>, \<open>client.go\<close>, \<open>util.go\<close>): the
  \<open>RestClientGetter\<close> gives the REST configuration, the discovery client and the REST mapper of a cluster,
  from a kubeconfig in a secret, from the bytes of a kubeconfig, or from a configuration in memory, and may
  keep what it has built. The kubeconfig library (\<open>k8s.io/client-go/tools/clientcmd\<close>) and the construction
  of discovery clients are parameters. Each method returns the getter after the call, because the Go methods
  fill its caches and write through the pointer to its REST configuration. Locking is left out.
\<close>

section \<open>Kubeconfigs\<close>

record api_cluster =
  ac_server :: string
  ac_caData :: string
  ac_tlsServerName :: string
  ac_proxyURL :: string

record api_context =
  ax_cluster :: string
  ax_authInfo :: string
  ax_namespace :: string

record api_authInfo =
  aa_token :: string
  aa_clientCertData :: string
  aa_clientKeyData :: string

record api_config =
  cfg_clusters :: "api_cluster smap"
  cfg_contexts :: "api_context smap"
  cfg_authInfos :: "api_authInfo smap"
  cfg_currentContext :: string

record rest_config =
  rest_host :: string
  rest_caData :: string
  rest_bearerToken :: string
  rest_QPS :: int
  rest_burst :: int

text \<open>Of \<open>clientcmd.ConfigOverrides\<close> the operator sets the namespace; the other overrides are opaque.\<close>

record config_overrides =
  ov_namespace :: string
  ov_other :: string

text \<open>
  The library: \<open>cc_load\<close> parses a kubeconfig, \<open>cc_write\<close> prints one, \<open>cc_clientConfig\<close> is the deferred
  loading of a client configuration from the result of a loader, \<open>cc_defaultConfig\<close> the one with the default
  loading rules.
\<close>

record clientcmd_lib =
  cc_load :: "string \<Rightarrow> go_error + api_config"
  cc_write :: "api_config \<Rightarrow> go_error + string"
  cc_clientConfig :: "go_error + api_config \<Rightarrow> config_overrides \<Rightarrow> go_error + rest_config"
  cc_defaultConfig :: "config_overrides \<Rightarrow> go_error + rest_config"

definition ValidateSecretForKubeConfig :: "secret \<Rightarrow> go_error option" where
  "ValidateSecretForKubeConfig sec =
     (if secret_type sec \<noteq> SecretTypeKubeConfig \<and> secret_type sec \<noteq> SecretTypeOIDCConfig
      then Some (PlainError (''secret '' @ o_namespace sec @ ''/'' @ o_name sec @ '' is not of type '' @ SecretTypeKubeConfig))
      else if \<not> IsSecretContainsKey sec GreenHouseKubeConfigKey \<and> \<not> IsSecretContainsKey sec KubeConfigKey
      then Some (PlainError (''secret '' @ o_namespace sec @ ''/'' @ o_name sec @ '' does not contain a kubeconfig''))
      else None)"

definition kubeConfigGetterFromBytes :: "clientcmd_lib \<Rightarrow> string \<Rightarrow> go_error + api_config" where
  "kubeConfigGetterFromBytes lib bytes = cc_load lib bytes"

definition kubeConfigGetterFromSecret :: "clientcmd_lib \<Rightarrow> secret \<Rightarrow> go_error + api_config" where
  "kubeConfigGetterFromSecret lib sec =
     (case ValidateSecretForKubeConfig sec of
        Some e \<Rightarrow> Inl e
      | None \<Rightarrow>
          if IsSecretContainsKey sec GreenHouseKubeConfigKey
          then kubeConfigGetterFromBytes lib (smap_val (secret_data sec) GreenHouseKubeConfigKey)
          else if IsSecretContainsKey sec KubeConfigKey
          then kubeConfigGetterFromBytes lib (smap_val (secret_data sec) KubeConfigKey)
          else Inl (PlainError (''secret '' @ o_namespace sec @ ''/'' @ o_name sec @ '' does not contain a kubeconfig'')))"

text \<open>\<open>ClientConfigGetter\<close>: a loader made from bytes or from a secret; its only method with effect is \<open>Load\<close>.\<close>

datatype config_getter = FromBytes string | FromSecret secret

definition NewClientConfigLoaderFromBytes :: "string \<Rightarrow> config_getter" where
  "NewClientConfigLoaderFromBytes bytes = FromBytes bytes"

definition NewClientConfigLoaderFromSecret :: "secret \<Rightarrow> config_getter" where
  "NewClientConfigLoaderFromSecret sec = FromSecret sec"

fun Load :: "clientcmd_lib \<Rightarrow> config_getter \<Rightarrow> go_error + api_config" where
  "Load lib (FromBytes bytes) = kubeConfigGetterFromBytes lib bytes"
| "Load lib (FromSecret sec) = kubeConfigGetterFromSecret lib sec"

section \<open>The getter\<close>

record runtime_options =
  opt_QPS :: int
  opt_burst :: int

text \<open>A client configuration: with the default loading rules, or with a loader of the operator.\<close>

datatype client_config = DefaultLoading config_overrides | DeferredLoading config_getter config_overrides

text \<open>The cached discovery client has type \<open>'d\<close>, the REST mapper type \<open>'m\<close>. QPS values are only copied.\<close>

record ('d, 'm) rest_client_getter =
  g_namespace :: string
  g_configGetter :: "config_getter option"
  g_restConfig :: "rest_config option"
  g_persistent :: bool
  g_discoveryBurst :: int
  g_discoveryQPS :: int
  g_runtimeOpts :: "runtime_options option"
  g_overrides :: "config_overrides option"
  g_clientConfig :: "client_config option"
  g_restMapper :: "'m option"
  g_discoveryClient :: "'d option"

type_synonym ('d, 'm) client_option = "('d, 'm) rest_client_getter \<Rightarrow> ('d, 'm) rest_client_getter"

definition WithDiscoveryOpts :: "int \<Rightarrow> int \<Rightarrow> ('d, 'm) client_option" where
  "WithDiscoveryOpts qps burst cg = cg\<lparr>g_discoveryQPS := qps, g_discoveryBurst := burst\<rparr>"

definition WithRuntimeOptions :: "runtime_options \<Rightarrow> ('d, 'm) client_option" where
  "WithRuntimeOptions opts cg = cg\<lparr>g_runtimeOpts := Some opts\<rparr>"

definition WithOverrides :: "config_overrides \<Rightarrow> ('d, 'm) client_option" where
  "WithOverrides ov cg = cg\<lparr>g_overrides := Some ov\<rparr>"

definition WithPersistentConfig :: "('d, 'm) client_option" where
  "WithPersistentConfig cg = cg\<lparr>g_persistent := True\<rparr>"

definition new_getter ::
  "config_getter option \<Rightarrow> rest_config option \<Rightarrow> string \<Rightarrow> ('d, 'm) client_option list \<Rightarrow> ('d, 'm) rest_client_getter" where
  "new_getter loader cfg namespace opts =
     fold (\<lambda>opt cg. opt cg) opts
       \<lparr>g_namespace = namespace, g_configGetter = loader, g_restConfig = cfg, g_persistent = False,
        g_discoveryBurst = 300, g_discoveryQPS = 0, g_runtimeOpts = None, g_overrides = None,
        g_clientConfig = None, g_restMapper = None, g_discoveryClient = None\<rparr>"

definition NewRestClientGetterFromRestConfig ::
  "rest_config \<Rightarrow> string \<Rightarrow> ('d, 'm) client_option list \<Rightarrow> ('d, 'm) rest_client_getter" where
  "NewRestClientGetterFromRestConfig cfg namespace opts =
     new_getter None (Some cfg) (if namespace = [] then ''default'' else namespace) opts"

text \<open>\<open>ctrl.GetConfig\<close> is the parameter \<open>in_cluster\<close>.\<close>

definition NewRestClientGetterForInCluster ::
  "(go_error + rest_config) \<Rightarrow> string \<Rightarrow> ('d, 'm) client_option list \<Rightarrow> go_error + ('d, 'm) rest_client_getter" where
  "NewRestClientGetterForInCluster in_cluster namespace opts =
     (case in_cluster of Inl e \<Rightarrow> Inl e | Inr cfg \<Rightarrow> Inr (new_getter None (Some cfg) namespace opts))"

definition NewRestClientGetterFromSecret ::
  "secret \<Rightarrow> string \<Rightarrow> ('d, 'm) client_option list \<Rightarrow> go_error + ('d, 'm) rest_client_getter" where
  "NewRestClientGetterFromSecret sec namespace opts =
     (case ValidateSecretForKubeConfig sec of
        Some e \<Rightarrow> Inl e
      | None \<Rightarrow> Inr (new_getter (Some (NewClientConfigLoaderFromSecret sec)) None
                       (if namespace = [] then ''default'' else namespace) opts))"

definition NewRestClientGetterFromBytes ::
  "string \<Rightarrow> string \<Rightarrow> ('d, 'm) client_option list \<Rightarrow> ('d, 'm) rest_client_getter" where
  "NewRestClientGetterFromBytes config namespace opts =
     new_getter (Some (NewClientConfigLoaderFromBytes config)) None
       (if namespace = [] then ''default'' else namespace) opts"

definition toRawKubeConfigLoader :: "('d, 'm) rest_client_getter \<Rightarrow> client_config" where
  "toRawKubeConfigLoader cg =
     (case g_configGetter cg of
        None \<Rightarrow> DefaultLoading \<lparr>ov_namespace = g_namespace cg, ov_other = ''ClusterDefaults''\<rparr>
      | Some loader \<Rightarrow>
          DeferredLoading loader
            (case g_overrides cg of
               Some ov \<Rightarrow> ov
             | None \<Rightarrow> \<lparr>ov_namespace = g_namespace cg, ov_other = []\<rparr>))"

definition toPersistentRawKubeConfigLoader ::
  "('d, 'm) rest_client_getter \<Rightarrow> client_config \<times> ('d, 'm) rest_client_getter" where
  "toPersistentRawKubeConfigLoader cg =
     (case g_clientConfig cg of
        Some cc \<Rightarrow> (cc, cg)
      | None \<Rightarrow> (let cc = toRawKubeConfigLoader cg in (cc, cg\<lparr>g_clientConfig := Some cc\<rparr>)))"

definition ToRawKubeConfigLoader ::
  "('d, 'm) rest_client_getter \<Rightarrow> client_config \<times> ('d, 'm) rest_client_getter" where
  "ToRawKubeConfigLoader cg =
     (if g_persistent cg then toPersistentRawKubeConfigLoader cg else (toRawKubeConfigLoader cg, cg))"

fun ClientConfig :: "clientcmd_lib \<Rightarrow> client_config \<Rightarrow> go_error + rest_config" where
  "ClientConfig lib (DefaultLoading ov) = cc_defaultConfig lib ov"
| "ClientConfig lib (DeferredLoading loader ov) = cc_clientConfig lib (Load lib loader) ov"

definition apply_runtimeOpts :: "runtime_options option \<Rightarrow> rest_config \<Rightarrow> rest_config" where
  "apply_runtimeOpts opts cfg =
     (case opts of None \<Rightarrow> cfg | Some ro \<Rightarrow> cfg\<lparr>rest_QPS := opt_QPS ro, rest_burst := opt_burst ro\<rparr>)"

definition ToRESTConfig ::
  "clientcmd_lib \<Rightarrow> ('d, 'm) rest_client_getter \<Rightarrow> (go_error + rest_config) \<times> ('d, 'm) rest_client_getter" where
  "ToRESTConfig lib cg =
     (case g_restConfig cg of
        Some cfg \<Rightarrow>
          (let cfg' = apply_runtimeOpts (g_runtimeOpts cg) cfg in (Inr cfg', cg\<lparr>g_restConfig := Some cfg'\<rparr>))
      | None \<Rightarrow>
          (case ToRawKubeConfigLoader cg of
             (cc, cg') \<Rightarrow>
               (case ClientConfig lib cc of
                  Inl e \<Rightarrow> (Inl (WrapError ''RestClientGetter has no valid KubeConfig'' e), cg')
                | Inr cfg \<Rightarrow> (Inr (apply_runtimeOpts (g_runtimeOpts cg) cfg), cg'))))"

text \<open>
  The limits for discovery are written to the configuration \<open>ToRESTConfig\<close> returned, which is the stored one
  when the getter was made from a configuration in memory.
\<close>

definition toDiscoveryClient ::
  "clientcmd_lib \<Rightarrow> (rest_config \<Rightarrow> go_error + 'd) \<Rightarrow> ('d, 'm) rest_client_getter
     \<Rightarrow> (go_error + 'd) \<times> ('d, 'm) rest_client_getter" where
  "toDiscoveryClient lib newDiscovery cg =
     (case ToRESTConfig lib cg of
        (Inl e, cg1) \<Rightarrow> (Inl e, cg1)
      | (Inr cfg, cg1) \<Rightarrow>
          (let cfg' = cfg\<lparr>rest_burst := g_discoveryBurst cg1, rest_QPS := g_discoveryQPS cg1\<rparr>;
               cg2 = (case g_restConfig cg1 of None \<Rightarrow> cg1 | Some _ \<Rightarrow> cg1\<lparr>g_restConfig := Some cfg'\<rparr>)
           in (newDiscovery cfg', cg2)))"

definition toPersistentDiscoveryClient ::
  "clientcmd_lib \<Rightarrow> (rest_config \<Rightarrow> go_error + 'd) \<Rightarrow> ('d, 'm) rest_client_getter
     \<Rightarrow> (go_error + 'd) \<times> ('d, 'm) rest_client_getter" where
  "toPersistentDiscoveryClient lib newDiscovery cg =
     (case g_discoveryClient cg of
        Some dc \<Rightarrow> (Inr dc, cg)
      | None \<Rightarrow>
          (case toDiscoveryClient lib newDiscovery cg of
             (Inl e, cg1) \<Rightarrow> (Inl e, cg1)
           | (Inr dc, cg1) \<Rightarrow> (Inr dc, cg1\<lparr>g_discoveryClient := Some dc\<rparr>)))"

definition ToDiscoveryClient ::
  "clientcmd_lib \<Rightarrow> (rest_config \<Rightarrow> go_error + 'd) \<Rightarrow> ('d, 'm) rest_client_getter
     \<Rightarrow> (go_error + 'd) \<times> ('d, 'm) rest_client_getter" where
  "ToDiscoveryClient lib newDiscovery cg =
     (if g_persistent cg then toPersistentDiscoveryClient lib newDiscovery cg else toDiscoveryClient lib newDiscovery cg)"

definition toRESTMapper ::
  "clientcmd_lib \<Rightarrow> (rest_config \<Rightarrow> go_error + 'd) \<Rightarrow> ('d \<Rightarrow> 'm) \<Rightarrow> ('d, 'm) rest_client_getter
     \<Rightarrow> (go_error + 'm) \<times> ('d, 'm) rest_client_getter" where
  "toRESTMapper lib newDiscovery newMapper cg =
     (case ToDiscoveryClient lib newDiscovery cg of
        (Inl e, cg1) \<Rightarrow> (Inl e, cg1)
      | (Inr dc, cg1) \<Rightarrow> (Inr (newMapper dc), cg1))"

definition toPersistentRESTMapper ::
  "clientcmd_lib \<Rightarrow> (rest_config \<Rightarrow> go_error + 'd) \<Rightarrow> ('d \<Rightarrow> 'm) \<Rightarrow> ('d, 'm) rest_client_getter
     \<Rightarrow> (go_error + 'm) \<times> ('d, 'm) rest_client_getter" where
  "toPersistentRESTMapper lib newDiscovery newMapper cg =
     (case g_restMapper cg of
        Some m \<Rightarrow> (Inr m, cg)
      | None \<Rightarrow>
          (case toRESTMapper lib newDiscovery newMapper cg of
             (Inl e, cg1) \<Rightarrow> (Inl e, cg1)
           | (Inr m, cg1) \<Rightarrow> (Inr m, cg1\<lparr>g_restMapper := Some m\<rparr>)))"

definition ToRESTMapper ::
  "clientcmd_lib \<Rightarrow> (rest_config \<Rightarrow> go_error + 'd) \<Rightarrow> ('d \<Rightarrow> 'm) \<Rightarrow> ('d, 'm) rest_client_getter
     \<Rightarrow> (go_error + 'm) \<times> ('d, 'm) rest_client_getter" where
  "ToRESTMapper lib newDiscovery newMapper cg =
     (if g_persistent cg then toPersistentRESTMapper lib newDiscovery newMapper cg
      else toRESTMapper lib newDiscovery newMapper cg)"

text \<open>\<open>NewK8sClient\<close> registers the schemes and creates the client; it is the parameter \<open>new_client\<close>.\<close>

definition NewK8sClientFromRestClientGetter ::
  "clientcmd_lib \<Rightarrow> (rest_config \<Rightarrow> go_error + 'c) \<Rightarrow> ('d, 'm) rest_client_getter \<Rightarrow> go_error + 'c" where
  "NewK8sClientFromRestClientGetter lib new_client cg =
     (case fst (ToRESTConfig lib cg) of Inl e \<Rightarrow> Inl e | Inr cfg \<Rightarrow> new_client cfg)"

definition NewK8sClientFromCluster ::
  "clientcmd_lib \<Rightarrow> (rest_config \<Rightarrow> go_error + 'c) \<Rightarrow> (namespaced_name \<Rightarrow> go_error + secret) \<Rightarrow> cluster \<Rightarrow> go_error + 'c" where
  "NewK8sClientFromCluster lib new_client get_secret cl =
     (case get_secret \<lparr>nn_namespace = o_namespace cl, nn_name = GetSecretName cl\<rparr> of
        Inl e \<Rightarrow> Inl e
      | Inr sec \<Rightarrow>
          (case (NewRestClientGetterFromSecret sec (o_namespace cl) [WithPersistentConfig]
                   :: go_error + (unit, unit) rest_client_getter) of
             Inl e \<Rightarrow> Inl e
           | Inr cg \<Rightarrow> NewK8sClientFromRestClientGetter lib new_client cg))"

section \<open>Values of secrets\<close>

text \<open>\<open>strings.TrimRight(s, "\n")\<close>.\<close>

definition TrimNewlines :: "string \<Rightarrow> string" where
  "TrimNewlines s = rev (dropWhile (\<lambda>c. c = CHR 0x0A) (rev s))"

definition GetSecretKeyFromSecretKeyReference ::
  "(namespaced_name \<Rightarrow> go_error + secret) \<Rightarrow> string \<Rightarrow> secret_key_reference \<Rightarrow> go_error + string" where
  "GetSecretKeyFromSecretKeyReference get_secret namespace ref =
     (case get_secret \<lparr>nn_namespace = namespace, nn_name = sk_name ref\<rparr> of
        Inl e \<Rightarrow> Inl e
      | Inr sec \<Rightarrow>
          (case smap_get (secret_data sec) (sk_key ref) of
             Some v \<Rightarrow> Inr (TrimNewlines v)
           | None \<Rightarrow> Inl (PlainError (''secret '' @ namespace @ ''/'' @ sk_name ref @ '' does not contain key '' @ sk_key ref))))"


section \<open>Sequences of calls\<close>

text \<open>The getters that calls of the methods lead to.\<close>

inductive getter_calls ::
  "clientcmd_lib \<Rightarrow> (rest_config \<Rightarrow> go_error + 'd) \<Rightarrow> ('d \<Rightarrow> 'm) \<Rightarrow> ('d, 'm) rest_client_getter
     \<Rightarrow> ('d, 'm) rest_client_getter \<Rightarrow> bool" for lib nd nm cg where
  calls_none: "getter_calls lib nd nm cg cg"
| calls_raw: "getter_calls lib nd nm cg cg1 \<Longrightarrow> getter_calls lib nd nm cg (snd (ToRawKubeConfigLoader cg1))"
| calls_rest: "getter_calls lib nd nm cg cg1 \<Longrightarrow> getter_calls lib nd nm cg (snd (ToRESTConfig lib cg1))"
| calls_discovery: "getter_calls lib nd nm cg cg1 \<Longrightarrow> getter_calls lib nd nm cg (snd (ToDiscoveryClient lib nd cg1))"
| calls_mapper: "getter_calls lib nd nm cg cg1 \<Longrightarrow> getter_calls lib nd nm cg (snd (ToRESTMapper lib nd nm cg1))"

text \<open>What every method keeps: the source of the configuration, and caches that agree with it.\<close>

definition same_source :: "('d, 'm) rest_client_getter \<Rightarrow> ('d, 'm) rest_client_getter \<Rightarrow> bool" where
  "same_source cg cg' \<longleftrightarrow>
     g_restConfig cg = None \<and> g_restConfig cg' = None \<and>
     toRawKubeConfigLoader cg' = toRawKubeConfigLoader cg \<and>
     g_runtimeOpts cg' = g_runtimeOpts cg \<and>
     (g_clientConfig cg' = None \<or> g_clientConfig cg' = Some (toRawKubeConfigLoader cg)) \<and>
     (g_discoveryClient cg \<noteq> None \<longrightarrow> g_discoveryClient cg' = g_discoveryClient cg)"

lemma raw_loader_cong:
  "g_configGetter cg' = g_configGetter cg \<Longrightarrow> g_namespace cg' = g_namespace cg \<Longrightarrow> g_overrides cg' = g_overrides cg
     \<Longrightarrow> toRawKubeConfigLoader cg' = toRawKubeConfigLoader cg"
  by (simp add: toRawKubeConfigLoader_def split: option.split)

lemma raw_loader_caches [simp]:
  "toRawKubeConfigLoader (cg\<lparr>g_clientConfig := a\<rparr>) = toRawKubeConfigLoader cg"
  "toRawKubeConfigLoader (cg\<lparr>g_discoveryClient := b\<rparr>) = toRawKubeConfigLoader cg"
  "toRawKubeConfigLoader (cg\<lparr>g_restMapper := c\<rparr>) = toRawKubeConfigLoader cg"
  by (rule raw_loader_cong; simp)+

lemma same_source_caches [simp]:
  "same_source cg (cg'\<lparr>g_restMapper := c\<rparr>) = same_source cg cg'"
  "g_discoveryClient cg = None \<Longrightarrow> same_source cg (cg'\<lparr>g_discoveryClient := b\<rparr>) = same_source cg cg'"
  by (auto simp: same_source_def)

lemma raw_source:
  assumes "same_source cg cg1"
  shows "fst (ToRawKubeConfigLoader cg1) = toRawKubeConfigLoader cg"
    and "same_source cg (snd (ToRawKubeConfigLoader cg1))"
  using assms
  by (auto simp: same_source_def ToRawKubeConfigLoader_def toPersistentRawKubeConfigLoader_def Let_def
      split: option.splits)

lemma rest_source:
  assumes "same_source cg cg1"
  shows "fst (ToRESTConfig lib cg1) =
      (case ClientConfig lib (toRawKubeConfigLoader cg) of
         Inl e \<Rightarrow> Inl (WrapError ''RestClientGetter has no valid KubeConfig'' e)
       | Inr cfg \<Rightarrow> Inr (apply_runtimeOpts (g_runtimeOpts cg) cfg))"
    and "same_source cg (snd (ToRESTConfig lib cg1))"
    and "snd (ToRESTConfig lib cg1) = snd (ToRawKubeConfigLoader cg1)"
proof -
  obtain cc cg2 where raw: "ToRawKubeConfigLoader cg1 = (cc, cg2)" by (rule prod.exhaust)
  have facts: "cc = toRawKubeConfigLoader cg" "same_source cg cg2" "g_restConfig cg1 = None"
      "g_runtimeOpts cg1 = g_runtimeOpts cg"
    using raw_source [OF assms] raw assms by (simp_all add: same_source_def)
  show "fst (ToRESTConfig lib cg1) = (case ClientConfig lib (toRawKubeConfigLoader cg) of
         Inl e \<Rightarrow> Inl (WrapError ''RestClientGetter has no valid KubeConfig'' e)
       | Inr cfg \<Rightarrow> Inr (apply_runtimeOpts (g_runtimeOpts cg) cfg))"
    using facts raw by (simp add: ToRESTConfig_def split: sum.split)
  show "snd (ToRESTConfig lib cg1) = snd (ToRawKubeConfigLoader cg1)"
    using facts raw by (simp add: ToRESTConfig_def split: sum.split)
  then show "same_source cg (snd (ToRESTConfig lib cg1))" using facts raw by simp
qed

lemma raw_discovery [simp]: "g_discoveryClient (snd (ToRawKubeConfigLoader cg)) = g_discoveryClient cg"
  by (simp add: ToRawKubeConfigLoader_def toPersistentRawKubeConfigLoader_def Let_def split: option.split)

lemma discovery_source:
  assumes src: "same_source cg cg1"
  shows "same_source cg (snd (ToDiscoveryClient lib nd cg1))"
proof -
  obtain r cg2 where rest: "ToRESTConfig lib cg1 = (r, cg2)" by (rule prod.exhaust)
  have src2: "same_source cg cg2" "g_restConfig cg2 = None"
    using rest_source(2) [OF src, of lib] rest by (simp_all add: same_source_def)
  have plain: "snd (toDiscoveryClient lib nd cg1) = cg2"
    using rest src2 by (simp add: toDiscoveryClient_def Let_def split: sum.split)
  show ?thesis
  proof (cases "g_persistent cg1 \<and> g_discoveryClient cg1 = None")
    case True
    then have "g_discoveryClient cg = None" using src by (auto simp: same_source_def)
    moreover obtain d where "toDiscoveryClient lib nd cg1 = (d, cg2)" using plain by (metis prod.collapse)
    ultimately show ?thesis
      using True src2 by (simp add: ToDiscoveryClient_def toPersistentDiscoveryClient_def split: sum.split)
  next
    case False
    then show ?thesis
      using src src2 plain
      by (auto simp: ToDiscoveryClient_def toPersistentDiscoveryClient_def split: option.split)
  qed
qed

lemma mapper_source:
  assumes src: "same_source cg cg1"
  shows "same_source cg (snd (ToRESTMapper lib nd nm cg1))"
proof -
  obtain d cg2 where dc: "ToDiscoveryClient lib nd cg1 = (d, cg2)" by (rule prod.exhaust)
  with discovery_source [OF src, of lib nd] have "same_source cg cg2" by simp
  with src dc show ?thesis
    by (simp add: ToRESTMapper_def toPersistentRESTMapper_def toRESTMapper_def split: option.split sum.split)
qed

lemma calls_source:
  assumes "getter_calls lib nd nm cg cg'" and "same_source cg cg"
  shows "same_source cg cg'"
  using assms by induction (simp_all add: raw_source(2) rest_source(2) discovery_source mapper_source)

lemma valid_secret_config:
  assumes "ValidateSecretForKubeConfig sec = None"
  shows "kubeConfigGetterFromSecret lib sec =
    cc_load lib (smap_val (secret_data sec)
      (if IsSecretContainsKey sec GreenHouseKubeConfigKey then GreenHouseKubeConfigKey else KubeConfigKey))"
  using assms
  by (auto simp: kubeConfigGetterFromSecret_def kubeConfigGetterFromBytes_def ValidateSecretForKubeConfig_def
      split: if_splits)

text \<open>
  A getter made from the secret of a cluster gives the same REST configuration whatever was asked of it
  before, cached or not: the one of the kubeconfig Greenhouse generated if the secret has it and otherwise of
  the kubeconfig the user provided, in the given namespace or, if that is empty, in the namespace
  \<open>default\<close>.
\<close>

theorem secret_getter_stable:
  fixes cg cg' :: "('d, 'm) rest_client_getter"
  assumes "NewRestClientGetterFromSecret sec namespace (if persistent then [WithPersistentConfig] else []) = Inr cg"
    and "getter_calls lib nd nm cg cg'"
  shows "fst (ToRESTConfig lib cg') =
    (case cc_clientConfig lib
            (cc_load lib (smap_val (secret_data sec)
               (if IsSecretContainsKey sec GreenHouseKubeConfigKey then GreenHouseKubeConfigKey else KubeConfigKey)))
            \<lparr>ov_namespace = (if namespace = [] then ''default'' else namespace), ov_other = []\<rparr> of
       Inl e \<Rightarrow> Inl (WrapError ''RestClientGetter has no valid KubeConfig'' e)
     | Inr cfg \<Rightarrow> Inr cfg)"
proof -
  have valid: "ValidateSecretForKubeConfig sec = None"
    using assms(1) by (simp add: NewRestClientGetterFromSecret_def split: option.splits)
  have fields: "same_source cg cg" "g_runtimeOpts cg = None"
      "toRawKubeConfigLoader cg = DeferredLoading (FromSecret sec)
           \<lparr>ov_namespace = (if namespace = [] then ''default'' else namespace), ov_other = []\<rparr>"
    using assms(1)
    by (auto simp: NewRestClientGetterFromSecret_def new_getter_def same_source_def toRawKubeConfigLoader_def
        NewClientConfigLoaderFromSecret_def WithPersistentConfig_def valid split: if_splits)
  show ?thesis
    unfolding rest_source(1) [OF calls_source [OF assms(2) fields(1)], of lib]
    by (simp add: fields valid_secret_config [OF valid] apply_runtimeOpts_def split: sum.split)
qed

definition demo_lib :: clientcmd_lib where
  "demo_lib =
     \<lparr>cc_load = (\<lambda>b. if b = [] then Inl (PlainError ''empty'')
         else Inr \<lparr>cfg_clusters = [(''c'', \<lparr>ac_server = b, ac_caData = ''ca'', ac_tlsServerName = [], ac_proxyURL = []\<rparr>)],
                   cfg_contexts = [], cfg_authInfos = [], cfg_currentContext = ''c''\<rparr>),
      cc_write = (\<lambda>cfg. Inr (cfg_currentContext cfg)),
      cc_clientConfig = (\<lambda>r ov. case r of Inl e \<Rightarrow> Inl e
         | Inr cfg \<Rightarrow> (case cfg_clusters cfg of [] \<Rightarrow> Inl (PlainError ''no cluster'')
             | c # _ \<Rightarrow> Inr \<lparr>rest_host = ac_server (snd c), rest_caData = ac_caData (snd c), rest_bearerToken = ''t'',
                             rest_QPS = 0, rest_burst = 0\<rparr>)),
      cc_defaultConfig = (\<lambda>_. Inl (PlainError ''no default''))\<rparr>"

definition demo_secret :: "string smap \<Rightarrow> secret" where
  "demo_secret d = \<lparr>o_name = ''eu-1'', o_namespace = ''org'', o_labels = [], o_annotations = [], o_finalizers = [],
     o_deletionTimestamp = None, o_ownerReferences = [], secret_type = SecretTypeKubeConfig, secret_data = d\<rparr>"

theorem secret_getter_stable_witness:
  "\<exists>cg :: (unit, unit) rest_client_getter.
     NewRestClientGetterFromSecret (demo_secret [(KubeConfigKey, ''user''), (GreenHouseKubeConfigKey, ''own'')]) []
       [WithPersistentConfig] = Inr cg \<and>
     map_sum id rest_host (fst (ToRESTConfig demo_lib (snd (ToDiscoveryClient demo_lib (\<lambda>_. Inr ()) cg)))) = Inr ''own''"
proof -
  let ?sec = "demo_secret [(KubeConfigKey, ''user''), (GreenHouseKubeConfigKey, ''own'')]"
  obtain cg :: "(unit, unit) rest_client_getter" where cg:
      "NewRestClientGetterFromSecret ?sec [] (if True then [WithPersistentConfig] else []) = Inr cg"
    by (auto simp: NewRestClientGetterFromSecret_def ValidateSecretForKubeConfig_def demo_secret_def
        IsSecretContainsKey_def smap_get_def)
  have "getter_calls demo_lib (\<lambda>_. Inr ()) (\<lambda>_. ()) cg (snd (ToDiscoveryClient demo_lib (\<lambda>_. Inr ()) cg))"
    by (intro getter_calls.intros)
  from secret_getter_stable [OF cg this] cg show ?thesis
    by (auto simp: demo_lib_def demo_secret_def IsSecretContainsKey_def smap_get_def smap_val_def
        KubeConfigKey_def GreenHouseKubeConfigKey_def)
qed

text \<open>
  A getter made from a configuration in memory shares it with its callers: asking for a discovery client
  overwrites the request limits of the configuration that \<open>ToRESTConfig\<close> returns from then on, unless
  runtime options restore them.
\<close>

theorem discovery_overwrites_limits:
  "fst (ToRESTConfig lib (snd (ToDiscoveryClient lib nd
     (NewRestClientGetterFromRestConfig cfg namespace [] :: ('d, 'm) rest_client_getter))))
   = Inr (cfg\<lparr>rest_QPS := 0, rest_burst := 300\<rparr>)"
  by (simp add: NewRestClientGetterFromRestConfig_def new_getter_def ToDiscoveryClient_def toDiscoveryClient_def
      ToRESTConfig_def apply_runtimeOpts_def Let_def)

text \<open>A value read through a reference to a secret has no trailing line breaks.\<close>

lemma TrimNewlines_last: "TrimNewlines s = [] \<or> last (TrimNewlines s) \<noteq> CHR 0x0A"
  using hd_dropWhile [of "\<lambda>c. c = CHR 0x0A" "rev s"] by (auto simp: TrimNewlines_def last_rev)

end
