(* ===== verification/Base64.thy ===== *)
theory Base64
  imports Greenhouse_Prelude
begin

text \<open>
  \<open>base64.StdEncoding\<close>, which the operator uses for certificates in secrets and, through \<open>encoding/json\<close>, for
  byte slices. Bytes are characters.
\<close>

definition base64_symbol :: "nat \<Rightarrow> char" where
  "base64_symbol n =
     (if n < 26 then char_of (65 + n) else if n < 52 then char_of (71 + n) else if n < 62 then char_of (n - 4)
      else if n = 62 then CHR ''+'' else CHR ''/'')"

definition base64_value :: "char \<Rightarrow> nat option" where
  "base64_value c =
     (let n = of_char c :: nat
      in if 65 \<le> n \<and> n \<le> 90 then Some (n - 65) else if 97 \<le> n \<and> n \<le> 122 then Some (n - 71)
         else if 48 \<le> n \<and> n \<le> 57 then Some (n + 4) else if n = 43 then Some 62 else if n = 47 then Some 63
         else None)"

fun EncodeToString64 :: "string \<Rightarrow> string" where
  "EncodeToString64 [] = []"
| "EncodeToString64 [a] =
     (let x = of_char a :: nat
      in [base64_symbol (x div 4), base64_symbol (x mod 4 * 16), CHR ''='', CHR ''=''])"
| "EncodeToString64 [a, b] =
     (let x = of_char a :: nat; y = of_char b :: nat
      in [base64_symbol (x div 4), base64_symbol (x mod 4 * 16 + y div 16), base64_symbol (y mod 16 * 4), CHR ''=''])"
| "EncodeToString64 (a # b # c # rest) =
     (let x = of_char a :: nat; y = of_char b :: nat; z = of_char c :: nat
      in base64_symbol (x div 4) # base64_symbol (x mod 4 * 16 + y div 16) # base64_symbol (y mod 16 * 4 + z div 64)
         # base64_symbol (z mod 64) # EncodeToString64 rest)"

text \<open>
  Decoding reads four symbols at a time; padding is only accepted at the end, and, as the encoding is not the
  strict one, the unused bits before the padding are ignored.
\<close>

fun decode_quads :: "string \<Rightarrow> string option" where
  "decode_quads [] = Some []"
| "decode_quads (a # b # c # d # rest) =
     (case (base64_value a, base64_value b) of
        (Some x, Some y) \<Rightarrow>
          if d = CHR ''='' \<and> rest = [] then
            (if c = CHR ''='' then Some [char_of (x * 4 + y div 16)]
             else map_option (\<lambda>z. [char_of (x * 4 + y div 16), char_of (y mod 16 * 16 + z div 4)]) (base64_value c))
          else
            (case (base64_value c, base64_value d) of
               (Some z, Some w) \<Rightarrow>
                 map_option (\<lambda>r. char_of (x * 4 + y div 16) # char_of (y mod 16 * 16 + z div 4)
                                 # char_of (z mod 4 * 64 + w) # r) (decode_quads rest)
             | _ \<Rightarrow> None)
      | _ \<Rightarrow> None)"
| "decode_quads _ = None"

definition DecodeString :: "string \<Rightarrow> go_error + string" where
  "DecodeString s =
     (case decode_quads (filter (\<lambda>c. c \<noteq> CHR 0x0A \<and> c \<noteq> CHR 0x0D) s) of
        None \<Rightarrow> Inl (PlainError ''illegal base64 data'')
      | Some bytes \<Rightarrow> Inr bytes)"

section \<open>Round trip\<close>

lemma base64_value_symbol: "n < 64 \<Longrightarrow> base64_value (base64_symbol n) = Some n"
proof -
  assume "n < 64"
  then consider "n < 26" | "26 \<le> n" "n < 52" | "52 \<le> n" "n < 62" | "n = 62" | "n = 63" by linarith
  then show ?thesis by cases (auto simp: base64_symbol_def base64_value_def Let_def)
qed

lemma base64_symbol_not:
  assumes "n < 64"
  shows "base64_symbol n \<noteq> CHR ''=''" "base64_symbol n \<noteq> CHR 0x0A" "base64_symbol n \<noteq> CHR 0x0D"
  using base64_value_symbol [OF assms] by (auto simp: base64_value_def)

lemma byte_div:
  "of_char (c :: char) div 4 < (64::nat)" "of_char c div 16 < (16::nat)" "of_char c div 64 < (4::nat)"
  using nat_of_char_less_256 [of c] by (auto intro: less_mult_imp_div_less)

lemma byte_bounds:
  fixes a b :: char
  shows "of_char a div 4 < (64::nat)" "of_char a mod 4 * 16 + of_char b div 16 < (64::nat)"
    "of_char a mod 4 * 16 < (64::nat)" "of_char a mod 16 * 4 < (64::nat)" "of_char a mod 64 < (64::nat)"
    "of_char a mod 16 * 4 + of_char b div 64 < (64::nat)"
  using byte_div [of a] byte_div [of b] mod_less_divisor [of 4 "of_char a :: nat"]
    mod_less_divisor [of 16 "of_char a :: nat"] mod_less_divisor [of 64 "of_char a :: nat"]
  by linarith+

lemma byte_parts:
  fixes c :: char
  shows "of_char c div 16 div 16 = (0::nat)" "of_char c div 64 div 4 = (0::nat)"
    "of_char c div 16 mod 16 * 16 + of_char c mod 16 = (of_char c :: nat)"
    "of_char c div 64 mod 4 * 64 + of_char c mod 64 = (of_char c :: nat)"
  using byte_div [of c] by simp_all

lemma decode_encode: "decode_quads (EncodeToString64 s) = Some s"
  by (induction s rule: EncodeToString64.induct)
    (simp_all add: Let_def base64_value_symbol byte_bounds byte_parts base64_symbol_not)

lemma encode_no_breaks: "filter (\<lambda>c. c \<noteq> CHR 0x0A \<and> c \<noteq> CHR 0x0D) (EncodeToString64 s) = EncodeToString64 s"
  by (induction s rule: EncodeToString64.induct) (simp_all add: Let_def byte_bounds base64_symbol_not)

lemma DecodeString_Encode: "DecodeString (EncodeToString64 s) = Inr s"
  by (simp add: DecodeString_def encode_no_breaks decode_encode)

end
