(* ===== verification/Cluster_Token.thy ===== *)
theory Cluster_Token
  imports Client_Getter Cluster_Status Base64 Json_Codec "HOL-Library.Word" "HOL-Library.Signed_Division"
begin

text \<open>
  Bearer tokens and kubeconfigs of remote clusters (\<open>internal/controller/cluster/utils/token.go\<close>, \<open>util.go\<close>):
  when a token is renewed, for how long it is requested, and the kubeconfig that is made with it. Durations
  are 64-bit integers that count nanoseconds, as in Go; points in time are integers that count nanoseconds
  since the epoch, timestamps in objects count seconds. The token API of the clusters and the parser of signed
  tokens are parameters.
\<close>

section \<open>Durations\<close>

type_synonym duration = "64 word"

definition time_Second :: duration where "time_Second = 1000000000"
definition time_Hour :: duration where "time_Hour = 3600000000000"
definition DefaultRequeueInterval :: nat where "DefaultRequeueInterval = 600"
definition OIDCAudience :: string where "OIDCAudience = ''greenhouse''"
definition CRoleKind :: string where "CRoleKind = ''ClusterRole''"
definition CRoleRef :: string where "CRoleRef = ''cluster-admin''"

text \<open>\<open>time.Duration(cluster.Spec.KubeConfig.MaxTokenValidity) * time.Hour\<close>, for a number of hours of 32 bits.\<close>

definition token_validity :: "int \<Rightarrow> duration" where
  "token_validity hours = word_of_int hours * time_Hour"

text \<open>\<open>int64(t.RemoteClusterBearerTokenValidity / time.Second)\<close>.\<close>

definition expirationSeconds :: "duration \<Rightarrow> duration" where
  "expirationSeconds validity = word_of_int (sint validity sdiv sint time_Second)"

section \<open>Claims of a token\<close>

record claims =
  claim_issuer :: string
  claim_subject :: string
  claim_audience :: "string list"
  claim_expiry :: int
  claim_notBefore :: int
  claim_issuedAt :: int
  claim_id :: string

definition zero_claims :: claims where
  "zero_claims = \<lparr>claim_issuer = [], claim_subject = [], claim_audience = [], claim_expiry = 0, claim_notBefore = 0,
     claim_issuedAt = 0, claim_id = []\<rparr>"

text \<open>\<open>strconv.ParseInt\<close> for 64 bits, as \<open>encoding/json\<close> uses it on number literals.\<close>

definition digits_value :: "string \<Rightarrow> int" where
  "digits_value ds = fold (\<lambda>c n. 10 * n + (of_char c - 48)) ds 0"

definition ParseInt64 :: "string \<Rightarrow> int option" where
  "ParseInt64 t =
     (let neg = (t \<noteq> [] \<and> hd t = CHR ''-''); ds = (if neg then tl t else t);
          v = (if neg then - digits_value ds else digits_value ds)
      in if ds \<noteq> [] \<and> list_all is_digit ds \<and> - (2 ^ 63) \<le> v \<and> v < 2 ^ 63 then Some v else None)"

text \<open>A JSON null leaves a field as it is; \<open>None\<close> is a type error.\<close>

fun decode_text :: "json \<Rightarrow> string \<Rightarrow> string option" where
  "decode_text (JStr s) old = Some s"
| "decode_text JNull old = Some old"
| "decode_text _ old = None"

fun decode_int :: "json \<Rightarrow> int \<Rightarrow> int option" where
  "decode_int (JNum t) old = ParseInt64 t"
| "decode_int JNull old = Some old"
| "decode_int _ old = None"

fun decode_texts :: "json \<Rightarrow> string list \<Rightarrow> string list option" where
  "decode_texts (JArr vs) old = those (map (\<lambda>v. decode_text v []) vs)"
| "decode_texts JNull old = Some []"
| "decode_texts _ old = None"

fun decode_claims :: "(string \<times> json) list \<Rightarrow> claims \<Rightarrow> claims option" where
  "decode_claims [] c = Some c"
| "decode_claims ((k, v) # fs) c =
     (let key = ToLower k;
          c' = (if key = ''iss'' then map_option (\<lambda>x. c\<lparr>claim_issuer := x\<rparr>) (decode_text v (claim_issuer c))
                else if key = ''sub'' then map_option (\<lambda>x. c\<lparr>claim_subject := x\<rparr>) (decode_text v (claim_subject c))
                else if key = ''aud'' then map_option (\<lambda>x. c\<lparr>claim_audience := x\<rparr>) (decode_texts v (claim_audience c))
                else if key = ''exp'' then map_option (\<lambda>x. c\<lparr>claim_expiry := x\<rparr>) (decode_int v (claim_expiry c))
                else if key = ''nbf'' then map_option (\<lambda>x. c\<lparr>claim_notBefore := x\<rparr>) (decode_int v (claim_notBefore c))
                else if key = ''iat'' then map_option (\<lambda>x. c\<lparr>claim_issuedAt := x\<rparr>) (decode_int v (claim_issuedAt c))
                else if key = ''jti'' then map_option (\<lambda>x. c\<lparr>claim_id := x\<rparr>) (decode_text v (claim_id c))
                else Some c)
      in case c' of None \<Rightarrow> None | Some c1 \<Rightarrow> decode_claims fs c1)"

definition unmarshal_claims :: "string \<Rightarrow> claims option" where
  "unmarshal_claims payload =
     (case parse_json payload of
        Some (JObj fs) \<Rightarrow> decode_claims fs zero_claims
      | Some JNull \<Rightarrow> Some zero_claims
      | _ \<Rightarrow> None)"

section \<open>Token requests\<close>

record token_request =
  tr_audiences :: "string list"
  tr_expirationSeconds :: duration
  tr_token :: string
  tr_expirationTimestamp :: time

type_synonym 's token_api = "namespaced_name \<Rightarrow> token_request \<Rightarrow> 's \<Rightarrow> (go_error + token_request) \<times> 's"

record 's token_helper =
  th_inCluster :: "'s token_api"
  th_remote :: "'s token_api"
  th_validity :: duration
  th_renewAfter :: duration
  th_secretType :: string
  th_parseSigned :: "string \<Rightarrow> string option"
  th_lib :: clientcmd_lib

type_synonym getter = "(unit, unit) rest_client_getter"

text \<open>\<open>now\<close> is \<open>time.Now()\<close> in nanoseconds.\<close>

definition shouldSkipTokenRenewal ::
  "int \<Rightarrow> 's token_helper \<Rightarrow> getter \<Rightarrow> cluster \<Rightarrow> bool" where
  "shouldSkipTokenRenewal now t g cl =
     (case fst (ToRESTConfig (th_lib t) g) of
        Inl _ \<Rightarrow> False
      | Inr cfg \<Rightarrow>
          (let limit = now + sint (th_renewAfter t);
               stored = cluster_bearerTokenExpiration cl \<noteq> 0 \<and> int (cluster_bearerTokenExpiration cl) * 1000000000 > limit
           in case th_parseSigned t (rest_bearerToken cfg) of
                None \<Rightarrow> stored
              | Some payload \<Rightarrow>
                  (case unmarshal_claims payload of
                     None \<Rightarrow> stored
                   | Some tokenInfo \<Rightarrow> claim_expiry tokenInfo * 1000000000 > limit)))"

definition generateKubeConfigToken ::
  "'s token_helper \<Rightarrow> token_request \<Rightarrow> cluster \<Rightarrow> 's \<Rightarrow> (go_error + token_request) \<times> 's" where
  "generateKubeConfigToken t req cl s =
     th_remote t \<lparr>nn_namespace = o_namespace cl, nn_name = ServiceAccountName\<rparr> req s"

definition generateOIDCToken ::
  "'s token_helper \<Rightarrow> token_request \<Rightarrow> cluster \<Rightarrow> 's \<Rightarrow> (go_error + token_request) \<times> 's" where
  "generateOIDCToken t req cl s =
     th_inCluster t \<lparr>nn_namespace = o_namespace cl, nn_name = o_name cl\<rparr> (req\<lparr>tr_audiences := [OIDCAudience]\<rparr>) s"

definition createTokenRequest ::
  "'s token_helper \<Rightarrow> cluster \<Rightarrow> 's \<Rightarrow> (go_error + token_request) \<times> 's" where
  "createTokenRequest t cl s =
     (let req = \<lparr>tr_audiences = [], tr_expirationSeconds = expirationSeconds (th_validity t), tr_token = [],
                 tr_expirationTimestamp = 0\<rparr>
      in if th_secretType t = SecretTypeKubeConfig then generateKubeConfigToken t req cl s
         else if th_secretType t = SecretTypeOIDCConfig then generateOIDCToken t req cl s
         else (Inr req, s))"

text \<open>\<open>GenerateTokenRequest\<close>: \<open>Inr None\<close> is the nil request of a token that is still valid.\<close>

definition GenerateTokenRequest ::
  "int \<Rightarrow> 's token_helper \<Rightarrow> getter \<Rightarrow> cluster \<Rightarrow> secret \<Rightarrow> 's \<Rightarrow> (go_error + token_request option) \<times> 's" where
  "GenerateTokenRequest now t g cl sec s =
     (if IsSecretContainsKey sec GreenHouseKubeConfigKey \<and> shouldSkipTokenRenewal now t g cl then (Inr None, s)
      else case createTokenRequest t cl s of
             (Inl e, s') \<Rightarrow> (Inl e, s')
           | (Inr req, s') \<Rightarrow> (Inr (Some req), s'))"

section \<open>Kubeconfigs\<close>

text \<open>The certificate and the key are pairs of optional byte slices; \<open>None\<close> is nil.\<close>

record kubeconfig_helper =
  kh_host :: string
  kh_caData :: string
  kh_bearerToken :: string
  kh_username :: string
  kh_namespace :: string
  kh_tlsServerName :: string
  kh_proxyURL :: string
  kh_clientCertData :: "string option"
  kh_clientKeyData :: "string option"

definition RestConfigToAPIConfig :: "kubeconfig_helper \<Rightarrow> string \<Rightarrow> api_config" where
  "RestConfigToAPIConfig kh clusterName =
     (let auth1 = (if kh_bearerToken kh \<noteq> []
                   then [(kh_username kh, \<lparr>aa_token = kh_bearerToken kh, aa_clientCertData = [], aa_clientKeyData = []\<rparr>)]
                   else []);
          auth2 = (case (kh_clientCertData kh, kh_clientKeyData kh) of
                     (Some cert, Some key) \<Rightarrow>
                       smap_set (kh_username kh) \<lparr>aa_token = [], aa_clientCertData = cert, aa_clientKeyData = key\<rparr> auth1
                   | _ \<Rightarrow> auth1)
      in \<lparr>cfg_clusters = [(clusterName, \<lparr>ac_server = kh_host kh, ac_caData = kh_caData kh,
                            ac_tlsServerName = kh_tlsServerName kh, ac_proxyURL = kh_proxyURL kh\<rparr>)],
          cfg_contexts = [(clusterName, \<lparr>ax_cluster = clusterName, ax_authInfo = kh_username kh,
                            ax_namespace = kh_namespace kh\<rparr>)],
          cfg_authInfos = auth2,
          cfg_currentContext = clusterName\<rparr>)"

definition token_kubeconfig :: "string \<Rightarrow> string \<Rightarrow> string \<Rightarrow> string \<Rightarrow> string \<Rightarrow> kubeconfig_helper" where
  "token_kubeconfig host ca token user namespace =
     \<lparr>kh_host = host, kh_caData = ca, kh_bearerToken = token, kh_username = user, kh_namespace = namespace,
      kh_tlsServerName = [], kh_proxyURL = [], kh_clientCertData = None, kh_clientKeyData = None\<rparr>"

definition GenerateNewClientKubeConfig ::
  "clientcmd_lib \<Rightarrow> getter \<Rightarrow> string \<Rightarrow> cluster \<Rightarrow> go_error + string" where
  "GenerateNewClientKubeConfig lib g bearerToken cl =
     (case ClientConfig lib (fst (ToRawKubeConfigLoader g)) of
        Inl e \<Rightarrow> Inl (WrapError (''failed to load kube clientConfig for cluster '' @ o_name cl) e)
      | Inr cfg \<Rightarrow>
          (case cc_write lib (RestConfigToAPIConfig
                  (token_kubeconfig (rest_host cfg) (rest_caData cfg) bearerToken ServiceAccountName (o_namespace cl)) (o_name cl)) of
             Inl e \<Rightarrow> Inl (WrapError (''failed to generate kubeconfig for cluster '' @ o_name cl) e)
           | Inr bytes \<Rightarrow> Inr bytes))"


section \<open>How long tokens live\<close>

lemma sint_word_of_int: "- (2 ^ 63) \<le> k \<Longrightarrow> k < 2 ^ 63 \<Longrightarrow> sint (word_of_int k :: 64 word) = k"
  by (simp add: sint_sbintrunc' signed_take_bit_int_eq_self)

lemma token_validity_value:
  assumes "0 \<le> hours" "hours \<le> 2562047"
  shows "sint (token_validity hours) = hours * 3600000000000"
proof -
  have "token_validity hours = word_of_int (hours * 3600000000000)"
    by (simp add: token_validity_def time_Hour_def)
  then show ?thesis using assms by (simp only:, subst sint_word_of_int) auto
qed



text \<open>
  When a token is kept: a secret with a generated kubeconfig whose token is a signed token with readable
  claims gets no new token exactly when the token expires later than the renewal time from now. A kept
  token is therefore valid for at least that long, and a token is renewed that long before it expires, not that long
  after it was issued.
\<close>

theorem token_kept_iff:
  assumes "IsSecretContainsKey sec GreenHouseKubeConfigKey"
    and "fst (ToRESTConfig (th_lib t) g) = Inr cfg" and "th_parseSigned t (rest_bearerToken cfg) = Some payload"
    and "unmarshal_claims payload = Some c"
    and "\<And>s' e. createTokenRequest t cl s \<noteq> (Inl e, s')"
  shows "fst (GenerateTokenRequest now t g cl sec s) = Inr None \<longleftrightarrow>
    now + sint (th_renewAfter t) < claim_expiry c * 1000000000"
proof -
  obtain r s' where "createTokenRequest t cl s = (r, s')" by (rule prod.exhaust)
  with assms(5) obtain req where "createTokenRequest t cl s = (Inr req, s')" by (cases r) auto
  with assms(1-4) show ?thesis by (simp add: GenerateTokenRequest_def shouldSkipTokenRenewal_def Let_def)
qed

definition demo_helper :: "string \<Rightarrow> unit token_helper" where
  "demo_helper payload =
     \<lparr>th_inCluster = (\<lambda>_ req s. (Inr req, s)), th_remote = (\<lambda>_ req s. (Inr req, s)), th_validity = token_validity 72,
      th_renewAfter = token_validity 20, th_secretType = SecretTypeKubeConfig, th_parseSigned = (\<lambda>_. Some payload),
      th_lib = demo_lib\<rparr>"

definition demo_cluster :: cluster where
  "demo_cluster =
     \<lparr>o_name = ''eu-1'', o_namespace = ''org'', o_labels = [], o_annotations = [], o_finalizers = [],
      o_deletionTimestamp = None, o_ownerReferences = [], o_conditions = [], cluster_accessMode = ''direct'',
      cluster_maxTokenValidity = 0, cluster_kubernetesVersion = [], cluster_bearerTokenExpiration = 0,
      cluster_nodes = None\<rparr>"


definition demo_getter :: getter where
  "demo_getter = NewRestClientGetterFromBytes ''cfg'' ''org'' []"

definition exp_payload :: string where "exp_payload = print_json (JObj [(''exp'', JNum ''100000'')])"

theorem token_kept_iff_witness:
  "fst (GenerateTokenRequest 20000000000000 (demo_helper exp_payload) demo_getter demo_cluster
      (demo_secret [(GreenHouseKubeConfigKey, ''own'')]) ()) = Inr None \<and>
   fst (GenerateTokenRequest 30000000000000 (demo_helper exp_payload) demo_getter demo_cluster
      (demo_secret [(GreenHouseKubeConfigKey, ''own'')]) ()) \<noteq> Inr None"
proof -
  let ?t = "demo_helper exp_payload"
  have key: "IsSecretContainsKey (demo_secret [(GreenHouseKubeConfigKey, ''own'')]) GreenHouseKubeConfigKey"
    by (simp add: IsSecretContainsKey_def demo_secret_def smap_simps)
  obtain cfg where cfg: "fst (ToRESTConfig (th_lib ?t) demo_getter) = Inr cfg"
    by (auto simp: demo_helper_def demo_getter_def ToRESTConfig_def NewRestClientGetterFromBytes_def new_getter_def
        ToRawKubeConfigLoader_def toRawKubeConfigLoader_def NewClientConfigLoaderFromBytes_def demo_lib_def
        kubeConfigGetterFromBytes_def)
  have claims: "unmarshal_claims exp_payload = Some (zero_claims\<lparr>claim_expiry := 100000\<rparr>)" by code_simp
  have req: "createTokenRequest ?t demo_cluster () \<noteq> (Inl e, s')" for e s'
    by (simp add: createTokenRequest_def demo_helper_def generateKubeConfigToken_def Let_def)
  have after: "sint (th_renewAfter ?t) = 20 * 3600000000000"
    using token_validity_value [of 20] by (simp add: demo_helper_def)
  note kept = token_kept_iff [OF key cfg _ claims req, unfolded after]
  have "th_parseSigned ?t (rest_bearerToken cfg) = Some exp_payload" by (simp add: demo_helper_def)
  from kept [OF this, of 20000000000000] kept [OF this, of 30000000000000] show ?thesis by simp
qed

text \<open>
  The kubeconfig that is written has the cluster and the credentials behind its current context.
\<close>

lemma RestConfigToAPIConfig_resolves:
  assumes "cfg = RestConfigToAPIConfig kh n"
  shows "cfg_currentContext cfg = n"
    and "smap_get (cfg_contexts cfg) n = Some \<lparr>ax_cluster = n, ax_authInfo = kh_username kh, ax_namespace = kh_namespace kh\<rparr>"
    and "smap_get (cfg_clusters cfg) n = Some \<lparr>ac_server = kh_host kh, ac_caData = kh_caData kh,
           ac_tlsServerName = kh_tlsServerName kh, ac_proxyURL = kh_proxyURL kh\<rparr>"
    and "kh_bearerToken kh \<noteq> [] \<Longrightarrow> kh_clientCertData kh = None \<Longrightarrow>
           smap_get (cfg_authInfos cfg) (kh_username kh) =
             Some \<lparr>aa_token = kh_bearerToken kh, aa_clientCertData = [], aa_clientKeyData = []\<rparr>"
  by (simp_all add: assms RestConfigToAPIConfig_def Let_def smap_simps)

end
