(* ===== verification/Cluster_Controller.thy ===== *)
theory Cluster_Controller
  imports Cluster_Token Propagation Lifecycle_System Plugin_Types Webhook_Core
begin

text \<open>
  The controllers that give Greenhouse access to remote clusters (\<open>internal/controller/cluster\<close>):
  \<open>BootstrapReconciler\<close> turns a secret with a kubeconfig or an OIDC configuration into a Cluster
  (\<open>bootstrap_controller.go\<close>), \<open>RemoteClusterReconciler\<close> prepares the remote cluster, renews its bearer
  token and cleans up (\<open>cluster_controller.go\<close>), and both of its handlers maintain the metrics
  (\<open>metrics.go\<close>).

  The state \<open>'s\<close> holds the API servers of the central and of the remote clusters; their clients, the
  kubeconfig library and the functions of controller-runtime the code calls are parameters. Maps in
  secrets that the code writes to are never nil here: a secret that gives a client has data, and a
  secret for OIDC access is only admitted with an annotation. Logging is left out.
\<close>

section \<open>The environment\<close>

definition ClusterAccessModeDirect :: string where "ClusterAccessModeDirect = ''direct''"
definition ClusterConnectivityAnnotation :: string where
  "ClusterConnectivityAnnotation = ''greenhouse.sap/cluster-connectivity''"
definition ClusterConnectivityKubeconfig :: string where "ClusterConnectivityKubeconfig = ''kubeconfig''"
definition ClusterConnectivityOIDC :: string where "ClusterConnectivityOIDC = ''oidc''"
definition SecretOIDCConfigGeneratedOnAnnotation :: string where
  "SecretOIDCConfigGeneratedOnAnnotation = ''oidc.greenhouse.sap/oidc-token-last-updated''"

record account_subject =
  as_kind :: string
  as_name :: string
  as_namespace :: string

record admin_binding = object_meta +
  ab_subjects :: "account_subject list"
  ab_roleKind :: string
  ab_roleName :: string
  ab_roleAPIGroup :: string

record 's remote_api =
  ra_clusterRoleBindings :: "(admin_binding, 's) client"
  ra_namespaces :: "(object_meta, 's) client"
  ra_serviceAccounts :: "(object_meta, 's) client"
  ra_token :: "'s token_api"

text \<open>
  \<open>ce_createOrUpdate\<close> is \<open>controllerutil.CreateOrUpdate\<close> on clusters, the fields \<open>ce_own\<dots>\<close> are
  \<open>controllerutil.SetOwnerReference\<close>; \<open>ce_nanos\<close> and \<open>ce_date\<close> are the current time in nanoseconds and
  in the format of annotations.
\<close>

record 's cluster_env =
  ce_secrets :: "(secret, 's) client"
  ce_serviceAccounts :: "(object_meta, 's) client"
  ce_get_cluster :: "namespaced_name \<Rightarrow> 's \<Rightarrow> go_error + cluster"
  ce_createOrUpdate :: "cluster \<Rightarrow> (cluster \<Rightarrow> go_error + cluster) \<Rightarrow> 's \<Rightarrow> go_error option \<times> 's"
  ce_list_plugins :: "string \<Rightarrow> string smap \<Rightarrow> 's \<Rightarrow> go_error + object_meta list"
  ce_delete_plugin :: "object_meta \<Rightarrow> 's \<Rightarrow> go_error option \<times> 's"
  ce_token :: "'s token_api"
  ce_lib :: clientcmd_lib
  ce_new_client :: "rest_config \<Rightarrow> go_error + 's remote_api"
  ce_parseSigned :: "string \<Rightarrow> string option"
  ce_renewAfter :: duration
  ce_ownAccountByBinding :: "admin_binding \<Rightarrow> object_meta \<Rightarrow> go_error + object_meta"
  ce_ownAccountBySecret :: "secret \<Rightarrow> object_meta \<Rightarrow> go_error + object_meta"
  ce_ownSecretByCluster :: "cluster \<Rightarrow> secret \<Rightarrow> go_error + secret"
  ce_nanos :: int
  ce_date :: string

definition NewServiceAccount :: "string \<Rightarrow> string \<Rightarrow> object_meta" where
  "NewServiceAccount name namespace =
     \<lparr>o_name = name, o_namespace = namespace, o_labels = [], o_annotations = [], o_finalizers = [],
      o_deletionTimestamp = None, o_ownerReferences = []\<rparr>"

section \<open>Metrics\<close>

text \<open>A gauge vector is a list of series, each with its labels and its value.\<close>

type_synonym gauge = "(string smap \<times> int) list"

record cluster_metrics =
  cm_versions :: gauge
  cm_expiry :: gauge
  cm_ready :: gauge

definition DeletePartialMatch :: "string smap \<Rightarrow> gauge \<Rightarrow> gauge" where
  "DeletePartialMatch labels g = filter (\<lambda>(ls, _). \<not> list_all (\<lambda>(k, v). smap_get ls k = Some v) labels) g"

definition set_gauge :: "string smap \<Rightarrow> int \<Rightarrow> gauge \<Rightarrow> gauge" where
  "set_gauge labels v g = filter (\<lambda>(ls, _). ls \<noteq> labels) g @ [(labels, v)]"

definition cluster_labels :: "cluster \<Rightarrow> string smap" where
  "cluster_labels cl = [(''clusterName'', o_name cl), (''organization'', o_namespace cl)]"

text \<open>\<open>Unix()\<close> of a timestamp; the zero time is in the year 1.\<close>

definition unix_seconds :: "time \<Rightarrow> int" where
  "unix_seconds t = (if t = 0 then -62135596800 else int t)"

definition UpdateClusterMetrics :: "int \<Rightarrow> cluster \<Rightarrow> cluster_metrics \<Rightarrow> cluster_metrics" where
  "UpdateClusterMetrics nanos cl m =
     (let owner = smap_val (o_labels cl) LabelKeyOwnedBy
      in \<lparr>cm_versions = set_gauge (cluster_labels cl @ [(''version'', cluster_kubernetesVersion cl), (''owned_by'', owner)]) 1
            (DeletePartialMatch (cluster_labels cl) (cm_versions m)),
          cm_expiry = set_gauge (cluster_labels cl @ [(''owned_by'', owner)])
            (unix_seconds (cluster_bearerTokenExpiration cl) - nanos div 1000000000) (cm_expiry m),
          cm_ready = set_gauge (cluster_labels cl @ [(''owned_by'', owner)])
            (if IsReadyTrue (o_conditions cl) then 1 else 0) (cm_ready m)\<rparr>)"

definition deleteClusterMetrics :: "cluster \<Rightarrow> cluster_metrics \<Rightarrow> cluster_metrics" where
  "deleteClusterMetrics cl m =
     \<lparr>cm_versions = DeletePartialMatch (cluster_labels cl) (cm_versions m),
      cm_expiry = DeletePartialMatch (cluster_labels cl) (cm_expiry m),
      cm_ready = DeletePartialMatch (cluster_labels cl) (cm_ready m)\<rparr>"

section \<open>Preparing a remote cluster\<close>

definition greenhouse_binding :: "cluster \<Rightarrow> admin_binding" where
  "greenhouse_binding cl =
     \<lparr>o_name = ServiceAccountName, o_namespace = [], o_labels = [], o_annotations = [], o_finalizers = [],
      o_deletionTimestamp = None, o_ownerReferences = [],
      ab_subjects = [\<lparr>as_kind = ''ServiceAccount'', as_name = ServiceAccountName, as_namespace = o_namespace cl\<rparr>],
      ab_roleKind = CRoleKind, ab_roleName = CRoleRef, ab_roleAPIGroup = ''rbac.authorization.k8s.io''\<rparr>"

text \<open>
  The mutation is empty: the desired binding only matters for its creation, since \<open>CreateOrPatch\<close> replaces
  the object by the stored one first. The binding that is returned is the object after the call.
\<close>

definition reconcileClusterRoleBindingInRemoteCluster ::
  "'s remote_api \<Rightarrow> cluster \<Rightarrow> 's \<Rightarrow> (go_error + admin_binding) \<times> 's" where
  "reconcileClusterRoleBindingInRemoteCluster ra cl s =
     (let want = greenhouse_binding cl;
          after = (case cl_get (ra_clusterRoleBindings ra) (ObjectKeyFromObject want) s of Inr cur \<Rightarrow> cur | Inl _ \<Rightarrow> want)
      in case CreateOrPatch (ra_clusterRoleBindings ra) want Inr s of
           ((_, Some e), s') \<Rightarrow> (Inl e, s')
         | ((_, None), s') \<Rightarrow> (Inr after, s'))"

definition reconcileNamespaceInRemoteCluster ::
  "'s remote_api \<Rightarrow> cluster \<Rightarrow> 's \<Rightarrow> go_error option \<times> 's" where
  "reconcileNamespaceInRemoteCluster ra cl s =
     (case CreateOrPatch (ra_namespaces ra) (NewServiceAccount (o_namespace cl) []) Inr s of
        ((_, err), s') \<Rightarrow> (err, s'))"

definition reconcileServiceAccountInRemoteCluster ::
  "'s cluster_env \<Rightarrow> 's remote_api \<Rightarrow> admin_binding option \<Rightarrow> cluster \<Rightarrow> 's \<Rightarrow> go_error option \<times> 's" where
  "reconcileServiceAccountInRemoteCluster env ra crb cl s =
     (case CreateOrPatch (ra_serviceAccounts ra) (NewServiceAccount ServiceAccountName (o_namespace cl))
             (\<lambda>sa. case crb of Some b \<Rightarrow> ce_ownAccountByBinding env b sa | None \<Rightarrow> Inr sa) s of
        ((_, err), s') \<Rightarrow> (err, s'))"

definition cluster_token_helper :: "'s cluster_env \<Rightarrow> 's remote_api \<Rightarrow> cluster \<Rightarrow> secret \<Rightarrow> 's token_helper" where
  "cluster_token_helper env ra cl sec =
     \<lparr>th_inCluster = ce_token env, th_remote = ra_token ra,
      th_validity = token_validity (cluster_maxTokenValidity cl), th_renewAfter = ce_renewAfter env,
      th_secretType = secret_type sec, th_parseSigned = ce_parseSigned env, th_lib = ce_lib env\<rparr>"

text \<open>The change of the secret that stores a new kubeconfig.\<close>

definition store_kubeconfig :: "'s cluster_env \<Rightarrow> secret \<Rightarrow> string \<Rightarrow> secret \<Rightarrow> go_error + secret" where
  "store_kubeconfig env clusterSecret kubeconfig ks =
     Inr (ks\<lparr>o_annotations := (if secret_type clusterSecret = SecretTypeOIDCConfig
                               then smap_set SecretOIDCConfigGeneratedOnAnnotation (ce_date env) (o_annotations ks)
                               else o_annotations ks),
             secret_data := smap_set GreenHouseKubeConfigKey kubeconfig (secret_data ks)\<rparr>)"

definition reconcileServiceAccountToken ::
  "'s cluster_env \<Rightarrow> getter \<Rightarrow> 's remote_api \<Rightarrow> cluster \<Rightarrow> secret \<Rightarrow> 's \<Rightarrow> go_error option \<times> cluster \<times> 's" where
  "reconcileServiceAccountToken env g ra cl0 sec s =
     (let cl = SetDefaultTokenValidityIfNeeded cl0
      in case GenerateTokenRequest (ce_nanos env) (cluster_token_helper env ra cl sec) g cl sec s of
           (Inl e, s1) \<Rightarrow> (Some e, cl, s1)
         | (Inr None, s1) \<Rightarrow> (None, cl, s1)
         | (Inr (Some req), s1) \<Rightarrow>
             if cluster_accessMode cl \<noteq> ClusterAccessModeDirect
             then (Some (PlainError (''unknown access mode '' @ cluster_accessMode cl)), cl, s1)
             else (case GenerateNewClientKubeConfig (ce_lib env) g (tr_token req) cl of
                     Inl e \<Rightarrow> (Some e, cl, s1)
                   | Inr kubeconfig \<Rightarrow>
                       (case cl_get (ce_secrets env) (ObjectKeyFromObject cl) s1 of
                          Inl e \<Rightarrow> (Some e, cl, s1)
                        | Inr ks \<Rightarrow>
                            (case CreateOrPatch (ce_secrets env) ks (store_kubeconfig env sec kubeconfig) s1 of
                               ((_, Some e), s2) \<Rightarrow> (Some e, cl, s2)
                             | ((_, None), s2) \<Rightarrow>
                                 (None, cl\<lparr>cluster_bearerTokenExpiration := tr_expirationTimestamp req\<rparr>, s2)))))"

text \<open>The steps after the clients are built, up to the error of the first that fails.\<close>

definition prepare_remote ::
  "'s cluster_env \<Rightarrow> getter \<Rightarrow> 's remote_api \<Rightarrow> cluster \<Rightarrow> secret \<Rightarrow> 's \<Rightarrow> go_error option \<times> cluster \<times> 's" where
  "prepare_remote env g ra cl0 sec s0 =
     (let oidc = (secret_type sec = SecretTypeOIDCConfig)
      in case (if oidc then reconcileServiceAccountToken env g ra cl0 sec s0 else (None, cl0, s0)) of
           (Some e, cl1, s1) \<Rightarrow> (Some e, cl1, s1)
         | (None, cl1, s1) \<Rightarrow>
             (case (if oidc then (Inr None, s1)
                    else map_prod (map_sum id Some) id (reconcileClusterRoleBindingInRemoteCluster ra cl1 s1)) of
                (Inl e, s2) \<Rightarrow> (Some e, cl1, s2)
              | (Inr crb, s2) \<Rightarrow>
                  (case reconcileNamespaceInRemoteCluster ra cl1 s2 of
                     (Some e, s3) \<Rightarrow> (Some e, cl1, s3)
                   | (None, s3) \<Rightarrow>
                       (case (if oidc then (None, s3) else reconcileServiceAccountInRemoteCluster env ra crb cl1 s3) of
                          (Some e, s4) \<Rightarrow> (Some e, cl1, s4)
                        | (None, s4) \<Rightarrow> reconcileServiceAccountToken env g ra cl1 sec s4))))"

definition cluster_EnsureCreated ::
  "'s cluster_env \<Rightarrow> cluster \<Rightarrow> 's \<times> cluster_metrics
     \<Rightarrow> (ctrl_result \<times> reconcile_result \<times> go_error option) \<times> cluster \<times> 's \<times> cluster_metrics" where
  "cluster_EnsureCreated env cl st =
     (if cluster_accessMode cl \<noteq> ClusterAccessModeDirect then ((EmptyResult, Failed, None), cl, st)
      else let (s, m) = st;
               (err, cl', s') =
                 (case cl_get (ce_secrets env) \<lparr>nn_namespace = o_namespace cl, nn_name = GetSecretName cl\<rparr> s of
                    Inl e \<Rightarrow> (Some e, cl, s)
                  | Inr sec \<Rightarrow>
                      (case NewRestClientGetterFromSecret sec (o_namespace cl) [] of
                         Inl e \<Rightarrow> (Some e, cl, s)
                       | Inr g \<Rightarrow>
                           (case NewK8sClientFromRestClientGetter (ce_lib env) (ce_new_client env) g of
                              Inl e \<Rightarrow> (Some e, cl, s)
                            | Inr ra \<Rightarrow> prepare_remote env g ra cl sec s)))
           in ((case err of
                  Some e \<Rightarrow> (EmptyResult, Failed, Some e)
                | None \<Rightarrow> (\<lparr>Requeue = False, RequeueAfter = DefaultRequeueInterval\<rparr>, Success, None)),
               cl', s', UpdateClusterMetrics (ce_nanos env) cl' m))"

section \<open>Cleaning up a remote cluster\<close>

definition ignored_remote_error :: "go_error \<Rightarrow> bool" where
  "ignored_remote_error e \<longleftrightarrow> IsUnauthorized e \<or> IsNotFound e \<or> IsForbidden e"

definition deleteClusterRoleBindingInRemoteCluster :: "'s remote_api \<Rightarrow> 's \<Rightarrow> go_error option \<times> 's" where
  "deleteClusterRoleBindingInRemoteCluster ra s =
     (case cl_get (ra_clusterRoleBindings ra) \<lparr>nn_namespace = [], nn_name = ServiceAccountName\<rparr> s of
        Inl e \<Rightarrow> (if ignored_remote_error e then None else Some e, s)
      | Inr crb \<Rightarrow>
          (case cl_delete (ra_clusterRoleBindings ra) crb s of
             (Some e, s') \<Rightarrow> (if ignored_remote_error e then None else Some e, s')
           | (None, s') \<Rightarrow> (None, s')))"

text \<open>
  The loop of \<open>deletePlugins\<close> counts the plugins it handled. Its error is the named result of the function: a plugin
  that is not found does not stop the loop, but if it is the last one its error is the one returned.
\<close>

fun delete_plugins_loop ::
  "'s cluster_env \<Rightarrow> object_meta list \<Rightarrow> nat \<Rightarrow> go_error option \<Rightarrow> 's \<Rightarrow> (nat \<times> go_error option) \<times> 's" where
  "delete_plugins_loop env [] count err s = ((count, err), s)"
| "delete_plugins_loop env (p # ps) count err s =
     (case ce_delete_plugin env p s of
        (err', s') \<Rightarrow>
          if IgnoreNotFound err' \<noteq> None then ((count, err'), s')
          else delete_plugins_loop env ps (Suc count) err' s')"

definition deletePlugins :: "'s cluster_env \<Rightarrow> cluster \<Rightarrow> 's \<Rightarrow> (nat \<times> go_error option) \<times> 's" where
  "deletePlugins env cl s =
     (case ce_list_plugins env (o_namespace cl) [(LabelKeyCluster, o_name cl)] s of
        Inl e \<Rightarrow> ((0, Some e), s)
      | Inr ps \<Rightarrow> delete_plugins_loop env ps 0 None s)"

definition cluster_EnsureDeleted ::
  "'s cluster_env \<Rightarrow> cluster \<Rightarrow> 's \<times> cluster_metrics
     \<Rightarrow> (ctrl_result \<times> reconcile_result \<times> go_error option) \<times> cluster \<times> 's \<times> cluster_metrics" where
  "cluster_EnsureDeleted env cl st =
     (let (s, m) = st;
          done = (\<lambda>s'. ((EmptyResult, Success, None), cl, s', deleteClusterMetrics cl m));
          failed = (\<lambda>e s'. ((EmptyResult, Failed, Some e), cl, s', m))
      in if (case GetConditionByType (o_conditions cl) KubeConfigValid of Some c \<Rightarrow> IsFalse c | None \<Rightarrow> False)
         then done s
         else case deletePlugins env cl s of
                ((_, Some e), s1) \<Rightarrow> failed e s1
              | ((count, None), s1) \<Rightarrow>
                  if count > 0 then ((\<lparr>Requeue = False, RequeueAfter = 10\<rparr>, Pending, None), cl, s1, m)
                  else (case cl_get (ce_secrets env) \<lparr>nn_namespace = o_namespace cl, nn_name = GetSecretName cl\<rparr> s1 of
                          Inl e \<Rightarrow> failed e s1
                        | Inr sec \<Rightarrow>
                            if secret_type sec = SecretTypeOIDCConfig then done s1
                            else (case NewRestClientGetterFromSecret sec (o_namespace cl) [] of
                                    Inl e \<Rightarrow> failed e s1
                                  | Inr (g :: getter) \<Rightarrow>
                                      (case NewK8sClientFromRestClientGetter (ce_lib env) (ce_new_client env) g of
                                         Inl e \<Rightarrow> failed e s1
                                       | Inr ra \<Rightarrow>
                                           (case deleteClusterRoleBindingInRemoteCluster ra s1 of
                                              (Some e, s2) \<Rightarrow> failed e s2
                                            | (None, s2) \<Rightarrow> done s2)))))"

definition cluster_reconciler :: "'s cluster_env \<Rightarrow> (cluster, 's \<times> cluster_metrics) reconciler" where
  "cluster_reconciler env =
     \<lparr>EnsureCreated = cluster_EnsureCreated env, EnsureDeleted = cluster_EnsureDeleted env,
      EnsureSuspended = (\<lambda>cl st. ((EmptyResult, None), cl, st)), CanBeSuspended = False,
      UpdateLastReconciledAtStatus = None\<rparr>"

definition cluster_Reconcile ::
  "time \<Rightarrow> (cluster, 's \<times> cluster_metrics) client \<Rightarrow> 's cluster_env \<Rightarrow> ('s \<Rightarrow> 'g cluster_reads) \<Rightarrow> namespaced_name
     \<Rightarrow> 's \<times> cluster_metrics \<Rightarrow> (ctrl_result \<times> go_error option) \<times> 's \<times> cluster_metrics" where
  "cluster_Reconcile now c env reads key st =
     Reconcile now c (cluster_reconciler env) (Some (\<lambda>cl st. cluster_setConditions now (reads (fst st)) cl)) key st"


section \<open>Metrics: one series per cluster\<close>

definition series_of :: "cluster \<Rightarrow> gauge \<Rightarrow> gauge" where
  "series_of cl g = filter (\<lambda>(ls, _). list_all (\<lambda>(k, v). smap_get ls k = Some v) (cluster_labels cl)) g"

lemma series_deleted: "series_of cl (DeletePartialMatch (cluster_labels cl) g) = []"
  by (simp add: series_of_def DeletePartialMatch_def filter_empty_conv split_beta)

lemma series_set:
  "series_of cl (set_gauge (cluster_labels cl @ extra) v g) =
     filter (\<lambda>(ls, _). ls \<noteq> cluster_labels cl @ extra) (series_of cl g) @ [(cluster_labels cl @ extra, v)]"
proof -
  have "list_all (\<lambda>(k, x). smap_get (cluster_labels cl @ extra) k = Some x) (cluster_labels cl)"
    by (simp add: cluster_labels_def smap_simps)
  then show ?thesis by (auto simp: series_of_def set_gauge_def conj_commute split_beta)
qed

text \<open>
  After an update there is exactly one series with the version of a cluster; the two other gauges keep a
  series for every owner the cluster had, because only the series of the version are dropped first.
\<close>

lemma version_series_single:
  "map snd (series_of cl (cm_versions (UpdateClusterMetrics nanos cl m))) = [1]"
  by (simp add: UpdateClusterMetrics_def Let_def series_set series_deleted)

lemma owner_change_leaves_series:
  assumes "series_of cl (cm_ready m) = [(cluster_labels cl @ [(''owned_by'', old)], v)]"
    and "old \<noteq> smap_val (o_labels cl) LabelKeyOwnedBy"
  shows "length (series_of cl (cm_ready (UpdateClusterMetrics nanos cl m))) = 2"
  using assms by (simp add: UpdateClusterMetrics_def Let_def series_set)

section \<open>What preparing a cluster leaves\<close>

text \<open>
  The objects of the remote cluster that exist, by kind and key. The API server keeps its promises when no
  write of the operator removes an object, and an object exists after its creation succeeded or was refused
  because it already exists.
\<close>

definition exists_in :: "('o, 's) client \<Rightarrow> 's \<Rightarrow> namespaced_name set" where
  "exists_in c s = {k. \<exists>x. cl_get c k s = Inr x}"

definition remote_objects :: "'s remote_api \<Rightarrow> 's \<Rightarrow> (nat \<times> namespaced_name) set" where
  "remote_objects ra s =
     {0} \<times> exists_in (ra_clusterRoleBindings ra) s \<union> {1} \<times> exists_in (ra_namespaces ra) s \<union>
     {2} \<times> exists_in (ra_serviceAccounts ra) s"

definition keeps_objects :: "('s \<Rightarrow> 'x set) \<Rightarrow> ('o, 's) client \<Rightarrow> bool" where
  "keeps_objects f c \<longleftrightarrow>
     (\<forall>x s. f s \<subseteq> f (snd (cl_create c x s))) \<and> (\<forall>x y s. f s \<subseteq> f (snd (cl_patch c x y s)))"

definition creates_objects :: "('a object_meta_scheme, 's) client \<Rightarrow> bool" where
  "creates_objects c \<longleftrightarrow>
     (\<forall>x s. (case fst (cl_create c x s) of None \<Rightarrow> True | Some e \<Rightarrow> IsAlreadyExists e) \<longrightarrow>
        ObjectKeyFromObject x \<in> exists_in c (snd (cl_create c x s)))"

definition server_laws :: "'s cluster_env \<Rightarrow> 's remote_api \<Rightarrow> bool" where
  "server_laws env ra \<longleftrightarrow>
     keeps_objects (remote_objects ra) (ra_clusterRoleBindings ra) \<and> keeps_objects (remote_objects ra) (ra_namespaces ra) \<and>
     keeps_objects (remote_objects ra) (ra_serviceAccounts ra) \<and> keeps_objects (remote_objects ra) (ce_secrets env) \<and>
     (\<forall>k req s. remote_objects ra s \<subseteq> remote_objects ra (snd (ra_token ra k req s))) \<and>
     (\<forall>k req s. remote_objects ra s \<subseteq> remote_objects ra (snd (ce_token env k req s))) \<and>
     creates_objects (ra_clusterRoleBindings ra) \<and> creates_objects (ra_namespaces ra) \<and> creates_objects (ra_serviceAccounts ra) \<and>
     (\<forall>b sa sa'. ce_ownAccountByBinding env b sa = Inr sa' \<longrightarrow> ObjectKeyFromObject sa' = ObjectKeyFromObject sa)"

lemma CreateOrPatch_keeps:
  fixes c :: "('a object_meta_scheme, 's) client"
  assumes "keeps_objects f c" and "CreateOrPatch c obj mutate s = (r, s')"
  shows "f s \<subseteq> f s'"
proof -
  have k: "f s \<subseteq> f (snd (cl_create c x s))" "f s \<subseteq> f (snd (cl_patch c x y s))" for x y
    using assms(1) by (auto simp: keeps_objects_def)
  have created: "cl_create c x s = (e, t) \<Longrightarrow> f s \<subseteq> f t" for x e t using k(1) [of x] by simp
  have patched: "cl_patch c x y s = (e, t) \<Longrightarrow> f s \<subseteq> f t" for x y e t using k(2) [of x y] by simp
  show ?thesis
    using assms(2)
    by (auto simp: CreateOrPatch_def patch_object_def dest!: created patched
        split: sum.splits if_splits prod.splits option.splits)
qed

lemma CreateOrPatch_exists:
  fixes c :: "('a object_meta_scheme, 's) client"
  assumes "keeps_objects (exists_in c) c" and "creates_objects c"
    and key: "\<And>x'. mutate obj = Inr x' \<Longrightarrow> ObjectKeyFromObject x' = ObjectKeyFromObject obj"
    and run: "CreateOrPatch c obj mutate s = ((res, None), s')"
  shows "ObjectKeyFromObject obj \<in> exists_in c s'"
proof (cases "cl_get c (ObjectKeyFromObject obj) s")
  case (Inr cur)
  then have "ObjectKeyFromObject obj \<in> exists_in c s" by (simp add: exists_in_def)
  then show ?thesis using CreateOrPatch_keeps [OF assms(1) run] by blast
next
  case (Inl e)
  with run obtain x' err where x': "mutate obj = Inr x'" "cl_create c x' s = (err, s')"
      "case err of None \<Rightarrow> True | Some e \<Rightarrow> IsAlreadyExists e"
    by (auto simp: CreateOrPatch_def IgnoreAlreadyExists_def split: if_splits sum.splits prod.splits option.splits)
  with assms(2) have "ObjectKeyFromObject x' \<in> exists_in c s'" unfolding creates_objects_def by (metis fst_conv snd_conv)
  with key [OF x'(1)] show ?thesis by simp
qed

lemma keeps_kind:
  assumes "keeps_objects (remote_objects ra) c"
  shows "keeps_objects (exists_in (ra_clusterRoleBindings ra)) c" "keeps_objects (exists_in (ra_namespaces ra)) c"
    "keeps_objects (exists_in (ra_serviceAccounts ra)) c"
  using assms unfolding keeps_objects_def remote_objects_def by (fastforce)+


lemma server_lawsD:
  assumes "server_laws env ra"
  shows "keeps_objects (remote_objects ra) (ra_clusterRoleBindings ra)" "keeps_objects (remote_objects ra) (ra_namespaces ra)"
    "keeps_objects (remote_objects ra) (ra_serviceAccounts ra)" "keeps_objects (remote_objects ra) (ce_secrets env)"
    "remote_objects ra s \<subseteq> remote_objects ra (snd (ra_token ra k req s))"
    "remote_objects ra s \<subseteq> remote_objects ra (snd (ce_token env k req s))"
    "creates_objects (ra_clusterRoleBindings ra)" "creates_objects (ra_namespaces ra)" "creates_objects (ra_serviceAccounts ra)"
    "ce_ownAccountByBinding env b sa = Inr sa' \<Longrightarrow> ObjectKeyFromObject sa' = ObjectKeyFromObject sa"
  using assms by (simp_all add: server_laws_def)

lemma token_request_keeps:
  assumes "server_laws env ra" and "GenerateTokenRequest now (cluster_token_helper env ra cl' sec) g cl sec s = (r, s')"
  shows "remote_objects ra s \<subseteq> remote_objects ra s'"
proof -
  have "remote_objects ra s \<subseteq> remote_objects ra (snd (createTokenRequest (cluster_token_helper env ra cl' sec) cl s))"
    using server_lawsD(5,6) [OF assms(1)]
    by (simp add: createTokenRequest_def generateKubeConfigToken_def generateOIDCToken_def cluster_token_helper_def Let_def)
  with assms(2) show ?thesis by (auto simp: GenerateTokenRequest_def split: if_splits prod.splits sum.splits)
qed

lemma token_keeps:
  assumes laws: "server_laws env ra" and run: "reconcileServiceAccountToken env g ra cl sec s = (err, cl', s')"
  shows "remote_objects ra s \<subseteq> remote_objects ra s'" and "o_namespace cl' = o_namespace cl" "o_name cl' = o_name cl"
proof -
  let ?cl = "SetDefaultTokenValidityIfNeeded cl"
  obtain r s1 where gen: "GenerateTokenRequest (ce_nanos env) (cluster_token_helper env ra ?cl sec) g ?cl sec s = (r, s1)"
    by (rule prod.exhaust)
  note run' = run [unfolded reconcileServiceAccountToken_def Let_def gen]
  have sub: "remote_objects ra s \<subseteq> remote_objects ra s1" by (rule token_request_keeps [OF laws gen])
  have patch: "remote_objects ra s1 \<subseteq> remote_objects ra s2"
    if "CreateOrPatch (ce_secrets env) ks f s1 = (q, s2)" for ks f q s2
    by (rule CreateOrPatch_keeps [OF server_lawsD(4) [OF laws] that])
  have names: "o_namespace ?cl = o_namespace cl" "o_name ?cl = o_name cl"
    by (simp_all add: SetDefaultTokenValidityIfNeeded_def)
  show "remote_objects ra s \<subseteq> remote_objects ra s'"
    using run' sub by (auto dest!: patch split: sum.splits option.splits if_splits prod.splits)
  show "o_namespace cl' = o_namespace cl" "o_name cl' = o_name cl"
    using run' names by (auto split: sum.splits option.splits if_splits prod.splits)
qed

lemma binding_exists:
  assumes laws: "server_laws env ra" and run: "reconcileClusterRoleBindingInRemoteCluster ra cl s = (Inr crb, s')"
  shows "(0, \<lparr>nn_namespace = [], nn_name = ServiceAccountName\<rparr>) \<in> remote_objects ra s'"
proof -
  obtain res where "CreateOrPatch (ra_clusterRoleBindings ra) (greenhouse_binding cl) Inr s = ((res, None), s')"
    using run by (auto simp: reconcileClusterRoleBindingInRemoteCluster_def Let_def split: prod.splits option.splits)
  from CreateOrPatch_exists [OF keeps_kind(1) [OF server_lawsD(1) [OF laws]] server_lawsD(7) [OF laws] _ this]
  show ?thesis by (simp add: remote_objects_def greenhouse_binding_def ObjectKeyFromObject_def)
qed

lemma namespace_exists:
  assumes laws: "server_laws env ra" and run: "reconcileNamespaceInRemoteCluster ra cl s = (None, s')"
  shows "(1, \<lparr>nn_namespace = [], nn_name = o_namespace cl\<rparr>) \<in> remote_objects ra s'" "remote_objects ra s \<subseteq> remote_objects ra s'"
proof -
  obtain res where cop: "CreateOrPatch (ra_namespaces ra) (NewServiceAccount (o_namespace cl) []) Inr s = ((res, None), s')"
    using run by (auto simp: reconcileNamespaceInRemoteCluster_def split: prod.splits)
  from CreateOrPatch_exists [OF keeps_kind(2) [OF server_lawsD(2) [OF laws]] server_lawsD(8) [OF laws] _ this]
  show "(1, \<lparr>nn_namespace = [], nn_name = o_namespace cl\<rparr>) \<in> remote_objects ra s'"
    by (simp add: remote_objects_def NewServiceAccount_def ObjectKeyFromObject_def)
  show "remote_objects ra s \<subseteq> remote_objects ra s'"
    by (rule CreateOrPatch_keeps [OF server_lawsD(2) [OF laws] cop])
qed

lemma account_exists:
  assumes laws: "server_laws env ra" and run: "reconcileServiceAccountInRemoteCluster env ra crb cl s = (None, s')"
  shows "(2, \<lparr>nn_namespace = o_namespace cl, nn_name = ServiceAccountName\<rparr>) \<in> remote_objects ra s'"
    "remote_objects ra s \<subseteq> remote_objects ra s'"
proof -
  let ?f = "\<lambda>sa. case crb of Some b \<Rightarrow> ce_ownAccountByBinding env b sa | None \<Rightarrow> Inr sa"
  obtain res where cop: "CreateOrPatch (ra_serviceAccounts ra) (NewServiceAccount ServiceAccountName (o_namespace cl)) ?f s = ((res, None), s')"
    using run by (auto simp: reconcileServiceAccountInRemoteCluster_def split: prod.splits)
  have key: "?f x = Inr x' \<Longrightarrow> ObjectKeyFromObject x' = ObjectKeyFromObject x" for x x'
    using server_lawsD(10) [OF laws] by (cases crb) auto
  from CreateOrPatch_exists [OF keeps_kind(3) [OF server_lawsD(3) [OF laws]] server_lawsD(9) [OF laws] key cop]
  show "(2, \<lparr>nn_namespace = o_namespace cl, nn_name = ServiceAccountName\<rparr>) \<in> remote_objects ra s'"
    by (simp add: remote_objects_def NewServiceAccount_def ObjectKeyFromObject_def)
  show "remote_objects ra s \<subseteq> remote_objects ra s'"
    by (rule CreateOrPatch_keeps [OF server_lawsD(3) [OF laws] cop])
qed

lemma prepare_remote_objects:
  assumes laws: "server_laws env ra" and run: "prepare_remote env g ra cl sec s = (None, cl', s')"
  shows "(1, \<lparr>nn_namespace = [], nn_name = o_namespace cl\<rparr>) \<in> remote_objects ra s'" (is ?ns)
    and "secret_type sec \<noteq> SecretTypeOIDCConfig \<Longrightarrow>
      (0, \<lparr>nn_namespace = [], nn_name = ServiceAccountName\<rparr>) \<in> remote_objects ra s' \<and>
      (2, \<lparr>nn_namespace = o_namespace cl, nn_name = ServiceAccountName\<rparr>) \<in> remote_objects ra s'" (is "?kube \<Longrightarrow> ?both")
proof -
  let ?oidc = "secret_type sec = SecretTypeOIDCConfig"
  obtain cl1 s1 where tok: "(if ?oidc then reconcileServiceAccountToken env g ra cl sec s else (None, cl, s)) = (None, cl1, s1)"
    using run by (auto simp: prepare_remote_def Let_def split: prod.splits option.splits)
  have same: "o_namespace cl1 = o_namespace cl" using tok token_keeps(2) [OF laws] by (auto split: if_splits)
  note run1 = run [unfolded prepare_remote_def Let_def tok, simplified]
  obtain crb s2 where bind: "(if ?oidc then (Inr None, s1)
      else map_prod (map_sum id Some) id (reconcileClusterRoleBindingInRemoteCluster ra cl1 s1)) = (Inr crb, s2)"
    using run1 by (auto split: prod.splits sum.splits)
  note run2 = run1 [unfolded bind, simplified]
  obtain s3 where ns: "reconcileNamespaceInRemoteCluster ra cl1 s2 = (None, s3)"
    using run2 by (auto split: prod.splits option.splits)
  note run3 = run2 [unfolded ns, simplified]
  obtain s4 where sa: "(if ?oidc then (None, s3) else reconcileServiceAccountInRemoteCluster env ra crb cl1 s3) = (None, s4)"
    using run3 by (auto split: prod.splits option.splits)
  note run4 = run3 [unfolded sa, simplified]
  have last: "remote_objects ra s4 \<subseteq> remote_objects ra s'" by (rule token_keeps(1) [OF laws run4])
  have mid: "remote_objects ra s3 \<subseteq> remote_objects ra s4"
    using sa account_exists(2) [OF laws] by (auto split: if_splits)
  show ?ns using namespace_exists(1) [OF laws ns] mid last same by auto
  assume kube: ?kube
  have "(0, \<lparr>nn_namespace = [], nn_name = ServiceAccountName\<rparr>) \<in> remote_objects ra s2"
    using bind kube binding_exists [OF laws] by (auto simp: map_prod_def split: prod.splits sum.splits)
      (metis Inl_Inr_False binding_exists [OF laws] map_sum.simps obj_sumE)
  then show ?both
    using namespace_exists(2) [OF laws ns] mid last account_exists(1) [OF laws, of crb cl1 s3 s4] sa kube same by auto
qed


text \<open>The remote cluster as the status of a Cluster sees it (theory \<open>Cluster_Status\<close>), read from a state.\<close>

definition read_error :: "(go_error + 'o) \<Rightarrow> go_error option" where
  "read_error r = (case r of Inl e \<Rightarrow> Some e | Inr _ \<Rightarrow> None)"

definition remote_view ::
  "'s remote_api \<Rightarrow> go_error + node list \<Rightarrow> (access_request \<Rightarrow> go_error + bool) \<Rightarrow> 's \<Rightarrow> remote_cluster" where
  "remote_view ra nodes review s =
     \<lparr>rc_get_namespace = (\<lambda>n. read_error (cl_get (ra_namespaces ra) \<lparr>nn_namespace = [], nn_name = n\<rparr> s)),
      rc_get_serviceAccount = (\<lambda>k. read_error (cl_get (ra_serviceAccounts ra) k s)),
      rc_get_clusterRoleBinding = (\<lambda>n. read_error (cl_get (ra_clusterRoleBindings ra) \<lparr>nn_namespace = [], nn_name = n\<rparr> s)),
      rc_list_nodes = nodes, rc_review = review\<rparr>"

text \<open>
  C19. When the controller reports that a Cluster is prepared, the status of that Cluster, computed in the state
  it leaves, finds the managed resources deployed: the namespace, and for access with a kubeconfig
  the service account and its binding. The API servers keep their promises; the secret is in the namespace of the
  Cluster.
\<close>

theorem prepared_resources_deployed:
  fixes env :: "'s cluster_env" and g :: getter
  assumes run: "cluster_EnsureCreated env cl (s, m) = ((r, Success, err), cl', s', m')"
    and sec: "cl_get (ce_secrets env) \<lparr>nn_namespace = o_namespace cl, nn_name = GetSecretName cl\<rparr> s = Inr sec"
      "o_namespace sec = o_namespace cl"
    and g: "NewRestClientGetterFromSecret sec (o_namespace cl) [] = Inr g"
    and ra: "NewK8sClientFromRestClientGetter (ce_lib env) (ce_new_client env) g = Inr ra" "server_laws env ra"
    and view: "cr_client rd h = Inr (remote_view ra nodes review s')"
  shows "c_status (reconcileBootstrapResources now rd h (Some sec)) = ConditionTrue"
proof -
  have "prepare_remote env g ra cl sec s = (None, cl', s')"
    using run sec g ra(1)
    by (auto simp: cluster_EnsureCreated_def Let_def split: if_splits prod.splits option.splits)
  note objects = prepare_remote_objects [OF ra(2) this]
  show ?thesis
    using objects sec(2) view
    by (auto simp: reconcileBootstrapResources_def remote_view_def remote_objects_def exists_in_def read_error_def
        condition_constructors)
qed





section \<open>A concrete environment\<close>

text \<open>
  The state counts the tokens that were issued and lists the names of the objects of the remote cluster;
  the central cluster has one secret. Every write succeeds.
\<close>

record demo_state =
  ds_tokens :: nat
  ds_objects :: "(nat \<times> namespaced_name) list"
  ds_secret :: secret

definition demo_client :: "nat \<Rightarrow> 'a object_meta_scheme \<Rightarrow> ('a object_meta_scheme, demo_state) client" where
  "demo_client kind x =
     \<lparr>cl_get = (\<lambda>k s. if (kind, k) \<in> set (ds_objects s) then Inr x else Inl (ApiError ReasonNotFound ''not found'' [])),
      cl_create = (\<lambda>y s. (None, s\<lparr>ds_objects := (kind, ObjectKeyFromObject y) # ds_objects s\<rparr>)),
      cl_update = (\<lambda>y s. (None, s)), cl_patch = (\<lambda>y z s. (None, s)), cl_patch_status = (\<lambda>y z s. (None, s)),
      cl_delete = (\<lambda>y s. (None, s))\<rparr>"

definition demo_secrets :: "(secret, demo_state) client" where
  "demo_secrets =
     \<lparr>cl_get = (\<lambda>k s. Inr (ds_secret s)), cl_create = (\<lambda>y s. (None, s)), cl_update = (\<lambda>y s. (None, s\<lparr>ds_secret := y\<rparr>)),
      cl_patch = (\<lambda>y z s. (None, s\<lparr>ds_secret := y\<rparr>)), cl_patch_status = (\<lambda>y z s. (None, s)), cl_delete = (\<lambda>y s. (None, s))\<rparr>"

definition demo_token :: "demo_state token_api" where
  "demo_token k req s =
     (Inr (req\<lparr>tr_token := ''jwt'', tr_expirationTimestamp := 1000\<rparr>), s\<lparr>ds_tokens := Suc (ds_tokens s)\<rparr>)"

definition demo_remote :: "demo_state remote_api" where
  "demo_remote =
     \<lparr>ra_clusterRoleBindings = demo_client 0 (greenhouse_binding demo_cluster),
      ra_namespaces = demo_client 1 (NewServiceAccount ''org'' []),
      ra_serviceAccounts = demo_client 2 (NewServiceAccount ServiceAccountName ''org''), ra_token = demo_token\<rparr>"

definition demo_env :: "demo_state cluster_env" where
  "demo_env =
     \<lparr>ce_secrets = demo_secrets, ce_serviceAccounts = demo_client 3 (NewServiceAccount ''eu-1'' ''org''),
      ce_get_cluster = (\<lambda>_ _. Inr demo_cluster), ce_createOrUpdate = (\<lambda>c f s. (None, s)),
      ce_list_plugins = (\<lambda>_ _ _. Inr []), ce_delete_plugin = (\<lambda>_ s. (None, s)), ce_token = demo_token,
      ce_lib = demo_lib, ce_new_client = (\<lambda>_. Inr demo_remote), ce_parseSigned = (\<lambda>_. None), ce_renewAfter = 0,
      ce_ownAccountByBinding = (\<lambda>_ sa. Inr sa), ce_ownAccountBySecret = (\<lambda>_ sa. Inr sa), ce_ownSecretByCluster = (\<lambda>_ sec. Inr sec),
      ce_nanos = 0, ce_date = ''today''\<rparr>"

definition no_metrics :: cluster_metrics where "no_metrics = \<lparr>cm_versions = [], cm_expiry = [], cm_ready = []\<rparr>"

definition demo_start :: "string \<Rightarrow> string smap \<Rightarrow> demo_state" where
  "demo_start ty d = \<lparr>ds_tokens = 0, ds_objects = [], ds_secret = (demo_secret d)\<lparr>secret_type := ty\<rparr>\<rparr>"

lemma demo_exists: "exists_in (demo_client k x) s = {key. (k, key) \<in> set (ds_objects s)}"
  by (auto simp: exists_in_def demo_client_def)

lemma demo_laws: "server_laws demo_env demo_remote"
  by (auto simp: server_laws_def keeps_objects_def creates_objects_def remote_objects_def demo_remote_def demo_env_def
      demo_exists demo_secrets_def demo_token_def)
    (auto simp: demo_client_def)

theorem prepared_resources_deployed_witness:
  "\<exists>r err cl' s' m'. cluster_EnsureCreated demo_env demo_cluster (demo_start SecretTypeKubeConfig [(KubeConfigKey, ''k'')], no_metrics)
       = ((r, Success, err), cl', s', m') \<and>
     c_status (reconcileBootstrapResources 0
        (sample_status_reads\<lparr>cr_client := (\<lambda>_. Inr (remote_view demo_remote (Inr []) (\<lambda>_. Inr True) s'))\<rparr>) ()
        (Some (demo_secret [(KubeConfigKey, ''k'')]))) = ConditionTrue"
proof -
  let ?s = "demo_start SecretTypeKubeConfig [(KubeConfigKey, ''k'')]"
  have "fst (snd (fst (cluster_EnsureCreated demo_env demo_cluster (?s, no_metrics)))) = Success"
    by code_simp
  then obtain r err cl' s' m' where run: "cluster_EnsureCreated demo_env demo_cluster (?s, no_metrics) = ((r, Success, err), cl', s', m')"
    by (metis prod.collapse)
  have sec: "cl_get (ce_secrets demo_env) \<lparr>nn_namespace = o_namespace demo_cluster, nn_name = GetSecretName demo_cluster\<rparr> ?s
      = Inr (demo_secret [(KubeConfigKey, ''k'')])"
    by (simp add: demo_env_def demo_secrets_def demo_start_def demo_secret_def)
  have ns: "o_namespace (demo_secret [(KubeConfigKey, ''k'')]) = o_namespace demo_cluster"
    by (simp add: demo_secret_def demo_cluster_def)
  obtain g :: getter where g: "NewRestClientGetterFromSecret (demo_secret [(KubeConfigKey, ''k'')]) (o_namespace demo_cluster) [] = Inr g"
    by (auto simp: NewRestClientGetterFromSecret_def ValidateSecretForKubeConfig_def demo_secret_def IsSecretContainsKey_def smap_simps)
  have "NewK8sClientFromRestClientGetter (ce_lib demo_env) (ce_new_client demo_env) g = Inr demo_remote"
    using g
    by (auto simp: NewK8sClientFromRestClientGetter_def demo_env_def demo_lib_def ToRESTConfig_def NewRestClientGetterFromSecret_def
        new_getter_def ToRawKubeConfigLoader_def toRawKubeConfigLoader_def NewClientConfigLoaderFromSecret_def valid_secret_config
        demo_secret_def smap_simps IsSecretContainsKey_def split: option.splits)
  from prepared_resources_deployed [OF run sec ns g this demo_laws, of _ "()" "Inr []" "\<lambda>_. Inr True"] run
  show ?thesis by (auto simp: sample_status_reads_def)
qed


text \<open>
  For access with OIDC the token is reconciled twice in one run, and the second time does not find the first
  token: a run that renews the token issues two.
\<close>

lemma oidc_renews_twice:
  "ds_tokens (fst (snd (snd (cluster_EnsureCreated
     (demo_env\<lparr>ce_parseSigned := (\<lambda>_. Some (print_json (JObj [(''exp'', JNum ''0'')])))\<rparr>) demo_cluster
     (demo_start SecretTypeOIDCConfig [(GreenHouseKubeConfigKey, ''k'')], no_metrics))))) = 2"
  by code_simp

text \<open>A Cluster whose kubeconfig is reported invalid is deleted without touching the plugins bound to it.\<close>

lemma invalid_cluster_leaves_plugins:
  assumes "GetConditionByType (o_conditions cl) KubeConfigValid = Some c" and "IsFalse c"
  shows "cluster_EnsureDeleted env cl (s, m) = ((EmptyResult, Success, None), cl, s, deleteClusterMetrics cl m)"
  using assms by (simp add: cluster_EnsureDeleted_def)

text \<open>A plugin that is already gone does not stop the deletion, but when it is the last one its error is returned.\<close>

lemma deletePlugins_last_missing:
  assumes "ce_list_plugins env (o_namespace cl) [(LabelKeyCluster, o_name cl)] s = Inr [p]"
    and "ce_delete_plugin env p s = (Some e, s')" and "IsNotFound e"
  shows "deletePlugins env cl s = ((1, Some e), s')"
  using assms by (simp add: deletePlugins_def IgnoreNotFound_def)

text \<open>An existing binding is never changed, whatever its subjects and its role are.\<close>

lemma binding_not_updated:
  assumes "cl_get (ra_clusterRoleBindings ra) \<lparr>nn_namespace = [], nn_name = ServiceAccountName\<rparr> s = Inr b"
    and "o_deletionTimestamp b = None"
  shows "reconcileClusterRoleBindingInRemoteCluster ra cl s = (Inr b, s)"
  using assms
  by (simp add: reconcileClusterRoleBindingInRemoteCluster_def CreateOrPatch_def patch_object_def
      greenhouse_binding_def ObjectKeyFromObject_def Let_def)

end
