(* ===== verification/Cluster_Bootstrap.thy ===== *)
theory Cluster_Bootstrap
  imports Cluster_Controller
begin

text \<open>
  The bootstrap of clusters (\<open>internal/controller/cluster/bootstrap_controller.go\<close>): from a secret with a
  kubeconfig, or with the URL and the certificate authority of an API server that trusts the tokens of the
  central cluster, to a Cluster. The environment is the one of \<open>Cluster_Controller\<close>. An OIDC secret
  without annotations, which the admission refuses, would make the code write to a nil map.
\<close>

section \<open>Generating a kubeconfig\<close>





section \<open>The Cluster of a secret\<close>

definition zero_cluster :: cluster where
  "zero_cluster =
     \<lparr>o_name = [], o_namespace = [], o_labels = [], o_annotations = [], o_finalizers = [], o_deletionTimestamp = None,
      o_ownerReferences = [], o_conditions = [], cluster_accessMode = [], cluster_maxTokenValidity = 0,
      cluster_kubernetesVersion = [], cluster_bearerTokenExpiration = 0, cluster_nodes = None\<rparr>"

definition getCluster :: "'s cluster_env \<Rightarrow> secret \<Rightarrow> 's \<Rightarrow> go_error + cluster" where
  "getCluster env sec s =
     (case ce_get_cluster env (ObjectKeyFromObject sec) s of
        Inl e \<Rightarrow> if IsNotFound e then Inr zero_cluster else Inl e
      | Inr cl \<Rightarrow> Inr cl)"

definition connectivity_annotations :: "secret \<Rightarrow> string smap \<Rightarrow> string smap" where
  "connectivity_annotations sec annotations =
     (if secret_type sec = SecretTypeKubeConfig
      then smap_set ClusterConnectivityAnnotation ClusterConnectivityKubeconfig annotations
      else if secret_type sec = SecretTypeOIDCConfig
      then smap_set ClusterConnectivityAnnotation ClusterConnectivityOIDC annotations
      else annotations)"

text \<open>The annotations are those of the cluster that was read before; the mutation sets them on the one read again.\<close>

definition mutate_cluster :: "secret \<Rightarrow> string smap \<Rightarrow> cluster \<Rightarrow> cluster" where
  "mutate_cluster sec annotations cl =
     Apply sec (cl\<lparr>o_annotations := annotations, cluster_accessMode := ClusterAccessModeDirect\<rparr>)"

definition createOrUpdateCluster :: "'s cluster_env \<Rightarrow> cluster \<Rightarrow> secret \<Rightarrow> 's \<Rightarrow> go_error option \<times> 's" where
  "createOrUpdateCluster env cl sec s =
     (if o_deletionTimestamp cl \<noteq> None then (None, s)
      else ce_createOrUpdate env (cl\<lparr>o_name := o_name sec, o_namespace := o_namespace sec\<rparr>)
             (\<lambda>c. Inr (mutate_cluster sec (connectivity_annotations sec (o_annotations cl)) c)) s)"

definition reconcileCluster :: "'s cluster_env \<Rightarrow> secret \<Rightarrow> 's \<Rightarrow> go_error option \<times> 's" where
  "reconcileCluster env sec s =
     (case getCluster env sec s of
        Inl e \<Rightarrow> (Some e, s)
      | Inr cl \<Rightarrow> createOrUpdateCluster env cl sec s)"


section \<open>Reconciliation\<close>



text \<open>The secret that is reconciled when a Cluster changes.\<close>

definition enqueueSecretForCluster :: "cluster \<Rightarrow> namespaced_name list" where
  "enqueueSecretForCluster cl =
     (if o_deletionTimestamp cl \<noteq> None then []
      else [\<lparr>nn_namespace = o_namespace cl, nn_name = GetSecretName cl\<rparr>])"

section \<open>Admission and bootstrap agree on certificates\<close>

lemma base64_value_char: "base64_value c \<noteq> None \<longleftrightarrow> base64_char c"
  by (auto simp: base64_value_def base64_char_def Let_def)

lemma base64_char_padding: "\<not> base64_char (CHR ''='')"
  by (simp add: base64_char_def)

lemma decode_quads_iff: "decode_quads s \<noteq> None \<longleftrightarrow> base64_quads s"
proof (induction s rule: decode_quads.induct)
  case (2 a b c d rest)
  then show ?case
    using base64_value_char [of a] base64_value_char [of b] base64_value_char [of c] base64_value_char [of d]
      base64_char_padding
    by (cases "base64_value a"; cases "base64_value b"; cases "base64_value c"; cases "base64_value d") auto
qed auto

text \<open>
  The admission of secrets and the bootstrap agree on what a certificate is: the check for base64 in the
  webhook accepts exactly the data that the bootstrap can decode, and decoding inverts encoding, so the bootstrap
  recovers every certificate authority that was stored in encoded form.
\<close>

theorem admitted_certificate_decodes:
  "(base64_decodes s \<longleftrightarrow> (\<exists>bytes. DecodeString s = Inr bytes)) \<and> DecodeString (EncodeToString64 bytes') = Inr bytes'"
proof -
  have "base64_decodes s \<longleftrightarrow> (\<exists>bytes. DecodeString s = Inr bytes)"
    unfolding base64_decodes_def decode_quads_iff [symmetric] by (auto simp: DecodeString_def split: option.splits)
  then show ?thesis by (simp add: DecodeString_Encode)
qed


section \<open>The bootstrap converges\<close>









section \<open>What the Cluster looks like\<close>

lemma Apply_fields [simp]:
  "o_name (Apply src dst) = o_name dst" "o_namespace (Apply src dst) = o_namespace dst"
  by (simp_all add: Apply_def storeAppliedState_def removeAppliedState_def Let_def split_beta)

lemma Apply_accessMode [simp]: "cluster_accessMode (Apply src (dst :: cluster)) = cluster_accessMode dst"
  by (simp add: Apply_def storeAppliedState_def removeAppliedState_def Let_def split_beta)

text \<open>
  \<open>controllerutil.CreateOrUpdate\<close> stores what the mutation makes of the object that exists, or of the given
  one if there is none.
\<close>

definition createOrUpdate_law :: "'s cluster_env \<Rightarrow> bool" where
  "createOrUpdate_law env \<longleftrightarrow>
     (\<forall>c f s s'. ce_createOrUpdate env c f s = (None, s') \<longrightarrow>
        (\<exists>c'. (case ce_get_cluster env (ObjectKeyFromObject c) s of Inr cur \<Rightarrow> f cur | Inl _ \<Rightarrow> f c) = Inr c' \<and>
              ce_get_cluster env (ObjectKeyFromObject c) s' = Inr c'))"

text \<open>
  The Cluster of a secret: unless it is being deleted, it exists after its reconciliation under the name of the
  secret with direct access, carries every label that the secret declares for propagation, and says in its
  annotation how it is connected, unless the secret propagates that annotation itself.
\<close>

theorem bootstrap_creates_cluster:
  assumes law: "createOrUpdate_law env" and run: "reconcileCluster env sec s = (None, s')"
    and kind: "secret_type sec = SecretTypeKubeConfig \<or> secret_type sec = SecretTypeOIDCConfig"
    and alive: "\<And>cl. ce_get_cluster env (ObjectKeyFromObject sec) s = Inr cl \<Longrightarrow> o_deletionTimestamp cl = None"
    and conn: "\<not> propagates_annotation sec ClusterConnectivityAnnotation"
      "\<And>cl. ce_get_cluster env (ObjectKeyFromObject sec) s = Inr cl \<Longrightarrow> ClusterConnectivityAnnotation \<notin> set (AnnotationKeys (getAppliedState cl))"
    and label: "smap_ok (o_labels sec)" "propagates_label sec k"
  shows "\<exists>cl. ce_get_cluster env (ObjectKeyFromObject sec) s' = Inr cl \<and>
     cluster_accessMode cl = ClusterAccessModeDirect \<and>
     smap_get (o_labels cl) k = smap_get (o_labels sec) k \<and>
     smap_get (o_annotations cl) ClusterConnectivityAnnotation =
       Some (if secret_type sec = SecretTypeOIDCConfig then ClusterConnectivityOIDC else ClusterConnectivityKubeconfig)"
proof -
  obtain cl where cl: "getCluster env sec s = Inr cl"
      "cl = (case ce_get_cluster env (ObjectKeyFromObject sec) s of Inr c \<Rightarrow> c | Inl _ \<Rightarrow> zero_cluster)"
    using run by (auto simp: reconcileCluster_def getCluster_def split: sum.splits if_splits)
  have live: "o_deletionTimestamp cl = None"
    using cl alive by (auto simp: zero_cluster_def split: sum.splits)
  let ?want = "cl\<lparr>o_name := o_name sec, o_namespace := o_namespace sec\<rparr>"
  let ?mut = "mutate_cluster sec (connectivity_annotations sec (o_annotations cl))"
  have key: "ObjectKeyFromObject ?want = ObjectKeyFromObject sec" by (simp add: ObjectKeyFromObject_def)
  have "ce_createOrUpdate env ?want (\<lambda>c. Inr (?mut c)) s = (None, s')"
    using run cl live by (simp add: reconcileCluster_def createOrUpdateCluster_def)
  with law obtain c' where c': "(case ce_get_cluster env (ObjectKeyFromObject ?want) s of Inr cur \<Rightarrow> Inr (?mut cur) | Inl _ \<Rightarrow> Inr (?mut ?want)) = (Inr c' :: go_error + cluster)"
      "ce_get_cluster env (ObjectKeyFromObject ?want) s' = Inr c'"
    unfolding createOrUpdate_law_def by blast
  then obtain c where c: "c' = ?mut c" by (auto split: sum.splits)
  have state: "getAppliedState (x\<lparr>o_annotations := connectivity_annotations sec (o_annotations cl), cluster_accessMode := y\<rparr>) = getAppliedState cl"
    for x :: cluster and y
    by (simp add: getAppliedState_def connectivity_annotations_def smap_simps ClusterConnectivityAnnotation_def
        AppliedPropagatorAnnotation_def)
  have fresh: "ClusterConnectivityAnnotation \<notin> set (AnnotationKeys (getAppliedState cl))"
    using cl conn(2) by (auto simp: zero_cluster_def getAppliedState_def smap_simps empty_state_def split: sum.splits)
  have other: "ClusterConnectivityAnnotation \<noteq> AppliedPropagatorAnnotation"
    by (simp add: ClusterConnectivityAnnotation_def AppliedPropagatorAnnotation_def)
  have "smap_get (o_annotations c') ClusterConnectivityAnnotation =
       Some (if secret_type sec = SecretTypeOIDCConfig then ClusterConnectivityOIDC else ClusterConnectivityKubeconfig)"
  proof -
    have "smap_get (o_annotations c') ClusterConnectivityAnnotation
        = smap_get (connectivity_annotations sec (o_annotations cl)) ClusterConnectivityAnnotation"
      using fresh conn(1) by (simp add: c mutate_cluster_def Apply_annotations_get [OF other] state)
    then show ?thesis
      using kind
      by (auto simp: connectivity_annotations_def smap_simps SecretTypeOIDCConfig_def SecretTypeKubeConfig_def)
  qed
  moreover have "smap_get (o_labels c') k = smap_get (o_labels sec) k"
    using label(2) by (simp add: c mutate_cluster_def Apply_labels_get [OF label(1)])
  ultimately show ?thesis using c' key by (auto simp: c mutate_cluster_def)
qed

definition labelled_secret :: secret where
  "labelled_secret = (demo_secret [])\<lparr>o_labels := [(''env'', ''prod'')], o_annotations := [(PropagateLabelsAnnotation, ''env'')]\<rparr>"

text \<open>An environment whose state is the Cluster, if there is one.\<close>

definition absent_client :: "('o, 's) client" where
  "absent_client =
     \<lparr>cl_get = (\<lambda>_ _. Inl (ApiError ReasonNotFound ''not found'' [])), cl_create = (\<lambda>_ s. (None, s)),
      cl_update = (\<lambda>_ s. (None, s)), cl_patch = (\<lambda>_ _ s. (None, s)), cl_patch_status = (\<lambda>_ _ s. (None, s)),
      cl_delete = (\<lambda>_ s. (None, s))\<rparr>"

definition cluster_store_env :: "(cluster option) cluster_env" where
  "cluster_store_env =
     \<lparr>ce_secrets = absent_client, ce_serviceAccounts = absent_client,
      ce_get_cluster = (\<lambda>_ s. case s of None \<Rightarrow> Inl (ApiError ReasonNotFound ''not found'' []) | Some c \<Rightarrow> Inr c),
      ce_createOrUpdate = (\<lambda>c f s. case f (case s of None \<Rightarrow> c | Some cur \<Rightarrow> cur) of Inl e \<Rightarrow> (Some e, s) | Inr c' \<Rightarrow> (None, Some c')),
      ce_list_plugins = (\<lambda>_ _ _. Inr []), ce_delete_plugin = (\<lambda>_ s. (None, s)), ce_token = (\<lambda>_ req s. (Inr req, s)),
      ce_lib = demo_lib, ce_new_client = (\<lambda>_. Inl (PlainError ''offline'')), ce_parseSigned = (\<lambda>_. None), ce_renewAfter = 0,
      ce_ownAccountByBinding = (\<lambda>_ sa. Inr sa), ce_ownAccountBySecret = (\<lambda>_ sa. Inr sa), ce_ownSecretByCluster = (\<lambda>_ sec. Inr sec),
      ce_nanos = 0, ce_date = ''today''\<rparr>"

theorem bootstrap_creates_cluster_witness:
  "\<exists>s'. reconcileCluster cluster_store_env labelled_secret None = (None, s') \<and>
     (\<exists>cl. s' = Some cl \<and> smap_get (o_labels cl) ''env'' = Some ''prod'')"
proof -
  let ?env = "cluster_store_env"
  have law: "createOrUpdate_law ?env"
    by (auto simp: createOrUpdate_law_def cluster_store_env_def split: sum.splits option.splits)
  obtain s' where run: "reconcileCluster ?env labelled_secret None = (None, s')"
    by (auto simp: reconcileCluster_def getCluster_def createOrUpdateCluster_def cluster_store_env_def zero_cluster_def)
  have kind: "secret_type labelled_secret = SecretTypeKubeConfig \<or> secret_type labelled_secret = SecretTypeOIDCConfig"
    by (simp add: labelled_secret_def demo_secret_def)
  have none: "ce_get_cluster ?env (ObjectKeyFromObject labelled_secret) None = Inl (ApiError ReasonNotFound ''not found'' [])"
    by (simp add: cluster_store_env_def)
  have "\<not> propagates_annotation labelled_secret ClusterConnectivityAnnotation"
    "smap_ok (o_labels labelled_secret)" "propagates_label labelled_secret ''env''"
    by code_simp+
  from bootstrap_creates_cluster [OF law run kind _ this(1) _ this(2,3)] none run show ?thesis
    by (auto simp: cluster_store_env_def labelled_secret_def smap_simps split: option.splits)
qed

end
