(* ===== verification/Cluster_Kubeconfig.thy ===== *)
theory Cluster_Kubeconfig
  imports Cluster_Bootstrap
begin

text \<open>
  The kubeconfigs that users download (\<open>internal/controller/cluster/kubeconfig_controller.go\<close>,
  \<open>api/v1alpha1/clusterkubeconfig_types.go\<close>): for every Cluster a ClusterKubeconfig with the address of its API
  server and the OIDC client of the organization. A parsed kubeconfig lists its clusters in the order in
  which Go ranges over the map; the controller takes the first. Logging is left out.
\<close>

section \<open>The type\<close>

record ck_cluster =
  ckc_name :: string
  ckc_server :: string
  ckc_caData :: string

record ck_authInfo =
  cka_name :: string
  cka_provider :: string
  cka_config :: "string smap"

record ck_context =
  ckx_name :: string
  ckx_cluster :: string
  ckx_authInfo :: string
  ckx_namespace :: string

record cluster_kubeconfig = runtime_object +
  ck_kind :: string
  ck_apiVersion :: string
  ck_clusters :: "ck_cluster list"
  ck_authInfos :: "ck_authInfo list"
  ck_contexts :: "ck_context list"
  ck_currentContext :: string

definition KubeconfigCreatedCondition :: condition_type where "KubeconfigCreatedCondition = ''Created''"
definition KubeconfigReconcileFailedCondition :: condition_type where
  "KubeconfigReconcileFailedCondition = ''ReconcileFailed''"
definition KubeconfigReadyCondition :: condition_type where "KubeconfigReadyCondition = ''Ready''"

definition ExposedKubeconfigConditions :: "condition_type list" where
  "ExposedKubeconfigConditions =
     [KubeconfigCreatedCondition, KubeconfigReconcileFailedCondition, KubeconfigReadyCondition]"

section \<open>Status\<close>

definition kubeconfig_configured :: "cluster_kubeconfig \<Rightarrow> bool" where
  "kubeconfig_configured ck \<longleftrightarrow>
     length (ck_clusters ck) > 0 \<and> length (ck_authInfos ck) > 0 \<and>
     length (ck_contexts ck) > 0 \<and> ck_currentContext ck \<noteq> []"

definition reports_failure :: "condition list \<Rightarrow> bool" where
  "reports_failure cs \<longleftrightarrow>
     (case GetConditionByType cs KubeconfigReconcileFailedCondition of
        None \<Rightarrow> False | Some c \<Rightarrow> c_status c = ConditionTrue)"

definition calculateKubeconfigStatus :: "time \<Rightarrow> cluster_kubeconfig \<Rightarrow> condition list" where
  "calculateKubeconfigStatus now ck =
     (let cs0 = o_conditions ck;
          cs1 = (if length cs0 = 0
                 then SetConditions now [TrueCondition now KubeconfigCreatedCondition ''NewCreation'' []] cs0 else cs0);
          cs2 = fold (\<lambda>t cs. if GetConditionByType cs t = None then SetConditions now [UnknownCondition now t [] []] cs else cs)
                  ExposedKubeconfigConditions cs1
      in if kubeconfig_configured ck \<and> \<not> reports_failure cs2
         then SetConditions now [FalseCondition now KubeconfigCreatedCondition ''ReadyState'' []]
                (SetConditions now [FalseCondition now KubeconfigReconcileFailedCondition ''ReadyState'' []]
                   (SetConditions now [TrueCondition now KubeconfigReadyCondition ''Complete'' []] cs2))
         else if reports_failure cs2
         then SetConditions now [FalseCondition now KubeconfigReadyCondition ''ReconcileFailed'' []] cs2
         else SetConditions now [FalseCondition now KubeconfigReadyCondition ''Incomplete'' []] cs2)"

section \<open>The OIDC client\<close>

record oidc_info =
  oi_clientID :: string
  oi_clientSecret :: string
  oi_issuerURL :: string

record 's kubeconfig_env =
  ke_get_cluster :: "namespaced_name \<Rightarrow> 's \<Rightarrow> go_error + cluster"
  ke_kubeconfigs :: "(cluster_kubeconfig, 's) client"
  ke_get_org :: "string \<Rightarrow> 's \<Rightarrow> go_error + organization"
  ke_get_secret :: "namespaced_name \<Rightarrow> 's \<Rightarrow> go_error + secret"
  ke_get_namespace :: "string \<Rightarrow> 's \<Rightarrow> go_error + object_meta"
  ke_list_clusters :: "string \<Rightarrow> 's \<Rightarrow> go_error + cluster list"
  ke_lib :: clientcmd_lib

definition oidc_override_key :: string where "oidc_override_key = ''greenhouse.sap/oidc-override''"

text \<open>\<open>json.Unmarshal\<close> of the override annotation: two optional references to keys of secrets.\<close>

fun decode_reference_fields :: "(string \<times> json) list \<Rightarrow> secret_key_reference \<Rightarrow> secret_key_reference option" where
  "decode_reference_fields [] r = Some r"
| "decode_reference_fields ((k, v) # fs) r =
     (let key = ToLower k;
          r' = (if key = ''name'' then map_option (\<lambda>x. r\<lparr>sk_name := x\<rparr>) (decode_text v (sk_name r))
                else if key = ''key'' then map_option (\<lambda>x. r\<lparr>sk_key := x\<rparr>) (decode_text v (sk_key r))
                else Some r)
      in case r' of None \<Rightarrow> None | Some r1 \<Rightarrow> decode_reference_fields fs r1)"

fun decode_reference :: "json \<Rightarrow> secret_key_reference option \<Rightarrow> secret_key_reference option option" where
  "decode_reference JNull old = Some None"
| "decode_reference (JObj fs) old =
     map_option Some (decode_reference_fields fs (case old of None \<Rightarrow> \<lparr>sk_name = [], sk_key = []\<rparr> | Some r \<Rightarrow> r))"
| "decode_reference _ old = None"

fun decode_override ::
  "(string \<times> json) list \<Rightarrow> secret_key_reference option \<times> secret_key_reference option
     \<Rightarrow> (secret_key_reference option \<times> secret_key_reference option) option" where
  "decode_override [] p = Some p"
| "decode_override ((k, v) # fs) (a, b) =
     (if ToLower k = ''clientidreference''
      then (case decode_reference v a of None \<Rightarrow> None | Some a' \<Rightarrow> decode_override fs (a', b))
      else if ToLower k = ''clientsecretreference''
      then (case decode_reference v b of None \<Rightarrow> None | Some b' \<Rightarrow> decode_override fs (a, b'))
      else decode_override fs (a, b))"

definition unmarshal_override :: "string \<Rightarrow> go_error + (secret_key_reference option \<times> secret_key_reference option)" where
  "unmarshal_override raw =
     (case (case parse_json raw of
              Some (JObj fs) \<Rightarrow> decode_override fs (None, None)
            | Some JNull \<Rightarrow> Some (None, None)
            | _ \<Rightarrow> None) of
        None \<Rightarrow> Inl (PlainError ''invalid JSON'')
      | Some p \<Rightarrow> Inr p)"

definition oidc_override_value ::
  "(namespaced_name \<Rightarrow> go_error + secret) \<Rightarrow> string \<Rightarrow> secret_key_reference option \<Rightarrow> string \<Rightarrow> go_error + string" where
  "oidc_override_value get_secret orgName ref old =
     (case ref of
        None \<Rightarrow> Inr old
      | Some r \<Rightarrow>
          if sk_name r \<noteq> [] \<and> sk_key r \<noteq> [] then GetSecretKeyFromSecretKeyReference get_secret orgName r else Inr old)"

definition getOIDCInfo :: "'s kubeconfig_env \<Rightarrow> string \<Rightarrow> cluster \<Rightarrow> 's \<Rightarrow> go_error + oidc_info" where
  "getOIDCInfo env orgName cl s =
     (let get_secret = (\<lambda>k. ke_get_secret env k s)
      in case ke_get_org env orgName s of
           Inl e \<Rightarrow> Inl e
         | Inr org \<Rightarrow>
             (case (case org_authentication org of None \<Rightarrow> None | Some a \<Rightarrow> auth_oidc a) of
                None \<Rightarrow> Inl (PlainError ''no oidc config found'')
              | Some cfg \<Rightarrow>
                  (case GetSecretKeyFromSecretKeyReference get_secret orgName (oidc_clientIDReference cfg) of
                     Inl e \<Rightarrow> Inl e
                   | Inr clientID \<Rightarrow>
                       (case GetSecretKeyFromSecretKeyReference get_secret orgName (oidc_clientSecretReference cfg) of
                          Inl e \<Rightarrow> Inl e
                        | Inr clientSecret \<Rightarrow>
                            (let oidc = \<lparr>oi_clientID = clientID, oi_clientSecret = clientSecret, oi_issuerURL = oidc_issuer cfg\<rparr>;
                                 raw = smap_val (o_annotations cl) oidc_override_key
                             in if raw = [] then Inr oidc
                                else (case unmarshal_override raw of
                                        Inl e \<Rightarrow> Inl e
                                      | Inr (idRef, secretRef) \<Rightarrow>
                                          (case oidc_override_value get_secret orgName idRef clientID of
                                             Inl e \<Rightarrow> Inl e
                                           | Inr newID \<Rightarrow>
                                               (case oidc_override_value get_secret orgName secretRef clientSecret of
                                                  Inl e \<Rightarrow> Inl e
                                                | Inr newSecret \<Rightarrow>
                                                    Inr (oidc\<lparr>oi_clientID := newID, oi_clientSecret := newSecret\<rparr>)))))))))"

section \<open>Reconciliation\<close>

definition new_kubeconfig :: "cluster \<Rightarrow> cluster_kubeconfig" where
  "new_kubeconfig cl =
     \<lparr>o_name = o_name cl, o_namespace = o_namespace cl, o_labels = [], o_annotations = [], o_finalizers = [],
      o_deletionTimestamp = None, o_ownerReferences = [\<lparr>or_kind = ''Cluster'', or_name = o_name cl\<rparr>], o_conditions = [],
      ck_kind = ''Config'', ck_apiVersion = ''v1'', ck_clusters = [], ck_authInfos = [],
      ck_contexts = [\<lparr>ckx_name = o_name cl, ckx_cluster = o_name cl, ckx_authInfo = ''oidc@'' @ o_name cl, ckx_namespace = ''default''\<rparr>],
      ck_currentContext = o_name cl\<rparr>"

text \<open>The existing ClusterKubeconfig, or a new one that is created before its status is patched.\<close>

definition obtain_kubeconfig ::
  "'s kubeconfig_env \<Rightarrow> namespaced_name \<Rightarrow> cluster \<Rightarrow> 's \<Rightarrow> (go_error + cluster_kubeconfig) \<times> 's" where
  "obtain_kubeconfig env key cl s =
     (case cl_get (ke_kubeconfigs env) key s of
        Inr ck \<Rightarrow> (Inr ck, s)
      | Inl e \<Rightarrow>
          if \<not> IsNotFound e then (Inl e, s)
          else (case cl_create (ke_kubeconfigs env) (new_kubeconfig cl) s of
                  (None, s') \<Rightarrow> (Inr (new_kubeconfig cl), s')
                | (Some e', s') \<Rightarrow> if IsAlreadyExists e' then (Inr (new_kubeconfig cl), s') else (Inl e', s')))"

text \<open>
  A condition is set on the object in memory, then the status is computed and the difference patched. An
  error of the patch is only logged.
\<close>

definition patch_kubeconfig_status :: "time \<Rightarrow> 's kubeconfig_env \<Rightarrow> condition \<Rightarrow> cluster_kubeconfig \<Rightarrow> 's \<Rightarrow> 's" where
  "patch_kubeconfig_status now env cond ck s =
     (let ck1 = SetCondition now cond ck
      in snd (PatchStatus (ke_kubeconfigs env) ck1 (\<lambda>x. Inr (x\<lparr>o_conditions := calculateKubeconfigStatus now x\<rparr>)) s))"

definition kubeconfig_failed :: "time \<Rightarrow> condition_reason \<Rightarrow> string \<Rightarrow> condition" where
  "kubeconfig_failed now reason msg = TrueCondition now KubeconfigReconcileFailedCondition reason msg"

definition fill_kubeconfig :: "cluster \<Rightarrow> api_cluster \<Rightarrow> oidc_info \<Rightarrow> cluster_kubeconfig \<Rightarrow> cluster_kubeconfig" where
  "fill_kubeconfig cl cfg oidc ck =
     ck\<lparr>o_labels := o_labels cl,
        ck_clusters := [\<lparr>ckc_name = o_name cl, ckc_server = ac_server cfg, ckc_caData = ac_caData cfg\<rparr>],
        ck_authInfos := [\<lparr>cka_name = ''oidc@'' @ o_name cl, cka_provider = ''oidc'',
           cka_config = [(''client-id'', oi_clientID oidc), (''client-secret'', oi_clientSecret oidc),
                         (''idp-issuer-url'', oi_issuerURL oidc)]\<rparr>]\<rparr>"

text \<open>The object in memory after \<open>CreateOrPatch\<close>: the stored one, if there is one, mutated unless it is being deleted.\<close>

definition after_CreateOrPatch ::
  "('a object_meta_scheme, 's) client \<Rightarrow> 'a object_meta_scheme \<Rightarrow> ('a object_meta_scheme \<Rightarrow> 'a object_meta_scheme) \<Rightarrow> 's
     \<Rightarrow> 'a object_meta_scheme" where
  "after_CreateOrPatch c obj mutate s =
     (case cl_get c (ObjectKeyFromObject obj) s of
        Inl e \<Rightarrow> if IsNotFound e then mutate obj else obj
      | Inr cur \<Rightarrow> if o_deletionTimestamp cur \<noteq> None then cur else mutate cur)"

definition kubeconfig_connection :: "'s kubeconfig_env \<Rightarrow> namespaced_name \<Rightarrow> 's \<Rightarrow> condition_reason \<times> string + api_cluster" where
  "kubeconfig_connection env key s =
     (case ke_get_secret env key s of
        Inl e \<Rightarrow> Inl (''SecretDataError'', error_text e)
      | Inr sec \<Rightarrow>
          if smap_val (secret_data sec) GreenHouseKubeConfigKey = []
          then Inl (''KubeconfigMissing'', ''secret data key greenhousekubeconfig missing or empty'')
          else (case cc_load (ke_lib env) (smap_val (secret_data sec) GreenHouseKubeConfigKey) of
                  Inl e \<Rightarrow> Inl (''KubeconfigLoadError'', error_text e)
                | Inr cfg \<Rightarrow>
                    (case cfg_clusters cfg of
                       [] \<Rightarrow> Inl (''KubeconfigInvalid'', ''no clusters found in kubeconfig'')
                     | (_, c) # _ \<Rightarrow> Inr c)))"

definition kubeconfig_Reconcile ::
  "time \<Rightarrow> 's kubeconfig_env \<Rightarrow> namespaced_name \<Rightarrow> 's \<Rightarrow> (ctrl_result \<times> go_error option) \<times> 's" where
  "kubeconfig_Reconcile now env key s =
     (case ke_get_cluster env key s of
        Inl e \<Rightarrow> ((EmptyResult, IgnoreNotFound (Some e)), s)
      | Inr cl \<Rightarrow>
          if o_deletionTimestamp cl \<noteq> None then ((EmptyResult, None), s)
          else (case obtain_kubeconfig env key cl s of
                  (Inl e, s1) \<Rightarrow> ((EmptyResult, Some e), s1)
                | (Inr ck, s1) \<Rightarrow>
                    (case getOIDCInfo env (o_namespace cl) cl s1 of
                       Inl e \<Rightarrow>
                         ((EmptyResult, None), patch_kubeconfig_status now env (kubeconfig_failed now ''OIDCInfoError'' (error_text e)) ck s1)
                     | Inr oidc \<Rightarrow>
                         (case kubeconfig_connection env key s1 of
                            Inl (reason, msg) \<Rightarrow>
                              ((EmptyResult, None), patch_kubeconfig_status now env (kubeconfig_failed now reason msg) ck s1)
                          | Inr cfg \<Rightarrow>
                              (let after = after_CreateOrPatch (ke_kubeconfigs env) ck (fill_kubeconfig cl cfg oidc) s1
                               in case CreateOrPatch (ke_kubeconfigs env) ck (\<lambda>x. Inr (fill_kubeconfig cl cfg oidc x)) s1 of
                                    ((_, Some e), s2) \<Rightarrow>
                                      ((EmptyResult, Some e),
                                       patch_kubeconfig_status now env (kubeconfig_failed now ''PatchError'' (error_text e)) after s2)
                                  | ((_, None), s2) \<Rightarrow>
                                      ((EmptyResult, None),
                                       patch_kubeconfig_status now env
                                         (FalseCondition now KubeconfigReconcileFailedCondition ''NoError'' []) after s2))))))"

section \<open>What a change reconciles\<close>

definition sameNameResource :: "'a object_meta_scheme \<Rightarrow> namespaced_name list" where
  "sameNameResource obj = [ObjectKeyFromObject obj]"

definition clusterSecretToCluster :: "secret \<Rightarrow> namespaced_name list" where
  "clusterSecretToCluster sec = (if secret_type sec = SecretTypeKubeConfig then [ObjectKeyFromObject sec] else [])"

definition requests_for :: "go_error + cluster list \<Rightarrow> namespaced_name list" where
  "requests_for r = (case r of Inl _ \<Rightarrow> [] | Inr cls \<Rightarrow> map ObjectKeyFromObject cls)"

definition organizationToClusters :: "'s kubeconfig_env \<Rightarrow> 'a object_meta_scheme \<Rightarrow> 's \<Rightarrow> namespaced_name list" where
  "organizationToClusters env obj s =
     (case ke_get_namespace env (o_name obj) s of
        Inl _ \<Rightarrow> []
      | Inr ns \<Rightarrow> requests_for (ke_list_clusters env (o_name ns) s))"

definition organizationSecretToClusters :: "'s kubeconfig_env \<Rightarrow> 'a object_meta_scheme \<Rightarrow> 's \<Rightarrow> namespaced_name list" where
  "organizationSecretToClusters env obj s = requests_for (ke_list_clusters env (o_namespace obj) s)"


section \<open>What the status says\<close>

lemmas kubeconfig_conditions =
  KubeconfigCreatedCondition_def KubeconfigReconcileFailedCondition_def KubeconfigReadyCondition_def

lemma reports_failure_shown: "reports_failure cs \<longleftrightarrow> shown_status cs KubeconfigReconcileFailedCondition = Some ConditionTrue"
  by (auto simp: reports_failure_def shown_status_def split: option.split)

text \<open>The conditions after the missing ones were added.\<close>

definition exposed_conditions :: "time \<Rightarrow> condition list \<Rightarrow> condition list" where
  "exposed_conditions now cs0 =
     fold (\<lambda>t cs. if GetConditionByType cs t = None then SetConditions now [UnknownCondition now t [] []] cs else cs)
       ExposedKubeconfigConditions
       (if length cs0 = 0 then SetConditions now [TrueCondition now KubeconfigCreatedCondition ''NewCreation'' []] cs0 else cs0)"

lemma shown_add_missing:
  "shown_status (if GetConditionByType cs t = None then SetConditions now [UnknownCondition now t [] []] cs else cs) t' =
     (if t' = t \<and> shown_status cs t = None then Some ConditionUnknown else shown_status cs t')"
  by (auto simp: shown_status_None_iff shown_status_set condition_constructors)

lemma shown_exposed:
  "t \<in> set ExposedKubeconfigConditions \<Longrightarrow> shown_status (exposed_conditions now cs) t \<noteq> None"
  "shown_status (exposed_conditions now cs) KubeconfigReconcileFailedCondition = Some ConditionTrue \<longleftrightarrow>
     shown_status cs KubeconfigReconcileFailedCondition = Some ConditionTrue"
  by (auto simp: exposed_conditions_def ExposedKubeconfigConditions_def shown_add_missing kubeconfig_conditions
      shown_status_set condition_constructors shown_status_def [of "[]"])

lemma add_no_missing:
  "\<forall>t \<in> set ts. GetConditionByType cs t \<noteq> None \<Longrightarrow>
     fold (\<lambda>t cs. if GetConditionByType cs t = None then SetConditions now [UnknownCondition now t [] []] cs else cs) ts cs = cs"
  by (induction ts) auto

lemma exposed_complete:
  "cs \<noteq> [] \<Longrightarrow> \<forall>t \<in> set ExposedKubeconfigConditions. GetConditionByType cs t \<noteq> None
     \<Longrightarrow> exposed_conditions now cs = cs"
  by (simp add: exposed_conditions_def add_no_missing del: not_None_eq)

lemma calculate_alt:
  "calculateKubeconfigStatus now ck =
     (let cs = exposed_conditions now (o_conditions ck)
      in if kubeconfig_configured ck \<and> \<not> reports_failure (o_conditions ck)
         then SetConditions now [FalseCondition now KubeconfigCreatedCondition ''ReadyState'' []]
                (SetConditions now [FalseCondition now KubeconfigReconcileFailedCondition ''ReadyState'' []]
                   (SetConditions now [TrueCondition now KubeconfigReadyCondition ''Complete'' []] cs))
         else SetConditions now [FalseCondition now KubeconfigReadyCondition
                (if reports_failure (o_conditions ck) then ''ReconcileFailed'' else ''Incomplete'') []] cs)"
  unfolding calculateKubeconfigStatus_def Let_def exposed_conditions_def [symmetric] reports_failure_shown
  using shown_exposed(2) [of now "o_conditions ck"] by simp

lemma conds_ok_add_missing:
  "conds_ok cs \<Longrightarrow> conds_ok (fold (\<lambda>t cs. if GetConditionByType cs t = None
      then SetConditions now [UnknownCondition now t [] []] cs else cs) ts cs)"
  by (induction ts arbitrary: cs) (auto simp: conds_ok_SetConditions)

lemma conds_ok_exposed: "conds_ok cs \<Longrightarrow> conds_ok (exposed_conditions now cs)"
  unfolding exposed_conditions_def by (rule conds_ok_add_missing) (auto intro: conds_ok_SetConditions)

text \<open>
  C27. The status of a ClusterKubeconfig is consistent, whatever it was before: every condition it exposes is
  there, at most once; it is ready exactly when the kubeconfig has a cluster, a user and a current context and the
  last reconciliation did not fail, and then no failure is reported; otherwise it is reported as not ready.
\<close>

theorem kubeconfig_status_consistent:
  assumes "conds_ok (o_conditions ck)"
  shows "conds_ok (calculateKubeconfigStatus now ck) \<and>
    (\<forall>t \<in> set ExposedKubeconfigConditions. shown_status (calculateKubeconfigStatus now ck) t \<noteq> None) \<and>
    shown_status (calculateKubeconfigStatus now ck) KubeconfigReadyCondition =
      Some (if kubeconfig_configured ck \<and> \<not> reports_failure (o_conditions ck) then ConditionTrue else ConditionFalse) \<and>
    \<not> (shown_status (calculateKubeconfigStatus now ck) KubeconfigReadyCondition = Some ConditionTrue \<and>
       reports_failure (calculateKubeconfigStatus now ck))"
proof -
  have "shown_status (calculateKubeconfigStatus now ck) t \<noteq> None" if "t \<in> set ExposedKubeconfigConditions" for t
    using shown_exposed(1) [OF that, of now "o_conditions ck"]
    by (auto simp: calculate_alt Let_def shown_status_set)
  moreover have "conds_ok (calculateKubeconfigStatus now ck)"
    using conds_ok_exposed [OF assms, of now] by (simp add: calculate_alt Let_def conds_ok_SetConditions)
  ultimately show ?thesis
    by (simp add: calculate_alt Let_def shown_status_set condition_constructors kubeconfig_conditions
        reports_failure_shown)
qed

theorem kubeconfig_status_consistent_witness:
  "shown_status (calculateKubeconfigStatus 5 (new_kubeconfig demo_cluster)) KubeconfigReadyCondition = Some ConditionFalse"
  using kubeconfig_status_consistent [of "new_kubeconfig demo_cluster" 5]
  by (simp add: new_kubeconfig_def conds_ok_def kubeconfig_configured_def)

text \<open>
  A failure hides the next one: after a failed reconciliation was recorded in the status, a reconciliation
  that fails for another reason patches nothing, because the new condition is set on the object before the
  difference is taken. The status keeps the reason and the message of the first failure.
\<close>

theorem failure_reason_sticks:
  assumes "o_conditions ck = calculateKubeconfigStatus now0 (SetCondition now0 (kubeconfig_failed now0 reason0 msg0) ck0)"
  shows "patch_kubeconfig_status now env (kubeconfig_failed now reason msg) ck s = s"
proof -
  let ?ck1 = "SetCondition now (kubeconfig_failed now reason msg) ck"
  let ?ready = "FalseCondition now KubeconfigReadyCondition ''ReconcileFailed'' []"
  have failed0: "reports_failure (o_conditions (SetCondition now0 (kubeconfig_failed now0 reason0 msg0) ck0))"
    by (simp add: reports_failure_shown SetCondition_def shown_status_set kubeconfig_failed_def condition_constructors)
  then obtain d where d: "GetConditionByType (o_conditions ck) KubeconfigReadyCondition = Some d"
      "Equal d ?ready"
    using sc.get_set_same [of now0 "FalseCondition now0 KubeconfigReadyCondition ''ReconcileFailed'' []"]
    by (fastforce simp: assms calculate_alt Let_def condition_constructors Equal_def)
  have failed: "reports_failure (o_conditions ?ck1)"
    by (simp add: reports_failure_shown SetCondition_def shown_status_set kubeconfig_failed_def condition_constructors)
  have other: "GetConditionByType (o_conditions ?ck1) KubeconfigReadyCondition = Some d"
    using d(1) by (simp add: SetCondition_def sc.get_set_other kubeconfig_failed_def condition_constructors kubeconfig_conditions)
  have "shown_status (o_conditions ck) t \<noteq> None" if "t \<in> set ExposedKubeconfigConditions" for t
    using shown_exposed(1) [OF that] failed0 by (simp add: assms calculate_alt Let_def shown_status_set)
  then have "GetConditionByType (o_conditions ?ck1) t \<noteq> None" if "t \<in> set ExposedKubeconfigConditions" for t
    using that by (simp add: SetCondition_def shown_status_None_iff shown_status_set)
  moreover have "o_conditions ?ck1 \<noteq> []" using other by auto
  ultimately have "exposed_conditions now (o_conditions ?ck1) = o_conditions ?ck1" by (intro exposed_complete) auto
  moreover have "SetConditions now [?ready] (o_conditions ?ck1) = o_conditions ?ck1"
    using other d(2) by (intro SetConditions_equal) (simp add: condition_constructors)
  ultimately have "calculateKubeconfigStatus now ?ck1 = o_conditions ?ck1"
    using failed by (simp add: calculate_alt Let_def)
  then show ?thesis by (simp add: patch_kubeconfig_status_def PatchStatus_def patch_object_def Let_def)
qed


definition failed_kubeconfig :: cluster_kubeconfig where
  "failed_kubeconfig = (new_kubeconfig demo_cluster)\<lparr>o_conditions :=
     calculateKubeconfigStatus 5 (SetCondition 5 (kubeconfig_failed 5 ''OIDCInfoError'' ''no oidc config found'') (new_kubeconfig demo_cluster))\<rparr>"

definition kubeconfig_demo_env :: "(cluster_kubeconfig option) kubeconfig_env" where
  "kubeconfig_demo_env =
     \<lparr>ke_get_cluster = (\<lambda>_ _. Inr demo_cluster), ke_kubeconfigs = slot_client,
      ke_get_org = (\<lambda>_ _. Inl (ApiError ReasonNotFound ''not found'' [])), ke_get_secret = (\<lambda>_ _. Inl (ApiError ReasonNotFound ''not found'' [])),
      ke_get_namespace = (\<lambda>n _. Inr (NewServiceAccount n [])), ke_list_clusters = (\<lambda>_ _. Inr [demo_cluster]), ke_lib = demo_lib\<rparr>"

theorem failure_reason_sticks_witness:
  "patch_kubeconfig_status 9 kubeconfig_demo_env (kubeconfig_failed 9 ''SecretDataError'' ''not found'') failed_kubeconfig (Some failed_kubeconfig)
     = Some failed_kubeconfig"
  by (rule failure_reason_sticks [of _ 5 "''OIDCInfoError''" "''no oidc config found''" "new_kubeconfig demo_cluster"])
    (simp add: failed_kubeconfig_def)

section \<open>What users download\<close>

definition success_conditions :: "time \<Rightarrow> condition list \<Rightarrow> condition list" where
  "success_conditions now cs =
     SetConditions now [FalseCondition now KubeconfigCreatedCondition ''ReadyState'' []]
       (SetConditions now [FalseCondition now KubeconfigReconcileFailedCondition ''ReadyState'' []]
          (SetConditions now [TrueCondition now KubeconfigReadyCondition ''Complete'' []] (exposed_conditions now cs)))"

lemma success_conditions_shown:
  "shown_status (success_conditions now cs) KubeconfigReadyCondition = Some ConditionTrue"
  "\<exists>d. GetConditionByType (success_conditions now cs) KubeconfigReconcileFailedCondition = Some d \<and> c_reason d = ''ReadyState''"
  using sc.get_set_same [of now "FalseCondition now KubeconfigReconcileFailedCondition ''ReadyState'' []"]
  by (auto simp: success_conditions_def shown_status_set condition_constructors kubeconfig_conditions sc.get_set_other
      Equal_def)

text \<open>
  A reconciliation that gets past the sources, and whose writes the API server accepts as they are, leaves a
  kubeconfig users can connect with: the server and the certificate authority of the kubeconfig Greenhouse uses
  itself, the OIDC client of the organization or of the override, and the labels of the Cluster; and it is
  reported as ready.
\<close>

theorem kubeconfig_reconciled:
  assumes cl: "ke_get_cluster env key s = Inr cl" "o_deletionTimestamp cl = None"
    and ck: "obtain_kubeconfig env key cl s = (Inr ck, s1)"
    and oidc: "getOIDCInfo env (o_namespace cl) cl s1 = Inr oidc"
    and cfg: "kubeconfig_connection env key s1 = Inr cfg"
    and cur: "cl_get (ke_kubeconfigs env) (ObjectKeyFromObject ck) s1 = Inr cur" "o_deletionTimestamp cur = None"
      "ck_contexts cur \<noteq> []" "ck_currentContext cur \<noteq> []"
    and server: "\<And>x y t. cl_patch (ke_kubeconfigs env) x y t = (None, store x t)"
      "\<And>x y t. cl_patch_status (ke_kubeconfigs env) x y t = (None, store x t)"
      "\<And>x t. cl_get (ke_kubeconfigs env) (ObjectKeyFromObject ck) (store x t) = Inr x"
      "\<And>x t. cl_get (ke_kubeconfigs env) (ObjectKeyFromObject ck) t = Inr x \<Longrightarrow> store x t = t"
  shows "\<exists>s2 x. kubeconfig_Reconcile now env key s = ((EmptyResult, None), s2) \<and>
     cl_get (ke_kubeconfigs env) (ObjectKeyFromObject ck) s2 = Inr x \<and>
     ck_clusters x = [\<lparr>ckc_name = o_name cl, ckc_server = ac_server cfg, ckc_caData = ac_caData cfg\<rparr>] \<and>
     map cka_config (ck_authInfos x) = [[(''client-id'', oi_clientID oidc), (''client-secret'', oi_clientSecret oidc),
       (''idp-issuer-url'', oi_issuerURL oidc)]] \<and>
     o_labels x = o_labels cl \<and> shown_status (o_conditions x) KubeconfigReadyCondition = Some ConditionTrue"
proof -
  let ?fill = "fill_kubeconfig cl cfg oidc"
  let ?ok = "FalseCondition now KubeconfigReconcileFailedCondition ''NoError'' []"
  define y where "y = SetCondition now ?ok (?fill cur)"
  define z where "z = y\<lparr>o_conditions := calculateKubeconfigStatus now y\<rparr>"
  have patch: "\<exists>r. CreateOrPatch (ke_kubeconfigs env) ck (\<lambda>x. Inr (?fill x)) s1 = ((r, None), store (?fill cur) s1)"
    using cur(1,2) server(1,4) by (simp add: CreateOrPatch_def patch_object_def)
  have after: "after_CreateOrPatch (ke_kubeconfigs env) ck ?fill s1 = ?fill cur"
    using cur(1,2) by (simp add: after_CreateOrPatch_def)
  have "kubeconfig_configured y" using cur(3,4) by (simp add: y_def kubeconfig_configured_def fill_kubeconfig_def SetCondition_def)
  moreover have "\<not> reports_failure (o_conditions y)"
    by (simp add: y_def reports_failure_shown SetCondition_def shown_status_set condition_constructors)
  ultimately have calc: "o_conditions z = success_conditions now (o_conditions y)"
    by (simp add: z_def calculate_alt success_conditions_def Let_def)
  have "\<exists>d. GetConditionByType (o_conditions y) KubeconfigReconcileFailedCondition = Some d \<and> c_reason d = ''NoError''"
    using sc.get_set_same [of now ?ok "o_conditions (?fill cur)"]
    by (auto simp: y_def SetCondition_def Equal_def condition_constructors)
  with success_conditions_shown(2) [of now "o_conditions y"] have "o_conditions y \<noteq> o_conditions z" unfolding calc by fastforce
  then have "y \<noteq> z" by blast
  then have status: "patch_kubeconfig_status now env ?ok (?fill cur) t = store z t" for t
    using server(2)
    by (simp add: patch_kubeconfig_status_def PatchStatus_def patch_object_def Let_def flip: y_def)
      (simp flip: z_def)
  from patch obtain r where "CreateOrPatch (ke_kubeconfigs env) ck (\<lambda>x. Inr (?fill x)) s1 = ((r, None), store (?fill cur) s1)" ..
  then have "kubeconfig_Reconcile now env key s = ((EmptyResult, None), store z (store (?fill cur) s1))"
    using cl ck oidc cfg after by (simp add: kubeconfig_Reconcile_def Let_def status)
  moreover have "ck_clusters z = ck_clusters (?fill cur)" "ck_authInfos z = ck_authInfos (?fill cur)" "o_labels z = o_labels (?fill cur)"
    by (simp_all add: z_def y_def SetCondition_def)
  ultimately show ?thesis
    using server(3) [of z "store (?fill cur) s1"] success_conditions_shown(1) [of now "o_conditions y"]
    by (auto simp: calc fill_kubeconfig_def)
qed


definition demo_org :: organization where
  "demo_org =
     \<lparr>o_name = ''org'', o_namespace = [], o_labels = [], o_annotations = [], o_finalizers = [], o_deletionTimestamp = None,
      o_ownerReferences = [], o_conditions = [], org_displayName = [],
      org_authentication = Some \<lparr>auth_oidc = Some \<lparr>oidc_issuer = ''https://idp'', oidc_redirectURI = [],
         oidc_clientIDReference = \<lparr>sk_name = ''oidc'', sk_key = ''id''\<rparr>,
         oidc_clientSecretReference = \<lparr>sk_name = ''oidc'', sk_key = ''secret''\<rparr>, oidc_oauth2ClientRedirectURIs = []\<rparr>,
         auth_scim = None\<rparr>,
      org_description = [], org_mappedOrgAdminIDPGroup = [], org_configMapRef = []\<rparr>"

definition download_env :: "(cluster_kubeconfig option) kubeconfig_env" where
  "download_env = kubeconfig_demo_env\<lparr>ke_get_org := (\<lambda>_ _. Inr demo_org),
     ke_get_secret := (\<lambda>_ _. Inr (demo_secret [(''id'', ''client''), (''secret'', ''pass''), (GreenHouseKubeConfigKey, ''https://api'')]))\<rparr>"

theorem kubeconfig_reconciled_witness:
  "\<exists>s2 x. kubeconfig_Reconcile 9 download_env (ObjectKeyFromObject demo_cluster) (Some failed_kubeconfig) = ((EmptyResult, None), s2) \<and>
     s2 = Some x \<and> map ckc_server (ck_clusters x) = [''https://api'']"
proof -
  let ?key = "ObjectKeyFromObject demo_cluster"
  have key: "ObjectKeyFromObject failed_kubeconfig = ?key"
    by (simp add: failed_kubeconfig_def new_kubeconfig_def ObjectKeyFromObject_def)
  have cl: "ke_get_cluster download_env ?key (Some failed_kubeconfig) = Inr demo_cluster" "o_deletionTimestamp demo_cluster = None"
    by (simp_all add: download_env_def kubeconfig_demo_env_def demo_cluster_def)
  have ck: "obtain_kubeconfig download_env ?key demo_cluster (Some failed_kubeconfig) = (Inr failed_kubeconfig, Some failed_kubeconfig)"
    by (simp add: obtain_kubeconfig_def download_env_def kubeconfig_demo_env_def slot_client_def)
  have oidc: "getOIDCInfo download_env (o_namespace demo_cluster) demo_cluster (Some failed_kubeconfig)
      = Inr \<lparr>oi_clientID = ''client'', oi_clientSecret = ''pass'', oi_issuerURL = ''https://idp''\<rparr>"
    by (simp add: getOIDCInfo_def download_env_def demo_org_def GetSecretKeyFromSecretKeyReference_def demo_secret_def
        smap_simps GreenHouseKubeConfigKey_def TrimNewlines_def demo_cluster_def)
  have cfg: "kubeconfig_connection download_env ?key (Some failed_kubeconfig)
      = Inr \<lparr>ac_server = ''https://api'', ac_caData = ''ca'', ac_tlsServerName = [], ac_proxyURL = []\<rparr>"
    by (simp add: kubeconfig_connection_def download_env_def kubeconfig_demo_env_def demo_secret_def smap_simps
        GreenHouseKubeConfigKey_def demo_lib_def)
  have cur: "cl_get (ke_kubeconfigs download_env) (ObjectKeyFromObject failed_kubeconfig) (Some failed_kubeconfig) = Inr failed_kubeconfig"
      "o_deletionTimestamp failed_kubeconfig = None" "ck_contexts failed_kubeconfig \<noteq> []" "ck_currentContext failed_kubeconfig \<noteq> []"
    by (simp_all add: download_env_def kubeconfig_demo_env_def slot_client_def failed_kubeconfig_def new_kubeconfig_def demo_cluster_def)
  have server: "cl_patch (ke_kubeconfigs download_env) x y t = (None, Some x)"
      "cl_patch_status (ke_kubeconfigs download_env) x y t = (None, Some x)"
      "cl_get (ke_kubeconfigs download_env) (ObjectKeyFromObject failed_kubeconfig) (Some x) = Inr x"
      "cl_get (ke_kubeconfigs download_env) (ObjectKeyFromObject failed_kubeconfig) t = Inr x \<Longrightarrow> Some x = t" for x y t
    by (auto simp: download_env_def kubeconfig_demo_env_def slot_client_def split: option.splits)
  from kubeconfig_reconciled [where store = "\<lambda>x _. Some x", OF cl ck oidc cfg cur server, of 9]
  show ?thesis by (auto simp: download_env_def kubeconfig_demo_env_def slot_client_def split: option.splits)
qed

end
