(* ===== verification/File_Paths.thy ===== *)
theory File_Paths
  imports Greenhouse_Prelude
begin

text \<open>
  Paths of files as \<open>path/filepath\<close> handles them, and the search for a directory among the parents of a path
  (\<open>internal/clientutil/util.go\<close>). The working directory and \<open>os.Stat\<close> are parameters.
\<close>

section \<open>Clean and Join\<close>

text \<open>
  \<open>filepath.Clean\<close> drops empty elements and \<open>.\<close>, and lets \<open>..\<close> remove the element before it; the elements
  kept so far are on a stack.
\<close>

fun clean_elements :: "bool \<Rightarrow> string list \<Rightarrow> string list \<Rightarrow> string list" where
  "clean_elements rooted [] st = rev st"
| "clean_elements rooted (e # es) st =
     (if e = [] \<or> e = ''.'' then clean_elements rooted es st
      else if e = ''..'' then
        (case st of
           [] \<Rightarrow> clean_elements rooted es (if rooted then [] else [e])
         | t # ts \<Rightarrow> clean_elements rooted es (if t = ''..'' then e # st else ts))
      else clean_elements rooted es (e # st))"

definition path_rooted :: "string \<Rightarrow> bool" where
  "path_rooted p \<longleftrightarrow> HasPrefix p ''/''"

definition path_elements :: "string \<Rightarrow> string list" where
  "path_elements p = clean_elements (path_rooted p) (split_char (CHR ''/'') p) []"

definition rooted_path :: "string list \<Rightarrow> string" where
  "rooted_path es = ''/'' @ Join es ''/''"

definition filepath_Clean :: "string \<Rightarrow> string" where
  "filepath_Clean p =
     (if path_rooted p then rooted_path (path_elements p)
      else if path_elements p = [] then ''.'' else Join (path_elements p) ''/'')"

definition filepath_Join :: "string list \<Rightarrow> string" where
  "filepath_Join es =
     (case dropWhile (\<lambda>e. e = []) es of [] \<Rightarrow> [] | e # es' \<Rightarrow> filepath_Clean (Join (e # es') ''/''))"

text \<open>
  \<open>filepath.Abs\<close> of a relative path needs the working directory, an absolute path given by its elements.
\<close>

definition filepath_Abs :: "(go_error + string list) \<Rightarrow> string \<Rightarrow> go_error + string" where
  "filepath_Abs getwd p =
     (if path_rooted p then Inr (filepath_Clean p)
      else case getwd of Inl e \<Rightarrow> Inl e | Inr wd \<Rightarrow> Inr (filepath_Join [rooted_path wd, p]))"

section \<open>Laws\<close>

definition element_ok :: "string \<Rightarrow> bool" where
  "element_ok e \<longleftrightarrow> e \<noteq> [] \<and> e \<noteq> ''.'' \<and> e \<noteq> ''..'' \<and> CHR ''/'' \<notin> set e"

lemma split_char_no_sep_elements: "\<forall>e \<in> set (split_char c s). c \<notin> set e"
  by (induction s) (auto split: list.splits)

lemma clean_elements_ok:
  "\<lbrakk>\<forall>e \<in> set es. CHR ''/'' \<notin> set e; \<forall>e \<in> set st. element_ok e\<rbrakk>
     \<Longrightarrow> \<forall>e \<in> set (clean_elements True es st). element_ok e"
proof (induction es arbitrary: st)
  case (Cons e es)
  have ok: "\<forall>x \<in> set (case st of [] \<Rightarrow> [] | t # ts \<Rightarrow> ts). element_ok x"
    using Cons.prems(2) by (cases st) auto
  have st: "st \<noteq> [] \<Longrightarrow> hd st \<noteq> ''..''" using Cons.prems(2) by (cases st) (auto simp: element_ok_def)
  show ?case
  proof (cases "e = [] \<or> e = ''.'' \<or> e = ''..''")
    case True
    then show ?thesis using Cons.IH [OF _ ok] Cons.IH [OF _ Cons.prems(2)] Cons.prems(1) st by (cases st) auto
  next
    case False
    then have "\<forall>x \<in> set (e # st). element_ok x" using Cons.prems by (simp add: element_ok_def)
    then have "\<forall>x \<in> set (clean_elements True es (e # st)). element_ok x"
      by (rule Cons.IH [rotated]) (use Cons.prems(1) in simp)
    moreover have "clean_elements True (e # es) st = clean_elements True es (e # st)" using False by simp
    ultimately show ?thesis by (simp only:)
  qed
qed simp

lemma path_elements_ok: "path_rooted p \<Longrightarrow> e \<in> set (path_elements p) \<Longrightarrow> element_ok e"
  using clean_elements_ok [of "split_char (CHR ''/'') p" "[]"] split_char_no_sep_elements [of "CHR ''/''" p]
  by (auto simp: path_elements_def)

lemma clean_elements_id:
  "list_all element_ok es \<Longrightarrow> clean_elements r (es @ rest) st = clean_elements r rest (rev es @ st)"
  by (induction es arbitrary: st) (simp_all add: element_ok_def)

lemma clean_elements_append:
  "clean_elements True (es @ fs) st = clean_elements True fs (rev (clean_elements True es st))"
  by (induction es arbitrary: st) (simp_all split: list.split)

lemma Join_snoc: "es \<noteq> [] \<Longrightarrow> Join (es @ [e]) sep = Join es sep @ sep @ e"
  by (induction es sep rule: Join.induct) auto

lemma split_Join: "es \<noteq> [] \<Longrightarrow> \<forall>e \<in> set es. c \<notin> set e \<Longrightarrow> split_char c (Join es [c]) = es"
  by (induction es "[c]" rule: Join.induct) (auto simp: split_char_no_sep split_char_append_sep)

lemma rooted_path_rooted [simp]: "path_rooted (rooted_path es)"
  by (simp add: path_rooted_def rooted_path_def HasPrefix_def)

lemma rooted_path_append [simp]: "path_rooted (rooted_path es @ x)"
  by (simp add: path_rooted_def rooted_path_def HasPrefix_def)

lemma split_slash: "split_char (CHR ''/'') (CHR ''/'' # s) = [] # split_char (CHR ''/'') s"
  by simp

lemma path_elements_rooted [simp]:
  assumes "list_all element_ok es"
  shows "path_elements (rooted_path es) = es"
proof (cases "es = []")
  case False
  with assms have "split_char (CHR ''/'') (Join es ''/'') = es"
    by (intro split_Join) (auto simp: element_ok_def list_all_iff)
  then show ?thesis
    using clean_elements_id [OF assms, of True "[]" "[]"]
    unfolding path_elements_def rooted_path_def by (simp add: path_rooted_def HasPrefix_def)
qed (simp add: path_elements_def rooted_path_def path_rooted_def HasPrefix_def)

lemma rooted_path_inj:
  "list_all element_ok es \<Longrightarrow> list_all element_ok fs \<Longrightarrow> rooted_path es = rooted_path fs \<longleftrightarrow> es = fs"
  by (metis path_elements_rooted)

lemma path_elements_slash:
  assumes "path_rooted p"
  shows "path_elements (p @ ''/'' @ q) = clean_elements True (split_char (CHR ''/'') q) (rev (path_elements p))"
proof -
  have "path_rooted (p @ ''/'' @ q)" using assms by (auto simp: path_rooted_def HasPrefix_def)
  then show ?thesis
    using assms by (simp add: path_elements_def split_char_append_sep clean_elements_append)
qed

lemma filepath_Join2:
  assumes "path_rooted p"
  shows "filepath_Join [p, q] = rooted_path (clean_elements True (split_char (CHR ''/'') q) (rev (path_elements p)))"
proof -
  have "p \<noteq> []" and "path_rooted (p @ ''/'' @ q)" using assms by (auto simp: path_rooted_def HasPrefix_def)
  then show ?thesis
    using path_elements_slash [OF assms, of q] by (simp add: filepath_Join_def filepath_Clean_def)
qed

text \<open>Joining plain names to a clean absolute path appends them; joining \<open>..\<close> removes the last element.\<close>

lemma filepath_Join_names:
  assumes "list_all element_ok es" and "element_ok a"
  shows "filepath_Join [rooted_path es, a] = rooted_path (es @ [a])"
  using assms clean_elements_id [of "[a]" True "[]" "rev es"]
  by (simp add: filepath_Join2 split_char_no_sep element_ok_def)

lemma filepath_Join_parent:
  assumes "list_all element_ok es"
  shows "filepath_Join [rooted_path es, ''..''] = rooted_path (butlast es)"
proof (cases es rule: rev_cases)
  case (snoc fs f)
  with assms show ?thesis by (simp add: filepath_Join2 element_ok_def)
qed (simp add: filepath_Join2)

lemma filepath_Join_two_names:
  assumes "list_all element_ok es" and "element_ok a" and "element_ok b"
  shows "filepath_Join [rooted_path es, a, b] = rooted_path (es @ [a, b])"
proof -
  have "filepath_Join [rooted_path es, a, b] = filepath_Join [rooted_path es, a @ ''/'' @ b]"
    by (simp add: filepath_Join_def rooted_path_def)
  also have "\<dots> = rooted_path (es @ [a, b])"
    using assms clean_elements_id [of "[a, b]" True "[]" "rev es"]
    by (simp add: filepath_Join2 split_char_append_sep split_char_no_sep element_ok_def)
  finally show ?thesis .
qed

lemma filepath_Clean_rooted:
  "path_rooted p \<Longrightarrow> filepath_Clean p = rooted_path (path_elements p) \<and> list_all element_ok (path_elements p)"
  by (auto simp: filepath_Clean_def list_all_iff path_elements_ok)

section \<open>Searching upwards\<close>

datatype file_stat = StatFound | StatNotExist | StatError go_error

text \<open>
  The measure of the search: a path that is the string \<open>/\<close> ends it; every other path is followed by its
  parent, which has fewer elements or is \<open>/\<close>.
\<close>

definition search_depth :: "(go_error + string list) \<Rightarrow> string \<Rightarrow> nat" where
  "search_depth getwd p =
     (if p = ''/'' then 0
      else case filepath_Abs getwd p of Inl _ \<Rightarrow> 1 | Inr a \<Rightarrow> Suc (length (path_elements a)))"

lemma abs_rooted:
  assumes "filepath_Abs getwd p = Inr a"
  obtains es where "a = rooted_path es" and "list_all element_ok es"
proof (cases "path_rooted p")
  case True
  with assms have "a = filepath_Clean p" by (simp add: filepath_Abs_def)
  with filepath_Clean_rooted [OF True] that show ?thesis by auto
next
  case False
  with assms obtain wd where wd: "a = filepath_Join [rooted_path wd, p]"
    by (auto simp: filepath_Abs_def split: sum.splits)
  let ?es = "clean_elements True (split_char (CHR ''/'') p) (rev (path_elements (rooted_path wd)))"
  have "\<forall>e \<in> set ?es. element_ok e"
    by (rule clean_elements_ok) (auto simp: split_char_no_sep_elements path_elements_ok [OF rooted_path_rooted])
  with wd that [of ?es] show ?thesis by (simp add: filepath_Join2 list_all_iff)
qed

lemma search_depth_parent:
  assumes "list_all element_ok es" and "p \<noteq> ''/''" and "filepath_Abs getwd p = Inr (rooted_path es)"
  shows "search_depth getwd (filepath_Join [rooted_path es, ''..'']) < search_depth getwd p"
proof -
  have ok: "list_all element_ok (butlast es)" using assms(1) by (metis in_set_butlastD list_all_iff)
  have "search_depth getwd (rooted_path (butlast es)) < Suc (length es)"
  proof (cases "butlast es = []")
    case False
    then show ?thesis
      using ok by (cases es) (auto simp: search_depth_def filepath_Abs_def filepath_Clean_def)
  qed (simp add: search_depth_def rooted_path_def)
  with assms show ?thesis by (simp add: filepath_Join_parent search_depth_def)
qed

lemma search_depth_step:
  assumes "p \<noteq> ''/''" and "filepath_Abs getwd p = Inr a"
  shows "search_depth getwd (filepath_Join [a, ''..'']) < search_depth getwd p"
proof -
  obtain es where "a = rooted_path es" "list_all element_ok es" using assms(2) by (rule abs_rooted)
  with assms show ?thesis using search_depth_parent by simp
qed

text \<open>\<open>findRecursively\<close> and \<open>FindDirUpwards\<close>.\<close>

function (sequential) findRecursively ::
  "(go_error + string list) \<Rightarrow> (string \<Rightarrow> file_stat) \<Rightarrow> string \<Rightarrow> string \<Rightarrow> int \<Rightarrow> int \<Rightarrow> go_error + string" where
  "findRecursively getwd stat p dirName maxSteps steps =
     (if p = ''/'' then Inl (PlainError (''root reached. directory not found: '' @ dirName))
      else if maxSteps = steps then Inl (PlainError (''max steps reached. directory not found: '' @ dirName))
      else case filepath_Abs getwd p of
             Inl e \<Rightarrow> Inl e
           | Inr absPath \<Rightarrow>
               (case stat (filepath_Join [absPath, dirName]) of
                  StatFound \<Rightarrow> Inr (filepath_Join [absPath, dirName])
                | StatNotExist \<Rightarrow>
                    findRecursively getwd stat (filepath_Join [absPath, ''..'']) dirName maxSteps (steps + 1)
                | StatError e \<Rightarrow> Inl e))"
  by pat_completeness auto
termination
  by (relation "measure (\<lambda>(getwd, stat, p, d, m, k). search_depth getwd p)")
    (simp_all add: search_depth_step)

declare findRecursively.simps [simp del]

definition FindDirUpwards ::
  "(go_error + string list) \<Rightarrow> (string \<Rightarrow> file_stat) \<Rightarrow> string \<Rightarrow> string \<Rightarrow> int \<Rightarrow> go_error + string" where
  "FindDirUpwards getwd stat p dirName maxSteps = findRecursively getwd stat p dirName maxSteps 0"


section \<open>What the search finds\<close>

text \<open>How many directories are looked at: the parents up to the root, which is not looked at itself, or the limit.\<close>

definition search_bound :: "int \<Rightarrow> string list \<Rightarrow> nat" where
  "search_bound limit es = (if limit < 0 then length es else min (nat limit) (length es))"

definition candidate :: "string list \<Rightarrow> string \<Rightarrow> nat \<Rightarrow> string" where
  "candidate es dirName i = rooted_path (take (length es - i) es @ [dirName])"

lemma candidate_snoc: "i \<le> length fs \<Longrightarrow> candidate (fs @ [f]) d (Suc i) = candidate fs d i"
  by (simp add: candidate_def)

lemma search_bound_snoc:
  "search_bound limit (fs @ [f]) = (if limit = 0 then 0 else Suc (search_bound (limit - 1) fs))"
  by (auto simp: search_bound_def min_def)

lemma search_bound_le: "search_bound limit es \<le> length es"
  by (simp add: search_bound_def)

lemma find_upt_Suc: "find P [0..<Suc n] = (if P 0 then Some 0 else map_option Suc (find (\<lambda>i. P (Suc i)) [0..<n]))"
proof -
  have "find P (map Suc xs) = map_option Suc (find (\<lambda>i. P (Suc i)) xs)" for xs by (induction xs) auto
  then show ?thesis by (simp only: upt_conv_Cons [OF zero_less_Suc] map_Suc_upt [symmetric] find.simps)
qed

lemma find_upt_cong: "(\<And>i. i < n \<Longrightarrow> P i = Q i) \<Longrightarrow> find P [0..<n] = find Q [0..<n]"
  by (rule find_cong) auto

lemma findRecursively_step:
  assumes "list_all element_ok (fs @ [f])" and "element_ok d"
  shows "findRecursively getwd stat (rooted_path (fs @ [f])) d maxSteps steps =
    (if maxSteps = steps then Inl (PlainError (''max steps reached. directory not found: '' @ d))
     else case stat (candidate (fs @ [f]) d 0) of
            StatFound \<Rightarrow> Inr (candidate (fs @ [f]) d 0)
          | StatNotExist \<Rightarrow> findRecursively getwd stat (rooted_path fs) d maxSteps (steps + 1)
          | StatError e \<Rightarrow> Inl e)"
proof -
  have "rooted_path (fs @ [f]) \<noteq> rooted_path []"
    using assms(1) by (subst rooted_path_inj) simp_all
  then have root: "rooted_path (fs @ [f]) \<noteq> ''/''" by (simp add: rooted_path_def)
  have abs: "filepath_Abs getwd (rooted_path (fs @ [f])) = Inr (rooted_path (fs @ [f]))"
    using assms(1) by (simp add: filepath_Abs_def filepath_Clean_def)
  show ?thesis
    using assms filepath_Join_parent [OF assms(1)] filepath_Join_names [OF assms]
    by (subst findRecursively.simps) (simp add: root abs candidate_def split: file_stat.split)
qed

lemma findRecursively_outcome:
  assumes "list_all element_ok es" and "element_ok d"
  shows "findRecursively getwd stat (rooted_path es) d maxSteps steps =
    (case find (\<lambda>i. stat (candidate es d i) \<noteq> StatNotExist) [0..<search_bound (maxSteps - steps) es] of
       Some i \<Rightarrow> (case stat (candidate es d i) of StatError e \<Rightarrow> Inl e | _ \<Rightarrow> Inr (candidate es d i))
     | None \<Rightarrow> Inl (PlainError ((if search_bound (maxSteps - steps) es = length es then ''root reached''
                                 else ''max steps reached'') @ ''. directory not found: '' @ d)))"
  using assms(1)
proof (induction es arbitrary: steps rule: rev_induct)
  case Nil
  show ?case by (subst findRecursively.simps) (simp add: rooted_path_def search_bound_def)
next
  case (snoc f fs)
  let ?n = "search_bound (maxSteps - steps - 1) fs"
  have IH: "findRecursively getwd stat (rooted_path fs) d maxSteps (steps + 1) =
    (case find (\<lambda>i. stat (candidate fs d i) \<noteq> StatNotExist) [0..<?n] of
       Some i \<Rightarrow> (case stat (candidate fs d i) of StatError e \<Rightarrow> Inl e | _ \<Rightarrow> Inr (candidate fs d i))
     | None \<Rightarrow> Inl (PlainError ((if ?n = length fs then ''root reached'' else ''max steps reached'')
                                 @ ''. directory not found: '' @ d)))"
    using snoc.IH [of "steps + 1"] snoc.prems by (simp add: algebra_simps)
  have tail: "find (\<lambda>i. stat (candidate (fs @ [f]) d (Suc i)) \<noteq> StatNotExist) [0..<?n]
      = find (\<lambda>i. stat (candidate fs d i) \<noteq> StatNotExist) [0..<?n]"
    using search_bound_le [of "maxSteps - steps - 1" fs] by (intro find_upt_cong) (simp add: candidate_snoc)
  have later: "find (\<lambda>i. stat (candidate fs d i) \<noteq> StatNotExist) [0..<?n] = Some i \<Longrightarrow>
      candidate (fs @ [f]) d (Suc i) = candidate fs d i" for i
    using search_bound_le [of "maxSteps - steps - 1" fs] by (intro candidate_snoc) (auto simp: find_Some_iff)
  show ?case
  proof (cases "maxSteps = steps")
    case False
    show ?thesis
      by (cases "stat (candidate (fs @ [f]) d 0)";
          cases "find (\<lambda>i. stat (candidate fs d i) \<noteq> StatNotExist) [0..<?n]")
        (simp_all add: findRecursively_step [OF snoc.prems assms(2)] search_bound_snoc False find_upt_Suc IH
          tail later del: upt_Suc split: file_stat.split)
  qed (simp add: findRecursively_step [OF snoc.prems assms(2)] search_bound_snoc)
qed

text \<open>
  The search for a directory always ends, whatever the limit is, also a negative one that the counter never
  meets: it looks at the directory in the start path and in its parents, in this order and at most as often
  as the limit and the depth of the start path allow, and answers with the first one that exists or whose
  lookup fails; the root itself is not looked at.
\<close>

theorem FindDirUpwards_ends:
  assumes "list_all element_ok es" and "element_ok dirName"
  shows "FindDirUpwards getwd stat (rooted_path es) dirName maxSteps =
    (case find (\<lambda>i. stat (candidate es dirName i) \<noteq> StatNotExist) [0..<search_bound maxSteps es] of
       Some i \<Rightarrow> (case stat (candidate es dirName i) of StatError e \<Rightarrow> Inl e | _ \<Rightarrow> Inr (candidate es dirName i))
     | None \<Rightarrow> Inl (PlainError ((if search_bound maxSteps es = length es then ''root reached''
                                 else ''max steps reached'') @ ''. directory not found: '' @ dirName)))"
  using findRecursively_outcome [OF assms, of getwd stat maxSteps 0] by (simp add: FindDirUpwards_def)

theorem FindDirUpwards_ends_witness:
  "FindDirUpwards (Inr []) (\<lambda>p. if p = ''/a/charts'' then StatFound else StatNotExist) ''/a/b/c'' ''charts'' (-1)
     = Inr ''/a/charts''"
  using FindDirUpwards_ends [of "[''a'', ''b'', ''c'']" "''charts''" "Inr []"
      "\<lambda>p. if p = ''/a/charts'' then StatFound else StatNotExist" "-1"]
  by (simp add: element_ok_def rooted_path_def candidate_def search_bound_def upt_rec)

end
