(* ===== verification/Artifacts.thy ===== *)
theory Artifacts
  imports File_Paths Base64 Json_Codec "HOL-Library.List_Lexorder" "HOL-Library.Char_ord"
begin

text \<open>
  The store of artifacts (\<open>internal/flux/artifact.go\<close>): chart archives and catalog sources are kept in files
  below a base directory, one directory per artifact with one file per digest, and fetched over HTTP
  otherwise. The file system is a map from paths to contents in which operations may fail; the HTTP client,
  URL parsing and the readers of gzip and tar are parameters. Logging and locking are left out.
\<close>

section \<open>Files\<close>

record file_system =
  fs_files :: "string smap"
  fs_dirs :: "string list"

datatype os_error = ErrNotExist | ErrOther go_error

text \<open>
  Failures of the operating system by path; a write that fails may have stored the first bytes of the
  content.
\<close>

record os_faults =
  of_read :: "string \<Rightarrow> go_error option"
  of_stat :: "string \<Rightarrow> go_error option"
  of_mkdir :: "string \<Rightarrow> go_error option"
  of_write :: "string \<Rightarrow> (go_error \<times> nat option) option"
  of_readDir :: "string \<Rightarrow> go_error option"
  of_remove :: "string \<Rightarrow> go_error option"

definition no_faults :: os_faults where
  "no_faults = \<lparr>of_read = (\<lambda>_. None), of_stat = (\<lambda>_. None), of_mkdir = (\<lambda>_. None), of_write = (\<lambda>_. None),
     of_readDir = (\<lambda>_. None), of_remove = (\<lambda>_. None)\<rparr>"

definition os_ReadFile :: "os_faults \<Rightarrow> string \<Rightarrow> file_system \<Rightarrow> os_error + string" where
  "os_ReadFile flt p fs =
     (case of_read flt p of
        Some e \<Rightarrow> Inl (ErrOther e)
      | None \<Rightarrow> (case smap_get (fs_files fs) p of None \<Rightarrow> Inl ErrNotExist | Some c \<Rightarrow> Inr c))"

definition os_Stat :: "os_faults \<Rightarrow> string \<Rightarrow> file_system \<Rightarrow> os_error option" where
  "os_Stat flt p fs =
     (case of_stat flt p of
        Some e \<Rightarrow> Some (ErrOther e)
      | None \<Rightarrow> if smap_get (fs_files fs) p = None \<and> p \<notin> set (fs_dirs fs) then Some ErrNotExist else None)"

definition parent_dirs :: "string \<Rightarrow> string list" where
  "parent_dirs p = map (\<lambda>i. rooted_path (take i (path_elements p))) [0..<Suc (length (path_elements p))]"

definition os_MkdirAll :: "os_faults \<Rightarrow> string \<Rightarrow> file_system \<Rightarrow> go_error option \<times> file_system" where
  "os_MkdirAll flt p fs =
     (case of_mkdir flt p of
        Some e \<Rightarrow> (Some e, fs)
      | None \<Rightarrow>
          if list_ex (\<lambda>d. smap_get (fs_files fs) d \<noteq> None) (parent_dirs p)
          then (Some (PlainError ''not a directory''), fs)
          else (None, fs\<lparr>fs_dirs := parent_dirs p @ fs_dirs fs\<rparr>))"

definition os_WriteFile :: "os_faults \<Rightarrow> string \<Rightarrow> string \<Rightarrow> file_system \<Rightarrow> go_error option \<times> file_system" where
  "os_WriteFile flt p content fs =
     (case of_write flt p of
        Some (e, None) \<Rightarrow> (Some e, fs)
      | Some (e, Some n) \<Rightarrow> (Some e, fs\<lparr>fs_files := smap_set p (take n content) (fs_files fs)\<rparr>)
      | None \<Rightarrow> (None, fs\<lparr>fs_files := smap_set p content (fs_files fs)\<rparr>))"

text \<open>The entries of a directory, sorted by name, with a flag for directories.\<close>

definition child_of :: "string \<Rightarrow> string \<Rightarrow> string option" where
  "child_of dir p =
     (let rest = drop (Suc (length dir)) p
      in if HasPrefix p (dir @ ''/'') \<and> rest \<noteq> [] \<and> CHR ''/'' \<notin> set rest then Some rest else None)"

definition os_ReadDir :: "os_faults \<Rightarrow> string \<Rightarrow> file_system \<Rightarrow> os_error + (string \<times> bool) list" where
  "os_ReadDir flt dir fs =
     (case of_readDir flt dir of
        Some e \<Rightarrow> Inl (ErrOther e)
      | None \<Rightarrow>
          if dir \<notin> set (fs_dirs fs) then Inl ErrNotExist
          else Inr (sort_key fst
                 (map (\<lambda>n. (n, False)) (remdups (List.map_filter (\<lambda>f. child_of dir (fst f)) (fs_files fs)))
                  @ map (\<lambda>n. (n, True)) (remdups (List.map_filter (child_of dir) (fs_dirs fs))))))"

definition os_Remove :: "os_faults \<Rightarrow> string \<Rightarrow> file_system \<Rightarrow> os_error option \<times> file_system" where
  "os_Remove flt p fs =
     (case of_remove flt p of
        Some e \<Rightarrow> (Some (ErrOther e), fs)
      | None \<Rightarrow>
          if smap_get (fs_files fs) p = None then (Some ErrNotExist, fs)
          else (None, fs\<lparr>fs_files := smap_del p (fs_files fs)\<rparr>))"

section \<open>Saving, reading and deleting\<close>

fun os_error_value :: "os_error \<Rightarrow> go_error" where
  "os_error_value ErrNotExist = PlainError ''file does not exist''"
| "os_error_value (ErrOther e) = e"

definition artifact_Path :: "string \<Rightarrow> string \<Rightarrow> string \<Rightarrow> string" where
  "artifact_Path base artifactID digest = filepath_Join [base, artifactID, digest]"

definition filepath_Dir :: "string \<Rightarrow> string" where
  "filepath_Dir p = filepath_Clean (rev (dropWhile (\<lambda>c. c \<noteq> CHR ''/'') (rev p)))"

definition saveToFileSystem ::
  "string \<Rightarrow> os_faults \<Rightarrow> string \<Rightarrow> string \<Rightarrow> string \<Rightarrow> file_system \<Rightarrow> go_error option \<times> file_system" where
  "saveToFileSystem base flt artifactID digest content fs =
     (if artifactID = [] then (Some (PlainError ''artifactID must not be empty''), fs)
      else if digest = [] then (Some (PlainError ''digest must not be empty''), fs)
      else if length content = 0 then (Some (PlainError ''content must not be empty''), fs)
      else let filePath = filepath_Join [base, artifactID, digest]
           in case os_Stat flt filePath fs of
                None \<Rightarrow> (None, fs)
              | Some (ErrOther e) \<Rightarrow> (Some (WrapError (''failed to check if artifact '' @ filePath @ '' exists'') e), fs)
              | Some ErrNotExist \<Rightarrow>
                  (case os_MkdirAll flt (filepath_Dir filePath) fs of
                     (Some e, fs1) \<Rightarrow> (Some (WrapError ''failed to create artifact directory'' e), fs1)
                   | (None, fs1) \<Rightarrow>
                       (case os_WriteFile flt filePath content fs1 of
                          (Some e, fs2) \<Rightarrow> (Some (WrapError ''failed to write artifact file'' e), fs2)
                        | (None, fs2) \<Rightarrow> (None, fs2))))"

definition artifact_Save ::
  "string \<Rightarrow> os_faults \<Rightarrow> string \<Rightarrow> string \<Rightarrow> string \<Rightarrow> file_system \<Rightarrow> go_error option \<times> file_system" where
  "artifact_Save base flt artifactID digest content fs = saveToFileSystem base flt artifactID digest content fs"

definition fetchFromFileSystem ::
  "string \<Rightarrow> os_faults \<Rightarrow> string \<Rightarrow> string \<Rightarrow> file_system \<Rightarrow> os_error + string" where
  "fetchFromFileSystem base flt artifactID digest fs =
     (if digest = [] then Inl (ErrOther (PlainError ''digest must not be empty''))
      else case os_ReadFile flt (filepath_Join [base, artifactID, digest]) fs of
             Inl ErrNotExist \<Rightarrow> Inl ErrNotExist
           | Inl (ErrOther e) \<Rightarrow> Inl (ErrOther (WrapError ''failed to read artifact file'' e))
           | Inr c \<Rightarrow> Inr c)"

fun delete_entries ::
  "os_faults \<Rightarrow> string \<Rightarrow> string \<Rightarrow> (string \<times> bool) list \<Rightarrow> file_system \<Rightarrow> go_error option \<times> file_system" where
  "delete_entries flt dir keep [] fs = (None, fs)"
| "delete_entries flt dir keep ((name, isDir) # es) fs =
     (if isDir \<or> name = keep then delete_entries flt dir keep es fs
      else case os_Remove flt (filepath_Join [dir, name]) fs of
             (None, fs1) \<Rightarrow> delete_entries flt dir keep es fs1
           | (Some ErrNotExist, fs1) \<Rightarrow> delete_entries flt dir keep es fs1
           | (Some (ErrOther e), fs1) \<Rightarrow>
               (Some (WrapError (''failed to delete artifact file '' @ filepath_Join [dir, name]) e), fs1))"

definition deleteAllExceptFromFileSystem ::
  "string \<Rightarrow> os_faults \<Rightarrow> string \<Rightarrow> string \<Rightarrow> file_system \<Rightarrow> go_error option \<times> file_system" where
  "deleteAllExceptFromFileSystem base flt artifactID keepDigest fs =
     (let dir = filepath_Join [base, artifactID]
      in case os_ReadDir flt dir fs of
           Inl ErrNotExist \<Rightarrow> (None, fs)
         | Inl (ErrOther e) \<Rightarrow> (Some (WrapError ''failed to read artifact directory'' e), fs)
         | Inr entries \<Rightarrow> delete_entries flt dir keepDigest entries fs)"

definition artifact_DeleteAllExcept ::
  "string \<Rightarrow> os_faults \<Rightarrow> string \<Rightarrow> string \<Rightarrow> file_system \<Rightarrow> go_error option \<times> file_system" where
  "artifact_DeleteAllExcept base flt artifactID digest fs = deleteAllExceptFromFileSystem base flt artifactID digest fs"

section \<open>Downloading\<close>

record artifact_url =
  au_scheme :: string
  au_host :: string
  au_rest :: string

record http_response =
  hs_code :: nat
  hs_status :: string
  hs_contentLength :: int
  hs_body :: "go_error + string"

text \<open>What the next header of a tar archive is; a regular file comes with the outcome of reading it.\<close>

datatype tar_event = TarEOF | TarFail go_error | TarReg string "go_error + string" | TarDir | TarOther

record 't http_env =
  he_domain :: "string option"
  he_parseURL :: "string \<Rightarrow> go_error + artifact_url"
  he_printURL :: "artifact_url \<Rightarrow> string"
  he_newRequest :: "string \<Rightarrow> go_error option"
  he_do :: "string \<Rightarrow> go_error + http_response"
  he_open :: "string \<Rightarrow> go_error + 't"
  he_next :: "'t \<Rightarrow> tar_event \<times> 't"

definition replaceArtifactDomain :: "'t http_env \<Rightarrow> string \<Rightarrow> string" where
  "replaceArtifactDomain env artifactURL =
     (case he_domain env of
        None \<Rightarrow> artifactURL
      | Some override \<Rightarrow>
          if override = [] then artifactURL
          else (case he_parseURL env artifactURL of
                  Inl _ \<Rightarrow> artifactURL
                | Inr parsed \<Rightarrow>
                    if au_host parsed = [] then artifactURL
                    else he_printURL env
                      (case he_parseURL env override of
                         Inr o_url \<Rightarrow>
                           if au_host o_url \<noteq> []
                           then parsed\<lparr>au_scheme := au_scheme o_url, au_host := au_host o_url\<rparr>
                           else parsed\<lparr>au_host := override\<rparr>
                       | Inl _ \<Rightarrow> parsed\<lparr>au_host := override\<rparr>)))"

definition download :: "'t http_env \<Rightarrow> string \<Rightarrow> go_error + string" where
  "download env src =
     (let srcURL = replaceArtifactDomain env src
      in case he_newRequest env srcURL of
           Some e \<Rightarrow> Inl e
         | None \<Rightarrow>
             (case he_do env srcURL of
                Inl e \<Rightarrow> Inl (WrapError ''failed to download file'' e)
              | Inr resp \<Rightarrow>
                  if hs_code resp \<noteq> 200 then Inl (PlainError (''bad response: '' @ hs_status resp))
                  else (case hs_body resp of
                          Inl e \<Rightarrow> Inl (WrapError ''failed to read response body'' e)
                        | Inr body \<Rightarrow>
                            if hs_contentLength resp \<ge> 0 \<and> int (length body) \<noteq> hs_contentLength resp
                            then Inl (PlainError (''short read from '' @ srcURL @ '': got '' @ Itoa (length body)
                                   @ '' bytes, expected '' @ Itoa (nat (hs_contentLength resp))))
                            else Inr body)))"

text \<open>The loop over the headers of an archive has no bound of its own; \<open>None\<close> is a loop that does not end.\<close>

partial_function (option) extract_loop ::
  "('t \<Rightarrow> tar_event \<times> 't) \<Rightarrow> 't \<Rightarrow> string smap \<Rightarrow> (go_error + string smap) option" where
  "extract_loop next_header tr files =
     (case fst (next_header tr) of
        TarEOF \<Rightarrow> Some (Inr files)
      | TarFail e \<Rightarrow> Some (Inl (WrapError ''error reading tar'' e))
      | TarReg name data \<Rightarrow>
          (case data of
             Inl e \<Rightarrow> Some (Inl (WrapError (''failed to read file '' @ quoted name @ '' from tar'') e))
           | Inr c \<Rightarrow> extract_loop next_header (snd (next_header tr)) (smap_set name c files))
      | TarDir \<Rightarrow> extract_loop next_header (snd (next_header tr)) files
      | TarOther \<Rightarrow> extract_loop next_header (snd (next_header tr)) files)"

definition extractTarGz :: "'t http_env \<Rightarrow> string \<Rightarrow> (go_error + string smap) option" where
  "extractTarGz env body =
     (case he_open env body of
        Inl e \<Rightarrow> Some (Inl (WrapError ''failed to create gzip reader'' e))
      | Inr tr \<Rightarrow> extract_loop (he_next env) tr [])"

definition fetchFromSource :: "'t http_env \<Rightarrow> string \<Rightarrow> (go_error + string smap) option" where
  "fetchFromSource env srcURL =
     (case download env srcURL of Inl e \<Rightarrow> Some (Inl e) | Inr body \<Rightarrow> extractTarGz env body)"

text \<open>\<open>json.Marshal\<close> of the files: the keys are sorted and the contents base64 encoded.\<close>

definition marshal_files :: "string smap \<Rightarrow> string" where
  "marshal_files files = print_json (JObj (map (\<lambda>(k, v). (k, JStr (EncodeToString64 v))) (sort_key fst files)))"

definition artifact_Get ::
  "'t http_env \<Rightarrow> string \<Rightarrow> os_faults \<Rightarrow> string \<Rightarrow> string \<Rightarrow> string \<Rightarrow> file_system \<Rightarrow> (go_error + string) option" where
  "artifact_Get env base flt artifactID srcURL digest fs =
     (case fetchFromFileSystem base flt artifactID digest fs of
        Inr data \<Rightarrow> Some (Inr data)
      | Inl (ErrOther e) \<Rightarrow> Some (Inl (WrapError ''failed to fetch artifact from filesystem'' e))
      | Inl ErrNotExist \<Rightarrow>
          map_option (\<lambda>r. case r of
                            Inl e \<Rightarrow> Inl (WrapError ''failed to fetch artifact from source'' e)
                          | Inr files \<Rightarrow> Inr (marshal_files files))
            (fetchFromSource env srcURL))"

definition artifact_GetRaw ::
  "'t http_env \<Rightarrow> string \<Rightarrow> os_faults \<Rightarrow> string \<Rightarrow> string \<Rightarrow> string \<Rightarrow> file_system \<Rightarrow> go_error + string" where
  "artifact_GetRaw env base flt artifactID srcURL digest fs =
     (case fetchFromFileSystem base flt artifactID digest fs of
        Inr data \<Rightarrow> Inr data
      | Inl (ErrOther e) \<Rightarrow> Inl (WrapError ''failed to fetch artifact from filesystem'' e)
      | Inl ErrNotExist \<Rightarrow> download env srcURL)"


section \<open>Where artifacts are\<close>

lemma rooted_path_snoc: "es \<noteq> [] \<Longrightarrow> rooted_path (es @ [e]) = rooted_path es @ ''/'' @ e"
  by (simp add: rooted_path_def Join_snoc)

lemma takeWhile_no_slash: "CHR ''/'' \<notin> set e \<Longrightarrow> dropWhile (\<lambda>c. c \<noteq> CHR ''/'') (rev e @ CHR ''/'' # s) = CHR ''/'' # s"
  by (subst dropWhile_append2) auto

lemma path_elements_trailing: "path_rooted p \<Longrightarrow> path_elements (p @ ''/'') = path_elements p"
  using path_elements_slash [of p "[]"] by simp

lemma filepath_Dir_file:
  assumes "list_all element_ok es" and "es \<noteq> []" and "element_ok e"
  shows "filepath_Dir (rooted_path (es @ [e])) = rooted_path es"
proof -
  have "CHR ''/'' \<notin> set e" using assms(3) by (simp add: element_ok_def)
  then have "filepath_Dir (rooted_path (es @ [e])) = filepath_Clean (rooted_path es @ ''/'')"
    by (simp add: filepath_Dir_def rooted_path_snoc [OF assms(2)] takeWhile_no_slash)
  then show ?thesis using assms(1) by (simp add: filepath_Clean_def path_elements_trailing)
qed

lemma child_of_iff:
  "child_of dir p = Some n \<longleftrightarrow> p = dir @ ''/'' @ n \<and> n \<noteq> [] \<and> CHR ''/'' \<notin> set n"
  by (auto simp: child_of_def HasPrefix_def prefix_def Let_def)

lemma child_of_rooted:
  assumes "list_all element_ok es" "es \<noteq> []" "element_ok n"
  shows "child_of (rooted_path es) (rooted_path (es @ [n])) = Some n"
  using assms by (simp add: child_of_iff rooted_path_snoc element_ok_def)

text \<open>The base directory of a store and names that are plain file names.\<close>

definition store_ok :: "string list \<Rightarrow> string \<Rightarrow> bool" where
  "store_ok bs artifactID \<longleftrightarrow> list_all element_ok bs \<and> element_ok artifactID"

lemma store_path:
  assumes "store_ok bs i" and "element_ok d"
  shows "filepath_Join [rooted_path bs, i, d] = rooted_path ((bs @ [i]) @ [d])"
    and "filepath_Join [rooted_path bs, i] = rooted_path (bs @ [i])"
    and "filepath_Dir (rooted_path ((bs @ [i]) @ [d])) = rooted_path (bs @ [i])"
    and "artifact_Path (rooted_path bs) i d = rooted_path ((bs @ [i]) @ [d])"
  using assms filepath_Dir_file [of "bs @ [i]" d]
  by (simp_all add: store_ok_def filepath_Join_two_names filepath_Join_names artifact_Path_def)

text \<open>
  The invariant of the file system: every file is in a directory that exists, and no path is both.
\<close>

definition fs_ok :: "file_system \<Rightarrow> bool" where
  "fs_ok fs \<longleftrightarrow>
     (\<forall>p \<in> fst ` set (fs_files fs). p \<notin> set (fs_dirs fs) \<and>
        (\<exists>es e. list_all element_ok es \<and> element_ok e \<and> p = rooted_path (es @ [e]) \<and>
                rooted_path es \<in> set (fs_dirs fs)))"

lemma keys_smap_set: "fst ` set (smap_set k v m) = insert k (fst ` set m)"
  by (simp add: smap_set_def dom_update image_iff set_eq_iff)



lemma fs_okD:
  assumes "fs_ok fs" and "smap_get (fs_files fs) p = Some c"
  obtains es e where "list_all element_ok es" "element_ok e" "p = rooted_path (es @ [e])"
    "rooted_path es \<in> set (fs_dirs fs)"
proof -
  have "p \<in> fst ` set (fs_files fs)" using assms(2) by (metis option.distinct(1) smap_get_None_iff)
  with assms(1) that show ?thesis unfolding fs_ok_def by blast
qed

section \<open>Laws of the store\<close>

text \<open>A successful save in a fresh place writes exactly this file; in a place that is taken it writes nothing.\<close>

lemma save_fresh:
  assumes "store_ok bs i" "element_ok d"
    and "artifact_Save (rooted_path bs) flt i d content fs = (None, fs')"
    and "os_Stat flt (artifact_Path (rooted_path bs) i d) fs = Some ErrNotExist"
  shows "fs_files fs' = smap_set (artifact_Path (rooted_path bs) i d) content (fs_files fs)"
    and "fs_dirs fs' = parent_dirs (rooted_path (bs @ [i])) @ fs_dirs fs"
    and "\<forall>p \<in> set (parent_dirs (rooted_path (bs @ [i]))). smap_get (fs_files fs) p = None"
  using assms(3,4) store_path [OF assms(1,2)]
  by (auto simp: artifact_Save_def saveToFileSystem_def os_MkdirAll_def os_WriteFile_def Let_def list_ex_iff
      split: if_splits option.splits prod.splits)

lemma save_taken:
  assumes "smap_get (fs_files fs) (artifact_Path base i d) \<noteq> None"
  shows "snd (artifact_Save base flt i d content fs) = fs"
  using assms
  by (auto simp: artifact_Save_def saveToFileSystem_def os_Stat_def artifact_Path_def Let_def split: option.split)

lemma read_stored:
  assumes "smap_get (fs_files fs) (artifact_Path base i d) = Some c" and "d \<noteq> []"
    and "of_read flt (artifact_Path base i d) = None"
  shows "artifact_GetRaw env base flt i url d fs = Inr c"
    and "artifact_Get env base flt i url d fs = Some (Inr c)"
  using assms
  by (simp_all add: artifact_GetRaw_def artifact_Get_def fetchFromFileSystem_def os_ReadFile_def artifact_Path_def)

text \<open>
  C34. What was saved under an artifact and a digest is read back, by both ways to read, without a download,
  and nothing else changes: every other file of the store is as it was. Names are plain file names.
\<close>

theorem save_then_get:
  assumes names: "store_ok bs artifactID" "element_ok digest"
    and saved: "artifact_Save (rooted_path bs) flt artifactID digest content fs = (None, fs')"
    and fresh: "os_Stat flt (artifact_Path (rooted_path bs) artifactID digest) fs = Some ErrNotExist"
    and readable: "of_read flt' (artifact_Path (rooted_path bs) artifactID digest) = None"
  shows "artifact_GetRaw env (rooted_path bs) flt' artifactID url digest fs' = Inr content \<and>
    artifact_Get env (rooted_path bs) flt' artifactID url digest fs' = Some (Inr content) \<and>
    (\<forall>i d. store_ok bs i \<and> element_ok d \<and> (i, d) \<noteq> (artifactID, digest) \<longrightarrow>
       smap_get (fs_files fs') (artifact_Path (rooted_path bs) i d)
         = smap_get (fs_files fs) (artifact_Path (rooted_path bs) i d))"
proof -
  note files = save_fresh(1) [OF names saved fresh]
  have "digest \<noteq> []" using names(2) by (simp add: element_ok_def)
  moreover have "smap_get (fs_files fs') (artifact_Path (rooted_path bs) artifactID digest) = Some content"
    by (simp add: files smap_simps)
  moreover have "artifact_Path (rooted_path bs) i d \<noteq> artifact_Path (rooted_path bs) artifactID digest"
    if "store_ok bs i" "element_ok d" "(i, d) \<noteq> (artifactID, digest)" for i d
    using that names by (subst store_path(4), simp, simp, subst store_path(4), simp, simp, subst rooted_path_inj)
      (auto simp: store_ok_def)
  ultimately show ?thesis
    using read_stored [of fs' "rooted_path bs" artifactID digest content flt'] readable
    by (auto simp: files smap_simps)
qed

definition empty_fs :: file_system where "empty_fs = \<lparr>fs_files = [], fs_dirs = []\<rparr>"

definition no_http :: "unit http_env" where
  "no_http = \<lparr>he_domain = None, he_parseURL = (\<lambda>_. Inl (PlainError ''no url'')), he_printURL = (\<lambda>u. []),
     he_newRequest = (\<lambda>_. Some (PlainError ''offline'')), he_do = (\<lambda>_. Inl (PlainError ''offline'')),
     he_open = (\<lambda>_. Inr ()), he_next = (\<lambda>t. (TarEOF, t))\<rparr>"

theorem save_then_get_witness:
  "\<exists>fs'. artifact_Save ''/data'' no_faults ''chart'' ''abc'' ''xyz'' empty_fs = (None, fs') \<and>
     artifact_GetRaw no_http ''/data'' no_faults ''chart'' [] ''abc'' fs' = Inr ''xyz''"
proof -
  have base: "''/data'' = rooted_path [''data'']" by (simp add: rooted_path_def)
  have ok: "store_ok [''data''] ''chart''" "element_ok ''abc''" by (simp_all add: store_ok_def element_ok_def)
  obtain fs' where run: "artifact_Save (rooted_path [''data'']) no_faults ''chart'' ''abc'' ''xyz'' empty_fs = (None, fs')"
    using store_path [OF ok]
    by (auto simp: artifact_Save_def saveToFileSystem_def os_Stat_def os_MkdirAll_def os_WriteFile_def no_faults_def
        empty_fs_def Let_def list_ex_iff)
  have "os_Stat no_faults (artifact_Path (rooted_path [''data'']) ''chart'' ''abc'') empty_fs = Some ErrNotExist"
    by (simp add: os_Stat_def no_faults_def empty_fs_def)
  from save_then_get [OF ok run this, of no_faults no_http "[]"] run show ?thesis
    unfolding base by (auto simp: no_faults_def)
qed

text \<open>
  A write that fails half way is taken for the artifact afterwards: the next save of the same artifact
  succeeds without writing, and every read returns the truncated content.
\<close>

theorem partial_write_sticks:
  assumes names: "store_ok bs artifactID" "element_ok digest"
    and failed: "artifact_Save (rooted_path bs) flt artifactID digest content fs = (Some (WrapError ''failed to write artifact file'' e), fs1)"
    and partly: "of_write flt (artifact_Path (rooted_path bs) artifactID digest) = Some (e, Some n)"
    and fresh: "os_Stat flt (artifact_Path (rooted_path bs) artifactID digest) fs = Some ErrNotExist"
  shows "artifact_Save (rooted_path bs) no_faults artifactID digest content fs1 = (None, fs1) \<and>
    artifact_GetRaw env (rooted_path bs) no_faults artifactID url digest fs1 = Inr (take n content)"
proof -
  have stored: "smap_get (fs_files fs1) (artifact_Path (rooted_path bs) artifactID digest) = Some (take n content)"
      and nonempty: "artifactID \<noteq> []" "digest \<noteq> []" "content \<noteq> []"
    using failed partly fresh store_path [OF names]
    by (auto simp: artifact_Save_def saveToFileSystem_def os_MkdirAll_def os_WriteFile_def Let_def smap_simps
        split: if_splits option.splits prod.splits)
  have "os_Stat no_faults (artifact_Path (rooted_path bs) artifactID digest) fs1 = None"
    using stored by (simp add: os_Stat_def no_faults_def)
  then show ?thesis
    using read_stored(1) [OF stored nonempty(2), of no_faults env url] nonempty
    by (simp add: artifact_Save_def saveToFileSystem_def artifact_Path_def no_faults_def Let_def)
qed

theorem partial_write_sticks_witness:
  "\<exists>fs1 e. artifact_Save ''/data'' (no_faults\<lparr>of_write := (\<lambda>_. Some (PlainError ''disk full'', Some 1))\<rparr>) ''chart'' ''abc'' ''xyz'' empty_fs
       = (Some e, fs1) \<and> artifact_GetRaw no_http ''/data'' no_faults ''chart'' [] ''abc'' fs1 = Inr ''x''"
proof -
  let ?flt = "no_faults\<lparr>of_write := (\<lambda>_. Some (PlainError ''disk full'', Some 1))\<rparr>"
  have base: "''/data'' = rooted_path [''data'']" by (simp add: rooted_path_def)
  have ok: "store_ok [''data''] ''chart''" "element_ok ''abc''" by (simp_all add: store_ok_def element_ok_def)
  obtain fs1 where run: "artifact_Save (rooted_path [''data'']) ?flt ''chart'' ''abc'' ''xyz'' empty_fs
      = (Some (WrapError ''failed to write artifact file'' (PlainError ''disk full'')), fs1)"
    using store_path [OF ok]
    by (auto simp: artifact_Save_def saveToFileSystem_def os_Stat_def os_MkdirAll_def os_WriteFile_def no_faults_def
        empty_fs_def Let_def list_ex_iff)
  have "of_write ?flt (artifact_Path (rooted_path [''data'']) ''chart'' ''abc'') = Some (PlainError ''disk full'', Some 1)"
    by simp
  moreover have "os_Stat ?flt (artifact_Path (rooted_path [''data'']) ''chart'' ''abc'') empty_fs = Some ErrNotExist"
    by (simp add: os_Stat_def no_faults_def empty_fs_def)
  ultimately show ?thesis
    using partial_write_sticks [OF ok run, of 1 no_http "[]"] run unfolding base by auto
qed


subsection \<open>Cleaning up\<close>

lemma entries_files:
  assumes "os_ReadDir flt dir fs = Inr entries"
  shows "(n, False) \<in> set entries \<longleftrightarrow> smap_get (fs_files fs) (dir @ ''/'' @ n) \<noteq> None \<and> n \<noteq> [] \<and> CHR ''/'' \<notin> set n"
proof -
  have "(n, False) \<in> set entries \<longleftrightarrow> n \<in> set (List.map_filter (\<lambda>f. child_of dir (fst f)) (fs_files fs))"
    using assms by (auto simp: os_ReadDir_def split: option.splits if_splits)
  also have "\<dots> \<longleftrightarrow> smap_get (fs_files fs) (dir @ ''/'' @ n) \<noteq> None \<and> n \<noteq> [] \<and> CHR ''/'' \<notin> set n"
    by (force simp: set_map_filter child_of_iff smap_get_None_iff)
  finally show ?thesis .
qed

lemma split_rooted:
  assumes "es \<noteq> []" and "\<forall>e \<in> set es. CHR ''/'' \<notin> set e"
  shows "split_char (CHR ''/'') (rooted_path es) = [] # es"
  using split_Join [OF assms] by (simp add: rooted_path_def)

lemma entry_ok:
  assumes inv: "fs_ok fs" and es: "list_all element_ok es" "es \<noteq> []"
    and entries: "os_ReadDir flt (rooted_path es) fs = Inr entries" "(n, False) \<in> set entries"
  shows "element_ok n"
proof -
  have n: "smap_get (fs_files fs) (rooted_path (es @ [n])) \<noteq> None" "CHR ''/'' \<notin> set n"
    using entries(2) unfolding entries_files [OF entries(1)] rooted_path_snoc [OF es(2)] by blast+
  from n(1) obtain c where "smap_get (fs_files fs) (rooted_path (es @ [n])) = Some c" by blast
  from fs_okD [OF inv this] obtain gs g where
    g: "list_all element_ok gs" "element_ok g" "rooted_path (es @ [n]) = rooted_path (gs @ [g])" .
  have "split_char (CHR ''/'') (rooted_path (es @ [n])) = [] # es @ [n]"
    using es n(2) by (intro split_rooted) (auto simp: element_ok_def list_all_iff)
  moreover have "split_char (CHR ''/'') (rooted_path (gs @ [g])) = [] # gs @ [g]"
    using g by (intro split_rooted) (auto simp: element_ok_def list_all_iff)
  ultimately have "es @ [n] = gs @ [g]" unfolding g(3) by (simp only: list.inject)
  then show ?thesis using g(2) by simp
qed

lemma file_dir:
  assumes "fs_ok fs" and "list_all element_ok es" "element_ok d"
    and "smap_get (fs_files fs) (rooted_path (es @ [d])) = Some c"
  shows "rooted_path es \<in> set (fs_dirs fs)"
proof -
  from fs_okD [OF assms(1,4)] obtain gs g where g: "list_all element_ok gs" "element_ok g"
      "rooted_path (es @ [d]) = rooted_path (gs @ [g])" "rooted_path gs \<in> set (fs_dirs fs)" .
  then have "es = gs" using assms(2,3) by (subst (asm) rooted_path_inj) auto
  with g(4) show ?thesis by simp
qed

text \<open>What the loop leaves when it does not fail.\<close>

lemma os_Remove_outcome:
  assumes "os_Remove flt q fs = (r, fs1)" and "r = None \<or> r = Some ErrNotExist"
  shows "smap_get (fs_files fs1) p = (if p = q then None else smap_get (fs_files fs) p)" and "fs_dirs fs1 = fs_dirs fs"
  using assms by (auto simp: os_Remove_def smap_simps split: option.splits if_splits)

lemma delete_entries_outcome:
  assumes "delete_entries flt dir keep es fs = (None, fs')"
  shows "smap_get (fs_files fs') p =
      (if \<exists>n. (n, False) \<in> set es \<and> n \<noteq> keep \<and> p = filepath_Join [dir, n] then None else smap_get (fs_files fs) p)
    \<and> fs_dirs fs' = fs_dirs fs"
  using assms
proof (induction es arbitrary: fs)
  case (Cons en es)
  obtain name isDir where en: "en = (name, isDir)" by (rule prod.exhaust)
  show ?case
  proof (cases "isDir \<or> name = keep")
    case True
    with Cons en show ?thesis by auto
  next
    case False
    obtain r fs1 where rm: "os_Remove flt (filepath_Join [dir, name]) fs = (r, fs1)" by (rule prod.exhaust)
    with Cons.prems en False have r: "r = None \<or> r = Some ErrNotExist"
        and rest: "delete_entries flt dir keep es fs1 = (None, fs')"
      by (auto split: option.splits os_error.splits)
    show ?thesis using Cons.IH [OF rest] os_Remove_outcome [OF rm r] en False by auto
  qed
qed simp

lemma delete_outcome:
  assumes inv: "fs_ok fs" and names: "store_ok bs artifactID" "element_ok keep"
    and run: "artifact_DeleteAllExcept (rooted_path bs) flt artifactID keep fs = (None, fs')"
    and other: "store_ok bs i" "element_ok d"
  shows "smap_get (fs_files fs') (artifact_Path (rooted_path bs) i d) =
    (if i = artifactID \<and> d \<noteq> keep then None else smap_get (fs_files fs) (artifact_Path (rooted_path bs) i d))"
proof -
  let ?dir = "rooted_path (bs @ [artifactID])"
  have es: "list_all element_ok (bs @ [artifactID])" using names(1) by (simp add: store_ok_def)
  note paths = store_path [OF names(1) names(2)] store_path(4) [OF other]
  show ?thesis
  proof (cases "?dir \<in> set (fs_dirs fs)")
    case False
    have "fs' = fs"
      using run False paths
      by (auto simp: artifact_DeleteAllExcept_def deleteAllExceptFromFileSystem_def os_ReadDir_def Let_def
          split: option.splits)
    moreover have "smap_get (fs_files fs) (artifact_Path (rooted_path bs) artifactID d) = None"
      using file_dir [OF inv es other(2)] False store_path(4) [OF names(1) other(2)] by (cases "smap_get (fs_files fs) (artifact_Path (rooted_path bs) artifactID d)") auto
    ultimately show ?thesis by auto
  next
    case True
    then obtain entries where entries: "os_ReadDir flt ?dir fs = Inr entries"
        and loop: "delete_entries flt ?dir keep entries fs = (None, fs')"
      using run paths
      by (auto simp: artifact_DeleteAllExcept_def deleteAllExceptFromFileSystem_def Let_def os_ReadDir_def
          split: option.splits)
    have plain: "n = d \<and> i = artifactID"
      if "(n, False) \<in> set entries" "artifact_Path (rooted_path bs) i d = filepath_Join [?dir, n]" for n
    proof -
      have "element_ok n" using entry_ok [OF inv es _ entries that(1)] by simp
      with that(2) es other show ?thesis
        by (simp only: paths filepath_Join_names, subst (asm) rooted_path_inj) (auto simp: store_ok_def)
    qed
    have mine: "(d, False) \<in> set entries \<longleftrightarrow> smap_get (fs_files fs) (artifact_Path (rooted_path bs) artifactID d) \<noteq> None"
      using entries_files [OF entries, of d] other(2) store_path(4) [OF names(1) other(2)]
        rooted_path_snoc [of "bs @ [artifactID]" d]
      by (simp add: element_ok_def)
    have "artifact_Path (rooted_path bs) artifactID d = filepath_Join [?dir, d]"
      using store_path(4) [OF names(1) other(2)] filepath_Join_names [OF es other(2)] by simp
    then show ?thesis
      using delete_entries_outcome [OF loop, of "artifact_Path (rooted_path bs) i d"] plain mine by auto
  qed
qed

text \<open>
  When the clean-up of an artifact succeeds, the file of the digest to keep is as it was, every other
  file of the artifact is gone, and the files of all other artifacts are untouched.
\<close>

theorem delete_all_except:
  assumes inv: "fs_ok fs" and names: "store_ok bs artifactID" "element_ok keep"
    and run: "artifact_DeleteAllExcept (rooted_path bs) flt artifactID keep fs = (None, fs')"
    and other: "store_ok bs i" "element_ok d"
  shows "smap_get (fs_files fs') (artifact_Path (rooted_path bs) i d) =
    (if i = artifactID \<and> d \<noteq> keep then None else smap_get (fs_files fs) (artifact_Path (rooted_path bs) i d))"
  using assms by (rule delete_outcome)

definition two_charts :: file_system where
  "two_charts = \<lparr>fs_files = [(''/data/chart/old'', ''1''), (''/data/chart/new'', ''2''), (''/data/other/old'', ''3'')],
     fs_dirs = [''/data/chart'', ''/data/other'', ''/data'', ''/'']\<rparr>"

lemma two_charts_ok: "fs_ok two_charts"
proof -
  have ok: "list_all element_ok [''data'', ''chart'']" "list_all element_ok [''data'', ''other'']" "element_ok ''old''" "element_ok ''new''"
    by (simp_all add: element_ok_def)
  have eq: "''/data/chart/old'' = rooted_path ([''data'', ''chart''] @ [''old''])"
    "''/data/chart/new'' = rooted_path ([''data'', ''chart''] @ [''new''])"
    "''/data/other/old'' = rooted_path ([''data'', ''other''] @ [''old''])"
    "rooted_path [''data'', ''chart''] \<in> set (fs_dirs two_charts)" "rooted_path [''data'', ''other''] \<in> set (fs_dirs two_charts)"
    by (simp_all add: rooted_path_def two_charts_def)
  have I: "p \<notin> set (fs_dirs two_charts) \<and> (\<exists>es e. list_all element_ok es \<and> element_ok e \<and> p = rooted_path (es @ [e]) \<and>
      rooted_path es \<in> set (fs_dirs two_charts))"
    if "list_all element_ok es" "element_ok e" "p = rooted_path (es @ [e])" "rooted_path es \<in> set (fs_dirs two_charts)"
      "p \<notin> set (fs_dirs two_charts)" for p es e
    using that by blast
  have keys: "fst ` set (fs_files two_charts) = {''/data/chart/old'', ''/data/chart/new'', ''/data/other/old''}"
    and free: "''/data/chart/old'' \<notin> set (fs_dirs two_charts)" "''/data/chart/new'' \<notin> set (fs_dirs two_charts)"
      "''/data/other/old'' \<notin> set (fs_dirs two_charts)"
    by (simp_all add: two_charts_def)
  show ?thesis
    unfolding fs_ok_def keys
    using I [OF ok(1) ok(3) eq(1) eq(4) free(1)] I [OF ok(1) ok(4) eq(2) eq(4) free(2)] I [OF ok(2) ok(3) eq(3) eq(5) free(3)]
    by (simp only: ball_simps simp_thms)
qed

theorem delete_all_except_witness:
  "\<exists>fs'. artifact_DeleteAllExcept ''/data'' no_faults ''chart'' ''new'' two_charts = (None, fs') \<and>
     smap_get (fs_files fs') ''/data/chart/old'' = None \<and> smap_get (fs_files fs') ''/data/chart/new'' = Some ''2'' \<and>
     smap_get (fs_files fs') ''/data/other/old'' = Some ''3''"
proof -
  have base: "''/data'' = rooted_path [''data'']" by (simp add: rooted_path_def)
  have ok: "store_ok [''data''] ''chart''" "store_ok [''data''] ''other''" "element_ok ''new''" "element_ok ''old''"
    by (simp_all add: store_ok_def element_ok_def)
  have "fst (artifact_DeleteAllExcept ''/data'' no_faults ''chart'' ''new'' two_charts) = None" by code_simp
  then obtain fs' where run: "artifact_DeleteAllExcept (rooted_path [''data'']) no_faults ''chart'' ''new'' two_charts = (None, fs')"
    unfolding base by (metis prod.collapse)
  have path: "artifact_Path (rooted_path [''data'']) ''chart'' ''old'' = ''/data/chart/old''"
    "artifact_Path (rooted_path [''data'']) ''chart'' ''new'' = ''/data/chart/new''"
    "artifact_Path (rooted_path [''data'']) ''other'' ''old'' = ''/data/other/old''"
    by (simp_all add: store_path(4) ok) (simp_all add: rooted_path_def)
  note all = delete_all_except [OF two_charts_ok ok(1) ok(3) run]
  from all [OF ok(1) ok(4)] all [OF ok(1) ok(3)] all [OF ok(2) ok(4)]
  have "smap_get (fs_files fs') ''/data/chart/old'' = None" "smap_get (fs_files fs') ''/data/chart/new'' = Some ''2''"
    "smap_get (fs_files fs') ''/data/other/old'' = Some ''3''"
    unfolding path by (simp_all add: two_charts_def smap_simps)
  with run show ?thesis unfolding base by blast
qed

text \<open>Removing files and adding a file in a directory that was made for it keep the invariant.\<close>

lemma fs_ok_remove: "fs_ok fs \<Longrightarrow> fs_ok (snd (os_Remove flt p fs))"
  by (auto simp: fs_ok_def os_Remove_def smap_del_def AList.delete_eq split: option.split)

lemma fs_ok_delete_entries: "fs_ok fs \<Longrightarrow> fs_ok (snd (delete_entries flt dir keep es fs))"
proof (induction es arbitrary: fs)
  case (Cons en es)
  obtain name isDir where en: "en = (name, isDir)" by (rule prod.exhaust)
  obtain r fs1 where rm: "os_Remove flt (filepath_Join [dir, name]) fs = (r, fs1)" by (rule prod.exhaust)
  have "fs_ok fs1" using fs_ok_remove [OF Cons.prems, of flt "filepath_Join [dir, name]"] rm by simp
  with Cons en rm show ?case by (auto split: option.split os_error.split)
qed simp

lemma fs_ok_mkdir:
  assumes "fs_ok fs" shows "fs_ok (snd (os_MkdirAll flt p fs))"
proof (cases "fst (os_MkdirAll flt p fs)")
  case None
  have "q \<notin> set (parent_dirs p)" if "q \<in> fst ` set (fs_files fs)" for q
    using None that by (auto simp: os_MkdirAll_def list_ex_iff smap_get_None_iff split: option.splits if_splits)
  moreover have "snd (os_MkdirAll flt p fs) = fs\<lparr>fs_dirs := parent_dirs p @ fs_dirs fs\<rparr>"
    using None by (auto simp: os_MkdirAll_def split: option.splits if_splits)
  ultimately show ?thesis using assms unfolding fs_ok_def by fastforce
next
  case (Some e)
  then have "snd (os_MkdirAll flt p fs) = fs" by (auto simp: os_MkdirAll_def split: option.splits if_splits)
  with assms show ?thesis by simp
qed

lemma fs_ok_write:
  assumes "fs_ok fs" and "list_all element_ok es" "element_ok e" "rooted_path es \<in> set (fs_dirs fs)"
    and "rooted_path (es @ [e]) \<notin> set (fs_dirs fs)"
  shows "fs_ok (snd (os_WriteFile flt (rooted_path (es @ [e])) c fs))"
proof -
  have "fs_ok (fs\<lparr>fs_files := smap_set (rooted_path (es @ [e])) x (fs_files fs)\<rparr>)" for x
    using assms unfolding fs_ok_def by (auto simp: keys_smap_set)
  with assms(1) show ?thesis by (auto simp: os_WriteFile_def split: option.split prod.split)
qed

lemma parent_dirs_rooted:
  "list_all element_ok es \<Longrightarrow> set (parent_dirs (rooted_path es)) = {rooted_path (take i es) | i. i \<le> length es}"
  by (auto simp: parent_dirs_def less_Suc_eq_le simp del: upt_Suc)

lemma fs_ok_save:
  assumes inv: "fs_ok fs" and names: "store_ok bs i" "element_ok d"
  shows "fs_ok (snd (artifact_Save (rooted_path bs) flt i d content fs))"
proof (cases "os_Stat flt (artifact_Path (rooted_path bs) i d) fs = Some ErrNotExist")
  case True
  let ?es = "bs @ [i]"
  have es: "list_all element_ok ?es" using names(1) by (simp add: store_ok_def)
  obtain r fs1 where mk: "os_MkdirAll flt (rooted_path ?es) fs = (r, fs1)" by (rule prod.exhaust)
  have inv1: "fs_ok fs1" using fs_ok_mkdir [OF inv, of flt "rooted_path ?es"] mk by simp
  have "fs_ok (snd (os_WriteFile flt (rooted_path (?es @ [d])) content fs1))" if "r = None"
  proof (rule fs_ok_write [OF inv1 es names(2)])
    have dirs: "fs_dirs fs1 = parent_dirs (rooted_path ?es) @ fs_dirs fs"
      using mk that by (auto simp: os_MkdirAll_def split: option.splits if_splits)
    show "rooted_path ?es \<in> set (fs_dirs fs1)"
      using dirs parent_dirs_rooted [OF es] by (auto intro!: exI [of _ "length ?es"])
    have "rooted_path (?es @ [d]) \<noteq> rooted_path (take k ?es)" for k
    proof -
      have "list_all element_ok (take k ?es)" using es by (metis list_all_iff in_set_takeD)
      moreover have "length (?es @ [d]) \<noteq> length (take k ?es)" by simp
      then have "?es @ [d] \<noteq> take k ?es" by (rule contrapos_nn) (rule arg_cong)
      moreover have "list_all element_ok (?es @ [d])" using es names(2) by simp
      ultimately show ?thesis by (simp only: rooted_path_inj not_False_eq_True)
    qed
    moreover have "rooted_path (?es @ [d]) \<notin> set (fs_dirs fs)"
      using True store_path(4) [OF names] by (auto simp: os_Stat_def split: option.splits if_splits)
    ultimately show "rooted_path (?es @ [d]) \<notin> set (fs_dirs fs1)"
      using dirs parent_dirs_rooted [OF es] by auto
  qed
  then show ?thesis
    using True inv inv1 mk store_path [OF names]
    by (auto simp: artifact_Save_def saveToFileSystem_def Let_def split: option.split prod.splits)
next
  case False
  then have "snd (artifact_Save (rooted_path bs) flt i d content fs) = fs"
    by (auto simp: artifact_Save_def saveToFileSystem_def artifact_Path_def Let_def split: option.split os_error.split)
  with inv show ?thesis by simp
qed

text \<open>
  Saving and cleaning up, whether they succeed or fail, keep the invariant of the file system: every file is
  in a directory that exists, and no path is both a file and a directory.
\<close>

theorem store_invariant:
  assumes "fs_ok fs" and "store_ok bs artifactID" and "element_ok digest"
  shows "fs_ok (snd (artifact_Save (rooted_path bs) flt artifactID digest content fs)) \<and>
    fs_ok (snd (artifact_DeleteAllExcept (rooted_path bs) flt artifactID digest fs))"
proof -
  have "fs_ok (snd (artifact_DeleteAllExcept (rooted_path bs) flt artifactID digest fs))"
    using assms(1) fs_ok_delete_entries
    by (auto simp: artifact_DeleteAllExcept_def deleteAllExceptFromFileSystem_def Let_def
        split: sum.split os_error.split)
  with fs_ok_save [OF assms] show ?thesis by simp
qed

theorem store_invariant_witness:
  "fs_ok (snd (artifact_Save (rooted_path [''data'']) no_faults ''chart'' ''v3'' ''x'' two_charts))"
  using store_invariant [OF two_charts_ok, of "[''data'']" "''chart''" "''v3''" no_faults "''x''"]
  by (simp add: store_ok_def element_ok_def)


section \<open>Unpacking ends\<close>

text \<open>The headers a reader gives, until it reports the end of the archive or an error, within a number of calls.\<close>

fun archive_headers :: "('t \<Rightarrow> tar_event \<times> 't) \<Rightarrow> nat \<Rightarrow> 't \<Rightarrow> tar_event list option" where
  "archive_headers next_header 0 tr = None"
| "archive_headers next_header (Suc n) tr =
     (case fst (next_header tr) of
        TarEOF \<Rightarrow> Some []
      | TarFail e \<Rightarrow> Some [TarFail e]
      | ev \<Rightarrow> map_option (Cons ev) (archive_headers next_header n (snd (next_header tr))))"

text \<open>What an archive with these headers contains: the last content of each file name, or the first error.\<close>

fun archive_files :: "tar_event list \<Rightarrow> string smap \<Rightarrow> go_error + string smap" where
  "archive_files [] files = Inr files"
| "archive_files (TarReg name (Inr c) # evs) files = archive_files evs (smap_set name c files)"
| "archive_files (TarReg name (Inl e) # evs) files =
     Inl (WrapError (''failed to read file '' @ quoted name @ '' from tar'') e)"
| "archive_files (TarFail e # evs) files = Inl (WrapError ''error reading tar'' e)"
| "archive_files (_ # evs) files = archive_files evs files"

lemma extract_loop_ends:
  "archive_headers next_header n tr = Some evs \<Longrightarrow> extract_loop next_header tr files = Some (archive_files evs files)"
proof (induction n arbitrary: tr evs files)
  case (Suc n)
  show ?case
  proof (cases "fst (next_header tr)")
    case (TarReg name data)
    with Suc show ?thesis by (cases data) (auto simp: extract_loop.simps [of next_header tr])
  qed (use Suc in \<open>auto simp: extract_loop.simps [of next_header tr]\<close>)
qed simp

text \<open>
  Unpacking an archive returns whenever its reader comes to the end of the archive or to an error after
  finitely many headers, and then gives the last content of every regular file, or the first error.
\<close>

theorem extractTarGz_ends:
  assumes "he_open env body = Inr tr" and "archive_headers (he_next env) n tr = Some evs"
  shows "extractTarGz env body = Some (archive_files evs [])"
  using assms by (simp add: extractTarGz_def extract_loop_ends)

definition list_tar :: "tar_event list http_env" where
  "list_tar = \<lparr>he_domain = None, he_parseURL = (\<lambda>_. Inl (PlainError ''no url'')), he_printURL = (\<lambda>u. []),
     he_newRequest = (\<lambda>_. None), he_do = (\<lambda>_. Inl (PlainError ''offline'')),
     he_open = (\<lambda>b. Inr [TarDir, TarReg ''a'' (Inr b), TarReg ''b'' (Inr ''1''), TarReg ''a'' (Inr ''2'')]),
     he_next = (\<lambda>t. case t of [] \<Rightarrow> (TarEOF, []) | ev # evs \<Rightarrow> (ev, evs))\<rparr>"

theorem extractTarGz_ends_witness:
  "extractTarGz list_tar ''body'' = Some (Inr [(''a'', ''2''), (''b'', ''1'')])"
proof -
  have "archive_headers (he_next list_tar) 5 [TarDir, TarReg ''a'' (Inr ''body''), TarReg ''b'' (Inr ''1''), TarReg ''a'' (Inr ''2'')]
    = Some [TarDir, TarReg ''a'' (Inr ''body''), TarReg ''b'' (Inr ''1''), TarReg ''a'' (Inr ''2'')]"
    by code_simp
  then have "extractTarGz list_tar ''body'' = Some (archive_files [TarDir, TarReg ''a'' (Inr ''body''), TarReg ''b'' (Inr ''1''), TarReg ''a'' (Inr ''2'')] [])"
    by (intro extractTarGz_ends) (simp_all add: list_tar_def)
  then show ?thesis by (simp add: smap_set_def)
qed

text \<open>A shortened or refused download is never taken for an artifact.\<close>

lemma download_complete:
  assumes "download env src = Inr body"
  shows "\<exists>resp. he_do env (replaceArtifactDomain env src) = Inr resp \<and> hs_code resp = 200 \<and> hs_body resp = Inr body \<and>
    (hs_contentLength resp \<ge> 0 \<longrightarrow> int (length body) = hs_contentLength resp)"
  using assms by (auto simp: download_def Let_def split: option.splits sum.splits if_splits)

text \<open>With a domain to use instead, only the host and, if the domain has one, the scheme of a URL change.\<close>

lemma replaceArtifactDomain_keeps:
  assumes "\<And>u. he_parseURL env (he_printURL env u) = Inr u" and "he_parseURL env src = Inr u"
  shows "\<exists>v. he_parseURL env (replaceArtifactDomain env src) = Inr v \<and> au_rest v = au_rest u"
  using assms by (auto simp: replaceArtifactDomain_def split: option.split sum.split)

end
