(* ===== verification/Plugin_Preset.thy ===== *)
theory Plugin_Preset
  imports Plugin_Values Propagation
begin

text \<open>
  The PluginPreset controller (\<open>internal/controller/plugin/pluginpreset_controller.go\<close>): it creates a Plugin
  on every selected cluster, deletes the Plugins of clusters that are no longer selected, and reports the
  readiness of all of them. The API server and the helpers of \<open>controllerutil\<close> are parameters.
\<close>

section \<open>The environment\<close>

text \<open>
  \<open>pe_createOrUpdate\<close> is \<open>controllerutil.CreateOrUpdate\<close>, which gets the mutation as a function;
  \<open>pe_setControllerReference\<close> and \<open>pe_removeOwnerReference\<close> are the helpers of the same name.
\<close>

record ('s, 'd) preset_env =
  pe_plugins :: "(plugin, 's) client"
  pe_createOrUpdate :: "plugin \<Rightarrow> (plugin \<Rightarrow> go_error + plugin) \<Rightarrow> 's \<Rightarrow> go_error option \<times> 's"
  pe_setControllerReference :: "plugin_preset \<Rightarrow> plugin \<Rightarrow> go_error + plugin"
  pe_removeOwnerReference :: "plugin_preset \<Rightarrow> plugin \<Rightarrow> go_error + plugin"
  pe_selector_error :: "label_selector \<Rightarrow> go_error option"
  pe_list_clusters :: "string \<Rightarrow> label_selector \<Rightarrow> 's \<Rightarrow> go_error + cluster list"
  pe_list_plugins :: "string \<Rightarrow> string \<Rightarrow> string \<Rightarrow> 's \<Rightarrow> go_error + plugin list"
  pe_reads :: "'s \<Rightarrow> plugin_reads"
  pe_expressions :: bool
  pe_build :: "plugin_option_value list \<Rightarrow> go_error + 'd"
  pe_eval :: "string \<Rightarrow> 'd \<Rightarrow> go_error + string"

definition PluginReconcileFailed :: condition_reason where "PluginReconcileFailed = ''PluginReconcileFailed''"
definition PluginDefinitionNotFound :: condition_reason where
  "PluginDefinitionNotFound = ''PluginDefinitionNotFound''"
definition PluginSkippedCondition :: condition_type where "PluginSkippedCondition = ''PluginSkipped''"
definition PluginFailedCondition :: condition_type where "PluginFailedCondition = ''PluginFailed''"
definition AllPluginsReadyCondition :: condition_type where "AllPluginsReadyCondition = ''AllPluginsReady''"
definition PluginDefinitionNotFoundCondition :: condition_type where
  "PluginDefinitionNotFoundCondition = ''PluginDefinitionNotFound''"

definition presetExposedConditions :: "condition_type list" where
  "presetExposedConditions =
     [ReadyCondition, PluginSkippedCondition, PluginFailedCondition, AllPluginsReadyCondition,
      PluginDefinitionNotFoundCondition, ClusterListEmpty, OwnerLabelSetCondition]"

lemmas preset_condition_types =
  PluginSkippedCondition_def PluginFailedCondition_def AllPluginsReadyCondition_def
  PluginDefinitionNotFoundCondition_def condition_consts

section \<open>Helpers\<close>

definition isPluginManagedByPreset :: "plugin \<Rightarrow> string \<Rightarrow> bool" where
  "isPluginManagedByPreset p presetName \<longleftrightarrow> smap_val (o_labels p) LabelKeyPluginPreset = presetName"

definition buildPluginName :: "string \<Rightarrow> string \<Rightarrow> string" where
  "buildPluginName presetName clusterName = presetName @ ''-'' @ clusterName"

definition generatePluginName :: "plugin_preset \<Rightarrow> cluster \<Rightarrow> string" where
  "generatePluginName preset cl = buildPluginName (o_name preset) (o_name cl)"

definition initPluginPresetStatus :: "time \<Rightarrow> plugin_preset \<Rightarrow> plugin_preset" where
  "initPluginPresetStatus now preset =
     fold (\<lambda>ct p. if GetConditionByType (o_conditions p) ct = None
                   then SetCondition now (UnknownCondition now ct [] []) p else p)
       presetExposedConditions preset"

definition getReleaseName :: "plugin \<Rightarrow> plugin_preset \<Rightarrow> string" where
  "getReleaseName p preset =
     (if ps_releaseName (pl_spec p) \<noteq> [] then ps_releaseName (pl_spec p)
      else if pl_helmReleaseStatus p \<noteq> None then o_name p
      else pp_releaseName (preset_plugin preset))"

definition isPluginDefinitionNotFoundError :: "go_error \<Rightarrow> bool" where
  "isPluginDefinitionNotFoundError e \<longleftrightarrow> IsNotFound e \<and> Contains (error_text e) ''spec.PluginDefinitionRef.name''"

definition pluginSpecFromPluginPreset :: "plugin_preset \<Rightarrow> string \<Rightarrow> plugin_spec" where
  "pluginSpecFromPluginPreset preset clusterName =
     (let pp = preset_plugin preset in
      zero_plugin_spec
        \<lparr>ps_pluginDefinitionRef := pp_pluginDefinitionRef pp, ps_displayName := pp_displayName pp,
         ps_optionValues := ConvertToPluginOptionValues (pp_optionValues pp),
         ps_releaseNamespace := pp_releaseNamespace pp, ps_deletionPolicy := pp_deletionPolicy pp,
         ps_ignoreDifferences := pp_ignoreDifferences pp, ps_clusterName := clusterName,
         ps_waitFor := preset_waitFor preset\<rparr>)"

definition preset_listPlugins :: "('s, 'd) preset_env \<Rightarrow> plugin_preset \<Rightarrow> 's \<Rightarrow> go_error + plugin list" where
  "preset_listPlugins env preset s =
     pe_list_plugins env (o_namespace preset) LabelKeyPluginPreset (o_name preset) s"

definition preset_listClusters :: "('s, 'd) preset_env \<Rightarrow> plugin_preset \<Rightarrow> 's \<Rightarrow> go_error + cluster list" where
  "preset_listClusters env preset s =
     (case pe_selector_error env (preset_clusterSelector preset) of
        Some e \<Rightarrow> Inl e
      | None \<Rightarrow> pe_list_clusters env (o_namespace preset) (preset_clusterSelector preset) s)"

section \<open>Writing the plugins\<close>

text \<open>The closure passed to \<open>CreateOrUpdate\<close>, as a function on the plugin it finds.\<close>

definition preset_mutate ::
  "('s, 'd) preset_env \<Rightarrow> plugin_preset \<Rightarrow> cluster \<Rightarrow> 's \<Rightarrow> plugin \<Rightarrow> go_error + plugin" where
  "preset_mutate env preset cl s p =
     (case pe_setControllerReference env preset
             (p\<lparr>o_labels := smap_set LabelKeyPluginPreset (o_name preset) (o_labels p)\<rparr>) of
        Inl e \<Rightarrow> Inl e
      | Inr p1 \<Rightarrow>
          (let releaseName = getReleaseName p1 preset;
               presetWithOverrides = applyOverridesToPreset preset (o_name cl)
           in case resolvePluginOptionValuesForPreset (pe_expressions env) (pe_reads env s) (pe_build env)
                     (pe_eval env) presetWithOverrides cl of
                Inl e \<Rightarrow> Inl (WrapError (''failed to resolve option values for plugin '' @ o_name p1) e)
              | Inr resolvedValues \<Rightarrow>
                  Inr (Apply preset
                    (p1\<lparr>pl_spec := (pluginSpecFromPluginPreset preset (o_name cl))
                           \<lparr>ps_optionValues := resolvedValues, ps_releaseName := releaseName\<rparr>\<rparr>))))"

text \<open>\<open>errors.As\<close> for a status error, and the message of its first cause.\<close>

fun status_causes :: "go_error \<Rightarrow> field_error list" where
  "status_causes (ApiError _ _ cs) = cs"
| "status_causes (WrapError _ e) = status_causes e"
| "status_causes _ = []"

definition failure_message :: "go_error \<Rightarrow> string" where
  "failure_message e = (case status_causes e of [] \<Rightarrow> error_text e | c # _ \<Rightarrow> field_error_body c)"

text \<open>
  The loop over the clusters: it ends with the skipped and the failed plugins and the errors, or returns
  early with an error, or because the definition does not exist.
\<close>

datatype preset_loop_result =
  LoopDone "string list" "string list" "go_error list"
| LoopReturn go_error
| LoopNoDefinition

definition new_plugin :: "plugin_preset \<Rightarrow> cluster \<Rightarrow> plugin" where
  "new_plugin preset cl =
     zero_plugin\<lparr>o_name := generatePluginName preset cl, o_namespace := o_namespace preset\<rparr>"

definition plugin_key :: "plugin_preset \<Rightarrow> cluster \<Rightarrow> namespaced_name" where
  "plugin_key preset cl = \<lparr>nn_namespace = o_namespace preset, nn_name = generatePluginName preset cl\<rparr>"

fun preset_loop ::
  "('s, 'd) preset_env \<Rightarrow> plugin_preset \<Rightarrow> cluster list \<Rightarrow> string list \<Rightarrow> string list \<Rightarrow> go_error list \<Rightarrow> 's
     \<Rightarrow> preset_loop_result \<times> 's" where
  "preset_loop env preset [] skipped failed errs s = (LoopDone skipped failed errs, s)"
| "preset_loop env preset (cl # cls) skipped failed errs s =
     (let got = cl_get (pe_plugins env) (plugin_key preset cl) s;
          write = (\<lambda>p. case pe_createOrUpdate env p (preset_mutate env preset cl s) s of
                     (None, s1) \<Rightarrow> preset_loop env preset cls skipped failed errs s1
                   | (Some e, s1) \<Rightarrow>
                       if isPluginDefinitionNotFoundError e then (LoopNoDefinition, s1)
                       else preset_loop env preset cls skipped (failed @ [o_name p @ '': '' @ failure_message e])
                              (errs @ [e]) s1)
      in if o_deletionTimestamp cl \<noteq> None then preset_loop env preset cls skipped failed errs s
         else case got of
                Inr p \<Rightarrow>
                  if \<not> isPluginManagedByPreset p (o_name preset)
                  then preset_loop env preset cls (skipped @ [o_name p]) failed errs s
                  else write p
              | Inl e \<Rightarrow> if IsNotFound e then write (new_plugin preset cl) else (LoopReturn e, s))"

definition reconcilePluginPreset ::
  "time \<Rightarrow> ('s, 'd) preset_env \<Rightarrow> plugin_preset \<Rightarrow> cluster list \<Rightarrow> 's
     \<Rightarrow> go_error option \<times> plugin_preset \<times> 's" where
  "reconcilePluginPreset now env preset clusters s =
     (case preset_loop env preset clusters [] [] [] s of
        (LoopReturn e, s1) \<Rightarrow> (Some e, preset, s1)
      | (LoopNoDefinition, s1) \<Rightarrow>
          (None,
           SetCondition now (FalseCondition now PluginSkippedCondition [] [])
             (SetCondition now (TrueCondition now PluginFailedCondition PluginDefinitionNotFound
                (''PluginDefinition referenced by this PluginPreset does not exist: ''
                 @ pdr_name (pp_pluginDefinitionRef (preset_plugin preset)))) preset), s1)
      | (LoopDone skipped failed errs, s1) \<Rightarrow>
          (NewAggregate errs,
           SetCondition now
             (if length failed > 0
              then TrueCondition now PluginFailedCondition PluginReconcileFailed (Join failed ''; '')
              else FalseCondition now PluginFailedCondition [] [])
             (SetCondition now
                (if length skipped > 0
                 then TrueCondition now PluginSkippedCondition [] (''Skipped existing plugins: '' @ Join skipped '', '')
                 else FalseCondition now PluginSkippedCondition [] []) preset), s1))"

text \<open>\<open>cleanupPlugins\<close>.\<close>

fun cleanup_plugins ::
  "('s, 'd) preset_env \<Rightarrow> cluster list \<Rightarrow> plugin list \<Rightarrow> 's \<Rightarrow> go_error option \<times> 's" where
  "cleanup_plugins env cls [] s = (None, s)"
| "cleanup_plugins env cls (p # ps) s =
     (if list_ex (\<lambda>c. ps_clusterName (pl_spec p) = o_name c) cls then cleanup_plugins env cls ps s
      else case cl_delete (pe_plugins env) p s of
             (None, s1) \<Rightarrow> cleanup_plugins env cls ps s1
           | (Some e, s1) \<Rightarrow> if IsNotFound e then cleanup_plugins env cls ps s1 else (Some e, s1))"

definition cleanupPlugins ::
  "('s, 'd) preset_env \<Rightarrow> plugin_preset \<Rightarrow> cluster list \<Rightarrow> 's \<Rightarrow> go_error option \<times> 's" where
  "cleanupPlugins env preset cls s =
     (case preset_listPlugins env preset s of
        Inl e \<Rightarrow> (Some e, s)
      | Inr ps \<Rightarrow> cleanup_plugins env cls ps s)"

section \<open>The status\<close>

fun plugin_statuses :: "plugin list \<Rightarrow> managed_plugin_status list \<times> nat \<times> nat" where
  "plugin_statuses [] = ([], 0, 0)"
| "plugin_statuses (p # ps) =
     (case plugin_statuses ps of
        (sts, ready, failed) \<Rightarrow>
          (case GetConditionByType (o_conditions p) ReadyCondition of
             None \<Rightarrow> (sts, ready, failed)
           | Some c \<Rightarrow>
               (\<lparr>mp_pluginName = o_name p, mp_readyCondition = c\<rparr> # sts,
                if IsTrue c then Suc ready else ready, if IsTrue c then failed else Suc failed)))"

definition reconcilePluginStatuses ::
  "time \<Rightarrow> ('s, 'd) preset_env \<Rightarrow> plugin_preset \<Rightarrow> 's \<Rightarrow> go_error option \<times> plugin_preset" where
  "reconcilePluginStatuses now env preset s =
     (case preset_listPlugins env preset s of
        Inl e \<Rightarrow> (Some e, preset)
      | Inr ps \<Rightarrow>
          (case plugin_statuses ps of
             (sts, ready, failed) \<Rightarrow>
               (None,
                SetCondition now
                  (if length sts > 0 \<and> ready = length sts
                   then TrueCondition now AllPluginsReadyCondition [] ''All plugins are ready''
                   else FalseCondition now AllPluginsReadyCondition []
                     (Itoa ready @ '' of '' @ Itoa (length sts) @ '' plugins are ready''))
                  (preset\<lparr>preset_pluginStatuses := sts, preset_totalPlugins := length sts,
                          preset_readyPlugins := ready, preset_failedPlugins := failed\<rparr>))))"

definition reconcilePluginDefinitionVersion ::
  "time \<Rightarrow> ('s, 'd) preset_env \<Rightarrow> plugin_preset \<Rightarrow> 's \<Rightarrow> plugin_preset" where
  "reconcilePluginDefinitionVersion now env preset s =
     (case GetPluginDefinitionSpec (pe_reads env s) (pp_pluginDefinitionRef (preset_plugin preset)) (o_namespace preset) of
        Inl e \<Rightarrow>
          SetCondition now (TrueCondition now PluginDefinitionNotFoundCondition PluginDefinitionNotFound (error_text e))
            (preset\<lparr>preset_pluginDefinitionVersion := []\<rparr>)
      | Inr spec \<Rightarrow>
          SetCondition now (FalseCondition now PluginDefinitionNotFoundCondition [] [])
            (preset\<lparr>preset_pluginDefinitionVersion := pds_version spec\<rparr>))"

text \<open>
  \<open>computeReadyCondition\<close>; \<open>None\<close> is a nil dereference. The three conditions looked up first are
  dereferenced without a check.
\<close>

definition preset_computeReadyCondition :: "condition list \<Rightarrow> condition option" where
  "preset_computeReadyCondition sc =
     (case (GetConditionByType sc ReadyCondition, GetConditionByType sc PluginFailedCondition) of
        (Some rc, Some failedCond) \<Rightarrow>
          if IsTrue failedCond
          then Some (rc\<lparr>c_status := ConditionFalse,
                        c_message := (if c_reason failedCond = PluginDefinitionNotFound then c_message failedCond
                                      else ''Plugin reconciliation failed'')\<rparr>)
          else (case GetConditionByType sc PluginDefinitionNotFoundCondition of
                  None \<Rightarrow> None
                | Some dn \<Rightarrow>
                    if IsTrue dn then Some (rc\<lparr>c_status := ConditionFalse, c_message := c_message dn\<rparr>)
                    else (case GetConditionByType sc ClusterListEmpty of
                            None \<Rightarrow> None
                          | Some ce \<Rightarrow>
                              if IsTrue ce
                              then Some (rc\<lparr>c_status := ConditionFalse,
                                            c_message := ''No cluster matches ClusterSelector''\<rparr>)
                              else (case GetConditionByType sc AllPluginsReadyCondition of
                                      Some ar \<Rightarrow>
                                        if IsFalse ar
                                        then Some (rc\<lparr>c_status := ConditionFalse, c_message := c_message ar\<rparr>)
                                        else Some (rc\<lparr>c_status := ConditionTrue, c_message := ''ready''\<rparr>)
                                    | None \<Rightarrow> Some (rc\<lparr>c_status := ConditionTrue, c_message := ''ready''\<rparr>))))
      | _ \<Rightarrow> None)"

definition preset_setConditions ::
  "time \<Rightarrow> ('s, 'd) preset_env \<Rightarrow> plugin_preset \<Rightarrow> 's \<Rightarrow> plugin_preset option" where
  "preset_setConditions now env preset s =
     (let p1 = reconcilePluginDefinitionVersion now env preset s in
      case preset_computeReadyCondition (o_conditions p1) of
        None \<Rightarrow> None
      | Some rc \<Rightarrow>
          Some (p1\<lparr>o_conditions := SetConditions now
                     [rc, ComputeOwnerLabelCondition now (pr_get_team (pe_reads env s)) p1] (o_conditions p1)\<rparr>))"

section \<open>The callbacks\<close>

definition preset_EnsureCreated ::
  "time \<Rightarrow> ('s, 'd) preset_env \<Rightarrow> plugin_preset \<Rightarrow> 's
     \<Rightarrow> (ctrl_result \<times> reconcile_result \<times> go_error option) \<times> plugin_preset \<times> 's" where
  "preset_EnsureCreated now env preset0 s =
     (let preset = initPluginPresetStatus now preset0 in
      case preset_listClusters env preset s of
        Inl e \<Rightarrow>
          ((EmptyResult, Failed, Some e),
           SetCondition now (TrueCondition now ClusterListEmpty [] (''Invalid ClusterSelector: '' @ error_text e)) preset, s)
      | Inr clusters \<Rightarrow>
          (let preset1 = SetCondition now
                 (if length clusters = 0
                  then TrueCondition now ClusterListEmpty [] ''No cluster matches ClusterSelector''
                  else FalseCondition now ClusterListEmpty [] []) preset
           in case cleanupPlugins env preset1 clusters s of
                (Some e, s1) \<Rightarrow> ((EmptyResult, Failed, Some e), preset1, s1)
              | (None, s1) \<Rightarrow>
                  (case reconcilePluginPreset now env preset1 (FilterClustersBeingDeleted clusters) s1 of
                     (Some e, preset2, s2) \<Rightarrow> ((EmptyResult, Failed, Some e), preset2, s2)
                   | (None, preset2, s2) \<Rightarrow>
                       (case reconcilePluginStatuses now env preset2 s2 of
                          (Some e, preset3) \<Rightarrow> ((EmptyResult, Failed, Some e), preset3, s2)
                        | (None, preset3) \<Rightarrow> ((EmptyResult, Success, None), preset3, s2)))))"

fun retain_plugins ::
  "('s, 'd) preset_env \<Rightarrow> plugin_preset \<Rightarrow> plugin list \<Rightarrow> 's \<Rightarrow> go_error list \<times> 's" where
  "retain_plugins env preset [] s = ([], s)"
| "retain_plugins env preset (p # ps) s =
     (if isPluginManagedByPreset p (o_name preset)
      then (case Patch (pe_plugins env) p
                   (\<lambda>p. if length (o_ownerReferences p) > 0 then pe_removeOwnerReference env preset p else Inr p) s of
              ((_, err), s1) \<Rightarrow>
                (case retain_plugins env preset ps s1 of
                   (errs, s2) \<Rightarrow> (case err of None \<Rightarrow> errs | Some e \<Rightarrow> e # errs, s2)))
      else retain_plugins env preset ps s)"

fun delete_plugins :: "('s, 'd) preset_env \<Rightarrow> plugin list \<Rightarrow> 's \<Rightarrow> go_error list \<times> 's" where
  "delete_plugins env [] s = ([], s)"
| "delete_plugins env (p # ps) s =
     (case cl_delete (pe_plugins env) p s of
        (err, s1) \<Rightarrow>
          (case delete_plugins env ps s1 of
             (errs, s2) \<Rightarrow> (case IgnoreNotFound err of None \<Rightarrow> errs | Some e \<Rightarrow> e # errs, s2)))"

definition preset_EnsureDeleted ::
  "('s, 'd) preset_env \<Rightarrow> plugin_preset \<Rightarrow> 's
     \<Rightarrow> (ctrl_result \<times> reconcile_result \<times> go_error option) \<times> plugin_preset \<times> 's" where
  "preset_EnsureDeleted env preset s =
     (case preset_listPlugins env preset s of
        Inl e \<Rightarrow> ((EmptyResult, Failed, Some e), preset, s)
      | Inr ps \<Rightarrow>
          if preset_deletionPolicy preset = DeletionPolicyRetain
          then (case retain_plugins env preset ps s of
                  (errs, s1) \<Rightarrow>
                    if length errs > 0
                    then ((EmptyResult, Failed,
                           Some (WrapError (''failed to process retained plugins for '' @ o_namespace preset @ ''/''
                                  @ o_name preset) (JoinErrors errs))), preset, s1)
                    else ((EmptyResult, Success, None), preset, s1))
          else (case delete_plugins env ps s of
                  (errs, s1) \<Rightarrow>
                    if length errs > 0
                    then ((EmptyResult, Pending,
                           Some (WrapError (''failed to delete plugins for '' @ o_namespace preset @ ''/''
                                  @ o_name preset) (JoinErrors errs))), preset, s1)
                    else if length ps > 0 then ((EmptyResult, Pending, None), preset, s1)
                    else ((EmptyResult, Success, None), preset, s1)))"

definition preset_reconciler :: "time \<Rightarrow> ('s, 'd) preset_env \<Rightarrow> (plugin_preset, 's) reconciler" where
  "preset_reconciler now env =
     \<lparr>EnsureCreated = preset_EnsureCreated now env, EnsureDeleted = preset_EnsureDeleted env,
      EnsureSuspended = (\<lambda>p s. ((EmptyResult, None), p, s)), CanBeSuspended = False,
      UpdateLastReconciledAtStatus = None\<rparr>"

definition preset_Reconcile ::
  "time \<Rightarrow> (plugin_preset, 's) client \<Rightarrow> ('s, 'd) preset_env \<Rightarrow> namespaced_name \<Rightarrow> 's
     \<Rightarrow> (ctrl_result \<times> go_error option) \<times> 's" where
  "preset_Reconcile now c env key s =
     Reconcile now c (preset_reconciler now env)
       (Some (\<lambda>p s. case preset_setConditions now env p s of Some t \<Rightarrow> t | None \<Rightarrow> p)) key s"

text \<open>
  Which presets a change of a cluster or a definition enqueues: the listing of presets is the parameter.
\<close>

definition listPluginPresetAsReconcileRequests ::
  "('l \<Rightarrow> go_error + plugin_preset list) \<Rightarrow> 'l \<Rightarrow> namespaced_name list" where
  "listPluginPresetAsReconcileRequests list_presets opts =
     (case list_presets opts of Inl e \<Rightarrow> [] | Inr ps \<Rightarrow> map ObjectKeyFromObject ps)"


section \<open>What the API server promises\<close>

text \<open>
  What the theorems rely on, as predicates on the environment, with \<open>lookup s\<close> the plugins stored in state
  \<open>s\<close>. Reads return what is stored; objects are stored under their key; a list by label returns exactly
  the plugins that carry it.
\<close>

type_synonym 's plugin_lookup = "'s \<Rightarrow> namespaced_name \<Rightarrow> plugin option"

definition reads_stored :: "('s, 'd) preset_env \<Rightarrow> 's plugin_lookup \<Rightarrow> bool" where
  "reads_stored env lookup \<longleftrightarrow>
     (\<forall>s k p. lookup s k = Some p \<longrightarrow> ObjectKeyFromObject p = k)
     \<and> (\<forall>s k p. cl_get (pe_plugins env) k s = Inr p \<longrightarrow> lookup s k = Some p)
     \<and> (\<forall>s k e. cl_get (pe_plugins env) k s = Inl e \<and> IsNotFound e \<longrightarrow> lookup s k = None)
     \<and> (\<forall>s ns l v ps. pe_list_plugins env ns l v s = Inr ps \<longrightarrow>
          set ps = {p. (\<exists>k. lookup s k = Some p) \<and> o_namespace p = ns \<and> smap_get (o_labels p) l = Some v})"

text \<open>A write changes nothing but the object it is for, also when it fails.\<close>

definition writes_local :: "('s, 'd) preset_env \<Rightarrow> 's plugin_lookup \<Rightarrow> bool" where
  "writes_local env lookup \<longleftrightarrow>
     (\<forall>s k p f err s'. pe_createOrUpdate env p f s = (err, s') \<and> k \<noteq> ObjectKeyFromObject p \<longrightarrow> lookup s' k = lookup s k)
     \<and> (\<forall>s k p err s'. cl_delete (pe_plugins env) p s = (err, s') \<and> k \<noteq> ObjectKeyFromObject p \<longrightarrow> lookup s' k = lookup s k)
     \<and> (\<forall>s k p old err s'. cl_patch (pe_plugins env) p old s = (err, s') \<and> k \<noteq> ObjectKeyFromObject old
          \<longrightarrow> lookup s' k = lookup s k)"

text \<open>
  A successful \<open>CreateOrUpdate\<close> stores what the mutation makes of the stored object, or of the given one if
  there is none, after admission has defaulted it; nothing is written when nothing changes.
\<close>

definition writes_stored :: "('s, 'd) preset_env \<Rightarrow> 's plugin_lookup \<Rightarrow> (plugin \<Rightarrow> plugin) \<Rightarrow> bool" where
  "writes_stored env lookup admit \<longleftrightarrow>
     (\<forall>s p f s'. pe_createOrUpdate env p f s = (None, s') \<longrightarrow>
        (\<exists>q. f (case lookup s (ObjectKeyFromObject p) of None \<Rightarrow> p | Some p0 \<Rightarrow> p0) = Inr q \<and>
             (lookup s' (ObjectKeyFromObject p) = Some (admit q)
              \<or> lookup s' (ObjectKeyFromObject p) = Some q \<and> lookup s (ObjectKeyFromObject p) = Some q)))"

text \<open>A deleted object is gone, or marked for deletion while finalizers are left.\<close>

definition deletes_stored :: "('s, 'd) preset_env \<Rightarrow> 's plugin_lookup \<Rightarrow> bool" where
  "deletes_stored env lookup \<longleftrightarrow>
     (\<forall>s p err s'. cl_delete (pe_plugins env) p s = (err, s') \<and> IgnoreNotFound err = None \<longrightarrow>
        (case lookup s' (ObjectKeyFromObject p) of None \<Rightarrow> True | Some q \<Rightarrow> o_deletionTimestamp q \<noteq> None))"

lemma reads_storedD:
  assumes "reads_stored env lookup"
  shows "lookup s k = Some p \<Longrightarrow> ObjectKeyFromObject p = k"
    and "cl_get (pe_plugins env) k s = Inr p \<Longrightarrow> lookup s k = Some p"
    and "cl_get (pe_plugins env) k s = Inl e \<Longrightarrow> IsNotFound e \<Longrightarrow> lookup s k = None"
    and "pe_list_plugins env ns l v s = Inr ps \<Longrightarrow>
      set ps = {p. (\<exists>k. lookup s k = Some p) \<and> o_namespace p = ns \<and> smap_get (o_labels p) l = Some v}"
proof -
  note * = assms [unfolded reads_stored_def]
  show "lookup s k = Some p \<Longrightarrow> ObjectKeyFromObject p = k" using * by simp
  show "cl_get (pe_plugins env) k s = Inr p \<Longrightarrow> lookup s k = Some p" using * by simp
  show "cl_get (pe_plugins env) k s = Inl e \<Longrightarrow> IsNotFound e \<Longrightarrow> lookup s k = None" using * by simp
  assume "pe_list_plugins env ns l v s = Inr ps"
  then show "set ps = {p. (\<exists>k. lookup s k = Some p) \<and> o_namespace p = ns \<and> smap_get (o_labels p) l = Some v}"
    using * by simp
qed

lemma writes_localD:
  assumes "writes_local env lookup"
  shows "pe_createOrUpdate env p f s = (err, s') \<Longrightarrow> k \<noteq> ObjectKeyFromObject p \<Longrightarrow> lookup s' k = lookup s k"
    and "cl_delete (pe_plugins env) p s = (err, s') \<Longrightarrow> k \<noteq> ObjectKeyFromObject p \<Longrightarrow> lookup s' k = lookup s k"
    and "cl_patch (pe_plugins env) p old s = (err, s') \<Longrightarrow> k \<noteq> ObjectKeyFromObject old \<Longrightarrow> lookup s' k = lookup s k"
  using assms unfolding writes_local_def by blast+

section \<open>Plugins of others are left alone\<close>

lemma key_new_plugin [simp]: "ObjectKeyFromObject (new_plugin preset cl) = plugin_key preset cl"
  by (simp add: new_plugin_def plugin_key_def ObjectKeyFromObject_def)

text \<open>Initialising the status changes conditions only.\<close>

lemma initPluginPresetStatus_conditions:
  "initPluginPresetStatus now preset = preset\<lparr>o_conditions := o_conditions (initPluginPresetStatus now preset)\<rparr>"
proof -
  have "\<exists>cs. fold (\<lambda>ct p. if GetConditionByType (o_conditions p) ct = None
      then SetCondition now (UnknownCondition now ct [] []) p else p) cts preset = preset\<lparr>o_conditions := cs\<rparr>" for cts
    by (induction cts rule: rev_induct) (auto simp: SetCondition_def intro: exI [of _ "o_conditions preset"])
  from this [of presetExposedConditions] obtain cs where "initPluginPresetStatus now preset = preset\<lparr>o_conditions := cs\<rparr>"
    unfolding initPluginPresetStatus_def ..
  then show ?thesis by simp
qed

lemma preset_init_meta [simp]:
  "o_name (initPluginPresetStatus now preset) = o_name preset"
  "o_namespace (initPluginPresetStatus now preset) = o_namespace preset"
  "preset_clusterSelector (initPluginPresetStatus now preset) = preset_clusterSelector preset"
  by (subst initPluginPresetStatus_conditions, simp)+

lemma managed_listed:
  assumes "reads_stored env lookup" "preset_listPlugins env preset s = Inr ps" "p \<in> set ps"
  shows "isPluginManagedByPreset p (o_name preset) \<and> lookup s (ObjectKeyFromObject p) = Some p"
  using reads_storedD(4) [OF assms(1) assms(2) [unfolded preset_listPlugins_def]] assms(3)
    reads_storedD(1) [OF assms(1)]
  by (force simp: isPluginManagedByPreset_def smap_val_get)

text \<open>
  Each loop writes to objects that are listed with the label, so it keeps an object that is not. The
  listed plugins are all managed ones of the state at the start.
\<close>

lemma cleanup_keeps:
  assumes "writes_local env lookup" "\<forall>p \<in> set ps. ObjectKeyFromObject p \<noteq> k"
    and "cleanup_plugins env cls ps s = (err, s')"
  shows "lookup s' k = lookup s k"
  using assms(2,3)
proof (induction ps arbitrary: s)
  case (Cons p ps)
  then show ?case
    using writes_localD(2) [OF assms(1), of p s _ _ k]
    by (auto split: if_splits prod.splits option.splits)
qed simp

lemma delete_keeps:
  assumes "writes_local env lookup" "\<forall>p \<in> set ps. ObjectKeyFromObject p \<noteq> k"
    and "delete_plugins env ps s = (errs, s')"
  shows "lookup s' k = lookup s k"
  using assms(2,3)
proof (induction ps arbitrary: s errs)
  case (Cons p ps)
  from Cons.prems obtain err s1 errs1 where *: "cl_delete (pe_plugins env) p s = (err, s1)"
    "delete_plugins env ps s1 = (errs1, s')" by (auto split: prod.splits)
  have "lookup s1 k = lookup s k" using writes_localD(2) [OF assms(1) *(1), of k] Cons.prems(1) by auto
  with Cons.IH [OF _ *(2)] Cons.prems(1) show ?case by simp
qed simp

lemma retain_keeps:
  assumes "writes_local env lookup" "\<forall>p \<in> set ps. ObjectKeyFromObject p \<noteq> k"
    and "retain_plugins env preset ps s = (errs, s')"
  shows "lookup s' k = lookup s k"
  using assms(2,3)
proof (induction ps arbitrary: s errs)
  case (Cons p ps)
  show ?case
  proof (cases "isPluginManagedByPreset p (o_name preset)")
    case True
    let ?f = "\<lambda>p. if length (o_ownerReferences p) > 0 then pe_removeOwnerReference env preset p else Inr p"
    from Cons.prems True obtain r err s1 errs1 where *: "Patch (pe_plugins env) p ?f s = ((r, err), s1)"
      "retain_plugins env preset ps s1 = (errs1, s')" by (auto split: prod.splits)
    have "lookup s1 k = lookup s k"
      using *(1) writes_localD(3) [OF assms(1), of _ p s _ _ k] Cons.prems(1)
      by (auto simp: Patch_def patch_object_def split: sum.splits if_splits prod.splits option.splits)
    with Cons.IH [OF _ *(2)] Cons.prems(1) show ?thesis by simp
  qed (use Cons in auto)
qed simp

lemma loop_keeps_unmanaged:
  assumes "reads_stored env lookup" "writes_local env lookup"
  shows "preset_loop env preset cls skipped failed errs s = (out, s') \<Longrightarrow> lookup s k = Some p \<Longrightarrow>
    \<not> isPluginManagedByPreset p (o_name preset) \<Longrightarrow> lookup s' k = Some p"
proof (induction cls arbitrary: skipped failed errs s)
  case (Cons cl cls)
  let ?got = "cl_get (pe_plugins env) (plugin_key preset cl) s"
  have step: "lookup s1 k = Some p"
    if w: "pe_createOrUpdate env q f s = (err, s1)" and q: "?got = Inr q \<and> isPluginManagedByPreset q (o_name preset)
      \<or> (\<exists>e. ?got = Inl e \<and> IsNotFound e \<and> q = new_plugin preset cl)" for q f err s1
  proof -
    have "k \<noteq> ObjectKeyFromObject q"
      using q Cons.prems(2,3) reads_storedD(1-3) [OF assms(1)] key_new_plugin by (metis option.distinct(1) option.inject)
    then show ?thesis using writes_localD(1) [OF assms(2) w] Cons.prems(2) by simp
  qed
  show ?case
    using Cons.prems(1) step Cons.IH [OF _ _ Cons.prems(3)] Cons.prems(2)
    by (auto simp: Let_def split: if_splits sum.splits prod.splits option.splits)
qed simp


lemma unmanaged_not_listed:
  assumes "reads_stored env lookup" "preset_listPlugins env preset s = Inr ps" "lookup s k = Some p"
    and "\<not> isPluginManagedByPreset p (o_name preset)"
  shows "\<forall>q \<in> set ps. ObjectKeyFromObject q \<noteq> k"
  using managed_listed [OF assms(1,2)] assms(3,4) by fastforce

lemma reconcilePluginPreset_state:
  "snd (snd (reconcilePluginPreset now env preset cls s)) = snd (preset_loop env preset cls [] [] [] s)"
  by (auto simp: reconcilePluginPreset_def split: prod.splits preset_loop_result.splits)

lemma cleanupPlugins_cong: "o_name p = o_name q \<Longrightarrow> o_namespace p = o_namespace q \<Longrightarrow>
    cleanupPlugins env p cls s = cleanupPlugins env q cls s"
  by (simp add: cleanupPlugins_def preset_listPlugins_def)

text \<open>What \<open>EnsureCreated\<close> does to the state: the cleanup, then the loop, each if the steps before succeed.\<close>

lemma EnsureCreated_state:
  assumes "preset_EnsureCreated now env preset s = (out, preset', s')"
  obtains (listing_failed) "s' = s" "fst (snd out) = Failed"
  | (cleanup_failed) cls e where "preset_listClusters env preset s = Inr cls"
      "cleanupPlugins env preset cls s = (Some e, s')" "fst (snd out) = Failed"
  | (reconciled) cls s1 preset1 where "preset_listClusters env preset s = Inr cls"
      "cleanupPlugins env preset cls s = (None, s1)"
      "o_name preset1 = o_name preset" "o_namespace preset1 = o_namespace preset"
      "preset1 = preset\<lparr>o_conditions := o_conditions preset1\<rparr>"
      "s' = snd (preset_loop env preset1 (FilterClustersBeingDeleted cls) [] [] [] s1)"
      "fst (snd out) = Success \<Longrightarrow>
         \<exists>preset2. reconcilePluginPreset now env preset1 (FilterClustersBeingDeleted cls) s1 = (None, preset2, s')
           \<and> reconcilePluginStatuses now env preset2 s' = (None, preset')"
proof -
  let ?p = "initPluginPresetStatus now preset"
  note init = initPluginPresetStatus_conditions [of now preset]
  have lc: "preset_listClusters env ?p s = preset_listClusters env preset s"
    by (simp add: preset_listClusters_def split: option.split)
  show thesis
  proof (cases "preset_listClusters env preset s")
    case (Inl e)
    with assms lc have "s' = s \<and> fst (snd out) = Failed" by (auto simp: preset_EnsureCreated_def)
    then show thesis by (intro listing_failed) simp_all
  next
    case (Inr cls)
    define p1 where "p1 = SetCondition now (if length cls = 0
      then TrueCondition now ClusterListEmpty [] ''No cluster matches ClusterSelector''
      else FalseCondition now ClusterListEmpty [] []) ?p"
    have meta: "o_name p1 = o_name preset" "o_namespace p1 = o_namespace preset" by (simp_all add: p1_def)
    have p1: "p1 = preset\<lparr>o_conditions := o_conditions p1\<rparr>"
      unfolding p1_def by (subst init) (simp add: SetCondition_def)
    note cl = cleanupPlugins_cong [OF meta, of env cls s]
    note run = assms [unfolded preset_EnsureCreated_def Let_def lc Inr sum.case, folded p1_def, unfolded cl]
    obtain err s1 where c: "cleanupPlugins env preset cls s = (err, s1)" by (cases "cleanupPlugins env preset cls s")
    show thesis
    proof (cases err)
      case (Some e)
      with run c have "s' = s1 \<and> fst (snd out) = Failed" by auto
      with Some c Inr show thesis by (intro cleanup_failed [of cls e]) simp_all
    next
      case None
      obtain rerr p2 s2 where r: "reconcilePluginPreset now env p1 (FilterClustersBeingDeleted cls) s1 = (rerr, p2, s2)"
        by (cases "reconcilePluginPreset now env p1 (FilterClustersBeingDeleted cls) s1")
      obtain serr p3 where st: "reconcilePluginStatuses now env p2 s2 = (serr, p3)"
        by (cases "reconcilePluginStatuses now env p2 s2")
      have "s' = s2 \<and> (fst (snd out) = Success \<longrightarrow> rerr = None \<and> serr = None \<and> p3 = preset')"
        using run c None r st by (cases rerr; cases serr; simp) auto
      moreover have "s2 = snd (preset_loop env p1 (FilterClustersBeingDeleted cls) [] [] [] s1)"
        using reconcilePluginPreset_state [of now env p1 "FilterClustersBeingDeleted cls" s1] r by simp
      ultimately show thesis using reconciled [OF Inr c [unfolded None] meta p1] r st by simp
    qed
  qed
qed

text \<open>
  C22. A Plugin that does not carry the label of the preset is never changed or deleted, neither when the
  preset is reconciled, also if it has the name of a plugin the preset would create, nor when the preset is
  deleted.
\<close>

theorem unmanaged_plugin_untouched:
  assumes "reads_stored env lookup" and "writes_local env lookup" and "lookup s k = Some p"
    and "\<not> isPluginManagedByPreset p (o_name preset)"
  shows "lookup (snd (snd (preset_EnsureCreated now env preset s))) k = Some p
    \<and> lookup (snd (snd (preset_EnsureDeleted env preset s))) k = Some p"
proof
  note listed = unmanaged_not_listed [OF assms(1) _ assms(3,4)]
  have clean: "lookup s1 k = Some p" if "cleanupPlugins env preset cls s = (err, s1)" for cls err s1
    using that cleanup_keeps [OF assms(2) listed] assms(3) by (auto simp: cleanupPlugins_def split: sum.splits)
  obtain out preset' s' where run: "preset_EnsureCreated now env preset s = (out, preset', s')"
    by (cases "preset_EnsureCreated now env preset s")
  then have "lookup s' k = Some p"
  proof (cases rule: EnsureCreated_state)
    case (reconciled cls s1 preset1)
    obtain res s2 where l: "preset_loop env preset1 (FilterClustersBeingDeleted cls) [] [] [] s1 = (res, s2)"
      by (cases "preset_loop env preset1 (FilterClustersBeingDeleted cls) [] [] [] s1")
    with loop_keeps_unmanaged [OF assms(1,2) l clean [OF reconciled(2)]] assms(4) reconciled(3,6) show ?thesis by simp
  next
    case listing_failed
    with assms(3) show ?thesis by simp
  next
    case cleanup_failed
    then show ?thesis by (blast intro: clean)
  qed
  with run show "lookup (snd (snd (preset_EnsureCreated now env preset s))) k = Some p" by simp
  show "lookup (snd (snd (preset_EnsureDeleted env preset s))) k = Some p"
  proof (cases "preset_listPlugins env preset s")
    case (Inl e)
    with assms(3) show ?thesis by (simp add: preset_EnsureDeleted_def)
  next
    case (Inr ps)
    obtain es1 s1 es2 s2 where w: "delete_plugins env ps s = (es1, s1)" "retain_plugins env preset ps s = (es2, s2)"
      by (cases "delete_plugins env ps s"; cases "retain_plugins env preset ps s")
    have "lookup s1 k = Some p" "lookup s2 k = Some p"
      using delete_keeps [OF assms(2) listed [OF Inr] w(1)] retain_keeps [OF assms(2) listed [OF Inr] w(2)] assms(3)
      by simp_all
    with Inr w show ?thesis by (simp add: preset_EnsureDeleted_def)
  qed
qed


section \<open>Convergence\<close>

definition resolved_values ::
  "('s, 'd) preset_env \<Rightarrow> plugin_preset \<Rightarrow> cluster \<Rightarrow> 's \<Rightarrow> go_error + plugin_option_value list" where
  "resolved_values env preset cl s =
     resolvePluginOptionValuesForPreset (pe_expressions env) (pe_reads env s) (pe_build env) (pe_eval env)
       (applyOverridesToPreset preset (o_name cl)) cl"

text \<open>Resolved values depend on clusters and teams; writing plugins does not change them.\<close>

definition values_stable :: "('s, 'd) preset_env \<Rightarrow> plugin_preset \<Rightarrow> bool" where
  "values_stable env preset \<longleftrightarrow>
     (\<forall>s p f err s' cl. pe_createOrUpdate env p f s = (err, s') \<longrightarrow>
        resolved_values env preset cl s' = resolved_values env preset cl s)
     \<and> (\<forall>s p err s' cl. cl_delete (pe_plugins env) p s = (err, s') \<longrightarrow>
        resolved_values env preset cl s' = resolved_values env preset cl s)"

text \<open>
  The plugin the preset asks for on a cluster: the template of the preset with the values resolved for the
  cluster; the release name depends on the plugin that was there before.
\<close>

definition desired_spec :: "plugin_preset \<Rightarrow> cluster \<Rightarrow> plugin_option_value list \<Rightarrow> plugin_spec \<Rightarrow> bool" where
  "desired_spec preset cl vals spec \<longleftrightarrow>
     (\<exists>rel. spec = (pluginSpecFromPluginPreset preset (o_name cl))\<lparr>ps_optionValues := vals, ps_releaseName := rel\<rparr>)"

definition deployed ::
  "('s, 'd) preset_env \<Rightarrow> 's plugin_lookup \<Rightarrow> (plugin \<Rightarrow> plugin) \<Rightarrow> plugin_preset \<Rightarrow> cluster \<Rightarrow> 's \<Rightarrow> 's \<Rightarrow> bool" where
  "deployed env lookup admit preset cl s s' \<longleftrightarrow>
     (\<exists>q vals. resolved_values env preset cl s = Inr vals \<and> desired_spec preset cl vals (pl_spec q) \<and>
        lookup s' (plugin_key preset cl) \<in> {Some q, Some (admit q)})"

definition gone :: "'s plugin_lookup \<Rightarrow> 's \<Rightarrow> namespaced_name \<Rightarrow> bool" where
  "gone lookup s k \<longleftrightarrow> (case lookup s k of None \<Rightarrow> True | Some q \<Rightarrow> o_deletionTimestamp q \<noteq> None)"

lemma plugin_key_inj: "plugin_key preset a = plugin_key preset b \<longleftrightarrow> o_name a = o_name b"
  by (simp add: plugin_key_def generatePluginName_def buildPluginName_def)

lemma Apply_spec [simp]: "pl_spec (Apply src (dst :: plugin)) = pl_spec dst"
  by (simp add: Apply_def storeAppliedState_def removeAppliedState_def Let_def split: prod.splits)

lemma preset_mutate_spec:
  assumes "preset_mutate env preset cl s p = Inr q"
  shows "\<exists>vals. resolved_values env preset cl s = Inr vals \<and> desired_spec preset cl vals (pl_spec q)"
  using assms by (auto simp: preset_mutate_def resolved_values_def desired_spec_def Let_def split: sum.splits)

lemma desired_cluster: "desired_spec preset cl vals spec \<Longrightarrow> ps_clusterName spec = o_name cl"
  by (auto simp: desired_spec_def pluginSpecFromPluginPreset_def Let_def)

text \<open>One successful write of the loop.\<close>

lemma write_deploys:
  assumes "writes_stored env lookup admit" and "ObjectKeyFromObject p = plugin_key preset cl"
    and "pe_createOrUpdate env p (preset_mutate env preset cl s) s = (None, s')"
  shows "deployed env lookup admit preset cl s s'"
proof -
  from assms obtain p0 q where "preset_mutate env preset cl s p0 = Inr q"
    "lookup s' (plugin_key preset cl) \<in> {Some q, Some (admit q)}"
    unfolding writes_stored_def by (metis insertCI)
  with preset_mutate_spec show ?thesis unfolding deployed_def by metis
qed

text \<open>The loop step by step; an error is never dropped, so an empty list of errors means only successful writes.\<close>

lemma loop_errors_grow:
  "preset_loop env preset cls skipped failed errs s = (LoopDone sk fa errs', s') \<Longrightarrow> prefix errs errs'"
proof (induction cls arbitrary: skipped failed errs s)
  case (Cons cl cls)
  have "prefix (errs @ xs) errs' \<Longrightarrow> prefix errs errs'" for xs by (meson append_prefixD)
  with Cons show ?case
    by (fastforce simp: Let_def split: if_splits sum.splits prod.splits option.splits)
qed simp

lemma loop_step:
  assumes "reads_stored env lookup"
    and "preset_loop env preset (cl # cls) sk fa er s = (LoopDone sk' fa' [], s')"
  obtains (skip) sk1 where "preset_loop env preset cls sk1 fa er s = (LoopDone sk' fa' [], s')"
      "o_deletionTimestamp cl \<noteq> None
       \<or> (\<exists>p. lookup s (plugin_key preset cl) = Some p \<and> \<not> isPluginManagedByPreset p (o_name preset))"
  | (written) p s1 where "ObjectKeyFromObject p = plugin_key preset cl"
      "pe_createOrUpdate env p (preset_mutate env preset cl s) s = (None, s1)"
      "preset_loop env preset cls sk fa er s1 = (LoopDone sk' fa' [], s')"
proof -
  let ?got = "cl_get (pe_plugins env) (plugin_key preset cl) s"
  have no_error: False if "preset_loop env preset cls sk1 fa1 (er @ [e]) s1 = (LoopDone sk' fa' [], s')" for sk1 fa1 e s1
    using loop_errors_grow [OF that] by simp
  show thesis
  proof (cases "o_deletionTimestamp cl \<noteq> None")
    case True
    with assms(2) show thesis by (intro skip) auto
  next
    case alive: False
    show thesis
    proof (cases ?got)
      case (Inl e)
      with alive assms(2) have nf: "IsNotFound e" by (auto simp: Let_def split: if_splits)
      obtain err s1 where w: "pe_createOrUpdate env (new_plugin preset cl) (preset_mutate env preset cl s) s = (err, s1)"
        by (cases "pe_createOrUpdate env (new_plugin preset cl) (preset_mutate env preset cl s) s")
      with Inl nf alive assms(2) no_error show thesis
        by (intro written [of "new_plugin preset cl" s1]) (auto simp: Let_def split: option.splits if_splits)
    next
      case (Inr p)
      have stored: "lookup s (plugin_key preset cl) = Some p" "ObjectKeyFromObject p = plugin_key preset cl"
        using reads_storedD(2) [OF assms(1) Inr] reads_storedD(1) [OF assms(1), of s "plugin_key preset cl"] by simp_all
      show thesis
      proof (cases "isPluginManagedByPreset p (o_name preset)")
        case False
        with alive Inr assms(2) stored show thesis by (intro skip [of "sk @ [o_name p]"]) auto
      next
        case True
        obtain err s1 where w: "pe_createOrUpdate env p (preset_mutate env preset cl s) s = (err, s1)"
          by (cases "pe_createOrUpdate env p (preset_mutate env preset cl s) s")
        with Inr True alive assms(2) no_error stored show thesis
          by (intro written [of p s1]) (auto simp: Let_def split: option.splits if_splits)
      qed
    qed
  qed
qed

lemma loop_keeps_other:
  assumes "reads_stored env lookup" "writes_local env lookup"
  shows "preset_loop env preset cls sk fa er s = (LoopDone sk' fa' [], s') \<Longrightarrow> k \<notin> plugin_key preset ` set cls
    \<Longrightarrow> lookup s' k = lookup s k"
proof (induction cls arbitrary: sk s)
  case (Cons cl cls)
  from assms(1) Cons.prems(1) show ?case
  proof (cases rule: loop_step)
    case (skip sk1)
    with Cons show ?thesis by simp
  next
    case (written p s1)
    then have "lookup s1 k = lookup s k"
      using writes_localD(1) [OF assms(2) written(2), of k] Cons.prems(2) by auto
    with Cons.IH [OF written(3)] Cons.prems(2) show ?thesis by simp
  qed
qed simp

lemma loop_deploys:
  assumes "reads_stored env lookup" "writes_local env lookup" "writes_stored env lookup admit" "values_stable env preset"
  shows "preset_loop env preset cls sk fa er s = (LoopDone sk' fa' [], s') \<Longrightarrow> distinct (map o_name cls) \<Longrightarrow>
    cl \<in> set cls \<Longrightarrow> o_deletionTimestamp cl = None \<Longrightarrow>
    deployed env lookup admit preset cl s s'
    \<or> (\<exists>p. lookup s' (plugin_key preset cl) = Some p \<and> \<not> isPluginManagedByPreset p (o_name preset))"
proof (induction cls arbitrary: sk s)
  case (Cons c cls)
  have rest: "cl = c \<Longrightarrow> plugin_key preset cl \<notin> plugin_key preset ` set cls"
    using Cons.prems(2) by (auto simp: plugin_key_inj image_iff)
  from assms(1) Cons.prems(1) show ?case
  proof (cases rule: loop_step)
    case (skip sk1)
    show ?thesis
    proof (cases "cl = c")
      case True
      with skip(2) Cons.prems(4) loop_keeps_other [OF assms(1,2) skip(1) rest] show ?thesis by auto
    next
      case False
      with Cons.IH [OF skip(1)] Cons.prems show ?thesis by simp
    qed
  next
    case (written p s1)
    show ?thesis
    proof (cases "cl = c")
      case True
      from write_deploys [OF assms(3) written(1,2)] True loop_keeps_other [OF assms(1,2) written(3) rest]
      have "deployed env lookup admit preset cl s s'" by (simp add: deployed_def)
      then show ?thesis ..
    next
      case False
      have "resolved_values env preset cl s1 = resolved_values env preset cl s"
        using assms(4) written(2) unfolding values_stable_def by blast
      then have "deployed env lookup admit preset cl s1 s' = deployed env lookup admit preset cl s s'"
        by (simp add: deployed_def)
      with Cons.IH [OF written(3)] Cons.prems False show ?thesis by simp
    qed
  qed
qed simp

lemma loop_origin:
  assumes "reads_stored env lookup" "writes_local env lookup" "writes_stored env lookup admit"
    and "\<And>p. ps_clusterName (pl_spec (admit p)) = ps_clusterName (pl_spec p)"
  shows "preset_loop env preset cls sk fa er s = (LoopDone sk' fa' [], s') \<Longrightarrow> lookup s' k = Some p \<Longrightarrow>
    lookup s k = Some p \<or> ps_clusterName (pl_spec p) \<in> o_name ` set cls"
proof (induction cls arbitrary: sk s)
  case (Cons c cls)
  from assms(1) Cons.prems(1) show ?case
  proof (cases rule: loop_step)
    case (skip sk1)
    with Cons show ?thesis by fastforce
  next
    case (written q s1)
    from Cons.IH [OF written(3) Cons.prems(2)] show ?thesis
    proof
      assume s1: "lookup s1 k = Some p"
      show ?thesis
      proof (cases "k = plugin_key preset c")
        case True
        with write_deploys [OF assms(3) written(1,2)] s1 obtain q' vals where
          "desired_spec preset c vals (pl_spec q')" "p = q' \<or> p = admit q'" by (auto simp: deployed_def)
        then show ?thesis using desired_cluster assms(4) by auto
      next
        case False
        with s1 written(1) writes_localD(1) [OF assms(2) written(2), of k] show ?thesis by simp
      qed
    qed simp
  qed
qed simp

text \<open>After the cleanup, what was listed for another cluster is gone, and everything else is as it was.\<close>

lemma cleanup_gone_stays:
  assumes "writes_local env lookup" "deletes_stored env lookup"
  shows "cleanup_plugins env cls ps s = (None, s') \<Longrightarrow> gone lookup s k \<Longrightarrow> gone lookup s' k"
proof (induction ps arbitrary: s)
  case (Cons p ps)
  have "gone lookup s1 k" if d: "cl_delete (pe_plugins env) p s = (err, s1)" "IgnoreNotFound err = None" for err s1
  proof (cases "k = ObjectKeyFromObject p")
    case True
    with assms(2) d show ?thesis unfolding deletes_stored_def gone_def by blast
  next
    case False
    with writes_localD(2) [OF assms(1) d(1)] Cons.prems(2) show ?thesis by (simp add: gone_def)
  qed
  with Cons show ?case by (auto simp: IgnoreNotFound_def split: if_splits prod.splits option.splits)
qed simp

lemma cleanup_result:
  assumes "writes_local env lookup" "deletes_stored env lookup"
  shows "cleanup_plugins env cls ps s = (None, s') \<Longrightarrow>
    (\<forall>p \<in> set ps. ps_clusterName (pl_spec p) \<notin> o_name ` set cls \<longrightarrow> gone lookup s' (ObjectKeyFromObject p))
    \<and> (lookup s' k = lookup s k \<or> gone lookup s' k)"
proof (induction ps arbitrary: s)
  case (Cons p ps)
  show ?case
  proof (cases "list_ex (\<lambda>c. ps_clusterName (pl_spec p) = o_name c) cls")
    case True
    then have "ps_clusterName (pl_spec p) \<in> o_name ` set cls" by (auto simp: list_ex_iff)
    with True Cons show ?thesis by simp
  next
    case False
    obtain err s1 where d: "cl_delete (pe_plugins env) p s = (err, s1)" by (cases "cl_delete (pe_plugins env) p s")
    with False Cons.prems have ok: "IgnoreNotFound err = None" and rest: "cleanup_plugins env cls ps s1 = (None, s')"
      by (auto simp: IgnoreNotFound_def split: option.splits if_splits)
    have g: "gone lookup s1 (ObjectKeyFromObject p)"
      using assms(2) d ok unfolding deletes_stored_def gone_def by blast
    then have g': "gone lookup s' (ObjectKeyFromObject p)" by (rule cleanup_gone_stays [OF assms rest])
    then have "lookup s' k = lookup s k \<or> gone lookup s' k"
      using Cons.IH [OF rest] writes_localD(2) [OF assms(1) d, of k] by (cases "k = ObjectKeyFromObject p") auto
    with Cons.IH [OF rest] g' show ?thesis by simp
  qed
qed simp

lemma cleanup_values:
  assumes "values_stable env preset" "cleanup_plugins env cls ps s = (err, s')"
  shows "resolved_values env preset cl s' = resolved_values env preset cl s"
  using assms(2)
proof (induction ps arbitrary: s)
  case (Cons p ps)
  then show ?case
    using assms(1) by (auto simp: values_stable_def split: if_splits prod.splits option.splits)
qed simp

lemma reconcilePluginPreset_success:
  assumes "reconcilePluginPreset now env preset cls s = (None, preset', s')"
    and "shown_status (o_conditions preset') PluginFailedCondition = Some ConditionFalse"
  shows "\<exists>sk. preset_loop env preset cls [] [] [] s = (LoopDone sk [] [], s')"
proof -
  obtain res s1 where l: "preset_loop env preset cls [] [] [] s = (res, s1)"
    by (cases "preset_loop env preset cls [] [] [] s")
  show ?thesis
  proof (cases res)
    case (LoopDone sk fa er)
    have "fa = []"
      using assms l LoopDone by (auto simp: reconcilePluginPreset_def shown_SetCondition condition_constructors split: if_splits)
    with assms l LoopDone show ?thesis by (auto simp: reconcilePluginPreset_def)
  next
    case (LoopReturn e)
    with assms l show ?thesis by (simp add: reconcilePluginPreset_def)
  next
    case LoopNoDefinition
    with assms l show ?thesis
      by (auto simp: reconcilePluginPreset_def shown_SetCondition condition_constructors preset_condition_types)
  qed
qed


lemma resolved_values_conditions: "resolved_values env (preset\<lparr>o_conditions := c\<rparr>) cl s = resolved_values env preset cl s"
  by (simp add: resolved_values_def resolvePluginOptionValuesForPreset_def resolveExpressionsForPreset_def
      applyOverridesToPreset_def preset_temp_plugin_def Let_def split: option.split sum.split)

lemma reconcilePluginStatuses_failed:
  "shown_status (o_conditions (snd (reconcilePluginStatuses now env preset s))) PluginFailedCondition =
     shown_status (o_conditions preset) PluginFailedCondition"
  by (auto simp: reconcilePluginStatuses_def shown_SetCondition condition_constructors preset_condition_types
      split: sum.splits prod.splits)

lemma deployed_conditions:
  "deployed env lookup admit (preset\<lparr>o_conditions := c\<rparr>) cl s s' = deployed env lookup admit preset cl s s'"
  by (simp add: deployed_def resolved_values_conditions desired_spec_def pluginSpecFromPluginPreset_def plugin_key_def
      generatePluginName_def)

text \<open>
  C20. A successful reconciliation that reports no failed plugin has brought about what the preset asks for:
  on every selected cluster that is not being deleted the plugin of the preset is stored as the template
  with the overrides and values of that cluster, up to what admission adds, unless its name is taken by a
  plugin of somebody else; and no plugin with the label of the preset is left for a cluster that is not
  selected, unless its deletion is under way.
\<close>

theorem preset_converges:
  assumes api: "reads_stored env lookup" "writes_local env lookup" "writes_stored env lookup admit"
      "deletes_stored env lookup" "values_stable env preset"
    and admit: "\<And>p. ps_clusterName (pl_spec (admit p)) = ps_clusterName (pl_spec p)"
    and run: "preset_EnsureCreated now env preset s = ((r, Success, err), preset', s')"
    and ok: "shown_status (o_conditions preset') PluginFailedCondition = Some ConditionFalse"
    and clusters: "preset_listClusters env preset s = Inr cls" "distinct (map o_name cls)"
  shows "(\<forall>cl \<in> set cls. o_deletionTimestamp cl = None \<longrightarrow>
            deployed env lookup admit preset cl s s'
            \<or> (\<exists>p. lookup s' (plugin_key preset cl) = Some p \<and> \<not> isPluginManagedByPreset p (o_name preset)))
       \<and> (\<forall>k p. lookup s' k = Some p \<and> o_namespace p = o_namespace preset
            \<and> smap_get (o_labels p) LabelKeyPluginPreset = Some (o_name preset) \<and> o_deletionTimestamp p = None \<longrightarrow>
            ps_clusterName (pl_spec p) \<in> o_name ` set cls)"
  using run
proof (cases rule: EnsureCreated_state)
  case (reconciled cls' s1 p1)
  with clusters have cls': "cls' = cls" by simp
  let ?alive = "FilterClustersBeingDeleted cls"
  from reconciled(7) obtain p2 where r: "reconcilePluginPreset now env p1 ?alive s1 = (None, p2, s')"
    and st: "reconcilePluginStatuses now env p2 s' = (None, preset')" using cls' by auto
  have "shown_status (o_conditions p2) PluginFailedCondition = Some ConditionFalse"
    using ok reconcilePluginStatuses_failed [of now env p2 s'] st by simp
  with reconcilePluginPreset_success [OF r] obtain sk where
    loop: "preset_loop env p1 ?alive [] [] [] s1 = (LoopDone sk [] [], s')" by blast
  obtain ps where ps: "preset_listPlugins env preset s = Inr ps" "cleanup_plugins env cls ps s = (None, s1)"
    using reconciled(2) cls' by (auto simp: cleanupPlugins_def split: sum.splits)
  have p1: "p1 = preset\<lparr>o_conditions := o_conditions p1\<rparr>" by (rule reconciled(5))
  have vs: "resolved_values env p1 cl x = resolved_values env preset cl x" for cl x
    by (subst p1) (rule resolved_values_conditions)
  then have stable: "values_stable env p1" using api(5) by (simp add: values_stable_def)
  have dist: "distinct (map o_name ?alive)"
    using clusters(2) by (simp add: FilterClustersBeingDeleted_def DeleteFunc_def distinct_map_filter)
  have dep: "deployed env lookup admit p1 cl s1 s' = deployed env lookup admit preset cl s s'" for cl
  proof -
    have "deployed env lookup admit p1 cl s1 s' = deployed env lookup admit preset cl s1 s'"
      by (subst p1) (rule deployed_conditions)
    then show ?thesis using cleanup_values [OF api(5) ps(2), of cl] by (simp add: deployed_def)
  qed
  have key: "plugin_key p1 cl = plugin_key preset cl" for cl
    using reconciled(3,4) by (simp add: plugin_key_def generatePluginName_def)
  show ?thesis
  proof (intro conjI ballI allI impI)
    fix cl assume cl: "cl \<in> set cls" "o_deletionTimestamp cl = None"
    then have "cl \<in> set ?alive" by (simp add: FilterClustersBeingDeleted_def)
    from loop_deploys [OF api(1,2,3) stable loop dist this cl(2)]
    show "deployed env lookup admit preset cl s s'
      \<or> (\<exists>p. lookup s' (plugin_key preset cl) = Some p \<and> \<not> isPluginManagedByPreset p (o_name preset))"
      by (simp add: dep key reconciled(3))
  next
    fix k p
    assume p: "lookup s' k = Some p \<and> o_namespace p = o_namespace preset
      \<and> smap_get (o_labels p) LabelKeyPluginPreset = Some (o_name preset) \<and> o_deletionTimestamp p = None"
    from loop_origin [OF api(1,2,3) admit loop] p
    have "lookup s1 k = Some p \<or> ps_clusterName (pl_spec p) \<in> o_name ` set ?alive" by blast
    then show "ps_clusterName (pl_spec p) \<in> o_name ` set cls"
    proof
      assume s1: "lookup s1 k = Some p"
      then have "\<not> gone lookup s1 k" using p by (simp add: gone_def)
      with cleanup_result [OF api(2,4) ps(2), of k] s1 have s: "lookup s k = Some p" by auto
      then have "p \<in> set ps"
        using reads_storedD(4) [OF api(1) ps(1) [unfolded preset_listPlugins_def]] p by auto
      moreover have "ObjectKeyFromObject p = k" by (rule reads_storedD(1) [OF api(1) s])
      ultimately show ?thesis
        using cleanup_result [OF api(2,4) ps(2), of k] \<open>\<not> gone lookup s1 k\<close> by auto
    qed (auto simp: FilterClustersBeingDeleted_def)
  qed
qed simp_all


text \<open>
  A server that keeps a list of plugins, the newest version of a key first, for the witnesses: a plugin of
  somebody else occupies the name for cluster \<open>c2\<close>, and a plugin for the cluster \<open>old\<close> is left over.
\<close>

definition list_lookup :: "plugin list plugin_lookup" where
  "list_lookup s k = find (\<lambda>p. ObjectKeyFromObject p = k) s"

definition list_server :: "cluster list \<Rightarrow> (plugin list, unit) preset_env" where
  "list_server cls =
     \<lparr>pe_plugins =
        \<lparr>cl_get = (\<lambda>k s. case list_lookup s k of None \<Rightarrow> Inl (ApiError ReasonNotFound ''not found'' []) | Some p \<Rightarrow> Inr p),
         cl_create = (\<lambda>p s. (None, p # s)), cl_update = (\<lambda>p s. (None, p # s)),
         cl_patch = (\<lambda>p old s. if ObjectKeyFromObject p = ObjectKeyFromObject old then (None, p # s)
                              else (Some (PlainError ''name changed''), s)),
         cl_patch_status = (\<lambda>p old s. (None, s)),
         cl_delete = (\<lambda>p s. (None, filter (\<lambda>q. ObjectKeyFromObject q \<noteq> ObjectKeyFromObject p) s))\<rparr>,
      pe_createOrUpdate =
        (\<lambda>p f s. case f (case list_lookup s (ObjectKeyFromObject p) of None \<Rightarrow> p | Some p0 \<Rightarrow> p0) of
                   Inl e \<Rightarrow> (Some e, s)
                 | Inr q \<Rightarrow> if ObjectKeyFromObject q = ObjectKeyFromObject p then (None, q # s)
                            else (Some (PlainError ''name changed''), s)),
      pe_setControllerReference =
        (\<lambda>preset p. Inr (p\<lparr>o_ownerReferences := [\<lparr>or_kind = PluginPresetKind, or_name = o_name preset\<rparr>]\<rparr>)),
      pe_removeOwnerReference = (\<lambda>preset p. Inr (p\<lparr>o_ownerReferences := []\<rparr>)),
      pe_selector_error = (\<lambda>sel. None), pe_list_clusters = (\<lambda>ns sel s. Inr cls),
      pe_list_plugins = (\<lambda>ns l v s. Inr (filter (\<lambda>p. list_lookup s (ObjectKeyFromObject p) = Some p
        \<and> o_namespace p = ns \<and> smap_get (o_labels p) l = Some v) s)),
      pe_reads = (\<lambda>s. sample_plugin_reads []), pe_expressions = False, pe_build = (\<lambda>vs. Inr ()),
      pe_eval = (\<lambda>ex d. Inr ex)\<rparr>"

lemma find_key_filter:
  "find (\<lambda>p. f p = k) (filter (\<lambda>q. f q \<noteq> k') xs) = (if k = k' then None else find (\<lambda>p. f p = k) xs)"
  by (induction xs) auto

lemma list_server_laws:
  "reads_stored (list_server cls) list_lookup" "writes_local (list_server cls) list_lookup"
  "writes_stored (list_server cls) list_lookup id" "deletes_stored (list_server cls) list_lookup"
  "values_stable (list_server cls) preset"
proof -
  show "reads_stored (list_server cls) list_lookup"
    unfolding reads_stored_def list_server_def list_lookup_def
    by (auto simp: find_Some_iff split: option.splits dest: find_Some_in_set intro: nth_mem)
  show "writes_local (list_server cls) list_lookup"
    by (auto simp: writes_local_def list_server_def list_lookup_def find_key_filter split: sum.splits if_splits option.splits)
  show "writes_stored (list_server cls) list_lookup id"
    by (auto simp: writes_stored_def list_server_def list_lookup_def split: sum.splits if_splits)
  show "deletes_stored (list_server cls) list_lookup"
    by (auto simp: deletes_stored_def list_server_def list_lookup_def find_key_filter)
  show "values_stable (list_server cls) preset"
    by (simp add: values_stable_def resolved_values_def list_server_def)
qed


definition bare_cluster :: "string \<Rightarrow> cluster" where
  "bare_cluster n =
     \<lparr>o_name = n, o_namespace = ''org'', o_labels = [], o_annotations = [], o_finalizers = [],
      o_deletionTimestamp = None, o_ownerReferences = [], o_conditions = [], cluster_accessMode = ''direct'',
      cluster_maxTokenValidity = 72, cluster_kubernetesVersion = [], cluster_bearerTokenExpiration = 0,
      cluster_nodes = None\<rparr>"

definition preset_plugins :: "plugin list" where
  "preset_plugins =
     [zero_plugin\<lparr>o_name := ''pp-c2'', o_namespace := ''org''\<rparr>,
      zero_plugin\<lparr>o_name := ''pp-old'', o_namespace := ''org'', o_labels := [(LabelKeyPluginPreset, ''pp'')],
        pl_spec := zero_plugin_spec\<lparr>ps_clusterName := ''old''\<rparr>\<rparr>]"

definition preset_run :: "(ctrl_result \<times> reconcile_result \<times> go_error option) \<times> plugin_preset \<times> plugin list" where
  "preset_run =
     preset_EnsureCreated 5 (list_server [bare_cluster ''c1'', bare_cluster ''c2'']) sample_preset preset_plugins"

lemma preset_run_ok:
  "(fst (snd (fst preset_run)), shown_status (o_conditions (fst (snd preset_run))) PluginFailedCondition,
    map o_name (snd (snd preset_run))) = (Success, Some ConditionFalse, [''pp-c1'', ''pp-c2''])"
  by code_simp

theorem unmanaged_plugin_untouched_witness:
  "list_lookup (snd (snd preset_run)) \<lparr>nn_namespace = ''org'', nn_name = ''pp-c2''\<rparr> = Some (preset_plugins ! 0)"
proof -
  have l: "list_lookup preset_plugins \<lparr>nn_namespace = ''org'', nn_name = ''pp-c2''\<rparr> = Some (preset_plugins ! 0)"
    by (simp add: list_lookup_def preset_plugins_def ObjectKeyFromObject_def)
  have "\<not> isPluginManagedByPreset (preset_plugins ! 0) (o_name sample_preset)"
    by (simp add: isPluginManagedByPreset_def preset_plugins_def zero_plugin_def sample_preset_def smap_val_get)
  with l show ?thesis
    unfolding preset_run_def
    using unmanaged_plugin_untouched [where lookup = list_lookup, OF list_server_laws(1,2) l] by blast
qed

theorem preset_converges_witness:
  "deployed (list_server [bare_cluster ''c1'', bare_cluster ''c2'']) list_lookup id sample_preset (bare_cluster ''c1'')
     preset_plugins (snd (snd preset_run))
   \<or> (\<exists>p. list_lookup (snd (snd preset_run)) (plugin_key sample_preset (bare_cluster ''c1'')) = Some p
         \<and> \<not> isPluginManagedByPreset p (o_name sample_preset))"
proof -
  let ?cls = "[bare_cluster ''c1'', bare_cluster ''c2'']"
  have run: "preset_EnsureCreated 5 (list_server ?cls) sample_preset preset_plugins
      = ((fst (fst preset_run), Success, snd (snd (fst preset_run))), fst (snd preset_run), snd (snd preset_run))"
    using preset_run_ok by (simp add: preset_run_def prod_eq_iff)
  have ok: "shown_status (o_conditions (fst (snd preset_run))) PluginFailedCondition = Some ConditionFalse"
    using preset_run_ok by simp
  have l: "preset_listClusters (list_server ?cls) sample_preset preset_plugins = Inr ?cls"
    by (simp add: preset_listClusters_def list_server_def)
  have d: "distinct (map o_name ?cls)" by (simp add: bare_cluster_def)
  have id: "ps_clusterName (pl_spec (id p)) = ps_clusterName (pl_spec p)" for p by simp
  have "bare_cluster ''c1'' \<in> set ?cls" "o_deletionTimestamp (bare_cluster ''c1'') = None"
    by (simp_all add: bare_cluster_def)
  then show ?thesis
    using preset_converges [where lookup = list_lookup and admit = id, OF list_server_laws id run ok l d] by blast
qed

section \<open>Status and readiness\<close>

definition exposed :: "plugin_preset \<Rightarrow> bool" where
  "exposed p \<longleftrightarrow> (\<forall>ct \<in> set presetExposedConditions. shown_status (o_conditions p) ct \<noteq> None)"

lemma exposed_SetCondition: "exposed p \<Longrightarrow> exposed (SetCondition now c p)"
  by (simp add: exposed_def shown_SetCondition)

lemma exposed_init: "exposed (initPluginPresetStatus now preset)"
proof -
  let ?f = "\<lambda>ct p. if GetConditionByType (o_conditions p) ct = None
                   then SetCondition now (UnknownCondition now ct [] []) p else p"
  have "\<forall>ct \<in> set cts. shown_status (o_conditions (fold ?f cts preset)) ct \<noteq> None" for cts
  proof (induction cts rule: rev_induct)
    case (snoc t cts)
    then show ?case by (auto simp: shown_SetCondition shown_status_None_iff condition_constructors)
  qed simp
  then show ?thesis by (simp add: exposed_def initPluginPresetStatus_def)
qed

lemma exposed_cong: "o_conditions p = o_conditions q \<Longrightarrow> exposed p = exposed q"
  by (simp add: exposed_def)

lemma exposed_reconcilePluginPreset:
  "exposed preset \<Longrightarrow> exposed (fst (snd (reconcilePluginPreset now env preset cls s)))"
  by (auto simp: reconcilePluginPreset_def exposed_SetCondition split: prod.splits preset_loop_result.splits)

lemma exposed_reconcilePluginStatuses:
  "exposed preset \<Longrightarrow> exposed (snd (reconcilePluginStatuses now env preset s))"
  by (auto simp: reconcilePluginStatuses_def exposed_cong [of "preset\<lparr>preset_pluginStatuses := _, preset_totalPlugins := _,
      preset_readyPlugins := _, preset_failedPlugins := _\<rparr>" preset]
      intro!: exposed_SetCondition split: sum.splits prod.splits)

lemma exposed_EnsureCreated:
  assumes "preset_EnsureCreated now env preset s = (out, p', s')"
  shows "exposed p'"
proof -
  let ?p = "initPluginPresetStatus now preset"
  have 1: "exposed (SetCondition now c ?p)" for c by (rule exposed_SetCondition [OF exposed_init])
  have 2: "exposed p2" if "reconcilePluginPreset now env p cls s = (e, p2, s2)" "exposed p" for p cls s e p2 s2
    using exposed_reconcilePluginPreset [OF that(2), of now env cls s] that(1) by simp
  have 3: "exposed p2" if "reconcilePluginStatuses now env p s = (e, p2)" "exposed p" for p s e p2
    using exposed_reconcilePluginStatuses [OF that(2), of now env s] that(1) by simp
  show ?thesis
    using assms 1 unfolding preset_EnsureCreated_def Let_def
    by (auto split: sum.splits prod.splits option.splits dest!: 3 dest: 2)
qed


lemma shown_obtain: "shown_status sc t \<noteq> None \<Longrightarrow> \<exists>c. GetConditionByType sc t = Some c \<and> c_type c = t"
  by (auto simp: shown_status_def dest: GetConditionByType_SomeD)

lemma preset_computeReady:
  assumes "exposed p"
  shows "\<exists>rc. preset_computeReadyCondition (o_conditions p) = Some rc \<and> c_type rc = ReadyCondition \<and>
    (IsTrue rc \<longleftrightarrow>
       shown_status (o_conditions p) PluginFailedCondition \<noteq> Some ConditionTrue
       \<and> shown_status (o_conditions p) PluginDefinitionNotFoundCondition \<noteq> Some ConditionTrue
       \<and> shown_status (o_conditions p) ClusterListEmpty \<noteq> Some ConditionTrue
       \<and> shown_status (o_conditions p) AllPluginsReadyCondition \<noteq> Some ConditionFalse)"
proof -
  let ?g = "GetConditionByType (o_conditions p)"
  have ex: "\<exists>c. ?g t = Some c \<and> c_type c = t" if "t \<in> set presetExposedConditions" for t
    using assms that by (intro shown_obtain) (simp add: exposed_def)
  obtain rc fc dn ce ar where
    g: "?g ReadyCondition = Some rc" "?g PluginFailedCondition = Some fc" "?g PluginDefinitionNotFoundCondition = Some dn"
      "?g ClusterListEmpty = Some ce" "?g AllPluginsReadyCondition = Some ar" and "c_type rc = ReadyCondition"
    using ex [of ReadyCondition] ex [of PluginFailedCondition] ex [of PluginDefinitionNotFoundCondition]
      ex [of ClusterListEmpty] ex [of AllPluginsReadyCondition] by (auto simp: presetExposedConditions_def)
  then show ?thesis
    by (simp add: preset_computeReadyCondition_def shown_status_def IsTrue_def IsFalse_def)
qed

text \<open>
  Readiness of a preset can be computed after every reconciliation, without a nil dereference, and is
  True exactly when no plugin failed, the definition was found, a cluster is selected and AllPluginsReady
  is not False.
\<close>

theorem preset_ready_iff:
  assumes "preset_EnsureCreated now env preset s = (out, p', s')"
  shows "\<exists>t. preset_setConditions now env p' s' = Some t
    \<and> (IsReadyTrue (o_conditions t) \<longleftrightarrow>
         shown_status (o_conditions t) PluginFailedCondition \<noteq> Some ConditionTrue
         \<and> shown_status (o_conditions t) PluginDefinitionNotFoundCondition \<noteq> Some ConditionTrue
         \<and> shown_status (o_conditions t) ClusterListEmpty \<noteq> Some ConditionTrue
         \<and> shown_status (o_conditions t) AllPluginsReadyCondition \<noteq> Some ConditionFalse)"
proof -
  let ?p = "reconcilePluginDefinitionVersion now env p' s'"
  have "exposed (p'\<lparr>preset_pluginDefinitionVersion := v\<rparr>)" for v
    using exposed_EnsureCreated [OF assms] by (simp add: exposed_def)
  then have "exposed ?p"
    by (auto simp: reconcilePluginDefinitionVersion_def exposed_SetCondition split: sum.splits)
  from preset_computeReady [OF this] obtain rc where rc: "preset_computeReadyCondition (o_conditions ?p) = Some rc"
    "c_type rc = ReadyCondition" and iff: "IsTrue rc \<longleftrightarrow>
       shown_status (o_conditions ?p) PluginFailedCondition \<noteq> Some ConditionTrue
       \<and> shown_status (o_conditions ?p) PluginDefinitionNotFoundCondition \<noteq> Some ConditionTrue
       \<and> shown_status (o_conditions ?p) ClusterListEmpty \<noteq> Some ConditionTrue
       \<and> shown_status (o_conditions ?p) AllPluginsReadyCondition \<noteq> Some ConditionFalse" by blast
  let ?o = "ComputeOwnerLabelCondition now (pr_get_team (pe_reads env s')) ?p"
  let ?cs = "SetConditions now [rc, ?o] (o_conditions ?p)"
  have "?cs = SetConditions now [?o] (SetConditions now [rc] (o_conditions ?p))"
    by (simp add: SetConditions_Cons)
  then have shown: "shown_status ?cs ReadyCondition = Some (c_status rc)"
    "t \<notin> {ReadyCondition, OwnerLabelSetCondition} \<Longrightarrow> shown_status ?cs t = shown_status (o_conditions ?p) t" for t
    by (simp_all add: shown_status_set rc(2) condition_consts)
  show ?thesis
    using rc iff shown
    by (simp add: preset_setConditions_def Let_def IsReadyTrue_shown IsTrue_def preset_condition_types)
qed

text \<open>
  Readiness does not need a reconciliation that got anywhere: on a fresh preset a reconciliation that
  fails before it writes any plugin leaves PluginFailed and AllPluginsReady Unknown, and the preset is
  shown as Ready.
\<close>

theorem preset_ready_after_failure:
  "\<exists>(env :: (plugin list, unit) preset_env) e p' t.
     preset_EnsureCreated 5 env sample_preset [] = ((EmptyResult, Failed, Some e), p', [])
     \<and> preset_setConditions 5 env p' [] = Some t \<and> IsReadyTrue (o_conditions t)"
proof -
  define env :: "(plugin list, unit) preset_env" where
    "env = (list_server [bare_cluster ''c1''])\<lparr>pe_list_plugins := \<lambda>ns l v s. Inl (PlainError ''timeout'')\<rparr>"
  let ?r = "preset_EnsureCreated 5 env sample_preset []"
  have e: "fst ?r = (EmptyResult, Failed, Some (PlainError ''timeout'')) \<and> snd (snd ?r) = []"
    unfolding env_def by code_simp
  have t: "map_option (\<lambda>t. IsReadyTrue (o_conditions t)) (preset_setConditions 5 env (fst (snd ?r)) []) = Some True"
    unfolding env_def by code_simp
  from t obtain t where "preset_setConditions 5 env (fst (snd ?r)) [] = Some t" "IsReadyTrue (o_conditions t)" by auto
  with e show ?thesis by (metis prod.collapse)
qed

theorem preset_ready_iff_witness:
  "\<exists>t. preset_setConditions 5 (list_server [bare_cluster ''c1'', bare_cluster ''c2'']) (fst (snd preset_run))
         (snd (snd preset_run)) = Some t"
  using preset_ready_iff [of 5 "list_server [bare_cluster ''c1'', bare_cluster ''c2'']" sample_preset preset_plugins
      "fst preset_run" "fst (snd preset_run)" "snd (snd preset_run)"]
  by (auto simp: preset_run_def)

lemma plugin_statuses_eq:
  "plugin_statuses ps =
     (List.map_filter (\<lambda>p. map_option (\<lambda>c. \<lparr>mp_pluginName = o_name p, mp_readyCondition = c\<rparr>)
        (GetConditionByType (o_conditions p) ReadyCondition)) ps,
      length (filter (\<lambda>p. IsReadyTrue (o_conditions p)) ps),
      length (filter (\<lambda>p. GetConditionByType (o_conditions p) ReadyCondition \<noteq> None \<and> \<not> IsReadyTrue (o_conditions p)) ps))"
  by (induction ps) (auto simp: List.map_filter_simps IsReadyTrue_def split: option.splits)

lemma ready_of_reported:
  "length (filter (\<lambda>p. IsReadyTrue (o_conditions p)) ps)
     = length (filter (\<lambda>p. GetConditionByType (o_conditions p) ReadyCondition \<noteq> None) ps) \<longleftrightarrow>
   (\<forall>p \<in> set ps. GetConditionByType (o_conditions p) ReadyCondition \<noteq> None \<longrightarrow> IsReadyTrue (o_conditions p))"
  for ps :: "plugin list"
proof (induction ps)
  case (Cons p ps)
  have "length (filter (\<lambda>p. IsReadyTrue (o_conditions p)) ps)
      \<le> length (filter (\<lambda>p. GetConditionByType (o_conditions p) ReadyCondition \<noteq> None) ps)"
    by (induction ps) (auto simp: IsReadyTrue_def split: option.splits)
  with Cons show ?case by (auto simp: IsReadyTrue_def split: option.splits)
qed simp


definition reports :: "plugin \<Rightarrow> bool" where
  "reports p \<longleftrightarrow> GetConditionByType (o_conditions p) ReadyCondition \<noteq> None"

lemma length_map_filter: "length (List.map_filter (\<lambda>x. map_option (f x) (g x)) xs) = length (filter (\<lambda>x. g x \<noteq> None) xs)"
  by (induction xs) (auto simp: List.map_filter_simps split: option.splits)

lemma reported_split:
  "length (filter reports ps) = length (filter (\<lambda>p. IsReadyTrue (o_conditions p)) ps)
     + length (filter (\<lambda>p. reports p \<and> \<not> IsReadyTrue (o_conditions p)) ps)"
  by (induction ps) (auto simp: reports_def IsReadyTrue_def split: option.splits)

text \<open>
  The plugin counts of a preset add up and are those of the managed plugins that report readiness;
  AllPluginsReady is True exactly when there is such a plugin and all of them are ready. A managed plugin
  that reports nothing yet is left out of all of this: it does not keep the preset from being ready.
\<close>

theorem preset_counts:
  assumes "preset_listPlugins env preset s = Inr ps" and "reconcilePluginStatuses now env preset s = (err, p')"
  shows "err = None \<and> preset_totalPlugins p' = preset_readyPlugins p' + preset_failedPlugins p'
    \<and> preset_totalPlugins p' = length (filter reports ps)
    \<and> preset_readyPlugins p' = length (filter (\<lambda>p. IsReadyTrue (o_conditions p)) ps)
    \<and> (shown_status (o_conditions p') AllPluginsReadyCondition = Some ConditionTrue \<longleftrightarrow>
         (\<exists>p \<in> set ps. reports p) \<and> (\<forall>p \<in> set ps. reports p \<longrightarrow> IsReadyTrue (o_conditions p)))"
proof -
  obtain sts ready failed where st: "plugin_statuses ps = (sts, ready, failed)" by (cases "plugin_statuses ps")
  have n: "length sts = length (filter reports ps)" "ready = length (filter (\<lambda>p. IsReadyTrue (o_conditions p)) ps)"
    "failed = length (filter (\<lambda>p. reports p \<and> \<not> IsReadyTrue (o_conditions p)) ps)"
    using st plugin_statuses_eq [of ps] by (auto simp: length_map_filter reports_def [abs_def])
  have all: "ready = length sts \<longleftrightarrow> (\<forall>p \<in> set ps. reports p \<longrightarrow> IsReadyTrue (o_conditions p))"
    using ready_of_reported [of ps] by (simp add: n reports_def [abs_def])
  have pos: "0 < length sts \<longleftrightarrow> (\<exists>p \<in> set ps. reports p)" by (auto simp: n filter_empty_conv)
  let ?c = "if length sts > 0 \<and> ready = length sts then TrueCondition now AllPluginsReadyCondition [] ''All plugins are ready''
            else FalseCondition now AllPluginsReadyCondition [] (Itoa ready @ '' of '' @ Itoa (length sts) @ '' plugins are ready'')"
  have p': "err = None" "p' = SetCondition now ?c (preset\<lparr>preset_pluginStatuses := sts, preset_totalPlugins := length sts,
      preset_readyPlugins := ready, preset_failedPlugins := failed\<rparr>)"
    using assms st by (simp_all add: reconcilePluginStatuses_def)
  have "preset_totalPlugins p' = length sts" "preset_readyPlugins p' = ready" "preset_failedPlugins p' = failed"
    by (simp_all add: p'(2) SetCondition_def)
  moreover have "shown_status (o_conditions p') AllPluginsReadyCondition = Some ConditionTrue
      \<longleftrightarrow> length sts > 0 \<and> ready = length sts"
    unfolding p'(2) shown_SetCondition by (simp add: condition_constructors)
  ultimately show ?thesis using p'(1) n reported_split [of ps] all pos by simp
qed

definition ready_plugin :: plugin where
  "ready_plugin = zero_plugin\<lparr>o_name := ''pp-c1'', o_namespace := ''org'', o_labels := [(LabelKeyPluginPreset, ''pp'')],
     o_conditions := [TrueCondition 3 ReadyCondition [] []]\<rparr>"

text \<open>One of two plugins is ready and the other has not been reconciled yet.\<close>

theorem preset_counts_witness:
  "shown_status (o_conditions (snd (reconcilePluginStatuses 5 (list_server []) sample_preset
     [ready_plugin, ready_plugin\<lparr>o_name := ''pp-c2'', o_conditions := []\<rparr>]))) AllPluginsReadyCondition = Some ConditionTrue"
proof -
  let ?p2 = "ready_plugin\<lparr>o_name := ''pp-c2'', o_conditions := []\<rparr>"
  have l: "preset_listPlugins (list_server []) sample_preset [ready_plugin, ?p2] = Inr [ready_plugin, ?p2]"
    by (simp add: preset_listPlugins_def list_server_def list_lookup_def ObjectKeyFromObject_def ready_plugin_def
        sample_preset_def smap_simps)
  have "reports ready_plugin" "IsReadyTrue (o_conditions ready_plugin)" "\<not> reports ?p2"
    by (simp_all add: reports_def ready_plugin_def IsReadyTrue_def IsTrue_def condition_constructors GetConditionByType_def)
  with preset_counts [OF l prod.collapse [symmetric], of 5] show ?thesis by simp
qed

section \<open>Deletion\<close>

text \<open>
  Unless the preset retains its plugins, its deletion is only reported as done in a state in which no
  plugin with its label is left, and the deletion then changes nothing; with plugins left it is pending.
\<close>

theorem preset_deletion_complete:
  assumes "reads_stored env lookup" and "preset_deletionPolicy preset \<noteq> DeletionPolicyRetain"
    and "preset_EnsureDeleted env preset s = ((r, res, err), preset', s')"
  shows "(res = Success \<longrightarrow> s' = s \<and> (\<forall>k p. lookup s' k = Some p \<and> o_namespace p = o_namespace preset \<longrightarrow>
            smap_get (o_labels p) LabelKeyPluginPreset \<noteq> Some (o_name preset)))
       \<and> (res = Pending \<longrightarrow> (\<exists>k p. lookup s k = Some p \<and> o_namespace p = o_namespace preset \<and>
            smap_get (o_labels p) LabelKeyPluginPreset = Some (o_name preset)))"
proof (cases "preset_listPlugins env preset s")
  case (Inl e)
  with assms show ?thesis by (auto simp: preset_EnsureDeleted_def)
next
  case (Inr ps)
  note listed = reads_storedD(4) [OF assms(1) Inr [unfolded preset_listPlugins_def]]
  show ?thesis
  proof (cases ps)
    case Nil
    with Inr assms(2,3) have "res = Success \<and> s' = s" by (auto simp: preset_EnsureDeleted_def)
    with Nil listed show ?thesis by auto
  next
    case (Cons p ps')
    with Inr assms(2,3) have "res = Pending"
      by (auto simp: preset_EnsureDeleted_def split: prod.splits if_splits)
    moreover from Cons listed have "p \<in> {p. (\<exists>k. lookup s k = Some p) \<and> o_namespace p = o_namespace preset
        \<and> smap_get (o_labels p) LabelKeyPluginPreset = Some (o_name preset)}" by (metis list.set_intros(1))
    ultimately show ?thesis by auto
  qed
qed

theorem preset_deletion_complete_witness:
  "preset_EnsureDeleted (list_server []) sample_preset [] = ((EmptyResult, Success, None), sample_preset, [])
   \<and> \<not> (\<exists>k p. list_lookup [] k = Some p \<and> o_namespace p = o_namespace sample_preset
         \<and> smap_get (o_labels p) LabelKeyPluginPreset = Some (o_name sample_preset))"
proof -
  have pol: "preset_deletionPolicy sample_preset \<noteq> DeletionPolicyRetain"
    by (simp add: sample_preset_def DeletionPolicyRetain_def)
  have gone: "preset_EnsureDeleted (list_server []) sample_preset [] = ((EmptyResult, Success, None), sample_preset, [])"
    using pol by (simp add: preset_EnsureDeleted_def preset_listPlugins_def list_server_def)
  from preset_deletion_complete [where lookup = list_lookup, OF list_server_laws(1) pol gone] gone show ?thesis by blast
qed

text \<open>
  The names of two plugins of different presets may coincide; the second preset then finds a plugin without
  its label and skips it.
\<close>

lemma plugin_names_collide: "buildPluginName ''a-b'' ''c'' = buildPluginName ''a'' ''b-c''"
  by (simp add: buildPluginName_def)

end
