(* ===== verification/Plugin_Tracking.thy ===== *)
theory Plugin_Tracking
  imports Plugin_Values
begin

text \<open>
  Option values that refer to other resources, and the tracking of such references in annotations
  (\<open>internal/controller/plugin/plugin_values_resolver.go\<close>). The referenced resources are unstructured
  objects: metadata, a kind and a body. The API server, \<open>retry.RetryOnConflict\<close> and the evaluation of CEL
  programs are parameters.
\<close>

section \<open>The environment\<close>

record tracked_object = object_meta +
  to_kind :: string
  to_body :: json

record 's tracking_env =
  tk_get :: "string \<Rightarrow> namespaced_name \<Rightarrow> 's \<Rightarrow> go_error + tracked_object"
  tk_update :: "tracked_object \<Rightarrow> 's \<Rightarrow> go_error option \<times> 's"
  tk_list :: "string \<Rightarrow> string \<Rightarrow> label_selector \<Rightarrow> 's \<Rightarrow> go_error + tracked_object list"
  tk_selector_error :: "label_selector \<Rightarrow> go_error option"
  tk_run_cel :: "string \<Rightarrow> tracked_object \<Rightarrow> go_error + json"
  tk_retry :: "('s \<Rightarrow> go_error option \<times> 's) \<Rightarrow> 's \<Rightarrow> go_error option \<times> 's"

definition LabelKeyPluginIntegration :: string where
  "LabelKeyPluginIntegration = ''greenhouse.sap/integration''"
definition LabelValuePluginIntegration :: string where "LabelValuePluginIntegration = ''true''"
definition AnnotationKeyPluginTackingID :: string where
  "AnnotationKeyPluginTackingID = ''greenhouse.sap/tracking-id''"

text \<open>\<open>cel.Evaluate\<close>: the library compiles and runs a program that is not empty.\<close>

definition cel_Evaluate :: "'s tracking_env \<Rightarrow> string \<Rightarrow> tracked_object \<Rightarrow> go_error + json" where
  "cel_Evaluate env expr obj =
     (if expr = [] then Inl (PlainError ''expression cannot be empty'') else tk_run_cel env expr obj)"

section \<open>Tracking IDs\<close>

definition trackingID :: "string \<Rightarrow> string \<Rightarrow> string" where
  "trackingID kind name = kind @ ''/'' @ name"

definition parseTrackingID :: "string \<Rightarrow> go_error + (string \<times> string)" where
  "parseTrackingID t =
     (case split_char (CHR ''/'') t of
        [kind, name] \<Rightarrow> Inr (kind, name)
      | _ \<Rightarrow> Inl (PlainError (''invalid tracking ID format: '' @ t)))"

definition trackingSeparator :: char where "trackingSeparator = CHR '';''"

definition addPluginIntegrationLabel :: "'a object_meta_scheme \<Rightarrow> 'a object_meta_scheme" where
  "addPluginIntegrationLabel obj =
     (if smap_get (o_labels obj) LabelKeyPluginIntegration = None
      then obj\<lparr>o_labels := smap_set LabelKeyPluginIntegration LabelValuePluginIntegration (o_labels obj)\<rparr>
      else obj)"

definition addTrackingAnnotation :: "'a object_meta_scheme \<Rightarrow> string \<Rightarrow> 'a object_meta_scheme" where
  "addTrackingAnnotation obj tracker =
     (let val = smap_val (o_annotations obj) AnnotationKeyPluginTackingID in
      if val = []
      then obj\<lparr>o_annotations := smap_set AnnotationKeyPluginTackingID tracker (o_annotations obj)\<rparr>
      else (let trackers = split_char trackingSeparator val in
            if tracker \<notin> set trackers
            then obj\<lparr>o_annotations := smap_set AnnotationKeyPluginTackingID
                       (Join (trackers @ [tracker]) [trackingSeparator]) (o_annotations obj)\<rparr>
            else obj))"

text \<open>
  The change \<open>removeTrackingAnnotation\<close> makes to an object; \<open>None\<close> when there is nothing to update.
\<close>

definition dropTracker :: "'a object_meta_scheme \<Rightarrow> string \<Rightarrow> 'a object_meta_scheme option" where
  "dropTracker obj tracker =
     (let val = smap_val (o_annotations obj) AnnotationKeyPluginTackingID in
      if val = [] then None
      else (let trackers = split_char trackingSeparator val;
                updated = filter (\<lambda>t. t \<noteq> tracker) trackers
            in if length updated = 0
               then Some (obj\<lparr>o_annotations := smap_del AnnotationKeyPluginTackingID (o_annotations obj)\<rparr>)
               else if length updated < length trackers
               then Some (obj\<lparr>o_annotations := smap_set AnnotationKeyPluginTackingID
                            (Join updated [trackingSeparator]) (o_annotations obj)\<rparr>)
               else None))"

definition getTrackerIDsFromAnnotations :: "'a object_meta_scheme \<Rightarrow> string list" where
  "getTrackerIDsFromAnnotations obj =
     (let val = smap_val (o_annotations obj) AnnotationKeyPluginTackingID in
      if val = [] then [] else split_char trackingSeparator val)"

definition findUntrackedObjects :: "string list \<Rightarrow> string list \<Rightarrow> string list" where
  "findUntrackedObjects previousTracked currentTracked = filter (\<lambda>x. x \<notin> set currentTracked) previousTracked"

section \<open>Updating the referenced objects\<close>

definition annotateObjectWithTracking ::
  "'s tracking_env \<Rightarrow> string \<Rightarrow> namespaced_name \<Rightarrow> string \<Rightarrow> 's \<Rightarrow> go_error option \<times> 's" where
  "annotateObjectWithTracking env kind key tracker s =
     tk_retry env
       (\<lambda>s. case tk_get env kind key s of
              Inl e \<Rightarrow> (Some e, s)
            | Inr obj \<Rightarrow> tk_update env (addTrackingAnnotation (addPluginIntegrationLabel obj) tracker) s) s"

definition removeTrackingAnnotation ::
  "'s tracking_env \<Rightarrow> string \<Rightarrow> string \<Rightarrow> string \<Rightarrow> 's \<Rightarrow> go_error option \<times> 's" where
  "removeTrackingAnnotation env namespace objectID tracker s =
     (case parseTrackingID objectID of
        Inl e \<Rightarrow> (Some e, s)
      | Inr (kind, name) \<Rightarrow>
          tk_retry env
            (\<lambda>s. case tk_get env kind \<lparr>nn_namespace = namespace, nn_name = name\<rparr> s of
                   Inl e \<Rightarrow> (if IsNotFound e then None else Some e, s)
                 | Inr obj \<Rightarrow>
                     (case dropTracker obj tracker of
                        None \<Rightarrow> (None, s)
                      | Some obj' \<Rightarrow> tk_update env obj' s)) s)"

fun remove_trackers ::
  "'s tracking_env \<Rightarrow> string \<Rightarrow> string \<Rightarrow> string list \<Rightarrow> 's \<Rightarrow> go_error list \<times> 's" where
  "remove_trackers env namespace tracker [] s = ([], s)"
| "remove_trackers env namespace tracker (objID # objIDs) s =
     (case removeTrackingAnnotation env namespace objID tracker s of
        (err, s1) \<Rightarrow>
          (case remove_trackers env namespace tracker objIDs s1 of
             (errs, s2) \<Rightarrow> (case err of None \<Rightarrow> errs | Some e \<Rightarrow> e # errs, s2)))"

text \<open>\<open>kind\<close> is the kind in the type metadata of the plugin that is reconciled.\<close>

definition removeUntrackedObjectAnnotations ::
  "'s tracking_env \<Rightarrow> string \<Rightarrow> plugin \<Rightarrow> string list \<Rightarrow> 's \<Rightarrow> go_error option \<times> 's" where
  "removeUntrackedObjectAnnotations env kind p currentTrackedObjects s =
     (if length (pl_trackedObjects p) = 0 then (None, s)
      else (let untracked = findUntrackedObjects (pl_trackedObjects p) currentTrackedObjects in
            if length untracked = 0 then (None, s)
            else (case remove_trackers env (o_namespace p) (trackingID kind (o_name p)) untracked s of
                    (errs, s1) \<Rightarrow> (NewAggregate errs, s1))))"

text \<open>
  \<open>updateResourceWithAnnotation\<close> asks for a reconciliation of a tracking resource; \<open>now\<close> is the formatted
  time.
\<close>

definition updateResourceWithAnnotation ::
  "'s tracking_env \<Rightarrow> string \<Rightarrow> string \<Rightarrow> namespaced_name \<Rightarrow> 's \<Rightarrow> go_error option \<times> 's" where
  "updateResourceWithAnnotation env now kind key s =
     tk_retry env
       (\<lambda>s. case tk_get env kind key s of
              Inl e \<Rightarrow> (Some e, s)
            | Inr obj \<Rightarrow>
                tk_update env (obj\<lparr>o_annotations := smap_set ReconcileAnnotation now (o_annotations obj)\<rparr>) s) s"

section \<open>Resolving values\<close>

text \<open>\<open>appendToSlice\<close>: a list is appended element by element.\<close>

definition appendToSlice :: "json list \<Rightarrow> json \<Rightarrow> json list" where
  "appendToSlice dst v = (case v of JArr vs \<Rightarrow> dst @ vs | _ \<Rightarrow> dst @ [v])"

fun processResourceList ::
  "'s tracking_env \<Rightarrow> tracked_object list \<Rightarrow> string \<Rightarrow> string \<Rightarrow> string \<Rightarrow> json list \<Rightarrow> string list \<Rightarrow> 's
     \<Rightarrow> (go_error + (json list \<times> string list)) \<times> 's" where
  "processResourceList env [] kind expr tracker values tracked s = (Inr (values, tracked), s)"
| "processResourceList env (item # items) kind expr tracker values tracked s =
     (if trackingID kind (o_name item) = tracker
      then processResourceList env items kind expr tracker values tracked s
      else case cel_Evaluate env expr item of
             Inl e \<Rightarrow> (Inl (WrapError (''failed to evaluate CEL expression from object '' @ o_namespace item @ ''/''
                          @ o_name item) e), s)
           | Inr v \<Rightarrow>
               (case annotateObjectWithTracking env kind (ObjectKeyFromObject item) tracker s of
                  (_, s1) \<Rightarrow>
                    processResourceList env items kind expr tracker (appendToSlice values v)
                      (tracked @ [trackingID kind (o_name item)]) s1))"

definition resolveMany ::
  "'s tracking_env \<Rightarrow> string \<Rightarrow> label_selector \<Rightarrow> string \<Rightarrow> string \<Rightarrow> string \<Rightarrow> 's
     \<Rightarrow> (go_error + (json list \<times> string list)) \<times> 's" where
  "resolveMany env kind selector namespace expr tracker s =
     (case tk_list env kind namespace selector s of
        Inl e \<Rightarrow> (Inl e, s)
      | Inr items \<Rightarrow> processResourceList env items kind expr tracker [] [] s)"

definition resolveBySelector ::
  "'s tracking_env \<Rightarrow> plugin \<Rightarrow> label_selector \<Rightarrow> string \<Rightarrow> string \<Rightarrow> string \<Rightarrow> 's
     \<Rightarrow> (go_error + (json list \<times> string list)) \<times> 's" where
  "resolveBySelector env p selector kind expr tracker s =
     (case tk_selector_error env selector of
        Some e \<Rightarrow> (Inl e, s)
      | None \<Rightarrow> resolveMany env kind selector (o_namespace p) expr tracker s)"

text \<open>\<open>resolveByName\<close>: the value is nil (\<open>None\<close>) when the object does not exist.\<close>

definition resolveByName ::
  "'s tracking_env \<Rightarrow> plugin \<Rightarrow> string \<Rightarrow> string \<Rightarrow> string \<Rightarrow> string \<Rightarrow> 's \<Rightarrow> (go_error + json option) \<times> 's" where
  "resolveByName env p name kind expr tracker s =
     (let key = \<lparr>nn_namespace = o_namespace p, nn_name = name\<rparr> in
      case tk_get env kind key s of
        Inl e \<Rightarrow> (if IsNotFound e then Inr None else Inl e, s)
      | Inr obj \<Rightarrow>
          (case cel_Evaluate env expr obj of
             Inl e \<Rightarrow> (Inl e, s)
           | Inr v \<Rightarrow> (Inr (Some v), snd (annotateObjectWithTracking env kind key tracker s))))"

text \<open>
  \<open>resolveValueFromRef\<close> on an option with a reference. The value found by the selector replaces one found by
  name; it is a slice that is never nil as an interface, and an empty slice that was never appended to is
  printed as \<open>null\<close>. \<open>json.Marshal\<close> does not fail on the values CEL returns.
\<close>

definition selector_value :: "json list \<Rightarrow> json" where
  "selector_value vs = (if vs = [] then JNull else JArr vs)"

definition resolveValueFromRef ::
  "'s tracking_env \<Rightarrow> plugin \<Rightarrow> string \<Rightarrow> external_value_source \<Rightarrow> string \<Rightarrow> string \<Rightarrow> 's
     \<Rightarrow> (go_error + (plugin_option_value option \<times> string list)) \<times> 's" where
  "resolveValueFromRef env p optName ref defaultKind tracker s =
     (let kind = (if ev_kind ref \<noteq> [] then ev_kind ref else defaultKind);
          finish = (\<lambda>v. map_option (\<lambda>j. plain_value optName (Some (print_json j))) v);
          by_selector = (\<lambda>v tracked s.
             case ev_selector ref of
               None \<Rightarrow> (Inr (finish v, tracked), s)
             | Some selector \<Rightarrow>
                 (case resolveBySelector env p selector kind (ev_expression ref) tracker s of
                    (Inl e, s1) \<Rightarrow> (Inl e, s1)
                  | (Inr (vs, others), s1) \<Rightarrow> (Inr (finish (Some (selector_value vs)), tracked @ others), s1)))
      in if ev_name ref \<noteq> []
         then (case resolveByName env p (ev_name ref) kind (ev_expression ref) tracker s of
                 (Inl e, s1) \<Rightarrow> (Inl e, s1)
               | (Inr v, s1) \<Rightarrow> by_selector v [trackingID kind (ev_name ref)] s1)
         else by_selector None [] s)"

definition ResolveValueFromRef ::
  "'s tracking_env \<Rightarrow> string \<Rightarrow> plugin \<Rightarrow> string \<Rightarrow> external_value_source \<Rightarrow> 's
     \<Rightarrow> (go_error + (plugin_option_value option \<times> string list)) \<times> 's" where
  "ResolveValueFromRef env kind p optName ref s =
     resolveValueFromRef env p optName ref kind (trackingID kind (o_name p)) s"

section \<open>Tracker annotations as sets\<close>

text \<open>
  What the annotation stands for: the set of trackers in it. A well-formed annotation lists each tracker
  once and none is empty; a tracker contains no separator.
\<close>

definition tracker_ok :: "string \<Rightarrow> bool" where
  "tracker_ok t \<longleftrightarrow> t \<noteq> [] \<and> trackingSeparator \<notin> set t"

definition tracking_ok :: "'a object_meta_scheme \<Rightarrow> bool" where
  "tracking_ok obj \<longleftrightarrow>
     (let ts = getTrackerIDsFromAnnotations obj in distinct ts \<and> list_all (\<lambda>t. t \<noteq> []) ts)"

definition trackers :: "'a object_meta_scheme \<Rightarrow> string set" where
  "trackers obj = set (getTrackerIDsFromAnnotations obj)"

definition remove_tracker :: "'a object_meta_scheme \<Rightarrow> string \<Rightarrow> 'a object_meta_scheme" where
  "remove_tracker obj t = (case dropTracker obj t of None \<Rightarrow> obj | Some obj' \<Rightarrow> obj')"

text \<open>The interface of a set of trackers kept in an object.\<close>

locale tracker_set =
  fixes elems :: "'o \<Rightarrow> 'k set"
    and add :: "'o \<Rightarrow> 'k \<Rightarrow> 'o"
    and remove :: "'o \<Rightarrow> 'k \<Rightarrow> 'o"
    and ok :: "'k \<Rightarrow> bool"
    and invar :: "'o \<Rightarrow> bool"
  assumes elems_add: "invar x \<Longrightarrow> ok t \<Longrightarrow> elems (add x t) = insert t (elems x)"
    and invar_add: "invar x \<Longrightarrow> ok t \<Longrightarrow> invar (add x t)"
    and elems_remove: "invar x \<Longrightarrow> elems (remove x t) = elems x - {t}"
    and invar_remove: "invar x \<Longrightarrow> invar (remove x t)"
begin

text \<open>A sequence of additions and removals does to the set what it says.\<close>

lemma run_invar:
  "list_all (\<lambda>(b, t). ok t) ops \<Longrightarrow> invar x \<Longrightarrow> invar (fold (\<lambda>(b, t) x. if b then add x t else remove x t) ops x)"
  by (induction ops arbitrary: x) (auto simp: invar_add invar_remove split: prod.splits)

lemma run_elems:
  "list_all (\<lambda>(b, t). ok t) ops \<Longrightarrow> invar x \<Longrightarrow>
     elems (fold (\<lambda>(b, t) x. if b then add x t else remove x t) ops x)
       = fold (\<lambda>(b, t) S. if b then insert t S else S - {t}) ops (elems x)"
  by (induction ops arbitrary: x) (auto simp: elems_add elems_remove invar_add invar_remove split: prod.splits)

end

lemma split_char_Join:
  "ts \<noteq> [] \<Longrightarrow> \<forall>t \<in> set ts. c \<notin> set t \<Longrightarrow> split_char c (Join ts [c]) = ts"
proof (induction ts rule: induct_list012)
  case (3 x y zs)
  then show ?case by (simp add: split_char_append_sep split_char_no_sep)
qed (simp_all add: split_char_no_sep)

lemma split_char_parts: "t \<in> set (split_char c s) \<Longrightarrow> c \<notin> set t"
  by (induction s arbitrary: t) (auto split: list.splits if_splits)

lemma split_char_Nil_iff: "[] \<notin> set (split_char c s) \<Longrightarrow> s \<noteq> []"
  by auto

lemma Join_Nil_iff: "list_all (\<lambda>t. t \<noteq> []) ts \<Longrightarrow> Join ts sep = [] \<longleftrightarrow> ts = []"
  by (induction ts sep rule: Join.induct) auto

lemma smap_val_set: "smap_val (smap_set k v m) k = v"
  by (simp add: smap_val_get sm.get_upd)

lemma ids_set:
  assumes "list_all (\<lambda>t. tracker_ok t) ts"
  shows "getTrackerIDsFromAnnotations
      (obj\<lparr>o_annotations := smap_set AnnotationKeyPluginTackingID (Join ts [trackingSeparator]) (o_annotations obj)\<rparr>) = ts"
proof (cases "ts = []")
  case True
  then show ?thesis by (simp add: getTrackerIDsFromAnnotations_def smap_val_set)
next
  case False
  then have "Join ts [trackingSeparator] \<noteq> []"
    using Join_Nil_iff [of ts "[trackingSeparator]"] assms by (auto simp: list_all_iff tracker_ok_def)
  moreover have "split_char trackingSeparator (Join ts [trackingSeparator]) = ts"
    using split_char_Join [OF False, of trackingSeparator] assms by (simp add: list_all_iff tracker_ok_def)
  ultimately show ?thesis by (simp add: getTrackerIDsFromAnnotations_def smap_val_set)
qed

lemma ids_no_separator: "t \<in> set (getTrackerIDsFromAnnotations obj) \<Longrightarrow> trackingSeparator \<notin> set t"
  by (simp add: getTrackerIDsFromAnnotations_def Let_def split_char_parts split: if_splits)

lemma ids_ok: "tracking_ok obj \<Longrightarrow> list_all tracker_ok (getTrackerIDsFromAnnotations obj)"
  using ids_no_separator [of _ obj] by (simp add: tracking_ok_def list_all_iff tracker_ok_def Let_def)

lemma ids_add:
  assumes "tracking_ok obj" "tracker_ok t"
  shows "getTrackerIDsFromAnnotations (addTrackingAnnotation obj t) =
     (if t \<in> trackers obj then getTrackerIDsFromAnnotations obj else getTrackerIDsFromAnnotations obj @ [t])"
proof (cases "smap_val (o_annotations obj) AnnotationKeyPluginTackingID = []")
  case True
  with assms(2) ids_set [of "[t]" obj] show ?thesis
    by (simp add: addTrackingAnnotation_def trackers_def getTrackerIDsFromAnnotations_def)
next
  case False
  let ?ts = "split_char trackingSeparator (smap_val (o_annotations obj) AnnotationKeyPluginTackingID)"
  have ids: "getTrackerIDsFromAnnotations obj = ?ts" using False by (simp add: getTrackerIDsFromAnnotations_def)
  have "list_all tracker_ok (?ts @ [t])" using ids_ok [OF assms(1)] assms(2) ids by simp
  from ids_set [OF this, of obj] show ?thesis
    using False ids by (auto simp: addTrackingAnnotation_def trackers_def Let_def)
qed

lemma ids_remove:
  assumes "tracking_ok obj"
  shows "getTrackerIDsFromAnnotations (remove_tracker obj t) = filter (\<lambda>u. u \<noteq> t) (getTrackerIDsFromAnnotations obj)"
proof (cases "smap_val (o_annotations obj) AnnotationKeyPluginTackingID = []")
  case True
  then show ?thesis by (simp add: remove_tracker_def dropTracker_def getTrackerIDsFromAnnotations_def)
next
  case False
  let ?ts = "split_char trackingSeparator (smap_val (o_annotations obj) AnnotationKeyPluginTackingID)"
  let ?us = "filter (\<lambda>u. u \<noteq> t) ?ts"
  have ids: "getTrackerIDsFromAnnotations obj = ?ts" using False by (simp add: getTrackerIDsFromAnnotations_def)
  have ok: "list_all tracker_ok ?us" using ids_ok [OF assms] ids by (auto simp: list_all_iff)
  have del: "getTrackerIDsFromAnnotations (obj\<lparr>o_annotations := smap_del AnnotationKeyPluginTackingID (o_annotations obj)\<rparr>) = []"
    by (simp add: getTrackerIDsFromAnnotations_def smap_simps)
  consider "?us = []" | "?us \<noteq> []" "length ?us < length ?ts" | "?us \<noteq> []" "\<not> length ?us < length ?ts" by blast
  then show ?thesis
  proof cases
    case 1
    with del False ids show ?thesis by (simp add: remove_tracker_def dropTracker_def Let_def)
  next
    case 2
    with ids_set [OF ok, of obj] False ids show ?thesis by (simp add: remove_tracker_def dropTracker_def Let_def)
  next
    case 3
    then have "?us = ?ts" by (metis filter_id_conv length_filter_less)
    with 3 False ids show ?thesis by (simp add: remove_tracker_def dropTracker_def Let_def)
  qed
qed

interpretation an: tracker_set trackers addTrackingAnnotation remove_tracker tracker_ok tracking_ok
proof (unfold_locales, goal_cases)
  case (1 x t)
  then show ?case by (simp add: trackers_def ids_add insert_absorb)
next
  case (2 x t)
  then show ?case by (auto simp: tracking_ok_def ids_add trackers_def Let_def tracker_ok_def)
next
  case (3 x t)
  then show ?case by (auto simp: trackers_def ids_remove)
next
  case (4 x t)
  then show ?case by (auto simp: tracking_ok_def ids_remove Let_def list_all_iff)
qed

text \<open>
  C38. The tracking annotation refines a set of trackers: whatever trackers are added to and removed from
  an object, the annotation lists exactly the trackers of the set that results, each once.
\<close>

theorem tracking_refines_set:
  assumes "tracking_ok obj" and "list_all (\<lambda>(b, t). tracker_ok t) ops"
  defines "obj' \<equiv> fold (\<lambda>(b, t) x. if b then addTrackingAnnotation x t else remove_tracker x t) ops obj"
  shows "set (getTrackerIDsFromAnnotations obj') =
      fold (\<lambda>(b, t) S. if b then insert t S else S - {t}) ops (set (getTrackerIDsFromAnnotations obj))
    \<and> distinct (getTrackerIDsFromAnnotations obj')"
  using an.run_elems [OF assms(2,1)] an.run_invar [OF assms(2,1)]
  unfolding obj'_def trackers_def tracking_ok_def Let_def by blast

definition sample_ops :: "(bool \<times> string) list" where
  "sample_ops = [(True, ''Plugin/a''), (True, ''Plugin/b''), (True, ''Plugin/a''), (False, ''Plugin/b'')]"

theorem tracking_refines_set_witness:
  "set (getTrackerIDsFromAnnotations (fold (\<lambda>(b, t) x. if b then addTrackingAnnotation x t else remove_tracker x t)
     sample_ops (sample_meta ''o''))) = {''Plugin/a''}"
proof -
  have none: "getTrackerIDsFromAnnotations (sample_meta ''o'') = []"
    by (simp add: getTrackerIDsFromAnnotations_def sample_meta_def smap_simps)
  then have "tracking_ok (sample_meta ''o'')" by (simp add: tracking_ok_def)
  moreover have "list_all (\<lambda>(b, t). tracker_ok t) sample_ops"
    by (simp add: tracker_ok_def trackingSeparator_def sample_ops_def)
  ultimately have "set (getTrackerIDsFromAnnotations
        (fold (\<lambda>(b, t) x. if b then addTrackingAnnotation x t else remove_tracker x t) sample_ops (sample_meta ''o'')))
      = fold (\<lambda>(b, t) S. if b then insert t S else S - {t}) sample_ops {}"
    using tracking_refines_set [of "sample_meta ''o''" sample_ops] none by simp
  then show ?thesis by (auto simp: sample_ops_def)
qed

lemma parse_trackingID:
  "CHR ''/'' \<notin> set kind \<Longrightarrow> CHR ''/'' \<notin> set name \<Longrightarrow> parseTrackingID (trackingID kind name) = Inr (kind, name)"
  by (simp add: parseTrackingID_def trackingID_def split_char_append_sep split_char_no_sep)

lemma trackingID_ok: "trackingSeparator \<notin> set kind \<Longrightarrow> trackingSeparator \<notin> set name \<Longrightarrow> tracker_ok (trackingID kind name)"
  by (simp add: tracker_ok_def trackingID_def trackingSeparator_def)


section \<open>What is recorded on the server\<close>

fun IsConflict :: "go_error \<Rightarrow> bool" where
  "IsConflict (ApiError r _ _) = (r = ReasonConflict)"
| "IsConflict (WrapError _ e) = IsConflict e"
| "IsConflict _ = False"

text \<open>
  \<open>retry.RetryOnConflict\<close> runs the function, again after a conflict, and returns the outcome of the last run.
\<close>

inductive retried :: "('s \<Rightarrow> go_error option \<times> 's) \<Rightarrow> 's \<Rightarrow> go_error option \<times> 's \<Rightarrow> bool" for f where
  last: "retried f s (f s)"
| again: "f s = (Some e, s1) \<Longrightarrow> IsConflict e \<Longrightarrow> retried f s1 r \<Longrightarrow> retried f s r"

inductive_cases retriedE: "retried f s r"

text \<open>
  What the tracking relies on: a read gives the object asked for, a successful update is read back, and
  annotations are well formed.
\<close>

definition tracking_api :: "'s tracking_env \<Rightarrow> bool" where
  "tracking_api env \<longleftrightarrow>
     (\<forall>f s. retried f s (tk_retry env f s))
     \<and> (\<forall>kind key s obj. tk_get env kind key s = Inr obj \<longrightarrow>
          to_kind obj = kind \<and> ObjectKeyFromObject obj = key \<and> tracking_ok obj)
     \<and> (\<forall>obj s s'. tk_update env obj s = (None, s') \<longrightarrow> tk_get env (to_kind obj) (ObjectKeyFromObject obj) s' = Inr obj)"

lemma tracking_apiD:
  assumes "tracking_api env"
  shows "retried f s (tk_retry env f s)"
    and "tk_get env kind key s = Inr obj \<Longrightarrow> to_kind obj = kind"
    and "tk_get env kind key s = Inr obj \<Longrightarrow> ObjectKeyFromObject obj = key"
    and "tk_get env kind key s = Inr obj \<Longrightarrow> tracking_ok obj"
    and "tk_update env obj s = (None, s') \<Longrightarrow> tk_get env (to_kind obj) (ObjectKeyFromObject obj) s' = Inr obj"
  using assms by (simp_all add: tracking_api_def)

lemma retried_outcome:
  assumes "retried f s r"
  shows "\<exists>s0. r = f s0"
  using assms by induction auto

lemma key_addTracking [simp]:
  "ObjectKeyFromObject (addTrackingAnnotation obj t) = ObjectKeyFromObject obj"
  "ObjectKeyFromObject (addPluginIntegrationLabel obj) = ObjectKeyFromObject obj"
  "to_kind (addTrackingAnnotation (obj' :: tracked_object) t) = to_kind obj'"
  "to_kind (addPluginIntegrationLabel (obj' :: tracked_object)) = to_kind obj'"
  by (simp_all add: addTrackingAnnotation_def addPluginIntegrationLabel_def ObjectKeyFromObject_def Let_def)

lemma ids_label [simp]:
  "getTrackerIDsFromAnnotations (addPluginIntegrationLabel obj) = getTrackerIDsFromAnnotations obj"
  by (simp add: addPluginIntegrationLabel_def getTrackerIDsFromAnnotations_def)

lemma dropTracker_key:
  "dropTracker (obj :: tracked_object) t = Some obj' \<Longrightarrow> ObjectKeyFromObject obj' = ObjectKeyFromObject obj \<and> to_kind obj' = to_kind obj"
  by (auto simp: dropTracker_def ObjectKeyFromObject_def Let_def split: if_splits)

lemma dropTracker_trackers:
  assumes "tracking_ok obj"
  shows "trackers (case dropTracker obj t of None \<Rightarrow> obj | Some obj' \<Rightarrow> obj') = trackers obj - {t}"
  using an.elems_remove [OF assms, of t] by (simp add: remove_tracker_def)

lemma annotate_records:
  assumes api: "tracking_api env" and t: "tracker_ok t"
    and run: "annotateObjectWithTracking env kind key t s = (None, s')"
  shows "\<exists>obj. tk_get env kind key s' = Inr obj \<and> t \<in> trackers obj \<and> smap_get (o_labels obj) LabelKeyPluginIntegration \<noteq> None"
proof -
  let ?f = "\<lambda>s. case tk_get env kind key s of Inl e \<Rightarrow> (Some e, s)
            | Inr obj \<Rightarrow> tk_update env (addTrackingAnnotation (addPluginIntegrationLabel obj) t) s"
  have "retried ?f s (None, s')"
    using tracking_apiD(1) [OF api, of ?f s] run unfolding annotateObjectWithTracking_def by simp
  then obtain s0 where "?f s0 = (None, s')" using retried_outcome by fastforce
  then obtain obj where g: "tk_get env kind key s0 = Inr obj"
    and u: "tk_update env (addTrackingAnnotation (addPluginIntegrationLabel obj) t) s0 = (None, s')"
    by (auto split: sum.splits)
  note o = tracking_apiD(2-4) [OF api g]
  let ?new = "addTrackingAnnotation (addPluginIntegrationLabel obj) t"
  have "tk_get env kind key s' = Inr ?new"
    using tracking_apiD(5) [OF api u] o(1,2) by simp
  moreover have "tracking_ok (addPluginIntegrationLabel obj)" using o(3) by (simp add: tracking_ok_def)
  then have "t \<in> trackers ?new" using an.elems_add t by blast
  moreover have "smap_get (o_labels ?new) LabelKeyPluginIntegration \<noteq> None"
    by (simp add: addTrackingAnnotation_def addPluginIntegrationLabel_def Let_def smap_simps)
  ultimately show ?thesis by blast
qed

lemma remove_records:
  assumes api: "tracking_api env" and parse: "parseTrackingID objID = Inr (kind, name)"
    and run: "removeTrackingAnnotation env ns objID t s = (None, s')"
  shows "case tk_get env kind \<lparr>nn_namespace = ns, nn_name = name\<rparr> s' of
      Inl e \<Rightarrow> IsNotFound e | Inr obj \<Rightarrow> t \<notin> trackers obj"
proof -
  let ?key = "\<lparr>nn_namespace = ns, nn_name = name\<rparr>"
  let ?f = "\<lambda>s. case tk_get env kind ?key s of Inl e \<Rightarrow> (if IsNotFound e then None else Some e, s)
     | Inr obj \<Rightarrow> (case dropTracker obj t of None \<Rightarrow> (None, s) | Some obj' \<Rightarrow> tk_update env obj' s)"
  have "retried ?f s (None, s')"
    using tracking_apiD(1) [OF api, of ?f s] run parse unfolding removeTrackingAnnotation_def by simp
  then obtain s0 where f: "?f s0 = (None, s')" using retried_outcome by fastforce
  show ?thesis
  proof (cases "tk_get env kind ?key s0")
    case (Inl e)
    with f show ?thesis by (auto split: if_splits)
  next
    case (Inr obj)
    note o = tracking_apiD(2-4) [OF api Inr]
    note drop = dropTracker_trackers [OF o(3), of t]
    show ?thesis
    proof (cases "dropTracker obj t")
      case None
      with f Inr drop show ?thesis by auto
    next
      case (Some obj')
      with f Inr have "tk_update env obj' s0 = (None, s')" by simp
      from tracking_apiD(5) [OF api this] o dropTracker_key [OF Some] have "tk_get env kind ?key s' = Inr obj'" by simp
      with Some drop show ?thesis by auto
    qed
  qed
qed

end
