(* ===== verification/Flux_Utils.thy ===== *)
theory Flux_Utils
  imports Kube_Objects
begin

text \<open>
  Helpers around Flux sources (\<open>internal/flux/utils.go\<close>): the kind and the name of the source of a chart, and
  the registry of a local set-up. The value of the environment variable \<open>LOCAL_REGISTRY\<close> is the parameter
  \<open>localRegistry\<close>, \<open>None\<close> when it is not set.
\<close>

definition HelmRepositoryTypeOCI :: string where "HelmRepositoryTypeOCI = ''oci''"
definition HelmRepositoryTypeDefault :: string where "HelmRepositoryTypeDefault = ''default''"

definition GetSourceRepositoryType :: "string \<Rightarrow> string" where
  "GetSourceRepositoryType repositoryURL =
     (if HasPrefix repositoryURL ''oci://'' then HelmRepositoryTypeOCI else HelmRepositoryTypeDefault)"

text \<open>The loop over the prefixes: the rest after the first that fits, and the empty string if none does.\<close>

definition cut_scheme :: "string \<Rightarrow> string" where
  "cut_scheme url =
     (case find (HasPrefix url) [''oci://'', ''https://'', ''http://''] of
        None \<Rightarrow> []
      | Some p \<Rightarrow> drop (length p) url)"

definition ChartURLToName :: "string \<Rightarrow> string" where
  "ChartURLToName repositoryURL =
     replace_char (CHR '':'') (CHR ''-'') (replace_char (CHR ''/'') (CHR ''-'') (replace_char (CHR ''.'') (CHR ''-'')
       (TrimSuffix (cut_scheme repositoryURL) ''/'')))"

definition FindHelmRepositoryByURL ::
  "(namespaced_name \<Rightarrow> go_error + 'r) \<Rightarrow> string \<Rightarrow> string \<Rightarrow> go_error + 'r" where
  "FindHelmRepositoryByURL get url namespace =
     get \<lparr>nn_namespace = namespace, nn_name = ChartURLToName url\<rparr>"

definition CheckIfLocalRegistry :: "string option \<Rightarrow> string \<Rightarrow> bool" where
  "CheckIfLocalRegistry localRegistry url = (case localRegistry of None \<Rightarrow> False | Some reg \<Rightarrow> Contains url reg)"

section \<open>The name of a repository\<close>

text \<open>A name is free of the characters Kubernetes does not allow in it, except for what is not replaced.\<close>

lemma replace_char_keeps_out: "x \<notin> set s \<Longrightarrow> x \<noteq> d \<Longrightarrow> x \<notin> set (replace_char c d s)"
  by (auto simp: replace_char_def)

lemma ChartURLToName_chars: "{CHR ''.'', CHR ''/'', CHR '':''} \<inter> set (ChartURLToName url) = {}"
  by (simp add: ChartURLToName_def replace_char_notin replace_char_keeps_out)

text \<open>
  Repositories at different addresses get the same name when they differ in the scheme, a trailing slash, or
  in one of the replaced characters, and every address without a known scheme gets the empty name.
\<close>

lemma ChartURLToName_collision:
  "ChartURLToName ''oci://ghcr.io/a-b/c'' = ChartURLToName ''https://ghcr.io/a/b-c''"
  by code_simp

lemma cut_scheme_none:
  "\<lbrakk>\<not> HasPrefix url ''oci://''; \<not> HasPrefix url ''https://''; \<not> HasPrefix url ''http://''\<rbrakk> \<Longrightarrow> ChartURLToName url = []"
  by (simp add: ChartURLToName_def cut_scheme_def replace_char_def TrimSuffix_def)

end
