(* ===== verification/Oci_Mirror.thy ===== *)
theory Oci_Mirror
  imports Plugin_Values Flux_Utils
begin

text \<open>
  Mirroring of container images (\<open>internal/ocimirror\<close>): the configuration of an organization, the image
  references of rendered manifests, their rewriting to a mirror, and the replication that warms the mirror.
  The parser for image references (\<open>name.ParseReference\<close>), YAML decoding and the fetching of manifests from
  a registry are parameters.
\<close>

section \<open>References\<close>

text \<open>What \<open>name.ParseReference\<close> returns: registry, repository, and a tag or a digest.\<close>

datatype oci_identifier = Tag string | Digest string

record oci_reference =
  oci_registry :: string
  oci_repository :: string
  oci_identifier :: oci_identifier

type_synonym parse_reference = "string \<Rightarrow> oci_reference option"

definition DefaultRegistry :: string where "DefaultRegistry = ''index.docker.io''"

definition SplitOCIRef :: "parse_reference \<Rightarrow> string \<Rightarrow> string \<times> string \<times> string" where
  "SplitOCIRef parse imageRef =
     (case parse imageRef of
        None \<Rightarrow> (''docker.io'', imageRef, [])
      | Some ref \<Rightarrow>
          (if oci_registry ref = DefaultRegistry then ''docker.io'' else oci_registry ref, oci_repository ref,
           case oci_identifier ref of Tag t \<Rightarrow> '':'' @ t | Digest d \<Rightarrow> ''@'' @ d))"

text \<open>
  A line matched by \<open>imageFieldPattern\<close>: white space and dashes, \<open>image:\<close>, blanks, and one word that may be
  between quotes; the match is the word. White space inside a line is blank, tab, form feed or carriage
  return. The pattern can reach over the lines before and after only where these are blank, so the matches
  in a text are those of its lines.
\<close>

definition line_space :: "char \<Rightarrow> bool" where
  "line_space c \<longleftrightarrow> c \<in> {CHR '' '', CHR 0x09, CHR 0x0C, CHR 0x0D}"

definition is_quote :: "char \<Rightarrow> bool" where
  "is_quote c \<longleftrightarrow> c \<in> {CHR 0x22, CHR 0x27}"

definition drop_quote :: "string \<Rightarrow> string" where
  "drop_quote s = (case s of c # r \<Rightarrow> if is_quote c then r else s | [] \<Rightarrow> s)"

definition image_field :: "string \<Rightarrow> string option" where
  "image_field line =
     (let rest = dropWhile (\<lambda>c. line_space c \<or> c = CHR ''-'') line in
      if \<not> prefix ''image:'' rest then None
      else (let blanks = drop 6 rest;
                ref = drop_quote (dropWhile (\<lambda>c. c = CHR '' '' \<or> c = CHR 0x09) blanks);
                word = takeWhile (\<lambda>c. \<not> line_space c \<and> \<not> is_quote c) ref;
                after = drop_quote (dropWhile (\<lambda>c. \<not> line_space c \<and> \<not> is_quote c) ref)
            in if (case blanks of c # _ \<Rightarrow> c = CHR '' '' \<or> c = CHR 0x09 | [] \<Rightarrow> False) \<and> word \<noteq> []
                  \<and> list_all line_space after
               then Some word else None))"

definition ExtractUniqueOCIRefs :: "string \<Rightarrow> string list" where
  "ExtractUniqueOCIRefs manifests = sort (remdups (List.map_filter image_field (split_char (CHR 0x0A) manifests)))"

section \<open>Configuration\<close>

record registry_mirror =
  rm_baseDomain :: string
  rm_subPath :: string

record registry_mirror_config =
  rmc_primaryMirror :: string
  rmc_registryMirrors :: "registry_mirror smap"
  rmc_secretName :: string

definition registryMirrorConfigKey :: string where "registryMirrorConfigKey = ''containerRegistryConfig''"

fun validate_mirrors :: "registry_mirror smap \<Rightarrow> go_error option" where
  "validate_mirrors [] = None"
| "validate_mirrors ((registry, mirror) # ms) =
     (if registry = [] then Some (PlainError ''registry name cannot be empty'')
      else if rm_baseDomain mirror = [] then Some (PlainError (''baseDomain cannot be empty for registry '' @ registry))
      else if rm_subPath mirror = [] then Some (PlainError (''subPath cannot be empty for registry '' @ registry))
      else validate_mirrors ms)"

definition validateRegistryMirrorConfig :: "registry_mirror_config \<Rightarrow> go_error option" where
  "validateRegistryMirrorConfig cfg =
     (if rmc_primaryMirror cfg = [] then Some (PlainError ''primaryMirror cannot be empty'')
      else if length (rmc_registryMirrors cfg) = 0 then Some (PlainError ''registryMirrors cannot be empty'')
      else validate_mirrors (rmc_registryMirrors cfg))"

definition GetRegistryMirrorConfig ::
  "(string \<Rightarrow> go_error + organization) \<Rightarrow> (namespaced_name \<Rightarrow> go_error + string smap)
     \<Rightarrow> (string \<Rightarrow> go_error + registry_mirror_config) \<Rightarrow> string \<Rightarrow> go_error + registry_mirror_config option" where
  "GetRegistryMirrorConfig get_org get_configMap unmarshal orgName =
     (case get_org orgName of
        Inl e \<Rightarrow>
          Inl (if IsNotFound e then PlainError (''organization '' @ orgName @ '' not found'')
               else WrapError (''failed to get organization '' @ orgName) e)
      | Inr org \<Rightarrow>
          if org_configMapRef org = [] then Inr None
          else (case get_configMap \<lparr>nn_namespace = orgName, nn_name = org_configMapRef org\<rparr> of
                  Inl e \<Rightarrow>
                    Inl (if IsNotFound e
                         then PlainError (''organization ConfigMap '' @ org_configMapRef org
                                @ '' not found in namespace '' @ orgName)
                         else WrapError (''failed to get organization ConfigMap '' @ org_configMapRef org) e)
                | Inr dat \<Rightarrow>
                    (case smap_get dat registryMirrorConfigKey of
                       None \<Rightarrow> Inr None
                     | Some txt \<Rightarrow>
                         (case unmarshal txt of
                            Inl e \<Rightarrow> Inl (WrapError ''failed to parse registry mirror configuration'' e)
                          | Inr cfg \<Rightarrow>
                              (case validateRegistryMirrorConfig cfg of
                                 Some e \<Rightarrow> Inl (WrapError ''invalid registry mirror configuration'' e)
                               | None \<Rightarrow> Inr (Some cfg))))))"

record resolved_oci_ref =
  ro_registry :: string
  ro_mirror :: registry_mirror
  ro_repository :: string
  ro_tagOrDigest :: string

definition ResolveOCIRef ::
  "parse_reference \<Rightarrow> registry_mirror_config option \<Rightarrow> string \<Rightarrow> resolved_oci_ref option" where
  "ResolveOCIRef parse c imageRef =
     (case c of
        None \<Rightarrow> None
      | Some cfg \<Rightarrow>
          (case SplitOCIRef parse imageRef of
             (registry, repo, tagOrDigest) \<Rightarrow>
               (case smap_get (rmc_registryMirrors cfg) registry of
                  None \<Rightarrow> None
                | Some mirror \<Rightarrow>
                    Some \<lparr>ro_registry = registry, ro_mirror = mirror, ro_repository = repo, ro_tagOrDigest = tagOrDigest\<rparr>)))"

section \<open>The image mirror\<close>

text \<open>Credentials for the registry: none, or user name and password.\<close>

datatype registry_auth = Anonymous | Basic string string

definition getAuthFromSecret ::
  "(namespaced_name \<Rightarrow> go_error + secret) \<Rightarrow> string \<Rightarrow> string \<Rightarrow> go_error + registry_auth" where
  "getAuthFromSecret get_secret secretName namespace =
     (case get_secret \<lparr>nn_namespace = namespace, nn_name = secretName\<rparr> of
        Inl e \<Rightarrow> Inl (WrapError (''failed to get secret '' @ namespace @ ''/'' @ secretName) e)
      | Inr sec \<Rightarrow>
          (let username = smap_val (secret_data sec) ''username''; password = smap_val (secret_data sec) ''password''
           in if username = [] \<or> password = []
              then Inl (PlainError (''secret '' @ namespace @ ''/'' @ secretName @ '' missing username or password''))
              else Inr (Basic username password)))"

text \<open>
  The fetcher of manifests gets the credentials and whether the registry may be insecure; the last field is
  the environment of the process.
\<close>

record 'm image_mirror =
  im_config :: registry_mirror_config
  im_auth :: registry_auth
  im_manifestFetcher :: "registry_auth \<Rightarrow> bool \<Rightarrow> string \<Rightarrow> go_error + 'm"
  im_localRegistry :: "string option"

definition NewImageMirror ::
  "(registry_auth \<Rightarrow> bool \<Rightarrow> string \<Rightarrow> go_error + 'm) \<Rightarrow> string option \<Rightarrow> (namespaced_name \<Rightarrow> go_error + secret) \<Rightarrow> registry_mirror_config
     \<Rightarrow> string \<Rightarrow> go_error + 'm image_mirror" where
  "NewImageMirror fetch localRegistry get_secret cfg namespace =
     (if rmc_secretName cfg \<noteq> []
      then (case getAuthFromSecret get_secret (rmc_secretName cfg) namespace of
              Inl e \<Rightarrow> Inl (WrapError (''failed to read registry mirror credentials from secret '' @ namespace @ ''/''
                            @ rmc_secretName cfg) e)
            | Inr a \<Rightarrow> Inr \<lparr>im_config = cfg, im_auth = a, im_manifestFetcher = fetch,
                im_localRegistry = localRegistry\<rparr>)
      else Inr \<lparr>im_config = cfg, im_auth = Anonymous, im_manifestFetcher = fetch,
                im_localRegistry = localRegistry\<rparr>)"

definition triggerReplication :: "'m image_mirror \<Rightarrow> string \<Rightarrow> go_error + 'm" where
  "triggerReplication m ref =
     (case im_manifestFetcher m (im_auth m) (CheckIfLocalRegistry (im_localRegistry m) ref) ref of
        Inl e \<Rightarrow> Inl (WrapError (''failed to fetch manifest for '' @ ref) e)
      | Inr manifest \<Rightarrow> Inr manifest)"

definition buildMirroredOCIRef :: "parse_reference \<Rightarrow> 'm image_mirror \<Rightarrow> string \<Rightarrow> string" where
  "buildMirroredOCIRef parse m imageRef =
     (case ResolveOCIRef parse (Some (im_config m)) imageRef of
        None \<Rightarrow> []
      | Some r \<Rightarrow>
          rmc_primaryMirror (im_config m) @ ''/'' @ rm_subPath (ro_mirror r) @ ''/'' @ ro_repository r @ ro_tagOrDigest r)"

definition buildReplicationRef :: "parse_reference \<Rightarrow> 'm image_mirror \<Rightarrow> string \<Rightarrow> string \<times> string" where
  "buildReplicationRef parse m ociRef =
     (case SplitOCIRef parse ociRef of
        (registry, repo, tagOrDigest) \<Rightarrow>
          if registry = rmc_primaryMirror (im_config m) then (ociRef, ociRef)
          else if list_ex (\<lambda>(_, mirror). rm_baseDomain mirror = registry) (rmc_registryMirrors (im_config m))
          then (rmc_primaryMirror (im_config m) @ ''/'' @ repo @ tagOrDigest, ociRef)
          else ([], []))"

text \<open>The results: the reference that was replicated, empty if there is nothing to do, and an error.\<close>

definition EnsureChartReplicated ::
  "parse_reference \<Rightarrow> 'm image_mirror \<Rightarrow> string \<Rightarrow> string \<times> 'm option \<times> go_error option" where
  "EnsureChartReplicated parse m ociRef =
     (case buildReplicationRef parse m ociRef of
        (replicationRef, returnRef) \<Rightarrow>
          if replicationRef = [] then ([], None, None)
          else (case triggerReplication m replicationRef of
                  Inl e \<Rightarrow> (returnRef, None, Some e) | Inr mf \<Rightarrow> (returnRef, Some mf, None)))"

definition EnsureImageReplicated ::
  "parse_reference \<Rightarrow> 'm image_mirror \<Rightarrow> string \<Rightarrow> string \<times> 'm option \<times> go_error option" where
  "EnsureImageReplicated parse m ociRef =
     (let mirroredRef = buildMirroredOCIRef parse m ociRef in
      if mirroredRef \<noteq> []
      then (case triggerReplication m mirroredRef of
              Inl e \<Rightarrow> (mirroredRef, None, Some e) | Inr mf \<Rightarrow> (mirroredRef, Some mf, None))
      else EnsureChartReplicated parse m ociRef)"

record image_transform =
  it_original :: string
  it_mirrored :: string

text \<open>The loop of \<open>BuildImageTransformations\<close> over the references of all manifest sets.\<close>

fun build_transforms ::
  "parse_reference \<Rightarrow> 'm image_mirror \<Rightarrow> string list \<Rightarrow> string list \<Rightarrow> image_transform list" where
  "build_transforms parse m [] seen = []"
| "build_transforms parse m (ref # refs) seen =
     (case ResolveOCIRef parse (Some (im_config m)) ref of
        None \<Rightarrow> build_transforms parse m refs seen
      | Some r \<Rightarrow>
          (let original = ro_registry r @ ''/'' @ ro_repository r in
           if original \<in> set seen then build_transforms parse m refs seen
           else \<lparr>it_original = original,
                 it_mirrored = rm_baseDomain (ro_mirror r) @ ''/'' @ rm_subPath (ro_mirror r) @ ''/'' @ ro_repository r\<rparr>
                # build_transforms parse m refs (original # seen)))"

definition BuildImageTransformations :: "parse_reference \<Rightarrow> 'm image_mirror \<Rightarrow> string list \<Rightarrow> image_transform list" where
  "BuildImageTransformations parse m manifestSets =
     build_transforms parse m (concat (map ExtractUniqueOCIRefs manifestSets)) []"

fun unique_refs :: "string list \<Rightarrow> string list \<Rightarrow> string list" where
  "unique_refs seen [] = []"
| "unique_refs seen (ref # refs) =
     (if ref \<in> set seen then unique_refs seen refs else ref # unique_refs (ref # seen) refs)"

fun replicate_refs ::
  "parse_reference \<Rightarrow> 'm image_mirror \<Rightarrow> string list \<Rightarrow> string list \<Rightarrow> string list \<times> go_error list" where
  "replicate_refs parse m already [] = ([], [])"
| "replicate_refs parse m already (ref # refs) =
     (case replicate_refs parse m already refs of
        (replicated, errs) \<Rightarrow>
          if ref \<in> set already then (ref # replicated, errs)
          else (case EnsureImageReplicated parse m ref of
                  (_, _, Some e) \<Rightarrow> (replicated, WrapError ref e # errs)
                | (r, _, None) \<Rightarrow> (if r = [] then replicated else ref # replicated, errs)))"

definition ReplicateOCIArtifacts ::
  "parse_reference \<Rightarrow> 'm image_mirror \<Rightarrow> string list \<Rightarrow> string list \<Rightarrow> string list \<times> go_error option" where
  "ReplicateOCIArtifacts parse m already manifestSets =
     (let refs = unique_refs [] (concat (map ExtractUniqueOCIRefs manifestSets)) in
      if length refs = 0 then ([], None)
      else (case replicate_refs parse m already refs of
              (replicated, errs) \<Rightarrow> (sort replicated, NewAggregate errs)))"


section \<open>Rewrites\<close>

definition manifest_images :: "string list \<Rightarrow> string set" where
  "manifest_images sets = {ref. \<exists>m \<in> set sets. \<exists>line \<in> set (split_char (CHR 0x0A) m). image_field line = Some ref}"

definition transform_of :: "resolved_oci_ref \<Rightarrow> image_transform" where
  "transform_of r =
     \<lparr>it_original = ro_registry r @ ''/'' @ ro_repository r,
      it_mirrored = rm_baseDomain (ro_mirror r) @ ''/'' @ rm_subPath (ro_mirror r) @ ''/'' @ ro_repository r\<rparr>"

lemma set_Extract: "set (ExtractUniqueOCIRefs m) = {ref. \<exists>line \<in> set (split_char (CHR 0x0A) m). image_field line = Some ref}"
  by (simp add: ExtractUniqueOCIRefs_def set_eq_iff set_map_filter)

lemma set_manifest_refs: "set (concat (map ExtractUniqueOCIRefs sets)) = manifest_images sets"
  by (auto simp: manifest_images_def set_Extract)

text \<open>A registry is a host, without a slash; then the original name determines the reference but for its tag.\<close>

definition registries_plain :: "parse_reference \<Rightarrow> bool" where
  "registries_plain parse \<longleftrightarrow> (\<forall>ref r. parse ref = Some r \<longrightarrow> CHR ''/'' \<notin> set (oci_registry r))"

lemma SplitOCIRef_registry:
  "registries_plain parse \<Longrightarrow> SplitOCIRef parse ref = (reg, repo, t) \<Longrightarrow> CHR ''/'' \<notin> set reg"
  by (auto simp: SplitOCIRef_def registries_plain_def split: option.splits if_splits)

lemma first_slash_unique:
  "CHR ''/'' \<notin> set a \<Longrightarrow> CHR ''/'' \<notin> set b \<Longrightarrow> a @ ''/'' @ x = b @ ''/'' @ y \<Longrightarrow> a = b \<and> x = y"
  by (induction a arbitrary: b) (case_tac b; auto)+

lemma resolved_same:
  assumes "registries_plain parse" "ResolveOCIRef parse (Some cfg) a = Some r" "ResolveOCIRef parse (Some cfg) b = Some q"
    and "it_original (transform_of r) = it_original (transform_of q)"
  shows "transform_of r = transform_of q"
proof -
  have "CHR ''/'' \<notin> set (ro_registry r)" "CHR ''/'' \<notin> set (ro_registry q)"
    and "smap_get (rmc_registryMirrors cfg) (ro_registry r) = Some (ro_mirror r)"
    and "smap_get (rmc_registryMirrors cfg) (ro_registry q) = Some (ro_mirror q)"
    using assms(2,3) SplitOCIRef_registry [OF assms(1)]
    by (auto simp: ResolveOCIRef_def split: prod.splits option.splits)
  with first_slash_unique [of "ro_registry r" "ro_registry q" "ro_repository r" "ro_repository q"] assms(4)
  show ?thesis by (simp add: transform_of_def)
qed

lemma build_transforms_result:
  assumes "registries_plain parse"
  shows "distinct (map it_original (build_transforms parse m refs seen))
    \<and> it_original ` set (build_transforms parse m refs seen) \<inter> set seen = {}
    \<and> set (build_transforms parse m refs seen) =
        {transform_of r |r ref. ref \<in> set refs \<and> ResolveOCIRef parse (Some (im_config m)) ref = Some r
           \<and> it_original (transform_of r) \<notin> set seen}"
proof (induction refs arbitrary: seen)
  case (Cons ref refs)
  show ?case
  proof (cases "ResolveOCIRef parse (Some (im_config m)) ref")
    case None
    with Cons show ?thesis by auto
  next
    case (Some r)
    let ?o = "it_original (transform_of r)"
    have o: "?o = ro_registry r @ ''/'' @ ro_repository r" by (simp add: transform_of_def)
    show ?thesis
    proof (cases "?o \<in> set seen")
      case True
      with Some Cons [of seen] o show ?thesis by (auto simp: Let_def)
    next
      case False
      have eq: "build_transforms parse m (ref # refs) seen = transform_of r # build_transforms parse m refs (?o # seen)"
        using Some False by (simp add: Let_def transform_of_def)
      note IH = Cons [of "?o # seen"]
      have "set (build_transforms parse m (ref # refs) seen) =
        {transform_of q |q x. x \<in> set (ref # refs) \<and> ResolveOCIRef parse (Some (im_config m)) x = Some q
           \<and> it_original (transform_of q) \<notin> set seen}"
      proof (intro set_eqI iffI)
        fix t assume "t \<in> set (build_transforms parse m (ref # refs) seen)"
        then have "t = transform_of r \<or> t \<in> set (build_transforms parse m refs (?o # seen))" unfolding eq by simp
        then show "t \<in> {transform_of q |q x. x \<in> set (ref # refs) \<and> ResolveOCIRef parse (Some (im_config m)) x = Some q
           \<and> it_original (transform_of q) \<notin> set seen}"
          using IH Some False by auto
      next
        fix t assume "t \<in> {transform_of q |q x. x \<in> set (ref # refs) \<and> ResolveOCIRef parse (Some (im_config m)) x = Some q
           \<and> it_original (transform_of q) \<notin> set seen}"
        then obtain q x where q: "t = transform_of q" "x \<in> set (ref # refs)"
          "ResolveOCIRef parse (Some (im_config m)) x = Some q" "it_original (transform_of q) \<notin> set seen" by blast
        show "t \<in> set (build_transforms parse m (ref # refs) seen)"
        proof (cases "it_original (transform_of q) = ?o")
          case True
          then show ?thesis using resolved_same [OF assms q(3) Some] q(1) unfolding eq by simp
        next
          case False
          with q Some have "x \<in> set refs" by auto
          with q False IH show ?thesis unfolding eq by auto
        qed
      qed
      then show ?thesis using IH False unfolding eq by auto
    qed
  qed
qed simp

text \<open>
  The rewrites of the images in rendered manifests: there is exactly one rewrite per original name, and
  the rewrites are those of the images that stand in the manifests and whose registry has a mirror, from the
  registry and repository of the image to the mirror's domain and path.
\<close>

theorem image_rewrites:
  assumes "registries_plain parse"
  shows "distinct (map it_original (BuildImageTransformations parse m sets))
    \<and> set (BuildImageTransformations parse m sets) =
        {transform_of r |r ref. ref \<in> manifest_images sets \<and> ResolveOCIRef parse (Some (im_config m)) ref = Some r}"
  using build_transforms_result [OF assms, of m "concat (map ExtractUniqueOCIRefs sets)" "[]"]
  unfolding BuildImageTransformations_def set_manifest_refs by simp

section \<open>Replication\<close>

lemma set_unique_refs: "set (unique_refs seen refs) = set refs - set seen"
  by (induction seen refs rule: unique_refs.induct) auto

lemma distinct_unique_refs: "distinct (unique_refs seen refs)"
  by (induction seen refs rule: unique_refs.induct) (auto simp: set_unique_refs)

definition replicates :: "parse_reference \<Rightarrow> 'm image_mirror \<Rightarrow> string \<Rightarrow> bool" where
  "replicates parse m ref \<longleftrightarrow> (\<exists>r mf. EnsureImageReplicated parse m ref = (r, mf, None) \<and> r \<noteq> [])"

lemma replicate_refs_result:
  "replicate_refs parse m already refs = (replicated, errs) \<Longrightarrow>
     replicated = filter (\<lambda>ref. ref \<in> set already \<or> replicates parse m ref) refs
     \<and> (errs = [] \<longleftrightarrow> (\<forall>ref \<in> set refs. ref \<in> set already \<or> snd (snd (EnsureImageReplicated parse m ref)) = None))"
proof (induction refs arbitrary: replicated errs)
  case (Cons ref refs)
  obtain rs es where IH: "replicate_refs parse m already refs = (rs, es)" by (cases "replicate_refs parse m already refs")
  obtain r mf e where E: "EnsureImageReplicated parse m ref = (r, mf, e)" by (cases "EnsureImageReplicated parse m ref")
  show ?case
    using Cons.prems Cons.IH [OF IH] IH E by (cases e) (auto simp: replicates_def split: if_splits)
qed simp

lemma resolved_mirrored:
  assumes "ResolveOCIRef parse (Some (im_config m)) ref = Some r"
  shows "buildMirroredOCIRef parse m ref \<noteq> []"
    and "snd (snd (EnsureImageReplicated parse m ref)) = None \<longleftrightarrow>
      (\<exists>mf. triggerReplication m (buildMirroredOCIRef parse m ref) = Inr mf)"
  using assms by (auto simp: buildMirroredOCIRef_def EnsureImageReplicated_def triggerReplication_def Let_def
      split: sum.splits)

text \<open>
  Replication and rewriting agree: when the replication of the images of some manifests reports no
  error, every image that is rewritten to a mirror was already replicated, or its manifest could be fetched
  through the primary mirror; the images reported as replicated are images of these manifests, sorted and
  without duplicates.
\<close>

theorem rewritten_images_replicated:
  assumes "ReplicateOCIArtifacts parse m already sets = (replicated, None)"
  shows "sorted replicated \<and> distinct replicated \<and> set replicated \<subseteq> manifest_images sets
    \<and> (\<forall>ref r. ref \<in> manifest_images sets \<and> ResolveOCIRef parse (Some (im_config m)) ref = Some r \<longrightarrow>
         ref \<in> set replicated \<and>
         (ref \<in> set already \<or> (\<exists>mf. triggerReplication m (buildMirroredOCIRef parse m ref) = Inr mf)))"
proof -
  let ?refs = "unique_refs [] (concat (map ExtractUniqueOCIRefs sets))"
  have refs: "set ?refs = manifest_images sets" by (simp only: set_unique_refs set_manifest_refs set_simps Diff_empty)
  show ?thesis
  proof (cases "?refs = []")
    case True
    with assms refs show ?thesis by (auto simp: ReplicateOCIArtifacts_def)
  next
    case False
    obtain rs es where r: "replicate_refs parse m already ?refs = (rs, es)" by (cases "replicate_refs parse m already ?refs")
    with assms False have rep: "replicated = sort rs" "es = []" by (auto simp: ReplicateOCIArtifacts_def Let_def)
    note res = replicate_refs_result [OF r]
    have "ref \<in> set rs \<and> (ref \<in> set already \<or> (\<exists>mf. triggerReplication m (buildMirroredOCIRef parse m ref) = Inr mf))"
      if "ref \<in> manifest_images sets" "ResolveOCIRef parse (Some (im_config m)) ref = Some q" for ref q
    proof -
      from that(1) refs res rep(2) have *: "ref \<in> set already \<or> snd (snd (EnsureImageReplicated parse m ref)) = None" by auto
      moreover have "snd (snd (EnsureImageReplicated parse m ref)) = None \<Longrightarrow> replicates parse m ref"
        using resolved_mirrored(1) [OF that(2)]
        by (auto simp: replicates_def EnsureImageReplicated_def Let_def split: sum.splits)
      ultimately show ?thesis using res refs that(1) resolved_mirrored(2) [OF that(2)] by auto
    qed
    moreover have "distinct rs" using res distinct_unique_refs by auto
    ultimately show ?thesis using rep res refs by auto
  qed
qed


text \<open>Two manifests, one mirrored registry, and a parser that knows the references in them.\<close>

definition sample_manifests :: "string list" where
  "sample_manifests =
     [''  - image: ghcr.io/org/app:1.0'' @ [CHR 0x0A] @ ''image: other.io/x:2'' @ [CHR 0x0A], ''    image: ghcr.io/org/app:2.0'']"

definition sample_parse :: parse_reference where
  "sample_parse ref =
     (if ref = ''ghcr.io/org/app:1.0''
      then Some \<lparr>oci_registry = ''ghcr.io'', oci_repository = ''org/app'', oci_identifier = Tag ''1.0''\<rparr>
      else if ref = ''ghcr.io/org/app:2.0''
      then Some \<lparr>oci_registry = ''ghcr.io'', oci_repository = ''org/app'', oci_identifier = Tag ''2.0''\<rparr>
      else if ref = ''other.io/x:2''
      then Some \<lparr>oci_registry = ''other.io'', oci_repository = ''x'', oci_identifier = Tag ''2''\<rparr>
      else None)"

definition sample_mirror :: "unit image_mirror" where
  "sample_mirror =
     \<lparr>im_config = \<lparr>rmc_primaryMirror = ''mirror.sap'',
        rmc_registryMirrors = [(''ghcr.io'', \<lparr>rm_baseDomain = ''eu.mirror.sap'', rm_subPath = ''ghcr''\<rparr>)],
        rmc_secretName = []\<rparr>,
      im_auth = Anonymous, im_manifestFetcher = (\<lambda>a insecure ref. Inr ()), im_localRegistry = None\<rparr>"

lemma sample_transforms:
  "BuildImageTransformations sample_parse sample_mirror sample_manifests =
     [\<lparr>it_original = ''ghcr.io/org/app'', it_mirrored = ''eu.mirror.sap/ghcr/org/app''\<rparr>]"
  by code_simp

theorem image_rewrites_witness:
  "\<exists>r ref. \<lparr>it_original = ''ghcr.io/org/app'', it_mirrored = ''eu.mirror.sap/ghcr/org/app''\<rparr> = transform_of r
     \<and> ref \<in> manifest_images sample_manifests \<and> ResolveOCIRef sample_parse (Some (im_config sample_mirror)) ref = Some r"
proof -
  have "registries_plain sample_parse" by (auto simp: registries_plain_def sample_parse_def split: if_splits)
  from image_rewrites [OF this, of sample_mirror sample_manifests] show ?thesis
    unfolding sample_transforms by auto
qed

lemma sample_replication:
  "ReplicateOCIArtifacts sample_parse sample_mirror [] sample_manifests = ([''ghcr.io/org/app:1.0'', ''ghcr.io/org/app:2.0''], None)"
  by code_simp

theorem rewritten_images_replicated_witness:
  "sorted [''ghcr.io/org/app:1.0'', ''ghcr.io/org/app:2.0'']
   \<and> set [''ghcr.io/org/app:1.0'', ''ghcr.io/org/app:2.0''] \<subseteq> manifest_images sample_manifests"
  using rewritten_images_replicated [OF sample_replication] by blast

end
