(* ===== verification/Helm_Values.thy ===== *)
theory Helm_Values
  imports Plugin_Values Sha256
begin

text \<open>
  Values of a Helm release (\<open>internal/helm/helm.go\<close>, \<open>cel.go\<close>, \<open>pkg/cel/expression_evaluator.go\<close>): secrets as
  option values, the nested values built from flat options, merging with the values of a chart, expressions
  and the checksum of the options of a plugin.

  A \<open>map[string]any\<close> is an association list of JSON values. \<open>strvals.ParseJSON\<close> (which sets the value at a
  path in a map), YAML conversion and the evaluation of CEL programs are parameters.
\<close>

type_synonym helm_values = "json smap"
type_synonym parse_json_value = "string \<Rightarrow> helm_values \<Rightarrow> go_error + helm_values"

section \<open>Option values\<close>

definition getValueFromSecret ::
  "(namespaced_name \<Rightarrow> go_error + secret) \<Rightarrow> string \<Rightarrow> string \<Rightarrow> string \<Rightarrow> go_error + string" where
  "getValueFromSecret get_secret secretNamespace secretName secretKey =
     (case get_secret \<lparr>nn_namespace = secretNamespace, nn_name = secretName\<rparr> of
        Inl e \<Rightarrow> Inl e
      | Inr sec \<Rightarrow>
          if secret_data sec = []
          then Inl (PlainError (''secret '' @ secretNamespace @ ''/'' @ secretName @ '' is empty''))
          else (case smap_get (secret_data sec) secretKey of
                  None \<Rightarrow> Inl (PlainError (''secret '' @ secretNamespace @ ''/'' @ secretName
                             @ '' does not contain key '' @ secretKey))
                | Some v \<Rightarrow> Inr v))"

text \<open>The loop of \<open>resolvePluginOptionValueFrom\<close>: only secret references are read.\<close>

fun resolvePluginOptionValueFrom ::
  "(namespaced_name \<Rightarrow> go_error + secret) \<Rightarrow> string \<Rightarrow> plugin_option_value list \<Rightarrow> go_error + plugin_option_value list" where
  "resolvePluginOptionValueFrom get_secret namespace [] = Inr []"
| "resolvePluginOptionValueFrom get_secret namespace (v # vs) =
     (case Option.bind (ov_valueFrom v) pv_secret of
        None \<Rightarrow> map_sum id ((#) v) (resolvePluginOptionValueFrom get_secret namespace vs)
      | Some ref \<Rightarrow>
          (case getValueFromSecret get_secret namespace (sk_name ref) (sk_key ref) of
             Inl e \<Rightarrow> Inl e
           | Inr t \<Rightarrow> map_sum id ((#) (v\<lparr>ov_value := Some (print_json (JStr t))\<rparr>))
                       (resolvePluginOptionValueFrom get_secret namespace vs)))"

fun convert_values :: "parse_json_value \<Rightarrow> plugin_option_value list \<Rightarrow> helm_values \<Rightarrow> go_error + helm_values" where
  "convert_values parseJSON [] helmValues = Inr helmValues"
| "convert_values parseJSON (v # vs) helmValues =
     (case parseJSON (ov_name v @ ''='' @ ValueJSON v) helmValues of
        Inl e \<Rightarrow> Inl e
      | Inr helmValues' \<Rightarrow> convert_values parseJSON vs helmValues')"

definition ConvertFlatValuesToHelmValues :: "parse_json_value \<Rightarrow> plugin_option_value list \<Rightarrow> go_error + helm_values" where
  "ConvertFlatValuesToHelmValues parseJSON values = convert_values parseJSON values []"

section \<open>Merging\<close>

text \<open>
  \<open>mergeMaps\<close>: the loop over the second map, whose keys are distinct; the copy of the first is the
  accumulator. Both must be objects for a nested merge.
\<close>

fun mergeMaps :: "helm_values \<Rightarrow> helm_values \<Rightarrow> helm_values" where
  "mergeMaps out [] = out"
| "mergeMaps out ((k, v) # b) =
     mergeMaps
       (smap_set k
          (case v of
             JObj vm \<Rightarrow> (case smap_get out k of Some (JObj bm) \<Rightarrow> JObj (mergeMaps bm vm) | _ \<Rightarrow> v)
           | _ \<Rightarrow> v) out) b"

definition mergeChartAndPluginOptionValues ::
  "parse_json_value \<Rightarrow> helm_values \<Rightarrow> plugin_option_value list \<Rightarrow> go_error + helm_values" where
  "mergeChartAndPluginOptionValues parseJSON helmValues optionValues =
     map_sum id (mergeMaps helmValues) (ConvertFlatValuesToHelmValues parseJSON optionValues)"

definition getValuesForHelmChart ::
  "parse_json_value \<Rightarrow> (namespaced_name \<Rightarrow> go_error + secret) \<Rightarrow> helm_values \<Rightarrow> plugin \<Rightarrow> go_error + helm_values" where
  "getValuesForHelmChart parseJSON get_secret chartValues p =
     (case resolvePluginOptionValueFrom get_secret (o_namespace p) (ps_optionValues (pl_spec p)) of
        Inl e \<Rightarrow> Inl e
      | Inr optionValues \<Rightarrow> mergeChartAndPluginOptionValues parseJSON (mergeMaps [] chartValues) optionValues)"

section \<open>Expressions\<close>

text \<open>
  The matches of \<open>expressionPattern\<close>, a dollar sign and a non-empty text in braces; the values are the texts.
\<close>

function placeholders :: "string \<Rightarrow> string list" where
  "placeholders s =
     (if s = [] then []
      else (let e = takeWhile (\<lambda>c. c \<noteq> CHR ''}'') (drop 2 s);
                after = dropWhile (\<lambda>c. c \<noteq> CHR ''}'') (drop 2 s)
            in if HasPrefix s ''${'' \<and> e \<noteq> [] \<and> after \<noteq> [] then e # placeholders (tl after) else placeholders (tl s)))"
  by auto

lemma length_dropWhile_drop [simp]: "s \<noteq> [] \<Longrightarrow> length (dropWhile P (drop n s)) - Suc 0 < length s"
  using length_dropWhile_le [of P "drop n s"] by (cases s) (auto simp: less_Suc_eq_le)

termination placeholders by (relation "measure length") auto

declare placeholders.simps [simp del]

record expression_lib =
  el_eval :: "string \<Rightarrow> helm_values \<Rightarrow> go_error + json"
  el_yamlToJSON :: "string \<Rightarrow> go_error + string"

fun formatValue :: "json \<Rightarrow> string" where
  "formatValue (JStr s) = s"
| "formatValue v = print_json v"

fun substitute :: "expression_lib \<Rightarrow> helm_values \<Rightarrow> string list \<Rightarrow> string \<Rightarrow> go_error + string" where
  "substitute lib dat [] yaml = Inr yaml"
| "substitute lib dat (e # es) yaml =
     (case el_eval lib e dat of
        Inl err \<Rightarrow> Inl (WrapError (''failed to evaluate CEL expression '' @ CHR 0x27 # e @ [CHR 0x27]) err)
      | Inr v \<Rightarrow> substitute lib dat es (ReplaceAll yaml (''${'' @ e @ ''}'') (formatValue v)))"

definition EvaluateExpression :: "expression_lib \<Rightarrow> string \<Rightarrow> helm_values \<Rightarrow> go_error + string" where
  "EvaluateExpression lib yamlStr templateData =
     (if yamlStr = [] then Inl (PlainError ''expression cannot be empty'')
      else (let es = placeholders yamlStr in
            if length es = 0 then el_yamlToJSON lib yamlStr
            else (case substitute lib templateData es yamlStr of
                    Inl e \<Rightarrow> Inl e
                  | Inr resolved \<Rightarrow> el_yamlToJSON lib resolved)))"

definition BuildTemplateData :: "parse_json_value \<Rightarrow> plugin_option_value list \<Rightarrow> go_error + helm_values" where
  "BuildTemplateData parseJSON optionValues =
     (case ConvertFlatValuesToHelmValues parseJSON
             (filter (\<lambda>v. HasPrefix (ov_name v) ''global.greenhouse'') optionValues) of
        Inl e \<Rightarrow> Inl (WrapError ''failed to convert values to helm structure'' e)
      | Inr dat \<Rightarrow> Inr dat)"

record cel_resolver =
  cr_templateData :: helm_values

definition NewCELResolver :: "parse_json_value \<Rightarrow> plugin_option_value list \<Rightarrow> go_error + cel_resolver" where
  "NewCELResolver parseJSON optionValues =
     (case BuildTemplateData parseJSON optionValues of
        Inl e \<Rightarrow> Inl (WrapError ''failed to build template data'' e)
      | Inr dat \<Rightarrow> Inr \<lparr>cr_templateData = dat\<rparr>)"

definition ResolveExpression ::
  "expression_lib \<Rightarrow> cel_resolver \<Rightarrow> plugin_option_value \<Rightarrow> bool \<Rightarrow> go_error + plugin_option_value" where
  "ResolveExpression lib c v enabled =
     (case ov_expression v of
        None \<Rightarrow> Inr v
      | Some e \<Rightarrow>
          if \<not> enabled then Inr (plain_value (ov_name v) (Some (print_json (JStr e))))
          else (case EvaluateExpression lib e (cr_templateData c) of
                  Inl err \<Rightarrow> Inl (WrapError (''failed to evaluate expression for option '' @ ov_name v) err)
                | Inr j \<Rightarrow> Inr (plain_value (ov_name v) (Some j))))"

section \<open>Checksum\<close>

text \<open>
  What is hashed. The sort by name is not stable in Go; its result is determined by the values when their
  names are distinct.
\<close>

definition checksum_part :: "plugin_option_value \<Rightarrow> string" where
  "checksum_part v =
     ov_name v @
     (case ov_value v of
        Some raw \<Rightarrow> raw
      | None \<Rightarrow>
          (case ov_expression v of
             Some e \<Rightarrow> e
           | None \<Rightarrow>
               (case Option.bind (ov_valueFrom v) pv_ref of
                  Some ref \<Rightarrow> ev_name ref @ ev_kind ref @ ev_expression ref
                | None \<Rightarrow> [])))"

definition CalculatePluginOptionChecksum ::
  "(namespaced_name \<Rightarrow> go_error + secret) \<Rightarrow> plugin \<Rightarrow> go_error + string" where
  "CalculatePluginOptionChecksum get_secret p =
     (case resolvePluginOptionValueFrom get_secret (o_namespace p) (ps_optionValues (pl_spec p)) of
        Inl e \<Rightarrow> Inl e
      | Inr values \<Rightarrow> Inr (EncodeToString (Sum256 (concat (map checksum_part (sort_key ov_name values))))))"

section \<open>Merged values\<close>

text \<open>The value at a path of keys, and whether a map decides what is at a path.\<close>

fun value_at :: "helm_values \<Rightarrow> string list \<Rightarrow> json option" where
  "value_at m [] = None"
| "value_at m (k # ks) =
     (case smap_get m k of
        None \<Rightarrow> None
      | Some v \<Rightarrow> if ks = [] then Some v else (case v of JObj m' \<Rightarrow> value_at m' ks | _ \<Rightarrow> None))"

fun shadows :: "helm_values \<Rightarrow> string list \<Rightarrow> bool" where
  "shadows m [] = False"
| "shadows m (k # ks) =
     (case smap_get m k of
        None \<Rightarrow> False
      | Some v \<Rightarrow> (case v of JObj m' \<Rightarrow> ks = [] \<or> shadows m' ks | _ \<Rightarrow> True))"

fun is_object :: "json \<Rightarrow> bool" where
  "is_object (JObj _) = True"
| "is_object _ = False"

text \<open>Objects stand for Go maps: no key occurs twice.\<close>

fun keys_ok :: "json \<Rightarrow> bool" where
  "keys_ok (JObj fs) \<longleftrightarrow> distinct (map fst fs) \<and> (\<forall>f \<in> set fs. keys_ok (snd f))"
| "keys_ok _ = True"

definition merge_value :: "json option \<Rightarrow> json \<Rightarrow> json" where
  "merge_value old v =
     (case v of JObj vm \<Rightarrow> (case old of Some (JObj bm) \<Rightarrow> JObj (mergeMaps bm vm) | _ \<Rightarrow> v) | _ \<Rightarrow> v)"

lemma mergeMaps_Cons: "mergeMaps out ((k, v) # b) = mergeMaps (smap_set k (merge_value (smap_get out k) v) out) b"
  by (simp add: merge_value_def)

lemma smap_get_mergeMaps:
  "distinct (map fst b) \<Longrightarrow> smap_get (mergeMaps a b) k =
     (case smap_get b k of None \<Rightarrow> smap_get a k | Some v \<Rightarrow> Some (merge_value (smap_get a k) v))"
proof (induction b arbitrary: a)
  case Nil
  then show ?case by (simp add: smap_get_def)
next
  case (Cons x b)
  obtain k' v' where x: "x = (k', v')" by (cases x)
  from Cons.prems x have "k' \<notin> fst ` set b" by simp
  then have "smap_get b k' = None" by (simp add: smap_get_def map_of_eq_None_iff)
  with Cons x show ?case by (auto simp: mergeMaps_Cons smap_get_def smap_set_def update_conv' split: option.splits simp del: mergeMaps.simps)
qed

lemma keys_ok_get: "keys_ok (JObj m) \<Longrightarrow> smap_get m k = Some v \<Longrightarrow> keys_ok v"
  by (auto simp: smap_get_def dest!: map_of_SomeD)

lemma value_at_mergeMaps:
  "keys_ok (JObj b) \<Longrightarrow> \<not> is_object x \<Longrightarrow>
     value_at (mergeMaps a b) ks = Some x \<longleftrightarrow> value_at b ks = Some x \<or> (value_at a ks = Some x \<and> \<not> shadows b ks)"
proof (induction ks arbitrary: a b)
  case (Cons k ks)
  have get: "smap_get (mergeMaps a b) k =
      (case smap_get b k of None \<Rightarrow> smap_get a k | Some v \<Rightarrow> Some (merge_value (smap_get a k) v))"
    using Cons.prems(1) by (intro smap_get_mergeMaps) simp
  show ?case
  proof (cases "smap_get b k")
    case None
    with get show ?thesis by simp
  next
    case (Some v)
    note v = this
    have ok: "keys_ok v" by (rule keys_ok_get [OF Cons.prems(1) v])
    show ?thesis
    proof (cases v)
      case (JObj m')
      show ?thesis using get v JObj Cons.prems(2) Cons.IH [of m'] ok
        by (auto simp: merge_value_def split: option.splits json.splits)
    qed (use get v in \<open>auto simp: merge_value_def\<close>)
  qed
qed simp

lemma keys_ok_set: "keys_ok (JObj m) \<Longrightarrow> keys_ok v \<Longrightarrow> keys_ok (JObj (smap_set k v m))"
proof (induction m)
  case (Cons x m)
  obtain k' v' where x: "x = (k', v')" by (cases x)
  have "fst ` set (smap_set k v m) = insert k (fst ` set m)" for m
    by (simp add: smap_set_def dom_update)
  with Cons x show ?case by (auto simp: smap_set_def)
qed (simp add: smap_set_def)

text \<open>What is relied on of \<open>strvals.ParseJSON\<close>: from a map it makes a map.\<close>

definition parses_maps :: "parse_json_value \<Rightarrow> bool" where
  "parses_maps parseJSON \<longleftrightarrow>
     (\<forall>t m m'. keys_ok (JObj m) \<and> parseJSON t m = Inr m' \<longrightarrow> keys_ok (JObj m'))"

lemma convert_values_keys_ok:
  "\<lbrakk>parses_maps parseJSON; keys_ok (JObj m); convert_values parseJSON vs m = Inr m'\<rbrakk> \<Longrightarrow> keys_ok (JObj m')"
proof (induction vs arbitrary: m)
  case (Cons v vs)
  then obtain m1 where p: "parseJSON (ov_name v @ ''='' @ ValueJSON v) m = Inr m1" "convert_values parseJSON vs m1 = Inr m'"
    by (auto split: sum.splits)
  with Cons.prems(1,2) have "keys_ok (JObj m1)" unfolding parses_maps_def by blast
  with Cons.IH [OF Cons.prems(1)] p(2) show ?case by blast
qed simp

lemma value_at_copy:
  assumes "keys_ok (JObj m)" "\<not> is_object x"
  shows "value_at (mergeMaps [] m) ks = Some x \<longleftrightarrow> value_at m ks = Some x"
proof -
  have "value_at [] ks \<noteq> Some x" by (cases ks) simp_all
  with value_at_mergeMaps [OF assms, of "[]" ks] show ?thesis by blast
qed

definition option_map ::
  "parse_json_value \<Rightarrow> (namespaced_name \<Rightarrow> go_error + secret) \<Rightarrow> plugin \<Rightarrow> go_error + helm_values" where
  "option_map parseJSON get_secret p =
     (case resolvePluginOptionValueFrom get_secret (o_namespace p) (ps_optionValues (pl_spec p)) of
        Inl e \<Rightarrow> Inl e
      | Inr vs \<Rightarrow> ConvertFlatValuesToHelmValues parseJSON vs)"

text \<open>
  The values for a chart: at every path, a value that is no object is the one the options of the plugin
  give to this path, or else the one of the chart, unless the options put something else at the path or a
  plain value on the way to it. So options override the chart exactly where they say something.
\<close>

theorem options_override_chart:
  assumes "parses_maps parseJSON" and "keys_ok (JObj chartValues)"
    and "getValuesForHelmChart parseJSON get_secret chartValues p = Inr values"
  shows "\<exists>opts. option_map parseJSON get_secret p = Inr opts
    \<and> (\<forall>ks x. \<not> is_object x \<longrightarrow>
          (value_at values ks = Some x \<longleftrightarrow>
           value_at opts ks = Some x \<or> (value_at chartValues ks = Some x \<and> \<not> shadows opts ks)))"
proof -
  from assms(3) obtain vs m where
    vs: "resolvePluginOptionValueFrom get_secret (o_namespace p) (ps_optionValues (pl_spec p)) = Inr vs"
    and m: "ConvertFlatValuesToHelmValues parseJSON vs = Inr m" and "values = mergeMaps (mergeMaps [] chartValues) m"
    by (auto simp: getValuesForHelmChart_def mergeChartAndPluginOptionValues_def map_sum_def split: sum.splits)
  moreover have "keys_ok (JObj m)"
    using convert_values_keys_ok [OF assms(1) _ m [unfolded ConvertFlatValuesToHelmValues_def]] by simp
  ultimately show ?thesis
    by (intro exI [of _ m]) (simp add: option_map_def value_at_mergeMaps value_at_copy [OF assms(2)])
qed

text \<open>A parser for options with plain names, and a plugin that sets one of two values of a chart.\<close>

definition top_level_parser :: parse_json_value where
  "top_level_parser t m =
     (let k = takeWhile (\<lambda>c. c \<noteq> CHR ''='') t in
      case parse_json (drop (Suc (length k)) t) of
        Some (JStr v) \<Rightarrow> Inr (smap_set k (JStr v) m)
      | _ \<Rightarrow> Inl (PlainError ''not a string''))"

lemma top_level_parser_maps: "parses_maps top_level_parser"
  by (auto simp: parses_maps_def top_level_parser_def Let_def keys_ok_set simp del: keys_ok.simps(1)
      split: option.splits json.splits)

theorem options_override_chart_witness:
  "\<exists>values. getValuesForHelmChart top_level_parser (\<lambda>_. Inl (PlainError ''no secret''))
       [(''image'', JStr ''a''), (''port'', JNum ''80'')]
       (sample_plugin [plain_value ''image'' (Some (print_json (JStr ''b'')))]) = Inr values
     \<and> value_at values [''image''] = Some (JStr ''b'') \<and> value_at values [''port''] = Some (JNum ''80'')"
proof -
  let ?p = "sample_plugin [plain_value ''image'' (Some (print_json (JStr ''b'')))]"
  let ?chart = "[(''image'', JStr ''a''), (''port'', JNum ''80'')]"
  let ?none = "\<lambda>_. Inl (PlainError ''no secret'') :: go_error + secret"
  have opts: "option_map top_level_parser ?none ?p = Inr [(''image'', JStr ''b'')]" by code_simp
  have "isl (getValuesForHelmChart top_level_parser ?none ?chart ?p) = False" by code_simp
  then obtain vals where v: "getValuesForHelmChart top_level_parser ?none ?chart ?p = Inr vals"
    by (cases "getValuesForHelmChart top_level_parser ?none ?chart ?p") auto
  have ok: "keys_ok (JObj ?chart)" by simp
  from options_override_chart [OF top_level_parser_maps ok v] opts
  have at: "\<And>ks x. \<not> is_object x \<Longrightarrow> (value_at vals ks = Some x \<longleftrightarrow> value_at [(''image'', JStr ''b'')] ks = Some x
      \<or> (value_at ?chart ks = Some x \<and> \<not> shadows [(''image'', JStr ''b'')] ks))"
    by (simp only: sum.inject) metis
  have "value_at vals [''image''] = Some (JStr ''b'')" by (subst at) (simp_all add: smap_get_def)
  moreover have "value_at vals [''port''] = Some (JNum ''80'')" by (subst at) (simp_all add: smap_get_def)
  ultimately show ?thesis using v by blast
qed

section \<open>The checksum\<close>

text \<open>Resolving is a function of each value, if it succeeds.\<close>

definition resolve_one :: "(namespaced_name \<Rightarrow> go_error + secret) \<Rightarrow> string \<Rightarrow> plugin_option_value \<Rightarrow> go_error + plugin_option_value" where
  "resolve_one get_secret namespace v =
     (case Option.bind (ov_valueFrom v) pv_secret of
        None \<Rightarrow> Inr v
      | Some ref \<Rightarrow> map_sum id (\<lambda>t. v\<lparr>ov_value := Some (print_json (JStr t))\<rparr>)
          (getValueFromSecret get_secret namespace (sk_name ref) (sk_key ref)))"

lemma resolve_Cons:
  "resolvePluginOptionValueFrom get_secret namespace (v # vs) =
     (case resolve_one get_secret namespace v of
        Inl e \<Rightarrow> Inl e
      | Inr w \<Rightarrow> map_sum id ((#) w) (resolvePluginOptionValueFrom get_secret namespace vs))"
  by (simp add: resolve_one_def map_sum_def split: option.split sum.split)

lemma resolve_Inr_iff:
  "resolvePluginOptionValueFrom get_secret namespace vs = Inr ws \<longleftrightarrow>
     (\<forall>v \<in> set vs. isl (resolve_one get_secret namespace v) = False) \<and> ws = map (projr \<circ> resolve_one get_secret namespace) vs"
proof (induction vs arbitrary: ws)
  case (Cons v vs)
  show ?case
  proof (cases "resolve_one get_secret namespace v")
    case (Inr w)
    show ?thesis
    proof (cases "resolvePluginOptionValueFrom get_secret namespace vs")
      case (Inl e)
      with Cons.IH [of "map (projr \<circ> resolve_one get_secret namespace) vs"]
      have "\<not> (\<forall>v \<in> set vs. isl (resolve_one get_secret namespace v) = False)" by simp
      with Inl Inr show ?thesis by (simp add: resolve_Cons del: resolvePluginOptionValueFrom.simps)
    next
      case (Inr us)
      with Cons.IH [of us] \<open>resolve_one get_secret namespace v = Inr w\<close> show ?thesis
        by (auto simp add: resolve_Cons simp del: resolvePluginOptionValueFrom.simps)
    qed
  qed (simp add: resolve_Cons del: resolvePluginOptionValueFrom.simps)
qed auto

lemma resolve_one_name: "resolve_one get_secret namespace v = Inr w \<Longrightarrow> ov_name w = ov_name v"
  by (auto simp: resolve_one_def map_sum_def split: option.splits sum.splits)

text \<open>
  The checksum of the options of a plugin does not depend on the order in which the options are listed,
  as long as no option is listed twice.
\<close>

theorem checksum_order_irrelevant:
  assumes "mset (ps_optionValues (pl_spec p)) = mset (ps_optionValues (pl_spec q))" and "o_namespace p = o_namespace q"
    and "distinct (map ov_name (ps_optionValues (pl_spec p)))"
    and "CalculatePluginOptionChecksum get_secret p = Inr c"
  shows "CalculatePluginOptionChecksum get_secret q = Inr c"
proof -
  let ?vs = "ps_optionValues (pl_spec p)" and ?vs' = "ps_optionValues (pl_spec q)"
  let ?r = "resolve_one get_secret (o_namespace p)"
  from assms(4) obtain ws where
    ws: "resolvePluginOptionValueFrom get_secret (o_namespace p) ?vs = Inr ws"
    and c: "c = EncodeToString (Sum256 (concat (map checksum_part (sort_key ov_name ws))))"
    by (auto simp: CalculatePluginOptionChecksum_def split: sum.splits)
  from ws have ok: "\<forall>v \<in> set ?vs. isl (?r v) = False" and ws_map: "ws = map (projr \<circ> ?r) ?vs"
    by (auto simp: resolve_Inr_iff)
  define ws' where "ws' = map (projr \<circ> ?r) ?vs'"
  have "set ?vs' = set ?vs" using assms(1) by (metis set_mset_mset)
  with ok have ws': "resolvePluginOptionValueFrom get_secret (o_namespace q) ?vs' = Inr ws'"
    by (simp add: resolve_Inr_iff ws'_def assms(2))
  have names: "map ov_name ws = map ov_name ?vs"
    using ok by (auto simp: ws_map intro!: resolve_one_name [of get_secret "o_namespace p"] dest!: bspec split: sum.splits)
  have "sort_key ov_name ws = sort_key ov_name ws'"
  proof (rule sort_key_inj_key_eq)
    show "mset ws = mset (sort_key ov_name ws')" using assms(1) by (simp add: ws_map ws'_def mset_map)
    from assms(3) names have "distinct (map ov_name ws)" by (simp only:)
    then show "inj_on ov_name (set ws)" by (simp add: distinct_map)
    show "sorted (map ov_name (sort_key ov_name ws'))" by simp
  qed
  with ws' c show ?thesis by (simp add: CalculatePluginOptionChecksum_def)
qed

theorem checksum_order_irrelevant_witness:
  "\<exists>c. CalculatePluginOptionChecksum (\<lambda>_. Inl (PlainError ''no secret''))
         (sample_plugin [plain_value ''b'' (Some ''2''), plain_value ''a'' (Some ''1'')]) = Inr c
     \<and> CalculatePluginOptionChecksum (\<lambda>_. Inl (PlainError ''no secret''))
         (sample_plugin [plain_value ''a'' (Some ''1''), plain_value ''b'' (Some ''2'')]) = Inr c"
proof -
  let ?none = "\<lambda>_. Inl (PlainError ''no secret'') :: go_error + secret"
  let ?p = "sample_plugin [plain_value ''b'' (Some ''2''), plain_value ''a'' (Some ''1'')]"
  let ?q = "sample_plugin [plain_value ''a'' (Some ''1''), plain_value ''b'' (Some ''2'')]"
  obtain c where c: "CalculatePluginOptionChecksum ?none ?p = Inr c"
    by (simp add: CalculatePluginOptionChecksum_def sample_plugin_def plain_value_def map_sum_def)
  have perm: "mset (ps_optionValues (pl_spec ?p)) = mset (ps_optionValues (pl_spec ?q))" "o_namespace ?p = o_namespace ?q"
    "distinct (map ov_name (ps_optionValues (pl_spec ?p)))"
    by (simp_all add: sample_plugin_def plain_value_def)
  from checksum_order_irrelevant [OF perm c] c show ?thesis by blast
qed

text \<open>
  Names and values are hashed without separators, and a reference without its selector: plugins with
  different options have the same checksum.
\<close>

lemma checksum_collision:
  "CalculatePluginOptionChecksum get_secret (sample_plugin [plain_value ''x1'' (Some ''2'')])
   = CalculatePluginOptionChecksum get_secret (sample_plugin [plain_value ''x'' (Some ''12'')])"
  by (simp add: CalculatePluginOptionChecksum_def sample_plugin_def plain_value_def map_sum_def checksum_part_def)

lemma checksum_ignores_selector:
  "checksum_part (v\<lparr>ov_valueFrom := Some \<lparr>pv_secret = None, pv_ref = Some (ref\<lparr>ev_selector := sel\<rparr>)\<rparr>\<rparr>)
   = checksum_part (v\<lparr>ov_valueFrom := Some \<lparr>pv_secret = None, pv_ref = Some ref\<rparr>\<rparr>)"
  by (simp add: checksum_part_def split: option.split)

section \<open>Expressions are substituted one after the other\<close>

text \<open>
  The result of one expression is searched for the placeholders of the later ones: with the value of \<open>a\<close>
  being the text of the placeholder of \<open>b\<close>, that text is replaced as well.
\<close>

lemma placeholders_substituted_again:
  "EvaluateExpression \<lparr>el_eval = (\<lambda>e _. Inr (JStr (if e = ''a'' then ''${b}'' else ''x''))), el_yamlToJSON = Inr\<rparr>
     ''${a}-${b}'' [] = Inr ''x-x''"
  by code_simp

end
