(* ===== verification/Exposed_Services.thy ===== *)
theory Exposed_Services
  imports Exposed_URL
begin

text \<open>
  The services a plugin exposes: objects of the manifest of its Helm release that carry an annotation
  (\<open>internal/helm/manifest.go\<close>; \<open>internal/controller/plugin/plugin_controller.go\<close> and \<open>util.go\<close>). Reading a
  manifest and the conversion of unstructured objects are parameters.
\<close>

section \<open>Objects of a manifest\<close>

record group_version_kind =
  gvk_group :: string
  gvk_version :: string
  gvk_kind :: string

text \<open>The visited objects: \<open>None\<close> as annotations is the nil map, a mapping need not be known.\<close>

record 'b resource_info =
  ri_gvk :: group_version_kind
  ri_mapping :: "group_version_kind option"
  ri_namespace :: string
  ri_name :: string
  ri_annotations :: "string smap option"
  ri_object :: 'b

record object_key =
  ok_gvk :: group_version_kind
  ok_namespace :: string
  ok_name :: string

record 'b manifest_object =
  mo_namespace :: string
  mo_name :: string
  mo_object :: 'b

record manifest_object_filter =
  mf_apiVersion :: string
  mf_kind :: string
  mf_name :: string
  mf_annotations :: "string smap option"

definition Matches :: "manifest_object_filter \<Rightarrow> 'b resource_info \<Rightarrow> bool" where
  "Matches f obj \<longleftrightarrow>
     \<not> (mf_kind f \<noteq> [] \<and> mf_kind f \<noteq> gvk_kind (ri_gvk obj)) \<and>
     \<not> (mf_apiVersion f \<noteq> [] \<and> mf_apiVersion f \<noteq> gvk_version (ri_gvk obj)) \<and>
     \<not> (mf_name f \<noteq> [] \<and> mf_name f \<noteq> ri_name obj) \<and>
     (case mf_annotations f of
        None \<Rightarrow> True
      | Some want \<Rightarrow>
          (case ri_annotations obj of
             None \<Rightarrow> False
           | Some have \<Rightarrow> list_all (\<lambda>(k, v). smap_get have k = Some v) want))"

definition Matches_multiple :: "manifest_object_filter list \<Rightarrow> 'b resource_info \<Rightarrow> bool" where
  "Matches_multiple fs obj \<longleftrightarrow> list_ex (\<lambda>f. Matches f obj) fs"

text \<open>
  A loaded manifest: the objects \<open>Visit\<close> passes on and the error it returns at the end. The map is an
  association list, in the order of first insertion.
\<close>

definition object_key_of :: "'b resource_info \<Rightarrow> object_key" where
  "object_key_of info =
     \<lparr>ok_gvk = (case ri_mapping info of Some g \<Rightarrow> g | None \<Rightarrow> ri_gvk info),
      ok_namespace = ri_namespace info, ok_name = ri_name info\<rparr>"

definition objectMapping ::
  "'b resource_info list \<times> go_error option \<Rightarrow> ('b resource_info \<Rightarrow> bool) option
     \<Rightarrow> (object_key \<times> 'b manifest_object) list \<times> go_error option" where
  "objectMapping r f =
     (foldl (\<lambda>m info.
        if (case f of None \<Rightarrow> False | Some matches \<Rightarrow> \<not> matches info) then m
        else AList.update (object_key_of info)
               \<lparr>mo_namespace = ri_namespace info, mo_name = ri_name info, mo_object = ri_object info\<rparr> m)
        [] (fst r), snd r)"

definition ObjectMapFromManifest ::
  "(string \<Rightarrow> string \<Rightarrow> go_error + ('b resource_info list \<times> go_error option)) \<Rightarrow> string \<Rightarrow> string
     \<Rightarrow> ('b resource_info \<Rightarrow> bool) option \<Rightarrow> (object_key \<times> 'b manifest_object) list \<times> go_error option" where
  "ObjectMapFromManifest load namespace manifest f =
     (case load namespace manifest of
        Inl e \<Rightarrow> ([], Some (WrapError ''error loading manifest'' e))
      | Inr r \<Rightarrow> objectMapping r f)"

record helm_release =
  rel_namespace :: string
  rel_manifest :: string

definition ObjectMapFromRelease ::
  "(string \<Rightarrow> string \<Rightarrow> go_error + ('b resource_info list \<times> go_error option)) \<Rightarrow> helm_release
     \<Rightarrow> manifest_object_filter \<Rightarrow> (object_key \<times> 'b manifest_object) list \<times> go_error option" where
  "ObjectMapFromRelease load r f = ObjectMapFromManifest load (rel_namespace r) (rel_manifest r) (Some (Matches f))"

section \<open>Services and ingresses\<close>

record service_port =
  sp_name :: string
  sp_port :: int
  sp_appProtocol :: "string option"

record k8s_service =
  ks_annotations :: "string smap"
  ks_ports :: "service_port list"

record k8s_ingress =
  ki_annotations :: "string smap"
  ki_hosts :: "string list"
  ki_tls :: "string list list"

definition AnnotationKeyExpose :: string where "AnnotationKeyExpose = ''greenhouse.sap/expose''"
definition AnnotationKeyExposedNamedPort :: string where
  "AnnotationKeyExposedNamedPort = ''greenhouse.sap/exposed-named-port''"
definition AnnotationKeyExposedIngressHost :: string where
  "AnnotationKeyExposedIngressHost = ''greenhouse.sap/exposed-host''"

definition getPortForExposedService :: "('b \<Rightarrow> go_error + k8s_service) \<Rightarrow> 'b \<Rightarrow> go_error + service_port" where
  "getPortForExposedService to_service obj =
     (case to_service obj of
        Inl e \<Rightarrow> Inl e
      | Inr svc \<Rightarrow>
          (case ks_ports svc of
             [] \<Rightarrow> Inl (PlainError ''service has no ports'')
           | first # _ \<Rightarrow>
               (let namedPort = smap_val (ks_annotations svc) AnnotationKeyExposedNamedPort in
                Inr (if namedPort \<noteq> []
                     then (case find (\<lambda>port. sp_name port = namedPort) (ks_ports svc) of Some port \<Rightarrow> port | None \<Rightarrow> first)
                     else first))))"

definition getURLForExposedIngress :: "('b \<Rightarrow> go_error + k8s_ingress) \<Rightarrow> 'b \<Rightarrow> go_error + string" where
  "getURLForExposedIngress to_ingress obj =
     (case to_ingress obj of
        Inl e \<Rightarrow> Inl e
      | Inr ingress \<Rightarrow>
          (case ki_hosts ingress of
             [] \<Rightarrow> Inl (PlainError ''ingress has no rules'')
           | first # _ \<Rightarrow>
               (let specificHost = smap_val (ki_annotations ingress) AnnotationKeyExposedIngressHost;
                    url = (\<lambda>host.
                      (if list_ex (\<lambda>hosts. length hosts = 0 \<or> host \<in> set hosts) (ki_tls ingress) then ''https'' else ''http'')
                        @ ''://'' @ host)
                in if specificHost \<noteq> []
                   then if specificHost \<in> set (ki_hosts ingress) then Inr (url specificHost)
                        else Inl (PlainError (''specified host '' @ quoted specificHost @ '' not found in ingress rules''))
                   else if first = [] then Inl (PlainError ''first ingress rule has no host'')
                   else Inr (url first))))"

record 'b manifest_reader =
  mr_load :: "string \<Rightarrow> string \<Rightarrow> go_error + ('b resource_info list \<times> go_error option)"
  mr_toService :: "'b \<Rightarrow> go_error + k8s_service"
  mr_toIngress :: "'b \<Rightarrow> go_error + k8s_ingress"

definition expose_filter :: "string \<Rightarrow> manifest_object_filter" where
  "expose_filter kind =
     \<lparr>mf_apiVersion = ''v1'', mf_kind = kind, mf_name = [], mf_annotations = Some [(AnnotationKeyExpose, ''true'')]\<rparr>"

definition exposed_namespace :: "helm_release \<Rightarrow> 'b manifest_object \<Rightarrow> string" where
  "exposed_namespace r obj = (if mo_namespace obj = [] then rel_namespace r else mo_namespace obj)"

fun expose_services ::
  "'b manifest_reader \<Rightarrow> string \<Rightarrow> helm_release \<Rightarrow> plugin \<Rightarrow> (object_key \<times> 'b manifest_object) list \<Rightarrow> service smap
     \<Rightarrow> go_error + service smap" where
  "expose_services rd dns r p [] exposed = Inr exposed"
| "expose_services rd dns r p ((_, svc) # svcs) exposed =
     (case getPortForExposedService (mr_toService rd) (mo_object svc) of
        Inl e \<Rightarrow> Inl e
      | Inr svcPort \<Rightarrow>
          expose_services rd dns r p svcs
            (smap_set (URLForExposedServiceInPlugin dns (mo_name svc) p)
               \<lparr>svc_namespace = exposed_namespace r svc, svc_name = mo_name svc, svc_port = sp_port svcPort,
                svc_protocol = sp_appProtocol svcPort, svc_type = ServiceTypeService\<rparr> exposed))"

definition getExposedServicesForPluginFromHelmRelease ::
  "'b manifest_reader \<Rightarrow> string \<Rightarrow> helm_release \<Rightarrow> plugin \<Rightarrow> go_error + service smap" where
  "getExposedServicesForPluginFromHelmRelease rd dns r p =
     (case ObjectMapFromRelease (mr_load rd) r (expose_filter ''Service'') of
        (_, Some e) \<Rightarrow> Inl e
      | (svcs, None) \<Rightarrow>
          if length svcs = 0 then Inr []
          else if ps_clusterName (pl_spec p) = [] then Inl (PlainError ''plugin does not have ClusterName'')
          else expose_services rd dns r p svcs [])"

fun expose_ingresses ::
  "'b manifest_reader \<Rightarrow> helm_release \<Rightarrow> (object_key \<times> 'b manifest_object) list \<Rightarrow> service smap \<Rightarrow> go_error + service smap" where
  "expose_ingresses rd r [] exposed = Inr exposed"
| "expose_ingresses rd r ((_, ingress) # ingresses) exposed =
     (case getURLForExposedIngress (mr_toIngress rd) (mo_object ingress) of
        Inl e \<Rightarrow> Inl e
      | Inr fullURL \<Rightarrow>
          expose_ingresses rd r ingresses
            (smap_set fullURL
               \<lparr>svc_namespace = exposed_namespace r ingress, svc_name = mo_name ingress, svc_port = 0,
                svc_protocol = None, svc_type = ServiceTypeIngress\<rparr> exposed))"

definition getExposedIngressesForPluginFromHelmRelease ::
  "'b manifest_reader \<Rightarrow> helm_release \<Rightarrow> go_error + service smap" where
  "getExposedIngressesForPluginFromHelmRelease rd r =
     (case ObjectMapFromRelease (mr_load rd) r (expose_filter ''Ingress'') of
        (_, Some e) \<Rightarrow> Inl e
      | (ingresses, None) \<Rightarrow> expose_ingresses rd r ingresses [])"

text \<open>\<open>maps.Copy\<close>.\<close>

definition maps_Copy :: "'v smap \<Rightarrow> 'v smap \<Rightarrow> 'v smap" where
  "maps_Copy dst src = fold (\<lambda>(k, v). smap_set k v) src dst"

definition getAllExposedServicesForPlugin ::
  "'b manifest_reader \<Rightarrow> string \<Rightarrow> helm_release \<Rightarrow> plugin \<Rightarrow> bool \<Rightarrow> go_error + service smap" where
  "getAllExposedServicesForPlugin rd dns r p exposeServices =
     (let services = (if exposeServices then getExposedServicesForPluginFromHelmRelease rd dns r p else Inr []);
          ingresses = getExposedIngressesForPluginFromHelmRelease rd r;
          messages = (case services of Inl e \<Rightarrow> [''services: '' @ error_text e] | Inr _ \<Rightarrow> [])
            @ (case ingresses of Inl e \<Rightarrow> [''ingresses: '' @ error_text e] | Inr _ \<Rightarrow> [])
      in case (services, ingresses) of
           (Inr svcs, Inr ings) \<Rightarrow> Inr (maps_Copy (maps_Copy [] svcs) ings)
         | _ \<Rightarrow> Inl (PlainError (''failed to get exposed resources: '' @ Join messages ''; '')))"

section \<open>The exposed services of a release\<close>

lemma smap_get_maps_Copy: "smap_get (maps_Copy dst src) u = (case map_of (rev src) u of Some v \<Rightarrow> Some v | None \<Rightarrow> smap_get dst u)"
  by (simp add: maps_Copy_def sm.get_fold_upd split: option.split)

definition manifest_object_of :: "'b resource_info \<Rightarrow> 'b manifest_object" where
  "manifest_object_of info = \<lparr>mo_namespace = ri_namespace info, mo_name = ri_name info, mo_object = ri_object info\<rparr>"

lemma update_fresh: "k \<notin> fst ` set m \<Longrightarrow> AList.update k v m = m @ [(k, v)]"
  by (induction m) auto

lemma objectMapping_filter:
  "distinct (map object_key_of infos) \<Longrightarrow>
     objectMapping (infos, err) (Some P) = (map (\<lambda>i. (object_key_of i, manifest_object_of i)) (filter P infos), err)"
proof (induction infos rule: rev_induct)
  case (snoc i infos)
  then have "object_key_of i \<notin> object_key_of ` set infos" by simp
  then have "object_key_of i \<notin> fst ` set (map (\<lambda>i. (object_key_of i, manifest_object_of i)) (filter P infos))" by auto
  with snoc show ?case by (auto simp: objectMapping_def update_fresh manifest_object_of_def)
qed (simp add: objectMapping_def)

text \<open>The entry of one object.\<close>

definition service_entry :: "'b manifest_reader \<Rightarrow> string \<Rightarrow> helm_release \<Rightarrow> plugin \<Rightarrow> 'b manifest_object \<Rightarrow> go_error + (string \<times> service)" where
  "service_entry rd dns r p obj =
     map_sum id (\<lambda>port. (URLForExposedServiceInPlugin dns (mo_name obj) p,
        \<lparr>svc_namespace = exposed_namespace r obj, svc_name = mo_name obj, svc_port = sp_port port,
         svc_protocol = sp_appProtocol port, svc_type = ServiceTypeService\<rparr>))
       (getPortForExposedService (mr_toService rd) (mo_object obj))"

definition ingress_entry :: "'b manifest_reader \<Rightarrow> helm_release \<Rightarrow> 'b manifest_object \<Rightarrow> go_error + (string \<times> service)" where
  "ingress_entry rd r obj =
     map_sum id (\<lambda>u. (u, \<lparr>svc_namespace = exposed_namespace r obj, svc_name = mo_name obj, svc_port = 0,
         svc_protocol = None, svc_type = ServiceTypeIngress\<rparr>))
       (getURLForExposedIngress (mr_toIngress rd) (mo_object obj))"

text \<open>Both loops stop at the first object without an entry and otherwise set all entries in order.\<close>

locale entry_loop =
  fixes entry :: "'x \<Rightarrow> go_error + (string \<times> 'v)"
    and loop :: "'x list \<Rightarrow> 'v smap \<Rightarrow> go_error + 'v smap"
  assumes loop_Nil: "loop [] acc = Inr acc"
    and loop_Cons: "loop (x # xs) acc = (case entry x of Inl e \<Rightarrow> Inl e | Inr (k, v) \<Rightarrow> loop xs (smap_set k v acc))"
begin

lemma loop_Inr:
  "loop xs acc = Inr m \<Longrightarrow> \<exists>es. map entry xs = map Inr es \<and> m = fold (\<lambda>(k, v). smap_set k v) es acc"
proof (induction xs arbitrary: acc)
  case (Cons x xs)
  then obtain e where e: "entry x = Inr e" "loop xs (smap_set (fst e) (snd e) acc) = Inr m"
    by (auto simp: loop_Cons split: sum.splits prod.splits)
  from Cons.IH [OF e(2)] obtain es where "map entry xs = map Inr es"
    "m = fold (\<lambda>(k, v). smap_set k v) es (smap_set (fst e) (snd e) acc)" by blast
  with e(1) show ?case by (intro exI [of _ "e # es"]) (simp add: case_prod_unfold)
qed (simp add: loop_Nil)

end

interpretation svc: entry_loop "service_entry rd dns r p \<circ> snd" "expose_services rd dns r p" for rd dns r p
  by unfold_locales (auto simp: service_entry_def split: sum.splits)

interpretation ing: entry_loop "ingress_entry rd r \<circ> snd" "expose_ingresses rd r" for rd r
  by unfold_locales (auto simp: ingress_entry_def split: sum.splits)

lemma map_of_rev_fold_set:
  "map_of (rev (fold (\<lambda>(k, v). smap_set k v) es [])) u = map_of (rev es) u"
proof -
  let ?m = "fold (\<lambda>(k, v). smap_set k v) es []"
  have "smap_ok ?m" by (rule sm.invar_fold_upd) (simp add: smap_ok_def)
  then have "map_of (rev ?m) = map_of ?m" by (subst map_of_inject_set) (auto simp: smap_ok_def rev_map [symmetric])
  then show ?thesis using sm.get_fold_upd [of es "[]" u] by (simp add: smap_get_def split: option.splits)
qed

text \<open>An object of the release is exposed as a service under a URL.\<close>

definition exposed_as ::
  "'b manifest_reader \<Rightarrow> string \<Rightarrow> helm_release \<Rightarrow> plugin \<Rightarrow> bool \<Rightarrow> 'b resource_info \<Rightarrow> string \<times> service \<Rightarrow> bool" where
  "exposed_as rd dns r p exposeServices info e \<longleftrightarrow>
     (exposeServices \<and> Matches (expose_filter ''Service'') info \<and> service_entry rd dns r p (manifest_object_of info) = Inr e) \<or>
     (Matches (expose_filter ''Ingress'') info \<and> ingress_entry rd r (manifest_object_of info) = Inr e)"

lemma exposed_entries:
  assumes "mr_load rd (rel_namespace r) (rel_manifest r) = Inr (infos, None)" and "distinct (map object_key_of infos)"
    and "getAllExposedServicesForPlugin rd dns r p exposeServices = Inr m"
  obtains svcs ings where
    "map (service_entry rd dns r p \<circ> manifest_object_of)
       (if exposeServices then filter (Matches (expose_filter ''Service'')) infos else []) = map Inr svcs"
    "map (ingress_entry rd r \<circ> manifest_object_of) (filter (Matches (expose_filter ''Ingress'')) infos) = map Inr ings"
    "\<And>u. smap_get m u = map_of (rev (svcs @ ings)) u"
proof -
  from assms(3) obtain ms mi where
    ms: "(if exposeServices then getExposedServicesForPluginFromHelmRelease rd dns r p else Inr []) = Inr ms"
    and mi: "getExposedIngressesForPluginFromHelmRelease rd r = Inr mi" and m: "m = maps_Copy (maps_Copy [] ms) mi"
    by (auto simp: getAllExposedServicesForPlugin_def Let_def split: sum.splits)
  note objs = ObjectMapFromRelease_def ObjectMapFromManifest_def assms(1) objectMapping_filter [OF assms(2)]
  from mi obtain ings where
    ings: "map (ingress_entry rd r \<circ> manifest_object_of) (filter (Matches (expose_filter ''Ingress'')) infos) = map Inr ings"
    "mi = fold (\<lambda>(k, v). smap_set k v) ings []"
    by (auto simp: getExposedIngressesForPluginFromHelmRelease_def objs comp_def dest!: ing.loop_Inr)
  obtain svcs where
    svcs: "map (service_entry rd dns r p \<circ> manifest_object_of)
       (if exposeServices then filter (Matches (expose_filter ''Service'')) infos else []) = map Inr svcs"
    "ms = fold (\<lambda>(k, v). smap_set k v) svcs []"
  proof (cases exposeServices)
    case True
    with ms show ?thesis
      by (auto simp: getExposedServicesForPluginFromHelmRelease_def objs comp_def filter_empty_conv
          dest!: svc.loop_Inr split: if_splits intro: that)
  qed (use ms that in auto)
  show ?thesis
    by (rule that [OF svcs(1) ings(1)])
      (simp add: m smap_get_maps_Copy svcs(2) ings(2) map_of_rev_fold_set map_add_def split: option.splits)
qed

lemma map_Inr_members:
  assumes "map f xs = map Inr es"
  shows "e \<in> set es \<longleftrightarrow> (\<exists>x \<in> set xs. f x = Inr e)" and "x \<in> set xs \<Longrightarrow> \<exists>e \<in> set es. f x = Inr e"
proof -
  from assms have *: "f ` set xs = Inr ` set es" by (metis list.set_map)
  then show "e \<in> set es \<longleftrightarrow> (\<exists>x \<in> set xs. f x = Inr e)" by (metis (no_types, lifting) image_iff sum.inject(2))
  show "x \<in> set xs \<Longrightarrow> \<exists>e \<in> set es. f x = Inr e" using * by blast
qed

text \<open>
  The exposed services in the status of a plugin are those of the release: every entry is that of an
  annotated service or ingress of the manifest, under the URL computed for it, and for every annotated object
  there is an entry under its URL. Services count only where the cluster has exposing switched on.
\<close>

theorem exposed_services_exact:
  assumes "mr_load rd (rel_namespace r) (rel_manifest r) = Inr (infos, None)" and "distinct (map object_key_of infos)"
    and "getAllExposedServicesForPlugin rd dns r p exposeServices = Inr m"
  shows "(\<forall>u svc. smap_get m u = Some svc \<longrightarrow> (\<exists>info \<in> set infos. exposed_as rd dns r p exposeServices info (u, svc)))
    \<and> (\<forall>info \<in> set infos. (exposeServices \<and> Matches (expose_filter ''Service'') info) \<or> Matches (expose_filter ''Ingress'') info \<longrightarrow>
         (\<exists>u svc svc'. exposed_as rd dns r p exposeServices info (u, svc) \<and> smap_get m u = Some svc'))"
proof -
  let ?S = "if exposeServices then filter (Matches (expose_filter ''Service'')) infos else []"
  let ?I = "filter (Matches (expose_filter ''Ingress'')) infos"
  from exposed_entries [OF assms] obtain svcs ings where
    svcs: "map (service_entry rd dns r p \<circ> manifest_object_of) ?S = map Inr svcs"
    and ings: "map (ingress_entry rd r \<circ> manifest_object_of) ?I = map Inr ings"
    and m: "\<And>u. smap_get m u = map_of (rev (svcs @ ings)) u" by blast
  have as: "exposed_as rd dns r p exposeServices info e \<longleftrightarrow>
      (info \<in> set ?S \<and> service_entry rd dns r p (manifest_object_of info) = Inr e) \<or>
      (info \<in> set ?I \<and> ingress_entry rd r (manifest_object_of info) = Inr e)" if "info \<in> set infos" for info e
    using that by (auto simp: exposed_as_def)
  have sub: "set ?S \<subseteq> set infos" "set ?I \<subseteq> set infos" by auto
  have "\<exists>info \<in> set infos. exposed_as rd dns r p exposeServices info (u, svc)" if "smap_get m u = Some svc" for u svc
  proof -
    from that have "(u, svc) \<in> set svcs \<union> set ings" unfolding m by (auto dest!: map_of_SomeD simp del: map_of_append rev_append)
    with map_Inr_members(1) [OF svcs, of "(u, svc)"] map_Inr_members(1) [OF ings, of "(u, svc)"] sub
    obtain info where "info \<in> set infos" "(info \<in> set ?S \<and> service_entry rd dns r p (manifest_object_of info) = Inr (u, svc))
      \<or> (info \<in> set ?I \<and> ingress_entry rd r (manifest_object_of info) = Inr (u, svc))" by (simp only: comp_apply) blast
    with as show ?thesis by blast
  qed
  moreover have "\<exists>u svc svc'. exposed_as rd dns r p exposeServices info (u, svc) \<and> smap_get m u = Some svc'"
    if info: "info \<in> set infos" "info \<in> set ?S \<union> set ?I" for info
  proof -
    from info(2) obtain e where e: "e \<in> set svcs \<union> set ings" "exposed_as rd dns r p exposeServices info e"
      using map_Inr_members(2) [OF svcs, of info] map_Inr_members(2) [OF ings, of info] as [OF info(1)]
      by (simp only: comp_apply) blast
    then have "map_of (rev (svcs @ ings)) (fst e) \<noteq> None" by (auto simp: map_of_eq_None_iff rev_image_eqI)
    with e m show ?thesis by (metis not_None_eq prod.collapse)
  qed
  ultimately show ?thesis by auto
qed

text \<open>A release with an annotated service, one without the annotation, and an annotated ingress.\<close>

definition sample_info :: "string \<Rightarrow> string \<Rightarrow> bool \<Rightarrow> (k8s_service + k8s_ingress) \<Rightarrow> (k8s_service + k8s_ingress) resource_info" where
  "sample_info kind name exposed obj =
     \<lparr>ri_gvk = \<lparr>gvk_group = [], gvk_version = ''v1'', gvk_kind = kind\<rparr>, ri_mapping = None, ri_namespace = [],
      ri_name = name, ri_annotations = (if exposed then Some [(AnnotationKeyExpose, ''true'')] else None), ri_object = obj\<rparr>"

definition sample_objects :: "(k8s_service + k8s_ingress) resource_info list" where
  "sample_objects =
     (let svc = Inl \<lparr>ks_annotations = [(AnnotationKeyExposedNamedPort, ''web'')],
                ks_ports = [\<lparr>sp_name = ''metrics'', sp_port = 9090, sp_appProtocol = None\<rparr>,
                            \<lparr>sp_name = ''web'', sp_port = 80, sp_appProtocol = Some ''http''\<rparr>]\<rparr>
      in [sample_info ''Service'' ''ui'' True svc, sample_info ''Service'' ''internal'' False svc,
          sample_info ''Ingress'' ''ui'' True (Inr \<lparr>ki_annotations = [], ki_hosts = [''ui.example.com''],
            ki_tls = [[''ui.example.com'']]\<rparr>)])"

definition sample_reader :: "(k8s_service + k8s_ingress) manifest_reader" where
  "sample_reader =
     \<lparr>mr_load = (\<lambda>_ _. Inr (sample_objects, None)),
      mr_toService = (\<lambda>obj. case obj of Inl svc \<Rightarrow> Inr svc | Inr _ \<Rightarrow> Inl (PlainError ''no service'')),
      mr_toIngress = (\<lambda>obj. case obj of Inr ing \<Rightarrow> Inr ing | Inl _ \<Rightarrow> Inl (PlainError ''no ingress''))\<rparr>"

theorem exposed_services_exact_witness:
  "\<exists>m u svc. getAllExposedServicesForPlugin sample_reader ''example.com'' \<lparr>rel_namespace = ''ns'', rel_manifest = []\<rparr>
       (zero_plugin\<lparr>pl_spec := zero_plugin_spec\<lparr>ps_clusterName := ''eu''\<rparr>\<rparr>) False = Inr m
     \<and> exposed_as sample_reader ''example.com'' \<lparr>rel_namespace = ''ns'', rel_manifest = []\<rparr>
          (zero_plugin\<lparr>pl_spec := zero_plugin_spec\<lparr>ps_clusterName := ''eu''\<rparr>\<rparr>) False (sample_objects ! 2) (u, svc)
     \<and> smap_get m u \<noteq> None"
proof -
  let ?r = "\<lparr>rel_namespace = ''ns'', rel_manifest = []\<rparr>" and ?p = "zero_plugin\<lparr>pl_spec := zero_plugin_spec\<lparr>ps_clusterName := ''eu''\<rparr>\<rparr>"
  have "isl (getAllExposedServicesForPlugin sample_reader ''example.com'' ?r ?p False) = False" by code_simp
  then obtain m where m: "getAllExposedServicesForPlugin sample_reader ''example.com'' ?r ?p False = Inr m"
    by (cases "getAllExposedServicesForPlugin sample_reader ''example.com'' ?r ?p False") auto
  have load: "mr_load sample_reader (rel_namespace ?r) (rel_manifest ?r) = Inr (sample_objects, None)"
    by (simp add: sample_reader_def)
  have "distinct (map object_key_of sample_objects) \<and> Matches (expose_filter ''Ingress'') (sample_objects ! 2)
      \<and> length sample_objects = 3" by code_simp
  moreover from this have "sample_objects ! 2 \<in> set sample_objects" by (intro nth_mem) simp
  ultimately show ?thesis using exposed_services_exact [OF load _ m] m by blast
qed

text \<open>
  The URL of a service does not contain the namespace of the service: of two exposed services of one name
  only one gets an entry. The filter does not look at the API group: a service of another API is treated as a
  core service.
\<close>

lemma exposed_same_name:
  assumes "service_entry rd dns r p a = Inr (u, svc)" "service_entry rd dns r p b = Inr (u', svc')" "mo_name a = mo_name b"
  shows "u = u'"
  using assms by (auto simp: service_entry_def map_sum_def split: sum.splits)

lemma Matches_ignores_group: "Matches f (info\<lparr>ri_gvk := (ri_gvk info)\<lparr>gvk_group := g\<rparr>\<rparr>) \<longleftrightarrow> Matches f info"
  by (simp add: Matches_def split: option.split)

end
