(* ===== verification/Helm_Release.thy ===== *)
theory Helm_Release
  imports Plugin_Types
begin

text \<open>
  The specification of a Flux \<open>HelmRelease\<close> and the builder for it (\<open>internal/flux/helm_release_builder.go\<close>).
  The builder changes its specification in place; here each method returns it. Durations are in seconds. Of
  the types of the Flux API the model has the fields the program writes.
\<close>

record source_reference =
  sr_kind :: string
  sr_name :: string
  sr_namespace :: string

record chart_template =
  ct_chart :: string
  ct_version :: string
  ct_sourceRef :: source_reference

record helm_install =
  hi_createNamespace :: bool
  hi_timeout :: "int option"
  hi_retries :: int

record helm_upgrade =
  hu_crds :: string
  hu_timeout :: "int option"
  hu_retries :: int

record helm_test =
  ht_enable :: bool
  ht_timeout :: "int option"

record ignore_rule =
  ir_target :: ignore_difference
  ir_paths :: "string list"

record drift_detection =
  dd_mode :: string
  dd_ignore :: "ignore_rule list"

record values_reference =
  vr_kind :: string
  vr_name :: string
  vr_valuesKey :: string
  vr_targetPath :: string

record kustomize_image =
  kim_name :: string
  kim_newName :: string

type_synonym post_renderer = "kustomize_image list"

record helm_release_spec =
  hs_chartRef :: "source_reference option"
  hs_chart :: "chart_template option"
  hs_interval :: int
  hs_timeout :: "int option"
  hs_maxHistory :: "int option"
  hs_values :: string
  hs_valuesFrom :: "values_reference list"
  hs_releaseName :: string
  hs_storageNamespace :: string
  hs_targetNamespace :: string
  hs_install :: helm_install
  hs_upgrade :: helm_upgrade
  hs_rollback :: "int option"
  hs_driftDetection :: drift_detection
  hs_suspend :: bool
  hs_test :: helm_test
  hs_uninstall :: "int option"
  hs_dependsOn :: "string list"
  hs_kubeConfig :: "secret_key_reference option"
  hs_postRenderers :: "post_renderer list"

definition DefaultInterval :: int where "DefaultInterval = 300"
definition DefaultTimeout :: int where "DefaultTimeout = 300"
definition DefaultRetry :: int where "DefaultRetry = 3"
definition DriftDetectionEnabled :: string where "DriftDetectionEnabled = ''enabled''"

definition zero_release_spec :: helm_release_spec where
  "zero_release_spec =
     \<lparr>hs_chartRef = None, hs_chart = None, hs_interval = 0, hs_timeout = None, hs_maxHistory = None, hs_values = [],
      hs_valuesFrom = [], hs_releaseName = [], hs_storageNamespace = [], hs_targetNamespace = [],
      hs_install = \<lparr>hi_createNamespace = False, hi_timeout = None, hi_retries = 0\<rparr>,
      hs_upgrade = \<lparr>hu_crds = [], hu_timeout = None, hu_retries = 0\<rparr>, hs_rollback = None,
      hs_driftDetection = \<lparr>dd_mode = [], dd_ignore = []\<rparr>, hs_suspend = False,
      hs_test = \<lparr>ht_enable = False, ht_timeout = None\<rparr>, hs_uninstall = None, hs_dependsOn = [],
      hs_kubeConfig = None, hs_postRenderers = []\<rparr>"

definition NewHelmReleaseSpecBuilder :: helm_release_spec where
  "NewHelmReleaseSpecBuilder = zero_release_spec"

definition WithHelmChartRef :: "source_reference option \<Rightarrow> helm_release_spec \<Rightarrow> helm_release_spec" where
  "WithHelmChartRef r b = (case r of None \<Rightarrow> b | Some _ \<Rightarrow> b\<lparr>hs_chartRef := r\<rparr>)"

definition WithChart :: "chart_template \<Rightarrow> helm_release_spec \<Rightarrow> helm_release_spec" where
  "WithChart r b = b\<lparr>hs_chart := Some r\<rparr>"

definition WithMaxHistory :: "int \<Rightarrow> helm_release_spec \<Rightarrow> helm_release_spec" where
  "WithMaxHistory num b = (if num < 0 then b else b\<lparr>hs_maxHistory := Some num\<rparr>)"

definition WithInterval :: "int \<Rightarrow> helm_release_spec \<Rightarrow> helm_release_spec" where
  "WithInterval d b = (if d \<le> 0 then b else b\<lparr>hs_interval := d\<rparr>)"

definition WithTimeout :: "int \<Rightarrow> helm_release_spec \<Rightarrow> helm_release_spec" where
  "WithTimeout d b = (if d \<le> 0 then b else b\<lparr>hs_timeout := Some d\<rparr>)"

definition WithValues :: "string option \<Rightarrow> helm_release_spec \<Rightarrow> helm_release_spec" where
  "WithValues v b = (case v of None \<Rightarrow> b | Some raw \<Rightarrow> b\<lparr>hs_values := raw\<rparr>)"

definition WithValuesFrom :: "values_reference list \<Rightarrow> helm_release_spec \<Rightarrow> helm_release_spec" where
  "WithValuesFrom refs b = (if length refs = 0 then b else b\<lparr>hs_valuesFrom := refs\<rparr>)"

definition WithReleaseName :: "string \<Rightarrow> helm_release_spec \<Rightarrow> helm_release_spec" where
  "WithReleaseName n b = (if n = [] then b else b\<lparr>hs_releaseName := n\<rparr>)"

definition WithStorageNamespace :: "string \<Rightarrow> helm_release_spec \<Rightarrow> helm_release_spec" where
  "WithStorageNamespace n b = (if n = [] then b else b\<lparr>hs_storageNamespace := n\<rparr>)"

definition WithTargetNamespace :: "string \<Rightarrow> helm_release_spec \<Rightarrow> helm_release_spec" where
  "WithTargetNamespace n b = (if n = [] then b else b\<lparr>hs_targetNamespace := n\<rparr>)"

definition WithInstall :: "helm_install option \<Rightarrow> helm_release_spec \<Rightarrow> helm_release_spec" where
  "WithInstall i b =
     b\<lparr>hs_install := (case i of
         None \<Rightarrow> \<lparr>hi_createNamespace = False, hi_timeout = Some DefaultTimeout, hi_retries = DefaultRetry\<rparr>
       | Some i \<Rightarrow> i)\<rparr>"

definition WithUpgrade :: "helm_upgrade option \<Rightarrow> helm_release_spec \<Rightarrow> helm_release_spec" where
  "WithUpgrade u b =
     b\<lparr>hs_upgrade := (case u of
         None \<Rightarrow> \<lparr>hu_crds = [], hu_timeout = Some DefaultTimeout, hu_retries = DefaultRetry\<rparr>
       | Some u \<Rightarrow> u)\<rparr>"

text \<open>The configurations of rollback and uninstall have a timeout only.\<close>

definition WithRollback :: "int option \<Rightarrow> helm_release_spec \<Rightarrow> helm_release_spec" where
  "WithRollback r b = b\<lparr>hs_rollback := Some (case r of None \<Rightarrow> DefaultTimeout | Some t \<Rightarrow> t)\<rparr>"

definition WithUninstall :: "int option \<Rightarrow> helm_release_spec \<Rightarrow> helm_release_spec" where
  "WithUninstall u b = b\<lparr>hs_uninstall := Some (case u of None \<Rightarrow> DefaultTimeout | Some t \<Rightarrow> t)\<rparr>"

definition WithDriftDetection :: "drift_detection option \<Rightarrow> helm_release_spec \<Rightarrow> helm_release_spec" where
  "WithDriftDetection d b =
     b\<lparr>hs_driftDetection := (case d of None \<Rightarrow> \<lparr>dd_mode = DriftDetectionEnabled, dd_ignore = []\<rparr> | Some d \<Rightarrow> d)\<rparr>"

definition WithSuspend :: "bool \<Rightarrow> helm_release_spec \<Rightarrow> helm_release_spec" where
  "WithSuspend s b = b\<lparr>hs_suspend := s\<rparr>"

definition WithTest :: "helm_test option \<Rightarrow> helm_release_spec \<Rightarrow> helm_release_spec" where
  "WithTest t b =
     (let test = (case t of None \<Rightarrow> \<lparr>ht_enable = True, ht_timeout = Some DefaultTimeout\<rparr> | Some t \<Rightarrow> t) in
      if \<not> ht_enable test then b else b\<lparr>hs_test := test\<rparr>)"

definition WithDependsOn :: "string list \<Rightarrow> helm_release_spec \<Rightarrow> helm_release_spec" where
  "WithDependsOn deps b = (if length deps = 0 then b else b\<lparr>hs_dependsOn := deps\<rparr>)"

definition WithKubeConfig :: "secret_key_reference \<Rightarrow> helm_release_spec \<Rightarrow> helm_release_spec" where
  "WithKubeConfig kc b = (if sk_name kc = [] then b else b\<lparr>hs_kubeConfig := Some kc\<rparr>)"

definition WithPostRenderers :: "post_renderer list \<Rightarrow> helm_release_spec \<Rightarrow> helm_release_spec" where
  "WithPostRenderers rs b = (if length rs = 0 then b else b\<lparr>hs_postRenderers := rs\<rparr>)"

definition Build :: "helm_release_spec \<Rightarrow> go_error + helm_release_spec" where
  "Build b = (case hs_chartRef b of None \<Rightarrow> Inl (PlainError ''chartRef must be set'') | Some _ \<Rightarrow> Inr b)"

lemmas builder_defs =
  NewHelmReleaseSpecBuilder_def WithHelmChartRef_def WithChart_def WithMaxHistory_def WithInterval_def
  WithTimeout_def WithValues_def WithValuesFrom_def WithReleaseName_def WithStorageNamespace_def
  WithTargetNamespace_def WithInstall_def WithUpgrade_def WithRollback_def WithUninstall_def
  WithDriftDetection_def WithSuspend_def WithTest_def WithDependsOn_def WithKubeConfig_def
  WithPostRenderers_def Build_def zero_release_spec_def

section \<open>Fields\<close>

text \<open>What each method does to the fields that depend on the plugin: it sets its own and keeps the others.\<close>

named_theorems builder_fields

lemma WithHelmChartRef_fields [builder_fields]:
  "hs_chartRef (WithHelmChartRef x b) = (case x of None \<Rightarrow> hs_chartRef b | Some _ \<Rightarrow> x)" "hs_releaseName (WithHelmChartRef x b) = hs_releaseName b"
  "hs_targetNamespace (WithHelmChartRef x b) = hs_targetNamespace b" "hs_storageNamespace (WithHelmChartRef x b) = hs_storageNamespace b"
  "hs_kubeConfig (WithHelmChartRef x b) = hs_kubeConfig b" "hs_dependsOn (WithHelmChartRef x b) = hs_dependsOn b"
  "hs_values (WithHelmChartRef x b) = hs_values b" "hs_valuesFrom (WithHelmChartRef x b) = hs_valuesFrom b"
  "hs_suspend (WithHelmChartRef x b) = hs_suspend b" "hs_postRenderers (WithHelmChartRef x b) = hs_postRenderers b"
  by (simp_all add: WithHelmChartRef_def Let_def split: option.split)

lemma WithChart_fields [builder_fields]:
  "hs_chartRef (WithChart x b) = hs_chartRef b" "hs_releaseName (WithChart x b) = hs_releaseName b"
  "hs_targetNamespace (WithChart x b) = hs_targetNamespace b" "hs_storageNamespace (WithChart x b) = hs_storageNamespace b"
  "hs_kubeConfig (WithChart x b) = hs_kubeConfig b" "hs_dependsOn (WithChart x b) = hs_dependsOn b"
  "hs_values (WithChart x b) = hs_values b" "hs_valuesFrom (WithChart x b) = hs_valuesFrom b"
  "hs_suspend (WithChart x b) = hs_suspend b" "hs_postRenderers (WithChart x b) = hs_postRenderers b"
  by (simp_all add: WithChart_def Let_def split: option.split)

lemma WithMaxHistory_fields [builder_fields]:
  "hs_chartRef (WithMaxHistory x b) = hs_chartRef b" "hs_releaseName (WithMaxHistory x b) = hs_releaseName b"
  "hs_targetNamespace (WithMaxHistory x b) = hs_targetNamespace b" "hs_storageNamespace (WithMaxHistory x b) = hs_storageNamespace b"
  "hs_kubeConfig (WithMaxHistory x b) = hs_kubeConfig b" "hs_dependsOn (WithMaxHistory x b) = hs_dependsOn b"
  "hs_values (WithMaxHistory x b) = hs_values b" "hs_valuesFrom (WithMaxHistory x b) = hs_valuesFrom b"
  "hs_suspend (WithMaxHistory x b) = hs_suspend b" "hs_postRenderers (WithMaxHistory x b) = hs_postRenderers b"
  by (simp_all add: WithMaxHistory_def Let_def split: option.split)

lemma WithInterval_fields [builder_fields]:
  "hs_chartRef (WithInterval x b) = hs_chartRef b" "hs_releaseName (WithInterval x b) = hs_releaseName b"
  "hs_targetNamespace (WithInterval x b) = hs_targetNamespace b" "hs_storageNamespace (WithInterval x b) = hs_storageNamespace b"
  "hs_kubeConfig (WithInterval x b) = hs_kubeConfig b" "hs_dependsOn (WithInterval x b) = hs_dependsOn b"
  "hs_values (WithInterval x b) = hs_values b" "hs_valuesFrom (WithInterval x b) = hs_valuesFrom b"
  "hs_suspend (WithInterval x b) = hs_suspend b" "hs_postRenderers (WithInterval x b) = hs_postRenderers b"
  by (simp_all add: WithInterval_def Let_def split: option.split)

lemma WithTimeout_fields [builder_fields]:
  "hs_chartRef (WithTimeout x b) = hs_chartRef b" "hs_releaseName (WithTimeout x b) = hs_releaseName b"
  "hs_targetNamespace (WithTimeout x b) = hs_targetNamespace b" "hs_storageNamespace (WithTimeout x b) = hs_storageNamespace b"
  "hs_kubeConfig (WithTimeout x b) = hs_kubeConfig b" "hs_dependsOn (WithTimeout x b) = hs_dependsOn b"
  "hs_values (WithTimeout x b) = hs_values b" "hs_valuesFrom (WithTimeout x b) = hs_valuesFrom b"
  "hs_suspend (WithTimeout x b) = hs_suspend b" "hs_postRenderers (WithTimeout x b) = hs_postRenderers b"
  by (simp_all add: WithTimeout_def Let_def split: option.split)

lemma WithValues_fields [builder_fields]:
  "hs_chartRef (WithValues x b) = hs_chartRef b" "hs_releaseName (WithValues x b) = hs_releaseName b"
  "hs_targetNamespace (WithValues x b) = hs_targetNamespace b" "hs_storageNamespace (WithValues x b) = hs_storageNamespace b"
  "hs_kubeConfig (WithValues x b) = hs_kubeConfig b" "hs_dependsOn (WithValues x b) = hs_dependsOn b"
  "hs_values (WithValues x b) = (case x of None \<Rightarrow> hs_values b | Some raw \<Rightarrow> raw)" "hs_valuesFrom (WithValues x b) = hs_valuesFrom b"
  "hs_suspend (WithValues x b) = hs_suspend b" "hs_postRenderers (WithValues x b) = hs_postRenderers b"
  by (simp_all add: WithValues_def Let_def split: option.split)

lemma WithValuesFrom_fields [builder_fields]:
  "hs_chartRef (WithValuesFrom x b) = hs_chartRef b" "hs_releaseName (WithValuesFrom x b) = hs_releaseName b"
  "hs_targetNamespace (WithValuesFrom x b) = hs_targetNamespace b" "hs_storageNamespace (WithValuesFrom x b) = hs_storageNamespace b"
  "hs_kubeConfig (WithValuesFrom x b) = hs_kubeConfig b" "hs_dependsOn (WithValuesFrom x b) = hs_dependsOn b"
  "hs_values (WithValuesFrom x b) = hs_values b" "hs_valuesFrom (WithValuesFrom x b) = (if x = [] then hs_valuesFrom b else x)"
  "hs_suspend (WithValuesFrom x b) = hs_suspend b" "hs_postRenderers (WithValuesFrom x b) = hs_postRenderers b"
  by (simp_all add: WithValuesFrom_def Let_def split: option.split)

lemma WithReleaseName_fields [builder_fields]:
  "hs_chartRef (WithReleaseName x b) = hs_chartRef b" "hs_releaseName (WithReleaseName x b) = (if x = [] then hs_releaseName b else x)"
  "hs_targetNamespace (WithReleaseName x b) = hs_targetNamespace b" "hs_storageNamespace (WithReleaseName x b) = hs_storageNamespace b"
  "hs_kubeConfig (WithReleaseName x b) = hs_kubeConfig b" "hs_dependsOn (WithReleaseName x b) = hs_dependsOn b"
  "hs_values (WithReleaseName x b) = hs_values b" "hs_valuesFrom (WithReleaseName x b) = hs_valuesFrom b"
  "hs_suspend (WithReleaseName x b) = hs_suspend b" "hs_postRenderers (WithReleaseName x b) = hs_postRenderers b"
  by (simp_all add: WithReleaseName_def Let_def split: option.split)

lemma WithStorageNamespace_fields [builder_fields]:
  "hs_chartRef (WithStorageNamespace x b) = hs_chartRef b" "hs_releaseName (WithStorageNamespace x b) = hs_releaseName b"
  "hs_targetNamespace (WithStorageNamespace x b) = hs_targetNamespace b" "hs_storageNamespace (WithStorageNamespace x b) = (if x = [] then hs_storageNamespace b else x)"
  "hs_kubeConfig (WithStorageNamespace x b) = hs_kubeConfig b" "hs_dependsOn (WithStorageNamespace x b) = hs_dependsOn b"
  "hs_values (WithStorageNamespace x b) = hs_values b" "hs_valuesFrom (WithStorageNamespace x b) = hs_valuesFrom b"
  "hs_suspend (WithStorageNamespace x b) = hs_suspend b" "hs_postRenderers (WithStorageNamespace x b) = hs_postRenderers b"
  by (simp_all add: WithStorageNamespace_def Let_def split: option.split)

lemma WithTargetNamespace_fields [builder_fields]:
  "hs_chartRef (WithTargetNamespace x b) = hs_chartRef b" "hs_releaseName (WithTargetNamespace x b) = hs_releaseName b"
  "hs_targetNamespace (WithTargetNamespace x b) = (if x = [] then hs_targetNamespace b else x)" "hs_storageNamespace (WithTargetNamespace x b) = hs_storageNamespace b"
  "hs_kubeConfig (WithTargetNamespace x b) = hs_kubeConfig b" "hs_dependsOn (WithTargetNamespace x b) = hs_dependsOn b"
  "hs_values (WithTargetNamespace x b) = hs_values b" "hs_valuesFrom (WithTargetNamespace x b) = hs_valuesFrom b"
  "hs_suspend (WithTargetNamespace x b) = hs_suspend b" "hs_postRenderers (WithTargetNamespace x b) = hs_postRenderers b"
  by (simp_all add: WithTargetNamespace_def Let_def split: option.split)

lemma WithInstall_fields [builder_fields]:
  "hs_chartRef (WithInstall x b) = hs_chartRef b" "hs_releaseName (WithInstall x b) = hs_releaseName b"
  "hs_targetNamespace (WithInstall x b) = hs_targetNamespace b" "hs_storageNamespace (WithInstall x b) = hs_storageNamespace b"
  "hs_kubeConfig (WithInstall x b) = hs_kubeConfig b" "hs_dependsOn (WithInstall x b) = hs_dependsOn b"
  "hs_values (WithInstall x b) = hs_values b" "hs_valuesFrom (WithInstall x b) = hs_valuesFrom b"
  "hs_suspend (WithInstall x b) = hs_suspend b" "hs_postRenderers (WithInstall x b) = hs_postRenderers b"
  by (simp_all add: WithInstall_def Let_def split: option.split)

lemma WithUpgrade_fields [builder_fields]:
  "hs_chartRef (WithUpgrade x b) = hs_chartRef b" "hs_releaseName (WithUpgrade x b) = hs_releaseName b"
  "hs_targetNamespace (WithUpgrade x b) = hs_targetNamespace b" "hs_storageNamespace (WithUpgrade x b) = hs_storageNamespace b"
  "hs_kubeConfig (WithUpgrade x b) = hs_kubeConfig b" "hs_dependsOn (WithUpgrade x b) = hs_dependsOn b"
  "hs_values (WithUpgrade x b) = hs_values b" "hs_valuesFrom (WithUpgrade x b) = hs_valuesFrom b"
  "hs_suspend (WithUpgrade x b) = hs_suspend b" "hs_postRenderers (WithUpgrade x b) = hs_postRenderers b"
  by (simp_all add: WithUpgrade_def Let_def split: option.split)

lemma WithRollback_fields [builder_fields]:
  "hs_chartRef (WithRollback x b) = hs_chartRef b" "hs_releaseName (WithRollback x b) = hs_releaseName b"
  "hs_targetNamespace (WithRollback x b) = hs_targetNamespace b" "hs_storageNamespace (WithRollback x b) = hs_storageNamespace b"
  "hs_kubeConfig (WithRollback x b) = hs_kubeConfig b" "hs_dependsOn (WithRollback x b) = hs_dependsOn b"
  "hs_values (WithRollback x b) = hs_values b" "hs_valuesFrom (WithRollback x b) = hs_valuesFrom b"
  "hs_suspend (WithRollback x b) = hs_suspend b" "hs_postRenderers (WithRollback x b) = hs_postRenderers b"
  by (simp_all add: WithRollback_def Let_def split: option.split)

lemma WithUninstall_fields [builder_fields]:
  "hs_chartRef (WithUninstall x b) = hs_chartRef b" "hs_releaseName (WithUninstall x b) = hs_releaseName b"
  "hs_targetNamespace (WithUninstall x b) = hs_targetNamespace b" "hs_storageNamespace (WithUninstall x b) = hs_storageNamespace b"
  "hs_kubeConfig (WithUninstall x b) = hs_kubeConfig b" "hs_dependsOn (WithUninstall x b) = hs_dependsOn b"
  "hs_values (WithUninstall x b) = hs_values b" "hs_valuesFrom (WithUninstall x b) = hs_valuesFrom b"
  "hs_suspend (WithUninstall x b) = hs_suspend b" "hs_postRenderers (WithUninstall x b) = hs_postRenderers b"
  by (simp_all add: WithUninstall_def Let_def split: option.split)

lemma WithDriftDetection_fields [builder_fields]:
  "hs_chartRef (WithDriftDetection x b) = hs_chartRef b" "hs_releaseName (WithDriftDetection x b) = hs_releaseName b"
  "hs_targetNamespace (WithDriftDetection x b) = hs_targetNamespace b" "hs_storageNamespace (WithDriftDetection x b) = hs_storageNamespace b"
  "hs_kubeConfig (WithDriftDetection x b) = hs_kubeConfig b" "hs_dependsOn (WithDriftDetection x b) = hs_dependsOn b"
  "hs_values (WithDriftDetection x b) = hs_values b" "hs_valuesFrom (WithDriftDetection x b) = hs_valuesFrom b"
  "hs_suspend (WithDriftDetection x b) = hs_suspend b" "hs_postRenderers (WithDriftDetection x b) = hs_postRenderers b"
  by (simp_all add: WithDriftDetection_def Let_def split: option.split)

lemma WithSuspend_fields [builder_fields]:
  "hs_chartRef (WithSuspend x b) = hs_chartRef b" "hs_releaseName (WithSuspend x b) = hs_releaseName b"
  "hs_targetNamespace (WithSuspend x b) = hs_targetNamespace b" "hs_storageNamespace (WithSuspend x b) = hs_storageNamespace b"
  "hs_kubeConfig (WithSuspend x b) = hs_kubeConfig b" "hs_dependsOn (WithSuspend x b) = hs_dependsOn b"
  "hs_values (WithSuspend x b) = hs_values b" "hs_valuesFrom (WithSuspend x b) = hs_valuesFrom b"
  "hs_suspend (WithSuspend x b) = x" "hs_postRenderers (WithSuspend x b) = hs_postRenderers b"
  by (simp_all add: WithSuspend_def Let_def split: option.split)

lemma WithTest_fields [builder_fields]:
  "hs_chartRef (WithTest x b) = hs_chartRef b" "hs_releaseName (WithTest x b) = hs_releaseName b"
  "hs_targetNamespace (WithTest x b) = hs_targetNamespace b" "hs_storageNamespace (WithTest x b) = hs_storageNamespace b"
  "hs_kubeConfig (WithTest x b) = hs_kubeConfig b" "hs_dependsOn (WithTest x b) = hs_dependsOn b"
  "hs_values (WithTest x b) = hs_values b" "hs_valuesFrom (WithTest x b) = hs_valuesFrom b"
  "hs_suspend (WithTest x b) = hs_suspend b" "hs_postRenderers (WithTest x b) = hs_postRenderers b"
  by (simp_all add: WithTest_def Let_def split: option.split)

lemma WithDependsOn_fields [builder_fields]:
  "hs_chartRef (WithDependsOn x b) = hs_chartRef b" "hs_releaseName (WithDependsOn x b) = hs_releaseName b"
  "hs_targetNamespace (WithDependsOn x b) = hs_targetNamespace b" "hs_storageNamespace (WithDependsOn x b) = hs_storageNamespace b"
  "hs_kubeConfig (WithDependsOn x b) = hs_kubeConfig b" "hs_dependsOn (WithDependsOn x b) = (if x = [] then hs_dependsOn b else x)"
  "hs_values (WithDependsOn x b) = hs_values b" "hs_valuesFrom (WithDependsOn x b) = hs_valuesFrom b"
  "hs_suspend (WithDependsOn x b) = hs_suspend b" "hs_postRenderers (WithDependsOn x b) = hs_postRenderers b"
  by (simp_all add: WithDependsOn_def Let_def split: option.split)

lemma WithKubeConfig_fields [builder_fields]:
  "hs_chartRef (WithKubeConfig x b) = hs_chartRef b" "hs_releaseName (WithKubeConfig x b) = hs_releaseName b"
  "hs_targetNamespace (WithKubeConfig x b) = hs_targetNamespace b" "hs_storageNamespace (WithKubeConfig x b) = hs_storageNamespace b"
  "hs_kubeConfig (WithKubeConfig x b) = (if sk_name x = [] then hs_kubeConfig b else Some x)" "hs_dependsOn (WithKubeConfig x b) = hs_dependsOn b"
  "hs_values (WithKubeConfig x b) = hs_values b" "hs_valuesFrom (WithKubeConfig x b) = hs_valuesFrom b"
  "hs_suspend (WithKubeConfig x b) = hs_suspend b" "hs_postRenderers (WithKubeConfig x b) = hs_postRenderers b"
  by (simp_all add: WithKubeConfig_def Let_def split: option.split)

lemma WithPostRenderers_fields [builder_fields]:
  "hs_chartRef (WithPostRenderers x b) = hs_chartRef b" "hs_releaseName (WithPostRenderers x b) = hs_releaseName b"
  "hs_targetNamespace (WithPostRenderers x b) = hs_targetNamespace b" "hs_storageNamespace (WithPostRenderers x b) = hs_storageNamespace b"
  "hs_kubeConfig (WithPostRenderers x b) = hs_kubeConfig b" "hs_dependsOn (WithPostRenderers x b) = hs_dependsOn b"
  "hs_values (WithPostRenderers x b) = hs_values b" "hs_valuesFrom (WithPostRenderers x b) = hs_valuesFrom b"
  "hs_suspend (WithPostRenderers x b) = hs_suspend b" "hs_postRenderers (WithPostRenderers x b) = (if x = [] then hs_postRenderers b else x)"
  by (simp_all add: WithPostRenderers_def Let_def split: option.split)

section \<open>Helm releases\<close>

text \<open>
  The \<open>HelmRelease\<close> object: of its status the conditions, the latest snapshot of its history, and the last
  action that was tried.
\<close>

record flux_condition =
  fc_type :: string
  fc_status :: condition_status
  fc_observedGeneration :: int
  fc_reason :: string
  fc_message :: string

definition FindStatusCondition :: "flux_condition list \<Rightarrow> string \<Rightarrow> flux_condition option" where
  "FindStatusCondition cs t = find (\<lambda>c. fc_type c = t) cs"

record release_snapshot =
  rs_firstDeployed :: time
  rs_lastDeployed :: time
  rs_status :: string

record flux_release = object_meta +
  fr_spec :: helm_release_spec
  fr_generation :: int
  fr_conditions :: "flux_condition list"
  fr_latest :: "release_snapshot option"
  fr_lastAttemptedReleaseAction :: string

record flux_chart = object_meta +
  fch_artifact :: "(string \<times> string) option"

definition EnsureAnnotation :: "'a object_meta_scheme \<Rightarrow> string \<Rightarrow> string \<Rightarrow> 'a object_meta_scheme" where
  "EnsureAnnotation obj key v =
     (if v = [] then obj\<lparr>o_annotations := smap_del key (o_annotations obj)\<rparr>
      else obj\<lparr>o_annotations := smap_set key v (o_annotations obj)\<rparr>)"

end
