(* ===== verification/Plugin_Controller.thy ===== *)
theory Plugin_Controller
  imports Plugin_Preset Plugin_Tracking Oci_Mirror Helm_Values Exposed_Services Helm_Release
begin

text \<open>
  The Plugin controller (\<open>internal/controller/plugin/plugin_controller.go\<close>, \<open>plugin_controller_flux.go\<close>,
  \<open>util.go\<close>, \<open>oci_mirror.go\<close>): it writes a Flux HelmRelease for a Plugin, deletes it again, and derives the
  status of the Plugin from it. The API server, Helm, the artifact store and access to remote clusters are
  parameters. Metrics and events are left out.
\<close>

section \<open>The environment\<close>

text \<open>
  A client for remote clusters has type \<open>'g\<close>, an object of a manifest type \<open>'b\<close>, a fetched image manifest
  type \<open>'m\<close>. A patch returns the object as the API server answers it.
\<close>

record rendered_release =
  rr_manifest :: string
  rr_hooks :: "string list"

record ('s, 'g, 'b, 'm) plugin_env =
  pc_reads :: "'s \<Rightarrow> plugin_reads"
  pc_get_secret :: "'s \<Rightarrow> namespaced_name \<Rightarrow> go_error + secret"
  pc_tracking :: "'s tracking_env"
  pc_get_release :: "namespaced_name \<Rightarrow> 's \<Rightarrow> go_error + flux_release"
  pc_delete_release :: "namespaced_name \<Rightarrow> 's \<Rightarrow> go_error option \<times> 's"
  pc_update_release :: "flux_release \<Rightarrow> (flux_release \<Rightarrow> go_error + flux_release) \<Rightarrow> 's \<Rightarrow> go_error option \<times> 's"
  pc_patch_release :: "namespaced_name \<Rightarrow> (flux_release \<Rightarrow> go_error + flux_release) \<Rightarrow> 's \<Rightarrow> go_error option \<times> 's"
  pc_setControllerReference :: "plugin \<Rightarrow> flux_release \<Rightarrow> go_error + flux_release"
  pc_get_chart :: "namespaced_name \<Rightarrow> 's \<Rightarrow> go_error + flux_chart"
  pc_patch_plugin :: "plugin \<Rightarrow> plugin \<Rightarrow> 's \<Rightarrow> (go_error + plugin) \<times> 's"
  pc_parseJSON :: parse_json_value
  pc_expressions :: expression_lib
  pc_dnsDomain :: string
  pc_clientInCluster :: "string \<Rightarrow> go_error + 'g"
  pc_clientFromSecret :: "secret \<Rightarrow> string \<Rightarrow> go_error + 'g"
  pc_getHelmRelease :: "'g \<Rightarrow> string \<Rightarrow> string \<Rightarrow> go_error + helm_release"
  pc_reader :: "'g \<Rightarrow> 'b manifest_reader"
  pc_get_org :: "'s \<Rightarrow> string \<Rightarrow> go_error + organization"
  pc_get_configMap :: "'s \<Rightarrow> namespaced_name \<Rightarrow> go_error + string smap"
  pc_unmarshalMirror :: "string \<Rightarrow> go_error + registry_mirror_config"
  pc_parseRef :: parse_reference
  pc_fetch :: "registry_auth \<Rightarrow> bool \<Rightarrow> string \<Rightarrow> go_error + 'm"
  pc_localRegistry :: "string option"
  pc_artifactRaw :: "string \<Rightarrow> string \<Rightarrow> string \<Rightarrow> go_error + string"
  pc_artifactSave :: "string \<Rightarrow> string \<Rightarrow> string \<Rightarrow> go_error option"
  pc_artifactPath :: "string \<Rightarrow> string \<Rightarrow> string"
  pc_newInstall :: "'g \<Rightarrow> string \<Rightarrow> string \<Rightarrow> string \<Rightarrow> go_error option"
  pc_loadChart :: "string \<Rightarrow> go_error + helm_values"
  pc_render :: "'g \<Rightarrow> string \<Rightarrow> helm_values \<Rightarrow> go_error + rendered_release"
  pc_expressionEvaluation :: bool
  pc_integration :: bool
  pc_mirroring :: bool

definition HelmReleaseCreatedCondition :: condition_type where "HelmReleaseCreatedCondition = ''HelmReleaseCreated''"
definition ExposedServicesSyncedCondition :: condition_type where
  "ExposedServicesSyncedCondition = ''ExposedServicesSynced''"
definition HelmReleaseDeployedCondition :: condition_type where "HelmReleaseDeployedCondition = ''HelmReleaseDeployed''"

definition ExposedServicesDisabledReason :: condition_reason where
  "ExposedServicesDisabledReason = ''ExposedServicesDisabled''"
definition PluginDefinitionNotAvailableReason :: condition_reason where
  "PluginDefinitionNotAvailableReason = ''PluginDefinitionNotAvailable''"
definition PluginDefinitionNotBackedByHelmChartReason :: condition_reason where
  "PluginDefinitionNotBackedByHelmChartReason = ''PluginDefinitionNotBackedByHelmChart''"
definition HelmUninstallFailedReason :: condition_reason where "HelmUninstallFailedReason = ''HelmUninstallFailed''"
definition OptionValueResolutionFailedReason :: condition_reason where
  "OptionValueResolutionFailedReason = ''OptionValueResolutionFailed''"
definition PluginOptionValueInvalidReason :: condition_reason where
  "PluginOptionValueInvalidReason = ''PluginOptionValueInvalid''"
definition PluginHelmTemplateFailedReason :: condition_reason where
  "PluginHelmTemplateFailedReason = ''PluginHelmTemplateFailed''"
definition FluxHelmReleaseConfigInvalidReason :: condition_reason where
  "FluxHelmReleaseConfigInvalidReason = ''FluxHelmReleaseConfigInvalid''"
definition FluxHelmReleaseStalledReason :: condition_reason where
  "FluxHelmReleaseStalledReason = ''FluxHelmReleaseStalled''"
definition ClusterAccessFailedReason :: condition_reason where "ClusterAccessFailedReason = ''ClusterAccessFailed''"
definition ImageReplicationFailedReason :: condition_reason where
  "ImageReplicationFailedReason = ''ImageReplicationFailed''"

definition LabelKeyUIPlugin :: string where "LabelKeyUIPlugin = ''greenhouse.sap/ui-plugin''"
definition LabelKeyPluginExposedServices :: string where
  "LabelKeyPluginExposedServices = ''greenhouse.sap/plugin-exposed-services''"

definition plugin_exposedConditions :: "condition_type list" where
  "plugin_exposedConditions =
     [ReadyCondition, HelmReleaseCreatedCondition, HelmReleaseDeployedCondition, ExposedServicesSyncedCondition]"

definition deprecatedConditions :: "condition_type list" where
  "deprecatedConditions =
     [''StatusUpToDate'', ''WorkloadReady'', ''HelmChartTestSucceeded'', ''ClusterAccessReady'', ''HelmReconcileFailed'',
      ''HelmDriftDetected'', ''WaitingForDependencies'', ''RetriesExhausted'']"

section \<open>Status helpers\<close>

definition unknown_release :: helm_release_status where
  "unknown_release =
     \<lparr>hr_status = ''unknown'', hr_firstDeployed = 0, hr_lastDeployed = 0, hr_pluginOptionChecksum = [], hr_diff = []\<rparr>"

definition InitPluginStatus :: "time \<Rightarrow> plugin \<Rightarrow> plugin" where
  "InitPluginStatus now p =
     (let p1 = fold RemoveObjectCondition deprecatedConditions p;
          p2 = fold (\<lambda>t p. if GetConditionByType (o_conditions p) t = None
                             then SetCondition now (UnknownCondition now t [] []) p else p) plugin_exposedConditions p1
      in case pl_helmReleaseStatus p2 of
           None \<Rightarrow> p2\<lparr>pl_helmReleaseStatus := Some unknown_release\<rparr>
         | Some _ \<Rightarrow> p2)"

text \<open>
  \<open>initClientGetter\<close> returns the client, and the cluster unless the plugin is for the central cluster; it
  sets the condition \<open>HelmReleaseCreated\<close> on the plugin.
\<close>

definition access_failed :: "time \<Rightarrow> go_error \<Rightarrow> plugin \<Rightarrow> plugin" where
  "access_failed now e p =
     SetCondition now (FalseCondition now HelmReleaseCreatedCondition ClusterAccessFailedReason (error_text e)) p"

definition access_restored :: "time \<Rightarrow> plugin \<Rightarrow> plugin" where
  "access_restored now p =
     (case GetConditionByType (o_conditions p) HelmReleaseCreatedCondition of
        None \<Rightarrow> p
      | Some c \<Rightarrow> if c_reason c = ClusterAccessFailedReason
                   then SetCondition now (TrueCondition now HelmReleaseCreatedCondition [] []) p else p)"

definition initClientGetter ::
  "time \<Rightarrow> ('s, 'g, 'b, 'm) plugin_env \<Rightarrow> plugin \<Rightarrow> 's \<Rightarrow> (go_error + ('g \<times> cluster option)) \<times> plugin" where
  "initClientGetter now env p s =
     (let clusterName = ps_clusterName (pl_spec p);
          key = \<lparr>nn_namespace = o_namespace p, nn_name = clusterName\<rparr>;
          fail = (\<lambda>e. (Inl e, access_failed now e p))
      in if clusterName = []
         then (case pc_clientInCluster env (ps_releaseNamespace (pl_spec p)) of
                 Inl e \<Rightarrow> fail (WrapError ''cannot access greenhouse cluster'' e)
               | Inr g \<Rightarrow> (Inr (g, None), access_restored now p))
         else (case pr_get_cluster (pc_reads env s) key of
                 Inl e \<Rightarrow> fail (WrapError (''failed to get cluster '' @ clusterName) e)
               | Inr cl \<Rightarrow>
                   if \<not> IsReadyTrue (o_conditions cl)
                   then fail (PlainError (''cluster '' @ clusterName @ '' is not ready''))
                   else (case pc_get_secret env s key of
                           Inl e \<Rightarrow> fail (WrapError (''failed to get secret for cluster '' @ clusterName) e)
                         | Inr sec \<Rightarrow>
                             (case pc_clientFromSecret env sec (ps_releaseNamespace (pl_spec p)) of
                                Inl e \<Rightarrow> fail (WrapError (''cannot access cluster '' @ clusterName) e)
                              | Inr g \<Rightarrow> (Inr (g, Some cl), access_restored now p)))))"

definition resolvePluginDependencies :: "wait_for_item list \<Rightarrow> string \<Rightarrow> string list" where
  "resolvePluginDependencies dependencies clusterName =
     map (\<lambda>ref. if wf_pluginPreset ref \<noteq> [] then buildPluginName (wf_pluginPreset ref) clusterName else wf_name ref)
       dependencies"

definition technical_labels :: "plugin \<Rightarrow> plugin" where
  "technical_labels p =
     (let ui = (if pl_uiApplication p \<noteq> None then smap_set LabelKeyUIPlugin ''true'' else smap_del LabelKeyUIPlugin);
          ex = (if length (pl_exposedServices p) > 0 then smap_set LabelKeyPluginExposedServices ''true''
                else smap_del LabelKeyPluginExposedServices)
      in p\<lparr>o_labels := ex (ui (o_labels p))\<rparr>)"

text \<open>\<open>reconcileTechnicalLabels\<close>: nothing is written when the labels are as they should be.\<close>

definition reconcileTechnicalLabels ::
  "('s, 'g, 'b, 'm) plugin_env \<Rightarrow> plugin \<Rightarrow> 's \<Rightarrow> go_error option \<times> plugin \<times> 's" where
  "reconcileTechnicalLabels env p s =
     (let p' = technical_labels p in
      if p = p' then (None, p', s)
      else case pc_patch_plugin env p' p s of
             (Inl e, s1) \<Rightarrow> (Some e, p', s1)
           | (Inr answered, s1) \<Rightarrow> (None, answered, s1))"

section \<open>Values\<close>

text \<open>
  \<open>computeReleaseValues\<close>. The loop goes over the values in order; \<open>None\<close> as the overall result is a nil
  dereference: \<open>ResolveValueFromRef\<close> returns no value for an object that does not exist, and the result is
  dereferenced.
\<close>

fun compute_values ::
  "('s, 'g, 'b, 'm) plugin_env \<Rightarrow> string \<Rightarrow> plugin \<Rightarrow> cel_resolver \<Rightarrow> plugin_option_value list \<Rightarrow> string list \<Rightarrow> 's
     \<Rightarrow> (go_error + (plugin_option_value list \<times> string list)) option \<times> 's" where
  "compute_values env kind p res [] tracked s = (Some (Inr ([], tracked)), s)"
| "compute_values env kind p res (v # vs) tracked s =
     (let continue = (\<lambda>w tracked s.
            case compute_values env kind p res vs tracked s of
              (Some (Inr (ws, t)), s1) \<Rightarrow> (Some (Inr (w # ws, t)), s1)
            | (r, s1) \<Rightarrow> (r, s1))
      in if ov_value v \<noteq> None then continue v tracked s
         else if ov_expression v \<noteq> None
         then (if \<not> pc_expressionEvaluation env then continue v tracked s
               else case ResolveExpression (pc_expressions env) res v (pc_expressionEvaluation env) of
                      Inl e \<Rightarrow> (Some (Inl e), s)
                    | Inr w \<Rightarrow> continue w tracked s)
         else (case Option.bind (ov_valueFrom v) pv_ref of
                 Some ref \<Rightarrow>
                   if \<not> pc_integration env then continue v tracked s
                   else (case ResolveValueFromRef (pc_tracking env) kind p (ov_name v) ref s of
                           (Inl e, s1) \<Rightarrow> (Some (Inl e), s1)
                         | (Inr (Some w, objs), s1) \<Rightarrow> continue w (tracked @ objs) s1
                         | (Inr (None, _), s1) \<Rightarrow> (None, s1))
               | None \<Rightarrow>
                   if Option.bind (ov_valueFrom v) pv_secret \<noteq> None then continue v tracked s
                   else (Some (Inl (PlainError (''option value '' @ ov_name v @ '' has no value or valueFrom set''))), s)))"

definition computeReleaseValues ::
  "('s, 'g, 'b, 'm) plugin_env \<Rightarrow> string \<Rightarrow> plugin \<Rightarrow> 's
     \<Rightarrow> (go_error + plugin_option_value list) option \<times> plugin \<times> 's" where
  "computeReleaseValues env kind p s =
     (case GetPluginOptionValuesForPlugin (pc_reads env s) p of
        Inl e \<Rightarrow> (Some (Inl e), p, s)
      | Inr optionValues \<Rightarrow>
          (let resolver = (if pc_expressionEvaluation env then NewCELResolver (pc_parseJSON env) optionValues
                           else Inr \<lparr>cr_templateData = []\<rparr>)
           in case resolver of
                Inl e \<Rightarrow> (Some (Inl (WrapError ''failed to initialize CEL resolver'' e)), p, s)
              | Inr res \<Rightarrow>
                  (case compute_values env kind p res optionValues [] s of
                     (None, s1) \<Rightarrow> (None, p, s1)
                   | (Some (Inl e), s1) \<Rightarrow> (Some (Inl e), p, s1)
                   | (Some (Inr (vs, tracked)), s1) \<Rightarrow>
                       if pc_integration env
                       then (case removeUntrackedObjectAnnotations (pc_tracking env) kind p tracked s1 of
                               (_, s2) \<Rightarrow> (Some (Inr vs), p\<lparr>pl_trackedObjects := tracked\<rparr>, s2))
                       else (Some (Inr vs), p, s1))))"

text \<open>
  \<open>generateHelmValues\<close>; \<open>json.Marshal\<close> prints the keys of maps in order and does not fail on these values.
\<close>

fun sort_keys :: "json \<Rightarrow> json" where
  "sort_keys (JObj fs) = JObj (sort_key fst (map (\<lambda>(k, v). (k, sort_keys v)) fs))"
| "sort_keys (JArr vs) = JArr (map sort_keys vs)"
| "sort_keys v = v"

definition generateHelmValues ::
  "('s, 'g, 'b, 'm) plugin_env \<Rightarrow> plugin_option_value list \<Rightarrow> go_error + string" where
  "generateHelmValues env optionValues =
     (case ConvertFlatValuesToHelmValues (pc_parseJSON env)
             (filter (\<lambda>v. Option.bind (ov_valueFrom v) pv_secret = None) optionValues) of
        Inl e \<Rightarrow> Inl (WrapError ''failed to convert plugin option values to JSON'' e)
      | Inr m \<Rightarrow> Inr (print_json (sort_keys (JObj m))))"

definition configureDriftDetection :: "ignore_difference list \<Rightarrow> drift_detection" where
  "configureDriftDetection ignoreDifferences =
     \<lparr>dd_mode = DriftDetectionEnabled,
      dd_ignore = map (\<lambda>ig. \<lparr>ir_target = ig\<lparr>id_paths := []\<rparr>, ir_paths = id_paths ig\<rparr>) ignoreDifferences\<rparr>"

definition secretKind :: string where "secretKind = ''Secret''"

definition addValueReferences :: "plugin \<Rightarrow> values_reference list" where
  "addValueReferences p =
     List.map_filter (\<lambda>v. case Option.bind (ov_valueFrom v) pv_secret of
                None \<Rightarrow> None
              | Some ref \<Rightarrow> Some \<lparr>vr_kind = secretKind, vr_name = sk_name ref, vr_valuesKey = sk_key ref,
                                  vr_targetPath = ov_name v\<rparr>)
       (ps_optionValues (pl_spec p))"

section \<open>Mirroring\<close>

definition fetchChartArtifact :: "('s, 'g, 'b, 'm) plugin_env \<Rightarrow> flux_chart \<Rightarrow> go_error + string" where
  "fetchChartArtifact env ch =
     (case fch_artifact ch of
        None \<Rightarrow> Inl (PlainError (''HelmChart '' @ o_namespace ch @ ''/'' @ o_name ch @ '' has no artifact yet''))
      | Some (url, digest) \<Rightarrow>
          (let artifactID = o_namespace ch @ ''/'' @ o_name ch in
           case pc_artifactRaw env artifactID url digest of
             Inl e \<Rightarrow> Inl (WrapError ''fetch chart artifact'' e)
           | Inr content \<Rightarrow>
               (case pc_artifactSave env artifactID digest content of
                  Some e \<Rightarrow> Inl (WrapError ''save chart artifact'' e)
                | None \<Rightarrow> Inr (pc_artifactPath env artifactID digest))))"

definition TemplateHelmChartFromPluginOptionValues ::
  "('s, 'g, 'b, 'm) plugin_env \<Rightarrow> 'g \<Rightarrow> plugin_definition_spec \<Rightarrow> plugin \<Rightarrow> plugin_option_value list \<Rightarrow> string \<Rightarrow> 's
     \<Rightarrow> go_error + rendered_release" where
  "TemplateHelmChartFromPluginOptionValues env g spec p optionValues chartPath s =
     (case pc_newInstall env g (ps_releaseName (pl_spec p)) (ps_releaseNamespace (pl_spec p)) (pds_version spec) of
        Some e \<Rightarrow> Inl e
      | None \<Rightarrow>
          (case pc_loadChart env chartPath of
             Inl e \<Rightarrow> Inl (WrapError ''failed to load chart'' e)
           | Inr chartValues \<Rightarrow>
               (case resolvePluginOptionValueFrom (pc_get_secret env s) (o_namespace p) optionValues of
                  Inl e \<Rightarrow> Inl (WrapError ''failed to resolve plugin option values'' e)
                | Inr resolvedValues \<Rightarrow>
                    (case mergeChartAndPluginOptionValues (pc_parseJSON env) chartValues resolvedValues of
                       Inl e \<Rightarrow> Inl (WrapError ''failed to merge chart and plugin option values'' e)
                     | Inr helmValues \<Rightarrow> pc_render env g chartPath helmValues))))"

definition buildPostRenderer ::
  "parse_reference \<Rightarrow> 'm image_mirror option \<Rightarrow> string list \<Rightarrow> post_renderer option" where
  "buildPostRenderer parse mirror manifestSets =
     (case mirror of
        None \<Rightarrow> None
      | Some m \<Rightarrow>
          (let transforms = BuildImageTransformations parse m manifestSets in
           if length transforms = 0 then None
           else Some (map (\<lambda>t. \<lparr>kim_name = it_original t, kim_newName = it_mirrored t\<rparr>) transforms)))"

definition ensureImageReplication ::
  "time \<Rightarrow> parse_reference \<Rightarrow> 'm image_mirror \<Rightarrow> plugin \<Rightarrow> string list \<Rightarrow> go_error option \<times> plugin" where
  "ensureImageReplication now parse mirror p manifestSets =
     (case ReplicateOCIArtifacts parse mirror (pl_imageReplication p) manifestSets of
        (_, Some e) \<Rightarrow>
          (Some (WrapError (''image replication failed for Plugin '' @ o_name p) e),
           SetCondition now (FalseCondition now HelmReleaseCreatedCondition ImageReplicationFailedReason (error_text e)) p)
      | (replicated, None) \<Rightarrow> (None, p\<lparr>pl_imageReplication := replicated\<rparr>))"

definition createRegistryMirrorPostRenderer ::
  "time \<Rightarrow> ('s, 'g, 'b, 'm) plugin_env \<Rightarrow> plugin \<Rightarrow> plugin_definition_spec \<Rightarrow> flux_chart \<Rightarrow> plugin_option_value list \<Rightarrow> 's
     \<Rightarrow> (go_error + post_renderer option) \<times> plugin" where
  "createRegistryMirrorPostRenderer now env p spec ch optionValues s =
     (let failed = (\<lambda>p reason msg. SetCondition now (FalseCondition now HelmReleaseCreatedCondition reason msg) p) in
      if \<not> pc_mirroring env then (Inr None, p)
      else case GetRegistryMirrorConfig (pc_get_org env s) (pc_get_configMap env s) (pc_unmarshalMirror env) (o_namespace p) of
             Inl e \<Rightarrow>
               (Inl (WrapError (''failed to read registry mirror configuration for Plugin '' @ o_name p) e),
                failed p ImageReplicationFailedReason
                  (''Failed to read Organization registry mirror configuration: '' @ error_text e))
           | Inr None \<Rightarrow> (Inr None, p)
           | Inr (Some cfg) \<Rightarrow>
               if \<not> length (rmc_registryMirrors cfg) > 0 then (Inr None, p)
               else (case NewImageMirror (pc_fetch env) (pc_localRegistry env) (pc_get_secret env s) cfg (o_namespace p) of
                       Inl e \<Rightarrow>
                         (Inl (WrapError (''failed to create image mirror for Plugin '' @ o_name p) e),
                          failed p ImageReplicationFailedReason (''Failed to create image mirror: '' @ error_text e))
                     | Inr mirror \<Rightarrow>
                         (case initClientGetter now env p s of
                            (Inl e, p1) \<Rightarrow> (Inl (WrapError (''failed to init client getter for Plugin '' @ o_name p) e), p1)
                          | (Inr (g, _), p1) \<Rightarrow>
                              (case fetchChartArtifact env ch of
                                 Inl e \<Rightarrow> (Inl (WrapError (''failed to fetch chart artifact for Plugin '' @ o_name p) e),
                                            failed p1 PluginHelmTemplateFailedReason (error_text e))
                               | Inr chartPath \<Rightarrow>
                                   (case TemplateHelmChartFromPluginOptionValues env g spec p1 optionValues chartPath s of
                                      Inl e \<Rightarrow> (Inl (WrapError (''failed to template helm chart for Plugin '' @ o_name p) e),
                                                 failed p1 PluginHelmTemplateFailedReason (error_text e))
                                    | Inr rel \<Rightarrow>
                                        (let manifestSets = rr_manifest rel # rr_hooks rel in
                                         case ensureImageReplication now (pc_parseRef env) mirror p1 manifestSets of
                                           (Some e, p2) \<Rightarrow> (Inl e, p2)
                                         | (None, p2) \<Rightarrow>
                                             (Inr (buildPostRenderer (pc_parseRef env) (Some mirror) manifestSets), p2)))))))"

section \<open>The HelmRelease\<close>

definition maxHistory :: int where "maxHistory = 10"
definition HelmChartKind :: string where "HelmChartKind = ''HelmChart''"
definition ReconcileRequestAnnotation :: string where
  "ReconcileRequestAnnotation = ''reconcile.fluxcd.io/requestedAt''"
definition ResetRequestAnnotation :: string where "ResetRequestAnnotation = ''reconcile.fluxcd.io/resetAt''"
definition HelmRepositoryDefaultNamespace :: string where "HelmRepositoryDefaultNamespace = ''greenhouse''"

text \<open>The builder calls of \<open>ensureHelmRelease\<close>.\<close>

definition release_builder :: "plugin \<Rightarrow> flux_chart \<Rightarrow> string \<Rightarrow> helm_release_spec" where
  "release_builder p ch helmValues =
     (let spec = pl_spec p in
      WithTargetNamespace (ps_releaseNamespace spec) (WithStorageNamespace (ps_releaseNamespace spec)
        (WithValuesFrom (addValueReferences p) (WithValues (Some helmValues)
        (WithDependsOn (resolvePluginDependencies (ps_waitFor spec) (ps_clusterName spec))
        (WithKubeConfig \<lparr>sk_name = ps_clusterName spec, sk_key = GreenHouseKubeConfigKey\<rparr>
        (WithSuspend False (WithDriftDetection (Some (configureDriftDetection (ps_ignoreDifferences spec)))
        (WithTest (Some \<lparr>ht_enable = False, ht_timeout = None\<rparr>)
        (WithUpgrade (Some \<lparr>hu_crds = ''CreateReplace'', hu_timeout = None, hu_retries = 3\<rparr>)
        (WithInstall (Some \<lparr>hi_createNamespace = True, hi_timeout = None, hi_retries = 3\<rparr>)
        (WithReleaseName (Plugin_GetReleaseName p) (WithMaxHistory maxHistory (WithTimeout DefaultTimeout
        (WithInterval DefaultInterval (WithHelmChartRef
           (Some \<lparr>sr_kind = HelmChartKind, sr_name = o_name ch, sr_namespace = o_namespace ch\<rparr>)
           NewHelmReleaseSpecBuilder))))))))))))))))"

definition release_spec :: "plugin \<Rightarrow> flux_chart \<Rightarrow> string \<Rightarrow> post_renderer option \<Rightarrow> go_error + helm_release_spec" where
  "release_spec p ch helmValues postRenderer =
     (let b = release_builder p ch helmValues
      in Build (case postRenderer of None \<Rightarrow> b | Some r \<Rightarrow> WithPostRenderers [r] b))"

definition mutate_release ::
  "('s, 'g, 'b, 'm) plugin_env \<Rightarrow> plugin \<Rightarrow> flux_chart \<Rightarrow> string \<Rightarrow> post_renderer option \<Rightarrow> flux_release
     \<Rightarrow> go_error + flux_release" where
  "mutate_release env p ch helmValues postRenderer r =
     (case release_spec p ch helmValues postRenderer of
        Inl e \<Rightarrow> Inl (WrapError (''failed to create HelmRelease for plugin '' @ o_name p) e)
      | Inr spec \<Rightarrow>
          (let v = fst (ReconcileAnnotationValue p) in
           pc_setControllerReference env p
             (EnsureAnnotation (EnsureAnnotation (r\<lparr>fr_spec := spec\<rparr>) ReconcileRequestAnnotation v) ResetRequestAnnotation v)))"

definition ensureHelmRelease ::
  "time \<Rightarrow> ('s, 'g, 'b, 'm) plugin_env \<Rightarrow> plugin \<Rightarrow> plugin_definition_spec \<Rightarrow> flux_chart \<Rightarrow> plugin_option_value list \<Rightarrow> 's
     \<Rightarrow> go_error option \<times> plugin \<times> 's" where
  "ensureHelmRelease now env p spec ch optionValues s =
     (case generateHelmValues env optionValues of
        Inl e \<Rightarrow>
          (Some (WrapError (''failed to generate HelmRelease values for Plugin '' @ o_name p) e),
           SetCondition now (FalseCondition now HelmReleaseCreatedCondition PluginOptionValueInvalidReason (error_text e)) p, s)
      | Inr helmValues \<Rightarrow>
          (case createRegistryMirrorPostRenderer now env p spec ch optionValues s of
             (Inl e, p1) \<Rightarrow> (Some e, p1, s)
           | (Inr postRenderer, p1) \<Rightarrow>
               (case pc_patch_release env (ObjectKeyFromObject p) (mutate_release env p1 ch helmValues postRenderer) s of
                  (Some e, s1) \<Rightarrow>
                    (Some e,
                     SetCondition now (FalseCondition now HelmReleaseCreatedCondition FluxHelmReleaseConfigInvalidReason
                       (''Failed to create/update Helm release: '' @ error_text e)) p1, s1)
                | (None, s1) \<Rightarrow> (None, p1, s1))))"

definition getPluginHelmChart ::
  "('s, 'g, 'b, 'm) plugin_env \<Rightarrow> plugin_definition \<Rightarrow> string \<Rightarrow> 's \<Rightarrow> go_error + flux_chart" where
  "getPluginHelmChart env pd namespace s =
     pc_get_chart env \<lparr>nn_namespace = namespace, nn_name = FluxHelmChartResourceName pd\<rparr> s"

section \<open>Creation, suspension and deletion\<close>

definition EnsureFluxSuspended ::
  "('s, 'g, 'b, 'm) plugin_env \<Rightarrow> plugin \<Rightarrow> 's \<Rightarrow> (ctrl_result \<times> go_error option) \<times> 's" where
  "EnsureFluxSuspended env p s =
     (case pc_get_release env (ObjectKeyFromObject p) s of
        Inl e \<Rightarrow> ((EmptyResult, if IsNotFound e then None else Some e), s)
      | Inr r \<Rightarrow>
          (case pc_update_release env r (\<lambda>r. Inr (r\<lparr>fr_spec := (fr_spec r)\<lparr>hs_suspend := True\<rparr>\<rparr>)) s of
             (err, s1) \<Rightarrow> ((EmptyResult, err), s1)))"

text \<open>\<open>None\<close> is the nil dereference of \<open>computeReleaseValues\<close>.\<close>

definition EnsureFluxCreated ::
  "time \<Rightarrow> ('s, 'g, 'b, 'm) plugin_env \<Rightarrow> string \<Rightarrow> plugin \<Rightarrow> 's
     \<Rightarrow> ((ctrl_result \<times> reconcile_result \<times> go_error option) \<times> plugin) option \<times> 's" where
  "EnsureFluxCreated now env kind p s =
     (let ref = ps_pluginDefinitionRef (pl_spec p);
          failed = (\<lambda>p reason msg. SetCondition now (FalseCondition now HelmReleaseCreatedCondition reason msg) p)
      in case GetPluginDefinitionFromPlugin (pc_reads env s) ref (o_namespace p) of
           Inl e \<Rightarrow>
             (Some ((EmptyResult, Failed, Some (PlainError (pdr_kind ref @ '' not found: '' @ error_text e))),
                    failed p PluginDefinitionNotAvailableReason (error_text e)), s)
         | Inr pd \<Rightarrow>
             (let spec = pd_spec pd;
                  namespace = (if pdr_kind ref = PluginDefinitionKind then o_namespace p else HelmRepositoryDefaultNamespace)
              in if pds_helmChart spec = None
                 then (Some ((EmptyResult, Success, None),
                    (SetCondition now (UnknownCondition now HelmReleaseCreatedCondition
                       PluginDefinitionNotBackedByHelmChartReason ''PluginDefinition is not backed by HelmChart'') p)
                    \<lparr>pl_uiApplication := pds_uiApplication spec\<rparr>), s)
                 else case getPluginHelmChart env pd namespace s of
                        Inl e \<Rightarrow>
                          (Some ((EmptyResult, Failed, Some (PlainError (''helm chart not found for '' @ pdr_kind ref @ ''/'' @ pdr_name ref))),
                                 failed p [] (''Failed to load helm chart for '' @ pdr_kind ref @ ''/'' @ pdr_name ref)), s)
                      | Inr ch \<Rightarrow>
                          (case computeReleaseValues env kind p s of
                             (None, _, s1) \<Rightarrow> (None, s1)
                           | (Some (Inl e), p1, s1) \<Rightarrow>
                               (Some ((EmptyResult, Failed, Some e), failed p1 OptionValueResolutionFailedReason (error_text e)), s1)
                           | (Some (Inr optionValues), p1, s1) \<Rightarrow>
                               (case ensureHelmRelease now env p1 spec ch optionValues s1 of
                                  (Some e, p2, s2) \<Rightarrow> (Some ((EmptyResult, Failed, Some e), p2), s2)
                                | (None, p2, s2) \<Rightarrow>
                                    (Some ((EmptyResult, Success, None),
                                       SetCondition now (TrueCondition now HelmReleaseCreatedCondition []
                                         ''Flux HelmRelease successfully created'') p2), s2)))))"

definition ReleasedCondition :: string where "ReleasedCondition = ''Released''"
definition UninstallFailedReason :: string where "UninstallFailedReason = ''UninstallFailed''"

definition EnsureFluxDeleted ::
  "time \<Rightarrow> ('s, 'g, 'b, 'm) plugin_env \<Rightarrow> plugin \<Rightarrow> 's
     \<Rightarrow> (ctrl_result \<times> reconcile_result \<times> go_error option) \<times> plugin \<times> 's" where
  "EnsureFluxDeleted now env p s =
     (let fail = (\<lambda>msg e s. ((EmptyResult, Failed, Some e),
            SetCondition now (FalseCondition now HelmReleaseDeployedCondition HelmUninstallFailedReason msg) p, s));
          suspended = (if ps_deletionPolicy (pl_spec p) = DeletionPolicyRetain
                       then (case EnsureFluxSuspended env p s of ((_, err), s1) \<Rightarrow> (err, s1)) else (None, s))
      in case suspended of
           (Some e, s1) \<Rightarrow> fail (error_text e) e s1
         | (None, s1) \<Rightarrow>
             (case pc_delete_release env (ObjectKeyFromObject p) s1 of
                (err, s2) \<Rightarrow>
                  (case IgnoreNotFound err of
                     Some e \<Rightarrow> fail (error_text e) e s2
                   | None \<Rightarrow>
                       (case pc_get_release env (ObjectKeyFromObject p) s2 of
                          Inl e \<Rightarrow>
                            if IsNotFound e then ((EmptyResult, Success, None), p, s2) else fail (error_text e) e s2
                        | Inr r \<Rightarrow>
                            (case FindStatusCondition (fr_conditions r) ReleasedCondition of
                               Some c \<Rightarrow>
                                 if fc_reason c = UninstallFailedReason
                                 then fail (fc_message c) (PlainError (''helm uninstall failed: '' @ fc_message c)) s2
                                 else ((EmptyResult, Pending, None), p, s2)
                             | None \<Rightarrow> ((EmptyResult, Pending, None), p, s2))))))"

section \<open>Triggering the trackers\<close>

definition triggerReconcileForTracker ::
  "('s, 'g, 'b, 'm) plugin_env \<Rightarrow> string \<Rightarrow> plugin \<Rightarrow> string \<Rightarrow> 's \<Rightarrow> go_error option \<times> 's" where
  "triggerReconcileForTracker env stamp p trackerID s =
     (case parseTrackingID trackerID of
        Inl e \<Rightarrow> (Some e, s)
      | Inr (kind, name) \<Rightarrow>
          if name = o_name p then (None, s)
          else updateResourceWithAnnotation (pc_tracking env) stamp kind
                 \<lparr>nn_namespace = o_namespace p, nn_name = name\<rparr> s)"

definition reconcileTrackingResources ::
  "('s, 'g, 'b, 'm) plugin_env \<Rightarrow> string \<Rightarrow> plugin \<Rightarrow> string \<Rightarrow> string \<Rightarrow> 's \<Rightarrow> 's" where
  "reconcileTrackingResources env stamp p oldChecksum newChecksum s =
     (if oldChecksum = newChecksum then s
      else fold (\<lambda>trackerID s. snd (triggerReconcileForTracker env stamp p trackerID s)) (getTrackerIDsFromAnnotations p) s)"

section \<open>The status\<close>

definition FluxReadyCondition :: string where "FluxReadyCondition = ''Ready''"
definition ConditionStalled :: string where "ConditionStalled = ''Stalled''"
definition ReleaseActionInstall :: string where "ReleaseActionInstall = ''install''"
definition ReleaseActionUpgrade :: string where "ReleaseActionUpgrade = ''upgrade''"

text \<open>The exposed services: the condition and the map that are reported.\<close>

definition exposed_status ::
  "time \<Rightarrow> ('s, 'g, 'b, 'm) plugin_env \<Rightarrow> 'g \<Rightarrow> plugin \<Rightarrow> bool \<Rightarrow> condition \<times> service smap" where
  "exposed_status now env g p exposeServices =
     (case pc_getHelmRelease env g (ps_releaseNamespace (pl_spec p)) (Plugin_GetReleaseName p) of
        Inl e \<Rightarrow> (FalseCondition now ExposedServicesSyncedCondition []
                    (''failed to fetch Helm release from remote cluster: '' @ error_text e), [])
      | Inr rel \<Rightarrow>
          (case getAllExposedServicesForPlugin (pc_reader env g) (pc_dnsDomain env) rel p exposeServices of
             Inl e \<Rightarrow> (FalseCondition now ExposedServicesSyncedCondition [] (''failed to get exposed services: '' @ error_text e), [])
           | Inr serviceList \<Rightarrow>
               if length serviceList = 0 \<and> \<not> exposeServices
               then (TrueCondition now ExposedServicesSyncedCondition ExposedServicesDisabledReason
                       ''exposed services are disabled for this cluster'', [])
               else (TrueCondition now ExposedServicesSyncedCondition [] ''Fetched exposed services successfully'', serviceList)))"

text \<open>The condition \<open>HelmReleaseDeployed\<close> that repeats \<open>Ready\<close> of the HelmRelease.\<close>

definition deployed_condition :: "time \<Rightarrow> flux_condition option \<Rightarrow> condition" where
  "deployed_condition now ready =
     (case ready of
        None \<Rightarrow> UnknownCondition now HelmReleaseDeployedCondition [] []
      | Some c \<Rightarrow> NewCondition now HelmReleaseDeployedCondition (fc_status c) (fc_reason c) (fc_message c))"

text \<open>The release status, the version of the plugin, and whether the release is stalled.\<close>

definition release_state ::
  "flux_release \<Rightarrow> plugin_definition_spec \<Rightarrow> string \<times> string \<times> flux_condition option" where
  "release_state r spec =
     (let ready = FindStatusCondition (fr_conditions r) FluxReadyCondition;
          cur = (\<lambda>st. case ready of None \<Rightarrow> False | Some c \<Rightarrow> fc_observedGeneration c = fr_generation r \<and> fc_status c = st)
      in if hs_suspend (fr_spec r) then (''suspended'', [], None)
         else if cur ConditionTrue
         then (case fr_latest r of Some snap \<Rightarrow> rs_status snap | None \<Rightarrow> ''deployed'', pds_version spec, None)
         else if cur ConditionUnknown
         then (if fr_lastAttemptedReleaseAction r = ReleaseActionInstall then ''pending-install''
               else if fr_lastAttemptedReleaseAction r = ReleaseActionUpgrade then ''pending-upgrade''
               else ''progressing'', [], None)
         else if cur ConditionFalse
         then (''failed'', [],
               case FindStatusCondition (fr_conditions r) ConditionStalled of
                 Some c \<Rightarrow> if fc_status c = ConditionTrue then Some c else None
               | None \<Rightarrow> None)
         else (''progressing'', [], None))"

text \<open>
  \<open>fetchReleaseStatus\<close>; its argument \<open>pluginStatus\<close> is the status of \<open>plugin\<close> itself. The release status and
  the version are reset before the HelmRelease is read; the old checksum is read from the status at the end.
\<close>

definition fetchReleaseStatus ::
  "time \<Rightarrow> ('s, 'g, 'b, 'm) plugin_env \<Rightarrow> string \<Rightarrow> 'g \<Rightarrow> plugin \<Rightarrow> plugin_definition_spec \<Rightarrow> bool \<Rightarrow> 's \<Rightarrow> plugin \<times> 's" where
  "fetchReleaseStatus now env stamp g p spec exposeServices s =
     (if pds_helmChart spec = None
      then (p\<lparr>pl_helmChart := None, pl_helmReleaseStatus := Some unknown_release, pl_version := pds_version spec,
              pl_exposedServices := []\<rparr>, s)
      else
        (let p1 = p\<lparr>pl_helmChart := pds_helmChart spec, pl_version := [], pl_helmReleaseStatus := Some unknown_release,
                    pl_exposedServices := []\<rparr>
         in case pc_get_release env (ObjectKeyFromObject p) s of
              Inl e \<Rightarrow>
                (SetCondition now (FalseCondition now HelmReleaseDeployedCondition [] (''failed to load Flux HelmRelease: '' @ error_text e))
                  (SetCondition now (FalseCondition now ExposedServicesSyncedCondition []
                     (''failed to load Flux HelmRelease: '' @ error_text e)) p1), s)
            | Inr r \<Rightarrow>
                (case exposed_status now env g p1 exposeServices of
                   (cond, exposedServices) \<Rightarrow>
                (case release_state r spec of
                   (status, version, stalled) \<Rightarrow>
                  (let p2 = (SetCondition now cond p1)\<lparr>pl_exposedServices := exposedServices\<rparr>;
                       p3 = SetCondition now (deployed_condition now (FindStatusCondition (fr_conditions r) FluxReadyCondition)) p2;
                       p4 = (case stalled of
                               None \<Rightarrow> p3
                             | Some c \<Rightarrow> SetCondition now (FalseCondition now HelmReleaseDeployedCondition
                                 FluxHelmReleaseStalledReason (fc_message c)) p3);
                       rs = unknown_release\<lparr>hr_status := status,
                              hr_firstDeployed := (case fr_latest r of None \<Rightarrow> 0 | Some snap \<Rightarrow> rs_firstDeployed snap),
                              hr_lastDeployed := (case fr_latest r of None \<Rightarrow> 0 | Some snap \<Rightarrow> rs_lastDeployed snap)\<rparr>;
                       p5 = p4\<lparr>pl_version := version, pl_helmReleaseStatus := Some rs\<rparr>;
                       oldChecksum = (case pl_helmReleaseStatus p5 of None \<Rightarrow> [] | Some st \<Rightarrow> hr_pluginOptionChecksum st);
                       newChecksum = (if ps_optionValues (pl_spec p) \<noteq> []
                                      then (case CalculatePluginOptionChecksum (pc_get_secret env s) p5 of
                                              Inl _ \<Rightarrow> [] | Inr c \<Rightarrow> c) else []);
                       p6 = p5\<lparr>pl_helmReleaseStatus := Some (rs\<lparr>hr_pluginOptionChecksum := newChecksum\<rparr>)\<rparr>
                   in (p6, if oldChecksum \<noteq> [] then reconcileTrackingResources env stamp p6 oldChecksum newChecksum s
                           else s))))))"

text \<open>
  \<open>computeReadyConditionFlux\<close>; \<open>None\<close> is a nil dereference, of a condition that is missing.
\<close>

definition computeReadyConditionFlux ::
  "time \<Rightarrow> ('s, 'g, 'b, 'm) plugin_env \<Rightarrow> string \<Rightarrow> plugin \<Rightarrow> 's \<Rightarrow> (condition \<times> plugin) option \<times> 's" where
  "computeReadyConditionFlux now env stamp p s =
     (case GetConditionByType (o_conditions p) ReadyCondition of
        None \<Rightarrow> (None, s)
      | Some rc \<Rightarrow>
          (case initClientGetter now env p s of
             (Inl e, p1) \<Rightarrow> (Some (rc\<lparr>c_status := ConditionFalse, c_message := ''cluster access not ready''\<rparr>, p1), s)
           | (Inr (g, cl), p1) \<Rightarrow>
               (case GetPluginDefinitionSpec (pc_reads env s) (ps_pluginDefinitionRef (pl_spec p)) (o_namespace p) of
                  Inl e \<Rightarrow>
                    (Some (rc\<lparr>c_status := ConditionFalse, c_reason := PluginDefinitionNotAvailableReason,
                              c_message := ''PluginDefinition not available''\<rparr>,
                           SetCondition now (FalseCondition now HelmReleaseCreatedCondition PluginDefinitionNotAvailableReason
                             (error_text e)) p1), s)
                | Inr spec \<Rightarrow>
                    (let p2 = p1\<lparr>pl_uiApplication := pds_uiApplication spec, pl_weight := pds_weight spec,
                                 pl_description := pds_description spec\<rparr>
                     in case fetchReleaseStatus now env stamp g p2 spec (ExposedServicesEnabled cl) s of
                          (p3, s1) \<Rightarrow>
                            (case reconcileTechnicalLabels env p3 s1 of
                               (_, p4, s2) \<Rightarrow>
                                 if pds_helmChart spec = None
                                 then (Some (rc\<lparr>c_status := ConditionTrue, c_message := ''ready'', c_reason := []\<rparr>, p4), s2)
                                 else (case GetConditionByType (o_conditions p4) HelmReleaseCreatedCondition of
                                         None \<Rightarrow> (None, s2)
                                       | Some created \<Rightarrow>
                                           if IsFalse created \<or> IsUnknown created
                                           then (Some (rc\<lparr>c_status := ConditionFalse, c_message := c_message created,
                                                          c_reason := c_reason created\<rparr>, p4), s2)
                                           else (case GetConditionByType (o_conditions p4) HelmReleaseDeployedCondition of
                                                   None \<Rightarrow> (None, s2)
                                                 | Some dep \<Rightarrow>
                                                     if IsFalse dep \<or> IsUnknown dep
                                                     then (Some (rc\<lparr>c_status := ConditionFalse, c_message := c_message dep,
                                                            c_reason := (if IsFalse dep then c_reason dep else [])\<rparr>, p4), s2)
                                                     else (Some (rc\<lparr>c_status := ConditionTrue, c_message := ''ready'',
                                                            c_reason := []\<rparr>, p4), s2))))))))"

definition plugin_setConditions ::
  "time \<Rightarrow> ('s, 'g, 'b, 'm) plugin_env \<Rightarrow> string \<Rightarrow> plugin \<Rightarrow> 's \<Rightarrow> plugin option \<times> 's" where
  "plugin_setConditions now env stamp p s =
     (case computeReadyConditionFlux now env stamp p s of
        (None, s1) \<Rightarrow> (None, s1)
      | (Some (rc, p1), s1) \<Rightarrow>
          (Some (p1\<lparr>o_conditions := SetConditions now
             [rc, ComputeOwnerLabelCondition now (pr_get_team (pc_reads env s1)) p1] (o_conditions p1)\<rparr>), s1))"

section \<open>The callbacks\<close>

definition plugin_EnsureCreated ::
  "time \<Rightarrow> ('s, 'g, 'b, 'm) plugin_env \<Rightarrow> string \<Rightarrow> plugin \<Rightarrow> 's
     \<Rightarrow> ((ctrl_result \<times> reconcile_result \<times> go_error option) \<times> plugin) option \<times> 's" where
  "plugin_EnsureCreated now env kind p s = EnsureFluxCreated now env kind (InitPluginStatus now p) s"

definition plugin_EnsureDeleted ::
  "time \<Rightarrow> ('s, 'g, 'b, 'm) plugin_env \<Rightarrow> plugin \<Rightarrow> 's
     \<Rightarrow> (ctrl_result \<times> reconcile_result \<times> go_error option) \<times> plugin \<times> 's" where
  "plugin_EnsureDeleted now env p s = EnsureFluxDeleted now env p s"

definition plugin_EnsureSuspended ::
  "('s, 'g, 'b, 'm) plugin_env \<Rightarrow> plugin \<Rightarrow> 's \<Rightarrow> (ctrl_result \<times> go_error option) \<times> 's" where
  "plugin_EnsureSuspended env p s = EnsureFluxSuspended env p s"

definition ListPluginsAsReconcileRequests :: "('l \<Rightarrow> go_error + plugin list) \<Rightarrow> 'l \<Rightarrow> namespaced_name list" where
  "ListPluginsAsReconcileRequests list_plugins opts =
     (case list_plugins opts of Inl e \<Rightarrow> [] | Inr ps \<Rightarrow> map ObjectKeyFromObject ps)"

section \<open>What the API server promises\<close>

text \<open>
  \<open>lookup\<close> is what is stored. A read that succeeds returns what is stored, and reports that there is nothing
  only if there is nothing; a successful write stores the changed object; the owner reference does not touch
  the specification.
\<close>

definition release_reads ::
  "('s, 'g, 'b, 'm) plugin_env \<Rightarrow> ('s \<Rightarrow> namespaced_name \<Rightarrow> flux_release option) \<Rightarrow> bool" where
  "release_reads env lookup \<longleftrightarrow>
     (\<forall>key s r. pc_get_release env key s = Inr r \<longrightarrow> lookup s key = Some r \<and> ObjectKeyFromObject r = key) \<and>
     (\<forall>key s e. pc_get_release env key s = Inl e \<and> IsNotFound e \<longrightarrow> lookup s key = None)"

definition release_writes ::
  "('s, 'g, 'b, 'm) plugin_env \<Rightarrow> ('s \<Rightarrow> namespaced_name \<Rightarrow> flux_release option) \<Rightarrow> bool" where
  "release_writes env lookup \<longleftrightarrow>
     (\<forall>r f s s'. pc_update_release env r f s = (None, s') \<longrightarrow>
        (\<exists>r0 r'. f r0 = Inr r' \<and> lookup s' (ObjectKeyFromObject r) = Some r')) \<and>
     (\<forall>key f s s'. pc_patch_release env key f s = (None, s') \<longrightarrow> (\<exists>r0 r'. f r0 = Inr r' \<and> lookup s' key = Some r')) \<and>
     (\<forall>p r r'. pc_setControllerReference env p r = Inr r' \<longrightarrow> fr_spec r' = fr_spec r)"

lemma release_readsD:
  assumes "release_reads env lookup"
  shows "pc_get_release env key s = Inr r \<Longrightarrow> lookup s key = Some r \<and> ObjectKeyFromObject r = key"
    and "pc_get_release env key s = Inl e \<Longrightarrow> IsNotFound e \<Longrightarrow> lookup s key = None"
  using assms unfolding release_reads_def by simp_all

lemma release_writesD:
  assumes "release_writes env lookup"
  shows "pc_update_release env r f s = (None, s') \<Longrightarrow> \<exists>r0 r'. f r0 = Inr r' \<and> lookup s' (ObjectKeyFromObject r) = Some r'"
    and "pc_patch_release env key f s = (None, s') \<Longrightarrow> \<exists>r0 r'. f r0 = Inr r' \<and> lookup s' key = Some r'"
    and "pc_setControllerReference env p x = Inr x' \<Longrightarrow> fr_spec x' = fr_spec x"
  using assms unfolding release_writes_def by simp_all

section \<open>Deletion\<close>

lemma suspended_before_delete:
  assumes "release_reads env lookup" "release_writes env lookup"
    and "EnsureFluxSuspended env p s = ((r, None), s')"
  shows "lookup s' (ObjectKeyFromObject p) = None \<or>
    (\<exists>rel. lookup s' (ObjectKeyFromObject p) = Some rel \<and> hs_suspend (fr_spec rel))"
proof (cases "pc_get_release env (ObjectKeyFromObject p) s")
  case (Inl e)
  with assms(3) release_readsD(2) [OF assms(1) Inl] show ?thesis
    by (auto simp: EnsureFluxSuspended_def split: if_splits)
next
  case (Inr rel)
  with assms(3) have up: "pc_update_release env rel (\<lambda>r. Inr (r\<lparr>fr_spec := (fr_spec r)\<lparr>hs_suspend := True\<rparr>\<rparr>)) s = (None, s')"
    by (auto simp: EnsureFluxSuspended_def split: prod.splits)
  have "ObjectKeyFromObject rel = ObjectKeyFromObject p" using release_readsD(1) [OF assms(1) Inr] by simp
  with release_writesD(1) [OF assms(2) up] show ?thesis by force
qed

text \<open>
  C25. The deletion of a plugin is done only when its HelmRelease is gone. If the plugin is to be retained,
  the HelmRelease was suspended (or absent) when its deletion was requested, so that Flux does not uninstall
  the Helm release from the cluster.
\<close>

theorem plugin_deletion_complete:
  assumes "release_reads env lookup" and "release_writes env lookup"
    and "plugin_EnsureDeleted now env p s = ((r, Success, err), p', s')"
  shows "lookup s' (ObjectKeyFromObject p) = None \<and> err = None \<and> p' = p
    \<and> (\<exists>s1. snd (pc_delete_release env (ObjectKeyFromObject p) s1) = s'
         \<and> (ps_deletionPolicy (pl_spec p) = DeletionPolicyRetain \<longrightarrow>
              lookup s1 (ObjectKeyFromObject p) = None \<or>
              (\<exists>rel. lookup s1 (ObjectKeyFromObject p) = Some rel \<and> hs_suspend (fr_spec rel))))"
proof -
  let ?key = "ObjectKeyFromObject p"
  obtain se s1 where su: "(if ps_deletionPolicy (pl_spec p) = DeletionPolicyRetain
      then (case EnsureFluxSuspended env p s of ((_, err), s1) \<Rightarrow> (err, s1)) else (None, s)) = (se, s1)"
    by (rule prod.exhaust)
  obtain de s2 where de: "pc_delete_release env ?key s1 = (de, s2)" by (cases "pc_delete_release env ?key s1")
  note run = assms(3) [unfolded plugin_EnsureDeleted_def EnsureFluxDeleted_def Let_def su]
  have se: "se = None" using run by (cases se) simp_all
  with run de have de': "IgnoreNotFound de = None" by (cases "IgnoreNotFound de") simp_all
  obtain e where gone: "pc_get_release env ?key s' = Inl e" "IsNotFound e" and res: "err = None" "p' = p" "s' = s2"
    using run se de de'
    by (cases "pc_get_release env ?key s2") (auto split: if_splits option.splits)
  have susp: "ps_deletionPolicy (pl_spec p) = DeletionPolicyRetain \<Longrightarrow> \<exists>r. EnsureFluxSuspended env p s = ((r, None), s1)"
    using su se by (auto split: prod.splits)
  have del: "snd (pc_delete_release env ?key s1) = s'" using de res by simp
  from release_readsD(2) [OF assms(1) gone] have "lookup s' ?key = None" .
  with susp suspended_before_delete [OF assms(1,2)] del res(1,2) show ?thesis by blast
qed

section \<open>Trackers are not triggered\<close>

text \<open>
  Reading the status of a release changes nothing on the API server, whatever the checksum in the status
  was and whatever it is now: the status that holds the old checksum is replaced before the checksum is read
  from it, so the resources that track this plugin are never asked to reconcile.
\<close>

theorem trackers_never_triggered:
  "snd (fetchReleaseStatus now env stamp g p spec exposeServices s) = s"
  by (simp add: fetchReleaseStatus_def Let_def unknown_release_def split: sum.split prod.split)

lemma fetch_version:
  assumes "pds_helmChart spec \<noteq> None" "pc_get_release env (ObjectKeyFromObject p) s = Inr r"
  shows "pl_version (fst (fetchReleaseStatus now env stamp g p spec exposeServices s)) = fst (snd (release_state r spec))"
  using assms by (auto simp: fetchReleaseStatus_def Let_def split: sum.split prod.split)

section \<open>Conditions\<close>

text \<open>The conditions that are present stay present.\<close>

definition keeps_conditions :: "plugin \<Rightarrow> plugin \<Rightarrow> bool" where
  "keeps_conditions p q \<longleftrightarrow> (\<forall>t. shown_status (o_conditions p) t \<noteq> None \<longrightarrow> shown_status (o_conditions q) t \<noteq> None)"

lemma keeps_refl [simp]: "keeps_conditions p p"
  by (simp add: keeps_conditions_def)

lemma keeps_trans: "keeps_conditions p q \<Longrightarrow> keeps_conditions q r \<Longrightarrow> keeps_conditions p r"
  by (simp add: keeps_conditions_def)

lemma keeps_SetCondition: "keeps_conditions p q \<Longrightarrow> keeps_conditions p (SetCondition now c q)"
  by (simp add: keeps_conditions_def shown_SetCondition)

lemma keeps_same: "o_conditions q = o_conditions r \<Longrightarrow> keeps_conditions p q = keeps_conditions p r"
  by (simp add: keeps_conditions_def)

lemma keeps_update [simp]:
  "keeps_conditions p (q\<lparr>pl_trackedObjects := a\<rparr>) = keeps_conditions p q"
  "keeps_conditions p (q\<lparr>pl_imageReplication := a\<rparr>) = keeps_conditions p q"
  "keeps_conditions p (q\<lparr>pl_uiApplication := b\<rparr>) = keeps_conditions p q"
  "keeps_conditions p (q\<lparr>pl_exposedServices := c\<rparr>) = keeps_conditions p q"
  "keeps_conditions p (q\<lparr>pl_helmReleaseStatus := d\<rparr>) = keeps_conditions p q"
  "keeps_conditions p (q\<lparr>pl_version := e\<rparr>) = keeps_conditions p q"
  "keeps_conditions p (q\<lparr>pl_helmChart := f\<rparr>) = keeps_conditions p q"
  "keeps_conditions p (q\<lparr>pl_weight := i\<rparr>) = keeps_conditions p q"
  "keeps_conditions p (q\<lparr>pl_description := e\<rparr>) = keeps_conditions p q"
  by (simp_all add: keeps_conditions_def)

lemma keeps_access [simp]:
  "keeps_conditions p (access_failed now e p)" "keeps_conditions p (access_restored now p)"
  by (simp_all add: access_failed_def access_restored_def keeps_SetCondition split: option.split)

lemma initClientGetter_plugin:
  "snd (initClientGetter now env p s) = (case fst (initClientGetter now env p s) of
     Inl e \<Rightarrow> access_failed now e p | Inr _ \<Rightarrow> access_restored now p)"
  by (simp add: initClientGetter_def Let_def split: sum.split)

lemma keeps_initClientGetter: "keeps_conditions p (snd (initClientGetter now env p s))"
  by (simp add: initClientGetter_plugin split: sum.split)

lemma keeps_fetch: "keeps_conditions p (fst (fetchReleaseStatus now env stamp g p spec ex s))"
  by (simp add: fetchReleaseStatus_def Let_def keeps_SetCondition split: sum.split prod.split option.split)

lemma keeps_computeReleaseValues: "keeps_conditions p (fst (snd (computeReleaseValues env kind p s)))"
  by (auto simp: computeReleaseValues_def Let_def split: sum.splits prod.splits option.splits)

lemma keeps_replication: "keeps_conditions p (snd (ensureImageReplication now parse m p sets))"
  by (simp add: ensureImageReplication_def keeps_SetCondition split: prod.split option.split)

lemma keeps_postRenderer: "keeps_conditions p (snd (createRegistryMirrorPostRenderer now env p spec ch vs s))"
proof -
  have 1: "keeps_conditions p (snd (ensureImageReplication now (pc_parseRef env) m p1 sets))"
    if "keeps_conditions p p1" for m p1 sets
    by (rule keeps_trans [OF that keeps_replication])
  have 2: "keeps_conditions p p1" if "initClientGetter now env p s = (r, p1)" for r p1
    using keeps_initClientGetter [of p now env s] that by simp
  show ?thesis
    by (auto simp: createRegistryMirrorPostRenderer_def Let_def keeps_SetCondition dest!: 2
        split: sum.split option.split prod.split) (metis 1 snd_conv)+
qed

lemma keeps_ensureHelmRelease: "keeps_conditions p (fst (snd (ensureHelmRelease now env p spec ch vs s)))"
proof -
  have 1: "keeps_conditions p p1" if "createRegistryMirrorPostRenderer now env p spec ch vs s = (r, p1)" for r p1
    using keeps_postRenderer [of p now env spec ch vs s] that by simp
  show ?thesis
    by (auto simp: ensureHelmRelease_def keeps_SetCondition dest: 1 split: sum.split option.split prod.split)
qed

lemma keeps_EnsureFluxCreated:
  assumes "EnsureFluxCreated now env kind p s = (Some (r, q), s')"
  shows "keeps_conditions p q"
proof -
  have 1: "keeps_conditions p p1" if "computeReleaseValues env kind p s = (v, p1, s1)" for v p1 s1
    using keeps_computeReleaseValues [of p env kind s] that by simp
  have 2: "keeps_conditions p p2" if "ensureHelmRelease now env p1 spec ch vs s1 = (v, p2, s2)" "keeps_conditions p p1"
    for v p1 spec ch vs s1 p2 s2
    using keeps_trans [OF that(2) keeps_ensureHelmRelease [of p1 now env spec ch vs s1]] that(1) by simp
  show ?thesis
    using assms 1 2
    by (auto simp: EnsureFluxCreated_def Let_def keeps_SetCondition
        split: sum.splits option.splits prod.splits if_splits)
qed

definition has_conditions :: "plugin \<Rightarrow> bool" where
  "has_conditions p \<longleftrightarrow> (\<forall>t \<in> set plugin_exposedConditions. shown_status (o_conditions p) t \<noteq> None)"

lemma has_conditions_keeps: "has_conditions p \<Longrightarrow> keeps_conditions p q \<Longrightarrow> has_conditions q"
  by (auto simp: has_conditions_def keeps_conditions_def)

lemma has_conditions_init: "has_conditions (InitPluginStatus now p)"
proof -
  let ?f = "\<lambda>t (p :: plugin). if GetConditionByType (o_conditions p) t = None
    then SetCondition now (UnknownCondition now t [] []) p else p"
  have "\<forall>t \<in> set ts. shown_status (o_conditions (fold ?f ts q)) t \<noteq> None" for ts q
  proof (induction ts rule: rev_induct)
    case (snoc t ts)
    then show ?case
      by (auto simp: shown_SetCondition shown_status_None_iff condition_constructors)
  qed simp
  then show ?thesis
    unfolding has_conditions_def InitPluginStatus_def Let_def by (simp split: option.split)
qed

text \<open>The answer to a patch of the labels has the conditions the patched object had.\<close>

definition labels_patch_ok :: "('s, 'g, 'b, 'm) plugin_env \<Rightarrow> bool" where
  "labels_patch_ok env \<longleftrightarrow>
     (\<forall>p' p s q s1. pc_patch_plugin env p' p s = (Inr q, s1) \<longrightarrow> keeps_conditions p' q)"

lemma keeps_labels:
  assumes "labels_patch_ok env" "reconcileTechnicalLabels env p s = (err, q, s')"
  shows "keeps_conditions p q"
proof -
  have "keeps_conditions p (technical_labels p)" by (simp add: keeps_conditions_def technical_labels_def Let_def)
  moreover have "keeps_conditions (technical_labels p) q"
    using assms(2) assms(1) [unfolded labels_patch_ok_def, rule_format, of "technical_labels p" p s]
    by (auto simp: reconcileTechnicalLabels_def Let_def split: if_splits prod.splits sum.splits)
  ultimately show ?thesis by (rule keeps_trans)
qed

lemma computeReady_ok:
  assumes "labels_patch_ok env" "has_conditions p"
  obtains rc q s' where "computeReadyConditionFlux now env stamp p s = (Some (rc, q), s')" "c_type rc = ReadyCondition"
    "IsTrue rc \<longleftrightarrow> (\<exists>gc spec. fst (initClientGetter now env p s) = Inr gc \<and>
       GetPluginDefinitionSpec (pc_reads env s) (ps_pluginDefinitionRef (pl_spec p)) (o_namespace p) = Inr spec \<and>
       (pds_helmChart spec = None \<or> shown_status (o_conditions q) HelmReleaseCreatedCondition = Some ConditionTrue
          \<and> shown_status (o_conditions q) HelmReleaseDeployedCondition = Some ConditionTrue))"
proof -
  from assms(2) obtain rc where rc: "GetConditionByType (o_conditions p) ReadyCondition = Some rc"
    by (auto simp: has_conditions_def plugin_exposedConditions_def shown_status_def)
  then have ty: "c_type rc = ReadyCondition" by (auto dest: GetConditionByType_SomeD)
  obtain r p1 where ic: "initClientGetter now env p s = (r, p1)" by (cases "initClientGetter now env p s")
  show thesis
  proof (cases r)
    case (Inl e)
    show thesis by (rule that [of "rc\<lparr>c_status := ConditionFalse, c_message := ''cluster access not ready''\<rparr>"])
        (simp_all add: computeReadyConditionFlux_def rc ic Inl ty IsTrue_def)
  next
    case (Inr gc)
    obtain g cl where gc: "gc = (g, cl)" by (cases gc)
    show thesis
    proof (cases "GetPluginDefinitionSpec (pc_reads env s) (ps_pluginDefinitionRef (pl_spec p)) (o_namespace p)")
      case (Inl e)
      show thesis by (rule that [of "rc\<lparr>c_status := ConditionFalse, c_reason := PluginDefinitionNotAvailableReason,
              c_message := ''PluginDefinition not available''\<rparr>"])
          (simp_all add: computeReadyConditionFlux_def rc ic Inr gc Inl ty IsTrue_def)
    next
      case spec: (Inr spec)
      define p2 where "p2 = p1\<lparr>pl_uiApplication := pds_uiApplication spec, pl_weight := pds_weight spec,
                                 pl_description := pds_description spec\<rparr>"
      obtain p3 s1 where f: "fetchReleaseStatus now env stamp g p2 spec (ExposedServicesEnabled cl) s = (p3, s1)"
        by (cases "fetchReleaseStatus now env stamp g p2 spec (ExposedServicesEnabled cl) s")
      obtain er p4 s2 where l: "reconcileTechnicalLabels env p3 s1 = (er, p4, s2)" by (cases "reconcileTechnicalLabels env p3 s1") auto
      have "keeps_conditions p p2" using keeps_initClientGetter [of p now env s] ic by (simp add: p2_def)
      moreover have "keeps_conditions p2 p3" using keeps_fetch [of p2 now env stamp g spec "ExposedServicesEnabled cl" s] f by simp
      moreover have "keeps_conditions p3 p4" by (rule keeps_labels [OF assms(1) l])
      ultimately have "has_conditions p4" using assms(2) by (meson has_conditions_keeps)
      then obtain cr de where cd: "GetConditionByType (o_conditions p4) HelmReleaseCreatedCondition = Some cr"
        "GetConditionByType (o_conditions p4) HelmReleaseDeployedCondition = Some de"
        by (auto simp: has_conditions_def plugin_exposedConditions_def shown_status_def)
      note run = computeReadyConditionFlux_def rc ic Inr gc spec p2_def [symmetric] f l cd
      define rc1 where "rc1 = (if pds_helmChart spec = None then rc\<lparr>c_status := ConditionTrue, c_message := ''ready'', c_reason := []\<rparr>
        else if IsFalse cr \<or> IsUnknown cr then rc\<lparr>c_status := ConditionFalse, c_message := c_message cr, c_reason := c_reason cr\<rparr>
        else if IsFalse de \<or> IsUnknown de then rc\<lparr>c_status := ConditionFalse, c_message := c_message de,
          c_reason := (if IsFalse de then c_reason de else [])\<rparr>
        else rc\<lparr>c_status := ConditionTrue, c_message := ''ready'', c_reason := []\<rparr>)"
      have "computeReadyConditionFlux now env stamp p s = (Some (rc1, p4), s2)" by (simp add: run rc1_def)
      moreover have "IsTrue rc1 \<longleftrightarrow> pds_helmChart spec = None \<or> (IsTrue cr \<and> IsTrue de)"
        by (cases "c_status cr"; cases "c_status de") (simp_all add: rc1_def IsTrue_def IsFalse_def IsUnknown_def)
      moreover have "c_type rc1 = ReadyCondition" using ty by (simp add: rc1_def)
      ultimately have "\<exists>rc'. computeReadyConditionFlux now env stamp p s = (Some (rc', p4), s2) \<and> c_type rc' = ReadyCondition \<and>
          (IsTrue rc' \<longleftrightarrow> pds_helmChart spec = None \<or> (IsTrue cr \<and> IsTrue de))" by blast
      then obtain rc' where rc': "computeReadyConditionFlux now env stamp p s = (Some (rc', p4), s2)" "c_type rc' = ReadyCondition"
        "IsTrue rc' \<longleftrightarrow> pds_helmChart spec = None \<or> (IsTrue cr \<and> IsTrue de)" by blast
      show thesis
        by (rule that [OF rc'(1,2)]) (use rc'(3) in \<open>simp add: ic Inr spec cd shown_status_def IsTrue_def\<close>)
    qed
  qed
qed

text \<open>
  After every reconciliation of a plugin that returns, its readiness can be computed without a nil
  dereference. It is True exactly when the cluster can be accessed, the definition can be read, and, for a
  plugin with a chart, the HelmRelease was written and Flux reports it as ready.
\<close>

theorem plugin_ready_iff:
  assumes "labels_patch_ok env" and "plugin_EnsureCreated now env kind p0 s0 = (Some (out, p), s)"
  shows "\<exists>t s'. plugin_setConditions now env stamp p s = (Some t, s')
    \<and> (IsReadyTrue (o_conditions t) \<longleftrightarrow>
        (\<exists>gc spec. fst (initClientGetter now env p s) = Inr gc
           \<and> GetPluginDefinitionSpec (pc_reads env s) (ps_pluginDefinitionRef (pl_spec p)) (o_namespace p) = Inr spec
           \<and> (pds_helmChart spec = None \<or> shown_status (o_conditions t) HelmReleaseCreatedCondition = Some ConditionTrue
                \<and> shown_status (o_conditions t) HelmReleaseDeployedCondition = Some ConditionTrue)))"
proof -
  have "has_conditions p"
    using has_conditions_keeps [OF has_conditions_init keeps_EnsureFluxCreated [OF assms(2) [unfolded plugin_EnsureCreated_def]]] .
  from computeReady_ok [OF assms(1) this] obtain rc q s' where
    run: "computeReadyConditionFlux now env stamp p s = (Some (rc, q), s')" "c_type rc = ReadyCondition"
    and iff: "IsTrue rc \<longleftrightarrow> (\<exists>gc spec. fst (initClientGetter now env p s) = Inr gc \<and>
       GetPluginDefinitionSpec (pc_reads env s) (ps_pluginDefinitionRef (pl_spec p)) (o_namespace p) = Inr spec \<and>
       (pds_helmChart spec = None \<or> shown_status (o_conditions q) HelmReleaseCreatedCondition = Some ConditionTrue
          \<and> shown_status (o_conditions q) HelmReleaseDeployedCondition = Some ConditionTrue))" .
  let ?o = "ComputeOwnerLabelCondition now (pr_get_team (pc_reads env s')) q"
  let ?cs = "SetConditions now [rc, ?o] (o_conditions q)"
  have "?cs = SetConditions now [?o] (SetConditions now [rc] (o_conditions q))" by (simp add: SetConditions_Cons)
  then have shown: "shown_status ?cs ReadyCondition = Some (c_status rc)"
    "t \<notin> {ReadyCondition, OwnerLabelSetCondition} \<Longrightarrow> shown_status ?cs t = shown_status (o_conditions q) t" for t
    by (simp_all add: shown_status_set run(2) condition_consts)
  show ?thesis
    using run(1) iff shown
    by (simp add: plugin_setConditions_def IsReadyTrue_shown IsTrue_def condition_consts
        HelmReleaseCreatedCondition_def HelmReleaseDeployedCondition_def)
qed

section \<open>What is written\<close>

lemma plugin_SetCondition [simp]:
  "pl_spec (SetCondition now c p) = pl_spec p" "pl_trackedObjects (SetCondition now c p) = pl_trackedObjects p"
  by (simp_all add: SetCondition_def)

text \<open>Name, namespace, annotations and specification of a plugin stay the same.\<close>

definition same_plugin :: "plugin \<Rightarrow> plugin \<Rightarrow> bool" where
  "same_plugin p q \<longleftrightarrow> o_name q = o_name p \<and> o_namespace q = o_namespace p \<and> o_annotations q = o_annotations p \<and> pl_spec q = pl_spec p"

lemma same_plugin_refl [simp]: "same_plugin p p"
  by (simp add: same_plugin_def)

lemma same_plugin_updates [simp]:
  "same_plugin p (SetCondition now c q) = same_plugin p q"
  "same_plugin p (q\<lparr>pl_trackedObjects := a\<rparr>) = same_plugin p q"
  "same_plugin p (q\<lparr>pl_imageReplication := a\<rparr>) = same_plugin p q"
  "same_plugin p (q\<lparr>pl_helmReleaseStatus := d\<rparr>) = same_plugin p q"
  "same_plugin p (RemoveObjectCondition t q) = same_plugin p q"
  by (simp_all add: same_plugin_def RemoveObjectCondition_def)

lemma same_plugin_trans: "same_plugin p q \<Longrightarrow> same_plugin q r \<Longrightarrow> same_plugin p r"
  by (simp add: same_plugin_def)

lemma same_init: "same_plugin p (InitPluginStatus now p)"
proof -
  have "same_plugin p (fold RemoveObjectCondition ts p)" for ts by (induction ts rule: rev_induct) auto
  moreover have "same_plugin p (fold (\<lambda>t p. if GetConditionByType (o_conditions p) t = None
      then SetCondition now (UnknownCondition now t [] []) p else p) ts q)" if "same_plugin p q" for ts q
    using that by (induction ts arbitrary: q) auto
  ultimately show ?thesis by (simp add: InitPluginStatus_def Let_def split: option.split)
qed

lemma same_values: "same_plugin p (fst (snd (computeReleaseValues env kind p s)))"
  by (auto simp: computeReleaseValues_def Let_def split: sum.splits prod.splits option.splits)

lemma same_initClientGetter: "same_plugin p (snd (initClientGetter now env p s))"
  by (simp add: initClientGetter_plugin access_failed_def access_restored_def split: sum.split option.split)

lemma same_replication: "same_plugin p (snd (ensureImageReplication now parse m p sets))"
  by (simp add: ensureImageReplication_def split: prod.split option.split)

lemma same_postRenderer: "same_plugin p (snd (createRegistryMirrorPostRenderer now env p spec ch vs s))"
proof -
  have 1: "same_plugin p (snd (ensureImageReplication now (pc_parseRef env) m p1 sets))" if "same_plugin p p1" for m p1 sets
    by (rule same_plugin_trans [OF that same_replication])
  have 2: "same_plugin p p1" if "initClientGetter now env p s = (r, p1)" for r p1
    using same_initClientGetter [of p now env s] that by simp
  show ?thesis
    by (auto simp: createRegistryMirrorPostRenderer_def Let_def dest!: 2
        split: sum.split option.split prod.split) (metis 1 snd_conv)+
qed

text \<open>The fields of the specification that depend on the plugin.\<close>

definition spec_for :: "plugin \<Rightarrow> flux_chart \<Rightarrow> string \<Rightarrow> helm_release_spec \<Rightarrow> bool" where
  "spec_for p ch helmValues sp \<longleftrightarrow>
     hs_chartRef sp = Some \<lparr>sr_kind = HelmChartKind, sr_name = o_name ch, sr_namespace = o_namespace ch\<rparr> \<and>
     hs_releaseName sp = Plugin_GetReleaseName p \<and>
     hs_targetNamespace sp = ps_releaseNamespace (pl_spec p) \<and> hs_storageNamespace sp = ps_releaseNamespace (pl_spec p) \<and>
     hs_kubeConfig sp = (if ps_clusterName (pl_spec p) = [] then None
                         else Some \<lparr>sk_name = ps_clusterName (pl_spec p), sk_key = GreenHouseKubeConfigKey\<rparr>) \<and>
     hs_dependsOn sp = resolvePluginDependencies (ps_waitFor (pl_spec p)) (ps_clusterName (pl_spec p)) \<and>
     hs_values sp = helmValues \<and> hs_valuesFrom sp = addValueReferences p \<and> \<not> hs_suspend sp"

lemma release_builder_fields: "spec_for p ch helmValues (release_builder p ch helmValues)"
  by (simp add: spec_for_def release_builder_def Let_def builder_fields NewHelmReleaseSpecBuilder_def zero_release_spec_def)

lemma release_spec_fields:
  assumes "release_spec p ch helmValues pr = Inr sp"
  shows "spec_for p ch helmValues sp"
proof -
  have "spec_for p ch helmValues (WithPostRenderers rs b) = spec_for p ch helmValues b" for rs b
    by (simp add: spec_for_def builder_fields)
  with assms release_builder_fields [of p ch helmValues] show ?thesis
    by (cases pr) (auto simp: release_spec_def Build_def Let_def split: option.splits)
qed

lemma spec_for_same: "same_plugin p q \<Longrightarrow> spec_for q ch v sp = spec_for p ch v sp"
  by (simp add: same_plugin_def spec_for_def Plugin_GetReleaseName_def addValueReferences_def)

lemma ensureHelmRelease_written:
  assumes "release_writes env lookup" and "ensureHelmRelease now env p spec ch vs s = (None, q, s')"
  shows "\<exists>rel v. lookup s' (ObjectKeyFromObject p) = Some rel \<and> generateHelmValues env vs = Inr v \<and> spec_for p ch v (fr_spec rel)"
proof -
  from assms(2) obtain v pr p1 where v: "generateHelmValues env vs = Inr v"
    and pr: "createRegistryMirrorPostRenderer now env p spec ch vs s = (Inr pr, p1)"
    and w: "pc_patch_release env (ObjectKeyFromObject p) (mutate_release env p1 ch v pr) s = (None, s')"
    by (auto simp: ensureHelmRelease_def split: sum.splits prod.splits option.splits)
  from release_writesD(2) [OF assms(1) w] obtain r0 rel where rel: "mutate_release env p1 ch v pr r0 = Inr rel"
    "lookup s' (ObjectKeyFromObject p) = Some rel" by blast
  from rel(1) obtain sp where sp: "release_spec p1 ch v pr = Inr sp" by (auto simp: mutate_release_def split: sum.splits)
  have "fr_spec rel = sp"
    using rel(1) release_writesD(3) [OF assms(1)]
    by (simp add: mutate_release_def sp Let_def EnsureAnnotation_def split: if_splits)
  moreover have "same_plugin p p1" using same_postRenderer [of p now env spec ch vs s] pr by simp
  ultimately have "spec_for p ch v (fr_spec rel)" using release_spec_fields [OF sp] spec_for_same by blast
  with v rel(2) show ?thesis by blast
qed

text \<open>
  C24. What a successful reconciliation of a plugin with a chart has stored: a HelmRelease under the name of
  the plugin, for the chart of its definition, that is not suspended, installs to the namespace and cluster
  of the plugin and waits for its dependencies. Its values are those of the resolved options, without any
  option that is taken from a secret; these are passed as references to the secrets.
\<close>

theorem plugin_release_written:
  assumes "release_writes env lookup"
    and "GetPluginDefinitionFromPlugin (pc_reads env s) (ps_pluginDefinitionRef (pl_spec p)) (o_namespace p) = Inr pd"
    and "pds_helmChart (pd_spec pd) \<noteq> None"
    and "plugin_EnsureCreated now env kind p s = (Some ((r, Success, err), q), s')"
  shows "\<exists>rel ch vs m.
    lookup s' (ObjectKeyFromObject p) = Some rel
    \<and> getPluginHelmChart env pd (if pdr_kind (ps_pluginDefinitionRef (pl_spec p)) = PluginDefinitionKind
        then o_namespace p else HelmRepositoryDefaultNamespace) s = Inr ch
    \<and> fst (computeReleaseValues env kind (InitPluginStatus now p) s) = Some (Inr vs)
    \<and> ConvertFlatValuesToHelmValues (pc_parseJSON env) (filter (\<lambda>v. Option.bind (ov_valueFrom v) pv_secret = None) vs) = Inr m
    \<and> spec_for p ch (print_json (sort_keys (JObj m))) (fr_spec rel)"
proof -
  let ?p = "InitPluginStatus now p"
  have same: "same_plugin p ?p" by (rule same_init)
  then have pd: "GetPluginDefinitionFromPlugin (pc_reads env s) (ps_pluginDefinitionRef (pl_spec ?p)) (o_namespace ?p) = Inr pd"
    using assms(2) by (simp add: same_plugin_def)
  let ?ns = "if pdr_kind (ps_pluginDefinitionRef (pl_spec ?p)) = PluginDefinitionKind then o_namespace ?p else HelmRepositoryDefaultNamespace"
  note run = assms(4) [unfolded plugin_EnsureCreated_def EnsureFluxCreated_def Let_def pd]
  obtain ch where ch: "getPluginHelmChart env pd ?ns s = Inr ch"
    using run assms(3) by (cases "getPluginHelmChart env pd ?ns s") auto
  obtain v p1 s1 where v: "computeReleaseValues env kind ?p s = (v, p1, s1)" by (cases "computeReleaseValues env kind ?p s") auto
  obtain vs where vs: "v = Some (Inr vs)"
    using run assms(3) ch v by (cases v) (auto split: sum.splits)
  obtain e p2 s2 where eh: "ensureHelmRelease now env p1 (pd_spec pd) ch vs s1 = (e, p2, s2)"
    by (cases "ensureHelmRelease now env p1 (pd_spec pd) ch vs s1") auto
  have e: "e = None" "s2 = s'" using run assms(3) ch v vs eh by (auto split: option.splits)
  have "same_plugin ?p p1" using same_values [of ?p env kind s] v by simp
  then have same1: "same_plugin p p1" by (rule same_plugin_trans [OF same])
  from ensureHelmRelease_written [OF assms(1) eh [unfolded e]] obtain rel t where
    "lookup s' (ObjectKeyFromObject p1) = Some rel" "generateHelmValues env vs = Inr t" "spec_for p1 ch t (fr_spec rel)" by blast
  moreover from this obtain m where "ConvertFlatValuesToHelmValues (pc_parseJSON env)
      (filter (\<lambda>v. Option.bind (ov_valueFrom v) pv_secret = None) vs) = Inr m" "t = print_json (sort_keys (JObj m))"
    by (auto simp: generateHelmValues_def split: sum.splits)
  ultimately show ?thesis
    using ch v vs same same1 spec_for_same [OF same1] by (auto simp: same_plugin_def ObjectKeyFromObject_def)
qed

section \<open>A reference to an object that does not exist\<close>

lemma compute_values_prefix:
  assumes "\<forall>v \<in> set pre. ov_value v \<noteq> None" and "compute_values env kind p res vs tracked s = (None, s')"
  shows "compute_values env kind p res (pre @ vs) tracked s = (None, s')"
  using assms by (induction pre) auto

text \<open>
  A plugin with an option that refers to another resource by name cannot be reconciled while that
  resource does not exist: the reconciliation panics instead of returning an error, so neither a condition nor
  an error tells what is missing.
\<close>

theorem missing_reference_panics:
  assumes "pc_integration env" and "\<not> pc_expressionEvaluation env"
    and "GetPluginDefinitionFromPlugin (pc_reads env s) (ps_pluginDefinitionRef (pl_spec p)) (o_namespace p) = Inr pd"
    and "pds_helmChart (pd_spec pd) \<noteq> None" and "\<And>ns. getPluginHelmChart env pd ns s = Inr (ch ns)"
    and "GetPluginOptionValuesForPlugin (pc_reads env s) p = Inr (pre @ v # post)" and "\<forall>w \<in> set pre. ov_value w \<noteq> None"
    and "ov_value v = None" and "ov_expression v = None" and "Option.bind (ov_valueFrom v) pv_ref = Some ref"
    and "ev_name ref \<noteq> []" and "ev_selector ref = None" and "ev_kind ref \<noteq> []"
    and "tk_get (pc_tracking env) (ev_kind ref) \<lparr>nn_namespace = o_namespace p, nn_name = ev_name ref\<rparr> s = Inl e" and "IsNotFound e"
  shows "EnsureFluxCreated now env kind p s = (None, s)"
proof -
  have "compute_values env kind p \<lparr>cr_templateData = []\<rparr> (v # post) [] s = (None, s)"
    using assms(1,8-15) by (simp add: ResolveValueFromRef_def resolveValueFromRef_def resolveByName_def Let_def)
  from compute_values_prefix [OF assms(7) this] have "computeReleaseValues env kind p s = (None, p, s)"
    using assms(2,6) by (simp add: computeReleaseValues_def)
  then show ?thesis using assms(3,4,5) by (auto simp: EnsureFluxCreated_def Let_def)
qed

section \<open>A server with one HelmRelease\<close>

text \<open>The state is the stored HelmRelease with its key.\<close>

type_synonym one_release = "(namespaced_name \<times> flux_release) option"

definition not_found :: go_error where "not_found = ApiError ReasonNotFound ''not found'' []"

definition one_lookup :: "one_release \<Rightarrow> namespaced_name \<Rightarrow> flux_release option" where
  "one_lookup s key = (case s of None \<Rightarrow> None | Some (k, r) \<Rightarrow> if k = key then Some r else None)"

definition new_release :: "namespaced_name \<Rightarrow> flux_release" where
  "new_release key =
     \<lparr>o_name = nn_name key, o_namespace = nn_namespace key, o_labels = [], o_annotations = [], o_finalizers = [],
      o_deletionTimestamp = None, o_ownerReferences = [], fr_spec = zero_release_spec, fr_generation = 1,
      fr_conditions = [\<lparr>fc_type = ''Ready'', fc_status = ConditionTrue, fc_observedGeneration = 1, fc_reason = ''Succeeded'',
        fc_message = ''installed''\<rparr>], fr_latest = None, fr_lastAttemptedReleaseAction = []\<rparr>"

definition store_release :: "namespaced_name \<Rightarrow> go_error + flux_release \<Rightarrow> one_release \<Rightarrow> go_error option \<times> one_release" where
  "store_release key r s = (case r of Inl e \<Rightarrow> (Some e, s) | Inr r' \<Rightarrow> (None, Some (key, r')))"

definition flat_parser :: parse_json_value where
  "flat_parser t m =
     (let k = takeWhile (\<lambda>c. c \<noteq> CHR ''='') t in
      case parse_json (drop (Suc (length k)) t) of
        Some j \<Rightarrow> Inr (smap_set k j m)
      | None \<Rightarrow> Inl (PlainError ''invalid value''))"

definition one_tracking :: "one_release tracking_env" where
  "one_tracking =
     \<lparr>tk_get = (\<lambda>_ _ _. Inl not_found), tk_update = (\<lambda>_ s. (Some not_found, s)), tk_list = (\<lambda>_ _ _ _. Inr []),
      tk_selector_error = (\<lambda>_. None), tk_run_cel = (\<lambda>_ _. Inr JNull), tk_retry = (\<lambda>f s. f s)\<rparr>"

definition one_release_env :: "(one_release, unit, unit, unit) plugin_env" where
  "one_release_env =
     \<lparr>pc_reads = (\<lambda>s. (sample_plugin_reads [])\<lparr>pr_get_pluginDefinition :=
          \<lambda>_. Inr ((sample_definition [])\<lparr>o_conditions := [TrueCondition 1 ReadyCondition [] []]\<rparr>)\<rparr>),
      pc_get_secret = (\<lambda>_ _. Inl not_found), pc_tracking = one_tracking,
      pc_get_release = (\<lambda>key s. case one_lookup s key of
          None \<Rightarrow> Inl not_found
        | Some r \<Rightarrow> if ObjectKeyFromObject r = key then Inr r else Inl (PlainError ''corrupt'')),
      pc_delete_release = (\<lambda>key s. if one_lookup s key = None then (Some not_found, s) else (None, None)),
      pc_update_release = (\<lambda>r f s. store_release (ObjectKeyFromObject r) (f r) s),
      pc_patch_release = (\<lambda>key f s. store_release key (f (case one_lookup s key of None \<Rightarrow> new_release key | Some r \<Rightarrow> r)) s),
      pc_setControllerReference = (\<lambda>_ r. Inr r),
      pc_get_chart = (\<lambda>key s. Inr \<lparr>o_name = nn_name key, o_namespace = nn_namespace key, o_labels = [], o_annotations = [],
        o_finalizers = [], o_deletionTimestamp = None, o_ownerReferences = [], fch_artifact = None\<rparr>),
      pc_patch_plugin = (\<lambda>p' _ s. (Inr p', s)), pc_parseJSON = flat_parser,
      pc_expressions = \<lparr>el_eval = (\<lambda>_ _. Inr JNull), el_yamlToJSON = Inr\<rparr>, pc_dnsDomain = ''example.com'',
      pc_clientInCluster = (\<lambda>_. Inr ()), pc_clientFromSecret = (\<lambda>_ _. Inr ()),
      pc_getHelmRelease = (\<lambda>_ _ _. Inl (PlainError ''no release'')),
      pc_reader = (\<lambda>_. \<lparr>mr_load = (\<lambda>_ _. Inr ([], None)), mr_toService = (\<lambda>_. Inl not_found), mr_toIngress = (\<lambda>_. Inl not_found)\<rparr>),
      pc_get_org = (\<lambda>_ _. Inl not_found), pc_get_configMap = (\<lambda>_ _. Inl not_found), pc_unmarshalMirror = (\<lambda>_. Inl not_found),
      pc_parseRef = (\<lambda>_. None), pc_fetch = (\<lambda>_ _ _. Inr ()), pc_localRegistry = None,
      pc_artifactRaw = (\<lambda>_ _ _. Inl not_found), pc_artifactSave = (\<lambda>_ _ _. None), pc_artifactPath = (\<lambda>_ _. []),
      pc_newInstall = (\<lambda>_ _ _ _. None), pc_loadChart = (\<lambda>_. Inr []), pc_render = (\<lambda>_ _ _. Inl not_found),
      pc_expressionEvaluation = False, pc_integration = True, pc_mirroring = False\<rparr>"

lemma one_release_laws:
  "release_reads one_release_env one_lookup" "release_writes one_release_env one_lookup" "labels_patch_ok one_release_env"
proof -
  show "release_reads one_release_env one_lookup"
    by (auto simp: release_reads_def one_release_env_def split: option.splits if_splits)
  show "release_writes one_release_env one_lookup"
    by (auto simp: release_writes_def one_release_env_def store_release_def one_lookup_def split: sum.splits)
  show "labels_patch_ok one_release_env"
    by (simp add: labels_patch_ok_def one_release_env_def)
qed

definition sample_key :: namespaced_name where "sample_key = \<lparr>nn_namespace = ''org'', nn_name = ''my-plugin''\<rparr>"

definition retained_plugin :: plugin where
  "retained_plugin = (sample_plugin [])\<lparr>pl_spec := (pl_spec (sample_plugin []))\<lparr>ps_deletionPolicy := DeletionPolicyRetain\<rparr>\<rparr>"

theorem plugin_deletion_complete_witness:
  "\<exists>p' s'. plugin_EnsureDeleted 5 one_release_env retained_plugin (Some (sample_key, new_release sample_key))
       = ((EmptyResult, Success, None), p', s')
     \<and> one_lookup s' (ObjectKeyFromObject retained_plugin) = None"
proof -
  let ?s = "Some (sample_key, new_release sample_key)"
  have run: "plugin_EnsureDeleted 5 one_release_env retained_plugin ?s = ((EmptyResult, Success, None), retained_plugin, None)"
    by code_simp
  from plugin_deletion_complete [OF one_release_laws(1,2) run] run show ?thesis by blast
qed

theorem plugin_ready_iff_witness:
  "\<exists>t s'. plugin_setConditions 5 one_release_env [] (snd (the (fst (plugin_EnsureCreated 5 one_release_env ''Plugin''
        (sample_plugin []) None)))) (snd (plugin_EnsureCreated 5 one_release_env ''Plugin'' (sample_plugin []) None))
      = (Some t, s')"
proof -
  let ?r = "plugin_EnsureCreated 5 one_release_env ''Plugin'' (sample_plugin []) None"
  have "fst ?r \<noteq> None" by code_simp
  then have "?r = (Some (fst (the (fst ?r)), snd (the (fst ?r))), snd ?r)" by (auto simp: prod_eq_iff)
  from plugin_ready_iff [OF one_release_laws(3) this] show ?thesis by blast
qed

theorem plugin_release_written_witness:
  "\<exists>rel. one_lookup (snd (plugin_EnsureCreated 5 one_release_env ''Plugin'' (sample_plugin []) None))
       (ObjectKeyFromObject (sample_plugin [])) = Some rel \<and> hs_releaseName (fr_spec rel) = ''my-plugin''"
proof -
  let ?r = "plugin_EnsureCreated 5 one_release_env ''Plugin'' (sample_plugin []) None"
  let ?pd = "(sample_definition [])\<lparr>o_conditions := [TrueCondition 1 ReadyCondition [] []]\<rparr>"
  have "map_option fst (fst ?r) = Some (EmptyResult, Success, None)" by code_simp
  then have run: "?r = (Some ((EmptyResult, Success, None), snd (the (fst ?r))), snd ?r)" by (auto simp: prod_eq_iff)
  have pd: "GetPluginDefinitionFromPlugin (pc_reads one_release_env None) (ps_pluginDefinitionRef (pl_spec (sample_plugin [])))
      (o_namespace (sample_plugin [])) = Inr ?pd" by code_simp
  have "pds_helmChart (pd_spec ?pd) \<noteq> None" by (simp add: sample_definition_def)
  from plugin_release_written [OF one_release_laws(2) pd this run] obtain rel ch v where
    "one_lookup (snd ?r) (ObjectKeyFromObject (sample_plugin [])) = Some rel" "spec_for (sample_plugin []) ch v (fr_spec rel)"
    by blast
  moreover have "Plugin_GetReleaseName (sample_plugin []) = ''my-plugin''" by code_simp
  ultimately show ?thesis by (auto simp: spec_for_def)
qed

theorem missing_reference_panics_witness:
  "EnsureFluxCreated 5 one_release_env ''Plugin''
     (sample_plugin [\<lparr>ov_name = ''x'', ov_value = None, ov_valueFrom = Some \<lparr>pv_secret = None,
        pv_ref = Some \<lparr>ev_kind = ''Plugin'', ev_name = ''other'', ev_selector = None, ev_expression = ''object.spec''\<rparr>\<rparr>,
        ov_expression = None\<rparr>]) None = (None, None)"
proof -
  let ?ref = "\<lparr>ev_kind = ''Plugin'', ev_name = ''other'', ev_selector = None, ev_expression = ''object.spec''\<rparr>"
  let ?v = "\<lparr>ov_name = ''x'', ov_value = None, ov_valueFrom = Some \<lparr>pv_secret = None, pv_ref = Some ?ref\<rparr>, ov_expression = None\<rparr>"
  let ?p = "sample_plugin [?v]" and ?pd = "(sample_definition [])\<lparr>o_conditions := [TrueCondition 1 ReadyCondition [] []]\<rparr>"
  have pd: "GetPluginDefinitionFromPlugin (pc_reads one_release_env None) (ps_pluginDefinitionRef (pl_spec ?p)) (o_namespace ?p) = Inr ?pd"
    by code_simp
  have "(case GetPluginOptionValuesForPlugin (pc_reads one_release_env None) ?p of Inr (w # _) \<Rightarrow> w = ?v | _ \<Rightarrow> False)"
    by code_simp
  then obtain post where vs: "GetPluginOptionValuesForPlugin (pc_reads one_release_env None) ?p = Inr ([] @ ?v # post)"
    by (auto split: sum.splits list.splits)
  have ch: "\<And>ns. getPluginHelmChart one_release_env ?pd ns None = Inr (\<lparr>o_name = ''pd-1'', o_namespace = ns, o_labels = [],
      o_annotations = [], o_finalizers = [], o_deletionTimestamp = None, o_ownerReferences = [], fch_artifact = None\<rparr>)"
    by (simp add: getPluginHelmChart_def one_release_env_def FluxHelmChartResourceName_def sample_definition_def)
  show ?thesis
    by (rule missing_reference_panics [OF _ _ pd _ ch vs, where ref = ?ref and e = not_found])
      (simp_all add: one_release_env_def one_tracking_def not_found_def sample_definition_def)
qed

end
