(* ===== verification/Catalog_Types.thy ===== *)
theory Catalog_Types
  imports Helm_Release Lifecycle "HOL-Library.Word"
begin

unbundle bit_operations_syntax

text \<open>
  Catalogs of plugin definitions: the resource (\<open>api/v1alpha1/catalog_types.go\<close>), the names derived from a source
  (\<open>internal/controller/catalog/utils.go\<close>), and the Kustomizations and patches that are built for it
  (\<open>internal/flux/kustomize_builder.go\<close>). The FNV hash of the standard library is an executable definition
  on 64-bit words; the parser for URLs is a parameter. A nil map or slice is the empty one.
\<close>

section \<open>The resource\<close>

definition CatalogReadyReason :: condition_reason where "CatalogReadyReason = ''CatalogReady''"
definition CatalogEmptySources :: condition_reason where "CatalogEmptySources = ''CatalogEmptySources''"
definition OrphanedObjectCleanUpFail :: condition_reason where
  "OrphanedObjectCleanUpFail = ''OrphanedObjectCleanUpFail''"
definition CatalogSourceValidationFail :: condition_reason where
  "CatalogSourceValidationFail = ''CatalogSourceValidationFail''"
definition CatalogNotReadyReason :: condition_reason where "CatalogNotReadyReason = ''CatalogNotReady''"
definition CatalogProgressingReason :: condition_reason where "CatalogProgressingReason = ''ReconcileProgressing''"

lemmas catalog_reasons =
  CatalogReadyReason_def CatalogEmptySources_def OrphanedObjectCleanUpFail_def CatalogSourceValidationFail_def
  CatalogNotReadyReason_def CatalogProgressingReason_def

definition LabelKeyCatalog :: string where "LabelKeyCatalog = ''greenhouse.sap/catalog''"
definition LabelKeyCatalogSource :: string where "LabelKeyCatalogSource = ''greenhouse.sap/catalog-source''"

record git_ref =
  gref_branch :: "string option"
  gref_tag :: "string option"
  gref_sha :: "string option"

record options_override =
  oov_name :: string
  oov_value :: "string option"

record catalog_overrides =
  cov_name :: string
  cov_alias :: string
  cov_repository :: string
  cov_optionsOverride :: "options_override list"

text \<open>Durations are in seconds.\<close>

record catalog_source =
  csrc_repository :: string
  csrc_resources :: "string list"
  csrc_ref :: "git_ref option"
  csrc_secretName :: "string option"
  csrc_overrides :: "catalog_overrides list"
  csrc_interval :: "int option"

text \<open>An empty \<open>Ready\<close> is \<open>None\<close>.\<close>

record source_status =
  ss_kind :: string
  ss_name :: string
  ss_ready :: "condition_status option"
  ss_message :: string

type_synonym inventory = "source_status list smap"

record catalog = runtime_object +
  cat_sources :: "catalog_source list"
  cat_inventory :: inventory
  cat_lastReconciledAt :: string

definition GetInterval :: "catalog_source \<Rightarrow> int" where
  "GetInterval src = (case csrc_interval src of Some d \<Rightarrow> d | None \<Rightarrow> 60 * 60)"

definition GetRefValue :: "catalog_source \<Rightarrow> string" where
  "GetRefValue src =
     (case csrc_ref src of
        None \<Rightarrow> ''main''
      | Some ref \<Rightarrow>
          (case gref_sha ref of
             Some v \<Rightarrow> v
           | None \<Rightarrow>
               (case gref_tag ref of
                  Some v \<Rightarrow> v
                | None \<Rightarrow> (case gref_branch ref of Some v \<Rightarrow> v | None \<Rightarrow> ''main''))))"

definition same_object :: "string \<Rightarrow> string \<Rightarrow> source_status \<Rightarrow> bool" where
  "same_object kind name st \<longleftrightarrow> ss_kind st = kind \<and> ss_name st = name"

text \<open>The entry at the first index with this kind and name is changed, or one is appended.\<close>

fun set_entry :: "string \<Rightarrow> string \<Rightarrow> string \<Rightarrow> condition_status \<Rightarrow> source_status list \<Rightarrow> source_status list" where
  "set_entry kind name msg ready [] = [\<lparr>ss_kind = kind, ss_name = name, ss_ready = Some ready, ss_message = msg\<rparr>]"
| "set_entry kind name msg ready (st # sts) =
     (if same_object kind name st then st\<lparr>ss_message := msg, ss_ready := Some ready\<rparr> # sts
      else st # set_entry kind name msg ready sts)"

definition SetInventory ::
  "string \<Rightarrow> string \<Rightarrow> string \<Rightarrow> string \<Rightarrow> condition_status \<Rightarrow> catalog \<Rightarrow> catalog" where
  "SetInventory hash kind name msg ready c =
     (let iv = (if smap_get (cat_inventory c) hash = None then smap_set hash [] (cat_inventory c) else cat_inventory c)
      in c\<lparr>cat_inventory := smap_set hash
             (set_entry kind name msg ready (case smap_get iv hash of Some l \<Rightarrow> l | None \<Rightarrow> [])) iv\<rparr>)"

text \<open>Conditions of a catalog. \<open>GetConditionByType\<close> returns a copy of the condition.\<close>

definition SetUnknownCondition :: "time \<Rightarrow> catalog \<Rightarrow> catalog" where
  "SetUnknownCondition now c =
     (if GetConditionByType (o_conditions c) ReadyCondition = None
      then SetCondition now (UnknownCondition now ReadyCondition CatalogProgressingReason ''Catalog reconciliation in progress'') c
      else c)"

definition SetProgressingReason :: "time \<Rightarrow> catalog \<Rightarrow> catalog" where
  "SetProgressingReason now c =
     (case GetConditionByType (o_conditions c) ReadyCondition of
        Some cond \<Rightarrow> SetCondition now (cond\<lparr>c_reason := CatalogProgressingReason\<rparr>) c
      | None \<Rightarrow> SetCondition now (UnknownCondition now ReadyCondition CatalogProgressingReason
                                   ''Catalog reconciliation in progress'') c)"

definition SetFalseCondition :: "time \<Rightarrow> condition_type \<Rightarrow> condition_reason \<Rightarrow> string \<Rightarrow> catalog \<Rightarrow> catalog" where
  "SetFalseCondition now t reason message c = SetCondition now (FalseCondition now t reason message) c"

definition SetTrueCondition :: "time \<Rightarrow> condition_type \<Rightarrow> condition_reason \<Rightarrow> string \<Rightarrow> catalog \<Rightarrow> catalog" where
  "SetTrueCondition now t reason message c = SetCondition now (TrueCondition now t reason message) c"

section \<open>Names of a source\<close>

definition fnv_offset :: "64 word" where "fnv_offset = 14695981039346656037"
definition fnv_prime :: "64 word" where "fnv_prime = 1099511628211"

text \<open>\<open>fnv.New64a\<close>: multiplication wraps.\<close>

definition fnv_step :: "64 word \<Rightarrow> char \<Rightarrow> 64 word" where
  "fnv_step h c = (h XOR of_char c) * fnv_prime"

definition fnv64a :: "string \<Rightarrow> 64 word" where
  "fnv64a s = foldl fnv_step fnv_offset s"

text \<open>\<open>strconv.FormatUint\<close> in base ten.\<close>

function FormatUint :: "int \<Rightarrow> string" where
  "FormatUint n = (if n < 10 then [char_of (48 + n)] else FormatUint (n div 10) @ [char_of (48 + n mod 10)])"
  by auto
termination by (relation "measure nat") auto

declare FormatUint.simps [simp del]

text \<open>Writing to the hash never fails.\<close>

definition HashValue :: "string \<Rightarrow> string" where
  "HashValue v = FormatUint (uint (fnv64a v))"

record url_parts =
  url_host :: string
  url_path :: string

type_synonym url_parser = "string \<Rightarrow> go_error + url_parts"

definition TrimLeft_slash :: "string \<Rightarrow> string" where
  "TrimLeft_slash s = dropWhile (\<lambda>c. c = CHR ''/'') s"

definition GetOwnerRepoInfo :: "url_parser \<Rightarrow> string \<Rightarrow> go_error + (string \<times> string \<times> string)" where
  "GetOwnerRepoInfo parse s =
     (case parse s of
        Inl e \<Rightarrow> Inl (WrapError (''failed parsing URL '' @ quoted s) e)
      | Inr u \<Rightarrow>
          (let id = TrimSuffix (TrimLeft_slash (url_path u)) ''.git''
           in case split_char (CHR ''/'') id of
                [owner, repo] \<Rightarrow> Inr (replace_char (CHR ''.'') (CHR ''-'') (url_host u), owner, repo)
              | _ \<Rightarrow> Inl (PlainError (''invalid repository id '' @ quoted id))))"

record git_repository_ref =
  grr_branch :: string
  grr_tag :: string
  grr_commit :: string

definition string_of_ptr :: "string option \<Rightarrow> string" where
  "string_of_ptr p = (case p of Some v \<Rightarrow> v | None \<Rightarrow> [])"

definition getGitRepositoryReference :: "catalog_source \<Rightarrow> git_repository_ref" where
  "getGitRepositoryReference src =
     (case csrc_ref src of
        None \<Rightarrow> \<lparr>grr_branch = [], grr_tag = [], grr_commit = []\<rparr>
      | Some ref \<Rightarrow> \<lparr>grr_branch = string_of_ptr (gref_branch ref), grr_tag = string_of_ptr (gref_tag ref),
                     grr_commit = string_of_ptr (gref_sha ref)\<rparr>)"

section \<open>Kustomizations\<close>

definition kustomizeOperationTest :: string where "kustomizeOperationTest = ''test''"
definition kustomizeOperationReplace :: string where "kustomizeOperationReplace = ''replace''"
definition kustomizeMetadataNamePath :: string where "kustomizeMetadataNamePath = ''/metadata/name''"
definition kustomizeHelmRepoPatch :: string where "kustomizeHelmRepoPatch = ''/spec/helmChart/repository''"

definition kustomizeReplacePluginOption :: "nat \<Rightarrow> string" where
  "kustomizeReplacePluginOption i = ''/spec/options/'' @ Itoa i"

definition kustomizeTestPluginOption :: "nat \<Rightarrow> string" where
  "kustomizeTestPluginOption i = ''/spec/options/'' @ Itoa i @ ''/name''"

record selector =
  sel_group :: string
  sel_name :: string

record kustomize_patch =
  kp_patch :: string
  kp_target :: selector

text \<open>The value of an operation as the JSON it is marshalled to.\<close>

record operation =
  op_op :: string
  op_path :: string
  op_value :: json

definition constructPatchOperations :: "string \<Rightarrow> string \<Rightarrow> json \<Rightarrow> operation" where
  "constructPatchOperations op path v = \<lparr>op_op = op, op_path = path, op_value = v\<rparr>"

definition operation_json :: "operation \<Rightarrow> json" where
  "operation_json op = JObj [(''op'', JStr (op_op op)), (''path'', JStr (op_path op)), (''value'', op_value op)]"

definition marshal_operations :: "operation list \<Rightarrow> string" where
  "marshal_operations ops = print_json (JArr (map operation_json ops))"

text \<open>
  \<open>json.Marshal\<close> of an option. The raw default has to be JSON; it is copied into the text up to white space and the
  spelling of its strings.
\<close>

definition marshal_raw :: "string \<Rightarrow> go_error + json" where
  "marshal_raw raw =
     (if raw = [] then Inr JNull
      else case parse_json raw of
             None \<Rightarrow> Inl (PlainError ''json: error calling MarshalJSON for type *v1.JSON'')
           | Some v \<Rightarrow> Inr v)"

definition omit_empty :: "string \<Rightarrow> string \<Rightarrow> (string \<times> json) list" where
  "omit_empty key v = (if v = [] then [] else [(key, JStr v)])"

fun option_type_string :: "plugin_option_type \<Rightarrow> string" where
  "option_type_string PluginOptionTypeString = ''string''"
| "option_type_string PluginOptionTypeSecret = ''secret''"
| "option_type_string PluginOptionTypeBool = ''bool''"
| "option_type_string PluginOptionTypeInt = ''int''"
| "option_type_string PluginOptionTypeList = ''list''"
| "option_type_string PluginOptionTypeMap = ''map''"
| "option_type_string (OptionTypeOther t) = t"

definition option_json :: "plugin_option \<Rightarrow> json option \<Rightarrow> json" where
  "option_json opt dflt =
     JObj ((''name'', JStr (po_name opt)) # (case dflt of None \<Rightarrow> [] | Some v \<Rightarrow> [(''default'', v)])
           @ omit_empty ''description'' (po_description opt) @ omit_empty ''displayName'' (po_displayName opt)
           @ (''required'', JBool (po_required opt)) # (''type'', JStr (option_type_string (po_type opt)))
           # omit_empty ''regex'' (po_regex opt))"

definition marshal_option :: "plugin_option \<Rightarrow> go_error + json" where
  "marshal_option opt =
     (case po_default opt of
        None \<Rightarrow> Inr (option_json opt None)
      | Some raw \<Rightarrow> (case marshal_raw raw of Inl e \<Rightarrow> Inl e | Inr v \<Rightarrow> Inr (option_json opt (Some v))))"

definition BuildJSONPatchReplace :: "plugin_option \<Rightarrow> nat \<Rightarrow> string \<Rightarrow> string \<Rightarrow> go_error + kustomize_patch" where
  "BuildJSONPatchReplace opt idx grp name =
     (case marshal_option opt of
        Inl e \<Rightarrow> Inl e
      | Inr v \<Rightarrow>
          Inr \<lparr>kp_patch = marshal_operations
                 [constructPatchOperations kustomizeOperationTest (kustomizeTestPluginOption idx) (JStr (po_name opt)),
                  constructPatchOperations kustomizeOperationReplace (kustomizeReplacePluginOption idx) v],
               kp_target = \<lparr>sel_group = grp, sel_name = name\<rparr>\<rparr>)"

text \<open>Marshalling operations with strings as values does not fail.\<close>

definition override_operations :: "catalog_overrides \<Rightarrow> operation list" where
  "override_operations ov =
     (if cov_alias ov \<noteq> []
      then [constructPatchOperations kustomizeOperationReplace kustomizeMetadataNamePath (JStr (cov_alias ov))] else [])
     @ (if cov_repository ov \<noteq> []
        then [constructPatchOperations kustomizeOperationReplace kustomizeHelmRepoPatch (JStr (cov_repository ov))] else [])"

fun PrepareKustomizePatches :: "catalog_overrides list \<Rightarrow> string \<Rightarrow> kustomize_patch list" where
  "PrepareKustomizePatches [] grp = []"
| "PrepareKustomizePatches (ov # ovs) grp =
     (if cov_alias ov = [] \<and> cov_repository ov = [] then PrepareKustomizePatches ovs grp
      else \<lparr>kp_patch = marshal_operations (override_operations ov),
            kp_target = \<lparr>sel_group = grp, sel_name = cov_name ov\<rparr>\<rparr> # PrepareKustomizePatches ovs grp)"

record cross_namespace_source_reference =
  cn_apiVersion :: string
  cn_kind :: string
  cn_name :: string
  cn_namespace :: string

record kustomization_spec =
  ks_sourceRef :: cross_namespace_source_reference
  ks_interval :: int
  ks_path :: string
  ks_patches :: "kustomize_patch list"
  ks_serviceAccountName :: string
  ks_targetNamespace :: string
  ks_commonLabels :: "string smap option"
  ks_suspend :: bool

text \<open>The methods of \<open>KustomizeBuilder\<close>.\<close>

definition NewKustomizationSpecBuilder :: kustomization_spec where
  "NewKustomizationSpecBuilder =
     \<lparr>ks_sourceRef = \<lparr>cn_apiVersion = [], cn_kind = [], cn_name = [], cn_namespace = []\<rparr>, ks_interval = 0, ks_path = [],
      ks_patches = [], ks_serviceAccountName = [], ks_targetNamespace = [], ks_commonLabels = None, ks_suspend = False\<rparr>"

definition WithSourceRef :: "string \<Rightarrow> string \<Rightarrow> string \<Rightarrow> string \<Rightarrow> kustomization_spec \<Rightarrow> kustomization_spec" where
  "WithSourceRef apiVersion kind name namespace k =
     k\<lparr>ks_sourceRef := \<lparr>cn_apiVersion = apiVersion, cn_kind = kind, cn_name = name, cn_namespace = namespace\<rparr>\<rparr>"

definition WithPatches :: "kustomize_patch list \<Rightarrow> kustomization_spec \<Rightarrow> kustomization_spec" where
  "WithPatches patches k = (if length patches > 0 then k\<lparr>ks_patches := patches\<rparr> else k)"

definition WithServiceAccountName :: "string \<Rightarrow> kustomization_spec \<Rightarrow> kustomization_spec" where
  "WithServiceAccountName name k = k\<lparr>ks_serviceAccountName := name\<rparr>"

definition WithPath :: "string \<Rightarrow> kustomization_spec \<Rightarrow> kustomization_spec" where
  "WithPath path k = (if path \<noteq> [] then k\<lparr>ks_path := path\<rparr> else k)"

definition kustomize_WithTargetNamespace :: "string \<Rightarrow> kustomization_spec \<Rightarrow> kustomization_spec" where
  "kustomize_WithTargetNamespace namespace k = k\<lparr>ks_targetNamespace := namespace\<rparr>"

definition WithCommonLabels :: "string smap option \<Rightarrow> kustomization_spec \<Rightarrow> kustomization_spec" where
  "WithCommonLabels labels k = (if labels \<noteq> None then k\<lparr>ks_commonLabels := labels\<rparr> else k)"

definition kustomize_WithSuspend :: "bool \<Rightarrow> kustomization_spec \<Rightarrow> kustomization_spec" where
  "kustomize_WithSuspend suspend k = k\<lparr>ks_suspend := suspend\<rparr>"

definition kustomize_Build :: "kustomization_spec \<Rightarrow> go_error + kustomization_spec" where
  "kustomize_Build k =
     (if cn_kind (ks_sourceRef k) = [] then Inl (PlainError ''source reference kind is required'')
      else if cn_name (ks_sourceRef k) = [] then Inl (PlainError ''source reference name is required'')
      else Inr (k\<lparr>ks_interval := DefaultInterval\<rparr>))"

section \<open>Hashes and names\<close>

lemma FormatUint_length: "n < 10 ^ Suc k \<Longrightarrow> length (FormatUint n) \<le> Suc k"
proof (induction k arbitrary: n)
  case 0
  then show ?case by (simp add: FormatUint.simps)
next
  case (Suc k)
  define b where "b = (10 :: int) ^ Suc k"
  have "n < 10 * b" using Suc.prems by (simp add: b_def)
  then have "n div 10 < b" by linarith
  then have "n div 10 < 10 ^ Suc k" by (simp only: b_def)
  from Suc.IH [OF this] show ?case by (subst FormatUint.simps) simp
qed

definition digit_char :: "char \<Rightarrow> bool" where
  "digit_char c \<longleftrightarrow> 48 \<le> (of_char c :: nat) \<and> (of_char c :: nat) \<le> 57"

lemma digit_char_of: "0 \<le> n \<Longrightarrow> n < 10 \<Longrightarrow> digit_char (char_of (48 + n :: int))"
proof -
  assume n: "0 \<le> n" "n < 10"
  have "(of_char (char_of (48 + n) :: char) :: nat) = nat ((48 + n) mod 256)"
    by (metis (mono_tags, opaque_lifting) char_of_nat n(1) of_char_of add_nonneg_nonneg int_nat_eq nat_mod_distrib nat_numeral zero_le_numeral)
  with n show ?thesis by (simp add: digit_char_def nat_le_iff le_nat_iff)
qed

lemma FormatUint_digits: "0 \<le> n \<Longrightarrow> list_all digit_char (FormatUint n)"
proof (induction n rule: FormatUint.induct)
  case (1 n)
  then show ?case by (subst FormatUint.simps) (auto simp: digit_char_of)
qed

lemma FormatUint_not_Nil: "FormatUint n \<noteq> []"
  by (subst FormatUint.simps) simp

lemma HashValue_short: "length (HashValue v) \<le> 20"
proof -
  have "uint (fnv64a v) < 2 ^ 64" using uint_lt2p [of "fnv64a v"] by simp
  also have "(2 :: int) ^ 64 < 10 ^ Suc 19" by simp
  finally show ?thesis using FormatUint_length [of "uint (fnv64a v)" 19] by (simp add: HashValue_def)
qed

lemma HashValue_digits: "list_all digit_char (HashValue v)" "HashValue v \<noteq> []"
  by (simp_all add: HashValue_def FormatUint_digits FormatUint_not_Nil)

section \<open>Well-formed inventories\<close>

definition object_ids :: "source_status list \<Rightarrow> (string \<times> string) list" where
  "object_ids sts = map (\<lambda>st. (ss_kind st, ss_name st)) sts"

definition inventory_ok :: "inventory \<Rightarrow> bool" where
  "inventory_ok iv \<longleftrightarrow> smap_ok iv \<and> (\<forall>(h, sts) \<in> set iv. sts \<noteq> [] \<and> distinct (object_ids sts))"

lemma object_ids_Nil [simp]: "object_ids [] = []" "distinct (object_ids [st])"
  by (simp_all add: object_ids_def)

lemma object_ids_set_entry:
  "object_ids (set_entry kind name msg ready sts) =
     (if (kind, name) \<in> set (object_ids sts) then object_ids sts else object_ids sts @ [(kind, name)])"
  by (induction sts) (auto simp: object_ids_def same_object_def)

lemma distinct_set_entry:
  "distinct (object_ids sts) \<Longrightarrow> distinct (object_ids (set_entry kind name msg ready sts))"
  by (simp add: object_ids_set_entry)

lemma set_entry_not_Nil [simp]: "set_entry kind name msg ready sts \<noteq> []"
  by (cases sts) auto

lemma set_entry_find:
  "find (same_object k n) (set_entry kind name msg ready sts) =
     (if k = kind \<and> n = name
      then Some ((case find (same_object kind name) sts of
                    Some st \<Rightarrow> st | None \<Rightarrow> \<lparr>ss_kind = kind, ss_name = name, ss_ready = None, ss_message = []\<rparr>)
                 \<lparr>ss_message := msg, ss_ready := Some ready\<rparr>)
      else find (same_object k n) sts)"
  by (induction sts) (auto simp: same_object_def [abs_def])

lemma SetInventory_get:
  "smap_get (cat_inventory (SetInventory hash kind name msg ready c)) h =
     (if h = hash
      then Some (set_entry kind name msg ready (case smap_get (cat_inventory c) hash of Some l \<Rightarrow> l | None \<Rightarrow> []))
      else smap_get (cat_inventory c) h)"
  by (auto simp: SetInventory_def Let_def sm.get_upd split: option.splits)

lemma SetInventory_fields [simp]:
  "o_name (SetInventory hash kind name msg ready c) = o_name c"
  "o_namespace (SetInventory hash kind name msg ready c) = o_namespace c"
  "o_labels (SetInventory hash kind name msg ready c) = o_labels c"
  "o_annotations (SetInventory hash kind name msg ready c) = o_annotations c"
  "o_conditions (SetInventory hash kind name msg ready c) = o_conditions c"
  "cat_sources (SetInventory hash kind name msg ready c) = cat_sources c"
  by (simp_all add: SetInventory_def Let_def)

lemma inventory_okD: "inventory_ok iv \<Longrightarrow> smap_get iv h = Some sts \<Longrightarrow> sts \<noteq> [] \<and> distinct (object_ids sts)"
  using smap_get_in_set [of iv h sts] by (fastforce simp: inventory_ok_def)

lemma inventory_okI:
  "smap_ok iv \<Longrightarrow> (\<And>h sts. smap_get iv h = Some sts \<Longrightarrow> sts \<noteq> [] \<and> distinct (object_ids sts)) \<Longrightarrow> inventory_ok iv"
  by (auto simp: inventory_ok_def smap_get_iff_in_set)

lemma SetInventory_ok:
  assumes "inventory_ok (cat_inventory c)"
  shows "inventory_ok (cat_inventory (SetInventory hash kind name msg ready c))"
proof (rule inventory_okI)
  show "smap_ok (cat_inventory (SetInventory hash kind name msg ready c))"
    using assms by (simp add: SetInventory_def Let_def inventory_ok_def sm.invar_upd)
next
  fix h sts assume "smap_get (cat_inventory (SetInventory hash kind name msg ready c)) h = Some sts"
  then show "sts \<noteq> [] \<and> distinct (object_ids sts)"
    using inventory_okD [OF assms]
    by (auto simp: SetInventory_get distinct_set_entry split: if_splits option.splits)
qed

section \<open>Patches are what they say\<close>

lemma lex_word_wf: "lex_word s = Some (v, r) \<Longrightarrow> wf_json v"
  by (auto simp: lex_word_def Let_def list_all_iff split: if_splits dest: set_takeWhileD)

lemma parse_wf:
  "parse_value n s = Some (v, r) \<Longrightarrow> wf_json v"
  "parse_elems n s = Some (vs, r) \<Longrightarrow> list_all wf_json vs"
  "parse_fields n s = Some (fs, r) \<Longrightarrow> list_all (\<lambda>f. wf_json (snd f)) fs"
  by (induction n s and n s and n s arbitrary: v r and vs r and fs r rule: parse_value_parse_elems_parse_fields.induct)
     (auto split: list.splits if_splits option.splits prod.splits dest: lex_word_wf)

lemma parse_json_wf: "parse_json s = Some v \<Longrightarrow> wf_json v"
  by (auto simp: parse_json_def simp del: parse_value.simps split: option.splits if_splits dest: parse_wf(1))


lemma marshal_operations_parse:
  "list_all (\<lambda>op. wf_json (op_value op)) ops \<Longrightarrow>
   parse_json (marshal_operations ops) = Some (JArr (map operation_json ops))"
  unfolding marshal_operations_def
  by (rule parse_json_print) (simp add: operation_json_def list_all_iff)

lemma marshal_option_wf: "marshal_option opt = Inr v \<Longrightarrow> wf_json v"
  by (auto simp: marshal_option_def option_json_def omit_empty_def marshal_raw_def dest: parse_json_wf
      split: option.splits sum.splits if_splits)

lemma PrepareKustomizePatches_map:
  "PrepareKustomizePatches ovs grp =
     map (\<lambda>ov. \<lparr>kp_patch = marshal_operations (override_operations ov),
                kp_target = \<lparr>sel_group = grp, sel_name = cov_name ov\<rparr>\<rparr>)
       (filter (\<lambda>ov. override_operations ov \<noteq> []) ovs)"
  by (induction ovs) (auto simp: override_operations_def)

text \<open>
  The patch for an overridden option, read back as JSON: it tests that the option at the index still has the
  name, and then replaces the whole option by the given one; the default is the raw JSON of the override. It fails
  exactly when that is no JSON.
\<close>

definition option_patch_json :: "plugin_option \<Rightarrow> nat \<Rightarrow> json \<Rightarrow> json" where
  "option_patch_json opt i v =
     JArr [JObj [(''op'', JStr ''test''), (''path'', JStr (''/spec/options/'' @ Itoa i @ ''/name'')), (''value'', JStr (po_name opt))],
           JObj [(''op'', JStr ''replace''), (''path'', JStr (''/spec/options/'' @ Itoa i)), (''value'', v)]]"

lemma BuildJSONPatchReplace_parse:
  assumes "BuildJSONPatchReplace opt i grp name = Inr p"
  shows "\<exists>v. marshal_option opt = Inr v \<and> parse_json (kp_patch p) = Some (option_patch_json opt i v)"
    and "kp_target p = \<lparr>sel_group = grp, sel_name = name\<rparr>"
proof -
  from assms obtain v where v: "marshal_option opt = Inr v"
    by (auto simp: BuildJSONPatchReplace_def split: sum.splits)
  note p = assms[unfolded BuildJSONPatchReplace_def v, simplified]
  show "\<exists>v. marshal_option opt = Inr v \<and> parse_json (kp_patch p) = Some (option_patch_json opt i v)"
    using v marshal_option_wf [OF v]
    by (auto simp: p [symmetric] marshal_operations_parse constructPatchOperations_def operation_json_def
        option_patch_json_def kustomizeOperationTest_def kustomizeOperationReplace_def
        kustomizeTestPluginOption_def kustomizeReplacePluginOption_def)
  show "kp_target p = \<lparr>sel_group = grp, sel_name = name\<rparr>" by (simp add: p [symmetric])
qed

lemma BuildJSONPatchReplace_fails:
  "(\<exists>e. BuildJSONPatchReplace opt i grp name = Inl e) \<longleftrightarrow>
     (\<exists>raw. po_default opt = Some raw \<and> raw \<noteq> [] \<and> parse_json raw = None)"
  by (auto simp: BuildJSONPatchReplace_def marshal_option_def marshal_raw_def split: option.splits sum.splits if_splits)

end
