(* ===== verification/Catalog_Source.thy ===== *)
theory Catalog_Source
  imports Catalog_Types Artifacts Plugin_Controller Rbac_Types
begin

text \<open>
  The sources of a catalog (\<open>internal/controller/catalog/source.go\<close>). For each source the operator keeps a
  GitRepository, an ArtifactGenerator with its ExternalArtifact, and a Kustomization of Flux. The Flux types have
  the fields the program writes or reads. Parameters are the API server with the functions
  \<open>CreateOrPatch\<close> and \<open>CreateOrUpdate\<close> of controller-runtime, the reader of manifests, conversions of the
  scheme, and the comparison of \<open>go-cmp\<close>; \<open>IArtifactory\<close> is an interface of the program, with the store of
  \<open>Artifacts\<close> as its implementation. Go ranges over maps in any order; the association lists
  give the order. Logging is left out.
\<close>

section \<open>Objects of Flux\<close>

definition GitRepositoryKind :: string where "GitRepositoryKind = ''GitRepository''"
definition ArtifactGeneratorKind :: string where "ArtifactGeneratorKind = ''ArtifactGenerator''"
definition ExternalArtifactKind :: string where "ExternalArtifactKind = ''ExternalArtifact''"
definition KustomizationKind :: string where "KustomizationKind = ''Kustomization''"

lemmas flux_kinds = GitRepositoryKind_def ArtifactGeneratorKind_def ExternalArtifactKind_def KustomizationKind_def

record flux_object = object_meta +
  fx_uid :: string
  fx_gvk :: group_version_kind
  fx_conditions :: "flux_condition list"

record git_repository = flux_object +
  gr_url :: string
  gr_interval :: int
  gr_reference :: git_repository_ref
  gr_provider :: string
  gr_suspend :: bool
  gr_secretRef :: "string option"

record generator_source =
  gs_alias :: string
  gs_name :: string
  gs_namespace :: string
  gs_kind :: string

record copy_operation =
  co_from :: string
  co_to :: string

record output_artifact =
  oa_name :: string
  oa_copy :: "copy_operation list"

record artifact_generator = flux_object +
  ag_sources :: "generator_source list"
  ag_outputArtifacts :: "output_artifact list"

text \<open>The artifact of an ExternalArtifact: its URL and its digest, if there is one.\<close>

record external_artifact = flux_object +
  ea_artifact :: "(string \<times> string) option"

record kustomization = flux_object +
  kz_spec :: kustomization_spec

record ('o, 's) flux_client =
  fl_get :: "namespaced_name \<Rightarrow> 's \<Rightarrow> go_error + 'o"
  fl_update :: "'o \<Rightarrow> 's \<Rightarrow> (go_error + 'o) \<times> 's"
  fl_delete :: "'o \<Rightarrow> 's \<Rightarrow> go_error option \<times> 's"
  fl_createOrPatch :: "'o \<Rightarrow> ('o \<Rightarrow> go_error + 'o) \<Rightarrow> 's \<Rightarrow> go_error option \<times> 's"
  fl_createOrUpdate :: "'o \<Rightarrow> ('o \<Rightarrow> go_error + 'o) \<Rightarrow> 's \<Rightarrow> go_error option \<times> 's"

record 's artifactory =
  af_get :: "string \<Rightarrow> string \<Rightarrow> string \<Rightarrow> 's \<Rightarrow> go_error + string"
  af_save :: "string \<Rightarrow> string \<Rightarrow> string \<Rightarrow> 's \<Rightarrow> go_error option \<times> 's"
  af_deleteAllExcept :: "string \<Rightarrow> string \<Rightarrow> 's \<Rightarrow> go_error option \<times> 's"

record ('b, 's) catalog_env =
  ct_parseURL :: url_parser
  ct_git :: "(git_repository, 's) flux_client"
  ct_generator :: "(artifact_generator, 's) flux_client"
  ct_external :: "(external_artifact, 's) flux_client"
  ct_kustomization :: "(kustomization, 's) flux_client"
  ct_get_secret :: "namespaced_name \<Rightarrow> 's \<Rightarrow> go_error + secret"
  ct_controllerRefs :: "catalog \<Rightarrow> owner_reference list \<Rightarrow> go_error + owner_reference list"
  ct_artifactory :: "'s artifactory"
  ct_loadLocalManifest :: "string \<Rightarrow> go_error + ('b resource_info list \<times> go_error option)"
  ct_objectKind :: "'b \<Rightarrow> string"
  ct_toPluginDefinition :: "'b \<Rightarrow> go_error + plugin_definition_spec"
  ct_toClusterPluginDefinition :: "'b \<Rightarrow> go_error + plugin_definition_spec"
  ct_cmpDiff :: "source_status list \<Rightarrow> source_status list \<Rightarrow> string"
  ct_gvkString :: "group_version_kind \<Rightarrow> string"
  ct_reconcileAnnotation :: string
  ct_disabledValue :: string

text \<open>\<open>controllerutil.SetControllerReference\<close> changes the owner references or fails.\<close>

definition SetControllerReference ::
  "('b, 's) catalog_env \<Rightarrow> catalog \<Rightarrow> 'a object_meta_scheme \<Rightarrow> go_error + 'a object_meta_scheme" where
  "SetControllerReference env c obj =
     (case ct_controllerRefs env c (o_ownerReferences obj) of
        Inl e \<Rightarrow> Inl e
      | Inr refs \<Rightarrow> Inr (obj\<lparr>o_ownerReferences := refs\<rparr>))"

section \<open>The source of a catalog\<close>

definition genericAuthProvider :: string where "genericAuthProvider = ''generic''"
definition githubAppAuthProvider :: string where "githubAppAuthProvider = ''github''"
definition githubAppIDKey :: string where "githubAppIDKey = ''githubAppID''"
definition artifactAlias :: string where "artifactAlias = ''catalog''"
definition artifactCopyKey :: string where "artifactCopyKey = ''artifact''"
definition artifactToDir :: string where "artifactToDir = ''catalogs''"
definition gitRepoArtifactPrefix :: string where "gitRepoArtifactPrefix = ''repository''"
definition generatorArtifactPrefix :: string where "generatorArtifactPrefix = ''generator''"
definition externalArtifactPrefix :: string where "externalArtifactPrefix = ''artifact''"
definition kustomizeArtifactPrefix :: string where "kustomizeArtifactPrefix = ''kustomize''"

lemmas artifact_prefixes =
  gitRepoArtifactPrefix_def generatorArtifactPrefix_def externalArtifactPrefix_def kustomizeArtifactPrefix_def

record catalog_error =
  cer_inventoryType :: string
  cer_name :: string
  cer_error :: go_error

text \<open>
  The struct \<open>source\<close> without the clients, which are in the environment, and without the pointer to the
  catalog and the manifest, which the operations pass on.
\<close>

record source =
  so_commonLabels :: "string smap"
  so_source :: catalog_source
  so_sourceHash :: string
  so_sourceGroup :: string
  so_gitRepo :: source_status
  so_generator :: source_status
  so_externalArtifact :: source_status
  so_kustomize :: source_status
  so_lastReconciledAt :: string
  so_artifactID :: string

definition source_group :: "string \<Rightarrow> string \<Rightarrow> string \<Rightarrow> string \<Rightarrow> string" where
  "source_group host owner repo ref = host @ ''-'' @ owner @ ''-'' @ repo @ ''-'' @ ref"

definition source_hash :: "catalog \<Rightarrow> string \<Rightarrow> string \<Rightarrow> string \<Rightarrow> string \<Rightarrow> string" where
  "source_hash c host owner repo ref = HashValue (o_name c @ ''-'' @ source_group host owner repo ref)"

fun validate_loop :: "url_parser \<Rightarrow> catalog \<Rightarrow> catalog_source list \<Rightarrow> string list \<Rightarrow> go_error option" where
  "validate_loop parse c [] hashes = None"
| "validate_loop parse c (src # srcs) hashes =
     (case GetOwnerRepoInfo parse (csrc_repository src) of
        Inl e \<Rightarrow> Some e
      | Inr (host, owner, repo) \<Rightarrow>
          (let hash = source_hash c host owner repo (GetRefValue src)
           in if hash \<in> set hashes
              then Some (PlainError (''duplicate source found: repository '' @ csrc_repository src @ '' with ref '' @ GetRefValue src))
              else validate_loop parse c srcs (hash # hashes)))"

definition validateSources :: "url_parser \<Rightarrow> catalog \<Rightarrow> go_error option" where
  "validateSources parse c = validate_loop parse c (cat_sources c) []"

definition desired_status :: "string \<Rightarrow> string \<Rightarrow> string \<Rightarrow> source_status" where
  "desired_status kind pre hash = \<lparr>ss_kind = kind, ss_name = pre @ ''-'' @ hash, ss_ready = None, ss_message = []\<rparr>"

definition newCatalogSource :: "url_parser \<Rightarrow> catalog_source \<Rightarrow> catalog \<Rightarrow> go_error + source" where
  "newCatalogSource parse src c =
     (case GetOwnerRepoInfo parse (csrc_repository src) of
        Inl e \<Rightarrow> Inl e
      | Inr (host, owner, repo) \<Rightarrow>
          (let ref = GetRefValue src;
               hash = source_hash c host owner repo ref;
               hashGroup = source_group host owner repo ref;
               labels = [(LabelKeyCatalog, o_name c), (LabelKeyCatalogSource, gitRepoArtifactPrefix @ ''-'' @ hash)]
           in Inr \<lparr>so_commonLabels =
                     (case smap_get (o_labels c) LabelKeyOwnedBy of
                        Some ownedBy \<Rightarrow> smap_set LabelKeyOwnedBy ownedBy labels | None \<Rightarrow> labels),
                   so_source = src, so_sourceHash = hash, so_sourceGroup = hashGroup,
                   so_gitRepo = desired_status GitRepositoryKind gitRepoArtifactPrefix hash,
                   so_generator = desired_status ArtifactGeneratorKind generatorArtifactPrefix hash,
                   so_externalArtifact = desired_status ExternalArtifactKind externalArtifactPrefix hash,
                   so_kustomize = desired_status KustomizationKind kustomizeArtifactPrefix hash,
                   so_lastReconciledAt = fst (ReconcileAnnotationValue c),
                   so_artifactID = o_namespace c @ ''/'' @ hashGroup @ ''-'' @ hash\<rparr>))"

definition getSourceGroupHash :: "source \<Rightarrow> string" where
  "getSourceGroupHash so = so_sourceGroup so @ ''-'' @ so_sourceHash so"

definition getInventory :: "source \<Rightarrow> source_status list" where
  "getInventory so = [so_gitRepo so, so_generator so, so_externalArtifact so, so_kustomize so]"

definition setInventory :: "source \<Rightarrow> string \<Rightarrow> string \<Rightarrow> string \<Rightarrow> condition_status \<Rightarrow> catalog \<Rightarrow> catalog" where
  "setInventory so kind name msg ready c = SetInventory (getSourceGroupHash so) kind name msg ready c"

definition hasOptionOverrides :: "source \<Rightarrow> bool" where
  "hasOptionOverrides so = list_ex (\<lambda>ov. length (cov_optionsOverride ov) > 0) (csrc_overrides (so_source so))"

definition in_namespace :: "catalog \<Rightarrow> string \<Rightarrow> namespaced_name" where
  "in_namespace c name = \<lparr>nn_namespace = o_namespace c, nn_name = name\<rparr>"

section \<open>The GitRepository\<close>

definition getSourceSecret :: "('b, 's) catalog_env \<Rightarrow> source \<Rightarrow> catalog \<Rightarrow> 's \<Rightarrow> go_error + secret option" where
  "getSourceSecret env so c s =
     (case csrc_secretName (so_source so) of
        None \<Rightarrow> Inr None
      | Some name \<Rightarrow>
          (case ct_get_secret env (in_namespace c name) s of
             Inl e \<Rightarrow> Inl (WrapError (''failed to get secret '' @ o_namespace c @ ''/'' @ name) e)
           | Inr sec \<Rightarrow> Inr (Some sec)))"

definition flux_object_named :: "string \<Rightarrow> catalog \<Rightarrow> flux_object" where
  "flux_object_named name c =
     \<lparr>o_name = name, o_namespace = o_namespace c, o_labels = [], o_annotations = [], o_finalizers = [],
      o_deletionTimestamp = None, o_ownerReferences = [], fx_uid = [],
      fx_gvk = \<lparr>gvk_group = [], gvk_version = [], gvk_kind = []\<rparr>, fx_conditions = []\<rparr>"

definition new_git_repository :: "string \<Rightarrow> catalog \<Rightarrow> git_repository" where
  "new_git_repository name c = flux_object.extend (flux_object_named name c)
     (git_repository.fields [] 0 \<lparr>grr_branch = [], grr_tag = [], grr_commit = []\<rparr> [] False None)"

definition auth_provider :: "secret option \<Rightarrow> string" where
  "auth_provider secretRef =
     (case secretRef of
        None \<Rightarrow> genericAuthProvider
      | Some sec \<Rightarrow>
          (case smap_get (secret_data sec) githubAppIDKey of
             Some _ \<Rightarrow> githubAppAuthProvider | None \<Rightarrow> genericAuthProvider))"

definition mutate_git ::
  "('b, 's) catalog_env \<Rightarrow> source \<Rightarrow> catalog \<Rightarrow> secret option \<Rightarrow> git_repository \<Rightarrow> go_error + git_repository" where
  "mutate_git env so c secretRef gitRepo =
     SetControllerReference env c
       (EnsureAnnotation
          (gitRepo\<lparr>gr_url := csrc_repository (so_source so), gr_interval := GetInterval (so_source so),
             gr_reference := getGitRepositoryReference (so_source so), gr_provider := auth_provider secretRef,
             gr_suspend := False, gr_secretRef := map_option o_name secretRef\<rparr>)
          ReconcileRequestAnnotation (so_lastReconciledAt so))"

definition reconcileGitRepository :: "('b, 's) catalog_env \<Rightarrow> source \<Rightarrow> catalog \<Rightarrow> 's \<Rightarrow> go_error option \<times> 's" where
  "reconcileGitRepository env so c s =
     (case getSourceSecret env so c s of
        Inl e \<Rightarrow> (Some e, s)
      | Inr secretRef \<Rightarrow>
          fl_createOrPatch (ct_git env) (new_git_repository (ss_name (so_gitRepo so)) c) (mutate_git env so c secretRef) s)"

section \<open>The ArtifactGenerator\<close>

definition getArtifactSource :: "source \<Rightarrow> catalog \<Rightarrow> generator_source list" where
  "getArtifactSource so c =
     [\<lparr>gs_alias = artifactAlias, gs_name = ss_name (so_gitRepo so), gs_namespace = o_namespace c, gs_kind = GitRepositoryKind\<rparr>]"

definition getArtifacts :: "source \<Rightarrow> output_artifact list" where
  "getArtifacts so =
     (let resources = csrc_resources (so_source so)
      in if length resources = 0 then []
         else [\<lparr>oa_name = ss_name (so_externalArtifact so),
                oa_copy = map (\<lambda>res. let res' = TrimPrefix res ''/''
                                     in \<lparr>co_from = ''@'' @ artifactAlias @ ''/'' @ res',
                                         co_to = ''@'' @ artifactCopyKey @ ''/'' @ artifactToDir @ ''/'' @ res'\<rparr>) resources\<rparr>])"

definition new_artifact_generator :: "string \<Rightarrow> catalog \<Rightarrow> artifact_generator" where
  "new_artifact_generator name c = flux_object.extend (flux_object_named name c) (artifact_generator.fields [] [])"

definition mutate_generator ::
  "('b, 's) catalog_env \<Rightarrow> source \<Rightarrow> catalog \<Rightarrow> artifact_generator \<Rightarrow> go_error + artifact_generator" where
  "mutate_generator env so c gen =
     SetControllerReference env c
       (EnsureAnnotation
          (gen\<lparr>o_annotations := smap_del (ct_reconcileAnnotation env) (o_annotations gen),
               ag_sources := getArtifactSource so c, ag_outputArtifacts := getArtifacts so\<rparr>)
          (ct_reconcileAnnotation env) (so_lastReconciledAt so))"

definition new_external_artifact :: "string \<Rightarrow> catalog \<Rightarrow> external_artifact" where
  "new_external_artifact name c = flux_object.extend (flux_object_named name c) (external_artifact.fields None)"

definition reconcileArtifactGeneration ::
  "('b, 's) catalog_env \<Rightarrow> source \<Rightarrow> catalog \<Rightarrow> 's \<Rightarrow> (go_error + external_artifact) \<times> 's" where
  "reconcileArtifactGeneration env so c s =
     (if length (getArtifacts so) = 0
      then (Inl (PlainError (''no resources defined in source '' @ o_namespace c @ ''/'' @ ss_name (so_gitRepo so)
                   @ '' to generate artifact'')), s)
      else case fl_createOrPatch (ct_generator env) (new_artifact_generator (ss_name (so_generator so)) c)
                  (mutate_generator env so c) s of
             (Some e, s1) \<Rightarrow> (Inl e, s1)
           | (None, s1) \<Rightarrow>
               (let ext = new_external_artifact (ss_name (so_externalArtifact so)) c
                in case fl_get (ct_external env) (ObjectKeyFromObject ext) s1 of
                     Inl e \<Rightarrow> (if IsNotFound e then Inr ext else Inl e, s1)
                   | Inr cur \<Rightarrow>
                       fl_update (ct_external env)
                         (cur\<lparr>o_labels := smap_set LabelKeyCatalog (smap_val (so_commonLabels so) LabelKeyCatalog) (o_labels cur)\<rparr>)
                         s1))"

section \<open>Overrides of options\<close>

text \<open>
  \<open>json.Unmarshal\<close> into a map of byte slices: strings are base64. (Arrays of numbers, which Go reads as bytes, too,
  are errors here.)
\<close>

fun bytes_of_json :: "json \<Rightarrow> go_error + string" where
  "bytes_of_json (JStr t) = DecodeString t"
| "bytes_of_json JNull = Inr []"
| "bytes_of_json _ = Inl (PlainError ''json: cannot unmarshal into Go value of type []uint8'')"

fun manifest_fields :: "(string \<times> json) list \<Rightarrow> string smap \<Rightarrow> go_error + string smap" where
  "manifest_fields [] m = Inr m"
| "manifest_fields ((k, v) # fs) m =
     (case bytes_of_json v of Inl e \<Rightarrow> Inl e | Inr b \<Rightarrow> manifest_fields fs (smap_set k b m))"

definition unmarshal_manifests :: "string \<Rightarrow> go_error + string smap" where
  "unmarshal_manifests bytes =
     (case parse_json bytes of
        None \<Rightarrow> Inl (PlainError ''invalid JSON'')
      | Some (JObj fs) \<Rightarrow> manifest_fields fs []
      | Some JNull \<Rightarrow> Inr []
      | Some _ \<Rightarrow> Inl (PlainError ''json: cannot unmarshal into Go value of type map[string][]uint8''))"

definition combined_manifests :: "string smap \<Rightarrow> string" where
  "combined_manifests m = concat (map (\<lambda>(_, manifest). manifest @ [CHR 0x0A] @ ''---'' @ [CHR 0x0A]) m)"

definition ObjectMapFromLocalManifest ::
  "(string \<Rightarrow> go_error + ('b resource_info list \<times> go_error option)) \<Rightarrow> ('b resource_info \<Rightarrow> bool) option
     \<Rightarrow> string \<Rightarrow> (object_key \<times> 'b manifest_object) list \<times> go_error option" where
  "ObjectMapFromLocalManifest load f manifest =
     (case load manifest of
        Inl e \<Rightarrow> ([], Some (WrapError ''error loading local manifest'' e))
      | Inr r \<Rightarrow> objectMapping r f)"

definition definition_filters :: "string \<Rightarrow> manifest_object_filter list" where
  "definition_filters name =
     [\<lparr>mf_apiVersion = ''v1alpha1'', mf_kind = PluginDefinitionKind, mf_name = name, mf_annotations = None\<rparr>,
      \<lparr>mf_apiVersion = ''v1alpha1'', mf_kind = ClusterPluginDefinitionKind, mf_name = name, mf_annotations = None\<rparr>]"

fun first_definition :: "('b, 's) catalog_env \<Rightarrow> 'b manifest_object list \<Rightarrow> plugin_definition_spec option" where
  "first_definition env [] = None"
| "first_definition env (m # ms) =
     (let obj = mo_object m; kind = ct_objectKind env obj
      in case (if kind = PluginDefinitionKind then ct_toPluginDefinition env obj
               else if kind = ClusterPluginDefinitionKind then ct_toClusterPluginDefinition env obj
               else Inl (PlainError [])) of
           Inr spec \<Rightarrow> Some spec
         | Inl _ \<Rightarrow> first_definition env ms)"

definition findPluginDefinition :: "('b, 's) catalog_env \<Rightarrow> string \<Rightarrow> string \<Rightarrow> go_error + plugin_definition_spec option" where
  "findPluginDefinition env manifestBytes name =
     (case unmarshal_manifests manifestBytes of
        Inl e \<Rightarrow> Inl e
      | Inr manifestMap \<Rightarrow>
          (case ObjectMapFromLocalManifest (ct_loadLocalManifest env) (Some (Matches_multiple (definition_filters name)))
                  (combined_manifests manifestMap) of
             (_, Some e) \<Rightarrow> Inl e
           | (objectMaps, None) \<Rightarrow> Inr (first_definition env (map snd objectMaps))))"

fun index_of_option :: "string \<Rightarrow> plugin_option list \<Rightarrow> nat option" where
  "index_of_option name [] = None"
| "index_of_option name (opt # opts) = (if po_name opt = name then Some 0 else map_option Suc (index_of_option name opts))"

definition overridden :: "plugin_option \<Rightarrow> options_override \<Rightarrow> plugin_option" where
  "overridden opt ov = opt\<lparr>po_default := oov_value ov, po_description := po_description opt @ '' (overridden by Catalog)''\<rparr>"

text \<open>The options are changed in place: a second override of an option sees the first.\<close>

fun option_patches ::
  "string \<Rightarrow> string \<Rightarrow> options_override list \<Rightarrow> plugin_option list \<Rightarrow> go_error + kustomize_patch list" where
  "option_patches ns name [] opts = Inr []"
| "option_patches ns name (ov # ovs) opts =
     (case index_of_option (oov_name ov) opts of
        None \<Rightarrow> Inl (PlainError (''failed to find plugin option override '' @ oov_name ov @ '' in plugin definition '' @ ns @ ''/'' @ name))
      | Some idx \<Rightarrow>
          (let opt = overridden (opts ! idx) ov
           in case BuildJSONPatchReplace opt idx GroupName name of
                Inl e \<Rightarrow> Inl e
              | Inr p \<Rightarrow>
                  (case option_patches ns name ovs (opts[idx := opt]) of Inl e \<Rightarrow> Inl e | Inr ps \<Rightarrow> Inr (p # ps))))"

definition getOptionOverridePatches ::
  "('b, 's) catalog_env \<Rightarrow> catalog \<Rightarrow> string \<Rightarrow> options_override list \<Rightarrow> string \<Rightarrow> go_error + kustomize_patch list" where
  "getOptionOverridePatches env c manifest overrides name =
     (case findPluginDefinition env manifest name of
        Inl e \<Rightarrow> Inl e
      | Inr None \<Rightarrow> Inr []
      | Inr (Some spec) \<Rightarrow> option_patches (o_namespace c) name overrides (options_of spec))"

fun append_option_patches ::
  "('b, 's) catalog_env \<Rightarrow> catalog \<Rightarrow> string \<Rightarrow> catalog_overrides list \<Rightarrow> kustomize_patch list \<Rightarrow> go_error + kustomize_patch list" where
  "append_option_patches env c manifest [] patches = Inr patches"
| "append_option_patches env c manifest (ov # ovs) patches =
     (if length (cov_optionsOverride ov) > 0
      then (case getOptionOverridePatches env c manifest (cov_optionsOverride ov) (cov_name ov) of
              Inl e \<Rightarrow> Inl e
            | Inr ps \<Rightarrow> append_option_patches env c manifest ovs (patches @ ps))
      else append_option_patches env c manifest ovs patches)"

section \<open>The Kustomization\<close>

text \<open>An ExternalArtifact without an artifact is dereferenced; \<open>None\<close> is the panic.\<close>

definition fetchArtifact ::
  "('b, 's) catalog_env \<Rightarrow> source \<Rightarrow> external_artifact \<Rightarrow> 's \<Rightarrow> ((go_error + string) \<times> 's) option" where
  "fetchArtifact env so ext s =
     (case ea_artifact ext of
        None \<Rightarrow> None
      | Some (url, digest) \<Rightarrow>
          Some (case af_get (ct_artifactory env) (so_artifactID so) url digest s of
                  Inl e \<Rightarrow> (Inl e, s)
                | Inr manifest \<Rightarrow>
                    (case af_save (ct_artifactory env) (so_artifactID so) digest manifest s of
                       (Some e, s1) \<Rightarrow> (Inl e, s1)
                     | (None, s1) \<Rightarrow>
                         (case af_deleteAllExcept (ct_artifactory env) (so_artifactID so) digest s1 of
                            (Some e, s2) \<Rightarrow> (Inl e, s2)
                          | (None, s2) \<Rightarrow> (Inr manifest, s2)))))"

definition new_kustomization :: "string \<Rightarrow> catalog \<Rightarrow> kustomization" where
  "new_kustomization name c = flux_object.extend (flux_object_named name c) (kustomization.fields NewKustomizationSpecBuilder)"

definition kustomization_builder ::
  "('b, 's) catalog_env \<Rightarrow> source \<Rightarrow> catalog \<Rightarrow> external_artifact \<Rightarrow> kustomize_patch list \<Rightarrow> kustomization_spec" where
  "kustomization_builder env so c ext patches =
     kustomize_WithSuspend False (WithPath artifactToDir (kustomize_WithTargetNamespace (o_namespace c)
       (WithPatches patches (WithServiceAccountName (OrgCatalogServiceAccountName (o_namespace c))
         (WithCommonLabels (Some (so_commonLabels so))
           (WithSourceRef (ct_gvkString env (fx_gvk ext)) (gvk_kind (fx_gvk ext)) (o_name ext) (o_namespace ext)
             NewKustomizationSpecBuilder))))))"

definition mutate_kustomization ::
  "('b, 's) catalog_env \<Rightarrow> source \<Rightarrow> catalog \<Rightarrow> kustomization_spec \<Rightarrow> kustomization \<Rightarrow> go_error + kustomization" where
  "mutate_kustomization env so c builder k =
     (case kustomize_Build builder of
        Inl e \<Rightarrow> Inl e
      | Inr spec \<Rightarrow>
          SetControllerReference env c
            (EnsureAnnotation (k\<lparr>kz_spec := spec\<rparr>) ReconcileRequestAnnotation (so_lastReconciledAt so)))"

definition write_kustomization ::
  "('b, 's) catalog_env \<Rightarrow> source \<Rightarrow> catalog \<Rightarrow> external_artifact \<Rightarrow> string \<Rightarrow> 's \<Rightarrow> go_error option \<times> 's" where
  "write_kustomization env so c ext manifest s =
     (let overrides = csrc_overrides (so_source so);
          patches = (if length overrides > 0 then PrepareKustomizePatches overrides GroupName else [])
      in case append_option_patches env c manifest overrides patches of
           Inl e \<Rightarrow> (Some e, s)
         | Inr all_patches \<Rightarrow>
             fl_createOrPatch (ct_kustomization env) (new_kustomization (ss_name (so_kustomize so)) c)
               (mutate_kustomization env so c (WithPatches all_patches (kustomization_builder env so c ext patches))) s)"

definition reconcileKustomization ::
  "('b, 's) catalog_env \<Rightarrow> source \<Rightarrow> catalog \<Rightarrow> external_artifact \<Rightarrow> 's \<Rightarrow> (go_error option \<times> 's) option" where
  "reconcileKustomization env so c ext s =
     (if hasOptionOverrides so
      then (case fetchArtifact env so ext s of
              None \<Rightarrow> None
            | Some (Inl e, s1) \<Rightarrow> Some (Some e, s1)
            | Some (Inr manifest, s1) \<Rightarrow> Some (write_kustomization env so c ext manifest s1))
      else Some (write_kustomization env so c ext [] s))"

section \<open>Readiness\<close>

text \<open>All four kinds have conditions, so the assertion of the interface does not fail.\<close>

definition objectReadiness :: "go_error + 'a flux_object_scheme \<Rightarrow> condition_status \<times> string" where
  "objectReadiness got =
     (case got of
        Inl e \<Rightarrow> (ConditionFalse, error_text e)
      | Inr obj \<Rightarrow>
          (case FindStatusCondition (fx_conditions obj) ReadyCondition of
             None \<Rightarrow> (ConditionFalse, gvk_kind (fx_gvk obj) @ '' not ready yet'')
           | Some cond \<Rightarrow> (fc_status cond, fc_message cond)))"

section \<open>Names\<close>

lemma newCatalogSource_cong:
  "o_name c = o_name c' \<Longrightarrow> o_namespace c = o_namespace c' \<Longrightarrow> o_labels c = o_labels c' \<Longrightarrow>
   o_annotations c = o_annotations c' \<Longrightarrow> newCatalogSource parse src c = newCatalogSource parse src c'"
  by (simp add: newCatalogSource_def source_hash_def ReconcileAnnotationValue_def split: sum.split)

lemma newCatalogSource_Inr:
  assumes "newCatalogSource parse src c = Inr so"
  obtains host owner repo where
    "GetOwnerRepoInfo parse (csrc_repository src) = Inr (host, owner, repo)"
    "so_source so = src" "so_sourceHash so = source_hash c host owner repo (GetRefValue src)"
    "so_sourceGroup so = source_group host owner repo (GetRefValue src)"
    "so_gitRepo so = desired_status GitRepositoryKind gitRepoArtifactPrefix (so_sourceHash so)"
    "so_generator so = desired_status ArtifactGeneratorKind generatorArtifactPrefix (so_sourceHash so)"
    "so_externalArtifact so = desired_status ExternalArtifactKind externalArtifactPrefix (so_sourceHash so)"
    "so_kustomize so = desired_status KustomizationKind kustomizeArtifactPrefix (so_sourceHash so)"
    "so_artifactID so = o_namespace c @ ''/'' @ getSourceGroupHash so"
  using assms
  by (auto simp: newCatalogSource_def Let_def getSourceGroupHash_def split: sum.splits)

text \<open>Characters and length of a DNS label.\<close>

definition label_char :: "char \<Rightarrow> bool" where
  "label_char c \<longleftrightarrow> digit_char c \<or> 97 \<le> (of_char c :: nat) \<and> (of_char c :: nat) \<le> 122 \<or> c = CHR ''-''"

definition dns_label :: "string \<Rightarrow> bool" where
  "dns_label s \<longleftrightarrow>
     s \<noteq> [] \<and> length s \<le> 63 \<and> list_all label_char s \<and> hd s \<noteq> CHR ''-'' \<and> last s \<noteq> CHR ''-''"

definition generated_prefix :: "string \<Rightarrow> bool" where
  "generated_prefix p \<longleftrightarrow>
     p \<in> {gitRepoArtifactPrefix, generatorArtifactPrefix, externalArtifactPrefix, kustomizeArtifactPrefix}"

lemma generated_prefix_ok:
  assumes "generated_prefix p"
  shows "length p \<le> 10" "list_all label_char p" "p \<noteq> []" "hd p \<noteq> CHR ''-''"
  using assms by (auto simp: generated_prefix_def artifact_prefixes label_char_def digit_char_def)

lemma generated_name:
  assumes "generated_prefix p"
  shows "dns_label (p @ ''-'' @ HashValue v)" and "length (p @ ''-'' @ HashValue v) \<le> 31"
proof -
  note p = generated_prefix_ok [OF assms] and h = HashValue_digits [of v] HashValue_short [of v]
  show len: "length (p @ ''-'' @ HashValue v) \<le> 31" using p(1) h(3) by simp
  have "digit_char (last (HashValue v))" using h(1,2) by (auto simp: list_all_iff)
  then have "last (HashValue v) \<noteq> CHR ''-''" by (auto simp: digit_char_def)
  moreover have "list_all label_char (HashValue v)" using h(1) by (auto simp: list_all_iff label_char_def)
  ultimately show "dns_label (p @ ''-'' @ HashValue v)"
    using p h(2) len by (simp add: dns_label_def label_char_def)
qed

text \<open>
  The objects generated for a source of a catalog always have valid names: whatever the repository, the reference
  and the name of the catalog are, the names of the GitRepository, the ArtifactGenerator, the ExternalArtifact and
  the Kustomization are DNS labels of at most 31 characters, and so is the label that marks the source. The hash in
  the names is the 64-bit FNV-1a hash with at most 20 decimal digits.
\<close>

theorem generated_names_valid:
  assumes "newCatalogSource parse src c = Inr so"
  shows "list_all (\<lambda>st. dns_label (ss_name st) \<and> length (ss_name st) \<le> 31) (getInventory so) \<and>
    length (so_sourceHash so) \<le> 20 \<and>
    smap_get (so_commonLabels so) LabelKeyCatalogSource = Some (ss_name (so_gitRepo so))"
proof -
  obtain v where v: "so_sourceHash so = HashValue v"
    using assms by (rule newCatalogSource_Inr) (auto simp: source_hash_def)
  have "smap_get (so_commonLabels so) LabelKeyCatalogSource = Some (ss_name (so_gitRepo so))"
    using assms
    by (auto simp: newCatalogSource_def Let_def desired_status_def smap_simps LabelKeyCatalogSource_def LabelKeyCatalog_def
        LabelKeyOwnedBy_def split: sum.splits option.splits)
  moreover have "list_all (\<lambda>st. dns_label (ss_name st) \<and> length (ss_name st) \<le> 31) (getInventory so)"
    using assms
    by (rule newCatalogSource_Inr)
       (use generated_name [of _ v] in \<open>simp add: getInventory_def desired_status_def v generated_prefix_def\<close>)
  ultimately show ?thesis by (simp add: v HashValue_short)
qed

definition https_parser :: url_parser where
  "https_parser s =
     (if HasPrefix s ''https://''
      then let rest = drop 8 s
           in Inr \<lparr>url_host = takeWhile (\<lambda>c. c \<noteq> CHR ''/'') rest, url_path = dropWhile (\<lambda>c. c \<noteq> CHR ''/'') rest\<rparr>
      else Inl (PlainError ''no scheme''))"

definition sample_source :: "string \<Rightarrow> catalog_source" where
  "sample_source repo =
     \<lparr>csrc_repository = repo, csrc_resources = [''plugins/a.yaml''], csrc_ref = None, csrc_secretName = None,
      csrc_overrides = [], csrc_interval = None\<rparr>"

definition sample_catalog :: "catalog_source list \<Rightarrow> inventory \<Rightarrow> catalog" where
  "sample_catalog srcs iv =
     \<lparr>o_name = ''cat'', o_namespace = ''org'', o_labels = [], o_annotations = [], o_finalizers = [],
      o_deletionTimestamp = None, o_ownerReferences = [], o_conditions = [], cat_sources = srcs, cat_inventory = iv,
      cat_lastReconciledAt = []\<rparr>"

lemma sample_info_https:
  "GetOwnerRepoInfo https_parser ''https://github.com/cloudoperators/greenhouse-extensions.git'' =
     Inr (''github-com'', ''cloudoperators'', ''greenhouse-extensions'')"
  by code_simp

theorem generated_names_valid_witness:
  "\<exists>so. newCatalogSource https_parser (sample_source ''https://github.com/cloudoperators/greenhouse-extensions.git'')
       (sample_catalog [] []) = Inr so \<and>
     length (so_sourceHash so) \<le> 20 \<and>
     list_all (\<lambda>st. dns_label (ss_name st) \<and> length (ss_name st) \<le> 31) (getInventory so)"
proof -
  obtain so where so: "newCatalogSource https_parser
      (sample_source ''https://github.com/cloudoperators/greenhouse-extensions.git'') (sample_catalog [] []) = Inr so"
    by (simp add: newCatalogSource_def sample_source_def sample_info_https Let_def)
  from generated_names_valid [OF so] so show ?thesis by blast
qed


lemma HashValue_vector: "HashValue ''a'' = ''12638187200555641996''"
  by code_simp

section \<open>Validation of the sources\<close>

definition source_id :: "url_parser \<Rightarrow> catalog \<Rightarrow> catalog_source \<Rightarrow> string option" where
  "source_id parse c src =
     (case GetOwnerRepoInfo parse (csrc_repository src) of
        Inl e \<Rightarrow> None
      | Inr (host, owner, repo) \<Rightarrow> Some (source_hash c host owner repo (GetRefValue src)))"

lemma validate_loop_None_iff:
  "validate_loop parse c srcs hashes = None \<longleftrightarrow>
     (\<forall>src \<in> set srcs. source_id parse c src \<noteq> None) \<and> distinct (map (source_id parse c) srcs) \<and>
     Some ` set hashes \<inter> set (map (source_id parse c) srcs) = {}"
proof (induction srcs arbitrary: hashes)
  case (Cons src srcs)
  show ?case
    by (cases "GetOwnerRepoInfo parse (csrc_repository src)")
       (auto simp: Cons.IH source_id_def Let_def split: prod.splits)
qed simp

lemma newCatalogSource_iff: "(\<exists>so. newCatalogSource parse src c = Inr so) \<longleftrightarrow> source_id parse c src \<noteq> None"
  by (auto simp: newCatalogSource_def source_id_def Let_def split: sum.splits)

lemma newCatalogSource_hash: "newCatalogSource parse src c = Inr so \<Longrightarrow> source_id parse c src = Some (so_sourceHash so)"
  by (erule newCatalogSource_Inr) (simp add: source_id_def)

text \<open>
  The sources of a catalog are accepted exactly when every repository can be understood and no two sources have the
  same generated names; then every source gives its own four objects, and no object belongs to two sources.
\<close>

theorem validateSources_iff:
  "(validateSources parse c = None \<longleftrightarrow>
      list_all (\<lambda>src. \<exists>so. newCatalogSource parse src c = Inr so) (cat_sources c) \<and>
      distinct (map (source_id parse c) (cat_sources c))) \<and>
   (validateSources parse c = None \<longrightarrow>
      (\<forall>i j so so'. i < j \<longrightarrow> j < length (cat_sources c) \<longrightarrow>
         newCatalogSource parse (cat_sources c ! i) c = Inr so \<longrightarrow> newCatalogSource parse (cat_sources c ! j) c = Inr so' \<longrightarrow>
         ss_name ` set (getInventory so) \<inter> ss_name ` set (getInventory so') = {}))"
proof -
  have iff: "validateSources parse c = None \<longleftrightarrow>
      list_all (\<lambda>src. \<exists>so. newCatalogSource parse src c = Inr so) (cat_sources c) \<and>
      distinct (map (source_id parse c) (cat_sources c))"
    by (auto simp: validateSources_def validate_loop_None_iff newCatalogSource_iff list_all_iff)
  have "ss_name ` set (getInventory so) \<inter> ss_name ` set (getInventory so') = {}"
    if valid: "validateSources parse c = None" and ij: "i < j" "j < length (cat_sources c)"
      and so: "newCatalogSource parse (cat_sources c ! i) c = Inr so"
      and so': "newCatalogSource parse (cat_sources c ! j) c = Inr so'" for i j so so'
  proof -
    have "map (source_id parse c) (cat_sources c) ! i \<noteq> map (source_id parse c) (cat_sources c) ! j"
      using iff valid ij nth_eq_iff_index_eq [of "map (source_id parse c) (cat_sources c)" i j] by simp
    then have "so_sourceHash so \<noteq> so_sourceHash so'"
      using ij newCatalogSource_hash [OF so] newCatalogSource_hash [OF so'] by simp
    with so so' show ?thesis
      by (elim newCatalogSource_Inr)
         (auto simp: getInventory_def desired_status_def artifact_prefixes)
  qed
  with iff show ?thesis by blast
qed

definition two_sources :: catalog where
  "two_sources = sample_catalog [sample_source ''https://github.com/a/x'', sample_source ''https://github.com/b/x.git''] []"

lemma two_sources_valid: "validateSources https_parser two_sources = None"
  by code_simp

theorem validateSources_iff_witness:
  "distinct (map (source_id https_parser two_sources) (cat_sources two_sources)) \<and>
   list_all (\<lambda>src. \<exists>so. newCatalogSource https_parser src two_sources = Inr so) (cat_sources two_sources)"
  using validateSources_iff [of https_parser two_sources] two_sources_valid by blast

text \<open>The parts of a name are joined by a character they may contain, so different repositories can count as duplicates.\<close>

lemma different_repositories_rejected:
  "validateSources https_parser
     (sample_catalog [sample_source ''https://github.com/a-b/c'', sample_source ''https://github.com/a/b-c''] []) =
   Some (PlainError ''duplicate source found: repository https://github.com/a/b-c with ref main'')"
  by code_simp

text \<open>
  Without a reference the names are those of the branch \<open>main\<close>, but no reference is asked of Flux, which then uses
  its own default.
\<close>

lemma default_branch_not_requested:
  assumes "csrc_ref src = None"
  shows "GetRefValue src = ''main''"
    and "getGitRepositoryReference src = \<lparr>grr_branch = [], grr_tag = [], grr_commit = []\<rparr>"
  using assms by (simp_all add: GetRefValue_def getGitRepositoryReference_def)

section \<open>Overrides of options\<close>

lemma index_of_option_Some:
  "index_of_option name opts = Some i \<longleftrightarrow>
     i < length opts \<and> po_name (opts ! i) = name \<and> (\<forall>j < i. po_name (opts ! j) \<noteq> name)"
proof (induction opts arbitrary: i)
  case (Cons opt opts)
  then show ?case by (cases i) (auto simp: All_less_Suc2)
qed simp

lemma index_of_option_None: "index_of_option name opts = None \<longleftrightarrow> name \<notin> po_name ` set opts"
  by (induction opts) auto

lemma po_name_overridden [simp]: "po_name (overridden opt ov) = po_name opt"
  by (simp add: overridden_def)

lemma index_of_option_update:
  "index_of_option name opts = Some i \<Longrightarrow> index_of_option n (opts[i := overridden (opts ! i) ov]) = index_of_option n opts"
  by (induction opts arbitrary: i) (auto split: if_splits nat.splits)

lemma option_patches_nth:
  assumes "option_patches ns name ovs opts = Inr ps" and "distinct (map oov_name ovs)"
  shows "length ps = length ovs \<and>
    (\<forall>k < length ovs. \<exists>i. index_of_option (oov_name (ovs ! k)) opts = Some i \<and>
       BuildJSONPatchReplace (overridden (opts ! i) (ovs ! k)) i GroupName name = Inr (ps ! k))"
  using assms
proof (induction ovs arbitrary: opts ps)
  case (Cons ov ovs)
  from Cons.prems obtain i p ps' where i: "index_of_option (oov_name ov) opts = Some i"
    and p: "BuildJSONPatchReplace (overridden (opts ! i) ov) i GroupName name = Inr p"
    and ps': "option_patches ns name ovs (opts[i := overridden (opts ! i) ov]) = Inr ps'" and ps: "ps = p # ps'"
    by (auto simp: Let_def split: option.splits sum.splits)
  let ?opts = "opts[i := overridden (opts ! i) ov]"
  have IH: "length ps' = length ovs"
    "\<And>k. k < length ovs \<Longrightarrow> \<exists>j. index_of_option (oov_name (ovs ! k)) ?opts = Some j \<and>
       BuildJSONPatchReplace (overridden (?opts ! j) (ovs ! k)) j GroupName name = Inr (ps' ! k)"
    using Cons.IH [OF ps'] Cons.prems(2) by auto
  have "\<exists>j. index_of_option (oov_name (ovs ! k)) opts = Some j \<and>
       BuildJSONPatchReplace (overridden (opts ! j) (ovs ! k)) j GroupName name = Inr (ps' ! k)" if k: "k < length ovs" for k
  proof -
    obtain j where j: "index_of_option (oov_name (ovs ! k)) ?opts = Some j"
      "BuildJSONPatchReplace (overridden (?opts ! j) (ovs ! k)) j GroupName name = Inr (ps' ! k)"
      using IH(2) [OF k] by blast
    have "oov_name (ovs ! k) \<noteq> oov_name ov" using Cons.prems(2) nth_mem [OF k] by (metis distinct.simps(2) image_eqI list.simps(9) set_map)
    then have "j \<noteq> i"
      using i j(1) by (auto simp: index_of_option_update [OF i] index_of_option_Some)
    with j show ?thesis by (auto simp: index_of_option_update [OF i])
  qed
  with i p IH(1) show ?case by (auto simp: ps nth_Cons split: nat.splits)
qed simp

text \<open>
  Overriding options of a plugin definition gives one patch per override, in their order. Read as JSON patch, it
  tests that the first option with the name is still at its place, and replaces it by the same option with the value of
  the override as default and a note in its description.
\<close>

theorem option_overrides_patched:
  assumes "option_patches ns name ovs opts = Inr ps" and "distinct (map oov_name ovs)" and "k < length ovs"
  shows "length ps = length ovs \<and>
    (\<exists>i v. i < length opts \<and> po_name (opts ! i) = oov_name (ovs ! k) \<and> (\<forall>j < i. po_name (opts ! j) \<noteq> oov_name (ovs ! k)) \<and>
       marshal_option (overridden (opts ! i) (ovs ! k)) = Inr v \<and>
       parse_json (kp_patch (ps ! k)) = Some (option_patch_json (opts ! i) i v) \<and>
       kp_target (ps ! k) = \<lparr>sel_group = GroupName, sel_name = name\<rparr>)"
proof -
  obtain i where i: "index_of_option (oov_name (ovs ! k)) opts = Some i"
    "BuildJSONPatchReplace (overridden (opts ! i) (ovs ! k)) i GroupName name = Inr (ps ! k)"
    using option_patches_nth [OF assms(1,2)] assms(3) by blast
  obtain v where "marshal_option (overridden (opts ! i) (ovs ! k)) = Inr v"
    "parse_json (kp_patch (ps ! k)) = Some (option_patch_json (overridden (opts ! i) (ovs ! k)) i v)"
    using BuildJSONPatchReplace_parse(1) [OF i(2)] by blast
  then show ?thesis
    using option_patches_nth [OF assms(1,2)] i BuildJSONPatchReplace_parse(2) [OF i(2)]
    by (auto simp: index_of_option_Some option_patch_json_def)
qed

definition sample_option :: "string \<Rightarrow> plugin_option" where
  "sample_option name =
     \<lparr>po_name = name, po_default = Some ''1'', po_description = [], po_displayName = [], po_required = True,
      po_type = PluginOptionTypeInt, po_regex = []\<rparr>"

theorem option_overrides_patched_witness:
  "\<exists>ps v. option_patches ''org'' ''pd'' [\<lparr>oov_name = ''b'', oov_value = Some ''42''\<rparr>] [sample_option ''a'', sample_option ''b''] = Inr ps \<and>
     parse_json (kp_patch (ps ! 0)) = Some (option_patch_json (sample_option ''b'') 1 v)"
proof -
  let ?ovs = "[\<lparr>oov_name = ''b'', oov_value = Some ''42''\<rparr>]" and ?opts = "[sample_option ''a'', sample_option ''b'']"
  have "\<not> isl (option_patches ''org'' ''pd'' ?ovs ?opts)" by code_simp
  then obtain ps where ps: "option_patches ''org'' ''pd'' ?ovs ?opts = Inr ps" by (metis sum.collapse(2))
  from option_overrides_patched [OF ps, of 0] obtain i v where
    i: "i < length ?opts" "po_name (?opts ! i) = ''b''" "parse_json (kp_patch (ps ! 0)) = Some (option_patch_json (?opts ! i) i v)"
    by auto
  from i(1,2) have "i = 1" by (auto simp: sample_option_def less_Suc_eq)
  with i ps show ?thesis by auto
qed


section \<open>Artifacts of a source\<close>

text \<open>
  The store in the file system as the artifactory of the controller. A download is given up at its deadline.
\<close>

definition fs_artifactory :: "'t http_env \<Rightarrow> string \<Rightarrow> os_faults \<Rightarrow> file_system artifactory" where
  "fs_artifactory he base flt =
     \<lparr>af_get = (\<lambda>i url d fs. case artifact_Get he base flt i url d fs of
                               None \<Rightarrow> Inl (PlainError ''context deadline exceeded'') | Some r \<Rightarrow> r),
      af_save = artifact_Save base flt, af_deleteAllExcept = artifact_DeleteAllExcept base flt\<rparr>"

lemma filepath_Join3: "filepath_Join [rooted_path es, a, b] = filepath_Join [rooted_path es, a @ ''/'' @ b]"
  by (simp add: filepath_Join_def rooted_path_def)

lemma nested_id:
  assumes "list_all element_ok bs" "element_ok ns"
  shows "filepath_Join [rooted_path bs, ns @ ''/'' @ x] = filepath_Join [rooted_path (bs @ [ns]), x]"
    and "filepath_Join [rooted_path bs, ns @ ''/'' @ x, d] = filepath_Join [rooted_path (bs @ [ns]), x, d]"
proof -
  have step: "filepath_Join [rooted_path bs, ns @ ''/'' @ y] = filepath_Join [rooted_path (bs @ [ns]), y]" for y
  proof -
    have "split_char (CHR ''/'') (ns @ ''/'' @ y) = ns # split_char (CHR ''/'') y"
      using assms(2) split_char_append_sep [of "CHR ''/''" ns y] split_char_no_sep [of "CHR ''/''" ns]
      by (simp add: element_ok_def)
    then show ?thesis using assms by (simp add: filepath_Join2 element_ok_def)
  qed
  show "filepath_Join [rooted_path bs, ns @ ''/'' @ x] = filepath_Join [rooted_path (bs @ [ns]), x]" by (rule step)
  show "filepath_Join [rooted_path bs, ns @ ''/'' @ x, d] = filepath_Join [rooted_path (bs @ [ns]), x, d]"
    using step [of "x @ ''/'' @ d"] by (simp add: filepath_Join3)
qed

lemma nested_store:
  assumes "list_all element_ok bs" "element_ok ns" "x \<noteq> []"
  shows "artifact_Save (rooted_path bs) flt (ns @ ''/'' @ x) d content fs = artifact_Save (rooted_path (bs @ [ns])) flt x d content fs"
    and "artifact_DeleteAllExcept (rooted_path bs) flt (ns @ ''/'' @ x) d fs = artifact_DeleteAllExcept (rooted_path (bs @ [ns])) flt x d fs"
    and "artifact_Get he (rooted_path bs) flt (ns @ ''/'' @ x) url d fs = artifact_Get he (rooted_path (bs @ [ns])) flt x url d fs"
    and "artifact_Path (rooted_path bs) (ns @ ''/'' @ x) d = artifact_Path (rooted_path (bs @ [ns])) x d"
  using assms(3) nested_id [OF assms(1,2)]
  by (simp_all add: artifact_Save_def saveToFileSystem_def artifact_DeleteAllExcept_def deleteAllExceptFromFileSystem_def
      artifact_Get_def fetchFromFileSystem_def artifact_Path_def)

text \<open>Reading, saving and cleaning up one artifact with a plain name.\<close>

lemma fetch_store_outcome:
  assumes inv: "fs_ok fs" and names: "store_ok bs i" "element_ok digest"
    and free: "artifact_Path (rooted_path bs) i digest \<notin> set (fs_dirs fs)"
    and got: "artifact_Get he (rooted_path bs) flt i url digest fs = Some (Inr manifest)"
    and saved: "artifact_Save (rooted_path bs) flt i digest manifest fs = (None, fs1)"
    and cleaned: "artifact_DeleteAllExcept (rooted_path bs) flt i digest fs1 = (None, fs2)"
    and d: "element_ok d"
  shows "smap_get (fs_files fs2) (artifact_Path (rooted_path bs) i d) = (if d = digest then Some manifest else None)"
proof -
  let ?p = "artifact_Path (rooted_path bs) i digest"
  have "smap_get (fs_files fs1) ?p = Some manifest"
  proof (cases "smap_get (fs_files fs) ?p")
    case None
    have "os_Stat flt ?p fs = Some ErrNotExist"
      using saved None free
      by (auto simp: artifact_Save_def saveToFileSystem_def os_Stat_def artifact_Path_def Let_def split: if_splits option.splits)
    from save_fresh(1) [OF names saved this] show ?thesis by (simp add: smap_simps)
  next
    case (Some content)
    then have "fs1 = fs" using save_taken [of fs "rooted_path bs" i digest flt manifest] saved by simp
    moreover have "content = manifest"
      using got Some
      by (auto simp: artifact_Get_def fetchFromFileSystem_def os_ReadFile_def artifact_Path_def split: if_splits option.splits)
    ultimately show ?thesis using Some by simp
  qed
  moreover have "fs_ok fs1" using fs_ok_save [OF inv names, of flt manifest] saved by simp
  ultimately show ?thesis using delete_outcome [OF _ names cleaned names(1) d] by auto
qed

text \<open>
  After the manifests of a source were fetched, the store holds them under the digest of the artifact, and no other
  version of the artifact is left; this holds whether they were downloaded or already there. The identifier of the
  artifact is a path below the namespace of the catalog.
\<close>

theorem fetched_artifact_stored:
  assumes env: "ct_artifactory env = fs_artifactory he (rooted_path bs) flt"
    and names: "list_all element_ok bs" "element_ok ns" "element_ok x" "element_ok digest" "so_artifactID so = ns @ ''/'' @ x"
    and inv: "fs_ok fs" "artifact_Path (rooted_path bs) (ns @ ''/'' @ x) digest \<notin> set (fs_dirs fs)"
    and ext: "ea_artifact ext = Some (url, digest)"
    and run: "fetchArtifact env so ext fs = Some (Inr manifest, fs')"
    and d: "element_ok d"
  shows "smap_get (fs_files fs') (artifact_Path (rooted_path bs) (so_artifactID so) d) =
    (if d = digest then Some manifest else None)"
proof -
  have x: "x \<noteq> []" and store: "store_ok (bs @ [ns]) x" using names by (simp_all add: element_ok_def store_ok_def)
  note nested = nested_store [OF names(1,2) x, unfolded append.simps]
  from run obtain fs1 where
    "artifact_Get he (rooted_path (bs @ [ns])) flt x url digest fs = Some (Inr manifest)"
    "artifact_Save (rooted_path (bs @ [ns])) flt x digest manifest fs = (None, fs1)"
    "artifact_DeleteAllExcept (rooted_path (bs @ [ns])) flt x digest fs1 = (None, fs')"
    by (auto simp: fetchArtifact_def ext env fs_artifactory_def names(5) nested
        split: option.splits sum.splits prod.splits)
  from fetch_store_outcome [OF inv(1) store names(4) _ this d] inv(2) show ?thesis
    by (simp add: names(5) nested)
qed


text \<open>An API server without objects, for the examples.\<close>

definition empty_client :: "('o, 's) flux_client" where
  "empty_client =
     \<lparr>fl_get = (\<lambda>_ s. Inl (ApiError ReasonNotFound ''not found'' [])), fl_update = (\<lambda>x s. (Inr x, s)), fl_delete = (\<lambda>_ s. (None, s)),
      fl_createOrPatch = (\<lambda>_ _ s. (None, s)), fl_createOrUpdate = (\<lambda>_ _ s. (None, s))\<rparr>"

definition empty_env :: "'s artifactory \<Rightarrow> (unit, 's) catalog_env" where
  "empty_env af =
     \<lparr>ct_parseURL = https_parser, ct_git = empty_client, ct_generator = empty_client, ct_external = empty_client,
      ct_kustomization = empty_client, ct_get_secret = (\<lambda>_ s. Inl (ApiError ReasonNotFound ''not found'' [])),
      ct_controllerRefs = (\<lambda>c _. Inr [\<lparr>or_kind = ''Catalog'', or_name = o_name c\<rparr>]), ct_artifactory = af,
      ct_loadLocalManifest = (\<lambda>_. Inr ([], None)), ct_objectKind = (\<lambda>_. []),
      ct_toPluginDefinition = (\<lambda>_. Inl (PlainError [])), ct_toClusterPluginDefinition = (\<lambda>_. Inl (PlainError [])),
      ct_cmpDiff = (\<lambda>a b. if mset a = mset b then [] else ''diff''),
      ct_gvkString = gvk_kind, ct_reconcileAnnotation = ''reconcile'', ct_disabledValue = ''disabled''\<rparr>"

definition sample_so :: source where
  "sample_so =
     \<lparr>so_commonLabels = [], so_source = sample_source [], so_sourceHash = ''1'', so_sourceGroup = ''g'',
      so_gitRepo = desired_status GitRepositoryKind gitRepoArtifactPrefix ''1'',
      so_generator = desired_status ArtifactGeneratorKind generatorArtifactPrefix ''1'',
      so_externalArtifact = desired_status ExternalArtifactKind externalArtifactPrefix ''1'',
      so_kustomize = desired_status KustomizationKind kustomizeArtifactPrefix ''1'',
      so_lastReconciledAt = [], so_artifactID = ''data/chart''\<rparr>"

theorem fetched_artifact_stored_witness:
  "\<exists>fs'. fetchArtifact (empty_env (fs_artifactory no_http ''/'' no_faults)) sample_so
       ((new_external_artifact ''a'' (sample_catalog [] []))\<lparr>ea_artifact := Some (''http://x'', ''new'')\<rparr>) two_charts
       = Some (Inr ''2'', fs') \<and>
     smap_get (fs_files fs') ''/data/chart/old'' = None \<and> smap_get (fs_files fs') ''/data/chart/new'' = Some ''2''"
proof -
  let ?env = "empty_env (fs_artifactory no_http (rooted_path []) no_faults)"
    and ?ext = "(new_external_artifact ''a'' (sample_catalog [] []))\<lparr>ea_artifact := Some (''http://x'', ''new'')\<rparr>"
  have base: "''/'' = rooted_path []" by (simp add: rooted_path_def)
  have "map_option fst (fetchArtifact (empty_env (fs_artifactory no_http (rooted_path []) no_faults)) sample_so ?ext two_charts) = Some (Inr ''2'')"
    by code_simp
  then obtain fs' where run: "fetchArtifact ?env sample_so ?ext two_charts = Some (Inr ''2'', fs')" by auto
  have ok: "list_all element_ok []" "element_ok ''data''" "element_ok ''chart''" "element_ok ''new''" "element_ok ''old''"
    by (simp_all add: element_ok_def)
  have path: "artifact_Path (rooted_path []) ''data/chart'' ''old'' = ''/data/chart/old''"
    "artifact_Path (rooted_path []) ''data/chart'' ''new'' = ''/data/chart/new''" by code_simp+
  have free: "artifact_Path (rooted_path []) (''data'' @ ''/'' @ ''chart'') ''new'' \<notin> set (fs_dirs two_charts)" by code_simp
  have af: "ct_artifactory ?env = fs_artifactory no_http (rooted_path []) no_faults" by (simp add: empty_env_def)
  have "so_artifactID sample_so = ''data'' @ ''/'' @ ''chart''" and art: "ea_artifact ?ext = Some (''http://x'', ''new'')"
    and id: "so_artifactID sample_so = ''data/chart''"
    by (simp_all add: sample_so_def)
  note all = fetched_artifact_stored [OF af ok(1-4) this(1) two_charts_ok free art run, unfolded id]
  from run all [OF ok(5)] all [OF ok(4)] show ?thesis unfolding base path by auto
qed

text \<open>
  Nothing keeps the reference of a source from containing steps to the parent directory, and then the artifact is not
  stored below the directory of the store.
\<close>

lemma artifact_outside_store:
  "artifact_Path ''/store'' (''org'' @ ''/'' @ source_group ''h'' ''o'' ''r'' ''x/../../../etc/y'' @ ''-'' @ ''1'') ''d'' = ''/etc/y-1/d''"
  by code_simp

end
