(* ===== verification/Catalog_Controller.thy ===== *)
theory Catalog_Controller
  imports Catalog_Source Webhook_Plugin
begin

text \<open>
  The Catalog controller (\<open>internal/controller/catalog/catalog_controller.go\<close>) and its metric (\<open>metrics.go\<close>), as
  callbacks of \<open>Lifecycle\<close>. The state is the one of the API server and the store of artifacts together with
  the series of the metric. The slices of the inventory that \<open>checkAndCleanInventory\<close> changes while it ranges over
  them are arrays of the model. A panic is the outcome \<open>None\<close>.
\<close>

section \<open>The metric\<close>

definition ReasonOK :: string where "ReasonOK = ''OK''"
definition ReasonAuthError :: string where "ReasonAuthError = ''AuthError''"
definition ReasonSecretMissing :: string where "ReasonSecretMissing = ''SecretMissing''"
definition ReasonUnknown :: string where "ReasonUnknown = ''Unknown''"

definition all_reasons :: "string list" where
  "all_reasons = [ReasonOK, ReasonAuthError, ReasonSecretMissing, ReasonUnknown]"

text \<open>The series of a gauge by the values of its labels.\<close>

type_synonym ready_gauge = "(string list \<times> int) list"

definition DeleteLabelValues :: "string list \<Rightarrow> ready_gauge \<Rightarrow> ready_gauge" where
  "DeleteLabelValues labels g = filter (\<lambda>(ls, _). ls \<noteq> labels) g"

definition auth_message :: "string \<Rightarrow> bool" where
  "auth_message msg \<longleftrightarrow>
     Contains msg ''authentication'' \<or> Contains msg ''auth'' \<or> Contains msg ''unauthorized'' \<or> Contains msg ''forbidden''
     \<or> Contains msg ''credentials''"

definition auth_failure :: "source_status \<Rightarrow> bool" where
  "auth_failure st \<longleftrightarrow>
     ss_kind st = GitRepositoryKind \<and> ss_ready st = Some ConditionFalse \<and> ss_message st \<noteq> [] \<and> auth_message (ToLower (ss_message st))"

definition determineReason :: "catalog \<Rightarrow> string" where
  "determineReason c =
     (let hasAuthError = list_ex (\<lambda>(_, sts). list_ex auth_failure sts) (cat_inventory c);
          hasMissingSecret =
            (case GetConditionByType (o_conditions c) ReadyCondition of
               None \<Rightarrow> False
             | Some cond \<Rightarrow> c_message cond \<noteq> [] \<and> Contains (ToLower (c_message cond)) ''secret''
                            \<and> Contains (ToLower (c_message cond)) ''not found'')
      in if hasMissingSecret then ReasonSecretMissing else if hasAuthError then ReasonAuthError else ReasonUnknown)"

definition ready_labels :: "catalog \<Rightarrow> string \<Rightarrow> string list" where
  "ready_labels c reason = [o_name c, o_namespace c, smap_val (o_labels c) LabelKeyOwnedBy, reason]"

definition updateCatalogReadyMetric :: "catalog \<Rightarrow> ready_gauge \<Rightarrow> ready_gauge" where
  "updateCatalogReadyMetric c g =
     (let isReady = (case GetConditionByType (o_conditions c) ReadyCondition of
                       None \<Rightarrow> False | Some cond \<Rightarrow> c_status cond = ConditionTrue);
          reason = (if isReady then ReasonOK else determineReason c);
          g1 = fold (\<lambda>r g. if r \<noteq> reason then DeleteLabelValues (ready_labels c r) g else g) all_reasons g
      in DeleteLabelValues (ready_labels c reason) g1 @ [(ready_labels c reason, if isReady then 1 else 0)])"

definition deleteCatalogReadyMetric :: "catalog \<Rightarrow> ready_gauge \<Rightarrow> ready_gauge" where
  "deleteCatalogReadyMetric c g = fold (\<lambda>r. DeleteLabelValues (ready_labels c r)) all_reasons g"

section \<open>Cleaning the inventory\<close>

definition deleteOrphanedResource ::
  "('o, 's) flux_client \<Rightarrow> string \<Rightarrow> string \<Rightarrow> string \<Rightarrow> 's \<Rightarrow> go_error option \<times> 's" where
  "deleteOrphanedResource cl kind namespace name s =
     (case fl_get cl \<lparr>nn_namespace = namespace, nn_name = name\<rparr> s of
        Inl e \<Rightarrow>
          if IsNotFound e then (None, s)
          else (Some (WrapError (''failed to get orphaned resource '' @ kind @ '' - '' @ namespace @ ''/'' @ name) e), s)
      | Inr obj \<Rightarrow>
          (case fl_delete cl obj s of
             (Some e, s1) \<Rightarrow>
               (Some (WrapError (''failed to delete orphaned resource '' @ kind @ '' - '' @ namespace @ ''/'' @ name) e), s1)
           | (None, s1) \<Rightarrow> (None, s1)))"

definition inventory_kind :: "string \<Rightarrow> bool" where
  "inventory_kind kind \<longleftrightarrow> kind \<in> {GitRepositoryKind, ArtifactGeneratorKind, ExternalArtifactKind, KustomizationKind}"

definition delete_orphan :: "('b, 's) catalog_env \<Rightarrow> string \<Rightarrow> source_status \<Rightarrow> 's \<Rightarrow> go_error option \<times> 's" where
  "delete_orphan env namespace st s =
     (let (err, s1) =
        (if ss_kind st = GitRepositoryKind then deleteOrphanedResource (ct_git env) (ss_kind st) namespace (ss_name st) s
         else if ss_kind st = ArtifactGeneratorKind then deleteOrphanedResource (ct_generator env) (ss_kind st) namespace (ss_name st) s
         else if ss_kind st = KustomizationKind then deleteOrphanedResource (ct_kustomization env) (ss_kind st) namespace (ss_name st) s
         else (None, s))
      in (map_option (WrapError (''failed to delete '' @ ss_kind st @ '' - '' @ namespace @ ''/'' @ ss_name st)) err, s1))"

definition zero_status :: source_status where
  "zero_status = \<lparr>ss_kind = [], ss_name = [], ss_ready = None, ss_message = []\<rparr>"

text \<open>
  The loop over the slice of one source. The range keeps the array and the length it started with.
  \<open>slices.DeleteFunc\<close> works on the first \<open>m\<close> elements of the same array, those of the current inventory: it moves the
  remaining ones to the front and zeroes the rest.
\<close>

fun clean_entries ::
  "('b, 's) catalog_env \<Rightarrow> string \<Rightarrow> source_status list \<Rightarrow> nat list \<Rightarrow> source_status list \<Rightarrow> nat \<Rightarrow> 's
     \<Rightarrow> go_error option \<times> source_status list \<times> 's" where
  "clean_entries env ns desired [] arr m s = (None, take m arr, s)"
| "clean_entries env ns desired (i # is) arr m s =
     (let st = arr ! i
      in if list_ex (same_object (ss_kind st) (ss_name st)) desired \<or> \<not> inventory_kind (ss_kind st)
         then clean_entries env ns desired is arr m s
         else case delete_orphan env ns st s of
                (Some e, s1) \<Rightarrow> (Some e, take m arr, s1)
              | (None, s1) \<Rightarrow>
                  (let kept = DeleteFunc (take m arr) (same_object (ss_kind st) (ss_name st))
                   in clean_entries env ns desired is (kept @ replicate (m - length kept) zero_status @ drop m arr)
                        (length kept) s1))"

definition clean_source ::
  "('b, 's) catalog_env \<Rightarrow> string \<Rightarrow> source_status list \<Rightarrow> source_status list \<Rightarrow> 's \<Rightarrow> go_error option \<times> source_status list \<times> 's" where
  "clean_source env ns invList desired s =
     (if ct_cmpDiff env invList desired \<noteq> []
      then clean_entries env ns desired [0..<length invList] invList (length invList) s
      else (None, invList, s))"

fun desired_loop :: "url_parser \<Rightarrow> catalog \<Rightarrow> catalog_source list \<Rightarrow> inventory \<Rightarrow> go_error + inventory" where
  "desired_loop parse c [] d = Inr d"
| "desired_loop parse c (src # srcs) d =
     (case newCatalogSource parse src c of
        Inl e \<Rightarrow> Inl e
      | Inr so \<Rightarrow> desired_loop parse c srcs (smap_set (getSourceGroupHash so) (getInventory so) d))"

definition desired_list :: "inventory \<Rightarrow> string \<Rightarrow> source_status list" where
  "desired_list d hash = (case smap_get d hash of Some l \<Rightarrow> l | None \<Rightarrow> [])"

text \<open>An error ends the loop; the map of the catalog has the changes made so far.\<close>

fun clean_sources ::
  "('b, 's) catalog_env \<Rightarrow> string \<Rightarrow> inventory \<Rightarrow> inventory \<Rightarrow> inventory \<Rightarrow> 's \<Rightarrow> go_error option \<times> inventory \<times> 's" where
  "clean_sources env ns d [] iv s = (None, iv, s)"
| "clean_sources env ns d ((hash, invList) # rest) iv s =
     (case clean_source env ns invList (desired_list d hash) s of
        (Some e, sts, s1) \<Rightarrow> (Some e, smap_set hash sts iv, s1)
      | (None, sts, s1) \<Rightarrow>
          clean_sources env ns d rest (if length sts = 0 then smap_del hash iv else smap_set hash sts iv) s1)"

definition checkAndCleanInventory :: "('b, 's) catalog_env \<Rightarrow> catalog \<Rightarrow> 's \<Rightarrow> go_error option \<times> catalog \<times> 's" where
  "checkAndCleanInventory env c s =
     (if length (cat_inventory c) = 0 then (None, c, s)
      else case desired_loop (ct_parseURL env) c (cat_sources c) [] of
             Inl e \<Rightarrow> (Some e, c, s)
           | Inr d \<Rightarrow>
               (case clean_sources env (o_namespace c) d (cat_inventory c) (cat_inventory c) s of
                  (err, iv, s1) \<Rightarrow> (err, c\<lparr>cat_inventory := iv\<rparr>, s1)))"

section \<open>Creation\<close>

definition Source :: string where "Source = ''CatalogSource''"

definition catalog_err :: "string \<Rightarrow> string \<Rightarrow> go_error \<Rightarrow> catalog_error" where
  "catalog_err t n e = \<lparr>cer_inventoryType = t, cer_name = n, cer_error = e\<rparr>"

definition reconcile_source ::
  "('b, 's) catalog_env \<Rightarrow> catalog_source \<Rightarrow> catalog \<Rightarrow> 's \<Rightarrow> (catalog_error option \<times> catalog \<times> 's) option" where
  "reconcile_source env src c s =
     (case newCatalogSource (ct_parseURL env) src c of
        Inl e \<Rightarrow> Some (Some (catalog_err Source (csrc_repository src @ ''-'' @ GetRefValue src) e), c, s)
      | Inr so \<Rightarrow>
          (case reconcileGitRepository env so c s of
             (Some e, s1) \<Rightarrow>
               Some (Some (catalog_err GitRepositoryKind (ss_name (so_gitRepo so)) e),
                     setInventory so GitRepositoryKind (ss_name (so_gitRepo so)) (error_text e) ConditionFalse c, s1)
           | (None, s1) \<Rightarrow>
               (case reconcileArtifactGeneration env so c s1 of
                  (Inl e, s2) \<Rightarrow> Some (Some (catalog_err ArtifactGeneratorKind (ss_name (so_generator so)) e), c, s2)
                | (Inr ext, s2) \<Rightarrow>
                    if fx_uid ext = []
                    then Some (Some (catalog_err ExternalArtifactKind (ss_name (so_externalArtifact so))
                                       (PlainError ''ExternalArtifact not found yet'')), c, s2)
                    else let got = fl_get (ct_external env) (ObjectKeyFromObject ext) s2
                         in case (objectReadiness got, got) of
                              ((ConditionTrue, _), Inr ext1) \<Rightarrow>
                                (case reconcileKustomization env so c ext1 s2 of
                                   None \<Rightarrow> None
                                 | Some (Some e, s3) \<Rightarrow>
                                     Some (Some (catalog_err KustomizationKind (ss_name (so_kustomize so)) e), c, s3)
                                 | Some (None, s3) \<Rightarrow> Some (None, c, s3))
                            | ((_, msg), _) \<Rightarrow>
                                Some (Some (catalog_err ExternalArtifactKind (ss_name (so_externalArtifact so)) (PlainError msg)),
                                      c, s2))))"

fun reconcile_sources ::
  "('b, 's) catalog_env \<Rightarrow> catalog_source list \<Rightarrow> catalog \<Rightarrow> 's \<Rightarrow> (catalog_error list \<times> catalog \<times> 's) option" where
  "reconcile_sources env [] c s = Some ([], c, s)"
| "reconcile_sources env (src # srcs) c s =
     (case reconcile_source env src c s of
        None \<Rightarrow> None
      | Some (err, c1, s1) \<Rightarrow>
          map_option (\<lambda>(errs, c2, s2). ((case err of None \<Rightarrow> errs | Some e \<Rightarrow> e # errs), c2, s2))
            (reconcile_sources env srcs c1 s1))"

definition formatCatalogErrors :: "catalog_error list \<Rightarrow> go_error option" where
  "formatCatalogErrors errs =
     (if length errs = 0 then None
      else NewAggregate (map (\<lambda>e. WrapError (cer_inventoryType e @ ''/'' @ cer_name e) (cer_error e)) errs))"

text \<open>The readiness of the four objects of a source, in the order they are read.\<close>

definition source_readiness ::
  "('b, 's) catalog_env \<Rightarrow> source \<Rightarrow> catalog \<Rightarrow> 's \<Rightarrow> (string \<times> string \<times> condition_status \<times> string) list" where
  "source_readiness env so c s =
     [(GitRepositoryKind, ss_name (so_gitRepo so), objectReadiness (fl_get (ct_git env) (in_namespace c (ss_name (so_gitRepo so))) s)),
      (ArtifactGeneratorKind, ss_name (so_generator so),
         objectReadiness (fl_get (ct_generator env) (in_namespace c (ss_name (so_generator so))) s)),
      (ExternalArtifactKind, ss_name (so_externalArtifact so),
         objectReadiness (fl_get (ct_external env) (in_namespace c (ss_name (so_externalArtifact so))) s)),
      (KustomizationKind, ss_name (so_kustomize so),
         objectReadiness (fl_get (ct_kustomization env) (in_namespace c (ss_name (so_kustomize so))) s))]"

definition record_readiness ::
  "source \<Rightarrow> (string \<times> string \<times> condition_status \<times> string) list \<Rightarrow> catalog \<Rightarrow> catalog" where
  "record_readiness so rs c = fold (\<lambda>(kind, name, ready, msg). setInventory so kind name msg ready) rs c"

fun verify_sources ::
  "('b, 's) catalog_env \<Rightarrow> catalog_source list \<Rightarrow> catalog \<Rightarrow> 's \<Rightarrow> catalog_error list \<times> condition_status list \<times> catalog" where
  "verify_sources env [] c s = ([], [], c)"
| "verify_sources env (src # srcs) c s =
     (case newCatalogSource (ct_parseURL env) src c of
        Inl e \<Rightarrow>
          (case verify_sources env srcs c s of
             (errs, ready, c1) \<Rightarrow>
               (catalog_err Source (csrc_repository src @ ''-'' @ GetRefValue src) e # errs, ready, c1))
      | Inr so \<Rightarrow>
          (let rs = source_readiness env so c s
           in case verify_sources env srcs (record_readiness so rs c) s of
                (errs, ready, c1) \<Rightarrow> (errs, map (\<lambda>(_, _, r, _). r) rs @ ready, c1)))"

text \<open>The error for a condition that an earlier step of the same reconciliation would have set.\<close>

definition earlier_failure :: "catalog \<Rightarrow> go_error option" where
  "earlier_failure c =
     (case GetConditionByType (o_conditions c) ReadyCondition of
        None \<Rightarrow> None
      | Some cond \<Rightarrow>
          if c_status cond \<noteq> ConditionFalse then None
          else if c_reason cond = CatalogSourceValidationFail then Some (PlainError ''catalog source validation failed'')
          else if c_reason cond = OrphanedObjectCleanUpFail then Some (PlainError ''orphaned object cleanup failed'')
          else if c_reason cond = CatalogEmptySources then Some (PlainError ''no sources specified for catalog'')
          else None)"

definition verifyStatus ::
  "time \<Rightarrow> ('b, 's) catalog_env \<Rightarrow> catalog \<Rightarrow> catalog_error list \<Rightarrow> 's
     \<Rightarrow> (ctrl_result \<times> reconcile_result \<times> go_error option) \<times> catalog" where
  "verifyStatus now env c allErrors s =
     (case earlier_failure c of
        Some e \<Rightarrow> ((EmptyResult, Failed, Some e), c)
      | None \<Rightarrow>
          (case verify_sources env (cat_sources c) c s of
             (errs, ready, c1) \<Rightarrow>
               (let aggErr = formatCatalogErrors (allErrors @ errs)
                in if aggErr \<noteq> None \<or> list_ex (\<lambda>r. r \<noteq> ConditionTrue) ready
                   then ((EmptyResult, Failed, aggErr),
                         SetFalseCondition now ReadyCondition CatalogNotReadyReason
                           (''not all catalog objects are ready'' @ (case aggErr of None \<Rightarrow> [] | Some e \<Rightarrow> '': '' @ error_text e)) c1)
                   else ((EmptyResult, Success, None),
                         SetTrueCondition now ReadyCondition CatalogReadyReason ''all catalog objects are ready'' c1))))"

definition create_catalog ::
  "time \<Rightarrow> ('b, 's) catalog_env \<Rightarrow> catalog \<Rightarrow> 's
     \<Rightarrow> ((ctrl_result \<times> reconcile_result \<times> go_error option) \<times> catalog \<times> 's) option" where
  "create_catalog now env c0 s =
     (let c = SetUnknownCondition now c0
      in if length (cat_sources c) = 0
         then (case checkAndCleanInventory env c s of
                 (err, c1, s1) \<Rightarrow>
                   Some ((EmptyResult, Pending, None),
                         SetFalseCondition now ReadyCondition CatalogEmptySources
                           (''no sources specified for catalog, skipping reconciliation''
                            @ (case err of None \<Rightarrow> [] | Some e \<Rightarrow> '': '' @ error_text e)) c1, s1))
         else case validateSources (ct_parseURL env) c of
                Some e \<Rightarrow>
                  Some ((EmptyResult, Failed, Some e),
                        SetFalseCondition now ReadyCondition CatalogSourceValidationFail (error_text e) c, s)
              | None \<Rightarrow>
                  (case checkAndCleanInventory env c s of
                     (Some e, c1, s1) \<Rightarrow>
                       Some ((EmptyResult, Failed, Some e),
                             SetFalseCondition now ReadyCondition OrphanedObjectCleanUpFail (error_text e) c1, s1)
                   | (None, c1, s1) \<Rightarrow>
                       (case reconcile_sources env (cat_sources c1) (SetProgressingReason now c1) s1 of
                          None \<Rightarrow> None
                        | Some (errs, c2, s2) \<Rightarrow>
                            (case verifyStatus now env c2 errs s2 of (out, c3) \<Rightarrow> Some (out, c3, s2)))))"

text \<open>
  The callback, with the deferred update of the metric. After a panic, the reconciliation ends
  and nothing is written; the loop of the lifecycle is only entered with an outcome.
\<close>

definition catalog_EnsureCreated ::
  "time \<Rightarrow> ('b, 's) catalog_env \<Rightarrow> catalog \<Rightarrow> 's \<times> ready_gauge
     \<Rightarrow> ((ctrl_result \<times> reconcile_result \<times> go_error option) \<times> catalog \<times> 's \<times> ready_gauge) option" where
  "catalog_EnsureCreated now env c st =
     map_option (\<lambda>(out, c1, s1). (out, c1, s1, updateCatalogReadyMetric c1 (snd st))) (create_catalog now env c (fst st))"

section \<open>Deletion and suspension\<close>

definition catalog_EnsureDeleted ::
  "catalog \<Rightarrow> 's \<times> ready_gauge \<Rightarrow> (ctrl_result \<times> reconcile_result \<times> go_error option) \<times> catalog \<times> 's \<times> ready_gauge" where
  "catalog_EnsureDeleted c st = ((EmptyResult, Success, None), c, fst st, deleteCatalogReadyMetric c (snd st))"

definition suspend_object ::
  "('o, 's) flux_client \<Rightarrow> ('o \<Rightarrow> 'o) \<Rightarrow> namespaced_name \<Rightarrow> 's \<Rightarrow> go_error option \<times> 's" where
  "suspend_object cl f key s =
     (case fl_get cl key s of
        Inl e \<Rightarrow> if IsNotFound e then (None, s) else (Some e, s)
      | Inr obj \<Rightarrow> fl_createOrUpdate cl obj (\<lambda>x. Inr (f x)) s)"

definition suspendGitRepository :: "('b, 's) catalog_env \<Rightarrow> string \<Rightarrow> string \<Rightarrow> 's \<Rightarrow> go_error option \<times> 's" where
  "suspendGitRepository env name namespace s =
     suspend_object (ct_git env) (\<lambda>g. g\<lparr>gr_suspend := True\<rparr>) \<lparr>nn_namespace = namespace, nn_name = name\<rparr> s"

definition suspendKustomization :: "('b, 's) catalog_env \<Rightarrow> string \<Rightarrow> string \<Rightarrow> 's \<Rightarrow> go_error option \<times> 's" where
  "suspendKustomization env name namespace s =
     suspend_object (ct_kustomization env) (\<lambda>k. k\<lparr>kz_spec := (kz_spec k)\<lparr>ks_suspend := True\<rparr>\<rparr>)
       \<lparr>nn_namespace = namespace, nn_name = name\<rparr> s"

definition suspendArtifactGenerator :: "('b, 's) catalog_env \<Rightarrow> string \<Rightarrow> string \<Rightarrow> 's \<Rightarrow> go_error option \<times> 's" where
  "suspendArtifactGenerator env name namespace s =
     suspend_object (ct_generator env)
       (\<lambda>g. g\<lparr>o_annotations := smap_set (ct_reconcileAnnotation env) (ct_disabledValue env) (o_annotations g)\<rparr>)
       \<lparr>nn_namespace = namespace, nn_name = name\<rparr> s"

definition suspend_entry :: "('b, 's) catalog_env \<Rightarrow> string \<Rightarrow> source_status \<Rightarrow> 's \<Rightarrow> go_error option \<times> 's" where
  "suspend_entry env namespace st s =
     (if ss_kind st = GitRepositoryKind then suspendGitRepository env (ss_name st) namespace s
      else if ss_kind st = KustomizationKind then suspendKustomization env (ss_name st) namespace s
      else if ss_kind st = ArtifactGeneratorKind then suspendArtifactGenerator env (ss_name st) namespace s
      else if ss_kind st = ExternalArtifactKind then (None, s)
      else (Some (PlainError (''unsupported kind for suspension: '' @ ss_kind st)), s))"

fun suspend_entries :: "('b, 's) catalog_env \<Rightarrow> string \<Rightarrow> source_status list \<Rightarrow> 's \<Rightarrow> go_error list \<times> 's" where
  "suspend_entries env namespace [] s = ([], s)"
| "suspend_entries env namespace (st # sts) s =
     (case suspend_entry env namespace st s of
        (err, s1) \<Rightarrow>
          (case suspend_entries env namespace sts s1 of
             (errs, s2) \<Rightarrow> ((case err of None \<Rightarrow> errs | Some e \<Rightarrow> e # errs), s2)))"

definition catalog_EnsureSuspended ::
  "('b, 's) catalog_env \<Rightarrow> catalog \<Rightarrow> 's \<times> ready_gauge \<Rightarrow> (ctrl_result \<times> go_error option) \<times> catalog \<times> 's \<times> ready_gauge" where
  "catalog_EnsureSuspended env c st =
     (case suspend_entries env (o_namespace c) (concat (map snd (cat_inventory c))) (fst st) of
        (errs, s1) \<Rightarrow>
          ((EmptyResult, if length errs > 0 then Some (PlainError (Join (map error_text errs) ''; '')) else None),
           c, s1, snd st))"

text \<open>
  The reconciliation. A panic, which ends the call before the status is written, is reported as an error here. The
  conditioner does nothing: the condition set by the callback stays.
\<close>

definition catalog_reconciler :: "time \<Rightarrow> ('b, 's) catalog_env \<Rightarrow> (catalog, 's \<times> ready_gauge) reconciler" where
  "catalog_reconciler now env =
     \<lparr>EnsureCreated = (\<lambda>c st. case catalog_EnsureCreated now env c st of
                                Some out \<Rightarrow> out | None \<Rightarrow> ((EmptyResult, Failed, Some panic_error), c, st)),
      EnsureDeleted = catalog_EnsureDeleted, EnsureSuspended = catalog_EnsureSuspended env, CanBeSuspended = True,
      UpdateLastReconciledAtStatus = Some (\<lambda>v c. c\<lparr>cat_lastReconciledAt := v\<rparr>)\<rparr>"

definition catalog_Reconcile ::
  "time \<Rightarrow> (catalog, 's \<times> ready_gauge) client \<Rightarrow> ('b, 's) catalog_env \<Rightarrow> namespaced_name \<Rightarrow> 's \<times> ready_gauge
     \<Rightarrow> (ctrl_result \<times> go_error option) \<times> 's \<times> ready_gauge" where
  "catalog_Reconcile now cl env key st = Reconcile now cl (catalog_reconciler now env) (Some (\<lambda>c _. c)) key st"

section \<open>What the cleaning of the inventory does\<close>

definition orphaned :: "source_status list \<Rightarrow> source_status \<Rightarrow> bool" where
  "orphaned desired st \<longleftrightarrow> inventory_kind (ss_kind st) \<and> \<not> list_ex (same_object (ss_kind st) (ss_name st)) desired"

definition run_deletions :: "('b, 's) catalog_env \<Rightarrow> string \<Rightarrow> source_status list \<Rightarrow> 's \<Rightarrow> 's" where
  "run_deletions env ns ds s = fold (\<lambda>st s. snd (delete_orphan env ns st s)) ds s"

lemma run_deletions_simps [simp]:
  "run_deletions env ns [] s = s"
  "run_deletions env ns (st # ds) s = run_deletions env ns ds (snd (delete_orphan env ns st s))"
  "run_deletions env ns (ds @ es) s = run_deletions env ns es (run_deletions env ns ds s)"
  by (simp_all add: run_deletions_def)

lemma not_orphaned_zero [simp]: "\<not> orphaned desired zero_status"
  by (simp add: orphaned_def zero_status_def inventory_kind_def flux_kinds)

lemma distinct_ids_eq:
  "distinct (object_ids xs) \<Longrightarrow> x \<in> set xs \<Longrightarrow> y \<in> set xs \<Longrightarrow> same_object (ss_kind x) (ss_name x) y \<longleftrightarrow> y = x"
  unfolding object_ids_def same_object_def by (metis (mono_tags, lifting) distinct_map inj_on_eq_iff prod.inject)

lemma distinct_ids_filter: "distinct (object_ids xs) \<Longrightarrow> distinct (object_ids (filter P xs))"
  by (simp add: object_ids_def distinct_map_filter)

lemma clean_entries_trace:
  assumes "clean_entries env ns desired is (xs @ replicate k zero_status) (length xs) s = (err, sts, s')"
    and "distinct (object_ids xs)" and "\<forall>i \<in> set is. i < length xs + k"
  shows "\<exists>ds. set ds \<subseteq> {st \<in> set xs. orphaned desired st} \<and> sts = filter (\<lambda>st. st \<notin> set ds) xs \<and>
    (err = None \<longrightarrow> s' = run_deletions env ns ds s) \<and> (err \<noteq> None \<longrightarrow> sts \<noteq> []) \<and>
    (err = None \<and> (\<exists>i \<in> set is. orphaned desired ((xs @ replicate k zero_status) ! i)) \<longrightarrow> ds \<noteq> [])"
  using assms
proof (induction "is" arbitrary: xs k s)
  case Nil
  then show ?case by (auto intro!: exI [of _ "[]"])
next
  case (Cons i "is")
  let ?st = "(xs @ replicate k zero_status) ! i"
  show ?case
  proof (cases "orphaned desired ?st")
    case False
    then have "clean_entries env ns desired is (xs @ replicate k zero_status) (length xs) s = (err, sts, s')"
      using Cons.prems(1) by (auto simp: Let_def orphaned_def split: if_splits)
    from Cons.IH [OF this Cons.prems(2)] Cons.prems(3) False show ?thesis by simp
  next
    case True
    then have i: "i < length xs" "?st = xs ! i" using Cons.prems(3) by (auto simp: nth_append split: if_splits)
    let ?kept = "filter (\<lambda>st. st \<noteq> xs ! i) xs"
    have mem: "xs ! i \<in> set xs" using i(1) by simp
    have kept: "DeleteFunc xs (same_object (ss_kind (xs ! i)) (ss_name (xs ! i))) = ?kept"
      unfolding DeleteFunc_def using distinct_ids_eq [OF Cons.prems(2) mem] by (intro filter_cong) auto
    obtain r s1 where del: "delete_orphan env ns (xs ! i) s = (r, s1)" by (rule prod.exhaust)
    show ?thesis
    proof (cases r)
      case (Some e)
      with Cons.prems(1) True i del have "err = Some e" "sts = xs" by (auto simp: Let_def orphaned_def)
      with mem show ?thesis by (auto intro!: exI [of _ "[]"])
    next
      case None
      have len: "length ?kept \<le> length xs" by simp
      have arr: "clean_entries env ns desired is (?kept @ replicate (length xs - length ?kept + k) zero_status) (length ?kept) s1 = (err, sts, s')"
        unfolding replicate_add using Cons.prems(1) True i del None kept by (simp add: Let_def orphaned_def)
      obtain ds where ds: "set ds \<subseteq> {st \<in> set ?kept. orphaned desired st}" "sts = filter (\<lambda>st. st \<notin> set ds) ?kept"
        "err = None \<longrightarrow> s' = run_deletions env ns ds s1" "err \<noteq> None \<longrightarrow> sts \<noteq> []"
        using Cons.IH [OF arr distinct_ids_filter [OF Cons.prems(2)]] Cons.prems(3) len by auto
      have "set (xs ! i # ds) \<subseteq> {st \<in> set xs. orphaned desired st}" using ds(1) True i mem by auto
      moreover have "sts = filter (\<lambda>st. st \<notin> set (xs ! i # ds)) xs" unfolding ds(2) by (auto intro: filter_cong)
      ultimately show ?thesis using ds(3,4) del by (intro exI [of _ "xs ! i # ds"]) simp
    qed
  qed
qed

lemma clean_source_trace:
  assumes "clean_source env ns xs desired s = (err, sts, s')" and "distinct (object_ids xs)"
  obtains ds where "set ds \<subseteq> {st \<in> set xs. orphaned desired st}" "sts = filter (\<lambda>st. st \<notin> set ds) xs"
    "err = None \<Longrightarrow> s' = run_deletions env ns ds s" "err \<noteq> None \<Longrightarrow> sts \<noteq> []"
    "err = None \<Longrightarrow> ct_cmpDiff env xs desired \<noteq> [] \<Longrightarrow> \<exists>st \<in> set xs. orphaned desired st \<Longrightarrow> ds \<noteq> []"
proof (cases "ct_cmpDiff env xs desired = []")
  case True
  then have "err = None" "sts = xs" "s' = s" using assms(1) by (simp_all add: clean_source_def)
  then show ?thesis by (intro that [of "[]"]) (use True in simp_all)
next
  case False
  then have run: "clean_entries env ns desired [0..<length xs] (xs @ replicate 0 zero_status) (length xs) s = (err, sts, s')"
    using assms(1) by (simp add: clean_source_def)
  have ex: "\<exists>i \<in> set [0..<length xs]. orphaned desired ((xs @ replicate 0 zero_status) ! i)"
    if "\<exists>st \<in> set xs. orphaned desired st"
    using that by (force simp: in_set_conv_nth)
  have lt: "\<forall>i \<in> set [0..<length xs]. i < length xs + 0" by simp
  from clean_entries_trace [OF run assms(2) lt] obtain ds where ds: "set ds \<subseteq> {st \<in> set xs. orphaned desired st}"
    "sts = filter (\<lambda>st. st \<notin> set ds) xs" "err = None \<longrightarrow> s' = run_deletions env ns ds s" "err \<noteq> None \<longrightarrow> sts \<noteq> []"
    "err = None \<and> (\<exists>i \<in> set [0..<length xs]. orphaned desired ((xs @ replicate 0 zero_status) ! i)) \<longrightarrow> ds \<noteq> []"
    by (elim exE conjE)
  show ?thesis by (rule that [OF ds(1,2)]) (use ds(3-5) ex in blast)+
qed


definition cmp_law :: "('b, 's) catalog_env \<Rightarrow> bool" where
  "cmp_law env \<longleftrightarrow> (\<forall>xs ys. ct_cmpDiff env xs ys = [] \<longrightarrow> mset xs = mset ys)"

definition deletions_succeed :: "('b, 's) catalog_env \<Rightarrow> string \<Rightarrow> bool" where
  "deletions_succeed env ns \<longleftrightarrow> (\<forall>st s. fst (delete_orphan env ns st s) = None)"






definition recorded :: "string \<Rightarrow> string \<Rightarrow> source_status" where
  "recorded kind name = \<lparr>ss_kind = kind, ss_name = name, ss_ready = Some ConditionTrue, ss_message = ''ok''\<rparr>"

definition recorded_source :: "source_status list" where
  "recorded_source =
     [recorded GitRepositoryKind ''repository-1'', recorded ArtifactGeneratorKind ''generator-1'',
      recorded ExternalArtifactKind ''artifact-1'', recorded KustomizationKind ''kustomize-1'']"

definition no_artifacts :: "'s artifactory" where
  "no_artifacts = \<lparr>af_get = (\<lambda>_ _ _ _. Inl (PlainError ''none'')), af_save = (\<lambda>_ _ _ s. (None, s)), af_deleteAllExcept = (\<lambda>_ _ s. (None, s))\<rparr>"

lemma empty_env_laws: "cmp_law (empty_env af)" "deletions_succeed (empty_env af) ns"
  by (auto simp: cmp_law_def deletions_succeed_def empty_env_def delete_orphan_def deleteOrphanedResource_def empty_client_def
      Let_def split: if_splits)


text \<open>
  One reconciliation is not enough, although the loop visits the entries in order: removing an entry moves the
  following ones to the front of the array that is being traversed, so every second one is skipped. Of the four
  objects of a removed source, only the GitRepository is deleted; the ArtifactGenerator and the Kustomization stay.
\<close>

theorem cleanup_skips_entries:
  assumes del: "deletions_succeed env ns"
    and kinds: "ss_kind git = GitRepositoryKind" "ss_kind gen = ArtifactGeneratorKind" "ss_kind ext = ExternalArtifactKind"
      "ss_kind kus = KustomizationKind"
    and diff: "ct_cmpDiff env [git, gen, ext, kus] [] \<noteq> []"
  shows "clean_source env ns [git, gen, ext, kus] [] s = (None, [gen, kus], snd (delete_orphan env ns git s))"
proof -
  obtain s1 where git: "delete_orphan env ns git s = (None, s1)"
    using del by (metis deletions_succeed_def prod.collapse)
  have ext: "delete_orphan env ns ext s1 = (None, s1)" by (simp add: delete_orphan_def kinds flux_kinds)
  have ids: "git \<noteq> gen" "git \<noteq> ext" "git \<noteq> kus" "gen \<noteq> ext" "gen \<noteq> kus" "ext \<noteq> kus"
    using kinds by (auto simp: flux_kinds)
  show ?thesis
    using diff git ext
    by (simp add: clean_source_def upt_rec numeral_nat Let_def kinds same_object_def inventory_kind_def DeleteFunc_def
        zero_status_def flux_kinds)
qed

theorem cleanup_skips_entries_witness:
  "fst (snd (clean_source (empty_env no_artifacts) ''org'' recorded_source [] ())) =
     [recorded ArtifactGeneratorKind ''generator-1'', recorded KustomizationKind ''kustomize-1'']"
proof -
  have "ct_cmpDiff (empty_env no_artifacts :: (unit, unit) catalog_env) recorded_source [] \<noteq> []"
    by (simp add: empty_env_def recorded_source_def)
  from cleanup_skips_entries [OF empty_env_laws(2) _ _ _ _ this [unfolded recorded_source_def], of "''org''" "()"]
  show ?thesis by (simp add: recorded_source_def recorded_def)
qed

section \<open>The inventory stays well-formed\<close>

lemma inventory_ok_set:
  assumes "inventory_ok iv" "sts \<noteq> []" "distinct (object_ids sts)"
  shows "inventory_ok (smap_set h sts iv)"
  using assms inventory_okD [OF assms(1)]
  by (intro inventory_okI) (auto simp: sm.get_upd sm.invar_upd inventory_ok_def split: if_splits)

lemma inventory_ok_del: "inventory_ok iv \<Longrightarrow> inventory_ok (smap_del h iv)"
  using inventory_okD [of iv]
  by (intro inventory_okI) (auto simp: sm.get_del sm.invar_del inventory_ok_def split: if_splits)

lemma clean_sources_ok:
  assumes "clean_sources env ns d todo iv s = (err, iv', s')" "inventory_ok iv"
    and "\<forall>(h, sts) \<in> set todo. distinct (object_ids sts)"
  shows "inventory_ok iv'"
  using assms
proof (induction todo arbitrary: iv s)
  case (Cons e todo)
  obtain h xs where e: "e = (h, xs)" by (rule prod.exhaust)
  obtain r sts s1 where run: "clean_source env ns xs (desired_list d h) s = (r, sts, s1)" by (metis prod.exhaust)
  have dist: "distinct (object_ids xs)" using Cons.prems(3) e by simp
  obtain P where sts: "sts = filter P xs" "r \<noteq> None \<Longrightarrow> sts \<noteq> []"
    using run dist by (rule clean_source_trace) blast
  have ok: "distinct (object_ids sts)" using dist by (simp add: sts(1) distinct_ids_filter)
  show ?case
  proof (cases r)
    case (Some err')
    then show ?thesis
      using Cons.prems run e inventory_ok_set [OF Cons.prems(2) sts(2) ok, of h] by auto
  next
    case None
    have "inventory_ok (if length sts = 0 then smap_del h iv else smap_set h sts iv)"
      using inventory_ok_set [OF Cons.prems(2) _ ok, of h] inventory_ok_del [OF Cons.prems(2), of h] by auto
    from Cons.IH [OF _ this] Cons.prems(1,3) run e None show ?thesis by auto
  qed
qed simp

lemma checkAndCleanInventory_ok:
  assumes "checkAndCleanInventory env c s = (err, c', s')" "inventory_ok (cat_inventory c)"
  shows "inventory_ok (cat_inventory c')"
proof -
  have "\<forall>(h, sts) \<in> set (cat_inventory c). distinct (object_ids sts)" using assms(2) by (auto simp: inventory_ok_def)
  then show ?thesis
    using assms clean_sources_ok [OF _ assms(2)]
    by (auto simp: checkAndCleanInventory_def simp del: split_paired_All split: if_splits sum.splits prod.splits
        dest: clean_sources_ok [OF _ assms(2)])
qed

text \<open>What the steps of a reconciliation leave alone.\<close>

definition same_meta :: "catalog \<Rightarrow> catalog \<Rightarrow> bool" where
  "same_meta c c' \<longleftrightarrow> o_name c' = o_name c \<and> o_namespace c' = o_namespace c \<and> o_labels c' = o_labels c \<and>
     o_annotations c' = o_annotations c \<and> cat_sources c' = cat_sources c"

lemma same_meta_trans: "same_meta a b \<Longrightarrow> same_meta b c \<Longrightarrow> same_meta a c"
  by (simp add: same_meta_def)

lemma same_meta_refl [simp]: "same_meta c c"
  by (simp add: same_meta_def)

lemma same_meta_source: "same_meta c c' \<Longrightarrow> newCatalogSource parse src c' = newCatalogSource parse src c"
  by (rule newCatalogSource_cong) (simp_all add: same_meta_def)

lemma setInventory_keeps [simp]:
  "same_meta c (setInventory so kind name msg ready c)"
  "o_conditions (setInventory so kind name msg ready c) = o_conditions c"
  "inventory_ok (cat_inventory c) \<Longrightarrow> inventory_ok (cat_inventory (setInventory so kind name msg ready c))"
  by (simp_all add: setInventory_def same_meta_def SetInventory_ok)

lemma record_readiness_keeps:
  "same_meta c (record_readiness so rs c) \<and> o_conditions (record_readiness so rs c) = o_conditions c \<and>
   (inventory_ok (cat_inventory c) \<longrightarrow> inventory_ok (cat_inventory (record_readiness so rs c)))"
proof (induction rs arbitrary: c)
  case (Cons r rs)
  obtain kind name ready msg where r: "r = (kind, name, ready, msg)" by (metis prod.exhaust)
  have "record_readiness so (r # rs) c = record_readiness so rs (setInventory so kind name msg ready c)"
    by (simp add: record_readiness_def r)
  with Cons.IH [of "setInventory so kind name msg ready c"] show ?case
    using same_meta_trans [OF setInventory_keeps(1), of so kind name msg ready c] by auto
qed (simp add: record_readiness_def)

lemma catalog_SetCondition_keeps [simp]:
  "same_meta c (SetCondition now cond c)" "cat_inventory (SetCondition now cond c) = cat_inventory c"
  by (simp_all add: same_meta_def SetCondition_def)

lemma SetProgressingReason_keeps [simp]:
  "same_meta c (SetProgressingReason now c)" "cat_inventory (SetProgressingReason now c) = cat_inventory c"
  by (simp_all add: SetProgressingReason_def split: option.split)

lemma SetUnknownCondition_keeps [simp]:
  "same_meta c (SetUnknownCondition now c)" "cat_inventory (SetUnknownCondition now c) = cat_inventory c"
  by (simp_all add: SetUnknownCondition_def)

lemma checkAndCleanInventory_keeps:
  "checkAndCleanInventory env c s = (err, c', s') \<Longrightarrow> same_meta c c' \<and> o_conditions c' = o_conditions c"
  by (auto simp: checkAndCleanInventory_def same_meta_def split: if_splits sum.splits prod.splits)

lemma reconcile_source_keeps:
  assumes "reconcile_source env src c s = Some (err, c', s')"
  shows "same_meta c c' \<and> o_conditions c' = o_conditions c \<and> (inventory_ok (cat_inventory c) \<longrightarrow> inventory_ok (cat_inventory c'))"
  using assms
  by (auto simp: reconcile_source_def Let_def split: sum.splits prod.splits option.splits if_splits condition_status.splits)

lemma reconcile_sources_keeps:
  "reconcile_sources env srcs c s = Some (errs, c', s') \<Longrightarrow>
     same_meta c c' \<and> o_conditions c' = o_conditions c \<and> (inventory_ok (cat_inventory c) \<longrightarrow> inventory_ok (cat_inventory c'))"
proof (induction srcs arbitrary: c s errs)
  case (Cons src srcs)
  then obtain err c1 s1 errs1 where one: "reconcile_source env src c s = Some (err, c1, s1)"
    and rest: "reconcile_sources env srcs c1 s1 = Some (errs1, c', s')"
    by (auto split: option.splits prod.splits)
  from reconcile_source_keeps [OF one] Cons.IH [OF rest] show ?case
    using same_meta_trans [of c c1 c'] by auto
qed simp


section \<open>Readiness of a catalog\<close>

definition source_ready :: "('b, 's) catalog_env \<Rightarrow> catalog \<Rightarrow> 's \<Rightarrow> catalog_source \<Rightarrow> bool" where
  "source_ready env c s src \<longleftrightarrow>
     (\<exists>so. newCatalogSource (ct_parseURL env) src c = Inr so \<and>
        list_all (\<lambda>(_, _, r, _). r = ConditionTrue) (source_readiness env so c s))"

lemma source_readiness_cong: "same_meta c c' \<Longrightarrow> source_readiness env so c' s = source_readiness env so c s"
  by (simp add: source_readiness_def same_meta_def in_namespace_def)

lemma verify_sources_outcome:
  assumes "verify_sources env srcs c' s = (errs, ready, c1)" and "same_meta c c'"
  shows "same_meta c c1 \<and> o_conditions c1 = o_conditions c' \<and>
    (inventory_ok (cat_inventory c') \<longrightarrow> inventory_ok (cat_inventory c1)) \<and>
    (errs = [] \<and> list_all (\<lambda>r. r = ConditionTrue) ready \<longleftrightarrow> (\<forall>src \<in> set srcs. source_ready env c s src))"
  using assms
proof (induction srcs arbitrary: c' errs ready)
  case (Cons src srcs)
  show ?case
  proof (cases "newCatalogSource (ct_parseURL env) src c'")
    case (Inl e)
    then have "\<not> source_ready env c s src"
      using same_meta_source [OF Cons.prems(2)] by (simp add: source_ready_def)
    moreover obtain errs' where "verify_sources env srcs c' s = (errs', ready, c1)" "errs \<noteq> []"
      using Cons.prems(1) Inl by (auto split: prod.splits)
    ultimately show ?thesis using Cons.IH [OF _ Cons.prems(2)] by auto
  next
    case (Inr so)
    define rs where "rs = source_readiness env so c' s"
    obtain ready' where rest: "verify_sources env srcs (record_readiness so rs c') s = (errs, ready', c1)"
      and ready: "ready = map (\<lambda>(_, _, r, _). r) rs @ ready'"
      using Cons.prems(1) Inr by (auto simp: rs_def [symmetric] Let_def split: prod.splits)
    note keeps = record_readiness_keeps [of c' so rs]
    have "same_meta c (record_readiness so rs c')" using keeps same_meta_trans [OF Cons.prems(2)] by blast
    note IH = Cons.IH [OF rest this]
    have so: "newCatalogSource (ct_parseURL env) src c = Inr so"
      using same_meta_source [OF Cons.prems(2), of "ct_parseURL env" src] Inr by simp
    have "source_ready env c s src \<longleftrightarrow> list_all (\<lambda>r. r = ConditionTrue) (map (\<lambda>(_, _, r, _). r) rs)"
      using source_readiness_cong [OF Cons.prems(2), of env so s]
      by (simp add: source_ready_def so rs_def list_all_iff split_beta)
    with IH keeps show ?thesis by (auto simp: ready)
  qed
qed simp

lemma earlier_failure_progressing: "earlier_failure (SetProgressingReason now c) = None"
proof -
  have "\<exists>d. GetConditionByType (o_conditions (SetProgressingReason now c)) ReadyCondition = Some d \<and> c_reason d = CatalogProgressingReason"
  proof (cases "GetConditionByType (o_conditions c) ReadyCondition")
    case None
    then show ?thesis
      using ro.get_set_status [of now "UnknownCondition now ReadyCondition CatalogProgressingReason ''Catalog reconciliation in progress''" c]
      by (auto simp: SetProgressingReason_def GetCondition_def GetConditions_def condition_constructors)
  next
    case (Some cond)
    then have "c_type cond = ReadyCondition" by (blast dest: GetConditionByType_SomeD)
    with Some show ?thesis
      using ro.get_set_status [of now "cond\<lparr>c_reason := CatalogProgressingReason\<rparr>" c]
      by (auto simp: SetProgressingReason_def GetCondition_def GetConditions_def)
  qed
  then show ?thesis by (auto simp: earlier_failure_def catalog_reasons)
qed

lemma earlier_failure_cong: "o_conditions c = o_conditions c' \<Longrightarrow> earlier_failure c = earlier_failure c'"
  by (simp add: earlier_failure_def)

lemma formatCatalogErrors_None [simp]: "formatCatalogErrors errs = None \<longleftrightarrow> errs = []"
  by (simp add: formatCatalogErrors_def)

definition shown_ready :: "catalog \<Rightarrow> condition_status option" where
  "shown_ready c = shown_status (o_conditions c) ReadyCondition"

lemma shown_ready_set [simp]:
  "shown_ready (SetTrueCondition now ReadyCondition r m c) = Some ConditionTrue"
  "shown_ready (SetFalseCondition now ReadyCondition r m c) = Some ConditionFalse"
  by (simp_all add: shown_ready_def SetTrueCondition_def SetFalseCondition_def cond_simps condition_constructors)

lemma set_conditions_keep [simp]:
  "same_meta c (SetTrueCondition now t r m c)" "cat_inventory (SetTrueCondition now t r m c) = cat_inventory c"
  "same_meta c (SetFalseCondition now t r m c)" "cat_inventory (SetFalseCondition now t r m c) = cat_inventory c"
  by (simp_all add: SetTrueCondition_def SetFalseCondition_def)

lemma verifyStatus_outcome:
  assumes "verifyStatus now env c errs s = ((r, res, err), c')" and "earlier_failure c = None"
  shows "same_meta c c' \<and> (inventory_ok (cat_inventory c) \<longrightarrow> inventory_ok (cat_inventory c')) \<and>
    (res = Success \<longleftrightarrow> errs = [] \<and> (\<forall>src \<in> set (cat_sources c). source_ready env c s src)) \<and>
    (res = Success \<longrightarrow> err = None) \<and>
    shown_ready c' = Some (if res = Success then ConditionTrue else ConditionFalse)"
proof -
  obtain errs1 ready c1 where v: "verify_sources env (cat_sources c) c s = (errs1, ready, c1)" by (metis prod.exhaust)
  note out = verify_sources_outcome [OF v same_meta_refl]
  let ?bad = "formatCatalogErrors (errs @ errs1) \<noteq> None \<or> list_ex (\<lambda>r. r \<noteq> ConditionTrue) ready"
  have good: "errs = [] \<and> (\<forall>src \<in> set (cat_sources c). source_ready env c s src) \<longleftrightarrow> \<not> ?bad"
    using out by (auto simp: list_all_iff list_ex_iff)
  show ?thesis
  proof (cases ?bad)
    case True
    obtain m where "res = Failed" "c' = SetFalseCondition now ReadyCondition CatalogNotReadyReason m c1"
      using assms v True
      by (auto simp: verifyStatus_def Let_def simp del: formatCatalogErrors_None not_None_eq split: if_splits)
    with True good out same_meta_trans [OF _ set_conditions_keep(3)] show ?thesis by simp
  next
    case False
    have "res = Success" "err = None" "c' = SetTrueCondition now ReadyCondition CatalogReadyReason ''all catalog objects are ready'' c1"
      using assms v False
      by (auto simp: verifyStatus_def Let_def simp del: formatCatalogErrors_None not_None_eq split: if_splits)
    with False good out same_meta_trans [OF _ set_conditions_keep(1)] show ?thesis by simp
  qed
qed


lemma create_catalog_outcome:
  assumes run: "create_catalog now env c s = Some ((r, res, err), c', s')"
  shows "same_meta c c' \<and> (inventory_ok (cat_inventory c) \<longrightarrow> inventory_ok (cat_inventory c')) \<and>
    (res = Success \<longrightarrow> err = None \<and> cat_sources c \<noteq> [] \<and> validateSources (ct_parseURL env) (SetUnknownCondition now c) = None \<and>
       (\<forall>src \<in> set (cat_sources c). source_ready env c s' src)) \<and>
    shown_ready c' = Some (if res = Success then ConditionTrue else ConditionFalse)"
proof -
  define c0 where "c0 = SetUnknownCondition now c"
  have c0: "same_meta c c0" "cat_inventory c0 = cat_inventory c" by (simp_all add: c0_def)
  have srcs: "cat_sources c0 = cat_sources c" using c0(1) by (simp add: same_meta_def)
  obtain e1 c1 s1 where clean: "checkAndCleanInventory env c0 s = (e1, c1, s1)" by (metis prod.exhaust)
  have c1: "same_meta c c1" "inventory_ok (cat_inventory c) \<longrightarrow> inventory_ok (cat_inventory c1)"
    using checkAndCleanInventory_keeps [OF clean] checkAndCleanInventory_ok [OF clean] c0 same_meta_trans by auto
  note run = run [unfolded create_catalog_def c0_def [symmetric] Let_def clean srcs]
  show ?thesis
  proof (cases "cat_sources c = []")
    case True
    then show ?thesis
      using run c1 same_meta_trans [OF c1(1) set_conditions_keep(3)] by auto
  next
    case False
    note srcs_ne = this
    show ?thesis
    proof (cases "validateSources (ct_parseURL env) c0")
      case (Some e)
      then show ?thesis
        using run srcs_ne c0 same_meta_trans [OF c0(1) set_conditions_keep(3)] by auto
    next
      case None
      show ?thesis
      proof (cases e1)
        case (Some e)
        then show ?thesis
          using run srcs_ne None c1 same_meta_trans [OF c1(1) set_conditions_keep(3)] by auto
      next
        case e1: None
        obtain errs c2 where rec: "reconcile_sources env (cat_sources c1) (SetProgressingReason now c1) s1 = Some (errs, c2, s')"
          and ver: "verifyStatus now env c2 errs s' = ((r, res, err), c')"
          using run srcs_ne None e1 by (auto split: option.splits prod.splits)
        note keeps = reconcile_sources_keeps [OF rec]
        have c2: "same_meta c c2" "inventory_ok (cat_inventory c) \<longrightarrow> inventory_ok (cat_inventory c2)"
          using keeps c1 same_meta_trans [OF same_meta_trans [OF c1(1) SetProgressingReason_keeps(1)]] by auto
        have "earlier_failure c2 = None"
          using keeps earlier_failure_cong [of c2 "SetProgressingReason now c1"] by (simp add: earlier_failure_progressing)
        note out = verifyStatus_outcome [OF ver this]
        have "source_ready env c2 s' src \<longleftrightarrow> source_ready env c s' src" for src
          by (simp add: source_ready_def same_meta_source [OF c2(1)] source_readiness_cong [OF c2(1)])
        moreover have "cat_sources c2 = cat_sources c" using c2(1) by (simp add: same_meta_def)
        ultimately show ?thesis
          using out c2 None srcs_ne same_meta_trans [OF c2(1)] by (simp add: c0_def)
      qed
    qed
  qed
qed

text \<open>
  C29. The inventory of a catalog is well-formed at all times: every group of a source has an entry, and no object is listed
  twice in a group. Every reconciliation keeps this, however it ends, including the loop that removes entries from
  the slice it ranges over.
\<close>

theorem inventory_wellformed:
  assumes "inventory_ok (cat_inventory c)" and "create_catalog now env c s = Some (out, c', s')"
  shows "inventory_ok (cat_inventory c')"
proof -
  obtain r res err where "out = (r, res, err)" by (metis prod.exhaust)
  with create_catalog_outcome [of now env c s r res err c' s'] assms show ?thesis by blast
qed

definition removed_source :: catalog where
  "removed_source = sample_catalog [] [(''g-1'', recorded_source)]"

theorem inventory_wellformed_witness:
  "\<exists>out c'. create_catalog 1 (empty_env no_artifacts) removed_source () = Some (out, c', ()) \<and>
     inventory_ok (cat_inventory c') \<and>
     cat_inventory c' = [(''g-1'', [recorded ArtifactGeneratorKind ''generator-1'', recorded KustomizationKind ''kustomize-1''])]"
proof -
  have "inventory_ok (cat_inventory removed_source)"
    by (simp add: inventory_ok_def removed_source_def sample_catalog_def recorded_source_def recorded_def object_ids_def
        flux_kinds smap_ok_def)
  moreover obtain out c' where run: "create_catalog 1 (empty_env no_artifacts) removed_source () = Some (out, c', ())"
    and iv: "cat_inventory c' = [(''g-1'', [recorded ArtifactGeneratorKind ''generator-1'', recorded KustomizationKind ''kustomize-1''])]"
  proof -
    have "map_option (\<lambda>(_, c', _). cat_inventory c') (create_catalog 1 (empty_env no_artifacts) removed_source ()) =
        Some [(''g-1'', [recorded ArtifactGeneratorKind ''generator-1'', recorded KustomizationKind ''kustomize-1''])]"
      by code_simp
    then show ?thesis using that by (auto simp: map_option_case split: option.splits prod.splits)
  qed
  ultimately show ?thesis using inventory_wellformed [of removed_source 1 "empty_env no_artifacts" "()"] by blast
qed







section \<open>The metric of a catalog\<close>

definition catalog_series :: "catalog \<Rightarrow> ready_gauge \<Rightarrow> ready_gauge" where
  "catalog_series c g = filter (\<lambda>(ls, _). \<exists>r \<in> set all_reasons. ls = ready_labels c r) g"

lemma fold_delete_labels:
  "fold (\<lambda>r. DeleteLabelValues (ready_labels c r)) rs g = filter (\<lambda>(ls, _). \<forall>r \<in> set rs. ls \<noteq> ready_labels c r) g"
  by (induction rs arbitrary: g) (auto simp: DeleteLabelValues_def intro: filter_cong)

lemma fold_delete_other:
  "fold (\<lambda>r g. if r \<noteq> reason then DeleteLabelValues (ready_labels c r) g else g) rs g =
     filter (\<lambda>(ls, _). \<forall>r \<in> set rs. r \<noteq> reason \<longrightarrow> ls \<noteq> ready_labels c r) g"
  by (induction rs arbitrary: g) (auto simp: DeleteLabelValues_def intro: filter_cong)

lemma determineReason_in: "determineReason c \<in> set all_reasons" "ReasonOK \<in> set all_reasons"
  by (simp_all add: determineReason_def all_reasons_def Let_def)

text \<open>One series per catalog and owner; its value tells whether the catalog is ready. All are gone after its deletion.\<close>

lemma catalog_series_single:
  "\<exists>reason. catalog_series c (updateCatalogReadyMetric c g) = [(ready_labels c reason, if shown_ready c = Some ConditionTrue then 1 else 0)]"
proof -
  let ?ready = "shown_ready c = Some ConditionTrue"
  have ready: "(case GetConditionByType (o_conditions c) ReadyCondition of None \<Rightarrow> False | Some cond \<Rightarrow> c_status cond = ConditionTrue) = ?ready"
    by (auto simp: shown_ready_def shown_status_def split: option.split)
  define reason where "reason = (if ?ready then ReasonOK else determineReason c)"
  have reason: "reason \<in> set all_reasons" by (simp add: reason_def determineReason_in)
  have "updateCatalogReadyMetric c g = filter (\<lambda>(ls, _). ls \<noteq> ready_labels c reason \<and> (\<forall>r \<in> set all_reasons. r \<noteq> reason \<longrightarrow> ls \<noteq> ready_labels c r)) g
      @ [(ready_labels c reason, if ?ready then 1 else 0)]"
    unfolding updateCatalogReadyMetric_def Let_def ready reason_def [symmetric] fold_delete_other
    by (auto simp: DeleteLabelValues_def intro!: filter_cong)
  then have "catalog_series c (updateCatalogReadyMetric c g) = [(ready_labels c reason, if ?ready then 1 else 0)]"
    using reason by (auto simp: catalog_series_def filter_empty_conv)
  then show ?thesis by blast
qed

lemma catalog_series_deleted: "catalog_series c (deleteCatalogReadyMetric c g) = []"
  by (auto simp: catalog_series_def deleteCatalogReadyMetric_def fold_delete_labels filter_empty_conv)

text \<open>A series under an earlier owner of the catalog is neither updated nor deleted.\<close>

lemma owner_change_leaves_catalog_series:
  assumes "smap_val (o_labels c) LabelKeyOwnedBy \<noteq> owner" and "([o_name c, o_namespace c, owner, r], v) \<in> set g"
  shows "([o_name c, o_namespace c, owner, r], v) \<in> set (updateCatalogReadyMetric c g)"
    and "([o_name c, o_namespace c, owner, r], v) \<in> set (deleteCatalogReadyMetric c g)"
  using assms unfolding updateCatalogReadyMetric_def deleteCatalogReadyMetric_def fold_delete_other fold_delete_labels Let_def
  by (auto simp: DeleteLabelValues_def ready_labels_def)

section \<open>The Kustomization that is written\<close>

lemma kustomization_written:
  assumes "mutate_kustomization env so c (WithPatches all_patches (kustomization_builder env so c ext patches)) k = Inr k'"
  shows "cn_kind (ks_sourceRef (kz_spec k')) \<noteq> []" "cn_name (ks_sourceRef (kz_spec k')) = o_name ext"
    "ks_path (kz_spec k') = ''catalogs''" "ks_targetNamespace (kz_spec k') = o_namespace c"
    "ks_serviceAccountName (kz_spec k') = o_namespace c @ ''-catalog-sa''" "\<not> ks_suspend (kz_spec k')"
    "ks_commonLabels (kz_spec k') = Some (so_commonLabels so)"
    "ks_patches (kz_spec k') = (if all_patches = [] then patches else all_patches)"
  using assms
  by (auto simp: mutate_kustomization_def kustomize_Build_def kustomization_builder_def SetControllerReference_def
      EnsureAnnotation_def WithPatches_def WithSourceRef_def WithCommonLabels_def WithServiceAccountName_def WithPath_def
      kustomize_WithTargetNamespace_def kustomize_WithSuspend_def NewKustomizationSpecBuilder_def artifactToDir_def
      OrgCatalogServiceAccountName_def split: if_splits sum.splits)

text \<open>An ExternalArtifact that is ready but has no artifact makes the reconciliation panic when options are overridden.\<close>

lemma missing_artifact_panics:
  "hasOptionOverrides so \<Longrightarrow> ea_artifact ext = None \<Longrightarrow> reconcileKustomization env so c ext s = None"
  by (simp add: reconcileKustomization_def fetchArtifact_def)

end
