(* ===== verification/Scim.thy ===== *)
theory Scim
  imports Webhook_Core Client_Getter Base64 Propagation "HOL-Library.List_Lexorder" "HOL-Library.Char_ord"
begin

text \<open>
  The SCIM client (\<open>internal/scim/scim_client.go\<close>, \<open>scim_types.go\<close>, \<open>internal/util/scim_config.go\<close>): users and
  groups of an identity provider, read page by page. URLs and the HTTP client are parameters (\<open>scim_http\<close>);
  query strings, headers, basic authentication and the decoding of the answers are definitions. A client is
  the base URL and its transport; the transports of the code set one header and call the next one. Reading all
  pages is a loop that ends only when the server says so, hence a \<open>partial_function\<close>: \<open>None\<close> means that it does
  not return.
\<close>

section \<open>Filters and attributes\<close>

record scim_filter =
  sf_expression :: string

definition newFilter :: "string \<Rightarrow> string \<Rightarrow> string \<Rightarrow> scim_filter" where
  "newFilter attribute operator value =
     \<lparr>sf_expression = attribute @ '' '' @ operator @ '' '' @ [CHR 0x22] @ value @ [CHR 0x22]\<rparr>"

definition Filter_String :: "scim_filter \<Rightarrow> string" where
  "Filter_String f = sf_expression f"

definition GroupFilterByDisplayName :: "string \<Rightarrow> scim_filter" where
  "GroupFilterByDisplayName displayName = newFilter ''displayName'' ''eq'' displayName"

definition UserFilterByGroupDisplayName :: "string \<Rightarrow> scim_filter" where
  "UserFilterByGroupDisplayName displayName = newFilter ''groups.display'' ''eq'' displayName"

record scim_attribute =
  sa_attribute :: string

definition AttrName :: scim_attribute where "AttrName = \<lparr>sa_attribute = ''name''\<rparr>"
definition AttrEmails :: scim_attribute where "AttrEmails = \<lparr>sa_attribute = ''emails''\<rparr>"
definition AttrDisplayName :: scim_attribute where "AttrDisplayName = \<lparr>sa_attribute = ''displayName''\<rparr>"
definition AttrActive :: scim_attribute where "AttrActive = \<lparr>sa_attribute = ''active''\<rparr>"
definition AttrMembers :: scim_attribute where "AttrMembers = \<lparr>sa_attribute = ''members''\<rparr>"

definition AttrCustom :: "string \<Rightarrow> scim_attribute" where
  "AttrCustom name = \<lparr>sa_attribute = name\<rparr>"

definition Attribute_String :: "scim_attribute \<Rightarrow> string" where
  "Attribute_String a = sa_attribute a"

definition SetAttributes :: "scim_attribute list \<Rightarrow> string" where
  "SetAttributes attributes = Join (map Attribute_String attributes) '',''"

definition InitialStartID :: string where "InitialStartID = ''initial''"

section \<open>Query strings\<close>

text \<open>
  \<open>url.QueryEscape\<close>: letters, digits and \<open>-_.~\<close> stay, a space is a plus sign, every other byte is its two
  hexadecimal digits after a percent sign.
\<close>

definition unreserved :: "char \<Rightarrow> bool" where
  "unreserved c =
     (let n = of_char c :: nat
      in 48 \<le> n \<and> n \<le> 57 \<or> 65 \<le> n \<and> n \<le> 90 \<or> 97 \<le> n \<and> n \<le> 122 \<or> c \<in> {CHR ''-'', CHR ''_'', CHR ''.'', CHR ''~''})"

definition upper_hex :: "nat \<Rightarrow> char" where
  "upper_hex k = (if k < 10 then char_of (48 + k) else char_of (55 + k))"

definition escape_byte :: "char \<Rightarrow> string" where
  "escape_byte c =
     (if unreserved c then [c]
      else if c = CHR '' '' then ''+''
      else [CHR ''%'', upper_hex (of_char c div 16), upper_hex (of_char c mod 16)])"

definition QueryEscape :: "string \<Rightarrow> string" where
  "QueryEscape s = concat (map escape_byte s)"

text \<open>\<open>url.Values\<close>: \<open>Add\<close> appends a value to those of its key, \<open>Encode\<close> prints the keys in order.\<close>

definition Values_Add :: "string \<Rightarrow> string \<Rightarrow> string list smap \<Rightarrow> string list smap" where
  "Values_Add k v m = smap_set k ((case smap_get m k of None \<Rightarrow> [] | Some vs \<Rightarrow> vs) @ [v]) m"

definition Values_Encode :: "string list smap \<Rightarrow> string" where
  "Values_Encode m =
     Join (concat (map (\<lambda>(k, vs). map (\<lambda>v. QueryEscape k @ ''='' @ QueryEscape v) vs) (sort_key fst m))) ''&''"

record query_options =
  qo_filter :: scim_filter
  qo_attributes :: string
  qo_excludedAttributes :: string
  qo_startID :: string

definition no_options :: query_options where
  "no_options = \<lparr>qo_filter = \<lparr>sf_expression = []\<rparr>, qo_attributes = [], qo_excludedAttributes = [], qo_startID = []\<rparr>"

definition toQuery :: "query_options \<Rightarrow> string" where
  "toQuery q =
     (let m0 = [];
          m1 = (if TrimSpace (Filter_String (qo_filter q)) \<noteq> []
                then Values_Add ''filter'' (Filter_String (qo_filter q)) m0 else m0);
          m2 = (if TrimSpace (qo_attributes q) \<noteq> [] then Values_Add ''attributes'' (qo_attributes q) m1 else m1);
          m3 = (if TrimSpace (qo_excludedAttributes q) \<noteq> []
                then Values_Add ''excludedAttributes'' (qo_excludedAttributes q) m2 else m2);
          m4 = (if TrimSpace (qo_startID q) \<noteq> [] then Values_Add ''startId'' (qo_startID q) m3 else m3)
      in Values_Encode m4)"

section \<open>Answers\<close>

record user_emails =
  ue_value :: string
  ue_primary :: bool

record resource_meta =
  rm_location :: string
  rm_version :: string
  rm_resourceType :: string

record user_name_field =
  un_familyName :: string
  un_givenName :: string

record scim_resource =
  sr_id :: string
  sr_meta :: resource_meta
  sr_userName :: string
  sr_name :: user_name_field
  sr_displayName :: string
  sr_active :: bool
  sr_emails :: "user_emails list"

record response_body =
  rb_totalResults :: int
  rb_itemsPerPage :: int
  rb_resources :: "scim_resource list"
  rb_startID :: string
  rb_nextID :: string

definition FirstName :: "scim_resource \<Rightarrow> string" where
  "FirstName r = un_givenName (sr_name r)"

definition LastName :: "scim_resource \<Rightarrow> string" where
  "LastName r = un_familyName (sr_name r)"

definition ActiveUser :: "scim_resource \<Rightarrow> bool" where
  "ActiveUser r = sr_active r"

fun primary_email :: "user_emails list \<Rightarrow> string" where
  "primary_email [] = []"
| "primary_email (e # es) = (if ue_primary e then ue_value e else primary_email es)"

definition PrimaryEmail :: "scim_resource \<Rightarrow> string" where
  "PrimaryEmail r = primary_email (sr_emails r)"

text \<open>
  \<open>json.Unmarshal\<close> into the structs: members are matched without regard to case, unknown ones are skipped, null
  leaves a field as it is (a slice becomes empty), a later member of the same name overwrites, and any other
  mismatch of types is an error. Numbers have to be integers of 64 bits.
\<close>

fun dec_string :: "json \<Rightarrow> string \<Rightarrow> string option" where
  "dec_string (JStr s) old = Some s"
| "dec_string JNull old = Some old"
| "dec_string _ old = None"

fun dec_bool :: "json \<Rightarrow> bool \<Rightarrow> bool option" where
  "dec_bool (JBool b) old = Some b"
| "dec_bool JNull old = Some old"
| "dec_bool _ old = None"

definition digits_value :: "string \<Rightarrow> int" where
  "digits_value s = fold (\<lambda>c acc. acc * 10 + (of_char c - 48)) s 0"

definition json_int :: "string \<Rightarrow> int option" where
  "json_int t =
     (let (neg, ds) = (case t of [] \<Rightarrow> (False, []) | c # cs \<Rightarrow> if c = CHR ''-'' then (True, cs) else (False, t));
          v = (if neg then - digits_value ds else digits_value ds)
      in if all_digits1 ds \<and> - (2 ^ 63) \<le> v \<and> v < 2 ^ 63 then Some v else None)"

fun dec_int :: "json \<Rightarrow> int \<Rightarrow> int option" where
  "dec_int (JNum t) old = json_int t"
| "dec_int JNull old = Some old"
| "dec_int _ old = None"

fun dec_slice :: "(json \<Rightarrow> 'a option) \<Rightarrow> json \<Rightarrow> 'a list option" where
  "dec_slice dec (JArr xs) = those (map dec xs)"
| "dec_slice dec JNull = Some []"
| "dec_slice dec _ = None"

fun dec_members :: "(string \<Rightarrow> json \<Rightarrow> 'a \<Rightarrow> 'a option) \<Rightarrow> (string \<times> json) list \<Rightarrow> 'a \<Rightarrow> 'a option" where
  "dec_members dec [] a = Some a"
| "dec_members dec ((k, v) # fs) a =
     (case dec (to_lower k) v a of None \<Rightarrow> None | Some a' \<Rightarrow> dec_members dec fs a')"

fun dec_object :: "(string \<Rightarrow> json \<Rightarrow> 'a \<Rightarrow> 'a option) \<Rightarrow> json \<Rightarrow> 'a \<Rightarrow> 'a option" where
  "dec_object dec (JObj fs) old = dec_members dec fs old"
| "dec_object dec JNull old = Some old"
| "dec_object dec _ old = None"

definition dec_email :: "json \<Rightarrow> user_emails \<Rightarrow> user_emails option" where
  "dec_email = dec_object (\<lambda>k v e.
     if k = ''value'' then map_option (\<lambda>s. e\<lparr>ue_value := s\<rparr>) (dec_string v (ue_value e))
     else if k = ''primary'' then map_option (\<lambda>b. e\<lparr>ue_primary := b\<rparr>) (dec_bool v (ue_primary e))
     else Some e)"

definition dec_name :: "json \<Rightarrow> user_name_field \<Rightarrow> user_name_field option" where
  "dec_name = dec_object (\<lambda>k v n.
     if k = ''familyname'' then map_option (\<lambda>s. n\<lparr>un_familyName := s\<rparr>) (dec_string v (un_familyName n))
     else if k = ''givenname'' then map_option (\<lambda>s. n\<lparr>un_givenName := s\<rparr>) (dec_string v (un_givenName n))
     else Some n)"

definition dec_meta :: "json \<Rightarrow> resource_meta \<Rightarrow> resource_meta option" where
  "dec_meta = dec_object (\<lambda>k v m.
     if k = ''location'' then map_option (\<lambda>s. m\<lparr>rm_location := s\<rparr>) (dec_string v (rm_location m))
     else if k = ''version'' then map_option (\<lambda>s. m\<lparr>rm_version := s\<rparr>) (dec_string v (rm_version m))
     else if k = ''resourcetype'' then map_option (\<lambda>s. m\<lparr>rm_resourceType := s\<rparr>) (dec_string v (rm_resourceType m))
     else Some m)"

definition zero_resource :: scim_resource where
  "zero_resource =
     \<lparr>sr_id = [], sr_meta = \<lparr>rm_location = [], rm_version = [], rm_resourceType = []\<rparr>, sr_userName = [],
      sr_name = \<lparr>un_familyName = [], un_givenName = []\<rparr>, sr_displayName = [], sr_active = False, sr_emails = []\<rparr>"

definition dec_resource :: "json \<Rightarrow> scim_resource \<Rightarrow> scim_resource option" where
  "dec_resource = dec_object (\<lambda>k v r.
     if k = ''id'' then map_option (\<lambda>s. r\<lparr>sr_id := s\<rparr>) (dec_string v (sr_id r))
     else if k = ''meta'' then map_option (\<lambda>m. r\<lparr>sr_meta := m\<rparr>) (dec_meta v (sr_meta r))
     else if k = ''username'' then map_option (\<lambda>s. r\<lparr>sr_userName := s\<rparr>) (dec_string v (sr_userName r))
     else if k = ''name'' then map_option (\<lambda>n. r\<lparr>sr_name := n\<rparr>) (dec_name v (sr_name r))
     else if k = ''displayname'' then map_option (\<lambda>s. r\<lparr>sr_displayName := s\<rparr>) (dec_string v (sr_displayName r))
     else if k = ''active'' then map_option (\<lambda>b. r\<lparr>sr_active := b\<rparr>) (dec_bool v (sr_active r))
     else if k = ''emails''
     then map_option (\<lambda>es. r\<lparr>sr_emails := es\<rparr>)
            (dec_slice (\<lambda>e. dec_email e \<lparr>ue_value = [], ue_primary = False\<rparr>) v)
     else Some r)"

definition zero_body :: response_body where
  "zero_body = \<lparr>rb_totalResults = 0, rb_itemsPerPage = 0, rb_resources = [], rb_startID = [], rb_nextID = []\<rparr>"

definition dec_body :: "json \<Rightarrow> response_body \<Rightarrow> response_body option" where
  "dec_body = dec_object (\<lambda>k v b.
     if k = ''totalresults'' then map_option (\<lambda>n. b\<lparr>rb_totalResults := n\<rparr>) (dec_int v (rb_totalResults b))
     else if k = ''itemsperpage'' then map_option (\<lambda>n. b\<lparr>rb_itemsPerPage := n\<rparr>) (dec_int v (rb_itemsPerPage b))
     else if k = ''resources''
     then map_option (\<lambda>rs. b\<lparr>rb_resources := rs\<rparr>) (dec_slice (\<lambda>r. dec_resource r zero_resource) v)
     else if k = ''startid'' then map_option (\<lambda>s. b\<lparr>rb_startID := s\<rparr>) (dec_string v (rb_startID b))
     else if k = ''nextid'' then map_option (\<lambda>s. b\<lparr>rb_nextID := s\<rparr>) (dec_string v (rb_nextID b))
     else Some b)"

definition unmarshal_body :: "string \<Rightarrow> response_body option" where
  "unmarshal_body text = (case parse_json text of None \<Rightarrow> None | Some v \<Rightarrow> dec_body v zero_body)"

section \<open>Requests and transports\<close>

record http_request =
  hq_method :: string
  hq_url :: string
  hq_header :: "string smap"

record http_response =
  hp_statusCode :: int
  hp_body :: "go_error + string"

type_synonym 's round_tripper = "http_request \<Rightarrow> 's \<Rightarrow> (go_error + http_response) \<times> 's"

text \<open>
  What is used of \<open>net/url\<close> and \<open>net/http\<close>: parsing, joining and printing URLs, \<open>http.Client.Do\<close> over a
  transport, the default transport, and the errors of \<open>json.Unmarshal\<close>.
\<close>

record ('u, 's) scim_http =
  sh_Parse :: "string \<Rightarrow> go_error + 'u"
  sh_JoinPath :: "'u \<Rightarrow> string \<Rightarrow> 'u"
  sh_SetRawQuery :: "string \<Rightarrow> 'u \<Rightarrow> 'u"
  sh_String :: "'u \<Rightarrow> string"
  sh_Do :: "'s round_tripper \<Rightarrow> 's round_tripper"
  sh_DefaultTransport :: "'s round_tripper"
  sh_json_error :: "string \<Rightarrow> go_error"

text \<open>\<open>Header.Set\<close> stores its value under the canonical form of the name.\<close>

definition header_byte :: "char \<Rightarrow> bool" where
  "header_byte c =
     (let n = of_char c :: nat
      in 48 \<le> n \<and> n \<le> 57 \<or> 65 \<le> n \<and> n \<le> 90 \<or> 97 \<le> n \<and> n \<le> 122 \<or> c \<in> set ''!#$%&*+-.^_|~'' \<or> n = 39 \<or> n = 96)"

definition upper_byte :: "char \<Rightarrow> char" where
  "upper_byte c = (let n = of_char c :: nat in if 97 \<le> n \<and> n \<le> 122 then char_of (n - 32) else c)"

definition lower_byte :: "char \<Rightarrow> char" where
  "lower_byte c = (let n = of_char c :: nat in if 65 \<le> n \<and> n \<le> 90 then char_of (n + 32) else c)"

fun canonical_bytes :: "bool \<Rightarrow> string \<Rightarrow> string" where
  "canonical_bytes upper [] = []"
| "canonical_bytes upper (c # cs) =
     (if upper then upper_byte c else lower_byte c) # canonical_bytes (c = CHR ''-'') cs"

definition CanonicalMIMEHeaderKey :: "string \<Rightarrow> string" where
  "CanonicalMIMEHeaderKey s = (if list_all header_byte s then canonical_bytes True s else s)"

definition Header_Set :: "string \<Rightarrow> string \<Rightarrow> http_request \<Rightarrow> http_request" where
  "Header_Set k v req = req\<lparr>hq_header := smap_set (CanonicalMIMEHeaderKey k) v (hq_header req)\<rparr>"

definition SetBasicAuth :: "string \<Rightarrow> string \<Rightarrow> http_request \<Rightarrow> http_request" where
  "SetBasicAuth username password req =
     Header_Set ''Authorization'' (''Basic '' @ EncodeToString64 (username @ '':'' @ password)) req"

record basic_auth_config =
  ba_username :: string
  ba_password :: string

record bearer_token_config =
  bt_token :: string
  bt_header :: string
  bt_prefix :: string

record scim_client_config =
  sc_URL :: string
  sc_authType :: string
  sc_basicAuth :: "basic_auth_config option"
  sc_bearerToken :: "bearer_token_config option"

definition basicAuthTransport_RoundTrip :: "basic_auth_config \<Rightarrow> 's round_tripper \<Rightarrow> 's round_tripper" where
  "basicAuthTransport_RoundTrip t next_transport req = next_transport (SetBasicAuth (ba_username t) (ba_password t) req)"

definition bearerTokenTransport_RoundTrip :: "bearer_token_config \<Rightarrow> 's round_tripper \<Rightarrow> 's round_tripper" where
  "bearerTokenTransport_RoundTrip t next_transport req =
     (let header = (if bt_header t \<noteq> [] then bt_header t else ''Authorization'');
          prfx = (if bt_prefix t \<noteq> [] then bt_prefix t else ''Bearer'')
      in next_transport (Header_Set header (prfx @ '' '' @ bt_token t) req))"

section \<open>The client\<close>

record ('u, 's) scim_client =
  cl_baseURL :: 'u
  cl_transport :: "'s round_tripper"

definition NewSCIMClient :: "('u, 's) scim_http \<Rightarrow> scim_client_config \<Rightarrow> go_error + ('u, 's) scim_client" where
  "NewSCIMClient lib config =
     (case sh_Parse lib (sc_URL config) of
        Inl e \<Rightarrow> Inl e
      | Inr baseURL \<Rightarrow>
          if sc_authType config = AuthTypeBasic
          then (case sc_basicAuth config of
                  None \<Rightarrow> Inl (PlainError ''could not create http scim client, Basic Auth Config missing'')
                | Some ba \<Rightarrow>
                    if TrimSpace (ba_username ba) = [] \<or> TrimSpace (ba_password ba) = []
                    then Inl (PlainError ''could not create SCIM Client, BasicAuthConfig missing username or password'')
                    else Inr \<lparr>cl_baseURL = baseURL,
                              cl_transport = basicAuthTransport_RoundTrip ba (sh_DefaultTransport lib)\<rparr>)
          else if sc_authType config = AuthTypeBearerToken
          then (case sc_bearerToken config of
                  None \<Rightarrow> Inl (PlainError ''could not create http scim client, BearerToken Config missing'')
                | Some bt \<Rightarrow>
                    if bt_token bt = []
                    then Inl (PlainError ''could not create http scim client, BearerToken Token missing'')
                    else Inr \<lparr>cl_baseURL = baseURL,
                              cl_transport = bearerTokenTransport_RoundTrip bt (sh_DefaultTransport lib)\<rparr>)
          else Inl (PlainError (''unknown auth type: '' @ sc_authType config)))"

definition groupPath :: string where "groupPath = ''Groups''"
definition userPath :: string where "userPath = ''Users''"
definition paginationEndID :: string where "paginationEndID = ''end''"

definition doRequest ::
  "('u, 's) scim_http \<Rightarrow> ('u, 's) scim_client \<Rightarrow> http_request \<Rightarrow> 's
     \<Rightarrow> (go_error + (http_response \<times> response_body)) \<times> 's" where
  "doRequest lib c req s =
     (case sh_Do lib (cl_transport c) req s of
        (Inl e, s1) \<Rightarrow> (Inl e, s1)
      | (Inr resp, s1) \<Rightarrow>
          (case hp_body resp of
             Inl e \<Rightarrow> (Inl e, s1)
           | Inr text \<Rightarrow>
               (case unmarshal_body text of
                  None \<Rightarrow> (Inl (sh_json_error lib text), s1)
                | Some body \<Rightarrow> (Inr (resp, body), s1))))"

text \<open>\<open>http.NewRequestWithContext\<close> fails when the URL does not parse; the method is a constant.\<close>

definition fetchPage ::
  "('u, 's) scim_http \<Rightarrow> ('u, 's) scim_client \<Rightarrow> string \<Rightarrow> query_options option \<Rightarrow> 's
     \<Rightarrow> (go_error + (scim_resource list \<times> string)) \<times> 's" where
  "fetchPage lib c path options s =
     (let u0 = sh_JoinPath lib (cl_baseURL c) path;
          u = (case options of None \<Rightarrow> u0 | Some q \<Rightarrow> sh_SetRawQuery lib (toQuery q) u0)
      in case sh_Parse lib (sh_String lib u) of
           Inl e \<Rightarrow> (Inl e, s)
         | Inr _ \<Rightarrow>
             (case doRequest lib c \<lparr>hq_method = ''GET'', hq_url = sh_String lib u, hq_header = []\<rparr> s of
                (Inl e, s1) \<Rightarrow> (Inl e, s1)
              | (Inr (resp, body), s1) \<Rightarrow>
                  if hp_statusCode resp \<noteq> 200
                  then (Inl (PlainError (''unexpected status code '' @ format_d (hp_statusCode resp))), s1)
                  else (Inr (rb_resources body, rb_nextID body), s1)))"

text \<open>The loop of \<open>fetchAllResources\<close>, which returns the options as well: the caller's are changed.\<close>

partial_function (option) fetch_pages ::
  "('u, 's) scim_http \<Rightarrow> ('u, 's) scim_client \<Rightarrow> string \<Rightarrow> query_options \<Rightarrow> scim_resource list \<Rightarrow> 's
     \<Rightarrow> ((go_error + scim_resource list) \<times> query_options \<times> 's) option" where
  "fetch_pages lib c path options allResources s =
     (case fetchPage lib c path (Some options) s of
        (Inl e, s1) \<Rightarrow> Some (Inl e, options, s1)
      | (Inr (resources, nextID), s1) \<Rightarrow>
          if qo_startID options = [] \<or> nextID = [] \<or> nextID = paginationEndID
          then Some (Inr (allResources @ resources), options, s1)
          else fetch_pages lib c path (options\<lparr>qo_startID := nextID\<rparr>) (allResources @ resources) s1)"

declare fetch_pages.simps [code]

definition fetchAllResources ::
  "('u, 's) scim_http \<Rightarrow> ('u, 's) scim_client \<Rightarrow> string \<Rightarrow> query_options option \<Rightarrow> 's
     \<Rightarrow> ((go_error + scim_resource list) \<times> query_options option \<times> 's) option" where
  "fetchAllResources lib c path options s =
     (case options of
        None \<Rightarrow> map_option (\<lambda>(res, _, s1). (res, None, s1)) (fetch_pages lib c path no_options [] s)
      | Some q \<Rightarrow> map_option (\<lambda>(res, q1, s1). (res, Some q1, s1)) (fetch_pages lib c path q [] s))"

definition GetUsers ::
  "('u, 's) scim_http \<Rightarrow> ('u, 's) scim_client \<Rightarrow> query_options option \<Rightarrow> 's
     \<Rightarrow> ((go_error + scim_resource list) \<times> query_options option \<times> 's) option" where
  "GetUsers lib c options s = fetchAllResources lib c userPath options s"

definition GetGroups ::
  "('u, 's) scim_http \<Rightarrow> ('u, 's) scim_client \<Rightarrow> query_options option \<Rightarrow> 's
     \<Rightarrow> ((go_error + scim_resource list) \<times> query_options option \<times> 's) option" where
  "GetGroups lib c options s = fetchAllResources lib c groupPath options s"

section \<open>From the configuration of an organization\<close>

text \<open>
  \<open>GreenhouseSCIMConfigToSCIMConfig\<close>: the references to secrets are dereferenced without a test; \<open>None\<close> is
  the panic.
\<close>

definition secret_of :: "value_from_source option \<Rightarrow> secret_key_reference option" where
  "secret_of v = Option.bind v vf_secret"

definition GreenhouseSCIMConfigToSCIMConfig ::
  "(namespaced_name \<Rightarrow> go_error + secret) \<Rightarrow> scim_config \<Rightarrow> string \<Rightarrow> (go_error + scim_client_config) option" where
  "GreenhouseSCIMConfigToSCIMConfig get_secret config namespace =
     (let cfg = \<lparr>sc_URL = scim_baseURL config, sc_authType = scim_authType config, sc_basicAuth = None, sc_bearerToken = None\<rparr>;
          read_key = GetSecretKeyFromSecretKeyReference get_secret namespace
      in if sc_authType cfg = AuthTypeBasic
         then (case secret_of (scim_basicAuthUser config) of
                 None \<Rightarrow> None
               | Some uref \<Rightarrow>
                   (case read_key uref of
                      Inl e \<Rightarrow> Some (Inl (PlainError (
                          ''secret for '' @ [CHR 0x27] @ ''.SCIMConfig.BasicAuthUser'' @ [CHR 0x27] @ '' is missing: '' @ error_text e)))
                    | Inr username \<Rightarrow>
                        (case secret_of (scim_basicAuthPw config) of
                           None \<Rightarrow> None
                         | Some pref \<Rightarrow>
                             (case read_key pref of
                                Inl e \<Rightarrow> Some (Inl (PlainError (''secret for BasicAuthPw is missing: '' @ error_text e)))
                              | Inr password \<Rightarrow>
                                  Some (Inr (cfg\<lparr>sc_basicAuth := Some \<lparr>ba_username = username, ba_password = password\<rparr>\<rparr>))))))
         else if sc_authType cfg = AuthTypeBearerToken
         then (case secret_of (scim_bearerToken config) of
                 None \<Rightarrow> None
               | Some tref \<Rightarrow>
                   (case read_key tref of
                      Inl e \<Rightarrow> Some (Inl (PlainError (''secret for BearerToken is missing: '' @ error_text e)))
                    | Inr token \<Rightarrow>
                        Some (Inr (cfg\<lparr>sc_bearerToken := Some
                          \<lparr>bt_token = token,
                           bt_header = (if scim_bearerHeader config = [] then ''Authorization'' else scim_bearerHeader config),
                           bt_prefix = (if scim_bearerPrefix config = [] then ''Bearer'' else scim_bearerPrefix config)\<rparr>\<rparr>))))
         else Some (Inl (PlainError (''invalid authentication type: '' @ scim_authType config))))"


section \<open>Query strings are read back\<close>

text \<open>How a server reads a query string: fields separated by \<open>&\<close>, names and values unescaped.\<close>

fun QueryUnescape :: "string \<Rightarrow> string option" where
  "QueryUnescape [] = Some []"
| "QueryUnescape (c # cs) =
     (if c = CHR ''%''
      then (case cs of
              a # b # r \<Rightarrow>
                (case (hex_val a, hex_val b) of
                   (Some x, Some y) \<Rightarrow> map_option ((#) (char_of (16 * x + y))) (QueryUnescape r)
                 | _ \<Rightarrow> None)
            | _ \<Rightarrow> None)
      else map_option ((#) (if c = CHR ''+'' then CHR '' '' else c)) (QueryUnescape cs))"

definition form_pair :: "string \<Rightarrow> (string \<times> string) option" where
  "form_pair p =
     (case (QueryUnescape (takeWhile (\<lambda>c. c \<noteq> CHR ''='') p), QueryUnescape (drop 1 (dropWhile (\<lambda>c. c \<noteq> CHR ''='') p))) of
        (Some k, Some v) \<Rightarrow> Some (k, v) | _ \<Rightarrow> None)"

definition form_decode :: "string \<Rightarrow> (string \<times> string) list option" where
  "form_decode s = (if s = [] then Some [] else those (map form_pair (split_char (CHR ''&'') s)))"

lemma hex_val_upper: "k < 16 \<Longrightarrow> hex_val (upper_hex k) = Some k"
  by (auto simp: hex_val_def upper_hex_def Let_def)

lemma unescape_byte: "QueryUnescape (escape_byte c @ t) = map_option ((#) c) (QueryUnescape t)"
proof -
  have n: "(of_char c :: nat) < 256" by simp
  have digits: "hex_val (upper_hex (of_char c div 16)) = Some (of_char c div 16)"
    "hex_val (upper_hex (of_char c mod 16)) = Some (of_char c mod 16)"
    using n by (auto intro!: hex_val_upper simp: less_mult_imp_div_less)
  consider "unreserved c" | "\<not> unreserved c" "c = CHR '' ''" | "\<not> unreserved c" "c \<noteq> CHR '' ''" by blast
  then show ?thesis
  proof cases
    case 1
    then have "c \<noteq> CHR ''%''" "c \<noteq> CHR ''+''" by (auto simp: unreserved_def)
    with 1 show ?thesis by (simp add: escape_byte_def)
  qed (simp_all add: escape_byte_def digits)
qed

lemma QueryUnescape_QueryEscape: "QueryUnescape (QueryEscape s) = Some s"
  by (induction s) (simp_all add: QueryEscape_def unescape_byte)

lemma QueryEscape_inj: "QueryEscape s = QueryEscape t \<longleftrightarrow> s = t"
  using QueryUnescape_QueryEscape by (metis option.inject)

lemma upper_hex_not: "k < 16 \<Longrightarrow> upper_hex k \<noteq> CHR ''&'' \<and> upper_hex k \<noteq> CHR ''=''"
  using hex_val_upper [of k] by (auto simp: hex_val_def)

lemma escape_byte_plain: "CHR ''&'' \<notin> set (escape_byte c)" "CHR ''='' \<notin> set (escape_byte c)"
proof -
  have "(of_char c :: nat) div 16 < 16" "(of_char c :: nat) mod 16 < 16"
    by (auto simp: less_mult_imp_div_less)
  from this [THEN upper_hex_not] show "CHR ''&'' \<notin> set (escape_byte c)" "CHR ''='' \<notin> set (escape_byte c)"
    by (auto simp: escape_byte_def unreserved_def Let_def)
qed

lemma QueryEscape_plain: "CHR ''&'' \<notin> set (QueryEscape s)" "CHR ''='' \<notin> set (QueryEscape s)"
  using escape_byte_plain by (auto simp: QueryEscape_def)

lemma takeWhile_dropWhile_mark:
  "c \<notin> set k \<Longrightarrow> takeWhile (\<lambda>x. x \<noteq> c) (k @ c # v) = k \<and> dropWhile (\<lambda>x. x \<noteq> c) (k @ c # v) = c # v"
  by (induction k) auto

lemma form_pair_escaped: "form_pair (QueryEscape k @ ''='' @ QueryEscape v) = Some (k, v)"
  using takeWhile_dropWhile_mark [OF QueryEscape_plain(2) [of k], of "QueryEscape v"]
  by (simp add: form_pair_def QueryUnescape_QueryEscape)

lemma split_fields_Join: "xs \<noteq> [] \<Longrightarrow> (\<And>x. x \<in> set xs \<Longrightarrow> c \<notin> set x) \<Longrightarrow> split_char c (Join xs [c]) = xs"
  by (induction xs "[c]" rule: Join.induct) (simp_all add: split_char_no_sep split_char_append_sep)

lemma those_map_Some: "(\<And>x. x \<in> set xs \<Longrightarrow> f x = Some (g x)) \<Longrightarrow> those (map f xs) = Some (map g xs)"
  by (induction xs) auto

definition print_field :: "string \<times> string \<Rightarrow> string" where
  "print_field = (\<lambda>(k, v). QueryEscape k @ ''='' @ QueryEscape v)"

lemma form_decode_fields: "form_decode (Join (map print_field fs) ''&'') = Some fs"
proof (cases fs)
  case (Cons f fs')
  have "Join (map print_field fs) ''&'' \<noteq> []"
    unfolding Cons by (cases fs') (auto simp: print_field_def split: prod.splits)
  moreover have "split_char (CHR ''&'') (Join (map print_field fs) ''&'') = map print_field fs"
    by (rule split_fields_Join) (use QueryEscape_plain in \<open>auto simp: Cons print_field_def\<close>)
  moreover have "form_pair (print_field f) = Some f" for f
    using form_pair_escaped [of "fst f" "snd f"] by (simp add: print_field_def split_beta)
  ultimately show ?thesis
    using those_map_Some [of fs "\<lambda>f. form_pair (print_field f)" "\<lambda>f. f"] by (simp add: form_decode_def o_def)
qed (simp add: form_decode_def)

text \<open>The four keys in the order in which they are printed.\<close>

lemma query_keys_order:
  "''attributes'' \<le> ''excludedAttributes''" "''attributes'' \<le> ''filter''" "''attributes'' \<le> ''startId''"
  "''excludedAttributes'' \<le> ''filter''" "''excludedAttributes'' \<le> ''startId''" "''filter'' \<le> ''startId''"
  "\<not> ''filter'' \<le> ''attributes''" "\<not> ''filter'' \<le> ''excludedAttributes''"
  "\<not> ''excludedAttributes'' \<le> ''attributes''" "\<not> ''startId'' \<le> ''attributes''"
  "\<not> ''startId'' \<le> ''excludedAttributes''" "\<not> ''startId'' \<le> ''filter''"
  by code_simp+

definition query_fields :: "query_options \<Rightarrow> (string \<times> string) list" where
  "query_fields q =
     filter (\<lambda>(k, v). TrimSpace v \<noteq> [])
       [(''attributes'', qo_attributes q), (''excludedAttributes'', qo_excludedAttributes q),
        (''filter'', Filter_String (qo_filter q)), (''startId'', qo_startID q)]"

lemma toQuery_fields: "toQuery q = Join (map print_field (query_fields q)) ''&''"
  unfolding toQuery_def query_fields_def Values_Encode_def print_field_def
  by (cases "TrimSpace (Filter_String (qo_filter q)) = []"; cases "TrimSpace (qo_attributes q) = []";
      cases "TrimSpace (qo_excludedAttributes q) = []"; cases "TrimSpace (qo_startID q) = []")
    (simp_all add: Values_Add_def smap_set_def smap_get_def query_keys_order Let_def)

text \<open>
  The query string of every set of options is read back by a server as exactly the options that are not
  blank, with their values unchanged, whatever characters a group name has: nothing in a value can add or hide
  a field of the query.
\<close>

theorem query_read_back: "form_decode (toQuery q) = Some (query_fields q)"
  unfolding toQuery_fields by (rule form_decode_fields)

text \<open>
  Inside the filter expression this does not hold: a value is put between quotes as it is, and the
  expression for one group name is the expression of another filter.
\<close>

lemma filter_not_quoted:
  "Filter_String (UserFilterByGroupDisplayName (''x'' @ [CHR 0x22] @ '' or active eq '' @ [CHR 0x22] @ ''true''))
   = Filter_String (newFilter ''groups.display'' ''eq'' ''x'') @ '' or '' @ Filter_String (newFilter ''active'' ''eq'' ''true'')"
  by (simp add: UserFilterByGroupDisplayName_def newFilter_def Filter_String_def)

section \<open>Reading all pages\<close>

text \<open>
  A server that answers the requests for the pages of a list of resources: \<open>page\<close> gives for every start id the
  resources of the page and the id of the next one.
\<close>

definition page_url :: "('u, 's) scim_http \<Rightarrow> ('u, 's) scim_client \<Rightarrow> string \<Rightarrow> query_options \<Rightarrow> string" where
  "page_url lib c path q = sh_String lib (sh_SetRawQuery lib (toQuery q) (sh_JoinPath lib (cl_baseURL c) path))"

definition serves_pages ::
  "('u, 's) scim_http \<Rightarrow> ('u, 's) scim_client \<Rightarrow> string \<Rightarrow> query_options \<Rightarrow> (string \<Rightarrow> scim_resource list \<times> string) \<Rightarrow> bool" where
  "serves_pages lib c path q page \<longleftrightarrow>
     (\<forall>sid s. let url = page_url lib c path (q\<lparr>qo_startID := sid\<rparr>) in
        (\<exists>u. sh_Parse lib url = Inr u) \<and>
        (\<exists>text body.
           sh_Do lib (cl_transport c) \<lparr>hq_method = ''GET'', hq_url = url, hq_header = []\<rparr> s
             = (Inr \<lparr>hp_statusCode = 200, hp_body = Inr text\<rparr>, s)
           \<and> unmarshal_body text = Some body \<and> page sid = (rb_resources body, rb_nextID body)))"

text \<open>The pages that the ids lead to, from a start id to the end of the list.\<close>

inductive page_chain :: "(string \<Rightarrow> scim_resource list \<times> string) \<Rightarrow> string \<Rightarrow> scim_resource list list \<Rightarrow> bool" for page where
  last_page: "page sid = (rs, nxt) \<Longrightarrow> nxt = [] \<or> nxt = paginationEndID \<Longrightarrow> page_chain page sid [rs]"
| more_pages: "page sid = (rs, nxt) \<Longrightarrow> nxt \<noteq> [] \<Longrightarrow> nxt \<noteq> paginationEndID \<Longrightarrow> page_chain page nxt ps
    \<Longrightarrow> page_chain page sid (rs # ps)"

lemma fetchPage_served:
  assumes "serves_pages lib c path q page"
  shows "fetchPage lib c path (Some (q\<lparr>qo_startID := sid\<rparr>)) s = (Inr (page sid), s)"
proof -
  let ?url = "page_url lib c path (q\<lparr>qo_startID := sid\<rparr>)"
  from assms obtain u answer body where "sh_Parse lib ?url = Inr u"
    "sh_Do lib (cl_transport c) \<lparr>hq_method = ''GET'', hq_url = ?url, hq_header = []\<rparr> s
       = (Inr \<lparr>hp_statusCode = 200, hp_body = Inr answer\<rparr>, s)"
    "unmarshal_body answer = Some body" "page sid = (rb_resources body, rb_nextID body)"
    unfolding serves_pages_def Let_def by blast
  then show ?thesis
    by (simp add: fetchPage_def doRequest_def page_url_def)
qed

lemma fetch_pages_chain:
  assumes "page_chain page sid ps" "serves_pages lib c path q page" "sid \<noteq> []"
  shows "\<exists>q1. fetch_pages lib c path (q\<lparr>qo_startID := sid\<rparr>) acc s = Some (Inr (acc @ concat ps), q1, s)"
  using assms
proof (induction arbitrary: acc)
  case (last_page sid rs nxt)
  then show ?case by (subst fetch_pages.simps) (auto simp: fetchPage_served)
next
  case (more_pages sid rs nxt ps)
  from more_pages.IH [OF more_pages.prems(1) more_pages.hyps(2), of "acc @ rs"] show ?case
    using more_pages by (subst fetch_pages.simps) (auto simp: fetchPage_served)
qed

lemma fetch_pages_returns:
  assumes "fetch_pages lib c path q1 acc s = Some out" "serves_pages lib c path q page"
    "q1 = q\<lparr>qo_startID := sid\<rparr>"
    "sid \<noteq> []"
  shows "\<exists>ps. page_chain page sid ps"
proof -
  let ?P = "\<lambda>lib c path q1 acc s out. \<forall>sid. serves_pages lib c path q page \<longrightarrow> q1 = q\<lparr>qo_startID := sid\<rparr> \<longrightarrow> sid \<noteq> []
    \<longrightarrow> (\<exists>ps. page_chain page sid ps)"
  have "?P lib c path q1 acc s out"
  proof (rule fetch_pages.raw_induct [OF _ assms(1), where P = ?P], intro allI impI)
    fix fetch lib c path q1 acc s out sid
    assume IH: "\<And>lib c path q1 acc s out. fetch lib c path q1 acc s = Some out \<Longrightarrow> ?P lib c path q1 acc s out"
      and run: "(case fetchPage lib c path (Some q1) s of
          (Inl e, s1) \<Rightarrow> Some (Inl e, q1, s1)
        | (Inr (resources, nextID), s1) \<Rightarrow>
            if qo_startID q1 = [] \<or> nextID = [] \<or> nextID = paginationEndID
            then Some (Inr (acc @ resources), q1, s1)
            else fetch lib c path (q1\<lparr>qo_startID := nextID\<rparr>) (acc @ resources) s1) = Some out"
      and hyps: "serves_pages lib c path q page" "q1 = q\<lparr>qo_startID := sid\<rparr>" "sid \<noteq> []"
    obtain rs nxt where page: "page sid = (rs, nxt)" by fastforce
    show "\<exists>ps. page_chain page sid ps"
    proof (cases "nxt = [] \<or> nxt = paginationEndID")
      case True
      then show ?thesis using page last_page by metis
    next
      case False
      with run hyps page have "fetch lib c path (q\<lparr>qo_startID := nxt\<rparr>) (acc @ rs) s = Some out"
        by (simp add: fetchPage_served)
      from IH [OF this] hyps(1) False have "\<exists>ps. page_chain page nxt ps" by blast
      then show ?thesis using page False more_pages by metis
    qed
  qed
  with assms(2-) show ?thesis by blast
qed

text \<open>
  C6. Reading users from a server of pages returns exactly when the ids lead to the end of the list, and
  then the result is the resources of all pages in their order and nothing else; with a server whose ids
  never end, because one repeats, the call does not return.
\<close>

theorem users_of_all_pages:
  assumes "serves_pages lib c userPath q page" "qo_startID q \<noteq> []"
  shows "((\<exists>out. GetUsers lib c (Some q) s = Some out) \<longleftrightarrow> (\<exists>ps. page_chain page (qo_startID q) ps))
    \<and> (\<forall>ps. page_chain page (qo_startID q) ps
           \<longrightarrow> (\<exists>q1. GetUsers lib c (Some q) s = Some (Inr (concat ps), Some q1, s)))"
proof -
  have ret: "\<exists>q1. GetUsers lib c (Some q) s = Some (Inr (concat ps), Some q1, s)"
    if chain: "page_chain page (qo_startID q) ps" for ps
    using fetch_pages_chain [OF chain assms, of "[]" s] by (auto simp: GetUsers_def fetchAllResources_def)
  have "\<exists>ps. page_chain page (qo_startID q) ps" if "GetUsers lib c (Some q) s = Some out" for out
    using that fetch_pages_returns [OF _ assms(1) _ assms(2), of q "[]" s]
    by (auto simp: GetUsers_def fetchAllResources_def)
  then show ?thesis using ret by blast
qed


text \<open>A server with two pages, which prints its answers as JSON.\<close>

definition demo_email :: json where
  "demo_email = JObj [(''value'', JStr ''a@b.c''), (''primary'', JBool True)]"

definition demo_text :: "string \<Rightarrow> string \<Rightarrow> string" where
  "demo_text user nxt =
     print_json (JObj [(''Resources'', JArr [JObj [(''userName'', JStr user), (''emails'', JArr [demo_email])]]),
                       (''nextId'', JStr nxt)])"

definition demo_resource :: "string \<Rightarrow> scim_resource" where
  "demo_resource user = zero_resource\<lparr>sr_userName := user, sr_emails := [\<lparr>ue_value = ''a@b.c'', ue_primary = True\<rparr>]\<rparr>"

definition demo_lib :: "(string, unit) scim_http" where
  "demo_lib =
     \<lparr>sh_Parse = Inr, sh_JoinPath = (\<lambda>u p. u @ ''/'' @ p), sh_SetRawQuery = (\<lambda>q u. u @ ''?'' @ q), sh_String = (\<lambda>u. u),
      sh_Do = (\<lambda>rt req s. rt req s),
      sh_DefaultTransport = (\<lambda>req s.
        (Inr \<lparr>hp_statusCode = 200,
              hp_body = Inr (if hq_url req = ''s/Users?startId=initial'' then demo_text ''U1'' ''p2'' else demo_text ''U2'' ''end'')\<rparr>, s)),
      sh_json_error = (\<lambda>_. PlainError ''json'')\<rparr>"

definition demo_client :: "(string, unit) scim_client" where
  "demo_client =
     \<lparr>cl_baseURL = ''s'',
      cl_transport = basicAuthTransport_RoundTrip \<lparr>ba_username = ''u'', ba_password = ''p''\<rparr> (sh_DefaultTransport demo_lib)\<rparr>"

definition demo_page :: "string \<Rightarrow> scim_resource list \<times> string" where
  "demo_page sid = (if sid = ''initial'' then ([demo_resource ''U1''], ''p2'') else ([demo_resource ''U2''], ''end''))"

lemma demo_text_read:
  "unmarshal_body (demo_text ''U1'' ''p2'')
     = Some (zero_body\<lparr>rb_resources := [demo_resource ''U1''], rb_nextID := ''p2''\<rparr>)"
  "unmarshal_body (demo_text ''U2'' ''end'')
     = Some (zero_body\<lparr>rb_resources := [demo_resource ''U2''], rb_nextID := ''end''\<rparr>)"
  by code_simp+

lemma toQuery_startID: "toQuery (no_options\<lparr>qo_startID := sid\<rparr>) = (if TrimSpace sid = [] then [] else ''startId='' @ QueryEscape sid)"
proof -
  have "QueryEscape ''startId'' = ''startId''" by code_simp
  then show ?thesis
    by (simp add: toQuery_fields query_fields_def no_options_def Filter_String_def print_field_def)
qed

lemma demo_url: "page_url demo_lib demo_client userPath (no_options\<lparr>qo_startID := sid\<rparr>) = ''s/Users?startId=initial''
    \<longleftrightarrow> sid = ''initial''"
proof -
  have "QueryEscape ''initial'' = ''initial''" by code_simp
  then have "QueryEscape sid = ''initial'' \<longleftrightarrow> sid = ''initial''" by (metis QueryEscape_inj)
  moreover have "TrimSpace ''initial'' \<noteq> []" by code_simp
  ultimately show ?thesis
    by (auto simp: page_url_def demo_lib_def demo_client_def userPath_def toQuery_startID)
qed

lemma demo_serves: "serves_pages demo_lib demo_client userPath no_options demo_page"
proof -
  have req: "sh_Do demo_lib (cl_transport demo_client) \<lparr>hq_method = ''GET'', hq_url = url, hq_header = []\<rparr> s
     = (Inr \<lparr>hp_statusCode = 200,
             hp_body = Inr (if url = ''s/Users?startId=initial'' then demo_text ''U1'' ''p2'' else demo_text ''U2'' ''end'')\<rparr>, s)"
    for url s
    by (simp add: demo_lib_def demo_client_def basicAuthTransport_RoundTrip_def SetBasicAuth_def Header_Set_def)
  have parse: "sh_Parse demo_lib url = Inr url" for url by (simp add: demo_lib_def)
  show ?thesis
    unfolding serves_pages_def Let_def req demo_url
    by (auto simp: parse demo_page_def demo_text_read)
qed

theorem users_of_all_pages_witness:
  "\<exists>q1. GetUsers demo_lib demo_client (Some (no_options\<lparr>qo_startID := InitialStartID\<rparr>)) ()
     = Some (Inr [demo_resource ''U1'', demo_resource ''U2''], Some q1, ())"
proof -
  have serves: "serves_pages demo_lib demo_client userPath (no_options\<lparr>qo_startID := InitialStartID\<rparr>) demo_page"
    using demo_serves by (simp add: serves_pages_def)
  have chain: "page_chain demo_page InitialStartID [[demo_resource ''U1''], [demo_resource ''U2'']]"
    by (rule more_pages [where nxt = "''p2''"], simp_all add: demo_page_def InitialStartID_def paginationEndID_def)
      (rule last_page [where nxt = "''end''"], simp_all add: demo_page_def paginationEndID_def)
  have start: "qo_startID (no_options\<lparr>qo_startID := InitialStartID\<rparr>) = InitialStartID" "InitialStartID \<noteq> []"
    by (simp_all add: InitialStartID_def)
  from users_of_all_pages [OF serves, unfolded start(1), OF start(2)] chain
  have "\<exists>q1. GetUsers demo_lib demo_client (Some (no_options\<lparr>qo_startID := InitialStartID\<rparr>)) ()
     = Some (Inr (concat [[demo_resource ''U1''], [demo_resource ''U2'']]), Some q1, ())"
    by blast
  then show ?thesis by simp
qed

text \<open>A server that repeats an id: the loop does not end.\<close>

lemma repeated_id_never_ends:
  assumes "serves_pages lib c path q page" "page (qo_startID q) = (rs, qo_startID q)"
    "qo_startID q \<noteq> []" "qo_startID q \<noteq> paginationEndID"
  shows "fetchAllResources lib c path (Some q) s = None"
proof -
  have no_chain: "sid \<noteq> qo_startID q" if "page_chain page sid ps" for sid ps
    using that by (induction) (use assms in auto)
  have "fetch_pages lib c path q [] s = None"
  proof (rule ccontr)
    assume "fetch_pages lib c path q [] s \<noteq> None"
    then obtain out where "fetch_pages lib c path q [] s = Some out" by blast
    from fetch_pages_returns [OF this assms(1) _ assms(3)] no_chain show False by auto
  qed
  then show ?thesis by (simp add: fetchAllResources_def)
qed

section \<open>Authentication\<close>

lemma scim_config_reads:
  assumes "scim_usable cfg"
  shows "GreenhouseSCIMConfigToSCIMConfig get_secret cfg ns \<noteq> None"
  using assms auth_types_distinct
  by (auto simp: scim_usable_def GreenhouseSCIMConfigToSCIMConfig_def secret_of_def Let_def split: sum.splits)

lemma unchecked_config_panics:
  assumes "scim_authType cfg = AuthTypeBearerToken" "secret_of (scim_bearerToken cfg) = None"
  shows "GreenhouseSCIMConfigToSCIMConfig get_secret cfg ns = None"
  using assms auth_types_distinct by (simp add: GreenhouseSCIMConfigToSCIMConfig_def Let_def)

text \<open>The header with which the requests of a client are authenticated.\<close>

definition credentials :: "(namespaced_name \<Rightarrow> go_error + secret) \<Rightarrow> scim_config \<Rightarrow> string \<Rightarrow> string \<Rightarrow> string \<Rightarrow> bool" where
  "credentials get_secret cfg ns header value \<longleftrightarrow>
     (let key_of = GetSecretKeyFromSecretKeyReference get_secret ns in
      if scim_authType cfg = AuthTypeBasic
      then header = ''Authorization'' \<and>
           (\<exists>u p username password.
              secret_of (scim_basicAuthUser cfg) = Some u \<and> key_of u = Inr username \<and> TrimSpace username \<noteq> [] \<and>
              secret_of (scim_basicAuthPw cfg) = Some p \<and> key_of p = Inr password \<and> TrimSpace password \<noteq> [] \<and>
              value = ''Basic '' @ EncodeToString64 (username @ '':'' @ password))
      else header = CanonicalMIMEHeaderKey (if scim_bearerHeader cfg = [] then ''Authorization'' else scim_bearerHeader cfg) \<and>
           (\<exists>t token. secret_of (scim_bearerToken cfg) = Some t \<and> key_of t = Inr token \<and> token \<noteq> [] \<and>
              value = (if scim_bearerPrefix cfg = [] then ''Bearer'' else scim_bearerPrefix cfg) @ '' '' @ token))"

lemma canonical_authorization: "CanonicalMIMEHeaderKey ''Authorization'' = ''Authorization''"
  by code_simp

lemma client_credentials:
  assumes cfg: "GreenhouseSCIMConfigToSCIMConfig get_secret cfg ns = Some (Inr cc)"
    and client: "NewSCIMClient lib cc = Inr c"
  shows "\<exists>header value. credentials get_secret cfg ns header value \<and>
    (\<forall>req. cl_transport c req = sh_DefaultTransport lib (req\<lparr>hq_header := smap_set header value (hq_header req)\<rparr>))"
proof (cases "scim_authType cfg = AuthTypeBasic")
  case True
  with cfg obtain u p username password where
    "secret_of (scim_basicAuthUser cfg) = Some u" "GetSecretKeyFromSecretKeyReference get_secret ns u = Inr username"
    "secret_of (scim_basicAuthPw cfg) = Some p" "GetSecretKeyFromSecretKeyReference get_secret ns p = Inr password"
    "sc_authType cc = AuthTypeBasic" "sc_basicAuth cc = Some \<lparr>ba_username = username, ba_password = password\<rparr>"
    by (auto simp: GreenhouseSCIMConfigToSCIMConfig_def Let_def split: option.splits sum.splits)
  with client True show ?thesis
    by (intro exI [of _ "''Authorization''"] exI [of _ "''Basic '' @ EncodeToString64 (username @ '':'' @ password)"])
      (auto simp: NewSCIMClient_def credentials_def basicAuthTransport_RoundTrip_def SetBasicAuth_def Header_Set_def
        canonical_authorization split: sum.splits if_splits)
next
  case False
  with cfg obtain t token where
    "secret_of (scim_bearerToken cfg) = Some t" "GetSecretKeyFromSecretKeyReference get_secret ns t = Inr token"
    "sc_authType cc = AuthTypeBearerToken"
    "sc_bearerToken cc = Some \<lparr>bt_token = token,
       bt_header = (if scim_bearerHeader cfg = [] then ''Authorization'' else scim_bearerHeader cfg),
       bt_prefix = (if scim_bearerPrefix cfg = [] then ''Bearer'' else scim_bearerPrefix cfg)\<rparr>"
    by (auto simp: GreenhouseSCIMConfigToSCIMConfig_def Let_def split: option.splits sum.splits if_splits)
  with client False auth_types_distinct show ?thesis
    by (intro exI [of _ "CanonicalMIMEHeaderKey (if scim_bearerHeader cfg = [] then ''Authorization'' else scim_bearerHeader cfg)"]
        exI [of _ "(if scim_bearerPrefix cfg = [] then ''Bearer'' else scim_bearerPrefix cfg) @ '' '' @ token"])
      (auto simp: NewSCIMClient_def credentials_def bearerTokenTransport_RoundTrip_def Header_Set_def
        split: sum.splits if_splits)
qed

text \<open>
  For every organization that the webhook has admitted, reading its SCIM configuration does not panic; and
  a client made from it sends every request through the default transport with one header added, which
  holds the credentials of the referenced secrets, never blank ones.
\<close>

theorem admitted_scim_client:
  assumes "admitted organization_webhook x org" "GetSCIMConfig org = Some cfg"
  shows "GreenhouseSCIMConfigToSCIMConfig get_secret cfg ns \<noteq> None
    \<and> (\<forall>cc c. GreenhouseSCIMConfigToSCIMConfig get_secret cfg ns = Some (Inr cc) \<and> NewSCIMClient lib cc = Inr c \<longrightarrow>
      (\<exists>header value. credentials get_secret cfg ns header value \<and>
        (\<forall>req. cl_transport c req = sh_DefaultTransport lib (req\<lparr>hq_header := smap_set header value (hq_header req)\<rparr>))))"
proof -
  from organization_wh.admitted_contract [OF assms(1)] assms(2) have "scim_usable cfg"
    by (simp add: organization_valid_def)
  then show ?thesis using scim_config_reads client_credentials by blast
qed

definition demo_scim :: scim_config where
  "demo_scim =
     \<lparr>scim_baseURL = ''s'', scim_authType = AuthTypeBearerToken, scim_basicAuthUser = None, scim_basicAuthPw = None,
      scim_bearerToken = Some \<lparr>vf_secret = Some \<lparr>sk_name = ''scim'', sk_key = ''token''\<rparr>\<rparr>, scim_bearerPrefix = [],
      scim_bearerHeader = ''x-token''\<rparr>"

definition demo_scim_org :: organization where
  "demo_scim_org = sample_org\<lparr>org_authentication := Some \<lparr>auth_oidc = None, auth_scim = Some demo_scim\<rparr>\<rparr>"

definition demo_token_secret :: secret where
  "demo_token_secret =
     \<lparr>o_name = ''scim'', o_namespace = ''my-org'', o_labels = [], o_annotations = [], o_finalizers = [],
      o_deletionTimestamp = None, o_ownerReferences = [], secret_type = ''Opaque'', secret_data = [(''token'', ''t0k'' @ [CHR 0x0A])]\<rparr>"

theorem admitted_scim_client_witness:
  "\<exists>cc c. GreenhouseSCIMConfigToSCIMConfig (\<lambda>_. Inr demo_token_secret) demo_scim ''my-org'' = Some (Inr cc)
     \<and> NewSCIMClient demo_lib cc = Inr c
     \<and> (\<exists>header value. credentials (\<lambda>_. Inr demo_token_secret) demo_scim ''my-org'' header value
          \<and> (\<forall>req. cl_transport c req
                = sh_DefaultTransport demo_lib (req\<lparr>hq_header := smap_set header value (hq_header req)\<rparr>)))"
proof -
  let ?cc = "\<lparr>sc_URL = ''s'', sc_authType = ''token'', sc_basicAuth = None,
     sc_bearerToken = Some \<lparr>bt_token = ''t0k'', bt_header = ''x-token'', bt_prefix = ''Bearer''\<rparr>\<rparr>"
  have cfg: "GreenhouseSCIMConfigToSCIMConfig (\<lambda>_. Inr demo_token_secret) demo_scim ''my-org'' = Some (Inr ?cc)"
    by code_simp
  obtain c where client: "NewSCIMClient demo_lib ?cc = Inr c"
    by (simp add: NewSCIMClient_def demo_lib_def AuthTypeBasic_def AuthTypeBearerToken_def)
  have adm: "admitted organization_webhook demo_scim_org demo_scim_org"
    by (rule admitted.create [where s = sample_reads and req = demo_scim_org])
      (simp_all add: webhook_dispatch organization_webhook_def DefaultOrganization_def
        ValidateCreateOrganization_def organization_errors_def validateMappedOrgAdminIDPGroup_def
        validateSCIMConfig_def GetSCIMConfig_def demo_scim_org_def sample_org_def demo_scim_def no_secret_def
        AuthTypeBasic_def AuthTypeBearerToken_def)
  have "GetSCIMConfig demo_scim_org = Some demo_scim" by (simp add: GetSCIMConfig_def demo_scim_org_def)
  from admitted_scim_client [OF adm this] cfg client show ?thesis by blast
qed


end
