(* ===== verification/Object_Store.thy ===== *)
theory Object_Store
  imports Kube_Objects
begin

text \<open>
  What the controllers rely on of the API server for the objects of one kind, as named predicates: \<open>stores\<close>
  says that a client reads what is stored and that a write without error has its effect, \<open>leaves\<close> that it does not
  touch another part of the state. Both speak of one caller at a time; any call may fail. From them follows what
  \<open>CreateOrPatch\<close> and the deletion of an object bring about.
\<close>

type_synonym ('o, 's) view = "'s \<Rightarrow> namespaced_name \<Rightarrow> 'o option"

definition stores :: "('a object_meta_scheme, 's) client \<Rightarrow> ('a object_meta_scheme, 's) view \<Rightarrow> bool" where
  "stores c look \<longleftrightarrow>
     (\<forall>k s x. cl_get c k s = Inr x \<longrightarrow> look s k = Some x \<and> ObjectKeyFromObject x = k) \<and>
     (\<forall>k s e. cl_get c k s = Inl e \<longrightarrow> IsNotFound e \<longrightarrow> look s k = None) \<and>
     (\<forall>x s s'. cl_create c x s = (None, s') \<longrightarrow> look s' (ObjectKeyFromObject x) = Some x) \<and>
     (\<forall>x s s' e. cl_create c x s = (Some e, s') \<longrightarrow> IsAlreadyExists e \<longrightarrow> look s (ObjectKeyFromObject x) \<noteq> None) \<and>
     (\<forall>x y s s'. cl_patch c x y s = (None, s') \<longrightarrow> look s' (ObjectKeyFromObject x) = Some x) \<and>
     (\<forall>x s s'. cl_update c x s = (None, s') \<longrightarrow> look s' (ObjectKeyFromObject x) = Some x) \<and>
     (\<forall>x s s'. cl_delete c x s = (None, s') \<longrightarrow> look s' (ObjectKeyFromObject x) = None) \<and>
     (\<forall>x s s' e. cl_delete c x s = (Some e, s') \<longrightarrow> IsNotFound e \<longrightarrow> look s' (ObjectKeyFromObject x) = None)"

definition leaves :: "('o, 's) client \<Rightarrow> ('s \<Rightarrow> 'v) \<Rightarrow> bool" where
  "leaves c view \<longleftrightarrow>
     (\<forall>x s. view (snd (cl_create c x s)) = view s) \<and>
     (\<forall>x s. view (snd (cl_update c x s)) = view s) \<and>
     (\<forall>x y s. view (snd (cl_patch c x y s)) = view s) \<and>
     (\<forall>x s. view (snd (cl_delete c x s)) = view s)"

text \<open>Writing an object changes no other object of its kind.\<close>

definition writes_own :: "('a object_meta_scheme, 's) client \<Rightarrow> ('a object_meta_scheme, 's) view \<Rightarrow> bool" where
  "writes_own c look \<longleftrightarrow>
     (\<forall>x s k. k \<noteq> ObjectKeyFromObject x \<longrightarrow> look (snd (cl_create c x s)) k = look s k) \<and>
     (\<forall>x y s k. k \<noteq> ObjectKeyFromObject x \<longrightarrow> look (snd (cl_patch c x y s)) k = look s k)"

lemma stores_get:
  assumes "stores c look"
  shows "cl_get c k s = Inr x \<Longrightarrow> look s k = Some x" "cl_get c k s = Inr x \<Longrightarrow> ObjectKeyFromObject x = k"
    "cl_get c k s = Inl e \<Longrightarrow> IsNotFound e \<Longrightarrow> look s k = None"
  using assms by (auto simp: stores_def)

lemma stores_write:
  assumes "stores c look"
  shows "cl_create c x s = (None, s') \<Longrightarrow> look s' (ObjectKeyFromObject x) = Some x"
    "cl_create c x s = (Some e, s') \<Longrightarrow> IsAlreadyExists e \<Longrightarrow> look s (ObjectKeyFromObject x) \<noteq> None"
    "cl_patch c x y s = (None, s') \<Longrightarrow> look s' (ObjectKeyFromObject x) = Some x"
    "cl_update c x s = (None, s') \<Longrightarrow> look s' (ObjectKeyFromObject x) = Some x"
  using assms by (auto simp: stores_def)

lemma stores_delete:
  assumes "stores c look"
  shows "cl_delete c x s = (None, s') \<Longrightarrow> look s' (ObjectKeyFromObject x) = None"
    "cl_delete c x s = (Some e, s') \<Longrightarrow> IsNotFound e \<Longrightarrow> look s' (ObjectKeyFromObject x) = None"
  using assms by (auto simp: stores_def)

lemma leavesD:
  assumes "leaves c view"
  shows "cl_create c x s = (r, s') \<Longrightarrow> view s' = view s" "cl_update c x s = (r, s') \<Longrightarrow> view s' = view s"
    "cl_patch c x y s = (r, s') \<Longrightarrow> view s' = view s" "cl_delete c x s = (r, s') \<Longrightarrow> view s' = view s"
  using assms unfolding leaves_def by (metis snd_conv)+

text \<open>
  After a successful \<open>CreateOrPatch\<close> the stored object is the result of the mutation, applied to the new object or
  to the one that was stored.
\<close>

lemma CreateOrPatch_stored:
  assumes store: "stores c look" and run: "CreateOrPatch c obj mutate s = ((res, None), s')"
    and key: "\<And>x y. mutate x = Inr y \<Longrightarrow> ObjectKeyFromObject y = ObjectKeyFromObject x"
  shows "\<exists>x y. mutate x = Inr y \<and> look s' (ObjectKeyFromObject obj) = Some y
    \<and> (x = obj \<or> look s (ObjectKeyFromObject obj) = Some x)"
proof (cases "cl_get c (ObjectKeyFromObject obj) s")
  case (Inl e)
  with run obtain obj' where m: "mutate obj = Inr obj'" and nf: "IsNotFound e"
    by (auto simp: CreateOrPatch_def split: if_splits sum.splits)
  have none: "look s (ObjectKeyFromObject obj) = None" by (rule stores_get(3) [OF store Inl nf])
  have "cl_create c obj' s = (None, s')"
  proof (cases "fst (cl_create c obj' s)")
    case None
    with run Inl nf m show ?thesis by (auto simp: CreateOrPatch_def split: prod.splits)
  next
    case (Some e')
    then obtain s1 where create: "cl_create c obj' s = (Some e', s1)" by (metis prod.collapse)
    with run Inl nf m have "IsAlreadyExists e'"
      by (auto simp: CreateOrPatch_def IgnoreAlreadyExists_def split: if_splits)
    from stores_write(2) [OF store create this] none key [OF m] show ?thesis by simp
  qed
  from stores_write(1) [OF store this] key [OF m] m show ?thesis by auto
next
  case (Inr cur)
  from stores_get(1,2) [OF store Inr] have cur: "look s (ObjectKeyFromObject obj) = Some cur"
    "ObjectKeyFromObject cur = ObjectKeyFromObject obj" by auto
  from run Inr have patch: "patch_object c cur mutate False s = ((res, None), s')"
    by (auto simp: CreateOrPatch_def split: if_splits)
  then obtain obj' where m: "mutate cur = Inr obj'" by (auto simp: patch_object_def split: sum.splits)
  show ?thesis
  proof (cases "cur = obj'")
    case True
    with patch m cur(1) show ?thesis by (auto simp: patch_object_def)
  next
    case False
    with patch m have "cl_patch c obj' cur s = (None, s')"
      by (auto simp: patch_object_def split: prod.splits option.splits)
    from stores_write(3) [OF store this] key [OF m] cur m show ?thesis by auto
  qed
qed

lemma CreateOrPatch_leaves:
  assumes "leaves c view" "CreateOrPatch c obj mutate s = (r, s')"
  shows "view s' = view s"
  using assms(2) leavesD [OF assms(1)]
  by (auto simp: CreateOrPatch_def patch_object_def split: sum.splits if_splits prod.splits option.splits)

text \<open>The use the controllers make of it: the result is only logged, the error is returned.\<close>

definition apply_object ::
  "('a object_meta_scheme, 's) client \<Rightarrow> 'a object_meta_scheme
     \<Rightarrow> ('a object_meta_scheme \<Rightarrow> go_error + 'a object_meta_scheme) \<Rightarrow> 's \<Rightarrow> go_error option \<times> 's" where
  "apply_object c obj mutate s = (case CreateOrPatch c obj mutate s of ((_, err), s1) \<Rightarrow> (err, s1))"

lemma apply_object_stored:
  assumes "stores c look" "apply_object c obj mutate s = (None, s')"
    "\<And>x y. mutate x = Inr y \<Longrightarrow> ObjectKeyFromObject y = ObjectKeyFromObject x"
  shows "\<exists>x y. mutate x = Inr y \<and> look s' (ObjectKeyFromObject obj) = Some y
    \<and> (x = obj \<or> look s (ObjectKeyFromObject obj) = Some x)"
  using assms(2) CreateOrPatch_stored [OF assms(1) _ assms(3)] by (auto simp: apply_object_def split: prod.splits)

lemma apply_object_leaves:
  assumes "leaves c view" "apply_object c obj mutate s = (r, s')"
  shows "view s' = view s"
  using assms(2) CreateOrPatch_leaves [OF assms(1)] by (auto simp: apply_object_def split: prod.splits)

lemma apply_object_other:
  assumes c: "stores c look" "writes_own c look" and run: "apply_object c obj mutate s = (r, s')"
    and key: "\<And>x y. mutate x = Inr y \<Longrightarrow> ObjectKeyFromObject y = ObjectKeyFromObject x"
    and k: "k \<noteq> ObjectKeyFromObject obj"
  shows "look s' k = look s k"
proof -
  have create: "look s1 k = look s k" if "cl_create c x s = (e, s1)" "ObjectKeyFromObject x = ObjectKeyFromObject obj" for x e s1
    using c(2) k that by (metis writes_own_def snd_conv)
  have patch: "look s1 k = look s k" if "cl_patch c x y s = (e, s1)" "ObjectKeyFromObject x = ObjectKeyFromObject obj" for x y e s1
    using c(2) k that by (metis writes_own_def snd_conv)
  show ?thesis
    using run key create patch stores_get(2) [OF c(1)]
    by (auto simp: apply_object_def CreateOrPatch_def patch_object_def split: sum.splits if_splits prod.splits option.splits)
qed

text \<open>The fact that an object of some form is stored, and the steps that keep it.\<close>

definition stored_as :: "('o, 's) view \<Rightarrow> namespaced_name \<Rightarrow> ('o \<Rightarrow> bool) \<Rightarrow> 's \<Rightarrow> bool" where
  "stored_as look k spec s \<longleftrightarrow> (\<exists>y. look s k = Some y \<and> spec y)"

lemma apply_object_establishes:
  assumes "stores c look" "apply_object c obj mutate s = (None, s')"
    and "\<And>x y. mutate x = Inr y \<Longrightarrow> ObjectKeyFromObject y = ObjectKeyFromObject x \<and> spec y"
  shows "stored_as look (ObjectKeyFromObject obj) spec s'"
  using apply_object_stored [OF assms(1,2)] assms(3) by (auto simp: stored_as_def)

lemma apply_object_frame:
  assumes "apply_object c obj mutate s = (r, s')" "leaves c look" "stored_as look k spec s"
  shows "stored_as look k spec s'"
  using assms apply_object_leaves [OF assms(2,1)] by (simp add: stored_as_def)

lemma apply_object_keeps:
  assumes "apply_object c obj mutate s = (r, s')" "stores c look" "writes_own c look" "k \<noteq> ObjectKeyFromObject obj"
    and "\<And>x y. mutate x = Inr y \<Longrightarrow> ObjectKeyFromObject y = ObjectKeyFromObject x" "stored_as look k spec s"
  shows "stored_as look k spec s'"
  using assms(6) apply_object_other [OF assms(2,3,1,5,4)] by (simp add: stored_as_def)

text \<open>Steps of which the first one that fails ends the sequence.\<close>

fun run_steps :: "('s \<Rightarrow> go_error option \<times> 's) list \<Rightarrow> 's \<Rightarrow> go_error option \<times> 's" where
  "run_steps [] s = (None, s)"
| "run_steps (f # fs) s = (case f s of (Some e, s1) \<Rightarrow> (Some e, s1) | (None, s1) \<Rightarrow> run_steps fs s1)"

lemma run_steps_invariant:
  assumes "run_steps fs s = (r, s')" "P s" "\<And>f s r s'. f \<in> set fs \<Longrightarrow> P s \<Longrightarrow> f s = (r, s') \<Longrightarrow> P s'"
  shows "P s'"
  using assms
proof (induction fs arbitrary: s)
  case (Cons f fs)
  obtain r1 s1 where f: "f s = (r1, s1)" by fastforce
  have "P s1" using Cons.prems(2,3) f by (metis list.set_intros(1))
  show ?case
  proof (cases r1)
    case None
    with Cons.prems(1) f have "run_steps fs s1 = (r, s')" by simp
    then show ?thesis by (rule Cons.IH [OF _ \<open>P s1\<close>]) (metis Cons.prems(3) list.set_intros(2))
  qed (use Cons.prems(1) f \<open>P s1\<close> in simp)
qed simp

text \<open>Steps that bring about their facts and keep those of the others bring about all of them.\<close>

lemma run_steps_establish:
  assumes "run_steps (map fst ps) s = (None, s')"
    and "\<And>f P s s'. (f, P) \<in> set ps \<Longrightarrow> f s = (None, s') \<Longrightarrow> P s'"
    and "\<And>f P Q s s'. (f, P) \<in> set ps \<Longrightarrow> Q \<in> Qs \<Longrightarrow> Q s \<Longrightarrow> f s = (None, s') \<Longrightarrow> Q s'"
    and "snd ` set ps \<subseteq> Qs" and "Q \<in> snd ` set ps \<or> Q \<in> Qs \<and> Q s"
  shows "Q s'"
  using assms
proof (induction ps arbitrary: s)
  case (Cons p ps)
  obtain f P where p: "p = (f, P)" by fastforce
  from Cons.prems(1) p obtain s1 where f: "f s = (None, s1)" and rest: "run_steps (map fst ps) s1 = (None, s')"
    by (auto split: prod.splits option.splits)
  have in_ps: "(f, P) \<in> set (p # ps)" by (simp add: p)
  show ?case
  proof (rule Cons.IH [OF rest])
    show "P' s2'" if "(f', P') \<in> set ps" "f' s2 = (None, s2')" for f' P' s2 s2'
      using Cons.prems(2) [of f' P' s2 s2'] that by simp
    show "Q' s2'" if "(f', P') \<in> set ps" "Q' \<in> Qs" "Q' s2" "f' s2 = (None, s2')" for f' P' Q' s2 s2'
      using Cons.prems(3) [of f' P' Q' s2 s2'] that by simp
    show "snd ` set ps \<subseteq> Qs" using Cons.prems(4) by auto
    from Cons.prems(5) consider "Q = P" | "Q \<in> snd ` set ps" | "Q \<in> Qs" "Q s" by (auto simp: p)
    then show "Q \<in> snd ` set ps \<or> Q \<in> Qs \<and> Q s1"
    proof cases
      case 1
      have "P \<in> Qs" using Cons.prems(4) by (simp add: p)
      with 1 Cons.prems(2) [of f P s s1] in_ps f show ?thesis by simp
    next
      case 3
      with Cons.prems(3) [of f P Q s s1] in_ps f show ?thesis by simp
    qed simp
  qed
qed auto

text \<open>A concrete client for a list of objects inside a state, for the witnesses.\<close>

definition stored_in :: "'a object_meta_scheme list \<Rightarrow> namespaced_name \<Rightarrow> 'a object_meta_scheme option" where
  "stored_in xs k = List.find (\<lambda>x. ObjectKeyFromObject x = k) xs"

definition list_client ::
  "('s \<Rightarrow> 'a object_meta_scheme list) \<Rightarrow> ('a object_meta_scheme list \<Rightarrow> 's \<Rightarrow> 's) \<Rightarrow> ('a object_meta_scheme, 's) client" where
  "list_client objs put =
     (let replace = (\<lambda>x s. put (x # filter (\<lambda>y. ObjectKeyFromObject y \<noteq> ObjectKeyFromObject x) (objs s)) s) in
     \<lparr>cl_get = (\<lambda>k s. case stored_in (objs s) k of
                   None \<Rightarrow> Inl (ApiError ReasonNotFound ''not found'' []) | Some x \<Rightarrow> Inr x),
      cl_create = (\<lambda>x s. case stored_in (objs s) (ObjectKeyFromObject x) of
                   None \<Rightarrow> (None, replace x s)
                 | Some _ \<Rightarrow> (Some (ApiError ReasonAlreadyExists ''exists'' []), s)),
      cl_update = (\<lambda>x s. (None, replace x s)),
      cl_patch = (\<lambda>x _ s. (None, replace x s)),
      cl_patch_status = (\<lambda>x _ s. (None, replace x s)),
      cl_delete = (\<lambda>x s. (None, put (filter (\<lambda>y. ObjectKeyFromObject y \<noteq> ObjectKeyFromObject x) (objs s)) s))\<rparr>)"

lemma list_client_stores:
  assumes "\<And>xs s. objs (put xs s) = xs"
  shows "stores (list_client objs put) (\<lambda>s. stored_in (objs s))"
  using assms
  by (auto simp: stores_def list_client_def Let_def stored_in_def find_None_iff find_Some_iff split: option.splits)
    (metis nth_mem)

lemma find_other:
  "k \<noteq> j \<Longrightarrow> List.find (\<lambda>y. ObjectKeyFromObject y = k) (filter (\<lambda>y. ObjectKeyFromObject y \<noteq> j) xs)
     = List.find (\<lambda>y. ObjectKeyFromObject y = k) xs"
  by (induction xs) auto

lemma list_client_writes_own:
  assumes "\<And>xs s. objs (put xs s) = xs"
  shows "writes_own (list_client objs put) (\<lambda>s. stored_in (objs s))"
  using assms by (auto simp: writes_own_def list_client_def Let_def stored_in_def find_other split: option.splits)

lemma list_client_leaves:
  assumes "\<And>xs s. view (put xs s) = view s"
  shows "leaves (list_client objs put) view"
  using assms by (auto simp: leaves_def list_client_def Let_def split: option.splits)

end
