(* ===== verification/Team_Controller.thy ===== *)
theory Team_Controller
  imports Scim Rbac_Types Object_Store Webhook_Plugin
begin

text \<open>
  The controller of teams (\<open>internal/controller/team\<close>): the members of a team are the users of the identity
  provider in its mapped group, and a support group gets a service account with the right to request tokens for
  it. The API server and the HTTP library are parameters over one state; the gauge of the member counts is
  changed through \<open>tm_gaugeSet\<close> and \<open>tm_gaugeDelete\<close>. \<open>None\<close> as the result of a call means that it does not return:
  it panics, or the server of the identity provider never ends its list. Logging and events are left out.
\<close>

section \<open>The environment\<close>

definition SCIMAccessReadyCondition :: condition_type where "SCIMAccessReadyCondition = ''SCIMAccessReady''"
definition SCIMAllMembersValidCondition :: condition_type where "SCIMAllMembersValidCondition = ''SCIMAllMembersValid''"
definition SCIMAPIAvailableCondition :: condition_type where "SCIMAPIAvailableCondition = ''SCIMAPIAvailable''"
definition SCIMAPIUnavailableReason :: condition_reason where "SCIMAPIUnavailableReason = ''SCIMAPIUnavailable''"
definition SecretNotFoundReason :: condition_reason where "SecretNotFoundReason = ''SecretNotFound''"
definition SCIMRequestFailedReason :: condition_reason where "SCIMRequestFailedReason = ''SCIMRequestFailed''"
definition SCIMConfigErrorReason :: condition_reason where "SCIMConfigErrorReason = ''SCIMConfigErrorReason''"

lemmas scim_condition_types = SCIMAccessReadyCondition_def SCIMAllMembersValidCondition_def ReadyCondition_def

record ('u, 's) team_env =
  tm_now :: time
  tm_http :: "('u, 's) scim_http"
  tm_get_secret :: "'s \<Rightarrow> namespaced_name \<Rightarrow> go_error + secret"
  tm_get_org :: "namespaced_name \<Rightarrow> 's \<Rightarrow> go_error + organization"
  tm_list_teams :: "string \<Rightarrow> 's \<Rightarrow> go_error + team list"
  tm_serviceAccounts :: "(object_meta, 's) client"
  tm_roles :: "(namespace_role, 's) client"
  tm_roleBindings :: "(role_binding, 's) client"
  tm_controllerRefs :: "team \<Rightarrow> owner_reference list \<Rightarrow> go_error + owner_reference list"
  tm_jitter :: "nat \<Rightarrow> nat"
  tm_gaugeSet :: "string smap \<Rightarrow> nat \<Rightarrow> 's \<Rightarrow> 's"
  tm_gaugeDelete :: "string smap \<Rightarrow> 's \<Rightarrow> 's"

text \<open>\<open>controllerutil.SetControllerReference\<close> changes the owner references or fails.\<close>

definition team_controllerRef :: "('u, 's) team_env \<Rightarrow> team \<Rightarrow> 'a object_meta_scheme \<Rightarrow> go_error + 'a object_meta_scheme" where
  "team_controllerRef env team obj =
     (case tm_controllerRefs env team (o_ownerReferences obj) of
        Inl e \<Rightarrow> Inl e | Inr refs \<Rightarrow> Inr (obj\<lparr>o_ownerReferences := refs\<rparr>))"

definition RequeueInterval :: nat where "RequeueInterval = 600"

definition team_exposedConditions :: "condition_type list" where
  "team_exposedConditions = [ReadyCondition, SCIMAccessReadyCondition, SCIMAllMembersValidCondition]"

section \<open>Metrics\<close>

definition team_metric_labels :: "team \<Rightarrow> string smap" where
  "team_metric_labels team = [(''organization'', o_namespace team), (''team'', o_name team)]"

definition updateTeamMembersCountMetric :: "('u, 's) team_env \<Rightarrow> team \<Rightarrow> nat \<Rightarrow> 's \<Rightarrow> 's" where
  "updateTeamMembersCountMetric env team membersCount s = tm_gaugeSet env (team_metric_labels team) membersCount s"

definition deleteTeamMembersCountMetric :: "('u, 's) team_env \<Rightarrow> team \<Rightarrow> 's \<Rightarrow> 's" where
  "deleteTeamMembersCountMetric env team s = tm_gaugeDelete env (team_metric_labels team) s"

section \<open>Members\<close>

definition user_of :: "scim_resource \<Rightarrow> user" where
  "user_of r = \<lparr>u_id = sr_userName r, u_firstName = FirstName r, u_lastName = LastName r, u_email = PrimaryEmail r\<rparr>"

definition user_malformed :: "user \<Rightarrow> bool" where
  "user_malformed u \<longleftrightarrow> u_id u = [] \<or> u_firstName u = [] \<or> u_lastName u = [] \<or> u_email u = []"

text \<open>The loop over the resources, with the users, the malformed and the inactive ones so far.\<close>

fun collect_users :: "scim_resource list \<Rightarrow> user list \<Rightarrow> nat \<Rightarrow> nat \<Rightarrow> user list \<times> nat \<times> nat" where
  "collect_users [] users malformed inactive = (users, malformed, inactive)"
| "collect_users (r # rs) users malformed inactive =
     (if user_malformed (user_of r) then collect_users rs users (malformed + 1) inactive
      else if \<not> ActiveUser r then collect_users rs users malformed (inactive + 1)
      else collect_users rs (users @ [user_of r]) malformed inactive)"

definition users_query :: "string \<Rightarrow> query_options" where
  "users_query mappedIDPGroup =
     \<lparr>qo_filter = UserFilterByGroupDisplayName mappedIDPGroup,
      qo_attributes = SetAttributes [AttrName, AttrEmails, AttrDisplayName, AttrActive],
      qo_excludedAttributes = [], qo_startID = InitialStartID\<rparr>"

definition getUsersFromSCIM ::
  "('u, 's) team_env \<Rightarrow> ('u, 's) scim_client \<Rightarrow> string \<Rightarrow> 's \<Rightarrow> ((go_error + (user list \<times> condition)) \<times> 's) option" where
  "getUsersFromSCIM env c mappedIDPGroup s =
     (case GetUsers (tm_http env) c (Some (users_query mappedIDPGroup)) s of
        None \<Rightarrow> None
      | Some (Inl e, _, s1) \<Rightarrow> Some (Inl e, s1)
      | Some (Inr resources, _, s1) \<Rightarrow>
          (case collect_users resources [] 0 0 of
             (users, malformed, inactive) \<Rightarrow>
               Some (Inr (users,
                 if inactive + malformed > 0
                 then FalseCondition (tm_now env) SCIMAllMembersValidCondition []
                        (''SCIM members with issues: '' @ Itoa inactive @ '' inactive, '' @ Itoa malformed @ '' malformed'')
                 else TrueCondition (tm_now env) SCIMAllMembersValidCondition [] []), s1)))"

definition createSCIMClient ::
  "('u, 's) team_env \<Rightarrow> string \<Rightarrow> scim_config \<Rightarrow> 's \<Rightarrow> (go_error + ('u, 's) scim_client) option" where
  "createSCIMClient env namespace scimConfig s =
     (case GreenhouseSCIMConfigToSCIMConfig (tm_get_secret env s) scimConfig namespace of
        None \<Rightarrow> None
      | Some (Inl e) \<Rightarrow> Some (Inl e)
      | Some (Inr cfg) \<Rightarrow> Some (NewSCIMClient (tm_http env) cfg))"

section \<open>Support groups\<close>

definition sa_name :: "team \<Rightarrow> string" where "sa_name team = o_name team @ ''-sa''"
definition token_role_name :: "team \<Rightarrow> string" where "token_role_name team = o_name team @ ''-sa-token-request''"

definition is_support_group :: "team \<Rightarrow> bool" where
  "is_support_group team \<longleftrightarrow> smap_val (o_labels team) LabelKeySupportGroup = ''true''"

definition reconcileSupportGroupServiceAccount :: "('u, 's) team_env \<Rightarrow> team \<Rightarrow> 's \<Rightarrow> go_error option \<times> 's" where
  "reconcileSupportGroupServiceAccount env team s =
     apply_object (tm_serviceAccounts env) (new_meta (o_namespace team) (sa_name team))
         (\<lambda>sa. team_controllerRef env team (sa\<lparr>o_labels := smap_set LabelKeyOwnedBy (o_name team) (o_labels sa)\<rparr>)) s"

definition token_request_rules :: "team \<Rightarrow> policy_rule list" where
  "token_request_rules team =
     [\<lparr>pr_verbs = [''create''], pr_apiGroups = [[]], pr_resources = [''serviceaccounts/token''],
       pr_resourceNames = [sa_name team], pr_nonResourceURLs = []\<rparr>]"

definition reconcileSupportGroupRole :: "('u, 's) team_env \<Rightarrow> team \<Rightarrow> 's \<Rightarrow> go_error option \<times> 's" where
  "reconcileSupportGroupRole env team s =
     apply_object (tm_roles env) (new_role (o_namespace team) (token_role_name team))
         (\<lambda>role. team_controllerRef env team (role\<lparr>ro_rules := token_request_rules team\<rparr>)) s"

definition support_subjects :: "team \<Rightarrow> subject list" where
  "support_subjects team =
     [\<lparr>sub_kind = rbac_GroupKind, sub_apiGroup = rbac_GroupName, sub_name = ''support-group:'' @ o_name team, sub_namespace = []\<rparr>,
      \<lparr>sub_kind = rbac_ServiceAccountKind, sub_apiGroup = [], sub_name = sa_name team, sub_namespace = o_namespace team\<rparr>]"

definition reconcileSupportGroupRoleBinding :: "('u, 's) team_env \<Rightarrow> team \<Rightarrow> 's \<Rightarrow> go_error option \<times> 's" where
  "reconcileSupportGroupRoleBinding env team s =
     apply_object (tm_roleBindings env) (new_binding (o_namespace team) (token_role_name team))
         (\<lambda>rb. team_controllerRef env team
            (rb\<lparr>rb_roleRef := \<lparr>rr_apiGroup = rbac_GroupName, rr_kind = ''Role'', rr_name = token_role_name team\<rparr>,
                rb_subjects := support_subjects team\<rparr>)) s"

text \<open>One of the three blocks of \<open>ensureSupportGroupResourcesDeleted\<close>: read, delete, ignore what is missing.\<close>

definition get_and_delete :: "('o, 's) client \<Rightarrow> namespaced_name \<Rightarrow> 's \<Rightarrow> go_error option \<times> 's" where
  "get_and_delete c k s =
     (case cl_get c k s of
        Inr x \<Rightarrow> (case cl_delete c x s of (err, s1) \<Rightarrow> (IgnoreNotFound err, s1))
      | Inl e \<Rightarrow> (IgnoreNotFound (Some e), s))"

definition ensureSupportGroupResourcesDeleted :: "('u, 's) team_env \<Rightarrow> team \<Rightarrow> 's \<Rightarrow> go_error option \<times> 's" where
  "ensureSupportGroupResourcesDeleted env team s =
     (let resource = \<lparr>nn_namespace = o_namespace team, nn_name = token_role_name team\<rparr> in
      case get_and_delete (tm_roleBindings env) resource s of
        (Some e, s1) \<Rightarrow> (Some e, s1)
      | (None, s1) \<Rightarrow>
          (case get_and_delete (tm_roles env) resource s1 of
             (Some e, s2) \<Rightarrow> (Some e, s2)
           | (None, s2) \<Rightarrow>
               get_and_delete (tm_serviceAccounts env) \<lparr>nn_namespace = o_namespace team, nn_name = sa_name team\<rparr> s2))"

definition reconcileSupportGroup :: "('u, 's) team_env \<Rightarrow> team \<Rightarrow> 's \<Rightarrow> go_error option \<times> 's" where
  "reconcileSupportGroup env team s =
     (case reconcileSupportGroupServiceAccount env team s of
        (Some e, s1) \<Rightarrow> (Some e, s1)
      | (None, s1) \<Rightarrow>
          (case reconcileSupportGroupRole env team s1 of
             (Some e, s2) \<Rightarrow> (Some e, s2)
           | (None, s2) \<Rightarrow> reconcileSupportGroupRoleBinding env team s2))"

section \<open>Reconciliation\<close>

definition init_condition :: "time \<Rightarrow> condition_type \<Rightarrow> team \<Rightarrow> team" where
  "init_condition now t team =
     (if GetConditionByType (o_conditions team) t = None then SetCondition now (UnknownCondition now t [] []) team else team)"

definition initTeamStatus :: "time \<Rightarrow> team \<Rightarrow> team" where
  "initTeamStatus now team = fold (init_condition now) team_exposedConditions team"

text \<open>\<open>EnsureCreated\<close> in two parts: the synchronisation of the members, and the steps before it.\<close>

definition synchronise_members ::
  "('u, 's) team_env \<Rightarrow> ('u, 's) scim_client \<Rightarrow> team \<Rightarrow> 's
     \<Rightarrow> ((ctrl_result \<times> reconcile_result \<times> go_error option) \<times> team \<times> 's) option" where
  "synchronise_members env c team s =
     (let now = tm_now env in
      case getUsersFromSCIM env c (team_mappedIDPGroup team) s of
        None \<Rightarrow> None
      | Some (Inl e, s1) \<Rightarrow>
          Some ((EmptyResult, Failed, Some e),
                SetCondition now (FalseCondition now SCIMAccessReadyCondition SCIMRequestFailedReason []) team, s1)
      | Some (Inr (users, membersValidCondition), s1) \<Rightarrow>
          (let team1 = (SetCondition now membersValidCondition team)\<lparr>team_members := users\<rparr>;
               team2 = SetCondition now (TrueCondition now SCIMAccessReadyCondition [] []) team1;
               s2 = updateTeamMembersCountMetric env team2 (length users) s1;
               again = \<lparr>Requeue = False, RequeueAfter = tm_jitter env RequeueInterval\<rparr>
           in if is_support_group team2
              then (case reconcileSupportGroup env team2 s2 of
                      (Some e, s3) \<Rightarrow> Some ((EmptyResult, Failed, Some e), team2, s3)
                    | (None, s3) \<Rightarrow> Some ((again, Success, None), team2, s3))
              else Some ((again, Success, None), team2, s2)))"

definition team_EnsureCreated ::
  "('u, 's) team_env \<Rightarrow> team \<Rightarrow> 's \<Rightarrow> ((ctrl_result \<times> reconcile_result \<times> go_error option) \<times> team \<times> 's) option" where
  "team_EnsureCreated env team0 s =
     (let now = tm_now env; team = initTeamStatus now team0;
          access_false = (\<lambda>reason msg. SetCondition now (FalseCondition now SCIMAccessReadyCondition reason msg) team)
      in case (if is_support_group team then (None, s) else ensureSupportGroupResourcesDeleted env team s) of
           (Some e, s1) \<Rightarrow> Some ((EmptyResult, Failed, Some e), team, s1)
         | (None, s1) \<Rightarrow>
             (case tm_get_org env \<lparr>nn_namespace = [], nn_name = o_namespace team\<rparr> s1 of
                Inl e \<Rightarrow> Some ((EmptyResult, Failed, IgnoreNotFound (Some e)), team, s1)
              | Inr org \<Rightarrow>
                  if team_mappedIDPGroup team = [] then Some ((EmptyResult, Success, None), team, s1)
                  else if (case GetConditionByType (o_conditions org) SCIMAPIAvailableCondition of
                             None \<Rightarrow> True | Some cond \<Rightarrow> \<not> IsTrue cond)
                  then Some ((EmptyResult, Success, None),
                             access_false SCIMAPIUnavailableReason ''SCIM API in Organization is unavailable'', s1)
                  else (case GetSCIMConfig org of
                          None \<Rightarrow> Some ((EmptyResult, Success, None),
                                     access_false SecretNotFoundReason ''SCIM config is missing from organization'', s1)
                        | Some cfg \<Rightarrow>
                            (case createSCIMClient env (o_namespace team) cfg s1 of
                               None \<Rightarrow> None
                             | Some (Inl e) \<Rightarrow>
                                 Some ((EmptyResult, Failed, Some e), access_false SCIMConfigErrorReason (error_text e), s1)
                             | Some (Inr c) \<Rightarrow> synchronise_members env c team s1))))"

definition team_EnsureDeleted ::
  "('u, 's) team_env \<Rightarrow> team \<Rightarrow> 's \<Rightarrow> (ctrl_result \<times> reconcile_result \<times> go_error option) \<times> team \<times> 's" where
  "team_EnsureDeleted env team s = ((EmptyResult, Success, None), team, deleteTeamMembersCountMetric env team s)"

definition team_EnsureSuspended :: "team \<Rightarrow> 's \<Rightarrow> (ctrl_result \<times> go_error option) \<times> team \<times> 's" where
  "team_EnsureSuspended team s = ((EmptyResult, None), team, s)"

text \<open>\<open>computeReadyCondition\<close> dereferences both conditions: \<open>None\<close> is the panic when one is missing.\<close>

definition team_computeReadyCondition :: "condition list \<Rightarrow> condition option" where
  "team_computeReadyCondition conditions =
     (case (GetConditionByType conditions ReadyCondition, GetConditionByType conditions SCIMAccessReadyCondition) of
        (Some ready, Some access) \<Rightarrow>
          if IsFalse access
          then Some (ready\<lparr>c_status := ConditionFalse, c_message := ''SCIM access not ready''\<rparr>)
          else Some (ready\<lparr>c_status := ConditionTrue, c_message := ''ready''\<rparr>)
      | _ \<Rightarrow> None)"

definition team_setConditions :: "time \<Rightarrow> team \<Rightarrow> 's \<Rightarrow> team" where
  "team_setConditions now team s =
     (case team_computeReadyCondition (o_conditions team) of None \<Rightarrow> team | Some ready \<Rightarrow> SetCondition now ready team)"

definition team_reconciler :: "('u, 's) team_env \<Rightarrow> (team, 's) reconciler" where
  "team_reconciler env =
     \<lparr>EnsureCreated = (\<lambda>team s. case team_EnsureCreated env team s of
                          Some out \<Rightarrow> out | None \<Rightarrow> ((EmptyResult, Failed, Some panic_error), team, s)),
      EnsureDeleted = team_EnsureDeleted env, EnsureSuspended = team_EnsureSuspended, CanBeSuspended = False,
      UpdateLastReconciledAtStatus = None\<rparr>"

definition team_Reconcile ::
  "('u, 's) team_env \<Rightarrow> (team, 's) client \<Rightarrow> namespaced_name \<Rightarrow> 's \<Rightarrow> (ctrl_result \<times> go_error option) \<times> 's" where
  "team_Reconcile env c key s =
     Reconcile (tm_now env) c (team_reconciler env) (Some (team_setConditions (tm_now env))) key s"

definition listTeamsAsReconcileRequests :: "('u, 's) team_env \<Rightarrow> string \<Rightarrow> 's \<Rightarrow> namespaced_name list" where
  "listTeamsAsReconcileRequests env namespace s =
     (case tm_list_teams env namespace s of Inl _ \<Rightarrow> [] | Inr teams \<Rightarrow> map ObjectKeyFromObject teams)"

definition enqueueAllTeamsForOrganization :: "('u, 's) team_env \<Rightarrow> 'a object_meta_scheme \<Rightarrow> 's \<Rightarrow> namespaced_name list" where
  "enqueueAllTeamsForOrganization env org s = listTeamsAsReconcileRequests env (o_name org) s"

section \<open>The status of a team\<close>

lemma team_SetCondition [simp]:
  "team_mappedIDPGroup (SetCondition now c t) = team_mappedIDPGroup t"
  "team_members (SetCondition now c t) = team_members t"
  by (simp_all add: SetCondition_def)

lemma is_support_group_fields [simp]:
  "is_support_group (SetCondition now c t) = is_support_group t"
  "is_support_group (t\<lparr>team_members := us\<rparr>) = is_support_group t"
  by (simp_all add: is_support_group_def)

lemma init_condition_fields [simp]:
  "o_name (init_condition now x t) = o_name t" "o_namespace (init_condition now x t) = o_namespace t"
  "o_labels (init_condition now x t) = o_labels t" "team_mappedIDPGroup (init_condition now x t) = team_mappedIDPGroup t"
  "team_members (init_condition now x t) = team_members t"
  by (simp_all add: init_condition_def)

lemma initTeamStatus_fields [simp]:
  "o_name (initTeamStatus now t) = o_name t" "o_namespace (initTeamStatus now t) = o_namespace t"
  "o_labels (initTeamStatus now t) = o_labels t" "team_mappedIDPGroup (initTeamStatus now t) = team_mappedIDPGroup t"
  "team_members (initTeamStatus now t) = team_members t" "is_support_group (initTeamStatus now t) = is_support_group t"
  by (simp_all add: initTeamStatus_def team_exposedConditions_def is_support_group_def)

lemma shown_init_condition:
  "shown_status (o_conditions (init_condition now x t)) y =
     (if y = x \<and> shown_status (o_conditions t) y = None then Some ConditionUnknown else shown_status (o_conditions t) y)"
  by (cases "shown_status (o_conditions t) x")
    (auto simp: init_condition_def shown_SetCondition shown_status_None_iff condition_constructors)

lemma shown_initTeamStatus:
  "shown_status (o_conditions (initTeamStatus now t)) y =
     (if y \<in> set team_exposedConditions \<and> shown_status (o_conditions t) y = None then Some ConditionUnknown
      else shown_status (o_conditions t) y)"
proof -
  have "shown_status (o_conditions (fold (init_condition now) ts t)) y =
     (if y \<in> set ts \<and> shown_status (o_conditions t) y = None then Some ConditionUnknown
      else shown_status (o_conditions t) y)" for ts
    by (induction ts arbitrary: t) (auto simp: shown_init_condition)
  then show ?thesis unfolding initTeamStatus_def .
qed

definition status_complete :: "team \<Rightarrow> bool" where
  "status_complete t \<longleftrightarrow> (\<forall>y \<in> set team_exposedConditions. shown_status (o_conditions t) y \<noteq> None)"

lemma status_complete_init [simp]: "status_complete (initTeamStatus now t)"
  by (simp add: status_complete_def shown_initTeamStatus)

lemma status_complete_set [simp]: "status_complete t \<Longrightarrow> status_complete (SetCondition now c t)"
  by (simp add: status_complete_def shown_SetCondition)

lemma status_complete_members [simp]: "status_complete (t\<lparr>team_members := us\<rparr>) = status_complete t"
  by (simp add: status_complete_def)

lemma synchronise_members_status:
  assumes "synchronise_members env c t s = Some (out, t', s')" "status_complete t"
  shows "status_complete t'"
  using assms by (auto simp: synchronise_members_def Let_def split: option.splits sum.splits if_splits prod.splits)

lemma team_EnsureCreated_status:
  assumes "team_EnsureCreated env t s = Some (out, t', s')"
  shows "status_complete t'"
  using assms
  by (auto simp: team_EnsureCreated_def Let_def split: option.splits sum.splits if_splits prod.splits
      intro: synchronise_members_status)

text \<open>
  After every run that returns, all conditions of the team are there, so the computation of Ready does not
  panic; and Ready is shown as True exactly when SCIM access is not shown as False.
\<close>

theorem team_ready_iff:
  assumes "team_EnsureCreated env t s = Some (out, t', s')"
  shows "team_computeReadyCondition (o_conditions t') \<noteq> None
    \<and> shown_status (o_conditions (team_setConditions now t' s')) ReadyCondition
        = Some (if shown_status (o_conditions t') SCIMAccessReadyCondition = Some ConditionFalse
                then ConditionFalse else ConditionTrue)"
proof -
  from team_EnsureCreated_status [OF assms] obtain ready access where
    get: "GetConditionByType (o_conditions t') ReadyCondition = Some ready"
      "GetConditionByType (o_conditions t') SCIMAccessReadyCondition = Some access"
    by (auto simp: status_complete_def team_exposedConditions_def shown_status_def)
  have "c_type ready = ReadyCondition" using GetConditionByType_SomeD [OF get(1)] by simp
  then have "shown_status (o_conditions (SetCondition now (ready\<lparr>c_status := st, c_message := m\<rparr>) t')) ReadyCondition = Some st"
    for st m by (simp add: shown_SetCondition)
  with get show ?thesis
    by (simp add: team_computeReadyCondition_def team_setConditions_def IsFalse_def)
      (simp add: shown_status_def)
qed

section \<open>Members\<close>

definition valid_member :: "scim_resource \<Rightarrow> bool" where
  "valid_member r \<longleftrightarrow> ActiveUser r \<and> \<not> user_malformed (user_of r)"

lemma collect_users_spec:
  "collect_users rs us m i =
     (us @ map user_of (filter valid_member rs), m + length (filter (\<lambda>r. user_malformed (user_of r)) rs),
      i + length (filter (\<lambda>r. \<not> ActiveUser r \<and> \<not> user_malformed (user_of r)) rs))"
  by (induction rs us m i rule: collect_users.induct) (auto simp: valid_member_def)

lemma no_issues_iff:
  "length (filter (\<lambda>r. \<not> ActiveUser r \<and> \<not> user_malformed (user_of r)) rs)
     + length (filter (\<lambda>r. user_malformed (user_of r)) rs) = 0 \<longleftrightarrow> list_all valid_member rs"
  by (induction rs) (auto simp: valid_member_def)

lemma getUsersFromSCIM_pages:
  assumes "serves_pages (tm_http env) c userPath (users_query g) page" "page_chain page InitialStartID ps"
  shows "\<exists>cond. getUsersFromSCIM env c g s = Some (Inr (map user_of (filter valid_member (concat ps)), cond), s)
    \<and> c_type cond = SCIMAllMembersValidCondition
    \<and> c_status cond = (if list_all valid_member (concat ps) then ConditionTrue else ConditionFalse)"
proof -
  have q: "(users_query g)\<lparr>qo_startID := InitialStartID\<rparr> = users_query g" "InitialStartID \<noteq> []"
    by (simp_all add: users_query_def InitialStartID_def)
  from fetch_pages_chain [OF assms(2,1) q(2), of "[]" s] q(1) obtain q1
    where "GetUsers (tm_http env) c (Some (users_query g)) s = Some (Inr (concat ps), Some q1, s)"
    by (auto simp: GetUsers_def fetchAllResources_def)
  then show ?thesis
    using no_issues_iff [of "concat ps"] by (auto simp: getUsersFromSCIM_def collect_users_spec condition_constructors)
qed

text \<open>
  C4. When the organization's SCIM API is available and its server ends the list of the mapped group, a run
  returns, and the members of the team are exactly the active users with all four fields on all pages, in their
  order; the condition on the members says whether there were others. Only a failed cleanup of a team that is no
  support group comes before.
\<close>

theorem team_members_of_group:
  assumes org: "\<And>s. tm_get_org env \<lparr>nn_namespace = [], nn_name = o_namespace t\<rparr> s = Inr org"
    and available: "shown_status (o_conditions org) SCIMAPIAvailableCondition = Some ConditionTrue"
    and cfg: "GetSCIMConfig org = Some cfg" and group: "team_mappedIDPGroup t \<noteq> []"
    and client: "\<And>s. createSCIMClient env (o_namespace t) cfg s = Some (Inr c)"
    and pages: "serves_pages (tm_http env) c userPath (users_query (team_mappedIDPGroup t)) page"
      "page_chain page InitialStartID ps"
    and cleanup: "is_support_group t \<or> fst (ensureSupportGroupResourcesDeleted env (initTeamStatus (tm_now env) t) s) = None"
  shows "\<exists>out t' s'. team_EnsureCreated env t s = Some (out, t', s')
    \<and> team_members t' = map user_of (filter valid_member (concat ps))
    \<and> shown_status (o_conditions t') SCIMAccessReadyCondition = Some ConditionTrue
    \<and> shown_status (o_conditions t') SCIMAllMembersValidCondition
        = Some (if list_all valid_member (concat ps) then ConditionTrue else ConditionFalse)"
proof -
  let ?t = "initTeamStatus (tm_now env) t"
  from cleanup obtain s1 where clean:
    "(if is_support_group ?t then (None, s) else ensureSupportGroupResourcesDeleted env ?t s) = (None, s1)"
    by (cases "ensureSupportGroupResourcesDeleted env ?t s"; cases "is_support_group t") auto
  from available obtain cond where cond: "GetConditionByType (o_conditions org) SCIMAPIAvailableCondition = Some cond" "IsTrue cond"
    by (auto simp: shown_status_def IsTrue_def)
  have run: "team_EnsureCreated env t s = synchronise_members env c ?t s1"
    using group unfolding team_EnsureCreated_def Let_def clean by (simp add: org cond cfg client)
  from getUsersFromSCIM_pages [OF pages] obtain vc where users:
    "getUsersFromSCIM env c (team_mappedIDPGroup t) s1 = Some (Inr (map user_of (filter valid_member (concat ps)), vc), s1)"
    "c_type vc = SCIMAllMembersValidCondition"
    "c_status vc = (if list_all valid_member (concat ps) then ConditionTrue else ConditionFalse)"
    by blast
  let ?t2 = "SetCondition (tm_now env) (TrueCondition (tm_now env) SCIMAccessReadyCondition [] [])
    ((SetCondition (tm_now env) vc ?t)\<lparr>team_members := map user_of (filter valid_member (concat ps))\<rparr>)"
  have "\<exists>out s'. synchronise_members env c ?t s1 = Some (out, ?t2, s')"
    by (auto simp: synchronise_members_def Let_def users split: prod.splits option.splits)
  moreover have "shown_status (o_conditions ?t2) SCIMAccessReadyCondition = Some ConditionTrue
    \<and> shown_status (o_conditions ?t2) SCIMAllMembersValidCondition = Some (c_status vc)"
    by (simp add: shown_SetCondition users(2) condition_constructors scim_condition_types)
  ultimately show ?thesis using run users(3) by auto
qed

text \<open>
  A team whose group is no longer mapped keeps the members and the conditions of the last synchronisation, and a
  support group without a mapped group gets no service account.
\<close>

lemma unmapped_team_unchanged:
  assumes "team_mappedIDPGroup t = []" "team_EnsureCreated env t s = Some (out, t', s')"
  shows "team_members t' = team_members t" "t' = initTeamStatus (tm_now env) t"
  using assms by (auto simp: team_EnsureCreated_def Let_def split: option.splits sum.splits if_splits prod.splits)

lemma unmapped_support_group:
  assumes "team_mappedIDPGroup t = []" "is_support_group t" "team_EnsureCreated env t s = Some (out, t', s')"
  shows "s' = s"
  using assms by (auto simp: team_EnsureCreated_def Let_def split: option.splits sum.splits if_splits prod.splits)


section \<open>Support groups\<close>

lemma team_controllerRef_Inr:
  "team_controllerRef env t x = Inr y \<longleftrightarrow>
     (\<exists>refs. tm_controllerRefs env t (o_ownerReferences x) = Inr refs \<and> y = x\<lparr>o_ownerReferences := refs\<rparr>)"
  by (auto simp: team_controllerRef_def split: sum.splits)

lemma key_fields:
  "ObjectKeyFromObject (x\<lparr>o_ownerReferences := refs\<rparr>) = ObjectKeyFromObject x"
  "ObjectKeyFromObject (x\<lparr>o_labels := ls\<rparr>) = ObjectKeyFromObject x"
  "ObjectKeyFromObject (r\<lparr>ro_rules := rules\<rparr>) = ObjectKeyFromObject r"
  "ObjectKeyFromObject (b\<lparr>rb_roleRef := ref, rb_subjects := subs\<rparr>) = ObjectKeyFromObject b"
  "ObjectKeyFromObject (new_meta ns n) = \<lparr>nn_namespace = ns, nn_name = n\<rparr>"
  "ObjectKeyFromObject (new_role ns n) = \<lparr>nn_namespace = ns, nn_name = n\<rparr>"
  "ObjectKeyFromObject (new_binding ns n) = \<lparr>nn_namespace = ns, nn_name = n\<rparr>"
  by (simp_all add: ObjectKeyFromObject_def new_meta_def new_role_def new_binding_def)

lemmas support_group_steps =
  reconcileSupportGroupServiceAccount_def reconcileSupportGroupRole_def reconcileSupportGroupRoleBinding_def

lemma service_account_stored:
  assumes "stores (tm_serviceAccounts env) look" "reconcileSupportGroupServiceAccount env t s = (None, s')"
  shows "\<exists>sa. look s' \<lparr>nn_namespace = o_namespace t, nn_name = sa_name t\<rparr> = Some sa
    \<and> smap_get (o_labels sa) LabelKeyOwnedBy = Some (o_name t)"
  using apply_object_stored [OF assms(1) assms(2) [unfolded support_group_steps]]
  by (fastforce simp: team_controllerRef_Inr key_fields smap_simps)

lemma token_role_stored:
  assumes "stores (tm_roles env) look" "reconcileSupportGroupRole env t s = (None, s')"
  shows "\<exists>r. look s' \<lparr>nn_namespace = o_namespace t, nn_name = token_role_name t\<rparr> = Some r \<and> ro_rules r = token_request_rules t"
  using apply_object_stored [OF assms(1) assms(2) [unfolded support_group_steps]]
  by (fastforce simp: team_controllerRef_Inr key_fields)

lemma token_binding_stored:
  assumes "stores (tm_roleBindings env) look" "reconcileSupportGroupRoleBinding env t s = (None, s')"
  shows "\<exists>b. look s' \<lparr>nn_namespace = o_namespace t, nn_name = token_role_name t\<rparr> = Some b
    \<and> rb_roleRef b = \<lparr>rr_apiGroup = rbac_GroupName, rr_kind = ''Role'', rr_name = token_role_name t\<rparr>
    \<and> rb_subjects b = support_subjects t"
  using apply_object_stored [OF assms(1) assms(2) [unfolded support_group_steps]]
  by (fastforce simp: team_controllerRef_Inr key_fields)

text \<open>The three views of the server that the controller writes to, and that its clients write only to their own.\<close>

definition separate_stores ::
  "('u, 's) team_env \<Rightarrow> (object_meta, 's) view \<Rightarrow> (namespace_role, 's) view \<Rightarrow> (role_binding, 's) view \<Rightarrow> bool" where
  "separate_stores env accounts roles bindings \<longleftrightarrow>
     stores (tm_serviceAccounts env) accounts \<and> stores (tm_roles env) roles \<and> stores (tm_roleBindings env) bindings \<and>
     leaves (tm_serviceAccounts env) (\<lambda>s. (roles s, bindings s)) \<and> leaves (tm_roles env) (\<lambda>s. (accounts s, bindings s)) \<and>
     leaves (tm_roleBindings env) (\<lambda>s. (accounts s, roles s))"

lemma support_group_stored:
  assumes sep: "separate_stores env accounts roles bindings" and run: "reconcileSupportGroup env t s = (None, s')"
  shows "(\<exists>sa. accounts s' \<lparr>nn_namespace = o_namespace t, nn_name = sa_name t\<rparr> = Some sa
      \<and> smap_get (o_labels sa) LabelKeyOwnedBy = Some (o_name t))
    \<and> (\<exists>r. roles s' \<lparr>nn_namespace = o_namespace t, nn_name = token_role_name t\<rparr> = Some r
      \<and> ro_rules r = token_request_rules t)
    \<and> (\<exists>b. bindings s' \<lparr>nn_namespace = o_namespace t, nn_name = token_role_name t\<rparr> = Some b
      \<and> rb_roleRef b = \<lparr>rr_apiGroup = rbac_GroupName, rr_kind = ''Role'', rr_name = token_role_name t\<rparr>
      \<and> rb_subjects b = support_subjects t)"
proof -
  from run obtain s1 s2 where steps: "reconcileSupportGroupServiceAccount env t s = (None, s1)"
    "reconcileSupportGroupRole env t s1 = (None, s2)" "reconcileSupportGroupRoleBinding env t s2 = (None, s')"
    by (auto simp: reconcileSupportGroup_def split: prod.splits option.splits)
  from sep have st: "stores (tm_serviceAccounts env) accounts" "stores (tm_roles env) roles" "stores (tm_roleBindings env) bindings"
    and lv: "leaves (tm_roles env) (\<lambda>s. (accounts s, bindings s))" "leaves (tm_roleBindings env) (\<lambda>s. (accounts s, roles s))"
    unfolding separate_stores_def by blast+
  have "accounts s2 = accounts s1"
    using apply_object_leaves [OF lv(1) steps(2) [unfolded support_group_steps]] by simp
  moreover have "accounts s' = accounts s2" "roles s' = roles s2"
    using apply_object_leaves [OF lv(2) steps(3) [unfolded support_group_steps]] by simp_all
  ultimately show ?thesis
    using service_account_stored [OF st(1) steps(1)] token_role_stored [OF st(2) steps(2)]
      token_binding_stored [OF st(3) steps(3)] by simp
qed

lemma synchronise_members_cases:
  assumes "synchronise_members env c t s = Some (out, t', s')"
  shows "(\<exists>e. getUsersFromSCIM env c (team_mappedIDPGroup t) s = Some (Inl e, s') \<and> out = (EmptyResult, Failed, Some e))
    \<or> (\<exists>users vc s1. getUsersFromSCIM env c (team_mappedIDPGroup t) s = Some (Inr (users, vc), s1)
        \<and> t' = SetCondition (tm_now env) (TrueCondition (tm_now env) SCIMAccessReadyCondition [] [])
                 ((SetCondition (tm_now env) vc t)\<lparr>team_members := users\<rparr>)
        \<and> (if is_support_group t
           then \<exists>err. reconcileSupportGroup env t' (updateTeamMembersCountMetric env t' (length users) s1) = (err, s')
                  \<and> snd (snd out) = err
           else s' = updateTeamMembersCountMetric env t' (length users) s1))"
proof (cases "getUsersFromSCIM env c (team_mappedIDPGroup t) s")
  case None
  with assms show ?thesis by (simp add: synchronise_members_def)
next
  case (Some a)
  obtain r s1 where a: "a = (r, s1)" by fastforce
  show ?thesis
  proof (cases r)
    case (Inl e)
    with assms Some a show ?thesis by (simp add: synchronise_members_def Let_def)
  next
    case (Inr b)
    obtain users vc where b: "b = (users, vc)" by fastforce
    show ?thesis
      using assms Some a Inr b
      by (cases "is_support_group t")
        (auto simp: synchronise_members_def Let_def split: prod.splits option.splits)
  qed
qed

text \<open>Only a complete synchronisation asks for the next one.\<close>

lemma requeued_run:
  assumes "team_EnsureCreated env t s = Some ((res, rr, None), t', s')" "RequeueAfter res \<noteq> 0" "is_support_group t"
  shows "\<exists>t2 s2. reconcileSupportGroup env t2 s2 = (None, s') \<and> o_name t2 = o_name t \<and> o_namespace t2 = o_namespace t"
proof -
  from assms obtain c s1 where "synchronise_members env c (initTeamStatus (tm_now env) t) s1 = Some ((res, rr, None), t', s')"
    by (auto simp: team_EnsureCreated_def Let_def EmptyResult_def split: option.splits sum.splits if_splits prod.splits)
  from synchronise_members_cases [OF this] assms(3) obtain s2 where "reconcileSupportGroup env t' s2 = (None, s')"
    "o_name t' = o_name t" "o_namespace t' = o_namespace t"
    by auto
  then show ?thesis by blast
qed

text \<open>
  C5. After a run for a support group that asks for the next synchronisation, its service account is owned by the
  team, and the group and the service account are bound to a role whose only right is to request tokens of this one
  service account.
\<close>

theorem support_group_access:
  assumes "team_EnsureCreated env t s = Some ((res, rr, None), t', s')" "RequeueAfter res \<noteq> 0" "is_support_group t"
    and "separate_stores env accounts roles bindings"
  shows "(\<exists>sa. accounts s' \<lparr>nn_namespace = o_namespace t, nn_name = sa_name t\<rparr> = Some sa
      \<and> smap_get (o_labels sa) LabelKeyOwnedBy = Some (o_name t))
    \<and> (\<exists>r. roles s' \<lparr>nn_namespace = o_namespace t, nn_name = token_role_name t\<rparr> = Some r
      \<and> ro_rules r = token_request_rules t)
    \<and> (\<exists>b. bindings s' \<lparr>nn_namespace = o_namespace t, nn_name = token_role_name t\<rparr> = Some b
      \<and> rb_roleRef b = \<lparr>rr_apiGroup = rbac_GroupName, rr_kind = ''Role'', rr_name = token_role_name t\<rparr>
      \<and> rb_subjects b = support_subjects t)"
proof -
  from requeued_run [OF assms(1-3)] obtain t2 s2 where run: "reconcileSupportGroup env t2 s2 = (None, s')"
    and names: "o_name t2 = o_name t" "o_namespace t2 = o_namespace t" by blast
  have same: "sa_name t2 = sa_name t" "token_role_name t2 = token_role_name t" "token_request_rules t2 = token_request_rules t"
    "support_subjects t2 = support_subjects t"
    using names by (simp_all add: sa_name_def token_role_name_def token_request_rules_def support_subjects_def)
  from support_group_stored [OF assms(4) run] show ?thesis unfolding names same .
qed

section \<open>Teams that are no support groups\<close>













section \<open>Witnesses\<close>

record team_state =
  ts_accounts :: "object_meta list"
  ts_roles :: "namespace_role list"
  ts_bindings :: "role_binding list"

definition member_json :: "string \<Rightarrow> bool \<Rightarrow> json" where
  "member_json user active =
     JObj [(''userName'', JStr user), (''name'', JObj [(''givenName'', JStr ''G''), (''familyName'', JStr ''F'')]),
           (''active'', JBool active), (''emails'', JArr [demo_email])]"

text \<open>A server that answers every request with one page of an active and an inactive user.\<close>

definition team_answer :: string where
  "team_answer = print_json (JObj [(''Resources'', JArr [member_json ''U1'' True, member_json ''U2'' False]), (''nextId'', JStr ''end'')])"

definition team_resource :: "string \<Rightarrow> bool \<Rightarrow> scim_resource" where
  "team_resource user active =
     (demo_resource user)\<lparr>sr_name := \<lparr>un_familyName = ''F'', un_givenName = ''G''\<rparr>, sr_active := active\<rparr>"

definition wit_http :: "(string, team_state) scim_http" where
  "wit_http =
     \<lparr>sh_Parse = Inr, sh_JoinPath = (\<lambda>u p. u @ ''/'' @ p), sh_SetRawQuery = (\<lambda>q u. u @ ''?'' @ q), sh_String = (\<lambda>u. u),
      sh_Do = (\<lambda>rt req s. rt req s),
      sh_DefaultTransport = (\<lambda>req s. (Inr \<lparr>hp_statusCode = 200, hp_body = Inr team_answer\<rparr>, s)),
      sh_json_error = (\<lambda>_. PlainError ''json'')\<rparr>"

definition wit_org :: organization where
  "wit_org = demo_scim_org\<lparr>o_conditions := [TrueCondition 5 SCIMAPIAvailableCondition [] []]\<rparr>"

definition wit_env :: "(string, team_state) team_env" where
  "wit_env =
     \<lparr>tm_now = 5, tm_http = wit_http, tm_get_secret = (\<lambda>_ _. Inr demo_token_secret), tm_get_org = (\<lambda>_ _. Inr wit_org),
      tm_list_teams = (\<lambda>_ _. Inr []),
      tm_serviceAccounts = list_client ts_accounts (\<lambda>xs s. s\<lparr>ts_accounts := xs\<rparr>),
      tm_roles = list_client ts_roles (\<lambda>xs s. s\<lparr>ts_roles := xs\<rparr>),
      tm_roleBindings = list_client ts_bindings (\<lambda>xs s. s\<lparr>ts_bindings := xs\<rparr>),
      tm_controllerRefs = (\<lambda>_ refs. Inr refs), tm_jitter = (\<lambda>n. n), tm_gaugeSet = (\<lambda>_ _ s. s), tm_gaugeDelete = (\<lambda>_ s. s)\<rparr>"

definition wit_team :: "bool \<Rightarrow> team" where
  "wit_team support =
     \<lparr>o_name = ''ops'', o_namespace = ''my-org'', o_labels = (if support then [(LabelKeySupportGroup, ''true'')] else []),
      o_annotations = [], o_finalizers = [], o_deletionTimestamp = None, o_ownerReferences = [], o_conditions = [],
      team_description = [], team_mappedIDPGroup = ''OPS'', team_joinURL = [], team_members = []\<rparr>"

definition wit_state :: team_state where
  "wit_state = \<lparr>ts_accounts = [new_meta ''my-org'' ''ops-sa''], ts_roles = [new_role ''my-org'' ''ops-sa-token-request''], ts_bindings = []\<rparr>"

lemma wit_separate:
  "separate_stores wit_env (\<lambda>s. stored_in (ts_accounts s)) (\<lambda>s. stored_in (ts_roles s)) (\<lambda>s. stored_in (ts_bindings s))"
  by (simp add: separate_stores_def wit_env_def list_client_stores list_client_leaves)

lemma wit_runs:
  "case team_EnsureCreated wit_env (wit_team True) wit_state of
     Some ((res, _, err), _, _) \<Rightarrow> err = None \<and> RequeueAfter res \<noteq> 0 | None \<Rightarrow> False"
  "case team_EnsureCreated wit_env (wit_team False) wit_state of Some _ \<Rightarrow> True | None \<Rightarrow> False"
  "fst (ensureSupportGroupResourcesDeleted wit_env (initTeamStatus 5 (wit_team False)) wit_state) = None"
  by code_simp+



theorem support_group_access_witness:
  "\<exists>out t' s'. team_EnsureCreated wit_env (wit_team True) wit_state = Some (out, t', s')
     \<and> (\<exists>r. stored_in (ts_roles s') \<lparr>nn_namespace = ''my-org'', nn_name = ''ops-sa-token-request''\<rparr> = Some r
          \<and> ro_rules r = token_request_rules (wit_team True))"
proof -
  from wit_runs(1) obtain res rr t' s' where run: "team_EnsureCreated wit_env (wit_team True) wit_state = Some ((res, rr, None), t', s')"
    and again: "RequeueAfter res \<noteq> 0"
    by (auto split: option.splits)
  have "is_support_group (wit_team True)" by code_simp
  from support_group_access [OF run again this wit_separate] run show ?thesis
    by (simp add: wit_team_def token_role_name_def)
qed

theorem team_ready_iff_witness:
  "\<exists>out t' s'. team_EnsureCreated wit_env (wit_team False) wit_state = Some (out, t', s')
     \<and> team_computeReadyCondition (o_conditions t') \<noteq> None"
proof -
  from wit_runs(2) obtain out t' s' where run: "team_EnsureCreated wit_env (wit_team False) wit_state = Some (out, t', s')"
    by (auto split: option.splits)
  with team_ready_iff [OF run] show ?thesis by blast
qed

lemma wit_page: "unmarshal_body team_answer
    = Some (zero_body\<lparr>rb_resources := [team_resource ''U1'' True, team_resource ''U2'' False], rb_nextID := ''end''\<rparr>)"
  by code_simp

theorem team_members_of_group_witness:
  "\<exists>out t' s'. team_EnsureCreated wit_env (wit_team True) wit_state = Some (out, t', s')
     \<and> team_members t' = [\<lparr>u_id = ''U1'', u_firstName = ''G'', u_lastName = ''F'', u_email = ''a@b.c''\<rparr>]
     \<and> shown_status (o_conditions t') SCIMAllMembersValidCondition = Some ConditionFalse"
proof -
  let ?page = "\<lambda>_. ([team_resource ''U1'' True, team_resource ''U2'' False], ''end'')"
  let ?c = "\<lparr>cl_baseURL = ''s'', cl_transport = bearerTokenTransport_RoundTrip
     \<lparr>bt_token = ''t0k'', bt_header = ''x-token'', bt_prefix = ''Bearer''\<rparr> (sh_DefaultTransport wit_http)\<rparr>"
  have "GreenhouseSCIMConfigToSCIMConfig (\<lambda>_. Inr demo_token_secret) demo_scim ''my-org'' = Some (Inr
     \<lparr>sc_URL = ''s'', sc_authType = ''token'', sc_basicAuth = None,
      sc_bearerToken = Some \<lparr>bt_token = ''t0k'', bt_header = ''x-token'', bt_prefix = ''Bearer''\<rparr>\<rparr>)"
    by code_simp
  then have client: "createSCIMClient wit_env (o_namespace (wit_team True)) demo_scim s = Some (Inr ?c)" for s
    by (simp add: createSCIMClient_def wit_env_def wit_team_def NewSCIMClient_def wit_http_def AuthTypeBasic_def AuthTypeBearerToken_def)
  have pages: "serves_pages (tm_http wit_env) ?c userPath (users_query (team_mappedIDPGroup (wit_team True))) ?page"
    by (simp add: serves_pages_def Let_def wit_env_def wit_http_def bearerTokenTransport_RoundTrip_def wit_page)
  have chain: "page_chain ?page InitialStartID [[team_resource ''U1'' True, team_resource ''U2'' False]]"
    by (rule last_page [where nxt = "''end''"]) (simp_all add: paginationEndID_def)
  have org: "tm_get_org wit_env k s = Inr wit_org" for k s by (simp add: wit_env_def)
  have facts: "shown_status (o_conditions wit_org) SCIMAPIAvailableCondition = Some ConditionTrue"
    "GetSCIMConfig wit_org = Some demo_scim" "team_mappedIDPGroup (wit_team True) \<noteq> []" "is_support_group (wit_team True)"
    by code_simp+
  have members: "map user_of (filter valid_member (concat [[team_resource ''U1'' True, team_resource ''U2'' False]]))
      = [\<lparr>u_id = ''U1'', u_firstName = ''G'', u_lastName = ''F'', u_email = ''a@b.c''\<rparr>]"
    "\<not> list_all valid_member (concat [[team_resource ''U1'' True, team_resource ''U2'' False]])"
    by code_simp+
  from team_members_of_group [OF org facts(1-3) client pages chain, of wit_state] facts(4)
  show ?thesis unfolding members(1) using members(2) by auto
qed

end
