(* ===== verification/Organization_RBAC.thy ===== *)
theory Organization_RBAC
  imports Rbac_Types Object_Store
begin

text \<open>
  The permissions of an organization: the rules of its roles (\<open>internal/rbac\<close>), the roles and bindings the
  Organization controller writes (\<open>internal/controller/organization/rbac.go\<close>), and the default team roles
  (\<open>teamrole_seeder.go\<close>). What a rule permits is Kubernetes' own evaluation, the predicate \<open>rule_allows\<close>. The
  environment of the controller starts here with the clients for these kinds and is extended by the other
  theories on organizations. Logging and events are left out.
\<close>

section \<open>Rules\<close>

definition GreenhouseGroup :: string where "GreenhouseGroup = ''greenhouse.sap''"

definition rule :: "string list \<Rightarrow> string list \<Rightarrow> string list \<Rightarrow> string list \<Rightarrow> policy_rule" where
  "rule verbs groups resources names =
     \<lparr>pr_verbs = verbs, pr_apiGroups = groups, pr_resources = resources, pr_resourceNames = names, pr_nonResourceURLs = []\<rparr>"

definition OrganizationMemberClusterRolePolicyRules :: "string \<Rightarrow> policy_rule list" where
  "OrganizationMemberClusterRolePolicyRules organizationName =
     [rule [''get'', ''list'', ''watch''] [GreenhouseGroup] [''organizations''] [organizationName],
      rule [''get'', ''list'', ''watch''] [GreenhouseGroup] [''clusterplugindefinitions''] []]"

definition OrganizationAdminClusterRolePolicyRules :: "string \<Rightarrow> policy_rule list" where
  "OrganizationAdminClusterRolePolicyRules organizationName =
     OrganizationMemberClusterRolePolicyRules organizationName
     @ [rule [''get'', ''list'', ''watch'', ''update'', ''patch''] [GreenhouseGroup] [''organizations''] [organizationName]]"

definition OrganizationMemberPolicyRules :: "policy_rule list" where
  "OrganizationMemberPolicyRules =
     [rule [''get'', ''list'', ''watch''] [GreenhouseGroup, GreenhouseGroup]
        [''clusters'', ''clusterkubeconfigs'', ''plugins'', ''pluginpresets'', ''catalogs'', ''plugindefinitions'', ''teams'',
         ''teamroles'', ''teamrolebindings''] []]"

definition OrganizationClusterAdminPolicyRules :: "policy_rule list" where
  "OrganizationClusterAdminPolicyRules =
     OrganizationMemberPolicyRules
     @ [rule [''get'', ''list'', ''watch'', ''update'', ''patch'', ''delete'', ''create''] [GreenhouseGroup, GreenhouseGroup]
          [''clusters'', ''teamroles'', ''teamrolebindings''] [],
        rule [''create'', ''update'', ''patch''] [[]] [''secrets''] []]"

definition OrganizationPluginAdminPolicyRules :: "policy_rule list" where
  "OrganizationPluginAdminPolicyRules =
     OrganizationMemberPolicyRules
     @ [rule [''get'', ''list'', ''watch'', ''update'', ''patch'', ''delete'', ''create''] [GreenhouseGroup]
          [''plugins'', ''pluginpresets'', ''catalogs'', ''plugindefinitions''] [],
        rule [''create'', ''update'', ''patch''] [[]] [''secrets''] []]"

definition OrganizationAdminPolicyRules :: "policy_rule list" where
  "OrganizationAdminPolicyRules =
     [rule [''get'', ''list'', ''watch'', ''update'', ''patch'', ''delete'', ''create''] [GreenhouseGroup] [''teams''] [],
      rule [''get'', ''list'', ''watch'', ''create'', ''update'', ''patch'', ''delete''] [[]] [''secrets''] [],
      rule [''create''] [''rbac.authorization.k8s.io''] [''rolebindings''] [],
      rule [''get'', ''list'', ''watch''] [''monitoring.coreos.com''] [''alertmanagers'', ''alertmanagerconfigs''] [],
      rule [''get'', ''list'', ''watch''] [[]]
        [''pods'', ''pods/log'', ''replicasets'', ''deployments'', ''statefulsets'', ''daemonsets'', ''cronjobs'', ''jobs'', ''configmaps''] []]
     @ OrganizationClusterAdminPolicyRules @ OrganizationPluginAdminPolicyRules"

definition OrgCatalogPolicyRules :: "string list \<Rightarrow> policy_rule list" where
  "OrgCatalogPolicyRules resources = [rule [''*''] [GreenhouseGroup] resources []]"

section \<open>Names\<close>

definition OrganizationAdminRoleName :: "string \<Rightarrow> string" where
  "OrganizationAdminRoleName orgName = ''role:'' @ orgName @ '':admin''"

definition OrganizationClusterAdminRoleName :: "string \<Rightarrow> string" where
  "OrganizationClusterAdminRoleName orgName = ''role:'' @ orgName @ '':cluster-admin''"

definition OrganizationPluginAdminRoleName :: "string \<Rightarrow> string" where
  "OrganizationPluginAdminRoleName orgName = ''role:'' @ orgName @ '':plugin-admin''"

definition OrganizationRoleName :: "string \<Rightarrow> string" where
  "OrganizationRoleName orgName = ''organization:'' @ orgName"

definition GetTeamRoleName :: "string \<Rightarrow> string" where
  "GetTeamRoleName teamName = ''team:'' @ teamName"

definition OrgCatalogRoleName :: "string \<Rightarrow> string" where
  "OrgCatalogRoleName orgName = orgName @ ''-catalog-role''"

lemmas role_names = OrganizationAdminRoleName_def OrganizationClusterAdminRoleName_def
  OrganizationPluginAdminRoleName_def OrganizationRoleName_def

section \<open>The environment\<close>

text \<open>
  \<open>controllerutil.SetOwnerReference\<close> and \<open>SetControllerReference\<close> change the owner references or fail;
  \<open>rbe_range\<close> is the order in which a map with these keys is ranged over.
\<close>

record 's rbac_env =
  rbe_now :: time
  rbe_ownerRefs :: "organization \<Rightarrow> owner_reference list \<Rightarrow> go_error + owner_reference list"
  rbe_controllerRefs :: "organization \<Rightarrow> owner_reference list \<Rightarrow> go_error + owner_reference list"
  rbe_range :: "string list \<Rightarrow> string list"
  rbe_clusterRoles :: "(cluster_role, 's) client"
  rbe_clusterRoleBindings :: "(role_binding, 's) client"
  rbe_roles :: "(namespace_role, 's) client"
  rbe_roleBindings :: "(role_binding, 's) client"
  rbe_serviceAccounts :: "(object_meta, 's) client"
  rbe_teamRoles :: "(team_role, 's) client"

definition owned_by_org ::
  "('s, 'z) rbac_env_scheme \<Rightarrow> organization \<Rightarrow> 'a object_meta_scheme \<Rightarrow> go_error + 'a object_meta_scheme" where
  "owned_by_org env org obj =
     (case rbe_ownerRefs env org (o_ownerReferences obj) of
        Inl e \<Rightarrow> Inl e | Inr refs \<Rightarrow> Inr (obj\<lparr>o_ownerReferences := refs\<rparr>))"

definition controlled_by_org ::
  "('s, 'z) rbac_env_scheme \<Rightarrow> organization \<Rightarrow> 'a object_meta_scheme \<Rightarrow> go_error + 'a object_meta_scheme" where
  "controlled_by_org env org obj =
     (case rbe_controllerRefs env org (o_ownerReferences obj) of
        Inl e \<Rightarrow> Inl e | Inr refs \<Rightarrow> Inr (obj\<lparr>o_ownerReferences := refs\<rparr>))"

section \<open>Roles and bindings\<close>

datatype user_group = admin_group | member_group | cluster_admin_group | plugin_admin_group

primrec group_number :: "user_group \<Rightarrow> nat" where
  "group_number admin_group = 0"
| "group_number member_group = 1"
| "group_number cluster_admin_group = 2"
| "group_number plugin_admin_group = 3"

definition unknown_group :: "string \<Rightarrow> user_group \<Rightarrow> go_error" where
  "unknown_group what g = PlainError (''unknown '' @ what @ '' '' @ Itoa (group_number g))"

definition clusterRoleKind :: string where "clusterRoleKind = ''ClusterRole''"

definition organization_reconcileClusterRole :: "('s, 'z) rbac_env_scheme \<Rightarrow> organization \<Rightarrow> user_group \<Rightarrow> 's \<Rightarrow> go_error option \<times> 's" where
  "organization_reconcileClusterRole env org g s =
     (let write = (\<lambda>name rules.
            apply_object (rbe_clusterRoles env) (new_clusterRole name)
              (\<lambda>cr. owned_by_org env org (cr\<lparr>cr_rules := rules, cr_aggregationRule := None\<rparr>)) s)
      in case g of
           admin_group \<Rightarrow> write (OrganizationAdminRoleName (o_name org)) (OrganizationAdminClusterRolePolicyRules (o_name org))
         | member_group \<Rightarrow> write (OrganizationRoleName (o_name org)) (OrganizationMemberClusterRolePolicyRules (o_name org))
         | _ \<Rightarrow> (Some (unknown_group ''userRole'' g), s))"

definition group_subject :: "string \<Rightarrow> subject" where
  "group_subject name = \<lparr>sub_kind = rbac_GroupKind, sub_apiGroup = rbac_GroupName, sub_name = name, sub_namespace = []\<rparr>"

definition bind_group :: "string \<Rightarrow> string \<Rightarrow> role_binding \<Rightarrow> role_binding" where
  "bind_group kind name rb =
     rb\<lparr>rb_roleRef := \<lparr>rr_apiGroup = rbac_GroupName, rr_kind = kind, rr_name = name\<rparr>, rb_subjects := [group_subject name]\<rparr>"

definition organization_reconcileClusterRoleBinding ::
  "('s, 'z) rbac_env_scheme \<Rightarrow> organization \<Rightarrow> user_group \<Rightarrow> 's \<Rightarrow> go_error option \<times> 's" where
  "organization_reconcileClusterRoleBinding env org g s =
     (let write = (\<lambda>name.
            apply_object (rbe_clusterRoleBindings env) (new_binding [] name)
              (\<lambda>rb. owned_by_org env org (bind_group clusterRoleKind name rb)) s)
      in case g of
           admin_group \<Rightarrow> write (OrganizationAdminRoleName (o_name org))
         | member_group \<Rightarrow> write (OrganizationRoleName (o_name org))
         | _ \<Rightarrow> (Some (unknown_group ''role'' g), s))"

definition role_of_group :: "organization \<Rightarrow> user_group \<Rightarrow> string \<times> policy_rule list" where
  "role_of_group org g =
     (case g of
        admin_group \<Rightarrow> (OrganizationAdminRoleName (o_name org), OrganizationAdminPolicyRules)
      | member_group \<Rightarrow> (OrganizationRoleName (o_name org), OrganizationMemberPolicyRules)
      | cluster_admin_group \<Rightarrow> (OrganizationClusterAdminRoleName (o_name org), OrganizationClusterAdminPolicyRules)
      | plugin_admin_group \<Rightarrow> (OrganizationPluginAdminRoleName (o_name org), OrganizationPluginAdminPolicyRules))"

definition organization_reconcileRole :: "('s, 'z) rbac_env_scheme \<Rightarrow> organization \<Rightarrow> user_group \<Rightarrow> 's \<Rightarrow> go_error option \<times> 's" where
  "organization_reconcileRole env org g s =
     (case role_of_group org g of
        (name, rules) \<Rightarrow>
          apply_object (rbe_roles env) (new_role (o_name org) name) (\<lambda>r. owned_by_org env org (r\<lparr>ro_rules := rules\<rparr>)) s)"

definition organization_reconcileRoleBinding :: "('s, 'z) rbac_env_scheme \<Rightarrow> organization \<Rightarrow> user_group \<Rightarrow> 's \<Rightarrow> go_error option \<times> 's" where
  "organization_reconcileRoleBinding env org g s =
     (let write = (\<lambda>name.
            apply_object (rbe_roleBindings env) (new_binding (o_name org) name)
              (\<lambda>rb. owned_by_org env org (bind_group ''Role'' name rb)) s)
      in case g of
           admin_group \<Rightarrow> write (OrganizationAdminRoleName (o_name org))
         | member_group \<Rightarrow> write (OrganizationRoleName (o_name org))
         | _ \<Rightarrow> (Some (unknown_group ''userRole'' g), s))"

definition reconcileRBAC :: "('s, 'z) rbac_env_scheme \<Rightarrow> organization \<Rightarrow> 's \<Rightarrow> go_error option \<times> 's" where
  "reconcileRBAC env org s =
     run_steps
       [organization_reconcileClusterRole env org admin_group, organization_reconcileClusterRoleBinding env org admin_group,
        organization_reconcileRole env org admin_group, organization_reconcileRoleBinding env org admin_group,
        organization_reconcileClusterRole env org member_group, organization_reconcileClusterRoleBinding env org member_group,
        organization_reconcileRole env org member_group, organization_reconcileRoleBinding env org member_group,
        organization_reconcileRole env org cluster_admin_group, organization_reconcileRole env org plugin_admin_group] s"

section \<open>Permissions of catalogs\<close>

definition defaultGreenhouseConnectorID :: string where "defaultGreenhouseConnectorID = ''greenhouse''"
definition KindClusterPluginDefinitionPlural :: string where "KindClusterPluginDefinitionPlural = ''clusterplugindefinitions''"
definition KindPluginDefinitionPlural :: string where "KindPluginDefinitionPlural = ''plugindefinitions''"

definition reconcileCatalogServiceAccount :: "('s, 'z) rbac_env_scheme \<Rightarrow> organization \<Rightarrow> 's \<Rightarrow> go_error option \<times> 's" where
  "reconcileCatalogServiceAccount env org s =
     apply_object (rbe_serviceAccounts env) (new_meta (o_name org) (OrgCatalogServiceAccountName (o_name org)))
       (owned_by_org env org) s"

definition reconcileCatalogClusterRole ::
  "('s, 'z) rbac_env_scheme \<Rightarrow> organization \<Rightarrow> string list \<Rightarrow> 's \<Rightarrow> go_error option \<times> 's" where
  "reconcileCatalogClusterRole env org resources s =
     apply_object (rbe_clusterRoles env) (new_clusterRole (OrgCatalogRoleName (o_name org)))
       (\<lambda>cr. owned_by_org env org (cr\<lparr>cr_rules := OrgCatalogPolicyRules resources\<rparr>)) s"

definition catalog_subject :: "organization \<Rightarrow> subject" where
  "catalog_subject org =
     \<lparr>sub_kind = rbac_ServiceAccountKind, sub_apiGroup = [], sub_name = OrgCatalogServiceAccountName (o_name org),
      sub_namespace = o_name org\<rparr>"

definition bind_catalog :: "organization \<Rightarrow> string \<Rightarrow> role_binding \<Rightarrow> role_binding" where
  "bind_catalog org kind rb =
     rb\<lparr>rb_roleRef := \<lparr>rr_apiGroup = rbac_GroupName, rr_kind = kind, rr_name = OrgCatalogRoleName (o_name org)\<rparr>,
        rb_subjects := [catalog_subject org]\<rparr>"

definition reconcileCatalogClusterRoleBinding :: "('s, 'z) rbac_env_scheme \<Rightarrow> organization \<Rightarrow> 's \<Rightarrow> go_error option \<times> 's" where
  "reconcileCatalogClusterRoleBinding env org s =
     apply_object (rbe_clusterRoleBindings env) (new_binding [] (OrgCatalogRoleName (o_name org)))
       (\<lambda>rb. owned_by_org env org (bind_catalog org clusterRoleKind rb)) s"

definition reconcileCatalogRole ::
  "('s, 'z) rbac_env_scheme \<Rightarrow> organization \<Rightarrow> string list \<Rightarrow> 's \<Rightarrow> go_error option \<times> 's" where
  "reconcileCatalogRole env org resources s =
     apply_object (rbe_roles env) (new_role (o_name org) (OrgCatalogRoleName (o_name org)))
       (\<lambda>r. owned_by_org env org (r\<lparr>ro_rules := OrgCatalogPolicyRules resources\<rparr>)) s"

definition reconcileCatalogRoleBinding :: "('s, 'z) rbac_env_scheme \<Rightarrow> organization \<Rightarrow> 's \<Rightarrow> go_error option \<times> 's" where
  "reconcileCatalogRoleBinding env org s =
     apply_object (rbe_roleBindings env) (new_binding (o_name org) (OrgCatalogRoleName (o_name org)))
       (\<lambda>rb. owned_by_org env org (bind_catalog org ''Role'' rb)) s"

definition reconcileCatalogPermissions :: "('s, 'z) rbac_env_scheme \<Rightarrow> organization \<Rightarrow> 's \<Rightarrow> go_error option \<times> 's" where
  "reconcileCatalogPermissions env org s =
     run_steps
       (reconcileCatalogServiceAccount env org #
        (if o_name org = defaultGreenhouseConnectorID
         then [reconcileCatalogClusterRole env org [KindClusterPluginDefinitionPlural, KindPluginDefinitionPlural],
               reconcileCatalogClusterRoleBinding env org]
         else [reconcileCatalogRole env org [KindPluginDefinitionPlural], reconcileCatalogRoleBinding env org])) s"

section \<open>Default team roles\<close>

record team_role_spec =
  trs_rules :: "policy_rule list"
  trs_aggregationRule :: "aggregation_rule option"
  trs_labels :: "string smap"

definition aggregate_label :: "string smap" where
  "aggregate_label = [(''greenhouse.sap/aggregate-to-developer'', ''true'')]"

definition role_spec :: "policy_rule list \<Rightarrow> string smap \<Rightarrow> team_role_spec" where
  "role_spec rules labels = \<lparr>trs_rules = rules, trs_aggregationRule = None, trs_labels = labels\<rparr>"

definition defaultTeamRoles :: "team_role_spec smap" where
  "defaultTeamRoles =
     [(''cluster-admin'', role_spec [rule [''*''] [''*''] [''*''] []] []),
      (''cluster-viewer'', role_spec [rule [''get'', ''list'', ''watch''] [''*''] [''*''] []] aggregate_label),
      (''cluster-developer'',
         \<lparr>trs_rules = [], trs_aggregationRule = Some \<lparr>ar_clusterRoleSelectors =
            [\<lparr>ls_matchLabels = aggregate_label, ls_matchExpressions = []\<rparr>]\<rparr>, trs_labels = []\<rparr>),
      (''application-developer'',
         role_spec
           [rule [''*''] [[]] [''pods'', ''pods/portforward'', ''pods/eviction'', ''pods/proxy'', ''pods/log'', ''pods/status''] [],
            rule [''patch''] [''apps''] [''deployments/scale'', ''statefulsets/scale''] []] aggregate_label),
      (''node-maintainer'', role_spec [rule [''get'', ''patch''] [[]] [''nodes''] []] []),
      (''namespace-creator'', role_spec [rule [''*''] [[]] [''namespaces''] []] [])]"

definition new_teamRole :: "string \<Rightarrow> string \<Rightarrow> team_role" where
  "new_teamRole ns n = \<lparr>o_name = n, o_namespace = ns, o_labels = [], o_annotations = [], o_finalizers = [],
     o_deletionTimestamp = None, o_ownerReferences = [], tr_rules = [], tr_aggregationRule = None, tr_labels = []\<rparr>"

definition set_spec :: "team_role_spec \<Rightarrow> team_role \<Rightarrow> team_role" where
  "set_spec spec tr = tr\<lparr>tr_rules := trs_rules spec, tr_aggregationRule := trs_aggregationRule spec, tr_labels := trs_labels spec\<rparr>"

definition seed_teamRole :: "('s, 'z) rbac_env_scheme \<Rightarrow> organization \<Rightarrow> string \<Rightarrow> team_role_spec \<Rightarrow> 's \<Rightarrow> go_error option \<times> 's" where
  "seed_teamRole env org name spec s =
     apply_object (rbe_teamRoles env) (new_teamRole (o_name org) name) (\<lambda>tr. owned_by_org env org (set_spec spec tr)) s"

definition reconcileDefaultTeamRoles :: "('s, 'z) rbac_env_scheme \<Rightarrow> organization \<Rightarrow> 's \<Rightarrow> go_error option \<times> 's" where
  "reconcileDefaultTeamRoles env org s =
     run_steps
       (List.map_filter (\<lambda>name. map_option (seed_teamRole env org name) (smap_get defaultTeamRoles name))
          (rbe_range env (map fst defaultTeamRoles))) s"

section \<open>What the rules permit\<close>

record rbac_request =
  ac_verb :: string
  ac_group :: string
  ac_resource :: string
  ac_name :: string

definition covers :: "string list \<Rightarrow> string \<Rightarrow> bool" where
  "covers xs x \<longleftrightarrow> x \<in> set xs \<or> ''*'' \<in> set xs"

definition rule_allows :: "policy_rule \<Rightarrow> rbac_request \<Rightarrow> bool" where
  "rule_allows r a \<longleftrightarrow>
     covers (pr_verbs r) (ac_verb a) \<and> covers (pr_apiGroups r) (ac_group a) \<and> covers (pr_resources r) (ac_resource a) \<and>
     (pr_resourceNames r = [] \<or> ac_name a \<in> set (pr_resourceNames r))"

definition rules_allow :: "policy_rule list \<Rightarrow> rbac_request \<Rightarrow> bool" where
  "rules_allow rs a \<longleftrightarrow> list_ex (\<lambda>r. rule_allows r a) rs"

lemmas permission_defs = rule_allows_def covers_def rule_def

lemma rules_allow_append [simp]: "rules_allow (rs @ qs) a \<longleftrightarrow> rules_allow rs a \<or> rules_allow qs a"
  by (simp add: rules_allow_def)

lemma rules_allow_Cons [simp]: "rules_allow (r # rs) a \<longleftrightarrow> rule_allows r a \<or> rules_allow rs a"
  by (simp add: rules_allow_def)

lemma rules_allow_Nil [simp]: "\<not> rules_allow [] a"
  by (simp add: rules_allow_def)



text \<open>The comment on the rule for secrets does not hold for admins: they can read all secrets of the organization.\<close>

lemma admins_read_secrets:
  "rules_allow OrganizationAdminPolicyRules \<lparr>ac_verb = ''get'', ac_group = [], ac_resource = ''secrets'', ac_name = n\<rparr>"
  by (simp add: OrganizationAdminPolicyRules_def permission_defs)

text \<open>Deployments are not in the core group: the rule that is to show them grants nothing on them.\<close>

lemma admins_do_not_see_deployments:
  "\<not> rules_allow OrganizationAdminPolicyRules \<lparr>ac_verb = ''get'', ac_group = ''apps'', ac_resource = ''deployments'', ac_name = n\<rparr>"
  by (simp add: OrganizationAdminPolicyRules_def OrganizationClusterAdminPolicyRules_def OrganizationPluginAdminPolicyRules_def
      OrganizationMemberPolicyRules_def permission_defs GreenhouseGroup_def)

section \<open>What a reconciliation leaves behind\<close>

record ('s) rbac_views =
  vw_clusterRoles :: "(cluster_role, 's) view"
  vw_clusterRoleBindings :: "(role_binding, 's) view"
  vw_roles :: "(namespace_role, 's) view"
  vw_roleBindings :: "(role_binding, 's) view"

text \<open>The four clients store what they write, each in its own part of the state.\<close>

definition own_kind :: "('a object_meta_scheme, 's) client \<Rightarrow> ('a object_meta_scheme, 's) view \<Rightarrow> bool" where
  "own_kind c look \<longleftrightarrow> stores c look \<and> writes_own c look"

definition rbac_separate :: "('s, 'z) rbac_env_scheme \<Rightarrow> 's rbac_views \<Rightarrow> bool" where
  "rbac_separate env v \<longleftrightarrow>
     own_kind (rbe_clusterRoles env) (vw_clusterRoles v) \<and> own_kind (rbe_clusterRoleBindings env) (vw_clusterRoleBindings v) \<and>
     own_kind (rbe_roles env) (vw_roles v) \<and> own_kind (rbe_roleBindings env) (vw_roleBindings v) \<and>
     leaves (rbe_clusterRoles env) (vw_clusterRoleBindings v) \<and> leaves (rbe_clusterRoles env) (vw_roles v) \<and>
     leaves (rbe_clusterRoles env) (vw_roleBindings v) \<and>
     leaves (rbe_clusterRoleBindings env) (vw_clusterRoles v) \<and> leaves (rbe_clusterRoleBindings env) (vw_roles v) \<and>
     leaves (rbe_clusterRoleBindings env) (vw_roleBindings v) \<and>
     leaves (rbe_roles env) (vw_clusterRoles v) \<and> leaves (rbe_roles env) (vw_clusterRoleBindings v) \<and>
     leaves (rbe_roles env) (vw_roleBindings v) \<and>
     leaves (rbe_roleBindings env) (vw_clusterRoles v) \<and> leaves (rbe_roleBindings env) (vw_clusterRoleBindings v) \<and>
     leaves (rbe_roleBindings env) (vw_roles v)"

lemma owned_by_org_Inr:
  "owned_by_org env org x = Inr y \<longleftrightarrow>
     (\<exists>refs. rbe_ownerRefs env org (o_ownerReferences x) = Inr refs \<and> y = x\<lparr>o_ownerReferences := refs\<rparr>)"
  by (auto simp: owned_by_org_def split: sum.splits)

lemma rbac_keys [simp]:
  "ObjectKeyFromObject (new_clusterRole n) = \<lparr>nn_namespace = [], nn_name = n\<rparr>"
  "ObjectKeyFromObject (new_role ns n) = \<lparr>nn_namespace = ns, nn_name = n\<rparr>"
  "ObjectKeyFromObject (new_binding ns n) = \<lparr>nn_namespace = ns, nn_name = n\<rparr>"
  "ObjectKeyFromObject (cr\<lparr>cr_rules := rules, cr_aggregationRule := a\<rparr>) = ObjectKeyFromObject cr"
  "ObjectKeyFromObject (r\<lparr>ro_rules := rules\<rparr>) = ObjectKeyFromObject r"
  "ObjectKeyFromObject (bind_group k n b) = ObjectKeyFromObject b"
  "ObjectKeyFromObject (x\<lparr>o_ownerReferences := refs\<rparr>) = ObjectKeyFromObject x"
  by (simp_all add: ObjectKeyFromObject_def new_clusterRole_def new_role_def new_binding_def bind_group_def)

text \<open>The objects a role of an organization consists of.\<close>

definition clusterRole_with :: "string \<Rightarrow> policy_rule list \<Rightarrow> 's rbac_views \<Rightarrow> 's \<Rightarrow> bool" where
  "clusterRole_with n rules v =
     stored_as (vw_clusterRoles v) \<lparr>nn_namespace = [], nn_name = n\<rparr> (\<lambda>cr. cr_rules cr = rules \<and> cr_aggregationRule cr = None)"

definition clusterRole_bound :: "string \<Rightarrow> 's rbac_views \<Rightarrow> 's \<Rightarrow> bool" where
  "clusterRole_bound n v =
     stored_as (vw_clusterRoleBindings v) \<lparr>nn_namespace = [], nn_name = n\<rparr> (\<lambda>rb. rb = bind_group clusterRoleKind n rb)"

definition role_with :: "string \<Rightarrow> string \<times> policy_rule list \<Rightarrow> 's rbac_views \<Rightarrow> 's \<Rightarrow> bool" where
  "role_with ns r v = stored_as (vw_roles v) \<lparr>nn_namespace = ns, nn_name = fst r\<rparr> (\<lambda>role. ro_rules role = snd r)"

definition role_bound :: "string \<Rightarrow> string \<Rightarrow> 's rbac_views \<Rightarrow> 's \<Rightarrow> bool" where
  "role_bound ns n v = stored_as (vw_roleBindings v) \<lparr>nn_namespace = ns, nn_name = n\<rparr> (\<lambda>rb. rb = bind_group ''Role'' n rb)"

lemmas rbac_facts = clusterRole_with_def clusterRole_bound_def role_with_def role_bound_def

lemma bind_group_idem: "bind_group k n (bind_group k n b) = bind_group k n b"
  "(bind_group k n b)\<lparr>o_ownerReferences := refs\<rparr> = bind_group k n (b\<lparr>o_ownerReferences := refs\<rparr>)"
  by (simp_all add: bind_group_def)

definition clusterRole_name :: "organization \<Rightarrow> user_group \<Rightarrow> string" where
  "clusterRole_name org g = fst (role_of_group org g)"

definition clusterRole_rules :: "organization \<Rightarrow> user_group \<Rightarrow> policy_rule list" where
  "clusterRole_rules org g =
     (if g = admin_group then OrganizationAdminClusterRolePolicyRules (o_name org)
      else OrganizationMemberClusterRolePolicyRules (o_name org))"

definition bindable :: "user_group \<Rightarrow> bool" where
  "bindable g \<longleftrightarrow> g = admin_group \<or> g = member_group"

lemma bindable_steps:
  assumes "bindable g"
  shows "organization_reconcileClusterRole env org g = apply_object (rbe_clusterRoles env) (new_clusterRole (clusterRole_name org g))
      (\<lambda>cr. owned_by_org env org (cr\<lparr>cr_rules := clusterRole_rules org g, cr_aggregationRule := None\<rparr>))"
    "organization_reconcileClusterRoleBinding env org g = apply_object (rbe_clusterRoleBindings env) (new_binding [] (clusterRole_name org g))
      (\<lambda>rb. owned_by_org env org (bind_group clusterRoleKind (clusterRole_name org g) rb))"
    "organization_reconcileRoleBinding env org g = apply_object (rbe_roleBindings env) (new_binding (o_name org) (clusterRole_name org g))
      (\<lambda>rb. owned_by_org env org (bind_group ''Role'' (clusterRole_name org g) rb))"
  using assms
  by (auto simp: bindable_def organization_reconcileClusterRole_def organization_reconcileClusterRoleBinding_def organization_reconcileRoleBinding_def
      clusterRole_name_def clusterRole_rules_def role_of_group_def Let_def fun_eq_iff)

lemma role_step: "organization_reconcileRole env org g = apply_object (rbe_roles env) (new_role (o_name org) (fst (role_of_group org g)))
    (\<lambda>r. owned_by_org env org (r\<lparr>ro_rules := snd (role_of_group org g)\<rparr>))"
  by (simp add: organization_reconcileRole_def fun_eq_iff split: prod.splits)

lemma clusterRole_names_distinct: "bindable g \<Longrightarrow> bindable h \<Longrightarrow> clusterRole_name org g = clusterRole_name org h \<Longrightarrow> g = h"
  by (auto simp: bindable_def clusterRole_name_def role_of_group_def role_names)

lemma role_names_distinct: "fst (role_of_group org g) = fst (role_of_group org h) \<Longrightarrow> g = h"
  by (cases g; cases h) (simp_all add: role_of_group_def role_names)

text \<open>The facts that the reconciliation brings about for the groups of an organization.\<close>

inductive rbac_goal :: "organization \<Rightarrow> 's rbac_views \<Rightarrow> ('s \<Rightarrow> bool) \<Rightarrow> bool" for org v where
  goal_clusterRole: "bindable g \<Longrightarrow> rbac_goal org v (clusterRole_with (clusterRole_name org g) (clusterRole_rules org g) v)"
| goal_clusterRoleBinding: "bindable g \<Longrightarrow> rbac_goal org v (clusterRole_bound (clusterRole_name org g) v)"
| goal_roleBinding: "bindable g \<Longrightarrow> rbac_goal org v (role_bound (o_name org) (clusterRole_name org g) v)"
| goal_role: "rbac_goal org v (role_with (o_name org) (role_of_group org g) v)"

lemma rbac_separateD:
  assumes "rbac_separate env v"
  shows "stores (rbe_clusterRoles env) (vw_clusterRoles v)" "writes_own (rbe_clusterRoles env) (vw_clusterRoles v)"
    "stores (rbe_clusterRoleBindings env) (vw_clusterRoleBindings v)" "writes_own (rbe_clusterRoleBindings env) (vw_clusterRoleBindings v)"
    "stores (rbe_roles env) (vw_roles v)" "writes_own (rbe_roles env) (vw_roles v)"
    "stores (rbe_roleBindings env) (vw_roleBindings v)" "writes_own (rbe_roleBindings env) (vw_roleBindings v)"
  using assms by (simp_all add: rbac_separate_def own_kind_def)

lemma rbac_step_establishes:
  assumes sep: "rbac_separate env v"
  shows "bindable g \<Longrightarrow> organization_reconcileClusterRole env org g s = (None, s')
      \<Longrightarrow> clusterRole_with (clusterRole_name org g) (clusterRole_rules org g) v s'"
    "bindable g \<Longrightarrow> organization_reconcileClusterRoleBinding env org g s = (None, s') \<Longrightarrow> clusterRole_bound (clusterRole_name org g) v s'"
    "bindable g \<Longrightarrow> organization_reconcileRoleBinding env org g s = (None, s') \<Longrightarrow> role_bound (o_name org) (clusterRole_name org g) v s'"
    "organization_reconcileRole env org g s = (None, s') \<Longrightarrow> role_with (o_name org) (role_of_group org g) v s'"
proof -
  have est: "stored_as look k spec s'"
    if "stores c look" "apply_object c obj (\<lambda>x. owned_by_org env org (f x)) s = (None, s')" "ObjectKeyFromObject obj = k"
      "\<And>x. ObjectKeyFromObject (f x) = ObjectKeyFromObject x" "\<And>x refs. spec ((f x)\<lparr>o_ownerReferences := refs\<rparr>)"
    for c obj f look k spec
    unfolding that(3) [symmetric]
    by (rule apply_object_establishes [OF that(1,2)]) (auto simp: owned_by_org_Inr that(4,5))
  note st = rbac_separateD [OF sep]
  show "clusterRole_with (clusterRole_name org g) (clusterRole_rules org g) v s'"
    if g: "bindable g" and run: "organization_reconcileClusterRole env org g s = (None, s')"
    unfolding clusterRole_with_def by (rule est [OF st(1) run [unfolded bindable_steps(1) [OF g]]]) simp_all
  show "clusterRole_bound (clusterRole_name org g) v s'"
    if g: "bindable g" and run: "organization_reconcileClusterRoleBinding env org g s = (None, s')"
    unfolding clusterRole_bound_def
    by (rule est [OF st(3) run [unfolded bindable_steps(2) [OF g]]]) (simp_all add: bind_group_idem)
  show "role_bound (o_name org) (clusterRole_name org g) v s'"
    if g: "bindable g" and run: "organization_reconcileRoleBinding env org g s = (None, s')"
    unfolding role_bound_def
    by (rule est [OF st(7) run [unfolded bindable_steps(3) [OF g]]]) (simp_all add: bind_group_idem)
  show "role_with (o_name org) (role_of_group org g) v s'" if run: "organization_reconcileRole env org g s = (None, s')"
    unfolding role_with_def by (rule est [OF st(5) run [unfolded role_step]]) simp_all
qed

text \<open>A write of one kind keeps all facts about the other kinds, and those about other names of its own.\<close>

lemma rbac_step_keeps:
  assumes sep: "rbac_separate env v" and goal: "rbac_goal org v Q" "Q s"
  shows "bindable g \<Longrightarrow> organization_reconcileClusterRole env org g s = (None, s') \<Longrightarrow> Q s'"
    "bindable g \<Longrightarrow> organization_reconcileClusterRoleBinding env org g s = (None, s') \<Longrightarrow> Q s'"
    "bindable g \<Longrightarrow> organization_reconcileRoleBinding env org g s = (None, s') \<Longrightarrow> Q s'"
    "organization_reconcileRole env org g s = (None, s') \<Longrightarrow> Q s'"
proof -
  have other: "stored_as look k spec s'"
    if "apply_object c obj (\<lambda>x. owned_by_org env org (f x)) s = (None, s')" "\<And>x. ObjectKeyFromObject (f x) = ObjectKeyFromObject x"
      "stores c look" "writes_own c look" "k \<noteq> ObjectKeyFromObject obj" "stored_as look k spec s"
    for c obj f look k spec
    by (rule apply_object_keeps [OF that(1,3-5) _ that(6)]) (auto simp: owned_by_org_Inr that(2))
  note lv = sep [unfolded rbac_separate_def own_kind_def]
  show "Q s'" if g: "bindable g" and run: "organization_reconcileClusterRole env org g s = (None, s')"
    using goal(1)
  proof cases
    case (goal_clusterRole h)
    show ?thesis
    proof (cases "h = g")
      case True
      with goal_clusterRole rbac_step_establishes(1) [OF sep g run] show ?thesis by simp
    next
      case False
      with clusterRole_names_distinct [OF goal_clusterRole(2) g] have "clusterRole_name org h \<noteq> clusterRole_name org g" by blast
      with goal(2) goal_clusterRole show ?thesis
        using other [OF run [unfolded bindable_steps(1) [OF g]], of "vw_clusterRoles v"] lv by (auto simp: clusterRole_with_def)
    qed
  qed (use goal(2) lv apply_object_frame [OF run [unfolded bindable_steps(1) [OF g]]] in \<open>auto simp: rbac_facts\<close>)
  show "Q s'" if g: "bindable g" and run: "organization_reconcileClusterRoleBinding env org g s = (None, s')"
    using goal(1)
  proof cases
    case (goal_clusterRoleBinding h)
    show ?thesis
    proof (cases "h = g")
      case True
      with goal_clusterRoleBinding rbac_step_establishes(2) [OF sep g run] show ?thesis by simp
    next
      case False
      with clusterRole_names_distinct [OF goal_clusterRoleBinding(2) g] have "clusterRole_name org h \<noteq> clusterRole_name org g" by blast
      with goal(2) goal_clusterRoleBinding show ?thesis
        using other [OF run [unfolded bindable_steps(2) [OF g]], of "vw_clusterRoleBindings v"] lv by (auto simp: clusterRole_bound_def)
    qed
  qed (use goal(2) lv apply_object_frame [OF run [unfolded bindable_steps(2) [OF g]]] in \<open>auto simp: rbac_facts\<close>)
  show "Q s'" if g: "bindable g" and run: "organization_reconcileRoleBinding env org g s = (None, s')"
    using goal(1)
  proof cases
    case (goal_roleBinding h)
    show ?thesis
    proof (cases "h = g")
      case True
      with goal_roleBinding rbac_step_establishes(3) [OF sep g run] show ?thesis by simp
    next
      case False
      with clusterRole_names_distinct [OF goal_roleBinding(2) g] have "clusterRole_name org h \<noteq> clusterRole_name org g" by blast
      with goal(2) goal_roleBinding show ?thesis
        using other [OF run [unfolded bindable_steps(3) [OF g]], of "vw_roleBindings v"] lv by (auto simp: role_bound_def)
    qed
  qed (use goal(2) lv apply_object_frame [OF run [unfolded bindable_steps(3) [OF g]]] in \<open>auto simp: rbac_facts\<close>)
  show "Q s'" if run: "organization_reconcileRole env org g s = (None, s')"
    using goal(1)
  proof cases
    case (goal_role h)
    show ?thesis
    proof (cases "h = g")
      case True
      with goal_role rbac_step_establishes(4) [OF sep run] show ?thesis by simp
    next
      case False
      with role_names_distinct [of org h g] have "fst (role_of_group org h) \<noteq> fst (role_of_group org g)" by blast
      with goal(2) goal_role show ?thesis
        using other [OF run [unfolded role_step], of "vw_roles v"] lv by (auto simp: role_with_def)
    qed
  qed (use goal(2) lv apply_object_frame [OF run [unfolded role_step]] in \<open>auto simp: rbac_facts\<close>)
qed

text \<open>
  C8. After a successful reconciliation of the permissions all ten objects of an organization are stored: the
  cluster roles and roles of admins and members and the roles of cluster and plugin admins with the rules of the
  library, and bindings of the roles of admins and members to the group of the same name. No step undoes an
  earlier one.
\<close>

theorem organization_rbac_stored:
  assumes sep: "rbac_separate env v" and run: "reconcileRBAC env org s = (None, s')"
  shows "(\<forall>g. bindable g \<longrightarrow> clusterRole_with (clusterRole_name org g) (clusterRole_rules org g) v s'
      \<and> clusterRole_bound (clusterRole_name org g) v s' \<and> role_bound (o_name org) (clusterRole_name org g) v s')
    \<and> (\<forall>g. role_with (o_name org) (role_of_group org g) v s')"
proof -
  let ?four = "\<lambda>g. [(organization_reconcileClusterRole env org g, clusterRole_with (clusterRole_name org g) (clusterRole_rules org g) v),
     (organization_reconcileClusterRoleBinding env org g, clusterRole_bound (clusterRole_name org g) v),
     (organization_reconcileRole env org g, role_with (o_name org) (role_of_group org g) v),
     (organization_reconcileRoleBinding env org g, role_bound (o_name org) (clusterRole_name org g) v)]"
  let ?ps = "?four admin_group @ ?four member_group
     @ map (\<lambda>g. (organization_reconcileRole env org g, role_with (o_name org) (role_of_group org g) v)) [cluster_admin_group, plugin_admin_group]"
  have b: "bindable admin_group" "bindable member_group" by (simp_all add: bindable_def)
  have steps: "run_steps (map fst ?ps) s = (None, s')"
    using run by (simp add: reconcileRBAC_def)
  have all: "Q s'" if "Q \<in> snd ` set ?ps" for Q
  proof (rule run_steps_establish [OF steps, where Qs = "Collect (rbac_goal org v)"])
    show "snd ` set ?ps \<subseteq> Collect (rbac_goal org v)" by (auto intro: rbac_goal.intros b)
    show "P s2" if "(f, P) \<in> set ?ps" "f s1 = (None, s2)" for f P s1 s2
      using that rbac_step_establishes [OF sep, where org = org and s = s1 and s' = s2] b by auto
    show "Q s2" if "(f, P) \<in> set ?ps" "Q \<in> Collect (rbac_goal org v)" "Q s1" "f s1 = (None, s2)" for f P Q s1 s2
      using that rbac_step_keeps [OF sep, where org = org and Q = Q and s = s1 and s' = s2] b by auto
  qed (use that in simp)
  have "role_with (o_name org) (role_of_group org g) v s'" for g
    by (cases g) (simp_all add: all)
  moreover have "clusterRole_with (clusterRole_name org g) (clusterRole_rules org g) v s'
      \<and> clusterRole_bound (clusterRole_name org g) v s' \<and> role_bound (o_name org) (clusterRole_name org g) v s'" if "bindable g" for g
  proof -
    from that consider "g = admin_group" | "g = member_group" by (auto simp: bindable_def)
    then show ?thesis by cases (simp_all add: all)
  qed
  ultimately show ?thesis by blast
qed

record rbac_state =
  st_clusterRoles :: "cluster_role list"
  st_clusterRoleBindings :: "role_binding list"
  st_roles :: "namespace_role list"
  st_roleBindings :: "role_binding list"
  st_serviceAccounts :: "object_meta list"
  st_teamRoles :: "team_role list"

definition rbac_wit_env :: "rbac_state rbac_env" where
  "rbac_wit_env =
     \<lparr>rbe_now = 5, rbe_ownerRefs = (\<lambda>_ refs. Inr refs), rbe_controllerRefs = (\<lambda>_ refs. Inr refs), rbe_range = (\<lambda>ks. ks),
      rbe_clusterRoles = list_client st_clusterRoles (\<lambda>xs s. s\<lparr>st_clusterRoles := xs\<rparr>),
      rbe_clusterRoleBindings = list_client st_clusterRoleBindings (\<lambda>xs s. s\<lparr>st_clusterRoleBindings := xs\<rparr>),
      rbe_roles = list_client st_roles (\<lambda>xs s. s\<lparr>st_roles := xs\<rparr>),
      rbe_roleBindings = list_client st_roleBindings (\<lambda>xs s. s\<lparr>st_roleBindings := xs\<rparr>),
      rbe_serviceAccounts = list_client st_serviceAccounts (\<lambda>xs s. s\<lparr>st_serviceAccounts := xs\<rparr>),
      rbe_teamRoles = list_client st_teamRoles (\<lambda>xs s. s\<lparr>st_teamRoles := xs\<rparr>)\<rparr>"

definition rbac_wit_views :: "rbac_state rbac_views" where
  "rbac_wit_views =
     \<lparr>vw_clusterRoles = (\<lambda>s. stored_in (st_clusterRoles s)), vw_clusterRoleBindings = (\<lambda>s. stored_in (st_clusterRoleBindings s)),
      vw_roles = (\<lambda>s. stored_in (st_roles s)), vw_roleBindings = (\<lambda>s. stored_in (st_roleBindings s))\<rparr>"

definition rbac_wit_org :: organization where
  "rbac_wit_org =
     \<lparr>o_name = ''o'', o_namespace = [], o_labels = [], o_annotations = [], o_finalizers = [], o_deletionTimestamp = None,
      o_ownerReferences = [], o_conditions = [], org_displayName = [], org_authentication = None, org_description = [],
      org_mappedOrgAdminIDPGroup = ''ADM'', org_configMapRef = []\<rparr>"

definition rbac_wit_state :: rbac_state where
  "rbac_wit_state = \<lparr>st_clusterRoles = [], st_clusterRoleBindings = [], st_roles = [], st_roleBindings = [],
     st_serviceAccounts = [], st_teamRoles = []\<rparr>"

theorem organization_rbac_stored_witness:
  "\<exists>s'. reconcileRBAC rbac_wit_env rbac_wit_org rbac_wit_state = (None, s')
     \<and> role_with ''o'' (''organization:o'', OrganizationMemberPolicyRules) rbac_wit_views s'"
proof -
  have "fst (reconcileRBAC rbac_wit_env rbac_wit_org rbac_wit_state) = None" by code_simp
  then obtain s' where run: "reconcileRBAC rbac_wit_env rbac_wit_org rbac_wit_state = (None, s')" by (metis prod.collapse)
  have "rbac_separate rbac_wit_env rbac_wit_views"
    by (simp add: rbac_separate_def own_kind_def rbac_wit_env_def rbac_wit_views_def list_client_stores list_client_writes_own list_client_leaves)
  from organization_rbac_stored [OF this run]
  have "role_with (o_name rbac_wit_org) (role_of_group rbac_wit_org member_group) rbac_wit_views s'" by blast
  with run show ?thesis by (simp add: role_of_group_def rbac_wit_org_def OrganizationRoleName_def)
qed

section \<open>Default team roles\<close>

text \<open>
  No default role of developers can run commands in pods: the rules that are aggregated to the developer role,
  other than reading, do not cover \<open>pods/exec\<close>.
\<close>

lemma developers_cannot_exec:
  assumes "(name, spec) \<in> set defaultTeamRoles" "trs_labels spec = aggregate_label"
    "rules_allow (trs_rules spec) \<lparr>ac_verb = verb, ac_group = g, ac_resource = ''pods/exec'', ac_name = n\<rparr>"
  shows "verb \<in> {''get'', ''list'', ''watch''}"
  using assms by (auto simp: defaultTeamRoles_def role_spec_def aggregate_label_def permission_defs)

text \<open>
  After a successful seeding every default team role is stored with its specification, in whatever order the
  map is ranged over.
\<close>

theorem default_team_roles_seeded:
  assumes store: "own_kind (rbe_teamRoles env) look" and run: "reconcileDefaultTeamRoles env org s = (None, s')"
    and order: "set (rbe_range env (map fst defaultTeamRoles)) = set (map fst defaultTeamRoles)"
    and spec: "smap_get defaultTeamRoles name = Some spec"
  shows "stored_as look \<lparr>nn_namespace = o_name org, nn_name = name\<rparr> (\<lambda>tr. set_spec spec tr = tr) s'"
proof -
  let ?fact = "\<lambda>n sp. stored_as look \<lparr>nn_namespace = o_name org, nn_name = n\<rparr> (\<lambda>tr. set_spec sp tr = tr)"
  let ?ps = "List.map_filter (\<lambda>n. map_option (\<lambda>sp. (seed_teamRole env org n sp, ?fact n sp)) (smap_get defaultTeamRoles n))
     (rbe_range env (map fst defaultTeamRoles))"
  have in_ps: "(f, P) \<in> set ?ps \<longleftrightarrow> (\<exists>n sp. n \<in> set (map fst defaultTeamRoles) \<and> smap_get defaultTeamRoles n = Some sp
      \<and> f = seed_teamRole env org n sp \<and> P = ?fact n sp)" for f P
    by (auto simp: set_map_filter order)
  have fsts: "map fst ?ps = List.map_filter (\<lambda>n. map_option (seed_teamRole env org n) (smap_get defaultTeamRoles n))
     (rbe_range env (map fst defaultTeamRoles))"
    by (simp add: map_filter_def o_def) (auto simp: comp_def split: option.splits)
  have steps: "run_steps (map fst ?ps) s = (None, s')" using run by (simp add: reconcileDefaultTeamRoles_def fsts)
  have est: "?fact n sp s2" if "seed_teamRole env org n sp s1 = (None, s2)" for n sp s1 s2
  proof -
    have "stored_as look (ObjectKeyFromObject (new_teamRole (o_name org) n)) (\<lambda>tr. set_spec sp tr = tr) s2"
      by (rule apply_object_establishes [of "rbe_teamRoles env", OF _ that [unfolded seed_teamRole_def]])
        (use store in \<open>auto simp: own_kind_def owned_by_org_Inr set_spec_def ObjectKeyFromObject_def\<close>)
    then show ?thesis by (simp add: ObjectKeyFromObject_def new_teamRole_def)
  qed
  have keep: "?fact m sq s2" if "?fact m sq s1" "m \<noteq> n" "seed_teamRole env org n sp s1 = (None, s2)" for n sp m sq s1 s2
    by (rule apply_object_keeps [OF that(3) [unfolded seed_teamRole_def], where look = look])
      (use store that in \<open>auto simp: own_kind_def owned_by_org_Inr set_spec_def ObjectKeyFromObject_def new_teamRole_def\<close>)
  show ?thesis
  proof (rule run_steps_establish [OF steps, where Qs = "snd ` set ?ps"])
    show "P s2" if "(f, P) \<in> set ?ps" "f s1 = (None, s2)" for f P s1 s2
      using that est unfolding in_ps by blast
    show "Q s2" if "(f, P) \<in> set ?ps" "Q \<in> snd ` set ?ps" "Q s1" "f s1 = (None, s2)" for f P Q s1 s2
    proof -
      from that(1) obtain n sp where f: "f = seed_teamRole env org n sp" "smap_get defaultTeamRoles n = Some sp"
        unfolding in_ps by blast
      from that(2) obtain m sq where Q: "Q = ?fact m sq" "smap_get defaultTeamRoles m = Some sq"
        using in_ps by force
      show ?thesis using f Q that(3,4) est keep by (cases "m = n") auto
    qed
    have "name \<in> set (map fst defaultTeamRoles)" using spec smap_get_in_set by (force simp: image_iff)
    then have "(seed_teamRole env org name spec, ?fact name spec) \<in> set ?ps" unfolding in_ps using spec by blast
    then show "?fact name spec \<in> snd ` set ?ps \<or> ?fact name spec \<in> snd ` set ?ps \<and> ?fact name spec s" by force
  qed simp
qed

theorem default_team_roles_seeded_witness:
  "\<exists>s'. reconcileDefaultTeamRoles rbac_wit_env rbac_wit_org rbac_wit_state = (None, s')
     \<and> stored_as (\<lambda>s. stored_in (st_teamRoles s)) \<lparr>nn_namespace = ''o'', nn_name = ''node-maintainer''\<rparr>
         (\<lambda>tr. set_spec (role_spec [rule [''get'', ''patch''] [[]] [''nodes''] []] []) tr = tr) s'"
proof -
  have "fst (reconcileDefaultTeamRoles rbac_wit_env rbac_wit_org rbac_wit_state) = None" by code_simp
  then obtain s' where run: "reconcileDefaultTeamRoles rbac_wit_env rbac_wit_org rbac_wit_state = (None, s')" by (metis prod.collapse)
  have store: "own_kind (rbe_teamRoles rbac_wit_env) (\<lambda>s. stored_in (st_teamRoles s))"
    by (simp add: own_kind_def rbac_wit_env_def list_client_stores list_client_writes_own)
  have order: "set (rbe_range rbac_wit_env (map fst defaultTeamRoles)) = set (map fst defaultTeamRoles)"
    by (simp add: rbac_wit_env_def)
  have "smap_get defaultTeamRoles ''node-maintainer'' = Some (role_spec [rule [''get'', ''patch''] [[]] [''nodes''] []] [])"
    by code_simp
  from default_team_roles_seeded [OF store run order this] run show ?thesis by (auto simp: rbac_wit_org_def)
qed


end
