(* ===== verification/Strconv.thy ===== *)
theory Strconv
  imports Greenhouse_Prelude
begin

text \<open>
  Decimal numbers as the package \<open>strconv\<close> reads and prints them, with the range of 64 bits, and the environment
  variables of \<open>internal/clientutil/env.go\<close> that are read with it. An environment maps names to values.
\<close>

definition decimal_char :: "char \<Rightarrow> bool" where
  "decimal_char c = (let n = of_char c :: nat in 48 \<le> n \<and> n \<le> 57)"

definition decimal :: "string \<Rightarrow> int" where
  "decimal s = fold (\<lambda>c acc. acc * 10 + (of_char c - 48)) s 0"

definition MinInt64 :: int where "MinInt64 = - 9223372036854775808"
definition MaxInt64 :: int where "MaxInt64 = 9223372036854775807"

text \<open>\<open>strconv.ParseInt(s, 10, 64)\<close>, and \<open>strconv.Atoi\<close> where \<open>int\<close> has 64 bits: a sign is optional.\<close>

definition ParseInt :: "string \<Rightarrow> int option" where
  "ParseInt s =
     (let (neg, ds) = (case s of [] \<Rightarrow> (False, [])
                       | c # cs \<Rightarrow> if c = CHR ''-'' then (True, cs) else if c = CHR ''+'' then (False, cs) else (False, s));
          v = (if neg then - decimal ds else decimal ds)
      in if ds \<noteq> [] \<and> list_all decimal_char ds \<and> MinInt64 \<le> v \<and> v \<le> MaxInt64 then Some v else None)"

text \<open>The value of a sum that wraps around in 64 bits.\<close>

definition wrap64 :: "int \<Rightarrow> int" where
  "wrap64 v = (v - MinInt64) mod 18446744073709551616 + MinInt64"

definition GetEnvOrDefault :: "(string \<Rightarrow> string option) \<Rightarrow> string \<Rightarrow> string \<Rightarrow> string" where
  "GetEnvOrDefault environ envKey defaultValue = (case environ envKey of Some v \<Rightarrow> v | None \<Rightarrow> defaultValue)"

definition GetIntEnvWithDefault :: "(string \<Rightarrow> string option) \<Rightarrow> string \<Rightarrow> int \<Rightarrow> int" where
  "GetIntEnvWithDefault environ envKey def =
     (case ParseInt (case environ envKey of Some v \<Rightarrow> v | None \<Rightarrow> []) of Some i \<Rightarrow> i | None \<Rightarrow> def)"

definition GetEnv :: "(string \<Rightarrow> string option) \<Rightarrow> string \<Rightarrow> go_error + string" where
  "GetEnv environ envKey =
     (case environ envKey of
        Some v \<Rightarrow> Inr v
      | None \<Rightarrow> Inl (PlainError (''environment variable '' @ [CHR 0x27] @ envKey @ [CHR 0x27] @ '' not set'')))"

section \<open>Printing and reading\<close>

lemma decimal_snoc: "decimal (ds @ [c]) = decimal ds * 10 + (of_char c - 48)"
  by (simp add: decimal_def)

lemma decimal_digit: "n < 10 \<Longrightarrow> of_char (char_of (48 + n) :: char) = (48 + int n :: int)" for n :: nat
proof -
  assume n: "n < 10"
  have "(of_char (char_of (48 + n) :: char) :: int) = int (of_char (char_of (48 + n) :: char))"
    by (simp only: of_nat_of_char)
  also have "of_char (char_of (48 + n) :: char) = 48 + n" using n by simp
  finally show ?thesis by simp
qed

lemma Itoa_digits: "Itoa n \<noteq> [] \<and> list_all decimal_char (Itoa n) \<and> decimal (Itoa n) = int n"
proof (induction n rule: Itoa.induct)
  case (1 n)
  have d: "decimal_char (char_of (48 + k))" if "k < 10" for k :: nat
    using that by (simp add: decimal_char_def)
  show ?case
  proof (cases "n < 10")
    case True
    then show ?thesis using d [of n] decimal_snoc [of "[]"] decimal_digit [of n] by (simp add: Itoa.simps decimal_def)
  next
    case False
    then show ?thesis
      using 1 d [of "n mod 10"] decimal_digit [of "n mod 10"] by (subst (1 2 3) Itoa.simps) (simp add: decimal_snoc zdiv_int zmod_int)
  qed
qed

lemma Itoa_head: "Itoa n = c # cs \<Longrightarrow> c \<noteq> CHR ''-'' \<and> c \<noteq> CHR ''+''"
  using Itoa_digits [of n] by (auto simp: decimal_char_def)

lemma ParseInt_format_d:
  assumes "MinInt64 \<le> v" "v \<le> MaxInt64"
  shows "ParseInt (format_d v) = Some v"
proof (cases "v < 0")
  case True
  then show ?thesis using assms Itoa_digits [of "nat (- v)"] by (simp add: ParseInt_def format_d_def)
next
  case False
  obtain c cs where c: "Itoa (nat v) = c # cs" using Itoa_digits [of "nat v"] by (cases "Itoa (nat v)") auto
  from Itoa_head [OF c] Itoa_digits [of "nat v"] assms False c show ?thesis
    by (simp add: ParseInt_def format_d_def)
qed

lemma wrap64_range: "MinInt64 \<le> wrap64 v \<and> wrap64 v \<le> MaxInt64"
  using pos_mod_bound [of 18446744073709551616 "v - MinInt64"] by (simp add: wrap64_def MinInt64_def MaxInt64_def)

lemma wrap64_id: "MinInt64 \<le> v \<Longrightarrow> v \<le> MaxInt64 \<Longrightarrow> wrap64 v = v"
  by (simp add: wrap64_def MinInt64_def MaxInt64_def)

lemma wrap64_succ: "MinInt64 \<le> v \<Longrightarrow> v \<le> MaxInt64 \<Longrightarrow> wrap64 (v + 1) \<noteq> v"
  by (cases "v = MaxInt64") (simp_all add: wrap64_def MinInt64_def MaxInt64_def)

lemma ParseInt_range: "ParseInt s = Some v \<Longrightarrow> MinInt64 \<le> v \<and> v \<le> MaxInt64"
  by (auto simp: ParseInt_def Let_def split: list.splits if_splits prod.splits)

end
