(* ===== verification/Dex_Connector.thy ===== *)
theory Dex_Connector
  imports Organization_RBAC Webhook_Core Authz Strconv "HOL-Library.Word"
begin

text \<open>
  The OIDC connector of Greenhouse for Dex (\<open>internal/dex/connector.go\<close>) and its storage (\<open>storage.go\<close>). A
  connector belongs to an organization; it turns the groups of the identity provider into the groups that the roles
  of the organization are bound to and that the authorization webhook reads as claims. The connector of Dex that
  it wraps, the API server and the order of a range over labels are parameters. Logging is left out.
\<close>

section \<open>Groups of an identity\<close>

record dex_identity =
  di_userID :: string
  di_username :: string
  di_preferredUsername :: string
  di_email :: string
  di_emailVerified :: bool
  di_groups :: "string list"

record 's connector_reads =
  cn_list_teams :: "string \<Rightarrow> 's \<Rightarrow> go_error + team list"
  cn_get_org :: "namespaced_name \<Rightarrow> 's \<Rightarrow> go_error + organization"
  cn_range :: "string list \<Rightarrow> string list"

record oidc_connector =
  oc_id :: string
  oc_keepUpstreamGroups :: bool

definition greenhouseLabelKeyPrefix :: string where
  "greenhouseLabelKeyPrefix = GroupName @ ''/''"

definition append_at :: "string \<Rightarrow> string \<Rightarrow> string list smap \<Rightarrow> string list smap" where
  "append_at k v m = smap_set k ((case smap_get m k of None \<Rightarrow> [] | Some vs \<Rightarrow> vs) @ [v]) m"

definition label_groups :: "(string list \<Rightarrow> string list) \<Rightarrow> team \<Rightarrow> string list" where
  "label_groups rng team =
     List.map_filter (\<lambda>k. map_option (\<lambda>category. category @ '':'' @ o_name team) (CutPrefix k greenhouseLabelKeyPrefix))
       (rng (map fst (o_labels team)))"

definition map_team :: "(string list \<Rightarrow> string list) \<Rightarrow> team \<Rightarrow> string list smap \<Rightarrow> string list smap" where
  "map_team rng team m =
     fold (append_at (team_mappedIDPGroup team)) ((''team:'' @ o_name team) # label_groups rng team) m"

definition groups_for :: "string list smap \<Rightarrow> string smap \<Rightarrow> string \<Rightarrow> string list" where
  "groups_for teamNames roleNames g =
     (case smap_get teamNames g of None \<Rightarrow> [] | Some names \<Rightarrow> names)
     @ (case smap_get roleNames g of None \<Rightarrow> [] | Some role \<Rightarrow> [role])"

definition getGroups :: "'s connector_reads \<Rightarrow> oidc_connector \<Rightarrow> string \<Rightarrow> string list \<Rightarrow> 's \<Rightarrow> go_error + string list" where
  "getGroups rd c organization upstreamGroups s =
     (case cn_list_teams rd organization s of
        Inl e \<Rightarrow> Inl e
      | Inr teams \<Rightarrow>
          (let teamNames = fold (map_team (cn_range rd)) teams [] in
           case cn_get_org rd \<lparr>nn_namespace = [], nn_name = organization\<rparr> s of
             Inl e \<Rightarrow> Inl e
           | Inr org \<Rightarrow>
               (let roleNames = smap_set (org_mappedOrgAdminIDPGroup org) (OrganizationAdminRoleName organization) [];
                    groups = OrganizationRoleName (oc_id c) # concat (map (groups_for teamNames roleNames) upstreamGroups)
                in Inr (if oc_keepUpstreamGroups c then upstreamGroups @ groups else groups))))"

text \<open>The two methods that ask the wrapped connector for an identity; \<open>upstream\<close> is its answer.\<close>

definition HandleCallback ::
  "'s connector_reads \<Rightarrow> oidc_connector \<Rightarrow> go_error option \<times> dex_identity \<Rightarrow> 's \<Rightarrow> go_error option \<times> dex_identity" where
  "HandleCallback rd c upstream s =
     (case upstream of
        (Some e, identity) \<Rightarrow> (Some e, identity)
      | (None, identity) \<Rightarrow>
          (case getGroups rd c (oc_id c) (di_groups identity) s of
             Inl _ \<Rightarrow> (None, if oc_keepUpstreamGroups c then identity else identity\<lparr>di_groups := []\<rparr>)
           | Inr groups \<Rightarrow> (None, identity\<lparr>di_groups := groups\<rparr>)))"

definition Refresh ::
  "'s connector_reads \<Rightarrow> oidc_connector \<Rightarrow> go_error option \<times> dex_identity \<Rightarrow> 's \<Rightarrow> go_error option \<times> dex_identity" where
  "Refresh rd c upstream s =
     (case upstream of
        (Some e, identity) \<Rightarrow> (Some e, identity)
      | (None, identity) \<Rightarrow>
          (case getGroups rd c (oc_id c) (di_groups identity) s of
             Inl _ \<Rightarrow> (None, identity\<lparr>di_groups := []\<rparr>)
           | Inr groups \<Rightarrow> (None, identity\<lparr>di_groups := groups\<rparr>)))"

text \<open>\<open>Open\<close>: the configured redirect URI can be overwritten; \<open>open_dex\<close> opens the wrapped connector.\<close>

record connector_config =
  cc_redirectURI :: string
  cc_keepUpstreamGroups :: bool
  cc_redirectURIOverwrite :: string

definition AddRedirectURI :: "string \<Rightarrow> connector_config \<Rightarrow> connector_config" where
  "AddRedirectURI redirectURI c = c\<lparr>cc_redirectURIOverwrite := redirectURI\<rparr>"

definition Open_connector :: "(string \<Rightarrow> string \<Rightarrow> go_error + 'd) \<Rightarrow> connector_config \<Rightarrow> string \<Rightarrow> (go_error + ('d \<times> oidc_connector)) \<times> connector_config" where
  "Open_connector open_dex c cid =
     (let c1 = (if cc_redirectURIOverwrite c \<noteq> [] then c\<lparr>cc_redirectURI := cc_redirectURIOverwrite c\<rparr> else c)
      in (case open_dex (cc_redirectURI c1) cid of
            Inl e \<Rightarrow> Inl e
          | Inr conn \<Rightarrow> Inr (conn, \<lparr>oc_id = cid, oc_keepUpstreamGroups = cc_keepUpstreamGroups c1\<rparr>), c1))"

section \<open>Storage\<close>

definition Postgres :: string where "Postgres = ''postgres''"
definition K8s :: string where "K8s = ''kubernetes''"

record postgres_config =
  pg_host :: string
  pg_port :: "16 word"
  pg_user :: string
  pg_password :: string
  pg_database :: string

record dex_kubernetes_config =
  dk_inCluster :: bool
  dk_kubeConfigFile :: string

record 'st dex_backends =
  bk_environ :: "string \<Rightarrow> string option"
  bk_inClusterConfig :: "go_error option"
  bk_homeConfig :: string
  bk_openPostgres :: "postgres_config \<Rightarrow> go_error + 'st"
  bk_openKubernetes :: "dex_kubernetes_config \<Rightarrow> go_error + 'st"

definition determineKubeMode :: "'st dex_backends \<Rightarrow> string" where
  "determineKubeMode b =
     (let cfgPath = (case bk_environ b ''KUBECONFIG'' of Some v \<Rightarrow> v | None \<Rightarrow> [])
      in if TrimSpace cfgPath \<noteq> [] then cfgPath else if bk_inClusterConfig b = None then [] else bk_homeConfig b)"

definition newKubernetesStore :: "'st dex_backends \<Rightarrow> go_error + 'st" where
  "newKubernetesStore b =
     (let cfgPath = determineKubeMode b
      in bk_openKubernetes b
           (if TrimSpace cfgPath \<noteq> [] then \<lparr>dk_inCluster = False, dk_kubeConfigFile = cfgPath\<rparr>
            else \<lparr>dk_inCluster = True, dk_kubeConfigFile = []\<rparr>))"

definition newPostgresStore :: "'st dex_backends \<Rightarrow> go_error + 'st" where
  "newPostgresStore b =
     (let database = GetEnvOrDefault (bk_environ b) ''PG_DATABASE'' ''postgres'';
          user = GetEnvOrDefault (bk_environ b) ''PG_USER'' ''postgres'';
          port = GetIntEnvWithDefault (bk_environ b) ''PG_PORT'' 5432
      in case GetEnv (bk_environ b) ''PG_HOST'' of
           Inl e \<Rightarrow> Inl e
         | Inr host \<Rightarrow>
             (case GetEnv (bk_environ b) ''PG_PASSWORD'' of
                Inl e \<Rightarrow> Inl e
              | Inr pass \<Rightarrow>
                  bk_openPostgres b
                    \<lparr>pg_host = host, pg_port = (if port < 0 \<or> port > 65535 then 5432 else word_of_int port), pg_user = user,
                     pg_password = pass, pg_database = database\<rparr>))"

definition NewDexStorage :: "'st dex_backends \<Rightarrow> string \<Rightarrow> go_error + 'st" where
  "NewDexStorage b backend =
     (if backend = Postgres then newPostgresStore b
      else if backend = K8s then newKubernetesStore b
      else Inl (PlainError (''unknown dexStorage backend: '' @ backend)))"

section \<open>The groups, exactly\<close>

lemma get_append_at:
  "smap_get (fold (append_at k) vs m) g = (if vs \<noteq> [] \<and> g = k then Some ((case smap_get m k of None \<Rightarrow> [] | Some ws \<Rightarrow> ws) @ vs) else smap_get m g)"
  by (induction vs arbitrary: m) (auto simp: append_at_def sm.get_upd split: option.splits)

text \<open>The groups that a team gives to those who are in its mapped group.\<close>

definition team_groups :: "(string list \<Rightarrow> string list) \<Rightarrow> team \<Rightarrow> string list" where
  "team_groups rng t = (''team:'' @ o_name t) # label_groups rng t"

lemma map_team_groups: "map_team rng t = fold (append_at (team_mappedIDPGroup t)) (team_groups rng t)"
  by (rule ext) (simp add: map_team_def team_groups_def)

lemma team_groups_not_Nil [simp]: "team_groups rng t \<noteq> []" by (simp add: team_groups_def)

lemma get_map_teams:
  "(case smap_get (fold (map_team rng) teams m) g of None \<Rightarrow> [] | Some ns \<Rightarrow> ns)
     = (case smap_get m g of None \<Rightarrow> [] | Some ns \<Rightarrow> ns)
       @ concat (map (team_groups rng) (filter (\<lambda>t. team_mappedIDPGroup t = g) teams))"
proof (induction teams arbitrary: m)
  case (Cons t teams)
  show ?case
    using Cons.IH [of "fold (append_at (team_mappedIDPGroup t)) (team_groups rng t) m"]
    by (simp add: map_team_groups get_append_at split: option.splits)
qed simp

lemma in_label_groups:
  assumes "\<And>ks. set (rng ks) = set ks"
  shows "x \<in> set (label_groups rng t) \<longleftrightarrow>
    (\<exists>category v. (greenhouseLabelKeyPrefix @ category, v) \<in> set (o_labels t) \<and> x = category @ '':'' @ o_name t)"
proof -
  have "CutPrefix k p = Some z \<longleftrightarrow> k = p @ z" for k p z by (auto simp: CutPrefix_def prefix_def)
  then show ?thesis by (auto simp: label_groups_def set_map_filter assms image_iff) force+
qed

lemma in_team_groups:
  assumes "\<And>ks. set (rng ks) = set ks"
  shows "x \<in> set (team_groups rng t) \<longleftrightarrow> x = ''team:'' @ o_name t \<or>
    (\<exists>category v. (greenhouseLabelKeyPrefix @ category, v) \<in> set (o_labels t) \<and> x = category @ '':'' @ o_name t)"
  unfolding team_groups_def using in_label_groups [of rng x t, OF assms] by simp

lemma set_groups_for:
  "x \<in> set (groups_for (fold (map_team rng) teams []) (smap_set adminGroup role []) g) \<longleftrightarrow>
     (\<exists>t \<in> set teams. team_mappedIDPGroup t = g \<and> x \<in> set (team_groups rng t)) \<or> g = adminGroup \<and> x = role"
  using get_map_teams [of rng teams "[]" g] by (auto simp: groups_for_def sm.get_upd)

lemma getGroups_Inr:
  assumes "getGroups rd c organization upstream s = Inr groups"
  obtains teams org where "cn_list_teams rd organization s = Inr teams"
    and "cn_get_org rd \<lparr>nn_namespace = [], nn_name = organization\<rparr> s = Inr org"
    and "\<And>x. x \<in> set groups \<longleftrightarrow> x = OrganizationRoleName (oc_id c)
       \<or> org_mappedOrgAdminIDPGroup org \<in> set upstream \<and> x = OrganizationAdminRoleName organization
       \<or> (\<exists>t \<in> set teams. team_mappedIDPGroup t \<in> set upstream \<and> x \<in> set (team_groups (cn_range rd) t))
       \<or> oc_keepUpstreamGroups c \<and> x \<in> set upstream"
proof -
  from assms obtain teams org where *: "cn_list_teams rd organization s = Inr teams"
      "cn_get_org rd \<lparr>nn_namespace = [], nn_name = organization\<rparr> s = Inr org"
    by (auto simp: getGroups_def Let_def split: sum.splits)
  show thesis
    by (rule that [OF *]) (use assms * in \<open>auto simp: getGroups_def Let_def set_groups_for split: if_splits\<close>)
qed

text \<open>
  The groups of an identity are exactly: the group of the organization, its admin role when the identity is in
  the mapped admin group, and for every team whose mapped group it is in the group of the team and one for every
  Greenhouse label of the team; in addition the upstream groups when these are kept.
\<close>

theorem identity_groups:
  assumes "cn_list_teams rd organization s = Inr teams" and range: "\<And>ks. set (cn_range rd ks) = set ks"
    and "cn_get_org rd \<lparr>nn_namespace = [], nn_name = organization\<rparr> s = Inr org"
    and groups: "getGroups rd c organization upstream s = Inr groups"
  shows "x \<in> set groups \<longleftrightarrow>
     x = OrganizationRoleName (oc_id c)
     \<or> org_mappedOrgAdminIDPGroup org \<in> set upstream \<and> x = OrganizationAdminRoleName organization
     \<or> (\<exists>t \<in> set teams. team_mappedIDPGroup t \<in> set upstream \<and>
          (x = ''team:'' @ o_name t
           \<or> (\<exists>category v. (greenhouseLabelKeyPrefix @ category, v) \<in> set (o_labels t) \<and> x = category @ '':'' @ o_name t)))
     \<or> oc_keepUpstreamGroups c \<and> x \<in> set upstream"
  using getGroups_Inr [OF groups] assms(1,3) unfolding in_team_groups [of "cn_range rd", OF range, symmetric]
  by (metis sum.inject(2))

section \<open>No groups of other organizations\<close>

text \<open>A name that can be a category: no colon, and none of the prefixes that groups of organizations have.\<close>

definition plain_category :: "string \<Rightarrow> bool" where
  "plain_category n \<longleftrightarrow> CHR '':'' \<notin> set n \<and> n \<noteq> ''organization'' \<and> n \<noteq> ''role''"

lemma colon_split:
  assumes "CHR '':'' \<notin> set a" and "CHR '':'' \<notin> set b"
  shows "a @ CHR '':'' # x = b @ CHR '':'' # y \<longleftrightarrow> a = b \<and> x = y"
  using assms
proof (induction a arbitrary: b)
  case Nil then show ?case by (cases b) auto
next
  case (Cons u a) then show ?case by (cases b) auto
qed

lemma category_group_neq:
  assumes "plain_category category"
  shows "category @ '':'' @ n \<noteq> OrganizationRoleName k \<and> category @ '':'' @ n \<noteq> ''role:'' @ k"
  using assms colon_split [of category "''organization''" n k] colon_split [of category "''role''" n k]
  by (auto simp: plain_category_def OrganizationRoleName_def)

lemma validated_category:
  assumes "validateGreenhouseLabels ad t = None" and "ar_list_clusterPluginDefinitions ad = Inr names"
    and "(greenhouseLabelKeyPrefix @ category, v) \<in> set (o_labels t)"
  shows "category = ''support-group'' \<or> category \<in> set names"
proof -
  from assms(1,2) have "find (\<lambda>(k, _). \<not> team_label_allowed (''support-group'' # names) k) (o_labels t) = None"
    by (auto simp: validateGreenhouseLabels_def Let_def split: option.splits)
  with assms(3) have "team_label_allowed (''support-group'' # names) (greenhouseLabelKeyPrefix @ category)"
    by (force simp: find_None_iff)
  then show ?thesis
    by (auto simp: team_label_allowed_def greenhouseLabelKeyPrefix_def HasPrefix_def TrimPrefix_def)
qed

lemma callback_groups:
  assumes "identity' \<in> {snd (HandleCallback rd c (None, identity) s), snd (Refresh rd c (None, identity) s)}"
    and "\<not> oc_keepUpstreamGroups c"
  shows "di_groups identity' = [] \<or> getGroups rd c (oc_id c) (di_groups identity) s = Inr (di_groups identity')"
  using assms by (auto simp: HandleCallback_def Refresh_def split: sum.splits)

text \<open>
  C9. An identity of a connector never gets the group or an administrator role of another organization, and the
  admin role only through the mapped group: when the upstream groups are dropped, the teams have passed the team
  webhook, and no ClusterPluginDefinition is called organization or role (their names become prefixes of groups).
\<close>

theorem no_foreign_organization:
  assumes identity: "identity' \<in> {snd (HandleCallback rd c (None, identity) s), snd (Refresh rd c (None, identity) s)}"
    and keep: "\<not> oc_keepUpstreamGroups c" and range: "\<And>ks. set (cn_range rd ks) = set ks"
    and admitted: "\<And>teams. cn_list_teams rd (oc_id c) s = Inr teams \<Longrightarrow> \<forall>t \<in> set teams. validateGreenhouseLabels ad t = None"
    and names: "ar_list_clusterPluginDefinitions ad = Inr names" "\<forall>n \<in> set names. plain_category n"
  shows "(OrganizationRoleName other \<in> set (di_groups identity') \<longrightarrow> other = oc_id c) \<and>
    (''role:'' @ role \<in> set (di_groups identity') \<longrightarrow>
       ''role:'' @ role = OrganizationAdminRoleName (oc_id c) \<and>
       (\<exists>org. cn_get_org rd \<lparr>nn_namespace = [], nn_name = oc_id c\<rparr> s = Inr org \<and>
          org_mappedOrgAdminIDPGroup org \<in> set (di_groups identity)))"
  using callback_groups [OF identity keep]
proof
  assume "getGroups rd c (oc_id c) (di_groups identity) s = Inr (di_groups identity')"
  then obtain teams org where teams: "cn_list_teams rd (oc_id c) s = Inr teams"
    and org: "cn_get_org rd \<lparr>nn_namespace = [], nn_name = oc_id c\<rparr> s = Inr org"
    and groups: "\<And>x. x \<in> set (di_groups identity') \<longleftrightarrow> x = OrganizationRoleName (oc_id c)
       \<or> org_mappedOrgAdminIDPGroup org \<in> set (di_groups identity) \<and> x = OrganizationAdminRoleName (oc_id c)
       \<or> (\<exists>t \<in> set teams. team_mappedIDPGroup t \<in> set (di_groups identity) \<and> x \<in> set (team_groups (cn_range rd) t))
       \<or> oc_keepUpstreamGroups c \<and> x \<in> set (di_groups identity)"
    by (rule getGroups_Inr) (rule that)
  have "x \<noteq> OrganizationRoleName other \<and> x \<noteq> ''role:'' @ role"
    if "t \<in> set teams" "x \<in> set (team_groups (cn_range rd) t)" for t x
  proof -
    from that(2) consider "x = ''team:'' @ o_name t"
      | category v where "(greenhouseLabelKeyPrefix @ category, v) \<in> set (o_labels t)" "x = category @ '':'' @ o_name t"
      by (auto simp: in_team_groups [of "cn_range rd", OF range])
    then show ?thesis
    proof cases
      case 1 then show ?thesis by (simp add: OrganizationRoleName_def)
    next
      case 2
      with validated_category [OF _ names(1) 2(1)] admitted [OF teams] that(1) names(2)
      have "plain_category category" by (auto simp: plain_category_def)
      then show ?thesis
        unfolding 2(2) using category_group_neq [of category "o_name t" other] category_group_neq [of category "o_name t" role] by iprover
    qed
  qed
  with keep org show ?thesis
    unfolding groups by (auto simp: OrganizationRoleName_def OrganizationAdminRoleName_def)
qed simp

section \<open>Claims and the authorization webhook\<close>

lemma owner_allowed:
  assumes "rv_attrs review = Some attrs" and "ra_name attrs \<noteq> []"
    and "owner_of rd attrs t" and "belongs_to rd review (ra_namespace attrs) t"
  shows "\<exists>msg. fst (handleAuthorize rd ''POST'' (Inr review)) = ReviewReply True msg"
proof (cases "getSupportGroups rd (rv_user review) (rv_groups review) (ra_namespace attrs)")
  case (Inl e)
  with assms(4) getSupportGroups_none show ?thesis by blast
next
  case (Inr gs)
  with assms(3,4) getSupportGroups_belongs [OF Inr] authorizeAccess_allowed
  have "d_allowed (fst (authorizeAccess rd attrs gs))" by blast
  with assms(1,2) Inr show ?thesis by (auto simp: handleAuthorize_def split: prod.splits)
qed

text \<open>
  C10. The connector and the authorization webhook together: the claim of a support group carries no organization, so
  an identity of one organization is allowed on resources in the namespace of any other organization whose owner is
  a support group of the same name; the value of the label in the own organization does not matter.
\<close>

theorem support_claims_cross_organizations:
  assumes groups: "getGroups rd c (oc_id c) (di_groups identity) s = Inr gs" and range: "\<And>ks. set (cn_range rd ks) = set ks"
    and own: "cn_list_teams rd (oc_id c) s = Inr teams" "t \<in> set teams" "team_mappedIDPGroup t \<in> set (di_groups identity)"
      "(LabelKeySupportGroup, v) \<in> set (o_labels t)"
    and foreign: "owner_of az attrs (o_name t)" "ra_name attrs \<noteq> []"
    and user: "extractServiceAccountName user (ra_namespace attrs) = []"
  shows "\<exists>msg. fst (handleAuthorize az ''POST''
      (Inr \<lparr>rv_user = user, rv_groups = di_groups (snd (HandleCallback rd c (None, identity) s)), rv_attrs = Some attrs\<rparr>))
      = ReviewReply True msg"
proof -
  have "LabelKeySupportGroup = greenhouseLabelKeyPrefix @ ''support-group''"
    by (simp add: LabelKeySupportGroup_def greenhouseLabelKeyPrefix_def GroupName_def)
  with own(4) have "''support-group:'' @ o_name t \<in> set (team_groups (cn_range rd) t)"
    unfolding in_team_groups [of "cn_range rd", OF range] by auto
  with getGroups_Inr [OF groups] own have "''support-group:'' @ o_name t \<in> set gs" by (metis sum.inject(2))
  moreover have "di_groups (snd (HandleCallback rd c (None, identity) s)) = gs"
    using groups by (simp add: HandleCallback_def)
  ultimately show ?thesis
    by (intro owner_allowed [OF _ foreign(2) foreign(1)]) (auto simp: belongs_to_def user supportGroupClaimPrefix_def)
qed

definition demo_connector_reads :: "unit connector_reads" where
  "demo_connector_reads = \<lparr>cn_list_teams = (\<lambda>_ _. Inr [support_team\<lparr>team_mappedIDPGroup := ''IDP_SRE''\<rparr>]),
     cn_get_org = (\<lambda>_ _. Inr (sample_org\<lparr>org_mappedOrgAdminIDPGroup := ''IDP_ADMIN''\<rparr>)), cn_range = (\<lambda>ks. ks)\<rparr>"

definition sample_connector :: oidc_connector where
  "sample_connector = \<lparr>oc_id = ''demo'', oc_keepUpstreamGroups = False\<rparr>"

definition sample_identity :: dex_identity where
  "sample_identity = \<lparr>di_userID = ''1'', di_username = ''jane'', di_preferredUsername = [], di_email = [],
     di_emailVerified = True, di_groups = [''IDP_ADMIN'', ''IDP_SRE'']\<rparr>"

lemma sample_groups: "getGroups demo_connector_reads sample_connector ''demo'' [''IDP_ADMIN'', ''IDP_SRE''] () =
    Inr [''organization:demo'', ''role:demo:admin'', ''team:sre'', ''support-group:sre'']"
  by code_simp

theorem identity_groups_witness: "''role:demo:admin'' \<in> set [''organization:demo'', ''role:demo:admin'', ''team:sre'', ''support-group:sre'']"
  by (subst identity_groups [OF _ _ _ sample_groups, where teams = "[support_team\<lparr>team_mappedIDPGroup := ''IDP_SRE''\<rparr>]"
        and org = "sample_org\<lparr>org_mappedOrgAdminIDPGroup := ''IDP_ADMIN''\<rparr>"])
    (simp_all add: demo_connector_reads_def OrganizationAdminRoleName_def)

theorem no_foreign_organization_witness:
  "OrganizationRoleName ''other'' \<notin> set (di_groups (snd (HandleCallback demo_connector_reads sample_connector (None, sample_identity) ())))"
proof -
  have t: "validateGreenhouseLabels (sample_reads\<lparr>ar_list_clusterPluginDefinitions := Inr [''perses'']\<rparr>)
      (support_team\<lparr>team_mappedIDPGroup := ''IDP_SRE''\<rparr>) = None"
    by code_simp
  have "OrganizationRoleName ''other'' \<in> set (di_groups (snd (HandleCallback demo_connector_reads sample_connector (None, sample_identity) ())))
      \<longrightarrow> ''other'' = oc_id sample_connector"
    by (rule no_foreign_organization [where ad = "sample_reads\<lparr>ar_list_clusterPluginDefinitions := Inr [''perses'']\<rparr>"
          and names = "[''perses'']", THEN conjunct1])
      (use t in \<open>auto simp: demo_connector_reads_def sample_connector_def plain_category_def\<close>)
  then show ?thesis by (auto simp: sample_connector_def)
qed

theorem support_claims_cross_organizations_witness:
  "\<exists>msg. fst (handleAuthorize sample_authz ''POST''
      (Inr \<lparr>rv_user = ''jane'', rv_groups = di_groups (snd (HandleCallback demo_connector_reads sample_connector (None, sample_identity) ())),
        rv_attrs = Some sample_attrs\<rparr>)) = ReviewReply True msg"
proof -
  have g: "getGroups demo_connector_reads sample_connector (oc_id sample_connector) (di_groups sample_identity) () =
      Inr [''organization:demo'', ''role:demo:admin'', ''team:sre'', ''support-group:sre'']" by code_simp
  have u: "extractServiceAccountName ''jane'' (ra_namespace sample_attrs) = []" by code_simp
  have f: "owner_of sample_authz sample_attrs ''sre''"
    by (simp add: owner_of_def sample_authz_def owned_object_def support_team_def smap_get_def)
  show ?thesis
    by (rule support_claims_cross_organizations [OF g _ _ _ _ _ _ _ u, where t = "support_team\<lparr>team_mappedIDPGroup := ''IDP_SRE''\<rparr>" and v = "''true''"])
      (use f in \<open>auto simp: demo_connector_reads_def sample_identity_def support_team_def sample_attrs_def\<close>)
qed

end
