(* ===== verification/Organization_Dex.thy ===== *)
theory Organization_Dex
  imports Organization_RBAC Dex_Connector Client_Getter
begin

text \<open>
  The login of an organization (\<open>internal/controller/organization/dex.go\<close>): its connector and OAuth2 client in Dex, and
  its redirect in the client of the default organization. The storage of Dex is a parameter; what is relied on of it
  is the predicate \<open>dex_laws\<close>, which lets any call fail, with or without effect. The functions are called for an
  organization with an OIDC configuration, which they get as an argument. Logging is left out.
\<close>

section \<open>The storage of Dex\<close>

record dex_client =
  dc_id :: string
  dc_secret :: string
  dc_redirectURIs :: "string list"
  dc_trustedPeers :: "string list"
  dc_public :: bool
  dc_name :: string
  dc_logoURL :: string

record dex_connector =
  dk_id :: string
  dk_type :: string
  dk_name :: string
  dk_resourceVersion :: string
  dk_config :: string

record 's dex_storage =
  dx_isNotFound :: "go_error \<Rightarrow> bool"
  dx_getClient :: "string \<Rightarrow> 's \<Rightarrow> go_error + dex_client"
  dx_createClient :: "dex_client \<Rightarrow> 's \<Rightarrow> go_error option \<times> 's"
  dx_updateClient :: "string \<Rightarrow> (dex_client \<Rightarrow> go_error + dex_client) \<Rightarrow> 's \<Rightarrow> go_error option \<times> 's"
  dx_deleteClient :: "string \<Rightarrow> 's \<Rightarrow> go_error option \<times> 's"
  dx_getConnector :: "string \<Rightarrow> 's \<Rightarrow> go_error + dex_connector"
  dx_createConnector :: "dex_connector \<Rightarrow> 's \<Rightarrow> go_error option \<times> 's"
  dx_updateConnector :: "string \<Rightarrow> (dex_connector \<Rightarrow> go_error + dex_connector) \<Rightarrow> 's \<Rightarrow> go_error option \<times> 's"
  dx_deleteConnector :: "string \<Rightarrow> 's \<Rightarrow> go_error option \<times> 's"

text \<open>The configuration of a connector; Dex defines its JSON, so marshalling is a parameter, as is \<open>cases.Title\<close>.\<close>

record dex_oidc_settings =
  os_issuer :: string
  os_clientID :: string
  os_clientSecret :: string
  os_redirectURI :: string
  os_userNameKey :: string
  os_userIDKey :: string
  os_insecureSkipVerify :: bool
  os_insecureEnableGroups :: bool

record ingress =
  ing_hosts :: "string list"

record 's dex_env =
  dxe_storage :: "'s dex_storage"
  dxe_storageType :: string
  dxe_namespace :: string
  dxe_dnsDomain :: string
  dxe_list_ingresses :: "string \<Rightarrow> string smap \<Rightarrow> 's \<Rightarrow> go_error + ingress list"
  dxe_get_secret :: "'s \<Rightarrow> namespaced_name \<Rightarrow> go_error + secret"
  dxe_marshal :: "dex_oidc_settings \<Rightarrow> go_error + string"
  dxe_title :: "string \<Rightarrow> string"

definition dexConnectorTypeGreenhouse :: string where "dexConnectorTypeGreenhouse = ''greenhouse-oidc''"

section \<open>Redirects\<close>

definition ensureCallbackURL :: "string \<Rightarrow> string" where
  "ensureCallbackURL url =
     (let url1 = (if \<not> HasPrefix url ''https://'' then ''https://'' @ url else url)
      in if \<not> HasSuffix url1 ''/callback'' then url1 @ ''/callback'' else url1)"

definition getRedirectForOrg :: "string \<Rightarrow> string \<Rightarrow> string" where
  "getRedirectForOrg dnsDomain orgName = ''https://'' @ orgName @ ''.dashboard.'' @ dnsDomain"

fun appendRedirects :: "string list \<Rightarrow> string list \<Rightarrow> string list" where
  "appendRedirects redirects [] = redirects"
| "appendRedirects redirects (r # rs) =
     appendRedirects (if r \<notin> set redirects then redirects @ [r] else redirects) rs"

definition getRedirects :: "string \<Rightarrow> string \<Rightarrow> string list \<Rightarrow> string list" where
  "getRedirects dnsDomain orgName redirectURIs =
     appendRedirects [''http://localhost:8085'', ''https://dashboard.'' @ dnsDomain, getRedirectForOrg dnsDomain orgName] redirectURIs"

definition incrementResourceVersion :: "string \<Rightarrow> string \<Rightarrow> string" where
  "incrementResourceVersion storageType resourceVersion =
     (if storageType \<noteq> Postgres then resourceVersion
      else case ParseInt resourceVersion of None \<Rightarrow> ''1'' | Some v \<Rightarrow> format_d (wrap64 (v + 1)))"

definition discoverOIDCRedirectURL :: "'s dex_env \<Rightarrow> oidc_config \<Rightarrow> 's \<Rightarrow> go_error + string" where
  "discoverOIDCRedirectURL env cfg s =
     (if oidc_redirectURI cfg \<noteq> [] then Inr (oidc_redirectURI cfg)
      else case dxe_list_ingresses env (dxe_namespace env) [(''app.kubernetes.io/name'', ''idproxy'')] s of
             Inl e \<Rightarrow> Inl e
           | Inr ings \<Rightarrow>
               (case find (\<lambda>h. h \<noteq> []) (concat (map ing_hosts ings)) of
                  Some host \<Rightarrow> Inr (ensureCallbackURL host)
                | None \<Rightarrow> Inl (PlainError ''oidc redirect URL not provided and cannot be discovered'')))"

section \<open>Connectors and clients\<close>

definition connector_of :: "'s dex_env \<Rightarrow> organization \<Rightarrow> string \<Rightarrow> dex_connector \<Rightarrow> dex_connector" where
  "connector_of env org config c =
     c\<lparr>dk_id := o_name org, dk_type := dexConnectorTypeGreenhouse, dk_name := dxe_title env (o_name org),
       dk_resourceVersion := incrementResourceVersion (dxe_storageType env) (dk_resourceVersion c), dk_config := config\<rparr>"

definition oidc_settings :: "'s dex_env \<Rightarrow> organization \<Rightarrow> oidc_config \<Rightarrow> 's \<Rightarrow> go_error + dex_oidc_settings" where
  "oidc_settings env org cfg s =
     (let key_of = GetSecretKeyFromSecretKeyReference (dxe_get_secret env s) (o_name org) in
      case key_of (oidc_clientIDReference cfg) of
        Inl e \<Rightarrow> Inl e
      | Inr clientID \<Rightarrow>
          (case key_of (oidc_clientSecretReference cfg) of
             Inl e \<Rightarrow> Inl e
           | Inr clientSecret \<Rightarrow>
               (case discoverOIDCRedirectURL env cfg s of
                  Inl e \<Rightarrow> Inl e
                | Inr redirectURL \<Rightarrow>
                    Inr \<lparr>os_issuer = oidc_issuer cfg, os_clientID = clientID, os_clientSecret = clientSecret,
                         os_redirectURI = redirectURL, os_userNameKey = ''login_name'', os_userIDKey = ''login_name'',
                         os_insecureSkipVerify = True, os_insecureEnableGroups = True\<rparr>)))"

definition reconcileDexConnector :: "'s dex_env \<Rightarrow> organization \<Rightarrow> oidc_config \<Rightarrow> 's \<Rightarrow> go_error option \<times> 's" where
  "reconcileDexConnector env org cfg s =
     (case oidc_settings env org cfg s of
        Inl e \<Rightarrow> (Some e, s)
      | Inr settings \<Rightarrow>
          (case dxe_marshal env settings of
             Inl e \<Rightarrow> (Some e, s)
           | Inr configByte \<Rightarrow>
               (case dx_getConnector (dxe_storage env) (o_name org) s of
                  Inl e \<Rightarrow>
                    if dx_isNotFound (dxe_storage env) e
                    then dx_createConnector (dxe_storage env)
                           \<lparr>dk_id = o_name org, dk_type = dexConnectorTypeGreenhouse, dk_name = dxe_title env (o_name org),
                            dk_resourceVersion = (if dxe_storageType env = Postgres then ''0'' else []),
                            dk_config = configByte\<rparr> s
                    else (Some e, s)
                | Inr oidcConnector \<Rightarrow>
                    if dk_config oidcConnector = configByte then (None, s)
                    else dx_updateConnector (dxe_storage env) (dk_id oidcConnector)
                           (\<lambda>c. Inr (connector_of env org configByte c)) s)))"

definition client_of :: "'s dex_env \<Rightarrow> organization \<Rightarrow> oidc_config \<Rightarrow> dex_client \<Rightarrow> dex_client" where
  "client_of env org cfg c =
     (let redirects = getRedirects (dxe_dnsDomain env) (o_name org) (oidc_oauth2ClientRedirectURIs cfg)
      in c\<lparr>dc_public := True, dc_id := o_name org, dc_name := o_name org,
           dc_redirectURIs := (if o_name org = defaultGreenhouseConnectorID then appendRedirects redirects (dc_redirectURIs c)
                               else redirects)\<rparr>)"

definition reconcileOAuth2Client :: "'s dex_env \<Rightarrow> organization \<Rightarrow> oidc_config \<Rightarrow> 's \<Rightarrow> go_error option \<times> 's" where
  "reconcileOAuth2Client env org cfg s =
     (case dx_getClient (dxe_storage env) (o_name org) s of
        Inl e \<Rightarrow>
          if dx_isNotFound (dxe_storage env) e
          then dx_createClient (dxe_storage env)
                 \<lparr>dc_id = o_name org, dc_secret = [],
                  dc_redirectURIs = getRedirects (dxe_dnsDomain env) (o_name org) (oidc_oauth2ClientRedirectURIs cfg),
                  dc_trustedPeers = [], dc_public = True, dc_name = o_name org, dc_logoURL = []\<rparr> s
          else (Some e, s)
      | Inr oAuthClient \<Rightarrow>
          dx_updateClient (dxe_storage env) (dc_id oAuthClient) (\<lambda>c. Inr (client_of env org cfg c)) s)"

definition appendRedirectsToDefaultConnector :: "'s dex_env \<Rightarrow> string \<Rightarrow> 's \<Rightarrow> go_error option \<times> 's" where
  "appendRedirectsToDefaultConnector env orgName s =
     (case dx_getClient (dxe_storage env) defaultGreenhouseConnectorID s of
        Inl e \<Rightarrow> (Some e, s)
      | Inr defaultOAuthClient \<Rightarrow>
          dx_updateClient (dxe_storage env) (dc_name defaultOAuthClient)
            (\<lambda>c. Inr (c\<lparr>dc_redirectURIs := appendRedirects (dc_redirectURIs c) [getRedirectForOrg (dxe_dnsDomain env) orgName]\<rparr>)) s)"

definition removeAuthRedirectFromDefaultConnector :: "'s dex_env \<Rightarrow> organization \<Rightarrow> 's \<Rightarrow> go_error option \<times> 's" where
  "removeAuthRedirectFromDefaultConnector env org s =
     (case dx_getClient (dxe_storage env) defaultGreenhouseConnectorID s of
        Inl e \<Rightarrow> (Some e, s)
      | Inr defaultClient \<Rightarrow>
          dx_updateClient (dxe_storage env) (dc_name defaultClient)
            (\<lambda>c. Inr (c\<lparr>dc_redirectURIs :=
                  DeleteFunc (dc_redirectURIs c) (\<lambda>u. u = getRedirectForOrg (dxe_dnsDomain env) (o_name org))\<rparr>)) s)"

definition ignore_dexNotFound :: "'s dex_env \<Rightarrow> go_error option \<times> 's \<Rightarrow> go_error option \<times> 's" where
  "ignore_dexNotFound env r =
     (case r of (Some e, s) \<Rightarrow> (if dx_isNotFound (dxe_storage env) e then None else Some e, s) | (None, s) \<Rightarrow> (None, s))"

definition deleteDexConnector :: "'s dex_env \<Rightarrow> organization \<Rightarrow> 's \<Rightarrow> go_error option \<times> 's" where
  "deleteDexConnector env org s = ignore_dexNotFound env (dx_deleteConnector (dxe_storage env) (o_name org) s)"

definition deleteOAuth2Client :: "'s dex_env \<Rightarrow> organization \<Rightarrow> 's \<Rightarrow> go_error option \<times> 's" where
  "deleteOAuth2Client env org s = ignore_dexNotFound env (dx_deleteClient (dxe_storage env) (o_name org) s)"

text \<open>The parts of \<open>EnsureCreated\<close> and \<open>EnsureDeleted\<close> for an organization with an OIDC configuration, in their order.\<close>

definition login_steps :: "'s dex_env \<Rightarrow> organization \<Rightarrow> oidc_config \<Rightarrow> ('s \<Rightarrow> go_error option \<times> 's) list" where
  "login_steps env org cfg =
     [reconcileDexConnector env org cfg, reconcileOAuth2Client env org cfg]
     @ (if o_name org \<noteq> defaultGreenhouseConnectorID then [appendRedirectsToDefaultConnector env (o_name org)] else [])"

definition logout_steps :: "'s dex_env \<Rightarrow> organization \<Rightarrow> ('s \<Rightarrow> go_error option \<times> 's) list" where
  "logout_steps env org =
     [removeAuthRedirectFromDefaultConnector env org, deleteDexConnector env org, deleteOAuth2Client env org]"

section \<open>Versions and redirects\<close>

text \<open>
  With the SQL storage every update of a connector changes its resource version, whatever the stored version is,
  also at the largest number, where the addition wraps around: Dex notices every change.
\<close>

theorem resource_version_changes: "incrementResourceVersion Postgres rv \<noteq> rv"
proof (cases "ParseInt rv")
  case None
  have "ParseInt ''1'' = Some 1" by code_simp
  with None show ?thesis by (auto simp: incrementResourceVersion_def)
next
  case (Some v)
  then have v: "MinInt64 \<le> v" "v \<le> MaxInt64" using ParseInt_range by auto
  from wrap64_range [of "v + 1"] have "ParseInt (format_d (wrap64 (v + 1))) = Some (wrap64 (v + 1))"
    by (simp add: ParseInt_format_d)
  with wrap64_succ [OF v] Some show ?thesis by (auto simp: incrementResourceVersion_def)
qed

lemma set_appendRedirects [simp]: "set (appendRedirects rs new) = set rs \<union> set new"
  by (induction rs new rule: appendRedirects.induct) auto

lemma distinct_appendRedirects: "distinct rs \<Longrightarrow> distinct (appendRedirects rs new)"
  by (induction rs new rule: appendRedirects.induct) auto


lemma ensureCallbackURL_form:
  "HasPrefix (ensureCallbackURL url) ''https://'' \<and> HasSuffix (ensureCallbackURL url) ''/callback''
     \<and> ensureCallbackURL (ensureCallbackURL url) = ensureCallbackURL url"
proof -
  have "HasPrefix (ensureCallbackURL url) ''https://'' \<and> HasSuffix (ensureCallbackURL url) ''/callback''"
    by (auto simp: ensureCallbackURL_def Let_def HasPrefix_def HasSuffix_def suffix_def prefix_def)
  then show ?thesis by (auto simp: ensureCallbackURL_def Let_def)
qed

section \<open>What is relied on of the storage\<close>

text \<open>
  For the records of one kind: a read is true, a write has an effect on the record of its key only, and if it fails
  it may have had its effect or none.
\<close>

definition keyed_storage ::
  "(go_error \<Rightarrow> bool) \<Rightarrow> ('r \<Rightarrow> string) \<Rightarrow> ('s \<Rightarrow> string \<Rightarrow> 'r option) \<Rightarrow> (string \<Rightarrow> 's \<Rightarrow> go_error + 'r)
     \<Rightarrow> ('r \<Rightarrow> 's \<Rightarrow> go_error option \<times> 's) \<Rightarrow> (string \<Rightarrow> ('r \<Rightarrow> go_error + 'r) \<Rightarrow> 's \<Rightarrow> go_error option \<times> 's)
     \<Rightarrow> (string \<Rightarrow> 's \<Rightarrow> go_error option \<times> 's) \<Rightarrow> bool" where
  "keyed_storage isNotFound key look get create update delete \<longleftrightarrow>
     (\<forall>i s x. get i s = Inr x \<longrightarrow> look s i = Some x \<and> key x = i) \<and>
     (\<forall>i s e. get i s = Inl e \<longrightarrow> isNotFound e \<longrightarrow> look s i = None) \<and>
     (\<forall>x s r s'. create x s = (r, s') \<longrightarrow>
        (look s' = (look s)(key x := Some x) \<or> look s' = look s) \<and> (r = None \<longrightarrow> look s' (key x) = Some x)) \<and>
     (\<forall>i f s r s'. update i f s = (r, s') \<longrightarrow>
        ((\<exists>x y. look s i = Some x \<and> f x = Inr y \<and> look s' = (look s)(i := Some y)) \<or> r \<noteq> None \<and> look s' = look s)) \<and>
     (\<forall>i s r s'. delete i s = (r, s') \<longrightarrow>
        (look s' = (look s)(i := None) \<or> look s' = look s) \<and> (r = None \<longrightarrow> look s' i = None) \<and>
        (\<forall>e. r = Some e \<longrightarrow> isNotFound e \<longrightarrow> look s' i = None))"

definition dex_laws ::
  "'s dex_storage \<Rightarrow> ('s \<Rightarrow> string \<Rightarrow> dex_client option) \<Rightarrow> ('s \<Rightarrow> string \<Rightarrow> dex_connector option) \<Rightarrow> bool" where
  "dex_laws st clients connectors \<longleftrightarrow>
     keyed_storage (dx_isNotFound st) dc_id clients (dx_getClient st) (dx_createClient st) (dx_updateClient st) (dx_deleteClient st) \<and>
     keyed_storage (dx_isNotFound st) dk_id connectors (dx_getConnector st) (dx_createConnector st) (dx_updateConnector st)
       (dx_deleteConnector st) \<and>
     (\<forall>s r s'. (\<exists>c. dx_createClient st c s = (r, s')) \<or> (\<exists>i f. dx_updateClient st i f s = (r, s')) \<or> (\<exists>i. dx_deleteClient st i s = (r, s'))
        \<longrightarrow> connectors s' = connectors s) \<and>
     (\<forall>s r s'. (\<exists>c. dx_createConnector st c s = (r, s')) \<or> (\<exists>i f. dx_updateConnector st i f s = (r, s'))
          \<or> (\<exists>i. dx_deleteConnector st i s = (r, s'))
        \<longrightarrow> clients s' = clients s)"

lemma keyed_storageD:
  assumes "keyed_storage nf key look get create update delete"
  shows "get i s = Inr x \<Longrightarrow> look s i = Some x" "get i s = Inr x \<Longrightarrow> key x = i"
    "get i s = Inl e \<Longrightarrow> nf e \<Longrightarrow> look s i = None"
    "create x s = (r, s') \<Longrightarrow> look s' = (look s)(key x := Some x) \<or> look s' = look s"
    "create x s = (None, s') \<Longrightarrow> look s' (key x) = Some x"
    "update i f s = (r, s') \<Longrightarrow>
       (\<exists>x y. look s i = Some x \<and> f x = Inr y \<and> look s' = (look s)(i := Some y)) \<or> r \<noteq> None \<and> look s' = look s"
    "delete i s = (r, s') \<Longrightarrow> look s' = (look s)(i := None) \<or> look s' = look s"
    "delete i s = (None, s') \<Longrightarrow> look s' i = None" "delete i s = (Some e, s') \<Longrightarrow> nf e \<Longrightarrow> look s' i = None"
proof -
  note l = assms [unfolded keyed_storage_def]
  note l1 = l [THEN conjunct1] and l2 = l [THEN conjunct2, THEN conjunct1] and l3 = l [THEN conjunct2, THEN conjunct2, THEN conjunct1]
  note l4 = l [THEN conjunct2, THEN conjunct2, THEN conjunct2, THEN conjunct1] and l5 = l [THEN conjunct2, THEN conjunct2, THEN conjunct2, THEN conjunct2]
  show "get i s = Inr x \<Longrightarrow> look s i = Some x" "get i s = Inr x \<Longrightarrow> key x = i" using l1 by blast+
  show "get i s = Inl e \<Longrightarrow> nf e \<Longrightarrow> look s i = None" using l2 by blast
  show "create x s = (r, s') \<Longrightarrow> look s' = (look s)(key x := Some x) \<or> look s' = look s"
    "create x s = (None, s') \<Longrightarrow> look s' (key x) = Some x" using l3 by blast+
  show "update i f s = (r, s') \<Longrightarrow>
       (\<exists>x y. look s i = Some x \<and> f x = Inr y \<and> look s' = (look s)(i := Some y)) \<or> r \<noteq> None \<and> look s' = look s" using l4 by blast
  show "delete i s = (r, s') \<Longrightarrow> look s' = (look s)(i := None) \<or> look s' = look s"
    "delete i s = (None, s') \<Longrightarrow> look s' i = None" "delete i s = (Some e, s') \<Longrightarrow> nf e \<Longrightarrow> look s' i = None" using l5 by blast+
qed

lemma dex_lawsD:
  assumes "dex_laws st clients connectors"
  shows "keyed_storage (dx_isNotFound st) dc_id clients (dx_getClient st) (dx_createClient st) (dx_updateClient st) (dx_deleteClient st)"
    "keyed_storage (dx_isNotFound st) dk_id connectors (dx_getConnector st) (dx_createConnector st) (dx_updateConnector st)
       (dx_deleteConnector st)"
    "dx_createClient st c s = (r, s') \<Longrightarrow> connectors s' = connectors s"
    "dx_updateClient st i f s = (r, s') \<Longrightarrow> connectors s' = connectors s"
    "dx_deleteClient st i s = (r, s') \<Longrightarrow> connectors s' = connectors s"
    "dx_createConnector st k s = (r, s') \<Longrightarrow> clients s' = clients s"
    "dx_updateConnector st i g s = (r, s') \<Longrightarrow> clients s' = clients s"
    "dx_deleteConnector st i s = (r, s') \<Longrightarrow> clients s' = clients s"
  using assms unfolding dex_laws_def by blast+

section \<open>The effect of each step\<close>

lemma connector_steps_clients:
  assumes laws: "dex_laws (dxe_storage env) clients connectors"
  shows "reconcileDexConnector env org cfg s = (r, s') \<Longrightarrow> clients s' = clients s"
    "deleteDexConnector env org s = (r, s') \<Longrightarrow> clients s' = clients s"
  using dex_lawsD(6-8) [OF laws]
  by (auto simp: reconcileDexConnector_def deleteDexConnector_def ignore_dexNotFound_def split: sum.splits if_splits prod.splits option.splits)

lemma client_steps_connectors:
  assumes laws: "dex_laws (dxe_storage env) clients connectors"
  shows "reconcileOAuth2Client env org cfg s = (r, s') \<Longrightarrow> connectors s' = connectors s"
    "appendRedirectsToDefaultConnector env n s = (r, s') \<Longrightarrow> connectors s' = connectors s"
    "deleteOAuth2Client env org s = (r, s') \<Longrightarrow> connectors s' = connectors s"
  using dex_lawsD(3-5) [OF laws]
  by (auto simp: reconcileOAuth2Client_def appendRedirectsToDefaultConnector_def deleteOAuth2Client_def ignore_dexNotFound_def
      split: sum.splits if_splits prod.splits option.splits)

text \<open>The new client, and an update of the stored one.\<close>

definition fresh_client :: "'s dex_env \<Rightarrow> organization \<Rightarrow> oidc_config \<Rightarrow> dex_client" where
  "fresh_client env org cfg =
     \<lparr>dc_id = o_name org, dc_secret = [],
      dc_redirectURIs = getRedirects (dxe_dnsDomain env) (o_name org) (oidc_oauth2ClientRedirectURIs cfg),
      dc_trustedPeers = [], dc_public = True, dc_name = o_name org, dc_logoURL = []\<rparr>"

lemma reconcileOAuth2Client_effect:
  assumes laws: "dex_laws (dxe_storage env) clients connectors" and run: "reconcileOAuth2Client env org cfg s = (r, s')"
  shows "clients s (o_name org) = None \<and> clients s' = (clients s)(o_name org := Some (fresh_client env org cfg))
    \<or> (\<exists>c. clients s (o_name org) = Some c \<and> clients s' = (clients s)(o_name org := Some (client_of env org cfg c)))
    \<or> r \<noteq> None \<and> clients s' = clients s"
proof (cases "dx_getClient (dxe_storage env) (o_name org) s")
  case (Inl e)
  show ?thesis
  proof (cases "dx_isNotFound (dxe_storage env) e")
    case True
    with Inl run have create: "dx_createClient (dxe_storage env) (fresh_client env org cfg) s = (r, s')"
      by (simp add: reconcileOAuth2Client_def fresh_client_def)
    have key: "dc_id (fresh_client env org cfg) = o_name org" by (simp add: fresh_client_def)
    from keyed_storageD(3) [OF dex_lawsD(1) [OF laws] Inl True] keyed_storageD(4,5) [OF dex_lawsD(1) [OF laws]] create key
    show ?thesis by (metis option.simps(3))
  next
    case False
    with Inl run show ?thesis by (auto simp: reconcileOAuth2Client_def)
  qed
next
  case (Inr c)
  with run keyed_storageD(2) [OF dex_lawsD(1) [OF laws] Inr]
  have "dx_updateClient (dxe_storage env) (o_name org) (\<lambda>c. Inr (client_of env org cfg c)) s = (r, s')"
    by (simp add: reconcileOAuth2Client_def)
  from keyed_storageD(6) [OF dex_lawsD(1) [OF laws] this] show ?thesis by auto
qed

text \<open>An update of the client of the default organization, found by its id and updated by its name.\<close>

lemma default_update_effect:
  assumes laws: "dex_laws (dxe_storage env) clients connectors"
    and name: "\<And>c. clients s defaultGreenhouseConnectorID = Some c \<Longrightarrow> dc_name c = defaultGreenhouseConnectorID"
    and run: "(case dx_getClient (dxe_storage env) defaultGreenhouseConnectorID s of
        Inl e \<Rightarrow> (Some e, s) | Inr d \<Rightarrow> dx_updateClient (dxe_storage env) (dc_name d) (\<lambda>c. Inr (c\<lparr>dc_redirectURIs := g (dc_redirectURIs c)\<rparr>)) s)
      = (r, s')"
  shows "(\<exists>c. clients s defaultGreenhouseConnectorID = Some c \<and>
        clients s' = (clients s)(defaultGreenhouseConnectorID := Some (c\<lparr>dc_redirectURIs := g (dc_redirectURIs c)\<rparr>)))
    \<or> r \<noteq> None \<and> clients s' = clients s"
proof (cases "dx_getClient (dxe_storage env) defaultGreenhouseConnectorID s")
  case (Inr d)
  with run name keyed_storageD(1) [OF dex_lawsD(1) [OF laws] Inr]
  have "dx_updateClient (dxe_storage env) defaultGreenhouseConnectorID (\<lambda>c. Inr (c\<lparr>dc_redirectURIs := g (dc_redirectURIs c)\<rparr>)) s = (r, s')"
    by simp
  from keyed_storageD(6) [OF dex_lawsD(1) [OF laws] this] show ?thesis by auto
qed (use run in auto)

lemma deleteOAuth2Client_effect:
  assumes laws: "dex_laws (dxe_storage env) clients connectors" and run: "deleteOAuth2Client env org s = (r, s')"
  shows "clients s' = (clients s)(o_name org := None) \<or> clients s' = clients s"
    and "r = None \<Longrightarrow> clients s' (o_name org) = None"
  using run keyed_storageD(7-9) [OF dex_lawsD(1) [OF laws]]
  by (auto simp: deleteOAuth2Client_def ignore_dexNotFound_def split: prod.splits option.splits if_splits)

lemma deleteDexConnector_effect:
  assumes laws: "dex_laws (dxe_storage env) clients connectors" and run: "deleteDexConnector env org s = (None, s')"
  shows "connectors s' (o_name org) = None"
  using run keyed_storageD(8,9) [OF dex_lawsD(2) [OF laws]]
  by (auto simp: deleteDexConnector_def ignore_dexNotFound_def split: prod.splits option.splits if_splits)

section \<open>Login and its removal\<close>

text \<open>The client of the default organization is the one that its reconciliation wrote.\<close>

definition default_named :: "('s \<Rightarrow> string \<Rightarrow> dex_client option) \<Rightarrow> 's \<Rightarrow> bool" where
  "default_named clients s \<longleftrightarrow>
     (\<forall>c. clients s defaultGreenhouseConnectorID = Some c \<longrightarrow> dc_name c = defaultGreenhouseConnectorID)"

lemma default_named_update:
  assumes laws: "dex_laws (dxe_storage env) clients connectors" and "default_named clients s"
  shows "appendRedirectsToDefaultConnector env n s = (r, s') \<Longrightarrow>
      (\<exists>c. clients s defaultGreenhouseConnectorID = Some c \<and> clients s' = (clients s)(defaultGreenhouseConnectorID :=
         Some (c\<lparr>dc_redirectURIs := appendRedirects (dc_redirectURIs c) [getRedirectForOrg (dxe_dnsDomain env) n]\<rparr>)))
      \<or> r \<noteq> None \<and> clients s' = clients s"
    and "removeAuthRedirectFromDefaultConnector env org s = (r, s') \<Longrightarrow>
      (\<exists>c. clients s defaultGreenhouseConnectorID = Some c \<and> clients s' = (clients s)(defaultGreenhouseConnectorID :=
         Some (c\<lparr>dc_redirectURIs := DeleteFunc (dc_redirectURIs c) (\<lambda>u. u = getRedirectForOrg (dxe_dnsDomain env) (o_name org))\<rparr>)))
      \<or> r \<noteq> None \<and> clients s' = clients s"
  using assms(2) default_update_effect [OF laws, of s "\<lambda>us. appendRedirects us [getRedirectForOrg (dxe_dnsDomain env) n]" r s']
    default_update_effect [OF laws, of s "\<lambda>us. DeleteFunc us (\<lambda>u. u = getRedirectForOrg (dxe_dnsDomain env) (o_name org))" r s']
  unfolding default_named_def appendRedirectsToDefaultConnector_def removeAuthRedirectFromDefaultConnector_def by blast+

lemma reconcileDexConnector_stored:
  assumes laws: "dex_laws (dxe_storage env) clients connectors" and run: "reconcileDexConnector env org cfg s = (None, s')"
  shows "\<exists>k settings. connectors s' (o_name org) = Some k \<and> oidc_settings env org cfg s = Inr settings
    \<and> dxe_marshal env settings = Inr (dk_config k)"
proof -
  note k = keyed_storageD [OF dex_lawsD(2) [OF laws]]
  from run obtain settings config where settings: "oidc_settings env org cfg s = Inr settings" "dxe_marshal env settings = Inr config"
    by (auto simp: reconcileDexConnector_def split: sum.splits)
  show ?thesis
  proof (cases "dx_getConnector (dxe_storage env) (o_name org) s")
    case (Inl e)
    with run settings k(5) show ?thesis by (fastforce simp: reconcileDexConnector_def split: if_splits)
  next
    case (Inr c)
    show ?thesis
    proof (cases "dk_config c = config")
      case True
      with run settings Inr k(1) [OF Inr] show ?thesis by (auto simp: reconcileDexConnector_def)
    next
      case False
      with run settings Inr k(2) [OF Inr]
      have "dx_updateConnector (dxe_storage env) (o_name org) (\<lambda>c. Inr (connector_of env org config c)) s = (None, s')"
        by (simp add: reconcileDexConnector_def)
      from k(6) [OF this] settings show ?thesis by (auto simp: connector_of_def)
    qed
  qed
qed

lemma reconcileOAuth2Client_stored:
  assumes laws: "dex_laws (dxe_storage env) clients connectors" and run: "reconcileOAuth2Client env org cfg s = (None, s')"
  shows "\<exists>c. clients s' (o_name org) = Some c \<and> dc_public c \<and> dc_name c = o_name org
    \<and> set (getRedirects (dxe_dnsDomain env) (o_name org) (oidc_oauth2ClientRedirectURIs cfg)) \<subseteq> set (dc_redirectURIs c)"
  using reconcileOAuth2Client_effect [OF laws run] by (auto simp: fresh_client_def client_of_def Let_def)

lemma login_runs:
  assumes "run_steps (login_steps env org cfg) s = (None, s')"
  obtains s1 s2 where "reconcileDexConnector env org cfg s = (None, s1)" "reconcileOAuth2Client env org cfg s1 = (None, s2)"
    "o_name org = defaultGreenhouseConnectorID \<and> s' = s2 \<or>
      o_name org \<noteq> defaultGreenhouseConnectorID \<and> appendRedirectsToDefaultConnector env (o_name org) s2 = (None, s')"
  using assms by (auto simp: login_steps_def split: prod.splits option.splits if_splits)

lemma login_clients:
  assumes laws: "dex_laws (dxe_storage env) clients connectors" and named: "default_named clients s"
    and run: "run_steps (login_steps env org cfg) s = (None, s')"
  shows "(\<exists>c. clients s' (o_name org) = Some c \<and> dc_public c
            \<and> insert (getRedirectForOrg (dxe_dnsDomain env) (o_name org)) (set (oidc_oauth2ClientRedirectURIs cfg)) \<subseteq> set (dc_redirectURIs c))
    \<and> (\<exists>c. clients s' defaultGreenhouseConnectorID = Some c
            \<and> getRedirectForOrg (dxe_dnsDomain env) (o_name org) \<in> set (dc_redirectURIs c))"
proof -
  from login_runs [OF run] obtain s1 s2 where 1: "reconcileDexConnector env org cfg s = (None, s1)"
    and 2: "reconcileOAuth2Client env org cfg s1 = (None, s2)"
    and 3: "o_name org = defaultGreenhouseConnectorID \<and> s' = s2 \<or>
      o_name org \<noteq> defaultGreenhouseConnectorID \<and> appendRedirectsToDefaultConnector env (o_name org) s2 = (None, s')" .
  from reconcileOAuth2Client_stored [OF laws 2] obtain c where c: "clients s2 (o_name org) = Some c" "dc_public c"
      "set (getRedirects (dxe_dnsDomain env) (o_name org) (oidc_oauth2ClientRedirectURIs cfg)) \<subseteq> set (dc_redirectURIs c)"
    by blast
  then have own: "insert (getRedirectForOrg (dxe_dnsDomain env) (o_name org)) (set (oidc_oauth2ClientRedirectURIs cfg)) \<subseteq> set (dc_redirectURIs c)"
    by (auto simp: getRedirects_def)
  show ?thesis
  proof (cases "o_name org = defaultGreenhouseConnectorID")
    case True
    with 3 c(1,2) own show ?thesis by auto
  next
    case False
    have "clients s2 defaultGreenhouseConnectorID = clients s1 defaultGreenhouseConnectorID"
      using reconcileOAuth2Client_effect [OF laws 2] False by auto
    with named have "default_named clients s2"
      by (simp add: default_named_def connector_steps_clients(1) [OF laws 1])
    from default_named_update(1) [OF laws this, of "o_name org" None s'] False 3 c(1,2) own show ?thesis by auto
  qed
qed

text \<open>
  When the login of an organization was reconciled without an error, its connector holds the configuration made
  from its secrets, its public client accepts the redirects of the dashboard and the configured ones, and the client of
  the default organization accepts its dashboard.
\<close>

theorem organization_login_configured:
  assumes laws: "dex_laws (dxe_storage env) clients connectors" and named: "default_named clients s"
    and run: "run_steps (login_steps env org cfg) s = (None, s')"
  shows "(\<exists>k settings. connectors s' (o_name org) = Some k \<and> oidc_settings env org cfg s = Inr settings
            \<and> dxe_marshal env settings = Inr (dk_config k))
    \<and> (\<exists>c. clients s' (o_name org) = Some c \<and> dc_public c
            \<and> insert (getRedirectForOrg (dxe_dnsDomain env) (o_name org)) (set (oidc_oauth2ClientRedirectURIs cfg)) \<subseteq> set (dc_redirectURIs c))
    \<and> (\<exists>c. clients s' defaultGreenhouseConnectorID = Some c
            \<and> getRedirectForOrg (dxe_dnsDomain env) (o_name org) \<in> set (dc_redirectURIs c))"
proof -
  from login_runs [OF run] obtain s1 s2 where 1: "reconcileDexConnector env org cfg s = (None, s1)"
    and 2: "reconcileOAuth2Client env org cfg s1 = (None, s2)"
    and 3: "o_name org = defaultGreenhouseConnectorID \<and> s' = s2 \<or>
      o_name org \<noteq> defaultGreenhouseConnectorID \<and> appendRedirectsToDefaultConnector env (o_name org) s2 = (None, s')" .
  from 3 client_steps_connectors(1) [OF laws 2] client_steps_connectors(2) [OF laws]
  have "connectors s' = connectors s1" by auto
  with reconcileDexConnector_stored [OF laws 1] login_clients [OF laws named run] show ?thesis by auto
qed

text \<open>
  When the login of an organization other than the default one was removed without an error, it has neither
  connector nor client, and the client of the default organization has lost exactly its redirect.
\<close>

theorem organization_login_removed:
  assumes laws: "dex_laws (dxe_storage env) clients connectors" and named: "default_named clients s"
    and other: "o_name org \<noteq> defaultGreenhouseConnectorID"
    and run: "run_steps (logout_steps env org) s = (None, s')"
  shows "connectors s' (o_name org) = None \<and> clients s' (o_name org) = None \<and>
    (\<exists>c c'. clients s defaultGreenhouseConnectorID = Some c \<and> clients s' defaultGreenhouseConnectorID = Some c' \<and>
       set (dc_redirectURIs c') = set (dc_redirectURIs c) - {getRedirectForOrg (dxe_dnsDomain env) (o_name org)})"
proof -
  from run obtain s1 s2 where 1: "removeAuthRedirectFromDefaultConnector env org s = (None, s1)"
    and 2: "deleteDexConnector env org s1 = (None, s2)" and 3: "deleteOAuth2Client env org s2 = (None, s')"
    by (auto simp: logout_steps_def split: prod.splits option.splits)
  from default_named_update(2) [OF laws named 1] obtain c where c: "clients s defaultGreenhouseConnectorID = Some c"
    "clients s1 defaultGreenhouseConnectorID = Some (c\<lparr>dc_redirectURIs :=
       DeleteFunc (dc_redirectURIs c) (\<lambda>u. u = getRedirectForOrg (dxe_dnsDomain env) (o_name org))\<rparr>)"
    by auto
  moreover have "clients s' defaultGreenhouseConnectorID = clients s1 defaultGreenhouseConnectorID"
    using deleteOAuth2Client_effect(1) [OF laws 3] connector_steps_clients(2) [OF laws 2] other by auto
  ultimately show ?thesis
    using deleteOAuth2Client_effect(2) [OF laws 3] deleteDexConnector_effect [OF laws 2] client_steps_connectors(3) [OF laws 3]
    by (auto simp: DeleteFunc_def)
qed

text \<open>Without the client of the default organization no other organization with a login can be deleted.\<close>

lemma missing_default_blocks_deletion:
  assumes "dex_laws (dxe_storage env) clients connectors" "clients s defaultGreenhouseConnectorID = None"
  shows "\<exists>e. run_steps (logout_steps env org) s = (Some e, s)"
proof -
  from assms(2) keyed_storageD(1) [OF dex_lawsD(1) [OF assms(1)]]
  obtain e where "dx_getClient (dxe_storage env) defaultGreenhouseConnectorID s = Inl e"
    by (metis option.simps(3) sum.exhaust)
  then show ?thesis by (simp add: logout_steps_def removeAuthRedirectFromDefaultConnector_def)
qed

section \<open>Runs for many organizations\<close>







section \<open>A storage\<close>

text \<open>The records as functions from ids, which is what the laws speak of.\<close>

record demo_dex =
  dd_clients :: "string \<Rightarrow> dex_client option"
  dd_connectors :: "string \<Rightarrow> dex_connector option"

definition dex_missing :: go_error where "dex_missing = PlainError ''not found''"

definition demo_get :: "('s \<Rightarrow> string \<Rightarrow> 'r option) \<Rightarrow> ('r \<Rightarrow> string) \<Rightarrow> string \<Rightarrow> 's \<Rightarrow> go_error + 'r" where
  "demo_get look key i s = (case look s i of Some x \<Rightarrow> if key x = i then Inr x else Inl (PlainError ''corrupt'') | None \<Rightarrow> Inl dex_missing)"

definition demo_update ::
  "('s \<Rightarrow> string \<Rightarrow> 'r option) \<Rightarrow> ((string \<Rightarrow> 'r option) \<Rightarrow> 's \<Rightarrow> 's) \<Rightarrow> string \<Rightarrow> ('r \<Rightarrow> go_error + 'r) \<Rightarrow> 's \<Rightarrow> go_error option \<times> 's" where
  "demo_update look put i f s =
     (case look s i of
        None \<Rightarrow> (Some dex_missing, s)
      | Some x \<Rightarrow> (case f x of Inl e \<Rightarrow> (Some e, s) | Inr y \<Rightarrow> (None, put ((look s)(i := Some y)) s)))"

lemma demo_keyed_storage:
  assumes "\<And>m s. look (put m s) = m"
  shows "keyed_storage (\<lambda>e. e = dex_missing) key look (demo_get look key) (\<lambda>x s. (None, put ((look s)(key x := Some x)) s))
    (demo_update look put) (\<lambda>i s. (None, put ((look s)(i := None)) s))"
  by (auto simp: keyed_storage_def demo_get_def demo_update_def assms dex_missing_def split: option.splits sum.splits if_splits)

lemma demo_update_leaves:
  assumes "demo_update look put i f s = (r, s')" "\<And>m s. view (put m s) = view s"
  shows "view s' = view s"
  using assms by (cases "look s i"; cases "f (the (look s i))") (auto simp: demo_update_def)

definition demo_storage :: "'z demo_dex_scheme dex_storage" where
  "demo_storage =
     \<lparr>dx_isNotFound = (\<lambda>e. e = dex_missing), dx_getClient = demo_get dd_clients dc_id,
      dx_createClient = (\<lambda>x s. (None, dd_clients_update (\<lambda>_. (dd_clients s)(dc_id x := Some x)) s)),
      dx_updateClient = demo_update dd_clients (\<lambda>m. dd_clients_update (\<lambda>_. m)),
      dx_deleteClient = (\<lambda>i s. (None, dd_clients_update (\<lambda>_. (dd_clients s)(i := None)) s)),
      dx_getConnector = demo_get dd_connectors dk_id,
      dx_createConnector = (\<lambda>x s. (None, dd_connectors_update (\<lambda>_. (dd_connectors s)(dk_id x := Some x)) s)),
      dx_updateConnector = demo_update dd_connectors (\<lambda>m. dd_connectors_update (\<lambda>_. m)),
      dx_deleteConnector = (\<lambda>i s. (None, dd_connectors_update (\<lambda>_. (dd_connectors s)(i := None)) s))\<rparr>"

lemma demo_storage_laws: "dex_laws demo_storage dd_clients dd_connectors"
  using demo_keyed_storage [of dd_clients "\<lambda>m. dd_clients_update (\<lambda>_. m)" dc_id]
    demo_keyed_storage [of dd_connectors "\<lambda>m. dd_connectors_update (\<lambda>_. m)" dk_id]
  by (auto simp: dex_laws_def demo_storage_def dest: demo_update_leaves [where view = dd_connectors]
      demo_update_leaves [where view = dd_clients])

definition demo_dex_env :: "'z demo_dex_scheme dex_env" where
  "demo_dex_env =
     \<lparr>dxe_storage = demo_storage, dxe_storageType = Postgres, dxe_namespace = ''greenhouse'', dxe_dnsDomain = ''example.org'',
      dxe_list_ingresses = (\<lambda>_ _ _. Inr [\<lparr>ing_hosts = [[], ''id.example.org'']\<rparr>]),
      dxe_get_secret = (\<lambda>_ k. Inr \<lparr>o_name = nn_name k, o_namespace = nn_namespace k, o_labels = [], o_annotations = [],
        o_finalizers = [], o_deletionTimestamp = None, o_ownerReferences = [], secret_type = [], secret_data = [(''k'', ''v'')]\<rparr>),
      dxe_marshal = (\<lambda>cfg. Inr (os_redirectURI cfg)), dxe_title = (\<lambda>n. n)\<rparr>"

definition demo_oidc :: oidc_config where
  "demo_oidc = \<lparr>oidc_issuer = ''https://idp'', oidc_redirectURI = [], oidc_clientIDReference = \<lparr>sk_name = ''s'', sk_key = ''k''\<rparr>,
     oidc_clientSecretReference = \<lparr>sk_name = ''s'', sk_key = ''k''\<rparr>, oidc_oauth2ClientRedirectURIs = [''https://tool'']\<rparr>"

definition demo_dex0 :: demo_dex where "demo_dex0 = \<lparr>dd_clients = (\<lambda>_. None), dd_connectors = (\<lambda>_. None)\<rparr>"
definition default_org :: organization where "default_org = rbac_wit_org\<lparr>o_name := ''greenhouse''\<rparr>"

definition demo_dex1 :: demo_dex where "demo_dex1 = snd (run_steps (login_steps demo_dex_env default_org demo_oidc) demo_dex0)"
definition demo_dex2 :: demo_dex where "demo_dex2 = snd (run_steps (login_steps demo_dex_env rbac_wit_org demo_oidc) demo_dex1)"
definition demo_dex3 :: demo_dex where "demo_dex3 = snd (run_steps (logout_steps demo_dex_env rbac_wit_org) demo_dex2)"

lemma demo_runs:
  "run_steps (login_steps demo_dex_env default_org demo_oidc) demo_dex0 = (None, demo_dex1)"
  "run_steps (login_steps demo_dex_env rbac_wit_org demo_oidc) demo_dex1 = (None, demo_dex2)"
  "run_steps (logout_steps demo_dex_env rbac_wit_org) demo_dex2 = (None, demo_dex3)"
proof -
  have "fst (run_steps (login_steps demo_dex_env default_org demo_oidc) demo_dex0) = None" by code_simp
  then show "run_steps (login_steps demo_dex_env default_org demo_oidc) demo_dex0 = (None, demo_dex1)"
    by (simp add: demo_dex1_def prod_eq_iff)
  have "fst (run_steps (login_steps demo_dex_env rbac_wit_org demo_oidc) demo_dex1) = None" by code_simp
  then show "run_steps (login_steps demo_dex_env rbac_wit_org demo_oidc) demo_dex1 = (None, demo_dex2)"
    by (simp add: demo_dex2_def prod_eq_iff)
  have "fst (run_steps (logout_steps demo_dex_env rbac_wit_org) demo_dex2) = None" by code_simp
  then show "run_steps (logout_steps demo_dex_env rbac_wit_org) demo_dex2 = (None, demo_dex3)"
    by (simp add: demo_dex3_def prod_eq_iff)
qed

lemma demo_dex_simps:
  "dxe_storage demo_dex_env = demo_storage" "dxe_dnsDomain demo_dex_env = ''example.org''" "o_name rbac_wit_org = ''o''"
  "o_name default_org = ''greenhouse''" "defaultGreenhouseConnectorID = ''greenhouse''"
  by (simp_all add: demo_dex_env_def rbac_wit_org_def default_org_def defaultGreenhouseConnectorID_def)

lemma demo_named: "default_named dd_clients demo_dex1" "default_named dd_clients demo_dex2"
proof -
  have "map_option dc_name (dd_clients demo_dex1 ''greenhouse'') = Some ''greenhouse''" by code_simp
  then show "default_named dd_clients demo_dex1" by (auto simp: default_named_def demo_dex_simps)
  have "map_option dc_name (dd_clients demo_dex2 ''greenhouse'') = Some ''greenhouse''" by code_simp
  then show "default_named dd_clients demo_dex2" by (auto simp: default_named_def demo_dex_simps)
qed

theorem organization_login_configured_witness:
  "\<exists>c. dd_clients demo_dex2 ''o'' = Some c \<and> ''https://tool'' \<in> set (dc_redirectURIs c)"
proof -
  have laws: "dex_laws (dxe_storage demo_dex_env) dd_clients dd_connectors" by (simp add: demo_dex_simps demo_storage_laws)
  from organization_login_configured [OF laws demo_named(1) demo_runs(2)] show ?thesis
    by (auto simp: demo_dex_simps demo_oidc_def)
qed

theorem organization_login_removed_witness:
  "\<exists>c. dd_clients demo_dex3 ''greenhouse'' = Some c \<and> ''https://o.dashboard.example.org'' \<notin> set (dc_redirectURIs c)"
proof -
  have laws: "dex_laws (dxe_storage demo_dex_env) dd_clients dd_connectors" by (simp add: demo_dex_simps demo_storage_laws)
  from organization_login_removed [OF laws demo_named(2) _ demo_runs(3)] show ?thesis
    by (auto simp: demo_dex_simps getRedirectForOrg_def)
qed


end
