(* ===== verification/Organization_Controller.thy ===== *)
theory Organization_Controller
  imports Organization_Dex Team_Controller Base64
begin

text \<open>
  The Organization controller (\<open>internal/controller/organization/organization_controller.go\<close>, \<open>service_proxy.go\<close>,
  \<open>util.go\<close>, \<open>metrics.go\<close>): namespace, permissions, login, admin team and service proxy of an organization, its status
  and its deletion. Clients, the identity provider, random bytes and the gauges are parameters over the state; events,
  logging and the wiring of the watches are left out. The generic reconciliation takes a function that sets the
  status; the requests and gauges of \<open>setStatus\<close> are part of \<open>setStatus\<close> itself.
\<close>

section \<open>The environment\<close>

definition NamespaceCreated :: condition_type where "NamespaceCreated = ''NamespaceCreated''"
definition OrganizationRBACConfigured :: condition_type where "OrganizationRBACConfigured = ''OrganizationRBACConfigured''"
definition OrganizationDefaultTeamRolesConfigured :: condition_type where
  "OrganizationDefaultTeamRolesConfigured = ''OrganizationDefaultTeamRolesConfigured''"
definition ServiceProxyProvisioned :: condition_type where "ServiceProxyProvisioned = ''ServiceProxyProvisioned''"
definition ServiceProxyNotFound :: condition_reason where "ServiceProxyNotFound = ''ServiceProxyNotFound''"
definition ServiceProxyFailed :: condition_reason where "ServiceProxyFailed = ''ServiceProxyFailed''"
definition OrganizationOICDConfigured :: condition_type where "OrganizationOICDConfigured = ''OrganizationOICDConfigured''"
definition DexReconcileFailed :: condition_reason where "DexReconcileFailed = ''DexReconcileFailed''"
definition OAuthOICDFailed :: condition_reason where "OAuthOICDFailed = ''OAuthOICDFailed''"
definition DefaultConnectorRedirectsFailed :: condition_reason where
  "DefaultConnectorRedirectsFailed = ''DefaultConnectorRedirectsFailed''"
definition OrganizationAdminTeamConfigured :: condition_type where
  "OrganizationAdminTeamConfigured = ''OrganizationAdminTeamConfigured''"

lemmas organization_condition_names =
  NamespaceCreated_def OrganizationRBACConfigured_def OrganizationDefaultTeamRolesConfigured_def ServiceProxyProvisioned_def
  OrganizationOICDConfigured_def OrganizationAdminTeamConfigured_def SCIMAPIAvailableCondition_def ReadyCondition_def

record ('u, 's) org_env =
  oe_now :: time
  oe_rbac :: "'s rbac_env"
  oe_dex :: "'s dex_env"
  oe_http :: "('u, 's) scim_http"
  oe_namespaces :: "(object_meta, 's) client"
  oe_teams :: "(team, 's) client"
  oe_plugins :: "(plugin, 's) client"
  oe_secrets :: "(secret, 's) client"
  oe_get_clusterPluginDefinition :: "namespaced_name \<Rightarrow> 's \<Rightarrow> go_error + plugin_definition"
  oe_get_org :: "namespaced_name \<Rightarrow> 's \<Rightarrow> go_error + organization"
  oe_list_orgs :: "string option \<Rightarrow> 's \<Rightarrow> go_error + organization list"
  oe_random :: "nat \<Rightarrow> 's \<Rightarrow> (go_error + string) \<times> 's"
  oe_gitCommit :: string
  oe_gaugeSet :: "string \<Rightarrow> string smap \<Rightarrow> nat \<Rightarrow> 's \<Rightarrow> 's"
  oe_gaugeDelete :: "string \<Rightarrow> string smap \<Rightarrow> 's \<Rightarrow> 's"

definition oidc_of :: "organization \<Rightarrow> oidc_config option" where
  "oidc_of org = Option.bind (org_authentication org) auth_oidc"

section \<open>Namespace and admin team\<close>

definition reconcileNamespace :: "('u, 's) org_env \<Rightarrow> organization \<Rightarrow> 's \<Rightarrow> go_error option \<times> 's" where
  "reconcileNamespace env org s =
     apply_object (oe_namespaces env) (new_meta [] (o_name org)) (controlled_by_org (oe_rbac env) org) s"

definition new_team :: "string \<Rightarrow> string \<Rightarrow> team" where
  "new_team ns n = \<lparr>o_name = n, o_namespace = ns, o_labels = [], o_annotations = [], o_finalizers = [], o_deletionTimestamp = None,
     o_ownerReferences = [], o_conditions = [], team_description = [], team_mappedIDPGroup = [], team_joinURL = [], team_members = []\<rparr>"

definition admin_team :: "organization \<Rightarrow> team \<Rightarrow> team" where
  "admin_team org team =
     team\<lparr>team_description := ''Admin team for the organization'', team_mappedIDPGroup := org_mappedOrgAdminIDPGroup org,
          o_labels := [(LabelKeySupportGroup, ''true'')]\<rparr>"

definition reconcileAdminTeam :: "('u, 's) org_env \<Rightarrow> organization \<Rightarrow> 's \<Rightarrow> go_error option \<times> 's" where
  "reconcileAdminTeam env org s =
     apply_object (oe_teams env) (new_team (o_name org) (o_name org @ ''-admin''))
       (\<lambda>team. controlled_by_org (oe_rbac env) org (admin_team org team)) s"

section \<open>Service proxy\<close>

definition serviceProxyName :: string where "serviceProxyName = ''service-proxy''"
definition cookieSecretKey :: string where "cookieSecretKey = ''oauth2proxy-cookie-secret''"
definition technicalSecretSuffix :: string where "technicalSecretSuffix = ''-internal''"
definition dexOAuth2ProxyClientPrefix :: string where "dexOAuth2ProxyClientPrefix = ''oauth2-proxy-''"
definition dexOAuth2ProxyClientIDKey :: string where "dexOAuth2ProxyClientIDKey = ''oauth2proxy-clientID''"
definition dexOAuth2ProxyClientSecretKey :: string where "dexOAuth2ProxyClientSecretKey = ''oauth2proxy-clientSecret''"

definition getInternalSecretName :: "string \<Rightarrow> string" where
  "getInternalSecretName orgName = orgName @ technicalSecretSuffix"

definition getOauthProxyURL :: "string \<Rightarrow> string \<Rightarrow> string" where
  "getOauthProxyURL dnsDomain orgName = orgName @ ''.'' @ dnsDomain"

text \<open>Base64 with and without padding.\<close>

definition generateOauth2ProxySecret :: "('u, 's) org_env \<Rightarrow> 's \<Rightarrow> (go_error + string) \<times> 's" where
  "generateOauth2ProxySecret env s =
     (case oe_random env 32 s of
        (Inl e, s1) \<Rightarrow> (Inl (WrapError ''failed to generate oauth proxy client secret'' e), s1)
      | (Inr bytes, s1) \<Rightarrow> (Inr (filter (\<lambda>c. c \<noteq> CHR ''='') (EncodeToString64 bytes)), s1))"

definition generateCookieSecret :: "('u, 's) org_env \<Rightarrow> 's \<Rightarrow> (go_error + string) \<times> 's" where
  "generateCookieSecret env s =
     (case oe_random env 16 s of
        (Inl e, s1) \<Rightarrow> (Inl e, s1)
      | (Inr token, s1) \<Rightarrow> (Inr (EncodeToString64 (EncodeToString64 token)), s1))"

definition new_org_secret :: "organization \<Rightarrow> secret" where
  "new_org_secret org = \<lparr>o_name = o_name org @ technicalSecretSuffix, o_namespace = o_name org, o_labels = [], o_annotations = [],
     o_finalizers = [], o_deletionTimestamp = None, o_ownerReferences = [], secret_type = SecretTypeOrganization, secret_data = []\<rparr>"

text \<open>After \<open>CreateOrPatch\<close> the variable holds what was written: the new object with its owner, as none was stored.\<close>

definition getOrCreateOrgSecret :: "('u, 's) org_env \<Rightarrow> organization \<Rightarrow> 's \<Rightarrow> (go_error + secret) \<times> 's" where
  "getOrCreateOrgSecret env org s =
     (let secret0 = new_org_secret org; key = ObjectKeyFromObject secret0 in
      case cl_get (oe_secrets env) key s of
        Inr secret \<Rightarrow> (Inr secret, s)
      | Inl e \<Rightarrow>
          if \<not> IsNotFound e then (Inl e, s)
          else (case apply_object (oe_secrets env) secret0 (controlled_by_org (oe_rbac env) org) s of
                  (Some e', s1) \<Rightarrow> (Inl e', s1)
                | (None, s1) \<Rightarrow> (controlled_by_org (oe_rbac env) org secret0, s1)))"

definition oauth_client_name :: "organization \<Rightarrow> string" where
  "oauth_client_name org = dexOAuth2ProxyClientPrefix @ ''-'' @ o_name org"

definition oauth_callback :: "('u, 's) org_env \<Rightarrow> organization \<Rightarrow> string" where
  "oauth_callback env org =
     ''https://auth-proxy.'' @ getOauthProxyURL (dxe_dnsDomain (oe_dex env)) (o_name org) @ ''/oauth2/callback''"

text \<open>The keys of the secret that are filled in: the cookie secret and the client secret only when they are missing.\<close>

definition fill_secret :: "('u, 's) org_env \<Rightarrow> organization \<Rightarrow> secret \<Rightarrow> 's \<Rightarrow> (go_error + secret) \<times> 's" where
  "fill_secret env org secret s =
     (case (if smap_get (secret_data secret) cookieSecretKey \<noteq> None then (Inr (secret_data secret), s)
            else case generateCookieSecret env s of
                   (Inl e, s1) \<Rightarrow> (Inl e, s1)
                 | (Inr cookie, s1) \<Rightarrow> (Inr (smap_set cookieSecretKey cookie (secret_data secret)), s1)) of
        (Inl e, s1) \<Rightarrow> (Inl e, s1)
      | (Inr data, s1) \<Rightarrow>
          (let data1 = smap_set dexOAuth2ProxyClientIDKey (oauth_client_name org) data in
           if smap_get data1 dexOAuth2ProxyClientSecretKey \<noteq> None then (Inr (secret\<lparr>secret_data := data1\<rparr>), s1)
           else case generateOauth2ProxySecret env s1 of
                  (Inl e, s2) \<Rightarrow> (Inl e, s2)
                | (Inr v, s2) \<Rightarrow> (Inr (secret\<lparr>secret_data := smap_set dexOAuth2ProxyClientSecretKey v data1\<rparr>), s2)))"

definition proxy_client :: "('u, 's) org_env \<Rightarrow> organization \<Rightarrow> secret \<Rightarrow> dex_client \<Rightarrow> dex_client" where
  "proxy_client env org secret c =
     c\<lparr>dc_public := False, dc_secret := smap_val (secret_data secret) dexOAuth2ProxyClientSecretKey,
       dc_redirectURIs := [oauth_callback env org], dc_name := o_name org @ '' Service Proxy''\<rparr>"

definition new_proxy_client :: "organization \<Rightarrow> dex_client" where
  "new_proxy_client org = \<lparr>dc_id = oauth_client_name org, dc_secret = [], dc_redirectURIs = [], dc_trustedPeers = [],
     dc_public = False, dc_name = [], dc_logoURL = []\<rparr>"

definition reconcileOAuth2ProxySecret :: "('u, 's) org_env \<Rightarrow> organization \<Rightarrow> 's \<Rightarrow> go_error option \<times> 's" where
  "reconcileOAuth2ProxySecret env org s =
     (let dex = dxe_storage (oe_dex env) in
      case getOrCreateOrgSecret env org s of
        (Inl e, s1) \<Rightarrow> (Some e, s1)
      | (Inr secret0, s1) \<Rightarrow>
          (case fill_secret env org secret0 s1 of
             (Inl e, s2) \<Rightarrow> (Some e, s2)
           | (Inr secret, s2) \<Rightarrow>
               (case dx_getClient dex (oauth_client_name org) s2 of
                  Inl e \<Rightarrow>
                    if dx_isNotFound dex e then dx_createClient dex (proxy_client env org secret (new_proxy_client org)) s2
                    else (Some e, s2)
                | Inr c \<Rightarrow>
                    (case dx_updateClient dex (dc_id c) (\<lambda>c. Inr (proxy_client env org secret c)) s2 of
                       (Some e, s3) \<Rightarrow> (Some e, s3)
                     | (None, s3) \<Rightarrow> cl_update (oe_secrets env) secret s3))))"

definition raw_value :: "string \<Rightarrow> string \<Rightarrow> plugin_option_value" where
  "raw_value n v = \<lparr>ov_name = n, ov_value = Some v, ov_valueFrom = None, ov_expression = None\<rparr>"

definition proxy_values :: "('u, 's) org_env \<Rightarrow> organization \<Rightarrow> plugin_option_value list" where
  "proxy_values env org =
     (let dns = dxe_dnsDomain (oe_dex env); secretName = getInternalSecretName (o_name org) in
      [raw_value ''domain'' (print_json (JStr (getOauthProxyURL dns (o_name org)))),
       raw_value ''image.tag'' (print_json (JStr (oe_gitCommit env))),
       raw_value ''oauth2proxy.enabled'' (quoted ''true''),
       raw_value ''oauth2proxy.issuerURL'' (quoted (''https://auth.'' @ dns)),
       raw_value ''oauth2proxy.clientIDRef.secret'' (quoted secretName),
       raw_value ''oauth2proxy.clientIDRef.key'' (quoted dexOAuth2ProxyClientIDKey),
       raw_value ''oauth2proxy.clientSecretRef.secret'' (quoted secretName),
       raw_value ''oauth2proxy.clientSecretRef.key'' (quoted dexOAuth2ProxyClientSecretKey),
       raw_value ''oauth2proxy.cookieSecretRef.secret'' (quoted (o_name org @ technicalSecretSuffix)),
       raw_value ''oauth2proxy.cookieSecretRef.key'' (quoted cookieSecretKey)])"

definition proxy_plugin :: "('u, 's) org_env \<Rightarrow> organization \<Rightarrow> string \<Rightarrow> plugin \<Rightarrow> plugin" where
  "proxy_plugin env org supportGroupTeamName plugin =
     plugin\<lparr>o_labels := [(LabelKeyOwnedBy, supportGroupTeamName)],
       pl_spec := (pl_spec plugin)\<lparr>ps_displayName := ''Remote service proxy'',
         ps_releaseName := (if ps_releaseName (pl_spec plugin) = [] then serviceProxyName else ps_releaseName (pl_spec plugin)),
         ps_optionValues := proxy_values env org\<rparr>\<rparr>"

definition reconcileServiceProxyPlugin :: "('u, 's) org_env \<Rightarrow> organization \<Rightarrow> string \<Rightarrow> 's \<Rightarrow> go_error option \<times> 's" where
  "reconcileServiceProxyPlugin env org supportGroupTeamName s =
     apply_object (oe_plugins env)
       (zero_plugin\<lparr>o_name := serviceProxyName, o_namespace := o_name org,
          pl_spec := zero_plugin_spec\<lparr>ps_pluginDefinitionRef := \<lparr>pdr_name = serviceProxyName, pdr_kind = ClusterPluginDefinitionKind\<rparr>\<rparr>\<rparr>)
       (\<lambda>plugin. controlled_by_org (oe_rbac env) org (proxy_plugin env org supportGroupTeamName plugin)) s"

definition reconcileServiceProxy ::
  "('u, 's) org_env \<Rightarrow> organization \<Rightarrow> string \<Rightarrow> 's \<Rightarrow> go_error option \<times> organization \<times> 's" where
  "reconcileServiceProxy env org supportGroupTeamName s =
     (let now = oe_now env;
          provisioned_false = (\<lambda>reason msg. SetCondition now (FalseCondition now ServiceProxyProvisioned reason msg) org)
      in case oe_get_clusterPluginDefinition env \<lparr>nn_namespace = [], nn_name = serviceProxyName\<rparr> s of
           Inl e \<Rightarrow>
             if IsNotFound e then (None, provisioned_false ServiceProxyNotFound ''plugin definition for service-proxy not found'', s)
             else (None, provisioned_false ServiceProxyFailed (error_text e), s)
         | Inr _ \<Rightarrow>
             if oidc_of org = None then (None, org, s)
             else (case reconcileOAuth2ProxySecret env org s of
                     (Some e, s1) \<Rightarrow> (Some e, provisioned_false ServiceProxyFailed (error_text e), s1)
                   | (None, s1) \<Rightarrow>
                       (case reconcileServiceProxyPlugin env org supportGroupTeamName s1 of
                          (Some e, s2) \<Rightarrow> (Some e, provisioned_false ServiceProxyFailed (error_text e), s2)
                        | (None, s2) \<Rightarrow> (None, SetCondition now (TrueCondition now ServiceProxyProvisioned [] []) org, s2))))"

section \<open>Creation\<close>

definition organization_exposedConditions :: "condition_type list" where
  "organization_exposedConditions =
     [ReadyCondition, SCIMAPIAvailableCondition, ServiceProxyProvisioned, OrganizationOICDConfigured, OrganizationAdminTeamConfigured,
      ServiceProxyProvisioned, OrganizationDefaultTeamRolesConfigured, NamespaceCreated, OrganizationRBACConfigured]"

text \<open>
  \<open>initOrganizationStatus\<close> works on a copy of the status: the conditions of the copy are computed (every one that is
  missing is appended, which never writes to the elements of the original slice), and the organization stays as it is.
\<close>

definition init_status_copy :: "time \<Rightarrow> condition list \<Rightarrow> condition list" where
  "init_status_copy now conds =
     fold (\<lambda>t cs. if GetConditionByType cs t = None then SetConditions now [UnknownCondition now t [] []] cs else cs)
       organization_exposedConditions conds"

definition initOrganizationStatus :: "time \<Rightarrow> organization \<Rightarrow> organization \<times> condition list" where
  "initOrganizationStatus now org = (org, init_status_copy now (o_conditions org))"

text \<open>
  \<open>EnsureCreated\<close> as a list of stages: a step, the reason and message of the false condition if it fails, the type of
  the condition, and whether it becomes true after the step. The first failure ends the run.
\<close>

record 's org_stage =
  sg_step :: "organization \<Rightarrow> 's \<Rightarrow> go_error option \<times> 's"
  sg_type :: condition_type
  sg_reason :: condition_reason
  sg_message :: "go_error \<Rightarrow> string"
  sg_done :: bool

fun run_stages :: "time \<Rightarrow> 's org_stage list \<Rightarrow> organization \<Rightarrow> 's \<Rightarrow> go_error option \<times> organization \<times> 's" where
  "run_stages now [] org s = (None, org, s)"
| "run_stages now (g # gs) org s =
     (case sg_step g org s of
        (Some e, s1) \<Rightarrow> (Some e, SetCondition now (FalseCondition now (sg_type g) (sg_reason g) (sg_message g e)) org, s1)
      | (None, s1) \<Rightarrow>
          run_stages now gs (if sg_done g then SetCondition now (TrueCondition now (sg_type g) [] []) org else org) s1)"

definition plain_stage :: "condition_type \<Rightarrow> bool \<Rightarrow> (organization \<Rightarrow> 's \<Rightarrow> go_error option \<times> 's) \<Rightarrow> 's org_stage" where
  "plain_stage t done step = \<lparr>sg_step = step, sg_type = t, sg_reason = [], sg_message = error_text, sg_done = done\<rparr>"

definition login_stage ::
  "condition_reason \<Rightarrow> (go_error \<Rightarrow> string) \<Rightarrow> bool \<Rightarrow> (organization \<Rightarrow> 's \<Rightarrow> go_error option \<times> 's) \<Rightarrow> 's org_stage" where
  "login_stage reason msg done step =
     \<lparr>sg_step = step, sg_type = OrganizationOICDConfigured, sg_reason = reason, sg_message = msg, sg_done = done\<rparr>"

definition login_stages :: "('u, 's) org_env \<Rightarrow> organization \<Rightarrow> 's org_stage list" where
  "login_stages env org =
     (case oidc_of org of
        None \<Rightarrow> []
      | Some cfg \<Rightarrow>
          [login_stage DexReconcileFailed (\<lambda>_. []) False (\<lambda>org. reconcileDexConnector (oe_dex env) org cfg),
           login_stage OAuthOICDFailed error_text (o_name org = defaultGreenhouseConnectorID)
             (\<lambda>org. reconcileOAuth2Client (oe_dex env) org cfg)]
          @ (if o_name org \<noteq> defaultGreenhouseConnectorID
             then [login_stage DefaultConnectorRedirectsFailed error_text True
                     (\<lambda>org. appendRedirectsToDefaultConnector (oe_dex env) (o_name org))]
             else []))"

definition created_stages :: "('u, 's) org_env \<Rightarrow> organization \<Rightarrow> 's org_stage list" where
  "created_stages env org =
     [plain_stage NamespaceCreated True (reconcileNamespace env),
      plain_stage OrganizationRBACConfigured False (reconcileRBAC (oe_rbac env)),
      plain_stage OrganizationRBACConfigured True (reconcileCatalogPermissions (oe_rbac env)),
      plain_stage OrganizationDefaultTeamRolesConfigured True (reconcileDefaultTeamRoles (oe_rbac env))]
     @ login_stages env org
     @ [plain_stage OrganizationAdminTeamConfigured True (reconcileAdminTeam env)]"

definition organization_EnsureCreated ::
  "('u, 's) org_env \<Rightarrow> organization \<Rightarrow> 's \<Rightarrow> (ctrl_result \<times> reconcile_result \<times> go_error option) \<times> organization \<times> 's" where
  "organization_EnsureCreated env org0 s =
     (let now = oe_now env; org = fst (initOrganizationStatus now org0) in
      case run_stages now (created_stages env org) org s of
        (Some e, org1, s1) \<Rightarrow> ((EmptyResult, Failed, Some e), org1, s1)
      | (None, org1, s1) \<Rightarrow>
          (case reconcileServiceProxy env org1 (o_name org @ ''-admin'') s1 of
             (Some e, org2, s2) \<Rightarrow>
               ((EmptyResult, Failed, Some e),
                SetCondition now (FalseCondition now ServiceProxyProvisioned [] (error_text e)) org2, s2)
           | (None, org2, s2) \<Rightarrow> ((EmptyResult, Success, None), org2, s2)))"

section \<open>Status\<close>

definition groups_query :: "string \<Rightarrow> query_options" where
  "groups_query adminGroup = \<lparr>qo_filter = GroupFilterByDisplayName adminGroup, qo_attributes = [],
     qo_excludedAttributes = SetAttributes [AttrMembers], qo_startID = []\<rparr>"

text \<open>\<open>None\<close> when the loop over the pages does not end or a reference of the configuration is nil.\<close>

definition checkSCIMAPIAvailability :: "('u, 's) org_env \<Rightarrow> organization \<Rightarrow> 's \<Rightarrow> (condition \<times> 's) option" where
  "checkSCIMAPIAvailability env org s =
     (let now = oe_now env; unavailable = (\<lambda>reason msg. FalseCondition now SCIMAPIAvailableCondition reason msg) in
      case GetSCIMConfig org of
        None \<Rightarrow> Some (UnknownCondition now SCIMAPIAvailableCondition SCIMConfigErrorReason ''SCIM Config not provided'', s)
      | Some scimConfig \<Rightarrow>
          if org_mappedOrgAdminIDPGroup org = []
          then Some (unavailable SCIMRequestFailedReason ''.Spec.MappedOrgAdminIDPGroup is not set in Organization'', s)
          else (case GreenhouseSCIMConfigToSCIMConfig (\<lambda>k. cl_get (oe_secrets env) k s) scimConfig (o_name org) of
                  None \<Rightarrow> None
                | Some (Inl e) \<Rightarrow> Some (unavailable SCIMConfigErrorReason (error_text e), s)
                | Some (Inr config) \<Rightarrow>
                    (case NewSCIMClient (oe_http env) config of
                       Inl _ \<Rightarrow> Some (unavailable SCIMRequestFailedReason ''Failed to create SCIM client'', s)
                     | Inr c \<Rightarrow>
                         (case GetGroups (oe_http env) c (Some (groups_query (org_mappedOrgAdminIDPGroup org))) s of
                            None \<Rightarrow> None
                          | Some (Inl _, _, s1) \<Rightarrow>
                              Some (unavailable SCIMRequestFailedReason ''Failed to request data from SCIM API'', s1)
                          | Some (Inr groups, _, s1) \<Rightarrow>
                              Some (if length groups = 0
                                    then unavailable SCIMRequestFailedReason
                                           (org_mappedOrgAdminIDPGroup org @ '' Group not found in SCIM API'')
                                    else TrueCondition now SCIMAPIAvailableCondition CreatedReason ''SCIM API is available'', s1)))))"

definition calculateReadyCondition :: "time \<Rightarrow> condition \<Rightarrow> condition" where
  "calculateReadyCondition now scimAPIAvailableCondition =
     (if IsFalse scimAPIAvailableCondition then FalseCondition now ReadyCondition SCIMAPIUnavailableReason []
      else TrueCondition now ReadyCondition [] [])"

definition organization_metric_labels :: "organization \<Rightarrow> string smap" where
  "organization_metric_labels org = [(''organization'', o_name org)]"

definition updateOrganizationMetrics :: "('u, 's) org_env \<Rightarrow> organization \<Rightarrow> 's \<Rightarrow> 's" where
  "updateOrganizationMetrics env org s =
     (let labels = organization_metric_labels org;
          s1 = oe_gaugeSet env ''greenhouse_organization_ready'' labels (if IsReadyTrue (o_conditions org) then 1 else 0) s
      in oe_gaugeSet env ''greenhouse_scim_access_ready'' labels
           (case GetConditionByType (o_conditions org) SCIMAPIAvailableCondition of
              Some c \<Rightarrow> if IsTrue c then 1 else 0 | None \<Rightarrow> 0) s1)"

definition deleteOrganizationMetrics :: "('u, 's) org_env \<Rightarrow> organization \<Rightarrow> 's \<Rightarrow> 's" where
  "deleteOrganizationMetrics env org s =
     oe_gaugeDelete env ''greenhouse_scim_access_ready'' (organization_metric_labels org)
       (oe_gaugeDelete env ''greenhouse_organization_ready'' (organization_metric_labels org) s)"

definition organization_setStatus :: "('u, 's) org_env \<Rightarrow> organization \<Rightarrow> 's \<Rightarrow> (organization \<times> 's) option" where
  "organization_setStatus env org s =
     (case checkSCIMAPIAvailability env org s of
        None \<Rightarrow> None
      | Some (scim, s1) \<Rightarrow>
          (let org1 = org\<lparr>o_conditions := SetConditions (oe_now env) [scim, calculateReadyCondition (oe_now env) scim] (o_conditions org)\<rparr>
           in Some (org1, updateOrganizationMetrics env org1 s1)))"

section \<open>Deletion and the generic reconciliation\<close>

definition organization_EnsureDeleted ::
  "('u, 's) org_env \<Rightarrow> organization \<Rightarrow> 's \<Rightarrow> (ctrl_result \<times> reconcile_result \<times> go_error option) \<times> organization \<times> 's" where
  "organization_EnsureDeleted env org s =
     (case (if oidc_of org \<noteq> None then run_steps (logout_steps (oe_dex env) org) s else (None, s)) of
        (Some e, s1) \<Rightarrow> ((EmptyResult, Failed, Some e), org, s1)
      | (None, s1) \<Rightarrow> ((EmptyResult, Success, None), org, deleteOrganizationMetrics env org s1))"

definition organization_EnsureSuspended :: "organization \<Rightarrow> 's \<Rightarrow> (ctrl_result \<times> go_error option) \<times> organization \<times> 's" where
  "organization_EnsureSuspended org s = ((EmptyResult, None), org, s)"

definition organization_reconciler :: "('u, 's) org_env \<Rightarrow> (organization, 's) reconciler" where
  "organization_reconciler env =
     \<lparr>EnsureCreated = organization_EnsureCreated env, EnsureDeleted = organization_EnsureDeleted env,
      EnsureSuspended = organization_EnsureSuspended, CanBeSuspended = False, UpdateLastReconciledAtStatus = None\<rparr>"

definition organization_Reconcile ::
  "('u, 's) org_env \<Rightarrow> (organization, 's) client \<Rightarrow> namespaced_name \<Rightarrow> 's \<Rightarrow> (ctrl_result \<times> go_error option) \<times> 's" where
  "organization_Reconcile env c key s =
     Reconcile (oe_now env) c (organization_reconciler env)
       (Some (\<lambda>org s. case organization_setStatus env org s of Some (org', _) \<Rightarrow> org' | None \<Rightarrow> org)) key s"

definition listOrganizationsAsReconcileRequests :: "('u, 's) org_env \<Rightarrow> string option \<Rightarrow> 's \<Rightarrow> namespaced_name list" where
  "listOrganizationsAsReconcileRequests env configMapRef s =
     (case oe_list_orgs env configMapRef s of Inl _ \<Rightarrow> [] | Inr orgs \<Rightarrow> map ObjectKeyFromObject orgs)"

definition enqueueOrganizationForReferencedSecret :: "('u, 's) org_env \<Rightarrow> 'a object_meta_scheme \<Rightarrow> 's \<Rightarrow> namespaced_name list" where
  "enqueueOrganizationForReferencedSecret env obj s =
     (case oe_get_org env \<lparr>nn_namespace = [], nn_name = o_namespace obj\<rparr> s of Inl _ \<Rightarrow> [] | Inr org \<Rightarrow> [ObjectKeyFromObject org])"

definition enqueueOrganizationsForReferencedConfigMap :: "('u, 's) org_env \<Rightarrow> 'a object_meta_scheme \<Rightarrow> 's \<Rightarrow> namespaced_name list" where
  "enqueueOrganizationsForReferencedConfigMap env obj s = listOrganizationsAsReconcileRequests env (Some (o_name obj)) s"

definition enqueueAllOrganizationsForServiceProxyPluginDefinition :: "('u, 's) org_env \<Rightarrow> 's \<Rightarrow> namespaced_name list" where
  "enqueueAllOrganizationsForServiceProxyPluginDefinition env s = listOrganizationsAsReconcileRequests env None s"

section \<open>Conditions after a run\<close>

lemma run_stages_ok:
  "run_stages now gs org s = (None, org', s') \<Longrightarrow>
     shown_status (o_conditions org') t
       = (if \<exists>g \<in> set gs. sg_done g \<and> sg_type g = t then Some ConditionTrue else shown_status (o_conditions org) t)"
  by (induction now gs org s rule: run_stages.induct)
    (auto simp: cond_simps TrueCondition_def NewCondition_def split: prod.splits option.splits if_splits)

lemma run_stages_failed:
  "run_stages now gs org s = (Some e, org', s') \<Longrightarrow>
     \<exists>g \<in> set gs. shown_status (o_conditions org') (sg_type g) = Some ConditionFalse \<and> (\<exists>o1 s1. sg_step g o1 s1 = (Some e, s'))"
proof (induction now gs org s rule: run_stages.induct)
  case (2 now g gs org s)
  show ?case
  proof (cases "fst (sg_step g org s)")
    case None
    with 2 show ?thesis by (auto split: prod.splits option.splits)
  next
    case (Some e')
    with "2.prems" show ?thesis by (auto simp: cond_simps FalseCondition_def NewCondition_def split: prod.splits)
  qed
qed simp

lemma oidc_of_SetCondition [simp]: "oidc_of (SetCondition now c org) = oidc_of org"
  by (simp add: oidc_of_def SetCondition_def)

lemma reconcileServiceProxy_status:
  assumes "reconcileServiceProxy env org n s = (err, org', s')" and "t \<noteq> ServiceProxyProvisioned"
  shows "shown_status (o_conditions org') t = shown_status (o_conditions org) t"
  using assms
  by (auto simp: reconcileServiceProxy_def Let_def cond_simps TrueCondition_def NewCondition_def FalseCondition_def
      split: sum.splits if_splits prod.splits option.splits)

text \<open>
  The conditions of a run are true to it: without an error namespace, permissions, team roles, admin team and, if it
  is configured, the login are all shown as done; with an error the result is a failure and one of the conditions is
  false.
\<close>

theorem organization_conditions_truthful:
  assumes run: "organization_EnsureCreated env org s = ((res, rr, err), org', s')"
  shows "(err = None \<longrightarrow> rr = Success \<and>
      (\<forall>t \<in> {NamespaceCreated, OrganizationRBACConfigured, OrganizationDefaultTeamRolesConfigured, OrganizationAdminTeamConfigured}
             \<union> (if oidc_of org = None then {} else {OrganizationOICDConfigured}).
         shown_status (o_conditions org') t = Some ConditionTrue))
    \<and> (err \<noteq> None \<longrightarrow> rr = Failed \<and>
      (\<exists>t \<in> {NamespaceCreated, OrganizationRBACConfigured, OrganizationDefaultTeamRolesConfigured, OrganizationOICDConfigured,
              OrganizationAdminTeamConfigured, ServiceProxyProvisioned}. shown_status (o_conditions org') t = Some ConditionFalse))"
proof (cases "run_stages (oe_now env) (created_stages env org) org s")
  case (fields e1 org1 s1)
  have types: "g \<in> set (created_stages env org) \<Longrightarrow> sg_type g \<in> {NamespaceCreated, OrganizationRBACConfigured,
      OrganizationDefaultTeamRolesConfigured, OrganizationOICDConfigured, OrganizationAdminTeamConfigured}" for g
    by (auto simp: created_stages_def login_stages_def plain_stage_def login_stage_def split: option.splits if_splits)
  show ?thesis
  proof (cases e1)
    case (Some e)
    with fields run have "err = Some e" "rr = Failed" "org' = org1"
      by (auto simp: organization_EnsureCreated_def initOrganizationStatus_def Let_def)
    moreover from run_stages_failed [OF fields [unfolded Some]] obtain g where "g \<in> set (created_stages env org)"
      "shown_status (o_conditions org1) (sg_type g) = Some ConditionFalse" by blast
    ultimately show ?thesis using types [of g] by auto
  next
    case None
    obtain e2 org2 s2 where proxy: "reconcileServiceProxy env org1 (o_name org @ ''-admin'') s1 = (e2, org2, s2)"
      by (cases "reconcileServiceProxy env org1 (o_name org @ ''-admin'') s1")
    have finished: "t \<in> {NamespaceCreated, OrganizationRBACConfigured, OrganizationDefaultTeamRolesConfigured, OrganizationAdminTeamConfigured}
        \<union> (if oidc_of org = None then {} else {OrganizationOICDConfigured}) \<Longrightarrow>
        \<exists>g \<in> set (created_stages env org). sg_done g \<and> sg_type g = t" for t
      unfolding list_ex_iff [symmetric]
      by (cases "oidc_of org"; cases "o_name org = defaultGreenhouseConnectorID")
        (auto simp: created_stages_def login_stages_def plain_stage_def login_stage_def)
    have shown: "shown_status (o_conditions org2) t = Some ConditionTrue"
      if "t \<in> {NamespaceCreated, OrganizationRBACConfigured, OrganizationDefaultTeamRolesConfigured, OrganizationAdminTeamConfigured}
        \<union> (if oidc_of org = None then {} else {OrganizationOICDConfigured})" for t
    proof -
      from that have "t \<noteq> ServiceProxyProvisioned" by (auto simp: organization_condition_names split: if_splits)
      from reconcileServiceProxy_status [OF proxy this] run_stages_ok [OF fields [unfolded None], of t] finished [OF that]
      show ?thesis by simp
    qed
    show ?thesis
    proof (cases e2)
      case None
      with run fields proxy \<open>e1 = None\<close> have "err = None" "rr = Success" "org' = org2"
        by (simp_all add: organization_EnsureCreated_def initOrganizationStatus_def Let_def)
      with shown show ?thesis by blast
    next
      case (Some e)
      with run fields proxy \<open>e1 = None\<close> have "err = Some e" "rr = Failed"
        "org' = SetCondition (oe_now env) (FalseCondition (oe_now env) ServiceProxyProvisioned [] (error_text e)) org2"
        by (auto simp: organization_EnsureCreated_def initOrganizationStatus_def Let_def)
      then show ?thesis by (simp add: cond_simps FalseCondition_def NewCondition_def)
    qed
  qed
qed

text \<open>
  The Ready condition says nothing about the run: for an organization without SCIM it is true after every
  reconciliation, also one that returned an error.
\<close>

theorem ready_although_failed:
  assumes "ensureCreated (oe_now env) (organization_reconciler env)
      (Some (\<lambda>org s. case organization_setStatus env org s of Some (org', _) \<Rightarrow> org' | None \<Rightarrow> org)) org s = ((res, err), org', s')"
    and "GetSCIMConfig org = None"
  shows "IsReadyTrue (o_conditions org')"
proof -
  have scim: "GetSCIMConfig (SetCondition now c x) = GetSCIMConfig x" for now c x
    by (simp add: GetSCIMConfig_def SetCondition_def)
  have stages: "run_stages now gs x t = (e, x', t') \<Longrightarrow> GetSCIMConfig x' = GetSCIMConfig x" for now gs x t e x' t'
    by (induction now gs x t rule: run_stages.induct) (auto simp: scim split: prod.splits option.splits if_splits)
  have proxy: "reconcileServiceProxy env x n t = (e, x', t') \<Longrightarrow> GetSCIMConfig x' = GetSCIMConfig x" for x n t e x' t'
    by (auto simp: reconcileServiceProxy_def Let_def scim split: sum.splits if_splits prod.splits option.splits)
  have created: "GetSCIMConfig x' = GetSCIMConfig x" if "organization_EnsureCreated env x t = (out, x', t')" for x t out x' t'
  proof (cases "run_stages (oe_now env) (created_stages env x) x t")
    case (fields e1 x1 t1)
    obtain e2 x2 t2 where p: "reconcileServiceProxy env x1 (o_name x @ ''-admin'') t1 = (e2, x2, t2)"
      by (cases "reconcileServiceProxy env x1 (o_name x @ ''-admin'') t1")
    from that fields p stages [OF fields] proxy [OF p] show ?thesis
      by (cases e1; cases e2) (auto simp: organization_EnsureCreated_def initOrganizationStatus_def Let_def scim)
  qed
  have removed: "GetSCIMConfig (RemoveObjectCondition t x) = GetSCIMConfig x" for t x
    by (simp add: GetSCIMConfig_def RemoveObjectCondition_def)
  define x where "x = (case GetConditionByType (GetConditions org) SuspendedCondition of
      None \<Rightarrow> org | Some _ \<Rightarrow> RemoveObjectCondition SuspendedCondition org)"
  have x: "GetSCIMConfig x = None" using assms(2) by (simp add: x_def removed split: option.splits)
  obtain out x1 s1 where run: "organization_EnsureCreated env x s = (out, x1, s1)" by (cases "organization_EnsureCreated env x s")
  with assms(1) have "org' = (case organization_setStatus env x1 s1 of Some (x2, _) \<Rightarrow> x2 | None \<Rightarrow> x1)"
    by (auto simp: ensureCreated_def organization_reconciler_def x_def [symmetric] split: prod.splits)
  moreover from created [OF run] x have "GetSCIMConfig x1 = None" by simp
  ultimately show ?thesis
    by (auto simp: organization_setStatus_def checkSCIMAPIAvailability_def Let_def IsReadyTrue_shown SetConditions_Cons
        calculateReadyCondition_def UnknownCondition_def IsFalse_def TrueCondition_def NewCondition_def shown_status_def set_one_get split: option.splits)
qed

section \<open>The client of the service proxy\<close>

text \<open>What is relied on of the other operations: they change neither the secrets nor the clients of Dex.\<close>

definition proxy_separate ::
  "('u, 's) org_env \<Rightarrow> (secret, 's) view \<Rightarrow> ('s \<Rightarrow> string \<Rightarrow> dex_client option) \<Rightarrow> ('s \<Rightarrow> string \<Rightarrow> dex_connector option) \<Rightarrow> bool" where
  "proxy_separate env secrets clients connectors \<longleftrightarrow>
     stores (oe_secrets env) secrets \<and> leaves (oe_secrets env) clients \<and>
     dex_laws (dxe_storage (oe_dex env)) clients connectors \<and>
     (\<forall>c s. secrets (snd (dx_createClient (dxe_storage (oe_dex env)) c s)) = secrets s) \<and>
     (\<forall>n s. secrets (snd (oe_random env n s)) = secrets s \<and> clients (snd (oe_random env n s)) = clients s)"

text \<open>Secret and client agree.\<close>

definition proxy_ready ::
  "organization \<Rightarrow> (secret, 's) view \<Rightarrow> ('s \<Rightarrow> string \<Rightarrow> dex_client option) \<Rightarrow> 's \<Rightarrow> bool" where
  "proxy_ready org secrets clients s \<longleftrightarrow>
     (\<exists>secret c v. secrets s (ObjectKeyFromObject (new_org_secret org)) = Some secret \<and> clients s (oauth_client_name org) = Some c \<and>
        smap_get (secret_data secret) dexOAuth2ProxyClientIDKey = Some (oauth_client_name org) \<and>
        smap_get (secret_data secret) dexOAuth2ProxyClientSecretKey = Some v \<and> dc_secret c = v \<and> \<not> dc_public c \<and>
        smap_get (secret_data secret) cookieSecretKey \<noteq> None)"

lemmas proxy_keys = cookieSecretKey_def dexOAuth2ProxyClientIDKey_def dexOAuth2ProxyClientSecretKey_def

lemma fill_secret_complete:
  assumes "fill_secret env org secret0 s = (Inr secret, s')"
  shows "smap_get (secret_data secret) dexOAuth2ProxyClientIDKey = Some (oauth_client_name org)"
    and "\<exists>v. smap_get (secret_data secret) dexOAuth2ProxyClientSecretKey = Some v"
    and "smap_get (secret_data secret) cookieSecretKey \<noteq> None"
    and "ObjectKeyFromObject secret = ObjectKeyFromObject secret0"
  using assms
  by (auto simp: fill_secret_def Let_def sm.get_upd proxy_keys ObjectKeyFromObject_def split: prod.splits sum.splits if_splits)

lemma fill_secret_leaves:
  assumes "fill_secret env org secret0 s = (r, s')" "\<And>n s. view (snd (oe_random env n s)) = view s"
  shows "view s' = view s"
proof -
  have random: "oe_random env n s = (r, s') \<Longrightarrow> view s' = view s" for n s r s' using assms(2) by (metis snd_conv)
  have "generateCookieSecret env s = (r, s') \<Longrightarrow> view s' = view s" for s r s'
    using random by (auto simp: generateCookieSecret_def split: prod.splits sum.splits)
  moreover have "generateOauth2ProxySecret env s = (r, s') \<Longrightarrow> view s' = view s" for s r s'
    using random by (auto simp: generateOauth2ProxySecret_def split: prod.splits sum.splits)
  ultimately show ?thesis using assms(1)
    by (auto simp: fill_secret_def Let_def split: prod.splits sum.splits if_splits)
qed

lemma controlled_by_org_key:
  "controlled_by_org env org x = Inr y \<Longrightarrow> ObjectKeyFromObject y = ObjectKeyFromObject x"
  by (auto simp: controlled_by_org_def ObjectKeyFromObject_def split: sum.splits)

lemma getOrCreateOrgSecret_key:
  assumes "getOrCreateOrgSecret env org s = (Inr secret, s')" "stores (oe_secrets env) secrets"
  shows "ObjectKeyFromObject secret = ObjectKeyFromObject (new_org_secret org)"
  using assms stores_get(2) [OF assms(2)] controlled_by_org_key
  by (auto simp: getOrCreateOrgSecret_def Let_def split: sum.splits if_splits prod.splits option.splits)

lemma getOrCreateOrgSecret_leaves:
  assumes "getOrCreateOrgSecret env org s = (r, s')" "leaves (oe_secrets env) view"
  shows "view s' = view s"
  using assms apply_object_leaves [OF assms(2)]
  by (auto simp: getOrCreateOrgSecret_def Let_def split: sum.splits if_splits prod.splits option.splits)

lemma proxy_run_with_client:
  assumes sep: "proxy_separate env secrets clients connectors" and run: "reconcileOAuth2ProxySecret env org s = (None, s')"
  shows "clients s' (oauth_client_name org) \<noteq> None"
    and "clients s (oauth_client_name org) \<noteq> None \<Longrightarrow> proxy_ready org secrets clients s'"
proof -
  let ?dex = "dxe_storage (oe_dex env)" and ?n = "oauth_client_name org"
  from sep have store: "stores (oe_secrets env) secrets" and frame: "leaves (oe_secrets env) clients"
    and dex: "dex_laws ?dex clients connectors" and random: "\<And>n s. clients (snd (oe_random env n s)) = clients s"
    by (auto simp: proxy_separate_def)
  note laws = keyed_storageD [OF dex_lawsD(1) [OF dex]]
  from run obtain secret0 s1 secret s2 where 1: "getOrCreateOrgSecret env org s = (Inr secret0, s1)"
    and 2: "fill_secret env org secret0 s1 = (Inr secret, s2)"
    by (auto simp: reconcileOAuth2ProxySecret_def Let_def split: prod.splits sum.splits)
  have same: "clients s2 = clients s"
    using fill_secret_leaves [where view = clients, OF 2 random] getOrCreateOrgSecret_leaves [OF 1 frame] by simp
  have "clients s' ?n \<noteq> None \<and> (clients s ?n \<noteq> None \<longrightarrow> proxy_ready org secrets clients s')"
  proof (cases "dx_getClient ?dex ?n s2")
    case (Inl e)
    with run 1 2 have nf: "dx_isNotFound ?dex e" and "dx_createClient ?dex (proxy_client env org secret (new_proxy_client org)) s2 = (None, s')"
      by (auto simp: reconcileOAuth2ProxySecret_def Let_def split: if_splits)
    from laws(5) [OF this(2)] laws(3) [OF Inl nf] same show ?thesis by (simp add: proxy_client_def new_proxy_client_def)
  next
    case (Inr c)
    with run 1 2 laws(2) [OF Inr] obtain s3 where
      update: "dx_updateClient ?dex ?n (\<lambda>c. Inr (proxy_client env org secret c)) s2 = (None, s3)"
      and stored: "cl_update (oe_secrets env) secret s3 = (None, s')"
      by (auto simp: reconcileOAuth2ProxySecret_def Let_def split: prod.splits option.splits)
    from laws(6) [OF update] obtain x where "clients s3 ?n = Some (proxy_client env org secret x)" by auto
    then have "clients s' ?n = Some (proxy_client env org secret x)" using leavesD(2) [OF frame stored] by simp
    moreover have "secrets s' (ObjectKeyFromObject (new_org_secret org)) = Some secret"
      using stores_write(4) [OF store stored] fill_secret_complete(4) [OF 2] getOrCreateOrgSecret_key [OF 1 store] by simp
    ultimately show ?thesis
      using fill_secret_complete(1-3) [OF 2] by (auto simp: proxy_ready_def proxy_client_def smap_val_get)
  qed
  then show "clients s' ?n \<noteq> None" "clients s ?n \<noteq> None \<Longrightarrow> proxy_ready org secrets clients s'" by blast+
qed

text \<open>
  C12. Two runs without an error are enough for the service proxy: then the internal secret of the organization holds the
  id, the secret and the cookie secret, and the client of Dex under that id has the same secret.
\<close>

theorem oauth2_proxy_converges:
  assumes "proxy_separate env secrets clients connectors"
    and "reconcileOAuth2ProxySecret env org s = (None, s1)" and "reconcileOAuth2ProxySecret env org s1 = (None, s2)"
  shows "proxy_ready org secrets clients s2"
  using proxy_run_with_client(1) [OF assms(1,2)] proxy_run_with_client(2) [OF assms(1,3)] by blast

text \<open>One run is not: the run that creates the client returns before it stores the generated secret.\<close>

lemma first_proxy_run_incomplete:
  assumes sep: "proxy_separate env secrets clients connectors" and run: "reconcileOAuth2ProxySecret env org s = (None, s')"
    and fresh: "secrets s (ObjectKeyFromObject (new_org_secret org)) = None" "clients s (oauth_client_name org) = None"
  shows "\<exists>secret. secrets s' (ObjectKeyFromObject (new_org_secret org)) = Some secret
    \<and> smap_get (secret_data secret) dexOAuth2ProxyClientSecretKey = None"
proof -
  let ?dex = "dxe_storage (oe_dex env)" and ?n = "oauth_client_name org" and ?k = "ObjectKeyFromObject (new_org_secret org)"
  from sep have store: "stores (oe_secrets env) secrets" and frame: "leaves (oe_secrets env) clients"
    and dex: "dex_laws ?dex clients connectors" and create: "\<And>c s. secrets (snd (dx_createClient ?dex c s)) = secrets s"
    and random: "\<And>n s. clients (snd (oe_random env n s)) = clients s" "\<And>n s. secrets (snd (oe_random env n s)) = secrets s"
    by (auto simp: proxy_separate_def)
  note laws = keyed_storageD [OF dex_lawsD(1) [OF dex]]
  from run obtain secret0 s1 secret s2 where 1: "getOrCreateOrgSecret env org s = (Inr secret0, s1)"
    and 2: "fill_secret env org secret0 s1 = (Inr secret, s2)"
    by (auto simp: reconcileOAuth2ProxySecret_def Let_def split: prod.splits sum.splits)
  have "clients s2 ?n = None"
    using fill_secret_leaves [where view = clients, OF 2 random(1)] getOrCreateOrgSecret_leaves [OF 1 frame] fresh(2) by simp
  then obtain e where "dx_getClient ?dex ?n s2 = Inl e" using laws(1) by (metis option.simps(3) sum.exhaust)
  with run 1 2 have "dx_createClient ?dex (proxy_client env org secret (new_proxy_client org)) s2 = (None, s')"
    by (auto simp: reconcileOAuth2ProxySecret_def Let_def split: if_splits)
  then have kept: "secrets s' = secrets s1"
    using create fill_secret_leaves [where view = secrets, OF 2 random(2)] by (metis snd_conv)
  from 1 fresh(1) stores_get(1) [OF store, of ?k s] have written:
    "apply_object (oe_secrets env) (new_org_secret org) (controlled_by_org (oe_rbac env) org) s = (None, s1)"
    by (auto simp: getOrCreateOrgSecret_def Let_def split: sum.splits if_splits prod.splits option.splits)
  have "\<exists>x y. controlled_by_org (oe_rbac env) org x = Inr y \<and> secrets s1 ?k = Some y \<and> (x = new_org_secret org \<or> secrets s ?k = Some x)"
    by (rule apply_object_stored [OF store written]) (rule controlled_by_org_key)
  then obtain y where y: "controlled_by_org (oe_rbac env) org (new_org_secret org) = Inr y" "secrets s1 ?k = Some y" using fresh(1) by auto
  from y(1) have "secret_data y = []" by (auto simp: controlled_by_org_def new_org_secret_def split: sum.splits)
  with y(2) kept show ?thesis by (auto simp: smap_get_def)
qed

section \<open>What a deletion leaves\<close>

lemma oauth_client_name_other: "oauth_client_name org \<noteq> o_name org" "oauth_client_name org \<noteq> defaultGreenhouseConnectorID"
  by (auto simp: oauth_client_name_def dexOAuth2ProxyClientPrefix_def defaultGreenhouseConnectorID_def dest: arg_cong [of _ _ length])

text \<open>
  The deletion of an organization, whatever its outcome, leaves the confidential client of its service proxy in
  Dex: the secret in it stays valid.
\<close>

theorem proxy_client_survives:
  assumes run: "organization_EnsureDeleted env org s = (out, org', s')"
    and laws: "dex_laws (dxe_storage (oe_dex env)) clients connectors" and named: "default_named clients s"
    and gauges: "\<And>g ls s. clients (oe_gaugeDelete env g ls s) = clients s"
  shows "clients s' (oauth_client_name org) = clients s (oauth_client_name org)"
proof -
  have "clients s2 (oauth_client_name org) = clients s (oauth_client_name org)"
    if "run_steps (logout_steps (oe_dex env) org) s = (r, s2)" for r s2
  proof -
    obtain r1 s1 where 1: "removeAuthRedirectFromDefaultConnector (oe_dex env) org s = (r1, s1)" by fastforce
    have first: "clients s1 (oauth_client_name org) = clients s (oauth_client_name org)"
      using default_named_update(2) [OF laws named 1] oauth_client_name_other(2) [of org] by auto
    obtain r3 s3 where 3: "deleteDexConnector (oe_dex env) org s1 = (r3, s3)" by fastforce
    obtain r4 s4 where 4: "deleteOAuth2Client (oe_dex env) org s3 = (r4, s4)" by fastforce
    show ?thesis
      using that 1 3 4 first connector_steps_clients(2) [OF laws 3] deleteOAuth2Client_effect(1) [OF laws 4] oauth_client_name_other(1) [of org]
      by (auto simp: logout_steps_def split: option.splits)
  qed
  with run gauges show ?thesis
    by (auto simp: organization_EnsureDeleted_def deleteOrganizationMetrics_def split: prod.splits option.splits if_splits)
qed


section \<open>Witnesses\<close>

record org_wit = demo_dex +
  ow_secrets :: "secret list"

definition void_client :: "('a object_meta_scheme, 's) client" where
  "void_client = list_client (\<lambda>_. []) (\<lambda>_ s. s)"

definition org_wit_rbac :: "org_wit rbac_env" where
  "org_wit_rbac =
     \<lparr>rbe_now = 5, rbe_ownerRefs = (\<lambda>_ refs. Inr refs), rbe_controllerRefs = (\<lambda>_ refs. Inr refs), rbe_range = (\<lambda>ks. ks),
      rbe_clusterRoles = void_client, rbe_clusterRoleBindings = void_client, rbe_roles = void_client,
      rbe_roleBindings = void_client, rbe_serviceAccounts = void_client, rbe_teamRoles = void_client\<rparr>"

definition org_wit_env :: "(string, org_wit) org_env" where
  "org_wit_env =
     \<lparr>oe_now = 5, oe_rbac = org_wit_rbac, oe_dex = demo_dex_env,
      oe_http = \<lparr>sh_Parse = Inr, sh_JoinPath = (\<lambda>u p. u @ p), sh_SetRawQuery = (\<lambda>q u. u @ q), sh_String = (\<lambda>u. u),
        sh_Do = (\<lambda>rt. rt), sh_DefaultTransport = (\<lambda>_ s. (Inl (PlainError ''offline''), s)), sh_json_error = PlainError\<rparr>,
      oe_namespaces = void_client, oe_teams = void_client, oe_plugins = void_client,
      oe_secrets = list_client ow_secrets (\<lambda>xs s. s\<lparr>ow_secrets := xs\<rparr>),
      oe_get_clusterPluginDefinition = (\<lambda>_ _. Inl (ApiError ReasonNotFound ''not found'' [])),
      oe_get_org = (\<lambda>_ _. Inr rbac_wit_org), oe_list_orgs = (\<lambda>_ _. Inr [rbac_wit_org]),
      oe_random = (\<lambda>n s. (Inr (replicate n CHR ''r''), s)), oe_gitCommit = ''main'',
      oe_gaugeSet = (\<lambda>_ _ _ s. s), oe_gaugeDelete = (\<lambda>_ _ s. s)\<rparr>"

definition org_wit0 :: org_wit where
  "org_wit0 = \<lparr>dd_clients = (\<lambda>_. None), dd_connectors = (\<lambda>_. None), ow_secrets = []\<rparr>"

definition oidc_org :: organization where
  "oidc_org = rbac_wit_org\<lparr>org_authentication := Some \<lparr>auth_oidc = Some demo_oidc, auth_scim = None\<rparr>\<rparr>"

lemma org_wit_separate: "proxy_separate org_wit_env (\<lambda>s. stored_in (ow_secrets s)) dd_clients dd_connectors"
proof -
  have "stores (oe_secrets org_wit_env) (\<lambda>s. stored_in (ow_secrets s))"
    by (simp add: org_wit_env_def list_client_stores)
  moreover have "leaves (oe_secrets org_wit_env) dd_clients" by (simp add: org_wit_env_def list_client_leaves)
  moreover have "dex_laws (dxe_storage (oe_dex org_wit_env)) dd_clients dd_connectors"
    by (simp add: org_wit_env_def demo_dex_simps demo_storage_laws)
  ultimately show ?thesis by (simp add: proxy_separate_def org_wit_env_def demo_dex_simps demo_storage_def)
qed

theorem organization_conditions_truthful_witness:
  "shown_status (o_conditions (fst (snd (organization_EnsureCreated org_wit_env rbac_wit_org org_wit0)))) NamespaceCreated
     = Some ConditionTrue"
proof -
  have "(case organization_EnsureCreated org_wit_env rbac_wit_org org_wit0 of ((_, _, err), _, _) \<Rightarrow> err = None)" by code_simp
  then obtain res rr org' s' where run: "organization_EnsureCreated org_wit_env rbac_wit_org org_wit0 = ((res, rr, None), org', s')"
    by (auto split: prod.splits)
  from organization_conditions_truthful [OF run] run show ?thesis by auto
qed

theorem ready_although_failed_witness:
  "\<exists>e org' s' res. ensureCreated 5 (organization_reconciler org_wit_env)
      (Some (\<lambda>org s. case organization_setStatus org_wit_env org s of Some (org', _) \<Rightarrow> org' | None \<Rightarrow> org)) oidc_org org_wit0
      = ((res, Some e), org', s') \<and> IsReadyTrue (o_conditions org')"
proof -
  let ?run = "ensureCreated (oe_now org_wit_env) (organization_reconciler org_wit_env)
      (Some (\<lambda>org s. case organization_setStatus org_wit_env org s of Some (org', _) \<Rightarrow> org' | None \<Rightarrow> org)) oidc_org org_wit0"
  have "(case ?run of ((_, err), _, _) \<Rightarrow> err \<noteq> None)" by code_simp
  then obtain res e org' s' where run: "?run = ((res, Some e), org', s')" by (auto split: prod.splits)
  have "GetSCIMConfig oidc_org = None" by (simp add: GetSCIMConfig_def oidc_org_def)
  from ready_although_failed [OF run this] run show ?thesis by (auto simp: org_wit_env_def)
qed

theorem oauth2_proxy_converges_witness:
  "\<exists>s2 :: org_wit. proxy_ready oidc_org (\<lambda>s. stored_in (ow_secrets s)) dd_clients s2"
proof -
  have "(case reconcileOAuth2ProxySecret org_wit_env oidc_org org_wit0 of (e1, s1) \<Rightarrow>
      e1 = None \<and> fst (reconcileOAuth2ProxySecret org_wit_env oidc_org s1) = None)" by code_simp
  then obtain s1 where 1: "reconcileOAuth2ProxySecret org_wit_env oidc_org org_wit0 = (None, s1)"
    and "fst (reconcileOAuth2ProxySecret org_wit_env oidc_org s1) = None" by (auto split: prod.splits)
  then obtain s2 where "reconcileOAuth2ProxySecret org_wit_env oidc_org s1 = (None, s2)" by (metis prod.collapse)
  from oauth2_proxy_converges [OF org_wit_separate 1 this] show ?thesis by blast
qed

definition org_wit1 :: org_wit where
  "org_wit1 = org_wit0\<lparr>dd_clients := (\<lambda>i. if i = oauth_client_name oidc_org then Some (new_proxy_client oidc_org) else None)\<rparr>"

theorem proxy_client_survives_witness:
  "dd_clients (snd (snd (organization_EnsureDeleted org_wit_env oidc_org org_wit1))) (oauth_client_name oidc_org)
     = Some (new_proxy_client oidc_org)"
proof -
  obtain out org' s' where run: "organization_EnsureDeleted org_wit_env oidc_org org_wit1 = (out, org', s')"
    by (cases "organization_EnsureDeleted org_wit_env oidc_org org_wit1")
  have laws: "dex_laws (dxe_storage (oe_dex org_wit_env)) dd_clients dd_connectors"
    by (simp add: org_wit_env_def demo_dex_simps demo_storage_laws)
  have "dd_clients s' (oauth_client_name oidc_org) = dd_clients org_wit1 (oauth_client_name oidc_org)"
    by (rule proxy_client_survives [OF run laws])
      (simp_all add: default_named_def org_wit1_def org_wit_env_def oauth_client_name_other(2) [symmetric])
  with run show ?thesis by (simp add: org_wit1_def)
qed

end
