(* ===== verification/PluginDefinition_Controller.thy ===== *)
theory PluginDefinition_Controller
  imports Plugin_Controller Sha256
begin

text \<open>
  The controllers of PluginDefinitions and ClusterPluginDefinitions (\<open>internal/controller/plugindefinition\<close>). Both write a
  Flux HelmRepository and a HelmChart for the chart of a definition, replicate the chart to a mirror, delete the charts
  of earlier versions and derive the status; they differ in the namespace. The API server, \<open>CreateOrUpdate\<close>, the
  owner references and the registry are parameters. Events and logging are left out.
\<close>

section \<open>The environment\<close>

definition HelmChartReadyCondition :: condition_type where "HelmChartReadyCondition = ''HelmChartReady''"
definition PluginDefinitionProgressingReason :: condition_reason where "PluginDefinitionProgressingReason = ''ReconcileProgressing''"
definition OCIReplicationReadyCondition :: condition_type where "OCIReplicationReadyCondition = ''OCIReplicationReady''"
definition OCIReplicationFailedReason :: condition_reason where "OCIReplicationFailedReason = ''OCIReplicationFailed''"
definition OCIReplicationSucceededReason :: condition_reason where "OCIReplicationSucceededReason = ''OCIReplicationSucceeded''"
definition OCIReplicationNotConfiguredReason :: condition_reason where
  "OCIReplicationNotConfiguredReason = ''OCIReplicationNotConfigured''"

lemmas plugindef_condition_names = HelmChartReadyCondition_def OCIReplicationReadyCondition_def ReadyCondition_def

record helm_repository = object_meta +
  hrp_type :: string
  hrp_interval :: nat
  hrp_url :: string
  hrp_insecure :: bool

text \<open>Of the controller reference of a chart the UID is kept, which is all that is read of it.\<close>

record helm_chart = object_meta +
  hch_controllerUID :: "string option"
  hch_chart :: string
  hch_interval :: nat
  hch_reconcileStrategy :: string
  hch_sourceRef :: "string \<times> string"
  hch_version :: string
  hch_conditions :: "flux_condition list"

record 's plugindef_env =
  pde_now :: time
  pde_ociMirroringEnabled :: bool
  pde_localRegistry :: "string option"
  pde_parse :: parse_reference
  pde_fetchManifest :: "registry_auth \<Rightarrow> bool \<Rightarrow> string \<Rightarrow> go_error + string"
  pde_unmarshal :: "string \<Rightarrow> go_error + registry_mirror_config"
  pde_get_org :: "'s \<Rightarrow> string \<Rightarrow> go_error + organization"
  pde_get_configMap :: "'s \<Rightarrow> namespaced_name \<Rightarrow> go_error + string smap"
  pde_get_secret :: "'s \<Rightarrow> namespaced_name \<Rightarrow> go_error + secret"
  pde_writeRepository :: "helm_repository \<Rightarrow> (helm_repository \<Rightarrow> go_error + helm_repository) \<Rightarrow> 's \<Rightarrow> go_error option \<times> 's"
  pde_writeChart :: "helm_chart \<Rightarrow> (helm_chart \<Rightarrow> go_error + helm_chart) \<Rightarrow> 's \<Rightarrow> go_error option \<times> 's"
  pde_get_chart :: "namespaced_name \<Rightarrow> 's \<Rightarrow> go_error + helm_chart"
  pde_list_charts :: "string \<Rightarrow> string smap \<Rightarrow> 's \<Rightarrow> go_error + helm_chart list"
  pde_delete_chart :: "helm_chart \<Rightarrow> 's \<Rightarrow> go_error option \<times> 's"
  pde_ownRepository :: "plugin_definition \<Rightarrow> helm_repository \<Rightarrow> go_error + helm_repository"
  pde_controlChart :: "plugin_definition \<Rightarrow> helm_chart \<Rightarrow> go_error + helm_chart"
  pde_uid :: "namespaced_name \<Rightarrow> string"

section \<open>Status\<close>

definition initializeConditions :: "time \<Rightarrow> condition_type list \<Rightarrow> plugin_definition \<Rightarrow> plugin_definition" where
  "initializeConditions now types pd =
     fold (\<lambda>t x. if GetConditionByType (o_conditions pd) t = None
                 then SetCondition now (UnknownCondition now t PluginDefinitionProgressingReason ''reconciliation in progress'') x
                 else x) types pd"

definition setReadyCondition :: "time \<Rightarrow> plugin_definition \<Rightarrow> plugin_definition" where
  "setReadyCondition now pd =
     (let set_ready = (\<lambda>c. SetCondition now c pd) in
      if pds_helmChart (pd_spec pd) = None then set_ready (TrueCondition now ReadyCondition [] ''No HelmChart defined'')
      else case GetConditionByType (o_conditions pd) HelmChartReadyCondition of
             None \<Rightarrow> set_ready (UnknownCondition now ReadyCondition [] ''HelmChart status unknown'')
           | Some chart \<Rightarrow>
               if \<not> IsTrue chart then set_ready (FalseCondition now ReadyCondition (c_reason chart) (c_message chart))
               else (case GetConditionByType (o_conditions pd) OCIReplicationReadyCondition of
                       None \<Rightarrow> set_ready (TrueCondition now ReadyCondition [] ''PluginDefinition is ready'')
                     | Some repl \<Rightarrow>
                         if IsFalse repl then set_ready (FalseCondition now ReadyCondition (c_reason repl) (c_message repl))
                         else set_ready (TrueCondition now ReadyCondition [] ''PluginDefinition is ready'')))"

definition setHelmChartReadyCondition :: "'s plugindef_env \<Rightarrow> namespaced_name \<Rightarrow> plugin_definition \<Rightarrow> 's \<Rightarrow> plugin_definition" where
  "setHelmChartReadyCondition env key pd s =
     (let now = pde_now env; t = HelmChartReadyCondition in
      case pde_get_chart env key s of
        Inl _ \<Rightarrow> SetCondition now (UnknownCondition now t [] ''unable to fetch HelmRepository status'') pd
      | Inr chart \<Rightarrow>
          (case FindStatusCondition (hch_conditions chart) ''Ready'' of
             None \<Rightarrow> SetCondition now (UnknownCondition now t [] ''HelmChart status pending'') pd
           | Some c \<Rightarrow>
               SetCondition now
                 (if fc_status c = ConditionTrue then TrueCondition now t (fc_reason c) (fc_message c)
                  else FalseCondition now t (fc_reason c) (fc_message c)) pd))"

section \<open>Flux resources\<close>

definition day :: nat where "day = 24 * 3600"

definition createUpdateHelmRepository ::
  "'s plugindef_env \<Rightarrow> string \<Rightarrow> plugin_definition \<Rightarrow> helm_chart_reference \<Rightarrow> 's \<Rightarrow> (go_error + string) \<times> 's" where
  "createUpdateHelmRepository env ns pd chart s =
     (let url = hc_repository chart; name = ChartURLToName url in
      case pde_writeRepository env
             \<lparr>o_name = name, o_namespace = ns, o_labels = [], o_annotations = [], o_finalizers = [], o_deletionTimestamp = None,
              o_ownerReferences = [], hrp_type = [], hrp_interval = 0, hrp_url = [], hrp_insecure = False\<rparr>
             (\<lambda>r. pde_ownRepository env pd
                (r\<lparr>hrp_type := GetSourceRepositoryType url, hrp_interval := day, hrp_url := url,
                   hrp_insecure := (CheckIfLocalRegistry (pde_localRegistry env) url \<or> hrp_insecure r)\<rparr>)) s of
        (Some e, s1) \<Rightarrow> (Inl e, s1)
      | (None, s1) \<Rightarrow> (Inr name, s1))"

definition chart_for :: "plugin_definition \<Rightarrow> helm_chart_reference \<Rightarrow> string \<Rightarrow> helm_chart \<Rightarrow> helm_chart" where
  "chart_for pd chart repoName c =
     (let labels = (case smap_get (o_labels pd) LabelKeyOwnedBy of
                      None \<Rightarrow> o_labels c | Some ownedBy \<Rightarrow> smap_set LabelKeyOwnedBy ownedBy (o_labels c))
      in c\<lparr>o_labels := smap_set LabelKeyPluginDefinition (o_name pd) labels, hch_chart := hc_name chart, hch_interval := day,
           hch_reconcileStrategy := ''ChartVersion'', hch_sourceRef := (''HelmRepository'', repoName), hch_version := hc_version chart\<rparr>)"

definition createUpdateHelmChart ::
  "'s plugindef_env \<Rightarrow> string \<Rightarrow> plugin_definition \<Rightarrow> helm_chart_reference \<Rightarrow> string \<Rightarrow> 's \<Rightarrow> (go_error + namespaced_name) \<times> 's" where
  "createUpdateHelmChart env ns pd chart repoName s =
     (let name = FluxHelmChartResourceName pd in
      case pde_writeChart env
             \<lparr>o_name = name, o_namespace = ns, o_labels = [], o_annotations = [], o_finalizers = [], o_deletionTimestamp = None,
              o_ownerReferences = [], hch_controllerUID = None, hch_chart = [], hch_interval = 0, hch_reconcileStrategy = [],
              hch_sourceRef = ([], []), hch_version = [], hch_conditions = []\<rparr>
             (\<lambda>c. pde_controlChart env pd (chart_for pd chart repoName c)) s of
        (Some e, s1) \<Rightarrow> (Inl e, s1)
      | (None, s1) \<Rightarrow> (Inr \<lparr>nn_namespace = ns, nn_name = name\<rparr>, s1))"

text \<open>The loop over the charts that were listed.\<close>

fun delete_orphans ::
  "'s plugindef_env \<Rightarrow> string \<Rightarrow> string \<Rightarrow> helm_chart list \<Rightarrow> 's \<Rightarrow> go_error option \<times> 's" where
  "delete_orphans env uid currentName [] s = (None, s)"
| "delete_orphans env uid currentName (chart # charts) s =
     (if hch_controllerUID chart \<noteq> Some uid \<or> o_name chart = currentName then delete_orphans env uid currentName charts s
      else case pde_delete_chart env chart s of
             (Some e, s1) \<Rightarrow>
               if IsNotFound e then delete_orphans env uid currentName charts s1
               else (Some (WrapError (''failed to delete orphaned HelmChart '' @ o_namespace chart @ ''/'' @ o_name chart) e), s1)
           | (None, s1) \<Rightarrow> delete_orphans env uid currentName charts s1)"

definition deleteOrphanedHelmCharts :: "'s plugindef_env \<Rightarrow> string \<Rightarrow> plugin_definition \<Rightarrow> 's \<Rightarrow> go_error option \<times> 's" where
  "deleteOrphanedHelmCharts env ns pd s =
     (case pde_list_charts env ns [(LabelKeyPluginDefinition, o_name pd)] s of
        Inl e \<Rightarrow> (Some (WrapError (''failed to list HelmCharts in namespace '' @ ns) e), s)
      | Inr charts \<Rightarrow> delete_orphans env (pde_uid env (ObjectKeyFromObject pd)) (FluxHelmChartResourceName pd) charts s)"

section \<open>Replication\<close>

definition chart_ref :: "helm_chart_reference \<Rightarrow> string" where
  "chart_ref chart = TrimPrefix (hc_repository chart) ''oci://'' @ ''/'' @ hc_name chart @ '':'' @ hc_version chart"

definition already_replicated :: "plugin_definition \<Rightarrow> string \<Rightarrow> string \<Rightarrow> string \<Rightarrow> bool" where
  "already_replicated pd registry chartName version \<longleftrightarrow>
     (case pd_lastSyncedArtifact pd of
        None \<Rightarrow> False
      | Some a \<Rightarrow> lsa_registry a = registry \<and> lsa_chartName a = chartName \<and> lsa_version a = version
                   \<and> lsa_replicationStatus a = ReplicationStatusReplicated)"

definition mirror_config :: "'s plugindef_env \<Rightarrow> string \<Rightarrow> 's \<Rightarrow> go_error + registry_mirror_config option" where
  "mirror_config env ns s = GetRegistryMirrorConfig (pde_get_org env s) (pde_get_configMap env s) (pde_unmarshal env) ns"

definition ensureChartReplication ::
  "'s plugindef_env \<Rightarrow> string \<Rightarrow> plugin_definition \<Rightarrow> helm_chart_reference \<Rightarrow> 's \<Rightarrow> go_error option \<times> plugin_definition" where
  "ensureChartReplication env ns pd chart s =
     (let now = pde_now env;
          skipped = (\<lambda>msg. (None, SetCondition now (TrueCondition now OCIReplicationReadyCondition OCIReplicationNotConfiguredReason msg) pd));
          failed = (\<lambda>e msg. (Some e, SetCondition now (FalseCondition now OCIReplicationReadyCondition OCIReplicationFailedReason
                       (msg @ '': '' @ error_text e)) pd))
      in if \<not> pde_ociMirroringEnabled env then skipped ''OCI mirroring is disabled''
         else if \<not> HasPrefix (hc_repository chart) ''oci://'' then skipped ''Chart replication only applies to OCI repositories''
         else case mirror_config env ns s of
                Inl e \<Rightarrow> failed e ''failed to get registry mirror config''
              | Inr None \<Rightarrow> skipped ''OCI replication is not configured''
              | Inr (Some cfg) \<Rightarrow>
                  if length (rmc_registryMirrors cfg) = 0 then skipped ''OCI replication is not configured''
                  else (case SplitOCIRef (pde_parse env) (chart_ref chart) of
                          (registry, chartName, _) \<Rightarrow>
                            if already_replicated pd registry chartName (hc_version chart) then (None, pd)
                            else (case NewImageMirror (pde_fetchManifest env) (pde_localRegistry env) (pde_get_secret env s) cfg ns of
                                    Inl e \<Rightarrow> failed e ''failed to create image mirror''
                                  | Inr mirror \<Rightarrow>
                                      (case EnsureChartReplicated (pde_parse env) mirror (chart_ref chart) of
                                         (_, _, Some e) \<Rightarrow> failed e ''chart replication failed''
                                       | (replicatedRef, manifest, None) \<Rightarrow>
                                           if replicatedRef = [] then skipped ''No mirror configured for chart registry''
                                           else (None,
                                             SetCondition now (TrueCondition now OCIReplicationReadyCondition OCIReplicationSucceededReason
                                                 (''Chart replicated successfully: '' @ chart_ref chart))
                                               (pd\<lparr>pd_lastSyncedArtifact := Some
                                                  \<lparr>lsa_registry = registry, lsa_chartName = chartName, lsa_version = hc_version chart,
                                                   lsa_digest = ''sha256:'' @ EncodeToString (Sum256 (case manifest of Some m \<Rightarrow> m | None \<Rightarrow> [])),
                                                   lsa_replicationStatus = ReplicationStatusReplicated\<rparr>\<rparr>))))))"

section \<open>Reconciliation\<close>

definition plugindef_EnsureCreated ::
  "'s plugindef_env \<Rightarrow> string \<Rightarrow> plugin_definition \<Rightarrow> 's
     \<Rightarrow> (ctrl_result \<times> reconcile_result \<times> go_error option) \<times> plugin_definition \<times> 's" where
  "plugindef_EnsureCreated env ns pd0 s =
     (let now = pde_now env;
          pd = initializeConditions now [ReadyCondition, HelmChartReadyCondition, OCIReplicationReadyCondition] pd0
      in case pds_helmChart (pd_spec pd) of
           None \<Rightarrow>
             ((EmptyResult, Success, None),
              SetCondition now (TrueCondition now OCIReplicationReadyCondition OCIReplicationNotConfiguredReason ''No HelmChart defined'') pd, s)
         | Some chart \<Rightarrow>
             (case createUpdateHelmRepository env ns pd chart s of
                (Inl e, s1) \<Rightarrow> ((EmptyResult, Failed, Some e), pd, s1)
              | (Inr repoName, s1) \<Rightarrow>
                  (case ensureChartReplication env ns pd chart s1 of
                     (Some e, pd1) \<Rightarrow> ((EmptyResult, Failed, Some e), pd1, s1)
                   | (None, pd1) \<Rightarrow>
                       (case createUpdateHelmChart env ns pd1 chart repoName s1 of
                          (Inl e, s2) \<Rightarrow> ((EmptyResult, Failed, Some e), pd1, s2)
                        | (Inr key, s2) \<Rightarrow>
                            (case deleteOrphanedHelmCharts env ns pd1 s2 of
                               (Some e, s3) \<Rightarrow> ((EmptyResult, Failed, Some e), pd1, s3)
                             | (None, s3) \<Rightarrow> ((EmptyResult, Success, None), setHelmChartReadyCondition env key pd1 s3, s3))))))"

text \<open>The two controllers.\<close>

definition PluginDefinition_EnsureCreated ::
  "'s plugindef_env \<Rightarrow> plugin_definition \<Rightarrow> 's \<Rightarrow> (ctrl_result \<times> reconcile_result \<times> go_error option) \<times> plugin_definition \<times> 's" where
  "PluginDefinition_EnsureCreated env pd s = plugindef_EnsureCreated env (o_namespace pd) pd s"

definition ClusterPluginDefinition_EnsureCreated ::
  "'s plugindef_env \<Rightarrow> plugin_definition \<Rightarrow> 's \<Rightarrow> (ctrl_result \<times> reconcile_result \<times> go_error option) \<times> plugin_definition \<times> 's" where
  "ClusterPluginDefinition_EnsureCreated env pd s = plugindef_EnsureCreated env HelmRepositoryDefaultNamespace pd s"

definition plugindef_reconciler ::
  "(plugin_definition \<Rightarrow> 's \<Rightarrow> (ctrl_result \<times> reconcile_result \<times> go_error option) \<times> plugin_definition \<times> 's) \<Rightarrow> (plugin_definition, 's) reconciler" where
  "plugindef_reconciler create =
     \<lparr>EnsureCreated = create, EnsureDeleted = (\<lambda>pd s. ((EmptyResult, Success, None), pd, s)),
      EnsureSuspended = (\<lambda>pd s. ((EmptyResult, None), pd, s)), CanBeSuspended = False, UpdateLastReconciledAtStatus = None\<rparr>"

definition PluginDefinition_Reconcile ::
  "'s plugindef_env \<Rightarrow> (plugin_definition, 's) client \<Rightarrow> namespaced_name \<Rightarrow> 's \<Rightarrow> (ctrl_result \<times> go_error option) \<times> 's" where
  "PluginDefinition_Reconcile env c key s =
     Reconcile (pde_now env) c (plugindef_reconciler (PluginDefinition_EnsureCreated env)) (Some (\<lambda>pd _. setReadyCondition (pde_now env) pd)) key s"

definition ClusterPluginDefinition_Reconcile ::
  "'s plugindef_env \<Rightarrow> (plugin_definition, 's) client \<Rightarrow> namespaced_name \<Rightarrow> 's \<Rightarrow> (ctrl_result \<times> go_error option) \<times> 's" where
  "ClusterPluginDefinition_Reconcile env c key s =
     Reconcile (pde_now env) c (plugindef_reconciler (ClusterPluginDefinition_EnsureCreated env)) (Some (\<lambda>pd _. setReadyCondition (pde_now env) pd)) key s"

section \<open>Charts of earlier versions\<close>

text \<open>What is relied on of the API server for charts; a deleted chart is gone, or marked while finalizers are left.\<close>

definition chart_gone :: "helm_chart option \<Rightarrow> bool" where
  "chart_gone c \<longleftrightarrow> (case c of None \<Rightarrow> True | Some q \<Rightarrow> o_deletionTimestamp q \<noteq> None)"

definition chart_laws :: "'s plugindef_env \<Rightarrow> ('s \<Rightarrow> namespaced_name \<Rightarrow> helm_chart option) \<Rightarrow> bool" where
  "chart_laws env charts \<longleftrightarrow>
     (\<forall>k s c. charts s k = Some c \<longrightarrow> ObjectKeyFromObject c = k) \<and>
     (\<forall>ns ls s cs. pde_list_charts env ns ls s = Inr cs \<longrightarrow>
        set cs = {c. charts s (ObjectKeyFromObject c) = Some c \<and> o_namespace c = ns \<and> (\<forall>(k, v) \<in> set ls. smap_get (o_labels c) k = Some v)}) \<and>
     (\<forall>c s r s'. pde_delete_chart env c s = (r, s') \<longrightarrow>
        (\<forall>k. k \<noteq> ObjectKeyFromObject c \<longrightarrow> charts s' k = charts s k) \<and>
        (IgnoreNotFound r = None \<longrightarrow> chart_gone (charts s' (ObjectKeyFromObject c))))"

lemma delete_orphans_effect:
  assumes laws: "chart_laws env charts"
  shows "delete_orphans env uid cur cs s = (None, s') \<Longrightarrow>
    (if \<exists>c \<in> set cs. ObjectKeyFromObject c = k \<and> hch_controllerUID c = Some uid \<and> o_name c \<noteq> cur
     then chart_gone (charts s' k) \<or> charts s' k = charts s k \<and> chart_gone (charts s k) else charts s' k = charts s k)"
proof (induction cs arbitrary: s)
  case (Cons c cs)
  show ?case
  proof (cases "hch_controllerUID c \<noteq> Some uid \<or> o_name c = cur")
    case True
    with Cons.prems have "delete_orphans env uid cur cs s = (None, s')" by simp
    from Cons.IH [OF this] True show ?thesis by auto
  next
    case False
    obtain r s1 where del: "pde_delete_chart env c s = (r, s1)" by fastforce
    with Cons.prems False have rest: "delete_orphans env uid cur cs s1 = (None, s')" and ok: "IgnoreNotFound r = None"
      by (auto simp: IgnoreNotFound_def split: option.splits if_splits)
    from laws [unfolded chart_laws_def, THEN conjunct2, THEN conjunct2, rule_format, OF del] ok
    have "k \<noteq> ObjectKeyFromObject c \<Longrightarrow> charts s1 k = charts s k" "chart_gone (charts s1 (ObjectKeyFromObject c))"
      by blast+
    with Cons.IH [OF rest] False show ?thesis by (cases "k = ObjectKeyFromObject c") (auto split: if_splits)
  qed
qed simp

text \<open>A chart of an earlier version of the definition.\<close>

definition orphaned_chart :: "'s plugindef_env \<Rightarrow> string \<Rightarrow> plugin_definition \<Rightarrow> helm_chart \<Rightarrow> bool" where
  "orphaned_chart env ns pd c \<longleftrightarrow>
     o_namespace c = ns \<and> smap_get (o_labels c) LabelKeyPluginDefinition = Some (o_name pd) \<and>
     hch_controllerUID c = Some (pde_uid env (ObjectKeyFromObject pd)) \<and> o_name c \<noteq> FluxHelmChartResourceName pd"

text \<open>
  C13. When the cleanup returns without an error, the charts of earlier versions of the definition are gone or marked for
  deletion, and every other chart, of the current version or of anyone else, is as before.
\<close>

theorem orphaned_charts_deleted:
  assumes laws: "chart_laws env charts" and run: "deleteOrphanedHelmCharts env ns pd s = (None, s')"
  shows "if \<exists>c. charts s k = Some c \<and> orphaned_chart env ns pd c then chart_gone (charts s' k) else charts s' k = charts s k"
proof -
  from run obtain cs where cs: "pde_list_charts env ns [(LabelKeyPluginDefinition, o_name pd)] s = Inr cs"
    and del: "delete_orphans env (pde_uid env (ObjectKeyFromObject pd)) (FluxHelmChartResourceName pd) cs s = (None, s')"
    by (auto simp: deleteOrphanedHelmCharts_def split: sum.splits)
  from laws [unfolded chart_laws_def, THEN conjunct2, THEN conjunct1, rule_format, OF cs]
  have "set cs = {c. charts s (ObjectKeyFromObject c) = Some c \<and> o_namespace c = ns
      \<and> smap_get (o_labels c) LabelKeyPluginDefinition = Some (o_name pd)}"
    by simp
  moreover have "charts s k = Some c \<Longrightarrow> ObjectKeyFromObject c = k" for c
    using laws [unfolded chart_laws_def, THEN conjunct1] by blast
  ultimately have "(\<exists>c \<in> set cs. ObjectKeyFromObject c = k \<and> hch_controllerUID c = Some (pde_uid env (ObjectKeyFromObject pd))
      \<and> o_name c \<noteq> FluxHelmChartResourceName pd) \<longleftrightarrow> (\<exists>c. charts s k = Some c \<and> orphaned_chart env ns pd c)"
    by (auto simp: orphaned_chart_def)
  with delete_orphans_effect [OF laws del, of k] show ?thesis by (auto split: if_splits)
qed

section \<open>Status after a run\<close>

lemma plugindef_SetCondition [simp]:
  "pd_spec (SetCondition now c pd) = pd_spec pd" "pd_lastSyncedArtifact (SetCondition now c pd) = pd_lastSyncedArtifact pd"
  by (simp_all add: SetCondition_def)

lemma FluxHelmChartResourceName_SetCondition [simp]: "FluxHelmChartResourceName (SetCondition now c pd) = FluxHelmChartResourceName pd"
  by (simp add: FluxHelmChartResourceName_def split: option.split)

lemma fold_keeps: "(\<And>t x. F (f t x) = F x) \<Longrightarrow> F (fold f ts x) = F x"
  by (induction ts arbitrary: x) auto

lemma initializeConditions_fields [simp]:
  "pd_spec (initializeConditions now ts pd) = pd_spec pd" "o_name (initializeConditions now ts pd) = o_name pd"
  "pd_lastSyncedArtifact (initializeConditions now ts pd) = pd_lastSyncedArtifact pd"
  unfolding initializeConditions_def by (rule fold_keeps; simp)+

lemma setReadyCondition_iff:
  "IsReadyTrue (o_conditions (setReadyCondition now pd)) \<longleftrightarrow>
     pds_helmChart (pd_spec pd) = None \<or>
     shown_status (o_conditions pd) HelmChartReadyCondition = Some ConditionTrue \<and>
     shown_status (o_conditions pd) OCIReplicationReadyCondition \<noteq> Some ConditionFalse"
  unfolding setReadyCondition_def Let_def IsReadyTrue_shown
  using shown_status_def [of "o_conditions pd" HelmChartReadyCondition] shown_status_def [of "o_conditions pd" OCIReplicationReadyCondition]
  by (auto simp: cond_simps TrueCondition_def FalseCondition_def UnknownCondition_def NewCondition_def IsTrue_def IsFalse_def
      split: option.splits)

lemma ensureChartReplication_fields:
  assumes "ensureChartReplication env ns pd chart s = (r, pd')"
  shows "pd_spec pd' = pd_spec pd" "o_name pd' = o_name pd"
  using assms by (auto simp: ensureChartReplication_def Let_def split: if_splits sum.splits option.splits prod.splits)

lemma setHelmChartReadyCondition_shown:
  "shown_status (o_conditions (setHelmChartReadyCondition env key pd s)) HelmChartReadyCondition = Some ConditionTrue \<longleftrightarrow>
     (\<exists>chart c. pde_get_chart env key s = Inr chart \<and> FindStatusCondition (hch_conditions chart) ''Ready'' = Some c \<and> fc_status c = ConditionTrue)"
  "shown_status (o_conditions (setHelmChartReadyCondition env key pd s)) OCIReplicationReadyCondition
     = shown_status (o_conditions pd) OCIReplicationReadyCondition"
  "pd_spec (setHelmChartReadyCondition env key pd s) = pd_spec pd"
  by (auto simp: setHelmChartReadyCondition_def Let_def cond_simps TrueCondition_def FalseCondition_def UnknownCondition_def NewCondition_def
      plugindef_condition_names split: sum.splits option.splits)

text \<open>
  After a run without an error a definition is ready exactly when it has no chart, or Flux reports the chart of its
  current version as ready and the replication is not shown as failed.
\<close>

theorem plugindef_ready_iff:
  assumes run: "plugindef_EnsureCreated env ns pd s = ((res, rr, None), pd', s')"
  shows "IsReadyTrue (o_conditions (setReadyCondition (pde_now env) pd')) \<longleftrightarrow>
     pds_helmChart (pd_spec pd) = None \<or>
     (\<exists>chart c. pde_get_chart env \<lparr>nn_namespace = ns, nn_name = FluxHelmChartResourceName pd\<rparr> s' = Inr chart \<and>
        FindStatusCondition (hch_conditions chart) ''Ready'' = Some c \<and> fc_status c = ConditionTrue \<and>
        shown_status (o_conditions pd') OCIReplicationReadyCondition \<noteq> Some ConditionFalse)"
proof (cases "pds_helmChart (pd_spec pd)")
  case None
  with run show ?thesis by (auto simp: plugindef_EnsureCreated_def Let_def setReadyCondition_iff)
next
  case (Some chart)
  let ?pd = "initializeConditions (pde_now env) [ReadyCondition, HelmChartReadyCondition, OCIReplicationReadyCondition] pd"
  from run Some obtain repo s1 pd1 key s2 where repl: "ensureChartReplication env ns ?pd chart s1 = (None, pd1)"
    and chart: "createUpdateHelmChart env ns pd1 chart repo s1 = (Inr key, s2)"
    and pd': "pd' = setHelmChartReadyCondition env key pd1 s'"
    by (auto simp: plugindef_EnsureCreated_def Let_def split: sum.splits prod.splits option.splits)
  from ensureChartReplication_fields [OF repl] have pd1: "pd_spec pd1 = pd_spec pd" "o_name pd1 = o_name pd" by simp_all
  then have "key = \<lparr>nn_namespace = ns, nn_name = FluxHelmChartResourceName pd\<rparr>"
    using chart by (auto simp: createUpdateHelmChart_def Let_def FluxHelmChartResourceName_def split: prod.splits option.splits)
  with pd1 Some show ?thesis
    by (auto simp: setReadyCondition_iff pd' setHelmChartReadyCondition_shown)
qed

text \<open>
  A failure of the replication sticks: once the chart of a version was replicated, a later failure to read the
  mirror configuration is never taken back while the version stays the same, and the definition is not ready again.
\<close>

theorem replication_failure_sticks:
  assumes "pde_ociMirroringEnabled env" and "pds_helmChart (pd_spec pd) = Some chart" and "HasPrefix (hc_repository chart) ''oci://''"
    and "mirror_config env ns s = Inr (Some cfg)" and "rmc_registryMirrors cfg \<noteq> []"
    and "already_replicated pd (fst (SplitOCIRef (pde_parse env) (chart_ref chart)))
           (fst (snd (SplitOCIRef (pde_parse env) (chart_ref chart)))) (hc_version chart)"
    and "shown_status (o_conditions pd) OCIReplicationReadyCondition = Some ConditionFalse"
  shows "ensureChartReplication env ns pd chart s = (None, pd) \<and>
    \<not> IsReadyTrue (o_conditions (setReadyCondition now (setHelmChartReadyCondition env key pd s')))"
  using assms
  by (auto simp: ensureChartReplication_def Let_def setReadyCondition_iff setHelmChartReadyCondition_shown split: prod.splits)

section \<open>Witnesses\<close>

definition pdw_chart :: "string \<Rightarrow> string \<Rightarrow> helm_chart" where
  "pdw_chart name uid = \<lparr>o_name = name, o_namespace = ''org'', o_labels = [(LabelKeyPluginDefinition, ''perses'')], o_annotations = [],
     o_finalizers = [], o_deletionTimestamp = None, o_ownerReferences = [], hch_controllerUID = Some uid, hch_chart = ''perses'',
     hch_interval = day, hch_reconcileStrategy = ''ChartVersion'', hch_sourceRef = (''HelmRepository'', ''r''), hch_version = ''1'',
     hch_conditions = [\<lparr>fc_type = ''Ready'', fc_status = ConditionTrue, fc_observedGeneration = 1, fc_reason = ''ok'', fc_message = []\<rparr>]\<rparr>"

definition pdw_mirrors :: registry_mirror_config where
  "pdw_mirrors = \<lparr>rmc_primaryMirror = ''mirror.io'', rmc_registryMirrors = [(''ghcr.io'', \<lparr>rm_baseDomain = ''ghcr.io'', rm_subPath = ''gh''\<rparr>)],
     rmc_secretName = []\<rparr>"

definition pdw_org :: organization where
  "pdw_org = \<lparr>o_name = ''org'', o_namespace = [], o_labels = [], o_annotations = [], o_finalizers = [], o_deletionTimestamp = None,
     o_ownerReferences = [], o_conditions = [], org_displayName = [], org_authentication = None, org_description = [],
     org_mappedOrgAdminIDPGroup = [], org_configMapRef = ''cm''\<rparr>"

definition pdw_env :: "helm_chart list plugindef_env" where
  "pdw_env =
     \<lparr>pde_now = 5, pde_ociMirroringEnabled = True, pde_localRegistry = None, pde_parse = (\<lambda>_. None),
      pde_fetchManifest = (\<lambda>_ _ _. Inr ''{}''), pde_unmarshal = (\<lambda>_. Inr pdw_mirrors), pde_get_org = (\<lambda>_ _. Inr pdw_org),
      pde_get_configMap = (\<lambda>_ _. Inr [(registryMirrorConfigKey, ''x'')]),
      pde_get_secret = (\<lambda>_ _. Inl (ApiError ReasonNotFound ''not found'' [])),
      pde_writeRepository = (\<lambda>_ _ s. (None, s)),
      pde_writeChart = (\<lambda>c f s. case f (case find (\<lambda>x. ObjectKeyFromObject x = ObjectKeyFromObject c) s of None \<Rightarrow> c | Some x \<Rightarrow> x) of
         Inl e \<Rightarrow> (Some e, s) | Inr y \<Rightarrow> (None, y # filter (\<lambda>x. ObjectKeyFromObject x \<noteq> ObjectKeyFromObject y) s)),
      pde_get_chart = (\<lambda>k s. case find (\<lambda>x. ObjectKeyFromObject x = k) s of
         None \<Rightarrow> Inl (ApiError ReasonNotFound ''not found'' []) | Some x \<Rightarrow> Inr x),
      pde_list_charts = (\<lambda>ns ls s. Inr (filter (\<lambda>c. find (\<lambda>x. ObjectKeyFromObject x = ObjectKeyFromObject c) s = Some c
         \<and> o_namespace c = ns \<and> list_all (\<lambda>(k, v). smap_get (o_labels c) k = Some v) ls) s)),
      pde_delete_chart = (\<lambda>c s. (None, filter (\<lambda>x. ObjectKeyFromObject x \<noteq> ObjectKeyFromObject c) s)),
      pde_ownRepository = (\<lambda>_ r. Inr r), pde_controlChart = (\<lambda>_ c. Inr (c\<lparr>hch_controllerUID := Some ''u1''\<rparr>)), pde_uid = (\<lambda>_. ''u1'')\<rparr>"

definition pdw_def :: plugin_definition where
  "pdw_def = \<lparr>o_name = ''perses'', o_namespace = ''org'', o_labels = [], o_annotations = [], o_finalizers = [], o_deletionTimestamp = None,
     o_ownerReferences = [], o_conditions = [],
     pd_spec = \<lparr>pds_displayName = [], pds_description = [],
       pds_helmChart = Some \<lparr>hc_name = ''perses'', hc_repository = ''oci://ghcr.io/charts'', hc_version = ''2''\<rparr>,
       pds_uiApplication = None, pds_options = None, pds_version = ''2'', pds_weight = None, pds_icon = [], pds_docsURL = [], pds_docMarkDownUrl = []\<rparr>,
     pd_lastSyncedArtifact = None\<rparr>"

lemma pdw_laws: "chart_laws pdw_env (\<lambda>s k. find (\<lambda>x. ObjectKeyFromObject x = k) s)"
  unfolding chart_laws_def
proof (intro conjI allI impI)
  have other: "k \<noteq> j \<Longrightarrow> find (\<lambda>y. ObjectKeyFromObject y = k) (filter (\<lambda>y. ObjectKeyFromObject y \<noteq> j) xs)
     = find (\<lambda>y. ObjectKeyFromObject y = k) xs" for k j and xs :: "helm_chart list"
    by (induction xs) auto
  have gone: "find (\<lambda>y. ObjectKeyFromObject y = j) (filter (\<lambda>y. ObjectKeyFromObject y \<noteq> j) xs) = None" for j and xs :: "helm_chart list"
    by (induction xs) auto
  have found: "find (\<lambda>x. ObjectKeyFromObject x = k) xs = Some c \<Longrightarrow> ObjectKeyFromObject c = k \<and> c \<in> set xs"
    for k c and xs :: "helm_chart list"
    by (auto simp: find_Some_iff)
  show "ObjectKeyFromObject c = k" if "find (\<lambda>x. ObjectKeyFromObject x = k) s = Some c" for k c and s :: "helm_chart list"
    using found [OF that] by simp
  show "set cs = {c. find (\<lambda>x. ObjectKeyFromObject x = ObjectKeyFromObject c) s = Some c \<and> o_namespace c = ns \<and>
      (\<forall>(k, v) \<in> set ls. smap_get (o_labels c) k = Some v)}" if "pde_list_charts pdw_env ns ls s = Inr cs" for ns ls s cs
  proof (rule set_eqI)
    fix c
    from that have "cs = filter (\<lambda>c. find (\<lambda>x. ObjectKeyFromObject x = ObjectKeyFromObject c) s = Some c
         \<and> o_namespace c = ns \<and> list_all (\<lambda>(k, v). smap_get (o_labels c) k = Some v) ls) s" by (simp add: pdw_env_def)
    then show "c \<in> set cs \<longleftrightarrow> c \<in> {c. find (\<lambda>x. ObjectKeyFromObject x = ObjectKeyFromObject c) s = Some c \<and> o_namespace c = ns \<and>
      (\<forall>(k, v) \<in> set ls. smap_get (o_labels c) k = Some v)}"
      using found [of "ObjectKeyFromObject c" s c] by (auto simp: list_all_iff)
  qed
  show "find (\<lambda>x. ObjectKeyFromObject x = k) s' = find (\<lambda>x. ObjectKeyFromObject x = k) s"
    if "pde_delete_chart pdw_env c s = (r, s')" "k \<noteq> ObjectKeyFromObject c" for c s r s' k
    using that by (auto simp: pdw_env_def other)
  show "chart_gone (find (\<lambda>x. ObjectKeyFromObject x = ObjectKeyFromObject c) s')" if "pde_delete_chart pdw_env c s = (r, s')" for c s r s'
    using that by (auto simp: pdw_env_def gone chart_gone_def)
qed

theorem orphaned_charts_deleted_witness:
  "find (\<lambda>x. ObjectKeyFromObject x = \<lparr>nn_namespace = ''org'', nn_name = ''perses-2''\<rparr>)
     (snd (deleteOrphanedHelmCharts pdw_env ''org'' pdw_def [pdw_chart ''perses-1'' ''u1'', pdw_chart ''perses-2'' ''u1'']))
   = Some (pdw_chart ''perses-2'' ''u1'')"
proof -
  let ?s = "[pdw_chart ''perses-1'' ''u1'', pdw_chart ''perses-2'' ''u1'']" and ?k = "\<lparr>nn_namespace = ''org'', nn_name = ''perses-2''\<rparr>"
  have "fst (deleteOrphanedHelmCharts pdw_env ''org'' pdw_def ?s) = None"
    by (simp add: deleteOrphanedHelmCharts_def pdw_env_def pdw_chart_def pdw_def_def)
  then obtain s' where run: "deleteOrphanedHelmCharts pdw_env ''org'' pdw_def ?s = (None, s')" by (metis prod.collapse)
  have k: "find (\<lambda>x. ObjectKeyFromObject x = ?k) ?s = Some (pdw_chart ''perses-2'' ''u1'')"
    by (simp add: pdw_chart_def ObjectKeyFromObject_def)
  have "\<not> orphaned_chart pdw_env ''org'' pdw_def (pdw_chart ''perses-2'' ''u1'')"
    by (simp add: orphaned_chart_def FluxHelmChartResourceName_def pdw_chart_def pdw_def_def)
  with orphaned_charts_deleted [OF pdw_laws run, of ?k] k run show ?thesis by (auto split: if_splits)
qed

theorem plugindef_ready_iff_witness:
  "\<exists>pd' s'. plugindef_EnsureCreated (pdw_env\<lparr>pde_ociMirroringEnabled := False\<rparr>) ''org'' pdw_def [pdw_chart ''perses-2'' ''u1'']
      = ((EmptyResult, Success, None), pd', s') \<and> IsReadyTrue (o_conditions (setReadyCondition 5 pd'))"
proof -
  let ?env = "pdw_env\<lparr>pde_ociMirroringEnabled := False\<rparr>" and ?s = "[pdw_chart ''perses-2'' ''u1'']"
  obtain pd' s' where run: "plugindef_EnsureCreated ?env ''org'' pdw_def ?s = ((EmptyResult, Success, None), pd', s')"
    and s': "\<exists>c. pde_get_chart ?env \<lparr>nn_namespace = ''org'', nn_name = ''perses-2''\<rparr> s' = Inr c \<and> hch_conditions c = hch_conditions (pdw_chart [] [])"
    and oci: "shown_status (o_conditions pd') OCIReplicationReadyCondition = Some ConditionTrue"
    by (simp add: plugindef_EnsureCreated_def createUpdateHelmRepository_def ensureChartReplication_def createUpdateHelmChart_def
        deleteOrphanedHelmCharts_def Let_def pdw_env_def pdw_def_def pdw_chart_def FluxHelmChartResourceName_def ObjectKeyFromObject_def
        chart_for_def setHelmChartReadyCondition_shown cond_simps TrueCondition_def NewCondition_def)
  have key: "FluxHelmChartResourceName pdw_def = ''perses-2''" by (simp add: FluxHelmChartResourceName_def pdw_def_def)
  from plugindef_ready_iff [OF run] s' oci have "IsReadyTrue (o_conditions (setReadyCondition (pde_now ?env) pd'))"
    by (auto simp: key pdw_chart_def FindStatusCondition_def)
  with run show ?thesis by (auto simp: pdw_env_def)
qed

text \<open>The definition after a replication, and after a run in which the organization could not be read.\<close>

definition pdw_replicated :: plugin_definition where
  "pdw_replicated = pdw_def\<lparr>pd_lastSyncedArtifact := Some
     \<lparr>lsa_registry = ''docker.io'', lsa_chartName = ''ghcr.io/charts/perses:2'', lsa_version = ''2'', lsa_digest = ''sha256:0'',
      lsa_replicationStatus = ReplicationStatusReplicated\<rparr>\<rparr>"

definition pdw_failed :: plugin_definition where
  "pdw_failed = snd (ensureChartReplication (pdw_env\<lparr>pde_get_org := (\<lambda>_ _. Inl (PlainError ''timeout''))\<rparr>) ''org'' pdw_replicated
     (the (pds_helmChart (pd_spec pdw_def))) [])"

theorem replication_failure_sticks_witness:
  "ensureChartReplication pdw_env ''org'' pdw_failed (the (pds_helmChart (pd_spec pdw_def))) [] = (None, pdw_failed)"
proof -
  let ?chart = "the (pds_helmChart (pd_spec pdw_def))"
  have oci: "HasPrefix (hc_repository ?chart) ''oci://''" by code_simp
  have failed: "pdw_failed = SetCondition 5 (FalseCondition 5 OCIReplicationReadyCondition OCIReplicationFailedReason
      (''failed to get registry mirror config: '' @ error_text (WrapError ''failed to get organization org'' (PlainError ''timeout'')))) pdw_replicated"
    using oci by (simp add: pdw_failed_def ensureChartReplication_def Let_def mirror_config_def GetRegistryMirrorConfig_def pdw_env_def)
  have "pds_helmChart (pd_spec pdw_failed) = Some ?chart" by (simp add: failed pdw_replicated_def pdw_def_def)
  moreover have "already_replicated pdw_failed (fst (SplitOCIRef (pde_parse pdw_env) (chart_ref ?chart)))
      (fst (snd (SplitOCIRef (pde_parse pdw_env) (chart_ref ?chart)))) (hc_version ?chart)"
    by (simp add: failed already_replicated_def pdw_replicated_def pdw_def_def SplitOCIRef_def pdw_env_def chart_ref_def TrimPrefix_def)
  moreover have "shown_status (o_conditions pdw_failed) OCIReplicationReadyCondition = Some ConditionFalse"
    by (simp add: failed cond_simps FalseCondition_def NewCondition_def)
  moreover have "mirror_config pdw_env ''org'' [] = Inr (Some pdw_mirrors)" by code_simp
  ultimately show ?thesis
    using oci by (intro replication_failure_sticks [where cfg = pdw_mirrors, THEN conjunct1]) (simp_all add: pdw_env_def pdw_mirrors_def)
qed

end
