(* ===== verification/Watch_Predicates.thy ===== *)
theory Watch_Predicates
  imports Organization_Controller Cluster_Status
begin

text \<open>
  The filters of watch events (\<open>internal/clientutil/predicates.go\<close>). A predicate of controller-runtime has a function for
  each kind of event; a missing one lets the event pass, and \<open>NewPredicateFuncs\<close> applies a filter to the (new) object.
\<close>

section \<open>Predicates\<close>

datatype watched =
  WCluster cluster | WPlugin plugin | WOrganization organization | WSecret secret | WOther object_meta

primrec meta_of :: "watched \<Rightarrow> object_meta" where
  "meta_of (WCluster c) = object_meta.truncate c"
| "meta_of (WPlugin p) = object_meta.truncate p"
| "meta_of (WOrganization org) = object_meta.truncate org"
| "meta_of (WSecret x) = object_meta.truncate x"
| "meta_of (WOther m) = m"

text \<open>The object of an event may be nil; \<open>None\<close> as the answer is the panic of a function that does not test for it.\<close>

record watch_predicate =
  wp_create :: "watched option \<Rightarrow> bool option"
  wp_update :: "watched option \<Rightarrow> watched option \<Rightarrow> bool option"
  wp_delete :: "watched option \<Rightarrow> bool option"
  wp_generic :: "watched option \<Rightarrow> bool option"

definition NewPredicateFuncs :: "(watched option \<Rightarrow> bool option) \<Rightarrow> watch_predicate" where
  "NewPredicateFuncs f = \<lparr>wp_create = f, wp_update = (\<lambda>_ new. f new), wp_delete = f, wp_generic = f\<rparr>"

definition PredicateFilterBySecretTypes :: "string list \<Rightarrow> watch_predicate" where
  "PredicateFilterBySecretTypes secretTypes =
     NewPredicateFuncs (\<lambda>w. Some (case w of Some (WSecret x) \<Rightarrow> secret_type x \<in> set secretTypes | _ \<Rightarrow> False))"

definition PredicateClusterByAccessMode :: "string \<Rightarrow> watch_predicate" where
  "PredicateClusterByAccessMode accessMode =
     NewPredicateFuncs (\<lambda>w. Some (case w of Some (WCluster c) \<Rightarrow> cluster_accessMode c = accessMode | _ \<Rightarrow> False))"

definition PredicateClusterIsReady :: watch_predicate where
  "PredicateClusterIsReady =
     NewPredicateFuncs (\<lambda>w. Some (case w of Some (WCluster c) \<Rightarrow> IsReadyTrue (o_conditions c) | _ \<Rightarrow> False))"

definition PredicateByName :: "string \<Rightarrow> watch_predicate" where
  "PredicateByName name = NewPredicateFuncs (map_option (\<lambda>w. o_name (meta_of w) = name))"

definition PredicateHasLabelWithValue :: "string \<Rightarrow> string \<Rightarrow> watch_predicate" where
  "PredicateHasLabelWithValue key value = NewPredicateFuncs (map_option (\<lambda>w. smap_val (o_labels (meta_of w)) key = value))"

definition PredicatePluginWithStatusReadyChange :: watch_predicate where
  "PredicatePluginWithStatusReadyChange =
     \<lparr>wp_create = (\<lambda>_. Some False),
      wp_update = (\<lambda>old new. Some
        (case (old, new) of
           (Some (WPlugin p), Some (WPlugin q)) \<Rightarrow>
             (case (GetConditionByType (o_conditions p) ReadyCondition, GetConditionByType (o_conditions q) ReadyCondition) of
                (None, None) \<Rightarrow> False
              | (Some c, Some d) \<Rightarrow> c_status c \<noteq> c_status d
              | _ \<Rightarrow> True)
         | _ \<Rightarrow> False)),
      wp_delete = (\<lambda>_. Some True), wp_generic = (\<lambda>_. Some False)\<rparr>"

definition PredicateOrganizationSCIMStatusChange :: watch_predicate where
  "PredicateOrganizationSCIMStatusChange =
     \<lparr>wp_create = (\<lambda>_. Some False),
      wp_update = (\<lambda>old new. Some
        (case (old, new) of
           (Some (WOrganization p), Some (WOrganization q)) \<Rightarrow>
             (case GetConditionByType (o_conditions q) SCIMAPIAvailableCondition of
                None \<Rightarrow> False
              | Some d \<Rightarrow>
                  (case GetConditionByType (o_conditions p) SCIMAPIAvailableCondition of None \<Rightarrow> True | Some c \<Rightarrow> IsFalse c) \<and> IsTrue d)
         | _ \<Rightarrow> False)),
      wp_delete = (\<lambda>_. Some False), wp_generic = (\<lambda>_. Some False)\<rparr>"

definition PredicateClusterReadyStatusChange :: watch_predicate where
  "PredicateClusterReadyStatusChange =
     \<lparr>wp_create = (\<lambda>_. Some False),
      wp_update = (\<lambda>old new. Some
        (case (old, new) of
           (Some (WCluster p), Some (WCluster q)) \<Rightarrow>
             (case GetConditionByType (o_conditions q) ReadyCondition of
                None \<Rightarrow> False
              | Some d \<Rightarrow>
                  (case GetConditionByType (o_conditions p) ReadyCondition of None \<Rightarrow> True | Some c \<Rightarrow> \<not> IsTrue c) \<and> IsTrue d)
         | _ \<Rightarrow> False)),
      wp_delete = (\<lambda>_. Some False), wp_generic = (\<lambda>_. Some False)\<rparr>"

definition PredicateIgnoreDeletingResources :: watch_predicate where
  "PredicateIgnoreDeletingResources =
     \<lparr>wp_create = (\<lambda>_. Some True), wp_update = (\<lambda>_ new. map_option (\<lambda>w. o_deletionTimestamp (meta_of w) = None) new),
      wp_delete = (\<lambda>_. Some True), wp_generic = (\<lambda>_. Some True)\<rparr>"

section \<open>Which changes are noticed\<close>

text \<open>The Ready condition of a cluster: exactly the updates with which it becomes ready pass.\<close>

lemma cluster_ready_change_iff:
  "wp_update PredicateClusterReadyStatusChange (Some (WCluster p)) (Some (WCluster q)) = Some True \<longleftrightarrow>
     \<not> IsReadyTrue (o_conditions p) \<and> IsReadyTrue (o_conditions q)"
  by (auto simp: PredicateClusterReadyStatusChange_def IsReadyTrue_def IsTrue_def split: option.splits)

text \<open>The Ready condition of a plugin: exactly the updates that change what is shown pass.\<close>

lemma plugin_ready_change_iff:
  "wp_update PredicatePluginWithStatusReadyChange (Some (WPlugin p)) (Some (WPlugin q)) = Some True \<longleftrightarrow>
     shown_status (o_conditions p) ReadyCondition \<noteq> shown_status (o_conditions q) ReadyCondition"
  by (auto simp: PredicatePluginWithStatusReadyChange_def shown_status_def split: option.splits)

lemma scim_change_iff:
  "wp_update PredicateOrganizationSCIMStatusChange (Some (WOrganization p)) (Some (WOrganization q)) = Some True \<longleftrightarrow>
     shown_status (o_conditions p) SCIMAPIAvailableCondition \<notin> {Some ConditionTrue, Some ConditionUnknown} \<and>
     shown_status (o_conditions q) SCIMAPIAvailableCondition = Some ConditionTrue"
proof -
  have "st \<noteq> ConditionTrue \<and> st \<noteq> ConditionUnknown \<longleftrightarrow> st = ConditionFalse" for st by (cases st) auto
  then show ?thesis
    by (auto simp: PredicateOrganizationSCIMStatusChange_def shown_status_def IsTrue_def IsFalse_def split: option.splits)
qed

text \<open>
  Organizations and teams together: when SCIM becomes available after the status was unknown, the teams are not told.
  A team that was reconciled before shows no access and asks for no other run, and the update of the organization from
  unknown to available does not pass the filter.
\<close>

theorem scim_available_unnoticed:
  assumes unknown: "shown_status (o_conditions org) SCIMAPIAvailableCondition = Some ConditionUnknown"
    and available: "shown_status (o_conditions org') SCIMAPIAvailableCondition = Some ConditionTrue"
    and cleanup: "(if is_support_group t then (None, s) else ensureSupportGroupResourcesDeleted env (initTeamStatus (tm_now env) t) s) = (None, s1)"
    and get: "tm_get_org env \<lparr>nn_namespace = [], nn_name = o_namespace t\<rparr> s1 = Inr org" and mapped: "team_mappedIDPGroup t \<noteq> []"
  shows "(\<exists>t'. team_EnsureCreated env t s = Some ((EmptyResult, Success, None), t', s1) \<and>
        shown_status (o_conditions t') SCIMAccessReadyCondition = Some ConditionFalse) \<and>
    wp_update PredicateOrganizationSCIMStatusChange (Some (WOrganization org)) (Some (WOrganization org')) = Some False"
proof -
  have "(case GetConditionByType (o_conditions org) SCIMAPIAvailableCondition of None \<Rightarrow> True | Some cond \<Rightarrow> \<not> IsTrue cond)"
    using unknown by (auto simp: shown_status_def IsTrue_def split: option.splits)
  then have "team_EnsureCreated env t s = Some ((EmptyResult, Success, None),
      SetCondition (tm_now env) (FalseCondition (tm_now env) SCIMAccessReadyCondition SCIMAPIUnavailableReason
        ''SCIM API in Organization is unavailable'') (initTeamStatus (tm_now env) t), s1)"
    using cleanup get mapped by (simp add: team_EnsureCreated_def Let_def del: option.case_distrib split del: option.splits)
  moreover have "wp_update PredicateOrganizationSCIMStatusChange (Some (WOrganization org)) (Some (WOrganization org')) \<noteq> Some True"
    unfolding scim_change_iff using unknown by simp
  then have "wp_update PredicateOrganizationSCIMStatusChange (Some (WOrganization org)) (Some (WOrganization org')) = Some False"
    by (simp add: PredicateOrganizationSCIMStatusChange_def)
  ultimately show ?thesis by (simp add: cond_simps FalseCondition_def NewCondition_def)
qed

definition scim_org :: "condition_status \<Rightarrow> organization" where
  "scim_org st = rbac_wit_org\<lparr>o_conditions := [NewCondition 5 SCIMAPIAvailableCondition st [] []]\<rparr>"

theorem scim_available_unnoticed_witness:
  "wp_update PredicateOrganizationSCIMStatusChange (Some (WOrganization (scim_org ConditionUnknown)))
     (Some (WOrganization (scim_org ConditionTrue))) = Some False"
proof -
  let ?env = "wit_env\<lparr>tm_get_org := (\<lambda>_ _. Inr (scim_org ConditionUnknown))\<rparr>"
  let ?t = "support_team\<lparr>team_mappedIDPGroup := ''G''\<rparr>"
  have shown: "shown_status (o_conditions (scim_org st)) SCIMAPIAvailableCondition = Some st" for st
    by (simp add: scim_org_def shown_status_def GetConditionByType_def NewCondition_def)
  have "is_support_group ?t" by code_simp
  then show ?thesis
    using scim_available_unnoticed [OF shown shown, of ?t _ ?env, THEN conjunct2] by simp
qed

end
