(* ===== verification/Features.thy ===== *)
theory Features
  imports Dex_Connector
begin

text \<open>
  Feature flags (\<open>internal/features/features.go\<close>): sections of a ConfigMap that are parsed on the first use and kept. The
  receiver may be nil; every function returns its result and the receiver afterwards. The YAML decoders of the sections
  are parameters. Logging is left out.
\<close>

section \<open>Sections and flags\<close>

record plugin_features =
  pf_expressionEvaluationEnabled :: bool
  pf_integrationEnabled :: bool
  pf_ociMirroringEnabled :: bool

record yaml_features =
  yf_dex :: "string \<Rightarrow> go_error + string"
  yf_plugin :: "string \<Rightarrow> go_error + plugin_features"
  yf_pluginPreset :: "string \<Rightarrow> go_error + bool"

record features =
  ff_raw :: "string smap"
  ff_dex :: "string option"
  ff_plugin :: "plugin_features option"
  ff_pluginPreset :: "bool option"

definition DexFeatureKey :: string where "DexFeatureKey = ''dex''"
definition PluginFeatureKey :: string where "PluginFeatureKey = ''plugin''"
definition PluginPresetFeatureKey :: string where "PluginPresetFeatureKey = ''pluginPreset''"

definition NewFeatures :: "(namespaced_name \<Rightarrow> go_error + string smap) \<Rightarrow> string \<Rightarrow> string \<Rightarrow> go_error + features option" where
  "NewFeatures get_configMap configMapName namespace =
     (case get_configMap \<lparr>nn_namespace = namespace, nn_name = configMapName\<rparr> of
        Inl e \<Rightarrow> if IsNotFound e then Inr None else Inl e
      | Inr dat \<Rightarrow> Inr (Some \<lparr>ff_raw = dat, ff_dex = None, ff_plugin = None, ff_pluginPreset = None\<rparr>))"

definition resolve :: "(string \<Rightarrow> go_error + 't) \<Rightarrow> features \<Rightarrow> string \<Rightarrow> go_error + 't" where
  "resolve unmarshal f key =
     (case smap_get (ff_raw f) key of
        None \<Rightarrow> Inl (PlainError (key @ '' feature not found in ConfigMap''))
      | Some raw \<Rightarrow> unmarshal raw)"

definition resolveDexFeatures :: "yaml_features \<Rightarrow> features \<Rightarrow> go_error option \<times> features" where
  "resolveDexFeatures y f =
     (case resolve (yf_dex y) f DexFeatureKey of Inl e \<Rightarrow> (Some e, f) | Inr d \<Rightarrow> (None, f\<lparr>ff_dex := Some d\<rparr>))"

definition resolvePluginFeatures :: "yaml_features \<Rightarrow> features \<Rightarrow> go_error option \<times> features" where
  "resolvePluginFeatures y f =
     (case resolve (yf_plugin y) f PluginFeatureKey of Inl e \<Rightarrow> (Some e, f) | Inr p \<Rightarrow> (None, f\<lparr>ff_plugin := Some p\<rparr>))"

definition resolvePluginPresetFeatures :: "yaml_features \<Rightarrow> features \<Rightarrow> go_error option \<times> features" where
  "resolvePluginPresetFeatures y f =
     (case resolve (yf_pluginPreset y) f PluginPresetFeatureKey of Inl e \<Rightarrow> (Some e, f) | Inr p \<Rightarrow> (None, f\<lparr>ff_pluginPreset := Some p\<rparr>))"

text \<open>\<open>GetDexStorageType\<close> has no test for a nil receiver; its callers have.\<close>

definition GetDexStorageType :: "yaml_features \<Rightarrow> features \<Rightarrow> string option \<times> features" where
  "GetDexStorageType y f =
     (case ff_dex f of
        Some storage \<Rightarrow> (Some storage, f)
      | None \<Rightarrow>
          (case resolveDexFeatures y f of
             (Some _, f1) \<Rightarrow> (None, f1)
           | (None, f1) \<Rightarrow>
               (case ff_dex f1 of Some storage \<Rightarrow> (if storage = [] then None else Some storage, f1) | None \<Rightarrow> (None, f1))))"

definition plugin_flag :: "(plugin_features \<Rightarrow> bool) \<Rightarrow> yaml_features \<Rightarrow> features option \<Rightarrow> bool \<times> features option" where
  "plugin_flag flag y fo =
     (case fo of
        None \<Rightarrow> (False, None)
      | Some f \<Rightarrow>
          (case ff_plugin f of
             Some p \<Rightarrow> (flag p, Some f)
           | None \<Rightarrow>
               (case resolvePluginFeatures y f of
                  (Some _, f1) \<Rightarrow> (False, Some f1)
                | (None, f1) \<Rightarrow> (case ff_plugin f1 of Some p \<Rightarrow> flag p | None \<Rightarrow> False, Some f1))))"

definition IsExpressionEvaluationEnabled :: "yaml_features \<Rightarrow> features option \<Rightarrow> bool \<times> features option" where
  "IsExpressionEvaluationEnabled = plugin_flag pf_expressionEvaluationEnabled"

definition IsIntegrationEnabled :: "yaml_features \<Rightarrow> features option \<Rightarrow> bool \<times> features option" where
  "IsIntegrationEnabled = plugin_flag pf_integrationEnabled"

definition IsOCIMirroringEnabled :: "yaml_features \<Rightarrow> features option \<Rightarrow> bool \<times> features option" where
  "IsOCIMirroringEnabled = plugin_flag pf_ociMirroringEnabled"

definition IsPresetExpressionEvaluationEnabled :: "yaml_features \<Rightarrow> features option \<Rightarrow> bool \<times> features option" where
  "IsPresetExpressionEvaluationEnabled y fo =
     (case fo of
        None \<Rightarrow> (False, None)
      | Some f \<Rightarrow>
          (case ff_pluginPreset f of
             Some p \<Rightarrow> (p, Some f)
           | None \<Rightarrow>
               (case resolvePluginPresetFeatures y f of
                  (Some _, f1) \<Rightarrow> (False, Some f1)
                | (None, f1) \<Rightarrow> (case ff_pluginPreset f1 of Some p \<Rightarrow> p | None \<Rightarrow> False, Some f1))))"

section \<open>Keeping a section does not change a flag\<close>

text \<open>The contract of a flag: what the section says, false when it cannot be read.\<close>

definition flag_of :: "(string \<Rightarrow> go_error + 't) \<Rightarrow> ('t \<Rightarrow> bool) \<Rightarrow> string \<Rightarrow> features option \<Rightarrow> bool" where
  "flag_of unmarshal flag key fo =
     (case fo of None \<Rightarrow> False | Some f \<Rightarrow> (case resolve unmarshal f key of Inl _ \<Rightarrow> False | Inr v \<Rightarrow> flag v))"

text \<open>What is kept is what the section says.\<close>

definition kept_sections :: "yaml_features \<Rightarrow> features option \<Rightarrow> bool" where
  "kept_sections y fo \<longleftrightarrow>
     (case fo of
        None \<Rightarrow> True
      | Some f \<Rightarrow>
          (\<forall>p. ff_plugin f = Some p \<longrightarrow> resolve (yf_plugin y) f PluginFeatureKey = Inr p) \<and>
          (\<forall>p. ff_pluginPreset f = Some p \<longrightarrow> resolve (yf_pluginPreset y) f PluginPresetFeatureKey = Inr p) \<and>
          (\<forall>d. ff_dex f = Some d \<longrightarrow> resolve (yf_dex y) f DexFeatureKey = Inr d))"

text \<open>The calls of a program, in any order and number.\<close>

datatype feature_call = CallExpression | CallIntegration | CallMirroring | CallPreset | CallDex

primrec call_feature :: "yaml_features \<Rightarrow> feature_call \<Rightarrow> features option \<Rightarrow> features option" where
  "call_feature y CallExpression fo = snd (IsExpressionEvaluationEnabled y fo)"
| "call_feature y CallIntegration fo = snd (IsIntegrationEnabled y fo)"
| "call_feature y CallMirroring fo = snd (IsOCIMirroringEnabled y fo)"
| "call_feature y CallPreset fo = snd (IsPresetExpressionEvaluationEnabled y fo)"
| "call_feature y CallDex fo = map_option (\<lambda>f. snd (GetDexStorageType y f)) fo"

lemmas feature_defs = IsExpressionEvaluationEnabled_def IsIntegrationEnabled_def IsOCIMirroringEnabled_def
  IsPresetExpressionEvaluationEnabled_def GetDexStorageType_def plugin_flag_def resolvePluginFeatures_def
  resolvePluginPresetFeatures_def resolveDexFeatures_def

lemma resolve_update [simp]:
  "resolve u (f\<lparr>ff_plugin := a\<rparr>) k = resolve u f k"
  "resolve u (f\<lparr>ff_pluginPreset := b\<rparr>) k = resolve u f k"
  "resolve u (f\<lparr>ff_dex := d\<rparr>) k = resolve u f k"
  by (simp_all add: resolve_def)

lemma flag_of_raw:
  assumes "map_option ff_raw a = map_option ff_raw b"
  shows "flag_of u flag k a = flag_of u flag k b"
  using assms by (cases a; cases b) (simp_all add: flag_of_def resolve_def)

lemma call_feature_raw: "map_option ff_raw (call_feature y c fo) = map_option ff_raw fo"
  by (cases fo; cases c) (simp_all add: feature_defs split: option.splits sum.splits)

lemma call_feature_kept:
  assumes "kept_sections y fo"
  shows "kept_sections y (call_feature y c fo)"
  using assms
  by (cases fo; cases c) (auto simp: kept_sections_def feature_defs split: option.splits sum.splits)

lemma calls_raw: "map_option ff_raw (fold (call_feature y) calls fo) = map_option ff_raw fo"
  by (induction calls arbitrary: fo) (simp_all add: call_feature_raw)

lemma calls_kept: "kept_sections y fo \<Longrightarrow> kept_sections y (fold (call_feature y) calls fo)"
  by (induction calls arbitrary: fo) (simp_all add: call_feature_kept)

lemma kept_flags:
  assumes "kept_sections y fo"
  shows "fst (plugin_flag flag y fo) = flag_of (yf_plugin y) flag PluginFeatureKey fo"
    and "fst (IsPresetExpressionEvaluationEnabled y fo) = flag_of (yf_pluginPreset y) (\<lambda>b. b) PluginPresetFeatureKey fo"
  using assms
  by (auto simp: kept_sections_def flag_of_def feature_defs split: option.splits sum.splits)

text \<open>
  Whatever calls were made before, a flag is what its section of the ConfigMap says, and false when there is no
  ConfigMap or the section is missing or malformed.
\<close>

theorem flags_independent_of_calls:
  assumes "NewFeatures get_configMap name ns = Inr fo"
  shows "fst (IsExpressionEvaluationEnabled y (fold (call_feature y) calls fo))
        = flag_of (yf_plugin y) pf_expressionEvaluationEnabled PluginFeatureKey fo
    \<and> fst (IsIntegrationEnabled y (fold (call_feature y) calls fo)) = flag_of (yf_plugin y) pf_integrationEnabled PluginFeatureKey fo
    \<and> fst (IsOCIMirroringEnabled y (fold (call_feature y) calls fo)) = flag_of (yf_plugin y) pf_ociMirroringEnabled PluginFeatureKey fo
    \<and> fst (IsPresetExpressionEvaluationEnabled y (fold (call_feature y) calls fo))
        = flag_of (yf_pluginPreset y) (\<lambda>b. b) PluginPresetFeatureKey fo"
proof -
  have "kept_sections y fo" using assms by (auto simp: NewFeatures_def kept_sections_def split: sum.splits if_splits)
  note kept = kept_flags [OF calls_kept [OF this, of calls]]
  show ?thesis
    by (simp add: IsExpressionEvaluationEnabled_def IsIntegrationEnabled_def IsOCIMirroringEnabled_def kept
        flag_of_raw [OF calls_raw])
qed

text \<open>
  The storage of Dex is not: with an empty entry the first call answers that there is none, the second one gives
  the empty string, with which no storage can be opened.
\<close>

lemma empty_storage_second_call:
  assumes "ff_dex f = None" "resolve (yf_dex y) f DexFeatureKey = Inr []"
  shows "fst (GetDexStorageType y f) = None" "fst (GetDexStorageType y (snd (GetDexStorageType y f))) = Some []"
    "NewDexStorage b [] = Inl (PlainError ''unknown dexStorage backend: '')"
  using assms by (simp_all add: GetDexStorageType_def resolveDexFeatures_def NewDexStorage_def Postgres_def K8s_def)

definition wit_yaml :: yaml_features where
  "wit_yaml = \<lparr>yf_dex = Inr, yf_plugin = (\<lambda>_. Inr \<lparr>pf_expressionEvaluationEnabled = True, pf_integrationEnabled = False,
     pf_ociMirroringEnabled = True\<rparr>), yf_pluginPreset = (\<lambda>_. Inl (PlainError ''yaml''))\<rparr>"

theorem flags_independent_of_calls_witness:
  "fst (IsOCIMirroringEnabled wit_yaml (fold (call_feature wit_yaml) [CallExpression, CallPreset]
     (Some \<lparr>ff_raw = [(''plugin'', ''x'')], ff_dex = None, ff_plugin = None, ff_pluginPreset = None\<rparr>)))"
proof -
  have new: "NewFeatures (\<lambda>_. Inr [(''plugin'', ''x'')]) ''cm'' ''ns''
      = Inr (Some \<lparr>ff_raw = [(''plugin'', ''x'')], ff_dex = None, ff_plugin = None, ff_pluginPreset = None\<rparr>)"
    by (simp add: NewFeatures_def)
  show ?thesis
    using flags_independent_of_calls [OF new, of wit_yaml "[CallExpression, CallPreset]"]
    by (simp add: flag_of_def resolve_def wit_yaml_def PluginFeatureKey_def smap_get_def)
qed

end
