(* ===== verification/Plugin_Commands.thy ===== *)
theory Plugin_Commands
  imports Webhook_Plugin Helm_Values File_Paths
begin

text \<open>
  The commands of \<open>greenhousectl plugin\<close> (\<open>internal/cmd\<close>): \<open>template\<close> renders the chart of a preset for a cluster,
  \<open>validate\<close> checks a plugin against its definition, and \<open>generate\<close> makes a definition from a chart. The file system, the YAML
  library, the chart loader, the \<open>flatten\<close> package and the \<open>helm\<close> program are parameters; flags, the test that \<open>helm\<close> is installed and the text printed
  on the way are left out. Of the type metadata of an object only the kind is read, which is kept beside the object.
\<close>

section \<open>Files\<close>

record cli_files =
  cf_isMissing :: "string \<Rightarrow> bool"
  cf_abs :: "string \<Rightarrow> go_error + string"
  cf_readFile :: "string \<Rightarrow> go_error + string"

definition loadAndUnmarshalObject :: "cli_files \<Rightarrow> (string \<Rightarrow> go_error + 't) \<Rightarrow> string \<Rightarrow> go_error + 't" where
  "loadAndUnmarshalObject files unmarshal path =
     (case cf_abs files path of
        Inl e \<Rightarrow> Inl e
      | Inr absPath \<Rightarrow> (case cf_readFile files absPath of Inl e \<Rightarrow> Inl e | Inr f \<Rightarrow> unmarshal f))"

definition loadFromFile :: "cli_files \<Rightarrow> (string \<Rightarrow> go_error + 't) \<Rightarrow> string \<Rightarrow> go_error + 't" where
  "loadFromFile files unmarshal path = loadAndUnmarshalObject files unmarshal path"

section \<open>Template\<close>

record template_options =
  tpo_pluginPresetPath :: string
  tpo_pluginDefinitionPath :: string
  tpo_clusterName :: string

definition template_validate :: "cli_files \<Rightarrow> template_options \<Rightarrow> go_error option" where
  "template_validate files opts =
     (if cf_isMissing files (tpo_pluginPresetPath opts)
      then Some (PlainError (''PluginPreset file does not exist: '' @ tpo_pluginPresetPath opts))
      else if cf_isMissing files (tpo_pluginDefinitionPath opts)
      then Some (PlainError (''ClusterPluginDefinition file does not exist: '' @ tpo_pluginDefinitionPath opts))
      else None)"

definition validateCompatibility ::
  "template_options \<Rightarrow> string \<times> plugin_preset \<Rightarrow> string \<times> plugin_definition \<Rightarrow> go_error option" where
  "validateCompatibility opts preset pd =
     (if fst preset \<noteq> ''PluginPreset''
      then Some (PlainError (''expected PluginPreset kind, got '' @ quoted (fst preset) @ '' in file '' @ tpo_pluginPresetPath opts))
      else if fst pd \<noteq> ClusterPluginDefinitionKind \<and> fst pd \<noteq> PluginDefinitionKind
      then Some (PlainError (''expected either '' @ ClusterPluginDefinitionKind @ '' or '' @ PluginDefinitionKind @ '' kind, got ''
             @ quoted (fst pd) @ '' in file '' @ tpo_pluginDefinitionPath opts))
      else if pdr_name (pp_pluginDefinitionRef (preset_plugin (snd preset))) \<noteq> o_name (snd pd)
      then Some (PlainError (''PluginPreset references (Cluster-)PluginDefinition '' @ [CHR 0x27]
             @ pdr_name (pp_pluginDefinitionRef (preset_plugin (snd preset))) @ [CHR 0x27] @ '' but provided file defines ''
             @ [CHR 0x27] @ o_name (snd pd) @ [CHR 0x27]))
      else if pds_helmChart (pd_spec (snd pd)) = None
      then Some (PlainError (''(Cluster-)PluginDefinition '' @ [CHR 0x27] @ o_name (snd pd) @ [CHR 0x27] @ '' must have a HelmChart reference''))
      else None)"

text \<open>\<open>json.Marshal\<close> of a string has no error.\<close>

definition createPluginOptionValue :: "string \<Rightarrow> string \<Rightarrow> plugin_option_value" where
  "createPluginOptionValue name value = plain_value name (json_string value)"

definition literalPaths :: "string list" where
  "literalPaths = [''global.greenhouse.clusterNames'', ''global.greenhouse.teamNames'', ''global.greenhouse.baseDomain'',
     ''global.greenhouse.ownedBy'']"

definition getGreenhouseValuesForTemplate :: "string \<Rightarrow> plugin_preset \<Rightarrow> plugin_option_value list" where
  "getGreenhouseValuesForTemplate clusterName preset =
     map (\<lambda>path. createPluginOptionValue path path) literalPaths
     @ (if o_namespace preset \<noteq> [] then [createPluginOptionValue ''global.greenhouse.organizationName'' (o_namespace preset)] else [])
     @ (if clusterName \<noteq> [] then [createPluginOptionValue ''global.greenhouse.clusterName'' clusterName] else [])"

definition getClusterSpecificOverrides :: "string \<Rightarrow> plugin_preset \<Rightarrow> plugin_option_value list" where
  "getClusterSpecificOverrides clusterName preset =
     (case find (\<lambda>co. co_clusterName co = clusterName) (preset_clusterOptionOverrides preset) of
        None \<Rightarrow> []
      | Some co \<Rightarrow> ConvertToPluginOptionValues (co_overrides co))"

definition secret_literal :: "plugin_option_value \<Rightarrow> plugin_option_value" where
  "secret_literal v =
     (case Option.bind (ov_valueFrom v) pv_secret of
        None \<Rightarrow> v
      | Some ref \<Rightarrow> v\<lparr>ov_value := json_string (sk_name ref @ ''/'' @ sk_key ref), ov_valueFrom := None\<rparr>)"

definition processSecretsToLiterals :: "plugin_option_value list \<Rightarrow> plugin_option_value list" where
  "processSecretsToLiterals values = map secret_literal values"

definition prepareValues :: "string \<Rightarrow> plugin_preset \<Rightarrow> plugin_definition \<Rightarrow> plugin_option_value list" where
  "prepareValues clusterName preset pd =
     (let values = MergePluginAndPluginOptionValueSlice (pds_options (pd_spec pd)) (getGreenhouseValuesForTemplate clusterName preset);
          values = MergePluginOptionValues values (ConvertToPluginOptionValues (pp_optionValues (preset_plugin preset)));
          values = MergePluginOptionValues values (getClusterSpecificOverrides clusterName preset)
      in processSecretsToLiterals values)"

text \<open>The arguments of \<open>helm\<close>; the chart is there after \<open>validateCompatibility\<close>.\<close>

definition helm_args :: "plugin_preset \<Rightarrow> helm_chart_reference \<Rightarrow> string \<Rightarrow> string list" where
  "helm_args preset chartRef valuesFile =
     (if HasPrefix (hc_repository chartRef) ''oci://''
      then [''template'', o_name preset, hc_repository chartRef @ ''/'' @ hc_name chartRef,
            ''--namespace'', pp_releaseNamespace (preset_plugin preset), ''--values'', valuesFile, ''--version'', hc_version chartRef]
      else [''template'', o_name preset, hc_name chartRef, ''--repo'', hc_repository chartRef, ''--version'', hc_version chartRef,
            ''--namespace'', pp_releaseNamespace (preset_plugin preset), ''--values'', valuesFile])"

record 's template_env =
  te_files :: cli_files
  te_unmarshal_definition :: "string \<Rightarrow> go_error + string \<times> plugin_definition"
  te_unmarshal_preset :: "string \<Rightarrow> go_error + string \<times> plugin_preset"
  te_parseJSON :: parse_json_value
  te_marshal :: "helm_values \<Rightarrow> go_error + string"
  te_createTemp :: "'s \<Rightarrow> (go_error + string) \<times> 's"
  te_writeTemp :: "string \<Rightarrow> string \<Rightarrow> 's \<Rightarrow> go_error option \<times> 's"
  te_remove :: "string \<Rightarrow> 's \<Rightarrow> 's"
  te_helm :: "string list \<Rightarrow> 's \<Rightarrow> (string \<times> go_error option) \<times> 's"

definition template_complete ::
  "'s template_env \<Rightarrow> template_options \<Rightarrow> go_error + plugin_preset \<times> helm_chart_reference \<times> plugin_option_value list" where
  "template_complete env opts =
     (case loadFromFile (te_files env) (te_unmarshal_definition env) (tpo_pluginDefinitionPath opts) of
        Inl e \<Rightarrow> Inl e
      | Inr pd \<Rightarrow>
     (case loadFromFile (te_files env) (te_unmarshal_preset env) (tpo_pluginPresetPath opts) of
        Inl e \<Rightarrow> Inl e
      | Inr preset \<Rightarrow>
     (case (validateCompatibility opts preset pd, pds_helmChart (pd_spec (snd pd))) of
        (None, Some chartRef) \<Rightarrow> Inr (snd preset, chartRef, prepareValues (tpo_clusterName opts) (snd preset) (snd pd))
      | (Some e, _) \<Rightarrow> Inl e
      | (None, None) \<Rightarrow> Inl panic_error)))"

text \<open>The outcome of \<open>helm\<close>: what is printed, or an error with the output in its text.\<close>

definition runHelmTemplate ::
  "'s template_env \<Rightarrow> plugin_preset \<Rightarrow> helm_chart_reference \<Rightarrow> string \<Rightarrow> 's \<Rightarrow> (go_error + string) \<times> 's" where
  "runHelmTemplate env preset chartRef valuesFile s =
     (let args = helm_args preset chartRef valuesFile in
      case te_helm env args s of
        ((outp, Some e), s1) \<Rightarrow>
          (Inl (PlainError (''helm template failed: '' @ error_text e @ [CHR 10] @ ''Command: helm '' @ Join args '' '' @ [CHR 10]
                 @ ''Output: '' @ outp)), s1)
      | ((outp, None), s1) \<Rightarrow> (Inr outp, s1))"

text \<open>The deferred removal of the temporary file runs on every way out once it is created.\<close>

definition template_run ::
  "'s template_env \<Rightarrow> plugin_preset \<Rightarrow> helm_chart_reference \<Rightarrow> plugin_option_value list \<Rightarrow> 's \<Rightarrow> (go_error + string) \<times> 's" where
  "template_run env preset chartRef values s =
     (case ConvertFlatValuesToHelmValues (te_parseJSON env) values of
        Inl e \<Rightarrow> (Inl e, s)
      | Inr helmValues \<Rightarrow>
     (case te_marshal env helmValues of
        Inl e \<Rightarrow> (Inl e, s)
      | Inr valuesYAML \<Rightarrow>
     (case te_createTemp env s of
        (Inl e, s1) \<Rightarrow> (Inl e, s1)
      | (Inr f, s1) \<Rightarrow>
          (let (result, s2) =
             (case te_writeTemp env f valuesYAML s1 of
                (Some e, s2) \<Rightarrow> (Inl e, s2)
              | (None, s2) \<Rightarrow> runHelmTemplate env preset chartRef f s2)
           in (result, te_remove env f s2)))))"

definition template_command :: "'s template_env \<Rightarrow> template_options \<Rightarrow> 's \<Rightarrow> (go_error + string) \<times> 's" where
  "template_command env opts s =
     (case template_validate (te_files env) opts of
        Some e \<Rightarrow> (Inl e, s)
      | None \<Rightarrow>
          (case template_complete env opts of
             Inl e \<Rightarrow> (Inl e, s)
           | Inr (preset, chartRef, values) \<Rightarrow> template_run env preset chartRef values s))"

section \<open>Validate\<close>

text \<open>The errors of one option; \<open>None\<close> is the nil dereference of \<open>IsValidValue\<close> for an entry without a plain value.\<close>

definition validate_value :: "plugin_option \<Rightarrow> plugin_option_value \<Rightarrow> string list option" where
  "validate_value opt v =
     (if ov_name v \<noteq> po_name opt then Some []
      else case ov_value v of
             None \<Rightarrow> None
           | Some raw \<Rightarrow> Some (case PluginOption_IsValidValue opt raw of None \<Rightarrow> [] | Some e \<Rightarrow> [error_text e]))"

definition validate_option :: "plugin_option_value list \<Rightarrow> plugin_option \<Rightarrow> string list option" where
  "validate_option optionValues opt =
     map_option (\<lambda>errs. errs @
        (if po_required opt \<and> \<not> list_ex (\<lambda>v. ov_name v = po_name opt) optionValues
         then [''required option '' @ po_name opt @ '' not set''] else []))
       (collect (validate_value opt) optionValues)"

definition validateOptions :: "plugin_definition \<Rightarrow> plugin \<Rightarrow> go_error option option" where
  "validateOptions pd p =
     map_option (\<lambda>errList.
         if length errList = 0 then None
         else Some (PlainError (''pluginDefinition '' @ o_name pd @ '' and plugin '' @ o_name p @ '' are not compatible: ''
                @ concat (map (\<lambda>e. e @ [CHR 10]) errList))))
       (collect (validate_option (ps_optionValues (pl_spec p))) (options_of (pd_spec pd)))"

text \<open>The rendering of the chart is the parameter \<open>template\<close>, with the set-up of the clients.\<close>

definition validateHelmChart ::
  "(plugin_definition_spec \<Rightarrow> plugin \<Rightarrow> 's \<Rightarrow> go_error option \<times> 's) \<Rightarrow> plugin_definition \<Rightarrow> plugin \<Rightarrow> 's \<Rightarrow> go_error option \<times> 's" where
  "validateHelmChart templ pd p s =
     (if pds_helmChart (pd_spec pd) = None then (None, s) else templ (pd_spec pd) p s)"

definition validate_run ::
  "cli_files \<Rightarrow> (string \<Rightarrow> go_error + plugin_definition) \<Rightarrow> (string \<Rightarrow> go_error + plugin)
     \<Rightarrow> (plugin_definition_spec \<Rightarrow> plugin \<Rightarrow> 's \<Rightarrow> go_error option \<times> 's) \<Rightarrow> string \<Rightarrow> string \<Rightarrow> 's \<Rightarrow> go_error option \<times> 's" where
  "validate_run files unmarshal_definition unmarshal_plugin templ definitionPath pluginPath s =
     (case loadFromFile files unmarshal_definition definitionPath of
        Inl e \<Rightarrow> (Some e, s)
      | Inr pd \<Rightarrow>
     (case loadFromFile files unmarshal_plugin pluginPath of
        Inl e \<Rightarrow> (Some e, s)
      | Inr p \<Rightarrow>
     (case validateOptions pd p of
        None \<Rightarrow> (Some panic_error, s)
      | Some (Some e) \<Rightarrow> (Some e, s)
      | Some None \<Rightarrow> validateHelmChart templ pd p s)))"

definition two_paths :: "string \<Rightarrow> cli_files \<Rightarrow> string list \<Rightarrow> go_error + string \<times> string" where
  "two_paths usage files args =
     (case args of
        [a, b] \<Rightarrow>
          (case cf_abs files a of
             Inl e \<Rightarrow> Inl e
           | Inr a' \<Rightarrow> (case cf_abs files b of Inl e \<Rightarrow> Inl e | Inr b' \<Rightarrow> Inr (a', b')))
      | _ \<Rightarrow> Inl (PlainError usage))"

definition pluginDefinitionValidateCmdUsage :: string where
  "pluginDefinitionValidateCmdUsage = ''validate [plugindefinition.yaml path] [plugin.yaml path]''"

definition validate_command ::
  "cli_files \<Rightarrow> (string \<Rightarrow> go_error + plugin_definition) \<Rightarrow> (string \<Rightarrow> go_error + plugin)
     \<Rightarrow> (plugin_definition_spec \<Rightarrow> plugin \<Rightarrow> 's \<Rightarrow> go_error option \<times> 's) \<Rightarrow> string list \<Rightarrow> 's \<Rightarrow> go_error option \<times> 's" where
  "validate_command files unmarshal_definition unmarshal_plugin templ args s =
     (case two_paths pluginDefinitionValidateCmdUsage files args of
        Inl e \<Rightarrow> (Some e, s)
      | Inr (definitionPath, pluginPath) \<Rightarrow> validate_run files unmarshal_definition unmarshal_plugin templ definitionPath pluginPath s)"

section \<open>Generate\<close>

text \<open>A chart as far as it is read: name and version of its metadata, which may be nil, and its values.\<close>

record chart_file =
  chf_metadata :: "(string \<times> string) option"
  chf_values :: "helm_values option"

definition chart_Name :: "chart_file \<Rightarrow> string" where
  "chart_Name c = (case chf_metadata c of None \<Rightarrow> [] | Some (name, _) \<Rightarrow> name)"

text \<open>The flattened values are a Go map; their order is fixed by the sort. The options get no type.\<close>

definition named_value :: "string \<times> json \<Rightarrow> plugin_option" where
  "named_value kv =
     \<lparr>po_name = fst kv, po_default = Some (print_json (snd kv)), po_description = fst kv, po_displayName = [],
      po_required = False, po_type = OptionTypeOther [], po_regex = []\<rparr>"

definition chartValuesToNamedValues ::
  "(helm_values \<Rightarrow> go_error + helm_values) \<Rightarrow> helm_values option \<Rightarrow> go_error + plugin_option list option" where
  "chartValuesToNamedValues flatten chartValues =
     (case chartValues of
        None \<Rightarrow> Inr None
      | Some vs \<Rightarrow> map_sum id (\<lambda>flat. Some (sort_key po_name (map named_value flat))) (flatten vs))"

text \<open>\<open>None\<close> is the nil dereference for a chart without metadata.\<close>

definition helmChartToPlugin ::
  "(helm_values \<Rightarrow> go_error + helm_values) \<Rightarrow> chart_file \<Rightarrow> (go_error + plugin_definition) option" where
  "helmChartToPlugin flatten c =
     (case chartValuesToNamedValues flatten (chf_values c) of
        Inl e \<Rightarrow> Some (Inl e)
      | Inr pluginValues \<Rightarrow>
          (case chf_metadata c of
             None \<Rightarrow> None
           | Some (_, version) \<Rightarrow>
               Some (Inr
                 \<lparr>o_name = chart_Name c @ ''-'' @ version, o_namespace = [], o_labels = [], o_annotations = [], o_finalizers = [],
                  o_deletionTimestamp = None, o_ownerReferences = [], o_conditions = [],
                  pd_spec =
                    \<lparr>pds_displayName = [], pds_description = chart_Name c,
                     pds_helmChart = Some \<lparr>hc_name = chart_Name c, hc_repository = ''TODO: Repository for this Helm chart.'',
                       hc_version = version\<rparr>,
                     pds_uiApplication = Some \<lparr>ui_url = ''TODO: Javascript asset server URL.'', ui_name = chart_Name c,
                       ui_version = ''latest''\<rparr>,
                     pds_options = pluginValues, pds_version = (if version \<noteq> [] then version else ''1.0.0''), pds_weight = None,
                     pds_icon = [], pds_docsURL = [], pds_docMarkDownUrl = []\<rparr>,
                  pd_lastSyncedArtifact = None\<rparr>)))"

datatype cli_outcome = CliReturns "go_error option" | CliExit nat

record 's generate_env =
  gen_load :: "string \<Rightarrow> go_error + chart_file"
  gen_flatten :: "helm_values \<Rightarrow> go_error + helm_values"
  gen_marshal :: "plugin_definition \<Rightarrow> go_error + string"
  gen_jsonToYaml :: "string \<Rightarrow> go_error + string"
  gen_mkdirAll :: "string \<Rightarrow> 's \<Rightarrow> go_error option \<times> 's"
  gen_writeFile :: "string \<Rightarrow> string \<Rightarrow> 's \<Rightarrow> go_error option \<times> 's"

definition generate_run :: "'s generate_env \<Rightarrow> string \<Rightarrow> string \<Rightarrow> 's \<Rightarrow> cli_outcome \<times> 's" where
  "generate_run env helmChartPath outPath s =
     (case gen_load env helmChartPath of
        Inl e \<Rightarrow> (CliReturns (Some e), s)
      | Inr c \<Rightarrow>
          (case chf_metadata c of
             None \<Rightarrow> (CliExit 1, s)
           | Some (name, version) \<Rightarrow>
               if version = [] then (CliExit 1, s)
               else
                 (let pluginDirectory = filepath_Join [outPath, chart_Name c, version] in
                  case gen_mkdirAll env pluginDirectory s of
                    (Some e, s1) \<Rightarrow> (CliReturns (Some e), s1)
                  | (None, s1) \<Rightarrow>
                      (case helmChartToPlugin (gen_flatten env) c of
                         None \<Rightarrow> (CliReturns (Some panic_error), s1)
                       | Some (Inl e) \<Rightarrow> (CliReturns (Some e), s1)
                       | Some (Inr pd) \<Rightarrow>
                           (case (case gen_marshal env pd of Inl e \<Rightarrow> Inl e | Inr jsonBytes \<Rightarrow> gen_jsonToYaml env jsonBytes) of
                              Inl e \<Rightarrow> (CliReturns (Some e), s1)
                            | Inr yamlBytes \<Rightarrow>
                                map_prod CliReturns id
                                  (gen_writeFile env (filepath_Join [pluginDirectory, ''plugindefinition.yaml'']) yamlBytes s1))))))"

definition pluginGenerateCmdUsage :: string where
  "pluginGenerateCmdUsage = ''generate [Helm chart path] [output path]''"

definition generate_command :: "'s generate_env \<Rightarrow> cli_files \<Rightarrow> string list \<Rightarrow> 's \<Rightarrow> cli_outcome \<times> 's" where
  "generate_command env files args s =
     (case two_paths pluginGenerateCmdUsage files args of
        Inl e \<Rightarrow> (CliReturns (Some e), s)
      | Inr (helmChartPath, outPath) \<Rightarrow> generate_run env helmChartPath outPath s)"


section \<open>The template is what the controllers deploy\<close>

text \<open>Entries that are neither references nor expressions; for them the two ways of merging agree.\<close>

definition plain_entry :: "plugin_option_value \<Rightarrow> bool" where
  "plain_entry v \<longleftrightarrow> ov_valueFrom v = None \<and> ov_expression v = None"

lemma plain_entry_put [simp]: "plain_entry x \<Longrightarrow> plain_entry v \<Longrightarrow> ov_name x = ov_name v \<Longrightarrow> x\<lparr>ov_value := ov_value v\<rparr> = v"
  by (simp add: plain_entry_def)

lemma plain_value_plain [simp]: "plain_entry (plain_value n v)" "ov_name (plain_value n v) = n"
  by (simp_all add: plain_entry_def plain_value_def)



lemma secret_literal_name [simp]: "ov_name (secret_literal v) = ov_name v"
  by (simp add: secret_literal_def split: option.split)

lemma lookup_secrets: "lookup_value (processSecretsToLiterals vs) n = map_option secret_literal (lookup_value vs n)"
  by (induction vs) (auto simp: processSecretsToLiterals_def lookup_value_Cons)
















text \<open>
  For references it does not hold: a secret that a cluster gives to an option with a plain value in the preset is lost in the
  template, where the option gets no value at all; the plugin gets the secret.
\<close>

definition secret_entry :: "string \<Rightarrow> string \<Rightarrow> string \<Rightarrow> plugin_option_value" where
  "secret_entry n name key =
     \<lparr>ov_name = n, ov_value = None,
      ov_valueFrom = Some \<lparr>pv_secret = Some \<lparr>sk_name = name, sk_key = key\<rparr>, pv_ref = None\<rparr>, ov_expression = None\<rparr>"

lemma template_loses_secret:
  assumes "lookup_value values n = Some (plain_value n v)"
  shows "lookup_value (processSecretsToLiterals (MergePluginOptionValues values [secret_entry n name key])) n = Some (plain_value n None)"
    and "lookup_value (foldl override_value values [secret_entry n name key]) n = Some (secret_entry n name key)"
  using assms
  by (simp_all add: lookup_secrets MergePluginOptionValues_def so.lookup_put ov.lookup_put secret_entry_def secret_literal_def plain_value_def)

section \<open>What the command accepts is admitted\<close>

lemma validate_value_accepts_iff:
  "validate_value opt v = Some [] \<longleftrightarrow>
     (ov_name v = po_name opt \<longrightarrow> (\<exists>raw. ov_value v = Some raw \<and> PluginOption_IsValidValue opt raw = None))"
  by (cases "ov_value v") (auto simp: validate_value_def split: option.splits)

lemma validateOptions_accepts_iff:
  "validateOptions pd p = Some None \<longleftrightarrow>
     (\<forall>opt \<in> set (options_of (pd_spec pd)).
        (\<forall>v \<in> set (ps_optionValues (pl_spec p)). ov_name v = po_name opt \<longrightarrow>
            (\<exists>raw. ov_value v = Some raw \<and> PluginOption_IsValidValue opt raw = None)) \<and>
        (po_required opt \<longrightarrow> (\<exists>v \<in> set (ps_optionValues (pl_spec p)). ov_name v = po_name opt)))"
proof -
  have "validateOptions pd p = Some None \<longleftrightarrow> collect (validate_option (ps_optionValues (pl_spec p))) (options_of (pd_spec pd)) = Some []"
    by (auto simp: validateOptions_def split: if_splits)
  moreover have "validate_option vs opt = Some [] \<longleftrightarrow>
      (\<forall>v \<in> set vs. ov_name v = po_name opt \<longrightarrow> (\<exists>raw. ov_value v = Some raw \<and> PluginOption_IsValidValue opt raw = None)) \<and>
      (po_required opt \<longrightarrow> (\<exists>v \<in> set vs. ov_name v = po_name opt))" for vs opt
    by (auto simp: validate_option_def collect_Some_Nil_iff validate_value_accepts_iff list_ex_iff split: if_splits)
  ultimately show ?thesis by (simp add: collect_Some_Nil_iff)
qed

lemma valid_value_not_secret: "PluginOption_IsValidValue opt raw = None \<Longrightarrow> po_type opt \<noteq> PluginOptionTypeSecret"
  by (auto simp: PluginOption_IsValidValue_def Let_def split: sum.splits)

text \<open>
  Command and webhook: a plugin whose options \<open>greenhousectl plugin validate\<close> accepts, and whose entries each have one
  source, passes the check of the option values at admission.
\<close>

theorem validated_options_admitted:
  assumes "validateOptions pd p = Some None" and "\<forall>v \<in> set (ps_optionValues (pl_spec p)). hasExactlyOneValueSource v"
  shows "validatePluginOptionValues (ps_optionValues (pl_spec p)) name (pd_spec pd) checkRequired path = Some []"
proof -
  have "option_errors (ps_optionValues (pl_spec p)) name checkRequired path opt = Some []" if opt: "opt \<in> set (options_of (pd_spec pd))" for opt
  proof -
    have "check_option_value path opt idx v = Some []" if "v \<in> set (ps_optionValues (pl_spec p))" "ov_name v = po_name opt" for v idx
    proof -
      from assms(1) opt that obtain raw where "ov_value v = Some raw" "PluginOption_IsValidValue opt raw = None"
        unfolding validateOptions_accepts_iff by blast
      with assms(2) that(1) valid_value_not_secret [of opt raw] show ?thesis by (auto simp: check_option_value_def Let_def)
    qed
    moreover have "po_required opt \<Longrightarrow> list_ex (\<lambda>v. ov_name v = po_name opt) (ps_optionValues (pl_spec p))"
      using assms(1) opt unfolding validateOptions_accepts_iff list_ex_iff by blast
    ultimately show ?thesis
      by (auto simp: option_errors_def collect_Some_Nil_iff dest: enumerate_value_in_set)
  qed
  then show ?thesis by (simp add: validatePluginOptionValues_def collect_Some_Nil_iff)
qed

text \<open>Not the other way round: a value given by reference, the only way for secrets, makes the command panic.\<close>

lemma validate_panics_on_reference:
  assumes "opt \<in> set (options_of (pd_spec pd))" "v \<in> set (ps_optionValues (pl_spec p))" "ov_name v = po_name opt" "ov_value v = None"
  shows "validateOptions pd p = None"
proof -
  have "validate_value opt v = None" using assms by (simp add: validate_value_def)
  then have "validate_option (ps_optionValues (pl_spec p)) opt = None"
    using assms(2) by (auto simp: validate_option_def collect_None_iff)
  with assms(1) show ?thesis by (auto simp: validateOptions_def collect_None_iff)
qed

section \<open>Generated definitions\<close>

text \<open>
  A definition that is generated from a chart with values is rejected at admission: its options have defaults but no type.
\<close>

theorem generated_definition_rejected:
  assumes "helmChartToPlugin flatten c = Some (Inr pd)" and "chf_values c = Some vs" and "flatten vs = Inr flat" and "flat \<noteq> []"
  shows "validate_definition (pd_spec pd) kind (o_name pd) \<noteq> None"
proof -
  obtain kv where "kv \<in> set flat" using assms(4) by (cases flat) auto
  then have "named_value kv \<in> set (options_of (pd_spec pd))"
    using assms(1-3) by (auto simp: helmChartToPlugin_def chartValuesToNamedValues_def options_of_def split: option.splits)
  moreover have "PluginOption_IsValid (named_value kv) \<noteq> None" by (simp add: PluginOption_IsValid_def named_value_def)
  ultimately have "validatePluginDefinitionOptionValueAndType (pd_spec pd) kind (o_name pd) \<noteq> None"
    by (auto simp: validatePluginDefinitionOptionValueAndType_def find_None_iff split: option.splits)
  then show ?thesis by (auto simp: validate_definition_def split: option.splits)
qed


section \<open>Temporary files\<close>

text \<open>
  However the command ends, its temporary file is gone. Relied on: a new file gets an unused name, writing it and running
  \<open>helm\<close> neither create nor delete files, and a removal deletes its file.
\<close>

definition temp_laws :: "'s template_env \<Rightarrow> ('s \<Rightarrow> string set) \<Rightarrow> bool" where
  "temp_laws env files \<longleftrightarrow>
     (\<forall>s r s'. te_createTemp env s = (r, s') \<longrightarrow>
        (case r of Inl _ \<Rightarrow> files s' = files s | Inr f \<Rightarrow> f \<notin> files s \<and> files s' = insert f (files s))) \<and>
     (\<forall>f t s. files (snd (te_writeTemp env f t s)) = files s) \<and>
     (\<forall>args s. files (snd (te_helm env args s)) = files s) \<and>
     (\<forall>f s. files (te_remove env f s) = files s - {f})"

lemma template_removes_file:
  assumes laws: "temp_laws env files"
  shows "files (snd (template_command env opts s)) = files s"
proof -
  have helm: "files (snd (runHelmTemplate env preset chartRef f t)) = files t" for preset chartRef f t
  proof -
    have "snd (runHelmTemplate env preset chartRef f t) = snd (te_helm env (helm_args preset chartRef f) t)"
      by (simp add: runHelmTemplate_def Let_def split: prod.split option.split)
    with laws show ?thesis by (simp add: temp_laws_def)
  qed
  have "files (snd (template_run env preset chartRef vs s)) = files s" for preset chartRef vs
  proof (cases "te_createTemp env s")
    case (Pair r s1)
    have "(case r of Inl _ \<Rightarrow> files s1 = files s | Inr f \<Rightarrow> f \<notin> files s \<and> files s1 = insert f (files s))"
      using laws [unfolded temp_laws_def, THEN conjunct1, rule_format, OF Pair] .
    moreover have "files (snd (te_writeTemp env f y s1)) = files s1" "files (te_remove env f t) = files t - {f}" for f y t
      using laws by (simp_all add: temp_laws_def)
    ultimately show ?thesis
      using Pair helm
      by (auto simp: template_run_def case_prod_beta split: sum.split option.split)
  qed
  then show ?thesis by (simp add: template_command_def split: option.split sum.split prod.split)
qed

section \<open>Witnesses\<close>

definition cmd_definition :: plugin_definition where
  "cmd_definition =
     \<lparr>o_name = ''pd'', o_namespace = ''org'', o_labels = [], o_annotations = [], o_finalizers = [], o_deletionTimestamp = None,
      o_ownerReferences = [], o_conditions = [],
      pd_spec = \<lparr>pds_displayName = [], pds_description = [], pds_helmChart = None, pds_uiApplication = None,
        pds_options = Some [Plugin_Values.sample_option ''b'' (Some ''9'') PluginOptionTypeInt], pds_version = ''1'', pds_weight = None,
        pds_icon = [], pds_docsURL = [], pds_docMarkDownUrl = []\<rparr>,
      pd_lastSyncedArtifact = None\<rparr>"


definition cmd_plugin :: plugin where
  "cmd_plugin = zero_plugin\<lparr>o_name := ''pp-c1'', o_namespace := ''org'',
     pl_spec := zero_plugin_spec\<lparr>ps_clusterName := ''c1'', ps_pluginDefinitionRef := \<lparr>pdr_name = ''pd'', pdr_kind = PluginDefinitionKind\<rparr>,
       ps_optionValues := [plain_value ''a'' (Some ''1''), plain_value ''b'' (Some ''3'')]\<rparr>\<rparr>"


theorem validated_options_admitted_witness:
  "validatePluginOptionValues (ps_optionValues (pl_spec cmd_plugin)) ''pd'' (pd_spec cmd_definition) True [] = Some []"
proof (rule validated_options_admitted)
  have "PluginOption_IsValidValue (Plugin_Values.sample_option ''b'' (Some ''9'') PluginOptionTypeInt) ''3'' = None" by code_simp
  then show "validateOptions cmd_definition cmd_plugin = Some None"
    unfolding validateOptions_accepts_iff
    by (simp add: cmd_definition_def cmd_plugin_def options_of_def Plugin_Values.sample_option_def plain_value_def)
  show "\<forall>v \<in> set (ps_optionValues (pl_spec cmd_plugin)). hasExactlyOneValueSource v"
    by (simp add: cmd_plugin_def plain_value_def hasExactlyOneValueSource_def)
qed

theorem generated_definition_rejected_witness:
  "\<exists>pd. helmChartToPlugin Inr \<lparr>chf_metadata = Some (''nginx'', ''1.2.3''), chf_values = Some [(''replicas'', JNum ''1'')]\<rparr> = Some (Inr pd) \<and>
     validate_definition (pd_spec pd) ClusterPluginDefinitionKind (o_name pd) \<noteq> None"
proof -
  let ?c = "\<lparr>chf_metadata = Some (''nginx'', ''1.2.3''), chf_values = Some [(''replicas'', JNum ''1'')]\<rparr> :: chart_file"
  obtain pd where pd: "helmChartToPlugin Inr ?c = Some (Inr pd)"
    by (simp add: helmChartToPlugin_def chartValuesToNamedValues_def)
  have vs: "chf_values ?c = Some [(''replicas'', JNum ''1'')]" by simp
  from generated_definition_rejected [OF pd vs, of "[(''replicas'', JNum ''1'')]" ClusterPluginDefinitionKind] pd show ?thesis by auto
qed


end
