(* ===== verification/Cluster_Command.thy ===== *)
theory Cluster_Command
  imports Plugin_Commands Cluster_Controller Webhook_Core Object_Store
begin

text \<open>
  The command \<open>greenhousectl cluster bootstrap\<close> (\<open>internal/cmd/cluster_bootstrap.go\<close>): it prepares a cluster of a customer and
  hands its kubeconfig to Greenhouse as a secret. The API servers of both clusters, the loading and writing of kubeconfigs
  and the environment are parameters; flags and logging are left out.
\<close>

section \<open>Clients\<close>

record cli_rest_config = rest_config +
  rest_serverName :: string

record 's greenhouse_api =
  gh_get_cluster :: "namespaced_name \<Rightarrow> 's \<Rightarrow> go_error + cluster"
  gh_secrets :: "(secret, 's) client"
  gh_review :: "access_request \<Rightarrow> go_error + bool"

text \<open>\<open>cu_token\<close> makes the typed client for the token request and fails like \<open>kubernetes.NewForConfig\<close>.\<close>

record 's customer_api =
  cu_namespaces :: "(object_meta, 's) client"
  cu_serviceAccounts :: "(object_meta, 's) client"
  cu_clusterRoleBindings :: "(admin_binding, 's) client"
  cu_review :: "access_request \<Rightarrow> go_error + bool"
  cu_token :: "go_error + 's token_api"

record bootstrap_options =
  bo_kubecontext :: string
  bo_kubeconfig :: string
  bo_orgName :: string
  bo_clusterName :: string
  bo_greenhouseKubeConfig :: string
  bo_onBehafOfUser :: string

record 's bootstrap_cmd_env =
  bce_getenv :: "string \<Rightarrow> string"
  bce_buildConfig :: "string \<Rightarrow> go_error + rest_config"
  bce_configWithContext :: "string \<Rightarrow> go_error + cli_rest_config"
  bce_newGreenhouse :: "rest_config \<Rightarrow> go_error + 's greenhouse_api"
  bce_newCustomer :: "cli_rest_config \<Rightarrow> go_error + 's customer_api"
  bce_rawCurrentContext :: "string \<Rightarrow> string \<Rightarrow> go_error + string"
  bce_write :: "api_config \<Rightarrow> go_error + string"
  bce_ownBinding :: "object_meta \<Rightarrow> admin_binding \<Rightarrow> go_error + admin_binding"

definition serviceAccountName :: string where "serviceAccountName = ''greenhouse''"

section \<open>Before the run\<close>

definition getClientKubeconfig :: "'s bootstrap_cmd_env \<Rightarrow> string \<Rightarrow> cli_outcome + rest_config" where
  "getClientKubeconfig env kubeconfig = (case bce_buildConfig env kubeconfig of Inl _ \<Rightarrow> Inl (CliExit 1) | Inr cfg \<Rightarrow> Inr cfg)"

definition getKubeconfigOrDie :: "'s bootstrap_cmd_env \<Rightarrow> string \<Rightarrow> cli_outcome + cli_rest_config" where
  "getKubeconfigOrDie env kubecontext =
     (case bce_configWithContext env (if kubecontext = [] then bce_getenv env ''KUBECONTEXT'' else kubecontext) of
        Inl _ \<Rightarrow> Inl (CliExit 1)
      | Inr cfg \<Rightarrow> Inr cfg)"

definition permissionCheck ::
  "'s bootstrap_cmd_env \<Rightarrow> bootstrap_options \<Rightarrow> 's \<Rightarrow> cli_outcome + 's greenhouse_api \<times> 's customer_api \<times> cli_rest_config" where
  "permissionCheck env opts s =
     (case getClientKubeconfig env (bo_greenhouseKubeConfig opts) of
        Inl x \<Rightarrow> Inl x
      | Inr ghConfig \<Rightarrow>
     (case bce_newGreenhouse env ghConfig of
        Inl e \<Rightarrow> Inl (CliReturns (Some e))
      | Inr gh \<Rightarrow>
     (case getKubeconfigOrDie env (bo_kubecontext opts) of
        Inl x \<Rightarrow> Inl x
      | Inr customerConfig \<Rightarrow>
     (case bce_newCustomer env customerConfig of
        Inl e \<Rightarrow> Inl (CliReturns (Some e))
      | Inr cu \<Rightarrow>
     (case cl_get (cu_namespaces cu) \<lparr>nn_namespace = [], nn_name = ''default''\<rparr> s of
        Inl e \<Rightarrow> Inl (CliReturns (Some e))
      | Inr _ \<Rightarrow>
          if CheckClientClusterPermission (cu_review cu) (bo_onBehafOfUser opts) ''default'' \<noteq> [] \<or>
             CheckGreenhousePermission (gh_review gh) (bo_onBehafOfUser opts) (bo_orgName opts) \<noteq> []
          then Inl (CliReturns (Some (PlainError ''missing one of more permissions, please request them before retrying'')))
          else Inr (gh, cu, customerConfig))))))"

definition validateClusterName :: "string \<Rightarrow> nat \<Rightarrow> go_error option" where
  "validateClusterName clusterName len =
     (if clusterName = [] then Some (PlainError ''cluster name cannot be empty'')
      else if length clusterName > len then Some (PlainError ''cluster name cannot be longer than 40 characters'')
      else if Contains clusterName ''--''
      then Some (PlainError (''cluster name cannot contain '' @ [CHR 0x27] @ ''--'' @ [CHR 0x27]))
      else None)"

definition fillDefaults :: "'s bootstrap_cmd_env \<Rightarrow> bootstrap_options \<Rightarrow> go_error + bootstrap_options" where
  "fillDefaults env opts =
     (let clientKubeConfig = (if bo_kubeconfig opts = [] then bce_getenv env ''KUBECONFIG'' else bo_kubeconfig opts)
      in case (if bo_clusterName opts = [] then bce_rawCurrentContext env clientKubeConfig (bo_kubecontext opts)
               else Inr (bo_clusterName opts)) of
           Inl e \<Rightarrow> Inl e
         | Inr clusterName \<Rightarrow>
             (case validateClusterName clusterName 40 of
                Some e \<Rightarrow> Inl e
              | None \<Rightarrow> Inr (opts\<lparr>bo_clusterName := clusterName\<rparr>)))"

section \<open>The run\<close>

definition createNameSpaceInRemoteCluster :: "'s customer_api \<Rightarrow> string \<Rightarrow> 's \<Rightarrow> go_error option \<times> 's" where
  "createNameSpaceInRemoteCluster cu orgName s = apply_object (cu_namespaces cu) (NewServiceAccount orgName []) Inr s"

definition createServiceAccountInRemoteCluster :: "'s customer_api \<Rightarrow> string \<Rightarrow> string \<Rightarrow> 's \<Rightarrow> go_error option \<times> 's" where
  "createServiceAccountInRemoteCluster cu svAccName orgName s =
     apply_object (cu_serviceAccounts cu) (NewServiceAccount svAccName orgName) Inr s"

definition bind_admin :: "string \<Rightarrow> admin_binding \<Rightarrow> admin_binding" where
  "bind_admin orgName b =
     b\<lparr>ab_subjects := [\<lparr>as_kind = ''ServiceAccount'', as_name = serviceAccountName, as_namespace = orgName\<rparr>],
       ab_roleKind := ''ClusterRole'', ab_roleName := ''cluster-admin'', ab_roleAPIGroup := ''rbac.authorization.k8s.io''\<rparr>"

definition empty_binding :: admin_binding where
  "empty_binding =
     \<lparr>o_name = serviceAccountName, o_namespace = [], o_labels = [], o_annotations = [], o_finalizers = [], o_deletionTimestamp = None,
      o_ownerReferences = [], ab_subjects = [], ab_roleKind = [], ab_roleName = [], ab_roleAPIGroup = []\<rparr>"

definition createClusterRoleBindingInRemoteCluster ::
  "'s bootstrap_cmd_env \<Rightarrow> 's customer_api \<Rightarrow> string \<Rightarrow> 's \<Rightarrow> go_error option \<times> 's" where
  "createClusterRoleBindingInRemoteCluster env cu orgName s =
     (case cl_get (cu_namespaces cu) \<lparr>nn_namespace = [], nn_name = orgName\<rparr> s of
        Inl e \<Rightarrow> (Some e, s)
      | Inr namespace \<Rightarrow>
          apply_object (cu_clusterRoleBindings cu)
            empty_binding (\<lambda>b. bce_ownBinding env namespace (bind_admin orgName b)) s)"

definition isClusterAlreadyBootstraped :: "'s greenhouse_api \<Rightarrow> bootstrap_options \<Rightarrow> 's \<Rightarrow> bool" where
  "isClusterAlreadyBootstraped gh opts s =
     (case gh_get_cluster gh \<lparr>nn_namespace = bo_orgName opts, nn_name = bo_clusterName opts\<rparr> s of Inl _ \<Rightarrow> False | Inr _ \<Rightarrow> True)"

definition createServiceAccountToken :: "'s customer_api \<Rightarrow> string \<Rightarrow> 's \<Rightarrow> (go_error + string) \<times> 's" where
  "createServiceAccountToken cu orgName s =
     (case cu_token cu of
        Inl e \<Rightarrow> (Inl e, s)
      | Inr create \<Rightarrow>
          map_prod (map_sum id tr_token) id
            (create \<lparr>nn_namespace = orgName, nn_name = serviceAccountName\<rparr>
               \<lparr>tr_audiences = [], tr_expirationSeconds = 3600, tr_token = [], tr_expirationTimestamp = 0\<rparr> s))"

definition customer_kubeconfig :: "cli_rest_config \<Rightarrow> string \<Rightarrow> string \<Rightarrow> kubeconfig_helper" where
  "customer_kubeconfig cfg token orgName =
     \<lparr>kh_host = rest_host cfg, kh_caData = rest_caData cfg, kh_bearerToken = token, kh_username = serviceAccountName,
      kh_namespace = orgName, kh_tlsServerName = rest_serverName cfg, kh_proxyURL = [], kh_clientCertData = None, kh_clientKeyData = None\<rparr>"

text \<open>For a cluster that exists the second assignment to the data replaces the first.\<close>

definition cluster_secret :: "bootstrap_options \<Rightarrow> bool \<Rightarrow> string \<Rightarrow> secret" where
  "cluster_secret opts bootstrapped genKubeConfig =
     \<lparr>o_name = bo_clusterName opts, o_namespace = bo_orgName opts, o_labels = [], o_annotations = [], o_finalizers = [],
      o_deletionTimestamp = None, o_ownerReferences = [], secret_type = SecretTypeKubeConfig,
      secret_data = [(if bootstrapped then GreenHouseKubeConfigKey else KubeConfigKey, genKubeConfig)]\<rparr>"

definition createOrUpdateClusterObject ::
  "'s bootstrap_cmd_env \<Rightarrow> 's greenhouse_api \<Rightarrow> 's customer_api \<Rightarrow> cli_rest_config \<Rightarrow> bootstrap_options \<Rightarrow> bool \<Rightarrow> 's
     \<Rightarrow> go_error option \<times> 's" where
  "createOrUpdateClusterObject env gh cu cfg opts bootstrapped s =
     (case createServiceAccountToken cu (bo_orgName opts) s of
        (Inl e, s1) \<Rightarrow> (Some e, s1)
      | (Inr token, s1) \<Rightarrow>
          (case bce_write env (RestConfigToAPIConfig (customer_kubeconfig cfg token (bo_orgName opts)) (bo_clusterName opts)) of
             Inl e \<Rightarrow> (Some e, s1)
           | Inr genKubeConfig \<Rightarrow>
               (if bootstrapped then cl_update (gh_secrets gh) else cl_create (gh_secrets gh))
                 (cluster_secret opts bootstrapped genKubeConfig) s1))"

definition bootstrap_run ::
  "'s bootstrap_cmd_env \<Rightarrow> 's greenhouse_api \<Rightarrow> 's customer_api \<Rightarrow> cli_rest_config \<Rightarrow> bootstrap_options \<Rightarrow> 's
     \<Rightarrow> go_error option \<times> 's" where
  "bootstrap_run env gh cu cfg opts s =
     run_steps
       [createNameSpaceInRemoteCluster cu (bo_orgName opts),
        createServiceAccountInRemoteCluster cu serviceAccountName (bo_orgName opts),
        createClusterRoleBindingInRemoteCluster env cu (bo_orgName opts),
        createOrUpdateClusterObject env gh cu cfg opts (isClusterAlreadyBootstraped gh opts s)] s"

definition bootstrap_command :: "'s bootstrap_cmd_env \<Rightarrow> bootstrap_options \<Rightarrow> 's \<Rightarrow> cli_outcome \<times> 's" where
  "bootstrap_command env opts s =
     (case permissionCheck env opts s of
        Inl x \<Rightarrow> (x, s)
      | Inr (gh, cu, cfg) \<Rightarrow>
          (case fillDefaults env opts of
             Inl e \<Rightarrow> (CliReturns (Some e), s)
           | Inr opts' \<Rightarrow> map_prod CliReturns id (bootstrap_run env gh cu cfg opts' s)))"

section \<open>A cluster that exists cannot be bootstrapped again\<close>

text \<open>What is relied on of the API server: an update that the webhook of secrets rejects is an error.\<close>

definition update_admission ::
  "(string \<Rightarrow> (string \<times> string) option) \<Rightarrow> 'k kubeconfig_loader \<Rightarrow> admission_reads \<Rightarrow> (secret, 's) client \<Rightarrow> bool" where
  "update_admission url_parse L rd c \<longleftrightarrow>
     (\<forall>sec s old. snd (ValidateUpdateSecret url_parse L rd old sec) \<noteq> None \<longrightarrow> fst (cl_update c sec s) \<noteq> None)"

lemma second_secret_rejected: "snd (ValidateUpdateSecret url_parse L rd old (cluster_secret opts True kc)) \<noteq> None"
proof -
  have "validateSecretGreenHouseType (cluster_secret opts True kc) \<noteq> None"
    unfolding validateSecretGreenHouseType_None
    by (simp add: cluster_secret_def IsSecretContainsKey_def GreenHouseKubeConfigKey_def KubeConfigKey_def smap_simps)
  then show ?thesis
    using secret_types_distinct
    by (auto simp: ValidateUpdateSecret_def validate_secret_def greenhouseSecretTypes_def cluster_secret_def split: option.splits)
qed

text \<open>
  C15. Command and webhook: bootstrapping a cluster that Greenhouse already has never succeeds, although the command is meant to
  update it: the secret it writes has lost the kubeconfig that the webhook asks for.
\<close>

theorem rebootstrap_fails:
  assumes adm: "update_admission url_parse L rd (gh_secrets gh)" and there: "isClusterAlreadyBootstraped gh opts s"
  shows "fst (bootstrap_run env gh cu cfg opts s) \<noteq> None"
proof -
  have last: "fst (createOrUpdateClusterObject env gh cu cfg opts True t) \<noteq> None" for t
    using adm second_secret_rejected [of url_parse L rd]
    by (auto simp: createOrUpdateClusterObject_def update_admission_def split: prod.splits sum.splits)
  then show ?thesis
    using there by (auto simp: bootstrap_run_def split: prod.splits option.splits) (metis fst_conv option.distinct(1))
qed

section \<open>A new cluster\<close>

text \<open>
  Command and webhook: the secret of a new cluster is admitted whenever the kubeconfig it contains is usable; the names
  the command lets pass are the ones the webhook does.
\<close>

theorem new_cluster_admitted:
  assumes "fillDefaults env opts = Inr opts'" and "kc \<noteq> []" and "validateKubeConfig L kc = None"
  shows "snd (ValidateCreateSecret url_parse L rd (cluster_secret opts' False kc)) = None"
proof -
  from assms(1) have "validateClusterName (bo_clusterName opts') 40 = None"
    by (auto simp: fillDefaults_def Let_def split: sum.splits option.splits if_splits)
  then have "validateSecretGreenHouseType (cluster_secret opts' False kc) = None"
    unfolding validateSecretGreenHouseType_None
    by (auto simp: cluster_secret_def validateClusterName_def IsSecretContainsKey_def smap_simps split: if_splits)
  moreover have "validateKubeconfigInSecret L (cluster_secret opts' False kc) = None"
    using assms(2,3) by (simp add: validateKubeconfigInSecret_def cluster_secret_def IsSecretContainsKey_def smap_simps Let_def)
  ultimately show ?thesis
    using secret_types_distinct by (auto simp: ValidateCreateSecret_def validate_secret_def cluster_secret_def)
qed

text \<open>
  What is relied on of the two API servers: the clients store what they write and leave the objects of the other kinds alone,
  the token request does not change them, and setting an owner changes nothing else of a binding.
\<close>

definition command_laws ::
  "'s bootstrap_cmd_env \<Rightarrow> 's greenhouse_api \<Rightarrow> 's customer_api \<Rightarrow> (object_meta, 's) view \<Rightarrow> (object_meta, 's) view
     \<Rightarrow> (admin_binding, 's) view \<Rightarrow> (secret, 's) view \<Rightarrow> bool" where
  "command_laws env gh cu nss sas crbs secs \<longleftrightarrow>
     stores (cu_namespaces cu) nss \<and> stores (cu_serviceAccounts cu) sas \<and> stores (cu_clusterRoleBindings cu) crbs \<and>
     stores (gh_secrets gh) secs \<and>
     leaves (cu_serviceAccounts cu) nss \<and> leaves (cu_clusterRoleBindings cu) nss \<and> leaves (gh_secrets gh) nss \<and>
     leaves (cu_clusterRoleBindings cu) sas \<and> leaves (gh_secrets gh) sas \<and> leaves (gh_secrets gh) crbs \<and>
     (\<forall>create k req s. cu_token cu = Inr create \<longrightarrow>
        nss (snd (create k req s)) = nss s \<and> sas (snd (create k req s)) = sas s \<and> crbs (snd (create k req s)) = crbs s) \<and>
     (\<forall>ns b b'. bce_ownBinding env ns b = Inr b' \<longrightarrow> (\<exists>refs. b' = b\<lparr>o_ownerReferences := refs\<rparr>))"

lemma command_lawsD:
  assumes "command_laws env gh cu nss sas crbs secs"
  shows "stores (cu_namespaces cu) nss" "stores (cu_serviceAccounts cu) sas" "stores (cu_clusterRoleBindings cu) crbs"
    "stores (gh_secrets gh) secs" "leaves (cu_serviceAccounts cu) nss" "leaves (cu_clusterRoleBindings cu) nss"
    "leaves (gh_secrets gh) nss" "leaves (cu_clusterRoleBindings cu) sas" "leaves (gh_secrets gh) sas" "leaves (gh_secrets gh) crbs"
  using assms by (simp_all add: command_laws_def)

lemma command_token:
  assumes "command_laws env gh cu nss sas crbs secs" "createServiceAccountToken cu org s = (r, s')"
  shows "nss s' = nss s" "sas s' = sas s" "crbs s' = crbs s"
  using assms(2) assms(1) [unfolded command_laws_def, THEN conjunct2, THEN conjunct2, THEN conjunct2, THEN conjunct2, THEN conjunct2,
      THEN conjunct2, THEN conjunct2, THEN conjunct2, THEN conjunct2, THEN conjunct2, THEN conjunct1, rule_format]
  by (auto simp: createServiceAccountToken_def map_prod_def split: sum.splits prod.splits) (metis snd_conv)+

lemma command_owner:
  assumes "command_laws env gh cu nss sas crbs secs" "bce_ownBinding env ns b = Inr b'"
  shows "\<exists>refs. b' = b\<lparr>o_ownerReferences := refs\<rparr>"
  using assms(1) [unfolded command_laws_def, THEN conjunct2, THEN conjunct2, THEN conjunct2, THEN conjunct2, THEN conjunct2,
      THEN conjunct2, THEN conjunct2, THEN conjunct2, THEN conjunct2, THEN conjunct2, THEN conjunct2, rule_format, OF assms(2)] .

text \<open>What a bootstrapped cluster has: in the customer's cluster, and in Greenhouse.\<close>

definition admin_of :: "string \<Rightarrow> admin_binding \<Rightarrow> bool" where
  "admin_of orgName b \<longleftrightarrow> bind_admin orgName b = b"

definition kubeconfig_secret :: "'s bootstrap_cmd_env \<Rightarrow> cli_rest_config \<Rightarrow> bootstrap_options \<Rightarrow> secret \<Rightarrow> bool" where
  "kubeconfig_secret env cfg opts sec \<longleftrightarrow>
     (\<exists>token kc. bce_write env (RestConfigToAPIConfig (customer_kubeconfig cfg token (bo_orgName opts)) (bo_clusterName opts)) = Inr kc \<and>
        sec = cluster_secret opts False kc)"

text \<open>
  C16. When the bootstrap of a new cluster returns without an error, the cluster of the customer has the namespace of the
  organization, the service account and its binding to \<open>cluster-admin\<close>, and Greenhouse has the secret with a kubeconfig made
  from a token of the account.
\<close>

theorem bootstrap_prepares_cluster:
  assumes laws: "command_laws env gh cu nss sas crbs secs" and new: "\<not> isClusterAlreadyBootstraped gh opts s"
    and run: "bootstrap_run env gh cu cfg opts s = (None, s')"
  shows "nss s' \<lparr>nn_namespace = [], nn_name = bo_orgName opts\<rparr> \<noteq> None \<and>
    sas s' \<lparr>nn_namespace = bo_orgName opts, nn_name = serviceAccountName\<rparr> \<noteq> None \<and>
    (\<exists>b. crbs s' \<lparr>nn_namespace = [], nn_name = serviceAccountName\<rparr> = Some b \<and> admin_of (bo_orgName opts) b) \<and>
    (\<exists>sec. secs s' \<lparr>nn_namespace = bo_orgName opts, nn_name = bo_clusterName opts\<rparr> = Some sec \<and> kubeconfig_secret env cfg opts sec)"
proof -
  note L = command_lawsD [OF laws]
  from run new obtain s1 s2 s3 where ns: "createNameSpaceInRemoteCluster cu (bo_orgName opts) s = (None, s1)"
    and sa: "createServiceAccountInRemoteCluster cu serviceAccountName (bo_orgName opts) s1 = (None, s2)"
    and crb: "createClusterRoleBindingInRemoteCluster env cu (bo_orgName opts) s2 = (None, s3)"
    and sec: "createOrUpdateClusterObject env gh cu cfg opts False s3 = (None, s')"
    by (auto simp: bootstrap_run_def split: prod.splits option.splits)
  from apply_object_stored [OF L(1) ns [unfolded createNameSpaceInRemoteCluster_def]]
  have n1: "nss s1 \<lparr>nn_namespace = [], nn_name = bo_orgName opts\<rparr> \<noteq> None"
    by (auto simp: NewServiceAccount_def ObjectKeyFromObject_def)
  from apply_object_stored [OF L(2) sa [unfolded createServiceAccountInRemoteCluster_def]]
    apply_object_leaves [OF L(5) sa [unfolded createServiceAccountInRemoteCluster_def]]
  have a2: "sas s2 \<lparr>nn_namespace = bo_orgName opts, nn_name = serviceAccountName\<rparr> \<noteq> None" "nss s2 = nss s1"
    by (auto simp: NewServiceAccount_def ObjectKeyFromObject_def)
  from crb obtain ns where
    app: "apply_object (cu_clusterRoleBindings cu) empty_binding (\<lambda>b. bce_ownBinding env ns (bind_admin (bo_orgName opts) b)) s2 = (None, s3)"
    by (auto simp: createClusterRoleBindingInRemoteCluster_def split: sum.splits)
  have f_ok: "ObjectKeyFromObject y = ObjectKeyFromObject x \<and> admin_of (bo_orgName opts) y"
    if "bce_ownBinding env ns (bind_admin (bo_orgName opts) x) = Inr y" for x y
    using command_owner [OF laws that] by (auto simp: ObjectKeyFromObject_def admin_of_def bind_admin_def)
  from apply_object_establishes [OF L(3) app f_ok]
  have b3: "\<exists>b. crbs s3 \<lparr>nn_namespace = [], nn_name = serviceAccountName\<rparr> = Some b \<and> admin_of (bo_orgName opts) b"
    by (simp add: stored_as_def empty_binding_def ObjectKeyFromObject_def)
  have k3: "nss s3 = nss s2" "sas s3 = sas s2" using apply_object_leaves [OF L(6) app] apply_object_leaves [OF L(8) app] by simp_all
  from sec obtain token s4 kc where tok: "createServiceAccountToken cu (bo_orgName opts) s3 = (Inr token, s4)"
    and kc: "bce_write env (RestConfigToAPIConfig (customer_kubeconfig cfg token (bo_orgName opts)) (bo_clusterName opts)) = Inr kc"
    and create: "cl_create (gh_secrets gh) (cluster_secret opts False kc) s4 = (None, s')"
    by (auto simp: createOrUpdateClusterObject_def split: prod.splits sum.splits)
  have "nss s' = nss s3" "sas s' = sas s3" "crbs s' = crbs s3"
    using command_token [OF laws tok] leavesD(1) [OF L(7) create] leavesD(1) [OF L(9) create] leavesD(1) [OF L(10) create] by simp_all
  moreover have "secs s' \<lparr>nn_namespace = bo_orgName opts, nn_name = bo_clusterName opts\<rparr> = Some (cluster_secret opts False kc)"
    using stores_write(1) [OF L(4) create] by (simp add: ObjectKeyFromObject_def cluster_secret_def)
  ultimately show ?thesis using n1 a2 b3 k3 kc by (auto simp: kubeconfig_secret_def)
qed


section \<open>Witnesses\<close>

record boot_state =
  bst_namespaces :: "object_meta list"
  bst_serviceAccounts :: "object_meta list"
  bst_clusterRoleBindings :: "admin_binding list"
  bst_secrets :: "secret list"

definition boot_customer :: "boot_state customer_api" where
  "boot_customer =
     \<lparr>cu_namespaces = list_client bst_namespaces (\<lambda>xs s. s\<lparr>bst_namespaces := xs\<rparr>),
      cu_serviceAccounts = list_client bst_serviceAccounts (\<lambda>xs s. s\<lparr>bst_serviceAccounts := xs\<rparr>),
      cu_clusterRoleBindings = list_client bst_clusterRoleBindings (\<lambda>xs s. s\<lparr>bst_clusterRoleBindings := xs\<rparr>),
      cu_review = (\<lambda>_. Inr True), cu_token = Inr (\<lambda>_ req s. (Inr (req\<lparr>tr_token := ''t''\<rparr>), s))\<rparr>"

definition boot_greenhouse :: "boot_state greenhouse_api" where
  "boot_greenhouse =
     \<lparr>gh_get_cluster = (\<lambda>_ _. Inl (PlainError ''not found'')),
      gh_secrets = list_client bst_secrets (\<lambda>xs s. s\<lparr>bst_secrets := xs\<rparr>), gh_review = (\<lambda>_. Inr True)\<rparr>"

definition boot_config :: cli_rest_config where
  "boot_config = \<lparr>rest_host = ''https://api'', rest_caData = ''ca'', rest_bearerToken = [], rest_QPS = 0, rest_burst = 0, rest_serverName = []\<rparr>"

definition boot_env :: "boot_state bootstrap_cmd_env" where
  "boot_env =
     \<lparr>bce_getenv = (\<lambda>_. []), bce_buildConfig = (\<lambda>_. Inr (rest_config.truncate boot_config)),
      bce_configWithContext = (\<lambda>_. Inr boot_config), bce_newGreenhouse = (\<lambda>_. Inr boot_greenhouse),
      bce_newCustomer = (\<lambda>_. Inr boot_customer), bce_rawCurrentContext = (\<lambda>_ _. Inr ''prod''),
      bce_write = (\<lambda>cfg. Inr (cfg_currentContext cfg)), bce_ownBinding = (\<lambda>_. Inr)\<rparr>"

definition boot_options :: bootstrap_options where
  "boot_options = \<lparr>bo_kubecontext = [], bo_kubeconfig = [], bo_orgName = ''org'', bo_clusterName = ''prod'',
     bo_greenhouseKubeConfig = ''kc'', bo_onBehafOfUser = []\<rparr>"

definition boot_start :: boot_state where
  "boot_start = \<lparr>bst_namespaces = [], bst_serviceAccounts = [], bst_clusterRoleBindings = [], bst_secrets = []\<rparr>"

theorem bootstrap_prepares_cluster_witness:
  "\<exists>s'. bootstrap_run boot_env boot_greenhouse boot_customer boot_config boot_options boot_start = (None, s') \<and>
     (\<exists>b. stored_in (bst_clusterRoleBindings s') \<lparr>nn_namespace = [], nn_name = ''greenhouse''\<rparr> = Some b \<and> admin_of ''org'' b)"
proof -
  have "fst (bootstrap_run boot_env boot_greenhouse boot_customer boot_config boot_options boot_start) = None" by code_simp
  then obtain s' where run: "bootstrap_run boot_env boot_greenhouse boot_customer boot_config boot_options boot_start = (None, s')"
    by (metis prod.collapse)
  have "\<exists>refs. b = b\<lparr>o_ownerReferences := refs\<rparr>" for b :: admin_binding by (rule exI [of _ "o_ownerReferences b"]) simp
  then have laws: "command_laws boot_env boot_greenhouse boot_customer (\<lambda>s. stored_in (bst_namespaces s)) (\<lambda>s. stored_in (bst_serviceAccounts s))
      (\<lambda>s. stored_in (bst_clusterRoleBindings s)) (\<lambda>s. stored_in (bst_secrets s))"
    by (auto simp: command_laws_def boot_env_def boot_greenhouse_def boot_customer_def list_client_stores list_client_leaves)
  have new: "\<not> isClusterAlreadyBootstraped boot_greenhouse boot_options boot_start"
    by (simp add: isClusterAlreadyBootstraped_def boot_greenhouse_def)
  from bootstrap_prepares_cluster [OF laws new run] run show ?thesis by (simp add: boot_options_def serviceAccountName_def)
qed

theorem new_cluster_admitted_witness:
  "snd (ValidateCreateSecret (\<lambda>_. None) sample_loader sample_reads (cluster_secret boot_options False ''cfg'')) = None"
proof (rule new_cluster_admitted)
  show "fillDefaults boot_env boot_options = Inr boot_options"
    by (simp add: fillDefaults_def boot_options_def validateClusterName_def Contains_def sublist_Cons_code)
qed (simp_all add: validateKubeConfig_def sample_loader_def)

text \<open>A server that rejects what the webhook rejects, with the cluster stored.\<close>

definition boot_admission :: "boot_state greenhouse_api" where
  "boot_admission = boot_greenhouse\<lparr>gh_get_cluster := (\<lambda>_ _. Inr demo_cluster),
     gh_secrets := (gh_secrets boot_greenhouse)\<lparr>cl_update := (\<lambda>sec s.
       (snd (ValidateUpdateSecret (\<lambda>_. None) sample_loader sample_reads sec sec), s))\<rparr>\<rparr>"

theorem rebootstrap_fails_witness:
  "fst (bootstrap_run boot_env boot_admission boot_customer boot_config boot_options boot_start) \<noteq> None"
proof (rule rebootstrap_fails)
  show "update_admission (\<lambda>_. None) sample_loader sample_reads (gh_secrets boot_admission)"
    by (simp add: update_admission_def boot_admission_def ValidateUpdateSecret_def)
  show "isClusterAlreadyBootstraped boot_admission boot_options boot_start"
    by (simp add: isClusterAlreadyBootstraped_def boot_admission_def)
qed


end
