(* ===== verification/Cel_Evaluator.thy ===== *)
theory Cel_Evaluator
  imports Helm_Values
begin

text \<open>
  The evaluation of CEL expressions on objects (\<open>pkg/cel/evaluator.go\<close>). The compiler and the programs of \<open>cel-go\<close> and the
  encoding of objects as JSON are parameters. A value of CEL is an error, a list or map of values, or something whose \<open>Value()\<close> is
  a Go value; a Go map is ranged over in the order of its list here, and the theorems hold for every order.
\<close>

section \<open>Values\<close>

text \<open>A Go value of type \<open>any\<close>; \<open>GOther\<close> is one of another type, with the name of the type and its JSON encoding.\<close>

datatype go_any =
  GNil | GBool bool | GInt int | GFloat string | GString string | GOther string json
| GSlice "go_any list" | GMap "(string \<times> go_any) list"

datatype cel_val =
  CelError string | CelList "cel_val list" | CelMap "(cel_val \<times> cel_val) list" | CelValue go_any

fun any_type :: "go_any \<Rightarrow> string" where
  "any_type GNil = ''<nil>''"
| "any_type (GBool _) = ''bool''"
| "any_type (GInt _) = ''int64''"
| "any_type (GFloat _) = ''float64''"
| "any_type (GString _) = ''string''"
| "any_type (GOther t _) = t"
| "any_type (GSlice _) = ''[]interface {}''"
| "any_type (GMap _) = ''map[string]interface {}''"

definition int_text :: "int \<Rightarrow> string" where
  "int_text i = (if i < 0 then ''-'' @ Itoa (nat (- i)) else Itoa (nat i))"

text \<open>What \<open>json.Marshal\<close> encodes.\<close>

fun any_json :: "go_any \<Rightarrow> json" where
  "any_json GNil = JNull"
| "any_json (GBool b) = JBool b"
| "any_json (GInt i) = JNum (int_text i)"
| "any_json (GFloat t) = JNum t"
| "any_json (GString s) = JStr s"
| "any_json (GOther _ j) = j"
| "any_json (GSlice xs) = JArr (map any_json xs)"
| "any_json (GMap kvs) = JObj (map (\<lambda>(k, v). (k, any_json v)) kvs)"

function (sequential) convertCELValue :: "cel_val \<Rightarrow> go_error + go_any"
  and convert_items :: "cel_val list \<Rightarrow> go_error + go_any list"
  and convert_entries :: "(cel_val \<times> cel_val) list \<Rightarrow> go_any smap \<Rightarrow> go_error + go_any smap" where
  "convertCELValue (CelError m) = Inl (PlainError (''CEL evaluation error: '' @ m))"
| "convertCELValue (CelList xs) = map_sum id GSlice (convert_items xs)"
| "convertCELValue (CelMap kvs) = map_sum id GMap (convert_entries kvs [])"
| "convertCELValue (CelValue v) = Inr v"
| "convert_items [] = Inr []"
| "convert_items (x # xs) =
     (case convertCELValue x of Inl e \<Rightarrow> Inl e | Inr c \<Rightarrow> map_sum id (\<lambda>cs. c # cs) (convert_items xs))"
| "convert_entries [] result = Inr result"
| "convert_entries ((k, v) # kvs) result =
     (case convertCELValue k of
        Inl e \<Rightarrow> Inl e
      | Inr keyConverted \<Rightarrow>
          (case convertCELValue v of
             Inl e \<Rightarrow> Inl e
           | Inr valueConverted \<Rightarrow>
               (case keyConverted of
                  GString keyStr \<Rightarrow> convert_entries kvs (smap_set keyStr valueConverted result)
                | _ \<Rightarrow> Inl (PlainError (''map key must be a string, got '' @ any_type keyConverted)))))"
  by pat_completeness auto

termination
  by (relation "measure (\<lambda>x. case x of Inl v \<Rightarrow> size v | Inr (Inl xs) \<Rightarrow> size_list size xs
      | Inr (Inr (kvs, _)) \<Rightarrow> size_list (size_prod size size) kvs)") auto

section \<open>Evaluation\<close>

record ('p, 'x) cel_lib =
  cel_newEnv :: "go_error option"
  cel_compile :: "string \<Rightarrow> go_error option"
  cel_program :: "string \<Rightarrow> go_error + 'p"
  cel_eval :: "'p \<Rightarrow> json smap \<Rightarrow> go_error + cel_val"
  cel_marshal :: "'x \<Rightarrow> go_error + string"

definition CompileExpressionWithEnv :: "('p, 'x) cel_lib \<Rightarrow> string \<Rightarrow> go_error + 'p" where
  "CompileExpressionWithEnv lib expression =
     (case cel_compile lib expression of
        Some e \<Rightarrow> Inl (WrapError ''failed to compile expression'' e)
      | None \<Rightarrow>
          (case cel_program lib expression of
             Inl e \<Rightarrow> Inl (WrapError ''failed to create program'' e)
           | Inr prg \<Rightarrow> Inr prg))"

definition compileExpression :: "('p, 'x) cel_lib \<Rightarrow> string \<Rightarrow> go_error + 'p" where
  "compileExpression lib expression =
     (case cel_newEnv lib of
        Some e \<Rightarrow> Inl (WrapError ''failed to create CEL environment'' e)
      | None \<Rightarrow> CompileExpressionWithEnv lib expression)"

definition structToMap :: "('p, 'x) cel_lib \<Rightarrow> 'x \<Rightarrow> go_error + json smap" where
  "structToMap lib v =
     (case cel_marshal lib v of
        Inl e \<Rightarrow> Inl (WrapError ''failed to marshal struct'' e)
      | Inr dat \<Rightarrow>
          (case unmarshal_map dat of
             Inl e \<Rightarrow> Inl (WrapError ''failed to unmarshal to map'' e)
           | Inr m \<Rightarrow> Inr m))"

text \<open>Objects are interfaces and may be nil.\<close>

definition evaluateObject :: "('p, 'x) cel_lib \<Rightarrow> 'x option \<Rightarrow> 'p \<Rightarrow> go_error + go_any" where
  "evaluateObject lib obj prg =
     (case obj of
        None \<Rightarrow> Inl (PlainError ''object cannot be nil'')
      | Some x \<Rightarrow>
          (case structToMap lib x of
             Inl e \<Rightarrow> Inl (WrapError ''failed to convert object to map'' e)
           | Inr objMap \<Rightarrow>
               (case cel_eval lib prg [(''object'', JObj objMap)] of
                  Inl e \<Rightarrow> Inl (WrapError ''failed to evaluate expression'' e)
                | Inr out \<Rightarrow> convertCELValue out)))"

definition Evaluate :: "('p, 'x) cel_lib \<Rightarrow> string \<Rightarrow> 'x option \<Rightarrow> go_error + go_any" where
  "Evaluate lib expression obj =
     (if obj = None then Inl (PlainError ''object cannot be nil'')
      else if expression = [] then Inl (PlainError ''expression cannot be empty'')
      else case compileExpression lib expression of
             Inl e \<Rightarrow> Inl e
           | Inr prg \<Rightarrow> evaluateObject lib obj prg)"

fun evaluate_all :: "('p, 'x) cel_lib \<Rightarrow> 'p \<Rightarrow> nat \<Rightarrow> 'x option list \<Rightarrow> go_error + go_any list" where
  "evaluate_all lib prg i [] = Inr []"
| "evaluate_all lib prg i (obj # objs) =
     (case evaluateObject lib obj prg of
        Inl e \<Rightarrow> Inl (WrapError (''failed to evaluate object at index '' @ Itoa i) e)
      | Inr r \<Rightarrow> map_sum id (\<lambda>rs. r # rs) (evaluate_all lib prg (Suc i) objs))"

definition EvaluateList :: "('p, 'x) cel_lib \<Rightarrow> string \<Rightarrow> 'x option list \<Rightarrow> go_error + go_any list" where
  "EvaluateList lib expression objs =
     (if length objs = 0 then Inl (PlainError ''at least one object must be provided'')
      else if expression = [] then Inl (PlainError ''expression cannot be empty'')
      else case compileExpression lib expression of
             Inl e \<Rightarrow> Inl e
           | Inr prg \<Rightarrow> evaluate_all lib prg 0 objs)"

text \<open>With an environment of its own; the objects of \<open>lib\<close> are not used.\<close>

definition EvaluateWithData :: "('p, 'x) cel_lib \<Rightarrow> string \<Rightarrow> json smap \<Rightarrow> go_error + go_any" where
  "EvaluateWithData lib expression dat =
     (if expression = [] then Inl (PlainError ''expression cannot be empty'')
      else case CompileExpressionWithEnv lib expression of
             Inl e \<Rightarrow> Inl e
           | Inr prg \<Rightarrow>
               (case cel_eval lib prg dat of
                  Inl e \<Rightarrow> Inl (WrapError ''failed to evaluate expression'' e)
                | Inr out \<Rightarrow> convertCELValue out))"

text \<open>The type parameter is given by its type assertion and its JSON decoder.\<close>

definition EvaluateTyped ::
  "('p, 'x) cel_lib \<Rightarrow> (go_any \<Rightarrow> 't option) \<Rightarrow> (string \<Rightarrow> go_error + 't) \<Rightarrow> string \<Rightarrow> 'x option \<Rightarrow> go_error + 't" where
  "EvaluateTyped lib assert unmarshal expression obj =
     (case Evaluate lib expression obj of
        Inl e \<Rightarrow> Inl e
      | Inr val \<Rightarrow>
          (case assert val of
             Some c \<Rightarrow> Inr c
           | None \<Rightarrow>
               (case unmarshal (print_json (any_json val)) of
                  Inl e \<Rightarrow> Inl (WrapError ''unmarshal CEL result'' e)
                | Inr res \<Rightarrow> Inr res)))"

text \<open>The expressions of option values use this evaluation.\<close>

definition cel_expressions :: "('p, unit) cel_lib \<Rightarrow> (string \<Rightarrow> go_error + string) \<Rightarrow> expression_lib" where
  "cel_expressions lib yamlToJSON =
     \<lparr>el_eval = (\<lambda>e dat. map_sum id any_json (EvaluateWithData lib e dat)), el_yamlToJSON = yamlToJSON\<rparr>"

section \<open>Conversion\<close>

text \<open>Values without errors whose maps have strings as keys.\<close>

fun cel_ok :: "cel_val \<Rightarrow> bool" where
  "cel_ok (CelError _) = False"
| "cel_ok (CelList xs) = (\<forall>x \<in> set xs. cel_ok x)"
| "cel_ok (CelMap kvs) = (\<forall>kv \<in> set kvs. (\<exists>s. fst kv = CelValue (GString s)) \<and> cel_ok (snd kv))"
| "cel_ok (CelValue _) = True"

lemma converted_key: "convertCELValue k = Inr (GString s) \<longleftrightarrow> k = CelValue (GString s)"
  by (cases k) (auto simp: map_sum_def split: sum.splits)

lemma convert_ok_iff:
  "(\<exists>r. convertCELValue v = Inr r) \<longleftrightarrow> cel_ok v"
  "(\<exists>r. convert_items xs = Inr r) \<longleftrightarrow> (\<forall>x \<in> set xs. cel_ok x)"
  "(\<exists>r. convert_entries kvs m = Inr r) \<longleftrightarrow> (\<forall>kv \<in> set kvs. (\<exists>s. fst kv = CelValue (GString s)) \<and> cel_ok (snd kv))"
proof (induction v and xs and kvs m rule: convertCELValue_convert_items_convert_entries.induct)
  case (8 k v kvs result)
  show ?case
  proof (cases "convertCELValue k")
    case (Inr kc)
    show ?thesis
    proof (cases "convertCELValue v")
      case v: (Inr vc)
      from 8(2) [OF Inr] v have "cel_ok v" by auto
      with 8(3) [OF Inr v] Inr v show ?thesis by (cases kc) (auto simp flip: converted_key)
    qed (use 8(2) [OF Inr] Inr in auto)
  qed (auto simp flip: converted_key)
qed (auto simp: map_sum_def split: sum.splits)

lemma convert_entries_get:
  assumes "convert_entries kvs m = Inr r" "distinct (map fst kvs)"
  shows "smap_get r s = (case map_of kvs (CelValue (GString s)) of
    None \<Rightarrow> smap_get m s | Some v \<Rightarrow> (case convertCELValue v of Inr c \<Rightarrow> Some c | Inl _ \<Rightarrow> None))"
  using assms
proof (induction kvs arbitrary: m)
  case (Cons kv kvs)
  obtain k v where kv: "kv = (k, v)" by fastforce
  from Cons.prems kv obtain t c where k: "convertCELValue k = Inr (GString t)" and v: "convertCELValue v = Inr c"
    and rest: "convert_entries kvs (smap_set t c m) = Inr r"
    by (auto split: sum.splits go_any.splits)
  from k have k: "k = CelValue (GString t)" by (simp add: converted_key)
  have "map_of kvs (CelValue (GString t)) = None" using Cons.prems(2) kv k by (simp add: map_of_eq_None_iff)
  with Cons.IH [OF rest] Cons.prems(2) kv k v show ?case by (auto simp: smap_get_def smap_set_def update_conv' split: option.split)
qed simp

text \<open>
  The order in which a Go map is ranged over does not matter for the conversion of a map: with another order it
  succeeds too and gives the same map.
\<close>

theorem converted_map_order:
  assumes "convertCELValue (CelMap kvs) = Inr (GMap r)" and "mset kvs' = mset kvs" and "distinct (map fst kvs)"
  shows "\<exists>r'. convertCELValue (CelMap kvs') = Inr (GMap r') \<and> smap_get r' = smap_get r"
proof -
  from assms(1) have r: "convert_entries kvs [] = Inr r" by (auto simp: map_sum_def split: sum.splits)
  have perm: "set kvs' = set kvs" "distinct (map fst kvs')"
    using assms(2,3) by (metis set_mset_mset, metis mset_map mset_eq_imp_distinct_iff)
  have "\<forall>kv \<in> set kvs'. (\<exists>s. fst kv = CelValue (GString s)) \<and> cel_ok (snd kv)"
    using convert_ok_iff(3) [of kvs "[]"] r perm(1) by blast
  then have "\<exists>r'. convert_entries kvs' [] = Inr r'" by (simp only: convert_ok_iff(3))
  then obtain r' where r': "convert_entries kvs' [] = Inr r'" ..
  have "map_of kvs' = map_of kvs" using perm assms(3) by (metis map_of_inject_set)
  then have "smap_get r' = smap_get r"
    using convert_entries_get [OF r assms(3)] convert_entries_get [OF r' perm(2)] by auto
  with r' show ?thesis by simp
qed

text \<open>The usual representation of a Go value in CEL, and that it is converted back.\<close>

fun cel_of :: "go_any \<Rightarrow> cel_val" where
  "cel_of (GSlice xs) = CelList (map cel_of xs)"
| "cel_of (GMap kvs) = CelMap (map (\<lambda>(k, v). (CelValue (GString k), cel_of v)) kvs)"
| "cel_of v = CelValue v"

fun maps_ok :: "go_any \<Rightarrow> bool" where
  "maps_ok (GSlice xs) = (\<forall>x \<in> set xs. maps_ok x)"
| "maps_ok (GMap kvs) = (distinct (map fst kvs) \<and> (\<forall>kv \<in> set kvs. maps_ok (snd kv)))"
| "maps_ok _ = True"

lemma convert_items_map: "(\<And>x. x \<in> set xs \<Longrightarrow> convertCELValue (f x) = Inr x) \<Longrightarrow> convert_items (map f xs) = Inr xs"
  by (induction xs) auto

lemma smap_set_new: "k \<notin> fst ` set m \<Longrightarrow> smap_set k v m = m @ [(k, v)]"
  by (induction m) (auto simp: smap_set_def)

lemma convert_entries_map:
  assumes "\<And>k v. (k, v) \<in> set kvs \<Longrightarrow> convertCELValue (f v) = Inr v" and "distinct (map fst (m @ kvs))"
  shows "convert_entries (map (\<lambda>(k, v). (CelValue (GString k), f v)) kvs) m = Inr (m @ kvs)"
  using assms
proof (induction kvs arbitrary: m)
  case (Cons kv kvs)
  obtain k v where kv: "kv = (k, v)" by fastforce
  have "k \<notin> fst ` set m" using Cons.prems(2) kv by auto
  moreover have "convert_entries (map (\<lambda>(k, v). (CelValue (GString k), f v)) kvs) (m @ [(k, v)]) = Inr ((m @ [(k, v)]) @ kvs)"
    by (rule Cons.IH) (use Cons.prems kv in auto)
  ultimately show ?case using Cons.prems(1) [of k v] kv by (simp add: smap_set_new)
qed simp

text \<open>Round trip: a Go value that is represented as a value of CEL is converted back to itself.\<close>

theorem cel_roundtrip:
  assumes "maps_ok v"
  shows "convertCELValue (cel_of v) = Inr v"
  using assms
proof (induction v rule: cel_of.induct)
  case (1 xs)
  then show ?case using convert_items_map [of xs cel_of] by simp
next
  case (2 kvs)
  have "convert_entries (map (\<lambda>(k, v). (CelValue (GString k), cel_of v)) kvs) [] = Inr ([] @ kvs)"
    by (rule convert_entries_map) (use 2 in fastforce)+
  then show ?case by simp
qed simp_all

section \<open>Lists of objects\<close>

text \<open>
  Evaluating an expression on a list is evaluating it on each object: it succeeds exactly when the list is not empty
  and every evaluation does, and gives their results in order.
\<close>

theorem evaluate_list_pointwise:
  "EvaluateList lib expression objs = Inr rs \<longleftrightarrow>
     objs \<noteq> [] \<and> list_all2 (\<lambda>obj r. Evaluate lib expression obj = Inr r) objs rs"
proof -
  have all: "evaluate_all lib prg i objs = Inr rs \<longleftrightarrow> list_all2 (\<lambda>obj r. evaluateObject lib obj prg = Inr r) objs rs" for prg i objs rs
  proof (induction objs arbitrary: i rs)
    case (Cons obj objs)
    have "evaluate_all lib prg i (obj # objs) = Inr rs \<longleftrightarrow>
        (\<exists>r rs'. rs = r # rs' \<and> evaluateObject lib obj prg = Inr r \<and> evaluate_all lib prg (Suc i) objs = Inr rs')"
      by (auto simp: map_sum_def split: sum.splits)
    then show ?case by (simp add: Cons.IH list_all2_Cons1)
  qed auto
  have one: "Evaluate lib expression obj = Inr r \<longleftrightarrow>
      expression \<noteq> [] \<and> (\<exists>prg. compileExpression lib expression = Inr prg \<and> evaluateObject lib obj prg = Inr r)" for obj r
    by (cases obj) (auto simp: Evaluate_def evaluateObject_def split: sum.splits)
  show ?thesis
  proof (cases "expression = [] \<or> (\<exists>e. compileExpression lib expression = Inl e)")
    case True
    then have "\<not> (objs \<noteq> [] \<and> list_all2 (\<lambda>obj r. Evaluate lib expression obj = Inr r) objs rs)"
      by (cases objs) (auto simp: one list_all2_Cons1)
    with True show ?thesis by (auto simp: EvaluateList_def)
  next
    case False
    then obtain prg where "compileExpression lib expression = Inr prg" by (metis sum.exhaust)
    with False show ?thesis by (auto simp: EvaluateList_def all one)
  qed
qed

theorem converted_map_order_witness:
  "\<exists>r'. convertCELValue (CelMap [(CelValue (GString ''b''), CelValue GNil), (CelValue (GString ''a''), CelValue (GInt 1))]) = Inr (GMap r')
     \<and> smap_get r' ''a'' = Some (GInt 1)"
proof -
  let ?kvs = "[(CelValue (GString ''a''), CelValue (GInt 1)), (CelValue (GString ''b''), CelValue GNil)]"
  have "convertCELValue (CelMap ?kvs) = Inr (GMap [(''a'', GInt 1), (''b'', GNil)])" by (simp add: smap_set_def)
  from converted_map_order [OF this, of "rev ?kvs"] show ?thesis by (auto simp: smap_simps)
qed

theorem cel_roundtrip_witness:
  "convertCELValue (cel_of (GMap [(''replicas'', GInt 3), (''names'', GSlice [GString ''a''])]))
     = Inr (GMap [(''replicas'', GInt 3), (''names'', GSlice [GString ''a''])])"
  by (rule cel_roundtrip) simp


end
