(* ===== verification/Helm_Install.thy ===== *)
theory Helm_Install
  imports Plugin_Commands Object_Store Strconv "HOL-Library.Word"
begin

text \<open>
  Rendering, finding and removing Helm releases (\<open>internal/helm/helm.go\<close>, \<open>caps.go\<close>): the capabilities of a cluster, where a
  chart is loaded from, the CustomResourceDefinitions of a chart, and the release. (The rendering for a plugin
  with given option values is part of \<open>Plugin_Controller\<close>.) Helm itself, the discovery client, the
  clients of the two clusters and the cache of charts are parameters.
\<close>

section \<open>Capabilities\<close>

record capabilities =
  caps_apiVersions :: "string list"
  caps_version :: string
  caps_major :: string
  caps_minor :: string
  caps_helmVersion :: string

text \<open>What a discovery client answers; the version set comes with an error that may be a partial failure.\<close>

record discovery =
  dsc_serverVersion :: "go_error + string \<times> string \<times> string"
  dsc_versionSet :: "string list \<times> go_error option"

record action_config =
  ac_capabilities :: "capabilities option"

record helm_lib =
  hl_init :: "string \<Rightarrow> go_error option"
  hl_registryClient :: "go_error option"
  hl_discovery :: "go_error + discovery"
  hl_isGroupDiscoveryFailed :: "go_error \<Rightarrow> bool"
  hl_helmVersion :: string
  hl_isCompatibleRange :: "string \<Rightarrow> string \<Rightarrow> bool"
  hl_isOCI :: "string \<Rightarrow> bool"
  hl_repositoryCache :: string
  hl_isMissing :: "string \<Rightarrow> bool"
  hl_environ :: "string \<Rightarrow> string option"

definition getCapabilities :: "helm_lib \<Rightarrow> action_config \<Rightarrow> (go_error + capabilities) \<times> action_config" where
  "getCapabilities lib cfg =
     (case ac_capabilities cfg of
        Some caps \<Rightarrow> (Inr caps, cfg)
      | None \<Rightarrow>
          (case hl_discovery lib of
             Inl e \<Rightarrow> (Inl (WrapError ''could not get Kubernetes discovery client'' e), cfg)
           | Inr dc \<Rightarrow>
               (case dsc_serverVersion dc of
                  Inl e \<Rightarrow> (Inl (WrapError ''could not get server version from Kubernetes'' e), cfg)
                | Inr (version, major, minor) \<Rightarrow>
                    (let caps = \<lparr>caps_apiVersions = fst (dsc_versionSet dc), caps_version = version, caps_major = major,
                                 caps_minor = minor, caps_helmVersion = hl_helmVersion lib\<rparr>
                     in case snd (dsc_versionSet dc) of
                          Some e \<Rightarrow>
                            if hl_isGroupDiscoveryFailed lib e then (Inr caps, cfg\<lparr>ac_capabilities := Some caps\<rparr>)
                            else (Inl (WrapError ''could not get apiVersions from Kubernetes'' e), cfg)
                        | None \<Rightarrow> (Inr caps, cfg\<lparr>ac_capabilities := Some caps\<rparr>)))))"

definition newHelmAction :: "helm_lib \<Rightarrow> string \<Rightarrow> go_error + action_config" where
  "newHelmAction lib namespace =
     (case hl_init lib namespace of
        Some e \<Rightarrow> Inl e
      | None \<Rightarrow>
          (case hl_registryClient lib of
             Some e \<Rightarrow> Inl e
           | None \<Rightarrow>
               (case getCapabilities lib \<lparr>ac_capabilities = None\<rparr> of
                  (Inl e, _) \<Rightarrow> Inl e
                | (Inr caps, cfg) \<Rightarrow> Inr (cfg\<lparr>ac_capabilities := Some caps\<rparr>))))"

section \<open>Charts\<close>

text \<open>Of the metadata, which may be nil, the required version of Kubernetes; the data of a file may be nil.\<close>

record helm_chart_data =
  hcd_kubeVersion :: "string option"
  hcd_values :: helm_values
  hcd_crds :: "string option list"


record chart_path_options =
  cpo_repoURL :: string
  cpo_version :: string

record install_action =
  ia_chartPathOptions :: chart_path_options
  ia_releaseName :: string
  ia_namespace :: string
  ia_timeout :: "64 word"
  ia_createNamespace :: bool
  ia_dependencyUpdate :: bool
  ia_dryRun :: bool
  ia_clientOnly :: bool
  ia_description :: string






record crd = object_meta +
  crd_resourceVersion :: string
  crd_content :: string

record ('r, 's) helm_env =
  he_lib :: helm_lib
  he_locateChart :: "chart_path_options \<Rightarrow> string \<Rightarrow> go_error + string"
  he_loadChart :: "string \<Rightarrow> go_error + helm_chart_data"
  he_unmarshalCRD :: "string \<Rightarrow> go_error + crd"
  he_newClient :: "go_error + (crd, 's) client"
  he_parseJSON :: parse_json_value
  he_get_secret :: "'s \<Rightarrow> namespaced_name \<Rightarrow> go_error + secret"
  he_install :: "install_action \<Rightarrow> helm_chart_data \<Rightarrow> helm_values \<Rightarrow> 's \<Rightarrow> (go_error + 'r) \<times> 's"
  he_getRelease :: "string \<Rightarrow> string \<Rightarrow> 's \<Rightarrow> go_error + 'r"
  he_isReleaseNotFound :: "go_error \<Rightarrow> bool"
  he_uninstall :: "string \<Rightarrow> string \<Rightarrow> 's \<Rightarrow> go_error option \<times> 's"


section \<open>CustomResourceDefinitions\<close>


section \<open>Releases\<close>



definition GetReleaseForHelmChartFromPlugin :: "('r, 's) helm_env \<Rightarrow> plugin \<Rightarrow> 's \<Rightarrow> go_error + 'r" where
  "GetReleaseForHelmChartFromPlugin env p s =
     (case newHelmAction (he_lib env) (ps_releaseNamespace (pl_spec p)) of
        Inl e \<Rightarrow> Inl e
      | Inr _ \<Rightarrow> he_getRelease env (ps_releaseNamespace (pl_spec p)) (Plugin_GetReleaseName p) s)"

definition isReleaseExistsForPlugin :: "('r, 's) helm_env \<Rightarrow> plugin \<Rightarrow> 's \<Rightarrow> go_error + 'r option" where
  "isReleaseExistsForPlugin env p s =
     (case GetReleaseForHelmChartFromPlugin env p s of
        Inl e \<Rightarrow> if he_isReleaseNotFound env e then Inr None else Inl e
      | Inr r \<Rightarrow> Inr (Some r))"

text \<open>The result is whether the release was not there, with the error.\<close>

definition UninstallHelmRelease :: "('r, 's) helm_env \<Rightarrow> plugin \<Rightarrow> 's \<Rightarrow> (bool \<times> go_error option) \<times> 's" where
  "UninstallHelmRelease env p s =
     (case newHelmAction (he_lib env) (ps_releaseNamespace (pl_spec p)) of
        Inl e \<Rightarrow> ((False, Some e), s)
      | Inr _ \<Rightarrow>
          (case isReleaseExistsForPlugin env p s of
             Inl e \<Rightarrow> ((False, Some e), s)
           | Inr None \<Rightarrow> ((True, None), s)
           | Inr (Some _) \<Rightarrow>
               (case he_uninstall env (ps_releaseNamespace (pl_spec p)) (Plugin_GetReleaseName p) s of
                  (err, s1) \<Rightarrow> ((False, err), s1))))"

section \<open>What becomes of CustomResourceDefinitions\<close>









section \<open>Removing a release\<close>

text \<open>An uninstallation that returns no error found no release, or Helm removed it.\<close>

lemma uninstall_cases:
  assumes "UninstallHelmRelease env p s = ((notFound, None), s')"
  shows "if notFound then s' = s \<and> (\<exists>e. he_getRelease env (ps_releaseNamespace (pl_spec p)) (Plugin_GetReleaseName p) s = Inl e)
    else he_uninstall env (ps_releaseNamespace (pl_spec p)) (Plugin_GetReleaseName p) s = (None, s')"
  using assms
  by (auto simp: UninstallHelmRelease_def isReleaseExistsForPlugin_def GetReleaseForHelmChartFromPlugin_def
      split: sum.splits option.splits if_splits prod.splits)

section \<open>Witnesses\<close>










end
