(* ===== verification/Spec2Isabelle.thy ===== *)
theory Spec2Isabelle
  imports Lifecycle_System Propagation Webhook_Core Webhook_Plugin Service_Proxy Authz TeamRBAC
    Cluster_Status Cluster_Kubeconfig Artifacts Plugin_Preset Plugin_Controller
    Catalog_Controller Team_Controller Organization_Controller
    PluginDefinition_Controller Watch_Predicates Features
    Cluster_Command Cel_Evaluator Helm_Install
begin

text \<open>
  \<^bold>\<open>Greenhouse: a verification library\<close>

  Greenhouse is a Kubernetes operator with a few servers around it. Users write resources (clusters,
  teams, role bindings, plugins and their definitions and presets, organizations, secrets) to a central
  cluster; admission webhooks default and check what is stored; controllers reconcile the stored
  resources with remote clusters; a service proxy exposes services of remote clusters, and an
  authorization webhook answers access reviews. This library models the core of these parts as HOL
  functions, with the names of the Go code, and proves what makes them correct.

  \<^bold>\<open>Conventions.\<close> A struct is a record; the metadata of a resource is \<open>object_meta\<close>, extended by
  \<open>runtime_object\<close> for resources with conditions and by one record per resource. A Go map with string keys
  is an association list (\<open>smap\<close>) used through the contract of the locale \<open>go_map\<close>. An error is a value
  of \<open>go_error\<close>; a function that returns a value and an error returns a sum, one that only returns an
  error an option. In-place changes are returned; where aliasing of a slice matters
  (\<open>cleanupResources\<close>) the array is a variable of the model. A nil dereference is an outcome
  (\<open>None\<close> or \<open>panic_error\<close>), never an arbitrary value. The Kubernetes API server, Helm, CEL, URL
  parsing, the kubeconfig loader and HTTP transports are code outside the repository: they are
  parameters, clients over an abstract server state \<open>'s\<close> that may answer and change the state in any
  way, unless a theorem names what it relies on. \<open>metav1.Now()\<close> is the parameter \<open>now\<close>. JSON and SHA-256
  of the standard library are executable definitions. All functions are total; the loops that are not
  structural (\<open>ReplaceAll\<close>, \<open>strip_proxy_paths\<close>, \<open>blocks\<close>) have termination proofs, so no fuel is used
  except in the JSON parser, which gets more than twice the length of the text; its round trip shows that
  this is enough.

  \<^bold>\<open>Theories.\<close>
  \<^item> \<open>Greenhouse_Prelude\<close>: strings, slices, maps, errors and their texts; the locale \<open>go_map\<close>.
  \<^item> \<open>Conditions\<close> (\<open>api/meta/v1alpha1\<close>): status conditions; setting conditions keeps one per type, sets
    transition times exactly on changes of status, and is idempotent. The locale \<open>condition_store\<close> is
    what resources promise about their conditions.
  \<^item> \<open>Kube_Objects\<close> (\<open>internal/clientutil\<close>): metadata, clients, create, patch and delete helpers.
  \<^item> \<open>Lifecycle\<close> (\<open>pkg/lifecycle/reconcile.go\<close>): the generic reconciliation of a resource, and what each of
    its phases does. \<open>Lifecycle_System\<close> interleaves it with user actions as a step relation and shows that
    no external resources are orphaned.
  \<^item> \<open>Json_Codec\<close>: JSON text; parsing what was printed gives the value back.
  \<^item> \<open>Propagation\<close> (\<open>pkg/lifecycle/propagation.go\<close>): label and annotation propagation; the effect on every
    label and annotation, what is tracked, and for which sources it is idempotent.
  \<^item> \<open>Core_Types\<close>, \<open>Plugin_Types\<close> (\<open>api\<close>): the resources and their methods, typing of plugin options.
  \<^item> \<open>Webhook_Common\<close> (\<open>internal/webhook/utils.go\<close>): dispatch and shared checks; \<open>admitted\<close> is the history
    of a stored object, and the locale \<open>webhook_contract\<close> turns facts about single requests into facts
    about every stored version. \<open>Webhook_Core\<close>, \<open>Webhook_Plugin\<close>, \<open>TeamRoleBinding\<close>
    (\<open>internal/webhook/v1alpha1\<close>, \<open>v1alpha2\<close>) interpret it for each resource.
  \<^item> \<open>Plugin_Values\<close> (\<open>internal/helm/values.go\<close>, \<open>utils.go\<close>,
    \<open>internal/controller/plugin/pluginpreset_values_resolver.go\<close>): option values of plugins and presets;
    which entry each option gets, and idempotence. The locale \<open>named_values\<close> is shared by the two update
    loops.
  \<^item> \<open>Sha256\<close>, \<open>Exposed_URL\<close> (\<open>internal/common/url.go\<close>): URLs of exposed services and the way back to the
    cluster.
  \<^item> \<open>Service_Proxy\<close> (\<open>cmd/service-proxy\<close>): the route cache and the path of a request; end to end from a
    plugin to the backend, and the case of requests without a route.
  \<^item> \<open>Authz\<close> (\<open>cmd/authz\<close>): access is granted exactly to the support group that owns a resource, and, with
    the webhook for service accounts, for their whole lifetime.
  \<^item> \<open>TeamRBAC\<close> (\<open>internal/controller/teamrbac\<close>): the controller of TeamRoleBindings as callbacks of
    \<open>Lifecycle\<close>; what its statuses mean, when a deletion is complete, and when it is stuck.
  \<^item> \<open>Plugin_Preset\<close> (\<open>internal/controller/plugin/pluginpreset_controller.go\<close>): the PluginPreset controller; what
    a successful reconciliation has brought about, that plugins of others are left alone, when a deletion is
    complete, and what the status says. What is relied on of the API server is stated as the predicates
    \<open>reads_stored\<close>, \<open>writes_local\<close>, \<open>writes_stored\<close>, \<open>deletes_stored\<close> and \<open>values_stable\<close>.
  \<^item> \<open>Plugin_Tracking\<close> (\<open>internal/controller/plugin/plugin_values_resolver.go\<close>): option values taken from other
    resources, and the trackers recorded on these; the annotation refines a set (locale \<open>tracker_set\<close>).
  \<^item> \<open>Oci_Mirror\<close>, \<open>Flux_Utils\<close> (\<open>internal/ocimirror\<close>, \<open>internal/flux/utils.go\<close>): image references of rendered
    manifests, their rewriting to a mirror, and that what is rewritten is also replicated.
  \<^item> \<open>Helm_Values\<close> (\<open>internal/helm/helm.go\<close>, \<open>cel.go\<close>, \<open>pkg/cel\<close>): values of a chart and of the options, expressions
    and checksums; options override the chart exactly where they say something.
  \<^item> \<open>Exposed_Services\<close> (\<open>internal/helm/manifest.go\<close> and the functions of the Plugin controller on it): the
    exposed services are those of the annotated objects of a release (locale \<open>entry_loop\<close>).
  \<^item> \<open>Helm_Release\<close>, \<open>Plugin_Controller\<close> (\<open>internal/flux/helm_release_builder.go\<close>,
    \<open>internal/controller/plugin/plugin_controller.go\<close>, \<open>plugin_controller_flux.go\<close>, \<open>util.go\<close>, \<open>oci_mirror.go\<close>): the
    Plugin controller; which HelmRelease it writes, when a deletion is complete, what Ready means, and two
    flaws: a nil dereference on missing references, and trackers that are never triggered.
  \<^item> \<open>Cluster_Status\<close> (\<open>internal/controller/cluster/cluster_status.go\<close>): the conditions, version and nodes of a
    cluster; when it is Ready, and how the worker nodes are counted.
  \<^item> \<open>Client_Getter\<close> (\<open>internal/clientutil/client_getter.go\<close>, \<open>config.go\<close>, \<open>client.go\<close>): REST client configurations
    from a secret, a file or the cluster the program runs in, and their limits.
  \<^item> \<open>Cluster_Token\<close> (\<open>internal/controller/cluster/utils\<close>): the service account token of a cluster, its validity as
    64-bit arithmetic, and when it is kept. \<open>Base64\<close> is the standard encoding with its round trip.
  \<^item> \<open>Cluster_Controller\<close> (\<open>cluster_controller.go\<close>, \<open>metrics.go\<close>): the Cluster controller; what a prepared cluster
    holds, that a cluster is deleted after its plugins, and the series of its metrics.
  \<^item> \<open>Cluster_Bootstrap\<close> (\<open>bootstrap_controller.go\<close>): clusters created from kubeconfig secrets; one run converges.
  \<^item> \<open>Cluster_Kubeconfig\<close> (\<open>kubeconfig_controller.go\<close>): the ClusterKubeconfig of a cluster for its users; what
    is written, and the status conditions.
  \<^item> \<open>File_Paths\<close>, \<open>Artifacts\<close> (\<open>internal/flux/artifact.go\<close> and the upward search of a directory): artifacts as
    files; a store is read back, garbage collection keeps exactly what it is told to, and unpacking a tarball
    (a \<open>partial_function\<close>, since the reader is a parameter) ends.
  \<^item> \<open>Catalog_Types\<close>, \<open>Catalog_Source\<close>, \<open>Catalog_Controller\<close> (\<open>internal/controller/catalog\<close>,
    \<open>internal/flux/kustomize_builder.go\<close>): catalogs of plugin definitions; the names generated for their Flux
    resources (with the FNV-1a hash), which catalogs are accepted, the patches of the options, the inventory of
    the status and when it is Ready, and the deletion of orphans, which skips entries in one run but ends.
  \<^item> \<open>Rbac_Types\<close>, \<open>Object_Store\<close>: roles and bindings; what is relied on of the API server for the objects of one
    kind (\<open>stores\<close>, \<open>leaves\<close>), and what writing an object with \<open>CreateOrPatch\<close> then brings about.
  \<^item> \<open>Scim\<close> (\<open>internal/scim\<close>, \<open>internal/util/scim_config.go\<close>): the client of the identity provider; query strings are
    read back, the loop over the pages (a \<open>partial_function\<close>) ends exactly when the server ends its list, and every
    request carries the credentials.
  \<^item> \<open>Team_Controller\<close> (\<open>internal/controller/team\<close>): the members of a team are the valid users of its group, and the
    access of a support group is given and revoked.
  \<^item> \<open>Organization_RBAC\<close> (\<open>internal/rbac\<close>, \<open>internal/controller/organization/rbac.go\<close>, \<open>teamrole_seeder.go\<close>): the roles of
    an organization, what they permit, and that a reconciliation stores exactly them.
  \<^item> \<open>Strconv\<close>, \<open>Dex_Connector\<close> (\<open>internal/clientutil/env.go\<close>, \<open>internal/dex\<close>): environment variables and numbers, the
    groups of an identity, that it gets none of another organization, and that the claims of support groups,
    composed with \<open>Authz\<close>, do cross organizations.
  \<^item> \<open>Organization_Dex\<close> (\<open>internal/controller/organization/dex.go\<close>): the login of an organization in Dex; the redirects of
    the default client over any sequence of runs with failures (step relation \<open>logins\<close>, laws \<open>dex_laws\<close>).
  \<^item> \<open>Organization_Controller\<close> (\<open>organization_controller.go\<close>, \<open>service_proxy.go\<close>): the Organization controller; what its
    conditions say, that Ready says less, and the secret and client of the service proxy.
  \<^item> \<open>PluginDefinition_Controller\<close> (\<open>internal/controller/plugindefinition\<close>): the controllers of plugin definitions; the
    charts of earlier versions are deleted and no others, when a definition is Ready, and a failure that stays.
  \<^item> \<open>Watch_Predicates\<close> (\<open>internal/clientutil/predicates.go\<close>): which events pass the filters of watches, and a change of
    an organization that its teams do not get to see.
  \<^item> \<open>Features\<close> (\<open>internal/features\<close>): feature flags are what their ConfigMap says, whatever was asked before.

  \<^item> \<open>Plugin_Commands\<close> (\<open>internal/cmd/plugin_template.go\<close>, \<open>plugin_validate.go\<close>, \<open>plugin_generate.go\<close>): the plugin commands of
    \<open>greenhousectl\<close> beside the controllers and webhooks: a template has the values that are deployed, what is validated is
    admitted, and generated definitions are not.
  \<^item> \<open>Cluster_Command\<close> (\<open>internal/cmd/cluster_bootstrap.go\<close>): bootstrapping a cluster from the command line; what it leaves
    behind, that its secret is admitted, and that it cannot be repeated.
  \<^item> \<open>Cel_Evaluator\<close> (\<open>pkg/cel/evaluator.go\<close>): evaluation of expressions on objects and the conversion of values, with its round
    trip and independence of the order of maps.
  \<^item> \<open>Helm_Install\<close> (\<open>internal/helm/helm.go\<close>, \<open>caps.go\<close>): Helm actions; what becomes of the CustomResourceDefinitions of a
    chart, and that rendering a chart writes them.

  \<^bold>\<open>Not modelled\<close>: logging, events and metric values (the
  counters of \<open>Authz\<close> excepted), HTTP headers, generated code, flags, the CORS proxy,
  local development tooling, process start-up and the wiring of watches, and the libraries the program only calls.

  Where the code does not do what it means to, a theorem states what it does, for example
  \<open>Service_Proxy.unrouted_request_forwarded\<close>, \<open>Webhook_Plugin.central_cluster_update_bypass\<close>,
  \<open>TeamRBAC.deletion_stuck\<close>, \<open>Propagation.Apply_not_idempotent\<close>, \<open>Exposed_URL.dotted_cluster_unreachable\<close>
  and \<open>Webhook_Plugin.secret_option_by_ref_panics\<close>.
\<close>

end
